(* ===== verification/P42_Prelude.thy ===== *)
theory P42_Prelude
  imports Main "HOL-Library.AList"
begin

text \<open>
  Vocabulary shared by every component model.

  \<^item> The result type \<open>'e + 'a\<close>: \<open>Inl\<close> is the exception a JavaScript function throws,
    \<open>Inr\<close> is what it returns. \<open>and_then\<close> runs two such computations in sequence (the second
    one is skipped after a throw) and \<open>require\<close> is a guard that throws.
  \<^item> Objects used as dictionaries are association lists: \<open>AList.update\<close> overwrites a key in
    place and appends a new key at the end, as assigning a (non-index) property of a JavaScript
    object does, so that \<open>Object.entries\<close> is the list itself.
  \<^item> Books: dictionaries from keys to amounts, where an absent key counts as zero.
  \<^item> Machines that process a list of events and stop at the first throw (\<open>run_events\<close>), and
    the locale that lifts a fact of one step to the whole run.
\<close>

section \<open>Results\<close>

named_theorems result_simps "when a computation that may throw returns a value"

fun and_then :: "'e + 'a \<Rightarrow> ('a \<Rightarrow> 'e + 'b) \<Rightarrow> 'e + 'b" where
  "and_then (Inl e) k = Inl e"
| "and_then (Inr x) k = k x"

definition require :: "bool \<Rightarrow> 'e \<Rightarrow> 'e + 'a \<Rightarrow> 'e + 'a" where
  "require c e k = (if c then k else Inl e)"

definition of_option :: "'e \<Rightarrow> 'a option \<Rightarrow> 'e + 'a" where
  "of_option e x = (case x of None \<Rightarrow> Inl e | Some y \<Rightarrow> Inr y)"

fun returns :: "'e + 'a \<Rightarrow> bool" where
  "returns (Inl e) = False"
| "returns (Inr x) = True"

lemma and_then_Inr [simp, result_simps]:
  "and_then m k = Inr y \<longleftrightarrow> (\<exists>x. m = Inr x \<and> k x = Inr y)"
  by (cases m) auto

lemma and_then_Inl [simp]:
  "and_then m k = Inl e \<longleftrightarrow> m = Inl e \<or> (\<exists>x. m = Inr x \<and> k x = Inl e)"
  by (cases m) auto

lemma require_Inr [simp, result_simps]: "require c e k = Inr y \<longleftrightarrow> c \<and> k = Inr y"
  by (simp add: require_def)

lemma require_Inl [simp]: "require c e k = Inl e' \<longleftrightarrow> (if c then k = Inl e' else e' = e)"
  by (auto simp: require_def)

lemma require_True [simp]: "require True e k = k"
  by (simp add: require_def)

lemma require_False [simp]: "require False e k = Inl e"
  by (simp add: require_def)

lemma of_option_Inr [simp, result_simps]: "of_option e x = Inr y \<longleftrightarrow> x = Some y"
  by (simp add: of_option_def split: option.splits)

lemma of_option_Inl [simp]: "of_option e x = Inl e' \<longleftrightarrow> x = None \<and> e' = e"
  by (auto simp: of_option_def split: option.splits)

lemma of_option_simps [simp]: "of_option e (Some y) = Inr y" "of_option e None = Inl e"
  by (simp_all add: of_option_def)

lemma case_option_Inr [simp, result_simps]:
  "(case x of None \<Rightarrow> Inl e | Some y \<Rightarrow> f y) = Inr z \<longleftrightarrow> (\<exists>y. x = Some y \<and> f y = Inr z)"
  by (cases x) auto

lemma if_Inr [result_simps]:
  "(if c then m else n) = Inr y \<longleftrightarrow> (c \<and> m = Inr y) \<or> (\<not> c \<and> n = Inr y)"
  by simp

lemma returns_iff: "returns m \<longleftrightarrow> (\<exists>x. m = Inr x)"
  by (cases m) auto

lemma returns_not_Inl: "returns m \<longleftrightarrow> (\<forall>e. m \<noteq> Inl e)"
  by (cases m) auto

section \<open>Books: amounts per key\<close>

type_synonym 'k book = "('k \<times> int) list"

definition bal :: "'k book \<Rightarrow> 'k \<Rightarrow> int" where
  "bal b k = (case map_of b k of None \<Rightarrow> 0 | Some v \<Rightarrow> v)"

definition total :: "'k book \<Rightarrow> int" where
  "total b = sum_list (map snd b)"

definition book_ok :: "('k \<times> 'v) list \<Rightarrow> bool" where
  "book_ok b \<longleftrightarrow> distinct (map fst b)"

lemma book_ok_Nil [simp]: "book_ok []"
  by (simp add: book_ok_def)

lemma book_ok_update [simp]: "book_ok b \<Longrightarrow> book_ok (AList.update k v b)"
  by (simp add: book_ok_def distinct_update)

lemma book_ok_delete [simp]: "book_ok b \<Longrightarrow> book_ok (AList.delete k b)"
  by (simp add: book_ok_def distinct_delete)

lemma total_Nil [simp]: "total [] = 0"
  by (simp add: total_def)

lemma bal_Nil [simp]: "bal [] k = 0"
  by (simp add: bal_def)

lemma bal_update [simp]: "bal (AList.update k v b) k' = (if k' = k then v else bal b k')"
  by (simp add: bal_def update_conv')

lemma map_of_update [simp]: "map_of (AList.update k v b) k' = (if k' = k then Some v else map_of b k')"
  by (simp add: update_conv')

lemma map_of_delete [simp]: "map_of (AList.delete k b) k' = (if k' = k then None else map_of b k')"
  by (simp add: delete_conv')

lemma dom_map_of_update [simp]: "dom (map_of (AList.update k v b)) = insert k (dom (map_of b))"
  by (auto simp: dom_def)

lemma atLeastAtMost_plus1: "0 \<le> n \<Longrightarrow> {1..n + 1} = insert (n + 1) {1..n}" for n :: int
  by auto

lemma bal_not_in: "k \<notin> fst ` set b \<Longrightarrow> bal b k = 0"
  by (simp add: bal_def map_of_eq_None_iff[THEN iffD2])

text \<open>A sum over the values of a dictionary, for any weight of a value.\<close>

definition wsum :: "('v \<Rightarrow> int) \<Rightarrow> ('k \<times> 'v) list \<Rightarrow> int" where
  "wsum w b = (\<Sum>(k, v) \<leftarrow> b. w v)"

definition wbal :: "('v \<Rightarrow> int) \<Rightarrow> ('k \<times> 'v) list \<Rightarrow> 'k \<Rightarrow> int" where
  "wbal w b k = (case map_of b k of None \<Rightarrow> 0 | Some v \<Rightarrow> w v)"

lemma wsum_Nil [simp]: "wsum w [] = 0"
  by (simp add: wsum_def)

lemma wsum_Cons [simp]: "wsum w ((k, v) # b) = w v + wsum w b"
  by (simp add: wsum_def)

lemma wsum_update:
  assumes "book_ok b"
  shows "wsum w (AList.update k v b) = wsum w b - wbal w b k + w v"
  using assms
proof (induction b)
  case Nil
  then show ?case by (simp add: wbal_def)
next
  case (Cons p b)
  obtain k' v' where p: "p = (k', v')" by (cases p)
  from Cons.prems p have "book_ok b" and new: "k' \<notin> fst ` set b"
    by (auto simp: book_ok_def)
  then show ?case
    using Cons.IH p by (auto simp: wbal_def)
qed

lemma wsum_delete:
  assumes "book_ok b"
  shows "wsum w (AList.delete k b) = wsum w b - wbal w b k"
  using assms
proof (induction b)
  case Nil
  then show ?case by (simp add: wbal_def)
next
  case (Cons p b)
  obtain k' v' where p: "p = (k', v')" by (cases p)
  from Cons.prems p have ok: "book_ok b" and new: "k' \<notin> fst ` set b"
    by (auto simp: book_ok_def)
  have "AList.delete k' b = b"
    using new by (simp add: delete_idem)
  then show ?case
    using Cons.IH[OF ok] p by (auto simp: wbal_def)
qed

lemma total_wsum: "total b = wsum id b"
  by (simp add: total_def wsum_def case_prod_unfold)

lemma bal_wbal: "bal b k = wbal id b k"
  by (simp add: bal_def wbal_def split: option.splits)

lemma total_update: "book_ok b \<Longrightarrow> total (AList.update k v b) = total b - bal b k + v"
  by (simp add: total_wsum bal_wbal wsum_update)

lemma wsum_nonneg: "(\<And>k v. (k, v) \<in> set b \<Longrightarrow> 0 \<le> w v) \<Longrightarrow> 0 \<le> wsum w b"
  by (induction b) fastforce+

lemma wsum_member_le:
  "(\<And>k v. (k, v) \<in> set b \<Longrightarrow> 0 \<le> w v) \<Longrightarrow> map_of b k = Some v \<Longrightarrow> w v \<le> wsum w b"
proof (induction b)
  case (Cons p b)
  obtain k' v' where p: "p = (k', v')" by (cases p)
  have "0 \<le> wsum w b" using Cons.prems(1) by (intro wsum_nonneg) auto
  then show ?case using Cons p by (fastforce split: if_splits)
qed simp

text \<open>
  A predicate that holds of every value of a dictionary, and how the operations that change the
  dictionary affect it.
\<close>

definition all_vals :: "('v \<Rightarrow> bool) \<Rightarrow> ('k \<times> 'v) list \<Rightarrow> bool" where
  "all_vals P b \<longleftrightarrow> (\<forall>k v. map_of b k = Some v \<longrightarrow> P v)"

lemma all_vals_Nil [simp]: "all_vals P []"
  by (simp add: all_vals_def)

lemma all_vals_update: "all_vals P b \<Longrightarrow> P v \<Longrightarrow> all_vals P (AList.update k v b)"
  by (simp add: all_vals_def)

lemma all_vals_delete: "all_vals P b \<Longrightarrow> all_vals P (AList.delete k b)"
  by (simp add: all_vals_def)

lemma all_valsD: "all_vals P b \<Longrightarrow> map_of b k = Some v \<Longrightarrow> P v"
  by (simp add: all_vals_def)

section \<open>Machines that stop at the first throw\<close>

fun run_events :: "('s \<Rightarrow> 'ev \<Rightarrow> 'e + 's) \<Rightarrow> 's \<Rightarrow> 'ev list \<Rightarrow> 'e + 's" where
  "run_events step s [] = Inr s"
| "run_events step s (e # es) = and_then (step s e) (\<lambda>s'. run_events step s' es)"

lemma run_events_append:
  "run_events step s (es @ fs) = and_then (run_events step s es) (\<lambda>s'. run_events step s' fs)"
proof (induction es arbitrary: s)
  case (Cons e es)
  then show ?case by (cases "step s e") auto
qed simp

text \<open>
  The contract every event reducer of this development is used under: it keeps an invariant. The
  client is the replay loop; what it needs is proved once here.
\<close>

locale fail_closed_machine =
  fixes step :: "'s \<Rightarrow> 'ev \<Rightarrow> 'e + 's"
    and inv :: "'s \<Rightarrow> bool"
  assumes step_inv: "inv s \<Longrightarrow> step s e = Inr s' \<Longrightarrow> inv s'"
begin

lemma run_inv: "inv s \<Longrightarrow> run_events step s es = Inr s' \<Longrightarrow> inv s'"
  by (induction es arbitrary: s) (auto intro: step_inv)

lemma run_prefix_inv:
  assumes "inv s" and "run_events step s (es @ fs) = Inr s'"
  shows "\<exists>t. run_events step s es = Inr t \<and> inv t \<and> run_events step t fs = Inr s'"
  using assms by (auto simp: run_events_append intro: run_inv)

end

text \<open>
  A machine with a reflexive and transitive relation that every step respects: the relation then
  holds between the two ends of a run.
\<close>

locale monotone_machine =
  fixes step :: "'s \<Rightarrow> 'ev \<Rightarrow> 'e + 's"
    and rel :: "'s \<Rightarrow> 's \<Rightarrow> bool"
  assumes rel_refl: "rel s s"
    and rel_trans: "rel s t \<Longrightarrow> rel t u \<Longrightarrow> rel s u"
    and step_rel: "step s e = Inr s' \<Longrightarrow> rel s s'"
begin

lemma run_rel: "run_events step s es = Inr s' \<Longrightarrow> rel s s'"
  by (induction es arbitrary: s) (auto intro: rel_refl rel_trans step_rel)

end

text \<open>
  A machine whose state carries a quantity that every guarded event changes by an amount the event
  determines: over a run the quantity changes by the sum of these amounts.
\<close>

locale accounting_machine = fail_closed_machine step inv
  for step :: "'s \<Rightarrow> 'ev \<Rightarrow> 'e + 's" and inv :: "'s \<Rightarrow> bool" +
  fixes held :: "'s \<Rightarrow> int"
    and flow :: "'ev \<Rightarrow> int"
    and guarded :: "'ev \<Rightarrow> bool"
  assumes step_flow: "guarded e \<Longrightarrow> inv s \<Longrightarrow> step s e = Inr s' \<Longrightarrow> held s' = held s + flow e"
begin

lemma run_flow:
  "list_all guarded es \<Longrightarrow> inv s \<Longrightarrow> run_events step s es = Inr s' \<Longrightarrow>
   held s' = held s + sum_list (map flow es)"
proof (induction es arbitrary: s)
  case (Cons e es)
  then obtain t where t: "step s e = Inr t" and r: "run_events step t es = Inr s'"
    by auto
  from Cons.prems t have "inv t" and "held t = held s + flow e"
    by (auto intro: step_inv step_flow)
  with Cons.IH[OF _ _ r] Cons.prems show ?case by simp
qed simp

end

text \<open>
  A machine whose state is described by the events it has processed so far.
\<close>

locale history_machine =
  fixes step :: "'s \<Rightarrow> 'ev \<Rightarrow> 'e + 's"
    and describes :: "'ev list \<Rightarrow> 's \<Rightarrow> bool"
  assumes step_describes: "describes es s \<Longrightarrow> step s e = Inr s' \<Longrightarrow> describes (es @ [e]) s'"
begin

lemma run_describes:
  "describes es s \<Longrightarrow> run_events step s fs = Inr s' \<Longrightarrow> describes (es @ fs) s'"
proof (induction fs arbitrary: s es)
  case (Cons f fs)
  then obtain t where "step s f = Inr t" and r: "run_events step t fs = Inr s'"
    by auto
  with Cons.prems have "describes (es @ [f]) t" by (auto intro: step_describes)
  from Cons.IH[OF this r] show ?case by simp
qed simp

end

end
