(* ===== verification/Js_Values.thy ===== *)
theory Js_Values
  imports P42_Prelude
begin

text \<open>
  The part of JavaScript the event replay uses on the dynamically typed values of decoded logs:
  \<open>String(v)\<close>, \<open>BigInt(v)\<close>, truthiness, \<open>toLowerCase\<close> and the 0x-hex strings of hashes.

  A \<open>jsval\<close> is what the ABI decoder and the JSON fixtures put into an event argument: a bigint
  or an integral number (both \<open>JInt\<close>), a string, a boolean, \<open>null\<close>, or nothing at all
  (\<open>JUndefined\<close>). Strings are lists of bytes; lower-casing is that of the ASCII letters, the
  only letters an address, a hash or a decimal can hold.
\<close>

datatype jsval = JUndefined | JNull | JBool bool | JInt int | JStr string

fun js_truthy :: "jsval \<Rightarrow> bool" where
  "js_truthy JUndefined = False"
| "js_truthy JNull = False"
| "js_truthy (JBool b) = b"
| "js_truthy (JInt n) = (n \<noteq> 0)"
| "js_truthy (JStr s) = (s \<noteq> [])"

section \<open>Decimal printing\<close>

definition digit_char :: "nat \<Rightarrow> char" where
  "digit_char d = char_of (48 + d)"

fun show_nat :: "nat \<Rightarrow> string" where
  "show_nat n = (if n < 10 then [digit_char n] else show_nat (n div 10) @ [digit_char (n mod 10)])"

declare show_nat.simps [simp del]

definition show_int :: "int \<Rightarrow> string" where
  "show_int i = (if i < 0 then ''-'' @ show_nat (nat (- i)) else show_nat (nat i))"

fun js_string :: "jsval \<Rightarrow> string" where
  "js_string JUndefined = ''undefined''"
| "js_string JNull = ''null''"
| "js_string (JBool b) = (if b then ''true'' else ''false'')"
| "js_string (JInt i) = show_int i"
| "js_string (JStr s) = s"

section \<open>Reading integers: BigInt(value)\<close>

definition char_digit :: "char \<Rightarrow> nat option" where
  "char_digit c = (let n = (of_char c :: nat) in
     if 48 \<le> n \<and> n \<le> 57 then Some (n - 48)
     else if 97 \<le> n \<and> n \<le> 102 then Some (n - 87)
     else if 65 \<le> n \<and> n \<le> 70 then Some (n - 55)
     else None)"

fun read_digits :: "nat \<Rightarrow> nat \<Rightarrow> string \<Rightarrow> nat option" where
  "read_digits b acc [] = Some acc"
| "read_digits b acc (c # cs) =
     (case char_digit c of
        None \<Rightarrow> None
      | Some d \<Rightarrow> if d < b then read_digits b (acc * b + d) cs else None)"

definition read_nat :: "nat \<Rightarrow> string \<Rightarrow> nat option" where
  "read_nat b cs = (if cs = [] then None else read_digits b 0 cs)"

definition js_space :: "char \<Rightarrow> bool" where
  "js_space c \<longleftrightarrow> (let n = (of_char c :: nat) in (9 \<le> n \<and> n \<le> 13) \<or> n = 32 \<or> n = 160)"

definition js_trim :: "string \<Rightarrow> string" where
  "js_trim s = rev (dropWhile js_space (rev (dropWhile js_space s)))"

text \<open>
  The string grammar of \<open>BigInt\<close>: surrounding white space is dropped, the empty string is
  zero, a prefix 0x, 0o or 0b (in either case) selects the base and takes no sign, a decimal takes
  an optional sign.
\<close>

fun bigint_literal :: "string \<Rightarrow> int option" where
  "bigint_literal [] = Some 0"
| "bigint_literal (c # cs) =
     (if c = CHR ''-'' then map_option (\<lambda>n. - int n) (read_nat 10 cs)
      else if c = CHR ''+'' then map_option int (read_nat 10 cs)
      else if c = CHR ''0'' \<and> cs \<noteq> [] \<and> hd cs \<in> {CHR ''x'', CHR ''X''} then map_option int (read_nat 16 (tl cs))
      else if c = CHR ''0'' \<and> cs \<noteq> [] \<and> hd cs \<in> {CHR ''o'', CHR ''O''} then map_option int (read_nat 8 (tl cs))
      else if c = CHR ''0'' \<and> cs \<noteq> [] \<and> hd cs \<in> {CHR ''b'', CHR ''B''} then map_option int (read_nat 2 (tl cs))
      else map_option int (read_nat 10 (c # cs)))"

fun js_bigint :: "jsval \<Rightarrow> int option" where
  "js_bigint JUndefined = None"
| "js_bigint JNull = None"
| "js_bigint (JBool b) = Some (if b then 1 else 0)"
| "js_bigint (JInt i) = Some i"
| "js_bigint (JStr s) = bigint_literal (js_trim s)"

text \<open>\<open>Number.isSafeInteger\<close> of an integral number.\<close>

definition safe_integer :: "int \<Rightarrow> bool" where
  "safe_integer i \<longleftrightarrow> \<bar>i\<bar> \<le> 9007199254740991"

section \<open>Lower case and hexadecimal strings\<close>

definition lower_char :: "char \<Rightarrow> char" where
  "lower_char c = (let n = (of_char c :: nat) in if 65 \<le> n \<and> n \<le> 90 then char_of (n + 32) else c)"

definition to_lower :: "string \<Rightarrow> string" where
  "to_lower s = map lower_char s"

definition hex_digit :: "char \<Rightarrow> bool" where
  "hex_digit c \<longleftrightarrow> char_digit c \<noteq> None"

lemma lower_char_idem [simp]: "lower_char (lower_char c) = lower_char c"
  by (auto simp: lower_char_def Let_def)

lemma to_lower_idem [simp]: "to_lower (to_lower s) = to_lower s"
  by (simp add: to_lower_def)

lemma to_lower_append [simp]: "to_lower (s @ t) = to_lower s @ to_lower t"
  by (simp add: to_lower_def)

section \<open>Printing an integer and reading it back\<close>

lemma char_digit_digit_char: "d < 10 \<Longrightarrow> char_digit (digit_char d) = Some d"
  by (simp add: char_digit_def digit_char_def)

lemma read_digits_append:
  "read_digits b acc (s @ t) =
     (case read_digits b acc s of None \<Rightarrow> None | Some a \<Rightarrow> read_digits b a t)"
  by (induction s arbitrary: acc) (auto split: option.splits)

lemma read_digits_show_nat: "\<exists>m. read_digits 10 acc (show_nat n) = Some (acc * 10 ^ m + n)"
proof (induction n rule: show_nat.induct)
  case (1 n)
  show ?case
  proof (cases "n < 10")
    case True
    then have "read_digits 10 acc (show_nat n) = Some (acc * 10 ^ 1 + n)"
      by (simp add: show_nat.simps[of n] char_digit_digit_char)
    then show ?thesis by blast
  next
    case False
    with "1.IH" obtain m where m: "read_digits 10 acc (show_nat (n div 10)) = Some (acc * 10 ^ m + n div 10)"
      by auto
    have "read_digits 10 acc (show_nat n) = Some ((acc * 10 ^ m + n div 10) * 10 + n mod 10)"
      using False by (simp add: show_nat.simps[of n] read_digits_append m char_digit_digit_char)
    moreover have "(acc * 10 ^ m + n div 10) * 10 + n mod 10 = acc * 10 ^ Suc m + n"
      by (simp add: algebra_simps)
    ultimately show ?thesis by metis
  qed
qed

lemma show_nat_not_Nil [simp]: "show_nat n \<noteq> []"
  by (simp add: show_nat.simps[of n])

lemma read_nat_show_nat [simp]: "read_nat 10 (show_nat n) = Some n"
  using read_digits_show_nat[of 0 n] by (auto simp: read_nat_def)

text \<open>No decimal printed by the runtime starts with white space, a sign or a base prefix.\<close>

definition digit_string :: "string \<Rightarrow> bool" where
  "digit_string s \<longleftrightarrow> (\<forall>c \<in> set s. 48 \<le> (of_char c :: nat) \<and> (of_char c :: nat) \<le> 57)"

lemma digit_string_show_nat [simp]: "digit_string (show_nat n)"
proof (induction n rule: show_nat.induct)
  case (1 n)
  then show ?case
    by (cases "n < 10")
      (auto simp: show_nat.simps[of n] digit_string_def digit_char_def)
qed

lemma dropWhile_none: "\<forall>c \<in> set s. \<not> P c \<Longrightarrow> dropWhile P s = s"
  by (cases s) auto

lemma js_trim_id: "(\<And>c. c \<in> set s \<Longrightarrow> \<not> js_space c) \<Longrightarrow> js_trim s = s"
  by (simp add: js_trim_def dropWhile_none)

lemma digit_string_nospace: "digit_string s \<Longrightarrow> c \<in> set s \<Longrightarrow> \<not> js_space c"
  by (force simp: digit_string_def js_space_def)

lemma bigint_literal_digits:
  assumes "digit_string s" and "s \<noteq> []"
  shows "bigint_literal s = map_option int (read_nat 10 s)"
proof -
  obtain c cs where s: "s = c # cs" using assms(2) by (cases s) auto
  have "48 \<le> (of_char c :: nat)" "(of_char c :: nat) \<le> 57"
    using assms(1) s by (auto simp: digit_string_def)
  then have "c \<noteq> CHR ''-''" "c \<noteq> CHR ''+''" by auto
  moreover have "cs \<noteq> [] \<Longrightarrow> (of_char (hd cs) :: nat) \<le> 57"
    using assms(1) s by (auto simp: digit_string_def)
  then have "cs \<noteq> [] \<Longrightarrow> hd cs \<notin> {CHR ''x'', CHR ''X'', CHR ''o'', CHR ''O'', CHR ''b'', CHR ''B''}"
    by auto
  ultimately show ?thesis using s by auto
qed

lemma js_bigint_show_int: "js_bigint (JStr (show_int i)) = Some i"
proof (cases "i < 0")
  case True
  have "js_trim (show_int i) = show_int i"
    using True by (intro js_trim_id) (auto simp: show_int_def js_space_def dest: digit_string_nospace[OF digit_string_show_nat])
  then show ?thesis using True by (simp add: show_int_def)
next
  case False
  have "js_trim (show_int i) = show_int i"
    using False by (intro js_trim_id) (auto simp: show_int_def dest: digit_string_nospace[OF digit_string_show_nat])
  then show ?thesis using False by (simp add: show_int_def bigint_literal_digits)
qed

lemma show_int_inject: "show_int i = show_int j \<longleftrightarrow> i = j"
  by (metis js_bigint_show_int option.inject)

end
