(* ===== verification/Replay_Types.thy ===== *)
theory Replay_Types
  imports Js_Values "HOL-Library.List_Lexorder" "HOL-Library.Char_ord"
begin

text \<open>
  The data of the event replay of agent/indexer.mjs: the event catalog, the decoded log, the
  deployment configuration, the replayed state with its sub-objects, the errors, and the small
  helpers every reducer uses.

  A pair (source, eventName) of the code is one constructor of \<open>protocol_event\<close>; a pair the
  catalog does not know is \<open>Unrecognized\<close>. Names that occur under several sources carry the
  source as a prefix. An error keeps which check failed; the identifiers the code interpolates into
  its message are dropped.
\<close>

section \<open>The event catalog\<close>

datatype pool_event =
    LedgerSet | SubmissionManagerSet | RegistrySet | AcceptingFundsSet | Funded
  | SponsorshipFunded | Claimed | ClaimedTo | SolverClaimSettled | WinningsDonated
  | SponsorRefunded | FeeAccrued | FeeClaimed | FeePaid | RolloverPaid
  | ForcedEthRecovered | ForcedEthSwept

datatype ledger_event =
    LedgerNewActionsPaused | CreditRecorderSet | CreditRecorded | CreditVoided
  | Closed | ClaimConsumed | RolloverDestinationSet | RolloverSwept

datatype submission_event =
    SubmissionsNewActionsPaused | AllActionsPaused | AllActionsPauseRecovered | FundingArmed
  | FundingAuthorizationVerified | FundingAuthorized | FundingAuthorizationCancelled
  | FinalizeVoided | CreditRecoveryWindowAdvanced | CreditRecoveryWindowRestored
  | ChallengeManagerSet | Committed | Revealed | Finalized | SubmissionChallenged
  | SubmissionChallengeResolved | SubmissionChallengeCancelled | SubmissionExpired
  | BondToppedUp | SubmissionBondClaimable | SubmissionBondClaimed

datatype challenge_event =
    ChallengesNewActionsPaused | Challenged | ResolverTranscriptPosted | ResolverDecisionPosted
  | Resolved | ResolverDecisionCancelled | ChallengeExpired | ResolverBondReleased
  | ResolverBondSlashed | ChallengesObjectiveFraudProven | ChallengeBondClaimed

datatype quorum_event = QuorumObjectiveFraudProven

datatype registry_event = ProblemRegistered | ProblemUpdated | ProblemFrozen

datatype vault_event =
    RolloverReceived | PoolAllocationSet | FuturePoolFunded | ZeroCreditRefundReclaimed

datatype protocol_event =
    Pool pool_event | Ledger ledger_event | Submissions submission_event
  | Challenges challenge_event | ResolverQuorum quorum_event | Registry registry_event
  | RolloverVault vault_event | Unrecognized string string

definition event_catalog :: "protocol_event list" where
  "event_catalog =
     map Pool
       [LedgerSet, SubmissionManagerSet, RegistrySet, AcceptingFundsSet, Funded,
        SponsorshipFunded, Claimed, ClaimedTo, SolverClaimSettled, WinningsDonated,
        SponsorRefunded, FeeAccrued, FeeClaimed, FeePaid, RolloverPaid,
        ForcedEthRecovered, ForcedEthSwept] @
     map Ledger
       [LedgerNewActionsPaused, CreditRecorderSet, CreditRecorded, CreditVoided, Closed,
        ClaimConsumed, RolloverDestinationSet, RolloverSwept] @
     map Submissions
       [SubmissionsNewActionsPaused, AllActionsPaused, AllActionsPauseRecovered, FundingArmed,
        FundingAuthorizationVerified, FundingAuthorized, FundingAuthorizationCancelled,
        FinalizeVoided, CreditRecoveryWindowAdvanced, CreditRecoveryWindowRestored,
        ChallengeManagerSet, Committed, Revealed, Finalized, SubmissionChallenged,
        SubmissionChallengeResolved, SubmissionChallengeCancelled, SubmissionExpired,
        BondToppedUp, SubmissionBondClaimable, SubmissionBondClaimed] @
     map Challenges
       [ChallengesNewActionsPaused, Challenged, ResolverTranscriptPosted, Resolved,
        ResolverDecisionCancelled, ChallengeExpired, ResolverBondReleased, ResolverBondSlashed,
        ChallengesObjectiveFraudProven, ChallengeBondClaimed] @
     [ResolverQuorum QuorumObjectiveFraudProven] @
     map Registry [ProblemRegistered, ProblemUpdated, ProblemFrozen] @
     map RolloverVault
       [RolloverReceived, PoolAllocationSet, FuturePoolFunded, ZeroCreditRefundReclaimed]"

text \<open>The names \<open>source.eventName\<close> of the catalog, under which coverage is reported.\<close>

fun pool_event_label :: "pool_event \<Rightarrow> string" where
  "pool_event_label LedgerSet = ''LedgerSet''"
| "pool_event_label SubmissionManagerSet = ''SubmissionManagerSet''"
| "pool_event_label RegistrySet = ''RegistrySet''"
| "pool_event_label AcceptingFundsSet = ''AcceptingFundsSet''"
| "pool_event_label Funded = ''Funded''"
| "pool_event_label SponsorshipFunded = ''SponsorshipFunded''"
| "pool_event_label Claimed = ''Claimed''"
| "pool_event_label ClaimedTo = ''ClaimedTo''"
| "pool_event_label SolverClaimSettled = ''SolverClaimSettled''"
| "pool_event_label WinningsDonated = ''WinningsDonated''"
| "pool_event_label SponsorRefunded = ''SponsorRefunded''"
| "pool_event_label FeeAccrued = ''FeeAccrued''"
| "pool_event_label FeeClaimed = ''FeeClaimed''"
| "pool_event_label FeePaid = ''FeePaid''"
| "pool_event_label RolloverPaid = ''RolloverPaid''"
| "pool_event_label ForcedEthRecovered = ''ForcedEthRecovered''"
| "pool_event_label ForcedEthSwept = ''ForcedEthSwept''"

fun ledger_event_label :: "ledger_event \<Rightarrow> string" where
  "ledger_event_label LedgerNewActionsPaused = ''NewActionsPaused''"
| "ledger_event_label CreditRecorderSet = ''CreditRecorderSet''"
| "ledger_event_label CreditRecorded = ''CreditRecorded''"
| "ledger_event_label CreditVoided = ''CreditVoided''"
| "ledger_event_label Closed = ''Closed''"
| "ledger_event_label ClaimConsumed = ''ClaimConsumed''"
| "ledger_event_label RolloverDestinationSet = ''RolloverDestinationSet''"
| "ledger_event_label RolloverSwept = ''RolloverSwept''"

fun submission_event_label :: "submission_event \<Rightarrow> string" where
  "submission_event_label SubmissionsNewActionsPaused = ''NewActionsPaused''"
| "submission_event_label AllActionsPaused = ''AllActionsPaused''"
| "submission_event_label AllActionsPauseRecovered = ''AllActionsPauseRecovered''"
| "submission_event_label FundingArmed = ''FundingArmed''"
| "submission_event_label FundingAuthorizationVerified = ''FundingAuthorizationVerified''"
| "submission_event_label FundingAuthorized = ''FundingAuthorized''"
| "submission_event_label FundingAuthorizationCancelled = ''FundingAuthorizationCancelled''"
| "submission_event_label FinalizeVoided = ''FinalizeVoided''"
| "submission_event_label CreditRecoveryWindowAdvanced = ''CreditRecoveryWindowAdvanced''"
| "submission_event_label CreditRecoveryWindowRestored = ''CreditRecoveryWindowRestored''"
| "submission_event_label ChallengeManagerSet = ''ChallengeManagerSet''"
| "submission_event_label Committed = ''Committed''"
| "submission_event_label Revealed = ''Revealed''"
| "submission_event_label Finalized = ''Finalized''"
| "submission_event_label SubmissionChallenged = ''SubmissionChallenged''"
| "submission_event_label SubmissionChallengeResolved = ''SubmissionChallengeResolved''"
| "submission_event_label SubmissionChallengeCancelled = ''SubmissionChallengeCancelled''"
| "submission_event_label SubmissionExpired = ''SubmissionExpired''"
| "submission_event_label BondToppedUp = ''BondToppedUp''"
| "submission_event_label SubmissionBondClaimable = ''SubmissionBondClaimable''"
| "submission_event_label SubmissionBondClaimed = ''BondClaimed''"

fun challenge_event_label :: "challenge_event \<Rightarrow> string" where
  "challenge_event_label ChallengesNewActionsPaused = ''NewActionsPaused''"
| "challenge_event_label Challenged = ''Challenged''"
| "challenge_event_label ResolverTranscriptPosted = ''ResolverTranscriptPosted''"
| "challenge_event_label ResolverDecisionPosted = ''ResolverDecisionPosted''"
| "challenge_event_label Resolved = ''Resolved''"
| "challenge_event_label ResolverDecisionCancelled = ''ResolverDecisionCancelled''"
| "challenge_event_label ChallengeExpired = ''ChallengeExpired''"
| "challenge_event_label ResolverBondReleased = ''ResolverBondReleased''"
| "challenge_event_label ResolverBondSlashed = ''ResolverBondSlashed''"
| "challenge_event_label ChallengesObjectiveFraudProven = ''ObjectiveFraudProven''"
| "challenge_event_label ChallengeBondClaimed = ''BondClaimed''"

fun event_label :: "protocol_event \<Rightarrow> string" where
  "event_label (Pool e) = ''pool.'' @ pool_event_label e"
| "event_label (Ledger e) = ''ledger.'' @ ledger_event_label e"
| "event_label (Submissions e) = ''submissions.'' @ submission_event_label e"
| "event_label (Challenges e) = ''challenges.'' @ challenge_event_label e"
| "event_label (ResolverQuorum e) = ''resolverQuorum.ObjectiveFraudProven''"
| "event_label (Registry e) = ''registry.'' @
     (case e of ProblemRegistered \<Rightarrow> ''ProblemRegistered'' | ProblemUpdated \<Rightarrow> ''ProblemUpdated''
      | ProblemFrozen \<Rightarrow> ''ProblemFrozen'')"
| "event_label (RolloverVault e) = ''rolloverVault.'' @
     (case e of RolloverReceived \<Rightarrow> ''RolloverReceived'' | PoolAllocationSet \<Rightarrow> ''PoolAllocationSet''
      | FuturePoolFunded \<Rightarrow> ''FuturePoolFunded''
      | ZeroCreditRefundReclaimed \<Rightarrow> ''ZeroCreditRefundReclaimed'')"
| "event_label (Unrecognized s n) = s @ ''.'' @ n"

fun normalizeCoverageName :: "protocol_event \<Rightarrow> protocol_event" where
  "normalizeCoverageName (Challenges ResolverDecisionPosted) = Challenges ResolverTranscriptPosted"
| "normalizeCoverageName e = e"

section \<open>Errors\<close>

datatype pool_error =
    First_funded_without_timestamp | Funding_cap_differs | Close_by_differs
  | Earliest_close_differs | Sponsorship_balance_mismatch | Claim_underflow
  | Donation_gross_mismatch | Donation_underflow | Donation_duplicated
  | Sponsor_refund_underflow | Accrued_fee_underflow | Fee_underflow | Residual_underflow

datatype ledger_error =
    Credit_total_mismatch | Void_total_mismatch | Total_credit_underflow
  | Duplicate_closed | Duplicate_residual_swept

datatype funding_error =
    Verified_not_followed_by_authorized | Verified_after_armed
  | Duplicate_pending_verification | Nonce_not_monotonic | Board_set_mismatch
  | Release_binding_mismatch | Authorized_after_armed | Authorized_without_verified
  | Authorized_in_other_transaction | Authorized_not_adjacent | Authorized_digest_mismatch
  | Authorizer_not_treasury | Authorization_expiry_zero | Authorized_already_expired
  | Cancelled_after_armed | Cancelled_digest_mismatch | Cancelled_expiry_mismatch
  | Cancelled_after_expiry | Canceller_not_owner | Duplicate_armed | Armed_before_authorized
  | Armed_without_authorization | Armed_digest_mismatch | Armed_timestamp_mismatch
  | Armed_after_expiry

datatype submission_error =
    Pause_without_timestamp | Non_sequential_commit | Duplicate_commit | Commit_without_timestamp
  | Top_up_in_terminal_status | Top_up_running_bond_mismatch | Reveal_without_timestamp
  | Reveal_quarantined | Reveal_instance_hash_invalid | Open_count_underflow_on_resolution
  | Resolution_without_timestamp | Cancel_exceeds_dispute_deadline | Claimable_bond_mismatch
  | Finalized_score_mismatch | Finalized_frontier_mismatch | Finalized_credit_mismatch
  | Open_count_underflow_on_finalize | Recovery_previous_mismatch | Restore_source_mismatch
  | Void_not_live_frontier | Void_credit_mismatch | Void_restored_mismatch
  | Invalid_expired_status | Open_count_underflow_on_expiry

datatype challenge_error =
    Duplicate_active_challenge | Challenged_without_timestamp | Reveal_instance_mismatch
  | Transcript_for_absent_challenge | Expiration_for_absent_challenge | Expiration_refund_mismatch
  | Resolved_without_hook | Expired_resolved_inconsistently | Resolved_without_decision
  | Bond_release_mismatch | Cancelled_decision_missing | Cancellation_without_hook
  | Cancellation_challenger_mismatch | Bond_slash_mismatch | Proof_without_decision
  | Proof_not_contradictory | Proof_without_hook | Proof_without_slash | Solver_win_not_revealed

datatype quorum_error =
    Journal_without_proof | Journal_manager_mismatch | Journal_submission_mismatch
  | Journal_challenge_mismatch | Journal_proof_mismatch | Journal_outcome_mismatch
  | Journal_beneficiary_mismatch

datatype registry_error =
    Non_sequential_problem | Update_of_unknown_problem | Freeze_of_unknown_problem

datatype vault_error = Allocation_previous_mismatch | Allocation_underflow

datatype pairing_error =
    Proof_without_journal | Credit_voided_without_finalize_voided
  | Paid_void_without_credit_voided | Void_recovery_mismatch | Zero_credit_void_with_credit_voided
  | Claim_pair_incomplete | Claim_pair_mismatch | Donation_settlement_mismatch
  | Forced_pair_incomplete | Forced_pair_mismatch

datatype recovery_kind = Credit_voided_kind | Finalize_voided_kind

datatype replay_error =
    Missing_arg protocol_event string
  | Not_an_integer jsval
  | Not_nonzero_bytes32
  | Bad_digest
  | Unknown_submission_status
  | Unknown_submission
  | Unexpected_status
  | Unknown_challenge_instance
  | Challenge_instance_mismatch
  | Recovery_duplicated recovery_kind
  | Book_underflow
  | Pool_error pool_error
  | Ledger_error ledger_error
  | Funding_error funding_error
  | Submission_error submission_error
  | Challenge_error challenge_error
  | Quorum_error quorum_error
  | Registry_error registry_error
  | Vault_error vault_error
  | Pairing_error pairing_error
  | Unrecognized_event
  | Pending_verification_at_end
  | Coverage_incomplete

section \<open>Logs\<close>

record event =
  kind :: protocol_event
  args :: "(string \<times> jsval) list"
  blockNumber :: int
  transactionIndex :: "int option"
  index :: "int option"
  logIndex :: "int option"
  blockTimestamp :: jsval
  transactionHash :: jsval

definition getArg :: "event \<Rightarrow> string \<Rightarrow> replay_error + jsval" where
  "getArg ev name =
     (case map_of (args ev) name of
        None \<Rightarrow> Inl (Missing_arg (kind ev) name)
      | Some v \<Rightarrow> if v = JUndefined then Inl (Missing_arg (kind ev) name) else Inr v)"

definition asBigInt :: "jsval \<Rightarrow> replay_error + int" where
  "asBigInt v = of_option (Not_an_integer v) (js_bigint v)"

definition asBoolean :: "jsval \<Rightarrow> bool" where
  "asBoolean v \<longleftrightarrow> v = JBool True \<or> v = JStr ''true''"

definition addressKey :: "jsval \<Rightarrow> string" where
  "addressKey v = to_lower (js_string v)"

text \<open>The three ways the reducers read an argument.\<close>

definition arg_int :: "event \<Rightarrow> string \<Rightarrow> replay_error + int" where
  "arg_int ev name = and_then (getArg ev name) asBigInt"

definition arg_bool :: "event \<Rightarrow> string \<Rightarrow> replay_error + bool" where
  "arg_bool ev name = and_then (getArg ev name) (\<lambda>v. Inr (asBoolean v))"

definition arg_key :: "event \<Rightarrow> string \<Rightarrow> replay_error + string" where
  "arg_key ev name = and_then (getArg ev name) (\<lambda>v. Inr (addressKey v))"

definition txKey :: "event \<Rightarrow> string" where
  "txKey ev =
     to_lower
       (case transactionHash ev of
          JUndefined \<Rightarrow> ''fixture-'' @ show_int (blockNumber ev) @ ''-'' @
            show_int (case transactionIndex ev of None \<Rightarrow> 0 | Some i \<Rightarrow> i)
        | JNull \<Rightarrow> ''fixture-'' @ show_int (blockNumber ev) @ ''-'' @
            show_int (case transactionIndex ev of None \<Rightarrow> 0 | Some i \<Rightarrow> i)
        | v \<Rightarrow> js_string v)"

text \<open>The log index a reducer sees: \<open>event.index ?? event.logIndex\<close>.\<close>

definition event_index :: "event \<Rightarrow> int option" where
  "event_index ev = (case index ev of None \<Rightarrow> logIndex ev | Some i \<Rightarrow> Some i)"

end
