(* ===== verification/Replay_State.thy ===== *)
theory Replay_State
  imports Replay_Types
begin

text \<open>
  The state object of the replay (\<open>newReplayState\<close>), its configuration (\<open>replayConfig\<close>,
  \<open>deploymentDigestBytes32\<close>) and the accessors that throw (\<open>requireSubmission\<close>,
  \<open>requireStatus\<close>, \<open>requireNonzeroBytes32\<close>, \<open>requireChallengeInstance\<close>,
  \<open>recordRecovery\<close>, \<open>increment\<close>, \<open>decrement\<close>).

  \<open>ethers.isHexString\<close> is library code: it is the parameter \<open>hx\<close> of every definition that
  calls it. Dictionaries indexed by a submission or problem id use the integer itself as the key
  (the code uses its decimal text, and \<open>show_int_inject\<close> says that is the same thing).
\<close>

section \<open>Configuration\<close>

record replay_config =
  cfg_seedScoreAtoms :: int
  cfg_minImprovementAtoms :: int
  cfg_challengeWindowSeconds :: int
  cfg_treasury :: jsval
  cfg_challengeManager :: jsval
  cfg_problemCount :: int
  cfg_fundingCapWei :: "int option"
  cfg_earliestCloseTimestamp :: "int option"
  cfg_closeByTimestamp :: "int option"
  cfg_fundingAuthorizationV2 :: jsval
  cfg_boardSetDigest :: "string option"
  cfg_releaseBindingDigest :: "string option"
  cfg_owner :: jsval
  cfg_objectiveVerifier :: jsval
  cfg_objectiveVerifierCodehash :: jsval
  cfg_productionLaunchAuthority :: jsval
  cfg_independentSecurityAuthority :: jsval
  cfg_governanceAuthority :: jsval

definition zero_address :: string where
  "zero_address = ''0x0000000000000000000000000000000000000000''"

definition zero_hash :: string where
  "zero_hash = ''0x'' @ replicate 64 (CHR ''0'')"

definition deploymentDigestBytes32 :: "(string \<Rightarrow> nat \<Rightarrow> bool) \<Rightarrow> jsval \<Rightarrow> replay_error + string" where
  "deploymentDigestBytes32 hx v =
     (let s = js_string v;
          normalized =
            (if take 7 s = ''sha256:'' \<and> length (drop 7 s) = 64 \<and> list_all hex_digit (drop 7 s)
             then ''0x'' @ drop 7 s else s)
      in require (hx normalized 32) Bad_digest
           (require (to_lower normalized \<noteq> zero_hash) Bad_digest
             (Inr (to_lower normalized))))"

text \<open>
  The object \<open>replayConfig\<close> reads when it is not given a manifest: every field may be missing.
  \<open>raw_problemCount\<close> is a number.
\<close>

record raw_config =
  raw_seedScoreAtoms :: jsval
  raw_minImprovementAtoms :: jsval
  raw_challengeWindowSeconds :: jsval
  raw_treasury :: jsval
  raw_challengeManager :: jsval
  raw_problemCount :: "int option"
  raw_fundingCapWei :: jsval
  raw_earliestCloseTimestamp :: jsval
  raw_closeByTimestamp :: jsval
  raw_fundingAuthorizationV2 :: jsval
  raw_boardSetDigest :: jsval
  raw_releaseBindingDigest :: jsval
  raw_owner :: jsval
  raw_objectiveVerifier :: jsval
  raw_objectiveVerifierCodehash :: jsval
  raw_productionLaunchAuthority :: jsval
  raw_independentSecurityAuthority :: jsval
  raw_governanceAuthority :: jsval

definition optional_bigint :: "jsval \<Rightarrow> replay_error + int option" where
  "optional_bigint v = (if v = JUndefined then Inr None else and_then (asBigInt v) (\<lambda>i. Inr (Some i)))"

definition optional_digest ::
    "(string \<Rightarrow> nat \<Rightarrow> bool) \<Rightarrow> jsval \<Rightarrow> replay_error + string option" where
  "optional_digest hx v =
     (if v = JUndefined then Inr None else and_then (deploymentDigestBytes32 hx v) (\<lambda>d. Inr (Some d)))"

definition js_nullish :: "jsval \<Rightarrow> bool" where
  "js_nullish v \<longleftrightarrow> v = JUndefined \<or> v = JNull"

definition replayConfig ::
    "(string \<Rightarrow> nat \<Rightarrow> bool) \<Rightarrow> raw_config \<Rightarrow> replay_error + replay_config" where
  "replayConfig hx raw =
     and_then (asBigInt (raw_seedScoreAtoms raw)) (\<lambda>seed.
     and_then (asBigInt (raw_minImprovementAtoms raw)) (\<lambda>minImprovement.
     and_then (asBigInt (raw_challengeWindowSeconds raw)) (\<lambda>window.
     and_then (optional_bigint (raw_fundingCapWei raw)) (\<lambda>cap.
     and_then (optional_bigint (raw_earliestCloseTimestamp raw)) (\<lambda>earliest.
     and_then (optional_bigint (raw_closeByTimestamp raw)) (\<lambda>closeBy.
     and_then (optional_digest hx (raw_boardSetDigest raw)) (\<lambda>boardSet.
     and_then (optional_digest hx (raw_releaseBindingDigest raw)) (\<lambda>releaseBinding.
     Inr \<lparr>cfg_seedScoreAtoms = seed,
          cfg_minImprovementAtoms = minImprovement,
          cfg_challengeWindowSeconds = window,
          cfg_treasury = raw_treasury raw,
          cfg_challengeManager = raw_challengeManager raw,
          cfg_problemCount = (case raw_problemCount raw of None \<Rightarrow> 1 | Some n \<Rightarrow> n),
          cfg_fundingCapWei = cap,
          cfg_earliestCloseTimestamp = earliest,
          cfg_closeByTimestamp = closeBy,
          cfg_fundingAuthorizationV2 =
            (if js_nullish (raw_fundingAuthorizationV2 raw)
             then JBool (raw_boardSetDigest raw \<noteq> JUndefined \<or> raw_releaseBindingDigest raw \<noteq> JUndefined)
             else raw_fundingAuthorizationV2 raw),
          cfg_boardSetDigest = boardSet,
          cfg_releaseBindingDigest = releaseBinding,
          cfg_owner = raw_owner raw,
          cfg_objectiveVerifier = raw_objectiveVerifier raw,
          cfg_objectiveVerifierCodehash = raw_objectiveVerifierCodehash raw,
          cfg_productionLaunchAuthority = raw_productionLaunchAuthority raw,
          cfg_independentSecurityAuthority = raw_independentSecurityAuthority raw,
          cfg_governanceAuthority = raw_governanceAuthority raw\<rparr>))))))))"

section \<open>The pool and the ledger\<close>

record sponsorship_funding =
  sf_transactionHash :: string
  sf_payer :: string
  sf_sponsor :: string
  sf_amount :: int

record winnings_donation =
  wd_transactionHash :: string
  wd_solver :: string
  wd_destinationPool :: string
  wd_grossAmount :: int
  wd_donatedAmount :: int
  wd_feeAmount :: int

record pool_state =
  pool_ledger :: jsval
  pool_submissionManager :: jsval
  pool_registry :: jsval
  pool_problemId :: int
  pool_acceptingFunds :: bool
  pool_everFunded :: bool
  pool_firstFundedAt :: int
  pool_accountedBalance :: int
  pool_totalFunded :: int
  pool_totalClaimed :: int
  pool_totalWinningsDonated :: int
  pool_totalGrossClaimed :: int
  pool_totalFeeAccrued :: int
  pool_totalFeePaid :: int
  pool_accruedFeeBalance :: int
  pool_totalSponsorRefunded :: int
  pool_totalRolloverPaid :: int
  pool_totalForcedEthRecovered :: int
  pool_totalResidualPaid :: int
  pool_sponsorshipOf :: "string book"
  pool_sponsorshipFundings :: "sponsorship_funding list"
  pool_winningsDonations :: "winnings_donation list"

record ledger_state =
  ledger_pausedNewActions :: bool
  ledger_creditRecorder :: jsval
  ledger_closed :: bool
  ledger_closedPoolBalance :: int
  ledger_feeReserve :: int
  ledger_closedAt :: int
  ledger_claimDeadline :: int
  ledger_totalCreditAtoms :: int
  ledger_creditAtomsOf :: "string book"
  ledger_claimedWeiOf :: "string book"
  ledger_totalGrossClaimed :: int
  ledger_totalFeeAccrued :: int
  ledger_feeSwept :: bool
  ledger_residualSwept :: bool

section \<open>Submissions and challenges\<close>

datatype submission_status =
    Status_None | Status_Committed | Status_Revealed | Status_Challenged
  | Status_Finalized | Status_Rejected | Status_Voided

definition status_by_number :: "submission_status list" where
  "status_by_number =
     [Status_None, Status_Committed, Status_Revealed, Status_Challenged, Status_Finalized,
      Status_Rejected, Status_Voided]"

fun status_label :: "submission_status \<Rightarrow> string" where
  "status_label Status_None = ''None''"
| "status_label Status_Committed = ''Committed''"
| "status_label Status_Revealed = ''Revealed''"
| "status_label Status_Challenged = ''Challenged''"
| "status_label Status_Finalized = ''Finalized''"
| "status_label Status_Rejected = ''Rejected''"
| "status_label Status_Voided = ''Voided''"

definition status_of_number :: "int \<Rightarrow> submission_status option" where
  "status_of_number n =
     (if 0 \<le> n \<and> n < int (length status_by_number) then Some (status_by_number ! nat n) else None)"

text \<open>
  \<open>statusName\<close>: a status name is itself, anything else is read as a number. Numbers are the
  integers of \<open>js_bigint\<close>; \<open>Number(null)\<close> is 0. Two inputs the code treats differently are left out: numbers that
  are not integers, and names such as \<open>length\<close> which objects inherit.
\<close>

definition statusName :: "jsval \<Rightarrow> replay_error + submission_status" where
  "statusName v =
     (case (case v of JStr s \<Rightarrow> find (\<lambda>st. status_label st = s) status_by_number | _ \<Rightarrow> None) of
        Some st \<Rightarrow> Inr st
      | None \<Rightarrow>
          (case (if v = JNull then Some 0 else js_bigint v) of
             None \<Rightarrow> Inl Unknown_submission_status
           | Some n \<Rightarrow> of_option Unknown_submission_status (status_of_number n)))"

record finalize_info =
  fi_prevBestScoreAtoms :: int
  fi_creditAtoms :: int
  fi_prevCreditRecoveryEndsAt :: int

record submission =
  sub_submissionId :: int
  sub_solver :: jsval
  sub_commitment :: jsval
  sub_commitDaHash :: jsval
  sub_bondWei :: int
  sub_poolAtSubmissionWei :: int
  sub_requiredBondWei :: int
  sub_improvementAtoms :: int
  sub_claimedScoreAtoms :: int
  sub_solutionCid :: jsval
  sub_permanenceHash :: jsval
  sub_committedAt :: int
  sub_committedBlock :: int
  sub_paidAtCommit :: bool
  sub_revealedAt :: int
  sub_revealInstanceHash :: string
  sub_challengeEndsAt :: int
  sub_maxDisputeEndsAt :: int
  sub_status :: submission_status
  sub_finalizeInfo :: finalize_info
  sub_solutionBytesLength :: "int option"
  sub_objectiveClearedRevealInstanceHash :: "string option"

record challenge =
  ch_submissionId :: int
  ch_challenger :: jsval
  ch_reasonHash :: jsval
  ch_challengeBondWei :: int
  ch_challengedAt :: int
  ch_disputeEndsAt :: int
  ch_resolved :: bool
  ch_decisionPending :: bool
  ch_challengerWins :: bool
  ch_transcriptHash :: jsval
  ch_transcriptURI :: jsval
  ch_verdictHash :: jsval

record challenge_instance =
  ci_revealInstanceHash :: string
  ci_challengeInstanceHash :: string

record resolver_bond =
  rb_amountWei :: int
  rb_releaseAt :: int
  rb_slashProofHash :: jsval

section \<open>Records of one transaction, checked when the log ends\<close>

record pending_verification =
  pv_transactionHash :: string
  pv_logIndex :: "int option"
  pv_authorizationDigest :: string
  pv_nonce :: int
  pv_boardSetDigest :: string
  pv_releaseBindingDigest :: string

text \<open>
  \<open>pendingSubmissionResolutionByTx\<close> holds an object with either \<open>challengerWins\<close> or
  \<open>cancelled\<close>.
\<close>

datatype resolution_hook = Hook_resolved int bool | Hook_cancelled int

record objective_proof =
  op_id :: int
  op_proofHash :: string
  op_correctedChallengerWins :: bool
  op_proofBeneficiary :: string
  op_challengeInstanceHash :: jsval
  op_quorumJournalSeen :: bool

record finalize_voided =
  fv_submissionId :: int
  fv_solver :: string
  fv_atoms :: int
  fv_restored :: int

record credit_voided =
  cv_solver :: string
  cv_atoms :: int

record recovery =
  rec_finalizeVoided :: "finalize_voided option"
  rec_creditVoided :: "credit_voided option"

record pool_claim =
  pc_solver :: string
  pc_recipient :: string
  pc_grossAmount :: int
  pc_solverPayment :: int
  pc_feeAmount :: int

record ledger_claim =
  lc_solver :: string
  lc_grossAmount :: int
  lc_feeAmount :: int

record donation_claim =
  dc_solver :: string
  dc_destinationPool :: string
  dc_grossAmount :: int
  dc_solverPayment :: int
  dc_feeAmount :: int

record claim_consumption =
  cc_pool :: "pool_claim option"
  cc_ledger :: "ledger_claim option"
  cc_donation :: "donation_claim option"

record forced_leg =
  fl_destination :: string
  fl_amount :: int
  fl_remaining :: int

record forced_recovery =
  fr_recovered :: "forced_leg option"
  fr_swept :: "forced_leg option"

definition no_recovery :: recovery where
  "no_recovery = \<lparr>rec_finalizeVoided = None, rec_creditVoided = None\<rparr>"

definition no_claim :: claim_consumption where
  "no_claim = \<lparr>cc_pool = None, cc_ledger = None, cc_donation = None\<rparr>"

definition no_forced :: forced_recovery where
  "no_forced = \<lparr>fr_recovered = None, fr_swept = None\<rparr>"

section \<open>Registry and vault\<close>

record registry_problem =
  rp_specHash :: jsval
  rp_verifierImageHash :: jsval
  rp_pool :: jsval
  rp_metadataURI :: jsval
  rp_frozen :: bool
  rp_hasPartialUpdateEvent :: bool

record registry_state =
  registry_problemCount :: int
  registry_problems :: "(int \<times> registry_problem) list"

record vault_state =
  vault_totalReceived :: int
  vault_totalFuturePoolFunded :: int
  vault_totalAllocated :: int
  vault_allocationOf :: "string book"
  vault_allocationCodehashOf :: "(string \<times> jsval) list"

record coverage =
  coverage_queried :: "protocol_event list"
  coverage_complete :: bool
  coverage_missing :: "protocol_event list"

section \<open>The replayed state\<close>

record replay_state =
  config :: replay_config
  coverage :: coverage
  eventCounts :: "(protocol_event \<times> nat) list"
  pool :: pool_state
  ledger :: ledger_state
  submissions :: "(int \<times> submission) list"
  submissionCount :: int
  openSubmissionCount :: int
  bestScoreAtoms :: int
  fundingArmed :: bool
  armedAt :: int
  fundingAuthorizationDigest :: string
  authorizedFundingDigest :: string
  fundingAuthorizationExpiresAt :: int
  fundingAuthorizationNonce :: int
  pendingFundingAuthorizationVerification :: "pending_verification option"
  pausedNewActions :: bool
  pausedAll :: bool
  creditRecoveryEndsAt :: int
  recoveryPriorBySubmission :: "(int option \<times> int) list"
  expiryGraceUntil :: int
  challengeManager :: jsval
  submissionClaimableBondWei :: "string book"
  challenges :: "(int \<times> challenge) list"
  knownChallengeIds :: "int list"
  challengeInstances :: "(int \<times> challenge_instance) list"
  resolverBonds :: "(int \<times> resolver_bond) list"
  challengeClaimableBondWei :: "string book"
  challengePausedNewActions :: bool
  registry :: registry_state
  rolloverVault :: vault_state
  pendingExpiredChallengeTxs :: "string list"
  pendingSubmissionResolutionByTx :: "(string \<times> resolution_hook) list"
  pendingObjectiveProofByTx :: "(string \<times> objective_proof) list"
  recoveryByTx :: "(string \<times> recovery) list"
  claimConsumptionByTx :: "(string \<times> claim_consumption) list"
  forcedRecoveryByTx :: "(string \<times> forced_recovery) list"

text \<open>\<open>[...new Set(names)]\<close> keeps the first occurrence of every name.\<close>

definition first_occurrences :: "'a list \<Rightarrow> 'a list" where
  "first_occurrences xs = rev (remdups (rev xs))"

definition new_coverage :: "protocol_event list \<Rightarrow> coverage" where
  "new_coverage names =
     (let normalized = first_occurrences (map normalizeCoverageName names)
      in \<lparr>coverage_queried = sort_key event_label normalized,
          coverage_complete = list_all (\<lambda>n. n \<in> set normalized) event_catalog,
          coverage_missing = filter (\<lambda>n. n \<notin> set normalized) event_catalog\<rparr>)"

definition new_pool_state :: pool_state where
  "new_pool_state =
     \<lparr>pool_ledger = JStr zero_address, pool_submissionManager = JStr zero_address,
      pool_registry = JStr zero_address, pool_problemId = 0, pool_acceptingFunds = False,
      pool_everFunded = False, pool_firstFundedAt = 0, pool_accountedBalance = 0,
      pool_totalFunded = 0, pool_totalClaimed = 0, pool_totalWinningsDonated = 0,
      pool_totalGrossClaimed = 0, pool_totalFeeAccrued = 0, pool_totalFeePaid = 0,
      pool_accruedFeeBalance = 0, pool_totalSponsorRefunded = 0, pool_totalRolloverPaid = 0,
      pool_totalForcedEthRecovered = 0, pool_totalResidualPaid = 0, pool_sponsorshipOf = [],
      pool_sponsorshipFundings = [], pool_winningsDonations = []\<rparr>"

definition new_ledger_state :: ledger_state where
  "new_ledger_state =
     \<lparr>ledger_pausedNewActions = False, ledger_creditRecorder = JStr zero_address,
      ledger_closed = False, ledger_closedPoolBalance = 0, ledger_feeReserve = 0,
      ledger_closedAt = 0, ledger_claimDeadline = 0, ledger_totalCreditAtoms = 0,
      ledger_creditAtomsOf = [], ledger_claimedWeiOf = [], ledger_totalGrossClaimed = 0,
      ledger_totalFeeAccrued = 0, ledger_feeSwept = False, ledger_residualSwept = False\<rparr>"

definition newReplayState :: "replay_config \<Rightarrow> protocol_event list \<Rightarrow> replay_state" where
  "newReplayState cfg names =
     \<lparr>config = cfg,
      coverage = new_coverage names,
      eventCounts = map (\<lambda>n. (n, 0)) event_catalog,
      pool = new_pool_state,
      ledger = new_ledger_state,
      submissions = [],
      submissionCount = 0,
      openSubmissionCount = 0,
      bestScoreAtoms = cfg_seedScoreAtoms cfg,
      fundingArmed = False,
      armedAt = 0,
      fundingAuthorizationDigest = zero_hash,
      authorizedFundingDigest = zero_hash,
      fundingAuthorizationExpiresAt = 0,
      fundingAuthorizationNonce = 0,
      pendingFundingAuthorizationVerification = None,
      pausedNewActions = False,
      pausedAll = False,
      creditRecoveryEndsAt = 0,
      recoveryPriorBySubmission = [],
      expiryGraceUntil = 0,
      challengeManager = JStr zero_address,
      submissionClaimableBondWei = [],
      challenges = [],
      knownChallengeIds = [],
      challengeInstances = [],
      resolverBonds = [],
      challengeClaimableBondWei = [],
      challengePausedNewActions = False,
      registry = \<lparr>registry_problemCount = 0, registry_problems = []\<rparr>,
      rolloverVault =
        \<lparr>vault_totalReceived = 0, vault_totalFuturePoolFunded = 0, vault_totalAllocated = 0,
         vault_allocationOf = [], vault_allocationCodehashOf = []\<rparr>,
      pendingExpiredChallengeTxs = [],
      pendingSubmissionResolutionByTx = [],
      pendingObjectiveProofByTx = [],
      recoveryByTx = [],
      claimConsumptionByTx = [],
      forcedRecoveryByTx = []\<rparr>"

section \<open>Accessors that throw\<close>

definition increment :: "string book \<Rightarrow> jsval \<Rightarrow> int \<Rightarrow> string book" where
  "increment mapping key amount =
     AList.update (addressKey key) (bal mapping (addressKey key) + amount) mapping"

definition decrement :: "string book \<Rightarrow> jsval \<Rightarrow> int \<Rightarrow> replay_error + string book" where
  "decrement mapping key amount =
     (let current = bal mapping (addressKey key)
      in require (amount \<le> current) Book_underflow
           (Inr (AList.update (addressKey key) (current - amount) mapping)))"

definition requireSubmission :: "replay_state \<Rightarrow> int option \<Rightarrow> replay_error + int \<times> submission" where
  "requireSubmission st sid =
     (case sid of
        None \<Rightarrow> Inl Unknown_submission
      | Some i \<Rightarrow>
          (case map_of (submissions st) i of
             None \<Rightarrow> Inl Unknown_submission
           | Some sub \<Rightarrow> Inr (i, sub)))"

definition requireStatus :: "submission \<Rightarrow> submission_status \<Rightarrow> replay_error + 'a \<Rightarrow> replay_error + 'a" where
  "requireStatus sub expected k = require (sub_status sub = expected) Unexpected_status k"

definition requireNonzeroBytes32 :: "(string \<Rightarrow> nat \<Rightarrow> bool) \<Rightarrow> jsval \<Rightarrow> replay_error + string" where
  "requireNonzeroBytes32 hx v =
     (case v of
        JStr s \<Rightarrow> require (hx s 32 \<and> to_lower s \<noteq> zero_hash) Not_nonzero_bytes32 (Inr (to_lower s))
      | _ \<Rightarrow> Inl Not_nonzero_bytes32)"

definition arg_bytes32 ::
    "(string \<Rightarrow> nat \<Rightarrow> bool) \<Rightarrow> event \<Rightarrow> string \<Rightarrow> replay_error + string" where
  "arg_bytes32 hx ev name = and_then (getArg ev name) (requireNonzeroBytes32 hx)"

definition requireChallengeInstance ::
    "(string \<Rightarrow> nat \<Rightarrow> bool) \<Rightarrow> replay_state \<Rightarrow> int option \<Rightarrow> event \<Rightarrow> replay_error + int" where
  "requireChallengeInstance hx st sid ev =
     (case sid of
        None \<Rightarrow> Inl Unknown_challenge_instance
      | Some i \<Rightarrow>
          (case map_of (challengeInstances st) i of
             None \<Rightarrow> Inl Unknown_challenge_instance
           | Some expected \<Rightarrow>
               and_then (arg_bytes32 hx ev ''challengeInstanceHash'') (\<lambda>actual.
                 require (actual = ci_challengeInstanceHash expected)
                   Challenge_instance_mismatch (Inr i))))"

text \<open>
  \<open>recordRecovery\<close> for the two kinds it is called with: the slot of the transaction's record
  must still be empty.
\<close>

definition recordCreditVoided :: "replay_state \<Rightarrow> event \<Rightarrow> credit_voided \<Rightarrow> replay_error + replay_state" where
  "recordCreditVoided st ev v =
     (let key = txKey ev;
          recovery = (case map_of (recoveryByTx st) key of None \<Rightarrow> no_recovery | Some r \<Rightarrow> r)
      in require (rec_creditVoided recovery = None) (Recovery_duplicated Credit_voided_kind)
           (Inr (st\<lparr>recoveryByTx :=
              AList.update key (recovery\<lparr>rec_creditVoided := Some v\<rparr>) (recoveryByTx st)\<rparr>)))"

definition recordFinalizeVoided ::
    "replay_state \<Rightarrow> event \<Rightarrow> finalize_voided \<Rightarrow> replay_error + replay_state" where
  "recordFinalizeVoided st ev v =
     (let key = txKey ev;
          recovery = (case map_of (recoveryByTx st) key of None \<Rightarrow> no_recovery | Some r \<Rightarrow> r)
      in require (rec_finalizeVoided recovery = None) (Recovery_duplicated Finalize_voided_kind)
           (Inr (st\<lparr>recoveryByTx :=
              AList.update key (recovery\<lparr>rec_finalizeVoided := Some v\<rparr>) (recoveryByTx st)\<rparr>)))"

text \<open>The id of a submission event: \<open>undefined\<close> when the event does not carry one.\<close>

definition submission_id :: "event \<Rightarrow> replay_error + int option" where
  "submission_id ev =
     (case map_of (args ev) ''submissionId'' of
        None \<Rightarrow> Inr None
      | Some v \<Rightarrow> if v = JUndefined then Inr None else and_then (asBigInt v) (\<lambda>i. Inr (Some i)))"

section \<open>Facts about the helpers\<close>

lemma book_ok_increment [simp]: "book_ok b \<Longrightarrow> book_ok (increment b k n)"
  by (simp add: increment_def)

lemma total_increment [simp]: "book_ok b \<Longrightarrow> total (increment b k n) = total b + n"
  by (simp add: increment_def total_update)

lemma bal_increment:
  "bal (increment b k n) k' = (if k' = addressKey k then bal b k' + n else bal b k')"
  by (simp add: increment_def)

lemma decrement_Inr:
  "decrement b k n = Inr b' \<longleftrightarrow>
     n \<le> bal b (addressKey k) \<and> b' = AList.update (addressKey k) (bal b (addressKey k) - n) b"
  by (auto simp: decrement_def Let_def)

lemma book_ok_decrement: "book_ok b \<Longrightarrow> decrement b k n = Inr b' \<Longrightarrow> book_ok b'"
  by (auto simp: decrement_Inr)

lemma total_decrement: "book_ok b \<Longrightarrow> decrement b k n = Inr b' \<Longrightarrow> total b' = total b - n"
  by (auto simp: decrement_Inr total_update)

lemma requireSubmission_Inr [simp, result_simps]:
  "requireSubmission st sid = Inr p \<longleftrightarrow>
     (\<exists>i sub. sid = Some i \<and> map_of (submissions st) i = Some sub \<and> p = (i, sub))"
  by (auto simp: requireSubmission_def split: option.splits)

lemma requireStatus_Inr [simp, result_simps]:
  "requireStatus sub s k = Inr y \<longleftrightarrow> sub_status sub = s \<and> k = Inr y"
  by (simp add: requireStatus_def)

lemma recordCreditVoided_Inr [result_simps]:
  "recordCreditVoided st ev v = Inr st' \<longleftrightarrow>
     (let key = txKey ev;
          r = (case map_of (recoveryByTx st) key of None \<Rightarrow> no_recovery | Some r \<Rightarrow> r)
      in rec_creditVoided r = None \<and>
         st' = st\<lparr>recoveryByTx := AList.update key (r\<lparr>rec_creditVoided := Some v\<rparr>) (recoveryByTx st)\<rparr>)"
  by (auto simp: recordCreditVoided_def Let_def)

lemma recordFinalizeVoided_Inr [result_simps]:
  "recordFinalizeVoided st ev v = Inr st' \<longleftrightarrow>
     (let key = txKey ev;
          r = (case map_of (recoveryByTx st) key of None \<Rightarrow> no_recovery | Some r \<Rightarrow> r)
      in rec_finalizeVoided r = None \<and>
         st' = st\<lparr>recoveryByTx := AList.update key (r\<lparr>rec_finalizeVoided := Some v\<rparr>) (recoveryByTx st)\<rparr>)"
  by (auto simp: recordFinalizeVoided_def Let_def)

lemma requireChallengeInstance_Inr [simp, result_simps]:
  "requireChallengeInstance hx st sid ev = Inr i \<longleftrightarrow>
     (\<exists>c. sid = Some i \<and> map_of (challengeInstances st) i = Some c \<and>
          arg_bytes32 hx ev ''challengeInstanceHash'' = Inr (ci_challengeInstanceHash c))"
  by (auto simp: requireChallengeInstance_def split: option.splits)

lemma requireNonzeroBytes32_nonzero:
  "requireNonzeroBytes32 hx v = Inr h \<Longrightarrow> h \<noteq> zero_hash \<and> to_lower h = h"
  by (auto simp: requireNonzeroBytes32_def split: jsval.splits)

lemma arg_bytes32_nonzero:
  "arg_bytes32 hx ev name = Inr h \<Longrightarrow> h \<noteq> zero_hash \<and> to_lower h = h"
  by (auto simp: arg_bytes32_def dest: requireNonzeroBytes32_nonzero)

lemma set_first_occurrences [simp]: "set (first_occurrences xs) = set xs"
  by (simp add: first_occurrences_def)

lemma new_coverage_complete:
  "coverage_complete (new_coverage names) \<longleftrightarrow>
     set event_catalog \<subseteq> normalizeCoverageName ` set names"
  by (auto simp: new_coverage_def Let_def list_all_iff)

lemma new_coverage_missing:
  "coverage_complete (new_coverage names) \<longleftrightarrow> coverage_missing (new_coverage names) = []"
  by (auto simp: new_coverage_def Let_def list_all_iff filter_empty_conv)

end
