(* ===== verification/Replay_Pool.thy ===== *)
theory Replay_Pool
  imports Replay_State
begin

text \<open>
  \<open>replayPoolEvent\<close> of agent/indexer.mjs: one definition per case of the switch, in the order of
  the code, and the dispatcher. A reducer takes the state and the log and returns the new state or
  throws; the checks stand in the order in which the code makes them.
\<close>

definition on_pool :: "replay_state \<Rightarrow> (pool_state \<Rightarrow> pool_state) \<Rightarrow> replay_state" where
  "on_pool st f = st\<lparr>pool := f (pool st)\<rparr>"

definition claim_at :: "replay_state \<Rightarrow> string \<Rightarrow> claim_consumption" where
  "claim_at st key = (case map_of (claimConsumptionByTx st) key of None \<Rightarrow> no_claim | Some c \<Rightarrow> c)"

definition forced_at :: "replay_state \<Rightarrow> string \<Rightarrow> forced_recovery" where
  "forced_at st key = (case map_of (forcedRecoveryByTx st) key of None \<Rightarrow> no_forced | Some f \<Rightarrow> f)"

definition replay_LedgerSet :: "replay_state \<Rightarrow> event \<Rightarrow> replay_error + replay_state" where
  "replay_LedgerSet st ev =
     and_then (getArg ev ''ledger'') (\<lambda>v. Inr (on_pool st (pool_ledger_update (\<lambda>_. v))))"

definition replay_SubmissionManagerSet :: "replay_state \<Rightarrow> event \<Rightarrow> replay_error + replay_state" where
  "replay_SubmissionManagerSet st ev =
     and_then (getArg ev ''submissionManager'') (\<lambda>v.
       Inr (on_pool st (pool_submissionManager_update (\<lambda>_. v))))"

definition replay_RegistrySet :: "replay_state \<Rightarrow> event \<Rightarrow> replay_error + replay_state" where
  "replay_RegistrySet st ev =
     and_then (getArg ev ''registry'') (\<lambda>v.
     and_then (arg_int ev ''problemId'') (\<lambda>problemId.
       Inr (on_pool st (\<lambda>p. p\<lparr>pool_registry := v, pool_problemId := problemId\<rparr>))))"

definition replay_AcceptingFundsSet :: "replay_state \<Rightarrow> event \<Rightarrow> replay_error + replay_state" where
  "replay_AcceptingFundsSet st ev =
     and_then (arg_bool ev ''acceptingFunds'') (\<lambda>b.
       Inr (on_pool st (pool_acceptingFunds_update (\<lambda>_. b))))"

text \<open>A bound of the deployment configuration, compared only when the configuration has it.\<close>

definition check_bound :: "int option \<Rightarrow> event \<Rightarrow> string \<Rightarrow> pool_error \<Rightarrow> replay_error + unit" where
  "check_bound bound ev name err =
     (case bound of
        None \<Rightarrow> Inr ()
      | Some b \<Rightarrow> and_then (arg_int ev name) (\<lambda>v. require (v = b) (Pool_error err) (Inr ())))"

definition replay_Funded :: "replay_state \<Rightarrow> event \<Rightarrow> replay_error + replay_state" where
  "replay_Funded st ev =
     and_then
       (if pool_everFunded (pool st) then Inr (pool_firstFundedAt (pool st))
        else require (blockTimestamp ev \<noteq> JUndefined) (Pool_error First_funded_without_timestamp)
               (asBigInt (blockTimestamp ev))) (\<lambda>firstFundedAt.
     and_then (arg_int ev ''amount'') (\<lambda>amount.
     and_then (arg_int ev ''newBalance'') (\<lambda>newBalance.
     and_then (check_bound (cfg_fundingCapWei (config st)) ev ''fundingCap'' Funding_cap_differs) (\<lambda>_.
     and_then (check_bound (cfg_closeByTimestamp (config st)) ev ''closeByTimestamp'' Close_by_differs) (\<lambda>_.
     and_then
       (check_bound (cfg_earliestCloseTimestamp (config st)) ev ''earliestCloseTimestamp''
          Earliest_close_differs) (\<lambda>_.
       Inr (on_pool st (\<lambda>p. p\<lparr>pool_firstFundedAt := firstFundedAt,
              pool_totalFunded := pool_totalFunded p + amount,
              pool_accountedBalance := newBalance, pool_everFunded := True\<rparr>))))))))"

definition replay_SponsorshipFunded :: "replay_state \<Rightarrow> event \<Rightarrow> replay_error + replay_state" where
  "replay_SponsorshipFunded st ev =
     and_then (arg_key ev ''payer'') (\<lambda>payer.
     and_then (arg_key ev ''sponsor'') (\<lambda>sponsor.
     and_then (arg_int ev ''amount'') (\<lambda>amount.
     and_then (arg_int ev ''sponsorPrincipal'') (\<lambda>principal.
     and_then (arg_int ev ''accountedBalance'') (\<lambda>accounted.
     require (accounted = pool_accountedBalance (pool st)) (Pool_error Sponsorship_balance_mismatch)
       (Inr (on_pool st (\<lambda>p. p\<lparr>
          pool_sponsorshipOf := AList.update sponsor principal (pool_sponsorshipOf p),
          pool_sponsorshipFundings := pool_sponsorshipFundings p @
            [\<lparr>sf_transactionHash = txKey ev, sf_payer = payer, sf_sponsor = sponsor, sf_amount = amount\<rparr>]\<rparr>))))))))"

definition replay_Claimed :: "replay_state \<Rightarrow> event \<Rightarrow> replay_error + replay_state" where
  "replay_Claimed st ev =
     and_then (arg_int ev ''amount'') (\<lambda>amount.
     require (amount \<le> pool_accountedBalance (pool st)) (Pool_error Claim_underflow)
       (Inr (on_pool st (\<lambda>p. p\<lparr>pool_totalClaimed := pool_totalClaimed p + amount,
          pool_accountedBalance := pool_accountedBalance p - amount\<rparr>))))"

definition replay_WinningsDonated :: "replay_state \<Rightarrow> event \<Rightarrow> replay_error + replay_state" where
  "replay_WinningsDonated st ev =
     and_then (arg_key ev ''solver'') (\<lambda>solver.
     and_then (arg_key ev ''destinationPool'') (\<lambda>destinationPool.
     and_then (arg_int ev ''grossAmount'') (\<lambda>grossAmount.
     and_then (arg_int ev ''donatedAmount'') (\<lambda>amount.
     and_then (arg_int ev ''feeAmount'') (\<lambda>feeAmount.
     require (grossAmount = amount + feeAmount) (Pool_error Donation_gross_mismatch)
     (require (amount \<le> pool_accountedBalance (pool st)) (Pool_error Donation_underflow)
     (let paired = claim_at st (txKey ev);
          st1 = on_pool st (\<lambda>p. p\<lparr>
            pool_accountedBalance := pool_accountedBalance p - amount,
            pool_totalClaimed := pool_totalClaimed p + amount,
            pool_totalWinningsDonated := pool_totalWinningsDonated p + amount,
            pool_winningsDonations := pool_winningsDonations p @
              [\<lparr>wd_transactionHash = txKey ev, wd_solver = solver,
                wd_destinationPool = destinationPool, wd_grossAmount = grossAmount,
                wd_donatedAmount = amount, wd_feeAmount = feeAmount\<rparr>]\<rparr>)
      in require (cc_donation paired = None) (Pool_error Donation_duplicated)
           (Inr (st1\<lparr>claimConsumptionByTx := AList.update (txKey ev)
              (paired\<lparr>cc_donation := Some \<lparr>dc_solver = solver, dc_destinationPool = destinationPool,
                 dc_grossAmount = grossAmount, dc_solverPayment = amount, dc_feeAmount = feeAmount\<rparr>\<rparr>)
              (claimConsumptionByTx st)\<rparr>)))))))))"

definition replay_SolverClaimSettled :: "replay_state \<Rightarrow> event \<Rightarrow> replay_error + replay_state" where
  "replay_SolverClaimSettled st ev =
     and_then (arg_key ev ''solver'') (\<lambda>solver.
     and_then (arg_key ev ''recipient'') (\<lambda>recipient.
     and_then (arg_int ev ''grossAmount'') (\<lambda>grossAmount.
     and_then (arg_int ev ''solverPayment'') (\<lambda>solverPayment.
     and_then (arg_int ev ''feeAmount'') (\<lambda>feeAmount.
     (let paired = claim_at st (txKey ev);
          st1 = on_pool st (\<lambda>p. p\<lparr>pool_totalGrossClaimed := pool_totalGrossClaimed p + grossAmount\<rparr>)
      in Inr (st1\<lparr>claimConsumptionByTx := AList.update (txKey ev)
           (paired\<lparr>cc_pool := Some \<lparr>pc_solver = solver, pc_recipient = recipient,
              pc_grossAmount = grossAmount, pc_solverPayment = solverPayment, pc_feeAmount = feeAmount\<rparr>\<rparr>)
           (claimConsumptionByTx st)\<rparr>)))))))"

definition replay_SponsorRefunded :: "replay_state \<Rightarrow> event \<Rightarrow> replay_error + replay_state" where
  "replay_SponsorRefunded st ev =
     and_then (arg_key ev ''sponsor'') (\<lambda>sponsor.
     and_then (arg_int ev ''principal'') (\<lambda>amount.
     require (amount \<le> pool_accountedBalance (pool st)) (Pool_error Sponsor_refund_underflow)
       (Inr (on_pool st (\<lambda>p. p\<lparr>
          pool_accountedBalance := pool_accountedBalance p - amount,
          pool_totalSponsorRefunded := pool_totalSponsorRefunded p + amount,
          pool_sponsorshipOf := AList.update sponsor 0 (pool_sponsorshipOf p)\<rparr>)))))"

definition replay_FeeAccrued :: "replay_state \<Rightarrow> event \<Rightarrow> replay_error + replay_state" where
  "replay_FeeAccrued st ev =
     and_then (arg_int ev ''amount'') (\<lambda>amount.
     and_then (arg_int ev ''accruedFeeBalance'') (\<lambda>accrued.
       Inr (on_pool st (\<lambda>p. p\<lparr>pool_totalFeeAccrued := pool_totalFeeAccrued p + amount,
          pool_accruedFeeBalance := accrued\<rparr>))))"

definition replay_FeeClaimed :: "replay_state \<Rightarrow> event \<Rightarrow> replay_error + replay_state" where
  "replay_FeeClaimed st ev =
     and_then (arg_int ev ''amount'') (\<lambda>amount.
     require (amount \<le> pool_accruedFeeBalance (pool st)) (Pool_error Accrued_fee_underflow)
       (Inr (on_pool st (\<lambda>p. p\<lparr>pool_accruedFeeBalance := pool_accruedFeeBalance p - amount\<rparr>))))"

definition replay_FeePaid :: "replay_state \<Rightarrow> event \<Rightarrow> replay_error + replay_state" where
  "replay_FeePaid st ev =
     and_then (arg_int ev ''amount'') (\<lambda>amount.
     require (amount \<le> pool_accountedBalance (pool st)) (Pool_error Fee_underflow)
       (Inr (on_pool st (\<lambda>p. p\<lparr>pool_totalFeePaid := pool_totalFeePaid p + amount,
          pool_accountedBalance := pool_accountedBalance p - amount\<rparr>))))"

definition replay_RolloverPaid :: "replay_state \<Rightarrow> event \<Rightarrow> replay_error + replay_state" where
  "replay_RolloverPaid st ev =
     and_then (arg_int ev ''amount'') (\<lambda>amount.
     require (amount \<le> pool_accountedBalance (pool st)) (Pool_error Residual_underflow)
       (Inr (on_pool st (\<lambda>p. p\<lparr>pool_totalRolloverPaid := pool_totalRolloverPaid p + amount,
          pool_totalResidualPaid := pool_totalResidualPaid p + amount,
          pool_accountedBalance := pool_accountedBalance p - amount\<rparr>))))"

definition forced_leg_of :: "event \<Rightarrow> string \<Rightarrow> replay_error + forced_leg" where
  "forced_leg_of ev destination =
     and_then (arg_key ev destination) (\<lambda>to.
     and_then (arg_int ev ''amount'') (\<lambda>amount.
     and_then (arg_int ev ''remainingForcedEth'') (\<lambda>remaining.
       Inr \<lparr>fl_destination = to, fl_amount = amount, fl_remaining = remaining\<rparr>)))"

definition replay_ForcedEthRecovered :: "replay_state \<Rightarrow> event \<Rightarrow> replay_error + replay_state" where
  "replay_ForcedEthRecovered st ev =
     and_then (arg_int ev ''amount'') (\<lambda>amount.
     and_then (forced_leg_of ev ''to'') (\<lambda>leg.
       Inr ((on_pool st (\<lambda>p. p\<lparr>pool_totalForcedEthRecovered := pool_totalForcedEthRecovered p + amount\<rparr>))
         \<lparr>forcedRecoveryByTx := AList.update (txKey ev)
            ((forced_at st (txKey ev))\<lparr>fr_recovered := Some leg\<rparr>) (forcedRecoveryByTx st)\<rparr>)))"

definition replay_ForcedEthSwept :: "replay_state \<Rightarrow> event \<Rightarrow> replay_error + replay_state" where
  "replay_ForcedEthSwept st ev =
     and_then (forced_leg_of ev ''destination'') (\<lambda>leg.
       Inr (st\<lparr>forcedRecoveryByTx := AList.update (txKey ev)
         ((forced_at st (txKey ev))\<lparr>fr_swept := Some leg\<rparr>) (forcedRecoveryByTx st)\<rparr>))"

definition replayPoolEvent :: "pool_event \<Rightarrow> replay_state \<Rightarrow> event \<Rightarrow> replay_error + replay_state" where
  "replayPoolEvent name st ev =
     (case name of
        LedgerSet \<Rightarrow> replay_LedgerSet st ev
      | SubmissionManagerSet \<Rightarrow> replay_SubmissionManagerSet st ev
      | RegistrySet \<Rightarrow> replay_RegistrySet st ev
      | AcceptingFundsSet \<Rightarrow> replay_AcceptingFundsSet st ev
      | Funded \<Rightarrow> replay_Funded st ev
      | SponsorshipFunded \<Rightarrow> replay_SponsorshipFunded st ev
      | Claimed \<Rightarrow> replay_Claimed st ev
      | ClaimedTo \<Rightarrow> Inr st
      | WinningsDonated \<Rightarrow> replay_WinningsDonated st ev
      | SolverClaimSettled \<Rightarrow> replay_SolverClaimSettled st ev
      | SponsorRefunded \<Rightarrow> replay_SponsorRefunded st ev
      | FeeAccrued \<Rightarrow> replay_FeeAccrued st ev
      | FeeClaimed \<Rightarrow> replay_FeeClaimed st ev
      | FeePaid \<Rightarrow> replay_FeePaid st ev
      | RolloverPaid \<Rightarrow> replay_RolloverPaid st ev
      | ForcedEthRecovered \<Rightarrow> replay_ForcedEthRecovered st ev
      | ForcedEthSwept \<Rightarrow> replay_ForcedEthSwept st ev)"

lemmas pool_handler_defs =
  replay_LedgerSet_def replay_SubmissionManagerSet_def replay_RegistrySet_def
  replay_AcceptingFundsSet_def replay_Funded_def replay_SponsorshipFunded_def replay_Claimed_def
  replay_WinningsDonated_def replay_SolverClaimSettled_def replay_SponsorRefunded_def
  replay_FeeAccrued_def replay_FeeClaimed_def replay_FeePaid_def replay_RolloverPaid_def
  replay_ForcedEthRecovered_def replay_ForcedEthSwept_def on_pool_def

section \<open>Frame: what a pool event leaves alone\<close>

text \<open>
  The part of the state outside the pool, its claim pairs and its forced-recovery pairs.
\<close>

lemma pool_event_frame:
  assumes "replayPoolEvent name st ev = Inr st'"
  shows "st' = st\<lparr>pool := pool st', claimConsumptionByTx := claimConsumptionByTx st',
                forcedRecoveryByTx := forcedRecoveryByTx st'\<rparr>"
  using assms
  by (cases name) (auto simp: replayPoolEvent_def pool_handler_defs Let_def)

text \<open>
  Every wei a pool event takes out of the accounted balance is entered in one of the totals of
  money paid out, and no event other than \<open>Funded\<close> puts money in.
\<close>

definition pool_paid_out :: "pool_state \<Rightarrow> int" where
  "pool_paid_out p = pool_totalClaimed p + pool_totalFeePaid p + pool_totalSponsorRefunded p
                   + pool_totalRolloverPaid p"

lemma pool_event_conserves:
  assumes "replayPoolEvent name st ev = Inr st'" and "name \<noteq> Funded"
  shows "pool_accountedBalance (pool st') + pool_paid_out (pool st')
       = pool_accountedBalance (pool st) + pool_paid_out (pool st)"
  using assms
  by (cases name) (auto simp: replayPoolEvent_def pool_handler_defs pool_paid_out_def Let_def)

lemma pool_event_balance_nonneg:
  assumes "replayPoolEvent name st ev = Inr st'" and "name \<noteq> Funded"
    and "0 \<le> pool_accountedBalance (pool st)"
  shows "0 \<le> pool_accountedBalance (pool st')"
  using assms
  by (cases name) (auto simp: replayPoolEvent_def pool_handler_defs Let_def)

lemma pool_event_residual:
  assumes "replayPoolEvent name st ev = Inr st'"
    and "pool_totalResidualPaid (pool st) = pool_totalRolloverPaid (pool st)"
  shows "pool_totalResidualPaid (pool st') = pool_totalRolloverPaid (pool st')"
  using assms
  by (cases name) (auto simp: replayPoolEvent_def pool_handler_defs Let_def)

end
