(* ===== verification/Replay_Ledger.thy ===== *)
theory Replay_Ledger
  imports Replay_Pool
begin

text \<open>
  \<open>replayLedgerEvent\<close> of agent/indexer.mjs: the payout ledger's credit and claim books. The
  invariant \<open>ledger_books\<close> says that the running totals are the sums of the books.
\<close>

definition on_ledger :: "replay_state \<Rightarrow> (ledger_state \<Rightarrow> ledger_state) \<Rightarrow> replay_state" where
  "on_ledger st f = st\<lparr>ledger := f (ledger st)\<rparr>"

definition replay_LedgerNewActionsPaused :: "replay_state \<Rightarrow> event \<Rightarrow> replay_error + replay_state" where
  "replay_LedgerNewActionsPaused st ev =
     and_then (arg_bool ev ''paused'') (\<lambda>b. Inr (on_ledger st (ledger_pausedNewActions_update (\<lambda>_. b))))"

definition replay_CreditRecorderSet :: "replay_state \<Rightarrow> event \<Rightarrow> replay_error + replay_state" where
  "replay_CreditRecorderSet st ev =
     and_then (getArg ev ''recorder'') (\<lambda>v. Inr (on_ledger st (ledger_creditRecorder_update (\<lambda>_. v))))"

definition replay_CreditRecorded :: "replay_state \<Rightarrow> event \<Rightarrow> replay_error + replay_state" where
  "replay_CreditRecorded st ev =
     and_then (getArg ev ''solver'') (\<lambda>solver.
     and_then (arg_int ev ''atoms'') (\<lambda>atoms.
     (let total_atoms = ledger_totalCreditAtoms (ledger st) + atoms;
          st1 = on_ledger st (\<lambda>l. l\<lparr>
            ledger_creditAtomsOf := increment (ledger_creditAtomsOf l) solver atoms,
            ledger_totalCreditAtoms := total_atoms\<rparr>)
      in and_then (arg_int ev ''totalCreditAtoms'') (\<lambda>reported.
           require (total_atoms = reported) (Ledger_error Credit_total_mismatch) (Inr st1)))))"

definition replay_CreditVoided :: "replay_state \<Rightarrow> event \<Rightarrow> replay_error + replay_state" where
  "replay_CreditVoided st ev =
     and_then (getArg ev ''solver'') (\<lambda>solver.
     and_then (arg_int ev ''atoms'') (\<lambda>atoms.
     and_then (decrement (ledger_creditAtomsOf (ledger st)) solver atoms) (\<lambda>credits.
     require (atoms \<le> ledger_totalCreditAtoms (ledger st)) (Ledger_error Total_credit_underflow)
     (let total_atoms = ledger_totalCreditAtoms (ledger st) - atoms;
          st1 = on_ledger st (\<lambda>l. l\<lparr>ledger_creditAtomsOf := credits,
            ledger_totalCreditAtoms := total_atoms\<rparr>)
      in and_then (arg_int ev ''totalCreditAtoms'') (\<lambda>reported.
           require (total_atoms = reported) (Ledger_error Void_total_mismatch)
             (recordCreditVoided st1 ev \<lparr>cv_solver = addressKey solver, cv_atoms = atoms\<rparr>))))))"

definition replay_Closed :: "replay_state \<Rightarrow> event \<Rightarrow> replay_error + replay_state" where
  "replay_Closed st ev =
     require (\<not> ledger_closed (ledger st)) (Ledger_error Duplicate_closed)
     (and_then (arg_int ev ''poolBalance'') (\<lambda>poolBalance.
      and_then (arg_int ev ''feeReserve'') (\<lambda>feeReserve.
      and_then (arg_int ev ''closedAt'') (\<lambda>closedAt.
      and_then (arg_int ev ''claimDeadline'') (\<lambda>claimDeadline.
        Inr (on_ledger st (\<lambda>l. l\<lparr>ledger_closed := True, ledger_closedPoolBalance := poolBalance,
           ledger_feeReserve := feeReserve, ledger_closedAt := closedAt,
           ledger_claimDeadline := claimDeadline\<rparr>)))))))"

definition replay_ClaimConsumed :: "replay_state \<Rightarrow> event \<Rightarrow> replay_error + replay_state" where
  "replay_ClaimConsumed st ev =
     and_then (getArg ev ''solver'') (\<lambda>solver.
     and_then (arg_int ev ''grossAmount'') (\<lambda>grossAmount.
     and_then (arg_int ev ''feeAmount'') (\<lambda>feeAmount.
     (let st1 = on_ledger st (\<lambda>l. l\<lparr>
            ledger_claimedWeiOf := increment (ledger_claimedWeiOf l) solver grossAmount,
            ledger_totalGrossClaimed := ledger_totalGrossClaimed l + grossAmount,
            ledger_totalFeeAccrued := ledger_totalFeeAccrued l + feeAmount\<rparr>);
          paired = claim_at st (txKey ev)
      in Inr (st1\<lparr>claimConsumptionByTx := AList.update (txKey ev)
           (paired\<lparr>cc_ledger := Some \<lparr>lc_solver = addressKey solver, lc_grossAmount = grossAmount,
              lc_feeAmount = feeAmount\<rparr>\<rparr>) (claimConsumptionByTx st)\<rparr>)))))"

definition replay_RolloverSwept :: "replay_state \<Rightarrow> event \<Rightarrow> replay_error + replay_state" where
  "replay_RolloverSwept st ev =
     require (\<not> ledger_residualSwept (ledger st)) (Ledger_error Duplicate_residual_swept)
       (Inr (on_ledger st (ledger_residualSwept_update (\<lambda>_. True))))"

definition replayLedgerEvent :: "ledger_event \<Rightarrow> replay_state \<Rightarrow> event \<Rightarrow> replay_error + replay_state" where
  "replayLedgerEvent name st ev =
     (case name of
        LedgerNewActionsPaused \<Rightarrow> replay_LedgerNewActionsPaused st ev
      | CreditRecorderSet \<Rightarrow> replay_CreditRecorderSet st ev
      | CreditRecorded \<Rightarrow> replay_CreditRecorded st ev
      | CreditVoided \<Rightarrow> replay_CreditVoided st ev
      | Closed \<Rightarrow> replay_Closed st ev
      | ClaimConsumed \<Rightarrow> replay_ClaimConsumed st ev
      | RolloverDestinationSet \<Rightarrow> Inr st
      | RolloverSwept \<Rightarrow> replay_RolloverSwept st ev)"

lemmas ledger_handler_defs =
  replay_LedgerNewActionsPaused_def replay_CreditRecorderSet_def replay_CreditRecorded_def
  replay_CreditVoided_def replay_Closed_def replay_ClaimConsumed_def replay_RolloverSwept_def
  on_ledger_def recordCreditVoided_Inr

lemma ledger_event_frame:
  assumes "replayLedgerEvent name st ev = Inr st'"
  shows "st' = st\<lparr>ledger := ledger st', claimConsumptionByTx := claimConsumptionByTx st',
                recoveryByTx := recoveryByTx st'\<rparr>"
  using assms
  by (cases name) (auto simp: replayLedgerEvent_def ledger_handler_defs Let_def)

section \<open>The books\<close>

definition ledger_books :: "ledger_state \<Rightarrow> bool" where
  "ledger_books l \<longleftrightarrow>
     book_ok (ledger_creditAtomsOf l) \<and> book_ok (ledger_claimedWeiOf l) \<and>
     ledger_totalCreditAtoms l = total (ledger_creditAtomsOf l) \<and>
     ledger_totalGrossClaimed l = total (ledger_claimedWeiOf l)"

lemma ledger_event_books:
  assumes "replayLedgerEvent name st ev = Inr st'" and "ledger_books (ledger st)"
  shows "ledger_books (ledger st')"
  using assms
  by (cases name)
    (auto simp: replayLedgerEvent_def ledger_handler_defs Let_def ledger_books_def decrement_Inr
      total_update)

text \<open>A solver's credit never becomes negative when only non-negative credits are recorded.\<close>

lemma ledger_event_credit_nonneg:
  assumes "replayLedgerEvent name st ev = Inr st'"
    and "name = CreditRecorded \<Longrightarrow> (\<forall>n. arg_int ev ''atoms'' = Inr n \<longrightarrow> 0 \<le> n)"
    and "0 \<le> bal (ledger_creditAtomsOf (ledger st)) k"
  shows "0 \<le> bal (ledger_creditAtomsOf (ledger st')) k"
  using assms
  by (cases name)
    (auto simp: replayLedgerEvent_def ledger_handler_defs Let_def decrement_Inr bal_increment)

text \<open>The ledger closes once, and the figures it closes with never change.\<close>

definition closing_figures :: "ledger_state \<Rightarrow> int \<times> int \<times> int \<times> int" where
  "closing_figures l =
     (ledger_closedPoolBalance l, ledger_feeReserve l, ledger_closedAt l, ledger_claimDeadline l)"

definition ledger_latched :: "replay_state \<Rightarrow> replay_state \<Rightarrow> bool" where
  "ledger_latched st st' \<longleftrightarrow>
     (ledger_closed (ledger st) \<longrightarrow> ledger_closed (ledger st') \<and>
        closing_figures (ledger st') = closing_figures (ledger st)) \<and>
     (ledger_residualSwept (ledger st) \<longrightarrow> ledger_residualSwept (ledger st'))"

lemma ledger_event_latched:
  assumes "replayLedgerEvent name st ev = Inr st'"
  shows "ledger_latched st st'"
  using assms
  by (cases name)
    (auto simp: replayLedgerEvent_def ledger_handler_defs Let_def ledger_latched_def closing_figures_def)

end
