(* ===== verification/Replay_Funding.thy ===== *)
theory Replay_Funding
  imports Replay_Ledger
begin

text \<open>
  The cases of \<open>replaySubmissionEvent\<close> (agent/indexer.mjs) that arm funding: a verified
  authorization, its confirmation in the same transaction, its cancellation and the arming itself.
  The invariant \<open>funding_inv\<close> ties the digests, the nonce and the armed flag together.
\<close>

abbreviation funding_check :: "bool \<Rightarrow> funding_error \<Rightarrow> replay_error + 'a \<Rightarrow> replay_error + 'a" where
  "funding_check c err k \<equiv> require c (Funding_error err) k"

definition replay_FundingAuthorizationVerified ::
    "(string \<Rightarrow> nat \<Rightarrow> bool) \<Rightarrow> replay_state \<Rightarrow> event \<Rightarrow> replay_error + replay_state" where
  "replay_FundingAuthorizationVerified hx st ev =
     funding_check (\<not> fundingArmed st) Verified_after_armed
     (funding_check (pendingFundingAuthorizationVerification st = None) Duplicate_pending_verification
     (and_then (arg_bytes32 hx ev ''authorizationDigest'') (\<lambda>authorizationDigest.
      and_then (arg_int ev ''nonce'') (\<lambda>nonce.
      funding_check (nonce = fundingAuthorizationNonce st) Nonce_not_monotonic
      (and_then (arg_bytes32 hx ev ''boardSetDigest'') (\<lambda>boardSet.
       and_then (arg_bytes32 hx ev ''releaseBindingDigest'') (\<lambda>releaseBinding.
       funding_check
         (case cfg_boardSetDigest (config st) of None \<Rightarrow> True | Some d \<Rightarrow> boardSet = d) Board_set_mismatch
       (funding_check
         (case cfg_releaseBindingDigest (config st) of None \<Rightarrow> True | Some d \<Rightarrow> releaseBinding = d)
         Release_binding_mismatch
       (Inr (st\<lparr>fundingAuthorizationNonce := nonce + 1,
          pendingFundingAuthorizationVerification := Some
            \<lparr>pv_transactionHash = txKey ev, pv_logIndex = event_index ev,
             pv_authorizationDigest = authorizationDigest, pv_nonce = nonce,
             pv_boardSetDigest = boardSet, pv_releaseBindingDigest = releaseBinding\<rparr>\<rparr>))))))))))"

definition adjacent_logs :: "int option \<Rightarrow> int option \<Rightarrow> bool" where
  "adjacent_logs verified authorized \<longleftrightarrow>
     (case (verified, authorized) of
        (Some v, Some a) \<Rightarrow> (safe_integer v \<and> safe_integer a \<longrightarrow> a = v + 1)
      | _ \<Rightarrow> True)"

text \<open>The checks made when the configuration asks for, or the log holds, a verified authorization.\<close>

definition check_verified_authorization ::
    "replay_state \<Rightarrow> event \<Rightarrow> string \<Rightarrow> replay_error + unit" where
  "check_verified_authorization st ev authorizationDigest =
     (if js_truthy (cfg_fundingAuthorizationV2 (config st)) \<or>
         pendingFundingAuthorizationVerification st \<noteq> None
      then (case pendingFundingAuthorizationVerification st of
              None \<Rightarrow> Inl (Funding_error Authorized_without_verified)
            | Some pending \<Rightarrow>
                funding_check (pv_transactionHash pending = txKey ev) Authorized_in_other_transaction
                (funding_check (adjacent_logs (pv_logIndex pending) (event_index ev)) Authorized_not_adjacent
                (funding_check (pv_authorizationDigest pending = authorizationDigest)
                   Authorized_digest_mismatch (Inr ()))))
      else Inr ())"

definition replay_FundingAuthorized ::
    "(string \<Rightarrow> nat \<Rightarrow> bool) \<Rightarrow> replay_state \<Rightarrow> event \<Rightarrow> replay_error + replay_state" where
  "replay_FundingAuthorized hx st ev =
     funding_check (\<not> fundingArmed st) Authorized_after_armed
     (and_then (arg_bytes32 hx ev ''authorizationDigest'') (\<lambda>authorizationDigest.
      and_then (check_verified_authorization st ev authorizationDigest) (\<lambda>_.
      and_then
        (if cfg_treasury (config st) = JUndefined then Inr ()
         else and_then (arg_key ev ''authorizer'') (\<lambda>authorizer.
           funding_check (authorizer = addressKey (cfg_treasury (config st))) Authorizer_not_treasury
             (Inr ()))) (\<lambda>_.
      and_then (arg_int ev ''expiresAt'') (\<lambda>expiresAt.
      funding_check (0 < expiresAt) Authorization_expiry_zero
      (and_then
        (if blockTimestamp ev = JUndefined then Inr ()
         else and_then (asBigInt (blockTimestamp ev)) (\<lambda>now.
           funding_check (now \<le> expiresAt) Authorized_already_expired (Inr ()))) (\<lambda>_.
       Inr (st\<lparr>authorizedFundingDigest := authorizationDigest,
          fundingAuthorizationExpiresAt := expiresAt,
          pendingFundingAuthorizationVerification := None\<rparr>))))))))"

definition replay_FundingAuthorizationCancelled ::
    "(string \<Rightarrow> nat \<Rightarrow> bool) \<Rightarrow> replay_state \<Rightarrow> event \<Rightarrow> replay_error + replay_state" where
  "replay_FundingAuthorizationCancelled hx st ev =
     funding_check (\<not> fundingArmed st) Cancelled_after_armed
     (and_then (arg_bytes32 hx ev ''authorizationDigest'') (\<lambda>authorizationDigest.
      funding_check (authorizationDigest = to_lower (authorizedFundingDigest st)) Cancelled_digest_mismatch
      (and_then (arg_int ev ''expiresAt'') (\<lambda>expiresAt.
       funding_check (expiresAt = fundingAuthorizationExpiresAt st) Cancelled_expiry_mismatch
       (and_then
         (if blockTimestamp ev = JUndefined then Inr ()
          else and_then (asBigInt (blockTimestamp ev)) (\<lambda>now.
            funding_check (now \<le> fundingAuthorizationExpiresAt st) Cancelled_after_expiry (Inr ()))) (\<lambda>_.
        and_then
         (if cfg_owner (config st) = JUndefined then Inr ()
          else and_then (arg_key ev ''canceller'') (\<lambda>canceller.
            funding_check (canceller = addressKey (cfg_owner (config st))) Canceller_not_owner
              (Inr ()))) (\<lambda>_.
        Inr (st\<lparr>authorizedFundingDigest := zero_hash, fundingAuthorizationExpiresAt := 0,
           fundingAuthorizationNonce := fundingAuthorizationNonce st + 1\<rparr>))))))))"

definition replay_FundingArmed ::
    "(string \<Rightarrow> nat \<Rightarrow> bool) \<Rightarrow> replay_state \<Rightarrow> event \<Rightarrow> replay_error + replay_state" where
  "replay_FundingArmed hx st ev =
     funding_check (\<not> fundingArmed st) Duplicate_armed
     (funding_check (pendingFundingAuthorizationVerification st = None) Armed_before_authorized
     (funding_check (to_lower (authorizedFundingDigest st) \<noteq> zero_hash) Armed_without_authorization
     (and_then (arg_int ev ''at'') (\<lambda>at.
      and_then (arg_bytes32 hx ev ''authorizationDigest'') (\<lambda>authorizationDigest.
      funding_check (to_lower authorizationDigest = to_lower (authorizedFundingDigest st))
        Armed_digest_mismatch
      (and_then
        (if blockTimestamp ev = JUndefined then Inr ()
         else and_then (asBigInt (blockTimestamp ev)) (\<lambda>now.
           funding_check (at = now) Armed_timestamp_mismatch
           (funding_check (at \<le> fundingAuthorizationExpiresAt st) Armed_after_expiry (Inr ())))) (\<lambda>_.
       Inr (st\<lparr>fundingArmed := True, armedAt := at,
          fundingAuthorizationDigest := authorizationDigest\<rparr>))))))))"

lemmas funding_handler_defs =
  replay_FundingAuthorizationVerified_def replay_FundingAuthorized_def
  replay_FundingAuthorizationCancelled_def replay_FundingArmed_def

section \<open>The funding invariant\<close>

text \<open>
  No authorization is pending once funding is armed; the armed digest is the authorized one and is
  not the zero hash; an active authorization has a positive expiry; the pending verification used
  the nonce before the current one, and nonces are never negative.
\<close>

definition funding_inv :: "replay_state \<Rightarrow> bool" where
  "funding_inv st \<longleftrightarrow>
     to_lower (authorizedFundingDigest st) = authorizedFundingDigest st \<and>
     (fundingArmed st \<longrightarrow>
        pendingFundingAuthorizationVerification st = None \<and>
        fundingAuthorizationDigest st = authorizedFundingDigest st \<and>
        authorizedFundingDigest st \<noteq> zero_hash) \<and>
     (authorizedFundingDigest st \<noteq> zero_hash \<longleftrightarrow> 0 < fundingAuthorizationExpiresAt st) \<and>
     0 \<le> fundingAuthorizationNonce st \<and>
     (case pendingFundingAuthorizationVerification st of
        None \<Rightarrow> True
      | Some pv \<Rightarrow> pv_nonce pv + 1 = fundingAuthorizationNonce st \<and>
                   pv_authorizationDigest pv \<noteq> zero_hash)"

text \<open>Arming is final, and the nonce never goes back.\<close>

definition funding_progress :: "replay_state \<Rightarrow> replay_state \<Rightarrow> bool" where
  "funding_progress st st' \<longleftrightarrow>
     fundingAuthorizationNonce st \<le> fundingAuthorizationNonce st' \<and>
     (fundingArmed st \<longrightarrow> fundingArmed st' \<and> armedAt st' = armedAt st \<and>
        fundingAuthorizationDigest st' = fundingAuthorizationDigest st \<and>
        authorizedFundingDigest st' = authorizedFundingDigest st \<and>
        fundingAuthorizationNonce st' = fundingAuthorizationNonce st)"

lemma zero_hash_lower [simp]: "to_lower zero_hash = zero_hash"
  by (simp add: zero_hash_def to_lower_def lower_char_def)

lemma funding_verified_inv:
  "replay_FundingAuthorizationVerified hx st ev = Inr st' \<Longrightarrow> funding_inv st \<Longrightarrow>
   funding_inv st' \<and> funding_progress st st'"
  by (auto simp: replay_FundingAuthorizationVerified_def funding_inv_def funding_progress_def
      dest: arg_bytes32_nonzero)

lemma funding_authorized_inv:
  "replay_FundingAuthorized hx st ev = Inr st' \<Longrightarrow> funding_inv st \<Longrightarrow>
   funding_inv st' \<and> funding_progress st st'"
  by (auto simp: replay_FundingAuthorized_def funding_inv_def funding_progress_def
      dest: arg_bytes32_nonzero)

lemma funding_cancelled_inv:
  "replay_FundingAuthorizationCancelled hx st ev = Inr st' \<Longrightarrow>
   pendingFundingAuthorizationVerification st = None \<Longrightarrow> funding_inv st \<Longrightarrow>
   funding_inv st' \<and> funding_progress st st'"
  by (auto simp: replay_FundingAuthorizationCancelled_def funding_inv_def funding_progress_def)

lemma funding_armed_inv:
  "replay_FundingArmed hx st ev = Inr st' \<Longrightarrow> funding_inv st \<Longrightarrow>
   funding_inv st' \<and> funding_progress st st'"
  by (auto simp: replay_FundingArmed_def funding_inv_def funding_progress_def
      dest: arg_bytes32_nonzero)

end
