(* ===== verification/Score_Atoms.thy ===== *)
theory Score_Atoms
  imports Complex_Main Js_Values
begin

text \<open>
  The shared fixed-point convention of agent/lib.mjs: exact rationals (\<open>parseRational\<close>), their
  encoding as score atoms with a ceiling (\<open>atomsFromScore\<close>), the mapping of both objective
  directions onto one minimisation frontier (\<open>chainScoreAtoms\<close>) and the seed-relative improvement
  (\<open>seedRelativeImprovementAtoms\<close>). A JavaScript bigint is an \<open>int\<close>; its division truncates
  towards zero.
\<close>

datatype score_error =
    Not_a_strict_improvement | Exceeds_uint256 | Improvement_mismatch
  | Invalid_rational | Zero_denominator | Unknown_direction

definition score_scale :: int where
  "score_scale = 1000000000000000000"

definition uint256_max :: int where
  "uint256_max = 2 ^ 256 - 1"

definition seedRelativeImprovementAtoms :: "int \<Rightarrow> int \<Rightarrow> score_error + int" where
  "seedRelativeImprovementAtoms seed claim =
     (let improvement = seed - claim
      in require (\<not> improvement \<le> 0) Not_a_strict_improvement
           (require (\<not> uint256_max < improvement) Exceeds_uint256 (Inr improvement)))"

definition assertSeedRelativeImprovementAtoms :: "int \<Rightarrow> int \<Rightarrow> int \<Rightarrow> score_error + int" where
  "assertSeedRelativeImprovementAtoms seed claim improvement =
     and_then (seedRelativeImprovementAtoms seed claim) (\<lambda>expected.
       require (improvement = expected) Improvement_mismatch (Inr expected))"

text \<open>The regular expression of a rational: an optional minus, digits, and the same after a slash.\<close>

definition decimal_digit :: "char \<Rightarrow> bool" where
  "decimal_digit c \<longleftrightarrow> (let n = (of_char c :: nat) in 48 \<le> n \<and> n \<le> 57)"

definition signed_digits :: "string \<Rightarrow> bool" where
  "signed_digits s =
     (let t = (if s \<noteq> [] \<and> hd s = CHR ''-'' then tl s else s)
      in t \<noteq> [] \<and> list_all decimal_digit t)"

definition split_slash :: "string \<Rightarrow> string \<times> string option" where
  "split_slash s =
     (let n = takeWhile (\<lambda>c. c \<noteq> CHR ''/'') s; r = dropWhile (\<lambda>c. c \<noteq> CHR ''/'') s
      in (n, if r = [] then None else Some (tl r)))"

definition parseRational :: "jsval \<Rightarrow> score_error + int \<times> int" where
  "parseRational v =
     (let text = js_trim (js_string v); (numStr, denOpt) = split_slash text;
          denStr = (case denOpt of None \<Rightarrow> ''1'' | Some d \<Rightarrow> d)
      in require (signed_digits numStr \<and> signed_digits denStr) Invalid_rational
         (case (bigint_literal numStr, bigint_literal denStr) of
            (Some num, Some den) \<Rightarrow>
              require (den \<noteq> 0) Zero_denominator
                (Inr (if den < 0 then (- num, - den) else (num, den)))
          | _ \<Rightarrow> Inl Invalid_rational))"

definition trunc_div :: "int \<Rightarrow> int \<Rightarrow> int" where
  "trunc_div a b = sgn a * sgn b * (\<bar>a\<bar> div \<bar>b\<bar>)"

definition trunc_rem :: "int \<Rightarrow> int \<Rightarrow> int" where
  "trunc_rem a b = a - b * trunc_div a b"

definition atomsFromScore :: "jsval \<Rightarrow> score_error + int" where
  "atomsFromScore score =
     and_then (parseRational score) (\<lambda>(num, den).
       (let scaled = num * score_scale; q = trunc_div scaled den
        in Inr (if trunc_rem scaled den \<noteq> 0 \<and> 0 < scaled then q + 1 else q)))"

definition chainScoreAtoms :: "jsval \<Rightarrow> string \<Rightarrow> score_error + int" where
  "chainScoreAtoms score direction =
     (if direction \<noteq> ''minimize'' \<and> direction \<noteq> ''maximize'' then Inl Unknown_direction
      else if direction = ''minimize'' then atomsFromScore score
      else and_then (parseRational score) (\<lambda>(num, den).
        atomsFromScore (JStr (show_int (- num) @ ''/'' @ show_int den))))"

section \<open>The encoding is the exact ceiling\<close>

lemma trunc_div_ceiling:
  assumes "0 < d"
  shows "(if trunc_rem a d \<noteq> 0 \<and> 0 < a then trunc_div a d + 1 else trunc_div a d)
       = - ((- a) div d)"
proof (cases "0 \<le> a")
  case True
  then have td: "trunc_div a d = a div d"
    using assms by (cases "a = 0") (simp_all add: trunc_div_def)
  have rem: "trunc_rem a d = a mod d"
    by (simp add: trunc_rem_def td minus_mult_div_eq_mod)
  show ?thesis
  proof (cases "a mod d = 0")
    case True
    then show ?thesis by (simp add: td rem dvd_neg_div mod_eq_0_iff_dvd)
  next
    case False
    have "0 < a" using False \<open>0 \<le> a\<close> by (cases "a = 0") simp_all
    moreover have "(- a) div d = - (a div d) - 1"
      using False assms by (simp add: zdiv_zminus1_eq_if)
    ultimately show ?thesis using False by (simp add: td rem)
  qed
next
  case False
  then show ?thesis using assms by (simp add: trunc_div_def)
qed

lemma ceiling_div: "- ((- a) div d) = \<lceil>(of_int a :: rat) / of_int d\<rceil>"
proof -
  have "\<lfloor>(of_int (- a) :: rat) / of_int d\<rfloor> = (- a) div d"
    by (rule floor_divide_of_int_eq)
  then show ?thesis by (simp add: ceiling_def)
qed

lemma parseRational_den_pos: "parseRational v = Inr (n, d) \<Longrightarrow> 0 < d"
  by (auto simp: parseRational_def Let_def split: prod.splits option.splits if_splits)

lemma atomsFromScore_eq:
  "atomsFromScore v = Inr a \<longleftrightarrow>
     (\<exists>n d. parseRational v = Inr (n, d) \<and> a = \<lceil>(of_int (n * score_scale) :: rat) / of_int d\<rceil>)"
proof -
  have "and_then (Inr (n, d)) (\<lambda>(num, den).
       (let scaled = num * score_scale; q = trunc_div scaled den
        in Inr (if trunc_rem scaled den \<noteq> 0 \<and> 0 < scaled then q + 1 else q))) = (Inr a :: score_error + int)
     \<longleftrightarrow> a = \<lceil>(of_int (n * score_scale) :: rat) / of_int d\<rceil>"
    if "parseRational v = Inr (n, d)" for n d
    using trunc_div_ceiling[of d "n * score_scale"] ceiling_div[of "n * score_scale" d]
      parseRational_den_pos[OF that] by (auto simp: Let_def)
  then show ?thesis
    by (cases "parseRational v") (auto simp: atomsFromScore_def)
qed

section \<open>Printing a rational and parsing it back\<close>

lemma digit_string_decimal: "digit_string s \<longleftrightarrow> list_all decimal_digit s"
  by (auto simp: digit_string_def decimal_digit_def list_all_iff Let_def)

lemma hd_show_nat: "hd (show_nat n) \<noteq> CHR ''-''"
proof -
  have "hd (show_nat n) \<in> set (show_nat n)" by simp
  then have "48 \<le> (of_char (hd (show_nat n)) :: nat)"
    using digit_string_show_nat[of n] by (auto simp: digit_string_def)
  then show ?thesis by auto
qed

lemma signed_digits_show_int: "signed_digits (show_int i)"
  using digit_string_show_nat hd_show_nat
  by (auto simp: signed_digits_def show_int_def digit_string_decimal)

lemma show_int_chars: "c \<in> set (show_int i) \<Longrightarrow> c = CHR ''-'' \<or> decimal_digit c"
  using digit_string_show_nat by (auto simp: show_int_def digit_string_decimal list_all_iff split: if_splits)

lemma show_int_no_slash: "CHR ''/'' \<notin> set (show_int i)"
  by (auto dest!: show_int_chars simp: decimal_digit_def)

lemma show_int_no_space: "c \<in> set (show_int i) \<Longrightarrow> \<not> js_space c"
  by (auto dest!: show_int_chars simp: decimal_digit_def js_space_def Let_def)

lemma bigint_literal_show_int [simp]: "bigint_literal (show_int i) = Some i"
  using js_bigint_show_int[of i] by (simp add: js_trim_id show_int_no_space)

lemma split_slash_append:
  assumes "CHR ''/'' \<notin> set s"
  shows "split_slash (s @ CHR ''/'' # t) = (s, Some t)"
proof -
  have "takeWhile (\<lambda>c. c \<noteq> CHR ''/'') (s @ CHR ''/'' # t) = s"
    and "dropWhile (\<lambda>c. c \<noteq> CHR ''/'') (s @ CHR ''/'' # t) = CHR ''/'' # t"
    using assms by (induction s) auto
  then show ?thesis by (simp add: split_slash_def)
qed

lemma parseRational_show:
  assumes "0 < d"
  shows "parseRational (JStr (show_int n @ ''/'' @ show_int d)) = Inr (n, d)"
proof -
  have "js_trim (show_int n @ ''/'' @ show_int d) = show_int n @ ''/'' @ show_int d"
    by (intro js_trim_id) (auto simp: show_int_no_space js_space_def dest: show_int_no_space)
  then show ?thesis
    using assms by (simp add: parseRational_def Let_def split_slash_append show_int_no_slash signed_digits_show_int)
qed

section \<open>Both directions on one frontier\<close>

lemma chain_minimize: "chainScoreAtoms v ''minimize'' = atomsFromScore v"
  by (simp add: chainScoreAtoms_def)

lemma chain_maximize:
  assumes "parseRational v = Inr (n, d)"
  shows "chainScoreAtoms v ''maximize'' = Inr (- \<lfloor>(of_int (n * score_scale) :: rat) / of_int d\<rfloor>)"
proof -
  have d: "0 < d" using assms by (rule parseRational_den_pos)
  then have "atomsFromScore (JStr (show_int (- n) @ ''/'' @ show_int d))
      = Inr \<lceil>(of_int (- n * score_scale) :: rat) / of_int d\<rceil>"
    using parseRational_show[OF d, of "- n"] by (simp add: atomsFromScore_eq)
  moreover have "\<lceil>(of_int (- n * score_scale) :: rat) / of_int d\<rceil>
      = - \<lfloor>(of_int (n * score_scale) :: rat) / of_int d\<rfloor>"
    by (simp add: ceiling_def)
  ultimately show ?thesis
    using assms by (simp add: chainScoreAtoms_def)
qed

lemma seed_improvement_Inr:
  "seedRelativeImprovementAtoms seed claim = Inr i \<longleftrightarrow>
     i = seed - claim \<and> claim < seed \<and> seed - claim \<le> uint256_max"
  by (auto simp: seedRelativeImprovementAtoms_def Let_def)

lemma assert_improvement_Inr:
  "assertSeedRelativeImprovementAtoms seed claim i = Inr e \<longleftrightarrow>
     e = i \<and> i = seed - claim \<and> claim < seed \<and> seed - claim \<le> uint256_max"
  by (auto simp: assertSeedRelativeImprovementAtoms_def seed_improvement_Inr)

section \<open>Properties of the encoding\<close>

text \<open>
   The score encoding is exact: whenever a score parses as the rational \<open>n / d\<close>, its atoms are
  the ceiling of \<open>n * 10^18 / d\<close> over the exact rationals, and a score that does not parse is
  rejected with the parser's error.
\<close>

theorem atoms_are_ceiling:
  "(atomsFromScore v = Inr a \<longleftrightarrow>
     (\<exists>n d. parseRational v = Inr (n, d) \<and> 0 < d \<and> a = \<lceil>(of_int (n * score_scale) :: rat) / of_int d\<rceil>)) \<and>
   (atomsFromScore v = Inl e \<longleftrightarrow> parseRational v = Inl e)"
proof (rule conjI)
  show "atomsFromScore v = Inr a \<longleftrightarrow>
     (\<exists>n d. parseRational v = Inr (n, d) \<and> 0 < d \<and> a = \<lceil>(of_int (n * score_scale) :: rat) / of_int d\<rceil>)"
    by (auto simp: atomsFromScore_eq dest: parseRational_den_pos)
  show "atomsFromScore v = Inl e \<longleftrightarrow> parseRational v = Inl e"
    by (cases "parseRational v") (auto simp: atomsFromScore_def Let_def)
qed

lemma chain_atoms:
  assumes "parseRational v = Inr (n, d)"
  shows "chainScoreAtoms v ''minimize'' = Inr \<lceil>(of_int (n * score_scale) :: rat) / of_int d\<rceil>"
    "chainScoreAtoms v ''maximize'' = Inr (- \<lfloor>(of_int (n * score_scale) :: rat) / of_int d\<rfloor>)"
  using assms chain_maximize[OF assms] by (simp_all add: chain_minimize atomsFromScore_eq)

text \<open>
   Both objective directions use one minimisation frontier: the better of two scores (the smaller
  one when minimising, the larger one when maximising) never has more atoms, and a score is never
  encoded as better than it is.
\<close>

theorem chain_frontier_conservative:
  assumes "parseRational v = Inr (n, d)" and "parseRational w = Inr (m, c)"
    and "(of_int n :: rat) / of_int d \<le> of_int m / of_int c"
  shows "\<exists>a b a' b'.
    chainScoreAtoms v ''minimize'' = Inr a \<and> chainScoreAtoms w ''minimize'' = Inr b \<and> a \<le> b \<and>
    chainScoreAtoms v ''maximize'' = Inr a' \<and> chainScoreAtoms w ''maximize'' = Inr b' \<and> b' \<le> a' \<and>
    (of_int n :: rat) / of_int d \<le> of_int a / of_int score_scale \<and>
    - (of_int n :: rat) / of_int d \<le> of_int a' / of_int score_scale"
proof -
  have s: "(0::rat) < of_int score_scale" by (simp add: score_scale_def)
  have le: "(of_int (n * score_scale) :: rat) / of_int d \<le> of_int (m * score_scale) / of_int c"
    using mult_right_mono[OF assms(3), of "of_int score_scale"] s by simp
  have up: "(of_int n :: rat) / of_int d \<le> of_int \<lceil>(of_int (n * score_scale) :: rat) / of_int d\<rceil> / of_int score_scale"
    using le_of_int_ceiling[of "(of_int (n * score_scale) :: rat) / of_int d"] s
    by (simp add: pos_le_divide_eq)
  have down: "- (of_int n :: rat) / of_int d \<le> of_int (- \<lfloor>(of_int (n * score_scale) :: rat) / of_int d\<rfloor>) / of_int score_scale"
    using of_int_floor_le[of "(of_int (n * score_scale) :: rat) / of_int d"] s
    by (simp add: pos_divide_le_eq)
  show ?thesis
    using chain_atoms[OF assms(1)] chain_atoms[OF assms(2)] ceiling_mono[OF le] floor_mono[OF le] up down
    by auto
qed

theorem chain_frontier_conservative_witness:
  "\<exists>a b. chainScoreAtoms (JStr ''1/3'') ''minimize'' = Inr a \<and>
     chainScoreAtoms (JStr ''1/2'') ''minimize'' = Inr b \<and> a \<le> b"
proof -
  have "parseRational (JStr ''1/3'') = Inr (1, 3)" "parseRational (JStr ''1/2'') = Inr (1, 2)"
    by code_simp+
  from chain_frontier_conservative[OF this] show ?thesis by auto
qed

text \<open>
   Printing a rational and parsing it back is the identity: the text \<open>n/d\<close> of any integer and any
  positive integer parses as exactly this pair, which is what the negation in
  \<open>chainScoreAtoms\<close> relies on.
\<close>

theorem rational_roundtrip:
  assumes "0 < d"
  shows "parseRational (JStr (show_int n @ ''/'' @ show_int d)) = Inr (n, d)"
  using assms by (rule parseRational_show)

theorem rational_roundtrip_witness:
  "parseRational (JStr (show_int (- 7) @ ''/'' @ show_int 3)) = Inr (- 7, 3)"
  by (rule rational_roundtrip) simp

text \<open>
   The seed-relative improvement is accepted exactly when the claim is strictly below the seed, the
  difference fits in 256 bits and equals the stated one; otherwise the check throws.
\<close>

theorem improvement_checked:
  "(assertSeedRelativeImprovementAtoms seed claim i = Inr e \<longleftrightarrow>
     e = i \<and> i = seed - claim \<and> 0 < i \<and> i < 2 ^ 256) \<and>
   (assertSeedRelativeImprovementAtoms seed claim i = Inl Not_a_strict_improvement \<longleftrightarrow> seed \<le> claim) \<and>
   (assertSeedRelativeImprovementAtoms seed claim i = Inl Exceeds_uint256 \<longleftrightarrow> 2 ^ 256 \<le> seed - claim)"
  by (auto simp: assertSeedRelativeImprovementAtoms_def seedRelativeImprovementAtoms_def Let_def
      uint256_max_def)

end
