(* ===== verification/Replay_Submissions.thy ===== *)
theory Replay_Submissions
  imports Replay_Funding Score_Atoms
begin

text \<open>
  \<open>replaySubmissionEvent\<close> of agent/indexer.mjs: the life of a submission from its commitment to
  its finalization, rejection or voiding, the score frontier and the submission bonds. The funding
  cases of the same switch are in Replay_Funding.
\<close>

abbreviation sub_check :: "bool \<Rightarrow> submission_error \<Rightarrow> replay_error + 'a \<Rightarrow> replay_error + 'a" where
  "sub_check c err k \<equiv> require c (Submission_error err) k"

definition put_submission :: "replay_state \<Rightarrow> int \<Rightarrow> submission \<Rightarrow> replay_state" where
  "put_submission st i sub = st\<lparr>submissions := AList.update i sub (submissions st)\<rparr>"

text \<open>\<open>asBigInt(event.blockTimestamp)\<close> after the check that the timestamp is there.\<close>

definition block_time :: "event \<Rightarrow> submission_error \<Rightarrow> replay_error + int" where
  "block_time ev err = sub_check (blockTimestamp ev \<noteq> JUndefined) err (asBigInt (blockTimestamp ev))"

definition replay_SubmissionsNewActionsPaused :: "replay_state \<Rightarrow> event \<Rightarrow> replay_error + replay_state" where
  "replay_SubmissionsNewActionsPaused st ev =
     and_then (arg_bool ev ''paused'') (\<lambda>b. Inr (st\<lparr>pausedNewActions := b\<rparr>))"

definition replay_AllActionsPaused :: "replay_state \<Rightarrow> event \<Rightarrow> replay_error + replay_state" where
  "replay_AllActionsPaused st ev =
     and_then (arg_bool ev ''paused'') (\<lambda>b.
       if b then Inr (st\<lparr>pausedAll := True\<rparr>)
       else and_then (block_time ev Pause_without_timestamp) (\<lambda>now.
         Inr (st\<lparr>pausedAll := False,
            expiryGraceUntil := now + cfg_challengeWindowSeconds (config st)\<rparr>)))"

definition replay_ChallengeManagerSet :: "replay_state \<Rightarrow> event \<Rightarrow> replay_error + replay_state" where
  "replay_ChallengeManagerSet st ev =
     and_then (getArg ev ''challengeManager'') (\<lambda>v. Inr (st\<lparr>challengeManager := v\<rparr>))"

definition replay_Committed :: "replay_state \<Rightarrow> int option \<Rightarrow> event \<Rightarrow> replay_error + replay_state" where
  "replay_Committed st sid ev =
     (case sid of
        None \<Rightarrow> Inl (Not_an_integer JUndefined)
      | Some i \<Rightarrow>
          sub_check (i = submissionCount st + 1) Non_sequential_commit
          (sub_check (map_of (submissions st) i = None) Duplicate_commit
          (sub_check (blockTimestamp ev \<noteq> JUndefined) Commit_without_timestamp
          (and_then (getArg ev ''solver'') (\<lambda>solver.
           and_then (getArg ev ''commitment'') (\<lambda>commitment.
           and_then (getArg ev ''commitDaHash'') (\<lambda>commitDaHash.
           and_then (arg_int ev ''bondWei'') (\<lambda>bondWei.
           and_then (arg_int ev ''poolAtSubmissionWei'') (\<lambda>poolAtSubmissionWei.
           and_then (arg_int ev ''requiredBondWei'') (\<lambda>requiredBondWei.
           and_then (asBigInt (blockTimestamp ev)) (\<lambda>committedAt.
           and_then (arg_int ev ''committedBlock'') (\<lambda>committedBlock.
           and_then (arg_bool ev ''paidAtCommit'') (\<lambda>paid.
             Inr ((put_submission st i
                \<lparr>sub_submissionId = i, sub_solver = solver, sub_commitment = commitment,
                 sub_commitDaHash = commitDaHash, sub_bondWei = bondWei,
                 sub_poolAtSubmissionWei = poolAtSubmissionWei,
                 sub_requiredBondWei = requiredBondWei, sub_improvementAtoms = 0,
                 sub_claimedScoreAtoms = 0, sub_solutionCid = JStr [],
                 sub_permanenceHash = JStr zero_hash, sub_committedAt = committedAt,
                 sub_committedBlock = committedBlock, sub_paidAtCommit = paid, sub_revealedAt = 0,
                 sub_revealInstanceHash = zero_hash, sub_challengeEndsAt = 0,
                 sub_maxDisputeEndsAt = 0, sub_status = Status_Committed,
                 sub_finalizeInfo = \<lparr>fi_prevBestScoreAtoms = 0, fi_creditAtoms = 0,
                   fi_prevCreditRecoveryEndsAt = 0\<rparr>,
                 sub_solutionBytesLength = None, sub_objectiveClearedRevealInstanceHash = None\<rparr>)
                \<lparr>submissionCount := i, openSubmissionCount := openSubmissionCount st + 1\<rparr>))))))))))))))"

definition replay_BondToppedUp :: "replay_state \<Rightarrow> int option \<Rightarrow> event \<Rightarrow> replay_error + replay_state" where
  "replay_BondToppedUp st sid ev =
     and_then (requireSubmission st sid) (\<lambda>(i, sub).
       sub_check (sub_status sub \<in> {Status_Committed, Status_Revealed, Status_Challenged})
         Top_up_in_terminal_status
       (and_then (arg_int ev ''amount'') (\<lambda>amount.
        and_then (arg_int ev ''newBondWei'') (\<lambda>newBondWei.
        sub_check (sub_bondWei sub + amount = newBondWei) Top_up_running_bond_mismatch
          (Inr (put_submission st i (sub\<lparr>sub_bondWei := sub_bondWei sub + amount\<rparr>)))))))"

definition replay_Revealed ::
    "(string \<Rightarrow> nat \<Rightarrow> bool) \<Rightarrow> replay_state \<Rightarrow> int option \<Rightarrow> event \<Rightarrow> replay_error + replay_state" where
  "replay_Revealed hx st sid ev =
     and_then (requireSubmission st sid) (\<lambda>(i, sub).
     requireStatus sub Status_Committed
     (sub_check (blockTimestamp ev \<noteq> JUndefined) Reveal_without_timestamp
     (and_then (getArg ev ''solutionCid'') (\<lambda>solutionCid.
      and_then (arg_int ev ''improvementAtoms'') (\<lambda>improvementAtoms.
      and_then (arg_int ev ''claimedScoreAtoms'') (\<lambda>claimedScoreAtoms.
      sub_check
        (returns (assertSeedRelativeImprovementAtoms (cfg_seedScoreAtoms (config st))
           claimedScoreAtoms improvementAtoms)) Reveal_quarantined
      (and_then (asBigInt (blockTimestamp ev)) (\<lambda>revealedAt.
       and_then (getArg ev ''revealInstanceHash'') (\<lambda>hash.
       and_then
         (case requireNonzeroBytes32 hx hash of
            Inl _ \<Rightarrow> Inl (Submission_error Reveal_instance_hash_invalid) | Inr h \<Rightarrow> Inr h) (\<lambda>revealInstanceHash.
       and_then (arg_int ev ''challengeEndsAt'') (\<lambda>challengeEndsAt.
       and_then (arg_int ev ''solutionBytesLength'') (\<lambda>solutionBytesLength.
         Inr (put_submission st i (sub\<lparr>sub_solutionCid := solutionCid,
            sub_improvementAtoms := improvementAtoms, sub_claimedScoreAtoms := claimedScoreAtoms,
            sub_revealedAt := revealedAt, sub_revealInstanceHash := revealInstanceHash,
            sub_challengeEndsAt := challengeEndsAt,
            sub_maxDisputeEndsAt := challengeEndsAt + cfg_challengeWindowSeconds (config st) * 2,
            sub_solutionBytesLength := Some solutionBytesLength,
            sub_status := Status_Revealed\<rparr>))))))))))))))"

definition replay_SubmissionChallenged :: "replay_state \<Rightarrow> int option \<Rightarrow> event \<Rightarrow> replay_error + replay_state" where
  "replay_SubmissionChallenged st sid ev =
     and_then (requireSubmission st sid) (\<lambda>(i, sub).
     requireStatus sub Status_Revealed
       (Inr (put_submission st i (sub\<lparr>sub_status := Status_Challenged\<rparr>))))"

definition put_hook :: "replay_state \<Rightarrow> event \<Rightarrow> resolution_hook \<Rightarrow> replay_state" where
  "put_hook st ev h =
     st\<lparr>pendingSubmissionResolutionByTx := AList.update (txKey ev) h (pendingSubmissionResolutionByTx st)\<rparr>"

definition replay_SubmissionChallengeResolved ::
    "replay_state \<Rightarrow> int option \<Rightarrow> event \<Rightarrow> replay_error + replay_state" where
  "replay_SubmissionChallengeResolved st sid ev =
     and_then (requireSubmission st sid) (\<lambda>(i, sub).
     requireStatus sub Status_Challenged
     (and_then (arg_bool ev ''challengerWins'') (\<lambda>challengerWins.
      and_then
        (if challengerWins
         then sub_check (0 < openSubmissionCount st) Open_count_underflow_on_resolution
                (Inr ((put_submission st i (sub\<lparr>sub_status := Status_Rejected\<rparr>))
                   \<lparr>openSubmissionCount := openSubmissionCount st - 1\<rparr>))
         else and_then (block_time ev Resolution_without_timestamp) (\<lambda>now.
                (let proposed = now + cfg_challengeWindowSeconds (config st)
                 in Inr (put_submission st i (sub\<lparr>sub_status := Status_Revealed,
                      sub_challengeEndsAt := (if proposed < sub_maxDisputeEndsAt sub then proposed
                                              else sub_maxDisputeEndsAt sub)\<rparr>))))) (\<lambda>st1.
      Inr (put_hook st1 ev (Hook_resolved i challengerWins))))))"

definition replay_SubmissionChallengeCancelled ::
    "replay_state \<Rightarrow> int option \<Rightarrow> event \<Rightarrow> replay_error + replay_state" where
  "replay_SubmissionChallengeCancelled st sid ev =
     and_then (requireSubmission st sid) (\<lambda>(i, sub).
     requireStatus sub Status_Challenged
     (and_then (arg_int ev ''challengeEndsAt'') (\<lambda>challengeEndsAt.
      sub_check (challengeEndsAt \<le> sub_maxDisputeEndsAt sub) Cancel_exceeds_dispute_deadline
        (Inr (put_hook
           (put_submission st i (sub\<lparr>sub_status := Status_Revealed,
              sub_challengeEndsAt := challengeEndsAt\<rparr>)) ev (Hook_cancelled i))))))"

definition replay_SubmissionBondClaimable ::
    "replay_state \<Rightarrow> int option \<Rightarrow> event \<Rightarrow> replay_error + replay_state" where
  "replay_SubmissionBondClaimable st sid ev =
     and_then (requireSubmission st sid) (\<lambda>(i, sub).
     and_then (arg_int ev ''amount'') (\<lambda>amount.
     sub_check (sub_bondWei sub = amount) Claimable_bond_mismatch
     (and_then (getArg ev ''claimant'') (\<lambda>claimant.
        Inr ((put_submission st i (sub\<lparr>sub_bondWei := 0\<rparr>))
          \<lparr>submissionClaimableBondWei := increment (submissionClaimableBondWei st) claimant amount\<rparr>)))))"

text \<open>The credit a finalization earns over the frontier \<open>previousBest\<close>.\<close>

definition marginal_credit :: "int \<Rightarrow> int \<Rightarrow> int \<Rightarrow> int" where
  "marginal_credit minImprovement previousBest claimed =
     (if claimed < previousBest \<and> minImprovement \<le> previousBest - claimed
      then previousBest - claimed else 0)"

definition replay_Finalized :: "replay_state \<Rightarrow> int option \<Rightarrow> event \<Rightarrow> replay_error + replay_state" where
  "replay_Finalized st sid ev =
     and_then (requireSubmission st sid) (\<lambda>(i, sub).
     requireStatus sub Status_Revealed
     (and_then (arg_int ev ''claimedScoreAtoms'') (\<lambda>claimed.
      sub_check (claimed = sub_claimedScoreAtoms sub) Finalized_score_mismatch
      (let previousBest = bestScoreAtoms st;
           marginal = marginal_credit (cfg_minImprovementAtoms (config st)) previousBest claimed;
           expectedBest = (if 0 < marginal then claimed else previousBest)
       in and_then (arg_int ev ''bestScoreAtoms'') (\<lambda>eventBest.
          sub_check (eventBest = expectedBest) Finalized_frontier_mismatch
          (let expectedCredit = (if sub_paidAtCommit sub then marginal else 0)
           in and_then (arg_int ev ''creditAtoms'') (\<lambda>credit.
              sub_check (credit = expectedCredit) Finalized_credit_mismatch
              (and_then (getArg ev ''permanenceHash'') (\<lambda>permanenceHash.
               sub_check (0 < openSubmissionCount st) Open_count_underflow_on_finalize
               (Inr ((put_submission st i (sub\<lparr>sub_permanenceHash := permanenceHash,
                   sub_status := Status_Finalized,
                   sub_finalizeInfo :=
                     \<lparr>fi_prevBestScoreAtoms = previousBest, fi_creditAtoms = credit,
                      fi_prevCreditRecoveryEndsAt =
                        (case map_of (recoveryPriorBySubmission st) (Some i) of
                           None \<Rightarrow> creditRecoveryEndsAt st | Some d \<Rightarrow> d)\<rparr>\<rparr>))
                  \<lparr>bestScoreAtoms := eventBest,
                   openSubmissionCount := openSubmissionCount st - 1\<rparr>)))))))))))"

definition replay_CreditRecoveryWindowAdvanced ::
    "replay_state \<Rightarrow> int option \<Rightarrow> event \<Rightarrow> replay_error + replay_state" where
  "replay_CreditRecoveryWindowAdvanced st sid ev =
     and_then (arg_int ev ''previousEndsAt'') (\<lambda>previous.
     and_then (arg_int ev ''recoveryEndsAt'') (\<lambda>recoveryEndsAt.
     sub_check (previous = creditRecoveryEndsAt st) Recovery_previous_mismatch
       (Inr (st\<lparr>recoveryPriorBySubmission := AList.update sid previous (recoveryPriorBySubmission st),
          creditRecoveryEndsAt := recoveryEndsAt\<rparr>))))"

definition replay_CreditRecoveryWindowRestored :: "replay_state \<Rightarrow> event \<Rightarrow> replay_error + replay_state" where
  "replay_CreditRecoveryWindowRestored st ev =
     and_then (arg_int ev ''previousEndsAt'') (\<lambda>previous.
     and_then (arg_int ev ''restoredEndsAt'') (\<lambda>restored.
     sub_check (previous = creditRecoveryEndsAt st) Restore_source_mismatch
       (Inr (st\<lparr>creditRecoveryEndsAt := restored\<rparr>))))"

definition replay_FinalizeVoided :: "replay_state \<Rightarrow> int option \<Rightarrow> event \<Rightarrow> replay_error + replay_state" where
  "replay_FinalizeVoided st sid ev =
     and_then (requireSubmission st sid) (\<lambda>(i, sub).
     requireStatus sub Status_Finalized
     (sub_check (bestScoreAtoms st = sub_claimedScoreAtoms sub) Void_not_live_frontier
     (and_then (arg_int ev ''creditAtoms'') (\<lambda>credit.
      and_then (arg_int ev ''restoredBestScoreAtoms'') (\<lambda>restored.
      sub_check (credit = fi_creditAtoms (sub_finalizeInfo sub)) Void_credit_mismatch
      (sub_check (restored = fi_prevBestScoreAtoms (sub_finalizeInfo sub)) Void_restored_mismatch
      (and_then (arg_key ev ''solver'') (\<lambda>solver.
         recordFinalizeVoided
           ((put_submission st i (sub\<lparr>sub_status := Status_Voided\<rparr>))\<lparr>bestScoreAtoms := restored\<rparr>) ev
           \<lparr>fv_submissionId = i, fv_solver = solver, fv_atoms = credit, fv_restored = restored\<rparr>))))))))"

definition replay_SubmissionExpired :: "replay_state \<Rightarrow> int option \<Rightarrow> event \<Rightarrow> replay_error + replay_state" where
  "replay_SubmissionExpired st sid ev =
     and_then (requireSubmission st sid) (\<lambda>(i, sub).
     and_then (getArg ev ''previousStatus'') (\<lambda>v.
     and_then (statusName v) (\<lambda>previous.
     requireStatus sub previous
     (sub_check (previous \<in> {Status_Committed, Status_Revealed}) Invalid_expired_status
     (sub_check (0 < openSubmissionCount st) Open_count_underflow_on_expiry
       (Inr ((put_submission st i (sub\<lparr>sub_status := Status_Rejected\<rparr>))
          \<lparr>openSubmissionCount := openSubmissionCount st - 1\<rparr>)))))))"

definition replay_SubmissionBondClaimed :: "replay_state \<Rightarrow> event \<Rightarrow> replay_error + replay_state" where
  "replay_SubmissionBondClaimed st ev =
     and_then (getArg ev ''claimant'') (\<lambda>claimant.
     and_then (arg_int ev ''amount'') (\<lambda>amount.
     and_then (decrement (submissionClaimableBondWei st) claimant amount) (\<lambda>book.
       Inr (st\<lparr>submissionClaimableBondWei := book\<rparr>))))"

definition replaySubmissionEvent ::
    "(string \<Rightarrow> nat \<Rightarrow> bool) \<Rightarrow> submission_event \<Rightarrow> replay_state \<Rightarrow> event \<Rightarrow> replay_error + replay_state" where
  "replaySubmissionEvent hx name st ev =
     and_then (submission_id ev) (\<lambda>sid.
     if pendingFundingAuthorizationVerification st \<noteq> None \<and> name \<noteq> FundingAuthorized
     then Inl (Funding_error Verified_not_followed_by_authorized)
     else
       (case name of
          SubmissionsNewActionsPaused \<Rightarrow> replay_SubmissionsNewActionsPaused st ev
        | AllActionsPaused \<Rightarrow> replay_AllActionsPaused st ev
        | AllActionsPauseRecovered \<Rightarrow> Inr st
        | FundingAuthorizationVerified \<Rightarrow> replay_FundingAuthorizationVerified hx st ev
        | FundingAuthorized \<Rightarrow> replay_FundingAuthorized hx st ev
        | FundingAuthorizationCancelled \<Rightarrow> replay_FundingAuthorizationCancelled hx st ev
        | FundingArmed \<Rightarrow> replay_FundingArmed hx st ev
        | ChallengeManagerSet \<Rightarrow> replay_ChallengeManagerSet st ev
        | Committed \<Rightarrow> replay_Committed st sid ev
        | BondToppedUp \<Rightarrow> replay_BondToppedUp st sid ev
        | Revealed \<Rightarrow> replay_Revealed hx st sid ev
        | SubmissionChallenged \<Rightarrow> replay_SubmissionChallenged st sid ev
        | SubmissionChallengeResolved \<Rightarrow> replay_SubmissionChallengeResolved st sid ev
        | SubmissionChallengeCancelled \<Rightarrow> replay_SubmissionChallengeCancelled st sid ev
        | SubmissionBondClaimable \<Rightarrow> replay_SubmissionBondClaimable st sid ev
        | Finalized \<Rightarrow> replay_Finalized st sid ev
        | CreditRecoveryWindowAdvanced \<Rightarrow> replay_CreditRecoveryWindowAdvanced st sid ev
        | CreditRecoveryWindowRestored \<Rightarrow> replay_CreditRecoveryWindowRestored st ev
        | FinalizeVoided \<Rightarrow> replay_FinalizeVoided st sid ev
        | SubmissionExpired \<Rightarrow> replay_SubmissionExpired st sid ev
        | SubmissionBondClaimed \<Rightarrow> replay_SubmissionBondClaimed st ev))"

end
