(* ===== verification/Replay_Challenges.thy ===== *)
theory Replay_Challenges
  imports Replay_Submissions
begin

text \<open>
  \<open>replayChallengeEvent\<close> and \<open>replayResolverQuorumEvent\<close> of agent/indexer.mjs: disputes, the
  resolver's decision and its bond, the objective fraud proof with its quorum journal, and the
  claimable challenge bonds.
\<close>

abbreviation challenge_check :: "bool \<Rightarrow> challenge_error \<Rightarrow> replay_error + 'a \<Rightarrow> replay_error + 'a" where
  "challenge_check c err k \<equiv> require c (Challenge_error err) k"

definition put_challenge :: "replay_state \<Rightarrow> int \<Rightarrow> challenge \<Rightarrow> replay_state" where
  "put_challenge st i c = st\<lparr>challenges := AList.update i c (challenges st)\<rparr>"

definition drop_challenge :: "replay_state \<Rightarrow> int \<Rightarrow> replay_state" where
  "drop_challenge st i = st\<lparr>challenges := AList.delete i (challenges st)\<rparr>"

definition credit_challenge_bond :: "replay_state \<Rightarrow> jsval \<Rightarrow> int \<Rightarrow> replay_state" where
  "credit_challenge_bond st who n =
     st\<lparr>challengeClaimableBondWei := increment (challengeClaimableBondWei st) who n\<rparr>"

definition resolution_hook_at :: "replay_state \<Rightarrow> event \<Rightarrow> resolution_hook option" where
  "resolution_hook_at st ev = map_of (pendingSubmissionResolutionByTx st) (txKey ev)"

text \<open>\<open>knownChallengeIds.add(id)\<close>: a set keeps the first insertion.\<close>

definition add_known :: "int \<Rightarrow> int list \<Rightarrow> int list" where
  "add_known i ids = (if i \<in> set ids then ids else ids @ [i])"

definition replay_ChallengesNewActionsPaused :: "replay_state \<Rightarrow> event \<Rightarrow> replay_error + replay_state" where
  "replay_ChallengesNewActionsPaused st ev =
     and_then (arg_bool ev ''paused'') (\<lambda>b. Inr (st\<lparr>challengePausedNewActions := b\<rparr>))"

definition replay_Challenged ::
    "(string \<Rightarrow> nat \<Rightarrow> bool) \<Rightarrow> replay_state \<Rightarrow> int option \<Rightarrow> event \<Rightarrow> replay_error + replay_state" where
  "replay_Challenged hx st sid ev =
     challenge_check (case sid of None \<Rightarrow> True | Some i \<Rightarrow> map_of (challenges st) i = None)
       Duplicate_active_challenge
     (challenge_check (blockTimestamp ev \<noteq> JUndefined) Challenged_without_timestamp
     (and_then (requireSubmission st sid) (\<lambda>(i, sub).
      and_then (arg_bytes32 hx ev ''revealInstanceHash'') (\<lambda>revealInstance.
      challenge_check (revealInstance = sub_revealInstanceHash sub) Reveal_instance_mismatch
      (and_then (arg_bytes32 hx ev ''challengeInstanceHash'') (\<lambda>challengeInstance.
       and_then (getArg ev ''challenger'') (\<lambda>challenger.
       and_then (getArg ev ''reasonHash'') (\<lambda>reasonHash.
       and_then (arg_int ev ''bondWei'') (\<lambda>bond.
       and_then (asBigInt (blockTimestamp ev)) (\<lambda>challengedAt.
       and_then (arg_int ev ''disputeEndsAt'') (\<lambda>disputeEndsAt.
         Inr ((put_challenge st i
            \<lparr>ch_submissionId = i, ch_challenger = challenger, ch_reasonHash = reasonHash,
             ch_challengeBondWei = bond, ch_challengedAt = challengedAt,
             ch_disputeEndsAt = disputeEndsAt, ch_resolved = False, ch_decisionPending = False,
             ch_challengerWins = False, ch_transcriptHash = JStr zero_hash,
             ch_transcriptURI = JStr [], ch_verdictHash = JStr zero_hash\<rparr>)
            \<lparr>knownChallengeIds := add_known i (knownChallengeIds st),
             challengeInstances := AList.update i
               \<lparr>ci_revealInstanceHash = revealInstance, ci_challengeInstanceHash = challengeInstance\<rparr>
               (challengeInstances st)\<rparr>))))))))))))"

definition replay_ResolverTranscriptPosted ::
    "(string \<Rightarrow> nat \<Rightarrow> bool) \<Rightarrow> replay_state \<Rightarrow> int option \<Rightarrow> event \<Rightarrow> replay_error + replay_state" where
  "replay_ResolverTranscriptPosted hx st sid ev =
     and_then (requireChallengeInstance hx st sid ev) (\<lambda>i.
     case map_of (challenges st) i of
       None \<Rightarrow> Inl (Challenge_error Transcript_for_absent_challenge)
     | Some c \<Rightarrow>
         challenge_check (\<not> ch_resolved c \<and> \<not> ch_decisionPending c) Transcript_for_absent_challenge
         (and_then (arg_bool ev ''challengerWins'') (\<lambda>challengerWins.
          and_then (getArg ev ''transcriptHash'') (\<lambda>transcriptHash.
          and_then (getArg ev ''transcriptURI'') (\<lambda>transcriptURI.
          and_then (getArg ev ''verdictHash'') (\<lambda>verdictHash.
          and_then (arg_int ev ''resolverBondWei'') (\<lambda>amount.
          and_then (arg_int ev ''resolverBondReleaseAt'') (\<lambda>releaseAt.
            Inr ((put_challenge st i (c\<lparr>ch_decisionPending := True,
                  ch_challengerWins := challengerWins, ch_transcriptHash := transcriptHash,
                  ch_transcriptURI := transcriptURI, ch_verdictHash := verdictHash\<rparr>))
               \<lparr>resolverBonds := AList.update i
                  \<lparr>rb_amountWei = amount, rb_releaseAt = releaseAt,
                   rb_slashProofHash = JStr zero_hash\<rparr> (resolverBonds st)\<rparr>)))))))))"

definition replay_ChallengeExpired ::
    "(string \<Rightarrow> nat \<Rightarrow> bool) \<Rightarrow> replay_state \<Rightarrow> int option \<Rightarrow> event \<Rightarrow> replay_error + replay_state" where
  "replay_ChallengeExpired hx st sid ev =
     and_then (requireChallengeInstance hx st sid ev) (\<lambda>i.
     case map_of (challenges st) i of
       None \<Rightarrow> Inl (Challenge_error Expiration_for_absent_challenge)
     | Some c \<Rightarrow>
         challenge_check (\<not> ch_resolved c) Expiration_for_absent_challenge
         (and_then (arg_int ev ''refundedBondWei'') (\<lambda>refund.
          challenge_check (refund = ch_challengeBondWei c) Expiration_refund_mismatch
          (Inr ((drop_challenge (credit_challenge_bond st (ch_challenger c) refund) i)
             \<lparr>pendingExpiredChallengeTxs := List.insert (txKey ev) (pendingExpiredChallengeTxs st)\<rparr>)))))"

definition replay_Resolved ::
    "(string \<Rightarrow> nat \<Rightarrow> bool) \<Rightarrow> replay_state \<Rightarrow> int option \<Rightarrow> event \<Rightarrow> replay_error + replay_state" where
  "replay_Resolved hx st sid ev =
     and_then (requireChallengeInstance hx st sid ev) (\<lambda>i.
     and_then (arg_bool ev ''challengerWins'') (\<lambda>challengerWins.
     challenge_check (resolution_hook_at st ev = Some (Hook_resolved i challengerWins))
       Resolved_without_hook
     (if txKey ev \<in> set (pendingExpiredChallengeTxs st)
      then challenge_check (\<not> challengerWins \<and> map_of (challenges st) i = None)
             Expired_resolved_inconsistently (Inr st)
      else
        (case map_of (challenges st) i of
           None \<Rightarrow> Inl (Challenge_error Resolved_without_decision)
         | Some c \<Rightarrow>
             challenge_check (ch_decisionPending c) Resolved_without_decision
             (if challengerWins
              then Inr (put_challenge
                     (credit_challenge_bond st (ch_challenger c) (ch_challengeBondWei c)) i
                     (c\<lparr>ch_decisionPending := False, ch_resolved := True, ch_challengerWins := True\<rparr>))
              else Inr (drop_challenge
                     (credit_challenge_bond st (cfg_treasury (config st)) (ch_challengeBondWei c)) i))))))"

definition replay_ResolverBondReleased ::
    "(string \<Rightarrow> nat \<Rightarrow> bool) \<Rightarrow> replay_state \<Rightarrow> int option \<Rightarrow> event \<Rightarrow> replay_error + replay_state" where
  "replay_ResolverBondReleased hx st sid ev =
     and_then (requireChallengeInstance hx st sid ev) (\<lambda>i.
     and_then (arg_int ev ''amount'') (\<lambda>amount.
     case map_of (resolverBonds st) i of
       None \<Rightarrow> Inl (Challenge_error Bond_release_mismatch)
     | Some bond \<Rightarrow>
         challenge_check (rb_amountWei bond = amount) Bond_release_mismatch
         (and_then (getArg ev ''resolver'') (\<lambda>resolver.
            Inr ((credit_challenge_bond st resolver amount)
              \<lparr>resolverBonds := AList.update i (bond\<lparr>rb_amountWei := 0\<rparr>) (resolverBonds st)\<rparr>)))))"

definition replay_ResolverDecisionCancelled ::
    "(string \<Rightarrow> nat \<Rightarrow> bool) \<Rightarrow> replay_state \<Rightarrow> int option \<Rightarrow> event \<Rightarrow> replay_error + replay_state" where
  "replay_ResolverDecisionCancelled hx st sid ev =
     and_then (requireChallengeInstance hx st sid ev) (\<lambda>i.
     case map_of (challenges st) i of
       None \<Rightarrow> Inl (Challenge_error Cancelled_decision_missing)
     | Some c \<Rightarrow>
         challenge_check (ch_decisionPending c) Cancelled_decision_missing
         (challenge_check (resolution_hook_at st ev = Some (Hook_cancelled i)) Cancellation_without_hook
         (and_then (arg_key ev ''challenger'') (\<lambda>challenger.
          challenge_check (addressKey (ch_challenger c) = challenger) Cancellation_challenger_mismatch
          (Inr (drop_challenge
             (credit_challenge_bond st (ch_challenger c) (ch_challengeBondWei c)) i))))))"

definition replay_ResolverBondSlashed ::
    "(string \<Rightarrow> nat \<Rightarrow> bool) \<Rightarrow> replay_state \<Rightarrow> int option \<Rightarrow> event \<Rightarrow> replay_error + replay_state" where
  "replay_ResolverBondSlashed hx st sid ev =
     and_then (requireChallengeInstance hx st sid ev) (\<lambda>i.
     and_then (arg_int ev ''amount'') (\<lambda>amount.
     case map_of (resolverBonds st) i of
       None \<Rightarrow> Inl (Challenge_error Bond_slash_mismatch)
     | Some bond \<Rightarrow>
         challenge_check (rb_amountWei bond = amount) Bond_slash_mismatch
         (and_then (getArg ev ''proofHash'') (\<lambda>proofHash.
          and_then (getArg ev ''beneficiary'') (\<lambda>beneficiary.
            Inr ((credit_challenge_bond st beneficiary amount)
              \<lparr>resolverBonds := AList.update i
                 (bond\<lparr>rb_amountWei := 0, rb_slashProofHash := proofHash\<rparr>) (resolverBonds st)\<rparr>))))))"

text \<open>
  The proof of objective fraud. A solver win reopens the finalization of the submission at once:
  its challenge window ends now and the reveal instance it clears is remembered.
\<close>

definition clear_reveal :: "replay_state \<Rightarrow> int \<Rightarrow> event \<Rightarrow> replay_error + replay_state" where
  "clear_reveal st i ev =
     (case map_of (submissions st) i of
        None \<Rightarrow> Inl (Challenge_error Solver_win_not_revealed)
      | Some sub \<Rightarrow>
          challenge_check (sub_status sub = Status_Revealed) Solver_win_not_revealed
          (and_then (asBigInt (blockTimestamp ev)) (\<lambda>now.
             Inr (put_submission st i (sub\<lparr>sub_challengeEndsAt := now,
               sub_objectiveClearedRevealInstanceHash := Some (sub_revealInstanceHash sub)\<rparr>)))))"

definition replay_ObjectiveFraudProven ::
    "(string \<Rightarrow> nat \<Rightarrow> bool) \<Rightarrow> replay_state \<Rightarrow> int option \<Rightarrow> event \<Rightarrow> replay_error + replay_state" where
  "replay_ObjectiveFraudProven hx st sid ev =
     and_then (requireChallengeInstance hx st sid ev) (\<lambda>i.
     and_then (arg_bool ev ''correctedChallengerWins'') (\<lambda>corrected.
     and_then (arg_bytes32 hx ev ''proofHash'') (\<lambda>proofHash.
     case map_of (challenges st) i of
       None \<Rightarrow> Inl (Challenge_error Proof_without_decision)
     | Some c \<Rightarrow>
         challenge_check (ch_decisionPending c) Proof_without_decision
         (challenge_check (ch_challengerWins c \<noteq> corrected) Proof_not_contradictory
         (challenge_check (resolution_hook_at st ev = Some (Hook_resolved i corrected)) Proof_without_hook
         (challenge_check
           (case map_of (resolverBonds st) i of None \<Rightarrow> False
            | Some bond \<Rightarrow> rb_amountWei bond = 0 \<and> rb_slashProofHash bond = JStr proofHash)
           Proof_without_slash
         (and_then (arg_key ev ''proofBeneficiary'') (\<lambda>beneficiary.
          and_then (getArg ev ''challengeInstanceHash'') (\<lambda>instanceHash.
          (let st1 = st\<lparr>pendingObjectiveProofByTx := AList.update (txKey ev)
                 \<lparr>op_id = i, op_proofHash = proofHash, op_correctedChallengerWins = corrected,
                  op_proofBeneficiary = beneficiary, op_challengeInstanceHash = instanceHash,
                  op_quorumJournalSeen = False\<rparr> (pendingObjectiveProofByTx st)\<rparr>
           in if corrected then Inr st1 else clear_reveal st1 i ev)))))))))) "

definition replay_ChallengeBondClaimed :: "replay_state \<Rightarrow> event \<Rightarrow> replay_error + replay_state" where
  "replay_ChallengeBondClaimed st ev =
     and_then (getArg ev ''claimant'') (\<lambda>claimant.
     and_then (arg_int ev ''amount'') (\<lambda>amount.
     and_then (decrement (challengeClaimableBondWei st) claimant amount) (\<lambda>book.
       Inr (st\<lparr>challengeClaimableBondWei := book\<rparr>))))"

definition replayChallengeEvent ::
    "(string \<Rightarrow> nat \<Rightarrow> bool) \<Rightarrow> challenge_event \<Rightarrow> replay_state \<Rightarrow> event \<Rightarrow> replay_error + replay_state" where
  "replayChallengeEvent hx name st ev =
     and_then (submission_id ev) (\<lambda>sid.
       case name of
         ChallengesNewActionsPaused \<Rightarrow> replay_ChallengesNewActionsPaused st ev
       | Challenged \<Rightarrow> replay_Challenged hx st sid ev
       | ResolverDecisionPosted \<Rightarrow> replay_ResolverTranscriptPosted hx st sid ev
       | ResolverTranscriptPosted \<Rightarrow> replay_ResolverTranscriptPosted hx st sid ev
       | ChallengeExpired \<Rightarrow> replay_ChallengeExpired hx st sid ev
       | Resolved \<Rightarrow> replay_Resolved hx st sid ev
       | ResolverBondReleased \<Rightarrow> replay_ResolverBondReleased hx st sid ev
       | ResolverDecisionCancelled \<Rightarrow> replay_ResolverDecisionCancelled hx st sid ev
       | ResolverBondSlashed \<Rightarrow> replay_ResolverBondSlashed hx st sid ev
       | ChallengesObjectiveFraudProven \<Rightarrow> replay_ObjectiveFraudProven hx st sid ev
       | ChallengeBondClaimed \<Rightarrow> replay_ChallengeBondClaimed st ev)"

section \<open>The quorum's public journal\<close>

abbreviation quorum_check :: "bool \<Rightarrow> quorum_error \<Rightarrow> replay_error + 'a \<Rightarrow> replay_error + 'a" where
  "quorum_check c err k \<equiv> require c (Quorum_error err) k"

definition replayResolverQuorumEvent ::
    "(string \<Rightarrow> nat \<Rightarrow> bool) \<Rightarrow> replay_state \<Rightarrow> event \<Rightarrow> replay_error + replay_state" where
  "replayResolverQuorumEvent hx st ev =
     (case map_of (pendingObjectiveProofByTx st) (txKey ev) of
        None \<Rightarrow> Inl (Quorum_error Journal_without_proof)
      | Some pending \<Rightarrow>
          and_then (arg_key ev ''manager'') (\<lambda>manager.
          quorum_check (manager = addressKey (cfg_challengeManager (config st))) Journal_manager_mismatch
          (and_then (arg_int ev ''submissionId'') (\<lambda>sid.
           quorum_check (sid = op_id pending) Journal_submission_mismatch
           (and_then (arg_key ev ''challengeInstanceHash'') (\<lambda>instanceHash.
            quorum_check (instanceHash = addressKey (op_challengeInstanceHash pending))
              Journal_challenge_mismatch
            (and_then (arg_key ev ''proofHash'') (\<lambda>proofHash.
             quorum_check (proofHash = to_lower (op_proofHash pending)) Journal_proof_mismatch
             (and_then (arg_bool ev ''correctedChallengerWins'') (\<lambda>corrected.
              quorum_check (corrected = op_correctedChallengerWins pending) Journal_outcome_mismatch
              (and_then (arg_key ev ''proofBeneficiary'') (\<lambda>beneficiary.
               quorum_check (beneficiary = op_proofBeneficiary pending) Journal_beneficiary_mismatch
               (and_then (arg_bytes32 hx ev ''journalDigest'') (\<lambda>_.
                 Inr (st\<lparr>pendingObjectiveProofByTx := AList.update (txKey ev)
                   (pending\<lparr>op_quorumJournalSeen := True\<rparr>) (pendingObjectiveProofByTx st)\<rparr>)))))))))))))))"

end
