(* ===== verification/Submission_Inv.thy ===== *)
theory Submission_Inv
  imports Replay_Challenges
begin

text \<open>
  What every submission and challenge event keeps true of the submissions: the counters agree with
  the records (\<open>submission_counts\<close>), statuses move only along the life cycle (\<open>status_step\<close>),
  the frontier stays at or below the seed and credits are never negative (\<open>frontier_inv\<close>), and
  bonds are moved, never created or lost (\<open>submission_bonds\<close>).
\<close>

lemmas submission_handler_defs =
  replay_SubmissionsNewActionsPaused_def replay_AllActionsPaused_def replay_ChallengeManagerSet_def
  replay_Committed_def replay_BondToppedUp_def replay_Revealed_def replay_SubmissionChallenged_def
  replay_SubmissionChallengeResolved_def replay_SubmissionChallengeCancelled_def
  replay_SubmissionBondClaimable_def replay_Finalized_def replay_CreditRecoveryWindowAdvanced_def
  replay_CreditRecoveryWindowRestored_def replay_FinalizeVoided_def replay_SubmissionExpired_def
  replay_SubmissionBondClaimed_def put_submission_def put_hook_def block_time_def
  recordFinalizeVoided_Inr

lemmas challenge_handler_defs =
  replay_ChallengesNewActionsPaused_def replay_Challenged_def replay_ResolverTranscriptPosted_def
  replay_ChallengeExpired_def replay_Resolved_def replay_ResolverBondReleased_def
  replay_ResolverDecisionCancelled_def replay_ResolverBondSlashed_def
  replay_ObjectiveFraudProven_def clear_reveal_def replay_ChallengeBondClaimed_def
  put_challenge_def drop_challenge_def credit_challenge_bond_def put_submission_def

lemmas step_splits = if_splits prod.splits

section \<open>How one submission event changes the submissions\<close>

text \<open>
  Every event leaves the submissions alone, adds the next one, or replaces one record; this is the
  shape the invariants are proved from.
\<close>

inductive submission_change :: "replay_state \<Rightarrow> replay_state \<Rightarrow> bool" where
  same: "submissions st' = submissions st \<Longrightarrow> submissionCount st' = submissionCount st \<Longrightarrow>
     openSubmissionCount st' = openSubmissionCount st \<Longrightarrow> bestScoreAtoms st' = bestScoreAtoms st \<Longrightarrow>
     submission_change st st'"
| commit: "submissionCount st' = submissionCount st + 1 \<Longrightarrow>
     map_of (submissions st) (submissionCount st + 1) = None \<Longrightarrow>
     submissions st' = AList.update (submissionCount st + 1) sub (submissions st) \<Longrightarrow>
     sub_status sub = Status_Committed \<Longrightarrow>
     sub_finalizeInfo sub = \<lparr>fi_prevBestScoreAtoms = 0, fi_creditAtoms = 0,
       fi_prevCreditRecoveryEndsAt = 0\<rparr> \<Longrightarrow>
     openSubmissionCount st' = openSubmissionCount st + 1 \<Longrightarrow>
     bestScoreAtoms st' = bestScoreAtoms st \<Longrightarrow>
     submission_change st st'"
| modify: "map_of (submissions st) i = Some sub \<Longrightarrow>
     submissions st' = AList.update i sub' (submissions st) \<Longrightarrow>
     sub_finalizeInfo sub' = sub_finalizeInfo sub \<Longrightarrow>
     sub_status sub' = sub_status sub \<or>
     (sub_status sub, sub_status sub') \<in> {(Status_Committed, Status_Revealed),
       (Status_Revealed, Status_Challenged), (Status_Challenged, Status_Revealed)} \<Longrightarrow>
     submissionCount st' = submissionCount st \<Longrightarrow> openSubmissionCount st' = openSubmissionCount st \<Longrightarrow>
     bestScoreAtoms st' = bestScoreAtoms st \<Longrightarrow>
     submission_change st st'"
| reject: "map_of (submissions st) i = Some sub \<Longrightarrow>
     submissions st' = AList.update i sub' (submissions st) \<Longrightarrow>
     sub_finalizeInfo sub' = sub_finalizeInfo sub \<Longrightarrow>
     sub_status sub \<in> {Status_Committed, Status_Revealed, Status_Challenged} \<Longrightarrow>
     sub_status sub' = Status_Rejected \<Longrightarrow>
     submissionCount st' = submissionCount st \<Longrightarrow>
     openSubmissionCount st' = openSubmissionCount st - 1 \<Longrightarrow>
     bestScoreAtoms st' = bestScoreAtoms st \<Longrightarrow>
     submission_change st st'"
| finalize: "map_of (submissions st) i = Some sub \<Longrightarrow>
     submissions st' = AList.update i sub' (submissions st) \<Longrightarrow>
     sub_status sub = Status_Revealed \<Longrightarrow> sub_status sub' = Status_Finalized \<Longrightarrow>
     fi_prevBestScoreAtoms (sub_finalizeInfo sub') = bestScoreAtoms st \<Longrightarrow>
     fi_creditAtoms (sub_finalizeInfo sub') =
       (if sub_paidAtCommit sub
        then marginal_credit (cfg_minImprovementAtoms (config st)) (bestScoreAtoms st)
               (sub_claimedScoreAtoms sub) else 0) \<Longrightarrow>
     bestScoreAtoms st' =
       (if 0 < marginal_credit (cfg_minImprovementAtoms (config st)) (bestScoreAtoms st)
               (sub_claimedScoreAtoms sub) then sub_claimedScoreAtoms sub else bestScoreAtoms st) \<Longrightarrow>
     submissionCount st' = submissionCount st \<Longrightarrow>
     openSubmissionCount st' = openSubmissionCount st - 1 \<Longrightarrow>
     submission_change st st'"
| void: "map_of (submissions st) i = Some sub \<Longrightarrow>
     submissions st' = AList.update i sub' (submissions st) \<Longrightarrow>
     sub_finalizeInfo sub' = sub_finalizeInfo sub \<Longrightarrow>
     sub_status sub = Status_Finalized \<Longrightarrow> sub_status sub' = Status_Voided \<Longrightarrow>
     bestScoreAtoms st = sub_claimedScoreAtoms sub \<Longrightarrow>
     bestScoreAtoms st' = fi_prevBestScoreAtoms (sub_finalizeInfo sub) \<Longrightarrow>
     submissionCount st' = submissionCount st \<Longrightarrow> openSubmissionCount st' = openSubmissionCount st \<Longrightarrow>
     submission_change st st'"

lemma change_Committed:
  "replay_Committed st sid ev = Inr st' \<Longrightarrow> submission_change st st'"
  by (auto simp: replay_Committed_def put_submission_def intro!: submission_change.commit)

lemma change_SubmissionExpired:
  "replay_SubmissionExpired st sid ev = Inr st' \<Longrightarrow> submission_change st st'"
  by (auto simp: replay_SubmissionExpired_def put_submission_def intro!: submission_change.reject)

lemma change_Finalized:
  "replay_Finalized st sid ev = Inr st' \<Longrightarrow> submission_change st st'"
  by (auto simp: replay_Finalized_def put_submission_def Let_def intro!: submission_change.finalize)

lemma change_FinalizeVoided:
  "replay_FinalizeVoided st sid ev = Inr st' \<Longrightarrow> submission_change st st'"
  by (auto simp: replay_FinalizeVoided_def put_submission_def recordFinalizeVoided_Inr Let_def
      intro!: submission_change.void)

lemma change_Revealed:
  "replay_Revealed hx st sid ev = Inr st' \<Longrightarrow> submission_change st st'"
  by (auto simp: replay_Revealed_def put_submission_def intro!: submission_change.modify)

lemma change_BondToppedUp:
  "replay_BondToppedUp st sid ev = Inr st' \<Longrightarrow> submission_change st st'"
  by (auto simp: replay_BondToppedUp_def put_submission_def intro!: submission_change.modify)

lemma change_SubmissionChallenged:
  "replay_SubmissionChallenged st sid ev = Inr st' \<Longrightarrow> submission_change st st'"
  by (auto simp: replay_SubmissionChallenged_def put_submission_def intro!: submission_change.modify)

lemma change_SubmissionChallengeCancelled:
  "replay_SubmissionChallengeCancelled st sid ev = Inr st' \<Longrightarrow> submission_change st st'"
  by (auto simp: replay_SubmissionChallengeCancelled_def put_submission_def put_hook_def
      intro!: submission_change.modify)

lemma change_SubmissionBondClaimable:
  "replay_SubmissionBondClaimable st sid ev = Inr st' \<Longrightarrow> submission_change st st'"
  by (auto simp: replay_SubmissionBondClaimable_def put_submission_def intro!: submission_change.modify)

lemma change_SubmissionChallengeResolved:
  assumes "replay_SubmissionChallengeResolved st sid ev = Inr st'"
  shows "submission_change st st'"
proof (cases "arg_bool ev ''challengerWins'' = Inr True")
  case True
  with assms show ?thesis
    by (auto simp: replay_SubmissionChallengeResolved_def put_submission_def put_hook_def
        intro!: submission_change.reject)
next
  case False
  with assms obtain i sub ends where "map_of (submissions st) i = Some sub"
    and "sub_status sub = Status_Challenged"
    and "submissions st' = AList.update i
      (sub\<lparr>sub_status := Status_Revealed, sub_challengeEndsAt := ends\<rparr>) (submissions st)"
    and "submissionCount st' = submissionCount st"
    and "openSubmissionCount st' = openSubmissionCount st" "bestScoreAtoms st' = bestScoreAtoms st"
    by (auto simp: replay_SubmissionChallengeResolved_def put_submission_def put_hook_def Let_def)
  then show ?thesis by (auto intro: submission_change.modify)
qed

lemma change_SubmissionsNewActionsPaused:
  "replay_SubmissionsNewActionsPaused st ev = Inr st' \<Longrightarrow> submission_change st st'"
  by (rule submission_change.same) (auto simp: replay_SubmissionsNewActionsPaused_def split: if_splits)

lemma change_AllActionsPaused:
  "replay_AllActionsPaused st ev = Inr st' \<Longrightarrow> submission_change st st'"
  by (rule submission_change.same) (auto simp: replay_AllActionsPaused_def block_time_def split: if_splits)

lemma change_ChallengeManagerSet:
  "replay_ChallengeManagerSet st ev = Inr st' \<Longrightarrow> submission_change st st'"
  by (rule submission_change.same) (auto simp: replay_ChallengeManagerSet_def split: if_splits)

lemma change_CreditRecoveryWindowAdvanced:
  "replay_CreditRecoveryWindowAdvanced st sid ev = Inr st' \<Longrightarrow> submission_change st st'"
  by (rule submission_change.same) (auto simp: replay_CreditRecoveryWindowAdvanced_def split: if_splits)

lemma change_CreditRecoveryWindowRestored:
  "replay_CreditRecoveryWindowRestored st ev = Inr st' \<Longrightarrow> submission_change st st'"
  by (rule submission_change.same) (auto simp: replay_CreditRecoveryWindowRestored_def split: if_splits)

lemma change_SubmissionBondClaimed:
  "replay_SubmissionBondClaimed st ev = Inr st' \<Longrightarrow> submission_change st st'"
  by (rule submission_change.same) (auto simp: replay_SubmissionBondClaimed_def split: if_splits)

lemma change_FundingAuthorizationVerified:
  "replay_FundingAuthorizationVerified hx st ev = Inr st' \<Longrightarrow> submission_change st st'"
  by (rule submission_change.same) (auto simp: replay_FundingAuthorizationVerified_def split: if_splits)

lemma change_FundingAuthorized:
  "replay_FundingAuthorized hx st ev = Inr st' \<Longrightarrow> submission_change st st'"
  by (rule submission_change.same) (auto simp: replay_FundingAuthorized_def split: if_splits)

lemma change_FundingAuthorizationCancelled:
  "replay_FundingAuthorizationCancelled hx st ev = Inr st' \<Longrightarrow> submission_change st st'"
  by (rule submission_change.same) (auto simp: replay_FundingAuthorizationCancelled_def split: if_splits)

lemma change_FundingArmed:
  "replay_FundingArmed hx st ev = Inr st' \<Longrightarrow> submission_change st st'"
  by (rule submission_change.same) (auto simp: replay_FundingArmed_def split: if_splits)

lemmas submission_changes =
  change_Committed change_SubmissionExpired change_Finalized change_FinalizeVoided change_Revealed
  change_BondToppedUp change_SubmissionChallenged change_SubmissionChallengeCancelled
  change_SubmissionBondClaimable change_SubmissionChallengeResolved
  change_SubmissionsNewActionsPaused change_AllActionsPaused change_ChallengeManagerSet
  change_CreditRecoveryWindowAdvanced change_CreditRecoveryWindowRestored change_SubmissionBondClaimed
  change_FundingAuthorizationVerified change_FundingAuthorized change_FundingAuthorizationCancelled
  change_FundingArmed

lemma submission_event_change:
  assumes "replaySubmissionEvent hx name st ev = Inr st'"
  shows "submission_change st st'"
  using assms
  by (cases name)
    (auto simp: replaySubmissionEvent_def submission_change.same split: if_splits
      dest!: submission_changes)

lemmas challenge_state_defs =
  put_challenge_def drop_challenge_def credit_challenge_bond_def

lemma change_ChallengesNewActionsPaused:
  "replay_ChallengesNewActionsPaused st ev = Inr st' \<Longrightarrow> submission_change st st'"
  by (rule submission_change.same)
    (auto simp: replay_ChallengesNewActionsPaused_def challenge_state_defs if_Inr)

lemma change_Challenged:
  "replay_Challenged hx st sid ev = Inr st' \<Longrightarrow> submission_change st st'"
  by (rule submission_change.same)
    (auto simp: replay_Challenged_def challenge_state_defs if_Inr)

lemma change_ResolverTranscriptPosted:
  "replay_ResolverTranscriptPosted hx st sid ev = Inr st' \<Longrightarrow> submission_change st st'"
  by (rule submission_change.same)
    (auto simp: replay_ResolverTranscriptPosted_def challenge_state_defs if_Inr)

lemma change_ChallengeExpired:
  "replay_ChallengeExpired hx st sid ev = Inr st' \<Longrightarrow> submission_change st st'"
  by (rule submission_change.same)
    (auto simp: replay_ChallengeExpired_def challenge_state_defs if_Inr)

lemma change_Resolved:
  "replay_Resolved hx st sid ev = Inr st' \<Longrightarrow> submission_change st st'"
  by (rule submission_change.same)
    (auto simp: replay_Resolved_def challenge_state_defs if_Inr)

lemma change_ResolverBondReleased:
  "replay_ResolverBondReleased hx st sid ev = Inr st' \<Longrightarrow> submission_change st st'"
  by (rule submission_change.same)
    (auto simp: replay_ResolverBondReleased_def challenge_state_defs if_Inr)

lemma change_ResolverDecisionCancelled:
  "replay_ResolverDecisionCancelled hx st sid ev = Inr st' \<Longrightarrow> submission_change st st'"
  by (rule submission_change.same)
    (auto simp: replay_ResolverDecisionCancelled_def challenge_state_defs if_Inr)

lemma change_ResolverBondSlashed:
  "replay_ResolverBondSlashed hx st sid ev = Inr st' \<Longrightarrow> submission_change st st'"
  by (rule submission_change.same)
    (auto simp: replay_ResolverBondSlashed_def challenge_state_defs if_Inr)

lemma change_ChallengeBondClaimed:
  "replay_ChallengeBondClaimed st ev = Inr st' \<Longrightarrow> submission_change st st'"
  by (rule submission_change.same)
    (auto simp: replay_ChallengeBondClaimed_def challenge_state_defs if_Inr)

lemma change_ObjectiveFraudProven:
  assumes "replay_ObjectiveFraudProven hx st sid ev = Inr st'"
  shows "submission_change st st'"
proof (cases "submissions st' = submissions st")
  case True
  with assms show ?thesis
    by (intro submission_change.same)
      (auto simp: replay_ObjectiveFraudProven_def clear_reveal_def put_submission_def Let_def if_Inr)
next
  case False
  with assms obtain i sub ends cleared where "map_of (submissions st) i = Some sub"
    and "submissions st' = AList.update i (sub\<lparr>sub_challengeEndsAt := ends,
      sub_objectiveClearedRevealInstanceHash := cleared\<rparr>) (submissions st)"
    and "submissionCount st' = submissionCount st"
    and "openSubmissionCount st' = openSubmissionCount st" "bestScoreAtoms st' = bestScoreAtoms st"
    by (auto simp: replay_ObjectiveFraudProven_def clear_reveal_def put_submission_def Let_def
        if_Inr)
  then show ?thesis by (auto intro: submission_change.modify)
qed

lemmas challenge_changes =
  change_ChallengesNewActionsPaused change_Challenged change_ResolverTranscriptPosted
  change_ChallengeExpired change_Resolved change_ResolverBondReleased
  change_ResolverDecisionCancelled change_ResolverBondSlashed change_ChallengeBondClaimed
  change_ObjectiveFraudProven

lemma challenge_event_change:
  assumes "replayChallengeEvent hx name st ev = Inr st'"
  shows "submission_change st st'"
  using assms
  by (cases name) (auto simp: replayChallengeEvent_def dest!: challenge_changes)

section \<open>The counters\<close>

definition is_open :: "submission_status \<Rightarrow> bool" where
  "is_open s \<longleftrightarrow> s \<in> {Status_Committed, Status_Revealed, Status_Challenged}"

definition open_weight :: "submission \<Rightarrow> int" where
  "open_weight sub = (if is_open (sub_status sub) then 1 else 0)"

definition submission_counts :: "replay_state \<Rightarrow> bool" where
  "submission_counts st \<longleftrightarrow>
     book_ok (submissions st) \<and> 0 \<le> submissionCount st \<and>
     dom (map_of (submissions st)) = {1..submissionCount st} \<and>
     openSubmissionCount st = wsum open_weight (submissions st)"

lemma submission_counts_replace:
  assumes "submission_counts st" and "map_of (submissions st) i = Some sub"
    and "submissions st' = AList.update i sub' (submissions st)"
    and "submissionCount st' = submissionCount st"
    and "openSubmissionCount st' = openSubmissionCount st - open_weight sub + open_weight sub'"
  shows "submission_counts st'"
proof -
  have "insert i {1..submissionCount st} = {1..submissionCount st}"
    using assms(1,2) unfolding submission_counts_def by (metis domI insert_absorb)
  then show ?thesis
    using assms by (simp add: submission_counts_def wsum_update wbal_def)
qed

lemma submission_change_counts:
  "submission_change st st' \<Longrightarrow> submission_counts st \<Longrightarrow> submission_counts st'"
proof (induction rule: submission_change.induct)
  case (same st' st)
  then show ?case by (simp add: submission_counts_def)
next
  case (commit st' st sub)
  then show ?case
    by (simp add: submission_counts_def wsum_update wbal_def open_weight_def is_open_def
        atLeastAtMost_plus1)
qed (auto elim!: submission_counts_replace simp: open_weight_def is_open_def)

lemma submission_counts_length:
  assumes "submission_counts st"
  shows "int (length (submissions st)) = submissionCount st"
proof -
  have "card (dom (map_of (submissions st))) = length (submissions st)"
    using assms by (metis book_ok_def card_image distinct_card distinct_map dom_map_of_conv_image_fst submission_counts_def length_map list.set_map)
  moreover have "dom (map_of (submissions st)) = {1..submissionCount st}"
    and "0 \<le> submissionCount st"
    using assms by (simp_all add: submission_counts_def)
  ultimately show ?thesis by simp
qed

text \<open>An open submission is counted, so the guards against an underflow never fire.\<close>

lemma open_submission_counted:
  assumes "submission_counts st" and "map_of (submissions st) i = Some sub"
    and "is_open (sub_status sub)"
  shows "0 < openSubmissionCount st"
proof -
  have "open_weight sub \<le> wsum open_weight (submissions st)"
    by (rule wsum_member_le[OF _ assms(2)]) (simp add: open_weight_def)
  then show ?thesis using assms by (simp add: submission_counts_def open_weight_def)
qed

section \<open>The life cycle\<close>

inductive status_step :: "submission_status \<Rightarrow> submission_status \<Rightarrow> bool" where
  reveal: "status_step Status_Committed Status_Revealed"
| expire_commit: "status_step Status_Committed Status_Rejected"
| challenge: "status_step Status_Revealed Status_Challenged"
| reopen: "status_step Status_Challenged Status_Revealed"
| reject: "status_step Status_Challenged Status_Rejected"
| expire_reveal: "status_step Status_Revealed Status_Rejected"
| finalize: "status_step Status_Revealed Status_Finalized"
| void: "status_step Status_Finalized Status_Voided"

code_pred status_step .

inductive_cases status_step_from_Rejected: "status_step Status_Rejected s"
inductive_cases status_step_from_Voided: "status_step Status_Voided s"
inductive_cases status_step_from_Finalized: "status_step Status_Finalized s"
inductive_simps status_step_to_Committed: "status_step s Status_Committed"

lemma submission_change_status:
  assumes "submission_change st st'" and "map_of (submissions st) i = Some sub"
  shows "\<exists>sub'. map_of (submissions st') i = Some sub' \<and>
     (sub_status sub' = sub_status sub \<or> status_step (sub_status sub) (sub_status sub'))"
  using assms
  by (induction rule: submission_change.induct) (auto intro: status_step.intros)

text \<open>The life-cycle order: what a status can become over any number of events.\<close>

definition life_cycle :: "replay_state \<Rightarrow> replay_state \<Rightarrow> bool" where
  "life_cycle st st' \<longleftrightarrow>
     (\<forall>i sub. map_of (submissions st) i = Some sub \<longrightarrow>
        (\<exists>sub'. map_of (submissions st') i = Some sub' \<and>
           status_step\<^sup>*\<^sup>* (sub_status sub) (sub_status sub')))"

lemma life_cycle_refl: "life_cycle st st"
  by (simp add: life_cycle_def)

lemma life_cycle_trans: "life_cycle st st' \<Longrightarrow> life_cycle st' st'' \<Longrightarrow> life_cycle st st''"
  unfolding life_cycle_def by (meson rtranclp_trans)

lemma submission_change_life_cycle: "submission_change st st' \<Longrightarrow> life_cycle st st'"
  unfolding life_cycle_def by (metis submission_change_status r_into_rtranclp rtranclp.rtrancl_refl)

lemma terminal_status:
  "status_step\<^sup>*\<^sup>* s s' \<Longrightarrow> s \<in> {Status_Rejected, Status_Voided} \<Longrightarrow> s' = s"
  by (induction rule: rtranclp_induct)
    (auto elim: status_step_from_Rejected status_step_from_Voided)

lemma finalized_status:
  "status_step\<^sup>*\<^sup>* s s' \<Longrightarrow> s = Status_Finalized \<Longrightarrow> s' \<in> {Status_Finalized, Status_Voided}"
  by (induction rule: rtranclp_induct)
    (auto elim: status_step_from_Finalized status_step_from_Voided)

section \<open>The frontier\<close>

lemma marginal_credit_nonneg [simp]: "0 \<le> marginal_credit m p c"
  by (simp add: marginal_credit_def)

lemma marginal_credit_pos:
  "0 < marginal_credit m p c \<longleftrightarrow> c < p \<and> m \<le> p - c"
  by (auto simp: marginal_credit_def)

definition was_finalized :: "submission \<Rightarrow> bool" where
  "was_finalized sub \<longleftrightarrow> sub_status sub \<in> {Status_Finalized, Status_Voided}"

definition settled_below :: "int \<Rightarrow> int \<Rightarrow> submission \<Rightarrow> bool" where
  "settled_below seed minImprovement sub \<longleftrightarrow>
     (let credit = fi_creditAtoms (sub_finalizeInfo sub) in 0 \<le> credit \<and> (credit = 0 \<or> minImprovement \<le> credit)) \<and>
     (was_finalized sub \<longrightarrow> fi_prevBestScoreAtoms (sub_finalizeInfo sub) \<le> seed)"

definition frontier_inv :: "int \<Rightarrow> int \<Rightarrow> replay_state \<Rightarrow> bool" where
  "frontier_inv seed minImprovement st \<longleftrightarrow>
     bestScoreAtoms st \<le> seed \<and> all_vals (settled_below seed minImprovement) (submissions st)"

lemma marginal_credit_min: "marginal_credit m p c = 0 \<or> m \<le> marginal_credit m p c"
  by (simp add: marginal_credit_def)

lemma frontier_inv_member:
  "frontier_inv seed m st \<Longrightarrow> map_of (submissions st) i = Some sub \<Longrightarrow> settled_below seed m sub"
  by (auto simp: frontier_inv_def dest: all_valsD)

lemma submission_change_frontier:
  "submission_change st st' \<Longrightarrow> frontier_inv seed m st \<Longrightarrow> cfg_minImprovementAtoms (config st) = m \<Longrightarrow>
   frontier_inv seed m st'"
proof (induction rule: submission_change.induct)
  case (finalize st i sub st' sub')
  have "settled_below seed m sub'"
    using finalize marginal_credit_min[of m "bestScoreAtoms st" "sub_claimedScoreAtoms sub"]
    by (simp add: frontier_inv_def settled_below_def Let_def)
  then show ?case
    using finalize by (auto simp: frontier_inv_def marginal_credit_pos intro: all_vals_update)
next
  case (void st i sub st' sub')
  then show ?case
    using frontier_inv_member[OF void.prems(1) void.hyps(1)]
    by (auto simp: frontier_inv_def settled_below_def was_finalized_def intro: all_vals_update)
next
  case (modify st i sub st' sub')
  then show ?case
    using frontier_inv_member[OF modify.prems(1) modify.hyps(1)]
    by (auto simp: frontier_inv_def settled_below_def was_finalized_def intro: all_vals_update)
next
  case (reject st i sub st' sub')
  then show ?case
    using frontier_inv_member[OF reject.prems(1) reject.hyps(1)]
    by (auto simp: frontier_inv_def settled_below_def was_finalized_def intro: all_vals_update)
qed (auto simp: frontier_inv_def settled_below_def was_finalized_def Let_def intro: all_vals_update)

end
