(* ===== verification/Replay_Frames.thy ===== *)
theory Replay_Frames
  imports Submission_Inv
begin

text \<open>
  Frames: which parts of the replay state the submission, challenge and quorum reducers leave
  alone, and the bonds they move. One lemma per handler, collected for the dispatchers.
\<close>

section \<open>Frames of the submission reducer\<close>

lemmas submission_state_defs =
  put_submission_def put_hook_def block_time_def recordFinalizeVoided_Inr Let_def if_Inr

text \<open>Everything a submission event does not touch.\<close>

definition submission_rest where
  "submission_rest st =
     (config st, coverage st, eventCounts st, pool st, ledger st, registry st, rolloverVault st,
      challenges st, knownChallengeIds st, challengeInstances st, resolverBonds st,
      challengeClaimableBondWei st, pendingExpiredChallengeTxs st, pendingObjectiveProofByTx st,
      claimConsumptionByTx st, forcedRecoveryByTx st)"

lemma rest_SubmissionsNewActionsPaused:
  "replay_SubmissionsNewActionsPaused st ev = Inr st' \<Longrightarrow> submission_rest st' = submission_rest st"
  by (auto simp: replay_SubmissionsNewActionsPaused_def submission_state_defs submission_rest_def)

lemma rest_AllActionsPaused:
  "replay_AllActionsPaused st ev = Inr st' \<Longrightarrow> submission_rest st' = submission_rest st"
  by (auto simp: replay_AllActionsPaused_def submission_state_defs submission_rest_def)

lemma rest_ChallengeManagerSet:
  "replay_ChallengeManagerSet st ev = Inr st' \<Longrightarrow> submission_rest st' = submission_rest st"
  by (auto simp: replay_ChallengeManagerSet_def submission_state_defs submission_rest_def)

lemma rest_Committed:
  "replay_Committed st sid ev = Inr st' \<Longrightarrow> submission_rest st' = submission_rest st"
  by (auto simp: replay_Committed_def submission_state_defs submission_rest_def)

lemma rest_BondToppedUp:
  "replay_BondToppedUp st sid ev = Inr st' \<Longrightarrow> submission_rest st' = submission_rest st"
  by (auto simp: replay_BondToppedUp_def submission_state_defs submission_rest_def)

lemma rest_Revealed:
  "replay_Revealed hx st sid ev = Inr st' \<Longrightarrow> submission_rest st' = submission_rest st"
  by (auto simp: replay_Revealed_def submission_state_defs submission_rest_def)

lemma rest_SubmissionChallenged:
  "replay_SubmissionChallenged st sid ev = Inr st' \<Longrightarrow> submission_rest st' = submission_rest st"
  by (auto simp: replay_SubmissionChallenged_def submission_state_defs submission_rest_def)

lemma rest_SubmissionChallengeResolved:
  "replay_SubmissionChallengeResolved st sid ev = Inr st' \<Longrightarrow> submission_rest st' = submission_rest st"
  by (auto simp: replay_SubmissionChallengeResolved_def submission_state_defs submission_rest_def)

lemma rest_SubmissionChallengeCancelled:
  "replay_SubmissionChallengeCancelled st sid ev = Inr st' \<Longrightarrow> submission_rest st' = submission_rest st"
  by (auto simp: replay_SubmissionChallengeCancelled_def submission_state_defs submission_rest_def)

lemma rest_SubmissionBondClaimable:
  "replay_SubmissionBondClaimable st sid ev = Inr st' \<Longrightarrow> submission_rest st' = submission_rest st"
  by (auto simp: replay_SubmissionBondClaimable_def submission_state_defs submission_rest_def)

lemma rest_Finalized:
  "replay_Finalized st sid ev = Inr st' \<Longrightarrow> submission_rest st' = submission_rest st"
  by (auto simp: replay_Finalized_def submission_state_defs submission_rest_def)

lemma rest_CreditRecoveryWindowAdvanced:
  "replay_CreditRecoveryWindowAdvanced st sid ev = Inr st' \<Longrightarrow> submission_rest st' = submission_rest st"
  by (auto simp: replay_CreditRecoveryWindowAdvanced_def submission_state_defs submission_rest_def)

lemma rest_CreditRecoveryWindowRestored:
  "replay_CreditRecoveryWindowRestored st ev = Inr st' \<Longrightarrow> submission_rest st' = submission_rest st"
  by (auto simp: replay_CreditRecoveryWindowRestored_def submission_state_defs submission_rest_def)

lemma rest_FinalizeVoided:
  "replay_FinalizeVoided st sid ev = Inr st' \<Longrightarrow> submission_rest st' = submission_rest st"
  by (auto simp: replay_FinalizeVoided_def submission_state_defs submission_rest_def)

lemma rest_SubmissionExpired:
  "replay_SubmissionExpired st sid ev = Inr st' \<Longrightarrow> submission_rest st' = submission_rest st"
  by (auto simp: replay_SubmissionExpired_def submission_state_defs submission_rest_def)

lemma rest_SubmissionBondClaimed:
  "replay_SubmissionBondClaimed st ev = Inr st' \<Longrightarrow> submission_rest st' = submission_rest st"
  by (auto simp: replay_SubmissionBondClaimed_def submission_state_defs submission_rest_def)

lemma rest_FundingAuthorizationVerified:
  "replay_FundingAuthorizationVerified hx st ev = Inr st' \<Longrightarrow> submission_rest st' = submission_rest st"
  by (auto simp: replay_FundingAuthorizationVerified_def submission_state_defs submission_rest_def)

lemma rest_FundingAuthorized:
  "replay_FundingAuthorized hx st ev = Inr st' \<Longrightarrow> submission_rest st' = submission_rest st"
  by (auto simp: replay_FundingAuthorized_def submission_state_defs submission_rest_def)

lemma rest_FundingAuthorizationCancelled:
  "replay_FundingAuthorizationCancelled hx st ev = Inr st' \<Longrightarrow> submission_rest st' = submission_rest st"
  by (auto simp: replay_FundingAuthorizationCancelled_def submission_state_defs submission_rest_def)

lemma rest_FundingArmed:
  "replay_FundingArmed hx st ev = Inr st' \<Longrightarrow> submission_rest st' = submission_rest st"
  by (auto simp: replay_FundingArmed_def submission_state_defs submission_rest_def)

lemmas submission_rests =
  rest_SubmissionsNewActionsPaused rest_AllActionsPaused rest_ChallengeManagerSet
  rest_Committed rest_BondToppedUp rest_Revealed
  rest_SubmissionChallenged rest_SubmissionChallengeResolved rest_SubmissionChallengeCancelled
  rest_SubmissionBondClaimable rest_Finalized rest_CreditRecoveryWindowAdvanced
  rest_CreditRecoveryWindowRestored rest_FinalizeVoided rest_SubmissionExpired
  rest_SubmissionBondClaimed rest_FundingAuthorizationVerified rest_FundingAuthorized
  rest_FundingAuthorizationCancelled rest_FundingArmed

lemma submission_event_rest:
  assumes "replaySubmissionEvent hx name st ev = Inr st'"
  shows "submission_rest st' = submission_rest st"
  using assms
  by (cases name) (auto simp: replaySubmissionEvent_def if_Inr dest!: submission_rests)

section \<open>The funding fields\<close>

definition funding_fields where
  "funding_fields st =
     (fundingArmed st, armedAt st, fundingAuthorizationDigest st, authorizedFundingDigest st,
      fundingAuthorizationExpiresAt st, fundingAuthorizationNonce st,
      pendingFundingAuthorizationVerification st)"

lemma funding_fields_inv:
  "funding_fields st' = funding_fields st \<Longrightarrow> funding_inv st \<Longrightarrow> funding_inv st' \<and> funding_progress st st'"
  by (auto simp: funding_fields_def funding_inv_def funding_progress_def split: option.splits)

lemma funding_SubmissionsNewActionsPaused:
  "replay_SubmissionsNewActionsPaused st ev = Inr st' \<Longrightarrow> funding_fields st' = funding_fields st"
  by (auto simp: replay_SubmissionsNewActionsPaused_def submission_state_defs funding_fields_def)

lemma funding_AllActionsPaused:
  "replay_AllActionsPaused st ev = Inr st' \<Longrightarrow> funding_fields st' = funding_fields st"
  by (auto simp: replay_AllActionsPaused_def submission_state_defs funding_fields_def)

lemma funding_ChallengeManagerSet:
  "replay_ChallengeManagerSet st ev = Inr st' \<Longrightarrow> funding_fields st' = funding_fields st"
  by (auto simp: replay_ChallengeManagerSet_def submission_state_defs funding_fields_def)

lemma funding_Committed:
  "replay_Committed st sid ev = Inr st' \<Longrightarrow> funding_fields st' = funding_fields st"
  by (auto simp: replay_Committed_def submission_state_defs funding_fields_def)

lemma funding_BondToppedUp:
  "replay_BondToppedUp st sid ev = Inr st' \<Longrightarrow> funding_fields st' = funding_fields st"
  by (auto simp: replay_BondToppedUp_def submission_state_defs funding_fields_def)

lemma funding_Revealed:
  "replay_Revealed hx st sid ev = Inr st' \<Longrightarrow> funding_fields st' = funding_fields st"
  by (auto simp: replay_Revealed_def submission_state_defs funding_fields_def)

lemma funding_SubmissionChallenged:
  "replay_SubmissionChallenged st sid ev = Inr st' \<Longrightarrow> funding_fields st' = funding_fields st"
  by (auto simp: replay_SubmissionChallenged_def submission_state_defs funding_fields_def)

lemma funding_SubmissionChallengeResolved:
  "replay_SubmissionChallengeResolved st sid ev = Inr st' \<Longrightarrow> funding_fields st' = funding_fields st"
  by (auto simp: replay_SubmissionChallengeResolved_def submission_state_defs funding_fields_def)

lemma funding_SubmissionChallengeCancelled:
  "replay_SubmissionChallengeCancelled st sid ev = Inr st' \<Longrightarrow> funding_fields st' = funding_fields st"
  by (auto simp: replay_SubmissionChallengeCancelled_def submission_state_defs funding_fields_def)

lemma funding_SubmissionBondClaimable:
  "replay_SubmissionBondClaimable st sid ev = Inr st' \<Longrightarrow> funding_fields st' = funding_fields st"
  by (auto simp: replay_SubmissionBondClaimable_def submission_state_defs funding_fields_def)

lemma funding_Finalized:
  "replay_Finalized st sid ev = Inr st' \<Longrightarrow> funding_fields st' = funding_fields st"
  by (auto simp: replay_Finalized_def submission_state_defs funding_fields_def)

lemma funding_CreditRecoveryWindowAdvanced:
  "replay_CreditRecoveryWindowAdvanced st sid ev = Inr st' \<Longrightarrow> funding_fields st' = funding_fields st"
  by (auto simp: replay_CreditRecoveryWindowAdvanced_def submission_state_defs funding_fields_def)

lemma funding_CreditRecoveryWindowRestored:
  "replay_CreditRecoveryWindowRestored st ev = Inr st' \<Longrightarrow> funding_fields st' = funding_fields st"
  by (auto simp: replay_CreditRecoveryWindowRestored_def submission_state_defs funding_fields_def)

lemma funding_FinalizeVoided:
  "replay_FinalizeVoided st sid ev = Inr st' \<Longrightarrow> funding_fields st' = funding_fields st"
  by (auto simp: replay_FinalizeVoided_def submission_state_defs funding_fields_def)

lemma funding_SubmissionExpired:
  "replay_SubmissionExpired st sid ev = Inr st' \<Longrightarrow> funding_fields st' = funding_fields st"
  by (auto simp: replay_SubmissionExpired_def submission_state_defs funding_fields_def)

lemma funding_SubmissionBondClaimed:
  "replay_SubmissionBondClaimed st ev = Inr st' \<Longrightarrow> funding_fields st' = funding_fields st"
  by (auto simp: replay_SubmissionBondClaimed_def submission_state_defs funding_fields_def)

lemmas submission_funding_fields =
  funding_SubmissionsNewActionsPaused funding_AllActionsPaused funding_ChallengeManagerSet
  funding_Committed funding_BondToppedUp funding_Revealed
  funding_SubmissionChallenged funding_SubmissionChallengeResolved funding_SubmissionChallengeCancelled
  funding_SubmissionBondClaimable funding_Finalized funding_CreditRecoveryWindowAdvanced
  funding_CreditRecoveryWindowRestored funding_FinalizeVoided funding_SubmissionExpired
  funding_SubmissionBondClaimed

lemma submission_event_funding:
  assumes "replaySubmissionEvent hx name st ev = Inr st'" and "funding_inv st"
  shows "funding_inv st' \<and> funding_progress st st'"
proof (cases "name \<in> {FundingAuthorizationVerified, FundingAuthorized, FundingAuthorizationCancelled, FundingArmed}")
  case True
  with assms show ?thesis
    by (cases name)
      (auto simp: replaySubmissionEvent_def if_Inr
        dest: funding_verified_inv funding_authorized_inv funding_cancelled_inv funding_armed_inv)
next
  case False
  with assms(1) have "funding_fields st' = funding_fields st"
    by (cases name) (auto simp: replaySubmissionEvent_def if_Inr dest!: submission_funding_fields)
  then show ?thesis using assms(2) by (rule funding_fields_inv)
qed

section \<open>Frames of the challenge and quorum reducers\<close>

definition challenge_rest where
  "challenge_rest st =
     (config st, coverage st, eventCounts st, pool st, ledger st, registry st, rolloverVault st,
      submissionClaimableBondWei st, recoveryByTx st, claimConsumptionByTx st,
      forcedRecoveryByTx st, funding_fields st)"

lemma rest_ChallengesNewActionsPaused:
  "replay_ChallengesNewActionsPaused st ev = Inr st' \<Longrightarrow> challenge_rest st' = challenge_rest st"
  by (auto simp: replay_ChallengesNewActionsPaused_def challenge_state_defs clear_reveal_def put_submission_def
      challenge_rest_def funding_fields_def Let_def if_Inr)

lemma rest_Challenged:
  "replay_Challenged hx st sid ev = Inr st' \<Longrightarrow> challenge_rest st' = challenge_rest st"
  by (auto simp: replay_Challenged_def challenge_state_defs clear_reveal_def put_submission_def
      challenge_rest_def funding_fields_def Let_def if_Inr)

lemma rest_ResolverTranscriptPosted:
  "replay_ResolverTranscriptPosted hx st sid ev = Inr st' \<Longrightarrow> challenge_rest st' = challenge_rest st"
  by (auto simp: replay_ResolverTranscriptPosted_def challenge_state_defs clear_reveal_def put_submission_def
      challenge_rest_def funding_fields_def Let_def if_Inr)

lemma rest_ChallengeExpired:
  "replay_ChallengeExpired hx st sid ev = Inr st' \<Longrightarrow> challenge_rest st' = challenge_rest st"
  by (auto simp: replay_ChallengeExpired_def challenge_state_defs clear_reveal_def put_submission_def
      challenge_rest_def funding_fields_def Let_def if_Inr)

lemma rest_Resolved:
  "replay_Resolved hx st sid ev = Inr st' \<Longrightarrow> challenge_rest st' = challenge_rest st"
  by (auto simp: replay_Resolved_def challenge_state_defs clear_reveal_def put_submission_def
      challenge_rest_def funding_fields_def Let_def if_Inr)

lemma rest_ResolverBondReleased:
  "replay_ResolverBondReleased hx st sid ev = Inr st' \<Longrightarrow> challenge_rest st' = challenge_rest st"
  by (auto simp: replay_ResolverBondReleased_def challenge_state_defs clear_reveal_def put_submission_def
      challenge_rest_def funding_fields_def Let_def if_Inr)

lemma rest_ResolverDecisionCancelled:
  "replay_ResolverDecisionCancelled hx st sid ev = Inr st' \<Longrightarrow> challenge_rest st' = challenge_rest st"
  by (auto simp: replay_ResolverDecisionCancelled_def challenge_state_defs clear_reveal_def put_submission_def
      challenge_rest_def funding_fields_def Let_def if_Inr)

lemma rest_ResolverBondSlashed:
  "replay_ResolverBondSlashed hx st sid ev = Inr st' \<Longrightarrow> challenge_rest st' = challenge_rest st"
  by (auto simp: replay_ResolverBondSlashed_def challenge_state_defs clear_reveal_def put_submission_def
      challenge_rest_def funding_fields_def Let_def if_Inr)

lemma rest_ObjectiveFraudProven:
  "replay_ObjectiveFraudProven hx st sid ev = Inr st' \<Longrightarrow> challenge_rest st' = challenge_rest st"
  by (auto simp: replay_ObjectiveFraudProven_def challenge_state_defs clear_reveal_def put_submission_def
      challenge_rest_def funding_fields_def Let_def if_Inr)

lemma rest_ChallengeBondClaimed:
  "replay_ChallengeBondClaimed st ev = Inr st' \<Longrightarrow> challenge_rest st' = challenge_rest st"
  by (auto simp: replay_ChallengeBondClaimed_def challenge_state_defs clear_reveal_def put_submission_def
      challenge_rest_def funding_fields_def Let_def if_Inr)

lemmas challenge_rests =
  rest_ChallengesNewActionsPaused rest_Challenged rest_ResolverTranscriptPosted
  rest_ChallengeExpired rest_Resolved rest_ResolverBondReleased
  rest_ResolverDecisionCancelled rest_ResolverBondSlashed rest_ObjectiveFraudProven
  rest_ChallengeBondClaimed

lemma challenge_event_rest:
  assumes "replayChallengeEvent hx name st ev = Inr st'"
  shows "challenge_rest st' = challenge_rest st"
  using assms
  by (cases name) (auto simp: replayChallengeEvent_def dest!: challenge_rests)

lemma quorum_event_frame:
  assumes "replayResolverQuorumEvent hx st ev = Inr st'"
  shows "st' = st\<lparr>pendingObjectiveProofByTx := pendingObjectiveProofByTx st'\<rparr>"
  using assms by (auto simp: replayResolverQuorumEvent_def)

section \<open>Submission bonds\<close>

text \<open>
  The wei of submission bonds the replay holds: what is still locked in submissions and what their
  owners may claim.
\<close>

definition submission_bonds :: "replay_state \<Rightarrow> int" where
  "submission_bonds st = wsum sub_bondWei (submissions st) + total (submissionClaimableBondWei st)"

definition arg_amount :: "event \<Rightarrow> string \<Rightarrow> int" where
  "arg_amount ev name = (case arg_int ev name of Inl _ \<Rightarrow> 0 | Inr n \<Rightarrow> n)"

text \<open>What an event pays in (positive) or out (negative).\<close>

definition submission_bond_flow :: "event \<Rightarrow> int" where
  "submission_bond_flow ev =
     (case kind ev of
        Submissions Committed \<Rightarrow> arg_amount ev ''bondWei''
      | Submissions BondToppedUp \<Rightarrow> arg_amount ev ''amount''
      | Submissions SubmissionBondClaimed \<Rightarrow> - arg_amount ev ''amount''
      | _ \<Rightarrow> 0)"

definition bond_books :: "replay_state \<Rightarrow> bool" where
  "bond_books st \<longleftrightarrow> book_ok (submissions st) \<and> book_ok (submissionClaimableBondWei st)"

text \<open>The bonds after a handler, as a change of \<open>d\<close> wei.\<close>

definition bonds_move :: "replay_state \<Rightarrow> replay_state \<Rightarrow> int \<Rightarrow> bool" where
  "bonds_move st st' d \<longleftrightarrow>
     (bond_books st \<longrightarrow> bond_books st' \<and> submission_bonds st' = submission_bonds st + d)"

lemmas bond_defs =
  bonds_move_def bond_books_def submission_bonds_def arg_amount_def wsum_update wbal_def
  total_update decrement_Inr

lemma bonds_SubmissionsNewActionsPaused:
  "replay_SubmissionsNewActionsPaused st ev = Inr st' \<Longrightarrow> bonds_move st st' (0)"
  by (auto simp: replay_SubmissionsNewActionsPaused_def submission_state_defs bond_defs)

lemma bonds_AllActionsPaused:
  "replay_AllActionsPaused st ev = Inr st' \<Longrightarrow> bonds_move st st' (0)"
  by (auto simp: replay_AllActionsPaused_def submission_state_defs bond_defs)

lemma bonds_ChallengeManagerSet:
  "replay_ChallengeManagerSet st ev = Inr st' \<Longrightarrow> bonds_move st st' (0)"
  by (auto simp: replay_ChallengeManagerSet_def submission_state_defs bond_defs)

lemma bonds_Committed:
  "replay_Committed st sid ev = Inr st' \<Longrightarrow> bonds_move st st' (arg_amount ev ''bondWei'')"
  by (auto simp: replay_Committed_def submission_state_defs bond_defs)

lemma bonds_BondToppedUp:
  "replay_BondToppedUp st sid ev = Inr st' \<Longrightarrow> bonds_move st st' (arg_amount ev ''amount'')"
  by (auto simp: replay_BondToppedUp_def submission_state_defs bond_defs)

lemma bonds_Revealed:
  "replay_Revealed hx st sid ev = Inr st' \<Longrightarrow> bonds_move st st' (0)"
  by (auto simp: replay_Revealed_def submission_state_defs bond_defs)

lemma bonds_SubmissionChallenged:
  "replay_SubmissionChallenged st sid ev = Inr st' \<Longrightarrow> bonds_move st st' (0)"
  by (auto simp: replay_SubmissionChallenged_def submission_state_defs bond_defs)

lemma bonds_SubmissionChallengeResolved:
  "replay_SubmissionChallengeResolved st sid ev = Inr st' \<Longrightarrow> bonds_move st st' (0)"
  by (auto simp: replay_SubmissionChallengeResolved_def submission_state_defs bond_defs)

lemma bonds_SubmissionChallengeCancelled:
  "replay_SubmissionChallengeCancelled st sid ev = Inr st' \<Longrightarrow> bonds_move st st' (0)"
  by (auto simp: replay_SubmissionChallengeCancelled_def submission_state_defs bond_defs)

lemma bonds_SubmissionBondClaimable:
  "replay_SubmissionBondClaimable st sid ev = Inr st' \<Longrightarrow> bonds_move st st' (0)"
  by (auto simp: replay_SubmissionBondClaimable_def submission_state_defs bond_defs)

lemma bonds_Finalized:
  "replay_Finalized st sid ev = Inr st' \<Longrightarrow> bonds_move st st' (0)"
  by (auto simp: replay_Finalized_def submission_state_defs bond_defs)

lemma bonds_CreditRecoveryWindowAdvanced:
  "replay_CreditRecoveryWindowAdvanced st sid ev = Inr st' \<Longrightarrow> bonds_move st st' (0)"
  by (auto simp: replay_CreditRecoveryWindowAdvanced_def submission_state_defs bond_defs)

lemma bonds_CreditRecoveryWindowRestored:
  "replay_CreditRecoveryWindowRestored st ev = Inr st' \<Longrightarrow> bonds_move st st' (0)"
  by (auto simp: replay_CreditRecoveryWindowRestored_def submission_state_defs bond_defs)

lemma bonds_FinalizeVoided:
  "replay_FinalizeVoided st sid ev = Inr st' \<Longrightarrow> bonds_move st st' (0)"
  by (auto simp: replay_FinalizeVoided_def submission_state_defs bond_defs)

lemma bonds_SubmissionExpired:
  "replay_SubmissionExpired st sid ev = Inr st' \<Longrightarrow> bonds_move st st' (0)"
  by (auto simp: replay_SubmissionExpired_def submission_state_defs bond_defs)

lemma bonds_SubmissionBondClaimed:
  "replay_SubmissionBondClaimed st ev = Inr st' \<Longrightarrow> bonds_move st st' (- arg_amount ev ''amount'')"
  by (auto simp: replay_SubmissionBondClaimed_def submission_state_defs bond_defs)

lemma bonds_FundingAuthorizationVerified:
  "replay_FundingAuthorizationVerified hx st ev = Inr st' \<Longrightarrow> bonds_move st st' (0)"
  by (auto simp: replay_FundingAuthorizationVerified_def submission_state_defs bond_defs)

lemma bonds_FundingAuthorized:
  "replay_FundingAuthorized hx st ev = Inr st' \<Longrightarrow> bonds_move st st' (0)"
  by (auto simp: replay_FundingAuthorized_def submission_state_defs bond_defs)

lemma bonds_FundingAuthorizationCancelled:
  "replay_FundingAuthorizationCancelled hx st ev = Inr st' \<Longrightarrow> bonds_move st st' (0)"
  by (auto simp: replay_FundingAuthorizationCancelled_def submission_state_defs bond_defs)

lemma bonds_FundingArmed:
  "replay_FundingArmed hx st ev = Inr st' \<Longrightarrow> bonds_move st st' (0)"
  by (auto simp: replay_FundingArmed_def submission_state_defs bond_defs)

lemmas submission_bonds_moves =
  bonds_SubmissionsNewActionsPaused bonds_AllActionsPaused bonds_ChallengeManagerSet
  bonds_Committed bonds_BondToppedUp bonds_Revealed
  bonds_SubmissionChallenged bonds_SubmissionChallengeResolved bonds_SubmissionChallengeCancelled
  bonds_SubmissionBondClaimable bonds_Finalized bonds_CreditRecoveryWindowAdvanced
  bonds_CreditRecoveryWindowRestored bonds_FinalizeVoided bonds_SubmissionExpired
  bonds_SubmissionBondClaimed bonds_FundingAuthorizationVerified bonds_FundingAuthorized
  bonds_FundingAuthorizationCancelled bonds_FundingArmed

lemma bonds_move_refl [simp]: "bonds_move st st 0"
  by (simp add: bonds_move_def)

lemma submission_event_bonds:
  assumes "replaySubmissionEvent hx name st ev = Inr st'" and "kind ev = Submissions name"
  shows "bonds_move st st' (submission_bond_flow ev)"
  using assms
  by (cases name)
    (auto simp: replaySubmissionEvent_def submission_bond_flow_def if_Inr dest!: submission_bonds_moves)

lemma bonds_ChallengesNewActionsPaused:
  "replay_ChallengesNewActionsPaused st ev = Inr st' \<Longrightarrow> bonds_move st st' 0"
  by (auto simp: replay_ChallengesNewActionsPaused_def challenge_state_defs clear_reveal_def put_submission_def
      bond_defs Let_def if_Inr)

lemma bonds_Challenged:
  "replay_Challenged hx st sid ev = Inr st' \<Longrightarrow> bonds_move st st' 0"
  by (auto simp: replay_Challenged_def challenge_state_defs clear_reveal_def put_submission_def
      bond_defs Let_def if_Inr)

lemma bonds_ResolverTranscriptPosted:
  "replay_ResolverTranscriptPosted hx st sid ev = Inr st' \<Longrightarrow> bonds_move st st' 0"
  by (auto simp: replay_ResolverTranscriptPosted_def challenge_state_defs clear_reveal_def put_submission_def
      bond_defs Let_def if_Inr)

lemma bonds_ChallengeExpired:
  "replay_ChallengeExpired hx st sid ev = Inr st' \<Longrightarrow> bonds_move st st' 0"
  by (auto simp: replay_ChallengeExpired_def challenge_state_defs clear_reveal_def put_submission_def
      bond_defs Let_def if_Inr)

lemma bonds_Resolved:
  "replay_Resolved hx st sid ev = Inr st' \<Longrightarrow> bonds_move st st' 0"
  by (auto simp: replay_Resolved_def challenge_state_defs clear_reveal_def put_submission_def
      bond_defs Let_def if_Inr)

lemma bonds_ResolverBondReleased:
  "replay_ResolverBondReleased hx st sid ev = Inr st' \<Longrightarrow> bonds_move st st' 0"
  by (auto simp: replay_ResolverBondReleased_def challenge_state_defs clear_reveal_def put_submission_def
      bond_defs Let_def if_Inr)

lemma bonds_ResolverDecisionCancelled:
  "replay_ResolverDecisionCancelled hx st sid ev = Inr st' \<Longrightarrow> bonds_move st st' 0"
  by (auto simp: replay_ResolverDecisionCancelled_def challenge_state_defs clear_reveal_def put_submission_def
      bond_defs Let_def if_Inr)

lemma bonds_ResolverBondSlashed:
  "replay_ResolverBondSlashed hx st sid ev = Inr st' \<Longrightarrow> bonds_move st st' 0"
  by (auto simp: replay_ResolverBondSlashed_def challenge_state_defs clear_reveal_def put_submission_def
      bond_defs Let_def if_Inr)

lemma bonds_ObjectiveFraudProven:
  "replay_ObjectiveFraudProven hx st sid ev = Inr st' \<Longrightarrow> bonds_move st st' 0"
  by (auto simp: replay_ObjectiveFraudProven_def challenge_state_defs clear_reveal_def put_submission_def
      bond_defs Let_def if_Inr)

lemma bonds_ChallengeBondClaimed:
  "replay_ChallengeBondClaimed st ev = Inr st' \<Longrightarrow> bonds_move st st' 0"
  by (auto simp: replay_ChallengeBondClaimed_def challenge_state_defs clear_reveal_def put_submission_def
      bond_defs Let_def if_Inr)

lemmas challenge_bonds_moves =
  bonds_ChallengesNewActionsPaused bonds_Challenged bonds_ResolverTranscriptPosted
  bonds_ChallengeExpired bonds_Resolved bonds_ResolverBondReleased
  bonds_ResolverDecisionCancelled bonds_ResolverBondSlashed bonds_ObjectiveFraudProven
  bonds_ChallengeBondClaimed

lemma challenge_event_bonds:
  assumes "replayChallengeEvent hx name st ev = Inr st'"
  shows "bonds_move st st' 0"
  using assms
  by (cases name) (auto simp: replayChallengeEvent_def dest!: challenge_bonds_moves)

end
