(* ===== verification/Replay_Registry.thy ===== *)
theory Replay_Registry
  imports Replay_State
begin

text \<open>
  \<open>replayRegistryEvent\<close> and \<open>replayRolloverVaultEvent\<close> of agent/indexer.mjs, with the facts
  that problems are numbered without a gap and that the vault's total is the sum of its
  allocations as long as the remaining allocation a funding event reports is the true one.
\<close>

definition put_problem :: "replay_state \<Rightarrow> int \<Rightarrow> registry_problem \<Rightarrow> replay_state" where
  "put_problem st i p =
     st\<lparr>registry := (registry st)\<lparr>registry_problems :=
        AList.update i p (registry_problems (registry st))\<rparr>\<rparr>"

definition replay_ProblemRegistered :: "replay_state \<Rightarrow> int \<Rightarrow> event \<Rightarrow> replay_error + replay_state" where
  "replay_ProblemRegistered st i ev =
     require (i = registry_problemCount (registry st) + 1) (Registry_error Non_sequential_problem)
     (and_then (getArg ev ''specHash'') (\<lambda>specHash.
      and_then (getArg ev ''verifierImageHash'') (\<lambda>verifierImageHash.
      and_then (getArg ev ''pool'') (\<lambda>poolAddress.
      and_then (getArg ev ''metadataURI'') (\<lambda>metadataURI.
        Inr (st\<lparr>registry := \<lparr>registry_problemCount = registry_problemCount (registry st) + 1,
          registry_problems = AList.update i
            \<lparr>rp_specHash = specHash, rp_verifierImageHash = verifierImageHash,
             rp_pool = poolAddress, rp_metadataURI = metadataURI, rp_frozen = False,
             rp_hasPartialUpdateEvent = False\<rparr> (registry_problems (registry st))\<rparr>\<rparr>))))))"

definition replay_ProblemUpdated :: "replay_state \<Rightarrow> int \<Rightarrow> event \<Rightarrow> replay_error + replay_state" where
  "replay_ProblemUpdated st i ev =
     (case map_of (registry_problems (registry st)) i of
        None \<Rightarrow> Inl (Registry_error Update_of_unknown_problem)
      | Some p \<Rightarrow>
          and_then (getArg ev ''specHash'') (\<lambda>specHash.
          and_then (getArg ev ''verifierImageHash'') (\<lambda>verifierImageHash.
            Inr (put_problem st i (p\<lparr>rp_specHash := specHash,
              rp_verifierImageHash := verifierImageHash, rp_hasPartialUpdateEvent := True\<rparr>)))))"

definition replay_ProblemFrozen :: "replay_state \<Rightarrow> int \<Rightarrow> replay_error + replay_state" where
  "replay_ProblemFrozen st i =
     (case map_of (registry_problems (registry st)) i of
        None \<Rightarrow> Inl (Registry_error Freeze_of_unknown_problem)
      | Some p \<Rightarrow> Inr (put_problem st i (p\<lparr>rp_frozen := True\<rparr>)))"

definition replayRegistryEvent :: "registry_event \<Rightarrow> replay_state \<Rightarrow> event \<Rightarrow> replay_error + replay_state" where
  "replayRegistryEvent name st ev =
     and_then (arg_int ev ''problemId'') (\<lambda>i.
       case name of
         ProblemRegistered \<Rightarrow> replay_ProblemRegistered st i ev
       | ProblemUpdated \<Rightarrow> replay_ProblemUpdated st i ev
       | ProblemFrozen \<Rightarrow> replay_ProblemFrozen st i)"

section \<open>The rollover vault\<close>

definition on_vault :: "replay_state \<Rightarrow> (vault_state \<Rightarrow> vault_state) \<Rightarrow> replay_state" where
  "on_vault st f = st\<lparr>rolloverVault := f (rolloverVault st)\<rparr>"

definition replay_RolloverReceived :: "replay_state \<Rightarrow> event \<Rightarrow> replay_error + replay_state" where
  "replay_RolloverReceived st ev =
     and_then (arg_int ev ''amount'') (\<lambda>amount.
       Inr (on_vault st (\<lambda>v. v\<lparr>vault_totalReceived := vault_totalReceived v + amount\<rparr>)))"

definition replay_PoolAllocationSet :: "replay_state \<Rightarrow> event \<Rightarrow> replay_error + replay_state" where
  "replay_PoolAllocationSet st ev =
     and_then (arg_key ev ''pool'') (\<lambda>key.
     and_then (arg_int ev ''previousAmount'') (\<lambda>previous.
     and_then (arg_int ev ''amount'') (\<lambda>amount.
     require (bal (vault_allocationOf (rolloverVault st)) key = previous)
       (Vault_error Allocation_previous_mismatch)
     (and_then (if amount = 0 then Inr (JStr zero_hash) else getArg ev ''codehash'') (\<lambda>codehash.
       Inr (on_vault st (\<lambda>v. v\<lparr>vault_totalAllocated := vault_totalAllocated v - previous + amount,
          vault_allocationOf := AList.update key amount (vault_allocationOf v),
          vault_allocationCodehashOf := AList.update key codehash (vault_allocationCodehashOf v)\<rparr>)))))))"

definition replay_FuturePoolFunded :: "replay_state \<Rightarrow> event \<Rightarrow> replay_error + replay_state" where
  "replay_FuturePoolFunded st ev =
     and_then (arg_key ev ''pool'') (\<lambda>key.
     and_then (arg_int ev ''amount'') (\<lambda>amount.
     and_then (arg_int ev ''remainingAllocation'') (\<lambda>remaining.
     require (amount \<le> bal (vault_allocationOf (rolloverVault st)) key) (Vault_error Allocation_underflow)
       (Inr (on_vault st (\<lambda>v. v\<lparr>vault_totalAllocated := vault_totalAllocated v - amount,
          vault_allocationOf := AList.update key remaining (vault_allocationOf v),
          vault_allocationCodehashOf :=
            (if remaining = 0 then AList.update key (JStr zero_hash) (vault_allocationCodehashOf v)
             else vault_allocationCodehashOf v),
          vault_totalFuturePoolFunded := vault_totalFuturePoolFunded v + amount\<rparr>))))))"

definition replayRolloverVaultEvent :: "vault_event \<Rightarrow> replay_state \<Rightarrow> event \<Rightarrow> replay_error + replay_state" where
  "replayRolloverVaultEvent name st ev =
     (case name of
        RolloverReceived \<Rightarrow> replay_RolloverReceived st ev
      | PoolAllocationSet \<Rightarrow> replay_PoolAllocationSet st ev
      | FuturePoolFunded \<Rightarrow> replay_FuturePoolFunded st ev
      | ZeroCreditRefundReclaimed \<Rightarrow> Inr st)"

lemmas registry_handler_defs =
  replayRegistryEvent_def replay_ProblemRegistered_def replay_ProblemUpdated_def
  replay_ProblemFrozen_def put_problem_def

lemmas vault_handler_defs =
  replayRolloverVaultEvent_def replay_RolloverReceived_def replay_PoolAllocationSet_def
  replay_FuturePoolFunded_def on_vault_def

section \<open>Registry: problems are numbered from one without a gap, and freezing is final\<close>

definition registry_inv :: "registry_state \<Rightarrow> bool" where
  "registry_inv r \<longleftrightarrow>
     book_ok (registry_problems r) \<and> 0 \<le> registry_problemCount r \<and>
     dom (map_of (registry_problems r)) = {1..registry_problemCount r}"

lemma registry_inv_put:
  assumes "registry_inv r" and "map_of (registry_problems r) i = Some p"
  shows "registry_inv (r\<lparr>registry_problems := AList.update i q (registry_problems r)\<rparr>)"
proof -
  have "insert i {1..registry_problemCount r} = {1..registry_problemCount r}"
    using assms unfolding registry_inv_def by (metis domI insert_absorb)
  then show ?thesis using assms(1) by (simp add: registry_inv_def)
qed

lemma registry_inv_register:
  "registry_inv r \<Longrightarrow>
   registry_inv \<lparr>registry_problemCount = registry_problemCount r + 1,
     registry_problems = AList.update (registry_problemCount r + 1) q (registry_problems r)\<rparr>"
  by (simp add: registry_inv_def atLeastAtMost_plus1)

lemma registry_event_inv:
  assumes "replayRegistryEvent name st ev = Inr st'" and "registry_inv (registry st)"
  shows "registry_inv (registry st')"
  using assms
  by (cases name) (auto simp: registry_handler_defs intro: registry_inv_put registry_inv_register)

lemma registry_event_frame:
  assumes "replayRegistryEvent name st ev = Inr st'"
  shows "st' = st\<lparr>registry := registry st'\<rparr>"
  using assms
  by (cases name) (auto simp: registry_handler_defs)

definition frozen_in :: "registry_state \<Rightarrow> int \<Rightarrow> bool" where
  "frozen_in r i \<longleftrightarrow> (\<exists>p. map_of (registry_problems r) i = Some p \<and> rp_frozen p)"

lemma registry_event_frozen:
  assumes "replayRegistryEvent name st ev = Inr st'" and "registry_inv (registry st)"
    and "frozen_in (registry st) i"
  shows "frozen_in (registry st') i"
proof -
  have "i \<in> {1..registry_problemCount (registry st)}"
    using assms(2,3) unfolding registry_inv_def frozen_in_def by blast
  then have "i \<noteq> registry_problemCount (registry st) + 1" by simp
  then show ?thesis
    using assms(1,3) by (cases name) (auto simp: registry_handler_defs frozen_in_def)
qed

section \<open>Vault: the total is the sum of the allocations\<close>

definition vault_books :: "vault_state \<Rightarrow> bool" where
  "vault_books v \<longleftrightarrow> book_ok (vault_allocationOf v) \<and>
     vault_totalAllocated v = total (vault_allocationOf v)"

definition remaining_consistent :: "replay_state \<Rightarrow> event \<Rightarrow> bool" where
  "remaining_consistent st ev \<longleftrightarrow>
     (\<forall>key amount remaining.
        arg_key ev ''pool'' = Inr key \<longrightarrow> arg_int ev ''amount'' = Inr amount \<longrightarrow>
        arg_int ev ''remainingAllocation'' = Inr remaining \<longrightarrow>
        remaining = bal (vault_allocationOf (rolloverVault st)) key - amount)"

lemma vault_event_books:
  assumes "replayRolloverVaultEvent name st ev = Inr st'" and "vault_books (rolloverVault st)"
    and "name = FuturePoolFunded \<Longrightarrow> remaining_consistent st ev"
  shows "vault_books (rolloverVault st')"
  using assms
  by (cases name)
    (auto simp: vault_handler_defs vault_books_def remaining_consistent_def total_update)

lemma vault_event_frame:
  assumes "replayRolloverVaultEvent name st ev = Inr st'"
  shows "st' = st\<lparr>rolloverVault := rolloverVault st'\<rparr>"
  using assms
  by (cases name) (auto simp: vault_handler_defs)

end
