(* ===== verification/Replay.thy ===== *)
theory Replay
  imports Replay_Frames Replay_Registry "HOL-Library.Product_Lexorder" "HOL-Library.Multiset"
begin

text \<open>
  The replay itself: the canonical event order (\<open>compareEventOrder\<close>), the step that counts and
  dispatches one log, the checks over pairs of events of one transaction
  (\<open>validatePairedEvents\<close>) and \<open>replayProtocolEvents\<close> of agent/indexer.mjs. Every fact about a
  reducer is lifted to the whole replay here by interpreting the machine locales of the prelude.
\<close>

section \<open>Event order\<close>

definition nullish_int :: "int option \<Rightarrow> int" where
  "nullish_int i = (case i of None \<Rightarrow> 0 | Some n \<Rightarrow> n)"

text \<open>\<open>a || b\<close> on numbers: the first one that is not zero.\<close>

definition js_or :: "int \<Rightarrow> int \<Rightarrow> int" where
  "js_or a b = (if a \<noteq> 0 then a else b)"

definition compareEventOrder :: "event \<Rightarrow> event \<Rightarrow> int" where
  "compareEventOrder l r =
     js_or (blockNumber l - blockNumber r)
       (js_or (nullish_int (transactionIndex l) - nullish_int (transactionIndex r))
         (nullish_int (event_index l) - nullish_int (event_index r)))"

text \<open>
  \<open>Array.prototype.sort\<close> is a stable sort by the comparator.
\<close>

fun insert_by :: "('a \<Rightarrow> 'a \<Rightarrow> int) \<Rightarrow> 'a \<Rightarrow> 'a list \<Rightarrow> 'a list" where
  "insert_by cmp x [] = [x]"
| "insert_by cmp x (y # ys) = (if cmp x y \<le> 0 then x # y # ys else y # insert_by cmp x ys)"

definition js_sort :: "('a \<Rightarrow> 'a \<Rightarrow> int) \<Rightarrow> 'a list \<Rightarrow> 'a list" where
  "js_sort cmp xs = foldr (insert_by cmp) xs []"

definition event_position :: "event \<Rightarrow> int \<times> int \<times> int" where
  "event_position ev =
     (blockNumber ev, nullish_int (transactionIndex ev), nullish_int (event_index ev))"

lemma compareEventOrder_le: "compareEventOrder l r \<le> 0 \<longleftrightarrow> event_position l \<le> event_position r"
  by (auto simp: compareEventOrder_def js_or_def event_position_def)

lemma js_sort_sort_key:
  assumes "\<And>x y. cmp x y \<le> 0 \<longleftrightarrow> f x \<le> (f y :: 'b::linorder)"
  shows "js_sort cmp xs = sort_key f xs"
proof -
  have "insert_by cmp x ys = insort_key f x ys" for x ys
    by (induction ys) (simp_all add: assms)
  then have "insert_by cmp = insort_key f" by blast
  then show ?thesis by (simp add: js_sort_def sort_key_def)
qed

lemma js_sort_events: "js_sort compareEventOrder evs = sort_key event_position evs"
  by (rule js_sort_sort_key) (rule compareEventOrder_le)

lemma short_list_eq: "length xs \<le> 1 \<Longrightarrow> mset xs = mset ys \<Longrightarrow> xs = ys"
  by (cases xs; cases "tl xs") auto

lemma sort_key_unique:
  assumes m: "mset xs = mset ys" and d: "distinct (map f xs)"
  shows "sort_key f xs = sort_key (f :: 'a \<Rightarrow> 'b::linorder) ys"
proof (rule properties_for_sort_key)
  show "mset (sort_key f ys) = mset xs" using m by simp
  show "sorted (map f (sort_key f ys))" by simp
next
  fix k
  have "length (filter (\<lambda>x. f k = f x) xs) = count (mset (map f xs)) (f k)"
    by (induction xs) auto
  also have "\<dots> \<le> 1"
    using d[unfolded distinct_count_atmost_1] by (metis order.refl zero_le_one)
  finally have "length (filter (\<lambda>x. f k = f x) xs) \<le> 1" .
  moreover have "mset (filter (\<lambda>x. f k = f x) xs) = mset (filter (\<lambda>x. f k = f x) (sort_key f ys))"
    using m by simp
  ultimately show "filter (\<lambda>x. f k = f x) (sort_key f ys) = filter (\<lambda>x. f k = f x) xs"
    by (metis short_list_eq)
qed

section \<open>One log\<close>

definition dispatch_event ::
    "(string \<Rightarrow> nat \<Rightarrow> bool) \<Rightarrow> replay_state \<Rightarrow> event \<Rightarrow> replay_error + replay_state" where
  "dispatch_event hx st ev =
     (case kind ev of
        Pool name \<Rightarrow> replayPoolEvent name st ev
      | Ledger name \<Rightarrow> replayLedgerEvent name st ev
      | Submissions name \<Rightarrow> replaySubmissionEvent hx name st ev
      | Challenges name \<Rightarrow> replayChallengeEvent hx name st ev
      | ResolverQuorum _ \<Rightarrow> replayResolverQuorumEvent hx st ev
      | Registry name \<Rightarrow> replayRegistryEvent name st ev
      | RolloverVault name \<Rightarrow> replayRolloverVaultEvent name st ev
      | Unrecognized _ _ \<Rightarrow> Inr st)"

definition replayStep ::
    "(string \<Rightarrow> nat \<Rightarrow> bool) \<Rightarrow> replay_state \<Rightarrow> event \<Rightarrow> replay_error + replay_state" where
  "replayStep hx st ev =
     (let coverageKey = normalizeCoverageName (kind ev)
      in case map_of (eventCounts st) coverageKey of
           None \<Rightarrow> Inl Unrecognized_event
         | Some n \<Rightarrow>
             dispatch_event hx (st\<lparr>eventCounts := AList.update coverageKey (n + 1) (eventCounts st)\<rparr>) ev)"

section \<open>Pairs of events of one transaction\<close>

fun check_entries :: "('v \<Rightarrow> 'e + unit) \<Rightarrow> ('k \<times> 'v) list \<Rightarrow> 'e + unit" where
  "check_entries f [] = Inr ()"
| "check_entries f ((k, v) # es) = and_then (f v) (\<lambda>_. check_entries f es)"

abbreviation pair_check :: "bool \<Rightarrow> pairing_error \<Rightarrow> replay_error + unit \<Rightarrow> replay_error + unit" where
  "pair_check c err k \<equiv> require c (Pairing_error err) k"

definition validate_objective_proof :: "objective_proof \<Rightarrow> replay_error + unit" where
  "validate_objective_proof proof = pair_check (op_quorumJournalSeen proof) Proof_without_journal (Inr ())"

definition validate_recovery :: "recovery \<Rightarrow> replay_error + unit" where
  "validate_recovery r =
     (case rec_finalizeVoided r of
        None \<Rightarrow> Inl (Pairing_error Credit_voided_without_finalize_voided)
      | Some finalized \<Rightarrow>
          if 0 < fv_atoms finalized then
            (case rec_creditVoided r of
               None \<Rightarrow> Inl (Pairing_error Paid_void_without_credit_voided)
             | Some voided \<Rightarrow>
                 pair_check (cv_solver voided = fv_solver finalized \<and> cv_atoms voided = fv_atoms finalized)
                   Void_recovery_mismatch (Inr ()))
          else pair_check (rec_creditVoided r = None) Zero_credit_void_with_credit_voided (Inr ()))"

definition validate_claim :: "claim_consumption \<Rightarrow> replay_error + unit" where
  "validate_claim c =
     (case (cc_pool c, cc_ledger c) of
        (Some p, Some l) \<Rightarrow>
          pair_check (pc_solver p = lc_solver l \<and> pc_grossAmount p = lc_grossAmount l \<and>
                      pc_feeAmount p = lc_feeAmount l) Claim_pair_mismatch
          (case cc_donation c of
             None \<Rightarrow> Inr ()
           | Some d \<Rightarrow>
               pair_check (dc_solver d = pc_solver p \<and> dc_destinationPool d = pc_recipient p \<and>
                           dc_grossAmount d = pc_grossAmount p \<and>
                           dc_solverPayment d = pc_solverPayment p \<and>
                           dc_feeAmount d = pc_feeAmount p) Donation_settlement_mismatch (Inr ()))
      | _ \<Rightarrow> Inl (Pairing_error Claim_pair_incomplete))"

definition validate_forced :: "forced_recovery \<Rightarrow> replay_error + unit" where
  "validate_forced f =
     (case (fr_recovered f, fr_swept f) of
        (Some r, Some s) \<Rightarrow>
          pair_check (fl_destination r = fl_destination s \<and> fl_amount r = fl_amount s \<and>
                      fl_remaining r = fl_remaining s) Forced_pair_mismatch (Inr ())
      | _ \<Rightarrow> Inl (Pairing_error Forced_pair_incomplete))"

definition validatePairedEvents :: "replay_state \<Rightarrow> replay_error + unit" where
  "validatePairedEvents st =
     and_then (check_entries validate_objective_proof (pendingObjectiveProofByTx st)) (\<lambda>_.
     and_then (check_entries validate_recovery (recoveryByTx st)) (\<lambda>_.
     and_then (check_entries validate_claim (claimConsumptionByTx st)) (\<lambda>_.
       check_entries validate_forced (forcedRecoveryByTx st))))"

section \<open>The replay\<close>

definition replayProtocolEvents ::
    "(string \<Rightarrow> nat \<Rightarrow> bool) \<Rightarrow> event list \<Rightarrow> raw_config \<Rightarrow> protocol_event list
       \<Rightarrow> replay_error + replay_state" where
  "replayProtocolEvents hx events raw names =
     and_then (replayConfig hx raw) (\<lambda>cfg.
     and_then (run_events (replayStep hx) (newReplayState cfg names)
                 (js_sort compareEventOrder events)) (\<lambda>st.
     require (pendingFundingAuthorizationVerification st = None) Pending_verification_at_end
     (and_then (validatePairedEvents st) (\<lambda>_.
      require (coverage_complete (coverage st)) Coverage_incomplete (Inr st)))))"

lemma replayProtocolEvents_Inr:
  "replayProtocolEvents hx events raw names = Inr st \<longleftrightarrow>
     (\<exists>cfg. replayConfig hx raw = Inr cfg \<and>
        run_events (replayStep hx) (newReplayState cfg names) (sort_key event_position events) = Inr st \<and>
        pendingFundingAuthorizationVerification st = None \<and>
        validatePairedEvents st = Inr () \<and> coverage_complete (coverage st))"
  by (auto simp: replayProtocolEvents_def js_sort_events)

lemma check_entries_Inr: "check_entries f es = Inr u \<longleftrightarrow> (\<forall>(k, v) \<in> set es. f v = Inr ())"
  by (induction f es rule: check_entries.induct) auto

end
