(* ===== verification/Node_Platform.thy ===== *)
theory Node_Platform
  imports Js_Values
begin

text \<open>
  What the wallet, quorum and deployment components call outside the repository: the ethers package,
  and the hash and path functions of the Node runtime. They are fields of one record, the parameter
  \<open>pf\<close> of the definitions that use them; nothing is assumed about them here.

  A transaction parsed by \<open>Transaction.from\<close> is a record of the fields the code reads.
\<close>

record chain_tx =
  tx_from :: "string option"
  tx_chainId :: int
  tx_nonce :: int
  tx_to :: "string option"
  tx_value :: int
  tx_data :: string

record platform =
  getAddress :: "string \<Rightarrow> string option"
  isHexString :: "string \<Rightarrow> bool"
  isHexBytes :: "string \<Rightarrow> nat \<Rightarrow> bool"
  keccak256 :: "string \<Rightarrow> string"
  transaction_from :: "string \<Rightarrow> chain_tx option"
  getCreateAddress :: "string \<Rightarrow> int \<Rightarrow> string"
  getCreate2Address :: "string \<Rightarrow> string \<Rightarrow> string \<Rightarrow> string"
  sha256_hex :: "string \<Rightarrow> string"
  sha256_text :: "nat list \<Rightarrow> string"
  zeroPadValue :: "string \<Rightarrow> nat \<Rightarrow> string"
  encodeOperation :: "string \<Rightarrow> string \<Rightarrow> string \<Rightarrow> string \<Rightarrow> string"
  resolve_path :: "string \<Rightarrow> string"

section \<open>Array.find and updating what it found\<close>

text \<open>
  \<open>xs.find(p)\<close> returns the object itself, so that assigning to its fields changes the array: the
  first matching element is replaced. \<open>[...xs].reverse().find(p)\<close> finds the last one.
\<close>

fun update_first :: "('a \<Rightarrow> bool) \<Rightarrow> ('a \<Rightarrow> 'a) \<Rightarrow> 'a list \<Rightarrow> 'a list" where
  "update_first P f [] = []"
| "update_first P f (x # xs) = (if P x then f x # xs else x # update_first P f xs)"

definition update_last :: "('a \<Rightarrow> bool) \<Rightarrow> ('a \<Rightarrow> 'a) \<Rightarrow> 'a list \<Rightarrow> 'a list" where
  "update_last P f xs = rev (update_first P f (rev xs))"

lemma map_update_first:
  "(\<And>x. P x \<Longrightarrow> g (f x) = g x) \<Longrightarrow> map g (update_first P f xs) = map g xs"
  by (induction xs) auto

lemma map_update_last:
  "(\<And>x. P x \<Longrightarrow> g (f x) = g x) \<Longrightarrow> map g (update_last P f xs) = map g xs"
  by (simp add: update_last_def map_update_first rev_map[symmetric])

lemma set_update_first: "set (update_first P f xs) \<subseteq> set xs \<union> f ` {x \<in> set xs. P x}"
  by (induction xs) auto

lemma set_update_last: "set (update_last P f xs) \<subseteq> set xs \<union> f ` {x \<in> set xs. P x}"
  using set_update_first[of P f "rev xs"] by (simp add: update_last_def)

lemma find_SomeD: "find P xs = Some x \<Longrightarrow> x \<in> set xs \<and> P x"
  by (auto simp: find_Some_iff)

lemma find_rev_SomeD: "find P (rev xs) = Some x \<Longrightarrow> x \<in> set xs \<and> P x"
  by (auto dest: find_SomeD)

text \<open>
  With a key that identifies the elements, the list is a finite map from keys to elements; replacing an
  element by one with the same key, and appending one with a new key, update this map at one place.
\<close>

definition entry_by :: "('a \<Rightarrow> 'k) \<Rightarrow> 'a list \<Rightarrow> 'k \<Rightarrow> 'a option" where
  "entry_by k xs n = find (\<lambda>x. k x = n) xs"

lemma entry_by_SomeD: "entry_by k xs n = Some x \<Longrightarrow> x \<in> set xs \<and> k x = n"
  by (auto simp: entry_by_def dest: find_SomeD)

lemma entry_by_Nil [simp]: "entry_by k [] n = None"
  by (simp add: entry_by_def)

lemma entry_by_Cons: "entry_by k (x # xs) = (entry_by k xs)(k x \<mapsto> x)"
  by (auto simp: entry_by_def)

lemma entry_by_iff:
  "distinct (map k xs) \<Longrightarrow> entry_by k xs n = Some x \<longleftrightarrow> x \<in> set xs \<and> k x = n"
  by (induction xs) (auto simp: entry_by_Cons rev_image_eqI)

lemma entry_by_None: "entry_by k xs n = None \<longleftrightarrow> n \<notin> k ` set xs"
  by (auto simp: entry_by_def find_None_iff)

lemma entry_by_append:
  "k x \<notin> k ` set xs \<Longrightarrow> entry_by k (xs @ [x]) = (entry_by k xs)(k x \<mapsto> x)"
  by (induction xs) (auto simp: entry_by_Cons fun_eq_iff)

lemma entry_by_update_first:
  assumes "distinct (map k xs)" and "find P xs = Some y" and "\<And>x. k (f x) = k x"
  shows "entry_by k (update_first P f xs) = (entry_by k xs)(k y \<mapsto> f y)"
  using assms(1,2)
proof (induction xs)
  case (Cons x xs)
  show ?case
  proof (cases "P x")
    case True
    then show ?thesis using Cons.prems assms(3) by (auto simp: entry_by_Cons fun_eq_iff)
  next
    case False
    then have f: "find P xs = Some y" using Cons.prems(2) by simp
    then have "k x \<noteq> k y" using Cons.prems(1) by (auto dest: find_SomeD)
    then show ?thesis using Cons.IH f Cons.prems(1) False by (auto simp: entry_by_Cons fun_eq_iff)
  qed
qed simp

lemma entry_by_rev: "distinct (map k xs) \<Longrightarrow> entry_by k (rev xs) = entry_by k xs"
  by (induction xs) (auto simp: entry_by_Cons entry_by_append)

lemma entry_by_update_last:
  assumes "distinct (map k xs)" and "find P (rev xs) = Some y" and "\<And>x. k (f x) = k x"
  shows "entry_by k (update_last P f xs) = (entry_by k xs)(k y \<mapsto> f y)"
proof -
  have d: "distinct (map k (rev xs))" using assms(1) by (simp add: rev_map[symmetric])
  have "map k (update_first P f (rev xs)) = map k (rev xs)"
    by (rule map_update_first) (rule assms(3))
  then have "distinct (map k (update_first P f (rev xs)))" using d by simp
  then show ?thesis
    using entry_by_update_first[OF d assms(2,3)] assms(1) by (simp add: update_last_def entry_by_rev)
qed

end
