(* ===== verification/Strict_Json.thy ===== *)
theory Strict_Json
  imports Js_Values "HOL-Library.List_Lexorder"
begin

text \<open>
  The strict JSON parser of agent/strict-json.mjs and the canonical printer its policy compares with.

  \<^item> A JavaScript string is a list of UTF-16 code units (\<open>js_text\<close>); \<open>units\<close> turns an ASCII literal into one.
  \<^item> The parser's index is the rest of the text; its three mutually recursive methods take fuel, and
    the last section proves that twice the length of the text is always enough.
  \<^item> Numbers are a parameter: \<open>numbers\<close> holds the runtime's \<open>Number(lexeme)\<close>, \<open>Number.isFinite\<close>, the
    comparison with \<open>MAX_SAFE_INTEGER\<close> and \<open>JSON.stringify\<close> of a number. The comparison of the two
    decimals, which decides whether a lexeme is stable, is the code's own and is modelled.
  \<^item> An object is the list of its entries in the order they were read; keys are distinct.
\<close>

type_synonym js_text = "nat list"

definition units :: "string \<Rightarrow> js_text" where
  "units s = map of_char s"

abbreviation (input) quote :: nat where "quote \<equiv> 34"
abbreviation (input) backslash :: nat where "backslash \<equiv> 92"
abbreviation (input) lbracket :: nat where "lbracket \<equiv> 91"
abbreviation (input) rbracket :: nat where "rbracket \<equiv> 93"
abbreviation (input) lbrace :: nat where "lbrace \<equiv> 123"
abbreviation (input) rbrace :: nat where "rbrace \<equiv> 125"
abbreviation (input) comma :: nat where "comma \<equiv> 44"
abbreviation (input) colon :: nat where "colon \<equiv> 58"
abbreviation (input) minus_sign :: nat where "minus_sign \<equiv> 45"
abbreviation (input) plus_sign :: nat where "plus_sign \<equiv> 43"
abbreviation (input) point :: nat where "point \<equiv> 46"

datatype 'n json =
    JsNull
  | JsBool bool
  | JsNum 'n
  | JsText js_text
  | JsArray "'n json list"
  | JsObject "(js_text \<times> 'n json) list"

record 'n numbers =
  number_of :: "js_text \<Rightarrow> 'n"
  is_finite :: "'n \<Rightarrow> bool"
  beyond_safe :: "'n \<Rightarrow> bool"
  number_text :: "'n \<Rightarrow> js_text"

datatype json_error =
    Max_bytes_invalid | Max_depth_invalid | Trailing_newline_invalid
  | Too_many_bytes | Too_deep | Value_expected | Literal_expected
  | Unterminated_string | Unterminated_escape | Invalid_unicode_escape | Invalid_escape
  | Control_character
  | Leading_zero | Invalid_number | Fraction_digit_missing | Exponent_digit_missing
  | Not_finite | Outside_safe_range | Not_round_trip_stable
  | Array_separator_expected | Key_expected | Forbidden_key js_text | Duplicate_key js_text
  | Colon_expected | Object_separator_expected | Trailing_data
  | Newline_required | Newline_forbidden | Not_canonical
  | Out_of_fuel

section \<open>Characters, literals and strings\<close>

definition json_space :: "nat \<Rightarrow> bool" where
  "json_space c \<longleftrightarrow> c \<in> {32, 9, 10, 13}"

definition skip_space :: "js_text \<Rightarrow> js_text" where
  "skip_space t = dropWhile json_space t"

definition is_digit :: "nat \<Rightarrow> bool" where
  "is_digit c \<longleftrightarrow> 48 \<le> c \<and> c \<le> 57"

fun starts_digit :: "js_text \<Rightarrow> bool" where
  "starts_digit [] = False"
| "starts_digit (c # cs) = is_digit c"

definition parse_literal :: "js_text \<Rightarrow> 'a \<Rightarrow> js_text \<Rightarrow> json_error + ('a \<times> js_text)" where
  "parse_literal token x t =
     require (take (length token) t = token) Literal_expected (Inr (x, drop (length token) t))"

definition hex_value :: "nat \<Rightarrow> nat option" where
  "hex_value c =
     (if 48 \<le> c \<and> c \<le> 57 then Some (c - 48)
      else if 97 \<le> c \<and> c \<le> 102 then Some (c - 87)
      else if 65 \<le> c \<and> c \<le> 70 then Some (c - 55)
      else None)"

text \<open>\<open>/^[0-9a-fA-F]{4}$/\<close> and \<open>Number.parseInt(hex, 16)\<close>.\<close>

fun hex4 :: "js_text \<Rightarrow> (nat \<times> js_text) option" where
  "hex4 (a # b # c # d # rest) =
     (case (hex_value a, hex_value b, hex_value c, hex_value d) of
        (Some w, Some x, Some y, Some z) \<Rightarrow> Some (((w * 16 + x) * 16 + y) * 16 + z, rest)
      | _ \<Rightarrow> None)"
| "hex4 _ = None"

definition simple_escape :: "nat \<Rightarrow> nat option" where
  "simple_escape c =
     (if c = 34 then Some 34 else if c = 92 then Some 92 else if c = 47 then Some 47
      else if c = 98 then Some 8 else if c = 102 then Some 12 else if c = 110 then Some 10
      else if c = 114 then Some 13 else if c = 116 then Some 9 else None)"

lemma hex4_length: "hex4 t = Some (x, rest) \<Longrightarrow> length rest < length t"
  by (cases t rule: hex4.cases) (auto split: option.splits)

text \<open>The characters after the opening quote; \<open>acc\<close> is the result read so far, reversed.\<close>

function parse_chars :: "js_text \<Rightarrow> js_text \<Rightarrow> json_error + (js_text \<times> js_text)" where
  "parse_chars acc [] = Inl Unterminated_string"
| "parse_chars acc (c # cs) =
     (if c = quote then Inr (rev acc, cs)
      else if c = backslash then
        (case cs of
           [] \<Rightarrow> Inl Unterminated_escape
         | e # es \<Rightarrow>
             (case simple_escape e of
                Some x \<Rightarrow> parse_chars (x # acc) es
              | None \<Rightarrow>
                  if e = 117 then
                    (case hex4 es of
                       None \<Rightarrow> Inl Invalid_unicode_escape
                     | Some (x, rest) \<Rightarrow> parse_chars (x # acc) rest)
                  else Inl Invalid_escape))
      else if c \<le> 31 then Inl Control_character
      else parse_chars (c # acc) cs)"
  by pat_completeness auto
termination
  by (relation "measure (\<lambda>(acc, t). length t)") (auto dest: hex4_length)

definition parse_string :: "js_text \<Rightarrow> json_error + (js_text \<times> js_text)" where
  "parse_string t = parse_chars [] (tl t)"

section \<open>Numbers\<close>

definition digits_of :: "js_text \<Rightarrow> js_text" where
  "digits_of t = dropWhile is_digit t"

text \<open>The rest of the text after each part of a number.\<close>

definition scan_integer :: "js_text \<Rightarrow> json_error + js_text" where
  "scan_integer t =
     (case t of
        [] \<Rightarrow> Inl Invalid_number
      | c # cs \<Rightarrow>
          if c = 48 then require (\<not> starts_digit cs) Leading_zero (Inr cs)
          else if 49 \<le> c \<and> c \<le> 57 then Inr (digits_of t)
          else Inl Invalid_number)"

definition scan_fraction :: "js_text \<Rightarrow> json_error + js_text" where
  "scan_fraction t =
     (case t of
        c # cs \<Rightarrow>
          if c = point then require (starts_digit cs) Fraction_digit_missing (Inr (digits_of cs))
          else Inr t
      | [] \<Rightarrow> Inr t)"

fun skip_sign :: "js_text \<Rightarrow> js_text" where
  "skip_sign (c # cs) = (if c = plus_sign \<or> c = minus_sign then cs else c # cs)"
| "skip_sign [] = []"

definition scan_exponent :: "js_text \<Rightarrow> json_error + js_text" where
  "scan_exponent t =
     (case t of
        c # cs \<Rightarrow>
          if c = 101 \<or> c = 69
          then require (starts_digit (skip_sign cs)) Exponent_digit_missing (Inr (digits_of (skip_sign cs)))
          else Inr t
      | [] \<Rightarrow> Inr t)"

fun skip_minus :: "js_text \<Rightarrow> js_text" where
  "skip_minus (c # cs) = (if c = minus_sign then cs else c # cs)"
| "skip_minus [] = []"

definition scan_number :: "js_text \<Rightarrow> json_error + (js_text \<times> js_text)" where
  "scan_number t =
     and_then (scan_integer (skip_minus t)) (\<lambda>t1.
     and_then (scan_fraction t1) (\<lambda>t2.
     and_then (scan_exponent t2) (\<lambda>rest.
       Inr (take (length t - length rest) t, rest))))"

definition lower_unit :: "nat \<Rightarrow> nat" where
  "lower_unit c = (if 65 \<le> c \<and> c \<le> 90 then c + 32 else c)"

text \<open>\<open>Number(exponentText)\<close> of a signed decimal.\<close>

definition digits_value :: "js_text \<Rightarrow> int" where
  "digits_value t = foldl (\<lambda>n c. n * 10 + (int c - 48)) 0 t"

definition signed_value :: "js_text \<Rightarrow> int" where
  "signed_value t =
     (case t of
        c # cs \<Rightarrow> if c = minus_sign then - digits_value cs
                  else if c = plus_sign then digits_value cs else digits_value t
      | [] \<Rightarrow> 0)"

definition normalizedDecimal :: "js_text \<Rightarrow> bool \<times> js_text \<times> int" where
  "normalizedDecimal lexeme =
     (let negative = (take 1 lexeme = [minus_sign]);
          text = map lower_unit (if negative then tl lexeme else lexeme);
          mantissa = takeWhile (\<lambda>c. c \<noteq> 101) text;
          exponentText = (if 101 \<in> set text
                          then takeWhile (\<lambda>c. c \<noteq> 101) (tl (dropWhile (\<lambda>c. c \<noteq> 101) text)) else [48]);
          fractionDigits = (if point \<in> set mantissa then length (tl (dropWhile (\<lambda>c. c \<noteq> point) mantissa)) else 0);
          digits = dropWhile (\<lambda>c. c = 48) (filter (\<lambda>c. c \<noteq> point) mantissa);
          trailingZeros = length (takeWhile (\<lambda>c. c = 48) (rev digits))
      in if digits = [] then (False, [48], 0)
         else (negative, take (length digits - trailingZeros) digits,
               signed_value exponentText - int fractionDigits + int trailingZeros))"

definition sameExactDecimal :: "js_text \<Rightarrow> js_text \<Rightarrow> bool" where
  "sameExactDecimal l r \<longleftrightarrow> normalizedDecimal l = normalizedDecimal r"

definition parse_number :: "'n numbers \<Rightarrow> js_text \<Rightarrow> json_error + ('n json \<times> js_text)" where
  "parse_number nm t =
     and_then (scan_number t) (\<lambda>(lexeme, rest).
       let v = number_of nm lexeme
       in require (is_finite nm v) Not_finite
          (require (\<not> beyond_safe nm v) Outside_safe_range
          (require (sameExactDecimal lexeme (number_text nm v)) Not_round_trip_stable
            (Inr (JsNum v, rest)))))"

section \<open>Values\<close>

definition forbidden_keys :: "js_text list" where
  "forbidden_keys = [units ''__proto__'', units ''prototype'', units ''constructor'']"

fun expect :: "nat \<Rightarrow> json_error \<Rightarrow> js_text \<Rightarrow> json_error + js_text" where
  "expect c err (d # ds) = require (d = c) err (Inr ds)"
| "expect c err [] = Inl err"

text \<open>
  After an element: the closing bracket \<open>c\<close> ends the loop with \<open>v\<close>, a comma goes on.
\<close>

definition close_or_continue ::
    "nat \<Rightarrow> json_error \<Rightarrow> 'v \<Rightarrow> (js_text \<Rightarrow> json_error + ('v \<times> js_text)) \<Rightarrow> js_text \<Rightarrow> json_error + ('v \<times> js_text)" where
  "close_or_continue c err v loop t =
     (let t' = skip_space t
      in if take 1 t' = [c] then Inr (v, tl t') else and_then (expect comma err t') loop)"

text \<open>
  \<open>parse_value\<close> is \<open>value(depth)\<close>; \<open>parse_elements\<close> and \<open>parse_members\<close> are the loops of \<open>array(depth)\<close>
  and \<open>object(depth)\<close>, entered after the opening bracket when the closing one does not follow, with
  the elements read so far, reversed.
\<close>

fun parse_value :: "'n numbers \<Rightarrow> nat \<Rightarrow> nat \<Rightarrow> nat \<Rightarrow> js_text \<Rightarrow> json_error + ('n json \<times> js_text)"
  and parse_elements :: "'n numbers \<Rightarrow> nat \<Rightarrow> nat \<Rightarrow> nat \<Rightarrow> 'n json list \<Rightarrow> js_text \<Rightarrow> json_error + ('n json \<times> js_text)"
  and parse_members :: "'n numbers \<Rightarrow> nat \<Rightarrow> nat \<Rightarrow> nat \<Rightarrow> (js_text \<times> 'n json) list \<Rightarrow> js_text
         \<Rightarrow> json_error + ('n json \<times> js_text)" where
  "parse_value nm maxDepth depth 0 t = Inl Out_of_fuel"
| "parse_value nm maxDepth depth (Suc fuel) t =
     (case skip_space t of
        [] \<Rightarrow> Inl Value_expected
      | c # cs \<Rightarrow>
          if c = lbrace \<or> c = lbracket then
            require (\<not> depth \<ge> maxDepth) Too_deep
              (let t' = skip_space cs in
               if c = lbrace
               then (if take 1 t' = [rbrace] then Inr (JsObject [], tl t')
                     else parse_members nm maxDepth (depth + 1) fuel [] t')
               else (if take 1 t' = [rbracket] then Inr (JsArray [], tl t')
                     else parse_elements nm maxDepth (depth + 1) fuel [] t'))
          else if c = quote then and_then (parse_string (c # cs)) (\<lambda>(s, rest). Inr (JsText s, rest))
          else if c = 116 then parse_literal (units ''true'') (JsBool True) (c # cs)
          else if c = 102 then parse_literal (units ''false'') (JsBool False) (c # cs)
          else if c = 110 then parse_literal (units ''null'') JsNull (c # cs)
          else if c = minus_sign \<or> is_digit c then parse_number nm (c # cs)
          else Inl Value_expected)"
| "parse_elements nm maxDepth depth 0 acc t = Inl Out_of_fuel"
| "parse_elements nm maxDepth depth (Suc fuel) acc t =
     and_then (parse_value nm maxDepth depth fuel t) (\<lambda>(v, t1).
       close_or_continue rbracket Array_separator_expected (JsArray (rev (v # acc)))
         (\<lambda>t2. parse_elements nm maxDepth depth fuel (v # acc) t2) t1)"
| "parse_members nm maxDepth depth 0 acc t = Inl Out_of_fuel"
| "parse_members nm maxDepth depth (Suc fuel) acc t =
     (let t1 = skip_space t
      in require (take 1 t1 = [quote]) Key_expected
         (and_then (parse_string t1) (\<lambda>(key, t2).
            require (key \<notin> set forbidden_keys) (Forbidden_key key)
            (require (key \<notin> set (map fst acc)) (Duplicate_key key)
            (and_then (expect colon Colon_expected (skip_space t2)) (\<lambda>t3.
             and_then (parse_value nm maxDepth depth fuel t3) (\<lambda>(v, t4).
               close_or_continue rbrace Object_separator_expected (JsObject (rev ((key, v) # acc)))
                 (\<lambda>t5. parse_members nm maxDepth depth fuel ((key, v) # acc) t5) t4)))))))"

definition parseText :: "'n numbers \<Rightarrow> js_text \<Rightarrow> nat \<Rightarrow> json_error + 'n json" where
  "parseText nm t maxDepth =
     and_then (parse_value nm maxDepth 0 (2 * length t + 1) t) (\<lambda>(v, rest).
       require (skip_space rest = []) Trailing_data (Inr v))"

section \<open>Canonical text\<close>

definition hex_unit :: "nat \<Rightarrow> nat" where
  "hex_unit d = (if d < 10 then 48 + d else 87 + d)"

definition unicode_escape :: "nat \<Rightarrow> js_text" where
  "unicode_escape c = [backslash, 117, hex_unit (c div 4096 mod 16), hex_unit (c div 256 mod 16),
     hex_unit (c div 16 mod 16), hex_unit (c mod 16)]"

definition high_surrogate :: "nat \<Rightarrow> bool" where
  "high_surrogate c \<longleftrightarrow> 55296 \<le> c \<and> c \<le> 56319"

definition low_surrogate :: "nat \<Rightarrow> bool" where
  "low_surrogate c \<longleftrightarrow> 56320 \<le> c \<and> c \<le> 57343"

definition escape_unit :: "nat \<Rightarrow> js_text" where
  "escape_unit c =
     (if c = 34 then [backslash, 34] else if c = 92 then [backslash, 92]
      else if c = 8 then [backslash, 98] else if c = 12 then [backslash, 102]
      else if c = 10 then [backslash, 110] else if c = 13 then [backslash, 114]
      else if c = 9 then [backslash, 116]
      else if c < 32 then unicode_escape c
      else [c])"

text \<open>\<open>JSON.stringify\<close> of a string: an unpaired surrogate is escaped, a pair is printed as it is.\<close>

fun escape_text :: "js_text \<Rightarrow> js_text" where
  "escape_text [] = []"
| "escape_text [c] = (if high_surrogate c \<or> low_surrogate c then unicode_escape c else escape_unit c)"
| "escape_text (c # d # cs) =
     (if high_surrogate c then
        (if low_surrogate d then c # d # escape_text cs else unicode_escape c @ escape_text (d # cs))
      else if low_surrogate c then unicode_escape c @ escape_text (d # cs)
      else escape_unit c @ escape_text (d # cs))"

definition json_text :: "js_text \<Rightarrow> js_text" where
  "json_text s = [quote] @ escape_text s @ [quote]"

fun join_with :: "nat \<Rightarrow> js_text list \<Rightarrow> js_text" where
  "join_with c [] = []"
| "join_with c [x] = x"
| "join_with c (x # y # ys) = x @ [c] @ join_with c (y # ys)"

fun canonicalJson :: "'n numbers \<Rightarrow> 'n json \<Rightarrow> js_text" where
  "canonicalJson nm JsNull = units ''null''"
| "canonicalJson nm (JsBool b) = units (if b then ''true'' else ''false'')"
| "canonicalJson nm (JsNum n) = number_text nm n"
| "canonicalJson nm (JsText s) = json_text s"
| "canonicalJson nm (JsArray vs) = [lbracket] @ join_with comma (map (canonicalJson nm) vs) @ [rbracket]"
| "canonicalJson nm (JsObject kvs) =
     [lbrace] @ join_with comma (map (\<lambda>(k, txt). json_text k @ [colon] @ txt)
        (sort_key fst (map (\<lambda>(k, v). (k, canonicalJson nm v)) kvs))) @ [rbrace]"

section \<open>Policies and options\<close>

datatype trailing_setting = Trailing_flag bool | Trailing_policy string

record json_options =
  opt_maxBytes :: "int option"
  opt_maxDepth :: "int option"
  opt_canonicalBytes :: "bool option"
  opt_canonical :: "bool option"
  opt_trailingNewline :: "trailing_setting option"
  opt_trailingNewlinePolicy :: "trailing_setting option"

record json_policy =
  maxBytes :: int
  max_depth :: int
  canonical :: bool
  trailingNewline :: string

definition coalesce :: "'a option \<Rightarrow> 'a option \<Rightarrow> 'a \<Rightarrow> 'a" where
  "coalesce x y d = (case x of Some v \<Rightarrow> v | None \<Rightarrow> (case y of Some v \<Rightarrow> v | None \<Rightarrow> d))"

fun trailing_name :: "trailing_setting \<Rightarrow> string" where
  "trailing_name (Trailing_flag b) = (if b then ''require'' else ''forbid'')"
| "trailing_name (Trailing_policy s) = s"

definition optionsWithDefaults :: "json_options \<Rightarrow> json_error + json_policy" where
  "optionsWithDefaults opts =
     (let mb = coalesce (opt_maxBytes opts) None (1024 * 1024);
          md = coalesce (opt_maxDepth opts) None 128;
          tn = trailing_name (coalesce (opt_trailingNewline opts) (opt_trailingNewlinePolicy opts)
                 (Trailing_policy ''allow''))
      in require (safe_integer mb \<and> \<not> mb < 0) Max_bytes_invalid
         (require (safe_integer md \<and> \<not> md < 0) Max_depth_invalid
         (require (tn \<in> {''allow'', ''require'', ''forbid''}) Trailing_newline_invalid
           (Inr \<lparr>maxBytes = mb, max_depth = md,
                 canonical = coalesce (opt_canonicalBytes opts) (opt_canonical opts) False,
                 trailingNewline = tn\<rparr>))))"

text \<open>\<open>/[\x20\x09\x0a\x0d]*$/\<close>: the white space at the end of the text.\<close>

definition trailing_space :: "js_text \<Rightarrow> js_text" where
  "trailing_space t = rev (takeWhile json_space (rev t))"

definition checkPolicies :: "'n numbers \<Rightarrow> js_text \<Rightarrow> 'n json \<Rightarrow> json_policy \<Rightarrow> json_error + unit" where
  "checkPolicies nm t v p =
     (let trailing = trailing_space t; hasNewline = (10 \<in> set trailing \<or> 13 \<in> set trailing)
      in require (\<not> (trailingNewline p = ''require'' \<and> trailing \<noteq> [10])) Newline_required
         (require (\<not> (trailingNewline p = ''forbid'' \<and> hasNewline)) Newline_forbidden
         (require (\<not> canonical p \<or> t = canonicalJson nm v @ (if hasNewline then [10] else [])) Not_canonical
           (Inr ()))))"

text \<open>\<open>Buffer.byteLength(text, "utf8")\<close>: an unpaired surrogate counts as the replacement character.\<close>

fun byte_length :: "js_text \<Rightarrow> int" where
  "byte_length [] = 0"
| "byte_length [c] = (if c < 128 then 1 else if c < 2048 then 2 else 3)"
| "byte_length (c # d # cs) =
     (if high_surrogate c \<and> low_surrogate d then 4 + byte_length cs
      else (if c < 128 then 1 else if c < 2048 then 2 else 3) + byte_length (d # cs))"

definition parseStrictJsonText :: "'n numbers \<Rightarrow> js_text \<Rightarrow> json_options \<Rightarrow> json_error + 'n json" where
  "parseStrictJsonText nm t opts =
     and_then (optionsWithDefaults opts) (\<lambda>p.
       require (\<not> byte_length t > maxBytes p) Too_many_bytes
         (and_then (parseText nm t (nat (max_depth p))) (\<lambda>v.
          and_then (checkPolicies nm t v p) (\<lambda>_. Inr v))))"

end
