(* ===== verification/Json_Roundtrip.thy ===== *)
theory Json_Roundtrip
  imports Strict_Json "HOL-Library.Multiset"
begin

text \<open>
  What the strict parser guarantees: it always ends, what it returns is well formed (distinct and
  permitted keys, bounded depth), and canonical text is read back to the value it was printed from.
\<close>

section \<open>Every step consumes text\<close>

lemma skip_space_length: "length (skip_space t) \<le> length t"
  by (simp add: skip_space_def length_dropWhile_le)

lemma skip_space_idem [simp]: "skip_space (skip_space t) = skip_space t"
  by (simp add: skip_space_def)

lemma parse_chars_length: "parse_chars acc t = Inr (s, rest) \<Longrightarrow> length rest < length t"
proof (induction acc t rule: parse_chars.induct)
  case (2 acc c cs)
  show ?case
  proof (cases "c = backslash")
    case False
    then show ?thesis using "2.prems" "2.IH"(3) by (auto split: if_splits)
  next
    case True
    then obtain e es where cs: "cs = e # es" using "2.prems" by (cases cs) auto
    show ?thesis
    proof (cases "simple_escape e")
      case (Some x)
      then have "parse_chars (x # acc) es = Inr (s, rest)" using "2.prems" True cs by simp
      then show ?thesis using "2.IH"(2)[OF _ True cs Some] True cs by simp
    next
      case None
      then have e: "e = 117" using "2.prems" True cs by (simp split: if_splits)
      then obtain x r where h: "hex4 es = Some (x, r)" and "parse_chars (x # acc) r = Inr (s, rest)"
        using "2.prems" True cs None by auto
      then show ?thesis using "2.IH"(1)[OF _ True cs None e h refl] hex4_length[OF h] True cs by simp
    qed
  qed
qed simp

lemma parse_string_length: "t \<noteq> [] \<Longrightarrow> parse_string t = Inr (s, rest) \<Longrightarrow> length rest < length t"
  by (cases t) (auto simp: parse_string_def dest: parse_chars_length)

lemma parse_literal_length:
  "parse_literal token x t = Inr (y, rest) \<Longrightarrow> token \<noteq> [] \<Longrightarrow> length rest < length t"
  by (cases t; cases token) (auto simp: parse_literal_def)

lemma digits_of_length: "length (digits_of t) \<le> length t"
  by (simp add: digits_of_def length_dropWhile_le)

lemma skip_sign_length: "length (skip_sign t) \<le> length t"
  by (cases t) auto

lemma skip_minus_length: "length (skip_minus t) \<le> length t"
  by (cases t) auto

lemma scan_integer_length: "scan_integer t = Inr r \<Longrightarrow> length r < length t"
proof (cases t)
  case (Cons c cs)
  assume "scan_integer t = Inr r"
  moreover have "49 \<le> c \<Longrightarrow> c \<le> 57 \<Longrightarrow> length (digits_of (c # cs)) \<le> length cs"
    using digits_of_length[of cs] by (simp add: digits_of_def is_digit_def)
  ultimately show ?thesis using Cons by (auto simp: scan_integer_def split: if_splits)
qed (simp add: scan_integer_def)

lemma scan_fraction_length: "scan_fraction t = Inr r \<Longrightarrow> length r \<le> length t"
  using digits_of_length[of "tl t"] by (auto simp: scan_fraction_def split: list.splits if_splits)

lemma scan_exponent_length: "scan_exponent t = Inr r \<Longrightarrow> length r \<le> length t"
  using digits_of_length[of "skip_sign (tl t)"] skip_sign_length[of "tl t"]
  by (auto simp: scan_exponent_def split: list.splits if_splits)

lemma scan_number_length: "scan_number t = Inr (lexeme, rest) \<Longrightarrow> length rest < length t"
  using skip_minus_length[of t]
  by (auto simp: scan_number_def dest!: scan_integer_length scan_fraction_length scan_exponent_length)

lemma parse_number_length: "parse_number nm t = Inr (v, rest) \<Longrightarrow> length rest < length t"
  by (auto simp: parse_number_def Let_def dest: scan_number_length)

lemma expect_Inr: "expect c err t = Inr r \<longleftrightarrow> t = c # r"
  by (cases t) auto

lemma units_not_Nil: "units s = [] \<longleftrightarrow> s = []"
  by (simp add: units_def)

lemma take1: "take (Suc 0) t = [c] \<longleftrightarrow> (\<exists>cs. t = c # cs)"
  by (cases t) auto

lemma parse_valueE:
  assumes "parse_value nm D d (Suc fuel) t = Inr (v, rest)"
  obtains (empty_object) cs where "skip_space t = lbrace # cs" "d < D" "skip_space cs = rbrace # rest" "v = JsObject []"
  | (object) cs where "skip_space t = lbrace # cs" "d < D"
      "parse_members nm D (Suc d) fuel [] (skip_space cs) = Inr (v, rest)"
  | (empty_array) cs where "skip_space t = lbracket # cs" "d < D" "skip_space cs = rbracket # rest" "v = JsArray []"
  | (array) cs where "skip_space t = lbracket # cs" "d < D"
      "parse_elements nm D (Suc d) fuel [] (skip_space cs) = Inr (v, rest)"
  | (string_value) s where "parse_string (skip_space t) = Inr (s, rest)" "v = JsText s"
      "take 1 (skip_space t) = [quote]"
  | (literal) token w where "parse_literal token w (skip_space t) = Inr (v, rest)" "token \<noteq> []"
      "w \<in> {JsNull, JsBool True, JsBool False}"
  | (number) "parse_number nm (skip_space t) = Inr (v, rest)"
proof -
  obtain c cs where t: "skip_space t = c # cs" using assms by (auto split: list.splits)
  consider "c = lbrace" | "c = lbracket" | "c \<noteq> lbrace" "c \<noteq> lbracket" by blast
  then show thesis
  proof cases
    case 1
    show thesis
    proof (cases "\<exists>r. skip_space cs = rbrace # r")
      case True
      then show thesis using assms t 1 by (intro empty_object[of cs]) (auto simp: Let_def)
    next
      case False
      then show thesis using assms t 1 by (intro object[of cs]) (auto simp: Let_def take1)
    qed
  next
    case 2
    show thesis
    proof (cases "\<exists>r. skip_space cs = rbracket # r")
      case True
      then show thesis using assms t 2 by (intro empty_array[of cs]) (auto simp: Let_def)
    next
      case False
      then show thesis using assms t 2 by (intro array[of cs]) (auto simp: Let_def take1)
    qed
  next
    case 3
    then show thesis
      using assms t string_value number literal[of "units ''true''" "JsBool True"]
        literal[of "units ''false''" "JsBool False"] literal[of "units ''null''" JsNull]
      by (auto simp: units_not_Nil split: if_splits)
  qed
qed

lemma close_or_continueE:
  assumes "close_or_continue c err v loop t = Inr (w, rest)"
  obtains (closes) "skip_space t = c # rest" "w = v" | (goes_on) t' where "skip_space t = comma # t'" "loop t' = Inr (w, rest)"
  using assms by (auto simp: close_or_continue_def Let_def expect_Inr take1 split: if_splits)

lemma parse_elementsE:
  assumes "parse_elements nm D d (Suc fuel) acc t = Inr (v, rest)"
  obtains (closes) u t1 where "parse_value nm D d fuel t = Inr (u, t1)" "skip_space t1 = rbracket # rest"
      "v = JsArray (rev acc @ [u])"
  | (goes_on) u t1 t3 where "parse_value nm D d fuel t = Inr (u, t1)" "skip_space t1 = comma # t3"
      "parse_elements nm D d fuel (u # acc) t3 = Inr (v, rest)"
  using assms by (auto elim!: close_or_continueE)

lemma parse_membersE:
  assumes "parse_members nm D d (Suc fuel) acc t = Inr (v, rest)"
  obtains (closes) key t2 t3 u t4 where "take 1 (skip_space t) = [quote]" "parse_string (skip_space t) = Inr (key, t2)"
      "key \<notin> set forbidden_keys" "key \<notin> fst ` set acc" "skip_space t2 = colon # t3"
      "parse_value nm D d fuel t3 = Inr (u, t4)" "skip_space t4 = rbrace # rest" "v = JsObject (rev acc @ [(key, u)])"
  | (goes_on) key t2 t3 u t4 t6 where "take 1 (skip_space t) = [quote]" "parse_string (skip_space t) = Inr (key, t2)"
      "key \<notin> set forbidden_keys" "key \<notin> fst ` set acc" "skip_space t2 = colon # t3"
      "parse_value nm D d fuel t3 = Inr (u, t4)" "skip_space t4 = comma # t6"
      "parse_members nm D d fuel ((key, u) # acc) t6 = Inr (v, rest)"
  using assms by (auto simp: Let_def expect_Inr elim!: close_or_continueE)

lemma skip_space_ConsD: "skip_space t = c # cs \<Longrightarrow> length cs < length t"
  using skip_space_length[of t] by simp

lemma parse_string_shorter:
  assumes "take 1 (skip_space t) = [q]" and "parse_string (skip_space t) = Inr (s, rest)"
  shows "length rest < length t"
proof -
  have "skip_space t \<noteq> []" using assms(1) by auto
  from parse_string_length[OF this assms(2)] show ?thesis using skip_space_length[of t] by linarith
qed

lemma parse_consumes:
  "(parse_value nm D d fuel t = Inr (v, rest) \<longrightarrow> length rest < length t) \<and>
   (parse_elements nm D d fuel acc t = Inr (v, rest) \<longrightarrow> length rest < length t) \<and>
   (parse_members nm D d fuel kvs t = Inr (v, rest) \<longrightarrow> length rest < length t)"
proof (induction fuel arbitrary: d t v rest acc kvs)
  case (Suc fuel)
  note IHv = Suc.IH[THEN conjunct1, rule_format]
  note IHe = Suc.IH[THEN conjunct2, THEN conjunct1, rule_format]
  note IHm = Suc.IH[THEN conjunct2, THEN conjunct2, rule_format]
  have "length rest < length t" if r: "parse_value nm D d (Suc fuel) t = Inr (v, rest)"
    using r
  proof (cases rule: parse_valueE)
    case (empty_object cs)
    show ?thesis using skip_space_ConsD[OF empty_object(1)] skip_space_ConsD[OF empty_object(3)] by linarith
  next
    case (object cs)
    show ?thesis using skip_space_ConsD[OF object(1)] IHm[OF object(3)] skip_space_length[of cs] by linarith
  next
    case (empty_array cs)
    show ?thesis using skip_space_ConsD[OF empty_array(1)] skip_space_ConsD[OF empty_array(3)] by linarith
  next
    case (array cs)
    show ?thesis using skip_space_ConsD[OF array(1)] IHe[OF array(3)] skip_space_length[of cs] by linarith
  next
    case (string_value s)
    show ?thesis by (rule parse_string_shorter[OF string_value(3,1)])
  next
    case (literal token w)
    show ?thesis using parse_literal_length[OF literal(1,2)] skip_space_length[of t] by linarith
  next
    case number
    show ?thesis using parse_number_length[OF number] skip_space_length[of t] by linarith
  qed
  moreover have "length rest < length t" if r: "parse_elements nm D d (Suc fuel) acc t = Inr (v, rest)"
    using r
  proof (cases rule: parse_elementsE)
    case (closes u t1)
    show ?thesis using IHv[OF closes(1)] skip_space_ConsD[OF closes(2)] by linarith
  next
    case (goes_on u t1 t3)
    then show ?thesis using IHv[OF goes_on(1)] IHe[OF goes_on(3)] skip_space_ConsD[OF goes_on(2)] by linarith
  qed
  moreover have "length rest < length t" if r: "parse_members nm D d (Suc fuel) kvs t = Inr (v, rest)"
    using r
  proof (cases rule: parse_membersE)
    case (closes key t2 t3 u t4)
    have "length t2 < length t" by (rule parse_string_shorter[OF closes(1,2)])
    then show ?thesis using IHv[OF closes(6)] skip_space_ConsD[OF closes(5)] skip_space_ConsD[OF closes(7)] by linarith
  next
    case (goes_on key t2 t3 u t4 t6)
    have "length t2 < length t" by (rule parse_string_shorter[OF goes_on(1,2)])
    then show ?thesis
      using IHv[OF goes_on(6)] IHm[OF goes_on(8)] skip_space_ConsD[OF goes_on(5)] skip_space_ConsD[OF goes_on(7)] by linarith
  qed
  ultimately show ?case by blast
qed simp

section \<open>Fuel\<close>

lemma and_then_cong:
  "m = m' \<Longrightarrow> (\<And>x. m' = Inr x \<Longrightarrow> k x = k' x) \<Longrightarrow> and_then m k = and_then m' k'"
  by (cases m') auto

lemma require_cong: "c = c' \<Longrightarrow> err = err' \<Longrightarrow> (c' \<Longrightarrow> k = k') \<Longrightarrow> require c err k = require c' err' k'"
  by (auto simp: require_def)

lemma parse_value_length: "parse_value nm D d fuel t = Inr (v, rest) \<Longrightarrow> length rest < length t"
  using parse_consumes by blast

lemma and_then_pair_cong:
  "m = m' \<Longrightarrow> (\<And>x y. m' = Inr (x, y) \<Longrightarrow> k x y = k' x y) \<Longrightarrow>
   and_then m (\<lambda>(x, y). k x y) = and_then m' (\<lambda>(x, y). k' x y)"
  by (rule and_then_cong) auto

lemma close_or_continue_cong:
  "(\<And>t'. skip_space t = comma # t' \<Longrightarrow> loop t' = loop' t') \<Longrightarrow>
   close_or_continue c err v loop t = close_or_continue c err v loop' t"
  by (auto simp: close_or_continue_def Let_def expect_Inr intro!: and_then_cong)

text \<open>More fuel than twice the length of the text makes no difference.\<close>

lemma more_fuel:
  "(2 * length t + 1 \<le> fuel \<longrightarrow> fuel \<le> gas \<longrightarrow> parse_value nm D d gas t = parse_value nm D d fuel t) \<and>
   (2 * length t + 2 \<le> fuel \<longrightarrow> fuel \<le> gas \<longrightarrow> parse_elements nm D d gas acc t = parse_elements nm D d fuel acc t) \<and>
   (2 * length t + 2 \<le> fuel \<longrightarrow> fuel \<le> gas \<longrightarrow> parse_members nm D d gas kvs t = parse_members nm D d fuel kvs t)"
proof (induction fuel arbitrary: d t acc kvs gas)
  case (Suc fuel)
  note IHv = Suc.IH[THEN conjunct1, rule_format]
  note IHe = Suc.IH[THEN conjunct2, THEN conjunct1, rule_format]
  note IHm = Suc.IH[THEN conjunct2, THEN conjunct2, rule_format]
  have "parse_value nm D d gas t = parse_value nm D d (Suc fuel) t"
    if len: "2 * length t + 1 \<le> Suc fuel" and le: "Suc fuel \<le> gas"
  proof -
    obtain n where n: "gas = Suc n" "fuel \<le> n" using le by (cases gas) auto
    show ?thesis
    proof (cases "skip_space t")
      case (Cons c cs)
      have "2 * length (skip_space cs) + 2 \<le> fuel"
        using skip_space_ConsD[OF Cons] skip_space_length[of cs] len by linarith
      then show ?thesis using IHe[OF _ n(2)] IHm[OF _ n(2)] Cons by (simp add: n(1) Let_def)
    qed (simp add: n(1))
  qed
  moreover have "parse_elements nm D d gas acc t = parse_elements nm D d (Suc fuel) acc t"
    if len: "2 * length t + 2 \<le> Suc fuel" and le: "Suc fuel \<le> gas"
  proof -
    obtain n where n: "gas = Suc n" "fuel \<le> n" using le by (cases gas) auto
    have "parse_value nm D d n t = parse_value nm D d fuel t" using IHv[OF _ n(2)] len by simp
    then show ?thesis
      unfolding n(1) parse_elements.simps
    proof (rule and_then_pair_cong, intro close_or_continue_cong)
      fix v t1 t'
      assume "parse_value nm D d fuel t = Inr (v, t1)" "skip_space t1 = comma # t'"
      then show "parse_elements nm D d n (v # acc) t' = parse_elements nm D d fuel (v # acc) t'"
        using IHe[OF _ n(2)] parse_value_length[of nm D d fuel t] skip_space_ConsD[of t1] len by fastforce
    qed
  qed
  moreover have "parse_members nm D d gas kvs t = parse_members nm D d (Suc fuel) kvs t"
    if len: "2 * length t + 2 \<le> Suc fuel" and le: "Suc fuel \<le> gas"
  proof -
    obtain n where n: "gas = Suc n" "fuel \<le> n" using le by (cases gas) auto
    show ?thesis
      unfolding n(1) parse_members.simps Let_def
    proof (rule require_cong[OF refl refl], rule and_then_pair_cong[OF refl],
        rule require_cong[OF refl refl], rule require_cong[OF refl refl], rule and_then_cong[OF refl], unfold expect_Inr)
      fix key t2 t3
      assume q: "take 1 (skip_space t) = [quote]" and k: "parse_string (skip_space t) = Inr (key, t2)"
        and t3: "skip_space t2 = colon # t3"
      have t: "length t3 < length t" using parse_string_shorter[OF q k] skip_space_ConsD[OF t3] by linarith
      then have "parse_value nm D d n t3 = parse_value nm D d fuel t3" using IHv[OF _ n(2)] len by simp
      then show "and_then (parse_value nm D d n t3) (\<lambda>(v, t4).
          close_or_continue rbrace Object_separator_expected (JsObject (rev ((key, v) # kvs)))
            (parse_members nm D d n ((key, v) # kvs)) t4) =
        and_then (parse_value nm D d fuel t3) (\<lambda>(v, t4).
          close_or_continue rbrace Object_separator_expected (JsObject (rev ((key, v) # kvs)))
            (parse_members nm D d fuel ((key, v) # kvs)) t4)"
      proof (rule and_then_pair_cong, intro close_or_continue_cong)
        fix v t4 t'
        assume "parse_value nm D d fuel t3 = Inr (v, t4)" "skip_space t4 = comma # t'"
        then show "parse_members nm D d n ((key, v) # kvs) t' = parse_members nm D d fuel ((key, v) # kvs) t'"
          using IHm[OF _ n(2)] parse_value_length[of nm D d fuel t3] skip_space_ConsD[of t4] t len by fastforce
      qed
    qed
  qed
  ultimately show ?case by blast
qed simp

lemma parse_chars_error: "parse_chars acc t \<noteq> Inl Out_of_fuel"
  by (induction acc t rule: parse_chars.induct) (auto split: if_splits list.splits option.splits)

lemma leaf_errors:
  "parse_string t \<noteq> Inl Out_of_fuel" "parse_literal token x t \<noteq> Inl Out_of_fuel"
  "parse_number nm t \<noteq> Inl Out_of_fuel"
  "err \<noteq> Out_of_fuel \<Longrightarrow> expect c err t \<noteq> Inl Out_of_fuel"
proof -
  have "scan_integer u \<noteq> Inl Out_of_fuel" "scan_fraction u \<noteq> Inl Out_of_fuel" "scan_exponent u \<noteq> Inl Out_of_fuel" for u
    by (auto simp: scan_integer_def scan_fraction_def scan_exponent_def split: list.splits if_splits)
  then have "scan_number t \<noteq> Inl Out_of_fuel" by (simp add: scan_number_def)
  then show "parse_number nm t \<noteq> Inl Out_of_fuel" by (auto simp: parse_number_def Let_def)
  show "parse_string t \<noteq> Inl Out_of_fuel" by (simp add: parse_string_def parse_chars_error)
  show "parse_literal token x t \<noteq> Inl Out_of_fuel" by (simp add: parse_literal_def)
  show "err \<noteq> Out_of_fuel \<Longrightarrow> expect c err t \<noteq> Inl Out_of_fuel" by (cases t) auto
qed

lemma close_or_continue_error:
  assumes "err \<noteq> Out_of_fuel" and "\<And>t'. skip_space t = comma # t' \<Longrightarrow> loop t' \<noteq> Inl Out_of_fuel"
  shows "close_or_continue c err v loop t \<noteq> Inl Out_of_fuel"
  using assms leaf_errors(4)[OF assms(1)] by (auto simp: close_or_continue_def Let_def expect_Inr)

lemma enough_fuel:
  "(2 * length t + 1 \<le> fuel \<longrightarrow> parse_value nm D d fuel t \<noteq> Inl Out_of_fuel) \<and>
   (2 * length t + 2 \<le> fuel \<longrightarrow> parse_elements nm D d fuel acc t \<noteq> Inl Out_of_fuel) \<and>
   (2 * length t + 2 \<le> fuel \<longrightarrow> parse_members nm D d fuel kvs t \<noteq> Inl Out_of_fuel)"
proof (induction fuel arbitrary: d t acc kvs)
  case (Suc fuel)
  note IHv = Suc.IH[THEN conjunct1, rule_format]
  note IHe = Suc.IH[THEN conjunct2, THEN conjunct1, rule_format]
  note IHm = Suc.IH[THEN conjunct2, THEN conjunct2, rule_format]
  have "parse_value nm D d (Suc fuel) t \<noteq> Inl Out_of_fuel" if len: "2 * length t + 1 \<le> Suc fuel"
  proof (cases "skip_space t")
    case (Cons c cs)
    have "2 * length (skip_space cs) + 2 \<le> fuel"
      using skip_space_ConsD[OF Cons] skip_space_length[of cs] len by linarith
    then show ?thesis using Cons by (simp add: Let_def IHe IHm leaf_errors require_def)
  qed simp
  moreover have "parse_elements nm D d (Suc fuel) acc t \<noteq> Inl Out_of_fuel" if len: "2 * length t + 2 \<le> Suc fuel"
  proof -
    have "parse_elements nm D d fuel (v # acc) t' \<noteq> Inl Out_of_fuel"
      if "parse_value nm D d fuel t = Inr (v, t1)" "skip_space t1 = comma # t'" for v t1 t'
      using parse_value_length[OF that(1)] skip_space_ConsD[OF that(2)] len by (intro IHe) simp
    then have "close_or_continue rbracket Array_separator_expected w (parse_elements nm D d fuel (v # acc)) t1 \<noteq> Inl Out_of_fuel"
      if "parse_value nm D d fuel t = Inr (v, t1)" for v t1 w
      using that by (intro close_or_continue_error) simp_all
    then show ?thesis using IHv[of t d] len by auto
  qed
  moreover have "parse_members nm D d (Suc fuel) kvs t \<noteq> Inl Out_of_fuel" if len: "2 * length t + 2 \<le> Suc fuel"
  proof -
    have v: "parse_value nm D d fuel t3 \<noteq> Inl Out_of_fuel \<and>
        (\<forall>v t4 t'. parse_value nm D d fuel t3 = Inr (v, t4) \<and> skip_space t4 = comma # t' \<longrightarrow>
           parse_members nm D d fuel ((key, v) # kvs) t' \<noteq> Inl Out_of_fuel)"
      if q: "take 1 (skip_space t) = [quote]" and k: "parse_string (skip_space t) = Inr (key, t2)"
        and t3: "skip_space t2 = colon # t3" for key t2 t3
    proof -
      have t: "length t3 < length t" using parse_string_shorter[OF q k] skip_space_ConsD[OF t3] by linarith
      have "parse_members nm D d fuel ((key, v) # kvs) t' \<noteq> Inl Out_of_fuel"
        if "parse_value nm D d fuel t3 = Inr (v, t4)" "skip_space t4 = comma # t'" for v t4 t'
        using parse_value_length[OF that(1)] skip_space_ConsD[OF that(2)] len t by (intro IHm) simp
      then show ?thesis using IHv[of t3 d] t len by auto
    qed
    show ?thesis
    proof
      assume "parse_members nm D d (Suc fuel) kvs t = Inl Out_of_fuel"
      then obtain key t2 t3 where q: "take 1 (skip_space t) = [quote]"
        and k: "parse_string (skip_space t) = Inr (key, t2)" and t3: "skip_space t2 = colon # t3"
        and r: "and_then (parse_value nm D d fuel t3) (\<lambda>(v, t4).
               close_or_continue rbrace Object_separator_expected (JsObject (rev ((key, v) # kvs)))
                 (\<lambda>t5. parse_members nm D d fuel ((key, v) # kvs) t5) t4) = Inl Out_of_fuel"
        by (auto simp: Let_def expect_Inr leaf_errors split: if_splits)
      then obtain v t4 where u: "parse_value nm D d fuel t3 = Inr (v, t4)"
        and e: "close_or_continue rbrace Object_separator_expected (JsObject (rev ((key, v) # kvs)))
                 (\<lambda>t5. parse_members nm D d fuel ((key, v) # kvs) t5) t4 = Inl Out_of_fuel"
        using v[OF q k t3] by auto
      have "close_or_continue rbrace Object_separator_expected (JsObject (rev ((key, v) # kvs)))
                 (\<lambda>t5. parse_members nm D d fuel ((key, v) # kvs) t5) t4 \<noteq> Inl Out_of_fuel"
      proof (rule close_or_continue_error)
        fix t' assume "skip_space t4 = comma # t'"
        then show "parse_members nm D d fuel ((key, v) # kvs) t' \<noteq> Inl Out_of_fuel" using v[OF q k t3] u by blast
      qed simp
      then show False using e by contradiction
    qed
  qed
  ultimately show ?case by blast
qed simp

section \<open>Well-formed values\<close>

definition units_ok :: "js_text \<Rightarrow> bool" where
  "units_ok t \<longleftrightarrow> (\<forall>c \<in> set t. c < 65536)"

lemma units_ok_simps [simp]: "units_ok []" "units_ok (c # cs) \<longleftrightarrow> c < 65536 \<and> units_ok cs"
  "units_ok (rev t) \<longleftrightarrow> units_ok t"
  by (simp_all add: units_ok_def)

lemma units_ok_subset: "units_ok t \<Longrightarrow> set u \<subseteq> set t \<Longrightarrow> units_ok u"
  by (auto simp: units_ok_def)

fun wf_json :: "'n numbers \<Rightarrow> nat \<Rightarrow> 'n json \<Rightarrow> bool" where
  "wf_json nm d (JsNum n) = (is_finite nm n \<and> \<not> beyond_safe nm n)"
| "wf_json nm d (JsText s) = units_ok s"
| "wf_json nm d (JsArray vs) = (0 < d \<and> (\<forall>v \<in> set vs. wf_json nm (d - 1) v))"
| "wf_json nm d (JsObject kvs) =
     (0 < d \<and> distinct (map fst kvs) \<and>
      (\<forall>(k, v) \<in> set kvs. k \<notin> set forbidden_keys \<and> units_ok k \<and> wf_json nm (d - 1) v))"
| "wf_json nm d _ = True"

lemma hex_value_less: "hex_value c = Some x \<Longrightarrow> x < 16"
  by (auto simp: hex_value_def split: if_splits)

lemma hex4_less: "hex4 t = Some (x, rest) \<Longrightarrow> x < 65536 \<and> set rest \<subseteq> set t"
  by (cases t rule: hex4.cases) (auto split: option.splits dest!: hex_value_less)

lemma simple_escape_less: "simple_escape c = Some x \<Longrightarrow> x < 65536"
  by (auto simp: simple_escape_def split: if_splits)

lemma parse_chars_units:
  "parse_chars acc t = Inr (s, rest) \<Longrightarrow> units_ok acc \<Longrightarrow> units_ok t \<Longrightarrow> units_ok s \<and> units_ok rest"
proof (induction acc t rule: parse_chars.induct)
  case (2 acc c cs)
  show ?case
  proof (cases "c = backslash")
    case False
    show ?thesis
    proof (cases "c = quote")
      case False
      then have "\<not> c \<le> 31" "parse_chars (c # acc) cs = Inr (s, rest)"
        using "2.prems" \<open>c \<noteq> backslash\<close> by (auto split: if_splits)
      then show ?thesis using "2.IH"(3)[OF False \<open>c \<noteq> backslash\<close>] "2.prems" by simp
    qed (use "2.prems" in auto)
  next
    case True
    then obtain e es where cs: "cs = e # es" using "2.prems" by (cases cs) auto
    show ?thesis
    proof (cases "simple_escape e")
      case (Some x)
      then have "parse_chars (x # acc) es = Inr (s, rest)" using "2.prems" True cs by simp
      then show ?thesis using "2.IH"(2)[OF _ True cs Some] True cs "2.prems" simple_escape_less[OF Some]
        by simp
    next
      case None
      then have e: "e = 117" using "2.prems" True cs by (simp split: if_splits)
      then obtain x r where h: "hex4 es = Some (x, r)" and "parse_chars (x # acc) r = Inr (s, rest)"
        using "2.prems" True cs None by auto
      then show ?thesis using "2.IH"(1)[OF _ True cs None e h refl] hex4_less[OF h] True cs "2.prems"
          units_ok_subset[of es r] by simp
    qed
  qed
qed simp

lemma units_ok_append [simp]: "units_ok (s @ t) \<longleftrightarrow> units_ok s \<and> units_ok t"
  by (auto simp: units_ok_def)

lemma set_skip_space: "set (skip_space t) \<subseteq> set t"
  by (auto simp: skip_space_def dest: set_dropWhileD)

lemma skip_space_units: "units_ok t \<Longrightarrow> units_ok (skip_space t)"
  using set_skip_space units_ok_subset by blast

lemma skip_space_ConsD_units: "skip_space t = c # cs \<Longrightarrow> units_ok t \<Longrightarrow> units_ok cs"
  using skip_space_units[of t] by simp

lemma parse_literal_units: "parse_literal token x t = Inr (y, rest) \<Longrightarrow> units_ok t \<Longrightarrow> y = x \<and> units_ok rest"
  by (auto simp: parse_literal_def elim: units_ok_subset dest: in_set_dropD)

lemma set_digits_of: "set (digits_of t) \<subseteq> set t"
  by (auto simp: digits_of_def dest: set_dropWhileD)

lemma set_skip_sign: "set (skip_sign t) \<subseteq> set t" "set (skip_minus t) \<subseteq> set t"
  by (cases t; auto)+

lemma scan_parts_set:
  "scan_integer t = Inr r \<Longrightarrow> set r \<subseteq> set t" "scan_fraction t = Inr r \<Longrightarrow> set r \<subseteq> set t"
  "scan_exponent t = Inr r \<Longrightarrow> set r \<subseteq> set t"
  using set_digits_of[of t] set_digits_of[of "tl t"] set_digits_of[of "skip_sign (tl t)"] set_skip_sign(1)[of "tl t"]
  by (auto simp: scan_integer_def scan_fraction_def scan_exponent_def split: list.splits if_splits)

lemma parse_number_wf:
  assumes "parse_number nm t = Inr (v, rest)"
  shows "set rest \<subseteq> set t \<and> wf_json nm d v"
proof -
  obtain lexeme where "scan_number t = Inr (lexeme, rest)" and v: "wf_json nm d v"
    using assms by (auto simp: parse_number_def Let_def)
  then have "set rest \<subseteq> set (skip_minus t)"
    using scan_parts_set by (fastforce simp: scan_number_def)
  then show ?thesis using v set_skip_sign(2)[of t] by blast
qed

lemma parse_string_units:
  assumes "parse_string (skip_space t) = Inr (s, rest)" and "units_ok t"
  shows "units_ok s \<and> units_ok rest"
proof -
  have "units_ok (tl (skip_space t))"
    using skip_space_units[OF assms(2)] by (cases "skip_space t") auto
  then show ?thesis using parse_chars_units assms(1) by (auto simp: parse_string_def)
qed

definition entry_ok :: "'n numbers \<Rightarrow> nat \<Rightarrow> js_text \<times> 'n json \<Rightarrow> bool" where
  "entry_ok nm d kv \<longleftrightarrow> fst kv \<notin> set forbidden_keys \<and> units_ok (fst kv) \<and> wf_json nm d (snd kv)"

lemma wf_object: "wf_json nm d (JsObject kvs) \<longleftrightarrow> 0 < d \<and> distinct (map fst kvs) \<and> (\<forall>kv \<in> set kvs. entry_ok nm (d - 1) kv)"
  by (auto simp: entry_ok_def)

declare wf_json.simps(4) [simp del]

lemma parse_wf:
  "(parse_value nm D d fuel t = Inr (v, rest) \<longrightarrow> units_ok t \<longrightarrow> wf_json nm (D - d) v \<and> units_ok rest) \<and>
   (parse_elements nm D d fuel acc t = Inr (v, rest) \<longrightarrow> units_ok t \<longrightarrow> (\<forall>u \<in> set acc. wf_json nm (D - d) u) \<longrightarrow>
      0 < d \<longrightarrow> d \<le> D \<longrightarrow> wf_json nm (Suc (D - d)) v \<and> units_ok rest) \<and>
   (parse_members nm D d fuel kvs t = Inr (v, rest) \<longrightarrow> units_ok t \<longrightarrow> distinct (map fst kvs) \<longrightarrow>
      (\<forall>kv \<in> set kvs. entry_ok nm (D - d) kv) \<longrightarrow> 0 < d \<longrightarrow> d \<le> D \<longrightarrow>
      wf_json nm (Suc (D - d)) v \<and> units_ok rest)"
proof (induction fuel arbitrary: d t v rest acc kvs)
  case (Suc fuel)
  note IHv = Suc.IH[THEN conjunct1, rule_format]
  note IHe = Suc.IH[THEN conjunct2, THEN conjunct1, rule_format]
  note IHm = Suc.IH[THEN conjunct2, THEN conjunct2, rule_format]
  have "wf_json nm (D - d) v \<and> units_ok rest"
    if r: "parse_value nm D d (Suc fuel) t = Inr (v, rest)" and t: "units_ok t"
    using r
  proof (cases rule: parse_valueE)
    case (empty_object cs)
    then show ?thesis using skip_space_ConsD_units t by (auto simp: wf_object)
  next
    case (object cs)
    have "units_ok (skip_space cs)" using skip_space_ConsD_units[OF object(1) t] by (rule skip_space_units)
    then show ?thesis using IHm[OF object(3)] object(2) by (simp add: Suc_diff_Suc)
  next
    case (empty_array cs)
    then show ?thesis using skip_space_ConsD_units t by auto
  next
    case (array cs)
    have "units_ok (skip_space cs)" using skip_space_ConsD_units[OF array(1) t] by (rule skip_space_units)
    then show ?thesis using IHe[OF array(3)] array(2) by (simp add: Suc_diff_Suc)
  next
    case (string_value s)
    then show ?thesis using parse_string_units t by auto
  next
    case (literal token w)
    then show ?thesis using parse_literal_units[OF literal(1) skip_space_units[OF t]] by auto
  next
    case number
    have "set rest \<subseteq> set (skip_space t)" "wf_json nm (D - d) v" using parse_number_wf[OF number] by auto
    then show ?thesis using units_ok_subset[OF skip_space_units[OF t]] by simp
  qed
  moreover have "wf_json nm (Suc (D - d)) v \<and> units_ok rest"
    if r: "parse_elements nm D d (Suc fuel) acc t = Inr (v, rest)" and t: "units_ok t"
      and acc: "\<forall>u \<in> set acc. wf_json nm (D - d) u" and d: "0 < d" "d \<le> D"
    using r
  proof (cases rule: parse_elementsE)
    case (closes u t1)
    then show ?thesis using IHv[OF closes(1) t] acc skip_space_ConsD_units[OF closes(2)] by auto
  next
    case (goes_on u t1 t3)
    then show ?thesis
      using IHv[OF goes_on(1) t] acc d skip_space_ConsD_units[OF goes_on(2)] by (intro IHe[OF goes_on(3)]) auto
  qed
  moreover have "wf_json nm (Suc (D - d)) v \<and> units_ok rest"
    if r: "parse_members nm D d (Suc fuel) kvs t = Inr (v, rest)" and t: "units_ok t"
      and dist: "distinct (map fst kvs)" and kvs: "\<forall>kv \<in> set kvs. entry_ok nm (D - d) kv" and d: "0 < d" "d \<le> D"
    using r
  proof (cases rule: parse_membersE)
    case (closes key t2 t3 u t4)
    note k = parse_string_units[OF closes(2) t]
    note u = IHv[OF closes(6) skip_space_ConsD_units[OF closes(5) conjunct2[OF k]]]
    have "entry_ok nm (D - d) (key, u)" using k u closes(3) by (simp add: entry_ok_def)
    then show ?thesis
      using closes(4,8) dist kvs u skip_space_ConsD_units[OF closes(7)] by (auto simp: wf_object rev_map[symmetric])
  next
    case (goes_on key t2 t3 u t4 t6)
    note k = parse_string_units[OF goes_on(2) t]
    note u = IHv[OF goes_on(6) skip_space_ConsD_units[OF goes_on(5) conjunct2[OF k]]]
    have "entry_ok nm (D - d) (key, u)" using k u goes_on(3) by (simp add: entry_ok_def)
    then show ?thesis
      using goes_on(4) dist kvs d u skip_space_ConsD_units[OF goes_on(7)] by (intro IHm[OF goes_on(8)]) auto
  qed
  ultimately show ?case by blast
qed simp

section \<open>Reading back strings and numbers\<close>

lemma hex_value_unit: "d < 16 \<Longrightarrow> hex_value (hex_unit d) = Some d"
  by (auto simp: hex_value_def hex_unit_def)

lemma parse_unicode_escape:
  assumes "c < 65536"
  shows "parse_chars acc (unicode_escape c @ t) = parse_chars (c # acc) t"
proof -
  have "((c div 4096 mod 16 * 16 + c div 256 mod 16) * 16 + c div 16 mod 16) * 16 + c mod 16 = c"
  proof -
    have split: "n div 16 * 16 + n mod 16 = n" for n :: nat by simp
    have "c div 4096 = c div 256 div 16" "c div 256 = c div 16 div 16" by (simp_all add: div_mult2_eq[symmetric])
    moreover have "c div 4096 mod 16 = c div 4096" using assms by simp
    ultimately show ?thesis using split[of "c div 256"] split[of "c div 16"] split[of c] by presburger
  qed
  then have "hex4 (hex_unit (c div 4096 mod 16) # hex_unit (c div 256 mod 16) # hex_unit (c div 16 mod 16)
      # hex_unit (c mod 16) # t) = Some (c, t)"
    by (simp only: hex4.simps hex_value_unit mod_less_divisor zero_less_numeral option.case prod.case)
  then show ?thesis by (simp add: unicode_escape_def simple_escape_def)
qed

lemma parse_escape_unit: "c < 65536 \<Longrightarrow> parse_chars acc (escape_unit c @ t) = parse_chars (c # acc) t"
  by (auto simp: escape_unit_def parse_unicode_escape simple_escape_def)

lemma parse_surrogate: "high_surrogate c \<or> low_surrogate c \<Longrightarrow> parse_chars acc (c # t) = parse_chars (c # acc) t"
  by (auto simp: high_surrogate_def low_surrogate_def)

lemma parse_escape_text:
  "units_ok s \<Longrightarrow> parse_chars acc (escape_text s @ quote # rest) = Inr (rev acc @ s, rest)"
proof (induction s arbitrary: acc rule: escape_text.induct)
  case (2 c)
  then show ?case
    using parse_unicode_escape[of c acc "quote # rest"] parse_escape_unit[of c acc "quote # rest"] by simp
next
  case (3 c d cs)
  show ?case
  proof (cases "high_surrogate c \<and> low_surrogate d")
    case True
    then show ?thesis
      using "3.IH"(1) "3.prems" parse_surrogate[of c acc] parse_surrogate[of d "c # acc"] by (simp del: parse_chars.simps)
  next
    case False
    have "parse_chars (c # acc) (escape_text (d # cs) @ quote # rest) = Inr (rev acc @ c # d # cs, rest)"
      using "3.IH"(2,3,4)[of "c # acc"] "3.prems" False by (cases "high_surrogate c"; cases "low_surrogate c") auto
    then show ?thesis
      using False "3.prems" parse_unicode_escape[of c acc "escape_text (d # cs) @ quote # rest"]
        parse_escape_unit[of c acc "escape_text (d # cs) @ quote # rest"]
      by (simp del: parse_chars.simps)
  qed
qed simp

lemma parse_json_text: "units_ok s \<Longrightarrow> parse_string (json_text s @ rest) = Inr (s, rest)"
  using parse_escape_text[of s "[]" rest] by (simp add: parse_string_def json_text_def)

text \<open>A number ends where the text that follows cannot continue it.\<close>

fun number_stops :: "js_text \<Rightarrow> bool" where
  "number_stops [] = True"
| "number_stops (c # cs) = (\<not> is_digit c \<and> c \<noteq> point \<and> c \<noteq> 101 \<and> c \<noteq> 69)"

lemma number_stops_digit: "number_stops rest \<Longrightarrow> \<not> starts_digit rest"
  by (cases rest) auto

lemma digits_of_append: "\<not> starts_digit rest \<Longrightarrow> digits_of (t @ rest) = digits_of t @ rest"
  by (induction t) (auto simp: digits_of_def dropWhile_eq_self_iff neq_Nil_conv)

lemma starts_digit_append: "t \<noteq> [] \<Longrightarrow> starts_digit (t @ rest) = starts_digit t"
  by (cases t) auto

lemma scan_integer_append:
  "scan_integer t = Inr r \<Longrightarrow> number_stops rest \<Longrightarrow> scan_integer (t @ rest) = Inr (r @ rest)"
  using digits_of_append[OF number_stops_digit, of rest t] number_stops_digit[of rest]
  by (cases "tl t = []") (auto simp: scan_integer_def starts_digit_append neq_Nil_conv split: list.splits if_splits)

lemma scan_fraction_append:
  "scan_fraction t = Inr r \<Longrightarrow> number_stops rest \<Longrightarrow> scan_fraction (t @ rest) = Inr (r @ rest)"
proof (cases t)
  case Nil
  assume "scan_fraction t = Inr r" "number_stops rest"
  then show ?thesis using Nil by (cases rest) (auto simp: scan_fraction_def)
next
  case (Cons c cs)
  assume "scan_fraction t = Inr r" "number_stops rest"
  then show ?thesis
    using Cons digits_of_append[OF number_stops_digit, of rest cs]
    by (cases cs) (auto simp: scan_fraction_def split: if_splits)
qed

lemma skip_sign_append: "cs \<noteq> [] \<Longrightarrow> skip_sign (cs @ rest) = skip_sign cs @ rest"
  by (cases cs) auto

lemma scan_exponent_append:
  "scan_exponent t = Inr r \<Longrightarrow> number_stops rest \<Longrightarrow> scan_exponent (t @ rest) = Inr (r @ rest)"
proof (cases t)
  case Nil
  assume "scan_exponent t = Inr r" "number_stops rest"
  then show ?thesis using Nil by (cases rest) (auto simp: scan_exponent_def)
next
  case (Cons c cs)
  assume s: "scan_exponent t = Inr r" "number_stops rest"
  show ?thesis
  proof (cases "c = 101 \<or> c = 69")
    case True
    then have d: "starts_digit (skip_sign cs)" "r = digits_of (skip_sign cs)"
      using s Cons by (auto simp: scan_exponent_def)
    then have "cs \<noteq> []" "skip_sign cs \<noteq> []" by auto
    then show ?thesis
      using True d Cons s digits_of_append[OF number_stops_digit, of rest "skip_sign cs"]
      by (simp add: scan_exponent_def skip_sign_append starts_digit_append)
  next
    case False
    then show ?thesis using s Cons by (auto simp: scan_exponent_def)
  qed
qed

lemma scan_number_append:
  assumes "scan_number t = Inr (t, [])" and "number_stops rest"
  shows "scan_number (t @ rest) = Inr (t, rest)"
proof -
  obtain t1 t2 where i: "scan_integer (skip_minus t) = Inr t1" and f: "scan_fraction t1 = Inr t2"
    and e: "scan_exponent t2 = Inr []"
    using assms(1) by (auto simp: scan_number_def)
  have "t \<noteq> []" using i by (auto simp: scan_integer_def)
  then have "skip_minus (t @ rest) = skip_minus t @ rest" by (cases t) auto
  then show ?thesis
    using scan_integer_append[OF i assms(2)] scan_fraction_append[OF f assms(2)] scan_exponent_append[OF e assms(2)]
    by (simp add: scan_number_def)
qed

definition stable_number :: "'n numbers \<Rightarrow> 'n \<Rightarrow> bool" where
  "stable_number nm n \<longleftrightarrow> is_finite nm n \<and> \<not> beyond_safe nm n \<and> number_of nm (number_text nm n) = n \<and>
     scan_number (number_text nm n) = Inr (number_text nm n, [])"

lemma stable_number_head:
  "stable_number nm n \<Longrightarrow> \<exists>c cs. number_text nm n = c # cs \<and> (c = minus_sign \<or> is_digit c)"
  by (cases "number_text nm n")
    (auto simp: stable_number_def scan_number_def scan_integer_def is_digit_def split: if_splits)

lemma parse_stable_number:
  "stable_number nm n \<Longrightarrow> number_stops rest \<Longrightarrow> parse_number nm (number_text nm n @ rest) = Inr (JsNum n, rest)"
  by (auto simp: parse_number_def stable_number_def scan_number_append sameExactDecimal_def)

section \<open>Reading back values\<close>

fun stable_json :: "'n numbers \<Rightarrow> 'n json \<Rightarrow> bool" where
  "stable_json nm (JsNum n) = stable_number nm n"
| "stable_json nm (JsArray vs) = (\<forall>v \<in> set vs. stable_json nm v)"
| "stable_json nm (JsObject kvs) = (\<forall>(k, v) \<in> set kvs. stable_json nm v)"
| "stable_json nm _ = True"

fun sorted_json :: "'n json \<Rightarrow> bool" where
  "sorted_json (JsArray vs) = (\<forall>v \<in> set vs. sorted_json v)"
| "sorted_json (JsObject kvs) = (sorted (map fst kvs) \<and> (\<forall>(k, v) \<in> set kvs. sorted_json v))"
| "sorted_json _ = True"

text \<open>The value with the keys of every object sorted.\<close>

fun sort_json :: "'n json \<Rightarrow> 'n json" where
  "sort_json (JsArray vs) = JsArray (map sort_json vs)"
| "sort_json (JsObject kvs) = JsObject (sort_key fst (map (\<lambda>(k, v). (k, sort_json v)) kvs))"
| "sort_json v = v"

definition entry_text :: "'n numbers \<Rightarrow> js_text \<times> 'n json \<Rightarrow> js_text" where
  "entry_text nm kv = json_text (fst kv) @ [colon] @ canonicalJson nm (snd kv)"

lemma canonical_object:
  assumes "sorted (map fst kvs)"
  shows "canonicalJson nm (JsObject kvs) = [lbrace] @ join_with comma (map (entry_text nm) kvs) @ [rbrace]"
proof -
  have "sorted (map fst (map (\<lambda>(k, v). (k, canonicalJson nm v)) kvs))"
    using assms by (simp add: comp_def case_prod_unfold)
  then have "sort_key fst (map (\<lambda>(k, v). (k, canonicalJson nm v)) kvs) = map (\<lambda>(k, v). (k, canonicalJson nm v)) kvs"
    by (rule sort_key_id_if_sorted)
  then show ?thesis by (simp add: entry_text_def[abs_def] comp_def case_prod_unfold)
qed

text \<open>What a value's canonical text starts with.\<close>

definition value_start :: "nat \<Rightarrow> bool" where
  "value_start c \<longleftrightarrow> \<not> json_space c \<and> c \<noteq> rbracket \<and> c \<noteq> rbrace"

lemma canonical_head:
  assumes "stable_json nm v"
  shows "\<exists>c cs. canonicalJson nm v = c # cs \<and> value_start c"
proof (cases v)
  case (JsNum n)
  then show ?thesis using stable_number_head[of nm n] assms
    by (auto simp: value_start_def json_space_def is_digit_def)
next
  case (JsBool b)
  then show ?thesis by (cases b) (simp_all add: units_def value_start_def json_space_def)
qed (simp_all add: units_def json_text_def value_start_def json_space_def)

lemma skip_space_start: "value_start c \<Longrightarrow> skip_space (c # cs) = c # cs"
  by (simp add: skip_space_def value_start_def)

lemma skip_space_sep: "c \<in> {comma, colon, rbracket, rbrace, quote, lbracket, lbrace} \<Longrightarrow> skip_space (c # cs) = c # cs"
  by (auto simp: skip_space_def json_space_def)

lemma join_with_Cons:
  "join_with c (x # xs) = x @ (if xs = [] then [] else c # join_with c xs)"
  by (cases xs) auto

text \<open>A value is read back wherever its text stands, given enough fuel.\<close>

definition reads_back :: "'n numbers \<Rightarrow> nat \<Rightarrow> nat \<Rightarrow> 'n json \<Rightarrow> bool" where
  "reads_back nm D d v \<longleftrightarrow>
     (\<forall>fuel rest. number_stops rest \<longrightarrow> 2 * length (canonicalJson nm v @ rest) + 1 \<le> fuel \<longrightarrow>
        parse_value nm D d fuel (canonicalJson nm v @ rest) = Inr (v, rest))"

lemma elements_read_back:
  assumes "vs \<noteq> []" and "\<forall>v \<in> set vs. reads_back nm D d v"
    and "2 * length (join_with comma (map (canonicalJson nm) vs) @ rbracket # rest) + 2 \<le> fuel"
  shows "parse_elements nm D d fuel acc (join_with comma (map (canonicalJson nm) vs) @ rbracket # rest) =
    Inr (JsArray (rev acc @ vs), rest)"
  using assms
proof (induction vs arbitrary: acc fuel)
  case (Cons v vs)
  obtain f where f: "fuel = Suc f" using Cons.prems(3) by (cases fuel) auto
  let ?tail = "if vs = [] then rbracket # rest else comma # join_with comma (map (canonicalJson nm) vs) @ rbracket # rest"
  have text_eq: "join_with comma (map (canonicalJson nm) (v # vs)) @ rbracket # rest = canonicalJson nm v @ ?tail"
    by (simp add: join_with_Cons)
  have "number_stops ?tail" by (simp add: is_digit_def)
  moreover have "2 * length (canonicalJson nm v @ ?tail) + 1 \<le> f" using Cons.prems(3)[unfolded text_eq] f by simp
  ultimately have v: "parse_value nm D d f (canonicalJson nm v @ ?tail) = Inr (v, ?tail)"
    using Cons.prems(2) by (simp add: reads_back_def)
  show ?case
  proof (cases "vs = []")
    case True
    then show ?thesis using v unfolding f text_eq by (simp add: close_or_continue_def skip_space_sep)
  next
    case False
    let ?later = "join_with comma (map (canonicalJson nm) vs) @ rbracket # rest"
    have "2 * length ?later + 2 \<le> f" using Cons.prems(3)[unfolded text_eq] f False by simp
    then have "parse_elements nm D d f (v # acc) ?later = Inr (JsArray (rev (v # acc) @ vs), rest)"
      using Cons.IH False Cons.prems(2) by simp
    then show ?thesis using v False unfolding f text_eq by (simp add: close_or_continue_def skip_space_sep)
  qed
qed simp

lemma members_read_back:
  assumes "kvs \<noteq> []" and "\<forall>kv \<in> set kvs. reads_back nm D d (snd kv) \<and> fst kv \<notin> set forbidden_keys \<and> units_ok (fst kv)"
    and "distinct (map fst (rev acc @ kvs))"
    and "2 * length (join_with comma (map (entry_text nm) kvs) @ rbrace # rest) + 2 \<le> fuel"
  shows "parse_members nm D d fuel acc (join_with comma (map (entry_text nm) kvs) @ rbrace # rest) =
    Inr (JsObject (rev acc @ kvs), rest)"
  using assms
proof (induction kvs arbitrary: acc fuel)
  case (Cons kv kvs)
  obtain f where f: "fuel = Suc f" using Cons.prems(4) by (cases fuel) auto
  obtain k v where kv: "kv = (k, v)" by (cases kv)
  let ?tail = "if kvs = [] then rbrace # rest else comma # join_with comma (map (entry_text nm) kvs) @ rbrace # rest"
  let ?tail_text = "canonicalJson nm v @ ?tail"
  have text_eq: "join_with comma (map (entry_text nm) (kv # kvs)) @ rbrace # rest = json_text k @ colon # ?tail_text"
    by (simp add: join_with_Cons entry_text_def kv)
  have "number_stops ?tail" by (simp add: is_digit_def)
  moreover have "2 * length ?tail_text + 1 \<le> f" using Cons.prems(4)[unfolded text_eq] f by simp
  ultimately have v: "parse_value nm D d f ?tail_text = Inr (v, ?tail)"
    using Cons.prems(2) by (simp add: reads_back_def kv)
  have start: "skip_space (json_text k @ colon # ?tail_text) = json_text k @ colon # ?tail_text"
    "take 1 (json_text k @ colon # ?tail_text) = [quote]"
    by (simp_all add: json_text_def skip_space_sep)
  have key: "parse_string (json_text k @ colon # ?tail_text) = Inr (k, colon # ?tail_text)"
    "k \<notin> set forbidden_keys" "k \<notin> set (map fst acc)"
    using Cons.prems(2,3) by (simp_all add: kv parse_json_text)
  have step: "parse_members nm D d fuel acc (json_text k @ colon # ?tail_text) =
      close_or_continue rbrace Object_separator_expected (JsObject (rev ((k, v) # acc)))
        (parse_members nm D d f ((k, v) # acc)) ?tail"
    using v key unfolding f parse_members.simps Let_def start by (simp add: skip_space_sep)
  show ?case
  proof (cases "kvs = []")
    case True
    then show ?thesis unfolding text_eq step by (simp add: close_or_continue_def skip_space_sep kv)
  next
    case False
    let ?later = "join_with comma (map (entry_text nm) kvs) @ rbrace # rest"
    have "2 * length ?later + 2 \<le> f" using Cons.prems(4)[unfolded text_eq] f False by simp
    then have "parse_members nm D d f ((k, v) # acc) ?later = Inr (JsObject (rev ((k, v) # acc) @ kvs), rest)"
      using Cons.IH False Cons.prems(2,3) by (simp add: kv)
    then show ?thesis using False unfolding text_eq step by (simp add: close_or_continue_def skip_space_sep kv)
  qed
qed simp

lemma value_reads_back:
  "wf_json nm (D - d) v \<Longrightarrow> stable_json nm v \<Longrightarrow> sorted_json v \<Longrightarrow> d \<le> D \<Longrightarrow> reads_back nm D d v"
proof (induction v arbitrary: d)
  case JsNull
  have "skip_space (units ''null'' @ rest) = units ''null'' @ rest" for rest
    by (simp add: units_def skip_space_def json_space_def)
  then show ?case unfolding reads_back_def
    by (intro allI impI) (case_tac fuel, simp_all add: units_def parse_literal_def)
next
  case (JsBool b)
  show ?case unfolding reads_back_def
    by (intro allI impI) (case_tac fuel, simp_all add: units_def parse_literal_def skip_space_def json_space_def)
next
  case (JsNum n)
  then obtain c cs where c: "number_text nm n = c # cs" "c = minus_sign \<or> is_digit c"
    using stable_number_head[of nm n] by auto
  show ?case unfolding reads_back_def
  proof (intro allI impI)
    fix fuel rest
    assume r: "number_stops rest" and "2 * length (canonicalJson nm (JsNum n) @ rest) + 1 \<le> fuel"
    then obtain f where f: "fuel = Suc f" by (cases fuel) auto
    have "value_start c" using c(2) by (auto simp: value_start_def json_space_def is_digit_def)
    moreover have "c \<noteq> lbrace" "c \<noteq> lbracket" "c \<noteq> quote" "c \<noteq> 116" "c \<noteq> 102" "c \<noteq> 110"
      using c(2) by (auto simp: is_digit_def)
    ultimately show "parse_value nm D d fuel (canonicalJson nm (JsNum n) @ rest) = Inr (JsNum n, rest)"
      using parse_stable_number[of nm n rest] r JsNum.prems c by (simp add: f skip_space_start)
  qed
next
  case (JsText s)
  show ?case unfolding reads_back_def
  proof (intro allI impI)
    fix fuel rest
    assume "2 * length (canonicalJson nm (JsText s) @ rest) + 1 \<le> fuel"
    then obtain f where f: "fuel = Suc f" by (cases fuel) auto
    show "parse_value nm D d fuel (canonicalJson nm (JsText s) @ rest) = Inr (JsText s, rest)"
      using parse_json_text[of s rest] JsText.prems by (simp add: f json_text_def skip_space_sep)
  qed
next
  case (JsArray vs)
  then have d: "d < D" by simp
  have vs: "\<forall>v \<in> set vs. reads_back nm D (Suc d) v" using JsArray by simp
  show ?case unfolding reads_back_def
  proof (intro allI impI)
    fix fuel rest
    assume "2 * length (canonicalJson nm (JsArray vs) @ rest) + 1 \<le> fuel"
    then obtain f where f: "fuel = Suc f"
      and len: "2 * length (join_with comma (map (canonicalJson nm) vs) @ rbracket # rest) + 2 \<le> f"
      by (cases fuel) auto
    show "parse_value nm D d fuel (canonicalJson nm (JsArray vs) @ rest) = Inr (JsArray vs, rest)"
    proof (cases vs)
      case Nil
      then show ?thesis using d by (simp add: f skip_space_sep)
    next
      case (Cons v vs')
      obtain c cs where c: "canonicalJson nm v = c # cs" "value_start c"
        using canonical_head[of nm v] JsArray.prems(2) Cons by auto
      have start: "skip_space (join_with comma (map (canonicalJson nm) vs) @ rbracket # rest) =
          join_with comma (map (canonicalJson nm) vs) @ rbracket # rest"
        "take 1 (join_with comma (map (canonicalJson nm) vs) @ rbracket # rest) \<noteq> [rbracket]"
        using c by (simp_all add: Cons join_with_Cons skip_space_start value_start_def)
      show ?thesis
        using elements_read_back[OF _ vs len, of "[]"] start Cons d by (simp add: f skip_space_sep)
    qed
  qed
next
  case (JsObject kvs)
  then have d: "d < D" and dist: "distinct (map fst kvs)" and srt: "sorted (map fst kvs)"
    and ok: "\<And>kv. kv \<in> set kvs \<Longrightarrow> entry_ok nm (D - d - 1) kv"
    by (auto simp: wf_object)
  have kvs: "\<forall>kv \<in> set kvs. reads_back nm D (Suc d) (snd kv) \<and> fst kv \<notin> set forbidden_keys \<and> units_ok (fst kv)"
  proof
    fix kv assume m: "kv \<in> set kvs"
    have "wf_json nm (D - Suc d) (snd kv)" using ok[OF m] by (simp add: entry_ok_def)
    moreover have "stable_json nm (snd kv)" "sorted_json (snd kv)" using JsObject.prems(2,3) m by auto
    ultimately have "reads_back nm D (Suc d) (snd kv)"
      using JsObject.IH[of kv "snd kv" "Suc d"] m d by (cases kv) simp
    then show "reads_back nm D (Suc d) (snd kv) \<and> fst kv \<notin> set forbidden_keys \<and> units_ok (fst kv)"
      using ok[OF m] by (simp add: entry_ok_def)
  qed
  note text_eq = canonical_object[OF srt, of nm]
  show ?case unfolding reads_back_def text_eq
  proof (intro allI impI)
    fix fuel rest
    assume "2 * length (([lbrace] @ join_with comma (map (entry_text nm) kvs) @ [rbrace]) @ rest) + 1 \<le> fuel"
    then obtain f where f: "fuel = Suc f"
      and len: "2 * length (join_with comma (map (entry_text nm) kvs) @ rbrace # rest) + 2 \<le> f"
      by (cases fuel) auto
    show "parse_value nm D d fuel (([lbrace] @ join_with comma (map (entry_text nm) kvs) @ [rbrace]) @ rest) = Inr (JsObject kvs, rest)"
    proof (cases kvs)
      case Nil
      then show ?thesis using d by (simp add: f skip_space_sep)
    next
      case (Cons kv kvs')
      have start: "skip_space (join_with comma (map (entry_text nm) kvs) @ rbrace # rest) =
          join_with comma (map (entry_text nm) kvs) @ rbrace # rest"
        "take 1 (join_with comma (map (entry_text nm) kvs) @ rbrace # rest) \<noteq> [rbrace]"
        by (simp_all add: Cons join_with_Cons entry_text_def json_text_def skip_space_sep)
      show ?thesis
        using members_read_back[OF _ kvs _ len, of "[]"] start Cons d dist by (simp add: f skip_space_sep)
    qed
  qed
qed

section \<open>Sorting the keys\<close>

lemma insort_key_map_snd:
  "insort_key fst (k, g v) (map (\<lambda>(k, v). (k, g v)) xs) = map (\<lambda>(k, v). (k, g v)) (insort_key fst (k, v) xs)"
  by (induction xs) auto

lemma sort_key_map_snd:
  "sort_key fst (map (\<lambda>(k, v). (k, g v)) kvs) = map (\<lambda>(k, v). (k, g v)) (sort_key fst kvs)"
  by (induction kvs) (auto simp: insort_key_map_snd)

lemma sort_key_idem: "sort_key fst (sort_key fst kvs) = sort_key fst kvs"
  by (rule sort_key_id_if_sorted) simp

lemma distinct_sort_key: "distinct (map fst (sort_key fst kvs)) = distinct (map fst kvs)"
  by (rule mset_eq_imp_distinct_iff) simp

lemma canonical_sort_json: "canonicalJson nm (sort_json v) = canonicalJson nm v"
proof (induction v)
  case (JsObject kvs)
  have "map ((\<lambda>(k, v). (k, canonicalJson nm v)) \<circ> (\<lambda>(k, v). (k, sort_json v))) kvs =
      map (\<lambda>(k, v). (k, canonicalJson nm v)) kvs"
    using JsObject by (auto simp: comp_def)
  moreover have "sort_key fst (map (\<lambda>(k, v). (k, canonicalJson nm v)) (sort_key fst kvs')) =
      sort_key fst (map (\<lambda>(k, v). (k, canonicalJson nm v)) kvs')" for kvs' :: "(js_text \<times> 'a json) list"
    by (simp add: sort_key_map_snd sort_key_idem)
  ultimately show ?case by (simp del: map_eq_conv)
qed (simp_all add: comp_def cong: map_cong)

lemma sort_json_keeps:
  "wf_json nm d v \<Longrightarrow> wf_json nm d (sort_json v)"
  "stable_json nm v \<Longrightarrow> stable_json nm (sort_json v)"
  "sorted_json (sort_json v)"
proof (induction v arbitrary: d)
  case (JsObject kvs)
  {
    case 1
    have "distinct (map fst (sort_key fst (map (\<lambda>(k, v). (k, sort_json v)) kvs)))"
      using 1 by (simp add: wf_object distinct_sort_key comp_def case_prod_unfold)
    then show ?case using 1 JsObject(1) by (fastforce simp: wf_object entry_ok_def)
  next
    case 2
    then show ?case using JsObject(2) by fastforce
  next
    case 3
    then show ?case using JsObject(3) by fastforce
  }
qed auto

lemma units_literals: "set (units ''true'') \<union> set (units ''false'') \<union> set (units ''null'') \<subseteq> {97..122}"
  by (simp add: units_def)

text \<open>No number lexeme holds white space, so canonical text does not end with it.\<close>

definition number_char :: "nat \<Rightarrow> bool" where
  "number_char c \<longleftrightarrow> is_digit c \<or> c \<in> {minus_sign, plus_sign, point, 101, 69}"

lemma digits_of_chars: "c \<in> set t \<Longrightarrow> c \<in> set (digits_of t) \<or> number_char c"
  by (induction t) (auto simp: digits_of_def number_char_def)

lemma skip_sign_chars: "c \<in> set t \<Longrightarrow> c \<in> set (skip_sign t) \<or> number_char c"
  "c \<in> set t \<Longrightarrow> c \<in> set (skip_minus t) \<or> number_char c"
  by (cases t; auto simp: number_char_def)+

lemma scan_chars:
  "scan_integer t = Inr r \<Longrightarrow> c \<in> set t \<Longrightarrow> c \<in> set r \<or> number_char c"
  "scan_fraction t = Inr r \<Longrightarrow> c \<in> set t \<Longrightarrow> c \<in> set r \<or> number_char c"
  "scan_exponent t = Inr r \<Longrightarrow> c \<in> set t \<Longrightarrow> c \<in> set r \<or> number_char c"
proof -
  show "scan_integer t = Inr r \<Longrightarrow> c \<in> set t \<Longrightarrow> c \<in> set r \<or> number_char c"
    using digits_of_chars[of c t]
    by (auto simp: scan_integer_def number_char_def is_digit_def split: list.splits if_splits)
  show "scan_fraction t = Inr r \<Longrightarrow> c \<in> set t \<Longrightarrow> c \<in> set r \<or> number_char c"
    using digits_of_chars[of c "tl t"]
    by (auto simp: scan_fraction_def number_char_def split: list.splits if_splits)
  show "scan_exponent t = Inr r \<Longrightarrow> c \<in> set t \<Longrightarrow> c \<in> set r \<or> number_char c"
    using digits_of_chars[of c "skip_sign (tl t)"] skip_sign_chars(1)[of c "tl t"]
    by (auto simp: scan_exponent_def number_char_def split: list.splits if_splits)
qed

lemma stable_number_chars:
  assumes "stable_number nm n" and "c \<in> set (number_text nm n)"
  shows "\<not> json_space c"
proof -
  obtain t1 t2 where "scan_integer (skip_minus (number_text nm n)) = Inr t1" "scan_fraction t1 = Inr t2"
    "scan_exponent t2 = Inr []"
    using assms(1) by (auto simp: stable_number_def scan_number_def)
  then have "number_char c" using assms(2) scan_chars skip_sign_chars(2) by fastforce
  then show ?thesis by (auto simp: number_char_def json_space_def is_digit_def)
qed

lemma canonical_last:
  assumes "stable_json nm v"
  shows "\<exists>cs c. canonicalJson nm v = cs @ [c] \<and> \<not> json_space c"
proof (cases v)
  case (JsNum n)
  then have s: "stable_number nm n" using assms by simp
  then have "number_text nm n \<noteq> []" using stable_number_head by fastforce
  then show ?thesis using JsNum stable_number_chars[OF s] by (intro exI[of _ "butlast (number_text nm n)"] exI[of _ "last (number_text nm n)"]) simp
next
  case (JsBool b)
  then show ?thesis by (cases b) (auto simp: units_def json_space_def)
next
  case JsNull
  then show ?thesis by (auto simp: units_def json_space_def)
next
  case (JsText s)
  then show ?thesis by (auto simp: json_text_def json_space_def)
next
  case (JsArray vs)
  then show ?thesis by (auto simp: json_space_def)
next
  case (JsObject kvs)
  then show ?thesis by (auto simp: json_space_def)
qed

section \<open>Properties\<close>

text \<open>
  C40. Canonical text is read back: for every value within the depth limit whose keys are distinct and
  permitted and whose numbers print stably, parsing its canonical text under any policy that allows the
  final newline returns the value itself, with the keys of its objects in sorted order; the policy that
  demands canonical bytes accepts it.
\<close>

theorem canonical_roundtrip:
  assumes "optionsWithDefaults opts = Inr p" and "trailingNewline p \<noteq> ''forbid''"
    and "wf_json nm (nat (max_depth p)) v" and "stable_json nm v"
    and "byte_length (canonicalJson nm v @ [10]) \<le> maxBytes p"
  shows "parseStrictJsonText nm (canonicalJson nm v @ [10]) opts = Inr (sort_json v)"
proof -
  let ?t = "canonicalJson nm v @ [10]"
  have "reads_back nm (nat (max_depth p)) 0 (sort_json v)"
    using assms(3,4) sort_json_keeps by (intro value_reads_back) simp_all
  then have "parse_value nm (nat (max_depth p)) 0 (2 * length ?t + 1) ?t = Inr (sort_json v, [10])"
    unfolding reads_back_def canonical_sort_json by (elim allE[of _ "2 * length ?t + 1"] allE[of _ "[10]"] impE) (simp_all add: is_digit_def)
  then have parse: "parseText nm ?t (nat (max_depth p)) = Inr (sort_json v)"
    by (simp add: parseText_def skip_space_def json_space_def)
  obtain cs c where last: "canonicalJson nm v = cs @ [c]" "\<not> json_space c"
    using canonical_last[OF assms(4)] by blast
  then have "trailing_space ?t = [10]" by (simp add: trailing_space_def json_space_def)
  then have "checkPolicies nm ?t (sort_json v) p = Inr ()"
    using assms(2) by (simp add: checkPolicies_def canonical_sort_json)
  then show ?thesis using assms(1,5) parse by (simp add: parseStrictJsonText_def)
qed

lemma canonical_injective:
  assumes "wf_json nm d v" and "wf_json nm d w" and "stable_json nm v" and "stable_json nm w"
    and "canonicalJson nm v = canonicalJson nm w"
  shows "sort_json v = sort_json w"
proof -
  have reads: "reads_back nm d 0 (sort_json u)" if "wf_json nm d u" "stable_json nm u" for u
    using that sort_json_keeps by (intro value_reads_back) simp_all
  let ?t = "canonicalJson nm v"
  have "parse_value nm d 0 (2 * length ?t + 1) ?t = Inr (sort_json v, [])"
    using reads[OF assms(1,3)] unfolding reads_back_def canonical_sort_json by (metis append_Nil2 number_stops.simps(1) order_refl)
  moreover have "parse_value nm d 0 (2 * length ?t + 1) ?t = Inr (sort_json w, [])"
    using reads[OF assms(2,4)] unfolding reads_back_def canonical_sort_json assms(5) by (metis append_Nil2 number_stops.simps(1) order_refl)
  ultimately show ?thesis by simp
qed

text \<open>
   The parser ends on every text: twice the length of the text plus one is fuel enough, more fuel
  changes nothing, and the strict parser never fails for lack of it.
\<close>

theorem json_parser_terminates:
  "parse_value nm D 0 (2 * length t + 1 + k) t = parse_value nm D 0 (2 * length t + 1) t \<and>
   parseText nm t D \<noteq> Inl Out_of_fuel \<and> parseStrictJsonText nm t opts \<noteq> Inl Out_of_fuel"
proof -
  have v: "parse_value nm D 0 (2 * length t + 1) t \<noteq> Inl Out_of_fuel" for D using enough_fuel by blast
  have p: "parseText nm t D \<noteq> Inl Out_of_fuel" for D using v by (auto simp: parseText_def)
  have "parseStrictJsonText nm t opts \<noteq> Inl Out_of_fuel"
    by (auto simp: parseStrictJsonText_def p optionsWithDefaults_def checkPolicies_def Let_def)
  then show ?thesis using p more_fuel[of t "2 * length t + 1" "2 * length t + 1 + k"] by simp
qed

text \<open>
   What the strict parser returns is well formed: nesting within the depth limit, the keys of every
  object distinct and none of the forbidden ones, every number finite and in the safe range, every
  string made of code units; and the text was within the byte limit and canonical where the policy asks
  for it.
\<close>

theorem strict_json_typed:
  assumes "parseStrictJsonText nm t opts = Inr v" and "\<forall>c \<in> set t. c < 65536"
  shows "\<exists>p. optionsWithDefaults opts = Inr p \<and> wf_json nm (nat (max_depth p)) v \<and>
    byte_length t \<le> maxBytes p \<and>
    (canonical p \<longrightarrow> t = canonicalJson nm v \<or> t = canonicalJson nm v @ [10])"
proof -
  obtain p where p: "optionsWithDefaults opts = Inr p" "byte_length t \<le> maxBytes p"
    and v: "parseText nm t (nat (max_depth p)) = Inr v" and c: "checkPolicies nm t v p = Inr ()"
    using assms(1) by (auto simp: parseStrictJsonText_def not_less)
  obtain rest where "parse_value nm (nat (max_depth p)) 0 (2 * length t + 1) t = Inr (v, rest)"
    using v by (auto simp: parseText_def)
  then have "wf_json nm (nat (max_depth p)) v"
    using parse_wf[of nm "nat (max_depth p)" 0] assms(2) unfolding units_ok_def by (metis diff_zero)
  then show ?thesis using p c by (auto simp: checkPolicies_def Let_def split: if_splits)
qed

section \<open>Concrete inputs\<close>

fun decimal_units :: "nat \<Rightarrow> js_text" where
  "decimal_units n = (if n < 10 then [48 + n] else decimal_units (n div 10) @ [48 + n mod 10])"

text \<open>The integers of absolute value at most \<open>2\<^sup>5\<^sup>3 - 1\<close> as the numbers of the language.\<close>

definition integer_numbers :: "int numbers" where
  "integer_numbers = \<lparr>number_of = signed_value, is_finite = (\<lambda>_. True), beyond_safe = (\<lambda>n. \<not> safe_integer n),
     number_text = (\<lambda>n. if n < 0 then minus_sign # decimal_units (nat (- n)) else decimal_units (nat n))\<rparr>"

definition sample_options :: json_options where
  "sample_options = \<lparr>opt_maxBytes = Some 64, opt_maxDepth = Some 2, opt_canonicalBytes = None, opt_canonical = Some True,
     opt_trailingNewline = None, opt_trailingNewlinePolicy = None\<rparr>"

definition sample_policy :: json_policy where
  "sample_policy = \<lparr>maxBytes = 64, max_depth = 2, canonical = True, trailingNewline = ''allow''\<rparr>"

definition sample_json :: "int json" where
  "sample_json = JsObject [(units ''b'', JsArray [JsNum 12, JsBool True]), (units ''a'', JsText [10])]"

definition sample_text :: js_text where
  "sample_text = units ''{\"a\":\"'' @ [backslash, 110] @ units ''\",\"b\":[12,true]}'' @ [10]"

lemma sample_accepted:
  "optionsWithDefaults sample_options = Inr sample_policy"
  by (simp add: optionsWithDefaults_def sample_options_def sample_policy_def coalesce_def safe_integer_def)

lemma sample_units:
  "units ''a'' = [97]" "units ''b'' = [98]" "units ''true'' = [116, 114, 117, 101]"
  "units ''[7]'' = [91, 55, 93]"
  by (simp_all add: units_def)

lemma sample_text_units:
  "sample_text = [123, 34, 97, 34, 58, 34, 92, 110, 34, 44, 34, 98, 34, 58, 91, 49, 50, 44, 116, 114, 117, 101, 93, 125, 10]"
  by (simp add: sample_text_def units_def)

lemma sample_forbidden: "[97] \<notin> set forbidden_keys" "[98] \<notin> set forbidden_keys"
  by (simp_all add: forbidden_keys_def units_def)

lemma sample_digits: "decimal_units 12 = [49, 50]" "decimal_units 7 = [55]"
  by simp_all

declare decimal_units.simps [simp del]

lemma sample_sort: "sort_key fst [([98], x), ([97::nat], y)] = [([97], y), ([98], x)]"
  by simp

lemma sample_canonical: "canonicalJson integer_numbers sample_json @ [10] = sample_text"
  by (simp add: sample_json_def sample_units sample_text_units integer_numbers_def sample_digits json_text_def
      escape_unit_def high_surrogate_def low_surrogate_def)

lemma sample_stable: "stable_json integer_numbers sample_json"
  by code_simp

lemma sample_wf: "wf_json integer_numbers 2 sample_json"
  by (simp add: sample_json_def sample_units wf_object entry_ok_def sample_forbidden units_ok_def
      integer_numbers_def safe_integer_def)

theorem canonical_roundtrip_witness:
  "parseStrictJsonText integer_numbers sample_text sample_options =
     Inr (JsObject [(units ''a'', JsText [10]), (units ''b'', JsArray [JsNum 12, JsBool True])])"
proof -
  have "byte_length sample_text \<le> 64"
    by (simp add: sample_text_units high_surrogate_def)
  then have "parseStrictJsonText integer_numbers sample_text sample_options = Inr (sort_json sample_json)"
    using canonical_roundtrip[OF sample_accepted, of integer_numbers sample_json] sample_wf sample_stable sample_canonical
    by (simp add: sample_policy_def)
  moreover have "sort_json sample_json =
      JsObject [(units ''a'', JsText [10]), (units ''b'', JsArray [JsNum 12, JsBool True])]"
    by (simp add: sample_json_def sample_units)
  ultimately show ?thesis by simp
qed

theorem strict_json_typed_witness:
  "\<exists>p. optionsWithDefaults sample_options = Inr p \<and> wf_json integer_numbers (nat (max_depth p)) (JsArray [JsNum 7]) \<and>
    byte_length (units ''[7]'') \<le> maxBytes p \<and>
    (canonical p \<longrightarrow> units ''[7]'' = canonicalJson integer_numbers (JsArray [JsNum 7]) \<or>
       units ''[7]'' = canonicalJson integer_numbers (JsArray [JsNum 7]) @ [10])"
proof (rule strict_json_typed)
  show "\<forall>c \<in> set (units ''[7]''). c < 65536" by (simp add: sample_units)
  have "byte_length (units ''[7]'') \<le> 64" by (simp add: sample_units high_surrogate_def)
  moreover have "parseText integer_numbers [91, 55, 93] 2 = Inr (JsArray [JsNum 7])" by code_simp
  then have "parseText integer_numbers (units ''[7]'') 2 = Inr (JsArray [JsNum 7])" by (simp add: sample_units)
  moreover have "checkPolicies integer_numbers (units ''[7]'') (JsArray [JsNum 7]) sample_policy = Inr ()"
    by (simp add: checkPolicies_def sample_units sample_policy_def integer_numbers_def sample_digits
        trailing_space_def json_space_def)
  ultimately show "parseStrictJsonText integer_numbers (units ''[7]'') sample_options = Inr (JsArray [JsNum 7])"
    by (simp add: parseStrictJsonText_def sample_accepted) (simp add: sample_policy_def)
qed

end
