(* ===== verification/Staged_Journal.thy ===== *)
theory Staged_Journal
  imports Node_Platform Json_Roundtrip
begin

text \<open>
  What the two journals under contracts/scripts share (signed-deployment-journal.js and
  governance-operation-journal.js): the string formats their assertions ask for, state names looked up
  in a frozen object, the digest of a record's canonical JSON, and files that are only replaced as a
  whole.
\<close>

section \<open>Formats\<close>

text \<open>\<open>assertHex\<close>: the regular expression 0x followed by two hexadecimal digits for each byte.\<close>

definition hex_text :: "string \<Rightarrow> bool" where
  "hex_text s \<longleftrightarrow> take 2 s = ''0x'' \<and> list_all hex_digit (drop 2 s)"

definition hex_bytes :: "nat \<Rightarrow> string \<Rightarrow> bool" where
  "hex_bytes n s \<longleftrightarrow> hex_text s \<and> length s = 2 + 2 * n"

text \<open>The same with the flag i, under which the prefix may be 0X as well.\<close>

definition hex_text_i :: "string \<Rightarrow> bool" where
  "hex_text_i s \<longleftrightarrow> to_lower (take 2 s) = ''0x'' \<and> list_all hex_digit (drop 2 s)"

definition hex_bytes_i :: "nat \<Rightarrow> string \<Rightarrow> bool" where
  "hex_bytes_i n s \<longleftrightarrow> hex_text_i s \<and> length s = 2 + 2 * n"

fun hex_bytes_opt :: "nat \<Rightarrow> string option \<Rightarrow> bool" where
  "hex_bytes_opt n None = False"
| "hex_bytes_opt n (Some s) = hex_bytes n s"

text \<open>A decimal without leading zeros, and a positive one.\<close>

definition positive_decimal :: "string \<Rightarrow> bool" where
  "positive_decimal s \<longleftrightarrow> digit_string s \<and> s \<noteq> [] \<and> hd s \<noteq> CHR ''0''"

definition canonical_decimal :: "string \<Rightarrow> bool" where
  "canonical_decimal s \<longleftrightarrow> s = ''0'' \<or> positive_decimal s"

definition lower_hex :: "nat \<Rightarrow> string \<Rightarrow> bool" where
  "lower_hex n s \<longleftrightarrow> length s = n \<and> list_all (\<lambda>c. hex_digit c \<and> lower_char c = c) s"

definition sha256_digest :: "string \<Rightarrow> bool" where
  "sha256_digest s \<longleftrightarrow> take 7 s = ''sha256:'' \<and> lower_hex 64 (drop 7 s)"

fun lower_opt :: "string option \<Rightarrow> string option" where
  "lower_opt None = None"
| "lower_opt (Some s) = Some (to_lower s)"

lemma lower_opt_map: "lower_opt x = map_option to_lower x"
  by (cases x) auto

section \<open>State names\<close>

text \<open>
  \<open>name in TABLE\<close> and \<open>TABLE[name]\<close> of an object literal also find what the literal inherits from
  \<open>Object.prototype\<close>. An inherited value is a function or an object: it compares with a number as NaN
  does, and with another one as their texts compare.
\<close>

datatype table_value = Rank int | Inherited string

definition object_prototype :: "string list" where
  "object_prototype = [''constructor'', ''__defineGetter__'', ''__defineSetter__'', ''hasOwnProperty'',
     ''__lookupGetter__'', ''__lookupSetter__'', ''isPrototypeOf'', ''propertyIsEnumerable'',
     ''toString'', ''valueOf'', ''__proto__'', ''toLocaleString'']"

definition inherited_text :: "string \<Rightarrow> string" where
  "inherited_text k =
     (if k = ''__proto__'' then ''[object Object]''
      else ''function '' @ (if k = ''constructor'' then ''Object'' else k) @ ''() { [native code] }'')"

definition table_lookup :: "(string \<times> int) list \<Rightarrow> string \<Rightarrow> table_value option" where
  "table_lookup t k =
     (case map_of t k of
        Some r \<Rightarrow> Some (Rank r)
      | None \<Rightarrow> if k \<in> set object_prototype then Some (Inherited (inherited_text k)) else None)"

text \<open>\<open>name in TABLE\<close>, and the three comparisons of looked up values (\<open>None\<close> is undefined).\<close>

definition in_table :: "(string \<times> int) list \<Rightarrow> string \<Rightarrow> bool" where
  "in_table t k \<longleftrightarrow> table_lookup t k \<noteq> None"

fun value_less :: "table_value option \<Rightarrow> table_value option \<Rightarrow> bool" where
  "value_less (Some (Rank a)) (Some (Rank b)) = (a < b)"
| "value_less (Some (Inherited a)) (Some (Inherited b)) = (units a < units b)"
| "value_less _ _ = False"

fun skips_a_rank :: "table_value option \<Rightarrow> table_value option \<Rightarrow> bool" where
  "skips_a_rank (Some (Rank a)) (Some (Rank b)) = (a > b + 1)"
| "skips_a_rank _ _ = False"

fun rank_at_least :: "int \<Rightarrow> table_value option \<Rightarrow> bool" where
  "rank_at_least r (Some (Rank a)) = (r \<le> a)"
| "rank_at_least r _ = False"

section \<open>Running a check over a list\<close>

fun check_all :: "('a \<Rightarrow> 'e + unit) \<Rightarrow> 'a list \<Rightarrow> 'e + unit" where
  "check_all f [] = Inr ()"
| "check_all f (x # xs) = and_then (f x) (\<lambda>_. check_all f xs)"

lemma check_all_Inr [simp]: "check_all f xs = Inr () \<longleftrightarrow> (\<forall>x \<in> set xs. f x = Inr ())"
  by (induction xs) auto

lemma check_all_returns: "check_all f xs = Inr u \<longleftrightarrow> (\<forall>x \<in> set xs. f x = Inr ())"
  by (cases u) simp

text \<open>\<open>Array.map\<close> with a function that may throw.\<close>

fun map_all :: "('a \<Rightarrow> 'e + 'b) \<Rightarrow> 'a list \<Rightarrow> 'e + 'b list" where
  "map_all f [] = Inr []"
| "map_all f (x # xs) = and_then (f x) (\<lambda>y. and_then (map_all f xs) (\<lambda>ys. Inr (y # ys)))"

lemma map_all_Inr: "map_all f xs = Inr ys \<longleftrightarrow> list_all2 (\<lambda>x y. f x = Inr y) xs ys"
  by (induction xs arbitrary: ys) (auto simp: list_all2_Cons1)

section \<open>Digests of canonical JSON\<close>

abbreviation (input) js_str :: "string \<Rightarrow> int json" where "js_str s \<equiv> JsText (units s)"
abbreviation (input) js_int :: "int \<Rightarrow> int json" where "js_int i \<equiv> JsNum i"

fun js_opt :: "string option \<Rightarrow> int json" where
  "js_opt None = JsNull"
| "js_opt (Some s) = js_str s"

definition js_object :: "(string \<times> int json) list \<Rightarrow> int json" where
  "js_object kvs = JsObject (map (\<lambda>(k, v). (units k, v)) kvs)"

definition canonical_text :: "int json \<Rightarrow> js_text" where
  "canonical_text v = canonicalJson integer_numbers v"

definition digest :: "platform \<Rightarrow> int json \<Rightarrow> string" where
  "digest pf v = ''sha256:'' @ sha256_text pf (canonical_text v)"

section \<open>Files\<close>

text \<open>
  A store of files that only grow in a given sense, and one whose files satisfy a condition.
\<close>

definition files_le :: "('j \<Rightarrow> 'j \<Rightarrow> bool) \<Rightarrow> ('p \<Rightarrow> 'j option) \<Rightarrow> ('p \<Rightarrow> 'j option) \<Rightarrow> bool" where
  "files_le le s s' \<longleftrightarrow> (\<forall>p j. s p = Some j \<longrightarrow> (\<exists>j'. s' p = Some j' \<and> le j j'))"

definition files_ok :: "('j \<Rightarrow> bool) \<Rightarrow> ('p \<Rightarrow> 'j option) \<Rightarrow> bool" where
  "files_ok ok s \<longleftrightarrow> (\<forall>p j. s p = Some j \<longrightarrow> ok j)"

text \<open>
  A write that replaces a file by one that continues it, or creates one; it keeps the condition of the
  file it replaces.
\<close>

definition continues :: "('j \<Rightarrow> 'j \<Rightarrow> bool) \<Rightarrow> ('j \<Rightarrow> bool) \<Rightarrow> ('p \<Rightarrow> 'j option) \<Rightarrow> ('p \<Rightarrow> 'j option) \<Rightarrow> bool" where
  "continues le ok s s' \<longleftrightarrow>
     s' = s \<or> (\<exists>p j'. ((\<forall>j. s p = Some j \<longrightarrow> ok j) \<longrightarrow> ok j') \<and>
       s' = s(p \<mapsto> j') \<and> (\<forall>j. s p = Some j \<longrightarrow> le j j'))"

text \<open>
  The contract of a journal: it advances along a preorder. What holds of every write of an operation
  then holds of all operations, for every order in which processes run them.
\<close>

locale staged_journal =
  fixes le :: "'j \<Rightarrow> 'j \<Rightarrow> bool" and ok :: "'j \<Rightarrow> bool"
    and step :: "('p \<Rightarrow> 'j option) \<Rightarrow> 'op \<Rightarrow> 'p \<Rightarrow> 'j option"
  assumes le_refl: "le j j"
    and le_trans: "le i j \<Longrightarrow> le j k \<Longrightarrow> le i k"
    and step_continues: "(continues le ok)\<^sup>*\<^sup>* s (step s a)"
begin

lemma continues_le: "continues le ok s s' \<Longrightarrow> files_le le s s'"
  unfolding continues_def files_le_def by (metis fun_upd_apply le_refl)

lemma continues_ok: "continues le ok s s' \<Longrightarrow> files_ok ok s \<Longrightarrow> files_ok ok s'"
  unfolding continues_def files_ok_def by (metis fun_upd_apply option.inject)

lemma files_le_refl: "files_le le s s"
  by (auto simp: files_le_def intro: le_refl)

lemma files_le_trans: "files_le le s t \<Longrightarrow> files_le le t u \<Longrightarrow> files_le le s u"
  unfolding files_le_def by (meson le_trans)

lemma step_le: "files_le le s (step s a)"
  using step_continues[of s a]
  by (induction rule: rtranclp_induct) (auto intro: files_le_refl files_le_trans continues_le)

lemma step_ok: "files_ok ok s \<Longrightarrow> files_ok ok (step s a)"
  using step_continues[of s a]
  by (induction rule: rtranclp_induct) (auto intro: continues_ok)

lemma run_le: "files_le le s (foldl step s ops)"
proof (induction ops arbitrary: s)
  case (Cons a ops)
  then show ?case using step_le[of s a] by (auto intro: files_le_trans)
qed (simp add: files_le_refl)

lemma run_ok: "files_ok ok s \<Longrightarrow> files_ok ok (foldl step s ops)"
  by (induction ops arbitrary: s) (auto intro: step_ok)

end

text \<open>How a write and a sequence of two operations are shown to continue.\<close>

lemma continues_same: "(continues le ok)\<^sup>*\<^sup>* s s"
  by simp

lemma continues_write:
  "((\<And>j. s p = Some j \<Longrightarrow> ok j) \<Longrightarrow> ok j') \<Longrightarrow> (\<And>j. s p = Some j \<Longrightarrow> le j j') \<Longrightarrow>
   (continues le ok)\<^sup>*\<^sup>* s (s(p \<mapsto> j'))"
  by (rule r_into_rtranclp) (auto simp: continues_def)

end
