(* ===== verification/Snapshot_Types.thy ===== *)
theory Snapshot_Types
  imports Replay Staged_Journal
begin

text \<open>
  The snapshot of a board's contracts the indexer compares its replay with (\<open>collectOnchainSnapshot\<close> of
  agent/indexer.mjs): what the contracts' getters return at one block, and the comparable values.

  \<^item> A contract's getters without arguments are one record each (\<open>submissions_reads\<close> and so on), those with an
    argument are functions of the parameter \<open>chain_view\<close>: the chain is not part of the repository. The
    definitions are about reads that succeed; a read that fails makes the collection throw.
  \<^item> A value that is compared is JSON, or \<open>None\<close> for \<open>undefined\<close>. As in \<open>canonicalize\<close>, a bigint is its decimal
    text; an integer in a dynamically typed field of the replay comes from the ABI decoder and is a bigint.
\<close>

section \<open>What the getters return\<close>

record submissions_reads =
  sr_openSubmissionCount :: int
  sr_bestScoreAtoms :: int
  sr_fundingArmed :: bool
  sr_armedAt :: int
  sr_fundingAuthorizationDigest :: string
  sr_authorizedFundingDigest :: string
  sr_fundingAuthorizationExpiresAt :: int
  sr_fundingAuthorizationNonce :: int
  sr_boardSetDigest :: string
  sr_releaseBindingDigest :: string
  sr_objectiveVerifier :: string
  sr_objectiveVerifierCodehash :: string
  sr_productionLaunchAuthority :: string
  sr_independentSecurityAuthority :: string
  sr_governanceAuthority :: string
  sr_pausedNewActions :: bool
  sr_pausedAll :: bool
  sr_expiryGraceUntil :: int
  sr_challengeManager :: string
  sr_creditRecoveryEndsAt :: int

record pool_reads =
  pr_ledger :: string
  pr_submissionManager :: string
  pr_registry :: string
  pr_problemId :: int
  pr_totalFunded :: int
  pr_totalClaimed :: int
  pr_totalWinningsDonated :: int
  pr_totalGrossClaimed :: int
  pr_totalFeeAccrued :: int
  pr_totalFeePaid :: int
  pr_accruedFeeBalance :: int
  pr_totalSponsorRefunded :: int
  pr_totalRolloverPaid :: int
  pr_totalForcedEthRecovered :: int
  pr_totalResidualPaid :: int
  pr_accountedBalance :: int
  pr_everFunded :: bool
  pr_firstFundedAt :: int
  pr_acceptingFunds :: bool
  pr_balance :: int

record ledger_reads =
  lr_pausedNewActions :: bool
  lr_creditRecorder :: string
  lr_totalCreditAtoms :: int
  lr_totalGrossClaimed :: int
  lr_totalFeeAccrued :: int
  lr_closed :: bool
  lr_closedPoolBalance :: int
  lr_feeReserve :: int
  lr_closedAt :: int
  lr_claimDeadline :: int
  lr_feeSwept :: bool
  lr_residualSwept :: bool

record vault_reads =
  vr_registry :: string
  vr_allocator :: string
  vr_totalAllocated :: int
  vr_balance :: int

text \<open>\<open>submissionView\<close> with the five values read beside it; a status is the number of the contract's enum.\<close>

record submission_view =
  sv_solver :: jsval
  sv_commitment :: jsval
  sv_commitDaHash :: jsval
  sv_bondWei :: int
  sv_poolAtSubmissionWei :: int
  sv_requiredBondWei :: int
  sv_improvementAtoms :: int
  sv_claimedScoreAtoms :: int
  sv_solutionCid :: jsval
  sv_permanenceHash :: jsval
  sv_committedAt :: int
  sv_revealedAt :: int
  sv_challengeEndsAt :: int
  sv_status :: int
  sv_committedBlock :: int
  sv_paidAtCommit :: bool
  sv_revealInstanceHash :: string
  sv_maxDisputeEndsAt :: int
  sv_objectiveClearedRevealInstanceHash :: string

record problem_view =
  pv_specHash :: jsval
  pv_verifierImageHash :: jsval
  pv_pool :: jsval
  pv_metadataURI :: jsval
  pv_frozen :: bool

record chain_view =
  cv_submissionCount :: int
  cv_submissions :: submissions_reads
  cv_pool :: pool_reads
  cv_ledger :: ledger_reads
  cv_vault :: vault_reads
  cv_challengePausedNewActions :: bool
  cv_problemCount :: int
  cv_submission :: "int \<Rightarrow> submission_view"
  cv_finalizeInfo :: "int \<Rightarrow> finalize_info"
  cv_creditAtomsOf :: "string \<Rightarrow> int"
  cv_claimedWeiOf :: "string \<Rightarrow> int"
  cv_sponsorshipOf :: "string \<Rightarrow> int"
  cv_allocationOf :: "string \<Rightarrow> int"
  cv_allocationCodehashOf :: "string \<Rightarrow> string"
  cv_submissionBondOf :: "string \<Rightarrow> int"
  cv_challengeBondOf :: "string \<Rightarrow> int"
  cv_challenge :: "int \<Rightarrow> challenge"
  cv_challengeInstance :: "int \<Rightarrow> challenge_instance"
  cv_resolverBond :: "int \<Rightarrow> resolver_bond"
  cv_problem :: "int \<Rightarrow> problem_view"

section \<open>The snapshot\<close>

record snapshot =
  sn_submissionCount :: "int option"
  sn_submissionsReads :: submissions_reads
  sn_pool :: pool_reads
  sn_sponsorshipOf :: "string book"
  sn_ledger :: ledger_reads
  sn_creditAtomsOf :: "string book"
  sn_claimedWeiOf :: "string book"
  sn_vault :: vault_reads
  sn_allocationOf :: "string book"
  sn_allocationCodehashOf :: "(string \<times> string) list"
  sn_submissions :: "(int \<times> submission_view) list"
  sn_finalizeInfo :: "(int \<times> finalize_info) list"
  sn_submissionClaimableBondWei :: "string book"
  sn_challengePausedNewActions :: bool
  sn_challenges :: "(int \<times> challenge) list"
  sn_challengeInstances :: "(int \<times> challenge_instance) list"
  sn_resolverBonds :: "(int \<times> resolver_bond) list"
  sn_challengeClaimableBondWei :: "string book"
  sn_problemCount :: int
  sn_problems :: "(int \<times> problem_view) list"

text \<open>
  The collection: one record per submission and problem the contracts count, one entry per key the
  replay knows of every other mapping. \<open>read_keys\<close> is a loop that assigns \<open>target[key] = f(key)\<close>.
\<close>

definition read_keys :: "('k \<Rightarrow> 'v) \<Rightarrow> 'k list \<Rightarrow> ('k \<times> 'v) list" where
  "read_keys f keys = map (\<lambda>k. (k, f k)) (first_occurrences keys)"

definition solver_keys :: "replay_state \<Rightarrow> string list" where
  "solver_keys st = map (\<lambda>(i, sub). addressKey (sub_solver sub)) (submissions st)"

definition collectOnchainSnapshot :: "chain_view \<Rightarrow> replay_state \<Rightarrow> snapshot" where
  "collectOnchainSnapshot cv st =
     \<lparr>sn_submissionCount = Some (cv_submissionCount cv),
      sn_submissionsReads = cv_submissions cv,
      sn_pool = cv_pool cv,
      sn_sponsorshipOf = read_keys (cv_sponsorshipOf cv) (map fst (pool_sponsorshipOf (pool st))),
      sn_ledger = cv_ledger cv,
      sn_creditAtomsOf = read_keys (cv_creditAtomsOf cv) (solver_keys st),
      sn_claimedWeiOf = read_keys (cv_claimedWeiOf cv) (solver_keys st),
      sn_vault = cv_vault cv,
      sn_allocationOf = read_keys (cv_allocationOf cv) (map fst (vault_allocationOf (rolloverVault st))),
      sn_allocationCodehashOf =
        read_keys (cv_allocationCodehashOf cv) (map fst (vault_allocationOf (rolloverVault st))),
      sn_submissions = read_keys (cv_submission cv) [1..cv_submissionCount cv],
      sn_finalizeInfo = read_keys (cv_finalizeInfo cv) [1..cv_submissionCount cv],
      sn_submissionClaimableBondWei = read_keys (cv_submissionBondOf cv) (map fst (submissionClaimableBondWei st)),
      sn_challengePausedNewActions = cv_challengePausedNewActions cv,
      sn_challenges = read_keys (cv_challenge cv) (knownChallengeIds st),
      sn_challengeInstances = read_keys (cv_challengeInstance cv) (knownChallengeIds st),
      sn_resolverBonds = read_keys (cv_resolverBond cv) (knownChallengeIds st),
      sn_challengeClaimableBondWei = read_keys (cv_challengeBondOf cv) (map fst (challengeClaimableBondWei st)),
      sn_problemCount = cv_problemCount cv,
      sn_problems = read_keys (cv_problem cv) [1..cv_problemCount cv]\<rparr>"

lemma map_of_read_keys [simp]: "map_of (read_keys f keys) k = (if k \<in> set keys then Some (f k) else None)"
proof -
  have "map_of (map (\<lambda>k. (k, f k)) ks) k = (if k \<in> set ks then Some (f k) else None)" for ks
    by (induction ks) auto
  then show ?thesis by (simp add: read_keys_def)
qed

lemma bal_read_keys [simp]: "bal (read_keys f keys) k = (if k \<in> set keys then f k else 0)"
  by (simp add: bal_def)

section \<open>Comparable values\<close>

abbreviation (input) big :: "int \<Rightarrow> int json" where "big i \<equiv> js_str (show_int i)"

fun comparable :: "jsval \<Rightarrow> int json option" where
  "comparable JUndefined = None"
| "comparable JNull = Some JsNull"
| "comparable (JBool b) = Some (JsBool b)"
| "comparable (JInt i) = Some (big i)"
| "comparable (JStr s) = Some (js_str s)"

text \<open>A property whose value is \<open>undefined\<close> is not printed.\<close>

definition stable_object :: "(string \<times> int json option) list \<Rightarrow> int json" where
  "stable_object kvs = js_object (concat (map (\<lambda>(k, v). case v of None \<Rightarrow> [] | Some x \<Rightarrow> [(k, x)]) kvs))"

definition book_json :: "string book \<Rightarrow> int json" where
  "book_json b = js_object (map (\<lambda>(k, v). (k, big v)) b)"

definition stableStringify :: "int json option \<Rightarrow> js_text option" where
  "stableStringify v = map_option canonical_text v"

definition submission_entries :: "submission_view \<Rightarrow> (string \<times> int json option) list" where
  "submission_entries v =
     [(''solver'', comparable (sv_solver v)), (''commitment'', comparable (sv_commitment v)),
      (''commitDaHash'', comparable (sv_commitDaHash v)), (''bondWei'', Some (big (sv_bondWei v))),
      (''poolAtSubmissionWei'', Some (big (sv_poolAtSubmissionWei v))),
      (''requiredBondWei'', Some (big (sv_requiredBondWei v))),
      (''improvementAtoms'', Some (big (sv_improvementAtoms v))),
      (''claimedScoreAtoms'', Some (big (sv_claimedScoreAtoms v))),
      (''solutionCid'', comparable (sv_solutionCid v)), (''permanenceHash'', comparable (sv_permanenceHash v)),
      (''committedAt'', Some (big (sv_committedAt v))), (''committedBlock'', Some (big (sv_committedBlock v))),
      (''paidAtCommit'', Some (JsBool (sv_paidAtCommit v))), (''revealedAt'', Some (big (sv_revealedAt v))),
      (''revealInstanceHash'', Some (js_str (sv_revealInstanceHash v))),
      (''challengeEndsAt'', Some (big (sv_challengeEndsAt v))),
      (''maxDisputeEndsAt'', Some (big (sv_maxDisputeEndsAt v))),
      (''objectiveClearedRevealInstanceHash'', Some (js_str (sv_objectiveClearedRevealInstanceHash v))),
      (''status'', Some (big (sv_status v)))]"

definition submission_json :: "submission_view \<Rightarrow> int json" where
  "submission_json v = stable_object (submission_entries v)"

definition finalize_json :: "finalize_info \<Rightarrow> int json" where
  "finalize_json f = js_object
     [(''prevBestScoreAtoms'', big (fi_prevBestScoreAtoms f)), (''creditAtoms'', big (fi_creditAtoms f)),
      (''prevCreditRecoveryEndsAt'', big (fi_prevCreditRecoveryEndsAt f))]"

definition problem_json :: "problem_view \<Rightarrow> int json" where
  "problem_json p = stable_object
     [(''specHash'', comparable (pv_specHash p)), (''verifierImageHash'', comparable (pv_verifierImageHash p)),
      (''pool'', comparable (pv_pool p)), (''metadataURI'', comparable (pv_metadataURI p)),
      (''frozen'', Some (JsBool (pv_frozen p)))]"

definition challenge_json :: "challenge \<Rightarrow> int json" where
  "challenge_json c = stable_object
     [(''submissionId'', Some (big (ch_submissionId c))), (''challenger'', comparable (ch_challenger c)),
      (''reasonHash'', comparable (ch_reasonHash c)), (''challengeBondWei'', Some (big (ch_challengeBondWei c))),
      (''challengedAt'', Some (big (ch_challengedAt c))), (''disputeEndsAt'', Some (big (ch_disputeEndsAt c))),
      (''resolved'', Some (JsBool (ch_resolved c))), (''decisionPending'', Some (JsBool (ch_decisionPending c))),
      (''challengerWins'', Some (JsBool (ch_challengerWins c))),
      (''transcriptHash'', comparable (ch_transcriptHash c)), (''transcriptURI'', comparable (ch_transcriptURI c)),
      (''verdictHash'', comparable (ch_verdictHash c))]"

definition instance_json :: "challenge_instance \<Rightarrow> int json" where
  "instance_json c = js_object
     [(''revealInstanceHash'', js_str (ci_revealInstanceHash c)),
      (''challengeInstanceHash'', js_str (ci_challengeInstanceHash c))]"

definition bond_json :: "resolver_bond \<Rightarrow> int json" where
  "bond_json b = stable_object
     [(''amountWei'', Some (big (rb_amountWei b))), (''releaseAt'', Some (big (rb_releaseAt b))),
      (''slashProofHash'', comparable (rb_slashProofHash b))]"

end
