(* ===== verification/Snapshot_Compare.thy ===== *)
theory Snapshot_Compare
  imports Snapshot_Types
begin

text \<open>
  \<open>compareReplayToSnapshot\<close> of agent/indexer.mjs: the list of named checks of the replayed state against
  the snapshot of the contracts, in the order of the code.
\<close>

record check_entry =
  ck_name :: string
  ck_ok :: bool
  ck_expected :: "int json option"
  ck_actual :: "int json option"

definition check :: "string \<Rightarrow> int json option \<Rightarrow> int json option \<Rightarrow> check_entry" where
  "check name expected actual =
     \<lparr>ck_name = name, ck_ok = (stableStringify expected = stableStringify actual),
      ck_expected = expected, ck_actual = actual\<rparr>"

definition check_int :: "string \<Rightarrow> int \<Rightarrow> int \<Rightarrow> check_entry" where
  "check_int name a b = check name (Some (big a)) (Some (big b))"

definition check_bool :: "string \<Rightarrow> bool \<Rightarrow> bool \<Rightarrow> check_entry" where
  "check_bool name a b = check name (Some (JsBool a)) (Some (JsBool b))"

definition check_text :: "string \<Rightarrow> string \<Rightarrow> string \<Rightarrow> check_entry" where
  "check_text name a b = check name (Some (js_str a)) (Some (js_str b))"

definition check_value :: "string \<Rightarrow> jsval \<Rightarrow> string \<Rightarrow> check_entry" where
  "check_value name a b = check name (comparable a) (Some (js_str b))"

text \<open>Numbers of JavaScript, unlike bigints, are printed without quotes.\<close>

definition check_number :: "string \<Rightarrow> int \<Rightarrow> int \<Rightarrow> check_entry" where
  "check_number name a b = check name (Some (JsNum a)) (Some (JsNum b))"

text \<open>\<open>state.eventCounts\<close> has an entry for every event of the catalog.\<close>

definition event_count :: "replay_state \<Rightarrow> protocol_event \<Rightarrow> int" where
  "event_count st ev = (case map_of (eventCounts st) ev of None \<Rightarrow> 0 | Some n \<Rightarrow> int n)"

section \<open>The submission manager\<close>

definition status_number :: "submission_status \<Rightarrow> int" where
  "status_number s = (case s of Status_None \<Rightarrow> 0 | Status_Committed \<Rightarrow> 1 | Status_Revealed \<Rightarrow> 2
     | Status_Challenged \<Rightarrow> 3 | Status_Finalized \<Rightarrow> 4 | Status_Rejected \<Rightarrow> 5 | Status_Voided \<Rightarrow> 6)"

definition expectedSubmissionForComparison :: "submission \<Rightarrow> submission_view" where
  "expectedSubmissionForComparison s =
     \<lparr>sv_solver = sub_solver s, sv_commitment = sub_commitment s, sv_commitDaHash = sub_commitDaHash s,
      sv_bondWei = sub_bondWei s, sv_poolAtSubmissionWei = sub_poolAtSubmissionWei s,
      sv_requiredBondWei = sub_requiredBondWei s, sv_improvementAtoms = sub_improvementAtoms s,
      sv_claimedScoreAtoms = sub_claimedScoreAtoms s, sv_solutionCid = sub_solutionCid s,
      sv_permanenceHash = sub_permanenceHash s, sv_committedAt = sub_committedAt s,
      sv_revealedAt = sub_revealedAt s, sv_challengeEndsAt = sub_challengeEndsAt s,
      sv_status = status_number (sub_status s), sv_committedBlock = sub_committedBlock s,
      sv_paidAtCommit = sub_paidAtCommit s, sv_revealInstanceHash = sub_revealInstanceHash s,
      sv_maxDisputeEndsAt = sub_maxDisputeEndsAt s,
      sv_objectiveClearedRevealInstanceHash =
        (case sub_objectiveClearedRevealInstanceHash s of None \<Rightarrow> zero_hash | Some h \<Rightarrow> h)\<rparr>"

definition optional_check :: "bool \<Rightarrow> check_entry list \<Rightarrow> check_entry list" where
  "optional_check present entries = (if present then entries else [])"

definition binding_checks :: "replay_config \<Rightarrow> submissions_reads \<Rightarrow> check_entry list" where
  "binding_checks cfg r =
     (case cfg_boardSetDigest cfg of None \<Rightarrow> []
      | Some d \<Rightarrow> [check_text ''submissions.boardSetDigest'' d (sr_boardSetDigest r)]) @
     (case cfg_releaseBindingDigest cfg of None \<Rightarrow> []
      | Some d \<Rightarrow> [check_text ''submissions.releaseBindingDigest'' d (sr_releaseBindingDigest r)]) @
     optional_check (cfg_objectiveVerifier cfg \<noteq> JUndefined)
       [check_text ''submissions.objectiveVerifier'' (addressKey (cfg_objectiveVerifier cfg)) (to_lower (sr_objectiveVerifier r)),
        check_value ''submissions.objectiveVerifierCodehash'' (cfg_objectiveVerifierCodehash cfg) (sr_objectiveVerifierCodehash r)] @
     optional_check (cfg_productionLaunchAuthority cfg \<noteq> JUndefined)
       [check_text ''submissions.productionLaunchAuthority'' (addressKey (cfg_productionLaunchAuthority cfg))
          (to_lower (sr_productionLaunchAuthority r)),
        check_text ''submissions.independentSecurityAuthority'' (addressKey (cfg_independentSecurityAuthority cfg))
          (to_lower (sr_independentSecurityAuthority r)),
        check_text ''submissions.governanceAuthority'' (addressKey (cfg_governanceAuthority cfg))
          (to_lower (sr_governanceAuthority r))]"

definition submission_checks :: "replay_config \<Rightarrow> replay_state \<Rightarrow> snapshot \<Rightarrow> check_entry list" where
  "submission_checks cfg st sn = (let r = sn_submissionsReads sn in
     [check_bool ''lifecycle query coverage is complete'' True (coverage_complete (coverage st)),
      check_bool ''on-chain submissionCount was included'' True (sn_submissionCount sn \<noteq> None),
      check ''submissions.submissionCount == Committed events'' (Some (big (submissionCount st)))
        (map_option big (sn_submissionCount sn)),
      check_int ''submissions.openSubmissionCount'' (openSubmissionCount st) (sr_openSubmissionCount r),
      check_int ''submissions.bestScoreAtoms'' (bestScoreAtoms st) (sr_bestScoreAtoms r),
      check_bool ''submissions.fundingArmed'' (fundingArmed st) (sr_fundingArmed r),
      check_int ''submissions.armedAt'' (armedAt st) (sr_armedAt r),
      check_text ''submissions.fundingAuthorizationDigest'' (fundingAuthorizationDigest st) (sr_fundingAuthorizationDigest r),
      check_text ''submissions.authorizedFundingDigest'' (authorizedFundingDigest st) (sr_authorizedFundingDigest r),
      check_int ''submissions.fundingAuthorizationExpiresAt'' (fundingAuthorizationExpiresAt st)
        (sr_fundingAuthorizationExpiresAt r),
      check_int ''submissions.fundingAuthorizationNonce'' (fundingAuthorizationNonce st) (sr_fundingAuthorizationNonce r)] @
     binding_checks cfg r @
     [check_bool ''submissions.pausedNewActions'' (pausedNewActions st) (sr_pausedNewActions r),
      check_bool ''submissions.pausedAll'' (pausedAll st) (sr_pausedAll r),
      check_int ''submissions.expiryGraceUntil'' (expiryGraceUntil st) (sr_expiryGraceUntil r),
      check_value ''submissions.challengeManager'' (challengeManager st) (sr_challengeManager r),
      check_int ''submissions.creditRecoveryEndsAt'' (creditRecoveryEndsAt st) (sr_creditRecoveryEndsAt r)])"

section \<open>The pool, the ledger, the registry and the vault\<close>

definition pool_checks :: "pool_state \<Rightarrow> snapshot \<Rightarrow> check_entry list" where
  "pool_checks p sn = (let r = sn_pool sn in
     [check_value ''pool.ledger'' (pool_ledger p) (pr_ledger r),
      check_value ''pool.submissionManager'' (pool_submissionManager p) (pr_submissionManager r),
      check_value ''pool.registry'' (pool_registry p) (pr_registry r),
      check_int ''pool.problemId'' (pool_problemId p) (pr_problemId r),
      check_int ''pool.totalFunded'' (pool_totalFunded p) (pr_totalFunded r),
      check_int ''pool.totalClaimed'' (pool_totalClaimed p) (pr_totalClaimed r),
      check_int ''pool.totalWinningsDonated'' (pool_totalWinningsDonated p) (pr_totalWinningsDonated r),
      check_int ''pool.totalGrossClaimed'' (pool_totalGrossClaimed p) (pr_totalGrossClaimed r),
      check_int ''pool.totalFeeAccrued'' (pool_totalFeeAccrued p) (pr_totalFeeAccrued r),
      check_int ''pool.totalFeePaid'' (pool_totalFeePaid p) (pr_totalFeePaid r),
      check_int ''pool.accruedFeeBalance'' (pool_accruedFeeBalance p) (pr_accruedFeeBalance r),
      check_int ''pool.totalSponsorRefunded'' (pool_totalSponsorRefunded p) (pr_totalSponsorRefunded r),
      check_int ''pool.totalRolloverPaid'' (pool_totalRolloverPaid p) (pr_totalRolloverPaid r),
      check_int ''pool.totalForcedEthRecovered'' (pool_totalForcedEthRecovered p) (pr_totalForcedEthRecovered r),
      check_int ''pool.totalResidualPaid'' (pool_totalResidualPaid p) (pr_totalResidualPaid r),
      check_int ''pool.accountedBalance'' (pool_accountedBalance p) (pr_accountedBalance r),
      check_bool ''pool accounted balance does not exceed raw ETH balance'' True (pr_accountedBalance r \<le> pr_balance r),
      check_bool ''pool.everFunded'' (pool_everFunded p) (pr_everFunded r),
      check_int ''pool.firstFundedAt'' (pool_firstFundedAt p) (pr_firstFundedAt r),
      check_bool ''pool.acceptingFunds'' (pool_acceptingFunds p) (pr_acceptingFunds r),
      check ''pool.sponsorshipOf observed sponsors'' (Some (book_json (pool_sponsorshipOf p)))
        (Some (book_json (sn_sponsorshipOf sn)))])"

definition ledger_checks :: "ledger_state \<Rightarrow> ledger_reads \<Rightarrow> check_entry list" where
  "ledger_checks l r =
     [check_bool ''ledger.pausedNewActions'' (ledger_pausedNewActions l) (lr_pausedNewActions r),
      check_value ''ledger.creditRecorder'' (ledger_creditRecorder l) (lr_creditRecorder r),
      check_int ''ledger.totalCreditAtoms'' (ledger_totalCreditAtoms l) (lr_totalCreditAtoms r),
      check_int ''ledger.totalGrossClaimed'' (ledger_totalGrossClaimed l) (lr_totalGrossClaimed r),
      check_int ''ledger.totalFeeAccrued'' (ledger_totalFeeAccrued l) (lr_totalFeeAccrued r),
      check_bool ''ledger.closed'' (ledger_closed l) (lr_closed r),
      check_int ''ledger.closedPoolBalance'' (ledger_closedPoolBalance l) (lr_closedPoolBalance r),
      check_int ''ledger.feeReserve'' (ledger_feeReserve l) (lr_feeReserve r),
      check_int ''ledger.closedAt'' (ledger_closedAt l) (lr_closedAt r),
      check_int ''ledger.claimDeadline'' (ledger_claimDeadline l) (lr_claimDeadline r),
      check_bool ''ledger.feeSwept'' (ledger_feeSwept l) (lr_feeSwept r),
      check_bool ''ledger.residualSwept'' (ledger_residualSwept l) (lr_residualSwept r)]"

definition vault_checks :: "replay_state \<Rightarrow> snapshot \<Rightarrow> check_entry list" where
  "vault_checks st sn = (let v = rolloverVault st in
     [check_int ''registry.problemCount'' (registry_problemCount (registry st)) (sn_problemCount sn),
      check_bool ''challenge pausedNewActions'' (challengePausedNewActions st) (sn_challengePausedNewActions sn),
      check_int ''rolloverVault.totalAllocated'' (vault_totalAllocated v) (vr_totalAllocated (sn_vault sn)),
      check ''rolloverVault observed allocations'' (Some (book_json (vault_allocationOf v)))
        (Some (book_json (sn_allocationOf sn))),
      check ''rolloverVault observed allocation codehash pins''
        (Some (stable_object (map (\<lambda>(k, v). (k, comparable v)) (vault_allocationCodehashOf v))))
        (Some (js_object (map (\<lambda>(k, h). (k, js_str h)) (sn_allocationCodehashOf sn)))),
      check_int ''rolloverVault event-derived balance'' (vault_totalReceived v - vault_totalFuturePoolFunded v)
        (vr_balance (sn_vault sn))])"

section \<open>Accounting identities of the snapshot\<close>

definition accounting_checks :: "pool_reads \<Rightarrow> ledger_reads \<Rightarrow> check_entry list" where
  "accounting_checks p l =
     [check_int ''pool gross claims equal net claims plus accrued fees'' (pr_totalGrossClaimed p)
        (pr_totalClaimed p + pr_totalFeeAccrued p),
      check_int ''pool fee liability conserves accrued fees'' (pr_totalFeeAccrued p)
        (pr_totalFeePaid p + pr_accruedFeeBalance p),
      check_int ''pool accounted ETH conserves all categorized outflows'' (pr_totalFunded p)
        (pr_accountedBalance p + pr_totalClaimed p + pr_totalFeePaid p + pr_totalSponsorRefunded p + pr_totalRolloverPaid p),
      check_int ''pool and ledger gross claims agree'' (pr_totalGrossClaimed p) (lr_totalGrossClaimed l),
      check_int ''pool and ledger accrued fees agree'' (pr_totalFeeAccrued p) (lr_totalFeeAccrued l)]"

section \<open>Statuses against event counts\<close>

definition count_status :: "submission_status \<Rightarrow> replay_state \<Rightarrow> int" where
  "count_status s st = int (length (filter (\<lambda>(i, sub). sub_status sub = s) (submissions st)))"

definition status_checks :: "replay_state \<Rightarrow> snapshot \<Rightarrow> check_entry list" where
  "status_checks st sn =
     [check_int ''current Finalized statuses == Finalized events - FinalizeVoided events''
        (event_count st (Submissions Finalized) - event_count st (Submissions FinalizeVoided))
        (count_status Status_Finalized st),
      check_int ''current Voided statuses == FinalizeVoided events''
        (event_count st (Submissions FinalizeVoided)) (count_status Status_Voided st),
      check_int ''Revealed events == submissions with revealedAt'' (event_count st (Submissions Revealed))
        (int (length (filter (\<lambda>(i, v). sv_revealedAt v \<noteq> 0) (sn_submissions sn))))]"

section \<open>One check per record\<close>

text \<open>
  \<open>Object.entries\<close> and \<open>Object.keys\<close> list the keys that are array indices first, in ascending order, and
  the others in the order they were added. Challenge ids are sorted as numbers, below 2^53.
\<close>

definition array_index :: "int \<Rightarrow> bool" where
  "array_index i \<longleftrightarrow> 0 \<le> i \<and> i < 2 ^ 32 - 1"

definition js_entries :: "(int \<times> 'v) list \<Rightarrow> (int \<times> 'v) list" where
  "js_entries xs =
     sort_key fst (filter (\<lambda>(i, v). array_index i) xs) @ filter (\<lambda>(i, v). \<not> array_index i) xs"

definition keyed :: "string \<Rightarrow> string \<Rightarrow> string" where
  "keyed name key = name @ ''('' @ key @ '')''"

definition submission_entry_checks :: "snapshot \<Rightarrow> int \<times> submission \<Rightarrow> check_entry list" where
  "submission_entry_checks sn = (\<lambda>(i, expected).
     [check (keyed ''submissions'' (show_int i)) (Some (submission_json (expectedSubmissionForComparison expected)))
        (map_option submission_json (map_of (sn_submissions sn) i)),
      check (keyed ''finalizeInfo'' (show_int i)) (Some (finalize_json (sub_finalizeInfo expected)))
        (map_option finalize_json (map_of (sn_finalizeInfo sn) i))])"

definition problem_check :: "snapshot \<Rightarrow> int \<times> registry_problem \<Rightarrow> check_entry" where
  "problem_check sn = (\<lambda>(i, p).
     check (keyed ''registry.problems'' (show_int i) @ '' event-reconstructable state'')
       (Some (problem_json \<lparr>pv_specHash = rp_specHash p, pv_verifierImageHash = rp_verifierImageHash p,
          pv_pool = rp_pool p, pv_metadataURI = rp_metadataURI p, pv_frozen = rp_frozen p\<rparr>))
       (map_option problem_json (map_of (sn_problems sn) i)))"

definition solver_addresses :: "replay_state \<Rightarrow> string list" where
  "solver_addresses st = sort_key units (first_occurrences
     (solver_keys st @ map fst (ledger_creditAtomsOf (ledger st)) @ map fst (ledger_claimedWeiOf (ledger st))))"

definition solver_checks :: "replay_state \<Rightarrow> snapshot \<Rightarrow> string \<Rightarrow> check_entry list" where
  "solver_checks st sn solver =
     [check_int (keyed ''ledger.creditAtomsOf'' solver) (bal (ledger_creditAtomsOf (ledger st)) solver)
        (bal (sn_creditAtomsOf sn) solver),
      check_int (keyed ''ledger.claimedWeiOf'' solver) (bal (ledger_claimedWeiOf (ledger st)) solver)
        (bal (sn_claimedWeiOf sn) solver)]"

definition bond_checks :: "string \<Rightarrow> string book \<Rightarrow> string book \<Rightarrow> check_entry list" where
  "bond_checks name expected actual =
     map (\<lambda>claimant. check_int (keyed name claimant) (bal expected claimant) (bal actual claimant))
       (sort_key units (map fst expected))"

definition no_challenge :: challenge where
  "no_challenge = \<lparr>ch_submissionId = 0, ch_challenger = JStr zero_address, ch_reasonHash = JStr zero_hash,
     ch_challengeBondWei = 0, ch_challengedAt = 0, ch_disputeEndsAt = 0, ch_resolved = False, ch_decisionPending = False,
     ch_challengerWins = False, ch_transcriptHash = JStr zero_hash, ch_transcriptURI = JStr [], ch_verdictHash = JStr zero_hash\<rparr>"

definition no_bond :: resolver_bond where
  "no_bond = \<lparr>rb_amountWei = 0, rb_releaseAt = 0, rb_slashProofHash = JStr zero_hash\<rparr>"

definition challenge_checks :: "replay_state \<Rightarrow> snapshot \<Rightarrow> int \<Rightarrow> check_entry list" where
  "challenge_checks st sn i =
     [check (keyed ''challenges'' (show_int i))
        (Some (challenge_json (case map_of (challenges st) i of None \<Rightarrow> no_challenge | Some c \<Rightarrow> c)))
        (map_option challenge_json (map_of (sn_challenges sn) i)),
      check (keyed ''challengeInstances'' (show_int i)) (map_option instance_json (map_of (challengeInstances st) i))
        (map_option instance_json (map_of (sn_challengeInstances sn) i)),
      check (keyed ''resolverBonds'' (show_int i))
        (Some (bond_json (case map_of (resolverBonds st) i of None \<Rightarrow> no_bond | Some b \<Rightarrow> b)))
        (map_option bond_json (map_of (sn_resolverBonds sn) i))]"

definition once_checks :: "replay_config \<Rightarrow> replay_state \<Rightarrow> check_entry list" where
  "once_checks cfg st =
     [check_number ''pool LedgerSet event exactly once'' 1 (event_count st (Pool LedgerSet)),
      check_number ''pool SubmissionManagerSet event exactly once'' 1 (event_count st (Pool SubmissionManagerSet)),
      check_number ''pool RegistrySet event exactly once'' 1 (event_count st (Pool RegistrySet)),
      check_number ''ledger CreditRecorderSet event exactly once'' 1 (event_count st (Ledger CreditRecorderSet)),
      check_number ''submissions ChallengeManagerSet event exactly once'' 1 (event_count st (Submissions ChallengeManagerSet)),
      check_number ''registry ProblemRegistered events'' (cfg_problemCount cfg) (event_count st (Registry ProblemRegistered))]"

definition replay_checks :: "replay_config \<Rightarrow> replay_state \<Rightarrow> snapshot \<Rightarrow> check_entry list" where
  "replay_checks cfg st sn =
     submission_checks cfg st sn @ pool_checks (pool st) sn @ ledger_checks (ledger st) (sn_ledger sn) @ vault_checks st sn @
     accounting_checks (sn_pool sn) (sn_ledger sn) @ status_checks st sn @
     concat (map (submission_entry_checks sn) (js_entries (submissions st))) @
     map (problem_check sn) (js_entries (registry_problems (registry st))) @
     concat (map (solver_checks st sn) (solver_addresses st)) @
     bond_checks ''submissions.claimableBondWei'' (submissionClaimableBondWei st) (sn_submissionClaimableBondWei sn) @
     bond_checks ''challenges.claimableBondWei'' (challengeClaimableBondWei st) (sn_challengeClaimableBondWei sn) @
     concat (map (challenge_checks st sn) (sort (knownChallengeIds st))) @ once_checks cfg st"

definition compareReplayToSnapshot ::
    "(string \<Rightarrow> nat \<Rightarrow> bool) \<Rightarrow> replay_state \<Rightarrow> snapshot \<Rightarrow> raw_config \<Rightarrow> replay_error + check_entry list" where
  "compareReplayToSnapshot hx st sn raw = and_then (replayConfig hx raw) (\<lambda>cfg. Inr (replay_checks cfg st sn))"

text \<open>\<open>checks.every((entry) => entry.ok)\<close>.\<close>

definition all_ok :: "check_entry list \<Rightarrow> bool" where
  "all_ok checks \<longleftrightarrow> list_all ck_ok checks"

end
