(* ===== verification/Snapshot_Equality.thy ===== *)
theory Snapshot_Equality
  imports Snapshot_Compare
begin

text \<open>
  When a check of the comparison is ok: printing is injective on the values that are compared.
\<close>

section \<open>When a check is ok\<close>

lemma units_ok_units [simp]: "units_ok (units s)"
proof -
  have "of_char c < (65536 :: nat)" for c using nat_of_char_less_256[of c] by linarith
  then show ?thesis by (auto simp: units_ok_def units_def)
qed

lemma units_inject [simp]: "units s = units t \<longleftrightarrow> s = t"
  by (auto simp: units_def inj_map_eq_map inj_def)

lemma json_text_inject: "units_ok s \<Longrightarrow> units_ok t \<Longrightarrow> json_text s = json_text t \<Longrightarrow> s = t"
  using parse_json_text[of s "[]"] parse_json_text[of t "[]"] by simp

lemma check_ok_text [simp]: "ck_ok (check n (Some (js_str a)) (Some (js_str b))) \<longleftrightarrow> a = b"
  using json_text_inject[of "units a" "units b"]
  by (auto simp: check_def stableStringify_def canonical_text_def)

lemma check_int_ok [simp]: "ck_ok (check_int n a b) \<longleftrightarrow> a = b"
  by (simp add: check_int_def show_int_inject)

lemma check_text_ok [simp]: "ck_ok (check_text n a b) \<longleftrightarrow> a = b"
  by (simp add: check_text_def)

lemma check_bool_ok [simp]: "ck_ok (check_bool n a b) \<longleftrightarrow> a = b"
  by (auto simp: check_bool_def check_def stableStringify_def canonical_text_def units_inject)

lemma check_value_ok: "ck_ok (check_value n (JStr a) b) \<longleftrightarrow> a = b"
  by (simp add: check_value_def)

text \<open>Objects of strings, booleans and null that print the same text have the same entries.\<close>

definition flat_value :: "int json \<Rightarrow> bool" where
  "flat_value v \<longleftrightarrow> (case v of JsText s \<Rightarrow> units_ok s | JsBool _ \<Rightarrow> True | JsNull \<Rightarrow> True | _ \<Rightarrow> False)"

definition flat_object :: "(string \<times> int json) list \<Rightarrow> bool" where
  "flat_object kvs \<longleftrightarrow> distinct (map fst kvs) \<and>
     (\<forall>(k, v) \<in> set kvs. units k \<notin> set forbidden_keys \<and> flat_value v)"

lemma flat_value_sort: "flat_value v \<Longrightarrow> sort_json v = v \<and> wf_json nm d v \<and> stable_json nm v"
  by (auto simp: flat_value_def split: json.splits)

lemma flat_object_ok:
  assumes "flat_object kvs"
  shows "wf_json integer_numbers 1 (js_object kvs)" "stable_json integer_numbers (js_object kvs)"
    "sort_json (js_object kvs) = JsObject (sort_key fst (map (\<lambda>(k, v). (units k, v)) kvs))"
proof -
  have d: "distinct (map fst (map (\<lambda>(k, v). (units k, v)) kvs))"
    using assms by (auto simp: flat_object_def distinct_map inj_on_def case_prod_unfold)
  have e: "\<forall>(k, v) \<in> set kvs. units k \<notin> set forbidden_keys \<and> sort_json v = v \<and> wf_json integer_numbers 0 v \<and> stable_json integer_numbers v"
    using assms flat_value_sort by (fastforce simp: flat_object_def)
  show "wf_json integer_numbers 1 (js_object kvs)" "stable_json integer_numbers (js_object kvs)"
    using d e by (auto simp: js_object_def wf_object entry_ok_def)
  have "map ((\<lambda>(k, v). (k, sort_json v)) \<circ> (\<lambda>(k, v). (units k, v))) kvs = map (\<lambda>(k, v). (units k, v)) kvs"
    using e by auto
  then show "sort_json (js_object kvs) = JsObject (sort_key fst (map (\<lambda>(k, v). (units k, v)) kvs))"
    by (simp add: js_object_def del: map_eq_conv)
qed

lemma flat_object_inject:
  assumes "flat_object kvs" and "flat_object kvs'" and "canonical_text (js_object kvs) = canonical_text (js_object kvs')"
  shows "set kvs = set kvs'"
proof -
  let ?u = "\<lambda>(k :: string, v :: int json). (units k, v)"
  have "sort_key fst (map ?u kvs) = sort_key fst (map ?u kvs')"
    using canonical_injective[OF flat_object_ok(1)[OF assms(1)] flat_object_ok(1)[OF assms(2)] flat_object_ok(2)[OF assms(1)]
        flat_object_ok(2)[OF assms(2)]] assms(3)
    by (simp add: canonical_text_def flat_object_ok(3)[OF assms(1)] flat_object_ok(3)[OF assms(2)])
  from arg_cong[OF this, of set] have "?u ` set kvs = ?u ` set kvs'" by simp
  moreover have "inj ?u" by (auto simp: inj_def)
  ultimately show ?thesis by (simp add: inj_image_eq_iff)
qed


lemma flat_comparable: "comparable v = Some x \<Longrightarrow> flat_value x"
  by (cases v) (auto simp: flat_value_def)

lemma img_fst: "(k, v) \<in> set kvs \<Longrightarrow> k \<in> fst ` set kvs"
  by force

lemma stable_object_flat:
  assumes "distinct (map fst kvs)" and "\<forall>k \<in> fst ` set kvs. units k \<notin> set forbidden_keys"
    and "\<forall>(k, v) \<in> set kvs. \<forall>x. v = Some x \<longrightarrow> flat_value x"
  shows "\<exists>es. stable_object kvs = js_object es \<and> flat_object es \<and> set es = {(k, x). (k, Some x) \<in> set kvs}"
proof -
  let ?pick = "\<lambda>(k, v). case v of None \<Rightarrow> [] | Some x \<Rightarrow> [(k, x)]"
  have "set (map fst (concat (map ?pick kvs))) \<subseteq> set (map fst kvs)" for kvs :: "(string \<times> int json option) list"
    by (force split: option.splits)
  moreover have "distinct (map fst (concat (map ?pick kvs)))" using assms(1)
  proof (induction kvs)
    case (Cons p kvs)
    have "set (map fst (concat (map ?pick kvs))) \<subseteq> set (map fst kvs)" by (force split: option.splits)
    then show ?case using Cons by (cases p; cases "snd p") (auto dest: img_fst)
  qed simp
  moreover have "set (concat (map ?pick kvs)) = {(k, x). (k, Some x) \<in> set kvs}"
    by (force split: option.splits)
  ultimately show ?thesis using assms(2,3)
    by (intro exI[of _ "concat (map ?pick kvs)"]) (fastforce simp: stable_object_def flat_object_def)
qed

lemma stable_object_inject:
  assumes "distinct (map fst kvs)" "\<forall>k \<in> fst ` set kvs. units k \<notin> set forbidden_keys"
      "\<forall>(k, v) \<in> set kvs. \<forall>x. v = Some x \<longrightarrow> flat_value x"
    and "distinct (map fst kvs')" "\<forall>k \<in> fst ` set kvs'. units k \<notin> set forbidden_keys"
      "\<forall>(k, v) \<in> set kvs'. \<forall>x. v = Some x \<longrightarrow> flat_value x"
    and "canonical_text (stable_object kvs) = canonical_text (stable_object kvs')"
  shows "(k, Some x) \<in> set kvs \<longleftrightarrow> (k, Some x) \<in> set kvs'"
proof -
  obtain es where es: "stable_object kvs = js_object es" "flat_object es" "set es = {(k, x). (k, Some x) \<in> set kvs}"
    using stable_object_flat[OF assms(1-3)] by blast
  obtain es' where es': "stable_object kvs' = js_object es'" "flat_object es'" "set es' = {(k, x). (k, Some x) \<in> set kvs'}"
    using stable_object_flat[OF assms(4-6)] by blast
  have "set es = set es'" by (rule flat_object_inject[OF es(2) es'(2)]) (use assms(7) es(1) es'(1) in simp)
  then show ?thesis using es(3) es'(3) by blast
qed

section \<open>Submissions\<close>

lemma submission_json_entries: "submission_json v = stable_object (submission_entries v)"
  by (simp add: submission_json_def)

lemma submission_entries_ok:
  "distinct (map fst (submission_entries v))"
  "\<forall>k \<in> fst ` set (submission_entries v). units k \<notin> set forbidden_keys"
  "\<forall>(k, x) \<in> set (submission_entries v). \<forall>y. x = Some y \<longrightarrow> flat_value y"
  by (auto simp: submission_entries_def forbidden_keys_def flat_comparable) (simp_all add: flat_value_def)

lemma submission_json_inject:
  assumes "canonical_text (submission_json v) = canonical_text (submission_json w)"
  shows "sv_status v = sv_status w \<and> sv_bondWei v = sv_bondWei w \<and> sv_claimedScoreAtoms v = sv_claimedScoreAtoms w \<and>
    sv_paidAtCommit v = sv_paidAtCommit w"
proof -
  have same: "(k, Some x) \<in> set (submission_entries v) \<longleftrightarrow> (k, Some x) \<in> set (submission_entries w)" for k x
    by (rule stable_object_inject[OF submission_entries_ok submission_entries_ok])
      (use assms in \<open>simp add: submission_json_entries\<close>)
  show ?thesis
    using same[of "''status''" "big (sv_status v)"] same[of "''bondWei''" "big (sv_bondWei v)"]
      same[of "''claimedScoreAtoms''" "big (sv_claimedScoreAtoms v)"] same[of "''paidAtCommit''" "JsBool (sv_paidAtCommit v)"]
    by (simp add: submission_entries_def show_int_inject)
qed

end
