(* ===== verification/Replay_Lift.thy ===== *)
theory Replay_Lift
  imports Replay
begin

text \<open>
  From one reducer to the whole replay. The dispatcher is described by what each part of the state
  can undergo in one step; with these facts every invariant of a reducer is an instance of a machine
  locale of the prelude, and the locale's lemmas speak about \<open>replayProtocolEvents\<close>.
\<close>

section \<open>What one dispatched log does to each part of the state\<close>

text \<open>The parts each reducer leaves alone, read off the frames.\<close>

lemma pool_event_rest:
  assumes "replayPoolEvent name st ev = Inr st'"
  shows "config st' = config st" "coverage st' = coverage st" "eventCounts st' = eventCounts st"
    "ledger st' = ledger st" "registry st' = registry st" "rolloverVault st' = rolloverVault st"
    "funding_fields st' = funding_fields st" "submissions st' = submissions st"
    "submissionCount st' = submissionCount st" "openSubmissionCount st' = openSubmissionCount st"
    "bestScoreAtoms st' = bestScoreAtoms st"
    "submissionClaimableBondWei st' = submissionClaimableBondWei st"
    "recoveryByTx st' = recoveryByTx st"
    "pendingObjectiveProofByTx st' = pendingObjectiveProofByTx st"
proof -
  obtain p c f where "st' = st\<lparr>pool := p, claimConsumptionByTx := c, forcedRecoveryByTx := f\<rparr>"
    using pool_event_frame[OF assms] by blast
  then show "config st' = config st" "coverage st' = coverage st" "eventCounts st' = eventCounts st"
    "ledger st' = ledger st" "registry st' = registry st" "rolloverVault st' = rolloverVault st"
    "funding_fields st' = funding_fields st" "submissions st' = submissions st"
    "submissionCount st' = submissionCount st" "openSubmissionCount st' = openSubmissionCount st"
    "bestScoreAtoms st' = bestScoreAtoms st"
    "submissionClaimableBondWei st' = submissionClaimableBondWei st"
    "recoveryByTx st' = recoveryByTx st"
    "pendingObjectiveProofByTx st' = pendingObjectiveProofByTx st"
    by (simp_all add: funding_fields_def)
qed

lemma ledger_event_rest:
  assumes "replayLedgerEvent name st ev = Inr st'"
  shows "config st' = config st" "coverage st' = coverage st" "eventCounts st' = eventCounts st"
    "pool st' = pool st" "registry st' = registry st" "rolloverVault st' = rolloverVault st"
    "funding_fields st' = funding_fields st" "submissions st' = submissions st"
    "submissionCount st' = submissionCount st" "openSubmissionCount st' = openSubmissionCount st"
    "bestScoreAtoms st' = bestScoreAtoms st"
    "submissionClaimableBondWei st' = submissionClaimableBondWei st"
    "forcedRecoveryByTx st' = forcedRecoveryByTx st"
    "pendingObjectiveProofByTx st' = pendingObjectiveProofByTx st"
proof -
  obtain l c r where "st' = st\<lparr>ledger := l, claimConsumptionByTx := c, recoveryByTx := r\<rparr>"
    using ledger_event_frame[OF assms] by blast
  then show "config st' = config st" "coverage st' = coverage st" "eventCounts st' = eventCounts st"
    "pool st' = pool st" "registry st' = registry st" "rolloverVault st' = rolloverVault st"
    "funding_fields st' = funding_fields st" "submissions st' = submissions st"
    "submissionCount st' = submissionCount st" "openSubmissionCount st' = openSubmissionCount st"
    "bestScoreAtoms st' = bestScoreAtoms st"
    "submissionClaimableBondWei st' = submissionClaimableBondWei st"
    "forcedRecoveryByTx st' = forcedRecoveryByTx st"
    "pendingObjectiveProofByTx st' = pendingObjectiveProofByTx st"
    by (simp_all add: funding_fields_def)
qed

lemma quorum_event_rest:
  assumes "replayResolverQuorumEvent hx st ev = Inr st'"
  shows "\<exists>p. st' = st\<lparr>pendingObjectiveProofByTx := p\<rparr>"
  using quorum_event_frame[OF assms] by blast

lemma registry_event_rest:
  assumes "replayRegistryEvent name st ev = Inr st'"
  shows "\<exists>r. st' = st\<lparr>registry := r\<rparr>"
  using registry_event_frame[OF assms] by blast

lemma vault_event_rest:
  assumes "replayRolloverVaultEvent name st ev = Inr st'"
  shows "\<exists>v. st' = st\<lparr>rolloverVault := v\<rparr>"
  using vault_event_frame[OF assms] by blast

text \<open>The reducers one at a time: what the dispatcher can have done.\<close>

lemma dispatch_cases [consumes 1, case_names pool ledger submissions challenges quorum registry vault none]:
  assumes "dispatch_event hx st ev = Inr st'"
    and "\<And>name. kind ev = Pool name \<Longrightarrow> replayPoolEvent name st ev = Inr st' \<Longrightarrow> P"
    and "\<And>name. kind ev = Ledger name \<Longrightarrow> replayLedgerEvent name st ev = Inr st' \<Longrightarrow> P"
    and "\<And>name. kind ev = Submissions name \<Longrightarrow> replaySubmissionEvent hx name st ev = Inr st' \<Longrightarrow> P"
    and "\<And>name. kind ev = Challenges name \<Longrightarrow> replayChallengeEvent hx name st ev = Inr st' \<Longrightarrow> P"
    and "\<And>name. kind ev = ResolverQuorum name \<Longrightarrow> replayResolverQuorumEvent hx st ev = Inr st' \<Longrightarrow> P"
    and "\<And>name. kind ev = Registry name \<Longrightarrow> replayRegistryEvent name st ev = Inr st' \<Longrightarrow> P"
    and "\<And>name. kind ev = RolloverVault name \<Longrightarrow> replayRolloverVaultEvent name st ev = Inr st' \<Longrightarrow> P"
    and "\<And>s n. kind ev = Unrecognized s n \<Longrightarrow> st' = st \<Longrightarrow> P"
  shows P
  using assms by (cases "kind ev") (auto simp: dispatch_event_def)

lemma dispatch_constant:
  assumes "dispatch_event hx st ev = Inr st'"
  shows "config st' = config st \<and> coverage st' = coverage st \<and> eventCounts st' = eventCounts st"
  using assms
proof (cases rule: dispatch_cases)
  case (submissions name)
  then show ?thesis using submission_event_rest by (auto simp: submission_rest_def)
next
  case (challenges name)
  then show ?thesis using challenge_event_rest by (auto simp: challenge_rest_def)
qed (auto dest: pool_event_rest ledger_event_rest quorum_event_rest registry_event_rest vault_event_rest)

lemma dispatch_pool:
  assumes "dispatch_event hx st ev = Inr st'"
  shows "pool st' = pool st \<or> (\<exists>name. kind ev = Pool name \<and> replayPoolEvent name st ev = Inr st')"
  using assms
proof (cases rule: dispatch_cases)
  case (submissions name)
  then show ?thesis using submission_event_rest by (auto simp: submission_rest_def)
next
  case (challenges name)
  then show ?thesis using challenge_event_rest by (auto simp: challenge_rest_def)
qed (auto dest: ledger_event_rest quorum_event_rest registry_event_rest vault_event_rest)

lemma dispatch_ledger:
  assumes "dispatch_event hx st ev = Inr st'"
  shows "ledger st' = ledger st \<or> (\<exists>name. kind ev = Ledger name \<and> replayLedgerEvent name st ev = Inr st')"
  using assms
proof (cases rule: dispatch_cases)
  case (submissions name)
  then show ?thesis using submission_event_rest by (auto simp: submission_rest_def)
next
  case (challenges name)
  then show ?thesis using challenge_event_rest by (auto simp: challenge_rest_def)
qed (auto dest: pool_event_rest quorum_event_rest registry_event_rest vault_event_rest)

lemma dispatch_registry:
  assumes "dispatch_event hx st ev = Inr st'"
  shows "registry st' = registry st \<or>
    (\<exists>name. kind ev = Registry name \<and> replayRegistryEvent name st ev = Inr st')"
  using assms
proof (cases rule: dispatch_cases)
  case (submissions name)
  then show ?thesis using submission_event_rest by (auto simp: submission_rest_def)
next
  case (challenges name)
  then show ?thesis using challenge_event_rest by (auto simp: challenge_rest_def)
qed (auto dest: pool_event_rest ledger_event_rest quorum_event_rest vault_event_rest)

lemma dispatch_vault:
  assumes "dispatch_event hx st ev = Inr st'"
  shows "rolloverVault st' = rolloverVault st \<or>
    (\<exists>name. kind ev = RolloverVault name \<and> replayRolloverVaultEvent name st ev = Inr st')"
  using assms
proof (cases rule: dispatch_cases)
  case (submissions name)
  then show ?thesis using submission_event_rest by (auto simp: submission_rest_def)
next
  case (challenges name)
  then show ?thesis using challenge_event_rest by (auto simp: challenge_rest_def)
qed (auto dest: pool_event_rest ledger_event_rest quorum_event_rest registry_event_rest)

lemma dispatch_change:
  assumes "dispatch_event hx st ev = Inr st'"
  shows "submission_change st st'"
  using assms
proof (cases rule: dispatch_cases)
  case (submissions name)
  then show ?thesis using submission_event_change by blast
next
  case (challenges name)
  then show ?thesis using challenge_event_change by blast
next
  case (pool name)
  then show ?thesis by (intro submission_change.same pool_event_rest)
next
  case (ledger name)
  then show ?thesis by (intro submission_change.same ledger_event_rest)
qed (auto simp: submission_change.same dest!: quorum_event_rest registry_event_rest vault_event_rest)

lemma funding_fields_simps [simp]:
  "funding_fields (st\<lparr>pendingObjectiveProofByTx := p\<rparr>) = funding_fields st"
  "funding_fields (st\<lparr>registry := r\<rparr>) = funding_fields st"
  "funding_fields (st\<lparr>rolloverVault := v\<rparr>) = funding_fields st"
  "funding_fields (st\<lparr>eventCounts := c\<rparr>) = funding_fields st"
  by (simp_all add: funding_fields_def)

lemma dispatch_funding:
  assumes "dispatch_event hx st ev = Inr st'"
  shows "funding_fields st' = funding_fields st \<or>
    (\<exists>name. kind ev = Submissions name \<and> replaySubmissionEvent hx name st ev = Inr st')"
  using assms
proof (cases rule: dispatch_cases)
  case (challenges name)
  then show ?thesis using challenge_event_rest by (auto simp: challenge_rest_def)
qed (auto dest: pool_event_rest ledger_event_rest quorum_event_rest registry_event_rest vault_event_rest)

lemma bonds_move_same:
  "submissions st' = submissions st \<Longrightarrow>
   submissionClaimableBondWei st' = submissionClaimableBondWei st \<Longrightarrow> bonds_move st st' 0"
  by (simp add: bonds_move_def bond_books_def submission_bonds_def)

lemma dispatch_bonds:
  assumes "dispatch_event hx st ev = Inr st'"
  shows "bonds_move st st' (submission_bond_flow ev)"
  using assms
proof (cases rule: dispatch_cases)
  case (submissions name)
  then show ?thesis using submission_event_bonds by blast
next
  case (challenges name)
  then show ?thesis using challenge_event_bonds by (simp add: submission_bond_flow_def)
qed (auto simp: submission_bond_flow_def intro!: bonds_move_same
      dest: pool_event_rest ledger_event_rest quorum_event_rest registry_event_rest vault_event_rest)

end
