(* ===== verification/Replay_Machines.thy ===== *)
theory Replay_Machines
  imports Replay_Lift
begin

text \<open>
  Interpretations of the machine locales on the replay step: each invariant or relation of a
  reducer holds along every run of the replay.
\<close>

lemma replayStep_Inr:
  "replayStep hx st ev = Inr st' \<longleftrightarrow>
     (\<exists>n. map_of (eventCounts st) (normalizeCoverageName (kind ev)) = Some n \<and>
        dispatch_event hx (st\<lparr>eventCounts :=
          AList.update (normalizeCoverageName (kind ev)) (n + 1) (eventCounts st)\<rparr>) ev = Inr st')"
  by (auto simp: replayStep_def Let_def)

lemma step_constant:
  "replayStep hx st ev = Inr st' \<Longrightarrow> config st' = config st \<and> coverage st' = coverage st"
  by (auto simp: replayStep_Inr dest!: dispatch_constant)

lemma step_change: "replayStep hx st ev = Inr st' \<Longrightarrow>
   \<exists>c. submission_change (st\<lparr>eventCounts := c\<rparr>) st'"
  by (auto simp: replayStep_Inr dest!: dispatch_change)

section \<open>Configuration and event counts\<close>

interpretation config_machine: monotone_machine "replayStep hx"
    "\<lambda>st st'. config st' = config st \<and> coverage st' = coverage st" for hx
  by unfold_locales (auto dest: step_constant)

definition counts_total :: "replay_state \<Rightarrow> int" where
  "counts_total st = wsum int (eventCounts st)"

lemma step_counts:
  assumes "book_ok (eventCounts st)" and "replayStep hx st ev = Inr st'"
  shows "book_ok (eventCounts st') \<and> counts_total st' = counts_total st + 1"
  using assms
  by (auto simp: replayStep_Inr counts_total_def wsum_update wbal_def dest!: dispatch_constant)

interpretation count_machine: accounting_machine "replayStep hx"
    "\<lambda>st. book_ok (eventCounts st)" counts_total "\<lambda>_. 1" "\<lambda>_. True" for hx
  by unfold_locales (auto dest: step_counts)

section \<open>The ledger\<close>

lemma step_ledger:
  assumes "replayStep hx st ev = Inr st'"
  shows "ledger st' = ledger st \<or>
    (\<exists>name t. kind ev = Ledger name \<and> ledger t = ledger st \<and> replayLedgerEvent name t ev = Inr st')"
  using assms by (fastforce simp: replayStep_Inr dest!: dispatch_ledger)

interpretation ledger_machine: fail_closed_machine "replayStep hx" "\<lambda>st. ledger_books (ledger st)" for hx
  by unfold_locales (metis step_ledger ledger_event_books)

lemma step_latched: "replayStep hx st ev = Inr st' \<Longrightarrow> ledger_latched st st'"
  using step_ledger[of hx st ev st'] ledger_event_latched by (fastforce simp: ledger_latched_def)

interpretation latch_machine: monotone_machine "replayStep hx" ledger_latched for hx
  by unfold_locales (auto simp: ledger_latched_def dest: step_latched[unfolded ledger_latched_def])

section \<open>The pool\<close>

lemma step_pool:
  assumes "replayStep hx st ev = Inr st'"
  shows "pool st' = pool st \<or>
    (\<exists>name t. kind ev = Pool name \<and> pool t = pool st \<and> replayPoolEvent name t ev = Inr st')"
  using assms by (fastforce simp: replayStep_Inr dest!: dispatch_pool)

definition pool_holdings :: "replay_state \<Rightarrow> int" where
  "pool_holdings st = pool_accountedBalance (pool st) + pool_paid_out (pool st)"

definition not_funding :: "event \<Rightarrow> bool" where
  "not_funding ev \<longleftrightarrow> kind ev \<noteq> Pool Funded"

lemma step_holdings:
  "not_funding ev \<Longrightarrow> replayStep hx st ev = Inr st' \<Longrightarrow> pool_holdings st' = pool_holdings st"
  using step_pool[of hx st ev st'] pool_event_conserves
  by (fastforce simp: pool_holdings_def not_funding_def)

interpretation pool_machine: accounting_machine "replayStep hx" "\<lambda>_. True" pool_holdings
    "\<lambda>_. 0" not_funding for hx
  by unfold_locales (auto dest: step_holdings)

section \<open>The submissions\<close>

lemma submission_counts_eventCounts [simp]:
  "submission_counts (st\<lparr>eventCounts := c\<rparr>) = submission_counts st"
  by (simp add: submission_counts_def)

lemma step_submission_counts:
  "submission_counts st \<Longrightarrow> replayStep hx st ev = Inr st' \<Longrightarrow> submission_counts st'"
  by (metis step_change submission_change_counts submission_counts_eventCounts)

interpretation counting_machine: fail_closed_machine "replayStep hx" submission_counts for hx
  by unfold_locales (rule step_submission_counts)

lemma step_life_cycle: "replayStep hx st ev = Inr st' \<Longrightarrow> life_cycle st st'"
  using step_change[of hx st ev st'] submission_change_life_cycle by (fastforce simp: life_cycle_def)

interpretation life_machine: monotone_machine "replayStep hx" life_cycle for hx
  by unfold_locales (auto intro: life_cycle_refl life_cycle_trans step_life_cycle)

definition frontier_ok :: "replay_config \<Rightarrow> replay_state \<Rightarrow> bool" where
  "frontier_ok cfg st \<longleftrightarrow> config st = cfg \<and>
     frontier_inv (cfg_seedScoreAtoms cfg) (cfg_minImprovementAtoms cfg) st"

lemma step_frontier:
  assumes "frontier_ok cfg st" and "replayStep hx st ev = Inr st'"
  shows "frontier_ok cfg st'"
proof -
  obtain c where "submission_change (st\<lparr>eventCounts := c\<rparr>) st'"
    using step_change[OF assms(2)] by blast
  moreover have "frontier_inv (cfg_seedScoreAtoms cfg) (cfg_minImprovementAtoms cfg) (st\<lparr>eventCounts := c\<rparr>)"
    using assms(1) by (simp add: frontier_ok_def frontier_inv_def)
  ultimately show ?thesis
    using assms(1) step_constant[OF assms(2)] submission_change_frontier
    by (fastforce simp: frontier_ok_def)
qed

interpretation frontier_machine: fail_closed_machine "replayStep hx" "frontier_ok cfg" for hx cfg
  by unfold_locales (rule step_frontier)

section \<open>Funding\<close>

lemma step_funding:
  assumes "replayStep hx st ev = Inr st'"
  shows "funding_fields st' = funding_fields st \<or>
    (\<exists>name t. kind ev = Submissions name \<and> funding_fields t = funding_fields st \<and>
       replaySubmissionEvent hx name t ev = Inr st')"
  using assms by (fastforce simp: replayStep_Inr dest!: dispatch_funding)

lemma funding_inv_fields: "funding_fields t = funding_fields st \<Longrightarrow> funding_inv t = funding_inv st"
  by (cases "pendingFundingAuthorizationVerification st") (simp_all add: funding_fields_def funding_inv_def)

lemma funding_progress_fields:
  "funding_fields t = funding_fields st \<Longrightarrow> funding_progress t st' = funding_progress st st'"
  by (simp add: funding_fields_def funding_progress_def)

lemma step_funding_inv:
  assumes "funding_inv st" and "replayStep hx st ev = Inr st'"
  shows "funding_inv st' \<and> funding_progress st st'"
proof (cases "funding_fields st' = funding_fields st")
  case True
  then show ?thesis using assms(1) by (rule funding_fields_inv)
next
  case False
  then obtain name t where t: "funding_fields t = funding_fields st"
    and r: "replaySubmissionEvent hx name t ev = Inr st'"
    using step_funding[OF assms(2)] by blast
  have "funding_inv t" using assms(1) funding_inv_fields[OF t] by simp
  from submission_event_funding[OF r this] show ?thesis
    using funding_progress_fields[OF t] by simp
qed

interpretation funding_machine: fail_closed_machine "replayStep hx" funding_inv for hx
  by unfold_locales (auto dest: step_funding_inv)

definition funding_since :: "replay_state \<Rightarrow> replay_state \<Rightarrow> bool" where
  "funding_since st st' \<longleftrightarrow> (funding_inv st \<longrightarrow> funding_inv st' \<and> funding_progress st st')"

lemma funding_progress_trans:
  "funding_progress s t \<Longrightarrow> funding_progress t u \<Longrightarrow> funding_progress s u"
  by (auto simp: funding_progress_def)

interpretation arming_machine: monotone_machine "replayStep hx" funding_since for hx
  by unfold_locales
    (auto simp: funding_since_def funding_progress_def dest: step_funding_inv[unfolded funding_progress_def])

section \<open>Bonds\<close>

lemma step_bonds: "replayStep hx st ev = Inr st' \<Longrightarrow> bonds_move st st' (submission_bond_flow ev)"
  by (auto simp: replayStep_Inr bonds_move_def bond_books_def submission_bonds_def
      dest!: dispatch_bonds)

interpretation bond_machine: accounting_machine "replayStep hx" bond_books submission_bonds
    submission_bond_flow "\<lambda>_. True" for hx
  by unfold_locales (auto simp: bonds_move_def dest: step_bonds)

section \<open>The registry\<close>

lemma step_registry:
  assumes "replayStep hx st ev = Inr st'"
  shows "registry st' = registry st \<or>
    (\<exists>name t. registry t = registry st \<and> replayRegistryEvent name t ev = Inr st')"
  using assms by (fastforce simp: replayStep_Inr dest!: dispatch_registry)

interpretation registry_machine: fail_closed_machine "replayStep hx"
    "\<lambda>st. registry_inv (registry st)" for hx
  by unfold_locales (metis step_registry registry_event_inv)

interpretation freeze_machine: fail_closed_machine "replayStep hx"
    "\<lambda>st. registry_inv (registry st) \<and> frozen_in (registry st) i" for hx i
  by unfold_locales (metis step_registry registry_event_inv registry_event_frozen)

section \<open>The initial state\<close>

lemma new_state_books: "ledger_books (ledger (newReplayState cfg names))"
  by (simp add: newReplayState_def new_ledger_state_def ledger_books_def)

lemma new_state_counts: "submission_counts (newReplayState cfg names)"
  by (simp add: newReplayState_def submission_counts_def)

lemma new_state_frontier: "frontier_ok cfg (newReplayState cfg names)"
  by (simp add: newReplayState_def frontier_ok_def frontier_inv_def)

lemma new_state_funding: "funding_inv (newReplayState cfg names)"
  by (simp add: newReplayState_def funding_inv_def)

lemma new_state_bonds: "bond_books (newReplayState cfg names)" "submission_bonds (newReplayState cfg names) = 0"
  by (simp_all add: newReplayState_def bond_books_def submission_bonds_def)

lemma new_state_registry: "registry_inv (registry (newReplayState cfg names))"
  by (simp add: newReplayState_def registry_inv_def)

lemma new_state_config: "config (newReplayState cfg names) = cfg"
    "coverage (newReplayState cfg names) = new_coverage names"
  by (simp_all add: newReplayState_def)

lemma event_catalog_distinct: "distinct event_catalog"
  by (simp add: event_catalog_def)

lemma new_state_event_counts:
  "book_ok (eventCounts (newReplayState cfg names))" "counts_total (newReplayState cfg names) = 0"
proof -
  show "book_ok (eventCounts (newReplayState cfg names))"
    using event_catalog_distinct by (simp add: newReplayState_def book_ok_def comp_def)
  have "wsum int (map (\<lambda>n. (n, 0::nat)) xs) = 0" for xs :: "protocol_event list"
    by (induction xs) auto
  then show "counts_total (newReplayState cfg names) = 0"
    by (simp add: newReplayState_def counts_total_def)
qed

lemmas new_state = new_state_books new_state_counts new_state_frontier new_state_funding
  new_state_bonds new_state_registry new_state_config new_state_event_counts

text \<open>What a replay that returns has run.\<close>

lemma replay_run:
  assumes "replayProtocolEvents hx events raw names = Inr st"
  obtains cfg where "replayConfig hx raw = Inr cfg"
    "run_events (replayStep hx) (newReplayState cfg names) (sort_key event_position events) = Inr st"
    "pendingFundingAuthorizationVerification st = None"
    "validatePairedEvents st = Inr ()" "coverage_complete (coverage st)"
  using assms by (auto simp: replayProtocolEvents_Inr)

end
