(* ===== verification/Snapshot_Counts.thy ===== *)
theory Snapshot_Counts
  imports Snapshot_Compare Replay_Machines
begin

text \<open>
  The statuses of the replayed submissions agree with the number of events that caused them: the
  invariant behind the first two status checks.
\<close>

section \<open>Events that settle nothing\<close>

definition settled_at :: "replay_state \<Rightarrow> int \<Rightarrow> submission_status option" where
  "settled_at st i = (case map_of (submissions st) i of None \<Rightarrow> None
     | Some sub \<Rightarrow> if sub_status sub \<in> {Status_Finalized, Status_Voided} then Some (sub_status sub) else None)"

definition settles_nothing :: "replay_state \<Rightarrow> replay_state \<Rightarrow> bool" where
  "settles_nothing st st' \<longleftrightarrow> settled_at st' = settled_at st"

lemma settles_same: "submissions st' = submissions st \<Longrightarrow> settles_nothing st st'"
  by (simp add: settles_nothing_def settled_at_def fun_eq_iff)

lemma settled_at_eq: "submissions st' = submissions st \<Longrightarrow> settled_at st' i = settled_at st i"
  by (simp add: settled_at_def)

lemma funding_event_submissions:
  "replay_FundingAuthorizationVerified hx st ev = Inr st' \<Longrightarrow> submissions st' = submissions st"
  "replay_FundingAuthorized hx st ev = Inr st' \<Longrightarrow> submissions st' = submissions st"
  "replay_FundingAuthorizationCancelled hx st ev = Inr st' \<Longrightarrow> submissions st' = submissions st"
  "replay_FundingArmed hx st ev = Inr st' \<Longrightarrow> submissions st' = submissions st"
  by (auto simp: replay_FundingAuthorizationVerified_def replay_FundingAuthorized_def
      replay_FundingAuthorizationCancelled_def replay_FundingArmed_def split: if_splits)

lemma submission_event_settles:
  assumes "replaySubmissionEvent hx name st ev = Inr st'" and "name \<notin> {Finalized, FinalizeVoided}"
  shows "settles_nothing st st'"
  unfolding settles_nothing_def fun_eq_iff
proof
  fix j
  show "settled_at st' j = settled_at st j"
  proof (cases "name = SubmissionChallengeResolved")
    case True
    then obtain i where "replay_SubmissionChallengeResolved st i ev = Inr st'"
      using assms by (auto simp: replaySubmissionEvent_def split: if_splits)
    then show ?thesis
      by (cases "arg_bool ev ''challengerWins'' = Inr True")
        (auto simp: replay_SubmissionChallengeResolved_def put_submission_def put_hook_def Let_def settled_at_def)
  next
    case False
    then show ?thesis using assms
      by (cases name)
        (auto simp: replaySubmissionEvent_def submission_handler_defs Let_def settled_at_def requireStatus_def
          dest: funding_event_submissions split: if_splits)
  qed
qed

lemma challenge_event_settles:
  assumes "replayChallengeEvent hx name st ev = Inr st'"
  shows "settles_nothing st st'"
  unfolding settles_nothing_def fun_eq_iff
proof
  fix j
  show "settled_at st' j = settled_at st j"
    using assms
    by (cases name)
      (auto simp: replayChallengeEvent_def challenge_handler_defs Let_def settled_at_def if_Inr split: if_splits)
qed

lemma dispatch_settles:
  assumes "dispatch_event hx st ev = Inr st'" and "kind ev \<notin> {Submissions Finalized, Submissions FinalizeVoided}"
  shows "settles_nothing st st'"
  using assms(1)
proof (cases rule: dispatch_cases)
  case (submissions name)
  then show ?thesis using assms(2) submission_event_settles by blast
next
  case (challenges name)
  then show ?thesis using challenge_event_settles by blast
next
  case (pool name)
  then show ?thesis by (intro settles_same pool_event_rest)
next
  case (ledger name)
  then show ?thesis by (intro settles_same ledger_event_rest)
qed (auto simp: settles_same dest!: quorum_event_rest registry_event_rest vault_event_rest)

section \<open>Counting\<close>

definition status_weight :: "submission_status \<Rightarrow> submission \<Rightarrow> int" where
  "status_weight s sub = (if sub_status sub = s then 1 else 0)"

lemma count_status_wsum: "count_status s st = wsum (status_weight s) (submissions st)"
proof -
  have "int (length (filter (\<lambda>(i, sub). sub_status sub = s) subs)) = wsum (status_weight s) subs" for subs :: "(int \<times> submission) list"
    by (induction subs) (auto simp: status_weight_def)
  then show ?thesis by (simp add: count_status_def)
qed

lemma count_status_update:
  assumes "book_ok (submissions st)" and "submissions st' = AList.update i sub' (submissions st)"
  shows "count_status s st' = count_status s st
    - (case map_of (submissions st) i of None \<Rightarrow> 0 | Some sub \<Rightarrow> status_weight s sub) + status_weight s sub'"
  using assms by (simp add: count_status_wsum wsum_update wbal_def)

lemma settled_counts:
  assumes "submission_change st st'" and "settles_nothing st st'" and "book_ok (submissions st)"
    and "s \<in> {Status_Finalized, Status_Voided}"
  shows "count_status s st' = count_status s st"
  using assms
proof (induction rule: submission_change.induct)
  case (same st' st)
  then show ?case by (simp add: count_status_def)
next
  case (finalize st i sub st' sub')
  then have "settled_at st' i = Some Status_Finalized" "settled_at st i = None" by (simp_all add: settled_at_def)
  then show ?case using finalize.prems by (simp add: settles_nothing_def)
next
  case (void st i sub st' sub')
  then have "settled_at st' i = Some Status_Voided" "settled_at st i = Some Status_Finalized" by (simp_all add: settled_at_def)
  then show ?case using void.prems by (simp add: settles_nothing_def)
qed (auto simp: count_status_update status_weight_def)

lemma Finalized_counts:
  assumes "replaySubmissionEvent hx Finalized st ev = Inr st'" and "book_ok (submissions st)"
  shows "count_status Status_Finalized st' = count_status Status_Finalized st + 1 \<and>
    count_status Status_Voided st' = count_status Status_Voided st"
proof -
  obtain sid where "replay_Finalized st sid ev = Inr st'"
    using assms(1) by (auto simp: replaySubmissionEvent_def split: if_splits)
  then have "\<exists>i sub sub'. map_of (submissions st) i = Some sub \<and> sub_status sub = Status_Revealed \<and>
      submissions st' = AList.update i sub' (submissions st) \<and> sub_status sub' = Status_Finalized"
    by (fastforce simp: replay_Finalized_def put_submission_def Let_def)
  then show ?thesis using assms(2) by (auto simp: count_status_update status_weight_def)
qed

lemma FinalizeVoided_counts:
  assumes "replaySubmissionEvent hx FinalizeVoided st ev = Inr st'" and "book_ok (submissions st)"
  shows "count_status Status_Finalized st' = count_status Status_Finalized st - 1 \<and>
    count_status Status_Voided st' = count_status Status_Voided st + 1"
proof -
  obtain sid where "replay_FinalizeVoided st sid ev = Inr st'"
    using assms(1) by (auto simp: replaySubmissionEvent_def split: if_splits)
  then have "\<exists>i sub sub'. map_of (submissions st) i = Some sub \<and> sub_status sub = Status_Finalized \<and>
      submissions st' = AList.update i sub' (submissions st) \<and> sub_status sub' = Status_Voided"
    by (fastforce simp: replay_FinalizeVoided_def recordFinalizeVoided_Inr put_submission_def Let_def)
  then show ?thesis using assms(2) by (auto simp: count_status_update status_weight_def)
qed

definition status_inv :: "replay_state \<Rightarrow> bool" where
  "status_inv st \<longleftrightarrow> submission_counts st \<and>
     count_status Status_Finalized st =
       event_count st (Submissions Finalized) - event_count st (Submissions FinalizeVoided) \<and>
     count_status Status_Voided st = event_count st (Submissions FinalizeVoided)"

lemma step_event_count:
  assumes "replayStep hx st ev = Inr st'"
  shows "event_count st' k = event_count st k + (if normalizeCoverageName (kind ev) = k then 1 else 0)"
  using assms by (auto simp: replayStep_Inr event_count_def dest!: dispatch_constant)

lemma normalize_settling:
  "normalizeCoverageName k = Submissions Finalized \<longleftrightarrow> k = Submissions Finalized"
  "normalizeCoverageName k = Submissions FinalizeVoided \<longleftrightarrow> k = Submissions FinalizeVoided"
  by (cases k rule: normalizeCoverageName.cases; simp)+

lemma step_status_inv:
  assumes "status_inv st" and step: "replayStep hx st ev = Inr st'"
  shows "status_inv st'"
proof -
  obtain c where d: "dispatch_event hx (st\<lparr>eventCounts := c\<rparr>) ev = Inr st'"
    using step by (auto simp: replayStep_Inr)
  let ?t = "st\<lparr>eventCounts := c\<rparr>"
  have ok: "book_ok (submissions ?t)" and counts: "submission_counts st'"
    using assms(1) step_submission_counts[OF _ step] by (simp_all add: status_inv_def submission_counts_def)
  have same: "count_status s ?t = count_status s st" for s by (simp add: count_status_def)
  consider "kind ev = Submissions Finalized" | "kind ev = Submissions FinalizeVoided"
    | "kind ev \<notin> {Submissions Finalized, Submissions FinalizeVoided}" by blast
  then show ?thesis
  proof cases
    case 1
    then show ?thesis using d Finalized_counts[OF _ ok, of hx ev st'] assms(1) counts
      by (simp add: status_inv_def step_event_count[OF step] dispatch_event_def same)
  next
    case 2
    then show ?thesis using d FinalizeVoided_counts[OF _ ok, of hx ev st'] assms(1) counts
      by (simp add: status_inv_def step_event_count[OF step] dispatch_event_def same)
  next
    case 3
    note kept = settled_counts[OF dispatch_change[OF d] dispatch_settles[OF d 3] ok]
    have "count_status Status_Finalized st' = count_status Status_Finalized st"
      "count_status Status_Voided st' = count_status Status_Voided st"
      using kept[of Status_Finalized] kept[of Status_Voided] by (simp_all add: same)
    then show ?thesis using assms(1) counts 3
      by (simp add: status_inv_def step_event_count[OF step] normalize_settling)
  qed
qed

interpretation status_machine: fail_closed_machine "replayStep hx" status_inv for hx
  by unfold_locales (rule step_status_inv)

lemma new_state_status: "status_inv (newReplayState cfg names)"
proof -
  have "event_count (newReplayState cfg names) (Submissions n) = 0" for n
    by (auto simp: event_count_def newReplayState_def map_of_map_restrict restrict_map_def split: option.splits dest!: map_of_SomeD)
  then show ?thesis using new_state_counts
    by (simp add: status_inv_def count_status_def newReplayState_def)
qed

end
