(* ===== verification/Snapshot_Mirror.thy ===== *)
theory Snapshot_Mirror
  imports Snapshot_Equality Snapshot_Counts
begin

text \<open>
  The chain that is in the replayed state: its getters return what the replay computed. The collected
  snapshot of this chain is compared with the replay, to see which checks can fail without a divergence.
\<close>

definition is_text :: "jsval \<Rightarrow> bool" where
  "is_text v \<longleftrightarrow> v = JStr (js_string v)"

definition mirror_submissions :: "replay_config \<Rightarrow> replay_state \<Rightarrow> submissions_reads" where
  "mirror_submissions cfg st =
     \<lparr>sr_openSubmissionCount = openSubmissionCount st, sr_bestScoreAtoms = bestScoreAtoms st,
      sr_fundingArmed = fundingArmed st, sr_armedAt = armedAt st,
      sr_fundingAuthorizationDigest = fundingAuthorizationDigest st,
      sr_authorizedFundingDigest = authorizedFundingDigest st,
      sr_fundingAuthorizationExpiresAt = fundingAuthorizationExpiresAt st,
      sr_fundingAuthorizationNonce = fundingAuthorizationNonce st,
      sr_boardSetDigest = (case cfg_boardSetDigest cfg of None \<Rightarrow> zero_hash | Some d \<Rightarrow> d),
      sr_releaseBindingDigest = (case cfg_releaseBindingDigest cfg of None \<Rightarrow> zero_hash | Some d \<Rightarrow> d),
      sr_objectiveVerifier = js_string (cfg_objectiveVerifier cfg),
      sr_objectiveVerifierCodehash = js_string (cfg_objectiveVerifierCodehash cfg),
      sr_productionLaunchAuthority = js_string (cfg_productionLaunchAuthority cfg),
      sr_independentSecurityAuthority = js_string (cfg_independentSecurityAuthority cfg),
      sr_governanceAuthority = js_string (cfg_governanceAuthority cfg),
      sr_pausedNewActions = pausedNewActions st, sr_pausedAll = pausedAll st, sr_expiryGraceUntil = expiryGraceUntil st,
      sr_challengeManager = js_string (challengeManager st), sr_creditRecoveryEndsAt = creditRecoveryEndsAt st\<rparr>"

definition mirror_pool :: "pool_state \<Rightarrow> pool_reads" where
  "mirror_pool p =
     \<lparr>pr_ledger = js_string (pool_ledger p), pr_submissionManager = js_string (pool_submissionManager p),
      pr_registry = js_string (pool_registry p), pr_problemId = pool_problemId p,
      pr_totalFunded = pool_totalFunded p, pr_totalClaimed = pool_totalClaimed p,
      pr_totalWinningsDonated = pool_totalWinningsDonated p, pr_totalGrossClaimed = pool_totalGrossClaimed p,
      pr_totalFeeAccrued = pool_totalFeeAccrued p, pr_totalFeePaid = pool_totalFeePaid p,
      pr_accruedFeeBalance = pool_accruedFeeBalance p, pr_totalSponsorRefunded = pool_totalSponsorRefunded p,
      pr_totalRolloverPaid = pool_totalRolloverPaid p, pr_totalForcedEthRecovered = pool_totalForcedEthRecovered p,
      pr_totalResidualPaid = pool_totalResidualPaid p, pr_accountedBalance = pool_accountedBalance p,
      pr_everFunded = pool_everFunded p, pr_firstFundedAt = pool_firstFundedAt p,
      pr_acceptingFunds = pool_acceptingFunds p, pr_balance = pool_accountedBalance p\<rparr>"

definition mirror_ledger :: "ledger_state \<Rightarrow> ledger_reads" where
  "mirror_ledger l =
     \<lparr>lr_pausedNewActions = ledger_pausedNewActions l, lr_creditRecorder = js_string (ledger_creditRecorder l),
      lr_totalCreditAtoms = ledger_totalCreditAtoms l, lr_totalGrossClaimed = ledger_totalGrossClaimed l,
      lr_totalFeeAccrued = ledger_totalFeeAccrued l, lr_closed = ledger_closed l,
      lr_closedPoolBalance = ledger_closedPoolBalance l, lr_feeReserve = ledger_feeReserve l,
      lr_closedAt = ledger_closedAt l, lr_claimDeadline = ledger_claimDeadline l,
      lr_feeSwept = ledger_feeSwept l, lr_residualSwept = ledger_residualSwept l\<rparr>"

definition problem_of :: "registry_problem \<Rightarrow> problem_view" where
  "problem_of p = \<lparr>pv_specHash = rp_specHash p, pv_verifierImageHash = rp_verifierImageHash p,
     pv_pool = rp_pool p, pv_metadataURI = rp_metadataURI p, pv_frozen = rp_frozen p\<rparr>"

definition mirror :: "replay_config \<Rightarrow> replay_state \<Rightarrow> chain_view" where
  "mirror cfg st =
     \<lparr>cv_submissionCount = submissionCount st, cv_submissions = mirror_submissions cfg st,
      cv_pool = mirror_pool (pool st), cv_ledger = mirror_ledger (ledger st),
      cv_vault = \<lparr>vr_registry = zero_address, vr_allocator = zero_address,
        vr_totalAllocated = vault_totalAllocated (rolloverVault st),
        vr_balance = vault_totalReceived (rolloverVault st) - vault_totalFuturePoolFunded (rolloverVault st)\<rparr>,
      cv_challengePausedNewActions = challengePausedNewActions st,
      cv_problemCount = registry_problemCount (registry st),
      cv_submission = (\<lambda>i. expectedSubmissionForComparison (the (map_of (submissions st) i))),
      cv_finalizeInfo = (\<lambda>i. sub_finalizeInfo (the (map_of (submissions st) i))),
      cv_creditAtomsOf = bal (ledger_creditAtomsOf (ledger st)),
      cv_claimedWeiOf = bal (ledger_claimedWeiOf (ledger st)),
      cv_sponsorshipOf = bal (pool_sponsorshipOf (pool st)),
      cv_allocationOf = bal (vault_allocationOf (rolloverVault st)),
      cv_allocationCodehashOf = (\<lambda>k. js_string (the (map_of (vault_allocationCodehashOf (rolloverVault st)) k))),
      cv_submissionBondOf = bal (submissionClaimableBondWei st),
      cv_challengeBondOf = bal (challengeClaimableBondWei st),
      cv_challenge = (\<lambda>i. case map_of (challenges st) i of None \<Rightarrow> no_challenge | Some c \<Rightarrow> c),
      cv_challengeInstance = (\<lambda>i. the (map_of (challengeInstances st) i)),
      cv_resolverBond = (\<lambda>i. case map_of (resolverBonds st) i of None \<Rightarrow> no_bond | Some b \<Rightarrow> b),
      cv_problem = (\<lambda>i. problem_of (the (map_of (registry_problems (registry st)) i)))\<rparr>"

text \<open>
  What the collection relies on of the replayed state: addresses were read as text, the vault's two books
  have the same keys, every solver with credit has a submission and every known challenge an instance.
\<close>

definition collectable :: "replay_config \<Rightarrow> replay_state \<Rightarrow> bool" where
  "collectable cfg st \<longleftrightarrow>
     list_all is_text [pool_ledger (pool st), pool_submissionManager (pool st), pool_registry (pool st),
       ledger_creditRecorder (ledger st), challengeManager st] \<and>
     (cfg_objectiveVerifier cfg \<noteq> JUndefined \<longrightarrow> is_text (cfg_objectiveVerifierCodehash cfg)) \<and>
     book_ok (pool_sponsorshipOf (pool st)) \<and> book_ok (vault_allocationOf (rolloverVault st)) \<and>
     map fst (vault_allocationCodehashOf (rolloverVault st)) = map fst (vault_allocationOf (rolloverVault st)) \<and>
     list_all is_text (map snd (vault_allocationCodehashOf (rolloverVault st))) \<and>
     list_all (\<lambda>k. k \<in> set (solver_keys st)) (map fst (ledger_creditAtomsOf (ledger st)) @ map fst (ledger_claimedWeiOf (ledger st))) \<and>
     list_all (\<lambda>i. map_of (challengeInstances st) i \<noteq> None) (knownChallengeIds st)"

lemma check_refl [simp]: "ck_ok (check n v v)"
  by (simp add: check_def)

lemma check_text_value [simp]: "is_text v \<Longrightarrow> ck_ok (check_value n v (js_string v))"
  by (cases v) (auto simp: is_text_def check_value_def)

lemma read_own_book: "book_ok b \<Longrightarrow> read_keys (bal b) (map fst b) = b"
proof -
  assume ok: "book_ok b"
  have "map (\<lambda>k. (k, bal b k)) (map fst b) = b"
    using ok by (simp add: comp_def) (auto simp: bal_def book_ok_def intro!: map_idI)
  moreover have "first_occurrences (map fst b) = map fst b"
    using ok by (simp add: first_occurrences_def book_ok_def distinct_remdups_id)
  ultimately show ?thesis by (simp add: read_keys_def)
qed


lemma stable_object_defined:
  assumes "\<forall>(k, v) \<in> set b. comparable v = Some (f k)"
  shows "stable_object (map (\<lambda>(k, v). (k, comparable v)) b) = js_object (map (\<lambda>(k, v). (k, f k)) b)"
proof -
  have "concat (map (\<lambda>(k, v). case v of None \<Rightarrow> [] | Some x \<Rightarrow> [(k, x)]) (map (\<lambda>(k, v). (k, comparable v)) b)) =
      map (\<lambda>(k, v). (k, f k)) b"
    using assms by (induction b) auto
  then show ?thesis by (simp add: stable_object_def)
qed

lemma read_keys_distinct: "distinct (map fst b) \<Longrightarrow> read_keys f (map fst b) = map (\<lambda>(k, v). (k, f k)) b"
  by (simp add: read_keys_def first_occurrences_def distinct_remdups_id comp_def case_prod_unfold)

section \<open>The checks on the mirror\<close>

abbreviation mirrored :: "replay_config \<Rightarrow> replay_state \<Rightarrow> snapshot" where
  "mirrored cfg st \<equiv> collectOnchainSnapshot (mirror cfg st) st"

lemma mirrored_reads [simp]:
  "sn_submissionCount (mirrored cfg st) = Some (submissionCount st)"
  "sn_submissionsReads (mirrored cfg st) = mirror_submissions cfg st"
  "sn_pool (mirrored cfg st) = mirror_pool (pool st)" "sn_ledger (mirrored cfg st) = mirror_ledger (ledger st)"
  by (simp_all add: collectOnchainSnapshot_def mirror_def)

lemma mirror_binding:
  assumes "collectable cfg st"
  shows "list_all ck_ok (binding_checks cfg (mirror_submissions cfg st))"
  using assms
  by (auto simp: binding_checks_def mirror_submissions_def optional_check_def collectable_def addressKey_def split: option.split)

lemma mirror_submission_checks:
  assumes "collectable cfg st"
  shows "list_all ck_ok (submission_checks cfg st (mirrored cfg st)) \<longleftrightarrow> coverage_complete (coverage st)"
  using assms mirror_binding[OF assms]
  by (simp add: submission_checks_def Let_def collectable_def) (auto simp: mirror_submissions_def)

lemma mirror_pool_checks:
  assumes "collectable cfg st"
  shows "list_all ck_ok (pool_checks (pool st) (mirrored cfg st))"
  using assms read_own_book[of "pool_sponsorshipOf (pool st)"]
  by (simp add: pool_checks_def Let_def collectable_def)
    (simp add: mirror_pool_def collectOnchainSnapshot_def mirror_def)

lemma mirror_ledger_checks:
  assumes "collectable cfg st"
  shows "list_all ck_ok (ledger_checks (ledger st) (mirror_ledger (ledger st)))"
  using assms by (simp add: ledger_checks_def collectable_def mirror_ledger_def)

lemma mirror_vault_checks:
  assumes c: "collectable cfg st"
  shows "list_all ck_ok (vault_checks st (mirrored cfg st))"
proof -
  let ?v = "rolloverVault st"
  let ?f = "\<lambda>k. js_string (the (map_of (vault_allocationCodehashOf ?v) k))"
  have keys: "map fst (vault_allocationOf ?v) = map fst (vault_allocationCodehashOf ?v)"
    and ok: "book_ok (vault_allocationCodehashOf ?v)" "book_ok (vault_allocationOf ?v)"
    and texts: "list_all is_text (map snd (vault_allocationCodehashOf ?v))"
    using c by (auto simp: collectable_def book_ok_def)
  have "comparable w = Some (js_str (?f k))" if "(k, w) \<in> set (vault_allocationCodehashOf ?v)" for k w
  proof -
    have "map_of (vault_allocationCodehashOf ?v) k = Some w" using that ok(1) by (simp add: book_ok_def)
    moreover have "is_text w" using texts that by (force simp: list_all_iff)
    ultimately show ?thesis by (cases w) (auto simp: is_text_def)
  qed
  then have "stable_object (map (\<lambda>(k, v). (k, comparable v)) (vault_allocationCodehashOf ?v)) =
      js_object (map (\<lambda>(k, w). (k, js_str (?f k))) (vault_allocationCodehashOf ?v))"
    by (intro stable_object_defined) auto
  moreover have "map (\<lambda>(k, h). (k, js_str h)) (read_keys ?f (map fst (vault_allocationOf ?v))) =
      map (\<lambda>(k, w). (k, js_str (?f k))) (vault_allocationCodehashOf ?v)"
    unfolding keys using ok(1) by (simp add: read_keys_distinct book_ok_def case_prod_unfold)
  ultimately show ?thesis using read_own_book[OF ok(2)]
    by (simp add: vault_checks_def Let_def collectOnchainSnapshot_def mirror_def)
qed

lemma mirrored_records [simp]:
  "map_of (sn_submissions (mirrored cfg st)) i = (if i \<in> {1..submissionCount st}
     then Some (expectedSubmissionForComparison (the (map_of (submissions st) i))) else None)"
  "map_of (sn_finalizeInfo (mirrored cfg st)) i = (if i \<in> {1..submissionCount st}
     then Some (sub_finalizeInfo (the (map_of (submissions st) i))) else None)"
  "map_of (sn_problems (mirrored cfg st)) i = (if i \<in> {1..registry_problemCount (registry st)}
     then Some (problem_of (the (map_of (registry_problems (registry st)) i))) else None)"
  by (simp_all add: collectOnchainSnapshot_def mirror_def)

lemma mirror_records:
  assumes "collectable cfg st" and "submission_counts st" and "registry_inv (registry st)"
  shows "list_all ck_ok (concat (map (submission_entry_checks (mirrored cfg st)) (js_entries (submissions st))))"
    "list_all ck_ok (map (problem_check (mirrored cfg st)) (js_entries (registry_problems (registry st))))"
    "list_all ck_ok (concat (map (solver_checks st (mirrored cfg st)) (solver_addresses st)))"
    "list_all ck_ok (bond_checks n1 (submissionClaimableBondWei st) (sn_submissionClaimableBondWei (mirrored cfg st)))"
    "list_all ck_ok (bond_checks n2 (challengeClaimableBondWei st) (sn_challengeClaimableBondWei (mirrored cfg st)))"
    "list_all ck_ok (concat (map (challenge_checks st (mirrored cfg st)) (sort (knownChallengeIds st))))"
proof -
  have entries: "set (js_entries xs) = set xs" for xs :: "(int \<times> 'v) list" by (auto simp: js_entries_def)
  have "list_all ck_ok (submission_entry_checks (mirrored cfg st) (i, sub))" if "(i, sub) \<in> set (submissions st)" for i sub
  proof -
    have "map_of (submissions st) i = Some sub" using assms(2) that by (simp add: submission_counts_def book_ok_def)
    moreover from this have "i \<in> {1..submissionCount st}" using assms(2) by (metis submission_counts_def domI)
    ultimately show ?thesis by (simp add: submission_entry_checks_def)
  qed
  then show "list_all ck_ok (concat (map (submission_entry_checks (mirrored cfg st)) (js_entries (submissions st))))"
    by (simp add: list_all_iff entries split_paired_all del: split_paired_All)
  have "ck_ok (problem_check (mirrored cfg st) (i, p))" if "(i, p) \<in> set (registry_problems (registry st))" for i p
  proof -
    have "map_of (registry_problems (registry st)) i = Some p" using assms(3) that by (simp add: registry_inv_def book_ok_def)
    moreover from this have "i \<in> {1..registry_problemCount (registry st)}" using assms(3) by (metis registry_inv_def domI)
    ultimately show ?thesis by (simp add: problem_check_def problem_of_def)
  qed
  then show "list_all ck_ok (map (problem_check (mirrored cfg st)) (js_entries (registry_problems (registry st))))"
    by (auto simp: list_all_iff entries)
  have "set (solver_addresses st) = set (solver_keys st)"
    using assms(1) by (auto simp: solver_addresses_def collectable_def list_all_iff)
  then show "list_all ck_ok (concat (map (solver_checks st (mirrored cfg st)) (solver_addresses st)))"
    by (auto simp: list_all_iff solver_checks_def collectOnchainSnapshot_def mirror_def)
  show "list_all ck_ok (bond_checks n1 (submissionClaimableBondWei st) (sn_submissionClaimableBondWei (mirrored cfg st)))"
    "list_all ck_ok (bond_checks n2 (challengeClaimableBondWei st) (sn_challengeClaimableBondWei (mirrored cfg st)))"
    by (auto simp: list_all_iff bond_checks_def collectOnchainSnapshot_def mirror_def)
  have "map_of (challengeInstances st) i = Some (the (map_of (challengeInstances st) i))" if "i \<in> set (knownChallengeIds st)" for i
    using assms(1) that by (auto simp: collectable_def list_all_iff)
  then show "list_all ck_ok (concat (map (challenge_checks st (mirrored cfg st)) (sort (knownChallengeIds st))))"
    by (auto simp: list_all_iff challenge_checks_def collectOnchainSnapshot_def mirror_def)
qed

end
