(* ===== verification/Slot_Machines.thy ===== *)
theory Slot_Machines
  imports P42_Prelude
begin

text \<open>
  Records the replay keeps per transaction. Some events report a value, which the step stores in a
  slot of the record of their transaction, overwriting what was there; all other events leave the
  slot alone (\<open>slot_machine\<close>). A \<open>write_once_machine\<close> also refuses a second report.
\<close>

locale slot_machine =
  fixes step :: "'s \<Rightarrow> 'ev \<Rightarrow> 'e + 's"
    and key :: "'ev \<Rightarrow> 'k"
    and slot :: "'s \<Rightarrow> 'k \<Rightarrow> 'x option"
    and report :: "'ev \<Rightarrow> 'x option"
  assumes step_slot: "step s e = Inr s' \<Longrightarrow>
    slot s' k = (if key e = k \<and> report e \<noteq> None then report e else slot s k)"
begin

lemma run_slot_from:
  "run_events step s es = Inr s' \<Longrightarrow> slot s' k = Some x \<Longrightarrow>
   slot s k = Some x \<or> (\<exists>e \<in> set es. key e = k \<and> report e = Some x)"
proof (induction es arbitrary: s)
  case (Cons e es)
  then obtain t where t: "step s e = Inr t" and r: "run_events step t es = Inr s'" by auto
  from Cons.IH[OF r Cons.prems(2)] show ?case
    using step_slot[OF t, of k] by (auto split: if_splits)
qed simp

lemma run_slot_kept:
  "run_events step s es = Inr s' \<Longrightarrow> slot s k \<noteq> None \<Longrightarrow> slot s' k \<noteq> None"
proof (induction es arbitrary: s)
  case (Cons e es)
  then obtain t where t: "step s e = Inr t" and r: "run_events step t es = Inr s'" by auto
  have "slot t k \<noteq> None" using step_slot[OF t, of k] Cons.prems(2) by simp
  with r show ?case by (rule Cons.IH)
qed simp

lemma run_slot_filled:
  "run_events step s es = Inr s' \<Longrightarrow> e \<in> set es \<Longrightarrow> report e \<noteq> None \<Longrightarrow> slot s' (key e) \<noteq> None"
proof (induction es arbitrary: s)
  case (Cons d es)
  then obtain t where t: "step s d = Inr t" and r: "run_events step t es = Inr s'" by auto
  show ?case
  proof (cases "e \<in> set es")
    case True
    then show ?thesis using Cons.IH[OF r] Cons.prems(3) by blast
  next
    case False
    then have "d = e" using Cons.prems(2) by simp
    then have "slot t (key e) \<noteq> None" using step_slot[OF t, of "key e"] Cons.prems(3) by simp
    with r show ?thesis by (rule run_slot_kept)
  qed
qed simp

lemma run_slot_unique:
  assumes "run_events step s es = Inr s'" and "slot s (key e) = None"
    and "e \<in> set es" and "report e = Some x"
    and "\<And>d. d \<in> set es \<Longrightarrow> key d = key e \<Longrightarrow> report d \<noteq> None \<Longrightarrow> report d = Some x"
  shows "slot s' (key e) = Some x"
proof -
  obtain y where y: "slot s' (key e) = Some y"
    using run_slot_filled[OF assms(1,3)] assms(4) by auto
  from run_slot_from[OF assms(1) this] obtain d where "d \<in> set es" "key d = key e" "report d = Some y"
    using assms(2) by auto
  with assms(5)[of d] y show ?thesis by simp
qed

end

locale write_once_machine = slot_machine step key slot report
  for step :: "'s \<Rightarrow> 'ev \<Rightarrow> 'e + 's" and key :: "'ev \<Rightarrow> 'k"
    and slot :: "'s \<Rightarrow> 'k \<Rightarrow> 'x option" and report :: "'ev \<Rightarrow> 'x option" +
  assumes once: "step s e = Inr s' \<Longrightarrow> report e \<noteq> None \<Longrightarrow> slot s (key e) = None"
begin

lemma run_once_stays:
  "run_events step s es = Inr s' \<Longrightarrow> slot s k = Some x \<Longrightarrow> slot s' k = Some x"
proof (induction es arbitrary: s)
  case (Cons e es)
  then obtain t where t: "step s e = Inr t" and r: "run_events step t es = Inr s'" by auto
  have "\<not> (key e = k \<and> report e \<noteq> None)" using once[OF t] Cons.prems(2) by (metis option.distinct(1))
  then have "slot t k = Some x" using step_slot[OF t, of k] Cons.prems(2) by simp
  with r show ?case by (rule Cons.IH)
qed simp

lemma run_once:
  "run_events step s es = Inr s' \<Longrightarrow> e \<in> set es \<Longrightarrow> report e = Some x \<Longrightarrow> slot s' (key e) = Some x"
proof (induction es arbitrary: s)
  case (Cons d es)
  then obtain t where t: "step s d = Inr t" and r: "run_events step t es = Inr s'" by auto
  show ?case
  proof (cases "e \<in> set es")
    case True
    then show ?thesis using Cons.IH[OF r] Cons.prems(3) by blast
  next
    case False
    then have "d = e" using Cons.prems(2) by simp
    then have "slot t (key e) = Some x" using step_slot[OF t, of "key e"] Cons.prems(3) by simp
    with r show ?thesis by (rule run_once_stays)
  qed
qed simp

end

end
