(* ===== verification/Replay_Pairs.thy ===== *)
theory Replay_Pairs
  imports Replay_Machines Slot_Machines
begin

text \<open>
  The records per transaction (\<open>claimConsumptionByTx\<close>, \<open>forcedRecoveryByTx\<close>,
  \<open>recoveryByTx\<close>, \<open>pendingObjectiveProofByTx\<close>) against the events that fill them: each leg is
  an instance of the slot machines, so that what \<open>validatePairedEvents\<close> checks about the records
  becomes a statement about the logs.
\<close>

fun result_option :: "'e + 'a \<Rightarrow> 'a option" where
  "result_option (Inl e) = None"
| "result_option (Inr x) = Some x"

lemma result_option_Some [simp]: "result_option m = Some x \<longleftrightarrow> m = Inr x"
  by (cases m) auto

lemma result_option_None [simp]: "result_option m = None \<longleftrightarrow> (\<exists>e. m = Inl e)"
  by (cases m) auto

definition reports :: "protocol_event \<Rightarrow> (event \<Rightarrow> 'e + 'a) \<Rightarrow> event \<Rightarrow> 'a option" where
  "reports k leg ev = (if kind ev = k then result_option (leg ev) else None)"

lemma reports_Some [simp]: "reports k leg ev = Some x \<longleftrightarrow> kind ev = k \<and> leg ev = Inr x"
  by (simp add: reports_def)

section \<open>What the events report\<close>

definition pool_claim_of :: "event \<Rightarrow> replay_error + pool_claim" where
  "pool_claim_of ev =
     and_then (arg_key ev ''solver'') (\<lambda>solver.
     and_then (arg_key ev ''recipient'') (\<lambda>recipient.
     and_then (arg_int ev ''grossAmount'') (\<lambda>grossAmount.
     and_then (arg_int ev ''solverPayment'') (\<lambda>solverPayment.
     and_then (arg_int ev ''feeAmount'') (\<lambda>feeAmount.
       Inr \<lparr>pc_solver = solver, pc_recipient = recipient, pc_grossAmount = grossAmount,
            pc_solverPayment = solverPayment, pc_feeAmount = feeAmount\<rparr>)))))"

definition ledger_claim_of :: "event \<Rightarrow> replay_error + ledger_claim" where
  "ledger_claim_of ev =
     and_then (arg_key ev ''solver'') (\<lambda>solver.
     and_then (arg_int ev ''grossAmount'') (\<lambda>grossAmount.
     and_then (arg_int ev ''feeAmount'') (\<lambda>feeAmount.
       Inr \<lparr>lc_solver = solver, lc_grossAmount = grossAmount, lc_feeAmount = feeAmount\<rparr>)))"

definition donation_claim_of :: "event \<Rightarrow> replay_error + donation_claim" where
  "donation_claim_of ev =
     and_then (arg_key ev ''solver'') (\<lambda>solver.
     and_then (arg_key ev ''destinationPool'') (\<lambda>destinationPool.
     and_then (arg_int ev ''grossAmount'') (\<lambda>grossAmount.
     and_then (arg_int ev ''donatedAmount'') (\<lambda>amount.
     and_then (arg_int ev ''feeAmount'') (\<lambda>feeAmount.
       Inr \<lparr>dc_solver = solver, dc_destinationPool = destinationPool, dc_grossAmount = grossAmount,
            dc_solverPayment = amount, dc_feeAmount = feeAmount\<rparr>)))))"

definition credit_voided_of :: "event \<Rightarrow> replay_error + credit_voided" where
  "credit_voided_of ev =
     and_then (arg_key ev ''solver'') (\<lambda>solver.
     and_then (arg_int ev ''atoms'') (\<lambda>atoms. Inr \<lparr>cv_solver = solver, cv_atoms = atoms\<rparr>))"

definition finalize_voided_of :: "event \<Rightarrow> replay_error + finalize_voided" where
  "finalize_voided_of ev =
     and_then (arg_int ev ''submissionId'') (\<lambda>i.
     and_then (arg_key ev ''solver'') (\<lambda>solver.
     and_then (arg_int ev ''creditAtoms'') (\<lambda>atoms.
     and_then (arg_int ev ''restoredBestScoreAtoms'') (\<lambda>restored.
       Inr \<lparr>fv_submissionId = i, fv_solver = solver, fv_atoms = atoms, fv_restored = restored\<rparr>))))"

section \<open>Claims\<close>

lemmas claim_defs = claim_at_def pool_claim_of_def ledger_claim_of_def donation_claim_of_def
  pool_handler_defs ledger_handler_defs Let_def arg_key_def

lemma pool_event_claim_at:
  assumes "replayPoolEvent name st ev = Inr st'" and "kind ev = Pool name"
  shows "cc_ledger (claim_at st' k) = cc_ledger (claim_at st k)"
    "cc_pool (claim_at st' k) = (if txKey ev = k \<and> reports (Pool SolverClaimSettled) pool_claim_of ev \<noteq> None
       then reports (Pool SolverClaimSettled) pool_claim_of ev else cc_pool (claim_at st k))"
    "cc_donation (claim_at st' k) =
      (if txKey ev = k \<and> reports (Pool WinningsDonated) donation_claim_of ev \<noteq> None
       then reports (Pool WinningsDonated) donation_claim_of ev else cc_donation (claim_at st k))"
    "reports (Pool WinningsDonated) donation_claim_of ev \<noteq> None \<Longrightarrow> cc_donation (claim_at st (txKey ev)) = None"
  using assms by (cases name; auto simp: replayPoolEvent_def claim_defs reports_def)+

lemma ledger_event_claim_at:
  assumes "replayLedgerEvent name st ev = Inr st'" and "kind ev = Ledger name"
  shows "cc_pool (claim_at st' k) = cc_pool (claim_at st k)"
    "cc_donation (claim_at st' k) = cc_donation (claim_at st k)"
    "cc_ledger (claim_at st' k) = (if txKey ev = k \<and> reports (Ledger ClaimConsumed) ledger_claim_of ev \<noteq> None
       then reports (Ledger ClaimConsumed) ledger_claim_of ev else cc_ledger (claim_at st k))"
  using assms by (cases name; auto simp: replayLedgerEvent_def claim_defs reports_def)+

lemma claim_at_eventCounts [simp]: "claim_at (st\<lparr>eventCounts := c\<rparr>) k = claim_at st k"
  by (simp add: claim_at_def)

lemma dispatch_claim_at:
  assumes "dispatch_event hx st ev = Inr st'"
  shows "(\<exists>name. kind ev = Pool name \<and> replayPoolEvent name st ev = Inr st') \<or>
    (\<exists>name. kind ev = Ledger name \<and> replayLedgerEvent name st ev = Inr st') \<or>
    ((\<forall>p l. kind ev \<noteq> Pool p \<and> kind ev \<noteq> Ledger l) \<and>
       claimConsumptionByTx st' = claimConsumptionByTx st)"
  using assms
proof (cases rule: dispatch_cases)
  case (submissions name)
  then show ?thesis using submission_event_rest by (auto simp: submission_rest_def)
next
  case (challenges name)
  then show ?thesis using challenge_event_rest by (auto simp: challenge_rest_def)
qed (auto dest!: quorum_event_rest registry_event_rest vault_event_rest)

lemma step_claim_at:
  assumes "replayStep hx st ev = Inr st'"
  shows "cc_pool (claim_at st' k) =
      (if txKey ev = k \<and> reports (Pool SolverClaimSettled) pool_claim_of ev \<noteq> None
       then reports (Pool SolverClaimSettled) pool_claim_of ev else cc_pool (claim_at st k))"
    "cc_ledger (claim_at st' k) =
      (if txKey ev = k \<and> reports (Ledger ClaimConsumed) ledger_claim_of ev \<noteq> None
       then reports (Ledger ClaimConsumed) ledger_claim_of ev else cc_ledger (claim_at st k))"
    "cc_donation (claim_at st' k) =
      (if txKey ev = k \<and> reports (Pool WinningsDonated) donation_claim_of ev \<noteq> None
       then reports (Pool WinningsDonated) donation_claim_of ev else cc_donation (claim_at st k))"
    "reports (Pool WinningsDonated) donation_claim_of ev \<noteq> None \<Longrightarrow> cc_donation (claim_at st (txKey ev)) = None"
proof -
  obtain c where d: "dispatch_event hx (st\<lparr>eventCounts := c\<rparr>) ev = Inr st'"
    using assms by (auto simp: replayStep_Inr)
  consider (pool) name where "kind ev = Pool name" "replayPoolEvent name (st\<lparr>eventCounts := c\<rparr>) ev = Inr st'"
    | (ledger) name where "kind ev = Ledger name" "replayLedgerEvent name (st\<lparr>eventCounts := c\<rparr>) ev = Inr st'"
    | (other) "\<forall>p l. kind ev \<noteq> Pool p \<and> kind ev \<noteq> Ledger l"
        "claim_at st' = claim_at st"
    using dispatch_claim_at[OF d] by (auto simp: claim_at_def fun_eq_iff)
  note split = this
  show "cc_pool (claim_at st' k) =
      (if txKey ev = k \<and> reports (Pool SolverClaimSettled) pool_claim_of ev \<noteq> None
       then reports (Pool SolverClaimSettled) pool_claim_of ev else cc_pool (claim_at st k))"
    by (cases rule: split)
      (auto simp: pool_event_claim_at(2)[of _ "st\<lparr>eventCounts := c\<rparr>"]
        ledger_event_claim_at(1)[of _ "st\<lparr>eventCounts := c\<rparr>"] reports_def)
  show "cc_ledger (claim_at st' k) =
      (if txKey ev = k \<and> reports (Ledger ClaimConsumed) ledger_claim_of ev \<noteq> None
       then reports (Ledger ClaimConsumed) ledger_claim_of ev else cc_ledger (claim_at st k))"
    by (cases rule: split)
      (auto simp: pool_event_claim_at(1)[of _ "st\<lparr>eventCounts := c\<rparr>"]
        ledger_event_claim_at(3)[of _ "st\<lparr>eventCounts := c\<rparr>"] reports_def)
  show "cc_donation (claim_at st' k) =
      (if txKey ev = k \<and> reports (Pool WinningsDonated) donation_claim_of ev \<noteq> None
       then reports (Pool WinningsDonated) donation_claim_of ev else cc_donation (claim_at st k))"
    by (cases rule: split)
      (auto simp: pool_event_claim_at(3)[of _ "st\<lparr>eventCounts := c\<rparr>"]
        ledger_event_claim_at(2)[of _ "st\<lparr>eventCounts := c\<rparr>"] reports_def)
  assume r: "reports (Pool WinningsDonated) donation_claim_of ev \<noteq> None"
  show "cc_donation (claim_at st (txKey ev)) = None"
  proof (cases rule: split)
    case (pool name)
    from pool_event_claim_at(4)[OF pool(2,1) r] show ?thesis by simp
  qed (use r in \<open>simp_all add: reports_def\<close>)
qed

interpretation settle_slot: slot_machine "replayStep hx" txKey "\<lambda>st k. cc_pool (claim_at st k)"
    "reports (Pool SolverClaimSettled) pool_claim_of" for hx
  by unfold_locales (rule step_claim_at)

interpretation consume_slot: slot_machine "replayStep hx" txKey "\<lambda>st k. cc_ledger (claim_at st k)"
    "reports (Ledger ClaimConsumed) ledger_claim_of" for hx
  by unfold_locales (rule step_claim_at)

interpretation donate_slot: write_once_machine "replayStep hx" txKey "\<lambda>st k. cc_donation (claim_at st k)"
    "reports (Pool WinningsDonated) donation_claim_of" for hx
  by unfold_locales (rule step_claim_at; assumption)+

section \<open>Forced ETH\<close>

lemma pool_event_forced_at:
  assumes "replayPoolEvent name st ev = Inr st'" and "kind ev = Pool name"
  shows "fr_recovered (forced_at st' k) =
      (if txKey ev = k \<and> reports (Pool ForcedEthRecovered) (\<lambda>e. forced_leg_of e ''to'') ev \<noteq> None
       then reports (Pool ForcedEthRecovered) (\<lambda>e. forced_leg_of e ''to'') ev else fr_recovered (forced_at st k))"
    "fr_swept (forced_at st' k) =
      (if txKey ev = k \<and> reports (Pool ForcedEthSwept) (\<lambda>e. forced_leg_of e ''destination'') ev \<noteq> None
       then reports (Pool ForcedEthSwept) (\<lambda>e. forced_leg_of e ''destination'') ev
       else fr_swept (forced_at st k))"
  using assms by (cases name; auto simp: replayPoolEvent_def forced_at_def reports_def pool_handler_defs Let_def)+

lemma forced_at_eventCounts [simp]: "forced_at (st\<lparr>eventCounts := c\<rparr>) k = forced_at st k"
  by (simp add: forced_at_def)

lemma dispatch_forced_at:
  assumes "dispatch_event hx st ev = Inr st'"
  shows "(\<exists>name. kind ev = Pool name \<and> replayPoolEvent name st ev = Inr st') \<or>
    ((\<forall>name. kind ev \<noteq> Pool name) \<and> forcedRecoveryByTx st' = forcedRecoveryByTx st)"
  using assms
proof (cases rule: dispatch_cases)
  case (submissions name)
  then show ?thesis using submission_event_rest by (auto simp: submission_rest_def)
next
  case (challenges name)
  then show ?thesis using challenge_event_rest by (auto simp: challenge_rest_def)
qed (auto dest: ledger_event_rest dest!: quorum_event_rest registry_event_rest vault_event_rest)

lemma step_forced_at:
  assumes "replayStep hx st ev = Inr st'"
  shows "fr_recovered (forced_at st' k) =
      (if txKey ev = k \<and> reports (Pool ForcedEthRecovered) (\<lambda>e. forced_leg_of e ''to'') ev \<noteq> None
       then reports (Pool ForcedEthRecovered) (\<lambda>e. forced_leg_of e ''to'') ev else fr_recovered (forced_at st k))"
    "fr_swept (forced_at st' k) =
      (if txKey ev = k \<and> reports (Pool ForcedEthSwept) (\<lambda>e. forced_leg_of e ''destination'') ev \<noteq> None
       then reports (Pool ForcedEthSwept) (\<lambda>e. forced_leg_of e ''destination'') ev
       else fr_swept (forced_at st k))"
proof -
  obtain c where d: "dispatch_event hx (st\<lparr>eventCounts := c\<rparr>) ev = Inr st'"
    using assms by (auto simp: replayStep_Inr)
  consider (pool) name where "kind ev = Pool name" "replayPoolEvent name (st\<lparr>eventCounts := c\<rparr>) ev = Inr st'"
    | (other) "\<forall>p. kind ev \<noteq> Pool p" "forced_at st' = forced_at st"
    using dispatch_forced_at[OF d] by (auto simp: forced_at_def fun_eq_iff)
  note split = this
  show "fr_recovered (forced_at st' k) =
      (if txKey ev = k \<and> reports (Pool ForcedEthRecovered) (\<lambda>e. forced_leg_of e ''to'') ev \<noteq> None
       then reports (Pool ForcedEthRecovered) (\<lambda>e. forced_leg_of e ''to'') ev else fr_recovered (forced_at st k))"
    by (cases rule: split)
      (auto simp: pool_event_forced_at(1)[of _ "st\<lparr>eventCounts := c\<rparr>"] reports_def)
  show "fr_swept (forced_at st' k) =
      (if txKey ev = k \<and> reports (Pool ForcedEthSwept) (\<lambda>e. forced_leg_of e ''destination'') ev \<noteq> None
       then reports (Pool ForcedEthSwept) (\<lambda>e. forced_leg_of e ''destination'') ev
       else fr_swept (forced_at st k))"
    by (cases rule: split)
      (auto simp: pool_event_forced_at(2)[of _ "st\<lparr>eventCounts := c\<rparr>"] reports_def)
qed

interpretation recovered_slot: slot_machine "replayStep hx" txKey "\<lambda>st k. fr_recovered (forced_at st k)"
    "reports (Pool ForcedEthRecovered) (\<lambda>e. forced_leg_of e ''to'')" for hx
  by unfold_locales (rule step_forced_at)

interpretation swept_slot: slot_machine "replayStep hx" txKey "\<lambda>st k. fr_swept (forced_at st k)"
    "reports (Pool ForcedEthSwept) (\<lambda>e. forced_leg_of e ''destination'')" for hx
  by unfold_locales (rule step_forced_at)

section \<open>Voided finalizations\<close>

definition recovery_at :: "replay_state \<Rightarrow> string \<Rightarrow> recovery" where
  "recovery_at st k = (case map_of (recoveryByTx st) k of None \<Rightarrow> no_recovery | Some r \<Rightarrow> r)"

lemma ledger_event_recovery_at:
  assumes "replayLedgerEvent name st ev = Inr st'" and "kind ev = Ledger name"
  shows "rec_finalizeVoided (recovery_at st' k) = rec_finalizeVoided (recovery_at st k)"
    "rec_creditVoided (recovery_at st' k) =
      (if txKey ev = k \<and> reports (Ledger CreditVoided) credit_voided_of ev \<noteq> None
       then reports (Ledger CreditVoided) credit_voided_of ev else rec_creditVoided (recovery_at st k))"
    "reports (Ledger CreditVoided) credit_voided_of ev \<noteq> None \<Longrightarrow> rec_creditVoided (recovery_at st (txKey ev)) = None"
  using assms
  by (cases name; auto simp: replayLedgerEvent_def recovery_at_def reports_def credit_voided_of_def
      arg_key_def ledger_handler_defs Let_def)+

lemma recovery_SubmissionsNewActionsPaused:
  "replay_SubmissionsNewActionsPaused st ev = Inr st' \<Longrightarrow> recoveryByTx st' = recoveryByTx st"
  by (auto simp: replay_SubmissionsNewActionsPaused_def submission_state_defs)

lemma recovery_AllActionsPaused:
  "replay_AllActionsPaused st ev = Inr st' \<Longrightarrow> recoveryByTx st' = recoveryByTx st"
  by (auto simp: replay_AllActionsPaused_def submission_state_defs)

lemma recovery_ChallengeManagerSet:
  "replay_ChallengeManagerSet st ev = Inr st' \<Longrightarrow> recoveryByTx st' = recoveryByTx st"
  by (auto simp: replay_ChallengeManagerSet_def submission_state_defs)

lemma recovery_Committed:
  "replay_Committed st sid ev = Inr st' \<Longrightarrow> recoveryByTx st' = recoveryByTx st"
  by (auto simp: replay_Committed_def submission_state_defs)

lemma recovery_BondToppedUp:
  "replay_BondToppedUp st sid ev = Inr st' \<Longrightarrow> recoveryByTx st' = recoveryByTx st"
  by (auto simp: replay_BondToppedUp_def submission_state_defs)

lemma recovery_Revealed:
  "replay_Revealed hx st sid ev = Inr st' \<Longrightarrow> recoveryByTx st' = recoveryByTx st"
  by (auto simp: replay_Revealed_def submission_state_defs)

lemma recovery_SubmissionChallenged:
  "replay_SubmissionChallenged st sid ev = Inr st' \<Longrightarrow> recoveryByTx st' = recoveryByTx st"
  by (auto simp: replay_SubmissionChallenged_def submission_state_defs)

lemma recovery_SubmissionChallengeResolved:
  "replay_SubmissionChallengeResolved st sid ev = Inr st' \<Longrightarrow> recoveryByTx st' = recoveryByTx st"
  by (auto simp: replay_SubmissionChallengeResolved_def submission_state_defs)

lemma recovery_SubmissionChallengeCancelled:
  "replay_SubmissionChallengeCancelled st sid ev = Inr st' \<Longrightarrow> recoveryByTx st' = recoveryByTx st"
  by (auto simp: replay_SubmissionChallengeCancelled_def submission_state_defs)

lemma recovery_SubmissionBondClaimable:
  "replay_SubmissionBondClaimable st sid ev = Inr st' \<Longrightarrow> recoveryByTx st' = recoveryByTx st"
  by (auto simp: replay_SubmissionBondClaimable_def submission_state_defs)

lemma recovery_Finalized:
  "replay_Finalized st sid ev = Inr st' \<Longrightarrow> recoveryByTx st' = recoveryByTx st"
  by (auto simp: replay_Finalized_def submission_state_defs)

lemma recovery_CreditRecoveryWindowAdvanced:
  "replay_CreditRecoveryWindowAdvanced st sid ev = Inr st' \<Longrightarrow> recoveryByTx st' = recoveryByTx st"
  by (auto simp: replay_CreditRecoveryWindowAdvanced_def submission_state_defs)

lemma recovery_CreditRecoveryWindowRestored:
  "replay_CreditRecoveryWindowRestored st ev = Inr st' \<Longrightarrow> recoveryByTx st' = recoveryByTx st"
  by (auto simp: replay_CreditRecoveryWindowRestored_def submission_state_defs)

lemma recovery_SubmissionExpired:
  "replay_SubmissionExpired st sid ev = Inr st' \<Longrightarrow> recoveryByTx st' = recoveryByTx st"
  by (auto simp: replay_SubmissionExpired_def submission_state_defs)

lemma recovery_SubmissionBondClaimed:
  "replay_SubmissionBondClaimed st ev = Inr st' \<Longrightarrow> recoveryByTx st' = recoveryByTx st"
  by (auto simp: replay_SubmissionBondClaimed_def submission_state_defs)

lemma recovery_FundingAuthorizationVerified:
  "replay_FundingAuthorizationVerified hx st ev = Inr st' \<Longrightarrow> recoveryByTx st' = recoveryByTx st"
  by (auto simp: replay_FundingAuthorizationVerified_def submission_state_defs)

lemma recovery_FundingAuthorized:
  "replay_FundingAuthorized hx st ev = Inr st' \<Longrightarrow> recoveryByTx st' = recoveryByTx st"
  by (auto simp: replay_FundingAuthorized_def submission_state_defs)

lemma recovery_FundingAuthorizationCancelled:
  "replay_FundingAuthorizationCancelled hx st ev = Inr st' \<Longrightarrow> recoveryByTx st' = recoveryByTx st"
  by (auto simp: replay_FundingAuthorizationCancelled_def submission_state_defs)

lemma recovery_FundingArmed:
  "replay_FundingArmed hx st ev = Inr st' \<Longrightarrow> recoveryByTx st' = recoveryByTx st"
  by (auto simp: replay_FundingArmed_def submission_state_defs)

lemmas submission_recoveries =
  recovery_SubmissionsNewActionsPaused recovery_AllActionsPaused recovery_ChallengeManagerSet
  recovery_Committed recovery_BondToppedUp recovery_Revealed
  recovery_SubmissionChallenged recovery_SubmissionChallengeResolved recovery_SubmissionChallengeCancelled
  recovery_SubmissionBondClaimable recovery_Finalized recovery_CreditRecoveryWindowAdvanced
  recovery_CreditRecoveryWindowRestored recovery_SubmissionExpired recovery_SubmissionBondClaimed
  recovery_FundingAuthorizationVerified recovery_FundingAuthorized recovery_FundingAuthorizationCancelled
  recovery_FundingArmed

lemma submission_event_recovery:
  assumes "replaySubmissionEvent hx name st ev = Inr st'" and "name \<noteq> FinalizeVoided"
  shows "recoveryByTx st' = recoveryByTx st"
  using assms
  by (cases name) (auto simp: replaySubmissionEvent_def if_Inr dest!: submission_recoveries)

lemma submission_id_arg:
  "submission_id ev = Inr (Some i) \<longleftrightarrow> arg_int ev ''submissionId'' = Inr i"
  by (auto simp: submission_id_def arg_int_def getArg_def split: option.splits)

lemma finalize_voided_recovery_at:
  assumes "replaySubmissionEvent hx FinalizeVoided st ev = Inr st'"
  shows "\<exists>v. finalize_voided_of ev = Inr v \<and> rec_finalizeVoided (recovery_at st (txKey ev)) = None \<and>
    rec_finalizeVoided (recovery_at st' k) =
      (if txKey ev = k then Some v else rec_finalizeVoided (recovery_at st k)) \<and>
    rec_creditVoided (recovery_at st' k) = rec_creditVoided (recovery_at st k)"
  using assms
  by (auto simp: replaySubmissionEvent_def if_Inr replay_FinalizeVoided_def put_submission_def
      recordFinalizeVoided_Inr Let_def recovery_at_def finalize_voided_of_def submission_id_arg)

lemma recovery_at_eventCounts [simp]: "recovery_at (st\<lparr>eventCounts := c\<rparr>) k = recovery_at st k"
  by (simp add: recovery_at_def)

lemma dispatch_recovery_at:
  assumes "dispatch_event hx st ev = Inr st'"
  shows "(\<exists>name. kind ev = Ledger name \<and> replayLedgerEvent name st ev = Inr st') \<or>
    (kind ev = Submissions FinalizeVoided \<and> replaySubmissionEvent hx FinalizeVoided st ev = Inr st') \<or>
    ((\<forall>l. kind ev \<noteq> Ledger l) \<and> kind ev \<noteq> Submissions FinalizeVoided \<and>
       recoveryByTx st' = recoveryByTx st)"
  using assms
proof (cases rule: dispatch_cases)
  case (submissions name)
  then show ?thesis using submission_event_recovery by (cases "name = FinalizeVoided") auto
next
  case (challenges name)
  then show ?thesis using challenge_event_rest by (auto simp: challenge_rest_def)
qed (auto dest: pool_event_rest dest!: quorum_event_rest registry_event_rest vault_event_rest)

lemma step_recovery_at:
  assumes "replayStep hx st ev = Inr st'"
  shows "rec_finalizeVoided (recovery_at st' k) =
      (if txKey ev = k \<and> reports (Submissions FinalizeVoided) finalize_voided_of ev \<noteq> None
       then reports (Submissions FinalizeVoided) finalize_voided_of ev
       else rec_finalizeVoided (recovery_at st k))"
    "rec_creditVoided (recovery_at st' k) =
      (if txKey ev = k \<and> reports (Ledger CreditVoided) credit_voided_of ev \<noteq> None
       then reports (Ledger CreditVoided) credit_voided_of ev else rec_creditVoided (recovery_at st k))"
    "reports (Submissions FinalizeVoided) finalize_voided_of ev \<noteq> None \<Longrightarrow>
       rec_finalizeVoided (recovery_at st (txKey ev)) = None"
    "reports (Ledger CreditVoided) credit_voided_of ev \<noteq> None \<Longrightarrow>
       rec_creditVoided (recovery_at st (txKey ev)) = None"
proof -
  obtain c where d: "dispatch_event hx (st\<lparr>eventCounts := c\<rparr>) ev = Inr st'"
    using assms by (auto simp: replayStep_Inr)
  consider (ledger) name where "kind ev = Ledger name" "replayLedgerEvent name (st\<lparr>eventCounts := c\<rparr>) ev = Inr st'"
    | (voided) "kind ev = Submissions FinalizeVoided"
        "replaySubmissionEvent hx FinalizeVoided (st\<lparr>eventCounts := c\<rparr>) ev = Inr st'"
    | (other) "\<forall>l. kind ev \<noteq> Ledger l" "kind ev \<noteq> Submissions FinalizeVoided"
        "recovery_at st' = recovery_at st"
    using dispatch_recovery_at[OF d] by (auto simp: recovery_at_def fun_eq_iff)
  note split = this
  show "rec_finalizeVoided (recovery_at st' k) =
      (if txKey ev = k \<and> reports (Submissions FinalizeVoided) finalize_voided_of ev \<noteq> None
       then reports (Submissions FinalizeVoided) finalize_voided_of ev
       else rec_finalizeVoided (recovery_at st k))"
  proof (cases rule: split)
    case voided
    then show ?thesis using finalize_voided_recovery_at[OF voided(2), of k] by (auto simp: reports_def)
  qed (auto simp: ledger_event_recovery_at(1)[of _ "st\<lparr>eventCounts := c\<rparr>"] reports_def)
  show "rec_creditVoided (recovery_at st' k) =
      (if txKey ev = k \<and> reports (Ledger CreditVoided) credit_voided_of ev \<noteq> None
       then reports (Ledger CreditVoided) credit_voided_of ev else rec_creditVoided (recovery_at st k))"
  proof (cases rule: split)
    case voided
    then show ?thesis using finalize_voided_recovery_at[OF voided(2), of k] by (auto simp: reports_def)
  qed (auto simp: ledger_event_recovery_at(2)[of _ "st\<lparr>eventCounts := c\<rparr>"] reports_def)
next
  assume r: "reports (Submissions FinalizeVoided) finalize_voided_of ev \<noteq> None"
  then have k: "kind ev = Submissions FinalizeVoided" by (auto simp: reports_def split: if_splits)
  obtain c where "dispatch_event hx (st\<lparr>eventCounts := c\<rparr>) ev = Inr st'"
    using assms by (auto simp: replayStep_Inr)
  then have "replaySubmissionEvent hx FinalizeVoided (st\<lparr>eventCounts := c\<rparr>) ev = Inr st'"
    using k by (simp add: dispatch_event_def)
  from finalize_voided_recovery_at[OF this, of "txKey ev"] show "rec_finalizeVoided (recovery_at st (txKey ev)) = None"
    by auto
next
  assume r: "reports (Ledger CreditVoided) credit_voided_of ev \<noteq> None"
  then have k: "kind ev = Ledger CreditVoided" by (auto simp: reports_def split: if_splits)
  obtain c where "dispatch_event hx (st\<lparr>eventCounts := c\<rparr>) ev = Inr st'"
    using assms by (auto simp: replayStep_Inr)
  then have "replayLedgerEvent CreditVoided (st\<lparr>eventCounts := c\<rparr>) ev = Inr st'"
    using k by (simp add: dispatch_event_def)
  from ledger_event_recovery_at(3)[OF this k r] show "rec_creditVoided (recovery_at st (txKey ev)) = None"
    by simp
qed

interpretation finalize_void_slot: write_once_machine "replayStep hx" txKey
    "\<lambda>st k. rec_finalizeVoided (recovery_at st k)"
    "reports (Submissions FinalizeVoided) finalize_voided_of" for hx
  by unfold_locales (rule step_recovery_at; assumption)+

interpretation credit_void_slot: write_once_machine "replayStep hx" txKey
    "\<lambda>st k. rec_creditVoided (recovery_at st k)"
    "reports (Ledger CreditVoided) credit_voided_of" for hx
  by unfold_locales (rule step_recovery_at; assumption)+

section \<open>Objective fraud proofs\<close>

lemma proofs_ChallengesNewActionsPaused:
  "replay_ChallengesNewActionsPaused st ev = Inr st' \<Longrightarrow> pendingObjectiveProofByTx st' = pendingObjectiveProofByTx st"
  by (auto simp: replay_ChallengesNewActionsPaused_def challenge_state_defs clear_reveal_def put_submission_def Let_def if_Inr)

lemma proofs_Challenged:
  "replay_Challenged hx st sid ev = Inr st' \<Longrightarrow> pendingObjectiveProofByTx st' = pendingObjectiveProofByTx st"
  by (auto simp: replay_Challenged_def challenge_state_defs clear_reveal_def put_submission_def Let_def if_Inr)

lemma proofs_ResolverTranscriptPosted:
  "replay_ResolverTranscriptPosted hx st sid ev = Inr st' \<Longrightarrow> pendingObjectiveProofByTx st' = pendingObjectiveProofByTx st"
  by (auto simp: replay_ResolverTranscriptPosted_def challenge_state_defs clear_reveal_def put_submission_def Let_def if_Inr)

lemma proofs_ChallengeExpired:
  "replay_ChallengeExpired hx st sid ev = Inr st' \<Longrightarrow> pendingObjectiveProofByTx st' = pendingObjectiveProofByTx st"
  by (auto simp: replay_ChallengeExpired_def challenge_state_defs clear_reveal_def put_submission_def Let_def if_Inr)

lemma proofs_Resolved:
  "replay_Resolved hx st sid ev = Inr st' \<Longrightarrow> pendingObjectiveProofByTx st' = pendingObjectiveProofByTx st"
  by (auto simp: replay_Resolved_def challenge_state_defs clear_reveal_def put_submission_def Let_def if_Inr)

lemma proofs_ResolverBondReleased:
  "replay_ResolverBondReleased hx st sid ev = Inr st' \<Longrightarrow> pendingObjectiveProofByTx st' = pendingObjectiveProofByTx st"
  by (auto simp: replay_ResolverBondReleased_def challenge_state_defs clear_reveal_def put_submission_def Let_def if_Inr)

lemma proofs_ResolverDecisionCancelled:
  "replay_ResolverDecisionCancelled hx st sid ev = Inr st' \<Longrightarrow> pendingObjectiveProofByTx st' = pendingObjectiveProofByTx st"
  by (auto simp: replay_ResolverDecisionCancelled_def challenge_state_defs clear_reveal_def put_submission_def Let_def if_Inr)

lemma proofs_ResolverBondSlashed:
  "replay_ResolverBondSlashed hx st sid ev = Inr st' \<Longrightarrow> pendingObjectiveProofByTx st' = pendingObjectiveProofByTx st"
  by (auto simp: replay_ResolverBondSlashed_def challenge_state_defs clear_reveal_def put_submission_def Let_def if_Inr)

lemma proofs_ChallengeBondClaimed:
  "replay_ChallengeBondClaimed st ev = Inr st' \<Longrightarrow> pendingObjectiveProofByTx st' = pendingObjectiveProofByTx st"
  by (auto simp: replay_ChallengeBondClaimed_def challenge_state_defs clear_reveal_def put_submission_def Let_def if_Inr)

lemmas challenge_proofs =
  proofs_ChallengesNewActionsPaused proofs_Challenged proofs_ResolverTranscriptPosted
  proofs_ChallengeExpired proofs_Resolved proofs_ResolverBondReleased
  proofs_ResolverDecisionCancelled proofs_ResolverBondSlashed proofs_ChallengeBondClaimed

lemma challenge_event_proofs:
  assumes "replayChallengeEvent hx name st ev = Inr st'" and "name \<noteq> ChallengesObjectiveFraudProven"
  shows "pendingObjectiveProofByTx st' = pendingObjectiveProofByTx st"
  using assms
  by (cases name) (auto simp: replayChallengeEvent_def dest!: challenge_proofs)

lemma ObjectiveFraudProven_proofs:
  assumes "replayChallengeEvent hx ChallengesObjectiveFraudProven st ev = Inr st'"
  shows "\<exists>p. pendingObjectiveProofByTx st' =
      AList.update (txKey ev) p (pendingObjectiveProofByTx st) \<and> \<not> op_quorumJournalSeen p \<and>
      arg_int ev ''submissionId'' = Inr (op_id p) \<and> arg_bytes32 hx ev ''proofHash'' = Inr (op_proofHash p) \<and>
      arg_bool ev ''correctedChallengerWins'' = Inr (op_correctedChallengerWins p) \<and>
      arg_key ev ''proofBeneficiary'' = Inr (op_proofBeneficiary p)"
  using assms
  by (auto simp: replayChallengeEvent_def replay_ObjectiveFraudProven_def clear_reveal_def
      put_submission_def Let_def if_Inr submission_id_arg)

definition objective_proof_of ::
    "(string \<Rightarrow> nat \<Rightarrow> bool) \<Rightarrow> event \<Rightarrow> replay_error + int \<times> string \<times> bool \<times> string" where
  "objective_proof_of hx ev =
     and_then (arg_int ev ''submissionId'') (\<lambda>i.
     and_then (arg_bytes32 hx ev ''proofHash'') (\<lambda>proofHash.
     and_then (arg_bool ev ''correctedChallengerWins'') (\<lambda>corrected.
     and_then (arg_key ev ''proofBeneficiary'') (\<lambda>beneficiary.
       Inr (i, proofHash, corrected, beneficiary)))))"

definition proof_facts :: "objective_proof \<Rightarrow> int \<times> string \<times> bool \<times> string" where
  "proof_facts p = (op_id p, op_proofHash p, op_correctedChallengerWins p, op_proofBeneficiary p)"

definition proof_at :: "replay_state \<Rightarrow> string \<Rightarrow> (int \<times> string \<times> bool \<times> string) option" where
  "proof_at st k = map_option proof_facts (map_of (pendingObjectiveProofByTx st) k)"

lemma dispatch_proofs:
  assumes "dispatch_event hx st ev = Inr st'"
  shows "(kind ev = Challenges ChallengesObjectiveFraudProven \<and>
       replayChallengeEvent hx ChallengesObjectiveFraudProven st ev = Inr st') \<or>
    (kind ev = ResolverQuorum QuorumObjectiveFraudProven \<and> replayResolverQuorumEvent hx st ev = Inr st') \<or>
    (kind ev \<noteq> Challenges ChallengesObjectiveFraudProven \<and>
     pendingObjectiveProofByTx st' = pendingObjectiveProofByTx st)"
  using assms
proof (cases rule: dispatch_cases)
  case (submissions name)
  then show ?thesis using submission_event_rest by (auto simp: submission_rest_def)
next
  case (challenges name)
  then show ?thesis using challenge_event_proofs by (cases "name = ChallengesObjectiveFraudProven") auto
next
  case (quorum name)
  then show ?thesis by (cases name) auto
qed (auto dest: pool_event_rest ledger_event_rest dest!: registry_event_rest vault_event_rest)

text \<open>What one step does to the recorded proofs.\<close>

lemma step_proofs:
  assumes "replayStep hx st ev = Inr st'"
  obtains (proven) p where "kind ev = Challenges ChallengesObjectiveFraudProven"
      "pendingObjectiveProofByTx st' = AList.update (txKey ev) p (pendingObjectiveProofByTx st)"
      "\<not> op_quorumJournalSeen p" "objective_proof_of hx ev = Inr (proof_facts p)"
  | (journal) p where "kind ev = ResolverQuorum QuorumObjectiveFraudProven"
      "map_of (pendingObjectiveProofByTx st) (txKey ev) = Some p"
      "pendingObjectiveProofByTx st' =
         AList.update (txKey ev) (p\<lparr>op_quorumJournalSeen := True\<rparr>) (pendingObjectiveProofByTx st)"
      "arg_int ev ''submissionId'' = Inr (op_id p)"
      "arg_key ev ''proofHash'' = Inr (to_lower (op_proofHash p))"
      "arg_bool ev ''correctedChallengerWins'' = Inr (op_correctedChallengerWins p)"
      "arg_key ev ''proofBeneficiary'' = Inr (op_proofBeneficiary p)"
  | (other) "kind ev \<noteq> Challenges ChallengesObjectiveFraudProven"
      "pendingObjectiveProofByTx st' = pendingObjectiveProofByTx st"
proof -
  obtain c where d: "dispatch_event hx (st\<lparr>eventCounts := c\<rparr>) ev = Inr st'"
    using assms by (auto simp: replayStep_Inr)
  from dispatch_proofs[OF d] show thesis
  proof (elim disjE conjE)
    assume k: "kind ev = Challenges ChallengesObjectiveFraudProven"
      and r: "replayChallengeEvent hx ChallengesObjectiveFraudProven (st\<lparr>eventCounts := c\<rparr>) ev = Inr st'"
    from ObjectiveFraudProven_proofs[OF r] k show thesis
      by (auto simp: objective_proof_of_def proof_facts_def intro: proven)
  next
    assume "kind ev = ResolverQuorum QuorumObjectiveFraudProven"
      and "replayResolverQuorumEvent hx (st\<lparr>eventCounts := c\<rparr>) ev = Inr st'"
    then show thesis by (auto simp: replayResolverQuorumEvent_def intro: journal)
  qed (auto intro: other)
qed

lemma step_proof_at:
  assumes "replayStep hx st ev = Inr st'"
  shows "proof_at st' k =
    (if txKey ev = k \<and> reports (Challenges ChallengesObjectiveFraudProven) (objective_proof_of hx) ev \<noteq> None
     then reports (Challenges ChallengesObjectiveFraudProven) (objective_proof_of hx) ev else proof_at st k)"
  using assms
  by (cases rule: step_proofs) (auto simp: proof_at_def proof_facts_def reports_def)

interpretation proof_slot: slot_machine "replayStep hx" txKey proof_at
    "reports (Challenges ChallengesObjectiveFraudProven) (objective_proof_of hx)" for hx
  by unfold_locales (rule step_proof_at)

definition journal_matches :: "event \<Rightarrow> int \<times> string \<times> bool \<times> string \<Rightarrow> bool" where
  "journal_matches e p \<longleftrightarrow>
     (case p of (i, proofHash, corrected, beneficiary) \<Rightarrow>
        kind e = ResolverQuorum QuorumObjectiveFraudProven \<and>
        arg_int e ''submissionId'' = Inr i \<and> arg_key e ''proofHash'' = Inr (to_lower proofHash) \<and>
        arg_bool e ''correctedChallengerWins'' = Inr corrected \<and>
        arg_key e ''proofBeneficiary'' = Inr beneficiary)"

definition journals_seen :: "event list \<Rightarrow> replay_state \<Rightarrow> bool" where
  "journals_seen es st \<longleftrightarrow>
     (\<forall>k p. map_of (pendingObjectiveProofByTx st) k = Some p \<longrightarrow> op_quorumJournalSeen p \<longrightarrow>
        (\<exists>e \<in> set es. txKey e = k \<and> journal_matches e (proof_facts p)))"

lemma step_journals_seen:
  assumes "journals_seen es st" and "replayStep hx st ev = Inr st'"
  shows "journals_seen (es @ [ev]) st'"
  using assms(2)
proof (cases rule: step_proofs)
  case (journal p)
  then have "journal_matches ev (proof_facts (p\<lparr>op_quorumJournalSeen := True\<rparr>))"
    by (simp add: journal_matches_def proof_facts_def)
  then show ?thesis using assms(1) journal by (auto simp: journals_seen_def)
qed (use assms(1) in \<open>auto simp: journals_seen_def\<close>)

interpretation journal_history: history_machine "replayStep hx" journals_seen for hx
  by unfold_locales (rule step_journals_seen)

section \<open>The records of the initial state\<close>

lemma new_state_records:
  "cc_pool (claim_at (newReplayState cfg names) k) = None"
  "cc_ledger (claim_at (newReplayState cfg names) k) = None"
  "cc_donation (claim_at (newReplayState cfg names) k) = None"
  "fr_recovered (forced_at (newReplayState cfg names) k) = None"
  "fr_swept (forced_at (newReplayState cfg names) k) = None"
  "rec_finalizeVoided (recovery_at (newReplayState cfg names) k) = None"
  "rec_creditVoided (recovery_at (newReplayState cfg names) k) = None"
  "proof_at (newReplayState cfg names) k = None"
  "journals_seen [] (newReplayState cfg names)"
  by (simp_all add: newReplayState_def claim_at_def no_claim_def forced_at_def no_forced_def
      recovery_at_def no_recovery_def proof_at_def journals_seen_def)

section \<open>What the final validation says of the records\<close>

lemma validate_claim_at:
  assumes "validatePairedEvents st = Inr ()"
    and "cc_pool (claim_at st k) \<noteq> None \<or> cc_ledger (claim_at st k) \<noteq> None \<or> cc_donation (claim_at st k) \<noteq> None"
  obtains p l where "cc_pool (claim_at st k) = Some p" "cc_ledger (claim_at st k) = Some l"
    "pc_solver p = lc_solver l" "pc_grossAmount p = lc_grossAmount l" "pc_feeAmount p = lc_feeAmount l"
    "\<And>d. cc_donation (claim_at st k) = Some d \<Longrightarrow> dc_solver d = pc_solver p \<and>
       dc_destinationPool d = pc_recipient p \<and> dc_grossAmount d = pc_grossAmount p \<and>
       dc_solverPayment d = pc_solverPayment p \<and> dc_feeAmount d = pc_feeAmount p"
proof -
  obtain c where c: "map_of (claimConsumptionByTx st) k = Some c"
    using assms(2) by (auto simp: claim_at_def no_claim_def split: option.splits)
  then have "validate_claim c = Inr ()"
    using assms(1) by (auto simp: validatePairedEvents_def check_entries_Inr dest!: map_of_SomeD)
  moreover have "claim_at st k = c" using c by (simp add: claim_at_def)
  ultimately have v: "validate_claim (claim_at st k) = Inr ()" by simp
  then obtain p l where p: "cc_pool (claim_at st k) = Some p" and l: "cc_ledger (claim_at st k) = Some l"
    by (auto simp: validate_claim_def split: option.splits)
  show thesis
    by (rule that[OF p l]) (use v p l in \<open>simp_all add: validate_claim_def split: option.splits\<close>)
qed

lemma validate_forced_at:
  assumes "validatePairedEvents st = Inr ()"
    and "fr_recovered (forced_at st k) \<noteq> None \<or> fr_swept (forced_at st k) \<noteq> None"
  shows "\<exists>leg. fr_recovered (forced_at st k) = Some leg \<and> fr_swept (forced_at st k) = Some leg"
proof -
  obtain f where f: "map_of (forcedRecoveryByTx st) k = Some f"
    using assms(2) by (auto simp: forced_at_def no_forced_def split: option.splits)
  then have "validate_forced f = Inr ()"
    using assms(1) by (auto simp: validatePairedEvents_def check_entries_Inr dest!: map_of_SomeD)
  moreover have "forced_at st k = f" using f by (simp add: forced_at_def)
  ultimately show ?thesis
    by (auto simp: validate_forced_def split: option.splits)
qed

lemma validate_recovery_at:
  assumes "validatePairedEvents st = Inr ()"
    and "rec_finalizeVoided (recovery_at st k) \<noteq> None \<or> rec_creditVoided (recovery_at st k) \<noteq> None"
  shows "\<exists>f. rec_finalizeVoided (recovery_at st k) = Some f \<and>
    rec_creditVoided (recovery_at st k) =
      (if 0 < fv_atoms f then Some \<lparr>cv_solver = fv_solver f, cv_atoms = fv_atoms f\<rparr> else None)"
proof -
  obtain r where r: "map_of (recoveryByTx st) k = Some r"
    using assms(2) by (auto simp: recovery_at_def no_recovery_def split: option.splits)
  then have "validate_recovery r = Inr ()"
    using assms(1) by (auto simp: validatePairedEvents_def check_entries_Inr dest!: map_of_SomeD)
  moreover have "recovery_at st k = r" using r by (simp add: recovery_at_def)
  ultimately show ?thesis
    by (auto simp: validate_recovery_def if_Inr split: option.splits if_splits)
qed

lemma validate_proof_at:
  assumes "validatePairedEvents st = Inr ()" and "map_of (pendingObjectiveProofByTx st) k = Some p"
  shows "op_quorumJournalSeen p"
  using assms
  by (auto simp: validatePairedEvents_def check_entries_Inr validate_objective_proof_def dest!: map_of_SomeD)

section \<open>A replayed log was readable\<close>

text \<open>Every log of a run was dispatched from some state.\<close>

lemma run_member_step:
  assumes "run_events step s es = Inr s'" and "e \<in> set es"
  obtains t t' where "step t e = Inr t'"
  using assms
proof (induction es arbitrary: s)
  case (Cons d es)
  then show ?case by (cases "e = d") auto
qed simp

lemma run_member_dispatch:
  assumes "run_events (replayStep hx) s es = Inr s'" and "e \<in> set es"
  obtains t t' where "dispatch_event hx t e = Inr t'"
  using run_member_step[OF assms] by (metis replayStep_Inr)

lemma run_claim_parsed:
  assumes "run_events (replayStep hx) s es = Inr s'" and "e \<in> set es"
  shows "kind e = Pool SolverClaimSettled \<Longrightarrow> \<exists>p. pool_claim_of e = Inr p"
    "kind e = Ledger ClaimConsumed \<Longrightarrow> \<exists>l. ledger_claim_of e = Inr l"
    "kind e = Pool WinningsDonated \<Longrightarrow> \<exists>d. donation_claim_of e = Inr d"
    "kind e = Pool ForcedEthRecovered \<Longrightarrow> \<exists>f. forced_leg_of e ''to'' = Inr f"
    "kind e = Pool ForcedEthSwept \<Longrightarrow> \<exists>f. forced_leg_of e ''destination'' = Inr f"
    "kind e = Ledger CreditVoided \<Longrightarrow> \<exists>v. credit_voided_of e = Inr v"
    "kind e = Submissions FinalizeVoided \<Longrightarrow> \<exists>v. finalize_voided_of e = Inr v"
    "kind e = Challenges ChallengesObjectiveFraudProven \<Longrightarrow> \<exists>p. objective_proof_of hx e = Inr p"
proof -
  obtain t t' where d: "dispatch_event hx t e = Inr t'"
    using assms by (rule run_member_dispatch)
  note defs = dispatch_event_def replayPoolEvent_def replayLedgerEvent_def claim_defs
    credit_voided_of_def
  show "kind e = Pool SolverClaimSettled \<Longrightarrow> \<exists>p. pool_claim_of e = Inr p"
    using d by (auto simp: defs)
  show "kind e = Ledger ClaimConsumed \<Longrightarrow> \<exists>l. ledger_claim_of e = Inr l"
    using d by (auto simp: defs)
  show "kind e = Pool WinningsDonated \<Longrightarrow> \<exists>d. donation_claim_of e = Inr d"
    using d by (auto simp: defs)
  show "kind e = Pool ForcedEthRecovered \<Longrightarrow> \<exists>f. forced_leg_of e ''to'' = Inr f"
    using d by (auto simp: defs)
  show "kind e = Pool ForcedEthSwept \<Longrightarrow> \<exists>f. forced_leg_of e ''destination'' = Inr f"
    using d by (auto simp: defs)
  show "kind e = Ledger CreditVoided \<Longrightarrow> \<exists>v. credit_voided_of e = Inr v"
    using d by (auto simp: defs)
  show "kind e = Submissions FinalizeVoided \<Longrightarrow> \<exists>v. finalize_voided_of e = Inr v"
    using d finalize_voided_recovery_at[of hx t e t'] by (auto simp: dispatch_event_def)
  show "kind e = Challenges ChallengesObjectiveFraudProven \<Longrightarrow> \<exists>p. objective_proof_of hx e = Inr p"
    using d ObjectiveFraudProven_proofs[of hx t e t']
    by (auto simp: dispatch_event_def objective_proof_of_def)
qed

end
