(* ===== verification/Replay_Examples.thy ===== *)
theory Replay_Examples
  imports Replay_Pairs
begin

text \<open>
  Concrete logs on which the properties of the replay are exercised: \<open>pool_log\<close> funds, arms and
  closes a pool with one donated claim and recovered ETH, \<open>score_log\<close> takes two submissions to
  finalization and voids the second, \<open>dispute_log\<close> is a challenge whose decision is overturned by an objective proof.
  The logs are given out of order. \<open>demo_hex_bytes\<close> stands for \<open>ethers.isHexString\<close>.
\<close>

definition demo_hex_bytes :: "string \<Rightarrow> nat \<Rightarrow> bool" where
  "demo_hex_bytes s n \<longleftrightarrow> take 2 s = ''0x'' \<and> length s = 2 + 2 * n \<and> list_all hex_digit (drop 2 s)"

definition demo_config :: raw_config where
  "demo_config = \<lparr>raw_seedScoreAtoms = JInt 1000, raw_minImprovementAtoms = JInt 10,
     raw_challengeWindowSeconds = JInt 100, raw_treasury = JUndefined, raw_challengeManager = JStr ''0xCM'',
     raw_problemCount = None, raw_fundingCapWei = JUndefined, raw_earliestCloseTimestamp = JUndefined,
     raw_closeByTimestamp = JUndefined, raw_fundingAuthorizationV2 = JUndefined,
     raw_boardSetDigest = JUndefined, raw_releaseBindingDigest = JUndefined, raw_owner = JUndefined,
     raw_objectiveVerifier = JUndefined, raw_objectiveVerifierCodehash = JUndefined,
     raw_productionLaunchAuthority = JUndefined, raw_independentSecurityAuthority = JUndefined,
     raw_governanceAuthority = JUndefined\<rparr>"

definition demo_hash_of :: "char \<Rightarrow> jsval" where
  "demo_hash_of c = JStr (''0x'' @ replicate 64 c)"

definition log_at :: "int \<Rightarrow> int \<Rightarrow> string \<Rightarrow> protocol_event \<Rightarrow> (string \<times> jsval) list \<Rightarrow> event" where
  "log_at b i tx k a = \<lparr>kind = k, args = a, blockNumber = b, transactionIndex = Some 0,
     index = Some i, logIndex = None, blockTimestamp = JInt (1000 + b), transactionHash = JStr tx\<rparr>"

definition commit_log :: "int \<Rightarrow> int \<Rightarrow> event" where
  "commit_log b sid = log_at b 0 ''0xc'' (Submissions Committed)
     [(''submissionId'', JInt sid), (''solver'', JStr ''0xS''), (''commitment'', JStr ''0xc''),
      (''commitDaHash'', JStr ''0xd''), (''bondWei'', JInt 7), (''poolAtSubmissionWei'', JInt 500),
      (''requiredBondWei'', JInt 7), (''committedBlock'', JInt b), (''paidAtCommit'', JBool True)]"

definition reveal_log :: "int \<Rightarrow> int \<Rightarrow> int \<Rightarrow> event" where
  "reveal_log b sid score = log_at b 0 ''0xr'' (Submissions Revealed)
     [(''submissionId'', JInt sid), (''solutionCid'', JStr ''cid''),
      (''improvementAtoms'', JInt (1000 - score)), (''claimedScoreAtoms'', JInt score),
      (''revealInstanceHash'', demo_hash_of (CHR ''1'')), (''challengeEndsAt'', JInt 1200),
      (''solutionBytesLength'', JInt 9)]"

definition finalize_log :: "int \<Rightarrow> int \<Rightarrow> int \<Rightarrow> int \<Rightarrow> event" where
  "finalize_log b sid score credit = log_at b 1 ''0xf'' (Submissions Finalized)
     [(''submissionId'', JInt sid), (''claimedScoreAtoms'', JInt score),
      (''bestScoreAtoms'', JInt score), (''creditAtoms'', JInt credit), (''permanenceHash'', JStr ''0xp'')]"

definition credit_log :: "int \<Rightarrow> int \<Rightarrow> int \<Rightarrow> event" where
  "credit_log b credit running = log_at b 2 ''0xf'' (Ledger CreditRecorded)
     [(''solver'', JStr ''0xS''), (''atoms'', JInt credit), (''totalCreditAtoms'', JInt running)]"

definition settle_log :: event where
  "settle_log = log_at 17 1 ''0xClaim'' (Pool SolverClaimSettled)
     [(''solver'', JStr ''0xS''), (''recipient'', JStr ''0xP''), (''grossAmount'', JInt 100),
      (''solverPayment'', JInt 95), (''feeAmount'', JInt 5)]"

definition donate_log :: event where
  "donate_log = log_at 17 2 ''0xClaim'' (Pool WinningsDonated)
     [(''solver'', JStr ''0xs''), (''destinationPool'', JStr ''0xp''), (''grossAmount'', JInt 100),
      (''donatedAmount'', JInt 95), (''feeAmount'', JInt 5)]"

definition consume_log :: event where
  "consume_log = log_at 17 0 ''0xclaim'' (Ledger ClaimConsumed)
     [(''solver'', JStr ''0xs''), (''grossAmount'', JInt 100), (''feeAmount'', JInt 5)]"

definition void_log :: event where
  "void_log = log_at 14 0 ''0xvoid'' (Submissions FinalizeVoided)
     [(''submissionId'', JInt 2), (''creditAtoms'', JInt 50), (''restoredBestScoreAtoms'', JInt 700),
      (''solver'', JStr ''0xS'')]"

definition credit_void_log :: event where
  "credit_void_log = log_at 14 1 ''0xvoid'' (Ledger CreditVoided)
     [(''solver'', JStr ''0xS''), (''atoms'', JInt 50), (''totalCreditAtoms'', JInt 300)]"

definition recover_log :: event where
  "recover_log = log_at 18 0 ''0xforced'' (Pool ForcedEthRecovered)
     [(''amount'', JInt 3), (''to'', JStr ''0xT''), (''remainingForcedEth'', JInt 0)]"

definition sweep_log :: event where
  "sweep_log = log_at 18 1 ''0xforced'' (Pool ForcedEthSwept)
     [(''destination'', JStr ''0xT''), (''amount'', JInt 3), (''remainingForcedEth'', JInt 0)]"

definition arm_log :: event where
  "arm_log = log_at 3 0 ''0xarm'' (Submissions FundingArmed)
     [(''at'', JInt 1003), (''authorizationDigest'', demo_hash_of (CHR ''a''))]"

definition pool_log :: "event list" where
  "pool_log =
    [log_at 1 0 ''0xreg'' (Registry ProblemRegistered) [(''problemId'', JInt 1), (''specHash'', JStr ''0x1''),
       (''verifierImageHash'', JStr ''0x2''), (''pool'', JStr ''0xP''), (''metadataURI'', JStr ''uri'')],
     log_at 1 1 ''0xreg'' (Registry ProblemFrozen) [(''problemId'', JInt 1)],
     arm_log,
     log_at 2 0 ''0xauth'' (Submissions FundingAuthorizationVerified)
       [(''authorizationDigest'', demo_hash_of (CHR ''a'')), (''nonce'', JInt 0),
        (''boardSetDigest'', demo_hash_of (CHR ''b'')), (''releaseBindingDigest'', demo_hash_of (CHR ''c''))],
     log_at 2 1 ''0xauth'' (Submissions FundingAuthorized)
       [(''authorizationDigest'', demo_hash_of (CHR ''a'')), (''authorizer'', JStr ''0xt''), (''expiresAt'', JInt 2000)],
     log_at 4 0 ''0xfund'' (Pool Funded) [(''amount'', JInt 500), (''newBalance'', JInt 500)],
     settle_log, donate_log, consume_log,
     log_at 16 0 ''0xclose'' (Ledger Closed) [(''poolBalance'', JInt 500), (''feeReserve'', JInt 25),
       (''closedAt'', JInt 1016), (''claimDeadline'', JInt 9999)],
     sweep_log, recover_log]"

definition score_log :: "event list" where
  "score_log =
    [commit_log 5 1, reveal_log 6 1 700, finalize_log 7 1 700 300, credit_log 7 300 300,
     log_at 7 3 ''0xf'' (Submissions SubmissionBondClaimable)
       [(''submissionId'', JInt 1), (''amount'', JInt 7), (''claimant'', JStr ''0xS'')],
     log_at 8 0 ''0xb'' (Submissions SubmissionBondClaimed) [(''claimant'', JStr ''0xs''), (''amount'', JInt 7)],
     commit_log 9 2, reveal_log 10 2 650, finalize_log 11 2 650 50, credit_log 11 50 350,
     void_log, credit_void_log]"

definition proof_log :: event where
  "proof_log = log_at 8 2 ''0xproof'' (Challenges ChallengesObjectiveFraudProven)
     [(''submissionId'', JInt 1), (''challengeInstanceHash'', demo_hash_of (CHR ''2'')),
      (''correctedChallengerWins'', JBool True), (''proofHash'', demo_hash_of (CHR ''9'')),
      (''proofBeneficiary'', JStr ''0xB'')]"

definition journal_log :: event where
  "journal_log = log_at 8 3 ''0xproof'' (ResolverQuorum QuorumObjectiveFraudProven)
     [(''manager'', JStr ''0xcm''), (''submissionId'', JInt 1), (''challengeInstanceHash'', demo_hash_of (CHR ''2'')),
      (''proofHash'', demo_hash_of (CHR ''9'')), (''correctedChallengerWins'', JBool True),
      (''proofBeneficiary'', JStr ''0xb''), (''journalDigest'', demo_hash_of (CHR ''3''))]"

definition dispute_log :: "event list" where
  "dispute_log =
    [commit_log 5 1, reveal_log 6 1 700,
     log_at 7 0 ''0xchal'' (Challenges Challenged)
       [(''submissionId'', JInt 1), (''revealInstanceHash'', demo_hash_of (CHR ''1'')),
        (''challengeInstanceHash'', demo_hash_of (CHR ''2'')), (''challenger'', JStr ''0xQ''),
        (''reasonHash'', JStr ''0xw''), (''bondWei'', JInt 4), (''disputeEndsAt'', JInt 1300)],
     log_at 7 1 ''0xchal'' (Submissions SubmissionChallenged) [(''submissionId'', JInt 1)],
     log_at 7 2 ''0xpost'' (Challenges ResolverDecisionPosted)
       [(''submissionId'', JInt 1), (''challengeInstanceHash'', demo_hash_of (CHR ''2'')),
        (''challengerWins'', JBool False), (''transcriptHash'', JStr ''0xt''), (''transcriptURI'', JStr ''u''),
        (''verdictHash'', JStr ''0xv''), (''resolverBondWei'', JInt 6), (''resolverBondReleaseAt'', JInt 1400)],
     log_at 8 0 ''0xproof'' (Challenges ResolverBondSlashed)
       [(''submissionId'', JInt 1), (''challengeInstanceHash'', demo_hash_of (CHR ''2'')), (''amount'', JInt 6),
        (''proofHash'', demo_hash_of (CHR ''9'')), (''beneficiary'', JStr ''0xB'')],
     log_at 8 1 ''0xproof'' (Submissions SubmissionChallengeResolved)
       [(''submissionId'', JInt 1), (''challengerWins'', JBool True)],
     journal_log, proof_log]"

lemma pool_replays: "returns (replayProtocolEvents demo_hex_bytes pool_log demo_config event_catalog)"
  by code_simp

lemma score_replays: "returns (replayProtocolEvents demo_hex_bytes score_log demo_config event_catalog)"
  by code_simp

lemma dispute_replays: "returns (replayProtocolEvents demo_hex_bytes dispute_log demo_config event_catalog)"
  by code_simp

lemma pool_replay:
  obtains st where "replayProtocolEvents demo_hex_bytes pool_log demo_config event_catalog = Inr st"
  using pool_replays by (auto simp: returns_iff)

lemma score_replay:
  obtains st where "replayProtocolEvents demo_hex_bytes score_log demo_config event_catalog = Inr st"
  using score_replays by (auto simp: returns_iff)

lemma dispute_replay:
  obtains st where "replayProtocolEvents demo_hex_bytes dispute_log demo_config event_catalog = Inr st"
  using dispute_replays by (auto simp: returns_iff)

end
