(* ===== verification/Replay_Properties.thy ===== *)
theory Replay_Properties
  imports Replay_Examples
begin

text \<open>
  What a replay that returns guarantees, as statements about \<open>replayProtocolEvents\<close> and the logs
  it was given. Each follows from a machine interpretation of Replay_Machines or Replay_Pairs; the
  witness after it replays one of the logs of Replay_Examples.
\<close>

section \<open>Shared steps\<close>

lemma replay_run_sorted:
  assumes "replayProtocolEvents hx events raw names = Inr st"
  obtains cfg es where "replayConfig hx raw = Inr cfg" "es = sort_key event_position events"
    "mset es = mset events" "set es = set events"
    "run_events (replayStep hx) (newReplayState cfg names) es = Inr st"
    "validatePairedEvents st = Inr ()" "coverage_complete (coverage st)"
    "pendingFundingAuthorizationVerification st = None"
  using assms by (auto simp: replayProtocolEvents_Inr)

lemma replay_split:
  assumes "replayProtocolEvents hx events raw names = Inr st"
    and "sort_key event_position events = es @ fs"
  obtains cfg mid where "replayConfig hx raw = Inr cfg"
    "run_events (replayStep hx) (newReplayState cfg names) es = Inr mid"
    "run_events (replayStep hx) mid fs = Inr st"
  using assms by (auto simp: replayProtocolEvents_Inr run_events_append)

lemma wsum_open_weight:
  "wsum open_weight subs = int (length (filter (\<lambda>(i, sub). is_open (sub_status sub)) subs))"
  by (induction subs) (auto simp: wsum_def open_weight_def)

lemma pool_claim_args:
  "pool_claim_of ev = Inr p \<Longrightarrow>
     arg_key ev ''solver'' = Inr (pc_solver p) \<and> arg_key ev ''recipient'' = Inr (pc_recipient p) \<and>
     arg_int ev ''grossAmount'' = Inr (pc_grossAmount p) \<and>
     arg_int ev ''solverPayment'' = Inr (pc_solverPayment p) \<and>
     arg_int ev ''feeAmount'' = Inr (pc_feeAmount p)"
  by (auto simp: pool_claim_of_def)

lemma ledger_claim_args:
  "ledger_claim_of ev = Inr l \<Longrightarrow>
     arg_key ev ''solver'' = Inr (lc_solver l) \<and> arg_int ev ''grossAmount'' = Inr (lc_grossAmount l) \<and>
     arg_int ev ''feeAmount'' = Inr (lc_feeAmount l)"
  by (auto simp: ledger_claim_of_def)

lemma donation_claim_args:
  "donation_claim_of ev = Inr d \<Longrightarrow>
     arg_key ev ''solver'' = Inr (dc_solver d) \<and>
     arg_key ev ''destinationPool'' = Inr (dc_destinationPool d) \<and>
     arg_int ev ''grossAmount'' = Inr (dc_grossAmount d) \<and>
     arg_int ev ''donatedAmount'' = Inr (dc_solverPayment d) \<and>
     arg_int ev ''feeAmount'' = Inr (dc_feeAmount d)"
  by (auto simp: donation_claim_of_def)

section \<open>Canonical order\<close>

text \<open>
  C1. The replay depends on the set of logs only, not on the order in which they were fetched: any
  permutation of logs with distinct positions (block, transaction index, log index) gives the same
  result, errors included.
\<close>

theorem replay_order_independent:
  assumes "distinct (map event_position events)" and "mset events' = mset events"
  shows "replayProtocolEvents hx events' raw names = replayProtocolEvents hx events raw names"
proof -
  have "sort_key event_position events' = sort_key event_position events"
    using sort_key_unique[OF assms(2)[symmetric] assms(1)] by simp
  then show ?thesis by (simp add: replayProtocolEvents_def js_sort_events)
qed

lemma pool_log_positions: "distinct (map event_position pool_log)"
  by (simp add: pool_log_def log_at_def event_position_def nullish_int_def event_index_def
      arm_log_def settle_log_def donate_log_def consume_log_def sweep_log_def recover_log_def)

theorem replay_order_independent_witness:
  "replayProtocolEvents demo_hex_bytes (rev pool_log) demo_config event_catalog =
   replayProtocolEvents demo_hex_bytes pool_log demo_config event_catalog"
  by (rule replay_order_independent[OF pool_log_positions]) simp

section \<open>Ledger\<close>

text \<open>
   The totals of the replayed ledger are the sums of its books: the total credit is the sum of all
  solvers' credits and the total gross claimed the sum of all claimed amounts, with one entry each.
\<close>

theorem replay_ledger_totals:
  assumes "replayProtocolEvents hx events raw names = Inr st"
  shows "ledger_totalCreditAtoms (ledger st) = sum_list (map snd (ledger_creditAtomsOf (ledger st))) \<and>
    ledger_totalGrossClaimed (ledger st) = sum_list (map snd (ledger_claimedWeiOf (ledger st))) \<and>
    distinct (map fst (ledger_creditAtomsOf (ledger st))) \<and>
    distinct (map fst (ledger_claimedWeiOf (ledger st)))"
  using assms
proof (rule replay_run_sorted)
  fix cfg es
  assume "run_events (replayStep hx) (newReplayState cfg names) es = Inr st"
  with ledger_machine.run_inv new_state_books have "ledger_books (ledger st)" by metis
  then show ?thesis by (simp add: ledger_books_def total_def book_ok_def)
qed

theorem replay_ledger_totals_witness:
  "\<exists>st. replayProtocolEvents demo_hex_bytes score_log demo_config event_catalog = Inr st \<and>
     ledger_totalCreditAtoms (ledger st) = sum_list (map snd (ledger_creditAtomsOf (ledger st)))"
proof -
  obtain st where r: "replayProtocolEvents demo_hex_bytes score_log demo_config event_catalog = Inr st"
    by (rule score_replay)
  from replay_ledger_totals[OF r] r show ?thesis by blast
qed

text \<open>
   The ledger closes once: from any point of the canonical log on, a closed ledger stays closed
  with the same pool balance, fee reserve, closing time and claim deadline, and a swept residual
  stays swept.
\<close>

theorem replay_ledger_closes_once:
  assumes "replayProtocolEvents hx events raw names = Inr st"
    and "sort_key event_position events = es @ fs"
  shows "\<exists>cfg mid. replayConfig hx raw = Inr cfg \<and>
    run_events (replayStep hx) (newReplayState cfg names) es = Inr mid \<and>
    (ledger_closed (ledger mid) \<longrightarrow> ledger_closed (ledger st) \<and>
       closing_figures (ledger st) = closing_figures (ledger mid)) \<and>
    (ledger_residualSwept (ledger mid) \<longrightarrow> ledger_residualSwept (ledger st))"
proof (rule replay_split[OF assms])
  fix cfg mid
  assume c: "replayConfig hx raw = Inr cfg"
    and m: "run_events (replayStep hx) (newReplayState cfg names) es = Inr mid"
    and "run_events (replayStep hx) mid fs = Inr st"
  with latch_machine.run_rel have "ledger_latched mid st" by metis
  with c m show ?thesis unfolding ledger_latched_def by blast
qed

theorem replay_ledger_closes_once_witness:
  "\<exists>st. replayProtocolEvents demo_hex_bytes pool_log demo_config event_catalog = Inr st \<and>
    (\<exists>cfg mid. replayConfig demo_hex_bytes demo_config = Inr cfg \<and>
    run_events (replayStep demo_hex_bytes) (newReplayState cfg event_catalog)
      (take 7 (sort_key event_position pool_log)) = Inr mid \<and>
    (ledger_closed (ledger mid) \<longrightarrow> ledger_closed (ledger st) \<and>
       closing_figures (ledger st) = closing_figures (ledger mid)) \<and>
    (ledger_residualSwept (ledger mid) \<longrightarrow> ledger_residualSwept (ledger st)))"
proof -
  obtain st where r: "replayProtocolEvents demo_hex_bytes pool_log demo_config event_catalog = Inr st"
    by (rule pool_replay)
  show ?thesis
    by (rule exI[of _ st], rule conjI[OF r],
        rule replay_ledger_closes_once[OF r append_take_drop_id[symmetric, of _ 7]])
qed

section \<open>Submissions\<close>

text \<open>
   Submissions are numbered from one without a gap, \<open>submissionCount\<close> is their number and
  \<open>openSubmissionCount\<close> is the number of those still committed, revealed or challenged.
\<close>

theorem replay_submission_counts:
  assumes "replayProtocolEvents hx events raw names = Inr st"
  shows "dom (map_of (submissions st)) = {1..submissionCount st} \<and>
    submissionCount st = int (length (submissions st)) \<and>
    openSubmissionCount st =
      int (length (filter (\<lambda>(i, sub). is_open (sub_status sub)) (submissions st)))"
  using assms
proof (rule replay_run_sorted)
  fix cfg es
  assume "run_events (replayStep hx) (newReplayState cfg names) es = Inr st"
  with counting_machine.run_inv new_state_counts have c: "submission_counts st" by metis
  from submission_counts_length[OF c] c show ?thesis
    by (simp add: submission_counts_def wsum_open_weight)
qed

theorem replay_submission_counts_witness:
  "\<exists>st. replayProtocolEvents demo_hex_bytes score_log demo_config event_catalog = Inr st \<and>
     dom (map_of (submissions st)) = {1..submissionCount st}"
proof -
  obtain st where r: "replayProtocolEvents demo_hex_bytes score_log demo_config event_catalog = Inr st"
    by (rule score_replay)
  from replay_submission_counts[OF r] r show ?thesis by blast
qed

text \<open>
  C2. Statuses move only along the life cycle: from any point of the canonical log to its end, every
  submission still exists, its status is reached by life-cycle steps, a rejected or voided one is
  unchanged and a finalized one can only have been voided.
\<close>

theorem replay_life_cycle:
  assumes "replayProtocolEvents hx events raw names = Inr st"
    and "sort_key event_position events = es @ fs"
  shows "\<exists>cfg mid. replayConfig hx raw = Inr cfg \<and>
    run_events (replayStep hx) (newReplayState cfg names) es = Inr mid \<and>
    (\<forall>i sub. map_of (submissions mid) i = Some sub \<longrightarrow>
      (\<exists>sub'. map_of (submissions st) i = Some sub' \<and>
         status_step\<^sup>*\<^sup>* (sub_status sub) (sub_status sub') \<and>
         (sub_status sub \<in> {Status_Rejected, Status_Voided} \<longrightarrow> sub_status sub' = sub_status sub) \<and>
         (sub_status sub = Status_Finalized \<longrightarrow> sub_status sub' \<in> {Status_Finalized, Status_Voided})))"
proof (rule replay_split[OF assms])
  fix cfg mid
  assume c: "replayConfig hx raw = Inr cfg"
    and m: "run_events (replayStep hx) (newReplayState cfg names) es = Inr mid"
    and "run_events (replayStep hx) mid fs = Inr st"
  with life_machine.run_rel have "life_cycle mid st" by metis
  then have "\<exists>sub'. map_of (submissions st) i = Some sub' \<and>
         status_step\<^sup>*\<^sup>* (sub_status sub) (sub_status sub') \<and>
         (sub_status sub \<in> {Status_Rejected, Status_Voided} \<longrightarrow> sub_status sub' = sub_status sub) \<and>
         (sub_status sub = Status_Finalized \<longrightarrow> sub_status sub' \<in> {Status_Finalized, Status_Voided})"
    if "map_of (submissions mid) i = Some sub" for i sub
    using that terminal_status finalized_status unfolding life_cycle_def by metis
  with c m show ?thesis by blast
qed

theorem replay_life_cycle_witness:
  "\<exists>st. replayProtocolEvents demo_hex_bytes score_log demo_config event_catalog = Inr st \<and>
    (\<exists>cfg mid. replayConfig demo_hex_bytes demo_config = Inr cfg \<and>
    run_events (replayStep demo_hex_bytes) (newReplayState cfg event_catalog)
      (take 4 (sort_key event_position score_log)) = Inr mid \<and>
    (\<forall>i sub. map_of (submissions mid) i = Some sub \<longrightarrow>
      (\<exists>sub'. map_of (submissions st) i = Some sub' \<and>
         status_step\<^sup>*\<^sup>* (sub_status sub) (sub_status sub') \<and>
         (sub_status sub \<in> {Status_Rejected, Status_Voided} \<longrightarrow> sub_status sub' = sub_status sub) \<and>
         (sub_status sub = Status_Finalized \<longrightarrow> sub_status sub' \<in> {Status_Finalized, Status_Voided}))))"
proof -
  obtain st where r: "replayProtocolEvents demo_hex_bytes score_log demo_config event_catalog = Inr st"
    by (rule score_replay)
  show ?thesis
    by (rule exI[of _ st], rule conjI[OF r],
        rule replay_life_cycle[OF r append_take_drop_id[symmetric, of _ 4]])
qed

text \<open>
   The score frontier never leaves the seed behind: the best score is at most the seed score, no
  submission holds a negative credit, and a credit is zero or at least the minimum improvement.
\<close>

theorem replay_frontier:
  assumes "replayProtocolEvents hx events raw names = Inr st" and "replayConfig hx raw = Inr cfg"
  shows "bestScoreAtoms st \<le> cfg_seedScoreAtoms cfg \<and>
    (\<forall>i sub. map_of (submissions st) i = Some sub \<longrightarrow>
      (let credit = fi_creditAtoms (sub_finalizeInfo sub)
       in 0 \<le> credit \<and> (credit = 0 \<or> cfg_minImprovementAtoms cfg \<le> credit)))"
  using assms(1)
proof (rule replay_run_sorted)
  fix cfg' es
  assume "run_events (replayStep hx) (newReplayState cfg' names) es = Inr st"
    and "replayConfig hx raw = Inr cfg'"
  then have "frontier_ok cfg st"
    using frontier_machine.run_inv[OF new_state_frontier] assms(2) by simp
  then have f: "frontier_inv (cfg_seedScoreAtoms cfg) (cfg_minImprovementAtoms cfg) st"
    by (simp add: frontier_ok_def)
  have "let credit = fi_creditAtoms (sub_finalizeInfo sub)
       in 0 \<le> credit \<and> (credit = 0 \<or> cfg_minImprovementAtoms cfg \<le> credit)"
    if "map_of (submissions st) i = Some sub" for i sub
    using frontier_inv_member[OF f that] by (simp add: settled_below_def)
  then show ?thesis using f by (simp add: frontier_inv_def)
qed

theorem replay_frontier_witness:
  "\<exists>cfg st. replayProtocolEvents demo_hex_bytes score_log demo_config event_catalog = Inr st \<and>
     replayConfig demo_hex_bytes demo_config = Inr cfg \<and> bestScoreAtoms st \<le> cfg_seedScoreAtoms cfg"
proof -
  obtain st where r: "replayProtocolEvents demo_hex_bytes score_log demo_config event_catalog = Inr st"
    by (rule score_replay)
  then obtain cfg where c: "replayConfig demo_hex_bytes demo_config = Inr cfg"
    by (rule replay_run_sorted)
  from replay_frontier[OF r c] r c show ?thesis by blast
qed

text \<open>
   Bonds are conserved: what is still locked in submissions plus what their owners may claim equals
  all bonds committed and topped up less all bonds claimed, over the whole log.
\<close>

theorem replay_bonds_conserved:
  assumes "replayProtocolEvents hx events raw names = Inr st"
  shows "wsum sub_bondWei (submissions st) + total (submissionClaimableBondWei st)
       = sum_list (map submission_bond_flow events)"
  using assms
proof (rule replay_run_sorted)
  fix cfg es
  assume r: "run_events (replayStep hx) (newReplayState cfg names) es = Inr st"
    and m: "mset es = mset events"
  have "submission_bonds st = submission_bonds (newReplayState cfg names)
      + sum_list (map submission_bond_flow es)"
    using r by (intro bond_machine.run_flow) (auto simp: new_state_bonds list_all_iff)
  moreover have "sum_list (map submission_bond_flow es) = sum_list (map submission_bond_flow events)"
    using m by (metis mset_map sum_mset_sum_list)
  ultimately show ?thesis
    using new_state_bonds(2)[of cfg names] by (simp add: submission_bonds_def)
qed

theorem replay_bonds_conserved_witness:
  "\<exists>st. replayProtocolEvents demo_hex_bytes score_log demo_config event_catalog = Inr st \<and>
     wsum sub_bondWei (submissions st) + total (submissionClaimableBondWei st)
       = sum_list (map submission_bond_flow score_log)"
proof -
  obtain st where r: "replayProtocolEvents demo_hex_bytes score_log demo_config event_catalog = Inr st"
    by (rule score_replay)
  from replay_bonds_conserved[OF r] r show ?thesis by blast
qed

section \<open>Funding\<close>

text \<open>
   A log that arms funding leaves a consistent authorization: no verification is pending at the
  end, the armed digest is the authorized one, is not the zero hash and has a positive expiry, and
  the nonce is never negative.
\<close>

theorem replay_funding_consistent:
  assumes "replayProtocolEvents hx events raw names = Inr st"
  shows "pendingFundingAuthorizationVerification st = None \<and> 0 \<le> fundingAuthorizationNonce st \<and>
    (fundingArmed st \<longrightarrow> fundingAuthorizationDigest st = authorizedFundingDigest st \<and>
       authorizedFundingDigest st \<noteq> zero_hash \<and> 0 < fundingAuthorizationExpiresAt st)"
  using assms
proof (rule replay_run_sorted)
  fix cfg es
  assume "run_events (replayStep hx) (newReplayState cfg names) es = Inr st"
    and n: "pendingFundingAuthorizationVerification st = None"
  then have "funding_inv st"
    using funding_machine.run_inv[OF new_state_funding] by simp
  then show ?thesis using n by (auto simp: funding_inv_def)
qed

theorem replay_funding_consistent_witness:
  "\<exists>st. replayProtocolEvents demo_hex_bytes pool_log demo_config event_catalog = Inr st \<and>
     pendingFundingAuthorizationVerification st = None \<and> 0 \<le> fundingAuthorizationNonce st \<and>
    (fundingArmed st \<longrightarrow> fundingAuthorizationDigest st = authorizedFundingDigest st \<and>
       authorizedFundingDigest st \<noteq> zero_hash \<and> 0 < fundingAuthorizationExpiresAt st)"
proof -
  obtain st where r: "replayProtocolEvents demo_hex_bytes pool_log demo_config event_catalog = Inr st"
    by (rule pool_replay)
  show ?thesis by (rule exI[of _ st], rule conjI[OF r], rule replay_funding_consistent[OF r])
qed

text \<open>
   Arming is final and the authorization nonce never goes back: once armed at some point of the
  canonical log, the arming time, both digests and the nonce are those at the end.
\<close>

theorem replay_arming_final:
  assumes "replayProtocolEvents hx events raw names = Inr st"
    and "sort_key event_position events = es @ fs"
  shows "\<exists>cfg mid. replayConfig hx raw = Inr cfg \<and>
    run_events (replayStep hx) (newReplayState cfg names) es = Inr mid \<and>
    fundingAuthorizationNonce mid \<le> fundingAuthorizationNonce st \<and>
    (fundingArmed mid \<longrightarrow> fundingArmed st \<and> armedAt st = armedAt mid \<and>
       fundingAuthorizationDigest st = fundingAuthorizationDigest mid \<and>
       authorizedFundingDigest st = authorizedFundingDigest mid \<and>
       fundingAuthorizationNonce st = fundingAuthorizationNonce mid)"
proof (rule replay_split[OF assms])
  fix cfg mid
  assume c: "replayConfig hx raw = Inr cfg"
    and m: "run_events (replayStep hx) (newReplayState cfg names) es = Inr mid"
    and f: "run_events (replayStep hx) mid fs = Inr st"
  from funding_machine.run_inv[OF new_state_funding m] arming_machine.run_rel[OF f]
  have "funding_progress mid st" by (simp add: funding_since_def)
  with c m show ?thesis unfolding funding_progress_def by blast
qed

theorem replay_arming_final_witness:
  "\<exists>st. replayProtocolEvents demo_hex_bytes pool_log demo_config event_catalog = Inr st \<and>
   (\<exists>cfg mid. replayConfig demo_hex_bytes demo_config = Inr cfg \<and>
    run_events (replayStep demo_hex_bytes) (newReplayState cfg event_catalog)
      (take 6 (sort_key event_position pool_log)) = Inr mid \<and>
    fundingAuthorizationNonce mid \<le> fundingAuthorizationNonce st \<and>
    (fundingArmed mid \<longrightarrow> fundingArmed st \<and> armedAt st = armedAt mid \<and>
       fundingAuthorizationDigest st = fundingAuthorizationDigest mid \<and>
       authorizedFundingDigest st = authorizedFundingDigest mid \<and>
       fundingAuthorizationNonce st = fundingAuthorizationNonce mid))"
proof -
  obtain st where r: "replayProtocolEvents demo_hex_bytes pool_log demo_config event_catalog = Inr st"
    by (rule pool_replay)
  show ?thesis
    by (rule exI[of _ st], rule conjI[OF r],
        rule replay_arming_final[OF r append_take_drop_id[symmetric, of _ 6]])
qed

section \<open>Pairs of events in one transaction\<close>

text \<open>The only event of its kind in its transaction.\<close>

definition sole_report :: "event list \<Rightarrow> event \<Rightarrow> bool" where
  "sole_report events ev \<longleftrightarrow> (\<forall>d \<in> set events. txKey d = txKey ev \<and> kind d = kind ev \<longrightarrow> d = ev)"

lemma sole_reportD:
  "sole_report events ev \<Longrightarrow> d \<in> set events \<Longrightarrow> txKey d = txKey ev \<Longrightarrow> kind d = kind ev \<Longrightarrow> d = ev"
  by (simp add: sole_report_def)

text \<open>
  C3. Every settlement the pool reports that is the only one of its transaction has a claim the
  ledger consumed in the same transaction, for the same solver, gross amount and fee.
\<close>

theorem replay_settlement_consumed:
  assumes "replayProtocolEvents hx events raw names = Inr st"
    and "ev \<in> set events" and "kind ev = Pool SolverClaimSettled" and "sole_report events ev"
  shows "\<exists>ev' \<in> set events. kind ev' = Ledger ClaimConsumed \<and> txKey ev' = txKey ev \<and>
    arg_key ev' ''solver'' = arg_key ev ''solver'' \<and>
    arg_int ev' ''grossAmount'' = arg_int ev ''grossAmount'' \<and>
    arg_int ev' ''feeAmount'' = arg_int ev ''feeAmount''"
  using assms(1)
proof (rule replay_run_sorted)
  fix cfg es
  assume es: "set es = set events" and v: "validatePairedEvents st = Inr ()"
    and r: "run_events (replayStep hx) (newReplayState cfg names) es = Inr st"
  obtain p where p: "pool_claim_of ev = Inr p"
    using run_claim_parsed(1)[OF r, of ev, unfolded es, OF assms(2,3)] ..
  have "cc_pool (claim_at st (txKey ev)) = Some p"
  proof (rule settle_slot.run_slot_unique[OF r])
    show "reports (Pool SolverClaimSettled) pool_claim_of ev = Some p" using p assms(3) by simp
    fix d
    assume "d \<in> set es" "txKey d = txKey ev" "reports (Pool SolverClaimSettled) pool_claim_of d \<noteq> None"
    then have "d = ev" using sole_reportD[OF assms(4)] es assms(3) by auto
    then show "reports (Pool SolverClaimSettled) pool_claim_of d = Some p" using p assms(3) by simp
  qed (use es assms(2) in \<open>simp_all add: new_state_records\<close>)
  then obtain l where l: "cc_ledger (claim_at st (txKey ev)) = Some l"
    and eq: "pc_solver p = lc_solver l" "pc_grossAmount p = lc_grossAmount l" "pc_feeAmount p = lc_feeAmount l"
    using validate_claim_at[OF v, of "txKey ev"] by auto
  obtain ev' where "ev' \<in> set es" "txKey ev' = txKey ev" "kind ev' = Ledger ClaimConsumed"
    "ledger_claim_of ev' = Inr l"
    using consume_slot.run_slot_from[OF r l] by (auto simp: new_state_records)
  with es eq show ?thesis
    using pool_claim_args[OF p] ledger_claim_args[of ev' l] by (intro bexI[of _ ev']) simp_all
qed

theorem replay_settlement_consumed_witness:
  "\<exists>ev' \<in> set pool_log. kind ev' = Ledger ClaimConsumed \<and> txKey ev' = txKey settle_log \<and>
    arg_key ev' ''solver'' = arg_key settle_log ''solver'' \<and>
    arg_int ev' ''grossAmount'' = arg_int settle_log ''grossAmount'' \<and>
    arg_int ev' ''feeAmount'' = arg_int settle_log ''feeAmount''"
proof -
  obtain st where r: "replayProtocolEvents demo_hex_bytes pool_log demo_config event_catalog = Inr st"
    by (rule pool_replay)
  show ?thesis
    by (rule replay_settlement_consumed[OF r])
      (simp_all add: pool_log_def settle_log_def log_at_def sole_report_def arm_log_def donate_log_def
        consume_log_def sweep_log_def recover_log_def)
qed

text \<open>
   Every donation of winnings has a settlement of the same transaction that paid exactly the
  donated amount to the destination pool, for the same solver, gross amount and fee.
\<close>

theorem replay_donation_settled:
  assumes "replayProtocolEvents hx events raw names = Inr st"
    and "ev \<in> set events" and "kind ev = Pool WinningsDonated"
  shows "\<exists>ev' \<in> set events. kind ev' = Pool SolverClaimSettled \<and> txKey ev' = txKey ev \<and>
    arg_key ev' ''solver'' = arg_key ev ''solver'' \<and>
    arg_key ev' ''recipient'' = arg_key ev ''destinationPool'' \<and>
    arg_int ev' ''grossAmount'' = arg_int ev ''grossAmount'' \<and>
    arg_int ev' ''solverPayment'' = arg_int ev ''donatedAmount'' \<and>
    arg_int ev' ''feeAmount'' = arg_int ev ''feeAmount''"
  using assms(1)
proof (rule replay_run_sorted)
  fix cfg es
  assume es: "set es = set events" and v: "validatePairedEvents st = Inr ()"
    and r: "run_events (replayStep hx) (newReplayState cfg names) es = Inr st"
  obtain d where d: "donation_claim_of ev = Inr d"
    using run_claim_parsed(3)[OF r, of ev, unfolded es, OF assms(2,3)] ..
  have c: "cc_donation (claim_at st (txKey ev)) = Some d"
    using donate_slot.run_once[OF r, of ev d] es assms(2,3) d by simp
  then obtain p where p: "cc_pool (claim_at st (txKey ev)) = Some p"
    and eq: "dc_solver d = pc_solver p" "dc_destinationPool d = pc_recipient p"
      "dc_grossAmount d = pc_grossAmount p" "dc_solverPayment d = pc_solverPayment p"
      "dc_feeAmount d = pc_feeAmount p"
    using validate_claim_at[OF v, of "txKey ev"] by (metis option.distinct(1))
  obtain ev' where "ev' \<in> set es" "txKey ev' = txKey ev" "kind ev' = Pool SolverClaimSettled"
    "pool_claim_of ev' = Inr p"
    using settle_slot.run_slot_from[OF r p] by (auto simp: new_state_records)
  with es eq show ?thesis
    using pool_claim_args[of ev' p] donation_claim_args[OF d] by (intro bexI[of _ ev']) simp_all
qed

theorem replay_donation_settled_witness:
  "\<exists>ev' \<in> set pool_log. kind ev' = Pool SolverClaimSettled \<and> txKey ev' = txKey donate_log \<and>
    arg_key ev' ''solver'' = arg_key donate_log ''solver'' \<and>
    arg_key ev' ''recipient'' = arg_key donate_log ''destinationPool'' \<and>
    arg_int ev' ''grossAmount'' = arg_int donate_log ''grossAmount'' \<and>
    arg_int ev' ''solverPayment'' = arg_int donate_log ''donatedAmount'' \<and>
    arg_int ev' ''feeAmount'' = arg_int donate_log ''feeAmount''"
proof -
  obtain st where r: "replayProtocolEvents demo_hex_bytes pool_log demo_config event_catalog = Inr st"
    by (rule pool_replay)
  show ?thesis
    by (rule replay_donation_settled[OF r]) (simp_all add: pool_log_def donate_log_def log_at_def)
qed

text \<open>
   A voided finalization and the voided credit come together: a finalization voided with a
  positive credit has a ledger event of the same transaction that takes exactly this credit from
  the same solver, and the ledger voids no credit without such a finalization.
\<close>

theorem replay_void_paired:
  assumes "replayProtocolEvents hx events raw names = Inr st" and "ev \<in> set events"
  shows "(kind ev = Submissions FinalizeVoided \<and> (\<forall>n. arg_int ev ''creditAtoms'' = Inr n \<longrightarrow> 0 < n) \<longrightarrow>
      (\<exists>ev' \<in> set events. kind ev' = Ledger CreditVoided \<and> txKey ev' = txKey ev \<and>
         arg_key ev' ''solver'' = arg_key ev ''solver'' \<and>
         arg_int ev' ''atoms'' = arg_int ev ''creditAtoms'')) \<and>
    (kind ev = Ledger CreditVoided \<longrightarrow>
      (\<exists>ev' \<in> set events. kind ev' = Submissions FinalizeVoided \<and> txKey ev' = txKey ev \<and>
         arg_key ev' ''solver'' = arg_key ev ''solver'' \<and>
         arg_int ev' ''creditAtoms'' = arg_int ev ''atoms''))"
  using assms(1)
proof (rule replay_run_sorted)
  fix cfg es
  assume es: "set es = set events" and v: "validatePairedEvents st = Inr ()"
    and r: "run_events (replayStep hx) (newReplayState cfg names) es = Inr st"
  note parsed = run_claim_parsed[OF r, of ev, unfolded es, OF assms(2)]
  show ?thesis
  proof (intro conjI impI; (elim conjE)?)
    assume k: "kind ev = Submissions FinalizeVoided" and pos: "\<forall>n. arg_int ev ''creditAtoms'' = Inr n \<longrightarrow> 0 < n"
    obtain f where f: "finalize_voided_of ev = Inr f" using parsed(7)[OF k] ..
    then have args: "arg_key ev ''solver'' = Inr (fv_solver f)" "arg_int ev ''creditAtoms'' = Inr (fv_atoms f)"
      by (auto simp: finalize_voided_of_def)
    have "rec_finalizeVoided (recovery_at st (txKey ev)) = Some f"
      using finalize_void_slot.run_once[OF r, of ev f] es assms(2) k f by simp
    with validate_recovery_at[OF v, of "txKey ev"] pos args
    have "rec_creditVoided (recovery_at st (txKey ev)) = Some \<lparr>cv_solver = fv_solver f, cv_atoms = fv_atoms f\<rparr>"
      by auto
    from credit_void_slot.run_slot_from[OF r this] obtain ev' where "ev' \<in> set es" "txKey ev' = txKey ev"
      "kind ev' = Ledger CreditVoided" "credit_voided_of ev' = Inr \<lparr>cv_solver = fv_solver f, cv_atoms = fv_atoms f\<rparr>"
      by (auto simp: new_state_records)
    with es args show "\<exists>ev' \<in> set events. kind ev' = Ledger CreditVoided \<and> txKey ev' = txKey ev \<and>
         arg_key ev' ''solver'' = arg_key ev ''solver'' \<and>
         arg_int ev' ''atoms'' = arg_int ev ''creditAtoms''"
      by (intro bexI[of _ ev']) (auto simp: credit_voided_of_def)
  next
    assume k: "kind ev = Ledger CreditVoided"
    obtain c where c: "credit_voided_of ev = Inr c" using parsed(6)[OF k] ..
    then have args: "arg_key ev ''solver'' = Inr (cv_solver c)" "arg_int ev ''atoms'' = Inr (cv_atoms c)"
      by (auto simp: credit_voided_of_def)
    have cs: "rec_creditVoided (recovery_at st (txKey ev)) = Some c"
      using credit_void_slot.run_once[OF r, of ev c] es assms(2) k c by simp
    from validate_recovery_at[OF v, of "txKey ev"] cs obtain f
      where f: "rec_finalizeVoided (recovery_at st (txKey ev)) = Some f"
        and eq: "cv_solver c = fv_solver f" "cv_atoms c = fv_atoms f"
      by (auto split: if_splits)
    from finalize_void_slot.run_slot_from[OF r f] obtain ev' where "ev' \<in> set es" "txKey ev' = txKey ev"
      "kind ev' = Submissions FinalizeVoided" "finalize_voided_of ev' = Inr f"
      by (auto simp: new_state_records)
    with es args eq show "\<exists>ev' \<in> set events. kind ev' = Submissions FinalizeVoided \<and> txKey ev' = txKey ev \<and>
         arg_key ev' ''solver'' = arg_key ev ''solver'' \<and>
         arg_int ev' ''creditAtoms'' = arg_int ev ''atoms''"
      by (intro bexI[of _ ev']) (auto simp: finalize_voided_of_def)
  qed
qed

theorem replay_void_paired_witness:
  "\<exists>ev' \<in> set score_log. kind ev' = Ledger CreditVoided \<and> txKey ev' = txKey void_log \<and>
     arg_int ev' ''atoms'' = arg_int void_log ''creditAtoms''"
proof -
  obtain st where r: "replayProtocolEvents demo_hex_bytes score_log demo_config event_catalog = Inr st"
    by (rule score_replay)
  have m: "void_log \<in> set score_log" by (simp add: score_log_def)
  have "kind void_log = Submissions FinalizeVoided" "\<forall>n. arg_int void_log ''creditAtoms'' = Inr n \<longrightarrow> 0 < n"
    by (auto simp: void_log_def log_at_def arg_int_def getArg_def asBigInt_def)
  with replay_void_paired[OF r m] show ?thesis by blast
qed

text \<open>
   Recovered forced ETH is swept: a recovery that is the only one of its transaction has a sweep in
  the same transaction to the same destination, with the same amount and the same remainder.
\<close>

theorem replay_forced_swept:
  assumes "replayProtocolEvents hx events raw names = Inr st"
    and "ev \<in> set events" and "kind ev = Pool ForcedEthRecovered" and "sole_report events ev"
  shows "\<exists>ev' \<in> set events. kind ev' = Pool ForcedEthSwept \<and> txKey ev' = txKey ev \<and>
    arg_key ev' ''destination'' = arg_key ev ''to'' \<and>
    arg_int ev' ''amount'' = arg_int ev ''amount'' \<and>
    arg_int ev' ''remainingForcedEth'' = arg_int ev ''remainingForcedEth''"
  using assms(1)
proof (rule replay_run_sorted)
  fix cfg es
  assume es: "set es = set events" and v: "validatePairedEvents st = Inr ()"
    and r: "run_events (replayStep hx) (newReplayState cfg names) es = Inr st"
  obtain leg where leg: "forced_leg_of ev ''to'' = Inr leg"
    using run_claim_parsed(4)[OF r, of ev, unfolded es, OF assms(2,3)] ..
  have "fr_recovered (forced_at st (txKey ev)) = Some leg"
  proof (rule recovered_slot.run_slot_unique[OF r])
    show "reports (Pool ForcedEthRecovered) (\<lambda>e. forced_leg_of e ''to'') ev = Some leg"
      using leg assms(3) by simp
    fix d
    assume "d \<in> set es" "txKey d = txKey ev"
      "reports (Pool ForcedEthRecovered) (\<lambda>e. forced_leg_of e ''to'') d \<noteq> None"
    then have "d = ev" using sole_reportD[OF assms(4)] es assms(3) by auto
    then show "reports (Pool ForcedEthRecovered) (\<lambda>e. forced_leg_of e ''to'') d = Some leg"
      using leg assms(3) by simp
  qed (use es assms(2) in \<open>simp_all add: new_state_records\<close>)
  then have "fr_swept (forced_at st (txKey ev)) = Some leg"
    using validate_forced_at[OF v, of "txKey ev"] by auto
  from swept_slot.run_slot_from[OF r this] obtain ev' where "ev' \<in> set es" "txKey ev' = txKey ev"
    "kind ev' = Pool ForcedEthSwept" "forced_leg_of ev' ''destination'' = Inr leg"
    by (auto simp: new_state_records)
  with es leg show ?thesis
    by (intro bexI[of _ ev']) (auto simp: forced_leg_of_def)
qed

theorem replay_forced_swept_witness:
  "\<exists>ev' \<in> set pool_log. kind ev' = Pool ForcedEthSwept \<and> txKey ev' = txKey recover_log \<and>
    arg_key ev' ''destination'' = arg_key recover_log ''to'' \<and>
    arg_int ev' ''amount'' = arg_int recover_log ''amount'' \<and>
    arg_int ev' ''remainingForcedEth'' = arg_int recover_log ''remainingForcedEth''"
proof -
  obtain st where r: "replayProtocolEvents demo_hex_bytes pool_log demo_config event_catalog = Inr st"
    by (rule pool_replay)
  show ?thesis
    by (rule replay_forced_swept[OF r])
      (simp_all add: pool_log_def settle_log_def log_at_def sole_report_def arm_log_def donate_log_def
        consume_log_def sweep_log_def recover_log_def)
qed

text \<open>
   No objective fraud proof without its public journal: a proof that is the only one of its
  transaction has a quorum journal in the same transaction for the same submission, proof hash,
  corrected outcome and beneficiary.
\<close>

theorem replay_proof_journaled:
  assumes "replayProtocolEvents hx events raw names = Inr st"
    and "ev \<in> set events" and "kind ev = Challenges ChallengesObjectiveFraudProven"
    and "sole_report events ev"
  shows "\<exists>ev' \<in> set events. kind ev' = ResolverQuorum QuorumObjectiveFraudProven \<and> txKey ev' = txKey ev \<and>
    arg_int ev' ''submissionId'' = arg_int ev ''submissionId'' \<and>
    arg_key ev' ''proofHash'' = arg_bytes32 hx ev ''proofHash'' \<and>
    arg_bool ev' ''correctedChallengerWins'' = arg_bool ev ''correctedChallengerWins'' \<and>
    arg_key ev' ''proofBeneficiary'' = arg_key ev ''proofBeneficiary''"
  using assms(1)
proof (rule replay_run_sorted)
  fix cfg es
  assume es: "set es = set events" and v: "validatePairedEvents st = Inr ()"
    and r: "run_events (replayStep hx) (newReplayState cfg names) es = Inr st"
  obtain p where p: "objective_proof_of hx ev = Inr p"
    using run_claim_parsed(8)[OF r, of ev, unfolded es, OF assms(2,3)] ..
  have "proof_at st (txKey ev) = Some p"
  proof (rule proof_slot.run_slot_unique[OF r])
    show "reports (Challenges ChallengesObjectiveFraudProven) (objective_proof_of hx) ev = Some p"
      using p assms(3) by simp
    fix d
    assume "d \<in> set es" "txKey d = txKey ev"
      "reports (Challenges ChallengesObjectiveFraudProven) (objective_proof_of hx) d \<noteq> None"
    then have "d = ev" using sole_reportD[OF assms(4)] es assms(3) by auto
    then show "reports (Challenges ChallengesObjectiveFraudProven) (objective_proof_of hx) d = Some p"
      using p assms(3) by simp
  qed (use es assms(2) in \<open>simp_all add: new_state_records\<close>)
  then obtain q where q: "map_of (pendingObjectiveProofByTx st) (txKey ev) = Some q" and pq: "p = proof_facts q"
    by (auto simp: proof_at_def)
  from journal_history.run_describes[OF new_state_records(9) r] have "journals_seen es st" by simp
  then obtain ev' where "ev' \<in> set es" "txKey ev' = txKey ev" "journal_matches ev' p"
    using q pq validate_proof_at[OF v q] by (auto simp: journals_seen_def)
  with es p pq show ?thesis
    by (intro bexI[of _ ev'])
      (auto simp: journal_matches_def objective_proof_of_def proof_facts_def dest!: arg_bytes32_nonzero)
qed

theorem replay_proof_journaled_witness:
  "\<exists>ev' \<in> set dispute_log. kind ev' = ResolverQuorum QuorumObjectiveFraudProven \<and>
    txKey ev' = txKey proof_log \<and> arg_int ev' ''submissionId'' = arg_int proof_log ''submissionId''"
proof -
  obtain st where r: "replayProtocolEvents demo_hex_bytes dispute_log demo_config event_catalog = Inr st"
    by (rule dispute_replay)
  have "\<exists>ev' \<in> set dispute_log. kind ev' = ResolverQuorum QuorumObjectiveFraudProven \<and>
    txKey ev' = txKey proof_log \<and> arg_int ev' ''submissionId'' = arg_int proof_log ''submissionId'' \<and>
    arg_key ev' ''proofHash'' = arg_bytes32 demo_hex_bytes proof_log ''proofHash'' \<and>
    arg_bool ev' ''correctedChallengerWins'' = arg_bool proof_log ''correctedChallengerWins'' \<and>
    arg_key ev' ''proofBeneficiary'' = arg_key proof_log ''proofBeneficiary''"
    by (rule replay_proof_journaled[OF r])
      (simp_all add: dispute_log_def proof_log_def log_at_def sole_report_def commit_log_def reveal_log_def
        journal_log_def)
  then show ?thesis by blast
qed

section \<open>Coverage and counts\<close>

text \<open>
   A replay returns only if every event of the catalog was queried; then it has counted every log
  exactly once: the counts add up to the number of logs.
\<close>

theorem replay_covers_catalog:
  assumes "replayProtocolEvents hx events raw names = Inr st"
  shows "set event_catalog \<subseteq> normalizeCoverageName ` set names \<and>
    (\<Sum>(name, n) \<leftarrow> eventCounts st. int n) = int (length events)"
  using assms
proof (rule replay_run_sorted)
  fix cfg es
  assume m: "mset es = mset events" and c: "coverage_complete (coverage st)"
    and r: "run_events (replayStep hx) (newReplayState cfg names) es = Inr st"
  have "coverage st = new_coverage names"
    using config_machine.run_rel[OF r] by (simp add: new_state_config)
  then have names: "set event_catalog \<subseteq> normalizeCoverageName ` set names"
    using c by (simp add: new_coverage_complete)
  have "counts_total st = counts_total (newReplayState cfg names) + sum_list (map (\<lambda>_. 1) es)"
    using r by (intro count_machine.run_flow) (auto simp: new_state_event_counts list_all_iff)
  then have "counts_total st = int (length es)"
    by (simp add: new_state_event_counts sum_list_triv)
  with names mset_eq_length[OF m] show ?thesis by (simp add: counts_total_def wsum_def)
qed

theorem replay_covers_catalog_witness:
  "\<exists>st. replayProtocolEvents demo_hex_bytes pool_log demo_config event_catalog = Inr st \<and>
    set event_catalog \<subseteq> normalizeCoverageName ` set event_catalog \<and>
    (\<Sum>(name, n) \<leftarrow> eventCounts st. int n) = int (length pool_log)"
proof -
  obtain st where r: "replayProtocolEvents demo_hex_bytes pool_log demo_config event_catalog = Inr st"
    by (rule pool_replay)
  show ?thesis by (rule exI[of _ st], rule conjI[OF r], rule replay_covers_catalog[OF r])
qed

section \<open>Pool and registry\<close>

text \<open>
   Between fundings the pool conserves its wei: over any final part of the canonical log without a
  \<open>Funded\<close> event, the accounted balance falls by exactly what the totals of claims, fees, sponsor
  refunds and rollovers grow by.
\<close>

theorem replay_pool_conserves:
  assumes "replayProtocolEvents hx events raw names = Inr st"
    and "sort_key event_position events = es @ fs"
    and "\<forall>ev \<in> set fs. kind ev \<noteq> Pool Funded"
  shows "\<exists>cfg mid. replayConfig hx raw = Inr cfg \<and>
    run_events (replayStep hx) (newReplayState cfg names) es = Inr mid \<and>
    pool_accountedBalance (pool mid) - pool_accountedBalance (pool st) =
      pool_paid_out (pool st) - pool_paid_out (pool mid)"
proof (rule replay_split[OF assms(1,2)])
  fix cfg mid
  assume c: "replayConfig hx raw = Inr cfg"
    and m: "run_events (replayStep hx) (newReplayState cfg names) es = Inr mid"
    and f: "run_events (replayStep hx) mid fs = Inr st"
  have "pool_holdings st = pool_holdings mid + sum_list (map (\<lambda>_. 0) fs)"
    using f assms(3) by (intro pool_machine.run_flow) (auto simp: list_all_iff not_funding_def)
  with c m show ?thesis by (auto simp: pool_holdings_def)
qed

theorem replay_pool_conserves_witness:
  "\<exists>st. replayProtocolEvents demo_hex_bytes pool_log demo_config event_catalog = Inr st \<and>
   (\<exists>cfg mid. replayConfig demo_hex_bytes demo_config = Inr cfg \<and>
    run_events (replayStep demo_hex_bytes) (newReplayState cfg event_catalog) (sort_key event_position pool_log)
      = Inr mid \<and>
    pool_accountedBalance (pool mid) - pool_accountedBalance (pool st) =
      pool_paid_out (pool st) - pool_paid_out (pool mid))"
proof -
  obtain st where r: "replayProtocolEvents demo_hex_bytes pool_log demo_config event_catalog = Inr st"
    by (rule pool_replay)
  show ?thesis
    by (rule exI[of _ st], rule conjI[OF r], rule replay_pool_conserves[OF r, of _ "[]"]) simp_all
qed

text \<open>
   Registry problems are numbered from one without a gap, and a problem that is frozen at some
  point of the canonical log is frozen at the end.
\<close>

theorem replay_registry:
  assumes "replayProtocolEvents hx events raw names = Inr st"
    and "sort_key event_position events = es @ fs"
  shows "dom (map_of (registry_problems (registry st))) = {1..registry_problemCount (registry st)} \<and>
    (\<exists>cfg mid. replayConfig hx raw = Inr cfg \<and>
       run_events (replayStep hx) (newReplayState cfg names) es = Inr mid \<and>
       (\<forall>i. frozen_in (registry mid) i \<longrightarrow> frozen_in (registry st) i))"
proof (rule replay_split[OF assms])
  fix cfg mid
  assume c: "replayConfig hx raw = Inr cfg"
    and m: "run_events (replayStep hx) (newReplayState cfg names) es = Inr mid"
    and f: "run_events (replayStep hx) mid fs = Inr st"
  have i: "registry_inv (registry mid)"
    by (rule registry_machine.run_inv[OF new_state_registry m])
  have "registry_inv (registry st)" by (rule registry_machine.run_inv[OF i f])
  moreover have "frozen_in (registry st) k" if "frozen_in (registry mid) k" for k
    using freeze_machine.run_inv[OF _ f, of k] i that by simp
  ultimately show ?thesis using c m unfolding registry_inv_def by blast
qed

theorem replay_registry_witness:
  "\<exists>st. replayProtocolEvents demo_hex_bytes pool_log demo_config event_catalog = Inr st \<and>
    dom (map_of (registry_problems (registry st))) = {1..registry_problemCount (registry st)} \<and>
    (\<exists>cfg mid. replayConfig demo_hex_bytes demo_config = Inr cfg \<and>
       run_events (replayStep demo_hex_bytes) (newReplayState cfg event_catalog)
         (take 2 (sort_key event_position pool_log)) = Inr mid \<and>
       (\<forall>i. frozen_in (registry mid) i \<longrightarrow> frozen_in (registry st) i))"
proof -
  obtain st where r: "replayProtocolEvents demo_hex_bytes pool_log demo_config event_catalog = Inr st"
    by (rule pool_replay)
  show ?thesis
    by (rule exI[of _ st], rule conjI[OF r],
        rule replay_registry[OF r append_take_drop_id[symmetric, of _ 2]])
qed

section \<open>The two ledgers agree\<close>

definition settled_gross :: "event \<Rightarrow> int" where
  "settled_gross ev = (case reports (Pool SolverClaimSettled) pool_claim_of ev of
     None \<Rightarrow> 0 | Some p \<Rightarrow> pc_grossAmount p)"

definition consumed_gross :: "event \<Rightarrow> int" where
  "consumed_gross ev = (case reports (Ledger ClaimConsumed) ledger_claim_of ev of
     None \<Rightarrow> 0 | Some l \<Rightarrow> lc_grossAmount l)"

lemma pool_event_gross:
  assumes "replayPoolEvent name st ev = Inr st'" and "kind ev = Pool name"
  shows "pool_totalGrossClaimed (pool st') = pool_totalGrossClaimed (pool st) + settled_gross ev"
  using assms
  by (cases name)
    (auto simp: replayPoolEvent_def claim_defs settled_gross_def reports_def)

lemma ledger_event_gross:
  assumes "replayLedgerEvent name st ev = Inr st'" and "kind ev = Ledger name"
  shows "ledger_totalGrossClaimed (ledger st') = ledger_totalGrossClaimed (ledger st) + consumed_gross ev"
  using assms
  by (cases name)
    (auto simp: replayLedgerEvent_def claim_defs consumed_gross_def reports_def)

lemma step_pool_gross:
  assumes "replayStep hx st ev = Inr st'"
  shows "pool_totalGrossClaimed (pool st') = pool_totalGrossClaimed (pool st) + settled_gross ev"
proof (cases "\<exists>name. kind ev = Pool name")
  case True
  then obtain name c where "kind ev = Pool name" "replayPoolEvent name (st\<lparr>eventCounts := c\<rparr>) ev = Inr st'"
    using assms by (auto simp: replayStep_Inr dispatch_event_def)
  from pool_event_gross[OF this(2,1)] show ?thesis by simp
next
  case False
  then have "settled_gross ev = 0" by (auto simp: settled_gross_def reports_def)
  then show ?thesis using step_pool[OF assms] False by auto
qed

lemma step_ledger_gross:
  assumes "replayStep hx st ev = Inr st'"
  shows "ledger_totalGrossClaimed (ledger st') = ledger_totalGrossClaimed (ledger st) + consumed_gross ev"
proof (cases "\<exists>name. kind ev = Ledger name")
  case True
  then obtain name c where "kind ev = Ledger name" "replayLedgerEvent name (st\<lparr>eventCounts := c\<rparr>) ev = Inr st'"
    using assms by (auto simp: replayStep_Inr dispatch_event_def)
  from ledger_event_gross[OF this(2,1)] show ?thesis by simp
next
  case False
  then have "consumed_gross ev = 0" by (auto simp: consumed_gross_def reports_def)
  then show ?thesis using step_ledger[OF assms] False by auto
qed

interpretation pool_gross_machine: accounting_machine "replayStep hx" "\<lambda>_. True"
    "\<lambda>st. pool_totalGrossClaimed (pool st)" settled_gross "\<lambda>_. True" for hx
  by unfold_locales (auto dest: step_pool_gross)

interpretation ledger_gross_machine: accounting_machine "replayStep hx" "\<lambda>_. True"
    "\<lambda>st. ledger_totalGrossClaimed (ledger st)" consumed_gross "\<lambda>_. True" for hx
  by unfold_locales (auto dest: step_ledger_gross)

text \<open>A sum over events with distinct transactions is a sum over the transactions.\<close>

lemma sum_by_transaction:
  assumes "distinct (map txKey (filter P es))"
    and "\<And>e. e \<in> set es \<Longrightarrow> \<not> P e \<Longrightarrow> f e = 0"
    and "\<And>e. e \<in> set es \<Longrightarrow> P e \<Longrightarrow> f e = (g (txKey e) :: int)"
  shows "sum_list (map f es) = sum g (txKey ` {e \<in> set es. P e})"
proof -
  have "sum_list (map f es) = sum_list (map f (filter P es))"
    using assms(2) by (induction es) auto
  also have "\<dots> = sum_list (map g (map txKey (filter P es)))"
    using assms(3) by (induction es) auto
  also have "\<dots> = sum g (set (map txKey (filter P es)))"
    by (rule sum_list_distinct_conv_sum_set[OF assms(1)])
  finally show ?thesis by (simp add: Collect_conj_eq)
qed

definition one_per_transaction :: "protocol_event \<Rightarrow> event list \<Rightarrow> bool" where
  "one_per_transaction k events \<longleftrightarrow> distinct (map txKey (filter (\<lambda>e. kind e = k) events))"

lemma one_per_transactionD:
  "one_per_transaction k es \<Longrightarrow> d \<in> set es \<Longrightarrow> e \<in> set es \<Longrightarrow> kind d = k \<Longrightarrow> kind e = k \<Longrightarrow>
   txKey d = txKey e \<Longrightarrow> d = e"
  unfolding one_per_transaction_def distinct_map by (auto simp: inj_on_def)

lemma one_per_transaction_mset:
  "mset es = mset events \<Longrightarrow> one_per_transaction k events \<Longrightarrow> one_per_transaction k es"
  unfolding one_per_transaction_def by (metis mset_eq_imp_distinct_iff mset_filter mset_map)


lemma gross_by_transaction:
  assumes r: "run_events (replayStep hx) (newReplayState cfg names) es = Inr st"
    and v: "validatePairedEvents st = Inr ()"
    and s: "one_per_transaction (Pool SolverClaimSettled) es"
    and c: "one_per_transaction (Ledger ClaimConsumed) es"
  shows "sum_list (map settled_gross es) = sum_list (map consumed_gross es)"
proof -
  define g where "g k = (case cc_pool (claim_at st k) of None \<Rightarrow> 0 | Some p \<Rightarrow> pc_grossAmount p)" for k
  define h where "h k = (case cc_ledger (claim_at st k) of None \<Rightarrow> 0 | Some l \<Rightarrow> lc_grossAmount l)" for k
  let ?S = "{e \<in> set es. kind e = Pool SolverClaimSettled}"
  let ?C = "{e \<in> set es. kind e = Ledger ClaimConsumed}"
  have slot_S: "cc_pool (claim_at st (txKey e)) = reports (Pool SolverClaimSettled) pool_claim_of e"
    if e: "e \<in> ?S" for e
  proof -
    obtain p where p: "pool_claim_of e = Inr p" using run_claim_parsed(1)[OF r] e by auto
    have "cc_pool (claim_at st (txKey e)) = Some p"
    proof (rule settle_slot.run_slot_unique[OF r])
      fix d assume "d \<in> set es" "txKey d = txKey e" "reports (Pool SolverClaimSettled) pool_claim_of d \<noteq> None"
      then have "d = e" using one_per_transactionD[OF s, of d e] e by auto
      then show "reports (Pool SolverClaimSettled) pool_claim_of d = Some p" using p e by simp
    qed (use e p in \<open>simp_all add: new_state_records\<close>)
    then show ?thesis using p e by (simp add: reports_def)
  qed
  have slot_C: "cc_ledger (claim_at st (txKey e)) = reports (Ledger ClaimConsumed) ledger_claim_of e"
    if e: "e \<in> ?C" for e
  proof -
    obtain p where p: "ledger_claim_of e = Inr p" using run_claim_parsed(2)[OF r] e by auto
    have "cc_ledger (claim_at st (txKey e)) = Some p"
    proof (rule consume_slot.run_slot_unique[OF r])
      fix d assume "d \<in> set es" "txKey d = txKey e" "reports (Ledger ClaimConsumed) ledger_claim_of d \<noteq> None"
      then have "d = e" using one_per_transactionD[OF c, of d e] e by auto
      then show "reports (Ledger ClaimConsumed) ledger_claim_of d = Some p" using p e by simp
    qed (use e p in \<open>simp_all add: new_state_records\<close>)
    then show ?thesis using p e by (simp add: reports_def)
  qed
  have S: "sum_list (map settled_gross es) = sum g (txKey ` ?S)"
    using s slot_S by (intro sum_by_transaction) (auto simp: one_per_transaction_def settled_gross_def reports_def g_def)
  have C: "sum_list (map consumed_gross es) = sum h (txKey ` ?C)"
    using c slot_C by (intro sum_by_transaction) (auto simp: one_per_transaction_def consumed_gross_def reports_def h_def)
  have "cc_pool (claim_at st (txKey e)) \<noteq> None" if "e \<in> ?S" for e
    using slot_S[OF that] run_claim_parsed(1)[OF r, of e] that by (auto simp: reports_def)
  moreover have "k \<in> txKey ` ?S" if some: "cc_pool (claim_at st k) \<noteq> None" for k
  proof -
    obtain p where "cc_pool (claim_at st k) = Some p" using some by auto
    from settle_slot.run_slot_from[OF r this] show ?thesis by (auto simp: new_state_records)
  qed
  moreover have "cc_ledger (claim_at st (txKey e)) \<noteq> None" if "e \<in> ?C" for e
    using slot_C[OF that] run_claim_parsed(2)[OF r, of e] that by (auto simp: reports_def)
  moreover have "k \<in> txKey ` ?C" if some: "cc_ledger (claim_at st k) \<noteq> None" for k
  proof -
    obtain l where "cc_ledger (claim_at st k) = Some l" using some by auto
    from consume_slot.run_slot_from[OF r this] show ?thesis by (auto simp: new_state_records)
  qed
  moreover have legs: "cc_pool (claim_at st k) \<noteq> None \<longleftrightarrow> cc_ledger (claim_at st k) \<noteq> None" for k
    using validate_claim_at[OF v, of k] by (metis option.distinct(1))
  ultimately have keys: "txKey ` ?S = txKey ` ?C" by blast
  have "pc_grossAmount p = lc_grossAmount l"
    if "cc_pool (claim_at st k) = Some p" "cc_ledger (claim_at st k) = Some l" for k p l
    using validate_claim_at[OF v, of k] that by (metis option.distinct(1) option.inject)
  then have "g k = h k" for k
    using legs[of k] by (auto simp: g_def h_def split: option.splits)
  with S C keys show ?thesis by simp
qed

text \<open>
   The pool and the payout ledger agree on the gross amount claimed, provided no transaction holds
  two settlements or two consumed claims.
\<close>

theorem replay_gross_agree:
  assumes "replayProtocolEvents hx events raw names = Inr st"
    and "one_per_transaction (Pool SolverClaimSettled) events"
    and "one_per_transaction (Ledger ClaimConsumed) events"
  shows "pool_totalGrossClaimed (pool st) = ledger_totalGrossClaimed (ledger st)"
  using assms(1)
proof (rule replay_run_sorted)
  fix cfg es
  assume m: "mset es = mset events" and v: "validatePairedEvents st = Inr ()"
    and r: "run_events (replayStep hx) (newReplayState cfg names) es = Inr st"
  have "pool_totalGrossClaimed (pool st) = sum_list (map settled_gross es)"
    using pool_gross_machine.run_flow[OF _ _ r]
    by (simp add: newReplayState_def new_pool_state_def list_all_iff)
  moreover have "ledger_totalGrossClaimed (ledger st) = sum_list (map consumed_gross es)"
    using ledger_gross_machine.run_flow[OF _ _ r]
    by (simp add: newReplayState_def new_ledger_state_def list_all_iff)
  ultimately show ?thesis
    using gross_by_transaction[OF r v] one_per_transaction_mset[OF m] assms(2,3) by simp
qed

theorem replay_gross_agree_witness:
  "\<exists>st. replayProtocolEvents demo_hex_bytes pool_log demo_config event_catalog = Inr st \<and>
    pool_totalGrossClaimed (pool st) = ledger_totalGrossClaimed (ledger st)"
proof -
  obtain st where r: "replayProtocolEvents demo_hex_bytes pool_log demo_config event_catalog = Inr st"
    by (rule pool_replay)
  have one: "one_per_transaction (Pool SolverClaimSettled) pool_log"
    "one_per_transaction (Ledger ClaimConsumed) pool_log"
    by (simp_all add: one_per_transaction_def pool_log_def settle_log_def log_at_def arm_log_def
        donate_log_def consume_log_def sweep_log_def recover_log_def)
  show ?thesis by (rule exI[of _ st], rule conjI[OF r], rule replay_gross_agree[OF r one])
qed

end
