(* ===== verification/Snapshot_Properties.thy ===== *)
theory Snapshot_Properties
  imports Snapshot_Mirror Replay_Properties
begin

text \<open>
  What the comparison of a replay with a snapshot shows: two status checks that no replay can fail, the
  checks that pass when the chain is in the replayed state, and what is true of the contracts' values
  when every check is ok.
\<close>

section \<open>Shared steps\<close>

lemma compare_checks:
  assumes "compareReplayToSnapshot hx st sn raw = Inr checks" and "all_ok checks"
  obtains cfg where "list_all ck_ok (submission_checks cfg st sn)" "list_all ck_ok (pool_checks (pool st) sn)"
    "list_all ck_ok (ledger_checks (ledger st) (sn_ledger sn))" "list_all ck_ok (accounting_checks (sn_pool sn) (sn_ledger sn))"
    "list_all ck_ok (concat (map (submission_entry_checks sn) (js_entries (submissions st))))"
    "list_all ck_ok (concat (map (solver_checks st sn) (solver_addresses st)))"
  using assms by (auto simp: compareReplayToSnapshot_def replay_checks_def all_ok_def)

interpretation event_count_machine: accounting_machine "replayStep hx" "\<lambda>_. True" "\<lambda>st. event_count st k"
    "\<lambda>ev. if normalizeCoverageName (kind ev) = k then 1 else 0" "\<lambda>_. True" for hx k
  by unfold_locales (auto simp: step_event_count)

definition logs_of :: "protocol_event \<Rightarrow> event list \<Rightarrow> int" where
  "logs_of k events = int (length (filter (\<lambda>ev. kind ev = k) events))"

lemma sum_list_kinds: "sum_list (map (\<lambda>ev. if P ev then 1 else 0) evs) = int (length (filter P evs))"
  by (induction evs) auto

lemma new_event_count: "event_count (newReplayState cfg names) k = 0"
  by (auto simp: event_count_def newReplayState_def map_of_map_restrict restrict_map_def split: option.splits dest!: map_of_SomeD)

lemma replay_event_count:
  assumes "replayProtocolEvents hx events raw names = Inr st" and "k \<in> {Submissions Finalized, Submissions FinalizeVoided}"
  shows "event_count st k = logs_of k events"
proof -
  obtain cfg es where r: "run_events (replayStep hx) (newReplayState cfg names) es = Inr st" and m: "mset es = mset events"
    using replay_run_sorted[OF assms(1)] by metis
  have "event_count st k = int (length (filter (\<lambda>ev. normalizeCoverageName (kind ev) = k) es))"
    using event_count_machine.run_flow[OF _ _ r, of k] by (simp add: list_all_iff new_event_count sum_list_kinds)
  also have "filter (\<lambda>ev. normalizeCoverageName (kind ev) = k) es = filter (\<lambda>ev. kind ev = k) es"
    using assms(2) normalize_settling by (intro filter_cong) auto
  also have "length (filter (\<lambda>ev. kind ev = k) es) = length (filter (\<lambda>ev. kind ev = k) events)"
    using m by (metis mset_filter size_mset)
  finally show ?thesis by (simp add: logs_of_def)
qed

lemma replay_invs:
  assumes "replayProtocolEvents hx events raw names = Inr st"
  shows "status_inv st \<and> registry_inv (registry st) \<and> ledger_books (ledger st) \<and> coverage_complete (coverage st)"
  using assms
proof (rule replay_run_sorted)
  fix cfg es
  assume r: "run_events (replayStep hx) (newReplayState cfg names) es = Inr st" and "coverage_complete (coverage st)"
  then show ?thesis
    using status_machine.run_inv[OF new_state_status r] registry_machine.run_inv[OF new_state_registry r]
      ledger_machine.run_inv[OF new_state_books r] by simp
qed

lemma total_over:
  assumes "book_ok b" and "fst ` set b \<subseteq> S" and "finite S"
  shows "total b = (\<Sum>k \<in> S. bal b k)"
proof -
  have "total b = sum_list (map (bal b) (map fst b))"
    using assms(1) by (auto simp: total_def bal_def book_ok_def intro!: arg_cong[of _ _ sum_list])
  also have "\<dots> = (\<Sum>k \<in> fst ` set b. bal b k)"
    using assms(1) sum_list_distinct_conv_sum_set[of "map fst b" "bal b"] by (simp add: book_ok_def)
  also have "\<dots> = (\<Sum>k \<in> S. bal b k)"
    using assms(2,3) by (intro sum.mono_neutral_left) (auto simp: bal_not_in)
  finally show ?thesis .
qed

lemma open_count_card:
  assumes "submission_counts st"
  shows "openSubmissionCount st =
    int (card {i \<in> {1..submissionCount st}. \<exists>sub. map_of (submissions st) i = Some sub \<and> is_open (sub_status sub)})"
proof -
  let ?open = "filter (\<lambda>(i, sub). is_open (sub_status sub)) (submissions st)"
  have ok: "book_ok (submissions st)" and dom: "dom (map_of (submissions st)) = {1..submissionCount st}"
    using assms by (simp_all add: submission_counts_def)
  have "distinct (map fst ?open)" using ok by (simp add: book_ok_def distinct_map_filter)
  then have "length ?open = card (fst ` set ?open)" by (metis distinct_card length_map list.set_map)
  also have "fst ` set ?open = {i \<in> {1..submissionCount st}. \<exists>sub. map_of (submissions st) i = Some sub \<and> is_open (sub_status sub)}"
    using ok unfolding dom[symmetric] book_ok_def by (force simp: map_of_eq_Some_iff image_iff)
  finally show ?thesis using assms by (simp add: submission_counts_def wsum_open_weight)
qed

lemma status_number_open: "status_number s \<in> {1, 2, 3} \<longleftrightarrow> is_open s"
  by (cases s) (auto simp: status_number_def is_open_def)

lemma green_submission:
  assumes "list_all ck_ok (concat (map (submission_entry_checks sn) (js_entries (submissions st))))"
    and "(i, sub) \<in> set (submissions st)"
  shows "\<exists>v. map_of (sn_submissions sn) i = Some v \<and> sv_status v = status_number (sub_status sub) \<and>
    sv_bondWei v = sub_bondWei sub \<and> sv_claimedScoreAtoms v = sub_claimedScoreAtoms sub"
proof -
  have "(i, sub) \<in> set (js_entries (submissions st))" using assms(2) by (auto simp: js_entries_def)
  then have ok: "ck_ok (check (keyed ''submissions'' (show_int i)) (Some (submission_json (expectedSubmissionForComparison sub)))
      (map_option submission_json (map_of (sn_submissions sn) i)))"
    using assms(1) by (force simp: list_all_iff submission_entry_checks_def)
  then obtain v where v: "map_of (sn_submissions sn) i = Some v"
    by (cases "map_of (sn_submissions sn) i") (auto simp: check_def stableStringify_def)
  then have "canonical_text (submission_json (expectedSubmissionForComparison sub)) = canonical_text (submission_json v)"
    using ok by (simp add: check_def stableStringify_def)
  from submission_json_inject[OF this] v show ?thesis by (simp add: expectedSubmissionForComparison_def)
qed

lemma mirror_ok:
  assumes "replayProtocolEvents hx events raw names = Inr st" and "collectable cfg st"
  shows "list_all ck_ok (replay_checks cfg st (mirrored cfg st)) \<longleftrightarrow>
    list_all ck_ok (accounting_checks (mirror_pool (pool st)) (mirror_ledger (ledger st))) \<and>
    list_all ck_ok (drop 2 (status_checks st (mirrored cfg st))) \<and> list_all ck_ok (once_checks cfg st)"
proof -
  have s: "submission_counts st" "registry_inv (registry st)" "coverage_complete (coverage st)"
    and status: "list_all ck_ok (status_checks st sn) \<longleftrightarrow> list_all ck_ok (drop 2 (status_checks st sn))" for sn
    using replay_invs[OF assms(1)] by (simp_all add: status_inv_def status_checks_def)
  note mirror_submission_checks[OF assms(2), simp] mirror_pool_checks[OF assms(2), simp] mirror_ledger_checks[OF assms(2), simp]
    mirror_vault_checks[OF assms(2), simp] mirror_records[OF assms(2) s(1,2), simp]
  show ?thesis by (simp only: replay_checks_def list_all_append mirrored_reads) (auto simp: s(3) status)
qed

section \<open>Properties\<close>

text \<open>
   A replay that returns has as many finalized submissions as it saw Finalized logs less FinalizeVoided
  logs, and as many voided ones as FinalizeVoided logs; so the first two status checks are ok against
  every snapshot.
\<close>

theorem replay_statuses_counted:
  assumes "replayProtocolEvents hx events raw names = Inr st"
  shows "count_status Status_Finalized st =
      logs_of (Submissions Finalized) events - logs_of (Submissions FinalizeVoided) events \<and>
    count_status Status_Voided st = logs_of (Submissions FinalizeVoided) events \<and>
    (\<forall>sn. list_all ck_ok (take 2 (status_checks st sn)))"
  using replay_invs[OF assms] replay_event_count[OF assms]
  by (simp add: status_inv_def status_checks_def)

text \<open>
  C32. When every check is ok, the contracts' own totals conserve the money: what was funded is still held or
  was paid out as claims, fees, refunds or rollovers, the pool's ether covers what it accounts for, gross
  claims are net claims and accrued fees, the accrued fees are paid or held, the total gross claims and the
  total accrued fees are the same in pool and ledger, and the ledger's total credits and gross claims are
  the sums over the solvers as the contracts report them.
\<close>

theorem green_snapshot_conserves:
  assumes "replayProtocolEvents hx events raw names = Inr st"
    and "compareReplayToSnapshot hx st sn raw = Inr checks" and "all_ok checks"
  defines "p \<equiv> sn_pool sn" and "l \<equiv> sn_ledger sn"
  shows "pr_totalFunded p = pr_accountedBalance p + pr_totalClaimed p + pr_totalFeePaid p + pr_totalSponsorRefunded p
       + pr_totalRolloverPaid p \<and> pr_accountedBalance p \<le> pr_balance p \<and>
    pr_totalGrossClaimed p = pr_totalClaimed p + pr_totalFeePaid p + pr_accruedFeeBalance p \<and>
    pr_totalGrossClaimed p = pr_totalClaimed p + pr_totalFeeAccrued p \<and>
    pr_totalFeeAccrued p = pr_totalFeePaid p + pr_accruedFeeBalance p \<and>
    lr_totalGrossClaimed l = pr_totalGrossClaimed p \<and> lr_totalFeeAccrued l = pr_totalFeeAccrued p \<and>
    lr_totalCreditAtoms l = (\<Sum>s \<in> set (solver_addresses st). bal (sn_creditAtomsOf sn) s) \<and>
    lr_totalGrossClaimed l = (\<Sum>s \<in> set (solver_addresses st). bal (sn_claimedWeiOf sn) s)"
proof -
  obtain cfg where c: "list_all ck_ok (pool_checks (pool st) sn)" "list_all ck_ok (ledger_checks (ledger st) l)"
      "list_all ck_ok (accounting_checks p l)" "list_all ck_ok (concat (map (solver_checks st sn) (solver_addresses st)))"
    using compare_checks[OF assms(2,3)] unfolding p_def l_def by metis
  have solver: "bal (sn_creditAtomsOf sn) s = bal (ledger_creditAtomsOf (ledger st)) s"
      "bal (sn_claimedWeiOf sn) s = bal (ledger_claimedWeiOf (ledger st)) s" if "s \<in> set (solver_addresses st)" for s
    using c(4) that by (auto simp: list_all_iff solver_checks_def)
  have books: "ledger_books (ledger st)" using replay_invs[OF assms(1)] by simp
  have "fst ` set (ledger_creditAtomsOf (ledger st)) \<subseteq> set (solver_addresses st)"
    "fst ` set (ledger_claimedWeiOf (ledger st)) \<subseteq> set (solver_addresses st)"
    by (auto simp: solver_addresses_def)
  then have "ledger_totalCreditAtoms (ledger st) = (\<Sum>s \<in> set (solver_addresses st). bal (sn_creditAtomsOf sn) s)"
    "ledger_totalGrossClaimed (ledger st) = (\<Sum>s \<in> set (solver_addresses st). bal (sn_claimedWeiOf sn) s)"
    using books solver by (simp_all add: ledger_books_def total_over)
  then show ?thesis using c(1-3)
    by (simp add: pool_checks_def ledger_checks_def accounting_checks_def Let_def p_def l_def)
qed

text \<open>
  C33. When every check is ok, the contracts count the submissions the replay knows, each of them has the
  status, bond and claimed score the replay computed, and the contracts' number of open submissions is the
  number of those whose status on the chain is committed, revealed or challenged.
\<close>

theorem green_snapshot_submissions:
  assumes "replayProtocolEvents hx events raw names = Inr st"
    and "compareReplayToSnapshot hx st sn raw = Inr checks" and "all_ok checks"
  shows "sn_submissionCount sn = Some (submissionCount st) \<and>
    (\<forall>i \<in> {1..submissionCount st}. \<exists>v sub. map_of (sn_submissions sn) i = Some v \<and> map_of (submissions st) i = Some sub \<and>
       sv_status v = status_number (sub_status sub) \<and> sv_bondWei v = sub_bondWei sub \<and>
       sv_claimedScoreAtoms v = sub_claimedScoreAtoms sub) \<and>
    sr_openSubmissionCount (sn_submissionsReads sn) =
      int (card {i \<in> {1..submissionCount st}. \<exists>v. map_of (sn_submissions sn) i = Some v \<and> sv_status v \<in> {1, 2, 3}})"
proof -
  obtain cfg where c: "list_all ck_ok (submission_checks cfg st sn)"
      "list_all ck_ok (concat (map (submission_entry_checks sn) (js_entries (submissions st))))"
    using compare_checks[OF assms(2,3)] by metis
  have counts: "submission_counts st" using replay_invs[OF assms(1)] by (simp add: status_inv_def)
  have n: "sn_submissionCount sn = Some (submissionCount st)" and
    open_ok: "sr_openSubmissionCount (sn_submissionsReads sn) = openSubmissionCount st"
    using c(1) by (cases "sn_submissionCount sn"; simp add: submission_checks_def Let_def show_int_inject)+
  have entry: "\<exists>v sub. map_of (sn_submissions sn) i = Some v \<and> map_of (submissions st) i = Some sub \<and>
       sv_status v = status_number (sub_status sub) \<and> sv_bondWei v = sub_bondWei sub \<and>
       sv_claimedScoreAtoms v = sub_claimedScoreAtoms sub" if i: "i \<in> {1..submissionCount st}" for i
  proof -
    obtain sub where "map_of (submissions st) i = Some sub" using counts i by (metis submission_counts_def domD)
    with green_submission[OF c(2) map_of_SomeD[OF this]] show ?thesis by blast
  qed
  then have "{i \<in> {1..submissionCount st}. \<exists>v. map_of (sn_submissions sn) i = Some v \<and> sv_status v \<in> {1, 2, 3}} =
      {i \<in> {1..submissionCount st}. \<exists>sub. map_of (submissions st) i = Some sub \<and> is_open (sub_status sub)}"
    using status_number_open by (intro Collect_cong) (metis option.inject)
  then show ?thesis using n open_ok entry open_count_card[OF counts] by simp
qed

text \<open>
   When the chain is in the replayed state, the collected snapshot passes every check but, possibly, the
  accounting identities, the count of reveals and the counts of events that must occur once: those, and
  no others, can fail without a divergence.
\<close>

theorem mirrored_snapshot_checks:
  assumes "replayProtocolEvents hx events raw names = Inr st" and "replayConfig hx raw = Inr cfg" and "collectable cfg st"
  shows "\<exists>checks. compareReplayToSnapshot hx st (collectOnchainSnapshot (mirror cfg st) st) raw = Inr checks \<and>
    (all_ok checks \<longleftrightarrow>
       all_ok (accounting_checks (mirror_pool (pool st)) (mirror_ledger (ledger st))) \<and>
       all_ok (drop 2 (status_checks st (collectOnchainSnapshot (mirror cfg st) st))) \<and> all_ok (once_checks cfg st))"
  using mirror_ok[OF assms(1,3)] by (simp add: compareReplayToSnapshot_def assms(2) all_ok_def)

section \<open>Witnesses\<close>

text \<open>A board that is set up and funded, and whose only submission is finalized.\<close>

definition board_log :: "event list" where
  "board_log =
    [log_at 1 0 ''0xset'' (Pool LedgerSet) [(''ledger'', JStr ''0xL'')],
     log_at 1 1 ''0xset'' (Pool SubmissionManagerSet) [(''submissionManager'', JStr ''0xM'')],
     log_at 1 2 ''0xset'' (Pool RegistrySet) [(''registry'', JStr ''0xR''), (''problemId'', JInt 1)],
     log_at 1 3 ''0xset'' (Ledger CreditRecorderSet) [(''recorder'', JStr ''0xM'')],
     log_at 1 4 ''0xset'' (Submissions ChallengeManagerSet) [(''challengeManager'', JStr ''0xC'')],
     log_at 2 0 ''0xreg'' (Registry ProblemRegistered) [(''problemId'', JInt 1), (''specHash'', JStr ''0x1''),
       (''verifierImageHash'', JStr ''0x2''), (''pool'', JStr ''0xP''), (''metadataURI'', JStr ''uri'')],
     log_at 4 0 ''0xfund'' (Pool Funded) [(''amount'', JInt 500), (''newBalance'', JInt 500)],
     commit_log 5 1, reveal_log 6 1 700, finalize_log 7 1 700 300, credit_log 7 300 300]"

text \<open>The conditions of the last property, without the text of the values.\<close>

definition accounts_balance :: "replay_state \<Rightarrow> bool" where
  "accounts_balance st \<longleftrightarrow> (let p = pool st in
     pool_totalGrossClaimed p = pool_totalClaimed p + pool_totalFeeAccrued p \<and>
     pool_totalFeeAccrued p = pool_totalFeePaid p + pool_accruedFeeBalance p \<and>
     pool_totalFunded p = pool_accountedBalance p + pool_totalClaimed p + pool_totalFeePaid p
       + pool_totalSponsorRefunded p + pool_totalRolloverPaid p \<and>
     pool_totalGrossClaimed p = ledger_totalGrossClaimed (ledger st) \<and>
     pool_totalFeeAccrued p = ledger_totalFeeAccrued (ledger st))"

definition logged_once :: "replay_config \<Rightarrow> replay_state \<Rightarrow> bool" where
  "logged_once cfg st \<longleftrightarrow>
     list_all (\<lambda>k. event_count st k = 1) [Pool LedgerSet, Pool SubmissionManagerSet, Pool RegistrySet,
       Ledger CreditRecorderSet, Submissions ChallengeManagerSet] \<and>
     event_count st (Registry ProblemRegistered) = cfg_problemCount cfg"

definition reveals_counted :: "replay_config \<Rightarrow> replay_state \<Rightarrow> bool" where
  "reveals_counted cfg st \<longleftrightarrow> event_count st (Submissions Revealed) =
     int (length (filter (\<lambda>(i, v). sv_revealedAt v \<noteq> 0) (sn_submissions (mirrored cfg st))))"

lemma mirror_conditions:
  assumes "accounts_balance st" "logged_once cfg st" "reveals_counted cfg st"
  shows "list_all ck_ok (accounting_checks (mirror_pool (pool st)) (mirror_ledger (ledger st)))"
    "list_all ck_ok (drop 2 (status_checks st (mirrored cfg st)))" "list_all ck_ok (once_checks cfg st)"
  using assms
  by (simp_all add: accounting_checks_def mirror_pool_def mirror_ledger_def accounts_balance_def Let_def
      status_checks_def reveals_counted_def once_checks_def logged_once_def check_number_def)

definition board_config :: replay_config where
  "board_config = (case replayConfig demo_hex_bytes demo_config of Inr cfg \<Rightarrow> cfg)"

lemma board_configured: "replayConfig demo_hex_bytes demo_config = Inr board_config"
proof -
  have "returns (replayConfig demo_hex_bytes demo_config)" by code_simp
  then show ?thesis by (auto simp: board_config_def returns_iff)
qed

definition on_board :: "(replay_config \<Rightarrow> replay_state \<Rightarrow> bool) \<Rightarrow> bool" where
  "on_board P = (case replayProtocolEvents demo_hex_bytes board_log demo_config event_catalog of
     Inl _ \<Rightarrow> False | Inr st \<Rightarrow> (case replayConfig demo_hex_bytes demo_config of Inl _ \<Rightarrow> False | Inr cfg \<Rightarrow> P cfg st))"

lemma board_ready:
  "on_board (\<lambda>cfg st. collectable cfg st \<and> accounts_balance st \<and> logged_once cfg st \<and> reveals_counted cfg st \<and>
     submissionCount st = 1 \<and> pool_totalFunded (pool st) = 500)"
  by code_simp

lemma board_replay:
  obtains st checks where "replayProtocolEvents demo_hex_bytes board_log demo_config event_catalog = Inr st"
    "collectable board_config st" "submissionCount st = 1" "pool_totalFunded (pool st) = 500"
    "compareReplayToSnapshot demo_hex_bytes st (mirrored board_config st) demo_config = Inr checks" "all_ok checks"
    "accounts_balance st" "logged_once board_config st" "reveals_counted board_config st"
proof -
  obtain st where st: "replayProtocolEvents demo_hex_bytes board_log demo_config event_catalog = Inr st"
    and c: "collectable board_config st" "accounts_balance st" "logged_once board_config st"
      "reveals_counted board_config st" "submissionCount st = 1" "pool_totalFunded (pool st) = 500"
    using board_ready by (auto simp: on_board_def board_configured split: sum.splits)
  have "all_ok (replay_checks board_config st (mirrored board_config st))"
    using mirror_ok[OF st c(1)] mirror_conditions[OF c(2-4)] by (simp add: all_ok_def)
  with st c show ?thesis by (intro that[of st]) (simp_all add: compareReplayToSnapshot_def board_configured)
qed

theorem replay_statuses_counted_witness:
  "\<exists>st. replayProtocolEvents demo_hex_bytes score_log demo_config event_catalog = Inr st \<and>
     count_status Status_Finalized st = 1 \<and> count_status Status_Voided st = 1"
proof -
  obtain st where r: "replayProtocolEvents demo_hex_bytes score_log demo_config event_catalog = Inr st"
    by (rule score_replay)
  have "logs_of (Submissions Finalized) score_log = 2" "logs_of (Submissions FinalizeVoided) score_log = 1"
    by code_simp+
  with replay_statuses_counted[OF r] r show ?thesis by auto
qed

theorem green_snapshot_conserves_witness:
  "\<exists>st. pool_totalFunded (pool st) = 500 \<and> (let p = sn_pool (mirrored board_config st) in
     pr_totalFunded p = pr_accountedBalance p + pr_totalClaimed p + pr_totalFeePaid p + pr_totalSponsorRefunded p
       + pr_totalRolloverPaid p)"
proof -
  obtain st checks where r: "replayProtocolEvents demo_hex_bytes board_log demo_config event_catalog = Inr st"
    "compareReplayToSnapshot demo_hex_bytes st (mirrored board_config st) demo_config = Inr checks" "all_ok checks"
    "pool_totalFunded (pool st) = 500" by (rule board_replay)
  from green_snapshot_conserves[OF r(1-3)] r(4) show ?thesis unfolding Let_def by blast
qed

theorem green_snapshot_submissions_witness:
  "\<exists>st v. sn_submissionCount (mirrored board_config st) = Some 1 \<and>
     map_of (sn_submissions (mirrored board_config st)) 1 = Some v \<and>
     sr_openSubmissionCount (sn_submissionsReads (mirrored board_config st)) =
       int (card {i \<in> {1..1}. \<exists>v. map_of (sn_submissions (mirrored board_config st)) i = Some v \<and> sv_status v \<in> {1, 2, 3}})"
proof -
  obtain st checks where r: "replayProtocolEvents demo_hex_bytes board_log demo_config event_catalog = Inr st"
    "compareReplayToSnapshot demo_hex_bytes st (mirrored board_config st) demo_config = Inr checks" "all_ok checks"
    and n: "submissionCount st = 1" by (rule board_replay)
  from green_snapshot_submissions[OF r] have
    "sn_submissionCount (mirrored board_config st) = Some 1" "\<exists>v. map_of (sn_submissions (mirrored board_config st)) 1 = Some v"
    "sr_openSubmissionCount (sn_submissionsReads (mirrored board_config st)) =
       int (card {i \<in> {1..1}. \<exists>v. map_of (sn_submissions (mirrored board_config st)) i = Some v \<and> sv_status v \<in> {1, 2, 3}})"
    unfolding n by (blast, force, blast)
  then show ?thesis by blast
qed

theorem mirrored_snapshot_checks_witness:
  "\<exists>st checks. compareReplayToSnapshot demo_hex_bytes st (mirrored board_config st) demo_config = Inr checks \<and> all_ok checks"
proof -
  obtain st where r: "replayProtocolEvents demo_hex_bytes board_log demo_config event_catalog = Inr st"
    "collectable board_config st" "accounts_balance st" "logged_once board_config st" "reveals_counted board_config st"
    by (rule board_replay)
  from mirrored_snapshot_checks[OF r(1) board_configured r(2)] mirror_conditions[OF r(3-5)]
  show ?thesis by (auto simp: all_ok_def)
qed

end
