(* ===== verification/Log_Query.thy ===== *)
theory Log_Query
  imports Replay
begin

text \<open>
  Reading the chain's logs (agent/indexer.mjs): \<open>validateFinalityPolicy\<close>,
  \<open>queryHistoricalLogs\<close> with its overlapping pages, retries and reorg detection,
  \<open>scanEventCatalog\<close>, \<open>retryRead\<close> and \<open>hydrateEventTimestamps\<close>.

  The RPC provider is code outside the repository: it is a parameter \<open>rpc\<close> that answers the n-th
  call, with an error or with logs, so that two calls for the same range may be answered differently.
  The waiting time between retries has no effect on the results and is left out.
\<close>

section \<open>The finality policy\<close>

record finality_policy =
  pol_mode :: string
  pol_confirmations :: int
  pol_logChunkSize :: int
  pol_reorgOverlapBlocks :: int
  pol_maxRetries :: int
  pol_retryBaseDelayMs :: int
  pol_maxScanRestarts :: int

datatype policy_field =
    Confirmations | Log_chunk_size | Reorg_overlap_blocks | Max_retries | Retry_base_delay
  | Max_scan_restarts

datatype query_error =
    Mode_not_confirmations
  | Field_below_minimum policy_field
  | Overlap_not_smaller
  | Invalid_block_bound
  | Rpc_failed int int string
  | Identity_missing
  | Log_disappeared string
  | Log_moved string
  | Log_appeared string
  | Unknown_source
  | Abi_event_missing
  | Read_failed string
  | Block_not_canonical

fun policy_value :: "finality_policy \<Rightarrow> policy_field \<Rightarrow> int" where
  "policy_value p Confirmations = pol_confirmations p"
| "policy_value p Log_chunk_size = pol_logChunkSize p"
| "policy_value p Reorg_overlap_blocks = pol_reorgOverlapBlocks p"
| "policy_value p Max_retries = pol_maxRetries p"
| "policy_value p Retry_base_delay = pol_retryBaseDelayMs p"
| "policy_value p Max_scan_restarts = pol_maxScanRestarts p"

definition policy_minimums :: "(policy_field \<times> int) list" where
  "policy_minimums =
     [(Confirmations, 1), (Log_chunk_size, 2), (Reorg_overlap_blocks, 1), (Max_retries, 1),
      (Retry_base_delay, 0), (Max_scan_restarts, 1)]"

definition requireInteger :: "int \<Rightarrow> int \<Rightarrow> 'e \<Rightarrow> 'e + unit" where
  "requireInteger v minimum err = require (safe_integer v \<and> \<not> v < minimum) err (Inr ())"

fun check_minimums :: "finality_policy \<Rightarrow> (policy_field \<times> int) list \<Rightarrow> query_error + unit" where
  "check_minimums p [] = Inr ()"
| "check_minimums p ((f, minimum) # fs) =
     and_then (requireInteger (policy_value p f) minimum (Field_below_minimum f))
       (\<lambda>_. check_minimums p fs)"

definition validateFinalityPolicy :: "finality_policy \<Rightarrow> query_error + finality_policy" where
  "validateFinalityPolicy p =
     require (pol_mode p = ''confirmations'') Mode_not_confirmations
       (and_then (check_minimums p policy_minimums) (\<lambda>_.
          require (\<not> pol_logChunkSize p \<le> pol_reorgOverlapBlocks p) Overlap_not_smaller (Inr p)))"

section \<open>Logs\<close>

record rpc_log =
  log_blockNumber :: int
  log_blockHash :: jsval
  log_transactionHash :: "string option"
  log_transactionIndex :: "int option"
  log_index :: "int option"
  log_logIndex :: "int option"
  log_args :: "(string \<times> jsval) list"

definition rpc_log_index :: "rpc_log \<Rightarrow> int option" where
  "rpc_log_index l = (case log_index l of None \<Rightarrow> log_logIndex l | Some i \<Rightarrow> Some i)"

definition logIdentity :: "rpc_log \<Rightarrow> query_error + string" where
  "logIdentity l =
     (case (log_transactionHash l, rpc_log_index l) of
        (Some tx, Some i) \<Rightarrow> Inr (to_lower tx @ '':'' @ show_int i)
      | _ \<Rightarrow> Inl Identity_missing)"

definition lower_hash :: "string option \<Rightarrow> string" where
  "lower_hash h = (case h of None \<Rightarrow> ''undefined'' | Some s \<Rightarrow> to_lower s)"

definition compareLogCanonicality :: "rpc_log \<Rightarrow> rpc_log \<Rightarrow> bool" where
  "compareLogCanonicality l r \<longleftrightarrow>
     log_blockNumber l = log_blockNumber r \<and>
     addressKey (log_blockHash l) = addressKey (log_blockHash r) \<and>
     lower_hash (log_transactionHash l) = lower_hash (log_transactionHash r)"

definition compareLogOrder :: "rpc_log \<Rightarrow> rpc_log \<Rightarrow> int" where
  "compareLogOrder l r =
     js_or (log_blockNumber l - log_blockNumber r)
       (js_or (nullish_int (log_transactionIndex l) - nullish_int (log_transactionIndex r))
         (nullish_int (rpc_log_index l) - nullish_int (rpc_log_index r)))"

definition log_position :: "rpc_log \<Rightarrow> int \<times> int \<times> int" where
  "log_position l =
     (log_blockNumber l, nullish_int (log_transactionIndex l), nullish_int (rpc_log_index l))"

section \<open>One page with retries\<close>

type_synonym log_rpc = "nat \<Rightarrow> int \<Rightarrow> int \<Rightarrow> string + rpc_log list"

text \<open>
  The retry loop: \<open>n\<close> counts the calls made so far, \<open>k\<close> the attempts left, \<open>lastErr\<close> is the last
  error. It returns the next call number with the outcome.
\<close>

fun query_attempts ::
    "log_rpc \<Rightarrow> nat \<Rightarrow> nat \<Rightarrow> string option \<Rightarrow> int \<Rightarrow> int \<Rightarrow> nat \<times> (query_error + rpc_log list)" where
  "query_attempts rpc n 0 lastErr s e =
     (n, case lastErr of None \<Rightarrow> Inr [] | Some m \<Rightarrow> Inl (Rpc_failed s e m))"
| "query_attempts rpc n (Suc k) lastErr s e =
     (case rpc n s e of
        Inr logs \<Rightarrow> (Suc n, Inr logs)
      | Inl m \<Rightarrow> query_attempts rpc (Suc n) k (Some m) s e)"

section \<open>Checking a page against what was scanned before\<close>

type_synonym known_logs = "(string \<times> rpc_log) list"

definition block_in :: "int \<Rightarrow> int \<Rightarrow> rpc_log \<Rightarrow> bool" where
  "block_in s e l \<longleftrightarrow> s \<le> log_blockNumber l \<and> log_blockNumber l \<le> e"

text \<open>\<open>new Map(logs.map(log => [logIdentity(log), log]))\<close>\<close>

fun identity_map :: "known_logs \<Rightarrow> rpc_log list \<Rightarrow> query_error + known_logs" where
  "identity_map acc [] = Inr acc"
| "identity_map acc (l # ls) =
     and_then (logIdentity l) (\<lambda>i. identity_map (AList.update i l acc) ls)"

fun check_expected :: "known_logs \<Rightarrow> known_logs \<Rightarrow> query_error + unit" where
  "check_expected observed [] = Inr ()"
| "check_expected observed ((i, previous) # es) =
     (case map_of observed i of
        None \<Rightarrow> Inl (Log_disappeared i)
      | Some l \<Rightarrow> require (compareLogCanonicality previous l) (Log_moved i) (check_expected observed es))"

fun check_observed :: "known_logs \<Rightarrow> known_logs \<Rightarrow> query_error + unit" where
  "check_observed expected [] = Inr ()"
| "check_observed expected ((i, l) # os) =
     require (map_of expected i \<noteq> None) (Log_appeared i) (check_observed expected os)"

definition check_overlap :: "known_logs \<Rightarrow> rpc_log list \<Rightarrow> int \<Rightarrow> int \<Rightarrow> query_error + unit" where
  "check_overlap known logs start overlapEnd =
     (let expected = filter (\<lambda>(i, l). block_in start overlapEnd l) known
      in and_then (identity_map [] (filter (block_in start overlapEnd) logs)) (\<lambda>observed.
         and_then (check_expected observed expected) (\<lambda>_. check_observed expected observed)))"

fun merge_logs :: "known_logs \<Rightarrow> rpc_log list \<Rightarrow> query_error + known_logs" where
  "merge_logs known [] = Inr known"
| "merge_logs known (l # ls) =
     and_then (logIdentity l) (\<lambda>i.
       require (case map_of known i of None \<Rightarrow> True | Some previous \<Rightarrow> compareLogCanonicality previous l)
         (Log_moved i) (merge_logs (AList.update i l known) ls))"

definition process_page ::
    "known_logs \<Rightarrow> int option \<Rightarrow> int \<Rightarrow> int \<Rightarrow> rpc_log list \<Rightarrow> query_error + known_logs" where
  "process_page known previousEnd start end_block logs =
     and_then
       (case previousEnd of
          None \<Rightarrow> Inr ()
        | Some p \<Rightarrow> check_overlap known logs start (min p end_block)) (\<lambda>_.
     merge_logs known logs)"

section \<open>The page loop\<close>

partial_function (option) scan_pages ::
    "log_rpc \<Rightarrow> finality_policy \<Rightarrow> int \<Rightarrow> nat \<Rightarrow> known_logs \<Rightarrow> int option \<Rightarrow> int
       \<Rightarrow> (query_error + known_logs) option" where
  "scan_pages rpc p toBlock n known previousEnd start =
     (if \<not> start \<le> toBlock then Some (Inr known)
      else
        let end_block = min (start + pol_logChunkSize p - 1) toBlock;
            (n', answer) = query_attempts rpc n (nat (pol_maxRetries p)) None start end_block
        in case and_then answer (process_page known previousEnd start end_block) of
             Inl err \<Rightarrow> Some (Inl err)
           | Inr known' \<Rightarrow>
               if end_block = toBlock then Some (Inr known')
               else scan_pages rpc p toBlock n' known' (Some end_block)
                      (end_block - pol_reorgOverlapBlocks p + 1))"

declare scan_pages.simps [code]

definition queryHistoricalLogs ::
    "log_rpc \<Rightarrow> int \<Rightarrow> int \<Rightarrow> finality_policy \<Rightarrow> (query_error + rpc_log list) option" where
  "queryHistoricalLogs rpc fromBlock toBlock p =
     (case and_then (validateFinalityPolicy p) (\<lambda>_.
           and_then (requireInteger fromBlock 0 Invalid_block_bound) (\<lambda>_.
             requireInteger toBlock 0 Invalid_block_bound)) of
        Inl err \<Rightarrow> Some (Inl err)
      | Inr _ \<Rightarrow>
          if toBlock < fromBlock then Some (Inr [])
          else map_option (\<lambda>r. and_then r (\<lambda>known. Inr (js_sort compareLogOrder (map snd known))))
                 (scan_pages rpc p toBlock 0 [] None fromBlock))"

section \<open>Facts about the policy\<close>

lemma requireInteger_Inr [simp]:
  "requireInteger v m err = Inr u \<longleftrightarrow> safe_integer v \<and> m \<le> v"
  by (cases u) (auto simp: requireInteger_def)

lemma validateFinalityPolicy_Inr:
  "validateFinalityPolicy p = Inr q \<longleftrightarrow>
     q = p \<and> pol_mode p = ''confirmations'' \<and>
     (\<forall>(f, m) \<in> set policy_minimums. safe_integer (policy_value p f) \<and> m \<le> policy_value p f) \<and>
     pol_reorgOverlapBlocks p < pol_logChunkSize p"
proof -
  have "check_minimums p fs = Inr u \<longleftrightarrow>
      (\<forall>(f, m) \<in> set fs. safe_integer (policy_value p f) \<and> m \<le> policy_value p f)" for fs u
    by (induction p fs rule: check_minimums.induct) auto
  then show ?thesis by (auto simp: validateFinalityPolicy_def)
qed

definition valid_policy :: "finality_policy \<Rightarrow> bool" where
  "valid_policy p \<longleftrightarrow> validateFinalityPolicy p = Inr p"

lemma valid_policy_bounds:
  "valid_policy p \<Longrightarrow> 1 \<le> pol_reorgOverlapBlocks p \<and> pol_reorgOverlapBlocks p < pol_logChunkSize p \<and>
     1 \<le> pol_maxRetries p"
  by (auto simp: valid_policy_def validateFinalityPolicy_Inr policy_minimums_def)

section \<open>Termination\<close>

lemma scan_pages_step:
  assumes "start \<le> toBlock" and "e = min (start + pol_logChunkSize p - 1) toBlock"
    and "query_attempts rpc n (nat (pol_maxRetries p)) None start e = (n', answer)"
    and "r = and_then answer (process_page known previousEnd start e)"
  shows "scan_pages rpc p toBlock n known previousEnd start =
    (case r of
       Inl err \<Rightarrow> Some (Inl err)
     | Inr known' \<Rightarrow>
         if e = toBlock then Some (Inr known')
         else scan_pages rpc p toBlock n' known' (Some e) (e - pol_reorgOverlapBlocks p + 1))"
  using assms(1,3) unfolding assms(2,4) by (subst scan_pages.simps) (simp add: Let_def)

lemma next_page_closer:
  assumes "valid_policy p" and "start \<le> toBlock"
    and "e = min (start + pol_logChunkSize p - 1) toBlock" and "e \<noteq> toBlock"
  shows "nat (toBlock - (e - pol_reorgOverlapBlocks p + 1)) < nat (toBlock - start)"
    "start < e - pol_reorgOverlapBlocks p + 1" "e - pol_reorgOverlapBlocks p + 1 \<le> e"
    "start \<le> e" "e < toBlock"
  using assms valid_policy_bounds[OF assms(1)] by auto

text \<open>Every page starts after the one before it, because the overlap is smaller than a page.\<close>

lemma scan_pages_returns:
  assumes "valid_policy p"
  shows "\<exists>r. scan_pages rpc p toBlock n known previousEnd start = Some r"
proof (induction "nat (toBlock - start)" arbitrary: n known previousEnd start rule: less_induct)
  case less
  define e where "e = min (start + pol_logChunkSize p - 1) toBlock"
  obtain n' answer where q: "query_attempts rpc n (nat (pol_maxRetries p)) None start e = (n', answer)"
    by (metis surj_pair)
  define r where "r = and_then answer (process_page known previousEnd start e)"
  show ?case
  proof (cases "start \<le> toBlock")
    case True
    note step = scan_pages_step[OF True e_def q r_def]
    show ?thesis
    proof (cases "\<exists>known'. r = Inr known' \<and> e \<noteq> toBlock")
      case True
      then show ?thesis
        using step less[OF next_page_closer(1)[OF assms \<open>start \<le> toBlock\<close> e_def]] by auto
    next
      case False
      then show ?thesis using step by (cases r) auto
    qed
  next
    case False
    then show ?thesis by (subst scan_pages.simps) simp
  qed
qed

section \<open>Nothing a page reported is dropped\<close>

lemma logIdentity_canonical:
  assumes "logIdentity l = Inr i" and "logIdentity k = Inr j"
  shows "compareLogCanonicality l l" and "\<exists>tx. log_transactionHash l = Some tx"
  using assms by (auto simp: compareLogCanonicality_def logIdentity_def split: option.splits)

lemma canonical_trans:
  "compareLogCanonicality a b \<Longrightarrow> compareLogCanonicality b c \<Longrightarrow> compareLogCanonicality a c"
  by (simp add: compareLogCanonicality_def)

lemma canonical_sym: "compareLogCanonicality a b \<Longrightarrow> compareLogCanonicality b a"
  by (simp add: compareLogCanonicality_def)

lemma canonical_refl [simp]: "compareLogCanonicality a a"
  by (simp add: compareLogCanonicality_def)

definition represented :: "known_logs \<Rightarrow> rpc_log \<Rightarrow> bool" where
  "represented known l \<longleftrightarrow>
     (\<exists>i l'. logIdentity l = Inr i \<and> map_of known i = Some l' \<and> compareLogCanonicality l l')"

text \<open>The scanned logs are stored under their own identities.\<close>

definition indexed :: "known_logs \<Rightarrow> bool" where
  "indexed known \<longleftrightarrow> distinct (map fst known) \<and> (\<forall>i l. map_of known i = Some l \<longrightarrow> logIdentity l = Inr i)"

lemma indexed_Nil [simp]: "indexed []"
  by (simp add: indexed_def)

lemma represented_update:
  assumes "represented known l" and "logIdentity m = Inr i"
    and "\<And>previous. map_of known i = Some previous \<Longrightarrow> compareLogCanonicality previous m"
  shows "represented (AList.update i m known) l"
proof -
  obtain j l' where j: "logIdentity l = Inr j" "map_of known j = Some l'" "compareLogCanonicality l l'"
    using assms(1) by (auto simp: represented_def)
  show ?thesis
  proof (cases "j = i")
    case True
    have "compareLogCanonicality l m"
      using canonical_trans[OF j(3)] assms(3)[of l'] j(2) True by simp
    then show ?thesis using j(1) True by (simp add: represented_def)
  next
    case False
    then show ?thesis using j by (simp add: represented_def)
  qed
qed

lemma merge_logs_ConsE:
  assumes "merge_logs known (m # ls) = Inr known'"
  obtains i where "logIdentity m = Inr i" "merge_logs (AList.update i m known) ls = Inr known'"
    "\<And>previous. map_of known i = Some previous \<Longrightarrow> compareLogCanonicality previous m"
  using assms by (auto split: option.splits)

lemma indexed_update: "indexed known \<Longrightarrow> logIdentity m = Inr i \<Longrightarrow> indexed (AList.update i m known)"
  by (auto simp: indexed_def distinct_update)

lemma merge_logs_indexed:
  "merge_logs known ls = Inr known' \<Longrightarrow> indexed known \<Longrightarrow> indexed known'"
proof (induction ls arbitrary: known)
  case (Cons m ls)
  from Cons.prems(1) show ?case
    by (rule merge_logs_ConsE) (metis Cons.IH Cons.prems(2) indexed_update)
qed simp

lemma merge_logs_keeps:
  "merge_logs known ls = Inr known' \<Longrightarrow> represented known l \<Longrightarrow> represented known' l"
proof (induction ls arbitrary: known)
  case (Cons m ls)
  from Cons.prems(1) show ?case
    by (rule merge_logs_ConsE) (metis Cons.IH Cons.prems(2) represented_update)
qed simp

lemma merge_logs_adds:
  "merge_logs known ls = Inr known' \<Longrightarrow> l \<in> set ls \<Longrightarrow> represented known' l"
proof (induction ls arbitrary: known)
  case (Cons m ls)
  from Cons.prems(1) show ?case
  proof (rule merge_logs_ConsE)
    fix i
    assume i: "logIdentity m = Inr i" and r: "merge_logs (AList.update i m known) ls = Inr known'"
    show ?case
    proof (cases "l \<in> set ls")
      case True
      then show ?thesis by (rule Cons.IH[OF r])
    next
      case False
      then have "l = m" using Cons.prems(2) by simp
      then have "represented (AList.update i m known) l" using i by (simp add: represented_def)
      then show ?thesis by (rule merge_logs_keeps[OF r])
    qed
  qed
qed simp

lemma merge_logs_only:
  "merge_logs known ls = Inr known' \<Longrightarrow> map_of known' i = Some l \<Longrightarrow>
   map_of known i = Some l \<or> l \<in> set ls"
proof (induction known ls rule: merge_logs.induct)
  case (2 known m ls)
  then obtain j where r: "merge_logs (AList.update j m known) ls = Inr known'" by auto
  from "2.IH"[OF r "2.prems"(2)] show ?case by (auto split: if_splits)
qed simp

lemma query_attempts_answer:
  "query_attempts rpc n k lastErr s e = (n', Inr logs) \<Longrightarrow> 0 < k \<or> lastErr \<noteq> None \<Longrightarrow>
   \<exists>m. rpc m s e = Inr logs"
proof (induction k arbitrary: n lastErr)
  case (Suc k)
  show ?case
  proof (cases "rpc n s e")
    case (Inl m)
    then show ?thesis using Suc.IH[of "Suc n" "Some m"] Suc.prems by simp
  next
    case (Inr ls)
    then show ?thesis using Suc.prems by auto
  qed
qed (auto split: option.splits)

text \<open>
  A block range is answered when some call for a range around the block returned logs that the scan
  has all kept.
\<close>

definition answered :: "log_rpc \<Rightarrow> int \<Rightarrow> int \<Rightarrow> known_logs \<Rightarrow> int \<Rightarrow> bool" where
  "answered rpc lo hi known b \<longleftrightarrow>
     (\<exists>n s e logs. lo \<le> s \<and> s \<le> b \<and> b \<le> e \<and> e \<le> hi \<and> rpc n s e = Inr logs \<and>
        (\<forall>l \<in> set logs. represented known l))"

lemma scan_pages_answered:
  assumes "valid_policy p" and "lo \<le> start"
    and "scan_pages rpc p toBlock n known previousEnd start = Some (Inr result)"
    and "indexed known" and "\<forall>b. lo \<le> b \<and> b < start \<longrightarrow> answered rpc lo toBlock known b"
  shows "indexed result \<and> (\<forall>b. lo \<le> b \<and> b \<le> toBlock \<longrightarrow> answered rpc lo toBlock result b) \<and>
    (\<forall>i l. map_of result i = Some l \<longrightarrow> map_of known i = Some l \<or>
       (\<exists>m s e logs. rpc m s e = Inr logs \<and> l \<in> set logs))"
  using assms(2-)
proof (induction "nat (toBlock - start)" arbitrary: n known previousEnd start rule: less_induct)
  case less
  define e where "e = min (start + pol_logChunkSize p - 1) toBlock"
  obtain n' answer where q: "query_attempts rpc n (nat (pol_maxRetries p)) None start e = (n', answer)"
    by (metis surj_pair)
  define r where "r = and_then answer (process_page known previousEnd start e)"
  show ?case
  proof (cases "start \<le> toBlock")
    case False
    then have "result = known" using less.prems(2) by (subst (asm) scan_pages.simps) simp
    then show ?thesis using less.prems False by auto
  next
    case True
    note step = scan_pages_step[OF True e_def q r_def]
    obtain logs known' where a: "answer = Inr logs" and m: "merge_logs known logs = Inr known'"
      and rk: "r = Inr known'"
      using less.prems(2) step unfolding r_def process_page_def by (cases r) (auto simp: r_def process_page_def)
    obtain c where c: "rpc c start e = Inr logs"
      using query_attempts_answer[of rpc n "nat (pol_maxRetries p)" None start e n' logs] q a
        valid_policy_bounds[OF assms(1)] by auto
    have se: "start \<le> e" "e \<le> toBlock" using True valid_policy_bounds[OF assms(1)] by (auto simp: e_def)
    have new: "answered rpc lo toBlock known' b" if "start \<le> b" "b \<le> e" for b
      using that c se less.prems(1) merge_logs_adds[OF m] unfolding answered_def by blast
    have old: "answered rpc lo toBlock known' b" if "lo \<le> b" "b < start" for b
      using less.prems(4) that merge_logs_keeps[OF m] unfolding answered_def by blast
    have ix: "indexed known'" by (rule merge_logs_indexed[OF m less.prems(3)])
    have origin: "map_of known' i = Some l \<Longrightarrow> map_of known i = Some l \<or>
       (\<exists>m s e logs. rpc m s e = Inr logs \<and> l \<in> set logs)" for i l
      using merge_logs_only[OF m] c by blast
    show ?thesis
    proof (cases "e = toBlock")
      case True
      then have "result = known'" using step rk less.prems(2) by simp
      then show ?thesis using ix new old origin True by (meson not_le_imp_less)
    next
      case False
      note np = next_page_closer[OF assms(1) \<open>start \<le> toBlock\<close> e_def False]
      have sc: "scan_pages rpc p toBlock n' known' (Some e) (e - pol_reorgOverlapBlocks p + 1) = Some (Inr result)"
        using step rk False less.prems(2) by simp
      have covered: "\<forall>b. lo \<le> b \<and> b < e - pol_reorgOverlapBlocks p + 1 \<longrightarrow> answered rpc lo toBlock known' b"
        using new old np(3) by (meson less_le_trans not_le order_less_imp_le)
      have "lo \<le> e - pol_reorgOverlapBlocks p + 1" using np(2) less.prems(1) by simp
      note ih = less.hyps[OF np(1) this sc ix covered]
      show ?thesis
      proof (intro conjI allI impI)
        show "indexed result" using ih by simp
        show "answered rpc lo toBlock result b" if "lo \<le> b \<and> b \<le> toBlock" for b using ih that by simp
        show "map_of known i = Some l \<or> (\<exists>m s e logs. rpc m s e = Inr logs \<and> l \<in> set logs)"
          if "map_of result i = Some l" for i l
        proof (cases "map_of known' i = Some l")
          case True
          then show ?thesis by (rule origin)
        next
          case False
          then show ?thesis using ih that by blast
        qed
      qed
    qed
  qed
qed

section \<open>What the overlap check accepts\<close>

lemma check_expected_Inr:
  "check_expected observed es = Inr u \<longleftrightarrow>
     (\<forall>(i, previous) \<in> set es. \<exists>l. map_of observed i = Some l \<and> compareLogCanonicality previous l)"
  by (cases u; induction observed es rule: check_expected.induct) (auto split: option.splits)

lemma check_observed_Inr:
  "check_observed expected os = Inr u \<longleftrightarrow> (\<forall>(i, l) \<in> set os. map_of expected i \<noteq> None)"
  by (cases u; induction expected os rule: check_observed.induct) auto

lemma map_of_filter_distinct:
  assumes "distinct (map fst b)"
  shows "map_of (filter (\<lambda>(i, l). P l) b) i = Some l \<longleftrightarrow> map_of b i = Some l \<and> P l"
proof -
  have "distinct (map fst (filter (\<lambda>(i, l). P l) b))"
    using assms by (induction b) auto
  then show ?thesis using assms by (auto simp: map_of_eq_Some_iff)
qed

lemma identity_map_keys:
  "identity_map acc ls = Inr acc' \<Longrightarrow> distinct (map fst acc) \<Longrightarrow>
   distinct (map fst acc') \<and>
   (\<forall>i. (map_of acc' i \<noteq> None) = (map_of acc i \<noteq> None \<or> (\<exists>l \<in> set ls. logIdentity l = Inr i))) \<and>
   (\<forall>i l. map_of acc' i = Some l \<longrightarrow> map_of acc i = Some l \<or> (l \<in> set ls \<and> logIdentity l = Inr i))"
proof (induction ls arbitrary: acc)
  case (Cons m ls)
  then obtain j where j: "logIdentity m = Inr j" and r: "identity_map (AList.update j m acc) ls = Inr acc'"
    by auto
  have "distinct (map fst (AList.update j m acc))"
    using Cons.prems(2) by (simp add: distinct_update)
  from Cons.IH[OF r this] show ?case
    using j by (auto split: if_splits)
qed simp

lemma identity_map_identities:
  "identity_map acc (filter P ls) = Inr acc' \<Longrightarrow> l \<in> set ls \<Longrightarrow> P l \<Longrightarrow> \<exists>i. logIdentity l = Inr i"
  by (induction ls arbitrary: acc) (auto split: if_splits)

lemma process_page_overlap:
  assumes "process_page known (Some previousEnd) start e page = Inr known'" and "indexed known"
    and "b = min previousEnd e"
  shows "(\<forall>i l. map_of known i = Some l \<and> block_in start b l \<longrightarrow>
      (\<exists>l' \<in> set page. logIdentity l' = Inr i \<and> block_in start b l' \<and> compareLogCanonicality l l')) \<and>
    (\<forall>l \<in> set page. block_in start b l \<longrightarrow>
      (\<exists>i l'. logIdentity l = Inr i \<and> map_of known i = Some l' \<and> block_in start b l'))"
proof -
  let ?expected = "filter (\<lambda>(i, l). block_in start b l) known"
  have dist: "distinct (map fst known)" using assms(2) by (simp add: indexed_def)
  note exp = map_of_filter_distinct[OF dist, of "block_in start b"]
  obtain observed where o: "identity_map [] (filter (block_in start b) page) = Inr observed"
    and ce: "check_expected observed ?expected = Inr ()" and co: "check_observed ?expected observed = Inr ()"
    using assms(1,3) by (auto simp: process_page_def check_overlap_def Let_def)
  have obs: "\<And>i. (map_of observed i \<noteq> None) = (\<exists>l \<in> set page. block_in start b l \<and> logIdentity l = Inr i)"
    "\<And>i l. map_of observed i = Some l \<Longrightarrow> l \<in> set page \<and> block_in start b l \<and> logIdentity l = Inr i"
    using identity_map_keys[OF o] by auto
  have "\<exists>l' \<in> set page. logIdentity l' = Inr i \<and> block_in start b l' \<and> compareLogCanonicality l l'"
    if "map_of known i = Some l" "block_in start b l" for i l
  proof -
    have "(i, l) \<in> set ?expected" using that by (auto dest: map_of_SomeD)
    then show ?thesis using ce obs(2) by (fastforce simp: check_expected_Inr)
  qed
  moreover have "\<exists>i l'. logIdentity l = Inr i \<and> map_of known i = Some l' \<and> block_in start b l'"
    if l: "l \<in> set page" "block_in start b l" for l
  proof -
    have "\<exists>i. logIdentity l = Inr i"
      using o l by (rule identity_map_identities)
    then obtain i where i: "logIdentity l = Inr i" ..
    then obtain k where "map_of observed i = Some k" using obs(1)[of i] l by auto
    then have "map_of ?expected i \<noteq> None" using co by (fastforce simp: check_observed_Inr dest: map_of_SomeD)
    then show ?thesis using i exp by auto
  qed
  ultimately show ?thesis by blast
qed

section \<open>A stable provider\<close>

text \<open>
  The chain a provider serves consistently: every answer for a range is exactly the chain's logs in
  that range, and of any \<open>maxRetries\<close> consecutive attempts one succeeds.
\<close>

definition well_identified :: "rpc_log list \<Rightarrow> bool" where
  "well_identified chain \<longleftrightarrow>
     (\<forall>l \<in> set chain. \<exists>i. logIdentity l = Inr i) \<and> distinct (map logIdentity chain)"

definition serves :: "log_rpc \<Rightarrow> rpc_log list \<Rightarrow> bool" where
  "serves rpc chain \<longleftrightarrow> (\<forall>n s e page. rpc n s e = Inr page \<longrightarrow> page = filter (block_in s e) chain)"

definition recovers :: "log_rpc \<Rightarrow> nat \<Rightarrow> bool" where
  "recovers rpc retries \<longleftrightarrow> (\<forall>n s e. \<exists>k < retries. \<exists>page. rpc (n + k) s e = Inr page)"

lemma same_identity:
  "well_identified chain \<Longrightarrow> l \<in> set chain \<Longrightarrow> k \<in> set chain \<Longrightarrow> logIdentity l = Inr i \<Longrightarrow>
   logIdentity k = Inr i \<Longrightarrow> l = k"
  by (auto simp: well_identified_def distinct_map inj_on_def)

definition holds_range :: "rpc_log list \<Rightarrow> int \<Rightarrow> int \<Rightarrow> known_logs \<Rightarrow> bool" where
  "holds_range chain lo hi known \<longleftrightarrow> indexed known \<and>
     (\<forall>i l. map_of known i = Some l \<longleftrightarrow> l \<in> set chain \<and> block_in lo hi l \<and> logIdentity l = Inr i)"

lemma merge_stable:
  assumes "well_identified chain"
  shows "set ls \<subseteq> set chain \<Longrightarrow> indexed known \<Longrightarrow> (\<forall>i l. map_of known i = Some l \<longrightarrow> l \<in> set chain) \<Longrightarrow>
    \<exists>known'. merge_logs known ls = Inr known' \<and> indexed known' \<and>
      (\<forall>i l. map_of known' i = Some l \<longleftrightarrow> map_of known i = Some l \<or> (l \<in> set ls \<and> logIdentity l = Inr i))"
proof (induction ls arbitrary: known)
  case (Cons m ls)
  then obtain i where i: "logIdentity m = Inr i" using assms by (auto simp: well_identified_def)
  have prev: "k = m" if "map_of known i = Some k" for k
    using that Cons.prems same_identity[OF assms _ _ _ i] by (auto simp: indexed_def)
  have "indexed (AList.update i m known)" by (rule indexed_update[OF Cons.prems(2) i])
  moreover have "\<forall>j l. map_of (AList.update i m known) j = Some l \<longrightarrow> l \<in> set chain"
    using Cons.prems by auto
  ultimately obtain known' where k: "merge_logs (AList.update i m known) ls = Inr known'" "indexed known'"
    and m: "\<And>j l. map_of known' j = Some l \<longleftrightarrow>
      map_of (AList.update i m known) j = Some l \<or> (l \<in> set ls \<and> logIdentity l = Inr j)"
    using Cons.IH[of "AList.update i m known"] Cons.prems(1) by auto
  have "merge_logs known (m # ls) = Inr known'"
    using i k prev by (auto split: option.splits)
  moreover have "map_of known' j = Some l \<longleftrightarrow>
      map_of known j = Some l \<or> (l \<in> set (m # ls) \<and> logIdentity l = Inr j)" for j l
    using m[of j l] i prev by auto
  ultimately show ?case using k(2) by blast
qed simp

lemma identity_map_stable:
  assumes "well_identified chain"
  shows "set ls \<subseteq> set chain \<Longrightarrow> \<exists>acc'. identity_map acc ls = Inr acc'"
proof (induction ls arbitrary: acc)
  case (Cons m ls)
  then obtain i where "logIdentity m = Inr i" using assms by (auto simp: well_identified_def)
  with Cons show ?case by auto
qed simp

lemma overlap_stable:
  assumes w: "well_identified chain" and h: "holds_range chain lo previousEnd known"
    and "lo \<le> start" and "b \<le> previousEnd" and "b \<le> e"
  shows "check_overlap known (filter (block_in start e) chain) start b = Inr ()"
proof -
  let ?expected = "filter (\<lambda>(i, l). block_in start b l) known"
  let ?page = "filter (block_in start b) (filter (block_in start e) chain)"
  have dist: "distinct (map fst known)" using h by (simp add: holds_range_def indexed_def)
  have exp: "map_of ?expected i = Some l \<longleftrightarrow> l \<in> set chain \<and> block_in start b l \<and> logIdentity l = Inr i" for i l
    using map_of_filter_distinct[OF dist, of "block_in start b"] h assms(3,4)
    by (auto simp: holds_range_def block_in_def)
  have sub: "set ?page \<subseteq> set chain" by auto
  obtain observed where o: "identity_map [] ?page = Inr observed"
    using identity_map_stable[OF w sub] by blast
  have page: "l \<in> set ?page \<longleftrightarrow> l \<in> set chain \<and> block_in start b l" for l
    using assms(5) by (auto simp: block_in_def)
  have obs: "\<And>i. (map_of observed i \<noteq> None) = (\<exists>l \<in> set ?page. logIdentity l = Inr i)"
    "\<And>i l. map_of observed i = Some l \<Longrightarrow> l \<in> set ?page \<and> logIdentity l = Inr i"
    "distinct (map fst observed)"
    using identity_map_keys[OF o] by auto
  have "check_expected observed ?expected = Inr ()"
    unfolding check_expected_Inr
  proof (clarify)
    fix i l
    assume "(i, l) \<in> set ?expected"
    moreover have "distinct (map fst ?expected)" using dist by (induction known) auto
    ultimately have "map_of ?expected i = Some l" by simp
    then have l: "l \<in> set chain" "block_in start b l" "logIdentity l = Inr i" using exp by auto
    then obtain k where k: "map_of observed i = Some k" using obs(1)[of i] page by fastforce
    then have "k = l" using obs(2)[OF k] page l same_identity[OF w] by blast
    then show "\<exists>k. map_of observed i = Some k \<and> compareLogCanonicality l k" using k by simp
  qed
  moreover have "map_of ?expected i \<noteq> None" if "(i, l) \<in> set observed" for i l
  proof -
    have "map_of observed i = Some l" using that obs(3) by simp
    then have "map_of ?expected i = Some l" using obs(2) page exp by blast
    then show ?thesis by simp
  qed
  then have "check_observed ?expected observed = Inr ()"
    by (auto simp: check_observed_Inr)
  ultimately show ?thesis using o by (simp add: check_overlap_def)
qed

lemma page_stable:
  assumes w: "well_identified chain" and h: "holds_range chain lo hi known"
    and prev: "previousEnd = None \<and> hi < start \<or> previousEnd = Some hi" and "lo \<le> start" and "start \<le> hi + 1"
    and "start \<le> e" and "hi \<le> e"
  shows "\<exists>known'. process_page known previousEnd start e (filter (block_in start e) chain) = Inr known' \<and>
    holds_range chain lo e known'"
proof -
  let ?page = "filter (block_in start e) chain"
  have check: "(case previousEnd of None \<Rightarrow> Inr () | Some p \<Rightarrow> check_overlap known ?page start (min p e)) = Inr ()"
    using prev overlap_stable[OF w h \<open>lo \<le> start\<close>, of "min hi e" e] by (auto split: option.splits)
  have ix: "indexed known" and sub: "\<forall>i l. map_of known i = Some l \<longrightarrow> l \<in> set chain"
    using h by (auto simp: holds_range_def)
  have "set ?page \<subseteq> set chain" by auto
  from merge_stable[OF w this ix sub] obtain known' where k: "merge_logs known ?page = Inr known'" "indexed known'"
    and m: "\<And>i l. map_of known' i = Some l \<longleftrightarrow> map_of known i = Some l \<or> (l \<in> set ?page \<and> logIdentity l = Inr i)"
    by blast
  have "holds_range chain lo e known'"
    using k(2) m h assms(4-) by (auto simp: holds_range_def block_in_def)
  moreover have "process_page known previousEnd start e ?page = Inr known'"
    using check k(1) by (simp add: process_page_def)
  ultimately show ?thesis by blast
qed

lemma attempts_recover:
  assumes "\<exists>j < k. \<exists>page. rpc (n + j) s e = Inr page"
  shows "\<exists>n' page. query_attempts rpc n k lastErr s e = (n', Inr page)"
  using assms
proof (induction k arbitrary: n lastErr)
  case (Suc k)
  show ?case
  proof (cases "rpc n s e")
    case (Inl m)
    from Suc.prems obtain j page where j: "j < Suc k" "rpc (n + j) s e = Inr page" by blast
    then have "j \<noteq> 0" using Inl by (cases j) auto
    then have "j - 1 < k" "rpc (Suc n + (j - 1)) s e = Inr page" using j by auto
    then show ?thesis using Suc.IH[of "Suc n" "Some m"] Inl by fastforce
  qed simp
qed simp

lemma scan_pages_stable:
  assumes p: "valid_policy p" and w: "well_identified chain" and sv: "serves rpc chain"
    and rc: "recovers rpc (nat (pol_maxRetries p))"
    and h: "holds_range chain lo hi known"
    and prev: "previousEnd = None \<and> hi < start \<or> previousEnd = Some hi"
    and "lo \<le> start" and "start \<le> hi + 1" and "start \<le> toBlock" and "hi \<le> toBlock"
    and "hi \<le> start + pol_logChunkSize p - 1"
  shows "\<exists>known'. scan_pages rpc p toBlock n known previousEnd start = Some (Inr known') \<and>
    holds_range chain lo toBlock known'"
  using h prev assms(7-)
proof (induction "nat (toBlock - start)" arbitrary: n known previousEnd start hi rule: less_induct)
  case less
  define e where "e = min (start + pol_logChunkSize p - 1) toBlock"
  have se: "start \<le> e" "e \<le> toBlock" "hi \<le> e"
    using less.prems(5-7) valid_policy_bounds[OF p] by (auto simp: e_def)
  have "\<exists>j < nat (pol_maxRetries p). \<exists>page. rpc (n + j) start e = Inr page"
    using rc by (simp add: recovers_def)
  then obtain n' page
    where q: "query_attempts rpc n (nat (pol_maxRetries p)) None start e = (n', Inr page)"
    using attempts_recover[of "nat (pol_maxRetries p)" rpc n start e None] by blast
  have "0 < nat (pol_maxRetries p)" using valid_policy_bounds[OF p] by simp
  with query_attempts_answer[OF q] sv have page: "page = filter (block_in start e) chain"
    by (auto simp: serves_def)
  obtain known' where k: "process_page known previousEnd start e page = Inr known'"
    and h': "holds_range chain lo e known'"
    using page_stable[OF w less.prems(1,2,3,4) se(1,3)] page by blast
  note step = scan_pages_step[OF less.prems(5) e_def q refl, of known previousEnd, simplified, unfolded k, simplified]
  show ?case
  proof (cases "e = toBlock")
    case True
    then show ?thesis using step h' by simp
  next
    case False
    note np = next_page_closer[OF p less.prems(5) e_def False]
    have "\<exists>known''. scan_pages rpc p toBlock n' known' (Some e) (e - pol_reorgOverlapBlocks p + 1) = Some (Inr known'') \<and>
      holds_range chain lo toBlock known''"
      by (rule less.hyps[OF np(1) h']) (use np less.prems(3) valid_policy_bounds[OF p] in auto)
    then show ?thesis using step False by simp
  qed
qed

section \<open>Properties of a historical query\<close>

lemma queryHistoricalLogs_Inr:
  assumes "queryHistoricalLogs rpc fromBlock toBlock p = Some (Inr logs)"
  shows "valid_policy p" "0 \<le> fromBlock"
    "toBlock < fromBlock \<and> logs = [] \<or> fromBlock \<le> toBlock \<and>
      (\<exists>known. scan_pages rpc p toBlock 0 [] None fromBlock = Some (Inr known) \<and>
         logs = sort_key log_position (map snd known))"
proof -
  obtain q where v: "validateFinalityPolicy p = Inr q" and b: "0 \<le> fromBlock"
    and r: "if toBlock < fromBlock then logs = [] else
      (\<exists>known. scan_pages rpc p toBlock 0 [] None fromBlock = Some (Inr known) \<and>
         logs = js_sort compareLogOrder (map snd known))"
    using assms by (auto simp: queryHistoricalLogs_def split: sum.splits if_splits)
  show "valid_policy p" using v by (simp add: valid_policy_def validateFinalityPolicy_Inr)
  show "0 \<le> fromBlock" by (rule b)
  have "js_sort compareLogOrder = sort_key log_position"
    by (rule ext) (rule js_sort_sort_key, auto simp: compareLogOrder_def log_position_def js_or_def)
  then show "toBlock < fromBlock \<and> logs = [] \<or> fromBlock \<le> toBlock \<and>
      (\<exists>known. scan_pages rpc p toBlock 0 [] None fromBlock = Some (Inr known) \<and>
         logs = sort_key log_position (map snd known))"
    using r by (auto split: if_splits)
qed

lemma query_total: "\<exists>result. queryHistoricalLogs rpc fromBlock toBlock p = Some result"
proof (cases "validateFinalityPolicy p")
  case (Inr q)
  then have "valid_policy p" by (simp add: valid_policy_def validateFinalityPolicy_Inr)
  from scan_pages_returns[OF this] obtain r where
    "scan_pages rpc p toBlock 0 [] None fromBlock = Some r" by blast
  then show ?thesis by (simp add: queryHistoricalLogs_def split: sum.split)
qed (simp add: queryHistoricalLogs_def)

text \<open>
   Nothing reported is dropped: when a query returns, its logs are in canonical order and have
  distinct identities, every block of the range was covered by an answered call whose logs are all in
  the result (with the same identity, block and transaction), and every log of the result came from an
  answer.
\<close>

theorem query_keeps_reported_logs:
  assumes "queryHistoricalLogs rpc fromBlock toBlock p = Some (Inr logs)"
  shows "sorted (map log_position logs) \<and> distinct (map logIdentity logs) \<and>
    (\<forall>b. fromBlock \<le> b \<and> b \<le> toBlock \<longrightarrow>
      (\<exists>n s e page. s \<le> b \<and> b \<le> e \<and> rpc n s e = Inr page \<and>
         (\<forall>l \<in> set page. \<exists>l' \<in> set logs. logIdentity l' = logIdentity l \<and> compareLogCanonicality l l'))) \<and>
    (\<forall>l \<in> set logs. \<exists>n s e page. rpc n s e = Inr page \<and> l \<in> set page)"
proof (cases "toBlock < fromBlock")
  case True
  then show ?thesis using queryHistoricalLogs_Inr(3)[OF assms] by auto
next
  case False
  then obtain known where k: "scan_pages rpc p toBlock 0 [] None fromBlock = Some (Inr known)"
    and logs: "logs = sort_key log_position (map snd known)"
    using queryHistoricalLogs_Inr(3)[OF assms] by auto
  have "indexed known \<and> (\<forall>b. fromBlock \<le> b \<and> b \<le> toBlock \<longrightarrow> answered rpc fromBlock toBlock known b) \<and>
    (\<forall>i l. map_of known i = Some l \<longrightarrow> map_of [] i = Some l \<or>
       (\<exists>m s e page. rpc m s e = Inr page \<and> l \<in> set page))"
    by (rule scan_pages_answered[OF queryHistoricalLogs_Inr(1)[OF assms] _ k]) auto
  then have ix: "indexed known"
    and ans: "\<And>b. fromBlock \<le> b \<Longrightarrow> b \<le> toBlock \<Longrightarrow> answered rpc fromBlock toBlock known b"
    and src: "\<And>i l. map_of known i = Some l \<Longrightarrow> \<exists>m s e page. rpc m s e = Inr page \<and> l \<in> set page"
    by auto
  have mem: "l \<in> set logs \<longleftrightarrow> (\<exists>i. map_of known i = Some l)" for l
    using ix by (force simp: logs indexed_def)
  have ident: "map logIdentity (map snd known) = map Inr (map fst known)"
    using ix by (auto simp: indexed_def dest: map_of_is_SomeI)
  have rep: "\<exists>l' \<in> set logs. logIdentity l' = logIdentity l \<and> compareLogCanonicality l l'"
    if r: "represented known l" for l
  proof -
    obtain i l' where "logIdentity l = Inr i" "map_of known i = Some l'" "compareLogCanonicality l l'"
      using r by (auto simp: represented_def)
    then show ?thesis using ix mem[of l'] by (intro bexI[of _ l']) (auto simp: indexed_def)
  qed
  have "distinct (map logIdentity (map snd known))"
    using ix unfolding ident by (simp add: indexed_def distinct_map inj_on_def)
  then have "distinct (map logIdentity logs)"
    unfolding logs by (metis mset_eq_imp_distinct_iff mset_map mset_sort)
  moreover have "sorted (map log_position logs)" by (simp add: logs)
  moreover have "\<exists>n s e page. s \<le> b \<and> b \<le> e \<and> rpc n s e = Inr page \<and>
      (\<forall>l \<in> set page. \<exists>l' \<in> set logs. logIdentity l' = logIdentity l \<and> compareLogCanonicality l l')"
    if "fromBlock \<le> b \<and> b \<le> toBlock" for b
    using ans[of b] that rep unfolding answered_def by meson
  moreover have "\<exists>n s e page. rpc n s e = Inr page \<and> l \<in> set page" if "l \<in> set logs" for l
    using mem[of l] that src by blast
  ultimately show ?thesis by blast
qed

definition demo_finality_policy :: finality_policy where
  "demo_finality_policy = \<lparr>pol_mode = ''confirmations'', pol_confirmations = 2, pol_logChunkSize = 3,
     pol_reorgOverlapBlocks = 1, pol_maxRetries = 2, pol_retryBaseDelayMs = 0, pol_maxScanRestarts = 1\<rparr>"

definition demo_rpc_log :: "int \<Rightarrow> int \<Rightarrow> rpc_log" where
  "demo_rpc_log b i = \<lparr>log_blockNumber = b, log_blockHash = JStr ''0xB'', log_transactionHash = Some ''0xA'',
     log_transactionIndex = Some 0, log_index = Some i, log_logIndex = None, log_args = []\<rparr>"

definition demo_chain :: "rpc_log list" where
  "demo_chain = [demo_rpc_log 4 2, demo_rpc_log 1 0, demo_rpc_log 3 1]"

text \<open>A provider that fails every other call.\<close>

definition demo_provider :: log_rpc where
  "demo_provider n s e = (if even n then Inl ''timeout'' else Inr (filter (block_in s e) demo_chain))"

lemma demo_query: "\<exists>logs. queryHistoricalLogs demo_provider 0 5 demo_finality_policy = Some (Inr logs)"
proof -
  have "(case queryHistoricalLogs demo_provider 0 5 demo_finality_policy of Some (Inr logs) \<Rightarrow> True | _ \<Rightarrow> False)"
    by code_simp
  then show ?thesis by (auto split: option.splits sum.splits)
qed

theorem query_keeps_reported_logs_witness:
  "\<exists>logs. queryHistoricalLogs demo_provider 0 5 demo_finality_policy = Some (Inr logs) \<and>
     sorted (map log_position logs) \<and> distinct (map logIdentity logs)"
proof -
  obtain logs where r: "queryHistoricalLogs demo_provider 0 5 demo_finality_policy = Some (Inr logs)"
    using demo_query by blast
  from query_keeps_reported_logs[OF r] r show ?thesis by blast
qed

text \<open>
  C38. On a chain that is served consistently the query succeeds and is complete: whatever calls fail in
  between (at most \<open>maxRetries - 1\<close> in a row), it returns exactly the chain's logs of the range, once
  each, in canonical order; the overlap check raises no false alarm.
\<close>

theorem query_complete:
  assumes "validateFinalityPolicy p = Inr p" and "0 \<le> fromBlock" and "safe_integer fromBlock"
    and "safe_integer toBlock" and "fromBlock \<le> toBlock"
    and "well_identified chain" and "serves rpc chain" and "recovers rpc (nat (pol_maxRetries p))"
  shows "\<exists>logs. queryHistoricalLogs rpc fromBlock toBlock p = Some (Inr logs) \<and>
    mset logs = mset (filter (block_in fromBlock toBlock) chain) \<and> sorted (map log_position logs)"
proof -
  have p: "valid_policy p" using assms(1) by (simp add: valid_policy_def)
  have h: "holds_range chain fromBlock (fromBlock - 1) []"
    by (auto simp: holds_range_def block_in_def)
  have "\<exists>known. scan_pages rpc p toBlock 0 [] None fromBlock = Some (Inr known) \<and>
    holds_range chain fromBlock toBlock known"
    by (rule scan_pages_stable[OF p assms(6-8) h]) (use assms(5) valid_policy_bounds[OF p] in auto)
  then obtain known where k: "scan_pages rpc p toBlock 0 [] None fromBlock = Some (Inr known)"
    and hr: "holds_range chain fromBlock toBlock known" by blast
  have "js_sort compareLogOrder = sort_key log_position"
    by (rule ext) (rule js_sort_sort_key, auto simp: compareLogOrder_def log_position_def js_or_def)
  then have q: "queryHistoricalLogs rpc fromBlock toBlock p = Some (Inr (sort_key log_position (map snd known)))"
    using assms(1-5) k by (simp add: queryHistoricalLogs_def requireInteger_def)
  have ix: "indexed known" using hr by (simp add: holds_range_def)
  then have dk: "distinct (map fst known)" and ids: "\<And>i l. (i, l) \<in> set known \<Longrightarrow> logIdentity l = Inr i"
    by (auto simp: indexed_def dest: map_of_is_SomeI)
  have "inj_on snd (set known)"
  proof (rule inj_onI)
    fix x y
    assume m: "x \<in> set known" "y \<in> set known" and eq: "snd x = snd y"
    have "logIdentity (snd x) = Inr (fst x)" "logIdentity (snd y) = Inr (fst y)"
      using m by (simp_all add: ids)
    with eq show "x = y" by (simp add: prod_eq_iff)
  qed
  then have "distinct (map snd known)"
    using dk by (simp add: distinct_map)
  moreover have "distinct (filter (block_in fromBlock toBlock) chain)"
    using assms(6) by (simp add: well_identified_def distinct_map)
  moreover have "set (map snd known) = set (filter (block_in fromBlock toBlock) chain)"
  proof -
    have "l \<in> set (map snd known) \<longleftrightarrow> (\<exists>i. map_of known i = Some l)" for l
      using dk by force
    then show ?thesis
      using hr assms(6) by (auto simp: holds_range_def well_identified_def)
  qed
  ultimately have "mset (map snd known) = mset (filter (block_in fromBlock toBlock) chain)"
    by (metis set_eq_iff_mset_eq_distinct)
  with q show ?thesis by simp
qed

theorem query_complete_witness:
  "\<exists>logs. queryHistoricalLogs demo_provider 0 5 demo_finality_policy = Some (Inr logs) \<and>
    mset logs = mset (filter (block_in 0 5) demo_chain) \<and> sorted (map log_position logs)"
proof (rule query_complete)
  show "validateFinalityPolicy demo_finality_policy = Inr demo_finality_policy" by code_simp
  show "well_identified demo_chain"
    by (simp add: well_identified_def demo_chain_def demo_rpc_log_def logIdentity_def rpc_log_index_def
        show_int_inject)
  show "serves demo_provider demo_chain" by (simp add: serves_def demo_provider_def)
  show "recovers demo_provider (nat (pol_maxRetries demo_finality_policy))"
    unfolding recovers_def
  proof (intro allI)
    fix n s e
    show "\<exists>k < nat (pol_maxRetries demo_finality_policy). \<exists>page. demo_provider (n + k) s e = Inr page"
      by (rule exI[of _ "if even n then 1 else 0"]) (simp add: demo_provider_def demo_finality_policy_def)
  qed
qed (simp_all add: safe_integer_def)

text \<open>
   A reorganisation inside the overlap is never missed: a page is accepted only if the logs it
  reports in the blocks scanned before are exactly those already known there, each in the same block
  and transaction.
\<close>

theorem page_rejects_reorg:
  assumes "process_page known (Some previousEnd) start e page = Inr known'" and "indexed known"
  shows "(\<forall>i l. map_of known i = Some l \<and> block_in start (min previousEnd e) l \<longrightarrow>
      (\<exists>l' \<in> set page. logIdentity l' = Inr i \<and> block_in start (min previousEnd e) l' \<and>
         compareLogCanonicality l l')) \<and>
    (\<forall>l \<in> set page. block_in start (min previousEnd e) l \<longrightarrow>
      (\<exists>i l'. logIdentity l = Inr i \<and> map_of known i = Some l' \<and>
         block_in start (min previousEnd e) l'))"
  by (rule process_page_overlap[OF assms refl])

theorem page_rejects_reorg_witness:
  "\<exists>l' \<in> set [demo_rpc_log 3 1, demo_rpc_log 4 2].
     logIdentity l' = Inr ''0xa:1'' \<and> block_in 3 3 l' \<and> compareLogCanonicality (demo_rpc_log 3 1) l'"
proof -
  let ?known = "[(''0xa:1'', demo_rpc_log 3 1)]"
  have id: "logIdentity (demo_rpc_log 3 1) = Inr ''0xa:1''" by code_simp
  have "returns (process_page ?known (Some 3) 3 5 [demo_rpc_log 3 1, demo_rpc_log 4 2])" by code_simp
  then obtain known' where "process_page ?known (Some 3) 3 5 [demo_rpc_log 3 1, demo_rpc_log 4 2] = Inr known'"
    by (auto simp: returns_iff)
  from page_rejects_reorg[OF this] id show ?thesis
    by (auto simp: indexed_def demo_rpc_log_def block_in_def split: if_splits)
qed

section \<open>Scanning the whole catalog\<close>

text \<open>
  The contracts a scan runs on: which ABI declares which event, whether a filter can be built for it,
  and the provider that answers its queries. All of this is ethers' code.
\<close>

record scan_contracts =
  has_contract :: "protocol_event \<Rightarrow> bool"
  has_event :: "protocol_event \<Rightarrow> bool"
  has_filter :: "protocol_event \<Rightarrow> bool"
  event_rpc :: "protocol_event \<Rightarrow> log_rpc"

record scanned_event = event +
  ev_blockHash :: jsval

definition scanned_of_log :: "protocol_event \<Rightarrow> rpc_log \<Rightarrow> scanned_event" where
  "scanned_of_log k l =
     \<lparr>kind = k, args = log_args l, blockNumber = log_blockNumber l,
      transactionIndex = log_transactionIndex l, index = log_index l, logIndex = log_logIndex l,
      blockTimestamp = JUndefined,
      transactionHash = (case log_transactionHash l of None \<Rightarrow> JUndefined | Some h \<Rightarrow> JStr h),
      ev_blockHash = log_blockHash l\<rparr>"

text \<open>
  The name an event has in the deployed ABI: the resolver's transcript event may still carry its
  former name.
\<close>

definition abi_event :: "scan_contracts \<Rightarrow> protocol_event \<Rightarrow> query_error + protocol_event" where
  "abi_event cs k =
     (if has_event cs k then Inr k
      else if k = Challenges ResolverTranscriptPosted
      then require (has_event cs (Challenges ResolverDecisionPosted)) Abi_event_missing
             (Inr (Challenges ResolverDecisionPosted))
      else Inl Abi_event_missing)"

fun scan_events ::
    "scan_contracts \<Rightarrow> int \<Rightarrow> int \<Rightarrow> finality_policy \<Rightarrow> protocol_event list
       \<Rightarrow> (query_error + scanned_event list) option" where
  "scan_events cs fromBlock toBlock p [] = Some (Inr [])"
| "scan_events cs fromBlock toBlock p (k # ks) =
     (if \<not> has_contract cs k then Some (Inl Unknown_source)
      else case abi_event cs k of
        Inl err \<Rightarrow> Some (Inl err)
      | Inr abi \<Rightarrow>
          if \<not> has_filter cs abi then Some (Inl Abi_event_missing)
          else (case queryHistoricalLogs (event_rpc cs abi) fromBlock toBlock p of
                  None \<Rightarrow> None
                | Some (Inl err) \<Rightarrow> Some (Inl err)
                | Some (Inr logs) \<Rightarrow>
                    map_option (\<lambda>rest. and_then rest (\<lambda>evs. Inr (map (scanned_of_log abi) logs @ evs)))
                      (scan_events cs fromBlock toBlock p ks)))"

definition scanEventCatalog ::
    "scan_contracts \<Rightarrow> int \<Rightarrow> int \<Rightarrow> finality_policy \<Rightarrow> protocol_event list
       \<Rightarrow> (query_error + scanned_event list \<times> protocol_event list) option" where
  "scanEventCatalog cs fromBlock toBlock p names =
     map_option (\<lambda>r. and_then r (\<lambda>evs.
         Inr (js_sort (\<lambda>l r. compareEventOrder (event.truncate l) (event.truncate r)) evs, names)))
       (scan_events cs fromBlock toBlock p names)"

lemma abi_event_catalog:
  "abi_event cs k = Inr abi \<Longrightarrow> normalizeCoverageName abi = normalizeCoverageName k"
  by (auto simp: abi_event_def if_Inr)

lemma scan_events_Inr:
  "scan_events cs f t p ks = Some (Inr evs) \<Longrightarrow>
   (\<forall>ev \<in> set evs. \<exists>k \<in> set ks. normalizeCoverageName (kind ev) = normalizeCoverageName k) \<and>
   (\<forall>k \<in> set ks. \<exists>abi logs. abi_event cs k = Inr abi \<and>
      queryHistoricalLogs (event_rpc cs abi) f t p = Some (Inr logs) \<and>
      (\<forall>l \<in> set logs. scanned_of_log abi l \<in> set evs))"
proof (induction ks arbitrary: evs)
  case (Cons k ks)
  from Cons.prems obtain abi logs rest where a: "abi_event cs k = Inr abi"
    and q: "queryHistoricalLogs (event_rpc cs abi) f t p = Some (Inr logs)"
    and r: "scan_events cs f t p ks = Some (Inr rest)"
    and evs: "evs = map (scanned_of_log abi) logs @ rest"
    by (auto split: if_splits sum.splits option.splits)
  have "kind (scanned_of_log abi l) = abi" for l by (simp add: scanned_of_log_def)
  with Cons.IH[OF r] a q evs abi_event_catalog[OF a] show ?case by auto
qed simp

lemma scan_events_terminates: "\<exists>r. scan_events cs f t p ks = Some r"
proof (induction ks)
  case (Cons k ks)
  then obtain rest where rest: "scan_events cs f t p ks = Some rest" ..
  show ?case
  proof (cases "abi_event cs k")
    case (Inl err)
    then show ?thesis by simp
  next
    case (Inr abi)
    obtain q where "queryHistoricalLogs (event_rpc cs abi) f t p = Some q"
      using query_total[of "event_rpc cs abi" f t p] by blast
    then show ?thesis using Inr rest by (cases q) simp_all
  qed
qed simp

text \<open>
  C39. Historical queries and catalog scans always end: for every provider, block range and policy they return logs or an
  error, because a policy whose pages would not advance is rejected first.
\<close>

theorem query_terminates:
  "(\<exists>result. queryHistoricalLogs rpc fromBlock toBlock p = Some result) \<and>
   (\<exists>result. scanEventCatalog cs fromBlock toBlock p names = Some result)"
  using query_total scan_events_terminates by (auto simp: scanEventCatalog_def)

text \<open>
   A scan of the whole catalog ends, and when it returns, its coverage is complete for the replay,
  every event it found is one the replay recognizes, and every log of every queried event is in the
  result, in canonical order.
\<close>

theorem scan_feeds_replay:
  assumes "scanEventCatalog cs fromBlock toBlock p event_catalog = Some (Inr (evs, names))"
  shows "coverage_complete (new_coverage names) \<and>
    (\<forall>ev \<in> set evs. normalizeCoverageName (kind ev) \<in> set event_catalog) \<and>
    sorted (map (\<lambda>ev. event_position (event.truncate ev)) evs) \<and>
    (\<forall>k \<in> set event_catalog. \<exists>abi logs. abi_event cs k = Inr abi \<and>
      queryHistoricalLogs (event_rpc cs abi) fromBlock toBlock p = Some (Inr logs) \<and>
      (\<forall>l \<in> set logs. scanned_of_log abi l \<in> set evs))"
proof -
  let ?pos = "\<lambda>ev. event_position (event.truncate ev)"
  obtain raw where r: "scan_events cs fromBlock toBlock p event_catalog = Some (Inr raw)"
    and e: "evs = js_sort (\<lambda>l r. compareEventOrder (event.truncate l) (event.truncate r)) raw"
    and n: "names = event_catalog"
    using assms by (auto simp: scanEventCatalog_def)
  have evs: "evs = sort_key ?pos raw"
    unfolding e by (rule js_sort_sort_key) (rule compareEventOrder_le)
  have norm: "normalizeCoverageName ` set event_catalog = set event_catalog"
    by (simp add: event_catalog_def)
  have "coverage_complete (new_coverage names)"
    by (simp add: n new_coverage_complete norm)
  moreover have "normalizeCoverageName (kind ev) \<in> set event_catalog" if "ev \<in> set evs" for ev
  proof -
    have "\<exists>k \<in> set event_catalog. normalizeCoverageName (kind ev) = normalizeCoverageName k"
      using scan_events_Inr[OF r] that by (simp add: evs)
    then obtain k where "k \<in> set event_catalog" "normalizeCoverageName (kind ev) = normalizeCoverageName k" ..
    then show ?thesis using norm by (metis imageI)
  qed
  moreover have "sorted (map ?pos evs)" by (simp add: evs)
  ultimately show ?thesis using scan_events_Inr[OF r] by (simp add: evs)
qed

definition demo_contracts :: scan_contracts where
  "demo_contracts =
     \<lparr>has_contract = \<lambda>_. True, has_event = \<lambda>k. k \<noteq> Challenges ResolverTranscriptPosted,
      has_filter = \<lambda>_. True,
      event_rpc = \<lambda>k n s e. Inr (if k = Pool Funded then filter (block_in s e) demo_chain else [])\<rparr>"

theorem scan_feeds_replay_witness:
  "\<exists>evs names. scanEventCatalog demo_contracts 0 5 demo_finality_policy event_catalog = Some (Inr (evs, names)) \<and>
     coverage_complete (new_coverage names) \<and> sorted (map (\<lambda>ev. event_position (event.truncate ev)) evs)"
proof -
  have "(case scanEventCatalog demo_contracts 0 5 demo_finality_policy event_catalog of
      Some (Inr (evs, names)) \<Rightarrow> True | _ \<Rightarrow> False)"
    by code_simp
  then obtain evs names where r: "scanEventCatalog demo_contracts 0 5 demo_finality_policy event_catalog = Some (Inr (evs, names))"
    by (auto split: option.splits sum.splits prod.splits)
  from scan_feeds_replay[OF r] r show ?thesis by blast
qed

section \<open>Block timestamps\<close>

text \<open>The retry loop of a read; \<open>op\<close> answers the n-th call.\<close>

fun retryRead :: "(nat \<Rightarrow> string + 'a) \<Rightarrow> nat \<Rightarrow> nat \<Rightarrow> string option \<Rightarrow> nat \<times> (query_error + 'a)" where
  "retryRead read n 0 lastErr =
     (n, Inl (Read_failed (case lastErr of None \<Rightarrow> ''undefined'' | Some m \<Rightarrow> m)))"
| "retryRead read n (Suc k) lastErr =
     (case read n of
        Inr x \<Rightarrow> (Suc n, Inr x)
      | Inl m \<Rightarrow> retryRead read (Suc n) k (Some m))"

record block_header =
  header_hash :: jsval
  header_timestamp :: int

type_synonym block_rpc = "nat \<Rightarrow> jsval \<Rightarrow> string + block_header option"

definition fetch_timestamp ::
    "block_rpc \<Rightarrow> finality_policy \<Rightarrow> nat \<Rightarrow> jsval \<Rightarrow> nat \<times> (query_error + int)" where
  "fetch_timestamp getBlock p n hash =
     (let (n', answer) = retryRead (\<lambda>m. getBlock m hash) n (nat (pol_maxRetries p)) None
      in (n', and_then answer (\<lambda>header.
            case header of
              None \<Rightarrow> Inl Block_not_canonical
            | Some h \<Rightarrow> require (addressKey (header_hash h) = addressKey hash) Block_not_canonical
                          (Inr (header_timestamp h)))))"

fun hydrate_events ::
    "block_rpc \<Rightarrow> finality_policy \<Rightarrow> nat \<Rightarrow> (string \<times> int) list \<Rightarrow> scanned_event list
       \<Rightarrow> query_error + scanned_event list" where
  "hydrate_events getBlock p n timestamps [] = Inr []"
| "hydrate_events getBlock p n timestamps (ev # evs) =
     (let key = addressKey (ev_blockHash ev);
          (n', fetched) =
            (case map_of timestamps key of
               Some t \<Rightarrow> (n, Inr t)
             | None \<Rightarrow> fetch_timestamp getBlock p n (ev_blockHash ev))
      in and_then fetched (\<lambda>t.
         and_then (hydrate_events getBlock p n' (AList.update key t timestamps) evs) (\<lambda>rest.
           Inr (ev\<lparr>blockTimestamp := JInt t\<rparr> # rest))))"

definition hydrateEventTimestamps ::
    "scanned_event list \<Rightarrow> block_rpc \<Rightarrow> finality_policy \<Rightarrow> query_error + scanned_event list" where
  "hydrateEventTimestamps evs getBlock p = hydrate_events getBlock p 0 [] evs"

lemma retryRead_Inr: "retryRead read n k lastErr = (n', Inr x) \<Longrightarrow> \<exists>m. read m = Inr x"
  by (induction read n k lastErr rule: retryRead.induct) (auto split: sum.splits)

definition block_stamp :: "block_rpc \<Rightarrow> string \<Rightarrow> int \<Rightarrow> bool" where
  "block_stamp getBlock key t \<longleftrightarrow>
     (\<exists>m hash h. getBlock m hash = Inr (Some h) \<and> addressKey hash = key \<and>
        addressKey (header_hash h) = key \<and> header_timestamp h = t)"

lemma fetch_timestamp_stamp:
  "fetch_timestamp getBlock p n hash = (n', Inr t) \<Longrightarrow> block_stamp getBlock (addressKey hash) t"
  by (auto simp: fetch_timestamp_def block_stamp_def split: prod.splits option.splits dest!: retryRead_Inr)

lemma hydrate_events_Inr:
  assumes "hydrate_events getBlock p n timestamps evs = Inr out"
    and "\<forall>key t. map_of timestamps key = Some t \<longrightarrow> block_stamp getBlock key t"
  shows "map (\<lambda>ev. ev\<lparr>blockTimestamp := JUndefined\<rparr>) out = map (\<lambda>ev. ev\<lparr>blockTimestamp := JUndefined\<rparr>) evs \<and>
    (\<exists>stamps. (\<forall>key t. map_of timestamps key = Some t \<longrightarrow> stamps key = t) \<and>
       (\<forall>ev \<in> set out. block_stamp getBlock (addressKey (ev_blockHash ev)) (stamps (addressKey (ev_blockHash ev))) \<and>
          blockTimestamp ev = JInt (stamps (addressKey (ev_blockHash ev)))))"
  using assms
proof (induction evs arbitrary: n timestamps out)
  case Nil
  show ?case
  proof
    show "map (\<lambda>ev. ev\<lparr>blockTimestamp := JUndefined\<rparr>) out = map (\<lambda>ev. ev\<lparr>blockTimestamp := JUndefined\<rparr>) []"
      using Nil by simp
    show "\<exists>stamps. (\<forall>key t. map_of timestamps key = Some t \<longrightarrow> stamps key = t) \<and>
       (\<forall>ev \<in> set out. block_stamp getBlock (addressKey (ev_blockHash ev)) (stamps (addressKey (ev_blockHash ev))) \<and>
          blockTimestamp ev = JInt (stamps (addressKey (ev_blockHash ev))))"
      by (rule exI[of _ "\<lambda>key. the (map_of timestamps key)"]) (use Nil in auto)
  qed
next
  case (Cons ev evs)
  let ?key = "addressKey (ev_blockHash ev)"
  obtain n' t rest where f: "(case map_of timestamps ?key of
               Some t \<Rightarrow> (n, Inr t)
             | None \<Rightarrow> fetch_timestamp getBlock p n (ev_blockHash ev)) = (n', Inr t)"
    and r: "hydrate_events getBlock p n' (AList.update ?key t timestamps) evs = Inr rest"
    and out: "out = ev\<lparr>blockTimestamp := JInt t\<rparr> # rest"
    using Cons.prems(1) by (auto simp: Let_def split: prod.splits)
  have t: "block_stamp getBlock ?key t"
    using f Cons.prems(2) fetch_timestamp_stamp by (auto split: option.splits)
  have "\<forall>key u. map_of (AList.update ?key t timestamps) key = Some u \<longrightarrow> block_stamp getBlock key u"
    using t Cons.prems(2) by simp
  from Cons.IH[OF r this] obtain stamps where
    m: "map (\<lambda>ev. ev\<lparr>blockTimestamp := JUndefined\<rparr>) rest = map (\<lambda>ev. ev\<lparr>blockTimestamp := JUndefined\<rparr>) evs"
    and st: "\<forall>key u. map_of (AList.update ?key t timestamps) key = Some u \<longrightarrow> stamps key = u"
    and rest: "\<forall>ev \<in> set rest. block_stamp getBlock (addressKey (ev_blockHash ev)) (stamps (addressKey (ev_blockHash ev))) \<and>
          blockTimestamp ev = JInt (stamps (addressKey (ev_blockHash ev)))"
    by blast
  have "stamps ?key = t" using st by simp
  moreover have "stamps key = u" if "map_of timestamps key = Some u" for key u
    using st f that by (cases "key = ?key") (auto split: if_splits)
  ultimately show ?case
    using m rest t by (intro conjI exI[of _ stamps]) (auto simp: out)
qed

text \<open>
   Hydration only adds timestamps: the events keep their order and all other fields, each gets the
  timestamp of a block the provider returned for its own hash, and events of one block get the same
  one, whatever the provider answers on later calls.
\<close>

theorem hydrate_stamps_blocks:
  assumes "hydrateEventTimestamps evs getBlock p = Inr out"
  shows "map (\<lambda>ev. ev\<lparr>blockTimestamp := JUndefined\<rparr>) out = map (\<lambda>ev. ev\<lparr>blockTimestamp := JUndefined\<rparr>) evs \<and>
    (\<exists>stamps. \<forall>ev \<in> set out. blockTimestamp ev = JInt (stamps (addressKey (ev_blockHash ev))) \<and>
       block_stamp getBlock (addressKey (ev_blockHash ev)) (stamps (addressKey (ev_blockHash ev))))"
  using hydrate_events_Inr[of getBlock p 0 "[]" evs out] assms
  by (auto simp: hydrateEventTimestamps_def)

theorem hydrate_stamps_blocks_witness:
  "\<exists>out stamps. hydrateEventTimestamps
      (map (scanned_of_log (Pool Funded)) demo_chain)
      (\<lambda>n hash. if even n then Inl ''timeout'' else Inr (Some \<lparr>header_hash = hash, header_timestamp = int n\<rparr>))
      demo_finality_policy = Inr out \<and>
    (\<forall>ev \<in> set out. blockTimestamp ev = JInt (stamps (addressKey (ev_blockHash ev))))"
proof -
  let ?evs = "map (scanned_of_log (Pool Funded)) demo_chain"
  let ?getBlock = "\<lambda>n hash. if even n then Inl ''timeout''
    else Inr (Some \<lparr>header_hash = hash, header_timestamp = int n\<rparr>)"
  have "returns (hydrateEventTimestamps ?evs ?getBlock demo_finality_policy)" by code_simp
  then obtain out where r: "hydrateEventTimestamps ?evs ?getBlock demo_finality_policy = Inr out"
    by (auto simp: returns_iff)
  from hydrate_stamps_blocks[OF r] r show ?thesis by blast
qed

end
