(* ===== verification/Nonce_Journal.thy ===== *)
theory Nonce_Journal
  imports Node_Platform
begin

text \<open>
  The wallet nonce allocator's journal, which agent/operator.mjs and agent/wallet-nonce-coordinator.mjs
  keep in the same files: one per chain and signer, under a coordination root. It assigns every
  transaction nonce of a wallet to an action and binds it to the transaction that was signed for it.

  A file is an entry of the store \<open>path \<rightharpoonup> journal\<close>; a write replaces it as a whole
  (\<open>durableReplaceCanonical\<close> writes a temporary file and renames it). Field values of a wrong JSON type
  are not represented: both modules reject them together with the values out of range.
\<close>

section \<open>Journals\<close>

record wallet_binding =
  b_schema :: string
  b_chain_id :: int
  b_signer :: string

abbreviation (input) Reserved :: string where "Reserved \<equiv> ''reserved''"
abbreviation (input) Signed :: string where "Signed \<equiv> ''signed''"
abbreviation (input) Broadcast :: string where "Broadcast \<equiv> ''broadcast''"
abbreviation (input) Fenced :: string where "Fenced \<equiv> ''fenced''"

record allocation =
  action_id :: string
  alloc_nonce :: int
  alloc_state :: string
  transaction_hash :: "string option"

record nonce_journal =
  j_schema :: string
  j_binding :: wallet_binding
  next_nonce :: int
  observed_finalized_nonce :: int
  observed_pending_nonce :: int
  allocations :: "allocation list"

record signed_record =
  sr_schema :: string
  sr_raw_tx :: string
  sr_nonce :: int
  sr_hash :: string

record nonce_observation =
  finalizedNonce :: int
  pendingNonce :: int

record known_transaction =
  known_hash :: string
  known_nonce :: int
  known_from :: string

text \<open>
  An RPC provider answers the signer's transaction counts and looks up a transaction by its hash;
  \<open>rpc_id\<close> is the identity of the provider object.
\<close>

record rpc_provider =
  rpc_id :: nat
  getTransactionCount :: "string \<Rightarrow> string \<Rightarrow> string + int"
  getTransaction :: "string \<Rightarrow> string + known_transaction option"

type_synonym nonce_store = "string \<Rightarrow> nonce_journal option"

datatype nonce_error =
    Chain_id_invalid
  | Coordination_root_missing
  | Address_invalid
  | Journal_schema_invalid
  | Journal_binding_mismatch
  | Journal_identity_invalid
  | Counters_invalid
  | Allocation_invalid
  | Nonce_reused
  | Journal_regressed
  | Rpc_set_invalid
  | Rpc_error string
  | Nonce_evidence_invalid
  | Signed_record_invalid
  | Transaction_unparsable
  | Signed_record_mismatch
  | Action_id_missing
  | Nonce_of_another_action int
  | Allocation_bound_elsewhere
  | Reservation_missing
  | Rpc_identity_mismatch
  | Allocation_not_found

definition allocator_schema :: string where
  "allocator_schema = ''p42-wallet-nonce-allocator/v1''"

definition empty_journal :: "wallet_binding \<Rightarrow> nonce_journal" where
  "empty_journal b = \<lparr>j_schema = allocator_schema, j_binding = b, next_nonce = 0,
     observed_finalized_nonce = 0, observed_pending_nonce = 0, allocations = []\<rparr>"

section \<open>Operations: a throw leaves the store as it was\<close>

type_synonym 'a outcome = "nonce_store \<times> (nonce_error + 'a)"

fun commit :: "nonce_store \<Rightarrow> nonce_error + ('a \<times> nonce_store) \<Rightarrow> 'a outcome" where
  "commit s (Inl err) = (s, Inl err)"
| "commit s (Inr (x, s')) = (s', Inr x)"

record wallet_args =
  w_root :: string
  w_chain_id :: int
  w_signer :: string

record reservation =
  res_path :: string
  res_nonce :: int
  res_recovered :: bool

record broadcast_decision =
  d_broadcast :: bool
  d_known :: bool
  d_nonce :: int

definition lock_suffix :: string where "lock_suffix = ''.wallet.lock''"
definition allocator_suffix :: string where "allocator_suffix = ''.nonce-allocator.json''"

text \<open>\<open>path.join\<close> of a resolved directory and a file name.\<close>

definition join_path :: "string \<Rightarrow> string \<Rightarrow> string" where
  "join_path d f = (if d = ''/'' then d @ f else d @ ''/'' @ f)"

text \<open>The canonical JSON that names a lock, and \<open>String.prototype.replace\<close> of a suffix.\<close>

definition lock_json :: "int \<Rightarrow> string \<Rightarrow> string" where
  "lock_json chain signer_key =
     ''{\"chain_id\":'' @ show_int chain @
     '',\"schema_version\":\"p42-wallet-action-lock/v1\",\"signer\":\"'' @ signer_key @ ''\"}''"

definition replace_suffix :: "string \<Rightarrow> string \<Rightarrow> string \<Rightarrow> string" where
  "replace_suffix p old new =
     (let n = length p - length old in if drop n p = old then take n p @ new else p)"

section \<open>Validity\<close>

definition allocation_ok :: "platform \<Rightarrow> allocation \<Rightarrow> bool" where
  "allocation_ok pf a \<longleftrightarrow>
     action_id a \<noteq> [] \<and> safe_integer (alloc_nonce a) \<and> \<not> alloc_nonce a < 0 \<and>
     alloc_state a \<in> {Reserved, Signed, Broadcast, Fenced} \<and>
     (case transaction_hash a of None \<Rightarrow> True | Some h \<Rightarrow> isHexBytes pf h 32)"

text \<open>\<open>journal.allocations.reduce((highest, item) => Math.max(highest, item.nonce + 1), 0)\<close>\<close>

definition nonce_floor :: "allocation list \<Rightarrow> int" where
  "nonce_floor as = foldl (\<lambda>highest a. max highest (alloc_nonce a + 1)) 0 as"

lemma nonce_floor_le: "nonce_floor as \<le> n \<longleftrightarrow> 0 \<le> n \<and> (\<forall>a \<in> set as. alloc_nonce a + 1 \<le> n)"
proof -
  have "foldl (\<lambda>highest a. max highest (alloc_nonce a + 1)) h as \<le> n \<longleftrightarrow>
      h \<le> n \<and> (\<forall>a \<in> set as. alloc_nonce a + 1 \<le> n)" for h
    by (induction as arbitrary: h) auto
  then show ?thesis by (simp add: nonce_floor_def)
qed

text \<open>What both modules' validations accept.\<close>

definition journal_valid :: "platform \<Rightarrow> wallet_binding \<Rightarrow> nonce_journal \<Rightarrow> bool" where
  "journal_valid pf b j \<longleftrightarrow>
     j_schema j = allocator_schema \<and> j_binding j = b \<and>
     safe_integer (next_nonce j) \<and> 0 \<le> next_nonce j \<and>
     safe_integer (observed_finalized_nonce j) \<and> 0 \<le> observed_finalized_nonce j \<and>
     safe_integer (observed_pending_nonce j) \<and> observed_finalized_nonce j \<le> observed_pending_nonce j \<and>
     (\<forall>a \<in> set (allocations j). allocation_ok pf a \<and> alloc_nonce a < next_nonce j) \<and>
     distinct (map alloc_nonce (allocations j))"

lemma empty_journal_valid: "journal_valid pf b (empty_journal b)"
  by (simp add: journal_valid_def empty_journal_def safe_integer_def)

section \<open>The abstract allocator\<close>

text \<open>
  What the journal stands for: which action owns a nonce, and which transaction a nonce is bound to.
  A journal may only grow in this view.
\<close>

definition nonce_entry :: "nonce_journal \<Rightarrow> int \<Rightarrow> allocation option" where
  "nonce_entry j = entry_by alloc_nonce (allocations j)"

definition nonce_owner :: "nonce_journal \<Rightarrow> int \<Rightarrow> string option" where
  "nonce_owner j n = map_option action_id (nonce_entry j n)"

text \<open>The empty string is falsy: an allocation that holds it is not bound.\<close>

definition hash_of :: "allocation \<Rightarrow> string option" where
  "hash_of a = (case transaction_hash a of None \<Rightarrow> None | Some h \<Rightarrow> if h = [] then None else Some h)"

definition bound_hash :: "nonce_journal \<Rightarrow> int \<Rightarrow> string option" where
  "bound_hash j n = Option.bind (nonce_entry j n) hash_of"

definition extends :: "nonce_journal \<Rightarrow> nonce_journal \<Rightarrow> bool" where
  "extends j j' \<longleftrightarrow> nonce_owner j \<subseteq>\<^sub>m nonce_owner j' \<and> bound_hash j \<subseteq>\<^sub>m bound_hash j' \<and>
     next_nonce j \<le> next_nonce j' \<and>
     observed_finalized_nonce j \<le> observed_finalized_nonce j' \<and>
     observed_pending_nonce j \<le> observed_pending_nonce j'"

definition store_extends :: "nonce_store \<Rightarrow> nonce_store \<Rightarrow> bool" where
  "store_extends s s' \<longleftrightarrow> (\<forall>path j. s path = Some j \<longrightarrow> (\<exists>j'. s' path = Some j' \<and> extends j j'))"

lemma extends_refl [simp]: "extends j j"
  by (simp add: extends_def)

lemma extends_trans: "extends i j \<Longrightarrow> extends j k \<Longrightarrow> extends i k"
  unfolding extends_def by (meson map_le_trans order_trans)

lemma store_extends_refl [simp]: "store_extends s s"
  by (simp add: store_extends_def)

lemma store_extends_trans: "store_extends s t \<Longrightarrow> store_extends t u \<Longrightarrow> store_extends s u"
  unfolding store_extends_def by (meson extends_trans)

lemma journal_valid_distinct: "journal_valid pf b j \<Longrightarrow> distinct (map alloc_nonce (allocations j))"
  by (simp add: journal_valid_def)

text \<open>
  The two ways a journal changes: one entry is replaced or added, or only the counters move.
  \<open>entry_step j j' a\<close> is the first: the entry of \<open>a\<close>'s nonce becomes \<open>a\<close>, which keeps the owner and the
  bound transaction of the entry it replaces.
\<close>

definition counters_grow :: "nonce_journal \<Rightarrow> nonce_journal \<Rightarrow> bool" where
  "counters_grow j j' \<longleftrightarrow> next_nonce j \<le> next_nonce j' \<and>
     observed_finalized_nonce j \<le> observed_finalized_nonce j' \<and>
     observed_pending_nonce j \<le> observed_pending_nonce j'"

definition entry_step :: "nonce_journal \<Rightarrow> nonce_journal \<Rightarrow> allocation \<Rightarrow> bool" where
  "entry_step j j' a \<longleftrightarrow>
     nonce_entry j' = (nonce_entry j)(alloc_nonce a \<mapsto> a) \<and>
     (\<forall>old. nonce_entry j (alloc_nonce a) = Some old \<longrightarrow>
        action_id a = action_id old \<and> (hash_of old = None \<or> hash_of a = hash_of old)) \<and>
     counters_grow j j'"

lemma counters_grow_refl [simp]: "counters_grow j j"
  by (simp add: counters_grow_def)

lemma entry_step_extends: "entry_step j j' a \<Longrightarrow> extends j j'"
proof -
  assume step: "entry_step j j' a"
  then have "nonce_owner j \<subseteq>\<^sub>m nonce_owner j'"
    by (auto simp: entry_step_def map_le_def nonce_owner_def dom_def)
  moreover have "bound_hash j \<subseteq>\<^sub>m bound_hash j'"
    using step by (force simp: entry_step_def map_le_def bound_hash_def dom_def Option.bind_eq_Some_conv)
  ultimately show ?thesis using step by (simp add: entry_step_def extends_def counters_grow_def)
qed

lemma same_entries_extends: "nonce_entry j' = nonce_entry j \<Longrightarrow> counters_grow j j' \<Longrightarrow> extends j j'"
  by (simp add: extends_def nonce_owner_def bound_hash_def fun_eq_iff map_le_def counters_grow_def)

lemma counters_grow_trans: "counters_grow i j \<Longrightarrow> counters_grow j k \<Longrightarrow> counters_grow i k"
  by (auto simp: counters_grow_def)

lemma entry_step_counters:
  "nonce_entry j = nonce_entry i \<Longrightarrow> counters_grow i j \<Longrightarrow> entry_step j k a \<Longrightarrow> entry_step i k a"
  by (auto simp: entry_step_def counters_grow_def)

lemma entry_stepI_append:
  assumes "alloc_nonce a \<notin> alloc_nonce ` set (allocations j)"
    and "allocations j' = allocations j @ [a]" and "counters_grow j j'"
  shows "entry_step j j' a"
  using assms entry_by_append[of alloc_nonce a "allocations j"]
  by (simp add: entry_step_def nonce_entry_def entry_by_None[THEN iffD2])

lemma entry_stepI_update:
  assumes "distinct (map alloc_nonce (allocations j))" and "find P (allocations j) = Some old"
    and "allocations j' = update_first P f (allocations j)" and "\<And>a. alloc_nonce (f a) = alloc_nonce a"
    and "action_id (f old) = action_id old" and "hash_of old = None \<or> hash_of (f old) = hash_of old"
    and "counters_grow j j'"
  shows "entry_step j j' (f old)"
proof -
  have "nonce_entry j (alloc_nonce old) = Some old"
    using assms(1,2) by (simp add: nonce_entry_def entry_by_iff find_SomeD)
  then show ?thesis
    using entry_by_update_first[OF assms(1,2,4)] assms(3-) by (simp add: entry_step_def nonce_entry_def)
qed

text \<open>A write that an operation makes: the journal read, and the one that replaces it.\<close>

definition journal_write ::
    "platform \<Rightarrow> wallet_binding \<Rightarrow> string \<Rightarrow> nonce_store \<Rightarrow> nonce_store \<Rightarrow> nonce_journal \<Rightarrow> nonce_journal \<Rightarrow> bool" where
  "journal_write pf b path s s' j j' \<longleftrightarrow>
     (s path = Some j \<or> s path = None \<and> j = empty_journal b) \<and>
     journal_valid pf b j \<and> journal_valid pf b j' \<and> s' = s(path \<mapsto> j') \<and> extends j j'"

lemma journal_write_extends: "journal_write pf b path s s' j j' \<Longrightarrow> store_extends s s'"
  by (auto simp: journal_write_def store_extends_def)

text \<open>The store invariant: every file is a valid journal of its own binding.\<close>

definition store_valid :: "platform \<Rightarrow> nonce_store \<Rightarrow> bool" where
  "store_valid pf s \<longleftrightarrow> (\<forall>path j. s path = Some j \<longrightarrow> journal_valid pf (j_binding j) j)"

lemma journal_write_valid: "journal_write pf b path s s' j j' \<Longrightarrow> store_valid pf s \<Longrightarrow> store_valid pf s'"
  by (auto simp: journal_write_def store_valid_def journal_valid_def)

lemma commit_fst: "fst (commit s r) = (case r of Inl _ \<Rightarrow> s | Inr (_, s') \<Rightarrow> s')"
  by (cases "(s, r)" rule: commit.cases) auto

lemma commit_Inr: "commit s r = (s', Inr x) \<longleftrightarrow> r = Inr (x, s')"
  by (cases "(s, r)" rule: commit.cases) auto

end
