(* ===== verification/Wallet_Nonce.thy ===== *)
theory Wallet_Nonce
  imports Nonce_Journal
begin

text \<open>
  The nonce allocator of agent/operator.mjs: paths and binding, validation, the RPC observation, and
  the four operations that run under the wallet's lock: reserving a nonce, recording the transaction
  signed for it, recording its broadcast, and deciding whether to broadcast it. An operation runs
  atomically, because its callers hold the wallet's lock.
\<close>

section \<open>Paths and bindings\<close>

definition walletActionLockPath :: "platform \<Rightarrow> wallet_args \<Rightarrow> nonce_error + string" where
  "walletActionLockPath pf w =
     require (safe_integer (w_chain_id w) \<and> \<not> w_chain_id w \<le> 0) Chain_id_invalid
       (and_then (of_option Address_invalid (getAddress pf (w_signer w))) (\<lambda>a.
          let lockId = ''sha256:'' @ sha256_hex pf (lock_json (w_chain_id w) (to_lower a))
          in require (w_root w \<noteq> []) Coordination_root_missing
               (Inr (join_path (resolve_path pf (w_root w)) (drop 7 lockId @ lock_suffix)))))"

definition walletNonceAllocatorPath :: "platform \<Rightarrow> wallet_args \<Rightarrow> nonce_error + string" where
  "walletNonceAllocatorPath pf w =
     and_then (walletActionLockPath pf w) (\<lambda>p. Inr (replace_suffix p lock_suffix allocator_suffix))"

definition walletNonceBinding :: "platform \<Rightarrow> int \<Rightarrow> string \<Rightarrow> nonce_error + wallet_binding" where
  "walletNonceBinding pf chain s =
     and_then (of_option Address_invalid (getAddress pf s)) (\<lambda>a.
       Inr \<lparr>b_schema = ''p42-wallet-nonce-binding/v1'', b_chain_id = chain, b_signer = to_lower a\<rparr>)"

section \<open>Validation and the file\<close>

fun check_allocations :: "platform \<Rightarrow> int list \<Rightarrow> allocation list \<Rightarrow> nonce_error + unit" where
  "check_allocations pf nonces [] = Inr ()"
| "check_allocations pf nonces (a # as) =
     require (allocation_ok pf a) Allocation_invalid
       (require (alloc_nonce a \<notin> set nonces) Nonce_reused
         (check_allocations pf (alloc_nonce a # nonces) as))"

definition validateWalletNonceAllocator ::
    "platform \<Rightarrow> nonce_journal \<Rightarrow> wallet_binding \<Rightarrow> nonce_error + nonce_journal" where
  "validateWalletNonceAllocator pf j b =
     require (j_schema j = allocator_schema) Journal_schema_invalid
     (require (j_binding j = b) Journal_binding_mismatch
     (require (safe_integer (next_nonce j) \<and> \<not> next_nonce j < 0 \<and>
         safe_integer (observed_finalized_nonce j) \<and> \<not> observed_finalized_nonce j < 0 \<and>
         safe_integer (observed_pending_nonce j) \<and> \<not> observed_pending_nonce j < 0) Counters_invalid
     (and_then (check_allocations pf [] (allocations j)) (\<lambda>_.
       require (\<not> (next_nonce j < nonce_floor (allocations j) \<or>
           observed_pending_nonce j < observed_finalized_nonce j)) Journal_regressed (Inr j)))))"

definition readWalletNonceAllocator ::
    "platform \<Rightarrow> nonce_store \<Rightarrow> string \<Rightarrow> wallet_binding \<Rightarrow> nonce_error + nonce_journal" where
  "readWalletNonceAllocator pf s path b =
     (case s path of
        None \<Rightarrow> Inr (empty_journal b)
      | Some j \<Rightarrow> validateWalletNonceAllocator pf j b)"

definition replaceWalletNonceAllocator ::
    "platform \<Rightarrow> nonce_store \<Rightarrow> string \<Rightarrow> wallet_binding \<Rightarrow> nonce_journal \<Rightarrow> nonce_error + nonce_store" where
  "replaceWalletNonceAllocator pf s path b j =
     and_then (validateWalletNonceAllocator pf j b) (\<lambda>j'. Inr (s(path \<mapsto> j')))"

section \<open>What the chain reports\<close>

fun observe_providers :: "rpc_provider list \<Rightarrow> string \<Rightarrow> nonce_error + nonce_observation list" where
  "observe_providers [] who = Inr []"
| "observe_providers (rpc # rpcs) who =
     (case (getTransactionCount rpc who ''finalized'', getTransactionCount rpc who ''pending'') of
        (Inr f, Inr p) \<Rightarrow> and_then (observe_providers rpcs who) (\<lambda>obs.
           Inr (\<lparr>finalizedNonce = f, pendingNonce = p\<rparr> # obs))
      | (Inl m, _) \<Rightarrow> Inl (Rpc_error m)
      | (_, Inl m) \<Rightarrow> Inl (Rpc_error m))"

definition highest :: "int list \<Rightarrow> int" where
  "highest xs = Max (set xs)"

definition walletNonceObservation :: "rpc_provider list \<Rightarrow> string \<Rightarrow> nonce_error + nonce_observation" where
  "walletNonceObservation rpcs who =
     require (\<not> length rpcs < 1) Rpc_set_invalid
     (and_then (observe_providers rpcs who) (\<lambda>obs.
        let f = highest (map finalizedNonce obs); p = highest (map pendingNonce obs)
        in require (safe_integer f \<and> \<not> f < 0 \<and> safe_integer p \<and> \<not> p < f) Nonce_evidence_invalid
             (Inr \<lparr>finalizedNonce = f, pendingNonce = p\<rparr>)))"

definition persistWalletNonceObservation :: "nonce_journal \<Rightarrow> nonce_observation \<Rightarrow> nonce_journal" where
  "persistWalletNonceObservation j obs =
     (let f = max (observed_finalized_nonce j) (finalizedNonce obs)
      in j\<lparr>observed_finalized_nonce := f,
           observed_pending_nonce := max (observed_pending_nonce j) (max f (pendingNonce obs))\<rparr>)"

definition assertAllocatorSignedRecord ::
    "platform \<Rightarrow> signed_record \<Rightarrow> wallet_binding \<Rightarrow> nonce_error + chain_tx" where
  "assertAllocatorSignedRecord pf rec b =
     require (sr_schema rec = ''p42-signed-transaction/v1'' \<and> isHexString pf (sr_raw_tx rec))
       Signed_record_invalid
     (and_then (of_option Transaction_unparsable (transaction_from pf (sr_raw_tx rec))) (\<lambda>tx.
        require ((case tx_from tx of None \<Rightarrow> False | Some f \<Rightarrow> f \<noteq> [] \<and> to_lower f = b_signer b) \<and>
            tx_chainId tx = b_chain_id b \<and> tx_nonce tx = sr_nonce rec \<and>
            to_lower (keccak256 pf (sr_raw_tx rec)) = to_lower (sr_hash rec)) Signed_record_mismatch
          (Inr tx)))"

section \<open>Reserving a nonce\<close>

definition truthy_hash_differs :: "allocation \<Rightarrow> string \<Rightarrow> bool" where
  "truthy_hash_differs a h \<longleftrightarrow>
     (case transaction_hash a of None \<Rightarrow> False | Some h' \<Rightarrow> h' \<noteq> [] \<and> h' \<noteq> h)"

text \<open>The branch for a transaction that was signed before: its nonce is adopted.\<close>

definition adopt_signed ::
    "nonce_journal \<Rightarrow> string \<Rightarrow> signed_record \<Rightarrow> chain_tx \<Rightarrow> nonce_error + nonce_journal" where
  "adopt_signed j action rec tx =
     (let n = tx_nonce tx; h = to_lower (sr_hash rec); as = allocations j;
          mine = (\<lambda>a. action_id a = action \<and> alloc_nonce a = n)
      in require (find (\<lambda>a. alloc_nonce a = n \<and> action_id a \<noteq> action) as = None) (Nonce_of_another_action n)
         (and_then
           (case find mine as of
              None \<Rightarrow> Inr (as @ [\<lparr>action_id = action, alloc_nonce = n, alloc_state = Signed,
                                 transaction_hash = Some h\<rparr>])
            | Some a \<Rightarrow>
                require (\<not> truthy_hash_differs a h) Allocation_bound_elsewhere
                  (Inr (update_first mine (\<lambda>a. a\<lparr>transaction_hash := Some h,
                     alloc_state := (if alloc_state a = Reserved then Signed else alloc_state a)\<rparr>) as)))
           (\<lambda>as'. Inr (j\<lparr>allocations := as', next_nonce := max (next_nonce j) (n + 1)\<rparr>))))"

text \<open>The branch for a new reservation: the journal to write, the nonce, and whether it was recovered.\<close>

definition fresh_nonce :: "nonce_journal \<Rightarrow> nonce_observation \<Rightarrow> int" where
  "fresh_nonce j obs = max (next_nonce j) (max (finalizedNonce obs) (pendingNonce obs))"

definition reserve_next ::
    "nonce_journal \<Rightarrow> string \<Rightarrow> nonce_observation \<Rightarrow> nonce_journal \<times> int \<times> bool" where
  "reserve_next j action obs =
     (let as = allocations j; mine = (\<lambda>a. action_id a = action \<and> alloc_state a = Reserved);
          prior = find mine (rev as);
          as' = (case prior of None \<Rightarrow> as | Some _ \<Rightarrow> update_last mine (\<lambda>a. a\<lparr>alloc_state := Fenced\<rparr>) as);
          n = fresh_nonce j obs
      in case prior of
           Some a \<Rightarrow>
             if alloc_nonce a \<ge> finalizedNonce obs \<and> alloc_nonce a \<ge> pendingNonce obs
             then (j, alloc_nonce a, True)
             else (j\<lparr>allocations := as' @ [\<lparr>action_id = action, alloc_nonce = n, alloc_state = Reserved,
                       transaction_hash = None\<rparr>], next_nonce := n + 1\<rparr>, n, False)
         | None \<Rightarrow>
             (j\<lparr>allocations := as' @ [\<lparr>action_id = action, alloc_nonce = n, alloc_state = Reserved,
                  transaction_hash = None\<rparr>], next_nonce := n + 1\<rparr>, n, False))"

definition reserveWalletNonceLocked ::
    "platform \<Rightarrow> rpc_provider list \<Rightarrow> wallet_args \<Rightarrow> string \<Rightarrow> signed_record option \<Rightarrow> nonce_store
       \<Rightarrow> nonce_error + (reservation \<times> nonce_store)" where
  "reserveWalletNonceLocked pf rpcs w action existing s =
     require (action \<noteq> []) Action_id_missing
     (and_then (walletNonceBinding pf (w_chain_id w) (w_signer w)) (\<lambda>b.
      and_then (walletNonceAllocatorPath pf w) (\<lambda>path.
      and_then (readWalletNonceAllocator pf s path b) (\<lambda>j0.
      and_then (walletNonceObservation rpcs (b_signer b)) (\<lambda>obs.
        let j = persistWalletNonceObservation j0 obs
        in case existing of
             Some rec \<Rightarrow>
               and_then (assertAllocatorSignedRecord pf rec b) (\<lambda>tx.
               and_then (adopt_signed j action rec tx) (\<lambda>j'.
               and_then (replaceWalletNonceAllocator pf s path b j') (\<lambda>s'.
                 Inr (\<lparr>res_path = path, res_nonce = tx_nonce tx, res_recovered = True\<rparr>, s'))))
           | None \<Rightarrow>
               (let (j', n, recovered) = reserve_next j action obs
                in and_then (replaceWalletNonceAllocator pf s path b j') (\<lambda>s'.
                     Inr (\<lparr>res_path = path, res_nonce = n, res_recovered = recovered\<rparr>, s'))))))))"

section \<open>Recording the signed transaction\<close>

definition bind_signed :: "nonce_journal \<Rightarrow> string \<Rightarrow> signed_record \<Rightarrow> chain_tx \<Rightarrow> nonce_error + nonce_journal" where
  "bind_signed j action rec tx =
     (let h = to_lower (sr_hash rec); as = allocations j;
          mine = (\<lambda>a. action_id a = action \<and> alloc_nonce a = tx_nonce tx)
      in case find mine as of
           None \<Rightarrow> Inl Reservation_missing
         | Some a \<Rightarrow>
             require (alloc_state a \<noteq> Fenced) Reservation_missing
             (require (\<not> truthy_hash_differs a h) Allocation_bound_elsewhere
               (Inr (j\<lparr>allocations := update_first mine (\<lambda>a. a\<lparr>transaction_hash := Some h,
                  alloc_state := (if alloc_state a = Broadcast then Broadcast else Signed)\<rparr>) as\<rparr>))))"

definition recordWalletNonceSignedLocked ::
    "platform \<Rightarrow> wallet_args \<Rightarrow> string \<Rightarrow> signed_record \<Rightarrow> nonce_store
       \<Rightarrow> nonce_error + ((string \<times> int) \<times> nonce_store)" where
  "recordWalletNonceSignedLocked pf w action rec s =
     and_then (walletNonceBinding pf (w_chain_id w) (w_signer w)) (\<lambda>b.
     and_then (assertAllocatorSignedRecord pf rec b) (\<lambda>tx.
     and_then (walletNonceAllocatorPath pf w) (\<lambda>path.
     and_then (readWalletNonceAllocator pf s path b) (\<lambda>j.
     and_then (bind_signed j action rec tx) (\<lambda>j'.
     and_then (replaceWalletNonceAllocator pf s path b j') (\<lambda>s'.
       Inr ((path, tx_nonce tx), s')))))))"

definition set_state :: "string \<Rightarrow> int \<Rightarrow> string \<Rightarrow> nonce_journal \<Rightarrow> nonce_error + nonce_journal" where
  "set_state action n st j =
     (let mine = (\<lambda>a. action_id a = action \<and> alloc_nonce a = n)
      in require (find mine (allocations j) \<noteq> None) Allocation_not_found
           (Inr (j\<lparr>allocations := update_first mine (\<lambda>a. a\<lparr>alloc_state := st\<rparr>) (allocations j)\<rparr>)))"

definition recordWalletNonceBroadcastLocked ::
    "platform \<Rightarrow> wallet_args \<Rightarrow> string \<Rightarrow> signed_record \<Rightarrow> nonce_store \<Rightarrow> (string \<times> int) outcome" where
  "recordWalletNonceBroadcastLocked pf w action rec s =
     (case recordWalletNonceSignedLocked pf w action rec s of
        Inl err \<Rightarrow> (s, Inl err)
      | Inr (signed, s1) \<Rightarrow>
          commit s1
            (and_then (walletNonceBinding pf (w_chain_id w) (w_signer w)) (\<lambda>b.
             and_then (walletNonceAllocatorPath pf w) (\<lambda>path.
             and_then (readWalletNonceAllocator pf s1 path b) (\<lambda>j.
             and_then (set_state action (snd signed) Broadcast j) (\<lambda>j'.
             and_then (replaceWalletNonceAllocator pf s1 path b j') (\<lambda>s2. Inr (signed, s2))))))))"

section \<open>Deciding whether to broadcast\<close>

definition decide_broadcast ::
    "platform \<Rightarrow> rpc_provider \<Rightarrow> rpc_provider list \<Rightarrow> wallet_args \<Rightarrow> string \<Rightarrow> signed_record \<Rightarrow> nonce_store
       \<Rightarrow> nonce_error + (broadcast_decision \<times> nonce_store)" where
  "decide_broadcast pf rpc rpcs w action rec s =
     and_then (walletNonceBinding pf (w_chain_id w) (w_signer w)) (\<lambda>b.
     and_then (assertAllocatorSignedRecord pf rec b) (\<lambda>tx.
     and_then (walletNonceAllocatorPath pf w) (\<lambda>path.
     and_then (readWalletNonceAllocator pf s path b) (\<lambda>j.
       let n = tx_nonce tx
       in case getTransaction rpc (sr_hash rec) of
            Inl m \<Rightarrow> Inl (Rpc_error m)
          | Inr (Some known) \<Rightarrow>
              require (to_lower (known_hash known) = to_lower (sr_hash rec) \<and> known_nonce known = n \<and>
                  to_lower (known_from known) = b_signer b) Rpc_identity_mismatch
              (and_then (set_state action n Broadcast j) (\<lambda>j'.
               and_then (replaceWalletNonceAllocator pf s path b j') (\<lambda>s'.
                 Inr (\<lparr>d_broadcast = False, d_known = True, d_nonce = n\<rparr>, s'))))
          | Inr None \<Rightarrow>
              and_then (walletNonceObservation rpcs (b_signer b)) (\<lambda>obs.
                let j1 = persistWalletNonceObservation j obs
                in if finalizedNonce obs > n \<or> pendingNonce obs > n
                   then and_then (set_state action n Fenced j1) (\<lambda>j'.
                        and_then (replaceWalletNonceAllocator pf s path b j') (\<lambda>s'.
                          Inr (\<lparr>d_broadcast = False, d_known = False, d_nonce = n\<rparr>, s')))
                   else and_then (replaceWalletNonceAllocator pf s path b j1) (\<lambda>s'.
                          Inr (\<lparr>d_broadcast = True, d_known = False, d_nonce = n\<rparr>, s')))))))"

definition walletNonceBroadcastDecisionLocked ::
    "platform \<Rightarrow> rpc_provider \<Rightarrow> rpc_provider list \<Rightarrow> wallet_args \<Rightarrow> string \<Rightarrow> signed_record \<Rightarrow> nonce_store
       \<Rightarrow> broadcast_decision outcome" where
  "walletNonceBroadcastDecisionLocked pf rpc rpcs w action rec s =
     (case recordWalletNonceSignedLocked pf w action rec s of
        Inl err \<Rightarrow> (s, Inl err)
      | Inr (_, s1) \<Rightarrow> commit s1 (decide_broadcast pf rpc rpcs w action rec s1))"

section \<open>What the operations do to the journal\<close>

lemma check_allocations_Inr:
  "check_allocations pf nonces as = Inr u \<longleftrightarrow>
     (\<forall>a \<in> set as. allocation_ok pf a) \<and> distinct (map alloc_nonce as) \<and>
     set nonces \<inter> alloc_nonce ` set as = {}"
  by (cases u; induction pf nonces as rule: check_allocations.induct) auto

lemma validate_Inr:
  "validateWalletNonceAllocator pf j b = Inr j' \<longleftrightarrow> j' = j \<and> journal_valid pf b j"
  by (auto simp: validateWalletNonceAllocator_def journal_valid_def check_allocations_Inr nonce_floor_le not_less)

lemma read_Inr:
  "readWalletNonceAllocator pf s path b = Inr j \<longleftrightarrow>
     (s path = Some j \<or> s path = None \<and> j = empty_journal b) \<and> journal_valid pf b j"
  by (auto simp: readWalletNonceAllocator_def validate_Inr empty_journal_valid split: option.splits)

lemma replace_Inr:
  "replaceWalletNonceAllocator pf s path b j = Inr s' \<longleftrightarrow> journal_valid pf b j \<and> s' = s(path \<mapsto> j)"
  by (auto simp: replaceWalletNonceAllocator_def validate_Inr)

lemma persist_entries [simp]:
  "nonce_entry (persistWalletNonceObservation j obs) = nonce_entry j"
  "allocations (persistWalletNonceObservation j obs) = allocations j"
  "next_nonce (persistWalletNonceObservation j obs) = next_nonce j"
  "counters_grow j (persistWalletNonceObservation j obs)"
  by (simp_all add: persistWalletNonceObservation_def Let_def nonce_entry_def counters_grow_def)

lemma adopt_signed_step:
  assumes "adopt_signed j action rec tx = Inr j'" and "distinct (map alloc_nonce (allocations j))"
  shows "\<exists>a. entry_step j j' a \<and> alloc_nonce a = tx_nonce tx \<and> action_id a = action \<and>
    transaction_hash a = Some (to_lower (sr_hash rec))"
proof -
  let ?mine = "\<lambda>a. action_id a = action \<and> alloc_nonce a = tx_nonce tx"
  let ?h = "to_lower (sr_hash rec)"
  have conflict: "find (\<lambda>a. alloc_nonce a = tx_nonce tx \<and> action_id a \<noteq> action) (allocations j) = None"
    using assms(1) by (auto simp: adopt_signed_def Let_def)
  show ?thesis
  proof (cases "find ?mine (allocations j)")
    case None
    let ?a = "\<lparr>action_id = action, alloc_nonce = tx_nonce tx, alloc_state = Signed, transaction_hash = Some ?h\<rparr>"
    have "tx_nonce tx \<notin> alloc_nonce ` set (allocations j)"
      using None conflict by (auto simp: find_None_iff) metis
    then have "entry_step j j' ?a"
      using assms(1) None
      by (intro entry_stepI_append) (auto simp: adopt_signed_def Let_def counters_grow_def)
    then show ?thesis by (intro exI[of _ ?a]) simp
  next
    case (Some old)
    let ?f = "\<lambda>a. a\<lparr>transaction_hash := Some ?h,
       alloc_state := (if alloc_state a = Reserved then Signed else alloc_state a)\<rparr>"
    have old: "action_id old = action" "alloc_nonce old = tx_nonce tx" using find_SomeD[OF Some] by auto
    have "entry_step j j' (?f old)"
      using assms(1) Some
      by (intro entry_stepI_update[OF assms(2) Some])
        (auto simp: adopt_signed_def Let_def counters_grow_def hash_of_def truthy_hash_differs_def split: option.splits)
    then show ?thesis using old by (intro exI[of _ "?f old"]) simp
  qed
qed

lemma bind_signed_step:
  assumes "bind_signed j action rec tx = Inr j'" and "distinct (map alloc_nonce (allocations j))"
  shows "\<exists>a. entry_step j j' a \<and> alloc_nonce a = tx_nonce tx \<and> action_id a = action \<and>
    transaction_hash a = Some (to_lower (sr_hash rec)) \<and> alloc_state a \<in> {Signed, Broadcast}"
proof -
  let ?mine = "\<lambda>a. action_id a = action \<and> alloc_nonce a = tx_nonce tx"
  let ?f = "\<lambda>a. a\<lparr>transaction_hash := Some (to_lower (sr_hash rec)),
     alloc_state := (if alloc_state a = Broadcast then Broadcast else Signed)\<rparr>"
  obtain old where f: "find ?mine (allocations j) = Some old"
    using assms(1) by (auto simp: bind_signed_def Let_def split: option.splits)
  have old: "action_id old = action" "alloc_nonce old = tx_nonce tx" using find_SomeD[OF f] by auto
  have "entry_step j j' (?f old)"
    using assms(1) f
    by (intro entry_stepI_update[OF assms(2) f])
      (auto simp: bind_signed_def Let_def counters_grow_def hash_of_def truthy_hash_differs_def split: option.splits)
  then show ?thesis using old by (intro exI[of _ "?f old"]) simp
qed

lemma set_state_step:
  assumes "set_state action n st j = Inr j'" and "distinct (map alloc_nonce (allocations j))"
  shows "\<exists>old. nonce_entry j n = Some old \<and> action_id old = action \<and>
    entry_step j j' (old\<lparr>alloc_state := st\<rparr>) \<and> alloc_nonce old = n"
proof -
  let ?mine = "\<lambda>a. action_id a = action \<and> alloc_nonce a = n"
  obtain old where f: "find ?mine (allocations j) = Some old"
    using assms(1) by (auto simp: set_state_def Let_def)
  have old: "old \<in> set (allocations j)" "action_id old = action" "alloc_nonce old = n" using find_SomeD[OF f] by auto
  have "entry_step j j' (old\<lparr>alloc_state := st\<rparr>)"
    using assms(1)
    by (intro entry_stepI_update[OF assms(2) f])
      (auto simp: set_state_def Let_def counters_grow_def hash_of_def)
  then show ?thesis using old assms(2) by (auto simp: nonce_entry_def entry_by_iff)
qed

lemma fresh_nonce_new:
  assumes "journal_valid pf b j"
  shows "fresh_nonce j obs \<notin> alloc_nonce ` set (allocations j)"
  using assms by (fastforce simp: journal_valid_def fresh_nonce_def)

lemma update_last_same: "find P (rev xs) = None \<Longrightarrow> update_last P f xs = xs"
proof -
  have "find P ys = None \<Longrightarrow> update_first P f ys = ys" for ys by (induction ys) (auto split: if_splits)
  then show "find P (rev xs) = None \<Longrightarrow> update_last P f xs = xs" by (simp add: update_last_def)
qed

text \<open>
  A reservation gives the reserving action the nonce it returns: a recovered one was reserved by this
  action and is not behind the chain, a fresh one is new and not behind the chain or any nonce before.
\<close>

lemma reserve_next_step:
  assumes "reserve_next j action obs = (j', n, recovered)" and "journal_valid pf b j"
  shows "extends j j' \<and> nonce_owner j' n = Some action \<and>
    finalizedNonce obs \<le> n \<and> pendingNonce obs \<le> n \<and>
    (if recovered
     then j' = j \<and> (\<exists>a. nonce_entry j n = Some a \<and> action_id a = action \<and> alloc_state a = Reserved)
     else n = fresh_nonce j obs \<and> nonce_owner j n = None \<and> bound_hash j' n = None \<and> next_nonce j' = n + 1)"
proof -
  let ?mine = "\<lambda>a. action_id a = action \<and> alloc_state a = Reserved"
  let ?as = "update_last ?mine (\<lambda>a. a\<lparr>alloc_state := Fenced\<rparr>) (allocations j)"
  let ?new = "\<lparr>action_id = action, alloc_nonce = fresh_nonce j obs, alloc_state = Reserved, transaction_hash = None\<rparr>"
  let ?j = "j\<lparr>allocations := ?as @ [?new], next_nonce := fresh_nonce j obs + 1\<rparr>"
  have dist: "distinct (map alloc_nonce (allocations j))" by (rule journal_valid_distinct[OF assms(2)])
  have keys: "map alloc_nonce ?as = map alloc_nonce (allocations j)" by (rule map_update_last) simp
  then have kset: "alloc_nonce ` set ?as = alloc_nonce ` set (allocations j)" by (metis list.set_map)
  have fresh: "fresh_nonce j obs \<notin> alloc_nonce ` set (allocations j)" by (rule fresh_nonce_new[OF assms(2)])
  have mid: "extends j (j\<lparr>allocations := ?as\<rparr>)"
  proof (cases "find ?mine (rev (allocations j))")
    case None
    then show ?thesis by (simp add: update_last_same)
  next
    case (Some old)
    have "nonce_entry (j\<lparr>allocations := ?as\<rparr>) = (nonce_entry j)(alloc_nonce old \<mapsto> old\<lparr>alloc_state := Fenced\<rparr>)"
      using entry_by_update_last[OF dist Some, of "\<lambda>a. a\<lparr>alloc_state := Fenced\<rparr>"] by (simp add: nonce_entry_def)
    moreover have "nonce_entry j (alloc_nonce old) = Some old"
      using find_rev_SomeD[OF Some] dist by (simp add: nonce_entry_def entry_by_iff)
    ultimately have "entry_step j (j\<lparr>allocations := ?as\<rparr>) (old\<lparr>alloc_state := Fenced\<rparr>)"
      by (simp add: entry_step_def counters_grow_def hash_of_def)
    then show ?thesis by (rule entry_step_extends)
  qed
  have step: "entry_step (j\<lparr>allocations := ?as\<rparr>) ?j ?new"
    using fresh kset by (intro entry_stepI_append) (auto simp: counters_grow_def fresh_nonce_def)
  then have new: "nonce_entry ?j (fresh_nonce j obs) = Some ?new" by (simp add: entry_step_def)
  note ext = extends_trans[OF mid entry_step_extends[OF step]]
  have le: "finalizedNonce obs \<le> fresh_nonce j obs" "pendingNonce obs \<le> fresh_nonce j obs"
    by (auto simp: fresh_nonce_def)
  have free: "nonce_entry j (fresh_nonce j obs) = None"
    using fresh by (simp add: nonce_entry_def entry_by_None)
  show ?thesis
  proof (cases "find ?mine (rev (allocations j))")
    case None
    then have j': "j' = ?j" "n = fresh_nonce j obs" "\<not> recovered"
      using assms(1) by (auto simp: reserve_next_def Let_def update_last_same)
    show ?thesis using ext new free le unfolding j'
      by (simp add: nonce_owner_def bound_hash_def hash_of_def j'(3))
  next
    case (Some old)
    have old: "nonce_entry j (alloc_nonce old) = Some old" "action_id old = action" "alloc_state old = Reserved"
      using find_rev_SomeD[OF Some] dist by (simp_all add: nonce_entry_def entry_by_iff)
    show ?thesis
    proof (cases "finalizedNonce obs \<le> alloc_nonce old \<and> pendingNonce obs \<le> alloc_nonce old")
      case True
      then have "j' = j" "n = alloc_nonce old" "recovered"
        using assms(1) Some by (auto simp: reserve_next_def Let_def)
      then show ?thesis using True old by (simp add: nonce_owner_def)
    next
      case False
      then have j': "j' = ?j" "n = fresh_nonce j obs" "\<not> recovered"
        using assms(1) Some by (auto simp: reserve_next_def Let_def split: if_splits)
      show ?thesis using ext new free le unfolding j'
        by (simp add: nonce_owner_def bound_hash_def hash_of_def j'(3))
    qed
  qed
qed

section \<open>What the operations do to the store\<close>

lemma persist_write:
  assumes "s path = Some j0 \<or> s path = None \<and> j0 = empty_journal b" and "journal_valid pf b j0"
    and "journal_valid pf b j'" and "extends (persistWalletNonceObservation j0 obs) j'"
  shows "journal_write pf b path s (s(path \<mapsto> j')) j0 j'"
  using assms extends_trans[OF same_entries_extends[OF persist_entries(1) persist_entries(4)]]
  by (simp add: journal_write_def)

lemma persist_valid:
  "journal_valid pf b j \<Longrightarrow> 0 \<le> finalizedNonce obs \<Longrightarrow> safe_integer (finalizedNonce obs) \<Longrightarrow>
   safe_integer (pendingNonce obs) \<Longrightarrow> journal_valid pf b (persistWalletNonceObservation j obs)"
  by (auto simp: journal_valid_def persistWalletNonceObservation_def Let_def max_def)

lemma observation_Inr:
  "walletNonceObservation rpcs who = Inr obs \<Longrightarrow>
   0 \<le> finalizedNonce obs \<and> finalizedNonce obs \<le> pendingNonce obs \<and>
   safe_integer (finalizedNonce obs) \<and> safe_integer (pendingNonce obs)"
  by (auto simp: walletNonceObservation_def Let_def)

lemma reserve_spec:
  assumes "reserveWalletNonceLocked pf rpcs w action existing s = Inr (r, s')"
  obtains b j j' obs where
    "walletNonceBinding pf (w_chain_id w) (w_signer w) = Inr b"
    "walletNonceAllocatorPath pf w = Inr (res_path r)"
    "walletNonceObservation rpcs (b_signer b) = Inr obs"
    "journal_write pf b (res_path r) s s' j j'"
    "nonce_owner j' (res_nonce r) = Some action"
    "existing = None \<Longrightarrow> finalizedNonce obs \<le> res_nonce r \<and> pendingNonce obs \<le> res_nonce r"
    "existing = None \<Longrightarrow> \<not> res_recovered r \<Longrightarrow> nonce_owner j (res_nonce r) = None \<and>
       bound_hash j' (res_nonce r) = None \<and> res_nonce r = fresh_nonce j obs"
    "existing = None \<Longrightarrow> res_recovered r \<Longrightarrow> \<exists>a. nonce_entry j (res_nonce r) = Some a \<and>
       action_id a = action \<and> alloc_state a = Reserved"
proof -
  obtain b path j0 obs where b: "walletNonceBinding pf (w_chain_id w) (w_signer w) = Inr b"
    and p: "walletNonceAllocatorPath pf w = Inr path"
    and j0: "s path = Some j0 \<or> s path = None \<and> j0 = empty_journal b" and v0: "journal_valid pf b j0"
    and o: "walletNonceObservation rpcs (b_signer b) = Inr obs"
    and rest: "(case existing of
             Some rec \<Rightarrow>
               and_then (assertAllocatorSignedRecord pf rec b) (\<lambda>tx.
               and_then (adopt_signed (persistWalletNonceObservation j0 obs) action rec tx) (\<lambda>j'.
               and_then (replaceWalletNonceAllocator pf s path b j') (\<lambda>s'.
                 Inr (\<lparr>res_path = path, res_nonce = tx_nonce tx, res_recovered = True\<rparr>, s'))))
           | None \<Rightarrow>
               (let (j', n, recovered) = reserve_next (persistWalletNonceObservation j0 obs) action obs
                in and_then (replaceWalletNonceAllocator pf s path b j') (\<lambda>s'.
                     Inr (\<lparr>res_path = path, res_nonce = n, res_recovered = recovered\<rparr>, s')))) = Inr (r, s')"
    using assms by (auto simp: reserveWalletNonceLocked_def read_Inr Let_def)
  let ?j = "persistWalletNonceObservation j0 obs"
  have v: "journal_valid pf b ?j" using observation_Inr[OF o] v0 by (intro persist_valid) auto
  show thesis
  proof (cases existing)
    case None
    obtain j' n recovered where n: "reserve_next ?j action obs = (j', n, recovered)"
      by (cases "reserve_next ?j action obs") auto
    with rest None have r: "r = \<lparr>res_path = path, res_nonce = n, res_recovered = recovered\<rparr>"
      and s': "s' = s(path \<mapsto> j')" and v': "journal_valid pf b j'"
      by (auto simp: replace_Inr)
    note st = reserve_next_step[OF n v]
    have "journal_write pf b path s s' j0 j'"
      unfolding s' using st by (intro persist_write[where obs = obs] j0 v0 v') simp
    moreover have "fresh_nonce ?j obs = fresh_nonce j0 obs" "nonce_owner ?j = nonce_owner j0"
      by (simp_all add: fresh_nonce_def nonce_owner_def fun_eq_iff)
    ultimately show thesis
      using that[OF b _ o] st p r None by (auto split: if_splits)
  next
    case (Some rec)
    obtain tx j' where tx: "assertAllocatorSignedRecord pf rec b = Inr tx"
      and ad: "adopt_signed ?j action rec tx = Inr j'"
      and v': "journal_valid pf b j'"
      and s': "s' = s(path \<mapsto> j')" and r: "r = \<lparr>res_path = path, res_nonce = tx_nonce tx, res_recovered = True\<rparr>"
      using rest Some by (auto simp: replace_Inr)
    obtain a where a: "entry_step ?j j' a" "alloc_nonce a = tx_nonce tx" "action_id a = action"
      using adopt_signed_step[OF ad journal_valid_distinct[OF v]] by blast
    have "journal_write pf b path s s' j0 j'"
      unfolding s' by (intro persist_write[where obs = obs] j0 v0 v' entry_step_extends[OF a(1)])
    moreover have "nonce_owner j' (tx_nonce tx) = Some action"
      using a by (auto simp: entry_step_def nonce_owner_def)
    ultimately show thesis using that[OF b _ o] p r Some by simp
  qed
qed

lemma record_signed_spec:
  assumes "recordWalletNonceSignedLocked pf w action rec s = Inr ((path, n), s')"
  obtains b tx j j' a where
    "walletNonceBinding pf (w_chain_id w) (w_signer w) = Inr b"
    "walletNonceAllocatorPath pf w = Inr path"
    "assertAllocatorSignedRecord pf rec b = Inr tx" "n = tx_nonce tx"
    "journal_write pf b path s s' j j'" "nonce_entry j' n = Some a"
    "action_id a = action" "transaction_hash a = Some (to_lower (sr_hash rec))"
    "alloc_state a \<in> {Signed, Broadcast}"
proof -
  obtain b tx j j' where *: "walletNonceBinding pf (w_chain_id w) (w_signer w) = Inr b"
    "walletNonceAllocatorPath pf w = Inr path"
    "assertAllocatorSignedRecord pf rec b = Inr tx" "n = tx_nonce tx"
    and j: "s path = Some j \<or> s path = None \<and> j = empty_journal b" "journal_valid pf b j"
    and bd: "bind_signed j action rec tx = Inr j'" and v': "journal_valid pf b j'" and s': "s' = s(path \<mapsto> j')"
    using assms by (auto simp: recordWalletNonceSignedLocked_def read_Inr replace_Inr)
  obtain a where a: "entry_step j j' a" "alloc_nonce a = tx_nonce tx" "action_id a = action"
    "transaction_hash a = Some (to_lower (sr_hash rec))" "alloc_state a \<in> {Signed, Broadcast}"
    using bind_signed_step[OF bd journal_valid_distinct[OF j(2)]] by blast
  have "journal_write pf b path s s' j j'"
    using j v' s' entry_step_extends[OF a(1)] by (simp add: journal_write_def)
  moreover have "nonce_entry j' n = Some a" using a * by (simp add: entry_step_def)
  ultimately show thesis using that * a by simp
qed

lemma set_state_write:
  assumes "set_state action n st j1 = Inr j'" and "journal_valid pf b j1"
    and "s path = Some j \<or> s path = None \<and> j = empty_journal b" and "journal_valid pf b j"
    and "nonce_entry j1 = nonce_entry j" and "counters_grow j j1" and "journal_valid pf b j'"
  shows "\<exists>old. nonce_entry j n = Some old \<and> action_id old = action \<and>
    nonce_entry j' n = Some (old\<lparr>alloc_state := st\<rparr>) \<and> journal_write pf b path s (s(path \<mapsto> j')) j j'"
proof -
  obtain old where old: "nonce_entry j1 n = Some old" "action_id old = action" "alloc_nonce old = n"
    and st: "entry_step j1 j' (old\<lparr>alloc_state := st\<rparr>)"
    using set_state_step[OF assms(1) journal_valid_distinct[OF assms(2)]] by blast
  have "extends j j'"
    by (rule entry_step_extends[OF entry_step_counters[OF assms(5,6) st]])
  then have "journal_write pf b path s (s(path \<mapsto> j')) j j'"
    using assms(3,4,7) by (simp add: journal_write_def)
  then show ?thesis using old st assms(5) by (intro exI[of _ old]) (simp add: entry_step_def)
qed

lemma decide_spec:
  assumes "decide_broadcast pf rpc rpcs w action rec s = Inr (d, s')"
  obtains b path tx j j' where
    "walletNonceBinding pf (w_chain_id w) (w_signer w) = Inr b"
    "walletNonceAllocatorPath pf w = Inr path" "assertAllocatorSignedRecord pf rec b = Inr tx"
    "s path = Some j \<or> s path = None \<and> j = empty_journal b"
    "journal_write pf b path s s' j j'" "d_nonce d = tx_nonce tx"
    "d_broadcast d \<longrightarrow> nonce_entry j' = nonce_entry j \<and> getTransaction rpc (sr_hash rec) = Inr None \<and>
       (\<exists>obs. walletNonceObservation rpcs (b_signer b) = Inr obs \<and>
          finalizedNonce obs \<le> d_nonce d \<and> pendingNonce obs \<le> d_nonce d)"
    "\<not> d_broadcast d \<longrightarrow> (\<exists>old. nonce_entry j (d_nonce d) = Some old \<and> action_id old = action \<and>
       nonce_entry j' (d_nonce d) = Some (old\<lparr>alloc_state := (if d_known d then Broadcast else Fenced)\<rparr>))"
proof -
  obtain b path tx j where b: "walletNonceBinding pf (w_chain_id w) (w_signer w) = Inr b"
    and p: "walletNonceAllocatorPath pf w = Inr path" and t: "assertAllocatorSignedRecord pf rec b = Inr tx"
    and j: "s path = Some j \<or> s path = None \<and> j = empty_journal b" and v: "journal_valid pf b j"
    using assms by (auto simp: decide_broadcast_def read_Inr)
  note found = that[OF b p t j]
  have rd: "readWalletNonceAllocator pf s path b = Inr j" using j v by (simp add: read_Inr)
  show thesis
  proof (cases "getTransaction rpc (sr_hash rec)")
    case (Inl m)
    then show thesis using assms b p t rd by (simp add: decide_broadcast_def)
  next
    case (Inr answer)
    show thesis
    proof (cases answer)
      case (Some known)
      then obtain j' where st: "set_state action (tx_nonce tx) Broadcast j = Inr j'"
        and v': "journal_valid pf b j'" and s': "s' = s(path \<mapsto> j')"
        and d: "d = \<lparr>d_broadcast = False, d_known = True, d_nonce = tx_nonce tx\<rparr>"
        using assms b p t rd Inr by (auto simp: decide_broadcast_def Let_def replace_Inr)
      from set_state_write[where s = s and path = path, OF st v j v refl counters_grow_refl v']
      show thesis using found[of j'] s' d by auto
    next
      case None
      obtain obs where o: "walletNonceObservation rpcs (b_signer b) = Inr obs"
        using assms b p t rd Inr None by (auto simp: decide_broadcast_def Let_def)
      let ?j1 = "persistWalletNonceObservation j obs"
      have v1: "journal_valid pf b ?j1" using observation_Inr[OF o] v by (intro persist_valid) auto
      show thesis
      proof (cases "finalizedNonce obs > tx_nonce tx \<or> pendingNonce obs > tx_nonce tx")
        case True
        then obtain j' where st: "set_state action (tx_nonce tx) Fenced ?j1 = Inr j'"
          and v': "journal_valid pf b j'" and s': "s' = s(path \<mapsto> j')"
          and d: "d = \<lparr>d_broadcast = False, d_known = False, d_nonce = tx_nonce tx\<rparr>"
          using assms b p t rd Inr None o by (auto simp: decide_broadcast_def Let_def replace_Inr)
        from set_state_write[where s = s and path = path, OF st v1 j v persist_entries(1) persist_entries(4) v']
        show thesis using found[of j'] s' d by auto
      next
        case False
        then have s': "s' = s(path \<mapsto> ?j1)"
          and d: "d = \<lparr>d_broadcast = True, d_known = False, d_nonce = tx_nonce tx\<rparr>"
          using assms b p t rd Inr None o by (auto simp: decide_broadcast_def Let_def replace_Inr)
        have "journal_write pf b path s s' j ?j1"
          unfolding s' using j v v1 by (intro persist_write[where obs = obs]) simp_all
        then show thesis using found[of ?j1] d o False Inr None by auto
      qed
    qed
  qed
qed

text \<open>The operations as steps on the store.\<close>

datatype operator_op =
    Reserve "rpc_provider list" wallet_args string "signed_record option"
  | Record_signed wallet_args string signed_record
  | Record_broadcast wallet_args string signed_record
  | Decide rpc_provider "rpc_provider list" wallet_args string signed_record

fun operator_step :: "platform \<Rightarrow> operator_op \<Rightarrow> nonce_store \<Rightarrow> nonce_store" where
  "operator_step pf (Reserve rpcs w action existing) s =
     fst (commit s (reserveWalletNonceLocked pf rpcs w action existing s))"
| "operator_step pf (Record_signed w action rec) s =
     fst (commit s (recordWalletNonceSignedLocked pf w action rec s))"
| "operator_step pf (Record_broadcast w action rec) s =
     fst (recordWalletNonceBroadcastLocked pf w action rec s)"
| "operator_step pf (Decide rpc rpcs w action rec) s =
     fst (walletNonceBroadcastDecisionLocked pf rpc rpcs w action rec s)"

definition one_write :: "platform \<Rightarrow> nonce_store \<Rightarrow> nonce_store \<Rightarrow> bool" where
  "one_write pf s s' \<longleftrightarrow> (\<exists>b path j j'. journal_write pf b path s s' j j')"

lemma one_writeI: "journal_write pf b path s s' j j' \<Longrightarrow> one_write pf s s'"
  by (auto simp: one_write_def)

lemma reserve_write:
  "reserveWalletNonceLocked pf rpcs w action existing s = Inr (r, s') \<Longrightarrow> one_write pf s s'"
  by (erule reserve_spec) (rule one_writeI)

lemma record_signed_write:
  "recordWalletNonceSignedLocked pf w action rec s = Inr (x, s') \<Longrightarrow> one_write pf s s'"
  by (cases x, simp, erule record_signed_spec) (rule one_writeI)

lemma decide_write: "decide_broadcast pf rpc rpcs w action rec s = Inr (d, s') \<Longrightarrow> one_write pf s s'"
  by (erule decide_spec) (rule one_writeI)

lemma broadcast_second_write:
  assumes "and_then (walletNonceBinding pf (w_chain_id w) (w_signer w)) (\<lambda>b.
             and_then (walletNonceAllocatorPath pf w) (\<lambda>path.
             and_then (readWalletNonceAllocator pf s path b) (\<lambda>j.
             and_then (set_state action n st j) (\<lambda>j'.
             and_then (replaceWalletNonceAllocator pf s path b j') (\<lambda>s2. Inr (x, s2)))))) = Inr (y, s')"
  shows "one_write pf s s'"
proof -
  obtain b path j j' where j: "s path = Some j \<or> s path = None \<and> j = empty_journal b" "journal_valid pf b j"
    and st: "set_state action n st j = Inr j'" and v': "journal_valid pf b j'" and s': "s' = s(path \<mapsto> j')"
    using assms by (auto simp: read_Inr replace_Inr)
  show ?thesis
    using set_state_write[where s = s and path = path, OF st j(2,1,2) refl counters_grow_refl v'] s'
    by (auto intro: one_writeI)
qed

text \<open>A step makes no write, one, or two.\<close>

lemma commit_step:
  "(\<And>x s'. r = Inr (x, s') \<Longrightarrow> R s s') \<Longrightarrow> R s s \<Longrightarrow> R s (fst (commit s r))"
  by (cases "(s, r)" rule: commit.cases) auto

lemma operator_step_writes:
  assumes "\<And>s s'. one_write pf s s' \<Longrightarrow> R s s'"
    and refl: "\<And>s. R s s" and trans: "\<And>s t u. R s t \<Longrightarrow> R t u \<Longrightarrow> R s u"
  shows "R s (operator_step pf op s)"
proof (cases op)
  case (Reserve rpcs w action existing)
  show ?thesis unfolding Reserve operator_step.simps
    by (rule commit_step[OF assms(1)[OF reserve_write] refl])
next
  case (Record_signed w action rec)
  show ?thesis unfolding Record_signed operator_step.simps
    by (rule commit_step[OF assms(1)[OF record_signed_write] refl])
next
  case (Record_broadcast w action rec)
  show ?thesis
  proof (cases "recordWalletNonceSignedLocked pf w action rec s")
    case (Inl err)
    then show ?thesis using refl Record_broadcast by (simp add: recordWalletNonceBroadcastLocked_def)
  next
    case (Inr res)
    obtain x s1 where res: "res = (x, s1)" by (cases res)
    have "R s1 (operator_step pf op s)"
      unfolding Record_broadcast operator_step.simps recordWalletNonceBroadcastLocked_def Inr res sum.case prod.case
      by (rule commit_step[OF assms(1)[OF broadcast_second_write] refl])
    then show ?thesis using trans assms(1)[OF record_signed_write[OF Inr[unfolded res]]] by blast
  qed
next
  case (Decide rpc rpcs w action rec)
  show ?thesis
  proof (cases "recordWalletNonceSignedLocked pf w action rec s")
    case (Inl err)
    then show ?thesis using refl Decide by (simp add: walletNonceBroadcastDecisionLocked_def)
  next
    case (Inr res)
    obtain x s1 where res: "res = (x, s1)" by (cases res)
    have "R s1 (operator_step pf op s)"
      unfolding Decide operator_step.simps walletNonceBroadcastDecisionLocked_def Inr res sum.case prod.case
      by (rule commit_step[OF assms(1)[OF decide_write] refl])
    then show ?thesis using trans assms(1)[OF record_signed_write[OF Inr[unfolded res]]] by blast
  qed
qed

lemma operator_step_extends: "store_extends s (operator_step pf op s)"
  by (rule operator_step_writes[where R = store_extends])
    (auto simp: one_write_def intro: journal_write_extends store_extends_trans)

lemma operator_step_valid: "store_valid pf s \<Longrightarrow> store_valid pf (operator_step pf op s)"
  by (rule operator_step_writes[where R = "\<lambda>s s'. store_valid pf s \<longrightarrow> store_valid pf s'" and pf = pf, rule_format])
    (auto simp: one_write_def intro: journal_write_valid)

end
