(* ===== verification/Wallet_Coordinator.thy ===== *)
theory Wallet_Coordinator
  imports Wallet_Nonce
begin

text \<open>
  The nonce coordinator of agent/wallet-nonce-coordinator.mjs, which the censorship fallback uses on
  the same journal files as the operator: its validation, observation and operations, and what they do
  to the journal. Where it computes what the operator's module computes, this is proved.
\<close>

section \<open>Paths, validation and the file\<close>

definition coordinatorLockPath :: "platform \<Rightarrow> wallet_args \<Rightarrow> nonce_error + string" where
  "coordinatorLockPath pf w =
     require (safe_integer (w_chain_id w) \<and> \<not> w_chain_id w \<le> 0) Chain_id_invalid
       (require (w_root w \<noteq> []) Coordination_root_missing
         (and_then (of_option Address_invalid (getAddress pf (w_signer w))) (\<lambda>a.
            let lockId = ''sha256:'' @ sha256_hex pf (lock_json (w_chain_id w) (to_lower a))
            in Inr (join_path (resolve_path pf (w_root w)) (drop 7 lockId @ lock_suffix)))))"

definition coordinatorAllocatorPath :: "platform \<Rightarrow> wallet_args \<Rightarrow> nonce_error + string" where
  "coordinatorAllocatorPath pf w =
     and_then (coordinatorLockPath pf w) (\<lambda>p. Inr (replace_suffix p lock_suffix allocator_suffix))"

definition coordinatorBinding :: "platform \<Rightarrow> int \<Rightarrow> string \<Rightarrow> nonce_error + wallet_binding" where
  "coordinatorBinding pf chain s =
     and_then (of_option Address_invalid (getAddress pf s)) (\<lambda>a.
       Inr \<lparr>b_schema = ''p42-wallet-nonce-binding/v1'', b_chain_id = chain, b_signer = to_lower a\<rparr>)"

fun check_journal_allocations :: "platform \<Rightarrow> int list \<Rightarrow> allocation list \<Rightarrow> nonce_error + unit" where
  "check_journal_allocations pf nonces [] = Inr ()"
| "check_journal_allocations pf nonces (a # as) =
     require (allocation_ok pf a \<and> alloc_nonce a \<notin> set nonces) Allocation_invalid
       (check_journal_allocations pf (alloc_nonce a # nonces) as)"

definition validateJournal :: "platform \<Rightarrow> nonce_journal \<Rightarrow> wallet_binding \<Rightarrow> nonce_error + nonce_journal" where
  "validateJournal pf j b =
     require (j_schema j = allocator_schema \<and> j_binding j = b) Journal_identity_invalid
     (require (safe_integer (next_nonce j) \<and> \<not> next_nonce j < 0 \<and>
         safe_integer (observed_finalized_nonce j) \<and> \<not> observed_finalized_nonce j < 0 \<and>
         safe_integer (observed_pending_nonce j) \<and>
         \<not> observed_pending_nonce j < observed_finalized_nonce j) Counters_invalid
     (and_then (check_journal_allocations pf [] (allocations j)) (\<lambda>_.
       require (\<not> next_nonce j < nonce_floor (allocations j)) Journal_regressed (Inr j))))"

definition readJournal :: "platform \<Rightarrow> nonce_store \<Rightarrow> string \<Rightarrow> wallet_binding \<Rightarrow> nonce_error + nonce_journal" where
  "readJournal pf s path b =
     (case s path of None \<Rightarrow> Inr (empty_journal b) | Some j \<Rightarrow> validateJournal pf j b)"

definition replaceJournal ::
    "platform \<Rightarrow> nonce_store \<Rightarrow> string \<Rightarrow> wallet_binding \<Rightarrow> nonce_journal \<Rightarrow> nonce_error + nonce_store" where
  "replaceJournal pf s path b j =
     and_then (validateJournal pf j b) (\<lambda>j'. Inr (s(path \<mapsto> j')))"

section \<open>The chain and the signed transaction\<close>

definition nonceObservation :: "rpc_provider list \<Rightarrow> string \<Rightarrow> nonce_error + nonce_observation" where
  "nonceObservation rpcs who =
     require (\<not> length rpcs < 2 \<and> length (remdups (map rpc_id rpcs)) = length rpcs) Rpc_set_invalid
     (and_then (observe_providers rpcs who) (\<lambda>obs.
        let f = highest (map finalizedNonce obs); p = highest (map pendingNonce obs)
        in require (safe_integer f \<and> \<not> f < 0 \<and> safe_integer p \<and> \<not> p < f) Nonce_evidence_invalid
             (Inr \<lparr>finalizedNonce = f, pendingNonce = p\<rparr>)))"

definition persistObservation :: "nonce_journal \<Rightarrow> nonce_observation \<Rightarrow> nonce_journal" where
  "persistObservation j obs =
     j\<lparr>observed_finalized_nonce := max (observed_finalized_nonce j) (finalizedNonce obs),
       observed_pending_nonce := max (observed_pending_nonce j) (pendingNonce obs)\<rparr>"

definition signedTransaction :: "platform \<Rightarrow> signed_record \<Rightarrow> wallet_binding \<Rightarrow> nonce_error + chain_tx" where
  "signedTransaction pf rec b =
     require (sr_schema rec = ''p42-signed-transaction/v1'' \<and> isHexString pf (sr_raw_tx rec))
       Signed_record_invalid
     (and_then (of_option Transaction_unparsable (transaction_from pf (sr_raw_tx rec))) (\<lambda>tx.
        require ((case tx_from tx of None \<Rightarrow> False | Some f \<Rightarrow> f \<noteq> [] \<and> to_lower f = b_signer b) \<and>
            tx_chainId tx = b_chain_id b \<and> tx_nonce tx = sr_nonce rec \<and>
            to_lower (keccak256 pf (sr_raw_tx rec)) = to_lower (sr_hash rec)) Signed_record_mismatch
          (Inr tx)))"

section \<open>Operations\<close>

definition adopt_existing ::
    "nonce_journal \<Rightarrow> string \<Rightarrow> signed_record \<Rightarrow> chain_tx \<Rightarrow> nonce_error + nonce_journal" where
  "adopt_existing j action rec tx =
     (let n = tx_nonce tx; h = to_lower (sr_hash rec); as = allocations j
      in require (find (\<lambda>a. alloc_nonce a = n \<and> action_id a \<noteq> action) as = None) (Nonce_of_another_action n)
         (and_then
           (case find (\<lambda>a. action_id a = action \<and> alloc_nonce a = n) as of
              None \<Rightarrow> Inr (as @ [\<lparr>action_id = action, alloc_nonce = n, alloc_state = Signed,
                                 transaction_hash = Some h\<rparr>])
            | Some a \<Rightarrow> require (\<not> truthy_hash_differs a h) Allocation_bound_elsewhere (Inr as))
           (\<lambda>as'. Inr (j\<lparr>allocations := as', next_nonce := max (next_nonce j) (n + 1)\<rparr>))))"

definition reserve_for_action ::
    "nonce_journal \<Rightarrow> string \<Rightarrow> nonce_observation \<Rightarrow> nonce_journal \<times> int \<times> bool" where
  "reserve_for_action j action obs =
     (let as = allocations j; mine = (\<lambda>a. action_id a = action \<and> alloc_state a = Reserved);
          prior = find mine (rev as);
          n = max (next_nonce j) (max (finalizedNonce obs) (pendingNonce obs));
          new = \<lparr>action_id = action, alloc_nonce = n, alloc_state = Reserved, transaction_hash = None\<rparr>
      in case prior of
           Some a \<Rightarrow>
             if alloc_nonce a \<ge> finalizedNonce obs \<and> alloc_nonce a \<ge> pendingNonce obs
             then (j, alloc_nonce a, True)
             else (j\<lparr>allocations := update_last mine (\<lambda>a. a\<lparr>alloc_state := Fenced\<rparr>) as @ [new],
                     next_nonce := n + 1\<rparr>, n, False)
         | None \<Rightarrow> (j\<lparr>allocations := as @ [new], next_nonce := n + 1\<rparr>, n, False))"

definition coordinatorReserve ::
    "platform \<Rightarrow> rpc_provider list \<Rightarrow> wallet_args \<Rightarrow> string \<Rightarrow> signed_record option \<Rightarrow> nonce_store
       \<Rightarrow> nonce_error + (reservation \<times> nonce_store)" where
  "coordinatorReserve pf rpcs w action existing s =
     and_then (coordinatorBinding pf (w_chain_id w) (w_signer w)) (\<lambda>b.
     and_then (coordinatorAllocatorPath pf w) (\<lambda>path.
     and_then (readJournal pf s path b) (\<lambda>j0.
     and_then (nonceObservation rpcs (b_signer b)) (\<lambda>obs.
       let j = persistObservation j0 obs
       in case existing of
            Some rec \<Rightarrow>
              and_then (signedTransaction pf rec b) (\<lambda>tx.
              and_then (adopt_existing j action rec tx) (\<lambda>j'.
              and_then (replaceJournal pf s path b j') (\<lambda>s'.
                Inr (\<lparr>res_path = path, res_nonce = tx_nonce tx, res_recovered = True\<rparr>, s'))))
          | None \<Rightarrow>
              (let (j', n, recovered) = reserve_for_action j action obs
               in and_then (replaceJournal pf s path b j') (\<lambda>s'.
                    Inr (\<lparr>res_path = path, res_nonce = n, res_recovered = recovered\<rparr>, s')))))))"

definition bind_record ::
    "nonce_journal \<Rightarrow> string \<Rightarrow> signed_record \<Rightarrow> chain_tx \<Rightarrow> string \<Rightarrow> nonce_error + nonce_journal" where
  "bind_record j action rec tx st =
     (let h = to_lower (sr_hash rec); as = allocations j;
          mine = (\<lambda>a. action_id a = action \<and> alloc_nonce a = tx_nonce tx)
      in case find mine as of
           None \<Rightarrow> Inl Reservation_missing
         | Some a \<Rightarrow>
             require (alloc_state a \<noteq> Fenced) Reservation_missing
             (require (\<not> truthy_hash_differs a h) Allocation_bound_elsewhere
               (Inr (j\<lparr>allocations := update_first mine (\<lambda>a. a\<lparr>transaction_hash := Some h,
                  alloc_state := (if st = Broadcast \<or> alloc_state a = Broadcast then Broadcast else Signed)\<rparr>) as\<rparr>))))"

definition coordinatorRecordSigned ::
    "platform \<Rightarrow> wallet_args \<Rightarrow> string \<Rightarrow> signed_record \<Rightarrow> string \<Rightarrow> nonce_store
       \<Rightarrow> nonce_error + (unit \<times> nonce_store)" where
  "coordinatorRecordSigned pf w action rec st s =
     and_then (coordinatorBinding pf (w_chain_id w) (w_signer w)) (\<lambda>b.
     and_then (signedTransaction pf rec b) (\<lambda>tx.
     and_then (coordinatorAllocatorPath pf w) (\<lambda>path.
     and_then (readJournal pf s path b) (\<lambda>j.
     and_then (bind_record j action rec tx st) (\<lambda>j'.
     and_then (replaceJournal pf s path b j') (\<lambda>s'. Inr ((), s')))))))"

definition sameKnownTransaction ::
    "known_transaction \<Rightarrow> signed_record \<Rightarrow> chain_tx \<Rightarrow> wallet_binding \<Rightarrow> bool" where
  "sameKnownTransaction known rec tx b \<longleftrightarrow>
     to_lower (known_hash known) = to_lower (sr_hash rec) \<and> known_nonce known = tx_nonce tx \<and>
     to_lower (known_from known) = b_signer b"

text \<open>The fence: the first allocation of the action, whatever its nonce.\<close>

definition fence_action :: "string \<Rightarrow> nonce_journal \<Rightarrow> nonce_error + nonce_journal" where
  "fence_action action j =
     (let mine = (\<lambda>a. action_id a = action)
      in require (find mine (allocations j) \<noteq> None) Allocation_not_found
           (Inr (j\<lparr>allocations := update_first mine (\<lambda>a. a\<lparr>alloc_state := Fenced\<rparr>) (allocations j)\<rparr>)))"

definition coordinator_decide ::
    "platform \<Rightarrow> rpc_provider \<Rightarrow> rpc_provider list \<Rightarrow> wallet_args \<Rightarrow> string \<Rightarrow> signed_record \<Rightarrow> nonce_store
       \<Rightarrow> nonce_error + (broadcast_decision \<times> nonce_store)" where
  "coordinator_decide pf rpc rpcs w action rec s =
     and_then (coordinatorBinding pf (w_chain_id w) (w_signer w)) (\<lambda>b.
     and_then (signedTransaction pf rec b) (\<lambda>tx.
       case getTransaction rpc (sr_hash rec) of
         Inl m \<Rightarrow> Inl (Rpc_error m)
       | Inr (Some known) \<Rightarrow>
           require (sameKnownTransaction known rec tx b) Rpc_identity_mismatch
             (Inr (\<lparr>d_broadcast = False, d_known = True, d_nonce = tx_nonce tx\<rparr>, s))
       | Inr None \<Rightarrow>
           and_then (nonceObservation rpcs (b_signer b)) (\<lambda>obs.
             if finalizedNonce obs > tx_nonce tx \<or> pendingNonce obs > tx_nonce tx
             then and_then (coordinatorAllocatorPath pf w) (\<lambda>path.
                  and_then (readJournal pf s path b) (\<lambda>j.
                  and_then (fence_action action j) (\<lambda>j'.
                  and_then (replaceJournal pf s path b j') (\<lambda>s'.
                    Inr (\<lparr>d_broadcast = False, d_known = False, d_nonce = tx_nonce tx\<rparr>, s')))))
             else Inr (\<lparr>d_broadcast = True, d_known = False, d_nonce = tx_nonce tx\<rparr>, s))))"

definition coordinatorDecision ::
    "platform \<Rightarrow> rpc_provider \<Rightarrow> rpc_provider list \<Rightarrow> wallet_args \<Rightarrow> string \<Rightarrow> signed_record \<Rightarrow> nonce_store
       \<Rightarrow> broadcast_decision outcome" where
  "coordinatorDecision pf rpc rpcs w action rec s =
     (case coordinatorRecordSigned pf w action rec Signed s of
        Inl err \<Rightarrow> (s, Inl err)
      | Inr (_, s1) \<Rightarrow> commit s1 (coordinator_decide pf rpc rpcs w action rec s1))"

section \<open>The same computations as the operator's\<close>

lemma check_journal_allocations_Inr:
  "check_journal_allocations pf nonces as = Inr u \<longleftrightarrow>
     (\<forall>a \<in> set as. allocation_ok pf a) \<and> distinct (map alloc_nonce as) \<and>
     set nonces \<inter> alloc_nonce ` set as = {}"
  by (cases u; induction pf nonces as rule: check_journal_allocations.induct) auto

lemma validateJournal_Inr: "validateJournal pf j b = Inr j' \<longleftrightarrow> j' = j \<and> journal_valid pf b j"
  by (auto simp: validateJournal_def journal_valid_def check_journal_allocations_Inr nonce_floor_le not_less)

lemma readJournal_Inr:
  "readJournal pf s path b = Inr j \<longleftrightarrow>
     (s path = Some j \<or> s path = None \<and> j = empty_journal b) \<and> journal_valid pf b j"
  by (auto simp: readJournal_def validateJournal_Inr empty_journal_valid split: option.splits)

lemma replaceJournal_Inr:
  "replaceJournal pf s path b j = Inr s' \<longleftrightarrow> journal_valid pf b j \<and> s' = s(path \<mapsto> j)"
  by (auto simp: replaceJournal_def validateJournal_Inr)

lemma coordinatorPath_Inr: "coordinatorAllocatorPath pf w = Inr p \<longleftrightarrow> walletNonceAllocatorPath pf w = Inr p"
  by (auto simp: coordinatorAllocatorPath_def walletNonceAllocatorPath_def coordinatorLockPath_def
      walletActionLockPath_def Let_def)

lemma coordinatorBinding_eq: "coordinatorBinding = walletNonceBinding"
  by (simp add: coordinatorBinding_def walletNonceBinding_def fun_eq_iff)

lemma signedTransaction_eq: "signedTransaction = assertAllocatorSignedRecord"
  by (simp add: signedTransaction_def assertAllocatorSignedRecord_def fun_eq_iff)

lemma nonceObservation_Inr:
  "nonceObservation rpcs who = Inr obs \<longleftrightarrow>
     2 \<le> length rpcs \<and> distinct (map rpc_id rpcs) \<and> walletNonceObservation rpcs who = Inr obs"
proof -
  have "length (remdups (map rpc_id rpcs)) = length rpcs \<longleftrightarrow> distinct (map rpc_id rpcs)"
    by (metis length_map length_remdups_eq remdups_id_iff_distinct)
  then show ?thesis
    by (auto simp: nonceObservation_def walletNonceObservation_def)
qed

lemma persistObservation_eq:
  "journal_valid pf b j \<Longrightarrow> finalizedNonce obs \<le> pendingNonce obs \<Longrightarrow>
   persistObservation j obs = persistWalletNonceObservation j obs"
  by (cases j) (auto simp: persistObservation_def persistWalletNonceObservation_def journal_valid_def Let_def max_def)

lemma reserve_for_action_eq: "reserve_for_action = reserve_next"
  by (auto simp: fun_eq_iff reserve_for_action_def reserve_next_def fresh_nonce_def Let_def split: option.split)

section \<open>What the operations do\<close>

lemma adopt_existing_step:
  assumes "adopt_existing j action rec tx = Inr j'" and "distinct (map alloc_nonce (allocations j))"
  shows "extends j j' \<and> nonce_owner j' (tx_nonce tx) = Some action"
proof -
  let ?mine = "\<lambda>a. action_id a = action \<and> alloc_nonce a = tx_nonce tx"
  let ?a = "\<lparr>action_id = action, alloc_nonce = tx_nonce tx, alloc_state = Signed,
     transaction_hash = Some (to_lower (sr_hash rec))\<rparr>"
  have conflict: "find (\<lambda>a. alloc_nonce a = tx_nonce tx \<and> action_id a \<noteq> action) (allocations j) = None"
    using assms(1) by (auto simp: adopt_existing_def Let_def)
  show ?thesis
  proof (cases "find ?mine (allocations j)")
    case None
    have "tx_nonce tx \<notin> alloc_nonce ` set (allocations j)"
      using None conflict by (auto simp: find_None_iff) metis
    then have "entry_step j j' ?a"
      using assms(1) None
      by (intro entry_stepI_append) (auto simp: adopt_existing_def Let_def counters_grow_def)
    then show ?thesis
      by (auto simp: entry_step_extends nonce_owner_def) (simp add: entry_step_def)
  next
    case (Some old)
    then have same: "nonce_entry j' = nonce_entry j" "counters_grow j j'"
      using assms(1) by (auto simp: adopt_existing_def Let_def nonce_entry_def counters_grow_def)
    have "nonce_entry j (tx_nonce tx) = Some old" "action_id old = action"
      using find_SomeD[OF Some] assms(2) by (simp_all add: nonce_entry_def entry_by_iff)
    then show ?thesis using same by (simp add: same_entries_extends nonce_owner_def)
  qed
qed

lemma bind_record_step:
  assumes "bind_record j action rec tx st = Inr j'" and "distinct (map alloc_nonce (allocations j))"
  shows "\<exists>a. entry_step j j' a \<and> alloc_nonce a = tx_nonce tx \<and> action_id a = action \<and>
    transaction_hash a = Some (to_lower (sr_hash rec)) \<and> alloc_state a \<in> {Signed, Broadcast}"
proof -
  let ?mine = "\<lambda>a. action_id a = action \<and> alloc_nonce a = tx_nonce tx"
  let ?f = "\<lambda>a. a\<lparr>transaction_hash := Some (to_lower (sr_hash rec)),
     alloc_state := (if st = Broadcast \<or> alloc_state a = Broadcast then Broadcast else Signed)\<rparr>"
  obtain old where f: "find ?mine (allocations j) = Some old"
    using assms(1) by (auto simp: bind_record_def Let_def split: option.splits)
  have old: "action_id old = action" "alloc_nonce old = tx_nonce tx" using find_SomeD[OF f] by auto
  have "entry_step j j' (?f old)"
    using assms(1) f
    by (intro entry_stepI_update[OF assms(2) f])
      (auto simp: bind_record_def Let_def counters_grow_def hash_of_def truthy_hash_differs_def split: option.splits)
  then show ?thesis using old by (intro exI[of _ "?f old"]) simp
qed

lemma fence_action_step:
  assumes "fence_action action j = Inr j'" and "distinct (map alloc_nonce (allocations j))"
  shows "\<exists>old. old \<in> set (allocations j) \<and> action_id old = action \<and> entry_step j j' (old\<lparr>alloc_state := Fenced\<rparr>)"
proof -
  let ?mine = "\<lambda>a. action_id a = action"
  obtain old where f: "find ?mine (allocations j) = Some old"
    using assms(1) by (auto simp: fence_action_def Let_def)
  have "entry_step j j' (old\<lparr>alloc_state := Fenced\<rparr>)"
    using assms(1)
    by (intro entry_stepI_update[OF assms(2) f]) (auto simp: fence_action_def Let_def counters_grow_def hash_of_def)
  then show ?thesis using find_SomeD[OF f] by blast
qed

lemma coordinator_record_write:
  assumes "coordinatorRecordSigned pf w action rec st s = Inr (u, s')"
  shows "one_write pf s s'"
proof -
  obtain b tx path j j' where rd: "readJournal pf s path b = Inr j"
    and bd: "bind_record j action rec tx st = Inr j'" and wr: "replaceJournal pf s path b j' = Inr s'"
    using assms by (auto simp: coordinatorRecordSigned_def)
  note j = rd[unfolded readJournal_Inr] and s' = wr[unfolded replaceJournal_Inr]
  obtain a where "entry_step j j' a"
    using bind_record_step[OF bd journal_valid_distinct] j by blast
  then have "journal_write pf b path s s' j j'"
    using j s' entry_step_extends by (simp add: journal_write_def)
  then show ?thesis by (rule one_writeI)
qed

lemma coordinator_decide_write:
  assumes "coordinator_decide pf rpc rpcs w action rec s = Inr (d, s')"
  shows "one_write pf s s' \<or> s' = s"
proof (cases "s' = s")
  case False
  then obtain b path j j' where rd: "readJournal pf s path b = Inr j"
    and f: "fence_action action j = Inr j'" and wr: "replaceJournal pf s path b j' = Inr s'"
    using assms
    by (cases "getTransaction rpc (sr_hash rec)"; cases "projr (getTransaction rpc (sr_hash rec))")
      (auto simp: coordinator_decide_def split: if_splits)
  note j = rd[unfolded readJournal_Inr] and s' = wr[unfolded replaceJournal_Inr]
  obtain old where "entry_step j j' (old\<lparr>alloc_state := Fenced\<rparr>)"
    using fence_action_step[OF f journal_valid_distinct] j by blast
  then have "journal_write pf b path s s' j j'"
    using j s' entry_step_extends by (simp add: journal_write_def)
  then show ?thesis by (blast intro: one_writeI)
qed simp

text \<open>The two modules reserve the same nonces.\<close>

definition reserves_next ::
    "platform \<Rightarrow> rpc_provider list \<Rightarrow> wallet_args \<Rightarrow> string \<Rightarrow> nonce_store \<Rightarrow> reservation \<times> nonce_store \<Rightarrow> bool" where
  "reserves_next pf rpcs w action s x \<longleftrightarrow>
     (\<exists>b path j obs j' n recovered.
        walletNonceBinding pf (w_chain_id w) (w_signer w) = Inr b \<and> walletNonceAllocatorPath pf w = Inr path \<and>
        readWalletNonceAllocator pf s path b = Inr j \<and> walletNonceObservation rpcs (b_signer b) = Inr obs \<and>
        reserve_next (persistWalletNonceObservation j obs) action obs = (j', n, recovered) \<and>
        journal_valid pf b j' \<and>
        x = (\<lparr>res_path = path, res_nonce = n, res_recovered = recovered\<rparr>, s(path \<mapsto> j')))"

lemma operator_reserves:
  "reserveWalletNonceLocked pf rpcs w action None s = Inr x \<longleftrightarrow>
     action \<noteq> [] \<and> reserves_next pf rpcs w action s x"
proof
  assume "reserveWalletNonceLocked pf rpcs w action None s = Inr x"
  then obtain b path j obs where *: "action \<noteq> []" "walletNonceBinding pf (w_chain_id w) (w_signer w) = Inr b"
    "walletNonceAllocatorPath pf w = Inr path" "readWalletNonceAllocator pf s path b = Inr j"
    "walletNonceObservation rpcs (b_signer b) = Inr obs"
    and rest: "(let (j', n, recovered) = reserve_next (persistWalletNonceObservation j obs) action obs
               in and_then (replaceWalletNonceAllocator pf s path b j') (\<lambda>s'.
                    Inr (\<lparr>res_path = path, res_nonce = n, res_recovered = recovered\<rparr>, s'))) = Inr x"
    by (auto simp: reserveWalletNonceLocked_def Let_def)
  then show "action \<noteq> [] \<and> reserves_next pf rpcs w action s x"
    unfolding reserves_next_def
    by (cases "reserve_next (persistWalletNonceObservation j obs) action obs") (auto simp: replace_Inr)
next
  assume "action \<noteq> [] \<and> reserves_next pf rpcs w action s x"
  then show "reserveWalletNonceLocked pf rpcs w action None s = Inr x"
    by (auto simp: reserves_next_def reserveWalletNonceLocked_def replace_Inr)
qed

lemma coordinator_reserves:
  assumes "2 \<le> length rpcs" and "distinct (map rpc_id rpcs)"
  shows "coordinatorReserve pf rpcs w action None s = Inr x \<longleftrightarrow> reserves_next pf rpcs w action s x"
proof
  assume "coordinatorReserve pf rpcs w action None s = Inr x"
  then obtain b path j obs where *: "walletNonceBinding pf (w_chain_id w) (w_signer w) = Inr b"
    "walletNonceAllocatorPath pf w = Inr path" "readJournal pf s path b = Inr j"
    "nonceObservation rpcs (b_signer b) = Inr obs"
    and rest: "(let (j', n, recovered) = reserve_next (persistObservation j obs) action obs
               in and_then (replaceJournal pf s path b j') (\<lambda>s'.
                    Inr (\<lparr>res_path = path, res_nonce = n, res_recovered = recovered\<rparr>, s'))) = Inr x"
    by (auto simp: coordinatorReserve_def Let_def coordinatorBinding_eq coordinatorPath_Inr reserve_for_action_eq)
  have "persistObservation j obs = persistWalletNonceObservation j obs"
    using * persistObservation_eq observation_Inr by (auto simp: nonceObservation_Inr readJournal_Inr)
  moreover have "readWalletNonceAllocator pf s path b = Inr j" "walletNonceObservation rpcs (b_signer b) = Inr obs"
    using * by (simp_all add: read_Inr readJournal_Inr nonceObservation_Inr)
  ultimately show "reserves_next pf rpcs w action s x"
    using *(1,2) rest unfolding reserves_next_def
    by (cases "reserve_next (persistObservation j obs) action obs") (auto simp: replaceJournal_Inr)
next
  assume "reserves_next pf rpcs w action s x"
  then obtain b path j obs j' n recovered where *: "walletNonceBinding pf (w_chain_id w) (w_signer w) = Inr b"
    "walletNonceAllocatorPath pf w = Inr path" "readWalletNonceAllocator pf s path b = Inr j"
    "walletNonceObservation rpcs (b_signer b) = Inr obs"
    "reserve_next (persistWalletNonceObservation j obs) action obs = (j', n, recovered)"
    "journal_valid pf b j'" "x = (\<lparr>res_path = path, res_nonce = n, res_recovered = recovered\<rparr>, s(path \<mapsto> j'))"
    unfolding reserves_next_def by blast
  have "persistObservation j obs = persistWalletNonceObservation j obs"
    using * persistObservation_eq observation_Inr by (auto simp: read_Inr)
  moreover have "readJournal pf s path b = Inr j" "nonceObservation rpcs (b_signer b) = Inr obs"
    using * assms by (simp_all add: read_Inr readJournal_Inr nonceObservation_Inr)
  ultimately show "coordinatorReserve pf rpcs w action None s = Inr x"
    using * by (simp add: coordinatorReserve_def coordinatorBinding_eq coordinatorPath_Inr reserve_for_action_eq
        replaceJournal_Inr)
qed

lemma reserves_next_action: "reserves_next pf rpcs w action s x \<Longrightarrow> action \<noteq> []"
proof -
  assume "reserves_next pf rpcs w action s x"
  then obtain b path j obs j' n recovered where r: "readWalletNonceAllocator pf s path b = Inr j"
    "walletNonceObservation rpcs (b_signer b) = Inr obs"
    and n: "reserve_next (persistWalletNonceObservation j obs) action obs = (j', n, recovered)"
    and v': "journal_valid pf b j'"
    unfolding reserves_next_def by blast
  have "journal_valid pf b (persistWalletNonceObservation j obs)"
    using r observation_Inr by (auto simp: read_Inr intro: persist_valid)
  from reserve_next_step[OF n this] obtain a where "nonce_entry j' n = Some a" "action_id a = action"
    by (auto simp: nonce_owner_def)
  then show ?thesis
    using v' by (auto simp: nonce_entry_def journal_valid_def allocation_ok_def dest!: entry_by_SomeD)
qed

lemma coordinator_reserve_write:
  assumes "coordinatorReserve pf rpcs w action existing s = Inr (r, s')"
  shows "one_write pf s s'"
proof (cases existing)
  case None
  have "2 \<le> length rpcs" "distinct (map rpc_id rpcs)"
    using assms by (auto simp: coordinatorReserve_def nonceObservation_Inr)
  from coordinator_reserves[OF this] have "reserveWalletNonceLocked pf rpcs w action None s = Inr (r, s')"
    using assms None reserves_next_action by (simp add: operator_reserves)
  then show ?thesis by (rule reserve_write)
next
  case (Some rec)
  then obtain b path j0 obs tx j' where rd: "readJournal pf s path b = Inr j0"
    and o: "nonceObservation rpcs (b_signer b) = Inr obs"
    and ad: "adopt_existing (persistObservation j0 obs) action rec tx = Inr j'"
    and wr: "replaceJournal pf s path b j' = Inr s'"
    using assms by (auto simp: coordinatorReserve_def Let_def)
  have ob: "walletNonceObservation rpcs (b_signer b) = Inr obs" using o by (simp add: nonceObservation_Inr)
  note j0 = rd[unfolded readJournal_Inr] and s' = wr[unfolded replaceJournal_Inr]
  have eq: "persistObservation j0 obs = persistWalletNonceObservation j0 obs"
    using j0 observation_Inr[OF ob] by (intro persistObservation_eq) auto
  have "distinct (map alloc_nonce (allocations (persistWalletNonceObservation j0 obs)))"
    using j0 by (simp add: journal_valid_def)
  then have "extends (persistWalletNonceObservation j0 obs) j'"
    using adopt_existing_step ad eq by metis
  then have "journal_write pf b path s s' j0 j'"
    using j0 s' persist_write[of s path j0 b pf j' obs] by blast
  then show ?thesis by (rule one_writeI)
qed

end
