(* ===== verification/Wallet_Protocol.thy ===== *)
theory Wallet_Protocol
  imports Wallet_Coordinator
begin

text \<open>
  The operator's allocator and the coordinator together: processes of both kinds run their operations,
  in any order, on the same journal files. The machine of all operations with its two contracts, and the
  properties of the protocol.
\<close>

section \<open>All operations on the shared store\<close>

datatype wallet_op =
    Operator operator_op
  | Coordinator_reserve "rpc_provider list" wallet_args string "signed_record option"
  | Coordinator_record wallet_args string signed_record string
  | Coordinator_decide rpc_provider "rpc_provider list" wallet_args string signed_record

fun wallet_step :: "platform \<Rightarrow> nonce_store \<Rightarrow> wallet_op \<Rightarrow> nonce_error + nonce_store" where
  "wallet_step pf s (Operator op) = Inr (operator_step pf op s)"
| "wallet_step pf s (Coordinator_reserve rpcs w action existing) =
     Inr (fst (commit s (coordinatorReserve pf rpcs w action existing s)))"
| "wallet_step pf s (Coordinator_record w action rec st) =
     Inr (fst (commit s (coordinatorRecordSigned pf w action rec st s)))"
| "wallet_step pf s (Coordinator_decide rpc rpcs w action rec) =
     Inr (fst (coordinatorDecision pf rpc rpcs w action rec s))"

lemma wallet_step_writes:
  assumes "wallet_step pf s op = Inr s'"
    and wr: "\<And>s s'. one_write pf s s' \<Longrightarrow> R s s'"
    and refl: "\<And>s. R s s" and trans: "\<And>s t u. R s t \<Longrightarrow> R t u \<Longrightarrow> R s u"
  shows "R s s'"
proof (cases op)
  case (Operator op')
  have "R s (operator_step pf op' s)"
    by (rule operator_step_writes) (fact wr, fact refl, fact trans)
  then show ?thesis using assms(1) Operator by simp
next
  case (Coordinator_reserve rpcs w action existing)
  have "R s (fst (commit s (coordinatorReserve pf rpcs w action existing s)))"
    by (rule commit_step[OF wr[OF coordinator_reserve_write] refl])
  then show ?thesis using assms(1) Coordinator_reserve by simp
next
  case (Coordinator_record w action rec st)
  have "R s (fst (commit s (coordinatorRecordSigned pf w action rec st s)))"
    by (rule commit_step[OF wr[OF coordinator_record_write] refl])
  then show ?thesis using assms(1) Coordinator_record by simp
next
  case (Coordinator_decide rpc rpcs w action rec)
  show ?thesis
  proof (cases "coordinatorRecordSigned pf w action rec Signed s")
    case (Inl err)
    then show ?thesis using refl Coordinator_decide assms(1) by (simp add: coordinatorDecision_def)
  next
    case (Inr res)
    obtain u s1 where res: "res = (u, s1)" by (cases res)
    have "R s1 (fst (commit s1 (coordinator_decide pf rpc rpcs w action rec s1)))"
      by (rule commit_step[OF _ refl]) (use coordinator_decide_write wr refl in blast)
    moreover have "R s s1" using coordinator_record_write[OF Inr[unfolded res]] by (rule wr)
    ultimately show ?thesis using trans Inr res Coordinator_decide assms(1) by (simp add: coordinatorDecision_def)
  qed
qed

interpretation wallet: monotone_machine "wallet_step pf" store_extends for pf
proof unfold_locales
  show "store_extends s s'" if "wallet_step pf s op = Inr s'" for s op s'
    using that by (rule wallet_step_writes)
      (auto simp: one_write_def intro: journal_write_extends store_extends_trans)
qed (auto intro: store_extends_trans)

interpretation wallet: fail_closed_machine "wallet_step pf" "store_valid pf" for pf
proof unfold_locales
  show "store_valid pf s'" if "store_valid pf s" "wallet_step pf s op = Inr s'" for s op s'
  proof -
    have "store_valid pf s \<longrightarrow> store_valid pf s'"
      using that(2) by (rule wallet_step_writes) (auto simp: one_write_def intro: journal_write_valid)
    then show ?thesis using that(1) by blast
  qed
qed

lemma wallet_run: "\<exists>s'. run_events (wallet_step pf) s ops = Inr s'"
proof (induction ops arbitrary: s)
  case (Cons op ops)
  obtain t where "wallet_step pf s op = Inr t" by (cases op) auto
  with Cons.IH[of t] show ?case by simp
qed simp

section \<open>Properties\<close>

text \<open>
  C5. A nonce is never bound to two transactions: once a journal names a transaction hash for a nonce,
  every later state of the file, after any operations of both modules, names the same hash and the same
  action for it, and none of its three counters goes back.
\<close>

theorem nonce_binding_permanent:
  assumes "run_events (wallet_step pf) s ops = Inr s'" and "s path = Some j"
  shows "\<exists>j'. s' path = Some j' \<and>
    (\<forall>n action. nonce_owner j n = Some action \<longrightarrow> nonce_owner j' n = Some action) \<and>
    (\<forall>n h. bound_hash j n = Some h \<longrightarrow> bound_hash j' n = Some h) \<and>
    next_nonce j \<le> next_nonce j' \<and> observed_finalized_nonce j \<le> observed_finalized_nonce j' \<and>
    observed_pending_nonce j \<le> observed_pending_nonce j'"
proof -
  obtain j' where "s' path = Some j'" "extends j j'"
    using wallet.run_rel[OF assms(1)] assms(2) by (auto simp: store_extends_def)
  then show ?thesis by (intro exI[of _ j']) (auto simp: extends_def map_le_def dom_def)
qed

text \<open>
   Every file stays a valid journal of one wallet: from a store of valid journals, all operations of
  both modules lead to a store of valid journals, in which the nonces of a journal are distinct, below
  its next nonce, and all counters are safe integers.
\<close>

theorem wallet_store_typed:
  assumes "store_valid pf s" and "run_events (wallet_step pf) s ops = Inr s'"
  shows "store_valid pf s' \<and> (\<forall>path j. s' path = Some j \<longrightarrow>
     distinct (map alloc_nonce (allocations j)) \<and>
     (\<forall>a \<in> set (allocations j). 0 \<le> alloc_nonce a \<and> alloc_nonce a < next_nonce j) \<and>
     observed_finalized_nonce j \<le> observed_pending_nonce j \<and> safe_integer (next_nonce j))"
  using wallet.run_inv[OF assms]
  by (auto simp: store_valid_def journal_valid_def allocation_ok_def not_less)

text \<open>Reserving a nonce, by either module.\<close>

datatype wallet_module = Operator_module | Coordinator_module

fun reserve_by ::
    "wallet_module \<Rightarrow> platform \<Rightarrow> rpc_provider list \<Rightarrow> wallet_args \<Rightarrow> string \<Rightarrow> nonce_store
       \<Rightarrow> nonce_error + (reservation \<times> nonce_store)" where
  "reserve_by Operator_module pf rpcs w action s = reserveWalletNonceLocked pf rpcs w action None s"
| "reserve_by Coordinator_module pf rpcs w action s = coordinatorReserve pf rpcs w action None s"

lemma reserve_by_operator:
  "reserve_by m pf rpcs w action s = Inr x \<Longrightarrow> reserveWalletNonceLocked pf rpcs w action None s = Inr x"
proof (cases m)
  case Coordinator_module
  assume r: "reserve_by m pf rpcs w action s = Inr x"
  then have "2 \<le> length rpcs" "distinct (map rpc_id rpcs)"
    using Coordinator_module by (auto simp: coordinatorReserve_def nonceObservation_Inr)
  then show ?thesis
    using r Coordinator_module reserves_next_action by (simp add: coordinator_reserves operator_reserves)
qed simp

lemma reserve_by_extends: "reserve_by m pf rpcs w action s = Inr (r, s') \<Longrightarrow> store_extends s s'"
  by (drule reserve_by_operator, drule reserve_write) (auto simp: one_write_def intro: journal_write_extends)

lemma reserve_by_owner:
  assumes "reserve_by m pf rpcs w action s = Inr (r, s')"
  shows "\<exists>j'. s' (res_path r) = Some j' \<and> nonce_owner j' (res_nonce r) = Some action"
  using reserve_by_operator[OF assms] by (rule reserve_spec) (auto simp: journal_write_def)

text \<open>
  C4. No nonce is handed out twice: when an action reserves a nonce, with either module, and after any
  operations of both modules another action reserves one in the same journal, the two nonces differ.
\<close>

theorem reserved_nonces_distinct:
  assumes "reserve_by m pf rpcs w action s = Inr (r, s1)"
    and "run_events (wallet_step pf) s1 ops = Inr s2"
    and "reserve_by m' pf rpcs' w' action' s2 = Inr (r', s3)"
    and "res_path r' = res_path r" and "action' \<noteq> action"
  shows "res_nonce r' \<noteq> res_nonce r"
proof
  assume same: "res_nonce r' = res_nonce r"
  obtain j1 where j1: "s1 (res_path r) = Some j1" "nonce_owner j1 (res_nonce r) = Some action"
    using reserve_by_owner[OF assms(1)] by blast
  have "store_extends s1 s3"
    by (rule store_extends_trans[OF wallet.run_rel[OF assms(2)] reserve_by_extends[OF assms(3)]])
  then obtain j3 where j3: "s3 (res_path r) = Some j3" "extends j1 j3"
    using j1(1) by (auto simp: store_extends_def)
  then have "nonce_owner j3 (res_nonce r) = Some action"
    using j1(2) by (auto simp: extends_def map_le_def dom_def)
  moreover have "nonce_owner j3 (res_nonce r) = Some action'"
    using reserve_by_owner[OF assms(3)] assms(4) j3(1) same by simp
  ultimately show False using assms(5) by simp
qed

text \<open>
   What a reservation is: its nonce is owned by the reserving action and not below any nonce count
  the chain reported; a fresh one was unassigned and unbound, a recovered one is an open reservation of
  the same action.
\<close>

theorem reservation_fresh_or_own:
  assumes "reserveWalletNonceLocked pf rpcs w action None s = Inr (r, s')"
  shows "\<exists>j j' obs who. s' (res_path r) = Some j' \<and> (s (res_path r) = Some j \<or> s (res_path r) = None \<and> allocations j = []) \<and>
    nonce_owner j' (res_nonce r) = Some action \<and>
    walletNonceObservation rpcs who = Inr obs \<and> finalizedNonce obs \<le> res_nonce r \<and> pendingNonce obs \<le> res_nonce r \<and>
    (if res_recovered r
     then \<exists>a. nonce_entry j (res_nonce r) = Some a \<and> action_id a = action \<and> alloc_state a = Reserved
     else nonce_owner j (res_nonce r) = None \<and> bound_hash j' (res_nonce r) = None \<and> next_nonce j \<le> res_nonce r)"
  using assms
proof (rule reserve_spec)
  fix b j j' obs
  assume *: "walletNonceObservation rpcs (b_signer b) = Inr obs" "journal_write pf b (res_path r) s s' j j'"
    "nonce_owner j' (res_nonce r) = Some action"
    "None = None \<Longrightarrow> finalizedNonce obs \<le> res_nonce r \<and> pendingNonce obs \<le> res_nonce r"
    "None = None \<Longrightarrow> \<not> res_recovered r \<Longrightarrow> nonce_owner j (res_nonce r) = None \<and>
       bound_hash j' (res_nonce r) = None \<and> res_nonce r = fresh_nonce j obs"
    "None = None \<Longrightarrow> res_recovered r \<Longrightarrow> \<exists>a. nonce_entry j (res_nonce r) = Some a \<and>
       action_id a = action \<and> alloc_state a = Reserved"
  show ?thesis
    by (rule exI[of _ j], rule exI[of _ j'], rule exI[of _ obs], rule exI[of _ "b_signer b"])
      (use * in \<open>auto simp: journal_write_def empty_journal_def fresh_nonce_def\<close>)
qed

section \<open>Progress\<close>

lemma fence_ok: "allocation_ok pf a \<Longrightarrow> allocation_ok pf (a\<lparr>alloc_state := Fenced\<rparr>)"
  by (simp add: allocation_ok_def)

lemma reserve_next_valid:
  assumes "reserve_next j action obs = (j', n, recovered)" and v: "journal_valid pf b j" and "action \<noteq> []"
    and "safe_integer (fresh_nonce j obs + 1)" and "0 \<le> finalizedNonce obs"
  shows "journal_valid pf b j'"
proof -
  let ?mine = "\<lambda>a. action_id a = action \<and> alloc_state a = Reserved"
  let ?as = "update_last ?mine (\<lambda>a. a\<lparr>alloc_state := Fenced\<rparr>) (allocations j)"
  let ?new = "\<lparr>action_id = action, alloc_nonce = fresh_nonce j obs, alloc_state = Reserved, transaction_hash = None\<rparr>"
  have keys: "map alloc_nonce ?as = map alloc_nonce (allocations j)" by (rule map_update_last) simp
  then have kset: "alloc_nonce ` set ?as = alloc_nonce ` set (allocations j)" by (metis list.set_map)
  have old: "\<And>a. a \<in> set (allocations j) \<Longrightarrow> allocation_ok pf a" using v by (simp add: journal_valid_def)
  have ok: "allocation_ok pf a" if "a \<in> set ?as" for a
  proof -
    have "a \<in> set (allocations j) \<union> (\<lambda>a. a\<lparr>alloc_state := Fenced\<rparr>) ` {a \<in> set (allocations j). ?mine a}"
      by (rule subsetD[OF set_update_last that])
    then show ?thesis
    proof
      assume "a \<in> (\<lambda>a. a\<lparr>alloc_state := Fenced\<rparr>) ` {a \<in> set (allocations j). ?mine a}"
      then obtain a0 where "a0 \<in> set (allocations j)" "a = a0\<lparr>alloc_state := Fenced\<rparr>" by blast
      then show ?thesis using fence_ok[OF old] by simp
    qed (rule old)
  qed
  have below: "alloc_nonce a < next_nonce j" if "a \<in> set ?as" for a
  proof -
    have "alloc_nonce a \<in> alloc_nonce ` set ?as" using that by (rule imageI)
    then have "alloc_nonce a \<in> alloc_nonce ` set (allocations j)" by (simp only: kset)
    then show ?thesis using v by (auto simp: journal_valid_def)
  qed
  have fresh: "0 \<le> fresh_nonce j obs" "next_nonce j \<le> fresh_nonce j obs" "safe_integer (fresh_nonce j obs)"
    using assms(4,5) by (auto simp: fresh_nonce_def safe_integer_def)
  have "allocation_ok pf ?new" using fresh assms(3) by (simp add: allocation_ok_def)
  moreover have "distinct (map alloc_nonce (?as @ [?new]))"
    using keys kset v fresh_nonce_new[OF v, of obs] by (simp add: journal_valid_def)
  moreover have "\<forall>a \<in> set (?as @ [?new]). alloc_nonce a < fresh_nonce j obs + 1"
    using below fresh by fastforce
  ultimately have "journal_valid pf b (j\<lparr>allocations := ?as @ [?new], next_nonce := fresh_nonce j obs + 1\<rparr>)"
    using v ok assms(4) fresh by (auto simp: journal_valid_def)
  then show ?thesis
    using assms(1) v
    by (auto simp: reserve_next_def Let_def update_last_same split: option.splits if_splits)
qed

text \<open>After a reservation the action's last open reservation is the one it returned.\<close>

definition open_reservation :: "string \<Rightarrow> nonce_journal \<Rightarrow> allocation option" where
  "open_reservation action j =
     find (\<lambda>a. action_id a = action \<and> alloc_state a = Reserved) (rev (allocations j))"

lemma reserve_next_recovers:
  "open_reservation action j = Some a \<Longrightarrow> finalizedNonce obs \<le> alloc_nonce a \<Longrightarrow>
   pendingNonce obs \<le> alloc_nonce a \<Longrightarrow> reserve_next j action obs = (j, alloc_nonce a, True)"
  by (simp add: reserve_next_def open_reservation_def Let_def)

lemma reserve_next_opens:
  assumes "reserve_next j action obs = (j', n, recovered)"
  shows "\<exists>a. open_reservation action j' = Some a \<and> alloc_nonce a = n \<and>
    finalizedNonce obs \<le> n \<and> pendingNonce obs \<le> n"
proof -
  have le: "finalizedNonce obs \<le> fresh_nonce j obs" "pendingNonce obs \<le> fresh_nonce j obs"
    by (auto simp: fresh_nonce_def)
  show ?thesis
  proof (cases "open_reservation action j")
    case None
    then show ?thesis using assms le by (auto simp: reserve_next_def open_reservation_def Let_def)
  next
    case (Some a)
    show ?thesis
    proof (cases "finalizedNonce obs \<le> alloc_nonce a \<and> pendingNonce obs \<le> alloc_nonce a")
      case True
      then show ?thesis using assms Some by (auto simp: reserve_next_recovers)
    next
      case False
      then show ?thesis
        using assms Some le by (auto simp: reserve_next_def open_reservation_def Let_def split: if_splits)
    qed
  qed
qed

lemma open_reservation_persist [simp]:
  "open_reservation action (persistWalletNonceObservation j obs) = open_reservation action j"
  by (simp add: open_reservation_def)

lemma reserve_next_again:
  assumes "reserve_next j action obs = (j', n, recovered)"
  shows "reserve_next (persistWalletNonceObservation j' obs) action obs = (persistWalletNonceObservation j' obs, n, True)"
proof -
  obtain a where "open_reservation action j' = Some a" "alloc_nonce a = n"
    "finalizedNonce obs \<le> n" "pendingNonce obs \<le> n"
    using reserve_next_opens[OF assms] by blast
  then show ?thesis by (subst reserve_next_recovers[of _ _ a]) simp_all
qed

text \<open>
  C8. A reservation goes through: for a wallet with a valid journal (or none), usable RPC evidence and
  nonces left below the safe integers, the operator's reservation returns a nonce, and repeating it, as
  after a crash, returns the same nonce as long as the chain's counts have not changed.
\<close>

theorem reservation_progress:
  assumes "action \<noteq> []" and "getAddress pf (w_signer w) = Some addr"
    and "0 < w_chain_id w" and "safe_integer (w_chain_id w)" and "w_root w \<noteq> []"
    and "walletNonceObservation rpcs (to_lower addr) = Inr obs"
    and "walletNonceAllocatorPath pf w = Inr path" and "walletNonceBinding pf (w_chain_id w) (w_signer w) = Inr b"
    and "\<And>j. s path = Some j \<Longrightarrow> journal_valid pf b j \<and> safe_integer (next_nonce j + 1)"
    and "safe_integer (pendingNonce obs + 1)"
  shows "\<exists>r s'. reserveWalletNonceLocked pf rpcs w action None s = Inr (r, s') \<and>
    (\<exists>s''. reserveWalletNonceLocked pf rpcs w action None s' = Inr (r\<lparr>res_recovered := True\<rparr>, s''))"
proof -
  define j0 where "j0 = (case s path of None \<Rightarrow> empty_journal b | Some j \<Rightarrow> j)"
  have signer: "b_signer b = to_lower addr" using assms(2,8) by (auto simp: walletNonceBinding_def)
  note o = observation_Inr[OF assms(6)]
  have v0: "journal_valid pf b j0" using assms(9) by (simp add: j0_def empty_journal_valid split: option.split)
  have rd: "readWalletNonceAllocator pf s path b = Inr j0"
    using v0 by (auto simp: read_Inr j0_def split: option.splits)
  let ?j = "persistWalletNonceObservation j0 obs"
  have v: "journal_valid pf b ?j" using o v0 by (intro persist_valid) auto
  have "safe_integer (next_nonce j0 + 1)"
    using assms(9) by (simp add: j0_def empty_journal_def safe_integer_def split: option.split)
  then have safe: "safe_integer (fresh_nonce ?j obs + 1)"
    using assms(10) o by (auto simp: fresh_nonce_def max_def)
  obtain j' n recovered where n: "reserve_next ?j action obs = (j', n, recovered)"
    by (cases "reserve_next ?j action obs") auto
  have v': "journal_valid pf b j'" using reserve_next_valid[OF n v assms(1) safe] o by simp
  let ?r = "\<lparr>res_path = path, res_nonce = n, res_recovered = recovered\<rparr>"
  have first: "reserveWalletNonceLocked pf rpcs w action None s = Inr (?r, s(path \<mapsto> j'))"
    using assms(1,6,7,8) signer rd n v' by (simp add: reserveWalletNonceLocked_def replace_Inr)
  have "readWalletNonceAllocator pf (s(path \<mapsto> j')) path b = Inr j'" using v' by (simp add: read_Inr)
  moreover have "journal_valid pf b (persistWalletNonceObservation j' obs)" using o v' by (intro persist_valid) auto
  ultimately have "reserveWalletNonceLocked pf rpcs w action None (s(path \<mapsto> j')) =
      Inr (?r\<lparr>res_recovered := True\<rparr>, s(path \<mapsto> persistWalletNonceObservation j' obs))"
    using assms(1,6,7,8) signer reserve_next_again[OF n] by (simp add: reserveWalletNonceLocked_def replace_Inr)
  with first show ?thesis by blast
qed

text \<open>
  C7. The operator module's decision to broadcast is safe: afterwards the transaction's nonce belongs to
  the action and is bound to this very transaction; it is broadcast only if the provider does not know
  it and neither count the providers report for the wallet's own signer has passed its nonce, with the
  allocation not fenced; a known transaction is recorded as broadcast, and a nonce the chain has passed
  is fenced.
\<close>

theorem broadcast_decision_safe:
  assumes "walletNonceBroadcastDecisionLocked pf rpc rpcs w action rec s = (s', Inr d)"
  shows "\<exists>path j' a. walletNonceAllocatorPath pf w = Inr path \<and> s' path = Some j' \<and>
    nonce_entry j' (d_nonce d) = Some a \<and> action_id a = action \<and>
    transaction_hash a = Some (to_lower (sr_hash rec)) \<and>
    (if d_broadcast d
     then alloc_state a \<in> {Signed, Broadcast} \<and> getTransaction rpc (sr_hash rec) = Inr None \<and>
       (\<exists>addr obs. getAddress pf (w_signer w) = Some addr \<and> walletNonceObservation rpcs (to_lower addr) = Inr obs \<and>
          finalizedNonce obs \<le> d_nonce d \<and> pendingNonce obs \<le> d_nonce d)
     else alloc_state a = (if d_known d then Broadcast else Fenced))"
proof -
  obtain x s1 where s1: "recordWalletNonceSignedLocked pf w action rec s = Inr (x, s1)"
    and dec: "decide_broadcast pf rpc rpcs w action rec s1 = Inr (d, s')"
    using assms by (auto simp: walletNonceBroadcastDecisionLocked_def commit_Inr split: sum.splits prod.splits)
  obtain path n where x: "x = (path, n)" by (cases x)
  obtain b tx j1 j1' a where r: "walletNonceBinding pf (w_chain_id w) (w_signer w) = Inr b"
    "walletNonceAllocatorPath pf w = Inr path"
    "assertAllocatorSignedRecord pf rec b = Inr tx" "n = tx_nonce tx"
    "journal_write pf b path s s1 j1 j1'" "nonce_entry j1' n = Some a" "action_id a = action"
    "transaction_hash a = Some (to_lower (sr_hash rec))" "alloc_state a \<in> {Signed, Broadcast}"
    using s1[unfolded x] by (rule record_signed_spec)
  obtain b2 path2 tx2 j j' where d: "walletNonceBinding pf (w_chain_id w) (w_signer w) = Inr b2"
    "walletNonceAllocatorPath pf w = Inr path2" "assertAllocatorSignedRecord pf rec b2 = Inr tx2"
    "s1 path2 = Some j \<or> s1 path2 = None \<and> j = empty_journal b2"
    "journal_write pf b2 path2 s1 s' j j'" "d_nonce d = tx_nonce tx2"
    "d_broadcast d \<longrightarrow> nonce_entry j' = nonce_entry j \<and> getTransaction rpc (sr_hash rec) = Inr None \<and>
       (\<exists>obs. walletNonceObservation rpcs (b_signer b2) = Inr obs \<and>
          finalizedNonce obs \<le> d_nonce d \<and> pendingNonce obs \<le> d_nonce d)"
    "\<not> d_broadcast d \<longrightarrow> (\<exists>old. nonce_entry j (d_nonce d) = Some old \<and> action_id old = action \<and>
       nonce_entry j' (d_nonce d) = Some (old\<lparr>alloc_state := (if d_known d then Broadcast else Fenced)\<rparr>))"
    using dec by (rule decide_spec)
  have same: "b2 = b" "path2 = path" "tx2 = tx" using r d by auto
  have j: "j = j1'" using d(4) r(5) same by (auto simp: journal_write_def)
  have s': "s' path = Some j'" using d(5) same by (simp add: journal_write_def)
  show ?thesis
  proof (cases "d_broadcast d")
    case True
    then have "nonce_entry j' (d_nonce d) = Some a" using d(6,7) r(4,6) same j by simp
    moreover obtain addr where "getAddress pf (w_signer w) = Some addr" "b_signer b2 = to_lower addr"
      using d(1) by (auto simp: walletNonceBinding_def)
    ultimately show ?thesis using True r s' d(7) by (intro exI[of _ path] exI[of _ j'] exI[of _ a]) auto
  next
    case False
    then have "nonce_entry j' (d_nonce d) = Some (a\<lparr>alloc_state := (if d_known d then Broadcast else Fenced)\<rparr>)"
      using d(6,8) r(4,6) same j by auto
    with False show ?thesis
      using r s' by (intro exI[of _ path] exI[of _ j'] exI[of _ "a\<lparr>alloc_state := (if d_known d then Broadcast else Fenced)\<rparr>"]) auto
  qed
qed

text \<open>
   The two modules allocate alike: with at least two distinct providers, a reservation succeeds in one
  of them exactly when it does in the other, with the same nonce, recovery flag and resulting journals.
\<close>

theorem wallet_modules_agree:
  assumes "2 \<le> length rpcs" and "distinct (map rpc_id rpcs)"
  shows "coordinatorReserve pf rpcs w action None s = Inr x \<longleftrightarrow>
    reserveWalletNonceLocked pf rpcs w action None s = Inr x"
  using reserves_next_action unfolding coordinator_reserves[OF assms] operator_reserves by blast

section \<open>Where the two modules differ\<close>

definition allocation_state :: "nonce_store \<Rightarrow> string \<Rightarrow> int \<Rightarrow> string option" where
  "allocation_state s path n = Option.bind (s path) (\<lambda>j. map_option alloc_state (nonce_entry j n))"

lemma find_update_first_other:
  assumes "find P xs = Some y" and "\<not> Q y" and "\<And>x. Q x \<Longrightarrow> P x"
  shows "find P (update_first Q f xs) = Some y"
  using assms(1,2) by (induction xs) (auto dest: assms(3) split: if_splits)

lemma fence_valid:
  assumes "journal_valid pf b j"
  shows "journal_valid pf b (j\<lparr>allocations := update_first P (\<lambda>a. a\<lparr>alloc_state := Fenced\<rparr>) (allocations j)\<rparr>)"
proof -
  let ?as = "update_first P (\<lambda>a. a\<lparr>alloc_state := Fenced\<rparr>) (allocations j)"
  have ok: "allocation_ok pf a \<and> alloc_nonce a < next_nonce j" if a: "a \<in> set ?as" for a
  proof -
    have "a \<in> set (allocations j) \<union> (\<lambda>a. a\<lparr>alloc_state := Fenced\<rparr>) ` {a \<in> set (allocations j). P a}"
      by (rule subsetD[OF set_update_first a])
    then obtain a0 where "a0 \<in> set (allocations j)" "a = a0 \<or> a = a0\<lparr>alloc_state := Fenced\<rparr>" by blast
    moreover have "allocation_ok pf a0 \<and> alloc_nonce a0 < next_nonce j"
      using calculation(1) assms by (simp add: journal_valid_def)
    ultimately show ?thesis using fence_ok[of pf a0] by auto
  qed
  have "map alloc_nonce ?as = map alloc_nonce (allocations j)" by (rule map_update_first) simp
  then show ?thesis using assms ok by (simp add: journal_valid_def)
qed

text \<open>Fencing the first allocation that satisfies \<open>P\<close> changes the state of its nonce and of no other.\<close>

lemma fence_entry:
  assumes "journal_valid pf b j" and "find P (allocations j) = Some a"
  shows "nonce_entry (j\<lparr>allocations := update_first P (\<lambda>a. a\<lparr>alloc_state := Fenced\<rparr>) (allocations j)\<rparr>) =
    (nonce_entry j)(alloc_nonce a \<mapsto> a\<lparr>alloc_state := Fenced\<rparr>)"
  using entry_by_update_first[OF journal_valid_distinct[OF assms(1)] assms(2), of "\<lambda>a. a\<lparr>alloc_state := Fenced\<rparr>"]
  by (simp add: nonce_entry_def)

lemma bind_record_signed: "bind_record j action rec tx Signed = bind_signed j action rec tx"
  by (simp add: bind_record_def bind_signed_def cong: option.case_cong)

lemma record_modules_agree:
  assumes "coordinatorRecordSigned pf w action rec Signed s = Inr (u, s1)"
  obtains b tx path j where "walletNonceBinding pf (w_chain_id w) (w_signer w) = Inr b"
    "assertAllocatorSignedRecord pf rec b = Inr tx" "walletNonceAllocatorPath pf w = Inr path"
    "(s path = Some j \<or> s path = None \<and> j = empty_journal b) \<and> journal_valid pf b j"
    "recordWalletNonceSignedLocked pf w action rec s = Inr ((path, tx_nonce tx), s1)"
proof -
  obtain b tx path j j' where *: "coordinatorBinding pf (w_chain_id w) (w_signer w) = Inr b"
    "signedTransaction pf rec b = Inr tx" "coordinatorAllocatorPath pf w = Inr path" "readJournal pf s path b = Inr j"
    "bind_record j action rec tx Signed = Inr j'" "replaceJournal pf s path b j' = Inr s1"
    using assms by (auto simp: coordinatorRecordSigned_def)
  then show thesis
    by (intro that[of b tx path j])
      (auto simp: coordinatorBinding_eq signedTransaction_eq coordinatorPath_Inr readJournal_Inr read_Inr
        replaceJournal_Inr replace_Inr recordWalletNonceSignedLocked_def bind_record_signed)
qed

text \<open>
  C9. The coordinator fences the wrong allocation. Whenever an action whose first allocation in the
  journal has another nonce than its signed transaction asks for a decision, and the chain has passed
  the transaction's nonce, both modules refuse to broadcast; but the coordinator fences the action's
  first allocation and leaves the spent nonce's allocation open, while the operator fences the spent
  nonce's allocation and leaves the first one as it was.
\<close>

theorem coordinator_fence_misses:
  assumes "coordinatorRecordSigned pf w action rec Signed s = Inr (u, s1)"
    and "walletNonceAllocatorPath pf w = Inr path" and "s path = Some j"
    and "find (\<lambda>a. action_id a = action) (allocations j) = Some a0" and "alloc_nonce a0 \<noteq> sr_nonce rec"
    and "getTransaction rpc (sr_hash rec) = Inr None"
    and "getAddress pf (w_signer w) = Some addr" and "nonceObservation rpcs (to_lower addr) = Inr obs"
    and "sr_nonce rec < pendingNonce obs"
  shows "\<exists>s2 s3 d. \<not> d_broadcast d \<and> d_nonce d = sr_nonce rec \<and>
    coordinatorDecision pf rpc rpcs w action rec s = (s2, Inr d) \<and>
    walletNonceBroadcastDecisionLocked pf rpc rpcs w action rec s = (s3, Inr d) \<and>
    allocation_state s2 path (alloc_nonce a0) = Some Fenced \<and>
    allocation_state s2 path (sr_nonce rec) \<in> {Some Signed, Some Broadcast} \<and>
    allocation_state s3 path (sr_nonce rec) = Some Fenced \<and>
    allocation_state s3 path (alloc_nonce a0) = Some (alloc_state a0)"
proof -
  let ?n = "sr_nonce rec" and ?mine = "\<lambda>a. action_id a = action"
  let ?own = "\<lambda>a. action_id a = action \<and> alloc_nonce a = sr_nonce rec"
  let ?fence = "\<lambda>P j. j\<lparr>allocations := update_first P (\<lambda>a. a\<lparr>alloc_state := Fenced\<rparr>) (allocations j)\<rparr>"
  obtain b tx where b: "walletNonceBinding pf (w_chain_id w) (w_signer w) = Inr b"
    and tx: "assertAllocatorSignedRecord pf rec b = Inr tx" and v: "journal_valid pf b j"
    and op: "recordWalletNonceSignedLocked pf w action rec s = Inr ((path, tx_nonce tx), s1)"
    using record_modules_agree[OF assms(1)] assms(2,3) by (metis option.distinct(1) option.inject sum.inject(2))
  have n: "tx_nonce tx = ?n" using tx by (auto simp: assertAllocatorSignedRecord_def)
  have signer: "b_signer b = to_lower addr" using b assms(7) by (auto simp: walletNonceBinding_def)
  obtain j1 where bd: "bind_signed j action rec tx = Inr j1" and v1: "journal_valid pf b j1" and s1: "s1 = s(path \<mapsto> j1)"
    using op b tx assms(2,3) v by (auto simp: recordWalletNonceSignedLocked_def read_Inr replace_Inr)
  obtain a where a: "entry_step j j1 a" "alloc_nonce a = ?n" "action_id a = action" "alloc_state a \<in> {Signed, Broadcast}"
    using bind_signed_step[OF bd journal_valid_distinct[OF v]] n by auto
  have a1: "nonce_entry j1 ?n = Some a" using a by (simp add: entry_step_def)
  have first: "find ?mine (allocations j1) = Some a0"
    using bd n assms(5) by (auto simp: bind_signed_def Let_def split: option.splits
        intro!: find_update_first_other[OF assms(4)])
  have e0: "nonce_entry j1 (alloc_nonce a0) = Some a0"
    using find_SomeD[OF first] journal_valid_distinct[OF v1] by (simp add: nonce_entry_def entry_by_iff)
  have own: "find ?own (allocations j1) = Some a"
  proof (cases "find ?own (allocations j1)")
    case None
    then show ?thesis using a1 a(3) by (auto simp: find_None_iff nonce_entry_def dest!: entry_by_SomeD)
  next
    case (Some a')
    then have "nonce_entry j1 ?n = Some a'"
      using find_SomeD[OF Some] journal_valid_distinct[OF v1] by (simp add: nonce_entry_def entry_by_iff)
    then show ?thesis using Some a1 by simp
  qed
  let ?d = "\<lparr>d_broadcast = False, d_known = False, d_nonce = ?n\<rparr>"
  have rd: "readJournal pf s1 path b = Inr j1" "readWalletNonceAllocator pf s1 path b = Inr j1"
    using v1 s1 by (simp_all add: readJournal_Inr read_Inr)
  have ob: "walletNonceObservation rpcs (b_signer b) = Inr obs" "nonceObservation rpcs (b_signer b) = Inr obs"
    using assms(8) signer by (simp_all add: nonceObservation_Inr)
  have cp: "coordinatorAllocatorPath pf w = Inr path" using assms(2) by (simp add: coordinatorPath_Inr)
  have fa: "fence_action action j1 = Inr (?fence ?mine j1)" using first by (simp add: fence_action_def)
  have wr: "replaceJournal pf s1 path b (?fence ?mine j1) = Inr (s1(path \<mapsto> ?fence ?mine j1))"
    using fence_valid[OF v1] by (simp add: replaceJournal_Inr)
  have co: "coordinatorDecision pf rpc rpcs w action rec s = (s1(path \<mapsto> ?fence ?mine j1), Inr ?d)"
    using assms(1,6,9) b tx ob rd n cp fa wr
    by (simp add: coordinatorDecision_def coordinator_decide_def coordinatorBinding_eq signedTransaction_eq)
  let ?j1 = "persistWalletNonceObservation j1 obs"
  have vp: "journal_valid pf b ?j1" using observation_Inr[OF ob(1)] v1 by (intro persist_valid) auto
  have sa: "set_state action ?n Fenced ?j1 = Inr (?fence ?own ?j1)" using own by (simp add: set_state_def)
  have wo: "replaceWalletNonceAllocator pf s1 path b (?fence ?own ?j1) = Inr (s1(path \<mapsto> ?fence ?own ?j1))"
    using fence_valid[OF vp] by (simp add: replace_Inr)
  have opd: "walletNonceBroadcastDecisionLocked pf rpc rpcs w action rec s = (s1(path \<mapsto> ?fence ?own ?j1), Inr ?d)"
    using assms(2,6,9) op b tx ob rd n sa wo
    by (simp add: walletNonceBroadcastDecisionLocked_def decide_broadcast_def Let_def)
  have c: "nonce_entry (?fence ?mine j1) = (nonce_entry j1)(alloc_nonce a0 \<mapsto> a0\<lparr>alloc_state := Fenced\<rparr>)"
    by (rule fence_entry[OF v1 first])
  have o: "nonce_entry (?fence ?own ?j1) = (nonce_entry j1)(?n \<mapsto> a\<lparr>alloc_state := Fenced\<rparr>)"
    using fence_entry[OF vp, of ?own a] own a(2) by simp
  show ?thesis
    using a(4) a1 e0 assms(5) c o co opd
    by (intro exI[of _ "s1(path \<mapsto> ?fence ?mine j1)"] exI[of _ "s1(path \<mapsto> ?fence ?own ?j1)"] exI[of _ ?d])
      (auto simp: allocation_state_def)
qed

section \<open>A run\<close>

text \<open>
  A platform with one digest, whose addresses and paths are the identity and whose raw transactions are signed by
  one wallet and carry their length as nonce, and two providers that report the same counts.
\<close>

definition demo_platform :: platform where
  "demo_platform =
     \<lparr>getAddress = Some, isHexString = (\<lambda>_. True), isHexBytes = (\<lambda>_ _. True), keccak256 = (\<lambda>raw. raw),
      transaction_from = (\<lambda>raw. Some \<lparr>tx_from = Some ''0xaa'', tx_chainId = 8453, tx_nonce = int (length raw),
         tx_to = None, tx_value = 0, tx_data = []\<rparr>),
      getCreateAddress = (\<lambda>d _. d), getCreate2Address = (\<lambda>_ _ h. h),
      sha256_hex = (\<lambda>_. ''0f''), sha256_text = (\<lambda>_. ''0f''), zeroPadValue = (\<lambda>v _. v), encodeOperation = (\<lambda>t v d k. t @ d @ k),
      resolve_path = (\<lambda>p. p)\<rparr>"

definition demo_rpc :: "nat \<Rightarrow> int \<Rightarrow> int \<Rightarrow> rpc_provider" where
  "demo_rpc i f p =
     \<lparr>rpc_id = i, getTransactionCount = (\<lambda>_ tag. Inr (if tag = ''finalized'' then f else p)),
      getTransaction = (\<lambda>_. Inr None)\<rparr>"

definition demo_rpcs :: "int \<Rightarrow> int \<Rightarrow> rpc_provider list" where
  "demo_rpcs f p = [demo_rpc 0 f p, demo_rpc 1 f p]"

definition demo_wallet :: wallet_args where
  "demo_wallet = \<lparr>w_root = ''/run'', w_chain_id = 8453, w_signer = ''0xAA''\<rparr>"

definition demo_binding :: wallet_binding where
  "demo_binding = \<lparr>b_schema = ''p42-wallet-nonce-binding/v1'', b_chain_id = 8453, b_signer = ''0xaa''\<rparr>"

definition demo_record :: signed_record where
  "demo_record = \<lparr>sr_schema = ''p42-signed-transaction/v1'', sr_raw_tx = ''abc'', sr_nonce = 3, sr_hash = ''abc''\<rparr>"

definition demo_wallet_tx :: chain_tx where
  "demo_wallet_tx = \<lparr>tx_from = Some ''0xaa'', tx_chainId = 8453, tx_nonce = 3, tx_to = None, tx_value = 0, tx_data = []\<rparr>"

definition no_store :: nonce_store where
  "no_store = (\<lambda>_. None)"

definition demo_path :: string where
  "demo_path = ''/run/0f.nonce-allocator.json''"

text \<open>An action reserves nonce 0; the chain moves on to 3; the action reserves again and gets 3.\<close>

definition demo_ops :: "wallet_op list" where
  "demo_ops =
     [Coordinator_reserve (demo_rpcs 0 0) demo_wallet ''submit'' None,
      Coordinator_reserve (demo_rpcs 3 3) demo_wallet ''submit'' None]"

definition demo_journal_of :: "int \<Rightarrow> int \<Rightarrow> allocation list \<Rightarrow> nonce_journal" where
  "demo_journal_of seen n as = \<lparr>j_schema = allocator_schema, j_binding = demo_binding, next_nonce = n,
     observed_finalized_nonce = seen, observed_pending_nonce = seen, allocations = as\<rparr>"

definition demo_entry :: "int \<Rightarrow> string \<Rightarrow> string option \<Rightarrow> allocation" where
  "demo_entry n st h = \<lparr>action_id = ''submit'', alloc_nonce = n, alloc_state = st, transaction_hash = h\<rparr>"

definition demo_journal :: nonce_journal where
  "demo_journal = demo_journal_of 3 4 [demo_entry 0 Fenced None, demo_entry 3 Reserved None]"

definition demo_signed :: nonce_journal where
  "demo_signed = demo_journal_of 3 4 [demo_entry 0 Fenced None, demo_entry 3 Signed (Some ''abc'')]"

definition demo_store :: nonce_store where
  "demo_store = no_store(demo_path \<mapsto> demo_journal)"

lemma demo_path_is: "walletNonceAllocatorPath demo_platform demo_wallet = Inr demo_path"
  by (simp add: walletNonceAllocatorPath_def walletActionLockPath_def demo_wallet_def demo_platform_def demo_path_def
      join_path_def replace_suffix_def lock_suffix_def allocator_suffix_def safe_integer_def)

lemma demo_binding_is: "walletNonceBinding demo_platform (w_chain_id demo_wallet) (w_signer demo_wallet) = Inr demo_binding"
  by code_simp

lemma demo_record_is: "assertAllocatorSignedRecord demo_platform demo_record demo_binding = Inr demo_wallet_tx"
  by code_simp

lemma demo_observation:
  "0 \<le> f \<Longrightarrow> f \<le> p \<Longrightarrow> safe_integer p \<Longrightarrow>
   walletNonceObservation (demo_rpcs f p) who = Inr \<lparr>finalizedNonce = f, pendingNonce = p\<rparr>"
  by (simp add: walletNonceObservation_def demo_rpcs_def demo_rpc_def highest_def safe_integer_def)

lemma demo_entry_ok: "0 \<le> n \<Longrightarrow> safe_integer n \<Longrightarrow> st \<in> {Reserved, Signed, Broadcast, Fenced} \<Longrightarrow>
   allocation_ok demo_platform (demo_entry n st h)"
  by (auto simp: allocation_ok_def demo_entry_def demo_platform_def split: option.split)

lemma demo_valid:
  "journal_valid demo_platform demo_binding (demo_journal_of seen n as) \<longleftrightarrow>
     safe_integer n \<and> 0 \<le> n \<and> safe_integer seen \<and> 0 \<le> seen \<and>
     (\<forall>a \<in> set as. allocation_ok demo_platform a \<and> alloc_nonce a < n) \<and> distinct (map alloc_nonce as)"
  by (auto simp: journal_valid_def demo_journal_of_def)

lemma demo_entry_nonce [simp]: "alloc_nonce (demo_entry n st h) = n" "action_id (demo_entry n st h) = ''submit''"
  "alloc_state (demo_entry n st h) = st" "transaction_hash (demo_entry n st h) = h"
  by (simp_all add: demo_entry_def)

lemma demo_journal_valid: "journal_valid demo_platform demo_binding demo_journal"
  "journal_valid demo_platform demo_binding demo_signed"
  by (simp_all add: demo_journal_def demo_signed_def demo_valid demo_entry_ok safe_integer_def)

lemma demo_reserve:
  assumes "readWalletNonceAllocator demo_platform s demo_path demo_binding = Inr j"
    and "reserve_next (persistWalletNonceObservation j \<lparr>finalizedNonce = f, pendingNonce = p\<rparr>) action
      \<lparr>finalizedNonce = f, pendingNonce = p\<rparr> = (j', n, recovered)"
    and "0 \<le> f" and "f \<le> p" and "safe_integer p" and "journal_valid demo_platform demo_binding j'" and "action \<noteq> []"
  shows "reserve_by m demo_platform (demo_rpcs f p) demo_wallet action s =
    Inr (\<lparr>res_path = demo_path, res_nonce = n, res_recovered = recovered\<rparr>, s(demo_path \<mapsto> j'))"
proof -
  have r: "reserves_next demo_platform (demo_rpcs f p) demo_wallet action s
    (\<lparr>res_path = demo_path, res_nonce = n, res_recovered = recovered\<rparr>, s(demo_path \<mapsto> j'))"
    unfolding reserves_next_def using assms demo_path_is demo_binding_is demo_observation by blast
  have "2 \<le> length (demo_rpcs f p)" "distinct (map rpc_id (demo_rpcs f p))"
    by (simp_all add: demo_rpcs_def demo_rpc_def)
  note c = coordinator_reserves[OF this]
  show ?thesis using r assms(7) by (cases m) (simp_all add: c operator_reserves)
qed

lemma demo_read:
  "journal_valid demo_platform demo_binding j \<Longrightarrow>
   readWalletNonceAllocator demo_platform (s(demo_path \<mapsto> j)) demo_path demo_binding = Inr j"
  "readWalletNonceAllocator demo_platform no_store demo_path demo_binding = Inr (empty_journal demo_binding)"
  by (simp_all add: read_Inr no_store_def empty_journal_valid)

lemma demo_replace:
  "journal_valid demo_platform demo_binding j \<Longrightarrow>
   replaceWalletNonceAllocator demo_platform s demo_path demo_binding j = Inr (s(demo_path \<mapsto> j))"
  "journal_valid demo_platform demo_binding j \<Longrightarrow>
   replaceJournal demo_platform s demo_path demo_binding j = Inr (s(demo_path \<mapsto> j))"
  by (simp_all add: replace_Inr replaceJournal_Inr)

definition demo_opened :: nonce_journal where
  "demo_opened = demo_journal_of 0 1 [demo_entry 0 Reserved None]"

lemma demo_opened_valid: "journal_valid demo_platform demo_binding demo_opened"
  by (simp add: demo_opened_def demo_valid demo_entry_ok safe_integer_def)

lemma demo_first:
  "reserve_by m demo_platform (demo_rpcs 0 0) demo_wallet ''submit'' no_store =
     Inr (\<lparr>res_path = demo_path, res_nonce = 0, res_recovered = False\<rparr>, no_store(demo_path \<mapsto> demo_opened))"
  by (rule demo_reserve[OF demo_read(2) _ _ _ _ demo_opened_valid])
    (simp_all add: safe_integer_def reserve_next_def fresh_nonce_def demo_opened_def
      persistWalletNonceObservation_def empty_journal_def demo_journal_of_def demo_entry_def)

lemma demo_second:
  "reserve_by m demo_platform (demo_rpcs 3 3) demo_wallet ''submit'' (no_store(demo_path \<mapsto> demo_opened)) =
     Inr (\<lparr>res_path = demo_path, res_nonce = 3, res_recovered = False\<rparr>, demo_store)"
proof -
  have "reserve_by m demo_platform (demo_rpcs 3 3) demo_wallet ''submit'' (no_store(demo_path \<mapsto> demo_opened)) =
     Inr (\<lparr>res_path = demo_path, res_nonce = 3, res_recovered = False\<rparr>,
       no_store(demo_path \<mapsto> demo_opened, demo_path \<mapsto> demo_journal))"
    by (rule demo_reserve[OF demo_read(1)[OF demo_opened_valid] _ _ _ _ demo_journal_valid(1)])
      (simp_all add: safe_integer_def reserve_next_def fresh_nonce_def update_last_def demo_opened_def
        persistWalletNonceObservation_def demo_journal_def demo_journal_of_def demo_entry_def)
  then show ?thesis by (simp add: demo_store_def)
qed

lemma demo_reached: "run_events (wallet_step demo_platform) no_store demo_ops = Inr demo_store"
  using demo_first[of Coordinator_module] demo_second[of Coordinator_module] by (simp add: demo_ops_def)

lemma demo_bind:
  "bind_signed demo_journal ''submit'' demo_record demo_wallet_tx = Inr demo_signed"
  "bind_record demo_journal ''submit'' demo_record demo_wallet_tx Signed = Inr demo_signed"
proof -
  have h: "to_lower ''abc'' = ''abc''" by code_simp
  show "bind_signed demo_journal ''submit'' demo_record demo_wallet_tx = Inr demo_signed"
    "bind_record demo_journal ''submit'' demo_record demo_wallet_tx Signed = Inr demo_signed"
    by (simp_all add: bind_signed_def bind_record_def demo_journal_def demo_signed_def demo_journal_of_def demo_entry_def
        demo_record_def demo_wallet_tx_def truthy_hash_differs_def h)
qed

lemma demo_store_read: "readWalletNonceAllocator demo_platform demo_store demo_path demo_binding = Inr demo_journal"
  by (simp add: demo_store_def demo_read demo_journal_valid)

lemma demo_record_signed:
  "recordWalletNonceSignedLocked demo_platform demo_wallet ''submit'' demo_record demo_store =
     Inr ((demo_path, 3), demo_store(demo_path \<mapsto> demo_signed))"
  "coordinatorRecordSigned demo_platform demo_wallet ''submit'' demo_record Signed demo_store =
     Inr ((), demo_store(demo_path \<mapsto> demo_signed))"
proof -
  have c: "coordinatorAllocatorPath demo_platform demo_wallet = Inr demo_path"
    by (simp add: coordinatorPath_Inr demo_path_is)
  have r: "readJournal demo_platform demo_store demo_path demo_binding = Inr demo_journal"
    using demo_store_read by (simp add: read_Inr readJournal_Inr)
  have n: "tx_nonce demo_wallet_tx = 3" by (simp add: demo_wallet_tx_def)
  show "recordWalletNonceSignedLocked demo_platform demo_wallet ''submit'' demo_record demo_store =
     Inr ((demo_path, 3), demo_store(demo_path \<mapsto> demo_signed))"
    by (simp add: recordWalletNonceSignedLocked_def demo_binding_is demo_record_is demo_path_is demo_store_read
        demo_bind demo_replace demo_journal_valid n)
  show "coordinatorRecordSigned demo_platform demo_wallet ''submit'' demo_record Signed demo_store =
     Inr ((), demo_store(demo_path \<mapsto> demo_signed))"
    by (simp add: coordinatorRecordSigned_def coordinatorBinding_eq signedTransaction_eq demo_binding_is demo_record_is c r
        demo_bind demo_replace demo_journal_valid)
qed

lemma demo_decide:
  assumes "3 \<le> f" and "safe_integer f"
  shows "walletNonceBroadcastDecisionLocked demo_platform (demo_rpc 0 f f) (demo_rpcs f f) demo_wallet ''submit'' demo_record demo_store =
    (demo_store(demo_path \<mapsto> demo_journal_of f 4
        [demo_entry 0 Fenced None, demo_entry 3 (if f = 3 then Signed else Fenced) (Some ''abc'')]),
     Inr \<lparr>d_broadcast = (f = 3), d_known = False, d_nonce = 3\<rparr>)"
proof -
  let ?s = "demo_store(demo_path \<mapsto> demo_signed)"
  have r: "readWalletNonceAllocator demo_platform ?s demo_path demo_binding = Inr demo_signed"
    by (rule demo_read(1)[OF demo_journal_valid(2)])
  have n: "tx_nonce demo_wallet_tx = 3" by (simp add: demo_wallet_tx_def)
  have o: "walletNonceObservation (demo_rpcs f f) who = Inr \<lparr>finalizedNonce = f, pendingNonce = f\<rparr>" for who
    using assms by (simp add: demo_observation)
  have j: "persistWalletNonceObservation demo_signed \<lparr>finalizedNonce = f, pendingNonce = f\<rparr> =
      demo_journal_of f 4 [demo_entry 0 Fenced None, demo_entry 3 Signed (Some ''abc'')]"
    using assms by (simp add: persistWalletNonceObservation_def demo_signed_def demo_journal_of_def max_def)
  have k: "getTransaction (demo_rpc 0 f f) h = Inr None" for h by (simp add: demo_rpc_def)
  have fence: "set_state ''submit'' 3 Fenced (demo_journal_of f 4 [demo_entry 0 Fenced None, demo_entry 3 Signed (Some ''abc'')]) =
      Inr (demo_journal_of f 4 [demo_entry 0 Fenced None, demo_entry 3 Fenced (Some ''abc'')])"
    by (simp add: set_state_def demo_journal_of_def demo_entry_def)
  have w: "replaceWalletNonceAllocator demo_platform ?s demo_path demo_binding
      (demo_journal_of f 4 [demo_entry 0 Fenced None, demo_entry 3 st (Some ''abc'')]) =
      Inr (?s(demo_path \<mapsto> demo_journal_of f 4 [demo_entry 0 Fenced None, demo_entry 3 st (Some ''abc'')]))"
    if "st \<in> {Signed, Fenced}" for st
    using that assms by (intro demo_replace) (auto simp: demo_valid demo_entry_ok safe_integer_def)
  note defs = walletNonceBroadcastDecisionLocked_def decide_broadcast_def demo_record_signed demo_binding_is
    demo_record_is demo_path_is
  show ?thesis
  proof (cases "f = 3")
    case True
    then show ?thesis
      using o[unfolded True] j[unfolded True] w[of Signed, unfolded True] k[unfolded True] by (simp add: defs r n)
  next
    case False
    then have "3 < f" using assms by simp
    then show ?thesis using False o j fence w[of Fenced] by (simp add: defs r n k)
  qed
qed

text \<open>In a state both modules reach, with the chain two transactions further.\<close>

theorem coordinator_fence_misses_witness:
  "run_events (wallet_step demo_platform) no_store demo_ops = Inr demo_store \<and>
   (\<exists>s2 s3 d. coordinatorDecision demo_platform (demo_rpc 0 5 5) (demo_rpcs 5 5) demo_wallet ''submit'' demo_record demo_store = (s2, Inr d) \<and>
     walletNonceBroadcastDecisionLocked demo_platform (demo_rpc 0 5 5) (demo_rpcs 5 5) demo_wallet ''submit'' demo_record demo_store = (s3, Inr d) \<and>
     allocation_state s2 demo_path 3 \<in> {Some Signed, Some Broadcast} \<and> allocation_state s3 demo_path 3 = Some Fenced)"
proof -
  have "nonceObservation (demo_rpcs 5 5) (to_lower ''0xAA'') = Inr \<lparr>finalizedNonce = 5, pendingNonce = 5\<rparr>"
    using demo_observation[of 5 5] by (simp add: nonceObservation_Inr safe_integer_def demo_rpcs_def demo_rpc_def)
  note miss = coordinator_fence_misses[OF demo_record_signed(2) demo_path_is, of demo_journal "demo_entry 0 Fenced None",
      OF _ _ _ _ _ this]
  have n: "sr_nonce demo_record = 3" by (simp add: demo_record_def)
  have "\<exists>s2 s3 d. \<not> d_broadcast d \<and> d_nonce d = sr_nonce demo_record \<and>
    coordinatorDecision demo_platform (demo_rpc 0 5 5) (demo_rpcs 5 5) demo_wallet ''submit'' demo_record demo_store = (s2, Inr d) \<and>
    walletNonceBroadcastDecisionLocked demo_platform (demo_rpc 0 5 5) (demo_rpcs 5 5) demo_wallet ''submit'' demo_record demo_store = (s3, Inr d) \<and>
    allocation_state s2 demo_path (alloc_nonce (demo_entry 0 Fenced None)) = Some Fenced \<and>
    allocation_state s2 demo_path (sr_nonce demo_record) \<in> {Some Signed, Some Broadcast} \<and>
    allocation_state s3 demo_path (sr_nonce demo_record) = Some Fenced \<and>
    allocation_state s3 demo_path (alloc_nonce (demo_entry 0 Fenced None)) = Some (alloc_state (demo_entry 0 Fenced None))"
    by (rule miss) (simp_all add: demo_store_def demo_journal_def demo_journal_of_def demo_record_def demo_rpc_def
        demo_platform_def demo_wallet_def)
  then show ?thesis unfolding n using demo_reached by blast
qed

theorem nonce_binding_permanent_witness:
  "\<exists>j' s'. run_events (wallet_step demo_platform) demo_store
       [Coordinator_record demo_wallet ''submit'' demo_record Signed] = Inr s' \<and>
     s' demo_path = Some j' \<and> nonce_owner j' 3 = Some ''submit''"
proof -
  obtain s' where r: "run_events (wallet_step demo_platform) demo_store
       [Coordinator_record demo_wallet ''submit'' demo_record Signed] = Inr s'" using wallet_run by blast
  have j: "demo_store demo_path = Some demo_journal" by (simp add: demo_store_def)
  have "nonce_owner demo_journal 3 = Some ''submit''"
    by (simp add: nonce_owner_def nonce_entry_def entry_by_def demo_journal_def demo_journal_of_def)
  with nonce_binding_permanent[OF r j] r show ?thesis by blast
qed

theorem wallet_store_typed_witness: "store_valid demo_platform demo_store"
proof -
  have "store_valid demo_platform no_store" by (simp add: store_valid_def no_store_def)
  from wallet_store_typed[OF this demo_reached] show ?thesis by blast
qed

definition demo_reveal :: allocation where
  "demo_reveal = \<lparr>action_id = ''reveal'', alloc_nonce = 1, alloc_state = Reserved, transaction_hash = None\<rparr>"

lemma demo_reveal:
  "reserve_by m demo_platform (demo_rpcs 0 0) demo_wallet ''reveal'' (no_store(demo_path \<mapsto> demo_opened)) =
     Inr (\<lparr>res_path = demo_path, res_nonce = 1, res_recovered = False\<rparr>,
       no_store(demo_path \<mapsto> demo_journal_of 0 2 [demo_entry 0 Reserved None, demo_reveal]))"
proof -
  have v: "journal_valid demo_platform demo_binding (demo_journal_of 0 2 [demo_entry 0 Reserved None, demo_reveal])"
    by (simp add: demo_valid demo_entry_ok safe_integer_def) (simp add: demo_reveal_def allocation_ok_def safe_integer_def)
  have "reserve_by m demo_platform (demo_rpcs 0 0) demo_wallet ''reveal'' (no_store(demo_path \<mapsto> demo_opened)) =
     Inr (\<lparr>res_path = demo_path, res_nonce = 1, res_recovered = False\<rparr>,
       no_store(demo_path \<mapsto> demo_opened, demo_path \<mapsto> demo_journal_of 0 2 [demo_entry 0 Reserved None, demo_reveal]))"
    by (rule demo_reserve[OF demo_read(1)[OF demo_opened_valid] _ _ _ _ v])
      (simp_all add: safe_integer_def reserve_next_def fresh_nonce_def demo_opened_def demo_reveal_def
        persistWalletNonceObservation_def demo_journal_of_def demo_entry_def)
  then show ?thesis by simp
qed

theorem reserved_nonces_distinct_witness:
  "\<exists>r s1 r' s3. reserve_by Operator_module demo_platform (demo_rpcs 0 0) demo_wallet ''submit'' no_store = Inr (r, s1) \<and>
     reserve_by Coordinator_module demo_platform (demo_rpcs 0 0) demo_wallet ''reveal'' s1 = Inr (r', s3) \<and>
     res_nonce r' \<noteq> res_nonce r"
proof -
  have none: "run_events (wallet_step demo_platform) (no_store(demo_path \<mapsto> demo_opened)) [] =
    Inr (no_store(demo_path \<mapsto> demo_opened))" by simp
  have "res_nonce \<lparr>res_path = demo_path, res_nonce = 1, res_recovered = False\<rparr> \<noteq>
      res_nonce \<lparr>res_path = demo_path, res_nonce = 0, res_recovered = False\<rparr>"
    by (rule reserved_nonces_distinct[OF demo_first[of Operator_module] none demo_reveal[of Coordinator_module]]) simp_all
  with demo_first[of Operator_module] demo_reveal[of Coordinator_module] show ?thesis by blast
qed

theorem reservation_fresh_or_own_witness:
  "\<exists>r s' j'. reserveWalletNonceLocked demo_platform (demo_rpcs 0 0) demo_wallet ''submit'' None no_store = Inr (r, s') \<and>
     s' (res_path r) = Some j' \<and> nonce_owner j' (res_nonce r) = Some ''submit''"
proof -
  note r = demo_first[of Operator_module, unfolded reserve_by.simps]
  from reservation_fresh_or_own[OF r] r show ?thesis by blast
qed

theorem reservation_progress_witness:
  "\<exists>r s'. reserveWalletNonceLocked demo_platform (demo_rpcs 2 4) demo_wallet ''commit'' None no_store = Inr (r, s')"
proof -
  have o: "walletNonceObservation (demo_rpcs 2 4) (to_lower ''0xAA'') = Inr \<lparr>finalizedNonce = 2, pendingNonce = 4\<rparr>"
    by (rule demo_observation) (simp_all add: safe_integer_def)
  have "\<exists>r s'. reserveWalletNonceLocked demo_platform (demo_rpcs 2 4) demo_wallet ''commit'' None no_store = Inr (r, s') \<and>
    (\<exists>s''. reserveWalletNonceLocked demo_platform (demo_rpcs 2 4) demo_wallet ''commit'' None s' = Inr (r\<lparr>res_recovered := True\<rparr>, s''))"
    by (rule reservation_progress[OF _ _ _ _ _ o demo_path_is demo_binding_is])
      (simp_all add: demo_platform_def demo_wallet_def no_store_def safe_integer_def)
  then show ?thesis by blast
qed

theorem broadcast_decision_safe_witness:
  "\<exists>s' d. walletNonceBroadcastDecisionLocked demo_platform (demo_rpc 0 3 3) (demo_rpcs 3 3) demo_wallet ''submit''
       demo_record demo_store = (s', Inr d) \<and> d_broadcast d \<and>
     (\<exists>path j' a. s' path = Some j' \<and> nonce_entry j' (d_nonce d) = Some a \<and>
        transaction_hash a = Some (to_lower (sr_hash demo_record)))"
proof -
  have r: "walletNonceBroadcastDecisionLocked demo_platform (demo_rpc 0 3 3) (demo_rpcs 3 3) demo_wallet ''submit'' demo_record demo_store =
    (demo_store(demo_path \<mapsto> demo_journal_of 3 4 [demo_entry 0 Fenced None, demo_entry 3 Signed (Some ''abc'')]),
     Inr \<lparr>d_broadcast = True, d_known = False, d_nonce = 3\<rparr>)"
    by (simp add: demo_decide safe_integer_def)
  have b: "d_broadcast \<lparr>d_broadcast = True, d_known = False, d_nonce = 3\<rparr>" by simp
  from broadcast_decision_safe[OF r] r b show ?thesis by blast
qed

theorem wallet_modules_agree_witness:
  "\<exists>x. coordinatorReserve demo_platform (demo_rpcs 0 0) demo_wallet ''submit'' None no_store = Inr x \<and>
     reserveWalletNonceLocked demo_platform (demo_rpcs 0 0) demo_wallet ''submit'' None no_store = Inr x"
proof -
  have "2 \<le> length (demo_rpcs 0 0)" "distinct (map rpc_id (demo_rpcs 0 0))"
    by (simp_all add: demo_rpcs_def demo_rpc_def)
  from wallet_modules_agree[OF this] demo_first[of Operator_module] show ?thesis by (auto simp del: split_paired_Ex)
qed

end
