(* ===== verification/Wallet_Refinement.thy ===== *)
theory Wallet_Refinement
  imports Wallet_Protocol
begin

text \<open>
  The wallet refines an abstract nonce allocator, operation by operation. The allocator knows which
  action owns a nonce and which transaction a nonce is bound to; every operation of the operator and
  of the coordinator names one command of it, and what the operation does to a journal file is at most
  that command, and in the file of another wallet it changes no owner and no binding.
\<close>

section \<open>The abstract allocator\<close>

datatype allocator_command =
    Idle
  | Assign string
  | Adopt string int "string option"
  | Bind string int "string option"

type_synonym allocator = "(int \<Rightarrow> string option) \<times> (int \<Rightarrow> string option)"

text \<open>
  \<open>Assign\<close> gives an action a nonce above all assigned ones; \<open>Adopt\<close> gives it the nonce of a transaction it
  signed before, unless another action owns it, and binds the transaction; \<open>Bind\<close> binds a transaction to
  a nonce the action owns, unless another one is bound. A command may be refused, with no effect.
\<close>

inductive allocator_step :: "allocator_command \<Rightarrow> allocator \<Rightarrow> allocator \<Rightarrow> bool" where
  refuse: "allocator_step c v v"
| assign: "\<forall>k \<in> dom owner. k < n \<Longrightarrow> allocator_step (Assign a) (owner, bound) (owner(n \<mapsto> a), bound)"
| adopt: "owner n \<in> {None, Some a} \<Longrightarrow> bound n \<in> {None, h} \<Longrightarrow>
    allocator_step (Adopt a n h) (owner, bound) (owner(n \<mapsto> a), bound(n := h))"
| bind: "owner n = Some a \<Longrightarrow> bound n \<in> {None, h} \<Longrightarrow>
    allocator_step (Bind a n h) (owner, bound) (owner, bound(n := h))"

inductive_simps allocator_step_Idle [simp]: "allocator_step Idle v v'"

fun command_run :: "('c \<Rightarrow> 'v \<Rightarrow> 'v \<Rightarrow> bool) \<Rightarrow> 'c list \<Rightarrow> 'v \<Rightarrow> 'v \<Rightarrow> bool" where
  "command_run astep [] v v' \<longleftrightarrow> v' = v"
| "command_run astep (c # cs) v v' \<longleftrightarrow> (\<exists>u. astep c v u \<and> command_run astep cs u v')"

text \<open>A machine whose every step is at most the command its event names.\<close>

locale command_refinement =
  fixes step :: "'s \<Rightarrow> 'ev \<Rightarrow> 'e + 's" and view :: "'s \<Rightarrow> 'v"
    and command :: "'ev \<Rightarrow> 'c" and astep :: "'c \<Rightarrow> 'v \<Rightarrow> 'v \<Rightarrow> bool"
  assumes step_refines: "step s e = Inr s' \<Longrightarrow> astep (command e) (view s) (view s')"
begin

lemma run_refines:
  "run_events step s es = Inr s' \<Longrightarrow> command_run astep (map command es) (view s) (view s')"
proof (induction es arbitrary: s)
  case (Cons e es)
  then obtain t where "step s e = Inr t" "run_events step t es = Inr s'" by auto
  with Cons.IH[of t] step_refines[of s e t] show ?case by (auto intro!: exI[of _ "view t"])
qed simp

end

section \<open>The abstraction\<close>

definition journal_view :: "nonce_journal \<Rightarrow> allocator" where
  "journal_view j = (nonce_owner j, bound_hash j)"

definition allocator_view :: "nonce_store \<Rightarrow> string \<Rightarrow> allocator" where
  "allocator_view s path = (case s path of None \<Rightarrow> (\<lambda>_. None, \<lambda>_. None) | Some j \<Rightarrow> journal_view j)"

definition hash_value :: "signed_record \<Rightarrow> string option" where
  "hash_value rec = (let h = to_lower (sr_hash rec) in if h = [] then None else Some h)"

text \<open>The wallet an operation works on, and the command it names.\<close>

fun wallet_of :: "wallet_op \<Rightarrow> wallet_args" where
  "wallet_of (Operator (Reserve rpcs w action existing)) = w"
| "wallet_of (Operator (Record_signed w action rec)) = w"
| "wallet_of (Operator (Record_broadcast w action rec)) = w"
| "wallet_of (Operator (Decide rpc rpcs w action rec)) = w"
| "wallet_of (Coordinator_reserve rpcs w action existing) = w"
| "wallet_of (Coordinator_record w action rec st) = w"
| "wallet_of (Coordinator_decide rpc rpcs w action rec) = w"

definition reserve_command :: "string \<Rightarrow> signed_record option \<Rightarrow> allocator_command" where
  "reserve_command action existing = (case existing of
     None \<Rightarrow> Assign action | Some rec \<Rightarrow> Adopt action (sr_nonce rec) (hash_value rec))"

definition bind_command :: "string \<Rightarrow> signed_record \<Rightarrow> allocator_command" where
  "bind_command action rec = Bind action (sr_nonce rec) (hash_value rec)"

fun command_of :: "wallet_op \<Rightarrow> allocator_command" where
  "command_of (Operator (Reserve rpcs w action existing)) = reserve_command action existing"
| "command_of (Operator (Record_signed w action rec)) = bind_command action rec"
| "command_of (Operator (Record_broadcast w action rec)) = bind_command action rec"
| "command_of (Operator (Decide rpc rpcs w action rec)) = bind_command action rec"
| "command_of (Coordinator_reserve rpcs w action existing) = reserve_command action existing"
| "command_of (Coordinator_record w action rec st) = bind_command action rec"
| "command_of (Coordinator_decide rpc rpcs w action rec) = bind_command action rec"

definition allocator_command :: "platform \<Rightarrow> string \<Rightarrow> wallet_op \<Rightarrow> allocator_command" where
  "allocator_command pf path op =
     (if walletNonceAllocatorPath pf (wallet_of op) = Inr path then command_of op else Idle)"

section \<open>What the operations do to the view\<close>

lemma journal_view_eq:
  "nonce_entry j' = nonce_entry j \<Longrightarrow> journal_view j' = journal_view j"
  by (simp add: journal_view_def nonce_owner_def bound_hash_def fun_eq_iff)

lemma persist_view [simp]: "journal_view (persistWalletNonceObservation j obs) = journal_view j"
  by (rule journal_view_eq) simp

lemma entry_step_view:
  "entry_step j j' a \<Longrightarrow> journal_view j' =
     ((nonce_owner j)(alloc_nonce a \<mapsto> action_id a), (bound_hash j)(alloc_nonce a := hash_of a))"
  by (auto simp: entry_step_def journal_view_def nonce_owner_def bound_hash_def fun_eq_iff)

lemma entry_step_kept:
  assumes "entry_step j j' a" and "nonce_entry j (alloc_nonce a) = Some old" and "hash_of a = hash_of old"
  shows "journal_view j' = journal_view j"
proof -
  have "action_id a = action_id old" using assms(1,2) by (simp add: entry_step_def)
  then have "nonce_owner j (alloc_nonce a) = Some (action_id a)" "bound_hash j (alloc_nonce a) = hash_of a"
    using assms(2,3) by (simp_all add: nonce_owner_def bound_hash_def)
  then have "(nonce_owner j)(alloc_nonce a \<mapsto> action_id a) = nonce_owner j"
    "(bound_hash j)(alloc_nonce a := hash_of a) = bound_hash j"
    by (simp_all add: fun_upd_idem)
  then show ?thesis using entry_step_view[OF assms(1)] by (simp add: journal_view_def)
qed

lemma hash_of_record: "transaction_hash a = Some (to_lower (sr_hash rec)) \<Longrightarrow> hash_of a = hash_value rec"
  by (simp add: hash_of_def hash_value_def Let_def)

lemma entry_step_bound:
  "entry_step j j' a \<Longrightarrow> bound_hash j (alloc_nonce a) \<in> {None, hash_of a}"
  by (cases "nonce_entry j (alloc_nonce a)") (auto simp: entry_step_def bound_hash_def)

lemma entry_step_owner:
  "entry_step j j' a \<Longrightarrow> nonce_owner j (alloc_nonce a) \<in> {None, Some (action_id a)}"
  by (cases "nonce_entry j (alloc_nonce a)") (auto simp: entry_step_def nonce_owner_def)

lemma adopts:
  assumes "entry_step j j' a" "alloc_nonce a = n" "action_id a = action" "hash_of a = h"
  shows "allocator_step (Adopt action n h) (journal_view j) (journal_view j')"
  using entry_step_bound[OF assms(1)] entry_step_owner[OF assms(1)] assms(2-)
  unfolding entry_step_view[OF assms(1)] by (simp add: journal_view_def adopt)

lemma binds:
  assumes "entry_step j j' a" "alloc_nonce a = n" "action_id a = action" "hash_of a = h"
    and "nonce_owner j n = Some action"
  shows "allocator_step (Bind action n h) (journal_view j) (journal_view j')"
proof -
  have "(nonce_owner j)(n \<mapsto> action) = nonce_owner j" using assms(5) by (simp add: fun_upd_idem)
  then show ?thesis
    using entry_step_bound[OF assms(1)] assms(2-) unfolding entry_step_view[OF assms(1)]
    by (simp add: journal_view_def bind)
qed

lemma found_owner:
  "find (\<lambda>a. action_id a = action \<and> alloc_nonce a = n) (allocations j) = Some old \<Longrightarrow>
   distinct (map alloc_nonce (allocations j)) \<Longrightarrow> nonce_owner j n = Some action"
  by (auto dest!: find_SomeD simp: nonce_owner_def nonce_entry_def entry_by_iff)

lemma bind_signed_refines:
  assumes "bind_signed j action rec tx = Inr j'" and "journal_valid pf b j" and "tx_nonce tx = sr_nonce rec"
  shows "allocator_step (bind_command action rec) (journal_view j) (journal_view j')"
proof -
  note d = journal_valid_distinct[OF assms(2)]
  obtain old where "find (\<lambda>a. action_id a = action \<and> alloc_nonce a = tx_nonce tx) (allocations j) = Some old"
    using assms(1) by (auto simp: bind_signed_def Let_def split: option.splits)
  note owner = found_owner[OF this d]
  obtain a where a: "entry_step j j' a" "alloc_nonce a = tx_nonce tx" "action_id a = action"
    "transaction_hash a = Some (to_lower (sr_hash rec))"
    using bind_signed_step[OF assms(1) d] by blast
  show ?thesis
    using binds[OF a(1,2,3) hash_of_record[OF a(4)] owner] assms(3) by (simp add: bind_command_def)
qed

lemma bind_record_refines:
  assumes "bind_record j action rec tx st = Inr j'" and "journal_valid pf b j" and "tx_nonce tx = sr_nonce rec"
  shows "allocator_step (bind_command action rec) (journal_view j) (journal_view j')"
proof -
  note d = journal_valid_distinct[OF assms(2)]
  obtain old where "find (\<lambda>a. action_id a = action \<and> alloc_nonce a = tx_nonce tx) (allocations j) = Some old"
    using assms(1) by (auto simp: bind_record_def Let_def split: option.splits)
  note owner = found_owner[OF this d]
  obtain a where a: "entry_step j j' a" "alloc_nonce a = tx_nonce tx" "action_id a = action"
    "transaction_hash a = Some (to_lower (sr_hash rec))"
    using bind_record_step[OF assms(1) d] by blast
  show ?thesis
    using binds[OF a(1,2,3) hash_of_record[OF a(4)] owner] assms(3) by (simp add: bind_command_def)
qed

lemma adopt_signed_refines:
  assumes "adopt_signed j action rec tx = Inr j'" and "journal_valid pf b j" and "tx_nonce tx = sr_nonce rec"
  shows "allocator_step (reserve_command action (Some rec)) (journal_view j) (journal_view j')"
proof -
  obtain a where a: "entry_step j j' a" "alloc_nonce a = tx_nonce tx" "action_id a = action"
    "transaction_hash a = Some (to_lower (sr_hash rec))"
    using adopt_signed_step[OF assms(1) journal_valid_distinct[OF assms(2)]] by blast
  show ?thesis
    using adopts[OF a(1,2,3) hash_of_record[OF a(4)]] assms(3) by (simp add: reserve_command_def)
qed

text \<open>The coordinator leaves an allocation that it finds as it is, and binds nothing.\<close>

lemma adopt_existing_refines:
  assumes "adopt_existing j action rec tx = Inr j'" and "journal_valid pf b j" and "tx_nonce tx = sr_nonce rec"
  shows "allocator_step (reserve_command action (Some rec)) (journal_view j) (journal_view j')"
proof (cases "find (\<lambda>a. action_id a = action \<and> alloc_nonce a = tx_nonce tx) (allocations j)")
  case None
  let ?a = "\<lparr>action_id = action, alloc_nonce = tx_nonce tx, alloc_state = Signed,
     transaction_hash = Some (to_lower (sr_hash rec))\<rparr>"
  have "find (\<lambda>a. alloc_nonce a = tx_nonce tx \<and> action_id a \<noteq> action) (allocations j) = None"
    using assms(1) by (auto simp: adopt_existing_def Let_def)
  then have "tx_nonce tx \<notin> alloc_nonce ` set (allocations j)"
    using None by (auto simp: find_None_iff) metis
  then have "entry_step j j' ?a"
    using assms(1) None by (intro entry_stepI_append) (auto simp: adopt_existing_def Let_def counters_grow_def)
  moreover have "hash_of ?a = hash_value rec" by (rule hash_of_record) simp
  ultimately have "allocator_step (Adopt action (tx_nonce tx) (hash_value rec)) (journal_view j) (journal_view j')"
    by (intro adopts) simp_all
  then show ?thesis using assms(3) by (simp add: reserve_command_def)
next
  case (Some old)
  then have "nonce_entry j' = nonce_entry j"
    using assms(1) by (auto simp: adopt_existing_def Let_def nonce_entry_def)
  then have "journal_view j' = journal_view j" by (rule journal_view_eq)
  then show ?thesis using refuse[of _ "journal_view j"] by simp
qed

lemma set_state_view:
  assumes "set_state action n st j = Inr j'" and "journal_valid pf b j"
  shows "journal_view j' = journal_view j"
proof -
  obtain old where "nonce_entry j n = Some old" "entry_step j j' (old\<lparr>alloc_state := st\<rparr>)" "alloc_nonce old = n"
    using set_state_step[OF assms(1) journal_valid_distinct[OF assms(2)]] by blast
  then show ?thesis by (intro entry_step_kept[of j j' "old\<lparr>alloc_state := st\<rparr>" old]) (simp_all add: hash_of_def)
qed

lemma fence_action_view:
  assumes "fence_action action j = Inr j'" and "journal_valid pf b j"
  shows "journal_view j' = journal_view j"
proof -
  note d = journal_valid_distinct[OF assms(2)]
  obtain old where "old \<in> set (allocations j)" "entry_step j j' (old\<lparr>alloc_state := Fenced\<rparr>)"
    using fence_action_step[OF assms(1) d] by blast
  moreover from this(1) have "nonce_entry j (alloc_nonce old) = Some old"
    using d by (simp add: nonce_entry_def entry_by_iff)
  ultimately show ?thesis
    by (intro entry_step_kept[of j j' "old\<lparr>alloc_state := Fenced\<rparr>" old]) (simp_all add: hash_of_def)
qed

lemma fence_open_view:
  assumes "journal_valid pf b j" and "find P (rev (allocations j)) = Some old"
  shows "journal_view (j\<lparr>allocations := update_last P (\<lambda>a. a\<lparr>alloc_state := Fenced\<rparr>) (allocations j)\<rparr>) = journal_view j"
proof -
  note d = journal_valid_distinct[OF assms(1)]
  let ?j = "j\<lparr>allocations := update_last P (\<lambda>a. a\<lparr>alloc_state := Fenced\<rparr>) (allocations j)\<rparr>"
  have "nonce_entry ?j = (nonce_entry j)(alloc_nonce old \<mapsto> old\<lparr>alloc_state := Fenced\<rparr>)"
    using entry_by_update_last[OF d assms(2), of "\<lambda>a. a\<lparr>alloc_state := Fenced\<rparr>"] by (simp add: nonce_entry_def)
  moreover have "nonce_entry j (alloc_nonce old) = Some old"
    using find_rev_SomeD[OF assms(2)] d by (simp add: nonce_entry_def entry_by_iff)
  ultimately show ?thesis
    by (intro entry_step_kept[of j ?j "old\<lparr>alloc_state := Fenced\<rparr>" old])
      (simp_all add: entry_step_def counters_grow_def hash_of_def)
qed

lemma owned_below: "journal_valid pf b j \<Longrightarrow> nonce_owner j k \<noteq> None \<Longrightarrow> k < next_nonce j"
  by (auto simp: journal_valid_def nonce_owner_def nonce_entry_def dest!: entry_by_SomeD)

lemma reserve_next_refines:
  assumes "reserve_next j action obs = (j', n, recovered)" and v: "journal_valid pf b j"
  shows "allocator_step (reserve_command action None) (journal_view j) (journal_view j')"
proof -
  let ?mine = "\<lambda>a. action_id a = action \<and> alloc_state a = Reserved"
  let ?as = "update_last ?mine (\<lambda>a. a\<lparr>alloc_state := Fenced\<rparr>) (allocations j)"
  let ?new = "\<lparr>action_id = action, alloc_nonce = fresh_nonce j obs, alloc_state = Reserved, transaction_hash = None\<rparr>"
  let ?mid = "j\<lparr>allocations := ?as\<rparr>" and ?j = "j\<lparr>allocations := ?as @ [?new], next_nonce := fresh_nonce j obs + 1\<rparr>"
  have mid: "journal_view ?mid = journal_view j"
    by (cases "find ?mine (rev (allocations j))") (simp_all add: update_last_same fence_open_view[OF v])
  have keys: "map alloc_nonce ?as = map alloc_nonce (allocations j)" by (rule map_update_last) simp
  then have "alloc_nonce ` set ?as = alloc_nonce ` set (allocations j)" by (metis list.set_map)
  then have fresh: "fresh_nonce j obs \<notin> alloc_nonce ` set ?as" using fresh_nonce_new[OF v] by simp
  then have "entry_step ?mid ?j ?new"
    by (intro entry_stepI_append) (auto simp: counters_grow_def fresh_nonce_def)
  from entry_step_view[OF this] have view: "journal_view ?j =
      ((nonce_owner ?mid)(fresh_nonce j obs \<mapsto> action), (bound_hash ?mid)(fresh_nonce j obs := None))"
    by (simp add: hash_of_def)
  have same: "nonce_owner ?mid = nonce_owner j" "bound_hash ?mid = bound_hash j"
    using mid by (simp_all add: journal_view_def)
  have "nonce_entry j (fresh_nonce j obs) = None"
    using fresh_nonce_new[OF v] by (simp add: nonce_entry_def entry_by_None)
  then have unbound: "(bound_hash j)(fresh_nonce j obs := None) = bound_hash j"
    by (simp add: fun_upd_idem bound_hash_def)
  have below: "\<forall>k \<in> dom (nonce_owner j). k < fresh_nonce j obs"
  proof
    fix k assume "k \<in> dom (nonce_owner j)"
    then have "k < next_nonce j" using owned_below[OF v] by blast
    also have "next_nonce j \<le> fresh_nonce j obs" by (simp add: fresh_nonce_def)
    finally show "k < fresh_nonce j obs" .
  qed
  have new: "allocator_step (Assign action) (journal_view j) (journal_view ?j)"
    using assign[OF below] view same unbound by (simp add: journal_view_def)
  have "j' = j \<or> j' = ?j"
    using assms(1) by (auto simp: reserve_next_def Let_def update_last_same split: option.splits if_splits)
  then show ?thesis
    using new refuse[of "Assign action" "journal_view j"] by (elim disjE) (simp_all add: reserve_command_def)
qed

text \<open>A write of a journal, and the view of its file and of the others.\<close>

lemma view_written [simp]:
  "allocator_view (s(path \<mapsto> j)) q = (if q = path then journal_view j else allocator_view s q)"
  by (simp add: allocator_view_def)

lemma view_read:
  "s path = Some j \<or> s path = None \<and> j = empty_journal b \<Longrightarrow> allocator_view s path = journal_view j"
  by (auto simp: allocator_view_def journal_view_def nonce_owner_def bound_hash_def nonce_entry_def
      empty_journal_def fun_eq_iff)

definition refines :: "string \<Rightarrow> allocator_command \<Rightarrow> nonce_store \<Rightarrow> nonce_store \<Rightarrow> bool" where
  "refines path c s s' \<longleftrightarrow> allocator_step c (allocator_view s path) (allocator_view s' path) \<and>
     (\<forall>q. q \<noteq> path \<longrightarrow> allocator_view s' q = allocator_view s q)"

lemma refinesI:
  "s path = Some j \<or> s path = None \<and> j = empty_journal b \<Longrightarrow> s' = s(path \<mapsto> j') \<Longrightarrow>
   allocator_step c (journal_view j) (journal_view j') \<Longrightarrow> refines path c s s'"
  by (simp add: refines_def view_read)

lemma refines_then: "refines path c s t \<Longrightarrow> allocator_view u = allocator_view t \<Longrightarrow> refines path c s u"
  by (simp add: refines_def)

lemma view_kept:
  "s path = Some j \<or> s path = None \<and> j = empty_journal b \<Longrightarrow> journal_view j' = journal_view j \<Longrightarrow>
   allocator_view (s(path \<mapsto> j')) = allocator_view s"
  using view_read[of s path j b] by (auto simp: fun_eq_iff)

section \<open>Every operation is at most its command\<close>

lemma record_nonce: "assertAllocatorSignedRecord pf rec b = Inr tx \<Longrightarrow> tx_nonce tx = sr_nonce rec"
  by (auto simp: assertAllocatorSignedRecord_def)

lemma reserve_refines:
  assumes "reserveWalletNonceLocked pf rpcs w action existing s = Inr (r, s')"
  shows "\<exists>path. walletNonceAllocatorPath pf w = Inr path \<and> refines path (reserve_command action existing) s s'"
proof -
  obtain b path j0 obs where p: "walletNonceAllocatorPath pf w = Inr path"
    and j0: "s path = Some j0 \<or> s path = None \<and> j0 = empty_journal b" and v0: "journal_valid pf b j0"
    and o: "walletNonceObservation rpcs (b_signer b) = Inr obs"
    and rest: "(case existing of
             Some rec \<Rightarrow>
               and_then (assertAllocatorSignedRecord pf rec b) (\<lambda>tx.
               and_then (adopt_signed (persistWalletNonceObservation j0 obs) action rec tx) (\<lambda>j'.
               and_then (replaceWalletNonceAllocator pf s path b j') (\<lambda>s'.
                 Inr (\<lparr>res_path = path, res_nonce = tx_nonce tx, res_recovered = True\<rparr>, s'))))
           | None \<Rightarrow>
               (let (j', n, recovered) = reserve_next (persistWalletNonceObservation j0 obs) action obs
                in and_then (replaceWalletNonceAllocator pf s path b j') (\<lambda>s'.
                     Inr (\<lparr>res_path = path, res_nonce = n, res_recovered = recovered\<rparr>, s')))) = Inr (r, s')"
    using assms by (auto simp: reserveWalletNonceLocked_def read_Inr Let_def)
  let ?j = "persistWalletNonceObservation j0 obs"
  have v: "journal_valid pf b ?j" using observation_Inr[OF o] v0 by (intro persist_valid) auto
  show ?thesis
  proof (cases existing)
    case None
    obtain j' n recovered where n: "reserve_next ?j action obs = (j', n, recovered)"
      by (cases "reserve_next ?j action obs") auto
    with rest None have "s' = s(path \<mapsto> j')" by (auto simp: replace_Inr)
    then show ?thesis using refinesI[where s = s and path = path, OF j0] reserve_next_refines[OF n v] p None by simp
  next
    case (Some rec)
    then obtain tx j' where "assertAllocatorSignedRecord pf rec b = Inr tx"
      and "adopt_signed ?j action rec tx = Inr j'" and "s' = s(path \<mapsto> j')"
      using rest by (auto simp: replace_Inr)
    then show ?thesis using refinesI[where s = s and path = path, OF j0] adopt_signed_refines[OF _ v] record_nonce p Some by simp
  qed
qed

lemma record_signed_refines:
  assumes "recordWalletNonceSignedLocked pf w action rec s = Inr (x, s')"
  shows "\<exists>path. walletNonceAllocatorPath pf w = Inr path \<and> refines path (bind_command action rec) s s'"
proof -
  obtain b tx path j j' where p: "walletNonceAllocatorPath pf w = Inr path"
    and tx: "assertAllocatorSignedRecord pf rec b = Inr tx"
    and j: "s path = Some j \<or> s path = None \<and> j = empty_journal b" "journal_valid pf b j"
    and bd: "bind_signed j action rec tx = Inr j'" and s': "s' = s(path \<mapsto> j')"
    using assms by (auto simp: recordWalletNonceSignedLocked_def read_Inr replace_Inr)
  show ?thesis using refinesI[where s = s and path = path, OF j(1) s' bind_signed_refines[OF bd j(2) record_nonce[OF tx]]] p by blast
qed

lemma broadcast_second_view:
  assumes "and_then (walletNonceBinding pf (w_chain_id w) (w_signer w)) (\<lambda>b.
             and_then (walletNonceAllocatorPath pf w) (\<lambda>path.
             and_then (readWalletNonceAllocator pf s path b) (\<lambda>j.
             and_then (set_state action n st j) (\<lambda>j'.
             and_then (replaceWalletNonceAllocator pf s path b j') (\<lambda>s2. Inr (x, s2)))))) = Inr (y, s')"
  shows "allocator_view s' = allocator_view s"
proof -
  obtain b path j j' where j: "s path = Some j \<or> s path = None \<and> j = empty_journal b" "journal_valid pf b j"
    and st: "set_state action n st j = Inr j'" and s': "s' = s(path \<mapsto> j')"
    using assms by (auto simp: read_Inr replace_Inr)
  show ?thesis using view_kept[where s = s and path = path, OF j(1) set_state_view[OF st j(2)]] s' by simp
qed

lemma decide_view:
  assumes "decide_broadcast pf rpc rpcs w action rec s = Inr (d, s')"
  shows "allocator_view s' = allocator_view s"
proof -
  obtain b path tx j where b: "walletNonceBinding pf (w_chain_id w) (w_signer w) = Inr b"
    and p: "walletNonceAllocatorPath pf w = Inr path" and t: "assertAllocatorSignedRecord pf rec b = Inr tx"
    and j: "s path = Some j \<or> s path = None \<and> j = empty_journal b" and v: "journal_valid pf b j"
    using assms by (auto simp: decide_broadcast_def read_Inr)
  have rd: "readWalletNonceAllocator pf s path b = Inr j" using j v by (simp add: read_Inr)
  note kept = view_kept[where s = s and path = path, OF j]
  show ?thesis
  proof (cases "getTransaction rpc (sr_hash rec)")
    case (Inl m)
    then show ?thesis using assms b p t rd by (simp add: decide_broadcast_def)
  next
    case (Inr answer)
    show ?thesis
    proof (cases answer)
      case (Some known)
      then obtain j' where "set_state action (tx_nonce tx) Broadcast j = Inr j'" and "s' = s(path \<mapsto> j')"
        using assms b p t rd Inr by (auto simp: decide_broadcast_def Let_def replace_Inr)
      then show ?thesis using kept[OF set_state_view] v by simp
    next
      case None
      obtain obs where o: "walletNonceObservation rpcs (b_signer b) = Inr obs"
        using assms b p t rd Inr None by (auto simp: decide_broadcast_def Let_def)
      let ?j1 = "persistWalletNonceObservation j obs"
      have v1: "journal_valid pf b ?j1" using observation_Inr[OF o] v by (intro persist_valid) auto
      obtain j' where "set_state action (tx_nonce tx) Fenced ?j1 = Inr j' \<or> j' = ?j1" and s': "s' = s(path \<mapsto> j')"
        using assms b p t rd Inr None o by (auto simp: decide_broadcast_def Let_def replace_Inr split: if_splits)
      then have "journal_view j' = journal_view j" using set_state_view[OF _ v1] by auto
      then show ?thesis using kept s' by simp
    qed
  qed
qed

lemma operator_refines:
  assumes "walletNonceAllocatorPath pf (wallet_of (Operator op)) = Inr path"
  shows "refines path (command_of (Operator op)) s (operator_step pf op s)"
proof -
  have none: "refines path c s s" for c by (simp add: refines_def refuse)
  have bound: "refines path (bind_command action rec) s t"
    if "recordWalletNonceSignedLocked pf w action rec s = Inr (x, s1)" "allocator_view t = allocator_view s1"
      "walletNonceAllocatorPath pf w = Inr path" for w action rec x s1 t
    using record_signed_refines[OF that(1)] refines_then[OF _ that(2)] that(3) by auto
  show ?thesis
  proof (cases op)
    case (Reserve rpcs w action existing)
    then show ?thesis
      using none reserve_refines[of pf rpcs w action existing s] assms
      by (auto simp: commit_fst split: sum.split)
  next
    case (Record_signed w action rec)
    then show ?thesis
      using none record_signed_refines[of pf w action rec s] assms by (auto simp: commit_fst split: sum.split)
  next
    case (Record_broadcast w action rec)
    show ?thesis
    proof (cases "recordWalletNonceSignedLocked pf w action rec s")
      case (Inr res)
      obtain x s1 where res: "res = (x, s1)" by (cases res)
      have "allocator_view (operator_step pf op s) = allocator_view s1"
        unfolding Record_broadcast operator_step.simps recordWalletNonceBroadcastLocked_def Inr res sum.case prod.case
        by (rule commit_step[where R = "\<lambda>s s'. allocator_view s' = allocator_view s", OF broadcast_second_view refl])
      then show ?thesis using bound[OF Inr[unfolded res]] assms Record_broadcast by simp
    qed (use none Record_broadcast in \<open>simp add: recordWalletNonceBroadcastLocked_def\<close>)
  next
    case (Decide rpc rpcs w action rec)
    show ?thesis
    proof (cases "recordWalletNonceSignedLocked pf w action rec s")
      case (Inr res)
      obtain x s1 where res: "res = (x, s1)" by (cases res)
      have "allocator_view (operator_step pf op s) = allocator_view s1"
        unfolding Decide operator_step.simps walletNonceBroadcastDecisionLocked_def Inr res sum.case prod.case
        by (rule commit_step[where R = "\<lambda>s s'. allocator_view s' = allocator_view s", OF decide_view refl])
      then show ?thesis using bound[OF Inr[unfolded res]] assms Decide by simp
    qed (use none Decide in \<open>simp add: walletNonceBroadcastDecisionLocked_def\<close>)
  qed
qed

lemma coordinator_record_refines:
  assumes "coordinatorRecordSigned pf w action rec st s = Inr (u, s')"
  shows "\<exists>path. walletNonceAllocatorPath pf w = Inr path \<and> refines path (bind_command action rec) s s'"
proof -
  obtain b tx path j j' where tx: "signedTransaction pf rec b = Inr tx"
    and p: "coordinatorAllocatorPath pf w = Inr path" and rd: "readJournal pf s path b = Inr j"
    and bd: "bind_record j action rec tx st = Inr j'" and wr: "replaceJournal pf s path b j' = Inr s'"
    using assms by (auto simp: coordinatorRecordSigned_def)
  note j = rd[unfolded readJournal_Inr] and s' = wr[unfolded replaceJournal_Inr]
  have "refines path (bind_command action rec) s s'"
    using refinesI[where s = s and path = path] j s' bind_record_refines[OF bd] tx record_nonce
    by (metis signedTransaction_eq)
  then show ?thesis using p by (auto simp: coordinatorPath_Inr)
qed

lemma coordinator_decide_view:
  assumes "coordinator_decide pf rpc rpcs w action rec s = Inr (d, s')"
  shows "allocator_view s' = allocator_view s"
proof (cases "s' = s")
  case False
  then obtain b path j j' where rd: "readJournal pf s path b = Inr j"
    and f: "fence_action action j = Inr j'" and wr: "replaceJournal pf s path b j' = Inr s'"
    using assms
    by (cases "getTransaction rpc (sr_hash rec)"; cases "projr (getTransaction rpc (sr_hash rec))")
      (auto simp: coordinator_decide_def split: if_splits)
  note j = rd[unfolded readJournal_Inr] and s' = wr[unfolded replaceJournal_Inr]
  show ?thesis
    using view_kept[where s = s and path = path, OF conjunct1[OF j] fence_action_view[OF f conjunct2[OF j]]] s' by simp
qed simp

lemma coordinator_reserve_refines:
  assumes "coordinatorReserve pf rpcs w action existing s = Inr (r, s')"
  shows "\<exists>path. walletNonceAllocatorPath pf w = Inr path \<and> refines path (reserve_command action existing) s s'"
proof (cases existing)
  case None
  have "2 \<le> length rpcs" "distinct (map rpc_id rpcs)"
    using assms by (auto simp: coordinatorReserve_def nonceObservation_Inr)
  from coordinator_reserves[OF this] have "reserveWalletNonceLocked pf rpcs w action None s = Inr (r, s')"
    using assms None reserves_next_action by (simp add: operator_reserves)
  then show ?thesis using reserve_refines None by blast
next
  case (Some rec)
  then obtain b path j0 obs tx j' where rd: "readJournal pf s path b = Inr j0"
    and p: "coordinatorAllocatorPath pf w = Inr path"
    and o: "nonceObservation rpcs (b_signer b) = Inr obs"
    and tx: "signedTransaction pf rec b = Inr tx"
    and ad: "adopt_existing (persistObservation j0 obs) action rec tx = Inr j'"
    and wr: "replaceJournal pf s path b j' = Inr s'"
    using assms by (auto simp: coordinatorReserve_def Let_def)
  have ob: "walletNonceObservation rpcs (b_signer b) = Inr obs" using o by (simp add: nonceObservation_Inr)
  note j0 = rd[unfolded readJournal_Inr] and s' = wr[unfolded replaceJournal_Inr]
  have eq: "persistObservation j0 obs = persistWalletNonceObservation j0 obs"
    using j0 observation_Inr[OF ob] by (intro persistObservation_eq) auto
  have v: "journal_valid pf b (persistWalletNonceObservation j0 obs)"
    using observation_Inr[OF ob] j0 by (intro persist_valid) auto
  have "tx_nonce tx = sr_nonce rec" using tx record_nonce by (simp add: signedTransaction_eq)
  from adopt_existing_refines[OF ad[unfolded eq] v this]
  have "refines path (reserve_command action existing) s s'"
    using refinesI[where s = s and path = path, OF conjunct1[OF j0] conjunct2[OF s']] Some by simp
  then show ?thesis using p by (auto simp: coordinatorPath_Inr)
qed

lemma wallet_step_refines_own:
  assumes "walletNonceAllocatorPath pf (wallet_of op) = Inr path" and "wallet_step pf s op = Inr s'"
  shows "refines path (command_of op) s s'"
proof -
  have none: "refines path c s s" for c by (simp add: refines_def refuse)
  show ?thesis
  proof (cases op)
    case (Operator op')
    then show ?thesis using operator_refines[of pf op' path s] assms by auto
  next
    case (Coordinator_reserve rpcs w action existing)
    then show ?thesis
      using none coordinator_reserve_refines[of pf rpcs w action existing s] assms
      by (auto simp: commit_fst split: sum.splits)
  next
    case (Coordinator_record w action rec st)
    then show ?thesis
      using none coordinator_record_refines[of pf w action rec st s] assms by (auto simp: commit_fst split: sum.splits)
  next
    case (Coordinator_decide rpc rpcs w action rec)
    show ?thesis
    proof (cases "coordinatorRecordSigned pf w action rec Signed s")
      case (Inr res)
      obtain u s1 where res: "res = (u, s1)" by (cases res)
      have "allocator_view (fst (commit s1 (coordinator_decide pf rpc rpcs w action rec s1))) = allocator_view s1"
        by (rule commit_step[where R = "\<lambda>s s'. allocator_view s' = allocator_view s", OF coordinator_decide_view refl])
      then show ?thesis
        using coordinator_record_refines[OF Inr[unfolded res]] refines_then Inr res Coordinator_decide assms
        by (auto simp: coordinatorDecision_def)
    qed (use none Coordinator_decide assms in \<open>simp add: coordinatorDecision_def\<close>)
  qed
qed

text \<open>An operation whose wallet has no allocator file throws before it writes.\<close>

lemma record_needs_path:
  assumes "walletNonceAllocatorPath pf w = Inl err"
  shows "\<exists>e. recordWalletNonceSignedLocked pf w action rec s = Inl e"
    and "\<exists>e. coordinatorRecordSigned pf w action rec st s = Inl e"
    and "\<exists>e. reserveWalletNonceLocked pf rpcs w action existing s = Inl e"
    and "\<exists>e. coordinatorReserve pf rpcs w action existing s = Inl e"
proof -
  show "\<exists>e. recordWalletNonceSignedLocked pf w action rec s = Inl e"
    using record_signed_refines[of pf w action rec s] assms
    by (cases "recordWalletNonceSignedLocked pf w action rec s") auto
  show "\<exists>e. coordinatorRecordSigned pf w action rec st s = Inl e"
    using coordinator_record_refines[of pf w action rec st s] assms
    by (cases "coordinatorRecordSigned pf w action rec st s") auto
  show "\<exists>e. reserveWalletNonceLocked pf rpcs w action existing s = Inl e"
    using reserve_refines[of pf rpcs w action existing s] assms
    by (cases "reserveWalletNonceLocked pf rpcs w action existing s") auto
  show "\<exists>e. coordinatorReserve pf rpcs w action existing s = Inl e"
    using coordinator_reserve_refines[of pf rpcs w action existing s] assms
    by (cases "coordinatorReserve pf rpcs w action existing s") auto
qed

lemma wallet_step_needs_path:
  assumes "walletNonceAllocatorPath pf (wallet_of op) = Inl err" and "wallet_step pf s op = Inr s'"
  shows "s' = s"
proof (cases op)
  case (Operator op')
  then have s': "s' = operator_step pf op' s" using assms(2) by simp
  have path: "walletNonceAllocatorPath pf (wallet_of (Operator op')) = Inl err" using Operator assms(1) by simp
  show ?thesis
  proof (cases op')
    case (Reserve rpcs w action existing)
    then show ?thesis using s' path record_needs_path(3)[of pf w err rpcs action existing s] by auto
  next
    case (Record_signed w action rec)
    then show ?thesis using s' path record_needs_path(1)[of pf w err action rec s] by auto
  next
    case (Record_broadcast w action rec)
    then show ?thesis
      using s' path record_needs_path(1)[of pf w err action rec s] by (auto simp: recordWalletNonceBroadcastLocked_def)
  next
    case (Decide rpc rpcs w action rec)
    then show ?thesis
      using s' path record_needs_path(1)[of pf w err action rec s] by (auto simp: walletNonceBroadcastDecisionLocked_def)
  qed
next
  case (Coordinator_reserve rpcs w action existing)
  then show ?thesis using assms record_needs_path(4)[of pf w err rpcs action existing s] by auto
next
  case (Coordinator_record w action rec st)
  then show ?thesis using assms record_needs_path(2)[of pf w err action rec st s] by auto
next
  case (Coordinator_decide rpc rpcs w action rec)
  then show ?thesis
    using assms record_needs_path(2)[of pf w err action rec Signed s] by (auto simp: coordinatorDecision_def)
qed

interpretation wallet_allocator: command_refinement "wallet_step pf" "\<lambda>s. allocator_view s path"
    "allocator_command pf path" allocator_step for pf path
proof unfold_locales
  fix s op s' assume step: "wallet_step pf s op = Inr s'"
  show "allocator_step (allocator_command pf path op) (allocator_view s path) (allocator_view s' path)"
  proof (cases "walletNonceAllocatorPath pf (wallet_of op)")
    case (Inl err)
    from wallet_step_needs_path[OF this step] show ?thesis by (simp add: refuse)
  next
    case (Inr own)
    from wallet_step_refines_own[OF this step] show ?thesis
      using Inr by (auto simp: refines_def allocator_command_def)
  qed
qed

section \<open>The property\<close>

text \<open>
  C6. The wallet refines the abstract allocator, command by command: in a run of any operations of the
  operator and the coordinator, each operation does to the journal file of its own wallet at most the
  command it names: a reservation assigns one nonce above all assigned ones to its own action, a
  reservation with a signed record adopts the nonce of that record, every other operation at most binds
  the hash of its record to a nonce its action owns. In the files of other wallets no nonce changes its
  owner or its transaction.
\<close>

theorem wallet_refines_allocator:
  "\<exists>s'. run_events (wallet_step pf) s ops = Inr s' \<and>
     (\<forall>path. command_run allocator_step (map (allocator_command pf path) ops)
        (allocator_view s path) (allocator_view s' path))"
proof -
  obtain s' where r: "run_events (wallet_step pf) s ops = Inr s'" using wallet_run by blast
  then show ?thesis using wallet_allocator.run_refines[OF r] by blast
qed

end
