(* ===== verification/Governance_Journal.thy ===== *)
theory Governance_Journal
  imports Staged_Journal
begin

text \<open>
  contracts/scripts/governance-operation-journal.js: the durable plan of a release's governance
  operations and the evidence, read from the timelock contract, that each was scheduled and executed.

  An operation goes from planned over pending to executed. Null fields are \<open>None\<close>; fields of a wrong JSON
  type are not represented. Transaction builders are arbitrary JSON values.
\<close>

section \<open>Records\<close>

record override_fallback =
  fb_operationId :: string
  fb_salt :: string
  fb_requiredConfirmations :: string
  fb_delaySeconds :: string
  fb_transactionBuilder :: "int json"

record governance_operation =
  go_sequence :: int
  go_label :: string
  go_operationClass :: string
  go_target :: string
  go_value :: string
  go_data :: string
  go_salt :: string
  go_operationId :: string
  fallbackOperationId :: "string option"
  dependsOn :: "string list"
  requiredConfirmations :: string
  delaySeconds :: string
  transactionBuilder :: "int json"
  transactionBuilderDigest :: string
  overrideFallback :: "override_fallback option"
  overrideFallbackDigest :: "string option"
  go_state :: string
  observedOperationId :: "string option"
  scheduleTxHash :: "string option"
  executeTxHash :: "string option"
  go_blockNumber :: "int option"
  go_blockHash :: "string option"

record governance_policy =
  gp_threshold :: string
  gp_overrideThreshold :: string
  gp_delaySeconds :: string
  gp_overrideDelaySeconds :: string
  gp_guardian :: string
  gp_signers :: "string list"

record governance_journal =
  gj_schema :: string
  gj_chainId :: int
  gj_timelock :: string
  deploymentCommit :: string
  gj_governance :: governance_policy
  deploymentConfigHash :: string
  releaseBindingDigest :: string
  expectedTimelockCodeHash :: string
  gj_generation :: int
  gj_operations :: "governance_operation list"
  gj_planDigest :: string

type_synonym governance_store = "string \<Rightarrow> governance_journal option"

datatype governance_error =
    Journal_malformed | Governance_not_hex string | Commit_malformed | Policy_malformed
  | Signers_not_distinct | Policy_number_malformed | Release_binding_malformed
  | Sequence_or_class_drift | Operation_id_mismatch | Dependencies_malformed
  | Authorization_malformed | Fallback_inconsistent | Fallback_identity | Identity_or_state_drift
  | Planned_with_evidence | Pending_incomplete | Pending_not_candidate | Observed_not_candidate
  | Execution_block_missing | Policy_mismatch | Fallback_policy_mismatch | Operations_digest_mismatch
  | Generation_invalid | No_operations_journal | Operations_conflict | Concurrent_operations_conflict
  | Operations_changed | Operation_mismatch | Observation_regresses | Observation_conflicts
  | Range_invalid | Binding_mismatch | Bytecode_mismatch | Ambiguous_lifecycle | Scheduled_payload_mismatch
  | State_event_mismatch | Pending_evidence_incomplete | Executed_evidence_incomplete
  | Executed_payload_mismatch | Execution_not_canonical | Not_continuable | Independent_missing
  | Independent_disagreement | Provider_failed string

definition governance_schema :: string where
  "governance_schema = ''p42-prizes/governance-operation-journal/v2''"

definition GOVERNANCE_STATES :: "(string \<times> int) list" where
  "GOVERNANCE_STATES = [(''planned'', 0), (''pending'', 1), (''executed'', 2)]"

definition governance_rank :: "string \<Rightarrow> table_value option" where
  "governance_rank st = table_lookup GOVERNANCE_STATES st"

section \<open>Canonical views\<close>

definition fallback_json :: "override_fallback \<Rightarrow> int json" where
  "fallback_json f = js_object
     [(''delaySeconds'', js_str (fb_delaySeconds f)), (''operationId'', js_str (fb_operationId f)),
      (''requiredConfirmations'', js_str (fb_requiredConfirmations f)), (''salt'', js_str (fb_salt f)),
      (''transactionBuilder'', fb_transactionBuilder f)]"

definition policy_json :: "governance_policy \<Rightarrow> int json" where
  "policy_json g = js_object
     [(''delaySeconds'', js_str (gp_delaySeconds g)), (''guardian'', js_str (gp_guardian g)),
      (''overrideDelaySeconds'', js_str (gp_overrideDelaySeconds g)),
      (''overrideThreshold'', js_str (gp_overrideThreshold g)),
      (''signers'', JsArray (map (\<lambda>s. js_str s) (gp_signers g))), (''threshold'', js_str (gp_threshold g))]"

definition operation_fields :: "governance_operation \<Rightarrow> (string \<times> int json) list" where
  "operation_fields o1 =
     [(''sequence'', js_int (go_sequence o1)), (''label'', js_str (go_label o1)),
      (''operationClass'', js_str (go_operationClass o1)), (''target'', js_str (go_target o1)),
      (''value'', js_str (go_value o1)), (''data'', js_str (go_data o1)), (''salt'', js_str (go_salt o1)),
      (''operationId'', js_str (go_operationId o1)),
      (''dependsOn'', JsArray (map (\<lambda>d. js_str d) (dependsOn o1))),
      (''fallbackOperationId'', js_opt (fallbackOperationId o1)),
      (''requiredConfirmations'', js_str (requiredConfirmations o1)), (''delaySeconds'', js_str (delaySeconds o1)),
      (''transactionBuilder'', transactionBuilder o1),
      (''transactionBuilderDigest'', js_str (transactionBuilderDigest o1)),
      (''overrideFallback'', case overrideFallback o1 of None \<Rightarrow> JsNull | Some f \<Rightarrow> fallback_json f),
      (''overrideFallbackDigest'', js_opt (overrideFallbackDigest o1))]"

definition evidence_fields :: "governance_operation \<Rightarrow> (string \<times> int json) list" where
  "evidence_fields o1 =
     [(''state'', js_str (go_state o1)), (''observedOperationId'', js_opt (observedOperationId o1)),
      (''scheduleTxHash'', js_opt (scheduleTxHash o1)), (''executeTxHash'', js_opt (executeTxHash o1)),
      (''blockNumber'', case go_blockNumber o1 of None \<Rightarrow> JsNull | Some n \<Rightarrow> js_int n),
      (''blockHash'', js_opt (go_blockHash o1))]"

definition operations_view :: "governance_journal \<Rightarrow> int json" where
  "operations_view r = js_object
     [(''schema'', js_str (gj_schema r)), (''chainId'', js_int (gj_chainId r)), (''timelock'', js_str (gj_timelock r)),
      (''deploymentCommit'', js_str (deploymentCommit r)), (''governance'', policy_json (gj_governance r)),
      (''deploymentConfigHash'', js_str (deploymentConfigHash r)),
      (''releaseBindingDigest'', js_str (releaseBindingDigest r)),
      (''expectedTimelockCodeHash'', js_str (expectedTimelockCodeHash r)),
      (''operations'', JsArray (map (\<lambda>o1. js_object (operation_fields o1)) (gj_operations r)))]"

section \<open>assertGovernanceOperations\<close>

definition operation_id :: "platform \<Rightarrow> governance_operation \<Rightarrow> string \<Rightarrow> string" where
  "operation_id pf o1 salt = keccak256 pf (encodeOperation pf (go_target o1) (go_value o1) (go_data o1) salt)"

definition check_fallback :: "platform \<Rightarrow> governance_operation \<Rightarrow> governance_error + unit" where
  "check_fallback pf o1 =
     (case overrideFallback o1 of
        None \<Rightarrow> require (\<not> (fallbackOperationId o1 \<noteq> None \<or> overrideFallbackDigest o1 \<noteq> None)) Fallback_inconsistent (Inr ())
      | Some f \<Rightarrow>
          require (hex_bytes_i 32 (fb_operationId f)) (Governance_not_hex ''fallback operation id'')
         (require (hex_bytes_i 32 (fb_salt f)) (Governance_not_hex ''fallback operation salt'')
         (require (\<not> (to_lower (operation_id pf o1 (fb_salt f)) \<noteq> to_lower (fb_operationId f) \<or>
                      lower_opt (fallbackOperationId o1) \<noteq> Some (to_lower (fb_operationId f)) \<or>
                      Some (digest pf (fallback_json f)) \<noteq> overrideFallbackDigest o1 \<or>
                      \<not> positive_decimal (fb_requiredConfirmations f) \<or> \<not> positive_decimal (fb_delaySeconds f)))
            Fallback_identity (Inr ()))))"

text \<open>\<open>[operationId, fallbackOperationId].filter(Boolean)\<close> holds the observed identifier.\<close>

definition observed_candidate :: "governance_operation \<Rightarrow> bool" where
  "observed_candidate o1 \<longleftrightarrow>
     (\<exists>id0 \<in> set (filter (\<lambda>i. i \<noteq> []) (go_operationId o1 # (case fallbackOperationId o1 of None \<Rightarrow> [] | Some f \<Rightarrow> [f]))).
        Some (to_lower id0) = lower_opt (observedOperationId o1))"

definition no_evidence_but :: "bool \<Rightarrow> bool \<Rightarrow> governance_operation \<Rightarrow> bool" where
  "no_evidence_but observed scheduled o1 \<longleftrightarrow>
     (observedOperationId o1 = None) = (\<not> observed) \<and> (scheduleTxHash o1 = None) = (\<not> scheduled) \<and>
     executeTxHash o1 = None \<and> go_blockNumber o1 = None \<and> go_blockHash o1 = None"

definition hex32_opt :: "string option \<Rightarrow> bool" where
  "hex32_opt x = (case x of None \<Rightarrow> False | Some s \<Rightarrow> hex_bytes_i 32 s)"

definition check_evidence :: "governance_operation \<Rightarrow> governance_error + unit" where
  "check_evidence o1 =
     require (\<not> (go_state o1 = ''planned'' \<and> \<not> no_evidence_but False False o1)) Planned_with_evidence
     (require (\<not> (go_state o1 = ''pending'' \<and> \<not> no_evidence_but True True o1)) Pending_incomplete
     (require (\<not> (go_state o1 = ''pending'' \<and> \<not> observed_candidate o1)) Pending_not_candidate
     (if go_state o1 = ''executed''
      then require (hex32_opt (observedOperationId o1)) (Governance_not_hex ''observed operation id'')
          (require (observed_candidate o1) Observed_not_candidate
          (require (hex32_opt (scheduleTxHash o1)) (Governance_not_hex ''schedule transaction hash'')
          (require (hex32_opt (executeTxHash o1)) (Governance_not_hex ''execution transaction hash'')
          (require (hex32_opt (go_blockHash o1)) (Governance_not_hex ''execution block hash'')
          (require (case go_blockNumber o1 of None \<Rightarrow> False | Some b \<Rightarrow> safe_integer b \<and> \<not> b < 0) Execution_block_missing
             (Inr ()))))))
      else Inr ())))"

text \<open>The loop, with the lower-case identifiers of the operations before.\<close>

definition check_operation :: "platform \<Rightarrow> string list \<Rightarrow> nat \<Rightarrow> governance_operation \<Rightarrow> governance_error + unit" where
  "check_operation pf ids i o1 =
     require (go_sequence o1 = int i + 1 \<and> \<not> length (go_label o1) < 1 \<and>
              go_operationClass o1 \<in> {''standard'', ''override''}) Sequence_or_class_drift
     (require (hex_bytes_i 20 (go_target o1)) (Governance_not_hex ''operation target'')
     (require (hex_text_i (go_data o1)) (Governance_not_hex ''operation calldata'')
     (require (hex_bytes_i 32 (go_salt o1)) (Governance_not_hex ''operation salt'')
     (require (hex_bytes_i 32 (go_operationId o1)) (Governance_not_hex ''operation id'')
     (require (to_lower (operation_id pf o1 (go_salt o1)) = to_lower (go_operationId o1)) Operation_id_mismatch
     (require (case fallbackOperationId o1 of None \<Rightarrow> True | Some f \<Rightarrow> hex_bytes_i 32 f)
        (Governance_not_hex ''fallback operation id'')
     (require (\<forall>d \<in> set (dependsOn o1). hex_bytes_i 32 d \<and> to_lower d \<in> set ids) Dependencies_malformed
     (require (positive_decimal (requiredConfirmations o1) \<and> positive_decimal (delaySeconds o1) \<and>
               sha256_digest (transactionBuilderDigest o1) \<and>
               digest pf (transactionBuilder o1) = transactionBuilderDigest o1 \<and>
               (case overrideFallbackDigest o1 of None \<Rightarrow> True | Some d \<Rightarrow> sha256_digest d)) Authorization_malformed
     (and_then (check_fallback pf o1) (\<lambda>_.
      require (go_value o1 = ''0'' \<and> to_lower (go_operationId o1) \<notin> set ids \<and>
               in_table GOVERNANCE_STATES (go_state o1)) Identity_or_state_drift
        (check_evidence o1)))))))))))"

fun check_operations :: "platform \<Rightarrow> string list \<Rightarrow> nat \<Rightarrow> governance_operation list \<Rightarrow> governance_error + unit" where
  "check_operations pf ids i [] = Inr ()"
| "check_operations pf ids i (o1 # os) =
     and_then (check_operation pf ids i o1) (\<lambda>_. check_operations pf (to_lower (go_operationId o1) # ids) (i + 1) os)"

definition assertGovernanceOperations ::
    "platform \<Rightarrow> governance_operation list \<Rightarrow> governance_error + governance_operation list" where
  "assertGovernanceOperations pf os =
     require (\<not> length os < 1) Journal_malformed (and_then (check_operations pf [] 0 os) (\<lambda>_. Inr os))"

section \<open>assertGovernanceOperationJournal\<close>

definition check_policy :: "governance_policy \<Rightarrow> governance_error + unit" where
  "check_policy g =
     require (\<not> length (gp_signers g) < 3 \<and> \<not> length (gp_signers g) > 5) Policy_malformed
     (require (list_all (hex_bytes_i 20) (gp_signers g)) (Governance_not_hex ''governance signer'')
     (require (distinct (map to_lower (gp_signers g))) Signers_not_distinct
     (require (hex_bytes_i 20 (gp_guardian g)) (Governance_not_hex ''governance guardian'')
     (require (list_all positive_decimal
                 [gp_threshold g, gp_overrideThreshold g, gp_delaySeconds g, gp_overrideDelaySeconds g])
        Policy_number_malformed (Inr ())))))"

definition check_operation_policy :: "governance_policy \<Rightarrow> governance_operation \<Rightarrow> governance_error + unit" where
  "check_operation_policy g o1 =
     (let override = (go_operationClass o1 = ''override'');
          threshold = (if override then gp_overrideThreshold g else gp_threshold g);
          delay = (if override then gp_overrideDelaySeconds g else gp_delaySeconds g)
      in require (requiredConfirmations o1 = threshold \<and> delaySeconds o1 = delay) Policy_mismatch
         (require (case overrideFallback o1 of None \<Rightarrow> True
                   | Some f \<Rightarrow> fb_requiredConfirmations f = gp_overrideThreshold g \<and>
                       fb_delaySeconds f = gp_overrideDelaySeconds g) Fallback_policy_mismatch (Inr ())))"

definition assertGovernanceOperationJournal ::
    "platform \<Rightarrow> governance_journal \<Rightarrow> governance_error + governance_journal" where
  "assertGovernanceOperationJournal pf r =
     require (gj_schema r = governance_schema \<and> safe_integer (gj_chainId r) \<and> \<not> gj_chainId r < 1 \<and>
              \<not> length (gj_operations r) < 1) Journal_malformed
     (require (hex_bytes_i 20 (gj_timelock r)) (Governance_not_hex ''timelock'')
     (require (hex_bytes_i 32 (deploymentConfigHash r)) (Governance_not_hex ''deployment config hash'')
     (require (hex_bytes_i 32 (expectedTimelockCodeHash r)) (Governance_not_hex ''expected timelock code hash'')
     (require (lower_hex 40 (deploymentCommit r)) Commit_malformed
     (and_then (check_policy (gj_governance r)) (\<lambda>_.
      require (sha256_digest (releaseBindingDigest r)) Release_binding_malformed
     (and_then (assertGovernanceOperations pf (gj_operations r)) (\<lambda>_.
      and_then (check_all (check_operation_policy (gj_governance r)) (gj_operations r)) (\<lambda>_.
      require (gj_planDigest r = digest pf (operations_view r)) Operations_digest_mismatch
     (require (safe_integer (gj_generation r) \<and> \<not> gj_generation r < 0) Generation_invalid (Inr r)))))))))))"

end
