(* ===== verification/Governance_Operations.thy ===== *)
theory Governance_Operations
  imports Governance_Journal
begin

text \<open>
  The operations on a governance journal: building and reserving the plan, observing an operation on the
  chain, and recording an observation.
\<close>

type_synonym 'a governance_outcome = "governance_store \<times> (governance_error + 'a)"

fun governed :: "governance_store \<Rightarrow> governance_error + (governance_store \<times> 'a) \<Rightarrow> 'a governance_outcome" where
  "governed s (Inl err) = (s, Inl err)"
| "governed s (Inr (s', x)) = (s', Inr x)"

section \<open>Building the plan\<close>

record operation_request =
  rq_sequence :: int
  rq_label :: string
  rq_operationClass :: string
  rq_target :: string
  rq_value :: string
  rq_data :: string
  rq_salt :: string
  rq_operationId :: string
  rq_dependsOn :: "string list option"
  rq_requiredConfirmations :: string
  rq_delaySeconds :: string
  rq_transactionBuilder :: "int json"
  rq_overrideFallback :: "override_fallback option"

record governance_metadata =
  gm_chainId :: int
  gm_timelock :: string
  gm_deploymentCommit :: string
  gm_governance :: governance_policy
  gm_deploymentConfigHash :: string
  gm_releaseBindingDigest :: string
  gm_expectedTimelockCodeHash :: string

definition planned_operation :: "platform \<Rightarrow> operation_request \<Rightarrow> governance_operation" where
  "planned_operation pf q =
     \<lparr>go_sequence = rq_sequence q, go_label = rq_label q, go_operationClass = rq_operationClass q,
      go_target = rq_target q, go_value = rq_value q, go_data = rq_data q, go_salt = rq_salt q,
      go_operationId = rq_operationId q, fallbackOperationId = map_option fb_operationId (rq_overrideFallback q),
      dependsOn = (case rq_dependsOn q of None \<Rightarrow> [] | Some ds \<Rightarrow> ds),
      requiredConfirmations = rq_requiredConfirmations q, delaySeconds = rq_delaySeconds q,
      transactionBuilder = rq_transactionBuilder q,
      transactionBuilderDigest = digest pf (rq_transactionBuilder q),
      overrideFallback = rq_overrideFallback q,
      overrideFallbackDigest = map_option (\<lambda>f. digest pf (fallback_json f)) (rq_overrideFallback q),
      go_state = ''planned'', observedOperationId = None, scheduleTxHash = None, executeTxHash = None,
      go_blockNumber = None, go_blockHash = None\<rparr>"

definition plannedOperationRecords :: "platform \<Rightarrow> operation_request list \<Rightarrow> governance_operation list" where
  "plannedOperationRecords pf qs = map (planned_operation pf) qs"

definition buildGovernanceOperationJournal ::
    "platform \<Rightarrow> governance_metadata \<Rightarrow> operation_request list \<Rightarrow> governance_error + governance_journal" where
  "buildGovernanceOperationJournal pf meta qs =
     (let r = \<lparr>gj_schema = governance_schema, gj_chainId = gm_chainId meta, gj_timelock = gm_timelock meta,
               deploymentCommit = gm_deploymentCommit meta, gj_governance = gm_governance meta,
               deploymentConfigHash = gm_deploymentConfigHash meta,
               releaseBindingDigest = gm_releaseBindingDigest meta,
               expectedTimelockCodeHash = gm_expectedTimelockCodeHash meta, gj_generation = 0,
               gj_operations = plannedOperationRecords pf qs, gj_planDigest = []\<rparr>
      in assertGovernanceOperationJournal pf (r\<lparr>gj_planDigest := digest pf (operations_view r)\<rparr>))"

definition bindGovernanceOperationPlan ::
    "platform \<Rightarrow> operation_request list \<Rightarrow> governance_error + int \<times> string" where
  "bindGovernanceOperationPlan pf qs =
     and_then (assertGovernanceOperations pf (plannedOperationRecords pf qs)) (\<lambda>planned.
       Inr (int (length planned),
            digest pf (JsArray (map (\<lambda>o1. js_object (operation_fields o1 @ evidence_fields o1)) planned))))"

section \<open>Reserving the plan\<close>

definition readGovernanceJournal :: "platform \<Rightarrow> governance_store \<Rightarrow> string \<Rightarrow> governance_error + governance_journal" where
  "readGovernanceJournal pf s path = and_then (of_option No_operations_journal (s path)) (assertGovernanceOperationJournal pf)"

text \<open>As for deployments, the file is looked up in one store and created in a later one.\<close>

definition reserveGovernanceOperationJournal ::
    "platform \<Rightarrow> governance_store \<Rightarrow> governance_store \<Rightarrow> string \<Rightarrow> governance_journal \<Rightarrow> governance_journal governance_outcome" where
  "reserveGovernanceOperationJournal pf seen s path expected =
     (case assertGovernanceOperationJournal pf expected of
        Inl err \<Rightarrow> (s, Inl err)
      | Inr _ \<Rightarrow>
          (case seen path of
             Some _ \<Rightarrow> (s, and_then (readGovernanceJournal pf seen path) (\<lambda>current.
                            require (gj_planDigest current = gj_planDigest expected \<and>
                                     canonical_text (operations_view current) = canonical_text (operations_view expected))
                              Operations_conflict (Inr current)))
           | None \<Rightarrow>
               (case s path of
                  None \<Rightarrow> (let s' = s(path \<mapsto> expected) in (s', readGovernanceJournal pf s' path))
                | Some _ \<Rightarrow> (s, and_then (readGovernanceJournal pf s path) (\<lambda>winner.
                              require (gj_planDigest winner = gj_planDigest expected) Concurrent_operations_conflict
                                (readGovernanceJournal pf s path))))))"

section \<open>Recording an observation\<close>

text \<open>Absent evidence is \<open>None\<close>, as null; where an absent field throws, a null one is refused later.\<close>

record governance_evidence =
  ev_operationId :: "string option"
  ev_state :: string
  ev_observedOperationId :: "string option"
  ev_scheduleTxHash :: "string option"
  ev_executeTxHash :: "string option"
  ev_blockNumber :: "int option"
  ev_blockHash :: "string option"

record evidence_patch_fields =
  pt_observed :: "string option"
  pt_schedule :: "string option"
  pt_execute :: "string option"
  pt_blockNumber :: "int option"
  pt_blockHash :: "string option"

definition first_some :: "'a option \<Rightarrow> 'a option \<Rightarrow> 'a option" where
  "first_some x y = (case x of Some v \<Rightarrow> Some v | None \<Rightarrow> y)"

definition observation_patch :: "governance_evidence \<Rightarrow> governance_operation \<Rightarrow> evidence_patch_fields" where
  "observation_patch e o1 =
     (let observed = first_some (ev_observedOperationId e) (ev_operationId e)
      in if ev_state e = ''planned''
         then \<lparr>pt_observed = None, pt_schedule = None, pt_execute = None, pt_blockNumber = None, pt_blockHash = None\<rparr>
         else if ev_state e = ''pending''
         then \<lparr>pt_observed = observed, pt_schedule = ev_scheduleTxHash e, pt_execute = None, pt_blockNumber = None,
               pt_blockHash = None\<rparr>
         else \<lparr>pt_observed = observed, pt_schedule = first_some (ev_scheduleTxHash e) (scheduleTxHash o1),
               pt_execute = ev_executeTxHash e, pt_blockNumber = ev_blockNumber e, pt_blockHash = ev_blockHash e\<rparr>)"

definition apply_observation :: "evidence_patch_fields \<Rightarrow> string \<Rightarrow> governance_operation \<Rightarrow> governance_operation" where
  "apply_observation p st o1 = o1\<lparr>observedOperationId := pt_observed p, scheduleTxHash := pt_schedule p,
     executeTxHash := pt_execute p, go_blockNumber := pt_blockNumber p, go_blockHash := pt_blockHash p, go_state := st\<rparr>"

definition null_or_hex32 :: "string option \<Rightarrow> bool" where
  "null_or_hex32 x = (case x of None \<Rightarrow> True | Some s \<Rightarrow> hex_bytes_i 32 s)"

definition recordGovernanceObservation ::
    "platform \<Rightarrow> governance_store \<Rightarrow> string \<Rightarrow> string \<Rightarrow> nat \<Rightarrow> governance_evidence \<Rightarrow> governance_journal governance_outcome" where
  "recordGovernanceObservation pf s path planDigest index e = governed s
     (and_then (readGovernanceJournal pf s path) (\<lambda>r.
      require (gj_planDigest r = planDigest) Operations_changed
      (require (index < length (gj_operations r) \<and>
                lower_opt (ev_operationId e) = Some (to_lower (go_operationId (gj_operations r ! index)))) Operation_mismatch
      (let o1 = gj_operations r ! index; p = observation_patch e o1
       in require (in_table GOVERNANCE_STATES (ev_state e) \<and>
                   \<not> value_less (governance_rank (ev_state e)) (governance_rank (go_state o1))) Observation_regresses
         (require (null_or_hex32 (pt_schedule p)) (Governance_not_hex ''schedule transaction hash'')
         (require (null_or_hex32 (pt_execute p)) (Governance_not_hex ''execution transaction hash'')
         (require (null_or_hex32 (pt_blockHash p)) (Governance_not_hex ''execution block hash'')
         (if governance_rank (ev_state e) = governance_rank (go_state o1)
          then require (apply_observation p (go_state o1) o1 = o1) Observation_conflicts (Inr (s, r))
          else let r' = r\<lparr>gj_operations := (gj_operations r)[index := apply_observation p (ev_state e) o1],
                          gj_generation := gj_generation r + 1\<rparr>;
                   s' = s(path \<mapsto> r')
               in and_then (assertGovernanceOperationJournal pf r') (\<lambda>_.
                  and_then (readGovernanceJournal pf s' path) (\<lambda>r''. Inr (s', r'')))))))))))"

section \<open>Observing an operation on the chain\<close>

record scheduled_event =
  se_target :: string
  se_value :: int
  se_data :: string
  se_salt :: string
  se_transactionHash :: string

record executed_event =
  ee_target :: string
  ee_value :: int
  ee_transactionHash :: string
  ee_blockNumber :: int
  ee_blockHash :: string
  ee_receipt :: "(int \<times> int \<times> string) option"
  ee_block_hash :: string

text \<open>The answers of one timelock contract at the queried block and range.\<close>

record timelock_view =
  tl_chainId :: int
  tl_address :: string
  tl_code :: string
  tl_stateOf :: "string \<Rightarrow> int"
  tl_scheduled :: "string \<Rightarrow> scheduled_event list"
  tl_executed :: "string \<Rightarrow> executed_event list"

record observation_options =
  oo_chainId :: int
  oo_timelock :: string
  oo_codeHash :: string
  oo_fromBlock :: int
  oo_toBlock :: int

datatype chain_observation =
    Seen_planned
  | Seen_pending string
  | Seen_executed string string int string

definition scheduled_matches :: "governance_operation \<Rightarrow> scheduled_event \<Rightarrow> bool" where
  "scheduled_matches o1 e \<longleftrightarrow> to_lower (se_target e) = to_lower (go_target o1) \<and> show_int (se_value e) = go_value o1 \<and>
     to_lower (se_data e) = to_lower (go_data o1) \<and> to_lower (se_salt e) = to_lower (go_salt o1)"

definition execution_canonical :: "executed_event \<Rightarrow> bool" where
  "execution_canonical e \<longleftrightarrow>
     (case ee_receipt e of None \<Rightarrow> False
      | Some (status, block, blockHash) \<Rightarrow>
          status = 1 \<and> block = ee_blockNumber e \<and> to_lower blockHash = to_lower (ee_blockHash e)) \<and>
     to_lower (ee_block_hash e) = to_lower (ee_blockHash e)"

definition lifecycle :: "governance_operation \<Rightarrow> int \<Rightarrow> scheduled_event list \<Rightarrow> executed_event list \<Rightarrow> governance_error + chain_observation" where
  "lifecycle o1 state scheduled executed =
     (if state = 0 then require (scheduled = [] \<and> executed = []) State_event_mismatch (Inr Seen_planned)
      else if state = 1 then
        require (length scheduled = 1 \<and> executed = []) Pending_evidence_incomplete
          (Inr (Seen_pending (se_transactionHash (hd scheduled))))
      else if state = 2 then
        require (length scheduled = 1 \<and> length executed = 1) Executed_evidence_incomplete
          (let event = hd executed
           in require (to_lower (ee_target event) = to_lower (go_target o1) \<and> show_int (ee_value event) = go_value o1)
                Executed_payload_mismatch
             (require (execution_canonical event) Execution_not_canonical
                (Inr (Seen_executed (se_transactionHash (hd scheduled)) (ee_transactionHash event)
                   (ee_blockNumber event) (ee_blockHash event)))))
      else Inl Not_continuable)"

definition observeGovernanceOperationOnce ::
    "platform \<Rightarrow> timelock_view \<Rightarrow> governance_operation \<Rightarrow> observation_options \<Rightarrow> governance_error + chain_observation" where
  "observeGovernanceOperationOnce pf lock1 o1 opt =
     require (safe_integer (oo_chainId opt) \<and> \<not> oo_chainId opt < 1 \<and> safe_integer (oo_fromBlock opt) \<and>
              \<not> oo_fromBlock opt < 0 \<and> safe_integer (oo_toBlock opt) \<and> \<not> oo_toBlock opt < oo_fromBlock opt) Range_invalid
     (require (hex_bytes_i 20 (oo_timelock opt)) (Governance_not_hex ''expected timelock'')
     (require (hex_bytes_i 32 (oo_codeHash opt)) (Governance_not_hex ''expected timelock code hash'')
     (require (tl_chainId lock1 = oo_chainId opt \<and> to_lower (tl_address lock1) = to_lower (oo_timelock opt)) Binding_mismatch
     (require (to_lower (keccak256 pf (tl_code lock1)) = to_lower (oo_codeHash opt)) Bytecode_mismatch
     (let scheduled = tl_scheduled lock1 (go_operationId o1); executed = tl_executed lock1 (go_operationId o1)
      in require (\<not> (length scheduled > 1 \<or> length executed > 1 \<or> length executed > length scheduled)) Ambiguous_lifecycle
        (require (length scheduled = 1 \<longrightarrow> scheduled_matches o1 (hd scheduled)) Scheduled_payload_mismatch
           (lifecycle o1 (tl_stateOf lock1 (go_operationId o1)) scheduled executed)))))))"

definition observeGovernanceOperation ::
    "platform \<Rightarrow> timelock_view \<Rightarrow> timelock_view option \<Rightarrow> bool \<Rightarrow> governance_operation \<Rightarrow> observation_options
     \<Rightarrow> governance_error + chain_observation" where
  "observeGovernanceOperation pf lock1 secondary requireIndependent o1 opt =
     and_then (observeGovernanceOperationOnce pf lock1 o1 opt) (\<lambda>primary.
       case secondary of
         None \<Rightarrow> require (\<not> requireIndependent) Independent_missing (Inr primary)
       | Some lock2 \<Rightarrow> and_then (observeGovernanceOperationOnce pf lock2 o1 opt) (\<lambda>second.
                      require (primary = second) Independent_disagreement (Inr primary)))"

text \<open>
  The evidence a continuation records: the observation of the operation or of its fallback, under the
  identifier of the planned operation.
\<close>

fun observed_evidence :: "string \<Rightarrow> string \<Rightarrow> chain_observation \<Rightarrow> governance_evidence" where
  "observed_evidence opId candidate Seen_planned =
     \<lparr>ev_operationId = Some opId, ev_state = ''planned'', ev_observedOperationId = Some candidate,
      ev_scheduleTxHash = None, ev_executeTxHash = None, ev_blockNumber = None, ev_blockHash = None\<rparr>"
| "observed_evidence opId candidate (Seen_pending schedule) =
     \<lparr>ev_operationId = Some opId, ev_state = ''pending'', ev_observedOperationId = Some candidate,
      ev_scheduleTxHash = Some schedule, ev_executeTxHash = None, ev_blockNumber = None, ev_blockHash = None\<rparr>"
| "observed_evidence opId candidate (Seen_executed schedule execute block blockHash) =
     \<lparr>ev_operationId = Some opId, ev_state = ''executed'', ev_observedOperationId = Some candidate,
      ev_scheduleTxHash = Some schedule, ev_executeTxHash = Some execute, ev_blockNumber = Some block,
      ev_blockHash = Some blockHash\<rparr>"

end
