(* ===== verification/Governance_Protocol.thy ===== *)
theory Governance_Protocol
  imports Governance_Operations
begin

text \<open>
  The protocol of the governance journal: how it advances, that every operation advances it and keeps it
  valid, and what the recorded evidence shows.
\<close>

section \<open>Valid journals\<close>

definition governance_valid :: "platform \<Rightarrow> governance_journal \<Rightarrow> bool" where
  "governance_valid pf r \<longleftrightarrow> assertGovernanceOperationJournal pf r = Inr r"

lemma assertGovernanceOperations_Inr [simp]:
  "assertGovernanceOperations pf os = Inr os' \<longleftrightarrow> os' = os \<and> os \<noteq> [] \<and> check_operations pf [] 0 os = Inr ()"
  by (cases os) (auto simp: assertGovernanceOperations_def)

lemma assertGovernanceJournal_Inr [simp]:
  "assertGovernanceOperationJournal pf r = Inr r' \<longleftrightarrow> r' = r \<and> governance_valid pf r"
  by (auto simp: assertGovernanceOperationJournal_def governance_valid_def)

lemma readGovernanceJournal_Inr [simp]:
  "readGovernanceJournal pf s path = Inr r \<longleftrightarrow> s path = Some r \<and> governance_valid pf r"
  by (auto simp: readGovernanceJournal_def)

text \<open>The operations of a list, each with its index and the identifiers before it.\<close>

lemma check_operations_nth:
  "check_operations pf ids k os = Inr u \<Longrightarrow> i < length os \<Longrightarrow>
   check_operation pf (rev (map (to_lower \<circ> go_operationId) (take i os)) @ ids) (k + i) (os ! i) = Inr ()"
proof (induction os arbitrary: ids k i)
  case (Cons o1 os)
  show ?case
  proof (cases i)
    case 0
    then show ?thesis using Cons.prems(1) by auto
  next
    case (Suc j)
    have "check_operations pf (to_lower (go_operationId o1) # ids) (k + 1) os = Inr u" using Cons.prems(1) by auto
    from Cons.IH[OF this, of j] show ?thesis using Cons.prems(2) Suc by simp
  qed
qed simp

lemma governance_valid_operation:
  assumes "governance_valid pf r" and "i < length (gj_operations r)"
  shows "check_operation pf (rev (map (to_lower \<circ> go_operationId) (take i (gj_operations r)))) i (gj_operations r ! i) = Inr ()"
proof -
  have "check_operations pf [] 0 (gj_operations r) = Inr ()"
    using assms(1) by (auto simp: governance_valid_def assertGovernanceOperationJournal_def)
  from check_operations_nth[OF this assms(2)] show ?thesis by simp
qed

section \<open>How a journal advances\<close>

definition operation_plan :: "governance_operation \<Rightarrow> governance_operation" where
  "operation_plan o1 = o1\<lparr>go_state := [], observedOperationId := None, scheduleTxHash := None, executeTxHash := None,
     go_blockNumber := None, go_blockHash := None\<rparr>"

definition governance_own_rank :: "governance_operation \<Rightarrow> int option" where
  "governance_own_rank o1 = map_of GOVERNANCE_STATES (go_state o1)"

text \<open>An operation never goes back; while it stays in a state its evidence stays, too.\<close>

definition operation_advances :: "governance_operation \<Rightarrow> governance_operation \<Rightarrow> bool" where
  "operation_advances o1 o2 \<longleftrightarrow> operation_plan o2 = operation_plan o1 \<and>
     (\<forall>a. governance_own_rank o1 = Some a \<longrightarrow>
        (\<exists>b. governance_own_rank o2 = Some b \<and> a \<le> b \<and> (a = b \<longrightarrow> o2 = o1)))"

definition operations_plan :: "governance_journal \<Rightarrow> governance_journal" where
  "operations_plan r = r\<lparr>gj_operations := map operation_plan (gj_operations r), gj_generation := 0\<rparr>"

definition governance_advances :: "governance_journal \<Rightarrow> governance_journal \<Rightarrow> bool" where
  "governance_advances r r' \<longleftrightarrow> operations_plan r' = operations_plan r \<and> gj_generation r \<le> gj_generation r' \<and>
     list_all2 operation_advances (gj_operations r) (gj_operations r')"

lemma operation_advances_refl [simp]: "operation_advances o1 o1"
  by (auto simp: operation_advances_def)

lemma operation_advances_trans:
  assumes "operation_advances o1 o2" and "operation_advances o2 o3"
  shows "operation_advances o1 o3"
proof -
  have "\<exists>c. governance_own_rank o3 = Some c \<and> a \<le> c \<and> (a = c \<longrightarrow> o3 = o1)" if a: "governance_own_rank o1 = Some a" for a
  proof -
    obtain b where b: "governance_own_rank o2 = Some b" "a \<le> b" "a = b \<longrightarrow> o2 = o1"
      using assms(1) a by (auto simp: operation_advances_def)
    obtain c where c: "governance_own_rank o3 = Some c" "b \<le> c" "b = c \<longrightarrow> o3 = o2"
      using assms(2) b(1) by (auto simp: operation_advances_def)
    then have "a = c \<longrightarrow> o3 = o1" using b(2,3) by auto
    then show ?thesis using b(2) c by auto
  qed
  then show ?thesis using assms by (simp add: operation_advances_def)
qed

lemma governance_advances_refl [simp]: "governance_advances r r"
  by (simp add: governance_advances_def list_all2_refl)

lemma governance_advances_trans:
  "governance_advances r s \<Longrightarrow> governance_advances s t \<Longrightarrow> governance_advances r t"
  unfolding governance_advances_def
  using list_all2_trans[of operation_advances operation_advances operation_advances, OF operation_advances_trans] by auto

lemma governance_advances_update:
  assumes "i < length (gj_operations r)" and "operation_advances (gj_operations r ! i) o2"
  shows "governance_advances r (r\<lparr>gj_operations := (gj_operations r)[i := o2], gj_generation := gj_generation r + 1\<rparr>)"
proof -
  have "map operation_plan ((gj_operations r)[i := o2]) = map operation_plan (gj_operations r)"
    using assms by (simp add: map_update operation_advances_def) (metis list_update_id map_update)
  moreover have "list_all2 operation_advances (gj_operations r) ((gj_operations r)[i := o2])"
    using assms by (auto simp: list_all2_conv_all_nth nth_list_update)
  ultimately show ?thesis by (simp add: governance_advances_def operations_plan_def)
qed

section \<open>Every operation advances the journals\<close>

definition governance_ok :: "platform \<Rightarrow> governance_journal \<Rightarrow> bool" where
  "governance_ok pf r \<longleftrightarrow> governance_valid pf r \<and> (\<forall>o1 \<in> set (gj_operations r). governance_own_rank o1 \<noteq> None)"

abbreviation governance_continues :: "platform \<Rightarrow> governance_store \<Rightarrow> governance_store \<Rightarrow> bool" where
  "governance_continues pf \<equiv> continues governance_advances (governance_ok pf)"

lemma governance_rank_Rank: "governance_rank st = Some (Rank a) \<longleftrightarrow> map_of GOVERNANCE_STATES st = Some a"
  by (auto simp: governance_rank_def table_lookup_def split: option.splits if_splits)

lemma governed_cases:
  "governed s res = (s', out) \<Longrightarrow> (\<exists>err. res = Inl err \<and> s' = s \<and> out = Inl err) \<or> (\<exists>x. res = Inr (s', x) \<and> out = Inr x)"
  by (cases "(s, res)" rule: governed.cases) auto

text \<open>What recording an observation does when it changes the journal.\<close>

lemma record_observation_step:
  assumes "recordGovernanceObservation pf s path digest0 i e = (s', out)"
  shows "s' = s \<or> (\<exists>r r'. s path = Some r \<and> governance_valid pf r \<and> governance_valid pf r' \<and> i < length (gj_operations r) \<and>
    r' = r\<lparr>gj_operations := (gj_operations r)[i := apply_observation (observation_patch e (gj_operations r ! i)) (ev_state e)
            (gj_operations r ! i)], gj_generation := gj_generation r + 1\<rparr> \<and>
    s' = s(path \<mapsto> r') \<and> out = Inr r' \<and>
    governance_rank (ev_state e) \<noteq> governance_rank (go_state (gj_operations r ! i)) \<and>
    \<not> value_less (governance_rank (ev_state e)) (governance_rank (go_state (gj_operations r ! i))))"
  using assms unfolding recordGovernanceObservation_def
  by (drule_tac governed_cases) (auto simp: Let_def split: if_splits)

lemma observed_operation_advances:
  assumes "map_of GOVERNANCE_STATES (ev_state e) = Some b"
    and "governance_rank (ev_state e) \<noteq> governance_rank (go_state o1)"
    and "\<not> value_less (governance_rank (ev_state e)) (governance_rank (go_state o1))"
  shows "operation_advances o1 (apply_observation p (ev_state e) o1)"
proof -
  have "governance_own_rank (apply_observation p (ev_state e) o1) = Some b"
    using assms(1) by (simp add: governance_own_rank_def apply_observation_def)
  moreover have "a < b" if "governance_own_rank o1 = Some a" for a
    using that assms governance_rank_Rank[of "ev_state e" b] governance_rank_Rank[of "go_state o1" a]
    by (simp add: governance_own_rank_def)
  moreover have "operation_plan (apply_observation p (ev_state e) o1) = operation_plan o1"
    by (simp add: operation_plan_def apply_observation_def)
  ultimately show ?thesis by (fastforce simp: operation_advances_def)
qed

lemma record_observation_continues:
  assumes "recordGovernanceObservation pf s path digest0 i e = (s', out)"
    and "map_of GOVERNANCE_STATES (ev_state e) = Some b"
  shows "(governance_continues pf)\<^sup>*\<^sup>* s s'"
  using record_observation_step[OF assms(1)]
proof (elim disjE exE conjE)
  fix r r'
  assume r: "s path = Some r" and v: "governance_valid pf r'" and i: "i < length (gj_operations r)"
    and r': "r' = r\<lparr>gj_operations := (gj_operations r)[i := apply_observation (observation_patch e (gj_operations r ! i)) (ev_state e)
            (gj_operations r ! i)], gj_generation := gj_generation r + 1\<rparr>"
    and s': "s' = s(path \<mapsto> r')"
    and rank: "governance_rank (ev_state e) \<noteq> governance_rank (go_state (gj_operations r ! i))"
      "\<not> value_less (governance_rank (ev_state e)) (governance_rank (go_state (gj_operations r ! i)))"
  let ?o = "apply_observation (observation_patch e (gj_operations r ! i)) (ev_state e) (gj_operations r ! i)"
  have "governance_own_rank ?o = Some b" using assms(2) by (simp add: governance_own_rank_def apply_observation_def)
  then have "governance_ok pf r'" if "governance_ok pf r"
    using that v set_update_subset_insert[of "gj_operations r" i ?o] by (auto simp: governance_ok_def r')
  then show ?thesis unfolding s'
    using r governance_advances_update[OF i observed_operation_advances[OF assms(2) rank]]
    by (intro continues_write) (auto simp: r')
qed simp

lemma build_governance_ok:
  assumes "buildGovernanceOperationJournal pf meta qs = Inr r"
  shows "governance_ok pf r" and "\<forall>o1 \<in> set (gj_operations r). go_state o1 = ''planned''"
proof -
  have v: "governance_valid pf r" and os: "gj_operations r = plannedOperationRecords pf qs"
    using assms by (auto simp: buildGovernanceOperationJournal_def Let_def)
  show planned: "\<forall>o1 \<in> set (gj_operations r). go_state o1 = ''planned''"
    by (auto simp: os plannedOperationRecords_def planned_operation_def)
  then show "governance_ok pf r" using v by (simp add: governance_ok_def governance_own_rank_def GOVERNANCE_STATES_def)
qed

lemma reserve_governance_continues:
  "governance_ok pf expected \<Longrightarrow> reserveGovernanceOperationJournal pf seen s path expected = (s', out) \<Longrightarrow>
   (governance_continues pf)\<^sup>*\<^sup>* s s'"
  by (auto simp: reserveGovernanceOperationJournal_def Let_def split: option.splits sum.splits intro!: continues_write)

section \<open>The machine of all operations\<close>

text \<open>
  A continuation records what it observed of an operation or of its fallback, which is one of planned,
  pending and executed; recording holds the lock of the journal.
\<close>

datatype governance_op =
    Reserve_operations governance_store string governance_metadata "operation_request list"
  | Record_observation string string nat string string chain_observation

fun governance_run :: "platform \<Rightarrow> governance_store \<Rightarrow> governance_op \<Rightarrow> governance_store" where
  "governance_run pf s (Reserve_operations seen path meta qs) =
     (case buildGovernanceOperationJournal pf meta qs of
        Inl _ \<Rightarrow> s
      | Inr expected \<Rightarrow> fst (reserveGovernanceOperationJournal pf seen s path expected))"
| "governance_run pf s (Record_observation path digest0 i opId candidate seen) =
     fst (recordGovernanceObservation pf s path digest0 i (observed_evidence opId candidate seen))"

lemma observed_evidence_state: "\<exists>b. map_of GOVERNANCE_STATES (ev_state (observed_evidence opId candidate seen)) = Some b"
  by (cases seen) (auto simp: GOVERNANCE_STATES_def)

interpretation governance: staged_journal governance_advances "governance_ok pf" "governance_run pf" for pf
proof unfold_locales
  fix s and op :: governance_op
  show "(governance_continues pf)\<^sup>*\<^sup>* s (governance_run pf s op)"
  proof (cases op)
    case (Reserve_operations seen path meta qs)
    then show ?thesis
      by (auto split: sum.splits intro: reserve_governance_continues[OF build_governance_ok(1) surjective_pairing])
  next
    case (Record_observation path digest0 i opId candidate seen)
    obtain b where "map_of GOVERNANCE_STATES (ev_state (observed_evidence opId candidate seen)) = Some b"
      using observed_evidence_state by blast
    from record_observation_continues[OF surjective_pairing this] show ?thesis by (simp add: Record_observation)
  qed
qed (auto intro: governance_advances_trans)

section \<open>Properties\<close>

lemma governance_own_rank_names:
  "governance_own_rank o1 \<noteq> None \<longleftrightarrow> go_state o1 \<in> {''planned'', ''pending'', ''executed''}"
  by (auto simp: governance_own_rank_def GOVERNANCE_STATES_def)

text \<open>
  C15. The journal of the governance operations only goes forward: whatever continuations run on it, in
  any order, its plan and digest stay the same, no operation goes back to an earlier state, the record
  of an operation is unchanged for as long as its state is, and an executed operation never changes
  again. When the state advances, the code may replace evidence: an execution replaces the schedule
  transaction and the observed operation that were recorded while it was pending.
\<close>

theorem governance_evidence_final:
  assumes "s path = Some r"
  shows "\<exists>r'. foldl (governance_run pf) s ops path = Some r' \<and> operations_view r' = operations_view r \<and>
    gj_planDigest r' = gj_planDigest r \<and> length (gj_operations r') = length (gj_operations r) \<and>
    (\<forall>i < length (gj_operations r). \<forall>a. governance_own_rank (gj_operations r ! i) = Some a \<longrightarrow>
       (\<exists>b. governance_own_rank (gj_operations r' ! i) = Some b \<and> a \<le> b \<and>
          (a = b \<or> a = 2 \<longrightarrow> gj_operations r' ! i = gj_operations r ! i)))"
proof -
  obtain r' where r': "foldl (governance_run pf) s ops path = Some r'" and adv: "governance_advances r r'"
    using governance.run_le[of s pf ops] assms unfolding files_le_def by blast
  have "operation_fields (operation_plan x) = operation_fields x" for x
    by (simp add: operation_fields_def operation_plan_def)
  then have "operations_view (operations_plan x) = operations_view x" for x
    by (simp add: operations_view_def operations_plan_def comp_def)
  moreover have "gj_planDigest (operations_plan x) = gj_planDigest x" for x by (simp add: operations_plan_def)
  moreover have "operations_plan r' = operations_plan r" using adv by (simp add: governance_advances_def)
  ultimately have "operations_view r' = operations_view r" "gj_planDigest r' = gj_planDigest r" by metis+
  moreover have "list_all2 operation_advances (gj_operations r) (gj_operations r')"
    using adv by (simp add: governance_advances_def)
  moreover have "b \<le> 2" if "governance_own_rank o1 = Some b" for o1 b
    using that by (auto simp: governance_own_rank_def GOVERNANCE_STATES_def split: if_splits)
  ultimately show ?thesis using r' unfolding list_all2_conv_all_nth operation_advances_def by fastforce
qed

text \<open>
   In every governance journal the continuations can produce, the operations' identifiers are the
  hashes of their payloads, each depends only on operations before it, and the evidence fits the state:
  none for a planned operation, the schedule of a planned candidate for a pending one, and schedule,
  execution, block and a candidate's identifier for an executed one.
\<close>

theorem governance_evidence_complete:
  assumes "foldl (governance_run pf) (\<lambda>_. None) ops path = Some r" and "i < length (gj_operations r)"
    and "gj_operations r ! i = o1"
  shows "to_lower (operation_id pf o1 (go_salt o1)) = to_lower (go_operationId o1) \<and>
    (\<forall>d \<in> set (dependsOn o1). \<exists>j < i. to_lower d = to_lower (go_operationId (gj_operations r ! j))) \<and>
    (go_state o1 = ''planned'' \<and> no_evidence_but False False o1 \<or>
     go_state o1 = ''pending'' \<and> no_evidence_but True True o1 \<and> observed_candidate o1 \<or>
     go_state o1 = ''executed'' \<and> observed_candidate o1 \<and> hex32_opt (scheduleTxHash o1) \<and>
       hex32_opt (executeTxHash o1) \<and> hex32_opt (go_blockHash o1) \<and> (\<exists>b. go_blockNumber o1 = Some b \<and> 0 \<le> b))"
proof -
  have ok: "governance_ok pf r"
    using governance.run_ok[of pf "\<lambda>_. None" ops] assms(1) by (auto simp: files_ok_def)
  then have "governance_own_rank o1 \<noteq> None" using assms(2,3) by (auto simp: governance_ok_def)
  then have state: "go_state o1 \<in> {''planned'', ''pending'', ''executed''}" by (simp only: governance_own_rank_names)
  let ?ids = "rev (map (to_lower \<circ> go_operationId) (take i (gj_operations r)))"
  have c: "check_operation pf ?ids i o1 = Inr ()"
    using governance_valid_operation[of pf r i] ok assms(2,3) by (simp add: governance_ok_def)
  have "set ?ids = (\<lambda>j. to_lower (go_operationId (gj_operations r ! j))) ` {..<i}"
    using assms(2) nth_image[of i "gj_operations r"] by (simp add: image_comp lessThan_atLeast0 flip: nth_image)
  then have deps: "\<forall>d \<in> set (dependsOn o1). \<exists>j < i. to_lower d = to_lower (go_operationId (gj_operations r ! j))"
    using c by (auto simp: check_operation_def)
  have "check_evidence o1 = Inr ()" "to_lower (operation_id pf o1 (go_salt o1)) = to_lower (go_operationId o1)"
    using c by (simp_all add: check_operation_def)
  then show ?thesis using deps state by (auto simp: check_evidence_def split: option.splits if_splits)
qed

lemma governance_read: "s path = Some r \<Longrightarrow> governance_valid pf r \<Longrightarrow> readGovernanceJournal pf s path = Inr r"
  by simp

lemma governance_assert: "governance_valid pf r \<Longrightarrow> assertGovernanceOperationJournal pf r = Inr r"
  by simp

lemma check_operations_update:
  assumes "check_operations pf ids k os = Inr ()" and "i < length os" and "go_operationId o2 = go_operationId (os ! i)"
    and "\<And>ids'. check_operation pf ids' (k + i) (os ! i) = Inr () \<Longrightarrow> check_operation pf ids' (k + i) o2 = Inr ()"
  shows "check_operations pf ids k (os[i := o2]) = Inr ()"
  using assms
proof (induction os arbitrary: ids k i)
  case (Cons o1 os)
  show ?case
  proof (cases i)
    case 0
    then show ?thesis using Cons.prems by auto
  next
    case (Suc j)
    then show ?thesis using Cons.prems Cons.IH[of "to_lower (go_operationId o1) # ids" "k + 1" j] by auto
  qed
qed simp

lemma apply_observation_plan [simp]:
  "go_sequence (apply_observation p st o1) = go_sequence o1" "go_label (apply_observation p st o1) = go_label o1"
  "go_operationClass (apply_observation p st o1) = go_operationClass o1" "go_target (apply_observation p st o1) = go_target o1"
  "go_value (apply_observation p st o1) = go_value o1" "go_data (apply_observation p st o1) = go_data o1"
  "go_salt (apply_observation p st o1) = go_salt o1" "go_operationId (apply_observation p st o1) = go_operationId o1"
  "fallbackOperationId (apply_observation p st o1) = fallbackOperationId o1"
  "dependsOn (apply_observation p st o1) = dependsOn o1"
  "requiredConfirmations (apply_observation p st o1) = requiredConfirmations o1"
  "delaySeconds (apply_observation p st o1) = delaySeconds o1"
  "transactionBuilder (apply_observation p st o1) = transactionBuilder o1"
  "transactionBuilderDigest (apply_observation p st o1) = transactionBuilderDigest o1"
  "overrideFallback (apply_observation p st o1) = overrideFallback o1"
  "overrideFallbackDigest (apply_observation p st o1) = overrideFallbackDigest o1"
  "go_state (apply_observation p st o1) = st"
  by (simp_all add: apply_observation_def)

text \<open>
  C16. Recording an observation accepts the inherited name \<open>toString\<close> as a state: on an executed operation
  it then succeeds with no evidence at all, and the journal it writes, which is valid, has lost the
  execution's transaction, block and identifier.
\<close>

theorem inherited_observation_erases:
  assumes "s path = Some r" and "governance_valid pf r" and "i < length (gj_operations r)"
    and "go_state (gj_operations r ! i) = ''executed''" and "safe_integer (gj_generation r + 1)"
    and "e = \<lparr>ev_operationId = Some (go_operationId (gj_operations r ! i)), ev_state = ''toString'',
           ev_observedOperationId = None, ev_scheduleTxHash = None, ev_executeTxHash = None, ev_blockNumber = None,
           ev_blockHash = None\<rparr>"
  shows "\<exists>r'. recordGovernanceObservation pf s path (gj_planDigest r) i e = (s(path \<mapsto> r'), Inr r') \<and>
    governance_valid pf r' \<and> go_state (gj_operations r' ! i) = ''toString'' \<and>
    executeTxHash (gj_operations r' ! i) = None \<and> go_blockHash (gj_operations r' ! i) = None"
proof -
  let ?o = "gj_operations r ! i"
  let ?o2 = "apply_observation (observation_patch e ?o) ''toString'' ?o"
  let ?r = "r\<lparr>gj_operations := (gj_operations r)[i := ?o2], gj_generation := gj_generation r + 1\<rparr>"
  have table: "in_table GOVERNANCE_STATES ''toString''" "\<not> value_less (governance_rank ''toString'') (governance_rank ''executed'')"
    "governance_rank ''toString'' \<noteq> governance_rank ''executed''"
    by (simp_all add: in_table_def governance_rank_def table_lookup_def GOVERNANCE_STATES_def object_prototype_def)
  have patch: "observation_patch e ?o = \<lparr>pt_observed = Some (go_operationId ?o), pt_schedule = scheduleTxHash ?o,
      pt_execute = None, pt_blockNumber = None, pt_blockHash = None\<rparr>"
    by (simp add: observation_patch_def assms(6) first_some_def)
  have c: "check_operations pf [] 0 (gj_operations r) = Inr ()"
    using assms(2) by (auto simp: governance_valid_def assertGovernanceOperationJournal_def)
  have "check_evidence ?o = Inr ()" using governance_valid_operation[OF assms(2,3)] by (simp add: check_operation_def)
  then have schedule: "null_or_hex32 (scheduleTxHash ?o)"
    using assms(4) by (auto simp: check_evidence_def hex32_opt_def null_or_hex32_def split: option.splits)
  have oid: "operation_id pf ?o2 = operation_id pf ?o" by (simp add: operation_id_def fun_eq_iff)
  have "check_fallback pf ?o2 = check_fallback pf ?o" by (simp add: check_fallback_def oid split: option.split)
  then have same: "check_operation pf ids k ?o2 = Inr ()" if "check_operation pf ids k ?o = Inr ()" for ids k
    using that table(1) by (simp add: check_operation_def oid) (simp add: check_evidence_def)
  have ops: "check_operations pf [] 0 ((gj_operations r)[i := ?o2]) = Inr ()"
    by (rule check_operations_update[OF c assms(3)]) (simp_all add: same)
  have "map (\<lambda>x. js_object (operation_fields x)) ((gj_operations r)[i := ?o2]) = map (\<lambda>x. js_object (operation_fields x)) (gj_operations r)"
  proof -
    have "operation_fields ?o2 = operation_fields ?o" by (simp add: operation_fields_def)
    then show ?thesis using assms(3) by (simp add: map_update) (metis list_update_id map_update)
  qed
  then have view: "operations_view ?r = operations_view r" by (simp add: operations_view_def)
  have "check_operation_policy g ?o2 = check_operation_policy g ?o" for g
    by (simp add: check_operation_policy_def)
  then have "check_all (check_operation_policy (gj_governance r)) ((gj_operations r)[i := ?o2]) = Inr ()"
    using assms(2,3) set_update_subset_insert[of "gj_operations r" i ?o2]
    by (auto simp: governance_valid_def assertGovernanceOperationJournal_def check_all_returns dest!: subsetD)
  then have valid: "governance_valid pf ?r"
    using assms(2,5) ops view c
    by (auto simp: governance_valid_def assertGovernanceOperationJournal_def check_all_returns)
  have "lower_opt (ev_operationId e) = Some (to_lower (go_operationId ?o))" "ev_state e = ''toString''"
    using assms(6) by simp_all
  moreover have "null_or_hex32 (pt_schedule (observation_patch e ?o))" "null_or_hex32 (pt_execute (observation_patch e ?o))"
    "null_or_hex32 (pt_blockHash (observation_patch e ?o))"
    using schedule by (simp_all add: patch null_or_hex32_def)
  ultimately have "recordGovernanceObservation pf s path (gj_planDigest r) i e = (s(path \<mapsto> ?r), Inr ?r)"
    using assms(3,4) table valid
    by (simp add: recordGovernanceObservation_def governance_read[of s path, OF assms(1,2)] governance_read governance_assert Let_def)
  then show ?thesis using valid assms(3) by (intro exI[of _ ?r]) (simp add: apply_observation_def patch)
qed

end
