(* ===== verification/Deployment_Journal.thy ===== *)
theory Deployment_Journal
  imports Staged_Journal
begin

text \<open>
  contracts/scripts/signed-deployment-journal.js: the durable plan of a deployment (one transaction per
  nonce of a reserved range) and the state of every transaction in it.

  A step goes through planned, signed, broadcast and mined. Absent and null fields are \<open>None\<close>; fields
  of a wrong JSON type are not represented. \<open>createdAt\<close> and \<open>updatedAt\<close>, which nothing reads, are left
  out, and so is the ownership of files and directories.
\<close>

section \<open>Records\<close>

record rpc_evidence =
  primaryOperatorId :: string
  secondaryOperatorId :: string
  primaryOrigin :: string
  secondaryOrigin :: string
  primaryHost :: string
  secondaryHost :: string
  primaryEndpointDigest :: string
  secondaryEndpointDigest :: string

record deployment_step =
  ds_id :: string
  ds_name :: string
  ds_kind :: string
  ds_nonce :: int
  ds_address :: string
  constructorArgsHash :: string
  expectedInitCodeHash :: string
  expectedTo :: "string option"
  expectedCalldataHash :: string
  expectedValue :: string
  factoryAddress :: "string option"
  ds_salt :: "string option"
  configurationHash :: "string option"
  configurationReadCalldata :: "string option"
  deploymentEventTopic :: "string option"
  ds_state :: string
  rawTransaction :: "string option"
  expectedHash :: "string option"
  calldataHash :: "string option"
  signedPayloadDigest :: "string option"
  ds_blockNumber :: "int option"

record deployment_journal =
  dj_schema :: string
  identityDigest :: string
  dj_network :: string
  dj_chainId :: int
  deployer :: string
  rpcEvidence :: rpc_evidence
  startNonce :: int
  transactionCount :: int
  endNonceExclusive :: int
  dj_generation :: int
  dj_steps :: "deployment_step list"
  dj_planDigest :: string

type_synonym deployment_store = "string \<Rightarrow> deployment_journal option"

datatype deployment_error =
    Malformed_journal | Journal_identity | Nonce_range_not_exact | Not_hex string
  | Rpc_not_independent | Step_identity | Kind_not_closed | Value_not_canonical
  | Create_kind_drift | Create_address_drift | Read_calldata_malformed | Factory_target_differs
  | Create2_address_drift | Step_state_invalid | Raw_missing | Raw_substituted | Raw_unparsable
  | Payload_identity_drift | Payload_digest_mismatch | Block_number_missing | Plan_digest_mismatch
  | Plan_empty | Plan_kind_unknown | Plan_address_invalid | Plan_calldata_missing
  | Unsigned_shape | Direct_bytes_differ | Factory_call_differs | Executable_address_differs
  | No_journal | Reservation_mismatch | Reservation_conflict | Plan_changed | Step_missing
  | State_regresses | State_skipped | Durable_conflict | Calldata_differs
  | Rpc_failed string | Secondary_missing | Reverted | Receipt_hash_malformed | Receipt_aliases_disagree
  | Receipt_mismatch | Mined_transaction_mismatch | Factory_event_missing | Runtime_missing
  | Configuration_mismatch | Block_not_canonical | Not_corroborated | Providers_disagree
  | Confirmations_invalid | Too_few_confirmations | Receipt_disappeared | Receipt_status_changed
  | Evidence_changed | Pending_drift | Nonce_drift | Nonce_behind | Different_hash_returned

definition deployment_schema :: string where
  "deployment_schema = ''p42-prizes/signed-deployment-journal/v1''"

definition DEPLOYMENT_STATES :: "(string \<times> int) list" where
  "DEPLOYMENT_STATES = [(''planned'', 0), (''signed'', 1), (''broadcast'', 2), (''mined'', 3)]"

definition STEP_KINDS :: "(string \<times> int) list" where
  "STEP_KINDS = [(''direct-create'', 1), (''factory-call-create2'', 1)]"

definition deployment_rank :: "string \<Rightarrow> table_value option" where
  "deployment_rank st = table_lookup DEPLOYMENT_STATES st"

section \<open>The immutable view and its digest\<close>

definition evidence_json :: "rpc_evidence \<Rightarrow> int json" where
  "evidence_json e = js_object
     [(''primaryOperatorId'', js_str (primaryOperatorId e)), (''secondaryOperatorId'', js_str (secondaryOperatorId e)),
      (''primaryOrigin'', js_str (primaryOrigin e)), (''secondaryOrigin'', js_str (secondaryOrigin e)),
      (''primaryHost'', js_str (primaryHost e)), (''secondaryHost'', js_str (secondaryHost e)),
      (''primaryEndpointDigest'', js_str (primaryEndpointDigest e)),
      (''secondaryEndpointDigest'', js_str (secondaryEndpointDigest e))]"

definition step_view :: "deployment_step \<Rightarrow> int json" where
  "step_view s = js_object
     [(''id'', js_str (ds_id s)), (''name'', js_str (ds_name s)), (''kind'', js_str (ds_kind s)),
      (''nonce'', js_int (ds_nonce s)), (''address'', js_str (ds_address s)),
      (''constructorArgsHash'', js_str (constructorArgsHash s)),
      (''expectedInitCodeHash'', js_str (expectedInitCodeHash s)), (''expectedTo'', js_opt (expectedTo s)),
      (''expectedCalldataHash'', js_str (expectedCalldataHash s)), (''expectedValue'', js_str (expectedValue s)),
      (''factoryAddress'', js_opt (factoryAddress s)), (''salt'', js_opt (ds_salt s)),
      (''configurationHash'', js_opt (configurationHash s)),
      (''configurationReadCalldata'', js_opt (configurationReadCalldata s)),
      (''deploymentEventTopic'', js_opt (deploymentEventTopic s))]"

definition immutableView :: "deployment_journal \<Rightarrow> int json" where
  "immutableView r = js_object
     [(''schema'', js_str (dj_schema r)), (''identityDigest'', js_str (identityDigest r)),
      (''network'', js_str (dj_network r)), (''chainId'', js_int (dj_chainId r)),
      (''deployer'', js_str (deployer r)), (''rpcEvidence'', evidence_json (rpcEvidence r)),
      (''startNonce'', js_int (startNonce r)), (''transactionCount'', js_int (transactionCount r)),
      (''endNonceExclusive'', js_int (endNonceExclusive r)), (''steps'', JsArray (map step_view (dj_steps r)))]"

text \<open>
  The signed payload whose digest a step keeps. Its \<open>signer\<close> is absent for an unsigned transaction,
  which \<open>assertJournal\<close> refuses before it reads the digest.
\<close>

definition payload_json :: "string \<Rightarrow> chain_tx \<Rightarrow> string \<Rightarrow> deployment_step \<Rightarrow> int json" where
  "payload_json rawHash tx dataHash s = js_object
     [(''rawHash'', js_str (to_lower rawHash)), (''signer'', js_opt (lower_opt (tx_from tx))),
      (''chainId'', js_str (show_int (tx_chainId tx))), (''nonce'', js_int (tx_nonce tx)),
      (''to'', js_opt (lower_opt (tx_to tx))), (''value'', js_str (show_int (tx_value tx))),
      (''calldataHash'', js_str (to_lower dataHash)), (''address'', js_str (to_lower (ds_address s))),
      (''kind'', js_str (ds_kind s))]"

section \<open>assertJournal\<close>

definition evidence_independent :: "rpc_evidence \<Rightarrow> bool" where
  "evidence_independent e \<longleftrightarrow>
     \<not> (primaryOperatorId e = secondaryOperatorId e \<or> primaryOrigin e = secondaryOrigin e \<or>
        primaryHost e = secondaryHost e \<or>
        \<not> sha256_digest (primaryEndpointDigest e) \<or> \<not> sha256_digest (secondaryEndpointDigest e))"

text \<open>What a step of each kind must have; a kind other than direct-create is taken as a factory call.\<close>

definition check_create :: "platform \<Rightarrow> deployment_journal \<Rightarrow> deployment_step \<Rightarrow> deployment_error + unit" where
  "check_create pf r s =
     require (\<not> (expectedTo s \<noteq> None \<or> factoryAddress s \<noteq> None \<or> ds_salt s \<noteq> None \<or> configurationHash s \<noteq> None \<or>
                  configurationReadCalldata s \<noteq> None \<or> deploymentEventTopic s \<noteq> None \<or>
                  to_lower (expectedCalldataHash s) \<noteq> to_lower (expectedInitCodeHash s))) Create_kind_drift
     (require (to_lower (getCreateAddress pf (deployer r) (ds_nonce s)) = to_lower (ds_address s)) Create_address_drift
       (Inr ()))"

definition read_calldata_ok :: "string option \<Rightarrow> bool" where
  "read_calldata_ok c = (case c of None \<Rightarrow> False | Some t \<Rightarrow> hex_text t \<and> 10 \<le> length t \<and> even (length t))"

definition check_create2 :: "platform \<Rightarrow> deployment_step \<Rightarrow> deployment_error + unit" where
  "check_create2 pf s =
     require (hex_bytes_opt 20 (expectedTo s)) (Not_hex ''factory transaction target'')
     (require (hex_bytes_opt 20 (factoryAddress s)) (Not_hex ''pinned factory'')
     (require (hex_bytes_opt 32 (ds_salt s)) (Not_hex ''CREATE2 salt'')
     (require (hex_bytes_opt 32 (configurationHash s)) (Not_hex ''CREATE2 configuration hash'')
     (require (read_calldata_ok (configurationReadCalldata s)) Read_calldata_malformed
     (require (hex_bytes_opt 32 (deploymentEventTopic s)) (Not_hex ''factory deployment event topic'')
     (require (lower_opt (expectedTo s) = lower_opt (factoryAddress s)) Factory_target_differs
     (require (to_lower (getCreate2Address pf (the (factoryAddress s)) (the (ds_salt s)) (expectedInitCodeHash s))
               = to_lower (ds_address s)) Create2_address_drift
       (Inr ()))))))))"

definition raw_text :: "string option \<Rightarrow> bool" where
  "raw_text c = (case c of None \<Rightarrow> False | Some t \<Rightarrow> hex_text_i t \<and> 3 \<le> length t)"

definition transaction_matches :: "platform \<Rightarrow> deployment_journal \<Rightarrow> deployment_step \<Rightarrow> chain_tx \<Rightarrow> bool" where
  "transaction_matches pf r s tx \<longleftrightarrow>
     lower_opt (tx_from tx) = Some (to_lower (deployer r)) \<and> tx_chainId tx = dj_chainId r \<and>
     tx_nonce tx = ds_nonce s \<and> lower_opt (tx_to tx) = lower_opt (expectedTo s) \<and>
     show_int (tx_value tx) = expectedValue s \<and>
     to_lower (keccak256 pf (tx_data tx)) = to_lower (expectedCalldataHash s)"

definition check_signed :: "platform \<Rightarrow> deployment_journal \<Rightarrow> deployment_step \<Rightarrow> deployment_error + unit" where
  "check_signed pf r s =
     require (raw_text (rawTransaction s)) Raw_missing
     (require (hex_bytes_opt 32 (expectedHash s)) (Not_hex ''expected transaction hash'')
     (require (hex_bytes_opt 32 (calldataHash s)) (Not_hex ''calldata hash'')
     (require (to_lower (the (expectedHash s)) = to_lower (keccak256 pf (the (rawTransaction s)))) Raw_substituted
     (and_then (of_option Raw_unparsable (transaction_from pf (the (rawTransaction s)))) (\<lambda>tx.
      require (transaction_matches pf r s tx) Payload_identity_drift
     (require (signedPayloadDigest s
               = Some (digest pf (payload_json (the (expectedHash s)) tx (the (calldataHash s)) s))) Payload_digest_mismatch
       (Inr ())))))))"

definition check_step :: "platform \<Rightarrow> deployment_journal \<Rightarrow> nat \<times> deployment_step \<Rightarrow> deployment_error + unit" where
  "check_step pf r = (\<lambda>(i, s).
     require (ds_nonce s = startNonce r + int i \<and> ds_id s = show_nat i @ '':'' @ ds_name s) Step_identity
     (require (in_table STEP_KINDS (ds_kind s)) Kind_not_closed
     (require (hex_bytes 20 (ds_address s)) (Not_hex ''deployment address'')
     (require (hex_bytes 32 (constructorArgsHash s)) (Not_hex ''constructor args hash'')
     (require (hex_bytes 32 (expectedInitCodeHash s)) (Not_hex ''expected initcode hash'')
     (require (hex_bytes 32 (expectedCalldataHash s)) (Not_hex ''expected calldata hash'')
     (require (canonical_decimal (expectedValue s)) Value_not_canonical
     (and_then (if ds_kind s = ''direct-create'' then check_create pf r s else check_create2 pf s) (\<lambda>_.
      require (in_table DEPLOYMENT_STATES (ds_state s)) Step_state_invalid
     (and_then (if rank_at_least 1 (deployment_rank (ds_state s)) then check_signed pf r s else Inr ()) (\<lambda>_.
      require (\<not> (ds_state s = ''mined'' \<and>
                    (case ds_blockNumber s of None \<Rightarrow> True | Some b \<Rightarrow> \<not> safe_integer b \<or> b < 0))) Block_number_missing
        (Inr ()))))))))))))"

definition assertJournal :: "platform \<Rightarrow> deployment_journal \<Rightarrow> deployment_error + deployment_journal" where
  "assertJournal pf r =
     require (dj_schema r = deployment_schema \<and> \<not> length (dj_steps r) < 1) Malformed_journal
     (require (safe_integer (dj_chainId r) \<and> safe_integer (startNonce r) \<and> \<not> startNonce r < 0) Journal_identity
     (require (transactionCount r = int (length (dj_steps r)) \<and>
               endNonceExclusive r = startNonce r + int (length (dj_steps r))) Nonce_range_not_exact
     (require (hex_bytes 20 (deployer r)) (Not_hex ''deployer'')
     (require (evidence_independent (rpcEvidence r)) Rpc_not_independent
     (and_then (check_all (check_step pf r) (enumerate 0 (dj_steps r))) (\<lambda>_.
      require (dj_planDigest r = digest pf (immutableView r)) Plan_digest_mismatch (Inr r)))))))"

text \<open>\<open>readJournal\<close>: an absent file throws ENOENT.\<close>

definition readDeployment :: "platform \<Rightarrow> deployment_store \<Rightarrow> string \<Rightarrow> deployment_error + deployment_journal" where
  "readDeployment pf s path = and_then (of_option No_journal (s path)) (assertJournal pf)"

end
