(* ===== verification/Deployment_Operations.thy ===== *)
theory Deployment_Operations
  imports Deployment_Journal
begin

text \<open>
  The operations on a deployment journal: building the nonce plan, reserving it in a file, the state
  transitions, and the reconciliation of a step with two independent RPC providers.

  An operation returns the store it leaves and its result, or the error it throws. A write that was made
  stays when a later part of the same operation throws.
\<close>

type_synonym 'a deployment_outcome = "deployment_store \<times> (deployment_error + 'a)"

fun settle :: "deployment_store \<Rightarrow> deployment_error + (deployment_store \<times> 'a) \<Rightarrow> 'a deployment_outcome" where
  "settle s (Inl err) = (s, Inl err)"
| "settle s (Inr (s', x)) = (s', Inr x)"

section \<open>Building the plan\<close>

record plan_step =
  ps_name :: string
  ps_kind :: "string option"
  ps_constructorArgsHash :: string
  ps_expectedInitCode :: string
  ps_expectedCalldata :: "string option"
  ps_expectedValue :: "int option"
  ps_factoryAddress :: "string option"
  ps_salt :: "string option"
  ps_configurationHash :: "string option"
  ps_configurationReadCalldata :: "string option"
  ps_deploymentEventTopic :: "string option"

record plan_metadata =
  pm_identityDigest :: string
  pm_network :: string
  pm_chainId :: int
  pm_deployer :: string
  pm_rpcEvidence :: rpc_evidence
  pm_startNonce :: int

definition plan_record :: "platform \<Rightarrow> plan_metadata \<Rightarrow> nat \<times> plan_step \<Rightarrow> deployment_error + deployment_step" where
  "plan_record pf meta = (\<lambda>(i, p).
     let kind = (case ps_kind p of None \<Rightarrow> ''direct-create'' | Some k \<Rightarrow> k);
         is_factory = (kind = ''factory-call-create2'');
         nonce = pm_startNonce meta + int i;
         initHash = keccak256 pf (ps_expectedInitCode p);
         on_factory = (\<lambda>x. if is_factory then x else None)
     in require (in_table STEP_KINDS kind) Plan_kind_unknown
        (and_then (if is_factory
                   then and_then (of_option Plan_address_invalid (Option.bind (ps_factoryAddress p) (getAddress pf)))
                          (\<lambda>a. Inr (Some a))
                   else Inr None) (\<lambda>factory.
         and_then (if kind = ''direct-create'' then Inr (getCreateAddress pf (pm_deployer meta) nonce)
                   else (case (factory, on_factory (ps_salt p)) of
                           (Some a, Some salt) \<Rightarrow> Inr (getCreate2Address pf a salt initHash)
                         | _ \<Rightarrow> Inl Plan_address_invalid)) (\<lambda>address.
         and_then (if kind = ''direct-create'' then Inr (ps_expectedInitCode p)
                   else of_option Plan_calldata_missing (ps_expectedCalldata p)) (\<lambda>cd.
         Inr \<lparr>ds_id = show_nat i @ '':'' @ ps_name p, ds_name = ps_name p, ds_kind = kind, ds_nonce = nonce,
              ds_address = address, constructorArgsHash = ps_constructorArgsHash p, expectedInitCodeHash = initHash,
              expectedTo = factory, expectedCalldataHash = keccak256 pf cd,
              expectedValue = show_int (case ps_expectedValue p of None \<Rightarrow> 0 | Some v \<Rightarrow> v),
              factoryAddress = factory, ds_salt = on_factory (ps_salt p),
              configurationHash = on_factory (ps_configurationHash p),
              configurationReadCalldata = on_factory (ps_configurationReadCalldata p),
              deploymentEventTopic = on_factory (ps_deploymentEventTopic p),
              ds_state = ''planned'', rawTransaction = None, expectedHash = None, calldataHash = None,
              signedPayloadDigest = None, ds_blockNumber = None\<rparr>)))))"

definition buildDeploymentNoncePlan ::
    "platform \<Rightarrow> plan_metadata \<Rightarrow> plan_step list \<Rightarrow> deployment_error + deployment_journal" where
  "buildDeploymentNoncePlan pf meta steps =
     require (\<not> length steps < 1) Plan_empty
     (and_then (map_all (plan_record pf meta) (enumerate 0 steps)) (\<lambda>normalized.
      let r = \<lparr>dj_schema = deployment_schema, identityDigest = pm_identityDigest meta, dj_network = pm_network meta,
               dj_chainId = pm_chainId meta, deployer = pm_deployer meta, rpcEvidence = pm_rpcEvidence meta,
               startNonce = pm_startNonce meta, transactionCount = int (length normalized),
               endNonceExclusive = pm_startNonce meta + int (length normalized),
               dj_generation = 0, dj_steps = normalized, dj_planDigest = []\<rparr>
      in assertJournal pf (r\<lparr>dj_planDigest := digest pf (immutableView r)\<rparr>)))"

text \<open>
  The steps of a ceremony carry the unsigned transaction they will send: its properties, in the order of
  their names, and the values compared with the plan's.
\<close>

record executable_step =
  ex_id :: string
  ex_kind :: "string option"
  ex_addressKey :: string
  ex_constructorArgsHash :: string
  ex_expectedInitCode :: string
  ex_expectedCalldata :: "string option"
  ex_factoryAddress :: "string option"
  ex_salt :: "string option"
  ex_configurationHash :: "string option"
  ex_configurationReadCalldata :: "string option"
  ex_deploymentEventTopic :: "string option"
  ex_unsigned :: "(string \<times> jsval) list option"

definition property :: "(string \<times> jsval) list \<Rightarrow> string \<Rightarrow> jsval" where
  "property obj k = (case map_of obj k of None \<Rightarrow> JUndefined | Some v \<Rightarrow> v)"

fun opt_value :: "string option \<Rightarrow> jsval" where
  "opt_value None = JUndefined"
| "opt_value (Some s) = JStr s"

definition canonical_step :: "executable_step \<Rightarrow> deployment_error + plan_step" where
  "canonical_step e =
     (let direct = (ex_kind e = Some ''direct-create'');
          is_factory = (ex_kind e = Some ''factory-call-create2'');
          on_factory = (\<lambda>x. if is_factory then x else None);
          result = \<lparr>ps_name = ex_id e, ps_kind = ex_kind e, ps_constructorArgsHash = ex_constructorArgsHash e,
            ps_expectedInitCode = ex_expectedInitCode e, ps_expectedCalldata = on_factory (ex_expectedCalldata e),
            ps_expectedValue = (if is_factory then Some 0 else None), ps_factoryAddress = on_factory (ex_factoryAddress e),
            ps_salt = on_factory (ex_salt e), ps_configurationHash = on_factory (ex_configurationHash e),
            ps_configurationReadCalldata = on_factory (ex_configurationReadCalldata e),
            ps_deploymentEventTopic = on_factory (ex_deploymentEventTopic e)\<rparr>
      in case ex_unsigned e of
           None \<Rightarrow> Inl Unsigned_shape
         | Some u \<Rightarrow>
             require (join_with comma (sort (map (units \<circ> fst) u)) = units (if direct then ''data'' else ''data,to,value'')) Unsigned_shape
             (if direct
              then require (property u ''data'' = JStr (ex_expectedInitCode e)) Direct_bytes_differ (Inr result)
              else require (property u ''data'' = opt_value (ex_expectedCalldata e) \<and>
                            to_lower (js_string (property u ''to'')) = to_lower (js_string (opt_value (ex_factoryAddress e))) \<and>
                            js_bigint (property u ''value'') = Some 0) Factory_call_differs (Inr result)))"

definition buildExecutableDeploymentNoncePlan ::
    "platform \<Rightarrow> plan_metadata \<Rightarrow> executable_step list \<Rightarrow> (string \<times> jsval) list option
     \<Rightarrow> deployment_error + deployment_journal" where
  "buildExecutableDeploymentNoncePlan pf meta steps addresses =
     and_then (map_all canonical_step steps) (\<lambda>canonicalSteps.
     and_then (buildDeploymentNoncePlan pf meta canonicalSteps) (\<lambda>plan.
     case addresses of
       None \<Rightarrow> Inr plan
     | Some as \<Rightarrow>
         require (list_all2 (\<lambda>e s. to_lower (js_string (property as (ex_addressKey e))) = to_lower (ds_address s))
                    steps (dj_steps plan)) Executable_address_differs (Inr plan)))"

section \<open>Reserving the plan\<close>

text \<open>
  The file is looked up in one store and created in a later one, which another process may have changed
  in between.
\<close>

definition same_plan :: "deployment_journal \<Rightarrow> deployment_journal \<Rightarrow> bool" where
  "same_plan a b \<longleftrightarrow> dj_planDigest a = dj_planDigest b \<and>
     canonical_text (immutableView a) = canonical_text (immutableView b)"

definition reserveDeploymentNoncePlan ::
    "platform \<Rightarrow> deployment_store \<Rightarrow> deployment_store \<Rightarrow> string \<Rightarrow> deployment_journal \<Rightarrow> deployment_journal deployment_outcome" where
  "reserveDeploymentNoncePlan pf seen s path expected =
     (case seen path of
        Some _ \<Rightarrow> (s, and_then (readDeployment pf seen path) (\<lambda>existing.
                       require (same_plan existing expected) Reservation_mismatch (Inr existing)))
      | None \<Rightarrow>
          (case s path of
             None \<Rightarrow> (let s' = s(path \<mapsto> expected) in (s', readDeployment pf s' path))
           | Some _ \<Rightarrow> (s, and_then (readDeployment pf s path) (\<lambda>winner.
                         require (same_plan winner expected) Reservation_conflict (readDeployment pf s path)))))"

section \<open>Transitions\<close>

text \<open>The properties a transition sets; \<open>None\<close> is one it does not name.\<close>

record step_patch =
  set_raw :: "string option"
  set_hash :: "string option"
  set_calldata :: "string option"
  set_digest :: "string option"
  set_block :: "int option"

definition empty_patch :: step_patch where
  "empty_patch = \<lparr>set_raw = None, set_hash = None, set_calldata = None, set_digest = None, set_block = None\<rparr>"

definition patched :: "'a option \<Rightarrow> 'a option \<Rightarrow> 'a option" where
  "patched new old = (case new of None \<Rightarrow> old | Some v \<Rightarrow> Some v)"

definition apply_patch :: "step_patch \<Rightarrow> deployment_step \<Rightarrow> deployment_step" where
  "apply_patch p s = s\<lparr>
     rawTransaction := patched (set_raw p) (rawTransaction s), expectedHash := patched (set_hash p) (expectedHash s),
     calldataHash := patched (set_calldata p) (calldataHash s),
     signedPayloadDigest := patched (set_digest p) (signedPayloadDigest s),
     ds_blockNumber := patched (set_block p) (ds_blockNumber s)\<rparr>"

text \<open>Every named property already has the value: the canonical JSON of a string or a number determines it.\<close>

definition agrees :: "step_patch \<Rightarrow> deployment_step \<Rightarrow> bool" where
  "agrees p s \<longleftrightarrow> apply_patch p s = s"

text \<open>
  The operations below this line lock nothing themselves: a transition reads the file, computes the next
  record and writes it as three steps, and signing reads the file once more before. The definitions
  here run each operation without interruption, as under the lock that reconcileSignedDeployment takes;
  Deployment_Races runs them in steps, among those of other processes. \<open>transition_record\<close> is
  what a transition computes from the record it read; \<open>None\<close> leaves the file as it is.
\<close>

definition transition_record ::
    "platform \<Rightarrow> deployment_journal \<Rightarrow> string \<Rightarrow> nat \<Rightarrow> string \<Rightarrow> step_patch
       \<Rightarrow> deployment_error + deployment_journal option" where
  "transition_record pf r planDigest index nextState patch =
     require (dj_planDigest r = planDigest) Plan_changed
      (require (index < length (dj_steps r) \<and>
                \<not> value_less (deployment_rank nextState) (deployment_rank (ds_state (dj_steps r ! index)))) State_regresses
      (let st = dj_steps r ! index
       in require (\<not> skips_a_rank (deployment_rank nextState) (deployment_rank (ds_state st))) State_skipped
          (if deployment_rank nextState = deployment_rank (ds_state st)
           then require (agrees patch st) Durable_conflict (Inr None)
           else let r' = r\<lparr>dj_steps := (dj_steps r)[index := (apply_patch patch st)\<lparr>ds_state := nextState\<rparr>],
                           dj_generation := dj_generation r + 1\<rparr>
                in and_then (assertJournal pf r') (\<lambda>_. Inr (Some r')))))"

definition transition ::
    "platform \<Rightarrow> deployment_store \<Rightarrow> string \<Rightarrow> string \<Rightarrow> nat \<Rightarrow> string \<Rightarrow> step_patch \<Rightarrow> deployment_journal deployment_outcome" where
  "transition pf s path planDigest index nextState patch = settle s
     (and_then (readDeployment pf s path) (\<lambda>r.
      and_then (transition_record pf r planDigest index nextState patch) (\<lambda>next_record.
      case next_record of
        None \<Rightarrow> Inr (s, r)
      | Some r' \<Rightarrow> let s' = s(path \<mapsto> r')
          in and_then (readDeployment pf s' path) (\<lambda>r''. Inr (s', r'')))))"

definition signed_patch :: "platform \<Rightarrow> string \<Rightarrow> chain_tx \<Rightarrow> deployment_step \<Rightarrow> step_patch" where
  "signed_patch pf raw tx st =
     (let rawHash = keccak256 pf raw; dataHash = keccak256 pf (tx_data tx)
      in \<lparr>set_raw = Some raw, set_hash = Some rawHash, set_calldata = Some dataHash,
          set_digest = Some (digest pf (payload_json rawHash tx dataHash st)), set_block = None\<rparr>)"

definition persistSignedDeployment ::
    "platform \<Rightarrow> deployment_store \<Rightarrow> string \<Rightarrow> string \<Rightarrow> nat \<Rightarrow> string \<Rightarrow> deployment_journal deployment_outcome" where
  "persistSignedDeployment pf s path planDigest index raw =
     (case transaction_from pf raw of
        None \<Rightarrow> (s, Inl Raw_unparsable)
      | Some tx \<Rightarrow>
         (case readDeployment pf s path of
            Inl err \<Rightarrow> (s, Inl err)
          | Inr current \<Rightarrow>
              if \<not> index < length (dj_steps current) then (s, Inl Step_missing)
              else let st = dj_steps current ! index
                   in if to_lower (keccak256 pf (tx_data tx)) \<noteq> to_lower (expectedCalldataHash st) then (s, Inl Calldata_differs)
                      else transition pf s path planDigest index ''signed'' (signed_patch pf raw tx st)))"

definition recordDeploymentBroadcast ::
    "platform \<Rightarrow> deployment_store \<Rightarrow> string \<Rightarrow> string \<Rightarrow> nat \<Rightarrow> deployment_journal deployment_outcome" where
  "recordDeploymentBroadcast pf s path planDigest index = transition pf s path planDigest index ''broadcast'' empty_patch"

definition recordDeploymentMined ::
    "platform \<Rightarrow> deployment_store \<Rightarrow> string \<Rightarrow> string \<Rightarrow> nat \<Rightarrow> int \<Rightarrow> deployment_journal deployment_outcome" where
  "recordDeploymentMined pf s path planDigest index block =
     (case readDeployment pf s path of
        Inl err \<Rightarrow> (s, Inl err)
      | Inr current \<Rightarrow>
          let finish = (\<lambda>t. transition pf t path planDigest index ''mined'' (empty_patch\<lparr>set_block := Some block\<rparr>))
          in if index < length (dj_steps current) \<and> ds_state (dj_steps current ! index) = ''signed''
             then (case transition pf s path planDigest index ''broadcast'' empty_patch of
                     (t, Inl err) \<Rightarrow> (t, Inl err)
                   | (t, Inr _) \<Rightarrow> finish t)
             else finish s)"

end
