(* ===== verification/Deployment_Reconcile.thy ===== *)
theory Deployment_Reconcile
  imports Deployment_Operations
begin

text \<open>
  \<open>reconcileSignedDeployment\<close>: what a step's transaction became on the chain, asked of two RPC providers.

  A provider is the record of its answers at one stage of the run: the code asks the primary and the
  secondary provider once for the receipt it starts from and once more right before it records the step
  as mined, so each is a pair of records. Addresses, topics and calls are strings; the file is locked and
  pinned during the run. The texts handed to \<open>broadcastTransaction\<close> are part of the outcome.
\<close>

record receipt_log =
  rl_address :: "string option"
  rl_topics :: "string list"
  rl_data :: "string option"

record receipt =
  rc_hash :: "string option"
  rc_transactionHash :: "string option"
  rc_status :: int
  rc_blockHash :: string
  rc_blockNumber :: int
  rc_contractAddress :: jsval
  rc_logs :: "receipt_log list"

record mined_transaction =
  mt_hash :: string
  mt_nonce :: int
  mt_from :: string
  mt_to :: "string option"
  mt_data :: string
  mt_value :: int

record chain_block =
  cb_hash :: "string option"
  cb_number :: int

record deployment_rpc =
  ask_receipt :: "string \<Rightarrow> string + receipt option"
  ask_transaction :: "string \<Rightarrow> string + mined_transaction option"
  ask_code :: "string \<Rightarrow> int \<Rightarrow> string + string"
  ask_call :: "string \<Rightarrow> string \<Rightarrow> int \<Rightarrow> string + string"
  ask_block_by_hash :: "string \<Rightarrow> string + chain_block option"
  ask_block_by_number :: "int \<Rightarrow> string + chain_block option"
  ask_blockNumber :: "string + int"
  ask_count :: "string \<Rightarrow> string \<Rightarrow> string + int"
  send_transaction :: "string \<Rightarrow> string + string"

fun rpc :: "string + 'a \<Rightarrow> deployment_error + 'a" where
  "rpc (Inl m) = Inl (Rpc_failed m)"
| "rpc (Inr x) = Inr x"

lemma rpc_Inr [simp, result_simps]: "rpc a = Inr x \<longleftrightarrow> a = Inr x"
  by (cases a) auto

section \<open>Canonical receipts\<close>

fun present :: "'a option list \<Rightarrow> 'a list" where
  "present [] = []"
| "present (None # xs) = present xs"
| "present (Some x # xs) = x # present xs"

definition canonicalReceiptTransactionHash :: "receipt \<Rightarrow> deployment_error + string" where
  "canonicalReceiptTransactionHash rc =
     (let candidates = present [rc_hash rc, rc_transactionHash rc]; normalized = map to_lower candidates
      in require (candidates \<noteq> [] \<and> list_all (hex_bytes 32) candidates) Receipt_hash_malformed
         (require (list_all (\<lambda>h. h = hd normalized) normalized) Receipt_aliases_disagree (Inr (hd normalized))))"

text \<open>\<open>receipt.contractAddress?.toLowerCase() ?? null\<close>\<close>

fun address_or_null :: "jsval \<Rightarrow> string option" where
  "address_or_null (JStr a) = Some (to_lower a)"
| "address_or_null _ = None"

definition deployed_address :: "deployment_step \<Rightarrow> receipt \<Rightarrow> bool" where
  "deployed_address s rc \<longleftrightarrow>
     address_or_null (rc_contractAddress rc) =
       (if ds_kind s = ''direct-create'' then Some (to_lower (ds_address s)) else None)"

definition is_step_transaction :: "platform \<Rightarrow> string \<Rightarrow> deployment_step \<Rightarrow> mined_transaction \<Rightarrow> bool" where
  "is_step_transaction pf dep s t \<longleftrightarrow>
     to_lower (mt_hash t) = to_lower (the (expectedHash s)) \<and> mt_nonce t = ds_nonce s \<and>
     to_lower (mt_from t) = to_lower dep \<and> lower_opt (mt_to t) = lower_opt (expectedTo s) \<and>
     to_lower (keccak256 pf (mt_data t)) = to_lower (expectedCalldataHash s) \<and>
     show_int (mt_value t) = expectedValue s"

definition is_deployment_log :: "platform \<Rightarrow> deployment_step \<Rightarrow> receipt_log \<Rightarrow> bool" where
  "is_deployment_log pf s l \<longleftrightarrow>
     lower_opt (rl_address l) = lower_opt (factoryAddress s) \<and> length (rl_topics l) = 3 \<and>
     map to_lower (rl_topics l) =
       [to_lower (the (deploymentEventTopic s)), to_lower (zeroPadValue pf (ds_address s) 32), to_lower (the (ds_salt s))] \<and>
     (case rl_data l of None \<Rightarrow> ''0x'' | Some d \<Rightarrow> d) = ''0x''"

definition check_factory :: "platform \<Rightarrow> deployment_rpc \<Rightarrow> deployment_step \<Rightarrow> receipt \<Rightarrow> deployment_error + unit" where
  "check_factory pf p s rc =
     require (length (filter (is_deployment_log pf s) (rc_logs rc)) = 1) Factory_event_missing
     (and_then (rpc (ask_code p (ds_address s) (rc_blockNumber rc))) (\<lambda>code.
      require (code \<noteq> ''0x'') Runtime_missing
     (and_then (rpc (ask_call p (the (factoryAddress s)) (the (configurationReadCalldata s)) (rc_blockNumber rc))) (\<lambda>configuration.
      require (hex_bytes 32 configuration \<and>
               to_lower configuration = to_lower (zeroPadValue pf (the (configurationHash s)) 32)) Configuration_mismatch
        (Inr ())))))"

definition check_block :: "receipt \<Rightarrow> chain_block option \<Rightarrow> deployment_error + unit" where
  "check_block rc b =
     require (case b of None \<Rightarrow> False
              | Some x \<Rightarrow> lower_opt (cb_hash x) = Some (to_lower (rc_blockHash rc)) \<and> cb_number x = rc_blockNumber rc)
       Block_not_canonical (Inr ())"

definition canonicalReceipt ::
    "platform \<Rightarrow> deployment_rpc \<Rightarrow> deployment_step \<Rightarrow> string \<Rightarrow> receipt \<Rightarrow> bool \<Rightarrow> deployment_error + unit" where
  "canonicalReceipt pf p s dep rc blockByNumber =
     and_then (canonicalReceiptTransactionHash rc) (\<lambda>hash.
     require (hash = to_lower (the (expectedHash s)) \<and> rc_blockHash rc \<noteq> [] \<and> deployed_address s rc) Receipt_mismatch
     (and_then (rpc (ask_transaction p (the (expectedHash s)))) (\<lambda>t.
      require (case t of None \<Rightarrow> False | Some x \<Rightarrow> is_step_transaction pf dep s x) Mined_transaction_mismatch
     (and_then (if ds_kind s = ''factory-call-create2'' then check_factory pf p s rc else Inr ()) (\<lambda>_.
      and_then (rpc (if blockByNumber then ask_block_by_number p (rc_blockNumber rc) else ask_block_by_hash p (rc_blockHash rc)))
        (check_block rc))))))"

section \<open>Evidence that a step was mined\<close>

definition succeeded :: "receipt option \<Rightarrow> bool" where
  "succeeded r \<longleftrightarrow> (case r of None \<Rightarrow> False | Some rc \<Rightarrow> rc_status rc = 1)"

definition same_receipt :: "receipt \<Rightarrow> receipt \<Rightarrow> bool" where
  "same_receipt a b \<longleftrightarrow> to_lower (rc_blockHash a) = to_lower (rc_blockHash b) \<and>
     rc_blockNumber a = rc_blockNumber b \<and>
     address_or_null (rc_contractAddress a) = address_or_null (rc_contractAddress b)"

text \<open>The last comparison before the transition: \<open>contractAddress !== null\<close> also refuses an absent one.\<close>

definition evidence_unchanged :: "deployment_step \<Rightarrow> receipt \<Rightarrow> receipt \<Rightarrow> deployment_error + unit" where
  "evidence_unchanged s rc c =
     require (to_lower (rc_blockHash c) = to_lower (rc_blockHash rc) \<and> rc_blockNumber c = rc_blockNumber rc) Evidence_changed
     (and_then (canonicalReceiptTransactionHash c) (\<lambda>hash.
      require (hash = to_lower (the (expectedHash s)) \<and>
               (ds_kind s = ''direct-create'' \<longrightarrow> address_or_null (rc_contractAddress c) = Some (to_lower (ds_address s))) \<and>
               (ds_kind s = ''factory-call-create2'' \<longrightarrow> rc_contractAddress c = JNull)) Evidence_changed
        (Inr ())))"

definition final_receipts ::
    "platform \<Rightarrow> deployment_rpc \<Rightarrow> deployment_rpc \<Rightarrow> deployment_step \<Rightarrow> string \<Rightarrow> receipt \<Rightarrow> deployment_error + receipt" where
  "final_receipts pf primary secondary s dep rc =
     (let hash = the (expectedHash s)
      in and_then (rpc (ask_receipt primary hash)) (\<lambda>fp.
         and_then (rpc (ask_receipt secondary hash)) (\<lambda>fs.
         require (fp \<noteq> None \<and> fs \<noteq> None) Receipt_disappeared
        (require (succeeded fp \<and> succeeded fs) Receipt_status_changed
        (and_then (canonicalReceipt pf primary s dep (the fp) True) (\<lambda>_.
         and_then (canonicalReceipt pf secondary s dep (the fs) True) (\<lambda>_.
         and_then (check_all (evidence_unchanged s rc) [the fp, the fs]) (\<lambda>_. Inr (the fp)))))))))"

definition mined_evidence ::
    "platform \<Rightarrow> deployment_rpc \<times> deployment_rpc \<Rightarrow> (deployment_rpc \<times> deployment_rpc) option \<Rightarrow> int
     \<Rightarrow> deployment_step \<Rightarrow> string \<Rightarrow> receipt \<Rightarrow> deployment_error + receipt" where
  "mined_evidence pf primary secondary confirmations s dep rc =
     and_then (of_option Secondary_missing secondary) (\<lambda>(s1, s2).
     require (rc_status rc = 1) Reverted
     (and_then (canonicalReceipt pf (fst primary) s dep rc False) (\<lambda>_.
      and_then (rpc (ask_receipt s1 (the (expectedHash s)))) (\<lambda>second.
      require (succeeded second) Not_corroborated
     (and_then (canonicalReceipt pf s1 s dep (the second) False) (\<lambda>_.
      require (same_receipt (the second) rc) Providers_disagree
     (require (safe_integer confirmations \<and> \<not> confirmations < 1) Confirmations_invalid
     (and_then (rpc (ask_blockNumber (fst primary))) (\<lambda>head1.
      and_then (rpc (ask_blockNumber s1)) (\<lambda>head2.
      let finalBlock = rc_blockNumber rc + confirmations - 1
      in require (\<not> (head1 < finalBlock \<or> head2 < finalBlock)) Too_few_confirmations
           (final_receipts pf (snd primary) s2 s dep rc)))))))))))"

section \<open>Reconciliation\<close>

datatype reconciliation =
    Step_planned | Step_mined receipt | Step_pending | Step_absent | Step_broadcast

definition is_pending :: "deployment_journal \<Rightarrow> deployment_step \<Rightarrow> mined_transaction \<Rightarrow> bool" where
  "is_pending r s t \<longleftrightarrow> to_lower (mt_hash t) = to_lower (the (expectedHash s)) \<and> mt_nonce t = ds_nonce s \<and>
     to_lower (mt_from t) = to_lower (deployer r)"

text \<open>What the provider's two transaction counts allow.\<close>

definition check_counts :: "deployment_rpc \<Rightarrow> deployment_journal \<Rightarrow> deployment_step \<Rightarrow> deployment_error + unit" where
  "check_counts p r s =
     and_then (rpc (ask_count p (deployer r) ''latest'')) (\<lambda>latestNonce.
     and_then (rpc (ask_count p (deployer r) ''pending'')) (\<lambda>pendingNonce.
     require (\<not> (latestNonce > ds_nonce s \<or> pendingNonce > ds_nonce s)) Nonce_drift
     (require (\<not> (latestNonce < startNonce r \<or> pendingNonce < startNonce r)) Nonce_behind (Inr ()))))"

definition record_as ::
    "'a \<Rightarrow> deployment_journal deployment_outcome \<Rightarrow> 'a deployment_outcome" where
  "record_as x res = (fst res, and_then (snd res) (\<lambda>_. Inr x))"

type_synonym reconciled = "deployment_store \<times> string list \<times> (deployment_error + reconciliation)"

definition quiet :: "reconciliation deployment_outcome \<Rightarrow> reconciled" where
  "quiet res = (fst res, [], snd res)"

definition broadcast_step ::
    "platform \<Rightarrow> deployment_rpc \<Rightarrow> deployment_store \<Rightarrow> string \<Rightarrow> string \<Rightarrow> nat \<Rightarrow> deployment_step \<Rightarrow> reconciled" where
  "broadcast_step pf p s path planDigest index st =
     (let raw = the (rawTransaction st)
      in case send_transaction p raw of
           Inl m \<Rightarrow> (s, [raw], Inl (Rpc_failed m))
         | Inr hash \<Rightarrow>
             if to_lower hash \<noteq> to_lower (the (expectedHash st)) then (s, [raw], Inl Different_hash_returned)
             else (let res = record_as Step_broadcast (recordDeploymentBroadcast pf s path planDigest index)
                   in (fst res, [raw], snd res)))"

definition reconcile_unmined ::
    "platform \<Rightarrow> deployment_rpc \<Rightarrow> bool \<Rightarrow> deployment_store \<Rightarrow> string \<Rightarrow> string \<Rightarrow> nat
     \<Rightarrow> deployment_journal \<Rightarrow> deployment_step \<Rightarrow> reconciled" where
  "reconcile_unmined pf p allowBroadcast s path planDigest index r st =
     (case rpc (ask_transaction p (the (expectedHash st))) of
        Inl err \<Rightarrow> (s, [], Inl err)
      | Inr (Some t) \<Rightarrow>
          if \<not> is_pending r st t then (s, [], Inl Pending_drift)
          else if ds_state st = ''signed''
          then quiet (record_as Step_pending (recordDeploymentBroadcast pf s path planDigest index))
          else (s, [], Inr Step_pending)
      | Inr None \<Rightarrow>
          (case check_counts p r st of
             Inl err \<Rightarrow> (s, [], Inl err)
           | Inr _ \<Rightarrow> if \<not> allowBroadcast then (s, [], Inr Step_absent)
                      else broadcast_step pf p s path planDigest index st))"

definition reconcileLocked ::
    "platform \<Rightarrow> deployment_rpc \<times> deployment_rpc \<Rightarrow> (deployment_rpc \<times> deployment_rpc) option \<Rightarrow> int \<Rightarrow> bool
     \<Rightarrow> deployment_store \<Rightarrow> string \<Rightarrow> string \<Rightarrow> nat \<Rightarrow> reconciled" where
  "reconcileLocked pf primary secondary confirmations allowBroadcast s path planDigest index =
     (case readDeployment pf s path of
        Inl err \<Rightarrow> (s, [], Inl err)
      | Inr r \<Rightarrow>
          if dj_planDigest r \<noteq> planDigest then (s, [], Inl Plan_changed)
          else if \<not> index < length (dj_steps r) then (s, [], Inl Step_missing)
          else let st = dj_steps r ! index
               in if ds_state st = ''planned'' then (s, [], Inr Step_planned)
                  else (case rpc (ask_receipt (fst primary) (the (expectedHash st))) of
                          Inl err \<Rightarrow> (s, [], Inl err)
                        | Inr (Some rc) \<Rightarrow>
                            (case mined_evidence pf primary secondary confirmations st (deployer r) rc of
                               Inl err \<Rightarrow> (s, [], Inl err)
                             | Inr final \<Rightarrow>
                                 quiet (record_as (Step_mined final)
                                   (recordDeploymentMined pf s path planDigest index (rc_blockNumber final))))
                        | Inr None \<Rightarrow> reconcile_unmined pf (fst primary) allowBroadcast s path planDigest index r st))"

end
