(* ===== verification/Deployment_Protocol.thy ===== *)
theory Deployment_Protocol
  imports Deployment_Reconcile
begin

text \<open>
  The protocol of the deployment journal: how a journal may advance, that every operation of every
  process advances it and keeps it valid when it runs uninterrupted, and what a reconciliation may send
  and record. Deployment_Races runs the operations in steps.
\<close>

section \<open>Valid journals\<close>

definition deployment_valid :: "platform \<Rightarrow> deployment_journal \<Rightarrow> bool" where
  "deployment_valid pf r \<longleftrightarrow> assertJournal pf r = Inr r"

lemma assertJournal_Inr [simp]: "assertJournal pf r = Inr r' \<longleftrightarrow> r' = r \<and> deployment_valid pf r"
  by (auto simp: assertJournal_def deployment_valid_def)

lemma readDeployment_Inr [simp]: "readDeployment pf s path = Inr r \<longleftrightarrow> s path = Some r \<and> deployment_valid pf r"
  by (auto simp: readDeployment_def)

section \<open>How a journal advances\<close>

text \<open>What the plan fixes of a step, and the evidence a signed step holds.\<close>

definition step_plan :: "deployment_step \<Rightarrow> deployment_step" where
  "step_plan s = s\<lparr>ds_state := [], rawTransaction := None, expectedHash := None, calldataHash := None,
     signedPayloadDigest := None, ds_blockNumber := None\<rparr>"

definition signed_evidence ::
    "deployment_step \<Rightarrow> string option \<times> string option \<times> string option \<times> string option" where
  "signed_evidence s = (rawTransaction s, expectedHash s, calldataHash s, signedPayloadDigest s)"

definition own_rank :: "deployment_step \<Rightarrow> int option" where
  "own_rank s = map_of DEPLOYMENT_STATES (ds_state s)"

text \<open>
  A step never goes back; once signed it keeps its transaction, once mined it does not change at all.
\<close>

definition step_advances :: "deployment_step \<Rightarrow> deployment_step \<Rightarrow> bool" where
  "step_advances s s' \<longleftrightarrow> step_plan s' = step_plan s \<and>
     (\<forall>a. own_rank s = Some a \<longrightarrow> (\<exists>b. own_rank s' = Some b \<and> a \<le> b) \<and>
        (1 \<le> a \<longrightarrow> signed_evidence s' = signed_evidence s) \<and> (a = 3 \<longrightarrow> s' = s))"

definition journal_plan :: "deployment_journal \<Rightarrow> deployment_journal" where
  "journal_plan r = r\<lparr>dj_steps := map step_plan (dj_steps r), dj_generation := 0\<rparr>"

definition journal_advances :: "deployment_journal \<Rightarrow> deployment_journal \<Rightarrow> bool" where
  "journal_advances r r' \<longleftrightarrow> journal_plan r' = journal_plan r \<and> dj_generation r \<le> dj_generation r' \<and>
     list_all2 step_advances (dj_steps r) (dj_steps r')"

lemma step_advances_refl [simp]: "step_advances s s"
  by (simp add: step_advances_def)

lemma step_advances_trans: "step_advances s t \<Longrightarrow> step_advances t u \<Longrightarrow> step_advances s u"
proof -
  assume st: "step_advances s t" and tu: "step_advances t u"
  have "(\<exists>c. own_rank u = Some c \<and> a \<le> c) \<and> (1 \<le> a \<longrightarrow> signed_evidence u = signed_evidence s) \<and> (a = 3 \<longrightarrow> u = s)"
    if a: "own_rank s = Some a" for a
  proof -
    obtain b where b: "own_rank t = Some b" "a \<le> b" and e: "1 \<le> a \<longrightarrow> signed_evidence t = signed_evidence s"
      and m: "a = 3 \<longrightarrow> t = s"
      using st a by (auto simp: step_advances_def)
    obtain c where c: "own_rank u = Some c" "b \<le> c" and e': "1 \<le> b \<longrightarrow> signed_evidence u = signed_evidence t"
      and m': "b = 3 \<longrightarrow> u = t"
      using tu b(1) by (auto simp: step_advances_def)
    have "a = 3 \<longrightarrow> b = 3" using m b(1) a by auto
    then show ?thesis using b(2) c e e' m m' by auto
  qed
  moreover have "step_plan u = step_plan s" using st tu by (simp add: step_advances_def)
  ultimately show ?thesis unfolding step_advances_def by blast
qed

lemma own_rank_cases: "own_rank s = Some a \<Longrightarrow> a \<in> {0, 1, 2, 3}"
  by (auto simp: own_rank_def DEPLOYMENT_STATES_def split: if_splits)

lemma journal_advances_refl [simp]: "journal_advances r r"
  by (simp add: journal_advances_def list_all2_refl)

lemma journal_advances_trans: "journal_advances r s \<Longrightarrow> journal_advances s t \<Longrightarrow> journal_advances r t"
  unfolding journal_advances_def
  using list_all2_trans[of step_advances step_advances step_advances, OF step_advances_trans] by auto

lemma journal_advances_update:
  assumes "i < length (dj_steps r)" and "step_advances (dj_steps r ! i) st"
  shows "journal_advances r (r\<lparr>dj_steps := (dj_steps r)[i := st], dj_generation := dj_generation r + 1\<rparr>)"
proof -
  have "map step_plan ((dj_steps r)[i := st]) = map step_plan (dj_steps r)"
    using assms by (simp add: map_update step_advances_def) (metis list_update_id map_update)
  moreover have "list_all2 step_advances (dj_steps r) ((dj_steps r)[i := st])"
    using assms by (auto simp: list_all2_conv_all_nth nth_list_update)
  ultimately show ?thesis by (simp add: journal_advances_def journal_plan_def)
qed

section \<open>Every operation advances the journals\<close>

text \<open>A journal that the operations wrote is valid and its states are the four names.\<close>

definition closed_states :: "deployment_journal \<Rightarrow> bool" where
  "closed_states r \<longleftrightarrow> (\<forall>s \<in> set (dj_steps r). own_rank s \<noteq> None)"

definition deployment_ok :: "platform \<Rightarrow> deployment_journal \<Rightarrow> bool" where
  "deployment_ok pf r \<longleftrightarrow> deployment_valid pf r \<and> closed_states r"

abbreviation deployment_continues :: "platform \<Rightarrow> deployment_store \<Rightarrow> deployment_store \<Rightarrow> bool" where
  "deployment_continues pf \<equiv> continues journal_advances (deployment_ok pf)"

lemma continues_trans:
  "(continues le ok)\<^sup>*\<^sup>* s t \<Longrightarrow> (continues le ok)\<^sup>*\<^sup>* t u \<Longrightarrow> (continues le ok)\<^sup>*\<^sup>* s u"
  by (rule rtranclp_trans)

lemma deployment_rank_Rank: "deployment_rank st = Some (Rank a) \<longleftrightarrow> map_of DEPLOYMENT_STATES st = Some a"
  by (auto simp: deployment_rank_def table_lookup_def split: option.splits if_splits)

lemma deployment_rank_simps [simp]:
  "deployment_rank ''signed'' = Some (Rank 1)" "deployment_rank ''broadcast'' = Some (Rank 2)"
  "deployment_rank ''mined'' = Some (Rank 3)"
  by (simp_all add: deployment_rank_Rank DEPLOYMENT_STATES_def)

text \<open>What a transition that changes the state does; its patch touches the evidence only on signing.\<close>

definition evidence_patch :: "step_patch \<Rightarrow> bool" where
  "evidence_patch p \<longleftrightarrow> set_raw p \<noteq> None \<or> set_hash p \<noteq> None \<or> set_calldata p \<noteq> None \<or> set_digest p \<noteq> None"

lemma settle_cases:
  "settle s res = (s', out) \<Longrightarrow> (\<exists>err. res = Inl err \<and> s' = s \<and> out = Inl err) \<or> (\<exists>x. res = Inr (s', x) \<and> out = Inr x)"
  by (cases "(s, res)" rule: settle.cases) auto

lemma patched_step_advances:
  assumes "map_of DEPLOYMENT_STATES next_name = Some b" and "\<And>a. own_rank s = Some a \<Longrightarrow> b = a + 1"
    and "\<not> evidence_patch p \<or> b = 1"
  shows "step_advances s ((apply_patch p s)\<lparr>ds_state := next_name\<rparr>)" (is "step_advances s ?t")
proof -
  have "step_plan ?t = step_plan s" by (simp add: step_plan_def apply_patch_def)
  moreover have "own_rank ?t = Some b" using assms(1) by (simp add: own_rank_def apply_patch_def)
  moreover have "signed_evidence ?t = signed_evidence s" if "\<not> evidence_patch p"
    using that by (simp add: evidence_patch_def signed_evidence_def apply_patch_def patched_def)
  moreover have "b \<in> {0, 1, 2, 3}" using own_rank_cases[of ?t] calculation(2) by blast
  ultimately show ?thesis
  proof (cases "own_rank s")
    case (Some a)
    then have "b = a + 1" by (rule assms(2))
    moreover have "1 \<le> a \<Longrightarrow> signed_evidence ?t = signed_evidence s"
      using \<open>b = a + 1\<close> assms(3) \<open>\<not> evidence_patch p \<Longrightarrow> signed_evidence ?t = signed_evidence s\<close> by simp
    moreover have "a \<noteq> 3" using \<open>b = a + 1\<close> \<open>b \<in> {0, 1, 2, 3}\<close> by auto
    ultimately show ?thesis
      using Some \<open>step_plan ?t = step_plan s\<close> \<open>own_rank ?t = Some b\<close>
      by (simp add: step_advances_def)
  qed (simp add: step_advances_def)
qed

lemma transition_record_Some:
  assumes "transition_record pf r digest0 i next_name p = Inr (Some r')" and n: "map_of DEPLOYMENT_STATES next_name = Some b"
  shows "deployment_valid pf r' \<and> i < length (dj_steps r) \<and>
    r' = r\<lparr>dj_steps := (dj_steps r)[i := (apply_patch p (dj_steps r ! i))\<lparr>ds_state := next_name\<rparr>],
           dj_generation := dj_generation r + 1\<rparr> \<and> (\<forall>a. own_rank (dj_steps r ! i) = Some a \<longrightarrow> b = a + 1)"
proof -
  have rank_next: "deployment_rank next_name = Some (Rank b)" using n by (simp add: deployment_rank_Rank)
  have next_rank: "b = a + 1"
    if "own_rank st = Some a" "\<not> value_less (deployment_rank next_name) (deployment_rank (ds_state st))"
      "\<not> skips_a_rank (deployment_rank next_name) (deployment_rank (ds_state st))"
      "deployment_rank next_name \<noteq> deployment_rank (ds_state st)" for st a
  proof -
    have "deployment_rank (ds_state st) = Some (Rank a)" using that(1) by (simp add: deployment_rank_Rank own_rank_def)
    then show ?thesis using that rank_next by auto
  qed
  show ?thesis using assms(1) unfolding transition_record_def
    by (auto simp: Let_def split: if_splits intro: next_rank)
qed

lemma transition_step:
  assumes r: "transition pf s path digest0 i next_name p = (s', out)"
    and n: "map_of DEPLOYMENT_STATES next_name = Some b" and p: "\<not> evidence_patch p \<or> b = 1"
  shows "s' = s \<or> (\<exists>r r'. s path = Some r \<and> deployment_valid pf r \<and> deployment_valid pf r' \<and> i < length (dj_steps r) \<and>
    r' = r\<lparr>dj_steps := (dj_steps r)[i := (apply_patch p (dj_steps r ! i))\<lparr>ds_state := next_name\<rparr>],
           dj_generation := dj_generation r + 1\<rparr> \<and>
    s' = s(path \<mapsto> r') \<and> out = Inr r' \<and> (\<forall>a. own_rank (dj_steps r ! i) = Some a \<longrightarrow> b = a + 1))"
  using r unfolding transition_def
  by (drule_tac settle_cases) (auto simp: Let_def split: option.splits dest!: transition_record_Some[OF _ n])

lemma transition_continues:
  assumes "transition pf s path digest0 i next_name p = (s', out)"
    and "map_of DEPLOYMENT_STATES next_name = Some b" and "\<not> evidence_patch p \<or> b = 1"
  shows "(deployment_continues pf)\<^sup>*\<^sup>* s s'"
  using transition_step[OF assms]
proof (elim disjE exE conjE)
  fix r r'
  assume r: "s path = Some r" and v: "deployment_valid pf r'" and i: "i < length (dj_steps r)"
    and r': "r' = r\<lparr>dj_steps := (dj_steps r)[i := (apply_patch p (dj_steps r ! i))\<lparr>ds_state := next_name\<rparr>],
           dj_generation := dj_generation r + 1\<rparr>"
    and s': "s' = s(path \<mapsto> r')" and b: "\<forall>a. own_rank (dj_steps r ! i) = Some a \<longrightarrow> b = a + 1"
  have adv: "step_advances (dj_steps r ! i) ((apply_patch p (dj_steps r ! i))\<lparr>ds_state := next_name\<rparr>)"
    using assms(2,3) b by (intro patched_step_advances) auto
  have "closed_states r'" if "closed_states r"
    using that assms(2) set_update_subset_insert[of "dj_steps r" i "(apply_patch p (dj_steps r ! i))\<lparr>ds_state := next_name\<rparr>"]
    by (auto simp: closed_states_def r' own_rank_def apply_patch_def)
  then show ?thesis unfolding s'
    using v r journal_advances_update[OF i adv] by (intro continues_write) (auto simp: deployment_ok_def r')
qed simp

lemma state_ranks [simp]:
  "map_of DEPLOYMENT_STATES ''planned'' = Some 0" "map_of DEPLOYMENT_STATES ''signed'' = Some 1"
  "map_of DEPLOYMENT_STATES ''broadcast'' = Some 2" "map_of DEPLOYMENT_STATES ''mined'' = Some 3"
  by (simp_all add: DEPLOYMENT_STATES_def)

lemma empty_patch_evidence [simp]: "\<not> evidence_patch (empty_patch\<lparr>set_block := b\<rparr>)" "\<not> evidence_patch empty_patch"
  by (simp_all add: evidence_patch_def empty_patch_def)

lemmas signs_continues = transition_continues[where next_name = "''signed''" and b = 1, simplified]
lemmas broadcasts_continues = transition_continues[where next_name = "''broadcast''" and p = empty_patch and b = 2, simplified]
lemmas mines_continues =
  transition_continues[where next_name = "''mined''" and p = "empty_patch\<lparr>set_block := block\<rparr>" and b = 3 for block, simplified]

lemma persist_continues:
  "persistSignedDeployment pf s path digest0 i raw = (s', out) \<Longrightarrow> (deployment_continues pf)\<^sup>*\<^sup>* s s'"
  by (auto simp: persistSignedDeployment_def Let_def split: option.splits sum.splits if_splits intro: signs_continues)

lemma broadcast_continues:
  "recordDeploymentBroadcast pf s path digest0 i = (s', out) \<Longrightarrow> (deployment_continues pf)\<^sup>*\<^sup>* s s'"
  by (auto simp: recordDeploymentBroadcast_def intro: broadcasts_continues)

lemma mined_continues:
  "recordDeploymentMined pf s path digest0 i block = (s', out) \<Longrightarrow> (deployment_continues pf)\<^sup>*\<^sup>* s s'"
  unfolding recordDeploymentMined_def Let_def
  by (auto split: sum.splits if_splits prod.splits simp del: readDeployment_Inr
      intro: mines_continues broadcasts_continues rtranclp_trans[OF broadcasts_continues mines_continues])

lemma build_plan_ok:
  assumes "buildDeploymentNoncePlan pf meta steps = Inr r"
  shows "deployment_ok pf r" and "\<forall>s \<in> set (dj_steps r). ds_state s = ''planned''"
proof -
  obtain normalized where n: "map_all (plan_record pf meta) (enumerate 0 steps) = Inr normalized"
    and r: "deployment_valid pf r" "dj_steps r = normalized"
    using assms by (auto simp: buildDeploymentNoncePlan_def Let_def)
  have step_planned: "ds_state s = ''planned''" if "plan_record pf meta x = Inr s" for x s
    using that by (cases x) (auto simp: plan_record_def Let_def simp del: append.simps)
  then show planned: "\<forall>s \<in> set (dj_steps r). ds_state s = ''planned''"
    using n r(2) step_planned by (simp add: map_all_Inr list_all2_conv_all_nth all_set_conv_all_nth) metis
  then show "deployment_ok pf r" using r(1) by (simp add: deployment_ok_def closed_states_def own_rank_def)
qed

lemma executable_plan_built:
  "buildExecutableDeploymentNoncePlan pf meta steps addresses = Inr r \<Longrightarrow>
   \<exists>ps. map_all canonical_step steps = Inr ps \<and> buildDeploymentNoncePlan pf meta ps = Inr r"
  by (auto simp: buildExecutableDeploymentNoncePlan_def split: option.splits)

lemma reserve_continues:
  "deployment_ok pf expected \<Longrightarrow> reserveDeploymentNoncePlan pf seen s path expected = (s', out) \<Longrightarrow>
   (deployment_continues pf)\<^sup>*\<^sup>* s s'"
  by (auto simp: reserveDeploymentNoncePlan_def Let_def split: option.splits intro!: continues_write)

lemma quiet_continues:
  "(\<And>s' out. res = (s', out) \<Longrightarrow> (deployment_continues pf)\<^sup>*\<^sup>* s s') \<Longrightarrow>
   quiet (record_as x res) = (s', sent, out) \<Longrightarrow> (deployment_continues pf)\<^sup>*\<^sup>* s s'"
  by (cases res) (auto simp: quiet_def record_as_def)

lemma broadcast_step_continues:
  "broadcast_step pf p s path digest0 i st = (s', sent, out) \<Longrightarrow> (deployment_continues pf)\<^sup>*\<^sup>* s s'"
  by (auto simp: broadcast_step_def record_as_def Let_def split: sum.splits if_splits
      intro: broadcast_continues[OF surjective_pairing])

lemma reconcile_continues:
  assumes "reconcileLocked pf primary secondary conf allow s path digest0 i = (s', sent, out)"
  shows "(deployment_continues pf)\<^sup>*\<^sup>* s s'"
proof -
  have "(deployment_continues pf)\<^sup>*\<^sup>* s t"
    if "reconcile_unmined pf p allow s path digest0 i r st = (t, sent, out)" for p r st t
    using that by (auto simp: reconcile_unmined_def split: sum.splits option.splits if_splits
        intro: broadcast_step_continues quiet_continues[OF broadcast_continues])
  then show ?thesis using assms unfolding reconcileLocked_def
    by (auto simp: Let_def split: sum.splits option.splits if_splits
        intro: quiet_continues[OF mined_continues])
qed

lemma reconcile_run_continues:
  "(deployment_continues pf)\<^sup>*\<^sup>* s (fst (reconcileLocked pf primary secondary conf allow s path digest0 i))"
  by (cases "reconcileLocked pf primary secondary conf allow s path digest0 i") (auto intro: reconcile_continues)

section \<open>The machine of all operations\<close>

text \<open>
  Operations of any number of processes, in any order, each run to its end before the next. The code
  ensures this among reconciliations, by the lock of the journal; signing takes no lock, and what
  happens when it overlaps with other operations is in Deployment_Races.
\<close>

datatype deployment_op =
    Reserve_plan deployment_store string plan_metadata "plan_step list"
  | Sign_step string string nat string
  | Broadcast_step string string nat
  | Mine_step string string nat int
  | Reconcile_step "deployment_rpc \<times> deployment_rpc" "(deployment_rpc \<times> deployment_rpc) option" int bool string string nat

fun deployment_run :: "platform \<Rightarrow> deployment_store \<Rightarrow> deployment_op \<Rightarrow> deployment_store" where
  "deployment_run pf s (Reserve_plan seen path meta steps) =
     (case buildDeploymentNoncePlan pf meta steps of
        Inl _ \<Rightarrow> s
      | Inr expected \<Rightarrow> fst (reserveDeploymentNoncePlan pf seen s path expected))"
| "deployment_run pf s (Sign_step path digest0 i raw) = fst (persistSignedDeployment pf s path digest0 i raw)"
| "deployment_run pf s (Broadcast_step path digest0 i) = fst (recordDeploymentBroadcast pf s path digest0 i)"
| "deployment_run pf s (Mine_step path digest0 i block) = fst (recordDeploymentMined pf s path digest0 i block)"
| "deployment_run pf s (Reconcile_step primary secondary conf allow path digest0 i) =
     fst (reconcileLocked pf primary secondary conf allow s path digest0 i)"

interpretation deployment: staged_journal journal_advances "deployment_ok pf" "deployment_run pf" for pf
proof unfold_locales
  fix s and op :: deployment_op
  show "(deployment_continues pf)\<^sup>*\<^sup>* s (deployment_run pf s op)"
    by (cases op) (auto split: sum.splits intro: reserve_continues[OF build_plan_ok(1) surjective_pairing]
        persist_continues[OF surjective_pairing] broadcast_continues[OF surjective_pairing]
        mined_continues[OF surjective_pairing] reconcile_run_continues)
qed (auto intro: journal_advances_trans)

section \<open>Reading a valid journal\<close>

lemma check_step_signed:
  "check_step pf r (i, s) = Inr u \<Longrightarrow> rank_at_least 1 (deployment_rank (ds_state s)) \<Longrightarrow>
   \<exists>raw h tx. rawTransaction s = Some raw \<and> expectedHash s = Some h \<and> to_lower h = to_lower (keccak256 pf raw) \<and>
     transaction_from pf raw = Some tx \<and> transaction_matches pf r s tx"
  by (cases "expectedHash s"; cases "rawTransaction s") (auto simp: check_step_def check_signed_def raw_text_def)

lemma check_step_facts:
  "check_step pf r (i, s) = Inr u \<Longrightarrow> ds_nonce s = startNonce r + int i \<and> in_table STEP_KINDS (ds_kind s) \<and>
     (ds_state s = ''mined'' \<longrightarrow> (\<exists>b. ds_blockNumber s = Some b \<and> 0 \<le> b))"
  by (auto simp: check_step_def split: option.splits)

lemma deployment_valid_step:
  assumes "deployment_valid pf r" and "i < length (dj_steps r)"
  shows "check_step pf r (i, dj_steps r ! i) = Inr ()"
proof -
  have "(i, dj_steps r ! i) \<in> set (enumerate 0 (dj_steps r))"
    using assms(2) by (simp add: in_set_enumerate_eq)
  then show ?thesis using assms(1) by (auto simp: deployment_valid_def assertJournal_def check_all_returns)
qed

lemma own_rank_names: "own_rank s \<noteq> None \<longleftrightarrow> ds_state s \<in> {''planned'', ''signed'', ''broadcast'', ''mined''}"
  by (auto simp: own_rank_def DEPLOYMENT_STATES_def)

lemma own_rank_signed:
  "own_rank s \<noteq> None \<Longrightarrow> ds_state s \<noteq> ''planned'' \<Longrightarrow> rank_at_least 1 (deployment_rank (ds_state s))"
  unfolding own_rank_names by auto

lemma reachable_ok:
  "foldl (deployment_run pf) (\<lambda>_. None) ops path = Some r \<Longrightarrow> deployment_ok pf r"
  using deployment.run_ok[of pf "\<lambda>_. None" ops] by (auto simp: files_ok_def)

section \<open>Properties\<close>

text \<open>
   Reserving a plan returns a valid journal with exactly the expected plan; a file that exists, also
  one another process created since it was looked up, is never overwritten.
\<close>

theorem reserve_binds_plan:
  assumes "reserveDeploymentNoncePlan pf seen s path expected = (s', Inr r)"
  shows "deployment_valid pf r \<and> same_plan r expected \<and> (seen path = Some r \<or> s' path = Some r) \<and>
    (\<forall>q. s q \<noteq> None \<longrightarrow> s' q = s q)"
  using assms
  by (auto simp: reserveDeploymentNoncePlan_def same_plan_def Let_def split: option.splits if_splits)

lemma broadcast_step_sent: "broadcast_step pf p s path digest0 i st = (s', sent, out) \<Longrightarrow> sent = [the (rawTransaction st)]"
  by (auto simp: broadcast_step_def Let_def split: sum.splits if_splits)

lemma quiet_sent [simp]: "quiet res = (s', sent, out) \<longleftrightarrow> sent = [] \<and> res = (s', out)"
  by (auto simp: quiet_def)

lemma unmined_sent:
  assumes "reconcile_unmined pf p allow s path digest0 i r st = (s', sent, out)" and "sent \<noteq> []"
  shows "sent = [the (rawTransaction st)] \<and> allow \<and> ask_transaction p (the (expectedHash st)) = Inr None \<and>
    check_counts p r st = Inr ()"
  using assms by (auto simp: reconcile_unmined_def split: sum.splits option.splits if_splits
      dest: broadcast_step_sent)

lemma reconcile_sent:
  assumes "reconcileLocked pf primary secondary conf allow s path digest0 i = (s', sent, out)" and "sent \<noteq> []"
  shows "\<exists>r. s path = Some r \<and> deployment_valid pf r \<and> dj_planDigest r = digest0 \<and> i < length (dj_steps r) \<and>
    ds_state (dj_steps r ! i) \<noteq> ''planned'' \<and> sent = [the (rawTransaction (dj_steps r ! i))] \<and> allow \<and>
    ask_receipt (fst primary) (the (expectedHash (dj_steps r ! i))) = Inr None \<and>
    ask_transaction (fst primary) (the (expectedHash (dj_steps r ! i))) = Inr None \<and>
    check_counts (fst primary) r (dj_steps r ! i) = Inr ()"
  using assms by (auto simp: reconcileLocked_def Let_def split: sum.splits option.splits if_splits
      dest: unmined_sent)

lemma check_counts_Inr:
  "check_counts p r st = Inr u \<longleftrightarrow> (\<exists>latest pending. ask_count p (deployer r) ''latest'' = Inr latest \<and>
     ask_count p (deployer r) ''pending'' = Inr pending \<and> startNonce r \<le> latest \<and> latest \<le> ds_nonce st \<and>
     startNonce r \<le> pending \<and> pending \<le> ds_nonce st)"
  by (auto simp: check_counts_def not_less)

text \<open>
   A reconciliation broadcasts only the bytes signed for the step, with permission, when the provider
  knows neither a receipt nor the transaction and its transaction counts lie between the start of the
  reserved range and the step's nonce.
\<close>

theorem reconcile_broadcast_safe:
  assumes "foldl (deployment_run pf) (\<lambda>_. None) ops = s"
    and "reconcileLocked pf primary secondary conf allow s path digest0 i = (s', sent, out)" and "sent \<noteq> []"
  shows "\<exists>r raw h latest pending. s path = Some r \<and> dj_planDigest r = digest0 \<and> i < length (dj_steps r) \<and>
    rawTransaction (dj_steps r ! i) = Some raw \<and> sent = [raw] \<and> allow \<and>
    expectedHash (dj_steps r ! i) = Some h \<and> to_lower h = to_lower (keccak256 pf raw) \<and>
    ask_receipt (fst primary) h = Inr None \<and> ask_transaction (fst primary) h = Inr None \<and>
    ask_count (fst primary) (deployer r) ''latest'' = Inr latest \<and>
    ask_count (fst primary) (deployer r) ''pending'' = Inr pending \<and>
    startNonce r \<le> latest \<and> latest \<le> startNonce r + int i \<and>
    startNonce r \<le> pending \<and> pending \<le> startNonce r + int i"
proof -
  obtain r where r: "s path = Some r" "deployment_valid pf r" "dj_planDigest r = digest0" "i < length (dj_steps r)"
      "ds_state (dj_steps r ! i) \<noteq> ''planned''" "sent = [the (rawTransaction (dj_steps r ! i))]" "allow"
      "ask_receipt (fst primary) (the (expectedHash (dj_steps r ! i))) = Inr None"
      "ask_transaction (fst primary) (the (expectedHash (dj_steps r ! i))) = Inr None"
      "check_counts (fst primary) r (dj_steps r ! i) = Inr ()"
    using reconcile_sent[OF assms(2,3)] by blast
  have "own_rank (dj_steps r ! i) \<noteq> None"
    using reachable_ok[of pf ops path r] assms(1) r(1,4) by (simp add: deployment_ok_def closed_states_def)
  note valid = deployment_valid_step[OF r(2,4)]
  obtain raw h where "rawTransaction (dj_steps r ! i) = Some raw" "expectedHash (dj_steps r ! i) = Some h"
      "to_lower h = to_lower (keccak256 pf raw)"
    using check_step_signed[OF valid own_rank_signed[OF \<open>own_rank (dj_steps r ! i) \<noteq> None\<close> r(5)]] by blast
  moreover have "ds_nonce (dj_steps r ! i) = startNonce r + int i" using check_step_facts[OF valid] by simp
  ultimately show ?thesis using r by (auto simp: check_counts_Inr)
qed

text \<open>
  C12. A step is reported mined only on the evidence of both providers: both returned a successful
  receipt of the step's hash in the same block, twice, both heads were at least the required number of
  confirmations past it, and the block number it returns is that block's.
\<close>

theorem reconcile_mined_corroborated:
  assumes "reconcileLocked pf primary secondary conf allow s path digest0 i = (s', sent, Inr (Step_mined rc))"
  shows "\<exists>r s1 s2 h rc1 rc2 rc3 head1 head2. s path = Some r \<and> dj_planDigest r = digest0 \<and> secondary = Some (s1, s2) \<and>
    h = the (expectedHash (dj_steps r ! i)) \<and> sent = [] \<and>
    ask_receipt (fst primary) h = Inr (Some rc1) \<and> ask_receipt s1 h = Inr (Some rc2) \<and>
    ask_receipt (snd primary) h = Inr (Some rc) \<and> ask_receipt s2 h = Inr (Some rc3) \<and>
    list_all (\<lambda>c. rc_status c = 1 \<and> to_lower (rc_blockHash c) = to_lower (rc_blockHash rc) \<and>
       rc_blockNumber c = rc_blockNumber rc \<and>
       canonicalReceiptTransactionHash c = Inr (to_lower h)) [rc1, rc2, rc, rc3] \<and>
    ask_blockNumber (fst primary) = Inr head1 \<and> ask_blockNumber s1 = Inr head2 \<and> 1 \<le> conf \<and>
    rc_blockNumber rc + conf - 1 \<le> head1 \<and> rc_blockNumber rc + conf - 1 \<le> head2"
proof -
  obtain r rc1 where r: "s path = Some r" "dj_planDigest r = digest0" "sent = []"
      "ask_receipt (fst primary) (the (expectedHash (dj_steps r ! i))) = Inr (Some rc1)"
      "mined_evidence pf primary secondary conf (dj_steps r ! i) (deployer r) rc1 = Inr rc"
    using assms
    by (auto simp: reconcileLocked_def reconcile_unmined_def broadcast_step_def record_as_def Let_def
        split: sum.splits option.splits if_splits)
  have canon: "canonicalReceiptTransactionHash c = Inr (to_lower (the (expectedHash st)))"
    if "canonicalReceipt pf p st dep c b = Inr u" for p st dep c b u
    using that by (auto simp: canonicalReceipt_def)
  obtain s1 s2 rc2 head1 head2 where ev: "secondary = Some (s1, s2)" "rc_status rc1 = 1" "rc_status rc2 = 1"
      "canonicalReceipt pf (fst primary) (dj_steps r ! i) (deployer r) rc1 False = Inr ()"
      "ask_receipt s1 (the (expectedHash (dj_steps r ! i))) = Inr (Some rc2)"
      "canonicalReceipt pf s1 (dj_steps r ! i) (deployer r) rc2 False = Inr ()" "same_receipt rc2 rc1"
      "1 \<le> conf" "ask_blockNumber (fst primary) = Inr head1" "ask_blockNumber s1 = Inr head2"
      "rc_blockNumber rc1 + conf - 1 \<le> head1" "rc_blockNumber rc1 + conf - 1 \<le> head2"
      "final_receipts pf (snd primary) s2 (dj_steps r ! i) (deployer r) rc1 = Inr rc"
    using r(5) by (auto simp: mined_evidence_def succeeded_def Let_def not_less split: option.splits)
  obtain rc3 where "ask_receipt (snd primary) (the (expectedHash (dj_steps r ! i))) = Inr (Some rc)"
      "ask_receipt s2 (the (expectedHash (dj_steps r ! i))) = Inr (Some rc3)"
      "rc_status rc = 1" "rc_status rc3 = 1"
      "canonicalReceipt pf (snd primary) (dj_steps r ! i) (deployer r) rc True = Inr ()"
      "canonicalReceipt pf s2 (dj_steps r ! i) (deployer r) rc3 True = Inr ()"
      "evidence_unchanged (dj_steps r ! i) rc1 rc = Inr ()" "evidence_unchanged (dj_steps r ! i) rc1 rc3 = Inr ()"
    using ev(13) by (auto simp: final_receipts_def succeeded_def check_all_returns Let_def split: option.splits)
  then show ?thesis using r(1-4) ev canon
    by (auto simp: same_receipt_def evidence_unchanged_def)
qed

lemma to_string_state: "in_table DEPLOYMENT_STATES ''toString''" "\<not> rank_at_least 1 (deployment_rank ''toString'')"
  by (simp_all add: in_table_def deployment_rank_def table_lookup_def DEPLOYMENT_STATES_def object_prototype_def)

lemma check_step_same: "check_step pf (r\<lparr>dj_steps := steps\<rparr>) = check_step pf r"
proof -
  have "transaction_matches pf (r\<lparr>dj_steps := steps\<rparr>) s tx = transaction_matches pf r s tx" for s tx
    by (simp add: transaction_matches_def)
  then have "check_signed pf (r\<lparr>dj_steps := steps\<rparr>) s = check_signed pf r s" for s by (simp add: check_signed_def)
  moreover have "check_create pf (r\<lparr>dj_steps := steps\<rparr>) s = check_create pf r s" for s by (simp add: check_create_def)
  ultimately show ?thesis by (simp add: check_step_def cong: if_cong)
qed

text \<open>
  C14. \<open>assertJournal\<close> does not close the state names: a valid journal stays valid when the state of any
  step is replaced by \<open>toString\<close>, a name every object inherits, even without the raw bytes that a step
  past planned must have.
\<close>

theorem inherited_state_accepted:
  assumes "deployment_valid pf r" and "i < length (dj_steps r)"
  shows "deployment_valid pf (r\<lparr>dj_steps := (dj_steps r)[i := (dj_steps r ! i)\<lparr>ds_state := ''toString'',
    rawTransaction := None\<rparr>]\<rparr>)" (is "deployment_valid pf ?r")
proof -
  let ?s = "(dj_steps r ! i)\<lparr>ds_state := ''toString'', rawTransaction := None\<rparr>"
  have "check_step pf r (i, ?s) = Inr ()"
    using deployment_valid_step[OF assms] by (auto simp: check_step_def check_create_def check_create2_def to_string_state)
  then have steps: "check_all (check_step pf r) (enumerate 0 (dj_steps ?r)) = Inr ()"
    using deployment_valid_step[OF assms(1)]
    by (auto simp: in_set_enumerate_eq nth_list_update[OF assms(2)])
  have "map step_view (dj_steps ?r) = map step_view (dj_steps r)"
    by (simp add: map_update step_view_def) (metis list_update_id map_update step_view_def)
  then have "immutableView ?r = immutableView r" by (simp add: immutableView_def)
  then show ?thesis using assms(1) steps unfolding check_step_same
    by (auto simp: deployment_valid_def assertJournal_def check_step_same)
qed

end
