(* ===== verification/Deployment_Races.thy ===== *)
theory Deployment_Races
  imports Deployment_Protocol
begin

text \<open>
  The deployment journal when processes race. Signing a step and recording a state take no lock: a
  process reads the file, computes the next record, and writes it, and other processes may do anything
  in between. Here these operations run in steps. As long as nothing else happens on the journals while
  one is under way, the journal only goes forward; without this, a signing overwrites whatever the
  others wrote after it read the file.
\<close>

section \<open>The operations in steps\<close>

datatype deployment_call =
    Sign_call string string nat string
  | Broadcast_call string string nat
  | Mine_call string string nat int

text \<open>
  Where a call is: about to read the file for a transition of the step \<open>index\<close>, about to write the record
  it computed, or about to read the file back. The list holds the transitions that follow.
\<close>

datatype phase =
    Reading string string nat string step_patch "(string \<times> step_patch) list"
  | Writing string deployment_journal string nat "(string \<times> step_patch) list"
  | Returning string string nat "(string \<times> step_patch) list"

type_synonym call_result = "deployment_error + deployment_journal"

text \<open>A call up to its first transition: signing and recording as mined read the file once before.\<close>

fun call_start :: "platform \<Rightarrow> deployment_store \<Rightarrow> deployment_call \<Rightarrow> deployment_error + phase" where
  "call_start pf s (Sign_call path planDigest index raw) =
     (case transaction_from pf raw of
        None \<Rightarrow> Inl Raw_unparsable
      | Some tx \<Rightarrow> and_then (readDeployment pf s path) (\<lambda>current.
          require (index < length (dj_steps current)) Step_missing
          (let st = dj_steps current ! index
           in require (to_lower (keccak256 pf (tx_data tx)) = to_lower (expectedCalldataHash st)) Calldata_differs
                (Inr (Reading path planDigest index ''signed'' (signed_patch pf raw tx st) [])))))"
| "call_start pf s (Broadcast_call path planDigest index) =
     Inr (Reading path planDigest index ''broadcast'' empty_patch [])"
| "call_start pf s (Mine_call path planDigest index block) =
     and_then (readDeployment pf s path) (\<lambda>current.
       let mined = (''mined'', empty_patch\<lparr>set_block := Some block\<rparr>)
       in if index < length (dj_steps current) \<and> ds_state (dj_steps current ! index) = ''signed''
          then Inr (Reading path planDigest index ''broadcast'' empty_patch [mined])
          else Inr (Reading path planDigest index (fst mined) (snd mined) []))"

fun after_transition :: "string \<Rightarrow> string \<Rightarrow> nat \<Rightarrow> (string \<times> step_patch) list \<Rightarrow> deployment_journal \<Rightarrow> phase + call_result" where
  "after_transition path planDigest index [] r = Inr (Inr r)"
| "after_transition path planDigest index ((nextState, patch) # rest) r =
     Inl (Reading path planDigest index nextState patch rest)"

text \<open>One step of a call: the files after it, and the next phase or the result.\<close>

fun phase_step :: "platform \<Rightarrow> deployment_store \<Rightarrow> phase \<Rightarrow> deployment_store \<times> (phase + call_result)" where
  "phase_step pf s (Reading path planDigest index nextState patch rest) =
     (s, case readDeployment pf s path of
           Inl err \<Rightarrow> Inr (Inl err)
         | Inr r \<Rightarrow> (case transition_record pf r planDigest index nextState patch of
             Inl err \<Rightarrow> Inr (Inl err)
           | Inr None \<Rightarrow> after_transition path planDigest index rest r
           | Inr (Some r') \<Rightarrow> Inl (Writing path r' planDigest index rest)))"
| "phase_step pf s (Writing path r' planDigest index rest) =
     (s(path \<mapsto> r'), Inl (Returning path planDigest index rest))"
| "phase_step pf s (Returning path planDigest index rest) =
     (s, case readDeployment pf s path of
           Inl err \<Rightarrow> Inr (Inl err)
         | Inr r \<Rightarrow> after_transition path planDigest index rest r)"

text \<open>
  The files, the calls under way with their processes, and the results of those that ended. A process
  begins a call, advances it by one step, or runs a whole operation at once: a reservation, or a
  reconciliation, which holds the lock of the journal against other reconciliations.
\<close>

record race_state =
  files :: deployment_store
  running :: "(nat \<times> phase) list"
  results :: "(nat \<times> call_result) list"

datatype race_event =
    Begin nat deployment_call
  | Advance nat
  | Whole deployment_op

fun race_step :: "platform \<Rightarrow> race_state \<Rightarrow> race_event \<Rightarrow> race_state" where
  "race_step pf g (Begin p c) =
     (if map_of (running g) p \<noteq> None then g
      else case call_start pf (files g) c of
             Inl err \<Rightarrow> g\<lparr>results := (p, Inl err) # results g\<rparr>
           | Inr ph \<Rightarrow> g\<lparr>running := AList.update p ph (running g)\<rparr>)"
| "race_step pf g (Advance p) =
     (case map_of (running g) p of
        None \<Rightarrow> g
      | Some ph \<Rightarrow> (case phase_step pf (files g) ph of
            (s', Inl ph') \<Rightarrow> g\<lparr>files := s', running := AList.update p ph' (running g)\<rparr>
          | (s', Inr res) \<Rightarrow> g\<lparr>files := s', running := AList.delete p (running g), results := (p, res) # results g\<rparr>))"
| "race_step pf g (Whole op) = g\<lparr>files := deployment_run pf (files g) op\<rparr>"

abbreviation race_run :: "platform \<Rightarrow> race_state \<Rightarrow> race_event list \<Rightarrow> race_state" where
  "race_run pf \<equiv> foldl (race_step pf)"

definition idle :: "deployment_store \<Rightarrow> race_state" where
  "idle s = \<lparr>files = s, running = [], results = []\<rparr>"

text \<open>Nothing begins and no whole operation runs while a call is under way.\<close>

fun separate :: "platform \<Rightarrow> race_state \<Rightarrow> race_event list \<Rightarrow> bool" where
  "separate pf g [] \<longleftrightarrow> True"
| "separate pf g (e # es) \<longleftrightarrow>
     (case e of Advance p \<Rightarrow> True | _ \<Rightarrow> running g = []) \<and> separate pf (race_step pf g e) es"

section \<open>A call that nothing interrupts is the operation of the journal\<close>

lemma transition_record_valid: "transition_record pf r d i n pt = Inr (Some r') \<Longrightarrow> deployment_valid pf r'"
  by (auto simp: transition_record_def Let_def split: if_splits)

lemma transition_uninterrupted:
  "files (race_run pf \<lparr>files = s, running = [(p, Reading path d i n pt [])], results = rs\<rparr> [Advance p, Advance p, Advance p]) =
     fst (transition pf s path d i n pt)"
proof (cases "readDeployment pf s path")
  case (Inr r)
  show ?thesis
  proof (cases "transition_record pf r d i n pt")
    case (Inr x)
    show ?thesis
    proof (cases x)
      case (Some r')
      then have "readDeployment pf (s(path \<mapsto> r')) path = Inr r'"
        using Inr transition_record_valid[of pf r d i n pt] by simp
      then show ?thesis
        using Some Inr \<open>readDeployment pf s path = Inr r\<close> by (simp add: transition_def Let_def del: readDeployment_Inr)
    qed (use Inr \<open>readDeployment pf s path = Inr r\<close> in \<open>simp add: transition_def del: readDeployment_Inr\<close>)
  qed (use Inr in \<open>simp add: transition_def del: readDeployment_Inr\<close>)
qed (simp add: transition_def del: readDeployment_Inr)

lemma sign_uninterrupted:
  "files (race_run pf (idle s) [Begin p (Sign_call path d i raw), Advance p, Advance p, Advance p]) =
     fst (persistSignedDeployment pf s path d i raw)"
proof (cases "call_start pf s (Sign_call path d i raw)")
  case (Inl err)
  then have "fst (persistSignedDeployment pf s path d i raw) = s"
    by (auto simp: persistSignedDeployment_def Let_def simp del: readDeployment_Inr
        split: option.splits sum.splits if_splits)
  then show ?thesis using Inl by (simp add: idle_def del: call_start.simps)
next
  case (Inr ph)
  then obtain tx r where *: "transaction_from pf raw = Some tx" "readDeployment pf s path = Inr r"
    "i < length (dj_steps r)"
    "to_lower (keccak256 pf (tx_data tx)) = to_lower (expectedCalldataHash (dj_steps r ! i))"
    "ph = Reading path d i ''signed'' (signed_patch pf raw tx (dj_steps r ! i)) []"
    by (auto simp: Let_def split: option.splits)
  have "race_step pf (idle s) (Begin p (Sign_call path d i raw)) = \<lparr>files = s, running = [(p, ph)], results = []\<rparr>"
    using Inr by (simp add: idle_def del: call_start.simps)
  moreover have "persistSignedDeployment pf s path d i raw =
      transition pf s path d i ''signed'' (signed_patch pf raw tx (dj_steps r ! i))"
    using * by (simp add: persistSignedDeployment_def Let_def del: readDeployment_Inr)
  ultimately show ?thesis using transition_uninterrupted[of pf s p path d i _ _ "[]"] * by (simp only: foldl.simps)
qed

section \<open>Calls that do not overlap\<close>

definition patch_ok :: "string \<Rightarrow> step_patch \<Rightarrow> bool" where
  "patch_ok n pt \<longleftrightarrow> (\<exists>b. map_of DEPLOYMENT_STATES n = Some b \<and> (\<not> evidence_patch pt \<or> b = 1))"

abbreviation rest_ok :: "(string \<times> step_patch) list \<Rightarrow> bool" where
  "rest_ok rest \<equiv> \<forall>(n, pt) \<in> set rest. patch_ok n pt"

text \<open>A phase whose next write continues the files.\<close>

fun phase_ok :: "platform \<Rightarrow> deployment_store \<Rightarrow> phase \<Rightarrow> bool" where
  "phase_ok pf s (Reading path d i n pt rest) \<longleftrightarrow> patch_ok n pt \<and> rest_ok rest"
| "phase_ok pf s (Writing path r' d i rest) \<longleftrightarrow> (deployment_continues pf)\<^sup>*\<^sup>* s (s(path \<mapsto> r')) \<and> rest_ok rest"
| "phase_ok pf s (Returning path d i rest) \<longleftrightarrow> rest_ok rest"

lemma record_continues:
  assumes "s path = Some r" and "deployment_valid pf r" and "transition_record pf r d i n pt = Inr (Some r')" and "patch_ok n pt"
  shows "(deployment_continues pf)\<^sup>*\<^sup>* s (s(path \<mapsto> r'))"
proof -
  obtain b where b: "map_of DEPLOYMENT_STATES n = Some b" "\<not> evidence_patch pt \<or> b = 1"
    using assms(4) by (auto simp: patch_ok_def)
  have "readDeployment pf s path = Inr r" "readDeployment pf (s(path \<mapsto> r')) path = Inr r'"
    using assms(1,2) transition_record_valid[OF assms(3)] by simp_all
  then have "transition pf s path d i n pt = (s(path \<mapsto> r'), Inr r')"
    using assms(3) by (simp add: transition_def Let_def del: readDeployment_Inr)
  from transition_continues[OF this b] show ?thesis .
qed

lemma patch_ok_names [simp]:
  "patch_ok ''signed'' pt" "patch_ok ''broadcast'' empty_patch" "patch_ok ''mined'' (empty_patch\<lparr>set_block := b\<rparr>)"
  by (simp_all add: patch_ok_def)

lemma call_start_ok:
  assumes "call_start pf s c = Inr ph"
  shows "phase_ok pf s ph"
proof (cases c)
  case (Sign_call path d i raw)
  then obtain tx where "transaction_from pf raw = Some tx" using assms by (auto split: option.splits)
  then show ?thesis using assms Sign_call by (auto simp: Let_def simp del: readDeployment_Inr)
next
  case (Broadcast_call path d i)
  then show ?thesis using assms by auto
next
  case (Mine_call path d i block)
  then show ?thesis using assms by (auto simp: Let_def simp del: readDeployment_Inr split: if_splits)
qed

lemma after_transition_ok:
  "after_transition path d i rest r = Inl ph \<Longrightarrow> rest_ok rest \<Longrightarrow> phase_ok pf s ph"
  by (cases "(path, d, i, rest, r)" rule: after_transition.cases) auto

lemma phase_step_ok:
  assumes "phase_step pf s ph = (s', out)" and "phase_ok pf s ph"
  shows "(deployment_continues pf)\<^sup>*\<^sup>* s s' \<and> (\<forall>ph'. out = Inl ph' \<longrightarrow> phase_ok pf s' ph')"
  using assms
  by (cases ph) (auto split: sum.splits option.splits intro: record_continues after_transition_ok
      simp del: after_transition.simps)

definition race_ok :: "platform \<Rightarrow> race_state \<Rightarrow> bool" where
  "race_ok pf g \<longleftrightarrow> running g = [] \<or> (\<exists>p ph. running g = [(p, ph)] \<and> phase_ok pf (files g) ph)"

lemma separate_step:
  assumes "race_ok pf g" and "case e of Advance p \<Rightarrow> True | _ \<Rightarrow> running g = []"
  shows "race_ok pf (race_step pf g e) \<and> (deployment_continues pf)\<^sup>*\<^sup>* (files g) (files (race_step pf g e))"
proof (cases e)
  case (Begin p c)
  then show ?thesis
    using assms call_start_ok[of pf "files g" c] by (auto simp: race_ok_def split: sum.splits)
next
  case (Advance p)
  show ?thesis
  proof (cases "map_of (running g) p")
    case (Some ph)
    then have g: "running g = [(p, ph)]" "phase_ok pf (files g) ph"
      using assms(1) by (auto simp: race_ok_def split: if_splits)
    obtain s' out where st: "phase_step pf (files g) ph = (s', out)" by (cases "phase_step pf (files g) ph")
    from phase_step_ok[OF this g(2)] show ?thesis
      using Advance g(1) st by (cases out) (auto simp: race_ok_def)
  qed (use assms Advance in auto)
next
  case (Whole op)
  then show ?thesis using assms deployment.step_continues[of pf "files g" op] by (auto simp: race_ok_def)
qed

lemma separate_run:
  "separate pf g es \<Longrightarrow> race_ok pf g \<Longrightarrow> race_ok pf (race_run pf g es) \<and>
   files_le journal_advances (files g) (files (race_run pf g es)) \<and>
   (files_ok (deployment_ok pf) (files g) \<longrightarrow> files_ok (deployment_ok pf) (files (race_run pf g es)))"
proof (induction es arbitrary: g)
  case (Cons e es)
  have st: "race_ok pf (race_step pf g e)" "(deployment_continues pf)\<^sup>*\<^sup>* (files g) (files (race_step pf g e))"
    using separate_step[of pf g e] Cons.prems by auto
  have "files_le journal_advances (files g) (files (race_step pf g e)) \<and>
      (files_ok (deployment_ok pf) (files g) \<longrightarrow> files_ok (deployment_ok pf) (files (race_step pf g e)))"
    using st(2) by (induction rule: rtranclp_induct)
      (auto intro: deployment.files_le_refl deployment.files_le_trans deployment.continues_le deployment.continues_ok)
  then show ?case using Cons.IH[OF _ st(1)] Cons.prems(1) deployment.files_le_trans by auto
qed (simp add: deployment.files_le_refl)

lemma separate_append: "separate pf g (es @ es') \<longleftrightarrow> separate pf g es \<and> separate pf (race_run pf g es) es'"
  by (induction es arbitrary: g) auto

lemma race_ok_idle [simp]: "race_ok pf (idle s)" "files (idle s) = s" "running (idle s) = []"
  by (simp_all add: race_ok_def idle_def)

section \<open>Properties\<close>

text \<open>
  C11. While no two operations overlap, the journal of a deployment only goes forward: whatever the
  processes do, in steps, as long as nothing begins and no reservation or reconciliation runs while a
  signing or a recording is under way, its plan and its digest stay the same, no step goes back to an
  earlier state, the transaction signed for a step is never replaced, and a mined step never changes
  again. The code does not enforce the condition, see \<open>signing_overwrites\<close>.
\<close>

theorem deployment_evidence_final:
  assumes "separate pf (idle s) es" and "s path = Some r"
  shows "\<exists>r'. files (race_run pf (idle s) es) path = Some r' \<and> immutableView r' = immutableView r \<and>
    dj_planDigest r' = dj_planDigest r \<and> length (dj_steps r') = length (dj_steps r) \<and>
    (\<forall>i < length (dj_steps r). \<forall>a. own_rank (dj_steps r ! i) = Some a \<longrightarrow>
       (\<exists>b. own_rank (dj_steps r' ! i) = Some b \<and> a \<le> b) \<and>
       (1 \<le> a \<longrightarrow> signed_evidence (dj_steps r' ! i) = signed_evidence (dj_steps r ! i)) \<and>
       (a = 3 \<longrightarrow> dj_steps r' ! i = dj_steps r ! i))"
proof -
  obtain r' where r': "files (race_run pf (idle s) es) path = Some r'" and adv: "journal_advances r r'"
    using separate_run[OF assms(1) race_ok_idle(1)] assms(2) unfolding files_le_def by auto
  have view: "step_view (step_plan x) = step_view x" for x
    by (simp add: step_view_def step_plan_def)
  have plan: "journal_plan r' = journal_plan r" using adv by (simp add: journal_advances_def)
  have "immutableView (journal_plan x) = immutableView x" for x
    by (simp add: immutableView_def journal_plan_def view comp_def)
  then have "immutableView r' = immutableView r" using plan by metis
  moreover have "dj_planDigest (journal_plan x) = dj_planDigest x" for x by (simp add: journal_plan_def)
  then have "dj_planDigest r' = dj_planDigest r" using plan by metis
  moreover have "list_all2 step_advances (dj_steps r) (dj_steps r')" using adv by (simp add: journal_advances_def)
  ultimately show ?thesis using r' unfolding list_all2_conv_all_nth step_advances_def by auto
qed

text \<open>
  C10. While no two operations overlap, no step is sent as two different transactions: if two
  reconciliations of the same step broadcast something, with any steps of any processes before, between
  and after, they broadcast the same bytes, provided nothing begins and no reservation or reconciliation
  runs while a signing or a recording is under way.
\<close>

theorem one_transaction_per_step:
  assumes "separate pf (idle (\<lambda>_. None)) (es @ Whole (Reconcile_step primary secondary conf allow path digest1 i) # es')"
    and "reconcileLocked pf primary secondary conf allow (files (race_run pf (idle (\<lambda>_. None)) es)) path digest1 i =
      (s2, [raw1], out1)"
    and "reconcileLocked pf primary' secondary' conf' allow'
      (files (race_run pf (idle (\<lambda>_. None)) (es @ Whole (Reconcile_step primary secondary conf allow path digest1 i) # es')))
      path digest2 i = (s4, [raw2], out2)"
  shows "raw1 = raw2"
proof -
  let ?g1 = "race_run pf (idle (\<lambda>_. None)) es"
  let ?es = "Whole (Reconcile_step primary secondary conf allow path digest1 i) # es'"
  have sep: "separate pf (idle (\<lambda>_. None)) es" "separate pf ?g1 ?es"
    using assms(1) unfolding separate_append by simp_all
  have ok: "race_ok pf ?g1" "files_ok (deployment_ok pf) (files ?g1)"
    using separate_run[OF sep(1) race_ok_idle(1)] by (simp_all add: files_ok_def)
  obtain r1 where r1: "files ?g1 path = Some r1" "i < length (dj_steps r1)" "ds_state (dj_steps r1 ! i) \<noteq> ''planned''"
      "raw1 = the (rawTransaction (dj_steps r1 ! i))"
    using reconcile_sent[OF assms(2)] by auto
  obtain r3 where r3: "files (race_run pf ?g1 ?es) path = Some r3" "raw2 = the (rawTransaction (dj_steps r3 ! i))"
    using reconcile_sent[OF assms(3)] by auto
  have "closed_states r1" using ok(2) r1(1) by (auto simp: files_ok_def deployment_ok_def)
  then have "own_rank (dj_steps r1 ! i) \<noteq> None" using r1(2) by (simp add: closed_states_def)
  then obtain a where a: "own_rank (dj_steps r1 ! i) = Some a" by blast
  then have "1 \<le> a" using r1(3) own_rank_signed[of "dj_steps r1 ! i"] by (auto simp: own_rank_def deployment_rank_Rank[symmetric])
  have "journal_advances r1 r3"
    using separate_run[OF sep(2) ok(1)] r1(1) r3(1) unfolding files_le_def by fastforce
  then have "step_advances (dj_steps r1 ! i) (dj_steps r3 ! i)"
    using r1(2) by (auto simp: journal_advances_def list_all2_conv_all_nth)
  then show ?thesis using a \<open>1 \<le> a\<close> r1(4) r3(2) by (simp add: step_advances_def signed_evidence_def)
qed

section \<open>What holds in every race\<close>

text \<open>Whatever overlaps, every file and every record about to be written is a valid journal.\<close>

fun phase_typed :: "platform \<Rightarrow> phase \<Rightarrow> bool" where
  "phase_typed pf (Reading path d i n pt rest) \<longleftrightarrow> patch_ok n pt \<and> rest_ok rest"
| "phase_typed pf (Writing path r' d i rest) \<longleftrightarrow> deployment_ok pf r' \<and> rest_ok rest"
| "phase_typed pf (Returning path d i rest) \<longleftrightarrow> rest_ok rest"

definition race_typed :: "platform \<Rightarrow> race_state \<Rightarrow> bool" where
  "race_typed pf g \<longleftrightarrow> files_ok (deployment_ok pf) (files g) \<and> (\<forall>(p, ph) \<in> set (running g). phase_typed pf ph)"

lemma record_ok:
  assumes "deployment_ok pf r" and "transition_record pf r d i n pt = Inr (Some r')" and "patch_ok n pt"
  shows "deployment_ok pf r'"
proof -
  let ?s = "Map.empty([] \<mapsto> r) :: deployment_store"
  have "(deployment_continues pf)\<^sup>*\<^sup>* ?s (?s([] \<mapsto> r'))"
    by (rule record_continues[OF _ _ assms(2,3)]) (use assms(1) in \<open>simp_all add: deployment_ok_def\<close>)
  then have "files_ok (deployment_ok pf) (?s([] \<mapsto> r'))"
  proof (induction rule: rtranclp_induct)
    case base
    show ?case using assms(1) by (simp add: files_ok_def)
  qed (rule deployment.continues_ok)
  then show ?thesis by (simp add: files_ok_def)
qed

lemma call_start_typed: "call_start pf s c = Inr ph \<Longrightarrow> phase_typed pf ph"
  using call_start_ok[of pf s c ph] by (cases c) (auto simp: Let_def split: option.splits if_splits)

lemma phase_step_typed:
  assumes "phase_step pf s ph = (s', out)" and "phase_typed pf ph" and s: "files_ok (deployment_ok pf) s"
  shows "files_ok (deployment_ok pf) s' \<and> (\<forall>ph'. out = Inl ph' \<longrightarrow> phase_typed pf ph')"
proof -
  have after: "after_transition path d i rest r = Inl ph' \<Longrightarrow> rest_ok rest \<Longrightarrow> phase_typed pf ph'" for path d i rest r ph'
    by (cases "(path, d, i, rest, r)" rule: after_transition.cases) auto
  show ?thesis
  proof (cases ph)
    case (Reading path d i n pt rest)
    have "deployment_ok pf r'" if "s path = Some r" "transition_record pf r d i n pt = Inr (Some r')" for r r'
      using record_ok[OF _ that(2)] that(1) s assms(2) Reading by (auto simp: files_ok_def)
    then show ?thesis
      using assms after Reading
      by (auto split: sum.splits option.splits simp del: after_transition.simps)
  next
    case (Writing path r' d i rest)
    then show ?thesis using assms by (auto simp: files_ok_def split: if_splits)
  next
    case (Returning path d i rest)
    then show ?thesis
      using assms after by (auto split: sum.splits simp del: after_transition.simps)
  qed
qed

lemma set_update_pairs: "set (AList.update k v al) \<subseteq> insert (k, v) (set al)"
  by (induction al) auto

lemma race_step_typed: "race_typed pf g \<Longrightarrow> race_typed pf (race_step pf g e)"
proof (cases e)
  case (Begin p c)
  assume "race_typed pf g"
  then show ?thesis
    using Begin call_start_typed[of pf "files g" c] set_update_pairs[of p _ "running g"]
    by (fastforce simp: race_typed_def simp del: call_start.simps split: sum.splits)
next
  case (Advance p)
  assume g: "race_typed pf g"
  show ?thesis
  proof (cases "map_of (running g) p")
    case (Some ph)
    obtain s' out where st: "phase_step pf (files g) ph = (s', out)" by (cases "phase_step pf (files g) ph")
    have "phase_typed pf ph" using g map_of_SomeD[OF Some] by (auto simp: race_typed_def)
    note typed = phase_step_typed[OF st this]
    have "set (AList.delete p (running g)) \<subseteq> set (running g)" by (auto simp: AList.delete_eq)
    then show ?thesis
      using Advance Some st typed g set_update_pairs[of p _ "running g"]
      by (cases out) (fastforce simp: race_typed_def)+
  qed (use g Advance in simp)
next
  case (Whole op)
  assume "race_typed pf g"
  then show ?thesis using Whole deployment.step_ok[of pf "files g" op] by (simp add: race_typed_def)
qed

lemma race_run_typed: "race_typed pf g \<Longrightarrow> race_typed pf (race_run pf g es)"
  by (induction es arbitrary: g) (simp_all add: race_step_typed)

text \<open>
  C13. In every journal the operations can produce, also when they overlap, a step is in one of the four
  states, has the nonce of its place in the reserved range, and once it is past planned it holds the raw
  bytes of a transaction of the deployer with that nonce and the planned chain, target, value and call
  data, and the hash of these bytes.
\<close>

theorem deployment_signed_as_planned:
  assumes "files (race_run pf (idle (\<lambda>_. None)) es) path = Some r" and "i < length (dj_steps r)"
  shows "ds_nonce (dj_steps r ! i) = startNonce r + int i \<and>
    ds_state (dj_steps r ! i) \<in> {''planned'', ''signed'', ''broadcast'', ''mined''} \<and>
    (ds_state (dj_steps r ! i) \<noteq> ''planned'' \<longrightarrow>
       (\<exists>raw h tx. rawTransaction (dj_steps r ! i) = Some raw \<and> expectedHash (dj_steps r ! i) = Some h \<and>
          to_lower h = to_lower (keccak256 pf raw) \<and> transaction_from pf raw = Some tx \<and>
          transaction_matches pf r (dj_steps r ! i) tx))"
proof -
  have ok: "deployment_valid pf r" and "closed_states r"
    using race_run_typed[of pf "idle (\<lambda>_. None)" es] assms(1) by (auto simp: race_typed_def files_ok_def deployment_ok_def)
  then have own: "own_rank (dj_steps r ! i) \<noteq> None" using assms(2) by (simp add: closed_states_def)
  show ?thesis
    using check_step_facts[OF deployment_valid_step[OF ok assms(2)]] own own_rank_names
      check_step_signed[OF deployment_valid_step[OF ok assms(2)]] own_rank_signed[OF own] by blast
qed

section \<open>A signing that overlaps\<close>

fun process_of :: "race_event \<Rightarrow> nat option" where
  "process_of (Begin p c) = Some p"
| "process_of (Advance p) = Some p"
| "process_of (Whole op) = None"

lemma others_leave_phase:
  "process_of e \<noteq> Some q \<Longrightarrow> map_of (running (race_step pf g e)) q = map_of (running g) q"
  by (cases e) (auto simp: update_conv' delete_conv' split: sum.splits option.splits prod.splits)

lemma others_leave_phases:
  "\<forall>e \<in> set es. process_of e \<noteq> Some q \<Longrightarrow> map_of (running (race_run pf g es)) q = map_of (running g) q"
  by (induction es arbitrary: g) (simp_all add: others_leave_phase)

lemma sign_planned:
  assumes "persistSignedDeployment pf s path d i raw = (s', Inr j)" and "s path = Some r"
    and "ds_state (dj_steps r ! i) = ''planned''"
  shows "\<exists>pt. call_start pf s (Sign_call path d i raw) = Inr (Reading path d i ''signed'' pt []) \<and>
    readDeployment pf s path = Inr r \<and> transition_record pf r d i ''signed'' pt = Inr (Some j) \<and>
    rawTransaction (dj_steps j ! i) = Some raw \<and> ds_state (dj_steps j ! i) = ''signed''"
proof -
  obtain tx where tx: "transaction_from pf raw = Some tx" and rd: "readDeployment pf s path = Inr r"
    and i: "i < length (dj_steps r)"
    and c: "to_lower (keccak256 pf (tx_data tx)) = to_lower (expectedCalldataHash (dj_steps r ! i))"
    and t: "transition pf s path d i ''signed'' (signed_patch pf raw tx (dj_steps r ! i)) = (s', Inr j)"
    using assms(1,2) by (auto simp: persistSignedDeployment_def Let_def split: option.splits sum.splits if_splits)
  let ?pt = "signed_patch pf raw tx (dj_steps r ! i)"
  obtain x where x: "transition_record pf r d i ''signed'' ?pt = Inr x"
    using t rd by (cases "transition_record pf r d i ''signed'' ?pt") (auto simp: transition_def simp del: readDeployment_Inr)
  moreover have "x \<noteq> None"
  proof
    assume "x = None"
    then have "deployment_rank ''signed'' = deployment_rank ''planned''"
      using x assms(3) by (auto simp: transition_record_def Let_def split: if_splits)
    then show False by (simp add: deployment_rank_def table_lookup_def)
  qed
  ultimately obtain r' where r': "transition_record pf r d i ''signed'' ?pt = Inr (Some r')" by auto
  then have "readDeployment pf (s(path \<mapsto> r')) path = Inr r'" using transition_record_valid by simp
  then have "r' = j" using t rd r' by (simp add: transition_def Let_def del: readDeployment_Inr)
  moreover have "rawTransaction (dj_steps r' ! i) = Some raw \<and> ds_state (dj_steps r' ! i) = ''signed''"
    using transition_record_Some[OF r', of 1] i
    by (auto simp: signed_patch_def apply_patch_def patched_def Let_def)
  ultimately show ?thesis using tx rd i c r' by (intro exI[of _ ?pt]) (simp add: Let_def del: readDeployment_Inr)
qed

lemma sign_completes:
  assumes "persistSignedDeployment pf s path d i raw = (s', Inr j)" and "s path = Some r"
    and "ds_state (dj_steps r ! i) = ''planned''"
  shows "race_run pf (idle s) [Begin p (Sign_call path d i raw), Advance p, Advance p, Advance p] =
    \<lparr>files = s(path \<mapsto> j), running = [], results = [(p, Inr j)]\<rparr>"
proof -
  obtain pt where pt: "call_start pf s (Sign_call path d i raw) = Inr (Reading path d i ''signed'' pt [])"
    "readDeployment pf s path = Inr r" "transition_record pf r d i ''signed'' pt = Inr (Some j)"
    using sign_planned[OF assms] by blast
  have "readDeployment pf (s(path \<mapsto> j)) path = Inr j" using transition_record_valid[OF pt(3)] by simp
  then show ?thesis using pt by (simp add: idle_def del: readDeployment_Inr call_start.simps)
qed

text \<open>
  Signing a step is not safe when processes race: a process that signs a planned step, and has read
  the file, overwrites it with its own transaction and the state signed, and returns success, whatever
  other processes did to the file in between, also if they signed another transaction for the step,
  broadcast it, or recorded it as mined.
\<close>

theorem signing_overwrites:
  assumes "files g path = Some r" and "ds_state (dj_steps r ! i) = ''planned''"
    and "persistSignedDeployment pf (files g) path d i raw = (s', Inr j)"
    and "map_of (running g) q = None" and "\<forall>e \<in> set es. process_of e \<noteq> Some q"
  shows "let g1 = race_run pf g ([Begin q (Sign_call path d i raw), Advance q] @ es);
             g2 = race_run pf g1 [Advance q, Advance q]
         in files g2 = (files g1)(path \<mapsto> j) \<and> (q, Inr j) \<in> set (results g2) \<and>
            rawTransaction (dj_steps j ! i) = Some raw \<and> ds_state (dj_steps j ! i) = ''signed''"
proof -
  obtain pt where pt: "call_start pf (files g) (Sign_call path d i raw) = Inr (Reading path d i ''signed'' pt [])"
    "readDeployment pf (files g) path = Inr r" "transition_record pf r d i ''signed'' pt = Inr (Some j)"
    "rawTransaction (dj_steps j ! i) = Some raw" "ds_state (dj_steps j ! i) = ''signed''"
    using sign_planned[OF assms(3,1,2)] by blast
  let ?g0 = "race_run pf g [Begin q (Sign_call path d i raw), Advance q]" and ?g1 = "race_run pf g ([Begin q (Sign_call path d i raw), Advance q] @ es)"
  have "map_of (running ?g0) q = Some (Writing path j d i [])"
    using assms(4) pt(1-3) by (simp add: update_conv' del: readDeployment_Inr call_start.simps)
  then have g1: "map_of (running ?g1) q = Some (Writing path j d i [])"
    using others_leave_phases[OF assms(5), of pf ?g0] by simp
  have "readDeployment pf ((files ?g1)(path \<mapsto> j)) path = Inr j" using transition_record_valid[OF pt(3)] by simp
  then show ?thesis
    using g1 pt(4,5) by (simp add: Let_def update_conv' del: readDeployment_Inr foldl_append)
qed

end
