(* ===== verification/Deployment_Examples.thy ===== *)
theory Deployment_Examples
  imports Deployment_Races
begin

text \<open>
  A deployment of one contract, run from the reservation of its plan to the mined transaction on a
  concrete platform and concrete providers: the properties of the deployment journal applied to it.
\<close>

definition demo_word :: "nat \<Rightarrow> char \<Rightarrow> string" where
  "demo_word n c = ''0x'' @ replicate (2 * n) c"

lemma demo_word_ok [simp]: "hex_digit c \<Longrightarrow> hex_bytes n (demo_word n c)"
  by (simp add: demo_word_def hex_bytes_def hex_text_def list_all_iff)

lemma demo_word_lower [simp]: "lower_char c = c \<Longrightarrow> to_lower (demo_word n c) = demo_word n c"
  by (simp add: demo_word_def to_lower_def lower_char_def map_replicate_const)

definition demo_hash :: string where "demo_hash = demo_word 32 CHR ''b''"
definition demo_deployer :: string where "demo_deployer = demo_word 20 CHR ''d''"
definition demo_contract :: string where "demo_contract = demo_word 20 CHR ''c''"
definition demo_raw :: string where "demo_raw = ''0xff''"

definition demo_tx :: chain_tx where
  "demo_tx = \<lparr>tx_from = Some demo_deployer, tx_chainId = 84532, tx_nonce = 5, tx_to = None, tx_value = 0, tx_data = ''0x60''\<rparr>"

definition chain_platform :: platform where
  "chain_platform = \<lparr>getAddress = Some, isHexString = (\<lambda>_. True), isHexBytes = (\<lambda>_ _. True),
     keccak256 = (\<lambda>_. demo_hash), transaction_from = (\<lambda>_. Some demo_tx),
     getCreateAddress = (\<lambda>_ _. demo_contract), getCreate2Address = (\<lambda>_ _ _. demo_contract),
     sha256_hex = (\<lambda>_. ''0f''), sha256_text = (\<lambda>_. ''0f''), zeroPadValue = (\<lambda>v _. v), encodeOperation = (\<lambda>t v d k. t @ d @ k), resolve_path = (\<lambda>p. p)\<rparr>"

definition demo_endpoint :: string where "demo_endpoint = ''sha256:'' @ replicate 64 CHR ''0''"

definition demo_evidence :: rpc_evidence where
  "demo_evidence = \<lparr>primaryOperatorId = ''alpha'', secondaryOperatorId = ''beta'', primaryOrigin = ''https://a'',
     secondaryOrigin = ''https://b'', primaryHost = ''a'', secondaryHost = ''b'',
     primaryEndpointDigest = demo_endpoint, secondaryEndpointDigest = demo_endpoint\<rparr>"

definition demo_meta :: plan_metadata where
  "demo_meta = \<lparr>pm_identityDigest = ''id'', pm_network = ''base-sepolia'', pm_chainId = 84532, pm_deployer = demo_deployer,
     pm_rpcEvidence = demo_evidence, pm_startNonce = 5\<rparr>"

definition demo_plan :: plan_step where
  "demo_plan = \<lparr>ps_name = ''Registry'', ps_kind = None, ps_constructorArgsHash = demo_hash, ps_expectedInitCode = ''0x60'',
     ps_expectedCalldata = None, ps_expectedValue = None, ps_factoryAddress = None, ps_salt = None,
     ps_configurationHash = None, ps_configurationReadCalldata = None, ps_deploymentEventTopic = None\<rparr>"

text \<open>The step in a given state; \<open>signed\<close> tells whether it holds the evidence of signing.\<close>

definition demo_step :: "string \<Rightarrow> bool \<Rightarrow> int option \<Rightarrow> deployment_step" where
  "demo_step st signed block = \<lparr>ds_id = ''0:Registry'', ds_name = ''Registry'', ds_kind = ''direct-create'', ds_nonce = 5,
     ds_address = demo_contract, constructorArgsHash = demo_hash, expectedInitCodeHash = demo_hash,
     expectedTo = None, expectedCalldataHash = demo_hash, expectedValue = ''0'', factoryAddress = None, ds_salt = None,
     configurationHash = None, configurationReadCalldata = None, deploymentEventTopic = None, ds_state = st,
     rawTransaction = (if signed then Some demo_raw else None), expectedHash = (if signed then Some demo_hash else None),
     calldataHash = (if signed then Some demo_hash else None),
     signedPayloadDigest = (if signed then Some ''sha256:0f'' else None), ds_blockNumber = block\<rparr>"

definition demo_journal_at :: "int \<Rightarrow> deployment_step \<Rightarrow> deployment_journal" where
  "demo_journal_at g st = \<lparr>dj_schema = deployment_schema, identityDigest = ''id'', dj_network = ''base-sepolia'',
     dj_chainId = 84532, deployer = demo_deployer, rpcEvidence = demo_evidence, startNonce = 5, transactionCount = 1,
     endNonceExclusive = 6, dj_generation = g, dj_steps = [st], dj_planDigest = ''sha256:0f''\<rparr>"

lemma demo_hex: "hex_digit CHR ''b''" "hex_digit CHR ''c''" "hex_digit CHR ''d''" "hex_digit CHR ''f''" "hex_digit CHR ''0''"
    "lower_char CHR ''b'' = CHR ''b''" "lower_char CHR ''c'' = CHR ''c''" "lower_char CHR ''d'' = CHR ''d''"
    "lower_char CHR ''0'' = CHR ''0''" "lower_char CHR ''x'' = CHR ''x''"
  by (simp_all add: hex_digit_def char_digit_def lower_char_def)

lemma demo_words [simp]:
  "hex_bytes 32 demo_hash" "hex_bytes 20 demo_deployer" "hex_bytes 20 demo_contract"
  "to_lower demo_hash = demo_hash" "to_lower demo_deployer = demo_deployer" "to_lower demo_contract = demo_contract"
  by (simp_all add: demo_hash_def demo_deployer_def demo_contract_def demo_hex)

lemma demo_hash_nonempty [simp]: "demo_hash \<noteq> []"
  by (simp add: demo_hash_def demo_word_def)

lemma demo_evidence_ok [simp]: "evidence_independent demo_evidence"
  by (simp add: evidence_independent_def demo_evidence_def demo_endpoint_def sha256_digest_def lower_hex_def list_all_iff demo_hex)

lemma chain_digest [simp]: "digest chain_platform v = ''sha256:0f''"
  by (simp add: digest_def chain_platform_def)

lemma chain_platform_simps [simp]:
  "keccak256 chain_platform x = demo_hash" "transaction_from chain_platform x = Some demo_tx"
  "getCreateAddress chain_platform a n = demo_contract"
  by (simp_all add: chain_platform_def)

lemma demo_raw_ok [simp]: "raw_text (Some demo_raw)"
  by (simp add: raw_text_def demo_raw_def hex_text_i_def to_lower_def demo_hex)

lemma demo_zero [simp]: "show_int 0 = ''0''" "show_nat 0 = ''0''"
  by code_simp+

lemma demo_step_ok:
  assumes "st = ''planned'' \<or> st \<in> {''signed'', ''broadcast'', ''mined''} \<and> signed"
    and "st = ''mined'' \<Longrightarrow> block = Some 70"
  shows "check_step chain_platform (demo_journal_at g s) (0, demo_step st signed block) = Inr ()"
proof -
  have "check_signed chain_platform (demo_journal_at g s) (demo_step st True block) = Inr ()"
    by (simp add: check_signed_def demo_step_def demo_journal_at_def transaction_matches_def demo_tx_def)
  moreover have "check_create chain_platform (demo_journal_at g s) (demo_step st signed block) = Inr ()"
    by (simp add: check_create_def demo_step_def demo_journal_at_def)
  moreover have "in_table DEPLOYMENT_STATES st" "in_table STEP_KINDS ''direct-create''"
    using assms by (auto simp: in_table_def table_lookup_def DEPLOYMENT_STATES_def STEP_KINDS_def)
  moreover have "\<not> rank_at_least 1 (deployment_rank ''planned'')"
    by (simp add: deployment_rank_def table_lookup_def)
  ultimately show ?thesis using assms
    by (auto simp: check_step_def demo_step_def demo_journal_at_def canonical_decimal_def
        safe_integer_def)
qed

lemma demo_journal_ok:
  assumes "st = ''planned'' \<or> st \<in> {''signed'', ''broadcast'', ''mined''} \<and> signed"
    and "st = ''mined'' \<Longrightarrow> block = Some 70"
  shows "deployment_valid chain_platform (demo_journal_at g (demo_step st signed block))"
  using demo_step_ok[OF assms, of g] 
  by (simp add: deployment_valid_def assertJournal_def) (simp add: demo_journal_at_def safe_integer_def)

lemma demo_state_names [simp]:
  "deployment_valid chain_platform (demo_journal_at g (demo_step ''planned'' False b))"
  "deployment_valid chain_platform (demo_journal_at g (demo_step ''signed'' True b))"
  "deployment_valid chain_platform (demo_journal_at g (demo_step ''broadcast'' True b))"
  "deployment_valid chain_platform (demo_journal_at g (demo_step ''mined'' True (Some 70)))"
  by (rule demo_journal_ok; simp)+

lemma demo_build:
  "buildDeploymentNoncePlan chain_platform demo_meta [demo_plan] = Inr (demo_journal_at 0 (demo_step ''planned'' False None))"
proof -
  have "plan_record chain_platform demo_meta (0, demo_plan) = Inr (demo_step ''planned'' False None)"
    by (simp add: plan_record_def demo_plan_def demo_meta_def demo_step_def in_table_def table_lookup_def STEP_KINDS_def)
  then show ?thesis
    by (simp add: buildDeploymentNoncePlan_def demo_meta_def) (simp add: demo_journal_at_def[symmetric])
qed

section \<open>The run\<close>

abbreviation at_path :: "deployment_journal \<Rightarrow> deployment_store" where
  "at_path j \<equiv> Map.empty(''plan.json'' \<mapsto> j)"

abbreviation planned_journal :: deployment_journal where
  "planned_journal \<equiv> demo_journal_at 0 (demo_step ''planned'' False None)"
abbreviation signed_journal :: deployment_journal where
  "signed_journal \<equiv> demo_journal_at 1 (demo_step ''signed'' True None)"
abbreviation broadcast_journal :: deployment_journal where
  "broadcast_journal \<equiv> demo_journal_at 2 (demo_step ''broadcast'' True None)"
abbreviation mined_journal :: deployment_journal where
  "mined_journal \<equiv> demo_journal_at 3 (demo_step ''mined'' True (Some 70))"

lemma read_valid: "s path = Some r \<Longrightarrow> deployment_valid pf r \<Longrightarrow> readDeployment pf s path = Inr r"
  by simp

lemma assert_valid: "deployment_valid pf r \<Longrightarrow> assertJournal pf r = Inr r"
  by simp

lemma demo_fields [simp]:
  "dj_planDigest (demo_journal_at g st) = ''sha256:0f''" "dj_steps (demo_journal_at g st) = [st]"
  "dj_generation (demo_journal_at g st) = g" "ds_state (demo_step nm sg b) = nm"
  "(demo_journal_at g st)\<lparr>dj_steps := [st'], dj_generation := g'\<rparr> = demo_journal_at g' st'"
  "deployer (demo_journal_at g st) = demo_deployer" "startNonce (demo_journal_at g st) = 5"
  "expectedHash (demo_step nm True b) = Some demo_hash" "rawTransaction (demo_step nm True b) = Some demo_raw"
  "ds_nonce (demo_step nm sg b) = 5"
  by (simp_all add: demo_journal_at_def demo_step_def)

lemma plan_reserved:
  "reserveDeploymentNoncePlan chain_platform Map.empty Map.empty ''plan.json'' planned_journal =
     (at_path planned_journal, Inr planned_journal)"
  by (simp add: reserveDeploymentNoncePlan_def read_valid)

lemma planned_rank [simp]: "deployment_rank ''planned'' = Some (Rank 0)"
  by (simp add: deployment_rank_Rank)

lemma demo_signed_patch:
  "(apply_patch (signed_patch chain_platform demo_raw demo_tx (demo_step ''planned'' False None))
      (demo_step ''planned'' False None))\<lparr>ds_state := ''signed''\<rparr> = demo_step ''signed'' True None"
  by (simp add: apply_patch_def signed_patch_def demo_step_def patched_def Let_def)

lemma demo_sign:
  "persistSignedDeployment chain_platform (at_path planned_journal) ''plan.json'' ''sha256:0f'' 0 demo_raw =
     (at_path signed_journal, Inr signed_journal)"
proof -
  have "to_lower (expectedCalldataHash (demo_step ''planned'' False None)) = demo_hash" by (simp add: demo_step_def)
  then show ?thesis
    by (simp add: persistSignedDeployment_def transition_def transition_record_def read_valid assert_valid demo_signed_patch Let_def)
qed

lemma demo_empty_patch: "(apply_patch empty_patch (demo_step st sg b))\<lparr>ds_state := st'\<rparr> = demo_step st' sg b"
  "agrees empty_patch (demo_step st sg b)"
  by (simp_all add: apply_patch_def empty_patch_def demo_step_def patched_def agrees_def)

lemma demo_record_broadcast:
  "recordDeploymentBroadcast chain_platform (at_path signed_journal) ''plan.json'' ''sha256:0f'' 0 =
     (at_path broadcast_journal, Inr broadcast_journal)"
  "recordDeploymentBroadcast chain_platform (at_path broadcast_journal) ''plan.json'' ''sha256:0f'' 0 =
     (at_path broadcast_journal, Inr broadcast_journal)"
  by (simp_all add: recordDeploymentBroadcast_def transition_def transition_record_def read_valid assert_valid demo_empty_patch Let_def)

text \<open>A provider that has not seen the transaction, and one that has mined it in block 70.\<close>

definition empty_provider :: deployment_rpc where
  "empty_provider = \<lparr>ask_receipt = (\<lambda>_. Inr None), ask_transaction = (\<lambda>_. Inr None), ask_code = (\<lambda>_ _. Inr ''0x''),
     ask_call = (\<lambda>_ _ _. Inr ''0x''), ask_block_by_hash = (\<lambda>_. Inr None), ask_block_by_number = (\<lambda>_. Inr None),
     ask_blockNumber = Inr 69, ask_count = (\<lambda>_ _. Inr 5), send_transaction = (\<lambda>_. Inr demo_hash)\<rparr>"

definition demo_receipt :: receipt where
  "demo_receipt = \<lparr>rc_hash = Some demo_hash, rc_transactionHash = None, rc_status = 1, rc_blockHash = demo_hash,
     rc_blockNumber = 70, rc_contractAddress = JStr demo_contract, rc_logs = []\<rparr>"

definition mined_provider :: deployment_rpc where
  "mined_provider = \<lparr>ask_receipt = (\<lambda>_. Inr (Some demo_receipt)),
     ask_transaction = (\<lambda>_. Inr (Some \<lparr>mt_hash = demo_hash, mt_nonce = 5, mt_from = demo_deployer, mt_to = None,
        mt_data = ''0x60'', mt_value = 0\<rparr>)),
     ask_code = (\<lambda>_ _. Inr ''0x''), ask_call = (\<lambda>_ _ _. Inr ''0x''),
     ask_block_by_hash = (\<lambda>_. Inr (Some \<lparr>cb_hash = Some demo_hash, cb_number = 70\<rparr>)),
     ask_block_by_number = (\<lambda>_. Inr (Some \<lparr>cb_hash = Some demo_hash, cb_number = 70\<rparr>)),
     ask_blockNumber = Inr 72, ask_count = (\<lambda>_ _. Inr 6), send_transaction = (\<lambda>_. Inl ''known'')\<rparr>"

lemma demo_reconcile_send:
  assumes "st = ''signed'' \<and> g = 1 \<or> st = ''broadcast'' \<and> g = 2"
  shows "reconcileLocked chain_platform (empty_provider, empty_provider) None 1 True
     (at_path (demo_journal_at g (demo_step st True None))) ''plan.json'' ''sha256:0f'' 0 =
     (at_path broadcast_journal, [demo_raw], Inr Step_broadcast)"
  using assms
  by (auto simp: reconcileLocked_def reconcile_unmined_def broadcast_step_def record_as_def read_valid
      check_counts_def empty_provider_def demo_record_broadcast Let_def)

lemma demo_canonical:
  "canonicalReceipt chain_platform mined_provider (demo_step st True b) demo_deployer demo_receipt byNumber = Inr ()"
  by (simp add: canonicalReceipt_def mined_provider_def demo_receipt_def canonicalReceiptTransactionHash_def Let_def
      deployed_address_def is_step_transaction_def check_block_def)
    (simp add: demo_step_def)

lemma demo_mine:
  "recordDeploymentMined chain_platform (at_path broadcast_journal) ''plan.json'' ''sha256:0f'' 0 70 =
     (at_path mined_journal, Inr mined_journal)"
proof -
  have "(apply_patch (empty_patch\<lparr>set_block := Some 70\<rparr>) (demo_step ''broadcast'' True None))\<lparr>ds_state := ''mined''\<rparr> =
      demo_step ''mined'' True (Some 70)"
    by (simp add: apply_patch_def empty_patch_def demo_step_def patched_def)
  then show ?thesis
    by (simp add: recordDeploymentMined_def transition_def transition_record_def read_valid assert_valid Let_def)
qed

lemma demo_mined_evidence:
  "mined_evidence chain_platform (mined_provider, mined_provider) (Some (mined_provider, mined_provider)) 3
     (demo_step ''broadcast'' True None) demo_deployer demo_receipt = Inr demo_receipt"
proof -
  have ask: "ask_receipt mined_provider h = Inr (Some demo_receipt)" "ask_blockNumber mined_provider = Inr 72" for h
    by (simp_all add: mined_provider_def)
  have rc: "rc_status demo_receipt = 1" "rc_blockNumber demo_receipt = 70" by (simp_all add: demo_receipt_def)
  have "evidence_unchanged (demo_step ''broadcast'' True None) demo_receipt demo_receipt = Inr ()"
    by (simp add: evidence_unchanged_def demo_receipt_def canonicalReceiptTransactionHash_def Let_def)
      (simp add: demo_step_def)
  then show ?thesis
    by (simp add: mined_evidence_def final_receipts_def ask rc demo_canonical same_receipt_def succeeded_def
        safe_integer_def Let_def)
qed

lemma demo_reconcile_mined:
  "reconcileLocked chain_platform (mined_provider, mined_provider) (Some (mined_provider, mined_provider)) 3 True
     (at_path broadcast_journal) ''plan.json'' ''sha256:0f'' 0 =
     (at_path mined_journal, [], Inr (Step_mined demo_receipt))"
proof -
  have ask: "ask_receipt mined_provider h = Inr (Some demo_receipt)" for h by (simp add: mined_provider_def)
  have "rc_blockNumber demo_receipt = 70" by (simp add: demo_receipt_def)
  then show ?thesis
    by (simp add: reconcileLocked_def read_valid ask demo_mined_evidence quiet_def record_as_def demo_mine Let_def)
qed

lemma demo_signed_reached:
  "foldl (deployment_run chain_platform) Map.empty
     [Reserve_plan Map.empty ''plan.json'' demo_meta [demo_plan], Sign_step ''plan.json'' ''sha256:0f'' 0 demo_raw] =
   at_path signed_journal"
  by (simp add: demo_build plan_reserved demo_sign)

text \<open>The steps of one signing, and of another that signs the bytes \<open>0xfe\<close>.\<close>

definition demo_signing :: "race_event list" where
  "demo_signing = [Begin 1 (Sign_call ''plan.json'' ''sha256:0f'' 0 demo_raw), Advance 1, Advance 1, Advance 1]"

lemma demo_signing_run:
  "race_run chain_platform (idle (at_path planned_journal)) demo_signing =
     \<lparr>files = at_path signed_journal, running = [], results = [(1, Inr signed_journal)]\<rparr>"
  unfolding demo_signing_def by (subst sign_completes[OF demo_sign, of planned_journal]) simp_all

lemma demo_reserved:
  "race_step chain_platform (idle Map.empty) (Whole (Reserve_plan Map.empty ''plan.json'' demo_meta [demo_plan])) =
     idle (at_path planned_journal)"
  by (simp add: demo_build plan_reserved idle_def)

definition resigned_journal :: deployment_journal where
  "resigned_journal = demo_journal_at 1 ((demo_step ''signed'' True None)\<lparr>rawTransaction := Some ''0xfe''\<rparr>)"

lemma demo_resigned_patch:
  "(apply_patch (signed_patch chain_platform ''0xfe'' demo_tx (demo_step ''planned'' False None))
      (demo_step ''planned'' False None))\<lparr>ds_state := ''signed''\<rparr> =
   (demo_step ''signed'' True None)\<lparr>rawTransaction := Some ''0xfe''\<rparr>"
  by (simp add: apply_patch_def signed_patch_def demo_step_def patched_def Let_def)

lemma resigned_valid: "deployment_valid chain_platform resigned_journal"
proof -
  let ?st = "(demo_step ''signed'' True None)\<lparr>rawTransaction := Some ''0xfe''\<rparr>"
  have raw: "raw_text (Some ''0xfe'')"
    by (simp add: raw_text_def hex_text_i_def to_lower_def lower_char_def hex_digit_def char_digit_def)
  have "check_signed chain_platform (demo_journal_at 1 ?st) ?st = Inr ()"
    using raw by (simp add: check_signed_def demo_step_def demo_journal_at_def transaction_matches_def demo_tx_def)
  moreover have "check_create chain_platform (demo_journal_at 1 ?st) ?st = Inr ()"
    by (simp add: check_create_def demo_step_def demo_journal_at_def)
  moreover have "in_table DEPLOYMENT_STATES ''signed''" "in_table STEP_KINDS ''direct-create''"
    by (auto simp: in_table_def table_lookup_def DEPLOYMENT_STATES_def STEP_KINDS_def)
  ultimately have "check_step chain_platform (demo_journal_at 1 ?st) (0, ?st) = Inr ()"
    by (auto simp: check_step_def demo_step_def demo_journal_at_def canonical_decimal_def safe_integer_def)
  then show ?thesis
    unfolding resigned_journal_def
    by (simp add: deployment_valid_def assertJournal_def) (simp add: demo_journal_at_def safe_integer_def)
qed

section \<open>The properties at this run\<close>

theorem deployment_evidence_final_witness:
  "\<exists>r'. files (race_run chain_platform (idle (at_path signed_journal))
       [Begin 1 (Broadcast_call ''plan.json'' ''sha256:0f'' 0), Advance 1, Advance 1, Advance 1]) ''plan.json'' = Some r' \<and>
     signed_evidence (dj_steps r' ! 0) = signed_evidence (demo_step ''signed'' True None)"
proof -
  let ?es = "[Begin 1 (Broadcast_call ''plan.json'' ''sha256:0f'' 0), Advance 1, Advance 1, Advance 1]"
  have "separate chain_platform (idle (at_path signed_journal)) ?es" by simp
  from deployment_evidence_final[OF this, of "''plan.json''" signed_journal] show ?thesis
    by (auto simp: own_rank_def)
qed

theorem deployment_signed_as_planned_witness:
  "\<exists>tx. transaction_from chain_platform demo_raw = Some tx \<and>
     transaction_matches chain_platform signed_journal (demo_step ''signed'' True None) tx"
proof -
  have "files (race_run chain_platform (idle Map.empty)
      (Whole (Reserve_plan Map.empty ''plan.json'' demo_meta [demo_plan]) # demo_signing)) ''plan.json'' = Some signed_journal"
    using demo_signing_run demo_reserved by (simp del: race_step.simps)
  from deployment_signed_as_planned[OF this, of 0] show ?thesis by simp
qed

theorem reserve_binds_plan_witness:
  "same_plan planned_journal planned_journal \<and> at_path planned_journal ''plan.json'' = Some planned_journal"
  using reserve_binds_plan[OF plan_reserved] by simp

theorem one_transaction_per_step_witness:
  "\<exists>raw t out. reconcileLocked chain_platform (empty_provider, empty_provider) None 1 True (at_path broadcast_journal)
     ''plan.json'' ''sha256:0f'' 0 = (t, [raw], out) \<and> raw = demo_raw"
proof -
  obtain raw t out where second: "reconcileLocked chain_platform (empty_provider, empty_provider) None 1 True
      (at_path broadcast_journal) ''plan.json'' ''sha256:0f'' 0 = (t, [raw], out)"
    using demo_reconcile_send[of "''broadcast''" 2] by simp
  let ?es = "Whole (Reserve_plan Map.empty ''plan.json'' demo_meta [demo_plan]) # demo_signing"
  have "separate chain_platform (idle (at_path planned_journal)) demo_signing" by (simp add: demo_signing_def idle_def)
  then have es: "separate chain_platform (idle Map.empty) ?es" "files (race_run chain_platform (idle Map.empty) ?es) = at_path signed_journal"
      "running (race_run chain_platform (idle Map.empty) ?es) = []"
    using demo_reserved demo_signing_run by (simp_all del: race_step.simps)
  have first: "reconcileLocked chain_platform (empty_provider, empty_provider) None 1 True (at_path signed_journal)
      ''plan.json'' ''sha256:0f'' 0 = (at_path broadcast_journal, [demo_raw], Inr Step_broadcast)"
    by (rule demo_reconcile_send) simp
  have "demo_raw = raw"
  proof (rule one_transaction_per_step[where es = ?es and es' = "[]" and pf = chain_platform])
    show "separate chain_platform (idle (\<lambda>_. None))
        (?es @ [Whole (Reconcile_step (empty_provider, empty_provider) None 1 True ''plan.json'' ''sha256:0f'' 0)])"
      using es by (simp only: separate_append) simp
    show "reconcileLocked chain_platform (empty_provider, empty_provider) None 1 True
        (files (race_run chain_platform (idle (\<lambda>_. None)) ?es)) ''plan.json'' ''sha256:0f'' 0 =
        (at_path broadcast_journal, [demo_raw], Inr Step_broadcast)"
      using es first by simp
    show "reconcileLocked chain_platform (empty_provider, empty_provider) None 1 True
        (files (race_run chain_platform (idle (\<lambda>_. None)) (?es @ [Whole (Reconcile_step (empty_provider, empty_provider) None 1 True
           ''plan.json'' ''sha256:0f'' 0)]))) ''plan.json'' ''sha256:0f'' 0 = (t, [raw], out)"
      using es first second by (simp only: foldl_append foldl_Cons foldl_Nil race_step.simps deployment_run.simps) simp
  qed
  then show ?thesis using second by blast
qed

text \<open>A second process signs other bytes after the first has signed and broadcast.\<close>

lemma demo_resign:
  "persistSignedDeployment chain_platform (at_path planned_journal) ''plan.json'' ''sha256:0f'' 0 ''0xfe'' =
     (at_path resigned_journal, Inr resigned_journal)"
proof -
  have "to_lower (expectedCalldataHash (demo_step ''planned'' False None)) = demo_hash" by (simp add: demo_step_def)
  then show ?thesis
    using resigned_valid unfolding resigned_journal_def
    by (simp add: persistSignedDeployment_def transition_def transition_record_def read_valid assert_valid demo_resigned_patch
        Let_def)
qed

theorem signing_overwrites_witness:
  "reconcileLocked chain_platform (empty_provider, empty_provider) None 1 True (at_path signed_journal)
     ''plan.json'' ''sha256:0f'' 0 = (at_path broadcast_journal, [demo_raw], Inr Step_broadcast) \<and>
   files (race_run chain_platform (race_run chain_platform (idle (at_path planned_journal))
     ([Begin 2 (Sign_call ''plan.json'' ''sha256:0f'' 0 ''0xfe''), Advance 2] @ demo_signing @
      [Whole (Reconcile_step (empty_provider, empty_provider) None 1 True ''plan.json'' ''sha256:0f'' 0)])) [Advance 2, Advance 2])
     ''plan.json'' = Some resigned_journal"
proof -
  let ?es = "demo_signing @ [Whole (Reconcile_step (empty_provider, empty_provider) None 1 True ''plan.json'' ''sha256:0f'' 0)]"
  have "\<forall>e \<in> set ?es. process_of e \<noteq> Some 2" by (simp add: demo_signing_def)
  note race = signing_overwrites[OF _ _ _ _ this, of "idle (at_path planned_journal)" "''plan.json''" planned_journal 0
      chain_platform "''sha256:0f''" "''0xfe''" "at_path resigned_journal" resigned_journal, unfolded Let_def]
  have "files (race_run chain_platform (race_run chain_platform (idle (at_path planned_journal))
      ([Begin 2 (Sign_call ''plan.json'' ''sha256:0f'' 0 ''0xfe''), Advance 2] @ ?es)) [Advance 2, Advance 2]) =
      (files (race_run chain_platform (idle (at_path planned_journal))
      ([Begin 2 (Sign_call ''plan.json'' ''sha256:0f'' 0 ''0xfe''), Advance 2] @ ?es)))(''plan.json'' \<mapsto> resigned_journal)"
    by (rule conjunct1[OF race]) (simp_all add: demo_resign)
  moreover have "reconcileLocked chain_platform (empty_provider, empty_provider) None 1 True (at_path signed_journal)
      ''plan.json'' ''sha256:0f'' 0 = (at_path broadcast_journal, [demo_raw], Inr Step_broadcast)"
    by (rule demo_reconcile_send) simp
  ultimately show ?thesis by (simp only: fun_upd_same)
qed

theorem reconcile_broadcast_safe_witness:
  "ask_receipt empty_provider demo_hash = Inr None \<and> ask_count empty_provider demo_deployer ''latest'' = Inr 5"
  using reconcile_broadcast_safe[OF demo_signed_reached demo_reconcile_send] by auto

theorem reconcile_mined_corroborated_witness:
  "\<exists>head. ask_blockNumber mined_provider = Inr head \<and> rc_blockNumber demo_receipt + 3 - 1 \<le> head"
  using reconcile_mined_corroborated[OF demo_reconcile_mined] by auto

theorem inherited_state_accepted_witness:
  "deployment_valid chain_platform (mined_journal\<lparr>dj_steps :=
     [(demo_step ''mined'' True (Some 70))\<lparr>ds_state := ''toString'', rawTransaction := None\<rparr>]\<rparr>)"
  using inherited_state_accepted[of chain_platform mined_journal 0] by simp

end
