(* ===== verification/Governance_Examples.thy ===== *)
theory Governance_Examples
  imports Governance_Protocol Deployment_Examples
begin

text \<open>
  A plan of one governance operation, reserved and observed from planned to executed: the properties of
  the governance journal applied to it.
\<close>

definition demo_policy :: governance_policy where
  "demo_policy = \<lparr>gp_threshold = ''2'', gp_overrideThreshold = ''3'', gp_delaySeconds = ''60'', gp_overrideDelaySeconds = ''90'',
     gp_guardian = demo_deployer, gp_signers = [demo_word 20 CHR ''1'', demo_word 20 CHR ''2'', demo_word 20 CHR ''3'']\<rparr>"

definition demo_request :: operation_request where
  "demo_request = \<lparr>rq_sequence = 1, rq_label = ''register'', rq_operationClass = ''standard'', rq_target = demo_contract,
     rq_value = ''0'', rq_data = ''0x60'', rq_salt = demo_hash, rq_operationId = demo_hash, rq_dependsOn = None,
     rq_requiredConfirmations = ''2'', rq_delaySeconds = ''60'', rq_transactionBuilder = JsNull, rq_overrideFallback = None\<rparr>"

definition demo_governance :: governance_metadata where
  "demo_governance = \<lparr>gm_chainId = 84532, gm_timelock = demo_contract, gm_deploymentCommit = replicate 40 CHR ''0'',
     gm_governance = demo_policy, gm_deploymentConfigHash = demo_hash,
     gm_releaseBindingDigest = demo_endpoint, gm_expectedTimelockCodeHash = demo_hash\<rparr>"

text \<open>A platform whose digests have the form the journal asks for.\<close>

definition governed_platform :: platform where
  "governed_platform = chain_platform\<lparr>sha256_text := (\<lambda>_. replicate 64 CHR ''0'')\<rparr>"

text \<open>The operation in each state, and the journal with it.\<close>

definition demo_operation :: "string \<Rightarrow> string option \<Rightarrow> string option \<Rightarrow> string option \<Rightarrow> int option \<Rightarrow> governance_operation" where
  "demo_operation st observed schedule execute block =
     (planned_operation governed_platform demo_request)\<lparr>go_state := st, observedOperationId := observed,
       scheduleTxHash := schedule, executeTxHash := execute, go_blockNumber := block, go_blockHash := execute\<rparr>"

definition demo_governed :: "int \<Rightarrow> governance_operation \<Rightarrow> governance_journal" where
  "demo_governed g o1 = \<lparr>gj_schema = governance_schema, gj_chainId = 84532, gj_timelock = demo_contract,
     deploymentCommit = replicate 40 CHR ''0'', gj_governance = demo_policy, deploymentConfigHash = demo_hash,
     releaseBindingDigest = demo_endpoint, expectedTimelockCodeHash = demo_hash, gj_generation = g, gj_operations = [o1],
     gj_planDigest = demo_endpoint\<rparr>"

abbreviation op_planned :: governance_operation where "op_planned \<equiv> demo_operation ''planned'' None None None None"
abbreviation op_pending :: governance_operation where
  "op_pending \<equiv> demo_operation ''pending'' (Some demo_hash) (Some demo_hash) None None"
abbreviation op_executed :: governance_operation where
  "op_executed \<equiv> demo_operation ''executed'' (Some demo_hash) (Some demo_hash) (Some demo_hash) (Some 80)"

lemma demo_hex_i [simp]: "hex_bytes_i 32 demo_hash" "hex_bytes_i 20 demo_contract" "hex_bytes_i 20 demo_deployer"
  "hex_text_i ''0x60''"
  by (simp_all add: demo_hash_def demo_contract_def demo_deployer_def demo_word_def hex_bytes_i_def hex_text_i_def
      list_all_iff demo_hex to_lower_def) (simp add: hex_digit_def char_digit_def)

lemma governed_digest [simp]: "digest governed_platform v = demo_endpoint" "sha256_digest demo_endpoint"
  by (simp_all add: digest_def governed_platform_def demo_endpoint_def sha256_digest_def lower_hex_def list_all_iff demo_hex)

lemma demo_policy_ok: "check_policy demo_policy = Inr ()"
proof -
  have "positive_decimal ''2''" "positive_decimal ''3''" "positive_decimal ''60''" "positive_decimal ''90''"
    by code_simp+
  moreover have "hex_bytes_i 20 (demo_word 20 CHR ''1'')" "hex_bytes_i 20 (demo_word 20 CHR ''2'')"
    "hex_bytes_i 20 (demo_word 20 CHR ''3'')"
    by (simp_all add: demo_word_def hex_bytes_i_def hex_text_i_def list_all_iff to_lower_def demo_hex hex_digit_def char_digit_def)
  moreover have "distinct (map to_lower (gp_signers demo_policy))"
    by (simp add: demo_policy_def demo_word_def to_lower_def lower_char_def)
  ultimately show ?thesis by (simp add: check_policy_def) (simp add: demo_policy_def)
qed

lemma demo_operation_ok:
  assumes "st = ''planned'' \<and> observed = None \<and> schedule = None \<and> execute = None \<and> block = None \<or>
     st = ''pending'' \<and> observed = Some demo_hash \<and> schedule = Some demo_hash \<and> execute = None \<and> block = None \<or>
     st = ''executed'' \<and> observed = Some demo_hash \<and> schedule = Some demo_hash \<and> execute = Some demo_hash \<and> block = Some 80"
  shows "check_operation governed_platform [] 0 (demo_operation st observed schedule execute block) = Inr ()"
proof -
  let ?o = "demo_operation st observed schedule execute block"
  have "keccak256 governed_platform x = demo_hash" for x by (simp add: governed_platform_def chain_platform_def)
  then have "operation_id governed_platform ?o x = demo_hash" for x by (simp add: operation_id_def)
  moreover have "check_evidence ?o = Inr ()" using assms
    by (auto simp: check_evidence_def demo_operation_def planned_operation_def demo_request_def no_evidence_but_def
        observed_candidate_def hex32_opt_def safe_integer_def)
  moreover have "in_table GOVERNANCE_STATES st"
    using assms by (auto simp: in_table_def table_lookup_def GOVERNANCE_STATES_def)
  moreover have "check_fallback governed_platform ?o = Inr ()"
    by (simp add: check_fallback_def demo_operation_def planned_operation_def demo_request_def)
  moreover have "positive_decimal ''2''" "positive_decimal ''60''" by code_simp+
  ultimately show ?thesis
    by (simp add: check_operation_def) (simp add: demo_operation_def planned_operation_def demo_request_def)
qed

lemma demo_governed_valid:
  assumes "check_operation governed_platform [] 0 (demo_operation st observed schedule execute block) = Inr ()"
    and "0 \<le> g" and "g < 100"
  shows "governance_valid governed_platform (demo_governed g (demo_operation st observed schedule execute block))"
proof -
  have "check_operation_policy demo_policy (demo_operation st observed schedule execute block) = Inr ()"
    by (simp add: check_operation_policy_def demo_operation_def planned_operation_def demo_request_def demo_policy_def)
  moreover have "lower_hex 40 (replicate 40 CHR ''0'')" by (simp add: lower_hex_def list_all_iff demo_hex)
  ultimately show ?thesis using assms demo_policy_ok
    by (simp add: governance_valid_def assertGovernanceOperationJournal_def assertGovernanceOperations_def)
      (simp add: demo_governed_def safe_integer_def)
qed

lemma demo_governed_states [simp]:
  "governance_valid governed_platform (demo_governed 0 op_planned)"
  "governance_valid governed_platform (demo_governed 1 op_pending)"
  "governance_valid governed_platform (demo_governed 2 op_executed)"
  by (rule demo_governed_valid; simp add: demo_operation_ok)+

lemma demo_governed_build:
  "buildGovernanceOperationJournal governed_platform demo_governance [demo_request] = Inr (demo_governed 0 op_planned)"
proof -
  have "planned_operation governed_platform demo_request = op_planned"
    by (simp add: demo_operation_def planned_operation_def)
  then show ?thesis
    by (simp add: buildGovernanceOperationJournal_def plannedOperationRecords_def demo_governance_def Let_def)
      (simp add: demo_governed_def[symmetric] governance_schema_def[symmetric])
qed

lemma demo_governed_reserve:
  "reserveGovernanceOperationJournal governed_platform Map.empty Map.empty ''gov.json'' (demo_governed 0 op_planned) =
     (Map.empty(''gov.json'' \<mapsto> demo_governed 0 op_planned), Inr (demo_governed 0 op_planned))"
  by (simp add: reserveGovernanceOperationJournal_def governance_read governance_assert)

lemma demo_governed_fields [simp]:
  "gj_planDigest (demo_governed g o1) = demo_endpoint" "gj_operations (demo_governed g o1) = [o1]"
  "gj_generation (demo_governed g o1) = g"
  "(demo_governed g o1)\<lparr>gj_operations := [o2], gj_generation := g'\<rparr> = demo_governed g' o2"
  "go_state (demo_operation st x y z b) = st" "go_operationId (demo_operation st x y z b) = demo_hash"
  by (simp_all add: demo_governed_def demo_operation_def planned_operation_def demo_request_def)

lemma governance_ranks [simp]:
  "governance_rank ''planned'' = Some (Rank 0)" "governance_rank ''pending'' = Some (Rank 1)"
  "governance_rank ''executed'' = Some (Rank 2)"
  by (simp_all add: governance_rank_Rank GOVERNANCE_STATES_def)

lemma governance_tables [simp]: "in_table GOVERNANCE_STATES ''pending''" "in_table GOVERNANCE_STATES ''executed''"
  by (simp_all add: in_table_def table_lookup_def GOVERNANCE_STATES_def)

lemma demo_governed_record:
  "recordGovernanceObservation governed_platform (Map.empty(''gov.json'' \<mapsto> demo_governed 0 op_planned)) ''gov.json'' demo_endpoint 0
     (observed_evidence demo_hash demo_hash (Seen_pending demo_hash)) =
     (Map.empty(''gov.json'' \<mapsto> demo_governed 1 op_pending), Inr (demo_governed 1 op_pending))"
  "recordGovernanceObservation governed_platform (Map.empty(''gov.json'' \<mapsto> demo_governed 1 op_pending)) ''gov.json'' demo_endpoint 0
     (observed_evidence demo_hash demo_hash (Seen_executed demo_hash demo_hash 80 demo_hash)) =
     (Map.empty(''gov.json'' \<mapsto> demo_governed 2 op_executed), Inr (demo_governed 2 op_executed))"
proof -
  have "apply_observation (observation_patch (observed_evidence demo_hash demo_hash (Seen_pending demo_hash)) op_planned)
      ''pending'' op_planned = op_pending"
    "apply_observation (observation_patch (observed_evidence demo_hash demo_hash
      (Seen_executed demo_hash demo_hash 80 demo_hash)) op_pending) ''executed'' op_pending = op_executed"
    by (simp_all add: apply_observation_def observation_patch_def first_some_def demo_operation_def)
  moreover have "observation_patch (observed_evidence demo_hash demo_hash (Seen_pending demo_hash)) op_planned =
      \<lparr>pt_observed = Some demo_hash, pt_schedule = Some demo_hash, pt_execute = None, pt_blockNumber = None, pt_blockHash = None\<rparr>"
    "observation_patch (observed_evidence demo_hash demo_hash (Seen_executed demo_hash demo_hash 80 demo_hash)) op_pending =
      \<lparr>pt_observed = Some demo_hash, pt_schedule = Some demo_hash, pt_execute = Some demo_hash, pt_blockNumber = Some 80,
       pt_blockHash = Some demo_hash\<rparr>"
    by (simp_all add: observation_patch_def first_some_def)
  ultimately show
    "recordGovernanceObservation governed_platform (Map.empty(''gov.json'' \<mapsto> demo_governed 0 op_planned)) ''gov.json'' demo_endpoint 0
       (observed_evidence demo_hash demo_hash (Seen_pending demo_hash)) =
       (Map.empty(''gov.json'' \<mapsto> demo_governed 1 op_pending), Inr (demo_governed 1 op_pending))"
    "recordGovernanceObservation governed_platform (Map.empty(''gov.json'' \<mapsto> demo_governed 1 op_pending)) ''gov.json'' demo_endpoint 0
       (observed_evidence demo_hash demo_hash (Seen_executed demo_hash demo_hash 80 demo_hash)) =
       (Map.empty(''gov.json'' \<mapsto> demo_governed 2 op_executed), Inr (demo_governed 2 op_executed))"
    by (simp_all add: recordGovernanceObservation_def governance_read governance_assert null_or_hex32_def Let_def)
qed

lemma demo_governed_reached:
  "foldl (governance_run governed_platform) Map.empty
     [Reserve_operations Map.empty ''gov.json'' demo_governance [demo_request],
      Record_observation ''gov.json'' demo_endpoint 0 demo_hash demo_hash (Seen_pending demo_hash),
      Record_observation ''gov.json'' demo_endpoint 0 demo_hash demo_hash (Seen_executed demo_hash demo_hash 80 demo_hash)] =
   Map.empty(''gov.json'' \<mapsto> demo_governed 2 op_executed)"
  by (simp add: demo_governed_build demo_governed_reserve demo_governed_record del: observed_evidence.simps)

section \<open>The properties at this run\<close>

theorem governance_evidence_final_witness:
  "\<exists>r'. foldl (governance_run governed_platform) (Map.empty(''gov.json'' \<mapsto> demo_governed 2 op_executed))
      [Record_observation ''gov.json'' demo_endpoint 0 demo_hash demo_hash Seen_planned] ''gov.json'' = Some r' \<and>
     gj_operations r' ! 0 = op_executed"
proof -
  have "governance_own_rank op_executed = Some 2" by (simp add: governance_own_rank_def GOVERNANCE_STATES_def)
  then show ?thesis
    using governance_evidence_final[of "Map.empty(''gov.json'' \<mapsto> demo_governed 2 op_executed)" "''gov.json''"
        "demo_governed 2 op_executed" governed_platform
        "[Record_observation ''gov.json'' demo_endpoint 0 demo_hash demo_hash Seen_planned]"]
    by auto
qed

theorem governance_evidence_complete_witness:
  "hex32_opt (executeTxHash op_executed) \<and> (\<exists>b. go_blockNumber op_executed = Some b \<and> 0 \<le> b)"
proof -
  have "foldl (governance_run governed_platform) Map.empty
      [Reserve_operations Map.empty ''gov.json'' demo_governance [demo_request],
       Record_observation ''gov.json'' demo_endpoint 0 demo_hash demo_hash (Seen_pending demo_hash),
       Record_observation ''gov.json'' demo_endpoint 0 demo_hash demo_hash (Seen_executed demo_hash demo_hash 80 demo_hash)]
      ''gov.json'' = Some (demo_governed 2 op_executed)"
    unfolding demo_governed_reached by simp
  from governance_evidence_complete[OF this, of 0] show ?thesis by simp
qed

theorem inherited_observation_erases_witness:
  "\<exists>r'. recordGovernanceObservation governed_platform (Map.empty(''gov.json'' \<mapsto> demo_governed 2 op_executed)) ''gov.json''
      demo_endpoint 0 \<lparr>ev_operationId = Some demo_hash, ev_state = ''toString'', ev_observedOperationId = None,
        ev_scheduleTxHash = None, ev_executeTxHash = None, ev_blockNumber = None, ev_blockHash = None\<rparr> =
      (Map.empty(''gov.json'' \<mapsto> r'), Inr r') \<and> executeTxHash (gj_operations r' ! 0) = None"
  using inherited_observation_erases[of "Map.empty(''gov.json'' \<mapsto> demo_governed 2 op_executed)" "''gov.json''"
      "demo_governed 2 op_executed" governed_platform 0]
  by (fastforce simp: safe_integer_def)

end
