(* ===== verification/Resolver_Quorum.thy ===== *)
theory Resolver_Quorum
  imports Deployment_Operations
begin

text \<open>
  agent/resolver-quorum.mjs: the decision packet the resolvers of a dispute sign, the signature artifacts,
  and the collection of the signatures that make a quorum.

  Objects read from outside are lists of properties with distinct names, whose values are strings,
  numbers, booleans or null. EIP-712 hashing and recovery and the hash of a text come from the ethers
  package: they are fields of the parameter \<open>qp\<close>. \<open>isAddress\<close> asks whether \<open>getAddress\<close> succeeds.
\<close>

type_synonym js_obj = "(string \<times> jsval) list"

record quorum_platform =
  qp_platform :: platform
  typed_hash :: "js_obj \<Rightarrow> js_obj \<Rightarrow> string"
  recover_typed :: "js_obj \<Rightarrow> js_obj \<Rightarrow> string \<Rightarrow> string option"
  keccak_text :: "string \<Rightarrow> string"

datatype resolver_quorum_error =
    Keys_mismatch string | Not_address string | Not_bytes32 string | Not_canonical_integer string
  | Integer_zero string | Integer_too_wide string | Transcript_uri_empty
  | Unsupported_packet | Binding_mismatch_packet
  | Signing_failed string | Unrecoverable | Signer_not_recovered
  | Not_an_object | Unsupported_artifact | Other_decision | Signature_not_65 | Signer_mismatch | Self_hash_mismatch
  | Epoch_stale | No_threshold | Quorum_call_failed string

definition packet_schema :: string where "packet_schema = ''p42-resolver-quorum-decision/v1''"
definition artifact_schema :: string where "artifact_schema = ''p42-resolver-quorum-signature/v1''"

definition DOMAIN_KEYS :: "string list" where
  "DOMAIN_KEYS = [''name'', ''version'', ''chainId'', ''verifyingContract'']"

definition DECISION_KEYS :: "string list" where
  "DECISION_KEYS = [''chainId'', ''adapter'', ''manager'', ''submissionId'', ''challengeInstanceHash'', ''challengerWins'',
     ''transcriptHash'', ''transcriptURIHash'', ''verdictHash'', ''bondBeneficiary'', ''nonce'', ''expiry'', ''signerEpoch'']"

definition SIGNATURE_KEYS :: "string list" where
  "SIGNATURE_KEYS = [''schema_version'', ''decision_digest'', ''signer'', ''signature'', ''artifact_hash'']"

section \<open>Reading values\<close>

definition exactObject :: "js_obj \<Rightarrow> string list \<Rightarrow> string \<Rightarrow> resolver_quorum_error + js_obj" where
  "exactObject obj keys label =
     require (set keys \<subseteq> set (map fst obj) \<and> set (map fst obj) \<subseteq> set keys) (Keys_mismatch label) (Inr obj)"

definition address_of :: "quorum_platform \<Rightarrow> jsval \<Rightarrow> string \<Rightarrow> resolver_quorum_error + string" where
  "address_of qp v label =
     (case v of
        JStr s \<Rightarrow> and_then (of_option (Not_address label) (getAddress (qp_platform qp) s)) (\<lambda>a. Inr (to_lower a))
      | _ \<Rightarrow> Inl (Not_address label))"

definition ZeroHash :: string where "ZeroHash = ''0x'' @ replicate 64 CHR ''0''"

definition bytes32_of :: "quorum_platform \<Rightarrow> jsval \<Rightarrow> string \<Rightarrow> resolver_quorum_error + string" where
  "bytes32_of qp v label =
     (case v of
        JStr s \<Rightarrow> require (isHexBytes (qp_platform qp) s 32 \<and> to_lower s \<noteq> ZeroHash) (Not_bytes32 label) (Inr (to_lower s))
      | _ \<Rightarrow> Inl (Not_bytes32 label))"

definition unsignedDecimal :: "jsval \<Rightarrow> string \<Rightarrow> bool \<Rightarrow> int option \<Rightarrow> resolver_quorum_error + string" where
  "unsignedDecimal v label nonzero limit =
     (let text = js_string v; parsed = (case js_bigint (JStr text) of None \<Rightarrow> 0 | Some n \<Rightarrow> n)
      in require (canonical_decimal text) (Not_canonical_integer label)
         (require (\<not> (nonzero \<and> parsed = 0)) (Integer_zero label)
         (require (case limit of None \<Rightarrow> True | Some m \<Rightarrow> \<not> parsed > m) (Integer_too_wide label) (Inr text))))"

fun jsval_json :: "jsval \<Rightarrow> int json" where
  "jsval_json (JBool b) = JsBool b"
| "jsval_json (JInt i) = js_int i"
| "jsval_json (JStr s) = js_str s"
| "jsval_json _ = JsNull"

definition obj_json :: "js_obj \<Rightarrow> int json" where
  "obj_json obj = js_object (map (\<lambda>(k, v). (k, jsval_json v)) obj)"

section \<open>Decision packets\<close>

record quorum_packet =
  qk_schema :: jsval
  qk_domain :: js_obj
  qk_decision :: js_obj
  qk_transcriptURI :: jsval
  qk_digest :: jsval
  qk_hash :: jsval

record decision_args =
  da_chainId :: jsval
  da_adapter :: jsval
  da_manager :: jsval
  da_submissionId :: jsval
  da_challengeInstanceHash :: jsval
  da_challengerWins :: jsval
  da_transcriptHash :: jsval
  da_transcriptURI :: jsval
  da_verdictHash :: jsval
  da_nonce :: jsval
  da_expiry :: jsval
  da_signerEpoch :: jsval

definition deterministicResolverNonce :: "quorum_platform \<Rightarrow> jsval \<Rightarrow> resolver_quorum_error + string" where
  "deterministicResolverNonce qp h =
     and_then (bytes32_of qp h ''challengeInstanceHash'') (\<lambda>b.
       case js_bigint (JStr b) of
         None \<Rightarrow> Inl (Not_canonical_integer ''resolver nonce'')
       | Some n \<Rightarrow> unsignedDecimal (JInt n) ''resolver nonce'' True None)"

text \<open>\<open>packetWithoutHash\<close>: the canonical JSON the packet's own hash covers.\<close>

definition packet_json :: "quorum_packet \<Rightarrow> int json" where
  "packet_json k = js_object
     [(''schema_version'', jsval_json (qk_schema k)), (''domain'', obj_json (qk_domain k)),
      (''decision'', obj_json (qk_decision k)), (''transcript_uri'', jsval_json (qk_transcriptURI k)),
      (''decision_digest'', jsval_json (qk_digest k))]"

text \<open>The first check of the builder: a string that is not empty.\<close>

fun nonempty_text :: "jsval \<Rightarrow> resolver_quorum_error + string" where
  "nonempty_text (JStr s) = require (s \<noteq> []) Transcript_uri_empty (Inr s)"
| "nonempty_text _ = Inl Transcript_uri_empty"

definition max_uint64 :: int where "max_uint64 = 2 ^ 64 - 1"

definition packet_domain :: "string \<Rightarrow> string \<Rightarrow> js_obj" where
  "packet_domain chain adapter =
     [(''name'', JStr ''P42ResolverQuorum''), (''version'', JStr ''1''), (''chainId'', JStr chain),
      (''verifyingContract'', JStr adapter)]"

text \<open>The packet for checked values, with its EIP-712 digest and its own hash.\<close>

definition packet_decision ::
    "string \<Rightarrow> string \<Rightarrow> string \<Rightarrow> string \<Rightarrow> string \<Rightarrow> bool \<Rightarrow> string \<Rightarrow> string \<Rightarrow> string \<Rightarrow> string \<Rightarrow> string \<Rightarrow> string \<Rightarrow> js_obj" where
  "packet_decision chain adapter manager submission instance_hash wins transcript uri_hash verdict nonce expiry epoch =
     [(''chainId'', JStr chain), (''adapter'', JStr adapter), (''manager'', JStr manager),
      (''submissionId'', JStr submission), (''challengeInstanceHash'', JStr instance_hash),
      (''challengerWins'', JBool wins), (''transcriptHash'', JStr transcript),
      (''transcriptURIHash'', JStr uri_hash), (''verdictHash'', JStr verdict),
      (''bondBeneficiary'', JStr adapter), (''nonce'', JStr nonce), (''expiry'', JStr expiry),
      (''signerEpoch'', JStr epoch)]"

definition packet_of :: "quorum_platform \<Rightarrow> string \<Rightarrow> js_obj \<Rightarrow> js_obj \<Rightarrow> quorum_packet" where
  "packet_of qp uri domain decision =
     (let packet = \<lparr>qk_schema = JStr packet_schema, qk_domain = domain, qk_decision = decision,
                    qk_transcriptURI = JStr uri, qk_digest = JStr (to_lower (typed_hash qp domain decision)),
                    qk_hash = JUndefined\<rparr>
      in packet\<lparr>qk_hash := JStr (digest (qp_platform qp) (packet_json packet))\<rparr>)"

text \<open>An absent nonce (\<open>JUndefined\<close>) takes the default, which is computed first.\<close>

definition buildResolverQuorumDecisionPacket :: "quorum_platform \<Rightarrow> decision_args \<Rightarrow> resolver_quorum_error + quorum_packet" where
  "buildResolverQuorumDecisionPacket qp a =
     and_then (if da_nonce a = JUndefined
               then and_then (deterministicResolverNonce qp (da_challengeInstanceHash a)) (\<lambda>n. Inr (JStr n))
               else Inr (da_nonce a)) (\<lambda>nonce0.
     and_then (nonempty_text (da_transcriptURI a)) (\<lambda>uri.
     and_then (unsignedDecimal (da_chainId a) ''chainId'' True None) (\<lambda>chain.
     and_then (address_of qp (da_adapter a) ''adapter'') (\<lambda>adapter.
     and_then (address_of qp (da_manager a) ''manager'') (\<lambda>manager.
     and_then (unsignedDecimal (da_submissionId a) ''submissionId'' True None) (\<lambda>submissionId.
     and_then (bytes32_of qp (da_challengeInstanceHash a) ''challengeInstanceHash'') (\<lambda>instance_hash.
     and_then (bytes32_of qp (da_transcriptHash a) ''transcriptHash'') (\<lambda>transcriptHash.
     and_then (bytes32_of qp (da_verdictHash a) ''verdictHash'') (\<lambda>verdictHash.
     and_then (unsignedDecimal nonce0 ''nonce'' True None) (\<lambda>nonce.
     and_then (unsignedDecimal (da_expiry a) ''expiry'' True (Some max_uint64)) (\<lambda>expiry.
     and_then (unsignedDecimal (da_signerEpoch a) ''signerEpoch'' True (Some max_uint64)) (\<lambda>signerEpoch.
       Inr (packet_of qp uri (packet_domain chain adapter)
         (packet_decision chain adapter manager submissionId instance_hash (js_truthy (da_challengerWins a))
            transcriptHash (keccak_text qp uri) verdictHash nonce expiry signerEpoch))))))))))))))"

definition packet_args :: "quorum_packet \<Rightarrow> decision_args" where
  "packet_args k = (let d = property (qk_decision k) in
     \<lparr>da_chainId = d ''chainId'', da_adapter = d ''adapter'', da_manager = d ''manager'', da_submissionId = d ''submissionId'',
      da_challengeInstanceHash = d ''challengeInstanceHash'', da_challengerWins = d ''challengerWins'',
      da_transcriptHash = d ''transcriptHash'', da_transcriptURI = qk_transcriptURI k, da_verdictHash = d ''verdictHash'',
      da_nonce = d ''nonce'', da_expiry = d ''expiry'', da_signerEpoch = d ''signerEpoch''\<rparr>)"

definition validateResolverQuorumDecisionPacket :: "quorum_platform \<Rightarrow> quorum_packet \<Rightarrow> resolver_quorum_error + quorum_packet" where
  "validateResolverQuorumDecisionPacket qp k =
     require (qk_schema k = JStr packet_schema) Unsupported_packet
     (and_then (exactObject (qk_domain k) DOMAIN_KEYS ''resolver quorum domain'') (\<lambda>_.
      and_then (exactObject (qk_decision k) DECISION_KEYS ''resolver quorum decision'') (\<lambda>_.
      and_then (buildResolverQuorumDecisionPacket qp (packet_args k)) (\<lambda>rebuilt.
      require (canonical_text (obj_json (qk_domain k)) = canonical_text (obj_json (qk_domain rebuilt)) \<and>
               canonical_text (obj_json (qk_decision k)) = canonical_text (obj_json (qk_decision rebuilt)) \<and>
               qk_digest k = qk_digest rebuilt \<and>
               qk_hash k = JStr (digest (qp_platform qp) (packet_json k))) Binding_mismatch_packet (Inr k)))))"

section \<open>Signature artifacts\<close>

record quorum_signer =
  qs_address :: jsval
  qs_signTypedData :: "js_obj \<Rightarrow> js_obj \<Rightarrow> string + string"

definition recovered_address :: "quorum_platform \<Rightarrow> quorum_packet \<Rightarrow> string \<Rightarrow> resolver_quorum_error + string" where
  "recovered_address qp k signature =
     and_then (of_option Unrecoverable (recover_typed qp (qk_domain k) (qk_decision k) signature)) (\<lambda>a.
       address_of qp (JStr a) ''recovered signer'')"

definition artifact_hash :: "quorum_platform \<Rightarrow> js_obj \<Rightarrow> string" where
  "artifact_hash qp artifact = digest (qp_platform qp) (obj_json (filter (\<lambda>(k, v). k \<noteq> ''artifact_hash'') artifact))"

definition buildResolverQuorumSignatureArtifact ::
    "quorum_platform \<Rightarrow> quorum_packet \<Rightarrow> quorum_signer \<Rightarrow> resolver_quorum_error + js_obj" where
  "buildResolverQuorumSignatureArtifact qp k0 signer =
     and_then (validateResolverQuorumDecisionPacket qp k0) (\<lambda>k.
     and_then (address_of qp (qs_address signer) ''signer'') (\<lambda>signerAddress.
     case qs_signTypedData signer (qk_domain k) (qk_decision k) of
       Inl m \<Rightarrow> Inl (Signing_failed m)
     | Inr signature \<Rightarrow>
         and_then (recovered_address qp k signature) (\<lambda>recovered.
         require (recovered = signerAddress) Signer_not_recovered
           (let artifact = [(''schema_version'', JStr artifact_schema), (''decision_digest'', qk_digest k),
                            (''signer'', JStr signerAddress), (''signature'', JStr signature)]
            in Inr (artifact @ [(''artifact_hash'', JStr (artifact_hash qp artifact))])))))"

definition validateResolverQuorumSignatureArtifact ::
    "quorum_platform \<Rightarrow> js_obj option \<Rightarrow> quorum_packet \<Rightarrow> resolver_quorum_error + js_obj \<times> string" where
  "validateResolverQuorumSignatureArtifact qp v k0 =
     and_then (validateResolverQuorumDecisionPacket qp k0) (\<lambda>k.
     and_then (of_option Not_an_object v) (\<lambda>obj.
     and_then (exactObject obj SIGNATURE_KEYS ''resolver quorum signature artifact'') (\<lambda>artifact.
     require (property artifact ''schema_version'' = JStr artifact_schema) Unsupported_artifact
     (require (property artifact ''decision_digest'' = qk_digest k) Other_decision
     (and_then (address_of qp (property artifact ''signer'') ''signature signer'') (\<lambda>claimed.
      case property artifact ''signature'' of
        JStr signature \<Rightarrow>
          require (isHexBytes (qp_platform qp) signature 65) Signature_not_65
          (and_then (recovered_address qp k signature) (\<lambda>recovered.
           require (claimed = recovered) Signer_mismatch
          (require (property artifact ''artifact_hash'' = JStr (artifact_hash qp artifact)) Self_hash_mismatch
             (Inr (artifact, recovered)))))
      | _ \<Rightarrow> Inl Signature_not_65))))))"

section \<open>Collecting a quorum\<close>

text \<open>The on-chain signer registry of the quorum; a call may fail.\<close>

record quorum_contract =
  qc_signerEpoch :: "string + int"
  qc_epochThreshold :: "int \<Rightarrow> string + int"
  qc_isEpochSigner :: "int \<Rightarrow> string \<Rightarrow> string + bool"

datatype rejection = Invalid_artifact resolver_quorum_error | Duplicate_signer string | Not_epoch_signer string

text \<open>The state of the loop: accepted artifacts, rejected ones with their index, and the signers seen.\<close>

record collection =
  co_accepted :: "(js_obj \<times> string) list"
  co_rejected :: "(nat \<times> rejection) list"
  co_seen :: "string list"

definition reject :: "nat \<Rightarrow> rejection \<Rightarrow> collection \<Rightarrow> collection" where
  "reject i why c = c\<lparr>co_rejected := co_rejected c @ [(i, why)]\<rparr>"

definition collect_one ::
    "quorum_platform \<Rightarrow> quorum_contract \<Rightarrow> int \<Rightarrow> quorum_packet \<Rightarrow> collection \<Rightarrow> nat \<times> js_obj option \<Rightarrow> collection" where
  "collect_one qp q epoch k c = (\<lambda>(i, v).
     case validateResolverQuorumSignatureArtifact qp v k of
       Inl err \<Rightarrow> reject i (Invalid_artifact err) c
     | Inr (artifact, signer) \<Rightarrow>
         if signer \<in> set (co_seen c) then reject i (Duplicate_signer signer) c
         else let c' = c\<lparr>co_seen := signer # co_seen c\<rparr>
              in (case qc_isEpochSigner q epoch signer of
                    Inl m \<Rightarrow> reject i (Invalid_artifact (Quorum_call_failed m)) c'
                  | Inr b \<Rightarrow> if \<not> b then reject i (Not_epoch_signer signer) c'
                            else c'\<lparr>co_accepted := co_accepted c' @ [(artifact, signer)]\<rparr>))"

record quorum_result =
  qr_ready :: bool
  qr_threshold :: int
  qr_signers :: "string list"
  qr_signatures :: "jsval list"
  qr_rejected :: "(nat \<times> rejection) list"

definition quorum_call :: "string + 'a \<Rightarrow> resolver_quorum_error + 'a" where
  "quorum_call r = (case r of Inl m \<Rightarrow> Inl (Quorum_call_failed m) | Inr x \<Rightarrow> Inr x)"

text \<open>Lower-case addresses compare by \<open>localeCompare\<close> as by their code units.\<close>

definition collectResolverQuorumSignatures ::
    "quorum_platform \<Rightarrow> quorum_packet \<Rightarrow> js_obj option list \<Rightarrow> quorum_contract \<Rightarrow> resolver_quorum_error + quorum_result" where
  "collectResolverQuorumSignatures qp k0 artifacts q =
     and_then (validateResolverQuorumDecisionPacket qp k0) (\<lambda>k.
     and_then (of_option (Not_canonical_integer ''signerEpoch'') (js_bigint (property (qk_decision k) ''signerEpoch''))) (\<lambda>epoch.
     and_then (quorum_call (qc_signerEpoch q)) (\<lambda>liveEpoch.
     and_then (quorum_call (qc_epochThreshold q epoch)) (\<lambda>threshold.
     require (liveEpoch = epoch) Epoch_stale
     (require (\<not> threshold < 1) No_threshold
       (let c = foldl (collect_one qp q epoch k) \<lparr>co_accepted = [], co_rejected = [], co_seen = []\<rparr> (enumerate 0 artifacts);
            accepted = sort_key (units \<circ> snd) (co_accepted c)
        in Inr \<lparr>qr_ready = (int (length accepted) \<ge> threshold), qr_threshold = threshold,
                qr_signers = map snd accepted, qr_signatures = map (\<lambda>(a, s). property a ''signature'') accepted,
                qr_rejected = co_rejected c\<rparr>))))))"

end
