(* ===== verification/Quorum_Properties.thy ===== *)
theory Quorum_Properties
  imports Resolver_Quorum
begin

text \<open>
  What a collected quorum shows: exactly which signers it counts, and that each of them signed the
  decision of the packet; and that built packets and artifacts pass their validation.
\<close>

section \<open>Validation\<close>

lemma validate_packet_Inr: "validateResolverQuorumDecisionPacket qp k0 = Inr k \<Longrightarrow> k = k0"
  by (auto simp: validateResolverQuorumDecisionPacket_def)

lemma exactObject_Inr: "exactObject obj keys label = Inr o2 \<longleftrightarrow> o2 = obj \<and> set (map fst obj) = set keys"
  by (auto simp: exactObject_def)

lemma valid_artifact:
  assumes "validateResolverQuorumSignatureArtifact qp v k = Inr (artifact, signer)"
  shows "\<exists>signature. v = Some artifact \<and> property artifact ''signature'' = JStr signature \<and>
    property artifact ''decision_digest'' = qk_digest k \<and> recovered_address qp k signature = Inr signer \<and>
    isHexBytes (qp_platform qp) signature 65"
proof (cases v)
  case (Some obj)
  then show ?thesis using assms
    by (cases "property obj ''signature''")
      (auto simp: validateResolverQuorumSignatureArtifact_def exactObject_Inr dest!: validate_packet_Inr)
qed (use assms in \<open>auto simp: validateResolverQuorumSignatureArtifact_def\<close>)

section \<open>The collection loop\<close>

definition recovered_signers :: "quorum_platform \<Rightarrow> quorum_packet \<Rightarrow> js_obj option list \<Rightarrow> string set" where
  "recovered_signers qp k vs =
     {signer. \<exists>v \<in> set vs. \<exists>artifact. validateResolverQuorumSignatureArtifact qp v k = Inr (artifact, signer)}"

definition collected ::
    "quorum_platform \<Rightarrow> quorum_contract \<Rightarrow> int \<Rightarrow> quorum_packet \<Rightarrow> js_obj option list \<Rightarrow> collection \<Rightarrow> bool" where
  "collected qp q epoch k vs c \<longleftrightarrow>
     set (co_seen c) = recovered_signers qp k vs \<and> distinct (map snd (co_accepted c)) \<and>
     set (map snd (co_accepted c)) = {s \<in> recovered_signers qp k vs. qc_isEpochSigner q epoch s = Inr True} \<and>
     (\<forall>(artifact, signer) \<in> set (co_accepted c). \<exists>v \<in> set vs.
        validateResolverQuorumSignatureArtifact qp v k = Inr (artifact, signer))"

lemma collected_accepted:
  assumes "collected qp q epoch k vs c" "(artifact, signer) \<in> set (co_accepted c)"
  shows "\<exists>v \<in> set vs. validateResolverQuorumSignatureArtifact qp v k = Inr (artifact, signer)"
proof -
  have "\<forall>(artifact, signer) \<in> set (co_accepted c). \<exists>v \<in> set vs.
      validateResolverQuorumSignatureArtifact qp v k = Inr (artifact, signer)"
    using assms(1) by (simp add: collected_def)
  from bspec[OF this assms(2)] show ?thesis by simp
qed

lemma recovered_signers_snoc:
  "recovered_signers qp k (vs @ [v]) = recovered_signers qp k vs \<union>
     (case validateResolverQuorumSignatureArtifact qp v k of Inl _ \<Rightarrow> {} | Inr (_, signer) \<Rightarrow> {signer})"
  by (auto simp: recovered_signers_def split: sum.splits)

lemma collected_step:
  assumes "collected qp q epoch k vs c"
  shows "collected qp q epoch k (vs @ [v]) (collect_one qp q epoch k c (i, v))"
proof (cases "validateResolverQuorumSignatureArtifact qp v k")
  case (Inl err)
  then show ?thesis using assms
    by (auto simp: collect_one_def collected_def recovered_signers_snoc reject_def)
next
  case (Inr res)
  obtain artifact signer where res: "res = (artifact, signer)" by (cases res)
  note valid = Inr[unfolded res]
  show ?thesis
  proof (cases "signer \<in> set (co_seen c)")
    case True
    then show ?thesis using assms valid
      by (simp add: collect_one_def collected_def recovered_signers_snoc reject_def insert_absorb) fastforce
  next
    case False
    then have new: "signer \<notin> recovered_signers qp k vs" using assms by (simp add: collected_def)
    show ?thesis
    proof (cases "qc_isEpochSigner q epoch signer = Inr True")
      case True
      then show ?thesis using assms valid False new
        by (auto simp: collect_one_def collected_def recovered_signers_snoc Let_def image_iff)
    next
      case no: False
      have "{s \<in> insert signer (recovered_signers qp k vs). qc_isEpochSigner q epoch s = Inr True} =
          {s \<in> recovered_signers qp k vs. qc_isEpochSigner q epoch s = Inr True}"
        using no by auto
      then show ?thesis using assms valid False no
        by (cases "qc_isEpochSigner q epoch signer")
          (fastforce simp: collect_one_def collected_def recovered_signers_snoc reject_def Let_def)+
    qed
  qed
qed

lemma collected_fold:
  "collected qp q epoch k us c \<Longrightarrow>
   collected qp q epoch k (us @ vs) (foldl (collect_one qp q epoch k) c (enumerate n vs))"
proof (induction vs arbitrary: us c n)
  case (Cons v vs)
  then show ?case using Cons.IH[OF collected_step[OF Cons.prems, of v n]] by simp
qed simp

lemma collected_all:
  "collected qp q epoch k vs (foldl (collect_one qp q epoch k) \<lparr>co_accepted = [], co_rejected = [], co_seen = []\<rparr> (enumerate 0 vs))"
  using collected_fold[of qp q epoch k "[]" "\<lparr>co_accepted = [], co_rejected = [], co_seen = []\<rparr>" vs 0]
  by (simp add: collected_def recovered_signers_def)

lemma collect_Inr:
  assumes "collectResolverQuorumSignatures qp k artifacts q = Inr res"
  shows "\<exists>epoch c. validateResolverQuorumDecisionPacket qp k = Inr k \<and>
    js_bigint (property (qk_decision k) ''signerEpoch'') = Some epoch \<and> qc_signerEpoch q = Inr epoch \<and>
    qc_epochThreshold q epoch = Inr (qr_threshold res) \<and> 1 \<le> qr_threshold res \<and>
    collected qp q epoch k artifacts c \<and>
    qr_ready res = (qr_threshold res \<le> int (length (co_accepted c))) \<and>
    qr_signers res = map snd (sort_key (units \<circ> snd) (co_accepted c)) \<and>
    qr_signatures res = map (\<lambda>(a, s). property a ''signature'') (sort_key (units \<circ> snd) (co_accepted c))"
proof -
  have call: "quorum_call r = Inr x \<longleftrightarrow> r = Inr x" for r :: "string + int" and x
    by (auto simp: quorum_call_def split: sum.splits)
  have valid: "validateResolverQuorumDecisionPacket qp k = Inr k"
    using assms validate_packet_Inr by (auto simp: collectResolverQuorumSignatures_def)
  let ?loop = "\<lambda>epoch. foldl (collect_one qp q epoch k) \<lparr>co_accepted = [], co_rejected = [], co_seen = []\<rparr> (enumerate 0 artifacts)"
  obtain epoch threshold where e: "js_bigint (property (qk_decision k) ''signerEpoch'') = Some epoch"
      "qc_signerEpoch q = Inr epoch" "qc_epochThreshold q epoch = Inr threshold" "\<not> threshold < 1"
    using assms valid by (auto simp: collectResolverQuorumSignatures_def call Let_def)
  then have "qr_threshold res = threshold" "qr_ready res = (threshold \<le> int (length (co_accepted (?loop epoch))))"
      "qr_signers res = map snd (sort_key (units \<circ> snd) (co_accepted (?loop epoch)))"
      "qr_signatures res = map (\<lambda>(a, s). property a ''signature'') (sort_key (units \<circ> snd) (co_accepted (?loop epoch)))"
    using assms valid by (auto simp: collectResolverQuorumSignatures_def call Let_def)
  then show ?thesis using e valid collected_all[of qp q epoch k artifacts] by (intro exI[of _ epoch] exI[of _ "?loop epoch"]) simp
qed

section \<open>Built packets and artifacts\<close>

text \<open>
  What the round trips rely on of the ethers package: a lower-case address is an address, the same one,
  and a lower-case hexadecimal text has the length of the original.
\<close>

definition lower_case_accepted :: "platform \<Rightarrow> bool" where
  "lower_case_accepted pf \<longleftrightarrow>
     (\<forall>s a. getAddress pf s = Some a \<longrightarrow> (\<exists>b. getAddress pf (to_lower a) = Some b \<and> to_lower b = to_lower a)) \<and>
     (\<forall>s n. isHexBytes pf s n \<longrightarrow> isHexBytes pf (to_lower s) n)"

lemma address_of_again:
  assumes "lower_case_accepted (qp_platform qp)" "address_of qp v label = Inr a"
  shows "address_of qp (JStr a) label2 = Inr a"
  using assms by (cases v) (fastforce simp: address_of_def lower_case_accepted_def of_option_def split: option.splits)+

lemma bytes32_of_again:
  assumes "lower_case_accepted (qp_platform qp)" "bytes32_of qp v label = Inr b"
  shows "bytes32_of qp (JStr b) label = Inr b"
  using assms by (cases v) (auto simp: bytes32_of_def lower_case_accepted_def)

lemma unsignedDecimal_again: "unsignedDecimal v label nz limit = Inr t \<Longrightarrow> unsignedDecimal (JStr t) label nz limit = Inr t"
  by (auto simp: unsignedDecimal_def Let_def split: option.splits)

lemma built_packet:
  assumes "buildResolverQuorumDecisionPacket qp a = Inr k"
  shows "\<exists>uri chain adapter manager submission instance_hash transcript verdict nonce expiry epoch v.
    uri \<noteq> [] \<and> unsignedDecimal (da_chainId a) ''chainId'' True None = Inr chain \<and>
    address_of qp (da_adapter a) ''adapter'' = Inr adapter \<and> address_of qp (da_manager a) ''manager'' = Inr manager \<and>
    unsignedDecimal (da_submissionId a) ''submissionId'' True None = Inr submission \<and>
    bytes32_of qp (da_challengeInstanceHash a) ''challengeInstanceHash'' = Inr instance_hash \<and>
    bytes32_of qp (da_transcriptHash a) ''transcriptHash'' = Inr transcript \<and>
    bytes32_of qp (da_verdictHash a) ''verdictHash'' = Inr verdict \<and> unsignedDecimal v ''nonce'' True None = Inr nonce \<and>
    unsignedDecimal (da_expiry a) ''expiry'' True (Some max_uint64) = Inr expiry \<and>
    unsignedDecimal (da_signerEpoch a) ''signerEpoch'' True (Some max_uint64) = Inr epoch \<and>
    k = packet_of qp uri (packet_domain chain adapter)
      (packet_decision chain adapter manager submission instance_hash (js_truthy (da_challengerWins a)) transcript
         (keccak_text qp uri) verdict nonce expiry epoch)"
proof (cases "da_transcriptURI a")
  case (JStr uri)
  then show ?thesis using assms unfolding buildResolverQuorumDecisionPacket_def by (simp del: ex_simps) blast
qed (use assms in \<open>auto simp: buildResolverQuorumDecisionPacket_def\<close>)

lemma packet_of_simps [simp]:
  "qk_schema (packet_of qp uri domain decision) = JStr packet_schema"
  "qk_domain (packet_of qp uri domain decision) = domain"
  "qk_decision (packet_of qp uri domain decision) = decision"
  "qk_transcriptURI (packet_of qp uri domain decision) = JStr uri"
  "qk_hash (packet_of qp uri domain decision) = JStr (digest (qp_platform qp) (packet_json (packet_of qp uri domain decision)))"
  by (simp_all add: packet_of_def Let_def packet_json_def)

lemma decision_of_args:
  "packet_args (packet_of qp uri domain (packet_decision chain adapter manager submission instance_hash wins transcript
     uri_hash verdict nonce expiry epoch)) =
   \<lparr>da_chainId = JStr chain, da_adapter = JStr adapter, da_manager = JStr manager, da_submissionId = JStr submission,
    da_challengeInstanceHash = JStr instance_hash, da_challengerWins = JBool wins, da_transcriptHash = JStr transcript,
    da_transcriptURI = JStr uri, da_verdictHash = JStr verdict, da_nonce = JStr nonce, da_expiry = JStr expiry,
    da_signerEpoch = JStr epoch\<rparr>"
  by (simp add: packet_args_def packet_decision_def property_def)

lemma packet_keys:
  "set (map fst (packet_domain chain adapter)) = set DOMAIN_KEYS"
  "set (map fst (packet_decision chain adapter manager submission instance_hash wins transcript uri_hash verdict nonce expiry epoch)) =
     set DECISION_KEYS"
  by (simp_all add: packet_domain_def DOMAIN_KEYS_def packet_decision_def DECISION_KEYS_def)

section \<open>Properties\<close>

text \<open>
  C17. The quorum counts exactly the signers it should: those, each once, that are signers of the decision's
  epoch and for whom some artifact in the list is valid, whatever invalid, foreign or repeated artifacts
  the list holds besides; and it is ready if and only if there are at least as many as the threshold of
  that epoch, which is the live one and has a positive threshold.
\<close>

theorem quorum_counts_signers:
  assumes "collectResolverQuorumSignatures qp k artifacts q = Inr res"
  shows "\<exists>epoch. qc_signerEpoch q = Inr epoch \<and> qc_epochThreshold q epoch = Inr (qr_threshold res) \<and> 1 \<le> qr_threshold res \<and>
    distinct (qr_signers res) \<and>
    set (qr_signers res) = {s \<in> recovered_signers qp k artifacts. qc_isEpochSigner q epoch s = Inr True} \<and>
    (qr_ready res \<longleftrightarrow>
       qr_threshold res \<le> int (card {s \<in> recovered_signers qp k artifacts. qc_isEpochSigner q epoch s = Inr True}))"
proof -
  obtain epoch c where e: "qc_signerEpoch q = Inr epoch" "qc_epochThreshold q epoch = Inr (qr_threshold res)"
      "1 \<le> qr_threshold res" and c: "collected qp q epoch k artifacts c"
    and res: "qr_ready res = (qr_threshold res \<le> int (length (co_accepted c)))"
      "qr_signers res = map snd (sort_key (units \<circ> snd) (co_accepted c))"
    using collect_Inr[OF assms] by blast
  have perm: "mset (qr_signers res) = mset (map snd (co_accepted c))" using res(2) by simp
  have "distinct (qr_signers res)" using mset_eq_imp_distinct_iff[OF perm] c by (simp add: collected_def)
  moreover have "set (qr_signers res) = set (map snd (co_accepted c))" using mset_eq_setD[OF perm] .
  moreover have "length (co_accepted c) = card (set (map snd (co_accepted c)))"
    using c by (metis collected_def distinct_card length_map)
  moreover have "set (map snd (co_accepted c)) = {s \<in> recovered_signers qp k artifacts. qc_isEpochSigner q epoch s = Inr True}"
    using c by (simp add: collected_def)
  ultimately show ?thesis using e res(1) by simp
qed

text \<open>
  C18. Every signature in the result is a 65-byte signature that recovers, over the domain and decision of
  this packet, to the signer listed at the same position, and its artifact names the packet's digest.
\<close>

theorem quorum_signatures_recover:
  assumes "collectResolverQuorumSignatures qp k artifacts q = Inr res"
  shows "list_all2 (\<lambda>signer v. \<exists>signature. v = JStr signature \<and> recovered_address qp k signature = Inr signer \<and>
      isHexBytes (qp_platform qp) signature 65 \<and>
      (\<exists>artifact. Some artifact \<in> set artifacts \<and> property artifact ''signature'' = v \<and>
         property artifact ''decision_digest'' = qk_digest k))
    (qr_signers res) (qr_signatures res)"
proof -
  obtain epoch c where c: "collected qp q epoch k artifacts c"
    and res: "qr_signers res = map snd (sort_key (units \<circ> snd) (co_accepted c))"
      "qr_signatures res = map (\<lambda>(a, s). property a ''signature'') (sort_key (units \<circ> snd) (co_accepted c))"
    using collect_Inr[OF assms] by blast
  have "\<exists>signature. property artifact ''signature'' = JStr signature \<and> recovered_address qp k signature = Inr signer \<and>
      isHexBytes (qp_platform qp) signature 65 \<and>
      (\<exists>a. Some a \<in> set artifacts \<and> property a ''signature'' = property artifact ''signature'' \<and>
         property a ''decision_digest'' = qk_digest k)"
    if accepted: "(artifact, signer) \<in> set (co_accepted c)" for artifact signer
  proof -
    obtain v where "v \<in> set artifacts" "validateResolverQuorumSignatureArtifact qp v k = Inr (artifact, signer)"
      using collected_accepted[OF c accepted] by blast
    then show ?thesis using valid_artifact[of qp v k artifact signer] by blast
  qed
  then have accepted: "\<exists>signature. property (fst p) ''signature'' = JStr signature \<and>
      recovered_address qp k signature = Inr (snd p) \<and> isHexBytes (qp_platform qp) signature 65 \<and>
      (\<exists>a. Some a \<in> set artifacts \<and> property a ''signature'' = property (fst p) ''signature'' \<and>
         property a ''decision_digest'' = qk_digest k)"
    if "p \<in> set (sort_key (units \<circ> snd) (co_accepted c))" for p
    using that by (cases p) simp
  show ?thesis unfolding res list_all2_map1 list_all2_map2 list_all2_same split_beta
    by (intro ballI accepted)
qed


text \<open>
   A packet that was built passes its validation, with no change, whatever the casing and number types of the
  arguments it was built from; the hypothesis is what the ethers package promises of lower-case texts.
\<close>

theorem built_packet_valid:
  assumes "lower_case_accepted (qp_platform qp)" "buildResolverQuorumDecisionPacket qp a = Inr k"
  shows "validateResolverQuorumDecisionPacket qp k = Inr k"
proof -
  obtain uri chain adapter manager submission instance_hash transcript verdict nonce expiry epoch v where
    uri: "uri \<noteq> []"
    and args: "unsignedDecimal (da_chainId a) ''chainId'' True None = Inr chain"
      "address_of qp (da_adapter a) ''adapter'' = Inr adapter" "address_of qp (da_manager a) ''manager'' = Inr manager"
      "unsignedDecimal (da_submissionId a) ''submissionId'' True None = Inr submission"
      "bytes32_of qp (da_challengeInstanceHash a) ''challengeInstanceHash'' = Inr instance_hash"
      "bytes32_of qp (da_transcriptHash a) ''transcriptHash'' = Inr transcript"
      "bytes32_of qp (da_verdictHash a) ''verdictHash'' = Inr verdict" "unsignedDecimal v ''nonce'' True None = Inr nonce"
      "unsignedDecimal (da_expiry a) ''expiry'' True (Some max_uint64) = Inr expiry"
      "unsignedDecimal (da_signerEpoch a) ''signerEpoch'' True (Some max_uint64) = Inr epoch"
    and k: "k = packet_of qp uri (packet_domain chain adapter)
      (packet_decision chain adapter manager submission instance_hash (js_truthy (da_challengerWins a)) transcript
         (keccak_text qp uri) verdict nonce expiry epoch)"
    using built_packet[OF assms(2)] by blast
  note again = args(1)[THEN unsignedDecimal_again] args(4)[THEN unsignedDecimal_again]
    args(8-10)[THEN unsignedDecimal_again] args(2)[THEN address_of_again[OF assms(1)]] args(3)[THEN address_of_again[OF assms(1)]]
    args(5-7)[THEN bytes32_of_again[OF assms(1)]]
  have "buildResolverQuorumDecisionPacket qp (packet_args k) = Inr k"
    unfolding k decision_of_args by (simp add: buildResolverQuorumDecisionPacket_def again uri)
  then show ?thesis
    by (simp add: validateResolverQuorumDecisionPacket_def exactObject_def k packet_keys[unfolded set_map])
qed

text \<open>
   A signature artifact that was built for a packet validates against it, to the address of the signer that
  built it, provided that the signature has 65 bytes.
\<close>

theorem built_artifact_valid:
  assumes "lower_case_accepted (qp_platform qp)" "buildResolverQuorumSignatureArtifact qp k signer = Inr artifact"
    and "\<And>sig. property artifact ''signature'' = JStr sig \<Longrightarrow> isHexBytes (qp_platform qp) sig 65"
  shows "\<exists>a. address_of qp (qs_address signer) ''signer'' = Inr a \<and>
    validateResolverQuorumSignatureArtifact qp (Some artifact) k = Inr (artifact, a)"
proof -
  have valid: "validateResolverQuorumDecisionPacket qp k = Inr k"
    using assms(2) by (auto simp: buildResolverQuorumSignatureArtifact_def dest: validate_packet_Inr)
  obtain sig where sig: "qs_signTypedData signer (qk_domain k) (qk_decision k) = Inr sig"
    using assms(2) valid
    by (cases "qs_signTypedData signer (qk_domain k) (qk_decision k)") (auto simp: buildResolverQuorumSignatureArtifact_def)
  obtain address where built: "validateResolverQuorumDecisionPacket qp k = Inr k"
      "address_of qp (qs_address signer) ''signer'' = Inr address" "recovered_address qp k sig = Inr address"
    and artifact: "artifact = [(''schema_version'', JStr artifact_schema), (''decision_digest'', qk_digest k),
      (''signer'', JStr address), (''signature'', JStr sig)] @ [(''artifact_hash'', JStr (artifact_hash qp
        [(''schema_version'', JStr artifact_schema), (''decision_digest'', qk_digest k),
         (''signer'', JStr address), (''signature'', JStr sig)]))]"
    using assms(2) valid sig by (auto simp: buildResolverQuorumSignatureArtifact_def Let_def)
  have "isHexBytes (qp_platform qp) sig 65" using assms(3) by (simp add: artifact property_def)
  then show ?thesis using built address_of_again[OF assms(1) built(2), of "''signature signer''"]
    by (simp add: validateResolverQuorumSignatureArtifact_def exactObject_def artifact property_def SIGNATURE_KEYS_def
        artifact_hash_def)
qed

end
