(* ===== verification/Quorum_Examples.thy ===== *)
theory Quorum_Examples
  imports Quorum_Properties Deployment_Examples
begin

text \<open>
  A dispute of submission 1 decided by a quorum of two signers: the properties of the quorum applied to it.
  The artifacts presented are two valid ones, a repetition and one of another decision.
\<close>

definition demo_quorum :: quorum_platform where
  "demo_quorum = \<lparr>qp_platform = chain_platform, typed_hash = (\<lambda>_ _. ''0xd1''),
     recover_typed = (\<lambda>_ _ s. Some (''0x'' @ s)), keccak_text = (\<lambda>_. demo_hash)\<rparr>"

definition demo_args :: decision_args where
  "demo_args = \<lparr>da_chainId = JStr ''1'', da_adapter = JStr ''0xA'', da_manager = JStr ''0xb'', da_submissionId = JStr ''1'',
     da_challengeInstanceHash = JStr ''0x1'', da_challengerWins = JBool True, da_transcriptHash = JStr ''0x2'',
     da_transcriptURI = JStr ''u'', da_verdictHash = JStr ''0x3'', da_nonce = JStr ''1'', da_expiry = JStr ''1'', da_signerEpoch = JStr ''1''\<rparr>"

definition demo_packet :: quorum_packet where
  "demo_packet = packet_of demo_quorum ''u'' (packet_domain ''1'' ''0xa'')
     (packet_decision ''1'' ''0xa'' ''0xb'' ''1'' ''0x1'' True ''0x2'' demo_hash ''0x3'' ''1'' ''1'' ''1'')"

definition demo_signer :: "string \<Rightarrow> quorum_signer" where
  "demo_signer s = \<lparr>qs_address = JStr (''0x'' @ s), qs_signTypedData = (\<lambda>_ _. Inr s)\<rparr>"

definition demo_artifact :: "string \<Rightarrow> string \<Rightarrow> js_obj" where
  "demo_artifact d s = [(''schema_version'', JStr artifact_schema), (''decision_digest'', JStr d),
     (''signer'', JStr (''0x'' @ s)), (''signature'', JStr s), (''artifact_hash'', JStr ''sha256:0f'')]"

definition demo_registry :: quorum_contract where
  "demo_registry = \<lparr>qc_signerEpoch = Inr 1, qc_epochThreshold = (\<lambda>_. Inr 2), qc_isEpochSigner = (\<lambda>_ _. Inr True)\<rparr>"

definition demo_presented :: "js_obj option list" where
  "demo_presented = [Some (demo_artifact ''0xd1'' ''2''), Some (demo_artifact ''0xd1'' ''1''), Some (demo_artifact ''0xd1'' ''2''),
     Some (demo_artifact ''0xd2'' ''1'')]"

definition demo_result :: quorum_result where
  "demo_result = \<lparr>qr_ready = True, qr_threshold = 2, qr_signers = [''0x1'', ''0x2''], qr_signatures = [JStr ''1'', JStr ''2''],
     qr_rejected = [(2, Duplicate_signer ''0x2''), (3, Invalid_artifact Other_decision)]\<rparr>"

lemma demo_quorum_simps [simp]:
  "qp_platform demo_quorum = chain_platform" "typed_hash demo_quorum d e = ''0xd1''"
  "recover_typed demo_quorum d e s = Some (''0x'' @ s)" "keccak_text demo_quorum u = demo_hash"
  by (simp_all add: demo_quorum_def)

lemma demo_lower [simp]: "to_lower ''0xA'' = ''0xa''" "to_lower ''0xa'' = ''0xa''" "to_lower ''0xb'' = ''0xb''"
  "to_lower ''0x1'' = ''0x1''" "to_lower ''0x2'' = ''0x2''" "to_lower ''0x3'' = ''0x3''" "to_lower ''0xd1'' = ''0xd1''"
  by code_simp+

lemma chain_addresses [simp]: "getAddress chain_platform s = Some s" "isHexBytes chain_platform s n"
  by (simp_all add: chain_platform_def)

lemma demo_lower_case: "lower_case_accepted (qp_platform demo_quorum)"
  by (simp add: lower_case_accepted_def)

lemma demo_unsigned: "unsignedDecimal (JStr ''1'') label True limit = Inr ''1''" if "limit \<in> {None, Some max_uint64}"
proof -
  have "canonical_decimal ''1''" "js_bigint (JStr ''1'') = Some 1" by code_simp+
  then show ?thesis using that by (auto simp: unsignedDecimal_def max_uint64_def)
qed

lemma ZeroHash_length: "length ZeroHash = 66"
  by (simp add: ZeroHash_def)

lemma demo_bytes32: "s \<in> {''0x1'', ''0x2'', ''0x3''} \<Longrightarrow> bytes32_of demo_quorum (JStr s) label = Inr s"
  using ZeroHash_length by (auto simp: bytes32_of_def dest: arg_cong[of _ _ length])

lemma demo_built: "buildResolverQuorumDecisionPacket demo_quorum demo_args = Inr demo_packet"
  by (simp add: buildResolverQuorumDecisionPacket_def demo_args_def demo_packet_def demo_unsigned demo_bytes32
      address_of_def of_option_def)

lemma demo_packet_valid: "validateResolverQuorumDecisionPacket demo_quorum demo_packet = Inr demo_packet"
proof -
  have "buildResolverQuorumDecisionPacket demo_quorum (packet_args demo_packet) = Inr demo_packet"
    by (simp add: demo_packet_def decision_of_args)
      (simp add: buildResolverQuorumDecisionPacket_def demo_unsigned demo_bytes32 address_of_def of_option_def)
  then show ?thesis
    by (simp add: validateResolverQuorumDecisionPacket_def exactObject_def demo_packet_def packet_keys[unfolded set_map])
qed

lemma demo_artifact_valid:
  assumes "s \<in> {''1'', ''2''}"
  shows "validateResolverQuorumSignatureArtifact demo_quorum (Some (demo_artifact ''0xd1'' s)) demo_packet =
    Inr (demo_artifact ''0xd1'' s, ''0x'' @ s)"
proof -
  have "qk_digest demo_packet = JStr ''0xd1''" by (simp add: demo_packet_def packet_of_def Let_def)
  then show ?thesis using assms
    by (auto simp: validateResolverQuorumSignatureArtifact_def demo_packet_valid exactObject_def demo_artifact_def SIGNATURE_KEYS_def
        property_def artifact_hash_def address_of_def of_option_def recovered_address_def)
qed

lemma demo_artifact_other:
  "validateResolverQuorumSignatureArtifact demo_quorum (Some (demo_artifact ''0xd2'' s)) demo_packet = Inl Other_decision"
  by (simp add: validateResolverQuorumSignatureArtifact_def demo_packet_valid exactObject_def demo_artifact_def SIGNATURE_KEYS_def
      property_def) (simp add: demo_packet_def packet_of_def Let_def)

lemma demo_collected:
  "collectResolverQuorumSignatures demo_quorum demo_packet demo_presented demo_registry = Inr demo_result"
proof -
  have "js_bigint (property (qk_decision demo_packet) ''signerEpoch'') = Some 1"
    by (simp add: demo_packet_def packet_decision_def property_def) code_simp
  moreover have "sort_key (units \<circ> snd) [(demo_artifact ''0xd1'' ''2'', ''0x2''), (demo_artifact ''0xd1'' ''1'', ''0x1'')] =
      [(demo_artifact ''0xd1'' ''1'', ''0x1''), (demo_artifact ''0xd1'' ''2'', ''0x2'')]"
    by (simp add: units_def)
  ultimately show ?thesis
    using demo_artifact_valid[of "''1''"] demo_artifact_valid[of "''2''"]
    by (simp add: collectResolverQuorumSignatures_def demo_packet_valid demo_registry_def quorum_call_def demo_presented_def
        collect_one_def demo_artifact_other reject_def demo_result_def Let_def of_option_def)
      (simp add: demo_artifact_def property_def)
qed

section \<open>Witnesses\<close>

theorem quorum_counts_signers_witness:
  "\<exists>epoch. qc_signerEpoch demo_registry = Inr epoch \<and> qc_epochThreshold demo_registry epoch = Inr (qr_threshold demo_result) \<and>
    1 \<le> qr_threshold demo_result \<and> distinct (qr_signers demo_result) \<and>
    set (qr_signers demo_result) =
      {s \<in> recovered_signers demo_quorum demo_packet demo_presented. qc_isEpochSigner demo_registry epoch s = Inr True} \<and>
    (qr_ready demo_result \<longleftrightarrow> qr_threshold demo_result \<le>
      int (card {s \<in> recovered_signers demo_quorum demo_packet demo_presented. qc_isEpochSigner demo_registry epoch s = Inr True}))"
  by (rule quorum_counts_signers[OF demo_collected])

theorem quorum_signatures_recover_witness:
  "\<exists>signature. JStr ''1'' = JStr signature \<and> recovered_address demo_quorum demo_packet signature = Inr ''0x1'' \<and>
    isHexBytes (qp_platform demo_quorum) signature 65"
  using quorum_signatures_recover[OF demo_collected] by (auto simp: demo_result_def)

theorem built_packet_valid_witness:
  "validateResolverQuorumDecisionPacket demo_quorum demo_packet = Inr demo_packet"
  by (rule built_packet_valid[OF demo_lower_case demo_built])

theorem built_artifact_valid_witness:
  "\<exists>a. address_of demo_quorum (qs_address (demo_signer ''1'')) ''signer'' = Inr a \<and>
    validateResolverQuorumSignatureArtifact demo_quorum (Some (demo_artifact ''0xd1'' ''1'')) demo_packet =
      Inr (demo_artifact ''0xd1'' ''1'', a)"
proof -
  have "qk_digest demo_packet = JStr ''0xd1''" by (simp add: demo_packet_def packet_of_def Let_def)
  then have "buildResolverQuorumSignatureArtifact demo_quorum demo_packet (demo_signer ''1'') =
      Inr (demo_artifact ''0xd1'' ''1'')"
    by (simp add: buildResolverQuorumSignatureArtifact_def demo_packet_valid demo_signer_def address_of_def of_option_def
        recovered_address_def demo_artifact_def artifact_hash_def)
  from built_artifact_valid[OF demo_lower_case this] show ?thesis by simp
qed

end
