(* ===== verification/Operator_Scan.thy ===== *)
theory Operator_Scan
  imports Js_Values
begin

text \<open>
  How the fraud-policing operator follows the chain: the execution mode, the finality settings and
  the durable scan cursor of agent/lib.mjs (\<open>resolveOperatorFinality\<close>,
  \<open>validateOperatorExecutionMode\<close>, \<open>operatorCursorBinding\<close>, \<open>validateOperatorCursor\<close>,
  \<open>nextOperatorScanRange\<close>, \<open>buildOperatorCursor\<close>, \<open>queryChunked\<close>) and the cursor handling
  of agent/operator.mjs (\<open>loadOperatorCursor\<close>, the marker of the ChallengeExpired backfill,
  \<open>cursorAnchorMismatch\<close>, \<open>persistCursor\<close> and the scanning half of \<open>scanOnce\<close>).

  The RPC provider is outside the repository: its answers are arguments, one per call site, so that
  the chain may change between two reads. What \<open>scanOnce\<close> does with the events of a range
  (hydrating them, quarantining the jobs of orphaned events, queueing the rest) is not modelled
  here: whether it throws is an argument, and the events it is given are collected in the state.
  The delays between retries and the time stamp of the cursor have no effect and are left out.
\<close>

section \<open>Errors\<close>

datatype scan_error =
    Confirmations_invalid | Overlap_invalid | Confirmation_required
  | Local_chain_only | Agent_wallet_required | Bad_address | Wallet_is_session_key
  | Example_manifest | Registry_binding_incomplete | Bad_decimal
  | Cursor_schema | Cursor_binding_differs | Next_block_invalid | Anchors_not_array
  | Anchor_number_invalid | Anchor_hash_invalid
  | Start_invalid | Safe_latest_invalid | Overlap_not_positive
  | Query_failed | Block_unavailable | Rpc_error
  | Marker_binding_invalid | Marker_through_invalid | Marker_schema | Marker_identity
  | Marker_range | Marker_hash
  | Events_refused

section \<open>Finality and execution mode\<close>

text \<open>
  A setting as \<open>Number(...)\<close> reads it: an integer, or something \<open>Number.isInteger\<close> refuses.
\<close>

datatype js_number = Whole int | Not_whole

fun whole_at_least :: "int \<Rightarrow> js_number \<Rightarrow> int option" where
  "whole_at_least k Not_whole = None"
| "whole_at_least k (Whole i) = (if i < k then None else Some i)"

definition nullish_number :: "js_number option \<Rightarrow> js_number option \<Rightarrow> int \<Rightarrow> js_number" where
  "nullish_number given policy otherwise =
     (case given of
        Some n \<Rightarrow> n
      | None \<Rightarrow> (case policy of Some n \<Rightarrow> n | None \<Rightarrow> Whole otherwise))"

definition resolveOperatorFinality ::
  "js_number option \<Rightarrow> js_number option \<Rightarrow> js_number option \<Rightarrow> js_number option \<Rightarrow> bool
    \<Rightarrow> scan_error + (int \<times> int)" where
  "resolveOperatorFinality policyConfirmations policyOverlap confirmations overlap localTest =
     and_then (of_option Confirmations_invalid
                 (whole_at_least 0 (nullish_number confirmations policyConfirmations 0))) (\<lambda>c.
     and_then (of_option Overlap_invalid
                 (whole_at_least 1 (nullish_number overlap policyOverlap 1))) (\<lambda>v.
     require (\<not> (\<not> localTest \<and> c < 1)) Confirmation_required (Inr (c, v))))"

definition LOCAL_OPERATOR_CHAIN_IDS :: "int set" where
  "LOCAL_OPERATOR_CHAIN_IDS = {1337, 31337}"

datatype execution_mode = Direct_eoa_local_test | Agent_wallet string

text \<open>
  \<open>ga\<close> is \<open>ethers.getAddress\<close>, which throws for what is not an address. An empty string counts
  as no address.
\<close>

definition given_text :: "string option \<Rightarrow> string option" where
  "given_text s = (if s = Some [] then None else s)"

definition validateOperatorExecutionMode ::
  "(string \<Rightarrow> string option) \<Rightarrow> string \<Rightarrow> int \<Rightarrow> bool \<Rightarrow> string option \<Rightarrow> string option
    \<Rightarrow> scan_error + execution_mode" where
  "validateOperatorExecutionMode ga status chainId localTest agentWallet operator =
     (if localTest then
        require (chainId \<in> LOCAL_OPERATOR_CHAIN_IDS) Local_chain_only (Inr Direct_eoa_local_test)
      else case given_text agentWallet of
        None \<Rightarrow> Inl Agent_wallet_required
      | Some w \<Rightarrow>
          and_then (of_option Bad_address (ga w)) (\<lambda>normal.
          and_then (case given_text operator of
                      None \<Rightarrow> Inr ()
                    | Some a \<Rightarrow> and_then (of_option Bad_address (ga a)) (\<lambda>op.
                        require (to_lower normal \<noteq> to_lower op) Wallet_is_session_key (Inr ()))) (\<lambda>_.
          require (status \<noteq> ''example-not-deployed'') Example_manifest
            (Inr (Agent_wallet (to_lower normal))))))"

section \<open>The binding of a cursor\<close>

record operator_binding =
  ob_chain_id :: int
  ob_deployment_commit :: string
  ob_deployment_config_hash :: string
  ob_submission_contract :: string
  ob_challenge_contract :: string
  ob_problem_id :: string
  ob_manifest_start_block :: int
  ob_registry :: "(string \<times> string) option"

text \<open>\<open>POSITIVE_DECIMAL_RE\<close>: a decimal that does not start with a zero.\<close>

definition positive_decimal_text :: "string \<Rightarrow> bool" where
  "positive_decimal_text s \<longleftrightarrow>
     s \<noteq> [] \<and> list_all (\<lambda>c. c \<in> set ''0123456789'') s \<and> hd s \<noteq> CHR ''0''"

definition requireAddress :: "(string \<Rightarrow> string option) \<Rightarrow> string \<Rightarrow> scan_error + string" where
  "requireAddress ga v = and_then (of_option Bad_address (ga v)) (\<lambda>a. Inr (to_lower a))"

definition nullish_text :: "string option \<Rightarrow> string" where
  "nullish_text s = (case s of None \<Rightarrow> [] | Some t \<Rightarrow> t)"

definition operatorCursorBinding ::
  "(string \<Rightarrow> string option) \<Rightarrow> string option \<Rightarrow> string option \<Rightarrow> int option \<Rightarrow> int \<Rightarrow> string \<Rightarrow> string
    \<Rightarrow> string \<Rightarrow> string option \<Rightarrow> string option \<Rightarrow> scan_error + operator_binding" where
  "operatorCursorBinding ga commit configHash startBlock chainId submission challenge problem
     registryAddress registryProblem =
     (let b = \<lparr>ob_chain_id = chainId,
               ob_deployment_commit = to_lower (nullish_text commit),
               ob_deployment_config_hash = to_lower (nullish_text configHash),
               ob_submission_contract = to_lower submission,
               ob_challenge_contract = to_lower challenge,
               ob_problem_id = problem,
               ob_manifest_start_block = (case startBlock of None \<Rightarrow> 0 | Some n \<Rightarrow> n),
               ob_registry = None\<rparr>
      in case (registryAddress, registryProblem) of
           (None, None) \<Rightarrow> Inr b
         | (Some a, Some p) \<Rightarrow>
             and_then (requireAddress ga a) (\<lambda>a'.
             require (positive_decimal_text p) Bad_decimal (Inr (b\<lparr>ob_registry := Some (a', p)\<rparr>)))
         | _ \<Rightarrow> Inl Registry_binding_incomplete)"

section \<open>The cursor\<close>

text \<open>
  The cursor of a run (\<open>operator_cursor\<close>) and the object read back from its file
  (\<open>cursor_file\<close>), whose numbers need not be integers and whose anchors need not be an array.
  The canonical texts of two bindings are equal exactly when the bindings are.
\<close>

type_synonym anchor = "int \<times> string"

record operator_cursor =
  cu_binding :: operator_binding
  cu_next_block :: int
  cu_anchors :: "anchor list"

record cursor_file =
  cf_schema_version :: string
  cf_binding :: operator_binding
  cf_next_block :: js_number
  cf_anchors :: "(js_number \<times> string) list option"

fun check_anchors ::
  "(string \<Rightarrow> nat \<Rightarrow> bool) \<Rightarrow> int \<Rightarrow> (js_number \<times> string) list \<Rightarrow> scan_error + anchor list" where
  "check_anchors hx start [] = Inr []"
| "check_anchors hx start ((n, h) # as) =
     and_then (of_option Anchor_number_invalid (whole_at_least start n)) (\<lambda>i.
     require (hx h 32) Anchor_hash_invalid
       (and_then (check_anchors hx start as) (\<lambda>r. Inr ((i, h) # r))))"

definition validateOperatorCursor ::
  "(string \<Rightarrow> nat \<Rightarrow> bool) \<Rightarrow> cursor_file \<Rightarrow> operator_binding \<Rightarrow> scan_error + operator_cursor" where
  "validateOperatorCursor hx f b =
     require (cf_schema_version f = ''p42-operator-cursor/v1'') Cursor_schema
       (require (cf_binding f = b) Cursor_binding_differs
         (and_then (of_option Next_block_invalid
                     (whole_at_least (ob_manifest_start_block b) (cf_next_block f))) (\<lambda>next.
          and_then (of_option Anchors_not_array (cf_anchors f)) (\<lambda>raw.
          and_then (check_anchors hx (ob_manifest_start_block b) raw) (\<lambda>as.
          Inr \<lparr>cu_binding = b, cu_next_block = next, cu_anchors = as\<rparr>)))))"

definition cursor_to_file :: "operator_cursor \<Rightarrow> cursor_file" where
  "cursor_to_file c =
     \<lparr>cf_schema_version = ''p42-operator-cursor/v1'', cf_binding = cu_binding c,
      cf_next_block = Whole (cu_next_block c),
      cf_anchors = Some (map (\<lambda>(n, h). (Whole n, h)) (cu_anchors c))\<rparr>"

definition buildOperatorCursor ::
  "operator_binding \<Rightarrow> int \<Rightarrow> anchor list \<Rightarrow> int \<Rightarrow> scan_error + operator_cursor" where
  "buildOperatorCursor b next as overlap =
     require (ob_manifest_start_block b \<le> next) Next_block_invalid
       (let low = max (ob_manifest_start_block b) (next - overlap - 1)
        in Inr \<lparr>cu_binding = b, cu_next_block = next,
                cu_anchors = sort_key fst (filter (\<lambda>a. low \<le> fst a) as)\<rparr>)"

definition nextOperatorScanRange ::
  "operator_cursor option \<Rightarrow> int \<Rightarrow> int \<Rightarrow> int \<Rightarrow> scan_error + (int \<times> int) option" where
  "nextOperatorScanRange c startBlock safeLatest overlap =
     require (0 \<le> startBlock) Start_invalid
       (require (0 \<le> safeLatest) Safe_latest_invalid
         (require (1 \<le> overlap) Overlap_not_positive
           (let next = (case c of None \<Rightarrow> startBlock | Some k \<Rightarrow> cu_next_block k);
                from = max startBlock (next - overlap)
            in Inr (if safeLatest < from then None else Some (from, safeLatest)))))"

section \<open>Paged queries with retries\<close>

text \<open>
  One page is asked for at most five times; \<open>q k\<close> is the answer to attempt \<open>k\<close>, \<open>None\<close> when it
  throws. \<open>queryChunked\<close> reads the pages in turn. Every caller uses the default page of 2000
  blocks.
\<close>

fun first_answer :: "(nat \<Rightarrow> 'l list option) \<Rightarrow> nat \<Rightarrow> nat \<Rightarrow> 'l list option" where
  "first_answer q k 0 = None"
| "first_answer q k (Suc n) = (case q k of Some ls \<Rightarrow> Some ls | None \<Rightarrow> first_answer q (Suc k) n)"

definition query_step :: int where
  "query_step = 2000"

function query_pages ::
  "(int \<Rightarrow> int \<Rightarrow> nat \<Rightarrow> 'l list option) \<Rightarrow> int \<Rightarrow> int \<Rightarrow> 'l list \<Rightarrow> scan_error + 'l list" where
  "query_pages qf start to out =
     (if start \<le> to then
        (case first_answer (qf start (min (start + query_step - 1) to)) 0 5 of
           None \<Rightarrow> Inl Query_failed
         | Some ls \<Rightarrow> query_pages qf (start + query_step) to (out @ ls))
      else Inr out)"
  by pat_completeness auto

termination query_pages
  by (relation "measure (\<lambda>(_, start, to, _). nat (to + 1 - start))") (auto simp: query_step_def)

declare query_pages.simps [simp del]

definition queryChunked ::
  "(int \<Rightarrow> int \<Rightarrow> nat \<Rightarrow> 'l list option) \<Rightarrow> int \<Rightarrow> int \<Rightarrow> scan_error + 'l list" where
  "queryChunked qf from to = query_pages qf from to []"

section \<open>The marker of the ChallengeExpired backfill\<close>

record backfill_binding =
  bb_schema_version :: string
  bb_cursor_binding_hash :: string
  bb_chain_id :: int
  bb_challenge_contract :: string
  bb_start_block :: int

record backfill_marker =
  bm_schema_version :: string
  bm_binding :: backfill_binding
  bm_through_block :: js_number
  bm_hash :: string

text \<open>\<open>sha\<close> is the digest of the canonical text of a marker without its hash.\<close>

type_synonym marker_digest = "string \<Rightarrow> backfill_binding \<Rightarrow> js_number \<Rightarrow> string"

definition challengeExpiredBackfillBinding ::
  "(operator_binding \<Rightarrow> string) \<Rightarrow> operator_binding \<Rightarrow> int \<Rightarrow> string \<Rightarrow> int \<Rightarrow> backfill_binding" where
  "challengeExpiredBackfillBinding digest b chainId challenge startBlock =
     \<lparr>bb_schema_version = ''p42-challenge-expired-backfill-binding/v1'',
      bb_cursor_binding_hash = digest b, bb_chain_id = chainId,
      bb_challenge_contract = to_lower challenge, bb_start_block = startBlock\<rparr>"

definition safe_from :: "int \<Rightarrow> js_number \<Rightarrow> bool" where
  "safe_from start n = (case n of Whole i \<Rightarrow> safe_integer i \<and> \<not> i < start | Not_whole \<Rightarrow> False)"

definition buildChallengeExpiredBackfillMarker ::
  "marker_digest \<Rightarrow> backfill_binding \<Rightarrow> int \<Rightarrow> scan_error + backfill_marker" where
  "buildChallengeExpiredBackfillMarker sha b through =
     require (bb_schema_version b = ''p42-challenge-expired-backfill-binding/v1'')
       Marker_binding_invalid
       (require (safe_from (bb_start_block b) (Whole through)) Marker_through_invalid
         (Inr \<lparr>bm_schema_version = ''p42-challenge-expired-backfill/v1'', bm_binding = b,
               bm_through_block = Whole through,
               bm_hash = sha ''p42-challenge-expired-backfill/v1'' b (Whole through)\<rparr>))"

definition validateChallengeExpiredBackfillMarker ::
  "marker_digest \<Rightarrow> backfill_marker \<Rightarrow> backfill_binding \<Rightarrow> scan_error + backfill_marker" where
  "validateChallengeExpiredBackfillMarker sha m expected =
     require (bm_schema_version m = ''p42-challenge-expired-backfill/v1'') Marker_schema
       (require (bm_binding m = expected) Marker_identity
         (require (safe_from (bb_start_block expected) (bm_through_block m)) Marker_range
           (require (bm_hash m = sha (bm_schema_version m) (bm_binding m) (bm_through_block m))
              Marker_hash (Inr m))))"

definition challengeExpiredBackfillNeeded ::
  "marker_digest \<Rightarrow> backfill_marker option \<Rightarrow> backfill_binding \<Rightarrow> scan_error + bool" where
  "challengeExpiredBackfillNeeded sha m expected =
     (case m of
        None \<Rightarrow> Inr True
      | Some k \<Rightarrow> and_then (validateChallengeExpiredBackfillMarker sha k expected) (\<lambda>_. Inr False))"

section \<open>One scan\<close>

text \<open>
  The constants of a run, its state and the answers of the provider during one scan. A block is
  answered by its hash (\<open>None\<close> when there is no such block); \<open>sr_process\<close> is what handling the
  events of a range ends with, \<open>sr_process_backfill\<close> the same for the backfill.
\<close>

record operator_config =
  oc_binding :: operator_binding
  oc_backfill_binding :: backfill_binding
  oc_sha :: marker_digest
  oc_isHexString :: "string \<Rightarrow> nat \<Rightarrow> bool"
  oc_start_block :: int
  oc_confirmations :: int
  oc_overlap :: int

record 'l operator_state =
  os_cursor :: operator_cursor
  os_marker :: "backfill_marker option"
  os_reveals :: "'l list"
  os_expirations :: "'l list"

type_synonym block_reply = "scan_error + string option"

record 'l scan_reads =
  sr_latest :: "scan_error + int"
  sr_finalized :: "int \<Rightarrow> block_reply"
  sr_backfill :: "int \<Rightarrow> int \<Rightarrow> nat \<Rightarrow> 'l list option"
  sr_process_backfill :: "'l list \<Rightarrow> bool"
  sr_anchor :: "int \<Rightarrow> block_reply"
  sr_revealed :: "int \<Rightarrow> int \<Rightarrow> nat \<Rightarrow> 'l list option"
  sr_expired :: "int \<Rightarrow> int \<Rightarrow> nat \<Rightarrow> 'l list option"
  sr_process :: "'l list \<Rightarrow> 'l list \<Rightarrow> bool"
  sr_persist :: "int \<Rightarrow> block_reply"

datatype scan_outcome = Failed scan_error | Nothing_to_scan | Scanned int int

definition loadOperatorCursor ::
  "operator_config \<Rightarrow> cursor_file option \<Rightarrow> scan_error + operator_cursor" where
  "loadOperatorCursor cfg existing =
     (case existing of
        Some f \<Rightarrow> validateOperatorCursor (oc_isHexString cfg) f (oc_binding cfg)
      | None \<Rightarrow> buildOperatorCursor (oc_binding cfg) (oc_start_block cfg) [] (oc_overlap cfg))"

definition backfillChallengeExpiredOnce ::
  "operator_config \<Rightarrow> 'l scan_reads \<Rightarrow> int \<Rightarrow> 'l operator_state \<Rightarrow> scan_error + 'l operator_state" where
  "backfillChallengeExpiredOnce cfg r safeLatest s =
     and_then (challengeExpiredBackfillNeeded (oc_sha cfg) (os_marker s) (oc_backfill_binding cfg))
       (\<lambda>needed.
        if \<not> needed \<or> safeLatest < oc_start_block cfg then Inr s
        else and_then (queryChunked (sr_backfill r) (oc_start_block cfg) safeLatest) (\<lambda>events.
             require (sr_process_backfill r events) Events_refused
               (and_then (buildChallengeExpiredBackfillMarker (oc_sha cfg)
                           (oc_backfill_binding cfg) safeLatest) (\<lambda>m.
                Inr (s\<lparr>os_marker := Some m, os_expirations := os_expirations s @ events\<rparr>)))))"

fun cursorAnchorMismatch :: "(int \<Rightarrow> block_reply) \<Rightarrow> anchor list \<Rightarrow> scan_error + int option" where
  "cursorAnchorMismatch getBlock [] = Inr None"
| "cursorAnchorMismatch getBlock ((n, h) # as) =
     and_then (getBlock n) (\<lambda>block.
       case block of
         None \<Rightarrow> Inr (Some n)
       | Some b \<Rightarrow> if to_lower b \<noteq> to_lower h then Inr (Some n)
                   else cursorAnchorMismatch getBlock as)"

definition rewind_cursor ::
  "operator_config \<Rightarrow> 'l scan_reads \<Rightarrow> operator_cursor \<Rightarrow> scan_error + operator_cursor" where
  "rewind_cursor cfg r c =
     and_then (cursorAnchorMismatch (sr_anchor r) (cu_anchors c)) (\<lambda>mismatch.
       case mismatch of
         None \<Rightarrow> Inr c
       | Some n \<Rightarrow> buildOperatorCursor (oc_binding cfg) n
                     (filter (\<lambda>a. fst a < n) (cu_anchors c)) (oc_overlap cfg))"

fun read_anchors :: "(int \<Rightarrow> block_reply) \<Rightarrow> int list \<Rightarrow> scan_error + anchor list" where
  "read_anchors getBlock [] = Inr []"
| "read_anchors getBlock (n # ns) =
     and_then (getBlock n) (\<lambda>block.
     and_then (read_anchors getBlock ns) (\<lambda>as.
       Inr (case block of None \<Rightarrow> as | Some h \<Rightarrow> (n, to_lower h) # as)))"

definition persistCursor ::
  "operator_config \<Rightarrow> (int \<Rightarrow> block_reply) \<Rightarrow> int \<Rightarrow> scan_error + operator_cursor" where
  "persistCursor cfg getBlock next =
     (let anchorFrom = max (oc_start_block cfg) (next - oc_overlap cfg - 1)
      in and_then (read_anchors getBlock [anchorFrom..next - 1]) (\<lambda>as.
         buildOperatorCursor (oc_binding cfg) next as (oc_overlap cfg)))"

definition read_range ::
  "'l scan_reads \<Rightarrow> int \<Rightarrow> int \<Rightarrow> scan_error + ('l list \<times> 'l list)" where
  "read_range r from to =
     and_then (queryChunked (sr_revealed r) from to) (\<lambda>events.
     and_then (queryChunked (sr_expired r) from to) (\<lambda>expirations.
     require (sr_process r events expirations) Events_refused (Inr (events, expirations))))"

definition scan_range ::
  "operator_config \<Rightarrow> 'l scan_reads \<Rightarrow> int \<Rightarrow> 'l operator_state \<Rightarrow> 'l operator_state \<times> scan_outcome" where
  "scan_range cfg r safeLatest s =
     (case nextOperatorScanRange (Some (os_cursor s)) (oc_start_block cfg) safeLatest
             (oc_overlap cfg) of
        Inl e \<Rightarrow> (s, Failed e)
      | Inr None \<Rightarrow> (s, Nothing_to_scan)
      | Inr (Some (from, to)) \<Rightarrow>
         (case read_range r from to of
            Inl e \<Rightarrow> (s, Failed e)
          | Inr (events, expirations) \<Rightarrow>
             (let s' = s\<lparr>os_reveals := os_reveals s @ events,
                         os_expirations := os_expirations s @ expirations\<rparr>
              in case persistCursor cfg (sr_persist r) (to + 1) of
                   Inl e \<Rightarrow> (s', Failed e)
                 | Inr c \<Rightarrow> (s'\<lparr>os_cursor := c\<rparr>, Scanned from to))))"

definition scanOnce ::
  "operator_config \<Rightarrow> 'l scan_reads \<Rightarrow> 'l operator_state \<Rightarrow> 'l operator_state \<times> scan_outcome" where
  "scanOnce cfg r s =
     (case sr_latest r of
        Inl e \<Rightarrow> (s, Failed e)
      | Inr latest \<Rightarrow>
         (let safeLatest = max 0 (latest - oc_confirmations cfg)
          in case sr_finalized r safeLatest of
               Inl e \<Rightarrow> (s, Failed e)
             | Inr None \<Rightarrow> (s, Failed Block_unavailable)
             | Inr (Some _) \<Rightarrow>
                (case backfillChallengeExpiredOnce cfg r safeLatest s of
                   Inl e \<Rightarrow> (s, Failed e)
                 | Inr s1 \<Rightarrow>
                    (case rewind_cursor cfg r (os_cursor s1) of
                       Inl e \<Rightarrow> (s1, Failed e)
                     | Inr c \<Rightarrow> scan_range cfg r safeLatest (s1\<lparr>os_cursor := c\<rparr>)))))"

section \<open>A run of the operator\<close>

text \<open>
  The operator scans again and again; a scan that throws is reported and the next one starts from
  the state it left. At a restart the cursor file is read and validated again.
\<close>

datatype 'l operator_move = Scan "'l scan_reads" | Restart

fun operator_step :: "operator_config \<Rightarrow> 'l operator_move \<Rightarrow> 'l operator_state \<Rightarrow> scan_error + 'l operator_state" where
  "operator_step cfg (Scan r) s = Inr (fst (scanOnce cfg r s))"
| "operator_step cfg Restart s =
     and_then (loadOperatorCursor cfg (Some (cursor_to_file (os_cursor s)))) (\<lambda>c.
       Inr (s\<lparr>os_cursor := c\<rparr>))"

fun operator_run :: "operator_config \<Rightarrow> 'l operator_move list \<Rightarrow> 'l operator_state \<Rightarrow> scan_error + 'l operator_state" where
  "operator_run cfg [] s = Inr s"
| "operator_run cfg (st # sts) s = and_then (operator_step cfg st s) (operator_run cfg sts)"

definition operator_start :: "operator_config \<Rightarrow> scan_error + 'l operator_state" where
  "operator_start cfg =
     and_then (loadOperatorCursor cfg None) (\<lambda>c.
       Inr \<lparr>os_cursor = c, os_marker = None, os_reveals = [], os_expirations = []\<rparr>)"

end
