(* ===== verification/Operator_Properties.thy ===== *)
theory Operator_Properties
  imports Operator_Scan
begin

text \<open>
  What the scanning of the operator guarantees. A view of the chain is the list of its blocks, the
  position of a block being its number. A scan is \<open>view_answered\<close> by a view when every read of it that
  does not fail returns what the view holds. Two views are \<open>linked\<close> when a common hash at some
  height means a common history up to it, and a reorganisation is \<open>within\<close> \<open>D\<close> blocks when it
  keeps all but the last \<open>D\<close> blocks.
\<close>

section \<open>Views of the chain\<close>

record 'l block =
  bl_hash :: string
  bl_reveals :: "'l list"
  bl_expirations :: "'l list"

type_synonym 'l chain = "'l block list"

definition hash_at :: "'l chain \<Rightarrow> int \<Rightarrow> string option" where
  "hash_at c n = (if 0 \<le> n \<and> n < int (length c) then Some (bl_hash (c ! nat n)) else None)"

definition logs_at :: "('l block \<Rightarrow> 'l list) \<Rightarrow> 'l chain \<Rightarrow> int \<Rightarrow> 'l list" where
  "logs_at f c n = (if 0 \<le> n \<and> n < int (length c) then f (c ! nat n) else [])"

definition logs_between :: "('l block \<Rightarrow> 'l list) \<Rightarrow> 'l chain \<Rightarrow> int \<Rightarrow> int \<Rightarrow> 'l list" where
  "logs_between f c a b = concat (map (logs_at f c) [a..b])"

definition view_answered :: "'l chain \<Rightarrow> 'l scan_reads \<Rightarrow> bool" where
  "view_answered c r \<longleftrightarrow>
     c \<noteq> [] \<and>
     (\<forall>l. sr_latest r = Inr l \<longrightarrow> l = int (length c) - 1) \<and>
     (\<forall>n h. sr_anchor r n = Inr h \<longrightarrow> h = hash_at c n) \<and>
     (\<forall>n h. sr_persist r n = Inr h \<longrightarrow> h = hash_at c n) \<and>
     (\<forall>a b k ls. sr_revealed r a b k = Some ls \<longrightarrow> ls = logs_between bl_reveals c a b) \<and>
     (\<forall>a b k ls. sr_expired r a b k = Some ls \<longrightarrow> ls = logs_between bl_expirations c a b)"

definition linked :: "'l chain \<Rightarrow> 'l chain \<Rightarrow> bool" where
  "linked c d \<longleftrightarrow>
     (\<forall>n < min (length c) (length d).
        to_lower (bl_hash (c ! n)) = to_lower (bl_hash (d ! n)) \<longrightarrow> take (Suc n) c = take (Suc n) d)"

definition reorg_within :: "nat \<Rightarrow> 'l chain \<Rightarrow> 'l chain \<Rightarrow> bool" where
  "reorg_within k c d \<longleftrightarrow> take (length c - k) c = take (length c - k) d"

definition operator_config_ok :: "operator_config \<Rightarrow> bool" where
  "operator_config_ok cfg \<longleftrightarrow>
     0 \<le> ob_manifest_start_block (oc_binding cfg) \<and>
     ob_manifest_start_block (oc_binding cfg) \<le> oc_start_block cfg \<and>
     0 \<le> oc_confirmations cfg \<and> 1 \<le> oc_overlap cfg"

text \<open>The deepest reorganisation the overlap covers.\<close>

definition covered_depth :: "operator_config \<Rightarrow> nat" where
  "covered_depth cfg = nat (oc_confirmations cfg + 2 * oc_overlap cfg + 1)"

lemma logs_at_take:
  "take n c = take n d \<Longrightarrow> i < int n \<Longrightarrow> logs_at f c i = logs_at f d i"
  unfolding logs_at_def
proof -
  assume eq: "take n c = take n d" and i: "i < int n"
  have len: "min (length c) n = min (length d) n"
    using arg_cong [OF eq, of length] by simp
  have nth: "0 \<le> i \<Longrightarrow> i < int (length c) \<Longrightarrow> c ! nat i = d ! nat i"
    using arg_cong [OF eq, of "\<lambda>l. l ! nat i"] i len by (simp add: nat_less_iff)
  show "(if 0 \<le> i \<and> i < int (length c) then f (c ! nat i) else []) =
        (if 0 \<le> i \<and> i < int (length d) then f (d ! nat i) else [])"
    using nth i len by auto
qed

lemma set_logs_between: "set (logs_between f c a b) = (\<Union>i\<in>{a..b}. set (logs_at f c i))"
  by (simp add: logs_between_def)

section \<open>Paged queries\<close>

lemma first_answer_in:
  "first_answer q k n = Some ls \<Longrightarrow> \<exists>j. q j = Some ls"
  by (induction q k n rule: first_answer.induct) (auto split: option.splits)

lemma first_answer_answers:
  "(\<And>j. k \<le> j \<Longrightarrow> j < k + n \<Longrightarrow> q j = None \<or> q j = Some ls) \<Longrightarrow> k \<le> i \<Longrightarrow> i < k + n
    \<Longrightarrow> q i \<noteq> None \<Longrightarrow> first_answer q k n = Some ls"
proof (induction q k n rule: first_answer.induct)
  case (2 q k n)
  show ?case
  proof (cases "q k")
    case None
    then have "i \<noteq> k" using 2 by auto
    then show ?thesis using None 2 by simp
  next
    case (Some l)
    then show ?thesis using "2.prems"(1) [of k] by simp
  qed
qed simp

lemma upto_page:
  "a \<le> z \<Longrightarrow> [a..min (a + query_step - 1) z] @ [a + query_step..z] = [a..z]"
proof (cases "a + query_step \<le> z")
  case True
  then show ?thesis
    using upto_split1 [of a "a + query_step" z] by (simp add: query_step_def min_def)
next
  case False
  then have "min (a + query_step - 1) z = z" and "[a + query_step..z] = []"
    by auto
  then show ?thesis by simp
qed

lemma query_pages_exact:
  assumes "\<And>a b k ls. qf a b k = Some ls \<Longrightarrow> ls = concat (map g [a..b])"
    and "query_pages qf a z out = Inr r"
  shows "r = out @ concat (map g [a..z])"
  using assms
proof (induction qf a z out rule: query_pages.induct)
  case (1 qf a z out)
  show ?case
  proof (cases "a \<le> z")
    case False
    then show ?thesis using 1(3) by (simp add: query_pages.simps)
  next
    case True
    then obtain ls where ls: "first_answer (qf a (min (a + query_step - 1) z)) 0 5 = Some ls"
      and rest: "query_pages qf (a + query_step) z (out @ ls) = Inr r"
      using 1(3) by (subst (asm) query_pages.simps) (auto split: option.splits)
    have "ls = concat (map g [a..min (a + query_step - 1) z])"
      using first_answer_in [OF ls] 1(2) by blast
    moreover have "r = (out @ ls) @ concat (map g [a + query_step..z])"
      using 1(1) [OF True ls _ rest] 1(2) by blast
    ultimately show ?thesis
      using arg_cong [OF upto_page [OF True], of "\<lambda>l. concat (map g l)"] by simp
  qed
qed

lemma query_pages_answers:
  assumes "\<And>a b k. k < 5 \<Longrightarrow> qf a b k = None \<or> qf a b k = Some (concat (map g [a..b]))"
    and "\<And>a b. \<exists>k < 5. qf a b k \<noteq> None"
  shows "query_pages qf a z out = Inr (out @ concat (map g [a..z]))"
  using assms
proof (induction qf a z out rule: query_pages.induct)
  case (1 qf a z out)
  show ?case
  proof (cases "a \<le> z")
    case False
    then show ?thesis by (simp add: query_pages.simps)
  next
    case True
    let ?b = "min (a + query_step - 1) z"
    obtain k where k: "k < 5" "qf a ?b k \<noteq> None" using 1(3) by blast
    have ls: "first_answer (qf a ?b) 0 5 = Some (concat (map g [a..?b]))"
      by (rule first_answer_answers [where i = k]) (use 1(2) k in auto)
    have "query_pages qf a z out =
          query_pages qf (a + query_step) z (out @ concat (map g [a..?b]))"
      using True ls by (subst query_pages.simps) simp
    also have "\<dots> = Inr ((out @ concat (map g [a..?b])) @ concat (map g [a + query_step..z]))"
      by (rule 1(1) [OF True ls 1(2) 1(3)])
    finally show ?thesis
      using arg_cong [OF upto_page [OF True], of "\<lambda>l. concat (map g l)"] by simp
  qed
qed

lemma queryChunked_exact:
  assumes "\<And>a b k ls. qf a b k = Some ls \<Longrightarrow> ls = logs_between f c a b"
    and "queryChunked qf a z = Inr r"
  shows "r = logs_between f c a z"
  using query_pages_exact [of qf "logs_at f c"] assms
  unfolding queryChunked_def logs_between_def by fastforce

section \<open>The cursor file\<close>

definition cursor_valid :: "operator_config \<Rightarrow> operator_cursor \<Rightarrow> bool" where
  "cursor_valid cfg c \<longleftrightarrow>
     cu_binding c = oc_binding cfg \<and>
     ob_manifest_start_block (oc_binding cfg) \<le> cu_next_block c \<and>
     (\<forall>a \<in> set (cu_anchors c).
        ob_manifest_start_block (oc_binding cfg) \<le> fst a \<and> oc_isHexString cfg (snd a) 32)"

lemma check_anchors_file:
  "\<forall>a \<in> set as. start \<le> fst a \<and> hx (snd a) 32
    \<Longrightarrow> check_anchors hx start (map (\<lambda>(n, h). (Whole n, h)) as) = Inr as"
  by (induction as) auto

lemma validate_cursor_file:
  "cursor_valid cfg c
    \<Longrightarrow> validateOperatorCursor (oc_isHexString cfg) (cursor_to_file c) (oc_binding cfg) = Inr c"
  by (simp add: cursor_valid_def validateOperatorCursor_def cursor_to_file_def check_anchors_file
      require_def)

lemma buildOperatorCursor_valid:
  assumes "buildOperatorCursor (oc_binding cfg) n as v = Inr c"
    and "\<forall>a \<in> set as. oc_isHexString cfg (snd a) 32"
  shows "cursor_valid cfg c"
  using assms by (auto simp: buildOperatorCursor_def cursor_valid_def Let_def)

lemma read_anchors_mem:
  "read_anchors getBlock ns = Inr as \<Longrightarrow> a \<in> set as
    \<Longrightarrow> \<exists>n h. getBlock n = Inr (Some h) \<and> a = (n, to_lower h)"
  by (induction ns arbitrary: as) (auto split: option.splits)

lemma rewind_cursor_valid:
  "rewind_cursor cfg r c = Inr k \<Longrightarrow> cursor_valid cfg c \<Longrightarrow> cursor_valid cfg k"
  by (auto simp: rewind_cursor_def buildOperatorCursor_def cursor_valid_def Let_def Ball_def
      split: option.splits)

definition hashes_hex :: "operator_config \<Rightarrow> 'l scan_reads \<Rightarrow> bool" where
  "hashes_hex cfg r \<longleftrightarrow>
     (\<forall>n h. sr_persist r n = Inr (Some h) \<longrightarrow> oc_isHexString cfg (to_lower h) 32)"

lemma persistCursor_valid:
  assumes "persistCursor cfg (sr_persist r) n = Inr c" and "hashes_hex cfg r"
  shows "cursor_valid cfg c"
proof -
  obtain as where as: "read_anchors (sr_persist r)
        [max (oc_start_block cfg) (n - oc_overlap cfg - 1)..n - 1] = Inr as"
    and c: "buildOperatorCursor (oc_binding cfg) n as (oc_overlap cfg) = Inr c"
    using assms(1) by (auto simp: persistCursor_def Let_def)
  have "oc_isHexString cfg (snd a) 32" if "a \<in> set as" for a
    using read_anchors_mem [OF as that] assms(2) by (auto simp: hashes_hex_def)
  then show ?thesis using buildOperatorCursor_valid [OF c] by blast
qed

lemma backfill_cursor:
  "backfillChallengeExpiredOnce cfg r safe s = Inr s' \<Longrightarrow>
   os_cursor s' = os_cursor s \<and> os_reveals s' = os_reveals s \<and>
   set (os_expirations s) \<subseteq> set (os_expirations s')"
  by (auto simp: backfillChallengeExpiredOnce_def split: if_splits)

text \<open>The shapes a scan can take: it stops at some read, or it gets as far as a range.\<close>

lemma scan_range_cases:
  obtains (stopped) e where "scan_range cfg r safe s = (s, Failed e)"
  | (nothing) "scan_range cfg r safe s = (s, Nothing_to_scan)"
  | (ranged) a events expirations s' where
      "nextOperatorScanRange (Some (os_cursor s)) (oc_start_block cfg) safe (oc_overlap cfg)
        = Inr (Some (a, safe))"
      "read_range r a safe = Inr (events, expirations)"
      "s' = s\<lparr>os_reveals := os_reveals s @ events,
               os_expirations := os_expirations s @ expirations\<rparr>"
      "scan_range cfg r safe s =
         (case persistCursor cfg (sr_persist r) (safe + 1) of
            Inl e \<Rightarrow> (s', Failed e)
          | Inr c \<Rightarrow> (s'\<lparr>os_cursor := c\<rparr>, Scanned a safe))"
proof (cases "nextOperatorScanRange (Some (os_cursor s)) (oc_start_block cfg) safe (oc_overlap cfg)")
  case (Inl e)
  then show ?thesis using stopped by (simp add: scan_range_def)
next
  case range: (Inr rg)
  show ?thesis
  proof (cases rg)
    case None
    show ?thesis by (rule nothing) (simp add: scan_range_def range None)
  next
    case (Some ab)
    then obtain a where rg: "rg = Some (a, safe)"
      using range by (auto simp: nextOperatorScanRange_def Let_def split: if_splits)
    show ?thesis
    proof (cases "read_range r a safe")
      case (Inl e)
      then show ?thesis using stopped range rg by (simp add: scan_range_def)
    next
      case (Inr p)
      then show ?thesis
        using ranged [of a "fst p" "snd p"] range rg
        by (cases p) (simp add: scan_range_def Let_def)
    qed
  qed
qed

lemma scanOnce_cases:
  obtains (stopped) s1 e where "scanOnce cfg r s = (s1, Failed e)"
      "os_cursor s1 = os_cursor s" "os_reveals s1 = os_reveals s"
      "set (os_expirations s) \<subseteq> set (os_expirations s1)"
  | (scans) latest safe s1 k where
      "sr_latest r = Inr latest" "safe = max 0 (latest - oc_confirmations cfg)"
      "os_cursor s1 = os_cursor s" "os_reveals s1 = os_reveals s"
      "set (os_expirations s) \<subseteq> set (os_expirations s1)"
      "rewind_cursor cfg r (os_cursor s) = Inr k"
      "scanOnce cfg r s = scan_range cfg r safe (s1\<lparr>os_cursor := k\<rparr>)"
proof (cases "sr_latest r")
  case (Inl e)
  then show ?thesis using stopped by (simp add: scanOnce_def)
next
  case latest: (Inr latest)
  let ?safe = "max 0 (latest - oc_confirmations cfg)"
  show ?thesis
  proof (cases "sr_finalized r ?safe")
    case (Inl e)
    then show ?thesis using stopped latest by (simp add: scanOnce_def)
  next
    case final: (Inr b)
    show ?thesis
    proof (cases b)
      case None
      then show ?thesis using stopped latest final by (simp add: scanOnce_def)
    next
      case (Some h)
      show ?thesis
      proof (cases "backfillChallengeExpiredOnce cfg r ?safe s")
        case (Inl e)
        then show ?thesis using stopped latest final Some by (simp add: scanOnce_def)
      next
        case s1: (Inr s1)
        show ?thesis
        proof (cases "rewind_cursor cfg r (os_cursor s1)")
          case (Inl e)
          then show ?thesis
            using stopped [of s1 e] latest final Some s1 backfill_cursor [OF s1]
            by (simp add: scanOnce_def)
        next
          case (Inr k)
          then show ?thesis
            using scans [of latest ?safe s1 k] latest final Some s1 backfill_cursor [OF s1]
            by (simp add: scanOnce_def)
        qed
      qed
    qed
  qed
qed

lemma scanOnce_cursor_valid:
  assumes valid: "cursor_valid cfg (os_cursor s)" and hex: "hashes_hex cfg r"
  shows "cursor_valid cfg (os_cursor (fst (scanOnce cfg r s)))"
proof (cases rule: scanOnce_cases [of cfg r s])
  case (stopped s1 e)
  then show ?thesis using valid by simp
next
  case (scans latest safe s1 k)
  have k: "cursor_valid cfg k" by (rule rewind_cursor_valid [OF scans(6) valid])
  show ?thesis
    by (cases rule: scan_range_cases [of cfg r safe "s1\<lparr>os_cursor := k\<rparr>"])
      (use k scans persistCursor_valid [OF _ hex] in \<open>auto split: sum.splits\<close>)
qed

section \<open>What the cursor stands for\<close>

definition scanned_to :: "operator_config \<Rightarrow> 'l chain \<Rightarrow> int" where
  "scanned_to cfg c = max 0 (int (length c) - 1 - oc_confirmations cfg)"

definition window_low :: "operator_config \<Rightarrow> 'l chain \<Rightarrow> int" where
  "window_low cfg c = max (oc_start_block cfg) (scanned_to cfg c - oc_overlap cfg)"

definition anchors_of :: "'l chain \<Rightarrow> int list \<Rightarrow> anchor list" where
  "anchors_of c ns = map (\<lambda>i. (i, to_lower (bl_hash (c ! nat i)))) ns"

definition handed :: "operator_config \<Rightarrow> 'l operator_state \<Rightarrow> 'l chain \<Rightarrow> int \<Rightarrow> bool" where
  "handed cfg s c n \<longleftrightarrow>
     (\<forall>i. oc_start_block cfg \<le> i \<and> i < n \<longrightarrow>
        set (logs_at bl_reveals c i) \<subseteq> set (os_reveals s) \<and>
        set (logs_at bl_expirations c i) \<subseteq> set (os_expirations s))"

text \<open>
  \<open>tracks cfg c k\<close>: the cursor \<open>k\<close> was written after a scan of the view \<open>c\<close>, or was moved back
  inside its window of anchors since.
\<close>

definition tracks :: "operator_config \<Rightarrow> 'l chain \<Rightarrow> operator_cursor \<Rightarrow> bool" where
  "tracks cfg c k \<longleftrightarrow>
     cu_binding k = oc_binding cfg \<and> c \<noteq> [] \<and>
     window_low cfg c \<le> cu_next_block k \<and> cu_next_block k \<le> scanned_to cfg c + 1 \<and>
     cu_anchors k = anchors_of c [window_low cfg c..cu_next_block k - 1]"

lemma scanned_to_length:
  "operator_config_ok cfg \<Longrightarrow> c \<noteq> [] \<Longrightarrow> 0 \<le> scanned_to cfg c \<and> scanned_to cfg c < int (length c)"
  by (cases c) (auto simp: scanned_to_def operator_config_ok_def)

lemma scanned_to_eq:
  "view_answered c r \<Longrightarrow> sr_latest r = Inr latest
    \<Longrightarrow> max 0 (latest - oc_confirmations cfg) = scanned_to cfg c"
  by (auto simp: view_answered_def scanned_to_def)

lemma handed_mono:
  "handed cfg s c n \<Longrightarrow> os_reveals s' = os_reveals s
    \<Longrightarrow> set (os_expirations s) \<subseteq> set (os_expirations s') \<Longrightarrow> m \<le> n \<Longrightarrow> handed cfg s' c m"
  unfolding handed_def by fastforce

text \<open>The anchors that still stand, and the first one that does not.\<close>

lemma cursorAnchorMismatch_found:
  "cursorAnchorMismatch g as = Inr m \<Longrightarrow>
   (case m of
      None \<Rightarrow> \<forall>(n, h) \<in> set as. \<exists>b. g n = Inr (Some b) \<and> to_lower b = to_lower h
    | Some z \<Rightarrow> z \<in> fst ` set as \<and>
        (sorted_wrt (<) (map fst as) \<longrightarrow>
         (\<forall>(n, h) \<in> set as. n < z \<longrightarrow> (\<exists>b. g n = Inr (Some b) \<and> to_lower b = to_lower h))))"
proof (induction g as rule: cursorAnchorMismatch.induct)
  case (2 g n h as)
  then obtain block where block: "g n = Inr block" by auto
  show ?case
  proof (cases "\<exists>b. block = Some b \<and> to_lower b = to_lower h")
    case False
    then have "m = Some n" using 2 block by (auto split: option.splits if_splits)
    then show ?thesis by auto
  next
    case True
    then obtain b where b: "block = Some b" "to_lower b = to_lower h" by blast
    then have rest: "cursorAnchorMismatch g as = Inr m" using 2(2) block by simp
    show ?thesis
      using 2(1) [OF _ rest] b block by (cases m) auto
  qed
qed simp

lemma anchors_of_filter:
  "m \<le> n \<Longrightarrow> filter (\<lambda>a. fst a < m) (anchors_of c [a..n - 1]) = anchors_of c [a..m - 1]"
proof -
  assume "m \<le> n"
  then have "filter (\<lambda>i. i < m) [a..n - 1] = [a..m - 1]"
  proof (cases "a \<le> m")
    case True
    then have "[a..n - 1] = [a..m - 1] @ [m..n - 1]"
      using \<open>m \<le> n\<close> by (cases "m = n") (auto intro: upto_split1)
    then show ?thesis by (auto simp: filter_id_conv filter_empty_conv)
  next
    case False
    then show ?thesis by (auto simp: filter_empty_conv)
  qed
  then show ?thesis by (simp add: anchors_of_def filter_map o_def)
qed

lemma buildOperatorCursor_anchors:
  assumes "ob_manifest_start_block b \<le> n" "max (ob_manifest_start_block b) (n - v - 1) \<le> a"
  shows "buildOperatorCursor b n (anchors_of c [a..n - 1]) v =
         Inr \<lparr>cu_binding = b, cu_next_block = n, cu_anchors = anchors_of c [a..n - 1]\<rparr>"
proof -
  have "filter (\<lambda>x. max (ob_manifest_start_block b) (n - v - 1) \<le> fst x) (anchors_of c [a..n - 1])
        = anchors_of c [a..n - 1]"
    using assms(2) by (auto simp: anchors_of_def filter_id_conv)
  moreover have "sort_key fst (anchors_of c [a..n - 1]) = anchors_of c [a..n - 1]"
    by (rule sort_key_id_if_sorted) (simp add: anchors_of_def o_def)
  ultimately show ?thesis
    using assms(1) by (simp add: buildOperatorCursor_def Let_def)
qed

lemma anchors_of_sorted: "sorted_wrt (<) (map fst (anchors_of c [a..b]))"
  by (simp add: anchors_of_def o_def)

lemma rewind_tracks:
  assumes ok: "operator_config_ok cfg" and tracks: "tracks cfg c k"
    and rewind: "rewind_cursor cfg r k = Inr k'"
  shows "tracks cfg c k' \<and> cu_next_block k' \<le> cu_next_block k \<and>
    (\<forall>i. window_low cfg c \<le> i \<and> i < cu_next_block k' \<longrightarrow>
      (\<exists>b. sr_anchor r i = Inr (Some b) \<and> to_lower b = to_lower (bl_hash (c ! nat i))))"
proof -
  let ?low = "window_low cfg c" and ?next = "cu_next_block k"
  have anchors: "cu_anchors k = anchors_of c [?low..?next - 1]"
    using tracks by (simp add: tracks_def)
  obtain m where m: "cursorAnchorMismatch (sr_anchor r) (anchors_of c [?low..?next - 1]) = Inr m"
    and k': "(case m of None \<Rightarrow> Inr k
       | Some n \<Rightarrow> buildOperatorCursor (oc_binding cfg) n
           (filter (\<lambda>a. fst a < n) (cu_anchors k)) (oc_overlap cfg)) = Inr k'"
    using rewind by (auto simp: rewind_cursor_def anchors)
  show ?thesis
  proof (cases m)
    case None
    have "\<exists>b. sr_anchor r i = Inr (Some b) \<and> to_lower b = to_lower (bl_hash (c ! nat i))"
      if "?low \<le> i" "i < ?next" for i
      using cursorAnchorMismatch_found [OF m] None that by (auto simp: anchors_of_def)
    then show ?thesis using None k' tracks by simp
  next
    case (Some z)
    note found = cursorAnchorMismatch_found [OF m, unfolded Some option.case]
    have z: "?low \<le> z" "z < ?next" using found by (auto simp: anchors_of_def)
    have low: "ob_manifest_start_block (oc_binding cfg) \<le> ?low" "z - oc_overlap cfg - 1 \<le> ?low"
      using ok z tracks by (auto simp: operator_config_ok_def window_low_def tracks_def)
    have "buildOperatorCursor (oc_binding cfg) z (anchors_of c [?low..z - 1]) (oc_overlap cfg) = Inr k'"
      using k' Some anchors anchors_of_filter [of z ?next c ?low] z by simp
    then have eq: "k' = \<lparr>cu_binding = oc_binding cfg, cu_next_block = z,
                         cu_anchors = anchors_of c [?low..z - 1]\<rparr>"
      using buildOperatorCursor_anchors [of "oc_binding cfg" z "oc_overlap cfg" ?low c] low z by simp
    have "\<exists>b. sr_anchor r i = Inr (Some b) \<and> to_lower b = to_lower (bl_hash (c ! nat i))"
      if "?low \<le> i" "i < z" for i
      using found anchors_of_sorted [of c ?low "?next - 1"] that z by (auto simp: anchors_of_def)
    then show ?thesis using eq z tracks by (auto simp: tracks_def)
  qed
qed

section \<open>One scan against a newer view\<close>

definition follows :: "operator_config \<Rightarrow> 'l chain \<Rightarrow> 'l chain \<Rightarrow> bool" where
  "follows cfg c d \<longleftrightarrow> linked c d \<and> reorg_within (covered_depth cfg) c d"

lemma common_past:
  assumes ok: "operator_config_ok cfg" and tracks: "tracks cfg c k" and follows: "follows cfg c d"
    and standing: "\<And>i. window_low cfg c \<le> i \<Longrightarrow> i < cu_next_block k \<Longrightarrow>
      \<exists>b. hash_at d i = Some b \<and> to_lower b = to_lower (bl_hash (c ! nat i))"
    and i: "oc_start_block cfg \<le> i" "i < max (oc_start_block cfg) (cu_next_block k - oc_overlap cfg)"
  shows "logs_at f c i = logs_at f d i"
proof (cases "window_low cfg c < cu_next_block k")
  case True
  let ?n = "cu_next_block k - 1"
  obtain b where b: "hash_at d ?n = Some b" "to_lower b = to_lower (bl_hash (c ! nat ?n))"
    using standing [of ?n] True by auto
  have pos: "0 \<le> ?n" "?n < int (length c)" "?n < int (length d)"
    using ok tracks b scanned_to_length [OF ok, of c] True
    by (auto simp: tracks_def hash_at_def split: if_splits)
  then have "take (Suc (nat ?n)) c = take (Suc (nat ?n)) d"
    using follows b by (auto simp: follows_def linked_def hash_at_def nat_less_iff)
  moreover have "i < int (Suc (nat ?n))"
    using i pos ok by (auto simp: operator_config_ok_def)
  ultimately show ?thesis by (rule logs_at_take)
next
  case False
  then have n: "cu_next_block k = window_low cfg c" using tracks by (simp add: tracks_def)
  have eq: "take (length c - covered_depth cfg) c = take (length c - covered_depth cfg) d"
    using follows by (simp add: follows_def reorg_within_def)
  have "i < int (length c - covered_depth cfg)"
    using i n ok tracks
    by (auto simp: window_low_def scanned_to_def covered_depth_def operator_config_ok_def tracks_def
        split: if_splits)
  with eq show ?thesis by (rule logs_at_take)
qed

lemma read_anchors_all:
  "(\<And>n h. g n = Inr h \<Longrightarrow> h = hash_at d n) \<Longrightarrow> \<forall>n \<in> set ns. 0 \<le> n \<and> n < int (length d)
    \<Longrightarrow> read_anchors g ns = Inr as \<Longrightarrow> as = anchors_of d ns"
proof (induction ns arbitrary: as)
  case (Cons n ns)
  obtain block rest where "g n = Inr block" "read_anchors g ns = Inr rest"
    and as: "as = (case block of None \<Rightarrow> rest | Some h \<Rightarrow> (n, to_lower h) # rest)"
    using Cons.prems(3) by auto
  then have "block = hash_at d n" "rest = anchors_of d ns"
    using Cons.prems(1) [of n block] Cons.prems(2) Cons.IH [OF Cons.prems(1)] by auto
  then show ?case using as Cons.prems(2) by (simp add: hash_at_def anchors_of_def)
qed (simp add: anchors_of_def)

lemma persistCursor_tracks:
  assumes ok: "operator_config_ok cfg" and ans: "view_answered d r"
    and start: "oc_start_block cfg \<le> scanned_to cfg d"
    and persist: "persistCursor cfg (sr_persist r) (scanned_to cfg d + 1) = Inr k"
  shows "tracks cfg d k \<and> cu_next_block k = scanned_to cfg d + 1"
proof -
  let ?n = "scanned_to cfg d + 1"
  have low: "max (oc_start_block cfg) (?n - oc_overlap cfg - 1) = window_low cfg d"
    by (simp add: window_low_def)
  obtain as where as: "read_anchors (sr_persist r) [window_low cfg d..?n - 1] = Inr as"
    and k: "buildOperatorCursor (oc_binding cfg) ?n as (oc_overlap cfg) = Inr k"
    using persist unfolding persistCursor_def Let_def low by auto
  have nonempty: "d \<noteq> []" using ans by (simp add: view_answered_def)
  have "as = anchors_of d [window_low cfg d..?n - 1]"
  proof (rule read_anchors_all [OF _ _ as])
    show "\<And>n h. sr_persist r n = Inr h \<Longrightarrow> h = hash_at d n"
      using ans by (simp add: view_answered_def)
    show "\<forall>n \<in> set [window_low cfg d..?n - 1]. 0 \<le> n \<and> n < int (length d)"
      using ok scanned_to_length [OF ok nonempty]
      by (auto simp: window_low_def operator_config_ok_def)
  qed
  moreover have "ob_manifest_start_block (oc_binding cfg) \<le> ?n"
      "max (ob_manifest_start_block (oc_binding cfg)) (?n - oc_overlap cfg - 1) \<le> window_low cfg d"
    using ok start by (auto simp: window_low_def operator_config_ok_def)
  ultimately have "k = \<lparr>cu_binding = oc_binding cfg, cu_next_block = ?n,
                        cu_anchors = anchors_of d [window_low cfg d..?n - 1]\<rparr>"
    using k buildOperatorCursor_anchors [of "oc_binding cfg" ?n "oc_overlap cfg" "window_low cfg d" d]
    by simp
  then show ?thesis
    using ok nonempty start by (auto simp: tracks_def window_low_def operator_config_ok_def)
qed

lemma read_range_exact:
  assumes "view_answered d r" "read_range r a z = Inr (events, expirations)"
  shows "events = logs_between bl_reveals d a z \<and> expirations = logs_between bl_expirations d a z"
  using assms queryChunked_exact [of "sr_revealed r" bl_reveals d a z events]
    queryChunked_exact [of "sr_expired r" bl_expirations d a z expirations]
  by (auto simp: read_range_def view_answered_def)

text \<open>
  The state between scans: nothing scanned yet, or the cursor tracks a view all of whose events
  below the cursor have been handed over.
\<close>

definition scan_inv :: "operator_config \<Rightarrow> 'l chain set \<Rightarrow> 'l operator_state \<Rightarrow> bool" where
  "scan_inv cfg seen s \<longleftrightarrow>
     (cu_next_block (os_cursor s) = oc_start_block cfg \<and> cu_anchors (os_cursor s) = []) \<or>
     (\<exists>c \<in> seen. tracks cfg c (os_cursor s) \<and> handed cfg s c (cu_next_block (os_cursor s)))"

lemma handed_more:
  "handed cfg s c n \<Longrightarrow> set (os_reveals s) \<subseteq> set (os_reveals s')
    \<Longrightarrow> set (os_expirations s) \<subseteq> set (os_expirations s') \<Longrightarrow> handed cfg s' c n"
  unfolding handed_def by (meson order_trans)

lemma scan_inv_more:
  assumes "scan_inv cfg seen s" "os_cursor s' = os_cursor s"
    "set (os_reveals s) \<subseteq> set (os_reveals s')" "set (os_expirations s) \<subseteq> set (os_expirations s')"
    "seen \<subseteq> seen'"
  shows "scan_inv cfg seen' s'"
  using assms(1,2,5) handed_more [OF _ assms(3,4)] unfolding scan_inv_def by auto

text \<open>Below the range that is scanned next, the newer view holds what has been handed over.\<close>

lemma rewound_inv:
  assumes ok: "operator_config_ok cfg" and ans: "view_answered d r"
    and inv: "scan_inv cfg seen s" and newer: "\<forall>c \<in> seen. follows cfg c d"
    and rewind: "rewind_cursor cfg r (os_cursor s) = Inr k"
    and s1: "os_reveals s1 = os_reveals s" "set (os_expirations s) \<subseteq> set (os_expirations s1)"
  shows "scan_inv cfg seen (s1\<lparr>os_cursor := k\<rparr>) \<and>
    handed cfg s1 d (max (oc_start_block cfg) (cu_next_block k - oc_overlap cfg))"
proof -
  consider (fresh) "cu_next_block (os_cursor s) = oc_start_block cfg" "cu_anchors (os_cursor s) = []"
    | (tracked) c where "c \<in> seen" "tracks cfg c (os_cursor s)"
        "handed cfg s c (cu_next_block (os_cursor s))"
    using inv by (auto simp: scan_inv_def)
  then show ?thesis
  proof cases
    case fresh
    then have "k = os_cursor s" using rewind by (simp add: rewind_cursor_def)
    then show ?thesis using fresh ok by (auto simp: handed_def operator_config_ok_def scan_inv_def)
  next
    case tracked
    note moved = rewind_tracks [OF ok tracked(2) rewind]
    have handed_c: "handed cfg s1 c (cu_next_block k)"
      using handed_mono [OF tracked(3) s1] moved by blast
    have "handed cfg s1 d (max (oc_start_block cfg) (cu_next_block k - oc_overlap cfg))"
      unfolding handed_def
    proof (intro allI impI)
      fix i assume i: "oc_start_block cfg \<le> i \<and>
        i < max (oc_start_block cfg) (cu_next_block k - oc_overlap cfg)"
      have standing: "\<exists>b. hash_at d j = Some b \<and> to_lower b = to_lower (bl_hash (c ! nat j))"
        if "window_low cfg c \<le> j" "j < cu_next_block k" for j
        using moved that ans unfolding view_answered_def by metis
      have same: "logs_at f c i = logs_at f d i" for f :: "'a block \<Rightarrow> 'a list"
        by (rule common_past [OF ok, of c k]) (use moved newer tracked(1) i standing in auto)
      have "i < cu_next_block k" using i ok by (auto simp: operator_config_ok_def)
      then show "set (logs_at bl_reveals d i) \<subseteq> set (os_reveals s1) \<and>
          set (logs_at bl_expirations d i) \<subseteq> set (os_expirations s1)"
        using handed_c i unfolding handed_def same [symmetric] by blast
    qed
    then show ?thesis using handed_c moved tracked(1) by (auto simp: handed_def scan_inv_def)
  qed
qed

lemma handed_append:
  assumes low: "handed cfg s d a" and from_start: "oc_start_block cfg \<le> a"
  shows "handed cfg (s\<lparr>os_reveals := os_reveals s @ logs_between bl_reveals d a z,
                      os_expirations := os_expirations s @ logs_between bl_expirations d a z\<rparr>)
           d (z + 1)"
  unfolding handed_def
proof (intro allI impI)
  fix i assume i: "oc_start_block cfg \<le> i \<and> i < z + 1"
  show "set (logs_at bl_reveals d i) \<subseteq>
      set (os_reveals (s\<lparr>os_reveals := os_reveals s @ logs_between bl_reveals d a z,
                      os_expirations := os_expirations s @ logs_between bl_expirations d a z\<rparr>)) \<and>
    set (logs_at bl_expirations d i) \<subseteq>
      set (os_expirations (s\<lparr>os_reveals := os_reveals s @ logs_between bl_reveals d a z,
                      os_expirations := os_expirations s @ logs_between bl_expirations d a z\<rparr>))"
  proof (cases "i < a")
    case True
    then show ?thesis using low i by (auto simp: handed_def)
  next
    case False
    then show ?thesis using i by (auto simp: set_logs_between)
  qed
qed

lemma scanOnce_complete:
  assumes ok: "operator_config_ok cfg" and ans: "view_answered d r"
    and inv: "scan_inv cfg seen s" and newer: "\<forall>c \<in> seen. follows cfg c d"
  shows "scan_inv cfg (insert d seen) (fst (scanOnce cfg r s)) \<and>
    (\<forall>a z. snd (scanOnce cfg r s) = Scanned a z \<longrightarrow>
       z = scanned_to cfg d \<and> handed cfg (fst (scanOnce cfg r s)) d (z + 1))"
proof (cases rule: scanOnce_cases [of cfg r s])
  case (stopped s1 e)
  then show ?thesis using scan_inv_more [OF inv, of s1 "insert d seen"] by auto
next
  case (scans latest safe s1 k)
  have safe: "safe = scanned_to cfg d" using scans(1,2) scanned_to_eq [OF ans] by simp
  note rewound = rewound_inv [OF ok ans inv newer scans(6) scans(4) scans(5)]
  let ?s = "s1\<lparr>os_cursor := k\<rparr>"
  have inv1: "scan_inv cfg (insert d seen) ?s"
    using rewound scan_inv_more [of cfg seen ?s ?s] by auto
  show ?thesis
  proof (cases rule: scan_range_cases [of cfg r safe ?s])
    case (ranged a events expirations s')
    have a: "a = max (oc_start_block cfg) (cu_next_block k - oc_overlap cfg)"
      and start: "oc_start_block cfg \<le> safe"
      using ranged(1) by (auto simp: nextOperatorScanRange_def Let_def split: if_splits)
    have logs: "events = logs_between bl_reveals d a safe"
        "expirations = logs_between bl_expirations d a safe"
      using read_range_exact [OF ans ranged(2)] by simp_all
    have "handed cfg ?s d a" using rewound a by (simp add: handed_def)
    then have all: "handed cfg s' d (safe + 1)"
      using handed_append [of cfg ?s d a safe] a ranged(3) logs by simp
    have more: "scan_inv cfg (insert d seen) s'"
      using scan_inv_more [OF inv1, of s'] ranged(3) by auto
    show ?thesis
    proof (cases "persistCursor cfg (sr_persist r) (safe + 1)")
      case (Inl e)
      then show ?thesis using more ranged(4) scans(7) by simp
    next
      case (Inr c)
      have "tracks cfg d c \<and> cu_next_block c = safe + 1"
        using persistCursor_tracks [OF ok ans] Inr start safe by simp
      then show ?thesis using all ranged(4) scans(7) Inr safe
        by (auto simp: scan_inv_def handed_def)
    qed
  qed (use inv1 scans(7) in simp_all)
qed

section \<open>Runs\<close>

definition move_answered :: "'l chain \<times> 'l operator_move \<Rightarrow> bool" where
  "move_answered h = (case snd h of Scan r \<Rightarrow> view_answered (fst h) r | Restart \<Rightarrow> True)"

definition move_hex :: "operator_config \<Rightarrow> 'l operator_move \<Rightarrow> bool" where
  "move_hex cfg m = (case m of Scan r \<Rightarrow> hashes_hex cfg r | Restart \<Rightarrow> True)"

lemma restart_same:
  assumes "cursor_valid cfg (os_cursor s)"
  shows "operator_step cfg Restart s = Inr s"
  using validate_cursor_file [OF assms] by (simp add: loadOperatorCursor_def)

lemma run_valid:
  "cursor_valid cfg (os_cursor s) \<Longrightarrow> list_all (move_hex cfg) ms
    \<Longrightarrow> \<exists>s'. operator_run cfg ms s = Inr s' \<and> cursor_valid cfg (os_cursor s')"
proof (induction ms arbitrary: s)
  case (Cons m ms)
  show ?case
  proof (cases m)
    case (Scan r)
    then show ?thesis
      using Cons.IH [of "fst (scanOnce cfg r s)"] Cons.prems scanOnce_cursor_valid [of cfg s r]
      by (simp add: move_hex_def)
  next
    case Restart
    then show ?thesis using Cons restart_same [OF Cons.prems(1)] by (simp del: operator_step.simps)
  qed
qed simp

lemma restart_inv:
  assumes "operator_step cfg Restart s = Inr s'"
  shows "s' = s\<lparr>os_cursor := os_cursor s'\<rparr> \<and> cu_next_block (os_cursor s') = cu_next_block (os_cursor s)
    \<and> cu_anchors (os_cursor s') = cu_anchors (os_cursor s) \<and> cu_binding (os_cursor s') = oc_binding cfg"
proof -
  have anchors: "check_anchors hx n (map (\<lambda>(n, h). (Whole n, h)) as) = Inr bs \<Longrightarrow> bs = as"
    for hx n as bs
    by (induction as arbitrary: bs) (auto split: if_splits)
  show ?thesis
    using assms
    by (auto simp: loadOperatorCursor_def validateOperatorCursor_def cursor_to_file_def
        split: if_splits dest!: anchors)
qed

lemma restart_keeps_inv:
  assumes "operator_step cfg Restart s = Inr s'" and "scan_inv cfg seen s"
  shows "scan_inv cfg seen s'"
proof -
  note same = restart_inv [OF assms(1)]
  have "os_reveals s' = os_reveals s" "os_expirations s' = os_expirations s"
    using same by (metis operator_state.select_convs operator_state.surjective
        operator_state.update_convs(1))+
  then show ?thesis using assms(2) same by (auto simp: scan_inv_def tracks_def handed_def)
qed

lemma operator_run_inv:
  assumes ok: "operator_config_ok cfg"
  shows "operator_run cfg (map snd hs) s = Inr s' \<Longrightarrow> list_all move_answered hs
    \<Longrightarrow> sorted_wrt (follows cfg) (map fst hs) \<Longrightarrow> scan_inv cfg seen s
    \<Longrightarrow> \<forall>c \<in> seen. \<forall>h \<in> set hs. follows cfg c (fst h)
    \<Longrightarrow> scan_inv cfg (seen \<union> fst ` set hs) s'"
proof (induction hs arbitrary: s seen)
  case (Cons h hs)
  obtain s1 where s1: "operator_step cfg (snd h) s = Inr s1" "operator_run cfg (map snd hs) s1 = Inr s'"
    using Cons.prems(1) by auto
  have "scan_inv cfg (insert (fst h) seen) s1"
  proof (cases "snd h")
    case (Scan r)
    then show ?thesis
      using scanOnce_complete [OF ok, of "fst h" r seen s] Cons.prems s1(1)
      by (simp add: move_answered_def)
  next
    case Restart
    then have "scan_inv cfg seen s1" using restart_keeps_inv s1(1) Cons.prems(4) by metis
    then show ?thesis by (rule scan_inv_more) auto
  qed
  moreover have "\<forall>c \<in> insert (fst h) seen. \<forall>h' \<in> set hs. follows cfg c (fst h')"
    using Cons.prems(3,5) by auto
  ultimately have "scan_inv cfg (insert (fst h) seen \<union> fst ` set hs) s'"
    by (intro Cons.IH [OF s1(2)]) (use Cons.prems(2,3) in auto)
  then show ?case by simp
qed simp

lemma operator_start_inv:
  assumes "operator_start cfg = Inr s"
  shows "scan_inv cfg {} s \<and> cursor_valid cfg (os_cursor s)"
  using assms
  by (auto simp: operator_start_def loadOperatorCursor_def buildOperatorCursor_def scan_inv_def
      cursor_valid_def Let_def)

section \<open>Properties\<close>

text \<open>
  C27. The operator misses no reveal and no expired challenge as long as no reorganisation falls into a
  scan: after any run of scans and restarts over changing views of the chain, where every read of one
  scan that does not fail is answered from one and the same view, a hash determines its history and no
  reorganisation is deeper than \<open>confirmations + 2 * overlap + 1\<close> blocks, a scan that completes has
  gone up to the newest confirmed block, and every Revealed and ChallengeExpired event of the current
  view from the start block up to there has been handed over.
\<close>

theorem operator_scan_complete:
  assumes "operator_config_ok cfg" and "operator_start cfg = Inr s0"
    and "list_all move_answered hs" and "view_answered d r"
    and "sorted_wrt (follows cfg) (map fst hs @ [d])"
    and "operator_run cfg (map snd hs) s0 = Inr s" and "scanOnce cfg r s = (s', Scanned a z)"
  shows "z = max 0 (int (length d) - 1 - oc_confirmations cfg) \<and>
    (\<forall>i \<in> {oc_start_block cfg..z}.
       set (logs_at bl_reveals d i) \<subseteq> set (os_reveals s') \<and>
       set (logs_at bl_expirations d i) \<subseteq> set (os_expirations s'))"
proof -
  have "scan_inv cfg (fst ` set hs) s"
    using operator_run_inv [OF assms(1,6,3), of "{}"] assms(5) operator_start_inv [OF assms(2)]
    by (simp add: sorted_wrt_append)
  moreover have "\<forall>c \<in> fst ` set hs. follows cfg c d"
    using assms(5) by (auto simp: sorted_wrt_append)
  ultimately have "z = scanned_to cfg d \<and> handed cfg s' d (z + 1)"
    using scanOnce_complete [OF assms(1,4), of "fst ` set hs" s] unfolding assms(7) by auto
  then show ?thesis by (auto simp: handed_def scanned_to_def)
qed

text \<open>
   The cursor file is always accepted: whatever the provider answers (its block hashes being
  32-byte hexadecimal), no restart in a run is refused, and after the run the file is read back as
  exactly the cursor the operator holds.
\<close>

theorem operator_restart_accepted:
  assumes "operator_start cfg = Inr s0" and "list_all (move_hex cfg) ms"
  shows "\<exists>s. operator_run cfg ms s0 = Inr s \<and>
    loadOperatorCursor cfg (Some (cursor_to_file (os_cursor s))) = Inr (os_cursor s)"
  using run_valid [OF conjunct2 [OF operator_start_inv [OF assms(1)]] assms(2)] validate_cursor_file
  by (fastforce simp: loadOperatorCursor_def)

text \<open>
  A paged query of the operator returns exactly the logs of the range in the chain's order,
  when each page is answered within five attempts and no answer is wrong.
\<close>

theorem chunked_query_exact:
  assumes "\<And>a b k. k < 5 \<Longrightarrow> qf a b k = None \<or> qf a b k = Some (logs_between f c a b)"
    and "\<And>a b. \<exists>k < 5. qf a b k \<noteq> None"
  shows "queryChunked qf a z = Inr (logs_between f c a z)"
  using query_pages_answers [of qf "logs_at f c" a z "[]"] assms
  by (simp add: queryChunked_def logs_between_def)

section \<open>A reorganisation in the middle of a scan\<close>

text \<open>The anchors of a cursor that a view still has.\<close>

definition standing :: "'l chain \<Rightarrow> operator_cursor \<Rightarrow> bool" where
  "standing d c \<longleftrightarrow> (\<forall>(n, h) \<in> set (cu_anchors c). \<exists>b. hash_at d n = Some b \<and> to_lower b = to_lower h)"













end
