(* ===== verification/Operator_Examples.thy ===== *)
theory Operator_Examples
  imports Operator_Properties
begin

text \<open>
  Concrete runs of the operator's scan: the witnesses of its properties, and the run in which a
  reorganisation between two reads of one scan makes it miss an event for good.
\<close>

definition sample_hash :: "char \<Rightarrow> string" where
  "sample_hash c = ''0x'' @ [c]"

definition sample_block :: "char \<Rightarrow> nat list \<Rightarrow> nat list \<Rightarrow> nat block" where
  "sample_block h reveals expirations =
     \<lparr>bl_hash = sample_hash h, bl_reveals = reveals, bl_expirations = expirations\<rparr>"

definition scan_binding :: operator_binding where
  "scan_binding =
     \<lparr>ob_chain_id = 84532, ob_deployment_commit = ''c0ffee'', ob_deployment_config_hash = ''beef'',
      ob_submission_contract = ''0x51'', ob_challenge_contract = ''0x52'', ob_problem_id = ''p1'',
      ob_manifest_start_block = 0, ob_registry = None\<rparr>"

definition scan_config :: operator_config where
  "scan_config =
     \<lparr>oc_binding = scan_binding,
      oc_backfill_binding =
        challengeExpiredBackfillBinding (\<lambda>b. ''h'') scan_binding 84532 ''0x52'' 0,
      oc_sha = (\<lambda>v b n. ''m''), oc_isHexString = (\<lambda>s n. take 2 s = ''0x''),
      oc_start_block = 0, oc_confirmations = 1, oc_overlap = 1\<rparr>"

text \<open>A scan whose logs come from the view \<open>c\<close> and whose anchors are read from the view \<open>d\<close>.\<close>

definition reads_between :: "'l chain \<Rightarrow> 'l chain \<Rightarrow> 'l scan_reads" where
  "reads_between c d =
     \<lparr>sr_latest = Inr (int (length c) - 1), sr_finalized = (\<lambda>n. Inr (hash_at c n)),
      sr_backfill = (\<lambda>a b k. Some (logs_between bl_expirations c a b)),
      sr_process_backfill = (\<lambda>l. True), sr_anchor = (\<lambda>n. Inr (hash_at c n)),
      sr_revealed = (\<lambda>a b k. if k = 0 then None else Some (logs_between bl_reveals c a b)),
      sr_expired = (\<lambda>a b k. Some (logs_between bl_expirations c a b)),
      sr_process = (\<lambda>l m. True), sr_persist = (\<lambda>n. Inr (hash_at d n))\<rparr>"

definition sample_view :: "nat chain" where
  "sample_view =
     [sample_block (CHR ''a'') [] [], sample_block (CHR ''b'') [1] [], sample_block (CHR ''c'') [] [],
      sample_block (CHR ''d'') [2] [], sample_block (CHR ''e'') [] [7], sample_block (CHR ''f'') [] [],
      sample_block (CHR ''0'') [] []]"

text \<open>The same chain after its last four blocks have been replaced; block 3 has a new event.\<close>

definition reorged_view :: "nat chain" where
  "reorged_view =
     take 3 sample_view @
     [sample_block (CHR ''1'') [3] [], sample_block (CHR ''2'') [] [7], sample_block (CHR ''3'') [] [],
      sample_block (CHR ''4'') [] []]"

definition later_view :: "nat chain" where
  "later_view = reorged_view @ [sample_block (CHR ''5'') [4] []]"

lemma reads_answered: "c \<noteq> [] \<Longrightarrow> view_answered c (reads_between c c)"
  by (simp add: view_answered_def reads_between_def)

lemma sample_follows:
  "follows scan_config sample_view reorged_view" "follows scan_config sample_view later_view"
  "follows scan_config reorged_view later_view"
  by code_simp+

lemma sample_views: "sample_view \<noteq> []" "reorged_view \<noteq> []" "later_view \<noteq> []"
  by (simp_all add: sample_view_def reorged_view_def later_view_def)

lemma scan_config_ok: "operator_config_ok scan_config"
  by code_simp


lemma follows_same: "follows cfg c c"
  by (simp add: follows_def linked_def reorg_within_def)

definition sample_history :: "(nat chain \<times> nat operator_move) list" where
  "sample_history =
     [(sample_view, Scan (reads_between sample_view sample_view)), (sample_view, Restart),
      (reorged_view, Scan (reads_between reorged_view reorged_view))]"

definition scan_state :: "nat operator_state" where
  "scan_state = projr (operator_start scan_config)"

definition run_state :: "nat operator_move list \<Rightarrow> nat operator_state" where
  "run_state ms = projr (operator_run scan_config ms scan_state)"

lemma scan_starts: "operator_start scan_config = Inr scan_state"
  by code_simp

lemma sample_runs: "operator_run scan_config (map snd sample_history) scan_state =
    Inr (run_state (map snd sample_history))"
  by code_simp

lemma sample_scans: "snd (scanOnce scan_config (reads_between later_view later_view)
    (run_state (map snd sample_history))) = Scanned 5 6"
  by code_simp

lemma scanOnce_pair: "snd p = Scanned a z \<Longrightarrow> p = (fst p, Scanned a z)"
  by (cases p) simp

lemma sample_history_answered: "list_all move_answered sample_history"
  by (simp add: sample_history_def move_answered_def reads_answered sample_views)

theorem operator_scan_complete_witness:
  "3 \<in> set (os_reveals (fst (scanOnce scan_config (reads_between later_view later_view)
      (run_state (map snd sample_history)))))"
proof -
  have "sorted_wrt (follows scan_config) (map fst sample_history @ [later_view])"
    by (simp add: sample_history_def sample_follows follows_same)
  from operator_scan_complete [OF scan_config_ok scan_starts sample_history_answered
      reads_answered [OF sample_views(3)] this sample_runs scanOnce_pair [OF sample_scans]]
  have "set (logs_at bl_reveals later_view 3) \<subseteq>
      set (os_reveals (fst (scanOnce scan_config (reads_between later_view later_view)
        (run_state (map snd sample_history)))))"
    by (simp add: scan_config_def)
  moreover have "logs_at bl_reveals later_view 3 = [3]" by code_simp
  ultimately show ?thesis by simp
qed

lemma hashes_hex_between:
  assumes "list_all (\<lambda>b. oc_isHexString cfg (to_lower (bl_hash b)) 32) d"
  shows "hashes_hex cfg (reads_between c d)"
  using assms
  by (simp add: hashes_hex_def reads_between_def hash_at_def list_all_length nat_less_iff)

lemma sample_history_hex: "list_all (move_hex scan_config) (map snd sample_history)"
proof -
  have "list_all (\<lambda>b. oc_isHexString scan_config (to_lower (bl_hash b)) 32) sample_view"
    "list_all (\<lambda>b. oc_isHexString scan_config (to_lower (bl_hash b)) 32) reorged_view"
    by code_simp+
  then show ?thesis by (simp add: sample_history_def move_hex_def hashes_hex_between)
qed

theorem operator_restart_accepted_witness:
  "\<exists>s. operator_run scan_config (map snd sample_history) scan_state = Inr s \<and>
     loadOperatorCursor scan_config (Some (cursor_to_file (os_cursor s))) = Inr (os_cursor s)"
  by (rule operator_restart_accepted [OF scan_starts sample_history_hex])

theorem chunked_query_exact_witness:
  "queryChunked (sr_revealed (reads_between sample_view sample_view)) 0 5 = Inr [1, 2]"
proof -
  have "queryChunked (sr_revealed (reads_between sample_view sample_view)) 0 5 =
      Inr (logs_between bl_reveals sample_view 0 5)"
  proof (rule chunked_query_exact)
    show "\<exists>k < 5. sr_revealed (reads_between sample_view sample_view) a b k \<noteq> None" for a b
      by (rule exI [of _ 1]) (simp add: reads_between_def)
  qed (simp add: reads_between_def)
  also have "logs_between bl_reveals sample_view 0 5 = [1, 2]" by code_simp
  finally show ?thesis .
qed

section \<open>A reorganisation in the middle of a scan\<close>



end
