(* ===== verification/Reveal_Calldata.thy ===== *)
theory Reveal_Calldata
  imports Js_Values
begin

text \<open>
  Recovering the revealed solution from the calldata of a transaction (agent/lib.mjs:
  \<open>recoverRevealCalldata\<close>). The reveal call may be nested anywhere in the calldata of a wallet, so
  the code searches the hexadecimal text for the selector of \<open>reveal\<close> and examines every
  occurrence at a byte boundary.

  The ABI codec and SHA-256 are library code: \<open>decode\<close> (\<open>decodeFunctionData\<close>, \<open>None\<close> when it
  throws), \<open>encode\<close> (\<open>encodeFunctionData\<close>) and \<open>sha256\<close> are parameters, as is
  \<open>hx\<close> (\<open>ethers.isHexString\<close>).
\<close>

section \<open>Data\<close>

record reveal_args =
  ra_submissionId :: int
  ra_solutionCid :: string
  ra_claimedScoreAtoms :: int
  ra_improvementAtoms :: int
  ra_salt :: string
  ra_solution :: string

text \<open>The fields of the Revealed log the caller wants matched; \<open>None\<close> is undefined.\<close>

record reveal_expected =
  ex_submissionId :: "int option"
  ex_solutionCid :: "string option"
  ex_claimedScoreAtoms :: "int option"
  ex_improvementAtoms :: "int option"
  ex_solutionBytesLength :: "int option"
  ex_commitDaHash :: "string option"

record recovered_reveal =
  rr_args :: reveal_args
  rr_solutionBytesLength :: int
  rr_calldataOffsetBytes :: nat
  rr_nested :: bool
  rr_callData :: string
  rr_commitDaHash :: "string option"

datatype reveal_error =
    Calldata_not_prefixed | Commit_hash_invalid | Ambiguous_reveal nat | Reveal_decoy | No_reveal

record reveal_codec =
  rc_selector :: string
  rc_decode :: "string \<Rightarrow> reveal_args option"
  rc_encode :: "reveal_args \<Rightarrow> string"
  rc_sha256 :: "string \<Rightarrow> string"
  rc_isHexString :: "string \<Rightarrow> nat \<Rightarrow> bool"

section \<open>One candidate\<close>

definition normalizedBytes32 :: "(string \<Rightarrow> nat \<Rightarrow> bool) \<Rightarrow> string \<Rightarrow> reveal_error + string" where
  "normalizedBytes32 hx v = require (hx v 32) Commit_hash_invalid (Inr (to_lower v))"

definition agrees_with :: "'a option \<Rightarrow> 'a \<Rightarrow> bool" where
  "agrees_with e v = (case e of None \<Rightarrow> True | Some x \<Rightarrow> v = x)"

text \<open>
  A decoded \<open>bytes\<close> value is the prefix \<open>0x\<close> and two digits per byte, so the division is exact.
\<close>

definition solution_bytes_length :: "string \<Rightarrow> int" where
  "solution_bytes_length s = (int (length s) - 2) div 2"

definition matches_log :: "reveal_expected \<Rightarrow> reveal_args \<Rightarrow> bool" where
  "matches_log ex a \<longleftrightarrow>
     agrees_with (ex_submissionId ex) (ra_submissionId a) \<and>
     agrees_with (ex_solutionCid ex) (ra_solutionCid a) \<and>
     agrees_with (ex_claimedScoreAtoms ex) (ra_claimedScoreAtoms a) \<and>
     agrees_with (ex_improvementAtoms ex) (ra_improvementAtoms a) \<and>
     agrees_with (ex_solutionBytesLength ex) (solution_bytes_length (ra_solution a))"

datatype verdict = Skipped | Decoy recovered_reveal | Matched recovered_reveal

definition starts_with :: "string \<Rightarrow> string \<Rightarrow> bool" where
  "starts_with s p \<longleftrightarrow> take (length p) s = p"

definition examine_candidate ::
  "reveal_codec \<Rightarrow> reveal_expected \<Rightarrow> string option \<Rightarrow> string \<Rightarrow> nat \<Rightarrow> verdict" where
  "examine_candidate cd ex commit hex index =
     (let tail = ''0x'' @ drop index hex
      in case rc_decode cd tail of
           None \<Rightarrow> Skipped
         | Some a \<Rightarrow>
            (let encoded = to_lower (rc_encode cd a)
             in if \<not> starts_with tail encoded then Skipped
                else if \<not> matches_log ex a then Skipped
                else
                  (let rec = \<lparr>rr_args = a, rr_solutionBytesLength = solution_bytes_length (ra_solution a),
                              rr_calldataOffsetBytes = index div 2, rr_nested = (index \<noteq> 0),
                              rr_callData = encoded, rr_commitDaHash = None\<rparr>
                   in case commit of
                        None \<Rightarrow> Matched rec
                      | Some h \<Rightarrow>
                         (let digest = to_lower (rc_sha256 cd (ra_solution a));
                              rec' = rec\<lparr>rr_commitDaHash := Some digest\<rparr>
                          in if digest \<noteq> h then Decoy rec' else Matched rec'))))"

section \<open>The search\<close>

text \<open>\<open>hex.indexOf(selector, cursor)\<close>; \<open>None\<close> is \<open>-1\<close>.\<close>

definition occurs_at :: "string \<Rightarrow> string \<Rightarrow> nat \<Rightarrow> bool" where
  "occurs_at sel hex i \<longleftrightarrow> take (length sel) (drop i hex) = sel"

definition indexOf :: "string \<Rightarrow> string \<Rightarrow> nat \<Rightarrow> nat option" where
  "indexOf sel hex cursor = find (occurs_at sel hex) [cursor..<Suc (length hex) - length sel]"

lemma indexOf_Some:
  assumes "indexOf sel hex cursor = Some i"
  shows "cursor \<le> i" "i + length sel \<le> length hex" "occurs_at sel hex i"
    "\<And>j. cursor \<le> j \<Longrightarrow> j < i \<Longrightarrow> \<not> occurs_at sel hex j"
proof -
  obtain k where k: "k < length [cursor..<Suc (length hex) - length sel]"
      "occurs_at sel hex ([cursor..<Suc (length hex) - length sel] ! k)"
      "i = [cursor..<Suc (length hex) - length sel] ! k"
      "\<forall>j<k. \<not> occurs_at sel hex ([cursor..<Suc (length hex) - length sel] ! j)"
    using assms unfolding indexOf_def find_Some_iff by blast
  then have i: "i = cursor + k" by (simp add: nth_upt)
  show "cursor \<le> i" "i + length sel \<le> length hex" "occurs_at sel hex i"
    using i k by (auto simp: nth_upt)
  show "\<not> occurs_at sel hex j" if "cursor \<le> j" "j < i" for j
    using k(4)[rule_format, of "j - cursor"] i k(1) that by (auto simp: nth_upt)
qed

lemma indexOf_None:
  "indexOf sel hex cursor = None \<Longrightarrow> cursor \<le> j \<Longrightarrow> j + length sel \<le> length hex
    \<Longrightarrow> \<not> occurs_at sel hex j"
  by (auto simp: indexOf_def find_None_iff)

text \<open>
  The loop: the candidates at even offsets, in order. After an occurrence the search goes on two
  digits further.
\<close>

function scan_offsets :: "string \<Rightarrow> string \<Rightarrow> nat \<Rightarrow> nat list" where
  "scan_offsets sel hex cursor =
     (if cursor + length sel \<le> length hex then
        (case indexOf sel hex cursor of
           None \<Rightarrow> []
         | Some i \<Rightarrow>
             if i mod 2 \<noteq> 0 then scan_offsets sel hex (i + 2)
             else i # scan_offsets sel hex (i + 2))
      else [])"
  by pat_completeness auto

termination scan_offsets
  by (relation "measure (\<lambda>(sel, hex, cursor). Suc (length hex) - cursor)")
    (auto dest: indexOf_Some(1))

declare scan_offsets.simps [simp del]

fun sort_verdicts ::
  "verdict list \<Rightarrow> recovered_reveal list \<times> recovered_reveal list" where
  "sort_verdicts [] = ([], [])"
| "sort_verdicts (v # vs) =
     (let (matches, decoys) = sort_verdicts vs
      in case v of
           Skipped \<Rightarrow> (matches, decoys)
         | Decoy r \<Rightarrow> (matches, r # decoys)
         | Matched r \<Rightarrow> (r # matches, decoys))"

definition conclude :: "recovered_reveal list \<times> recovered_reveal list \<Rightarrow> reveal_error + recovered_reveal" where
  "conclude md =
     (let (matches, decoys) = md
      in if length matches = 1 \<and> decoys = [] then Inr (hd matches)
         else if length matches > 1 then Inl (Ambiguous_reveal (length matches))
         else if decoys \<noteq> [] then Inl Reveal_decoy
         else Inl No_reveal)"

definition recoverRevealCalldata ::
  "reveal_codec \<Rightarrow> string \<Rightarrow> reveal_expected \<Rightarrow> reveal_error + recovered_reveal" where
  "recoverRevealCalldata cd transactionData ex =
     (let raw = to_lower transactionData
      in require (take 2 raw = ''0x'') Calldata_not_prefixed
        (and_then (case ex_commitDaHash ex of
                     None \<Rightarrow> Inr None
                   | Some h \<Rightarrow> and_then (normalizedBytes32 (rc_isHexString cd) h) (\<lambda>n. Inr (Some n)))
          (\<lambda>commit.
           (let hex = drop 2 raw;
                sel = drop 2 (to_lower (rc_selector cd))
            in conclude (sort_verdicts
                 (map (examine_candidate cd ex commit hex) (scan_offsets sel hex 0)))))))"

end
