(* ===== verification/Reveal_Properties.thy ===== *)
theory Reveal_Properties
  imports Reveal_Calldata
begin

text \<open>
  The search for the reveal call: it is the exhaustive examination of every byte offset, and a
  reveal call wrapped in other calldata is recovered.
\<close>

section \<open>The search is exhaustive\<close>

text \<open>A selector that is not one digit repeated; the selector of \<open>reveal\<close> is not.\<close>

definition varied :: "string \<Rightarrow> bool" where
  "varied s \<longleftrightarrow> (\<exists>k. Suc k < length s \<and> s ! k \<noteq> s ! Suc k)"

definition byte_offsets :: "string \<Rightarrow> string \<Rightarrow> nat \<Rightarrow> nat list" where
  "byte_offsets sel hex a =
     filter (\<lambda>i. even i \<and> occurs_at sel hex i) [a..<Suc (length hex) - length sel]"

definition matched :: "verdict list \<Rightarrow> recovered_reveal list" where
  "matched vs = concat (map (\<lambda>v. case v of Matched r \<Rightarrow> [r] | _ \<Rightarrow> []) vs)"

definition decoyed :: "verdict list \<Rightarrow> recovered_reveal list" where
  "decoyed vs = concat (map (\<lambda>v. case v of Decoy r \<Rightarrow> [r] | _ \<Rightarrow> []) vs)"

definition exhaustive_recovery ::
  "reveal_codec \<Rightarrow> reveal_expected \<Rightarrow> string option \<Rightarrow> string \<Rightarrow> reveal_error + recovered_reveal" where
  "exhaustive_recovery cd ex commit hex =
     (let verdicts = map (examine_candidate cd ex commit hex)
                       (byte_offsets (drop 2 (to_lower (rc_selector cd))) hex 0)
      in case matched verdicts of
           [] \<Rightarrow> Inl (if decoyed verdicts = [] then No_reveal else Reveal_decoy)
         | [r] \<Rightarrow> (if decoyed verdicts = [] then Inr r else Inl Reveal_decoy)
         | ms \<Rightarrow> Inl (Ambiguous_reveal (length ms)))"

lemma occurs_at_nth:
  "occurs_at sel hex i \<Longrightarrow> k < length sel \<Longrightarrow> i + k < length hex \<and> hex ! (i + k) = sel ! k"
proof -
  assume at: "occurs_at sel hex i" and k: "k < length sel"
  have len: "length (take (length sel) (drop i hex)) = length sel"
    using at by (simp add: occurs_at_def)
  have "take (length sel) (drop i hex) ! k = sel ! k"
    using at by (simp add: occurs_at_def)
  then show ?thesis using k len by simp
qed

lemma occurs_not_adjacent:
  assumes "varied sel" "occurs_at sel hex i" shows "\<not> occurs_at sel hex (Suc i)"
proof
  assume next_too: "occurs_at sel hex (Suc i)"
  obtain k where k: "Suc k < length sel" "sel ! k \<noteq> sel ! Suc k"
    using assms(1) by (auto simp: varied_def)
  then show False
    using occurs_at_nth [OF assms(2), of "Suc k"] occurs_at_nth [OF next_too, of k] by simp
qed

lemma byte_offsets_skip:
  assumes "a \<le> b" "\<And>j. a \<le> j \<Longrightarrow> j < b \<Longrightarrow> \<not> (even j \<and> occurs_at sel hex j)"
  shows "byte_offsets sel hex a = byte_offsets sel hex b"
proof (cases "b \<le> Suc (length hex) - length sel")
  case True
  then have "[a..<Suc (length hex) - length sel] = [a..<b] @ [b..<Suc (length hex) - length sel]"
    using assms(1) upt_add_eq_append [of a b] by (metis le_add_diff_inverse)
  moreover have "filter (\<lambda>i. even i \<and> occurs_at sel hex i) [a..<b] = []"
    using assms(2) by (auto simp: filter_empty_conv)
  ultimately show ?thesis by (simp add: byte_offsets_def)
next
  case False
  then show ?thesis using assms(2) by (auto simp: byte_offsets_def filter_empty_conv)
qed

lemma byte_offsets_hit:
  assumes "even i" "occurs_at sel hex i" "i + length sel \<le> length hex"
  shows "byte_offsets sel hex i = i # byte_offsets sel hex (Suc i)"
  using assms by (simp add: byte_offsets_def upt_conv_Cons)

lemma scan_offsets_exhaustive:
  "varied sel \<Longrightarrow> scan_offsets sel hex a = byte_offsets sel hex a"
proof (induction sel hex a rule: scan_offsets.induct)
  case (1 sel hex a)
  show ?case
  proof (cases "a + length sel \<le> length hex")
    case False
    then show ?thesis by (auto simp: scan_offsets.simps byte_offsets_def)
  next
    case inside: True
    show ?thesis
    proof (cases "indexOf sel hex a")
      case None
      then have "\<not> occurs_at sel hex j" if "a \<le> j" "j + length sel \<le> length hex" for j
        using indexOf_None that by blast
      then have "byte_offsets sel hex a = []"
        by (auto simp: byte_offsets_def filter_empty_conv)
      then show ?thesis using None by (subst scan_offsets.simps) simp
    next
      case (Some i)
      note at = indexOf_Some [OF Some]
      have start: "byte_offsets sel hex a = byte_offsets sel hex i"
        by (rule byte_offsets_skip) (use at in auto)
      show ?thesis
      proof (cases "even i")
        case True
        have "byte_offsets sel hex (Suc i) = byte_offsets sel hex (i + 2)"
          by (rule byte_offsets_skip) (use True in \<open>auto simp: less_Suc_eq\<close>)
        moreover have "scan_offsets sel hex (i + 2) = byte_offsets sel hex (i + 2)"
          using 1(2) [OF inside Some] 1(3) True by (simp add: even_iff_mod_2_eq_zero)
        ultimately show ?thesis
          using byte_offsets_hit [OF True at(3,2)] start inside Some True
          by (subst scan_offsets.simps) (simp add: even_iff_mod_2_eq_zero)
      next
        case False
        have "byte_offsets sel hex i = byte_offsets sel hex (i + 2)"
          by (rule byte_offsets_skip)
            (use False occurs_not_adjacent [OF 1(3) at(3)] in \<open>auto simp: less_Suc_eq\<close>)
        moreover have "scan_offsets sel hex (i + 2) = byte_offsets sel hex (i + 2)"
          using 1(1) [OF inside Some] 1(3) False by (simp add: even_iff_mod_2_eq_zero)
        ultimately show ?thesis
          using start inside Some False
          by (subst scan_offsets.simps) (simp add: even_iff_mod_2_eq_zero)
      qed
    qed
  qed
qed

lemma sort_verdicts_eq: "sort_verdicts vs = (matched vs, decoyed vs)"
  by (induction vs) (auto simp: matched_def decoyed_def split: verdict.splits)

lemma conclude_reference:
  "conclude (sort_verdicts vs) =
     (case matched vs of
        [] \<Rightarrow> Inl (if decoyed vs = [] then No_reveal else Reveal_decoy)
      | [r] \<Rightarrow> (if decoyed vs = [] then Inr r else Inl Reveal_decoy)
      | ms \<Rightarrow> Inl (Ambiguous_reveal (length ms)))"
  by (auto simp: sort_verdicts_eq conclude_def split: list.splits)

text \<open>
  C30. The recovery of a reveal from calldata looks at every byte offset: although the search jumps
  two digits past each occurrence of the selector, its result is that of examining all even offsets
  at which the selector stands: the one match when there is exactly one and no decoy, an error
  otherwise.
\<close>

theorem reveal_search_exhaustive:
  assumes "varied (drop 2 (to_lower (rc_selector cd)))" and "take 2 (to_lower tx) = ''0x''"
    and "ex_commitDaHash ex = None \<and> commit = None \<or>
      (\<exists>h. ex_commitDaHash ex = Some h \<and> rc_isHexString cd h 32 \<and> commit = Some (to_lower h))"
  shows "recoverRevealCalldata cd tx ex = exhaustive_recovery cd ex commit (drop 2 (to_lower tx))"
  using assms(2,3)
  unfolding recoverRevealCalldata_def exhaustive_recovery_def normalizedBytes32_def Let_def
    scan_offsets_exhaustive [OF assms(1)] conclude_reference
  by auto

section \<open>Wrapped calls are recovered\<close>

text \<open>
  What the code relies on of the ABI codec: an encoded call begins with the selector, and decoding
  ignores the whole bytes that follow an encoded call. Of other texts, such as an odd number of digits,
  nothing is assumed; \<open>decodeFunctionData\<close> throws on them.
\<close>

definition byte_digits :: "string \<Rightarrow> bool" where
  "byte_digits s \<longleftrightarrow> even (length s) \<and> list_all (\<lambda>c. c \<in> set ''0123456789abcdef'') s"

definition codec_law :: "reveal_codec \<Rightarrow> reveal_args \<Rightarrow> bool" where
  "codec_law cd a \<longleftrightarrow>
     take 2 (to_lower (rc_encode cd a)) = ''0x'' \<and>
     starts_with (to_lower (rc_encode cd a)) (to_lower (rc_selector cd)) \<and>
     2 \<le> length (rc_selector cd) \<and>
     (\<forall>rest. byte_digits rest \<longrightarrow> rc_decode cd (to_lower (rc_encode cd a) @ rest) = Some a)"

definition call_digits :: "reveal_codec \<Rightarrow> reveal_args \<Rightarrow> string" where
  "call_digits cd a = drop 2 (to_lower (rc_encode cd a))"

text \<open>The record returned for the call \<open>a\<close> at the digit offset \<open>i\<close>.\<close>

definition reveal_record ::
  "reveal_codec \<Rightarrow> string option \<Rightarrow> reveal_args \<Rightarrow> nat \<Rightarrow> recovered_reveal" where
  "reveal_record cd commit a i =
     \<lparr>rr_args = a, rr_solutionBytesLength = solution_bytes_length (ra_solution a),
      rr_calldataOffsetBytes = i div 2, rr_nested = (i \<noteq> 0),
      rr_callData = to_lower (rc_encode cd a), rr_commitDaHash = commit\<rparr>"

lemma call_digits_prefix:
  "codec_law cd a \<Longrightarrow> ''0x'' @ call_digits cd a = to_lower (rc_encode cd a)"
  by (metis append_take_drop_id call_digits_def codec_law_def)

lemma examine_call:
  assumes "codec_law cd a" and "matches_log ex a"
    and "commit = None \<or> commit = Some (to_lower (rc_sha256 cd (ra_solution a)))" and "byte_digits post"
  shows "examine_candidate cd ex commit (pre @ call_digits cd a @ post) (length pre) =
    Matched (reveal_record cd commit a (length pre))"
proof -
  have tail: "''0x'' @ drop (length pre) (pre @ call_digits cd a @ post) =
      to_lower (rc_encode cd a) @ post"
    using call_digits_prefix [OF assms(1)] by simp
  show ?thesis
    unfolding examine_candidate_def tail Let_def
    using assms by (auto simp: codec_law_def starts_with_def reveal_record_def)
qed

lemma occurs_call:
  assumes "codec_law cd a"
  shows "occurs_at (drop 2 (to_lower (rc_selector cd))) (pre @ call_digits cd a @ post) (length pre)"
proof -
  let ?sel = "to_lower (rc_selector cd)" and ?enc = "to_lower (rc_encode cd a)"
  have "take (length ?sel) ?enc = ?sel" using assms by (simp add: codec_law_def starts_with_def)
  then have "take (length ?sel - 2) (drop 2 ?enc) = drop 2 ?sel"
    by (metis drop_take)
  moreover from this have "take (length ?sel - 2) (drop 2 ?enc @ post) = drop 2 ?sel"
    by (metis length_drop length_take min.absorb_iff2 min_def take_all take_append append_Nil2
        diff_is_0_eq take_0 linorder_le_cases)
  ultimately show ?thesis by (simp add: occurs_at_def call_digits_def)
qed

lemma one_verdict:
  "distinct xs \<Longrightarrow> i \<in> set xs \<Longrightarrow> f i = Matched r \<Longrightarrow> \<forall>j \<in> set xs. j \<noteq> i \<longrightarrow> f j = Skipped
    \<Longrightarrow> matched (map f xs) = [r] \<and> decoyed (map f xs) = []"
proof (induction xs)
  case (Cons x xs)
  have none: "matched (map f ys) = [] \<and> decoyed (map f ys) = []"
    if "\<forall>j \<in> set ys. f j = Skipped" for ys
    using that by (induction ys) (auto simp: matched_def decoyed_def)
  show ?case
  proof (cases "x = i")
    case True
    then have "\<forall>j \<in> set xs. f j = Skipped" using Cons.prems by auto
    then show ?thesis using none [of xs] Cons.prems(3) True by (simp add: matched_def decoyed_def)
  next
    case False
    then show ?thesis using Cons by (simp add: matched_def decoyed_def)
  qed
qed simp

lemma mem_byte_offsets:
  "sel \<noteq> [] \<Longrightarrow> even i \<Longrightarrow> occurs_at sel hex i \<Longrightarrow> i \<in> set (byte_offsets sel hex 0)"
  using occurs_at_nth [of sel hex i "length sel - 1"] by (auto simp: byte_offsets_def)

text \<open>
  C29. A reveal call is recovered from any calldata that wraps it: if the transaction data is the
  encoded call at a byte boundary, with any digits before and any whole bytes after it, the call agrees
  with the Revealed log and its solution with the committed hash, and no other occurrence of the
  selector decodes to a call that agrees with the log, then exactly the arguments of the call are
  returned, with their offset.
\<close>

theorem wrapped_reveal_recovered:
  assumes "codec_law cd a" and "varied (drop 2 (to_lower (rc_selector cd)))"
    and "matches_log ex a" and "even (length pre)" and "byte_digits post"
    and "to_lower tx = ''0x'' @ pre @ call_digits cd a @ post"
    and "(ex_commitDaHash ex = None \<and> commit = None) \<or>
      (\<exists>h. ex_commitDaHash ex = Some h \<and> rc_isHexString cd h 32 \<and> commit = Some (to_lower h) \<and>
        to_lower h = to_lower (rc_sha256 cd (ra_solution a)))"
    and "\<And>i. even i \<Longrightarrow> i \<noteq> length pre \<Longrightarrow>
      occurs_at (drop 2 (to_lower (rc_selector cd))) (pre @ call_digits cd a @ post) i \<Longrightarrow>
      examine_candidate cd ex commit (pre @ call_digits cd a @ post) i = Skipped"
  shows "recoverRevealCalldata cd tx ex = Inr (reveal_record cd commit a (length pre))"
proof -
  let ?hex = "pre @ call_digits cd a @ post" and ?sel = "drop 2 (to_lower (rc_selector cd))"
  have commit: "commit = None \<or> commit = Some (to_lower (rc_sha256 cd (ra_solution a)))"
    using assms(7) by auto
  have "length pre \<in> set (byte_offsets ?sel ?hex 0)"
    by (rule mem_byte_offsets [OF _ assms(4) occurs_call [OF assms(1)]])
      (use assms(2) in \<open>auto simp: varied_def\<close>)
  then have one: "matched (map (examine_candidate cd ex commit ?hex) (byte_offsets ?sel ?hex 0)) =
        [reveal_record cd commit a (length pre)] \<and>
      decoyed (map (examine_candidate cd ex commit ?hex) (byte_offsets ?sel ?hex 0)) = []"
    using examine_call [OF assms(1,3) commit assms(5)] assms(8)
    by (intro one_verdict [where i = "length pre"]) (auto simp: byte_offsets_def)
  have search: "recoverRevealCalldata cd tx ex = conclude (sort_verdicts
      (map (examine_candidate cd ex commit ?hex) (byte_offsets ?sel ?hex 0)))"
    using assms(6,7)
    unfolding recoverRevealCalldata_def normalizedBytes32_def Let_def
      scan_offsets_exhaustive [OF assms(2)]
    by auto
  show ?thesis unfolding search conclude_reference using one by simp
qed

section \<open>A concrete codec\<close>

text \<open>
  A codec with one-digit fields that refuses anything but whole bytes, for concrete inputs: selector \<open>a1b2c3d4\<close>, then one digit for the
  submission, the length of the solution in digits and the solution itself.
\<close>

definition toy_encode :: "reveal_args \<Rightarrow> string" where
  "toy_encode a = ''0xa1b2c3d4'' @ [digit_char (nat (ra_submissionId a)),
     digit_char (length (ra_solution a) - 2)] @ drop 2 (ra_solution a)"

definition toy_decode :: "string \<Rightarrow> reveal_args option" where
  "toy_decode t =
     (case drop 10 t of
        i # n # rest \<Rightarrow>
          (case (char_digit i, char_digit n) of
             (Some k, Some l) \<Rightarrow>
               if byte_digits (drop 2 t) \<and> l \<le> length rest then
                 Some \<lparr>ra_submissionId = int k, ra_solutionCid = ''cid'', ra_claimedScoreAtoms = 5,
                       ra_improvementAtoms = 2, ra_salt = ''0x00'', ra_solution = ''0x'' @ take l rest\<rparr>
               else None
           | _ \<Rightarrow> None)
      | _ \<Rightarrow> None)"

definition toy_codec :: reveal_codec where
  "toy_codec = \<lparr>rc_selector = ''0xa1b2c3d4'', rc_decode = toy_decode, rc_encode = toy_encode,
     rc_sha256 = rev, rc_isHexString = (\<lambda>s n. True)\<rparr>"

definition toy_args :: reveal_args where
  "toy_args = \<lparr>ra_submissionId = 7, ra_solutionCid = ''cid'', ra_claimedScoreAtoms = 5,
     ra_improvementAtoms = 2, ra_salt = ''0x00'', ra_solution = ''0xbeef''\<rparr>"

definition toy_expected :: reveal_expected where
  "toy_expected = \<lparr>ex_submissionId = Some 7, ex_solutionCid = Some ''cid'',
     ex_claimedScoreAtoms = Some 5, ex_improvementAtoms = None, ex_solutionBytesLength = Some 2,
     ex_commitDaHash = Some (rev ''0xbeef'')\<rparr>"

definition toy_transaction :: string where
  "toy_transaction = ''0x00a1b2c3d474BEEF99''"

lemma toy_codec_law: "codec_law toy_codec toy_args"
proof -
  have "to_lower (toy_encode toy_args) = ''0xa1b2c3d474beef''" by code_simp
  moreover have "toy_decode (''0xa1b2c3d474beef'' @ rest) = Some toy_args" if "byte_digits rest" for rest
    using that by (simp add: toy_decode_def toy_args_def char_digit_def byte_digits_def)
  ultimately show ?thesis
    unfolding codec_law_def by (simp add: toy_codec_def starts_with_def to_lower_def lower_char_def)
qed

theorem reveal_search_exhaustive_witness:
  "recoverRevealCalldata toy_codec toy_transaction toy_expected =
     exhaustive_recovery toy_codec toy_expected (Some (to_lower (rev ''0xbeef'')))
       (drop 2 (to_lower toy_transaction))"
proof (rule reveal_search_exhaustive)
  show "varied (drop 2 (to_lower (rc_selector toy_codec)))"
    unfolding varied_def by (rule exI [of _ 0]) code_simp
  show "take 2 (to_lower toy_transaction) = ''0x''" by code_simp
qed (simp add: toy_expected_def toy_codec_def)

lemma toy_offsets:
  "byte_offsets (drop 2 (to_lower (rc_selector toy_codec)))
     (''00'' @ call_digits toy_codec toy_args @ ''99'') 0 = [2]"
  by code_simp

theorem wrapped_reveal_recovered_witness:
  "recoverRevealCalldata toy_codec toy_transaction toy_expected =
     Inr (reveal_record toy_codec (Some (to_lower (rev ''0xbeef''))) toy_args (length ''00''))"
proof (rule wrapped_reveal_recovered [OF toy_codec_law, where post = "''99''"])
  show varied: "varied (drop 2 (to_lower (rc_selector toy_codec)))"
    unfolding varied_def by (rule exI [of _ 0]) code_simp
  show "matches_log toy_expected toy_args" by code_simp
  show "byte_digits ''99''" by (simp add: byte_digits_def)
  show "to_lower toy_transaction = ''0x'' @ ''00'' @ call_digits toy_codec toy_args @ ''99''"
    by code_simp
  have nonempty: "drop 2 (to_lower (rc_selector toy_codec)) \<noteq> []"
    by code_simp
  show "examine_candidate toy_codec toy_expected (Some (to_lower (rev ''0xbeef'')))
      (''00'' @ call_digits toy_codec toy_args @ ''99'') i = Skipped"
    if "even i" "i \<noteq> length ''00''"
      "occurs_at (drop 2 (to_lower (rc_selector toy_codec)))
        (''00'' @ call_digits toy_codec toy_args @ ''99'') i" for i
    using mem_byte_offsets [OF nonempty that(1,3)] that(2) unfolding toy_offsets by simp
qed (simp_all add: toy_expected_def toy_codec_def toy_args_def)

end
