(* ===== verification/Agent_Decisions.thy ===== *)
theory Agent_Decisions
  imports P42_Prelude Js_Values
begin

text \<open>
  The pure decisions of agent/lib.mjs that the solver and the operator share: what a solver does
  next with a submission (\<open>solverLifecycleDecision\<close>), whether a receipt is final
  (\<open>classifyReceiptFinality\<close>), which submission a commit created
  (\<open>submissionIdFromCommittedReceipt\<close>), what to do with a signed transaction
  (\<open>reconcileSignedTransaction\<close>) and the call a policy allows (\<open>exactCallRequestFromPolicy\<close>).
\<close>

section \<open>The life cycle of a submission, seen by its solver\<close>

text \<open>
  The snapshot: amounts and times that may be missing (\<open>?? 0\<close>), flags compared with \<open>true\<close>.
\<close>

record solver_snapshot =
  ss_status :: int
  ss_now :: "int option"
  ss_challengeEndsAt :: "int option"
  ss_bondShortfallWei :: "int option"
  ss_decisionPending :: bool
  ss_resolverBondReleaseAt :: "int option"
  ss_disputeEndsAt :: "int option"
  ss_challengeResolved :: bool
  ss_bondClaimableWei :: "int option"
  ss_ledgerClosed :: bool
  ss_closeRequested :: bool
  ss_openSubmissionCount :: "int option"
  ss_payoutClaimableWei :: "int option"

datatype solver_action =
    Reveal | Wait_challenge_window int | Top_up_bond int | Finalize
  | Wait_resolution_finality int | Finalize_resolution | Refresh_chain_state
  | Wait_resolution int | Expire_challenge
  | Claim_bond int | Close_ledger | Wait_close | Claim_payout int | Done

definition or_zero :: "int option \<Rightarrow> int" where
  "or_zero x = (case x of None \<Rightarrow> 0 | Some i \<Rightarrow> i)"

definition solverLifecycleDecision :: "solver_snapshot \<Rightarrow> solver_action" where
  "solverLifecycleDecision s =
     (let status = ss_status s; now = or_zero (ss_now s) in
      if status = 1 then Reveal
      else if status = 2 then
        (let challengeEndsAt = or_zero (ss_challengeEndsAt s) in
         if now < challengeEndsAt then Wait_challenge_window challengeEndsAt
         else let shortfall = or_zero (ss_bondShortfallWei s) in
           if shortfall > 0 then Top_up_bond shortfall else Finalize)
      else if status = 3 then
        (if ss_decisionPending s then
           (let releaseAt = or_zero (ss_resolverBondReleaseAt s) in
            if now < releaseAt then Wait_resolution_finality releaseAt else Finalize_resolution)
         else
           (let disputeEndsAt = or_zero (ss_disputeEndsAt s) in
            if ss_challengeResolved s then Refresh_chain_state
            else if now < disputeEndsAt then Wait_resolution disputeEndsAt
            else Expire_challenge))
      else if status = 4 then
        (let bond = or_zero (ss_bondClaimableWei s) in
         if bond > 0 then Claim_bond bond
         else if \<not> ss_ledgerClosed s then
           (if ss_closeRequested s \<and> or_zero (ss_openSubmissionCount s) = 0 then Close_ledger
            else Wait_close)
         else let payout = or_zero (ss_payoutClaimableWei s) in
           if payout > 0 then Claim_payout payout else Done)
      else if status = 5 \<or> status = 6 then
        (let bond = or_zero (ss_bondClaimableWei s) in
         if bond > 0 then Claim_bond bond else Done)
      else Refresh_chain_state)"

fun wake_at :: "solver_action \<Rightarrow> int option" where
  "wake_at (Wait_challenge_window w) = Some w"
| "wake_at (Wait_resolution_finality w) = Some w"
| "wake_at (Wait_resolution w) = Some w"
| "wake_at _ = None"

section \<open>Receipts\<close>

datatype receipt_finality = Reorged | Confirmed | Submitted

datatype agent_error =
    Receipt_block_invalid | Latest_block_invalid | Receipt_confirmations_invalid
  | Committed_count nat
  | Policy_schema | Policy_call_invalid | Policy_value_negative | Policy_value_differs
  | Policy_value_unreadable
  | Signed_schema | Provider_failed | Broadcast_failed

text \<open>The numbers are what \<open>Number(...)\<close> yields, \<open>None\<close> when that is not an integer.\<close>

definition classifyReceiptFinality ::
  "(string \<Rightarrow> nat \<Rightarrow> bool) \<Rightarrow> int option \<Rightarrow> string \<Rightarrow> string \<Rightarrow> int option \<Rightarrow> int option
    \<Rightarrow> agent_error + receipt_finality" where
  "classifyReceiptFinality hx receiptBlock receiptHash canonicalHash latest confirmations =
     (case receiptBlock of None \<Rightarrow> Inl Receipt_block_invalid | Some b \<Rightarrow>
      require (\<not> b < 0) Receipt_block_invalid
      (case latest of None \<Rightarrow> Inl Latest_block_invalid | Some l \<Rightarrow>
       require (\<not> l < b) Latest_block_invalid
       (case confirmations of None \<Rightarrow> Inl Receipt_confirmations_invalid | Some c \<Rightarrow>
        require (\<not> c < 0) Receipt_confirmations_invalid
        (Inr (if \<not> hx receiptHash 32 \<or> \<not> hx canonicalHash 32
                 \<or> to_lower receiptHash \<noteq> to_lower canonicalHash then Reorged
              else if l - b + 1 \<ge> c then Confirmed else Submitted)))))"

text \<open>
  A log of the receipt: its address and what the interface parses it to (\<open>None\<close> when it throws or
  knows no such event). An absent expectation is \<open>None\<close>; an empty string counts as absent.
\<close>

record receipt_log =
  rl_address :: string
  rl_parsed :: "(string \<times> string \<times> int) option"

definition expects :: "string option \<Rightarrow> string \<Rightarrow> bool" where
  "expects e s = (case e of None \<Rightarrow> True | Some x \<Rightarrow> x = [] \<or> to_lower s = to_lower x)"

fun committed_ids :: "string option \<Rightarrow> string option \<Rightarrow> receipt_log list \<Rightarrow> int list" where
  "committed_ids solver addr [] = []"
| "committed_ids solver addr (l # ls) =
     (if \<not> expects addr (rl_address l) then committed_ids solver addr ls
      else case rl_parsed l of
        None \<Rightarrow> committed_ids solver addr ls
      | Some (name, logged_solver, submissionId) \<Rightarrow>
          if name \<noteq> ''Committed'' \<or> \<not> expects solver logged_solver then committed_ids solver addr ls
          else submissionId # committed_ids solver addr ls)"

definition submissionIdFromCommittedReceipt ::
  "receipt_log list option \<Rightarrow> string option \<Rightarrow> string option \<Rightarrow> agent_error + int" where
  "submissionIdFromCommittedReceipt logs solver addr =
     (let ids = committed_ids solver addr (case logs of None \<Rightarrow> [] | Some ls \<Rightarrow> ls)
      in require (length ids = 1) (Committed_count (length ids)) (Inr (hd ids)))"

section \<open>Signed transactions\<close>

record 'r signed_provider =
  sp_receipt :: "string \<Rightarrow> agent_error + 'r option"
  sp_transaction :: "nat \<Rightarrow> string \<Rightarrow> agent_error + 'r option"
  sp_broadcast :: "string \<Rightarrow> 'r option"

datatype 'r reconciled = Receipt 'r | Pending 'r | Broadcast 'r

record signed_record =
  sr_schema_version :: string
  sr_hash :: string
  sr_raw_tx :: string

text \<open>
  \<open>sp_transaction 0\<close> answers the look-up before the broadcast and \<open>sp_transaction 1\<close> the one
  after a failed broadcast; \<open>sp_broadcast\<close> is \<open>None\<close> when it throws. The second component lists
  the raw transactions sent.
\<close>

definition reconcileSignedTransaction ::
  "'r signed_provider \<Rightarrow> signed_record \<Rightarrow> (agent_error + 'r reconciled) \<times> string list" where
  "reconcileSignedTransaction p rec =
     (if sr_schema_version rec \<noteq> ''p42-signed-transaction/v1'' then (Inl Signed_schema, [])
      else case sp_receipt p (sr_hash rec) of
        Inl e \<Rightarrow> (Inl e, [])
      | Inr (Some r) \<Rightarrow> (Inr (Receipt r), [])
      | Inr None \<Rightarrow>
         (case sp_transaction p 0 (sr_hash rec) of
            Inl e \<Rightarrow> (Inl e, [])
          | Inr (Some t) \<Rightarrow> (Inr (Pending t), [])
          | Inr None \<Rightarrow>
             (case sp_broadcast p (sr_raw_tx rec) of
                Some t \<Rightarrow> (Inr (Broadcast t), [sr_raw_tx rec])
              | None \<Rightarrow>
                 (case sp_transaction p 1 (sr_hash rec) of
                    Inl e \<Rightarrow> (Inl e, [sr_raw_tx rec])
                  | Inr (Some t) \<Rightarrow> (Inr (Pending t), [sr_raw_tx rec])
                  | Inr None \<Rightarrow> (Inl Broadcast_failed, [sr_raw_tx rec])))))"

section \<open>The call of a policy\<close>

record call_policy =
  cp_schema_version :: string
  cp_target :: string
  cp_calldata :: string
  cp_call_value_wei :: string

record call_request =
  cr_to :: string
  cr_data :: string
  cr_value :: int

text \<open>
  \<open>isAddress\<close>, \<open>isHex\<close> and \<open>getAddress\<close> are library code; \<open>value\<close> is the argument
  \<open>valueWei\<close>, the policy's own value when it is not given.
\<close>

definition exactCallRequestFromPolicy ::
  "(string \<Rightarrow> string option) \<Rightarrow> (string \<Rightarrow> bool) \<Rightarrow> call_policy \<Rightarrow> jsval option \<Rightarrow> agent_error + call_request" where
  "exactCallRequestFromPolicy getAddress isHex p valueWei =
     require (cp_schema_version p = ''p42-session-call-policy/v1'') Policy_schema
     (case getAddress (cp_target p) of
        None \<Rightarrow> Inl Policy_call_invalid
      | Some to_address \<Rightarrow>
          require (isHex (cp_calldata p)) Policy_call_invalid
          (and_then (of_option Policy_value_unreadable
             (js_bigint (case valueWei of None \<Rightarrow> JStr (cp_call_value_wei p) | Some v \<Rightarrow> v))) (\<lambda>value.
           require (\<not> value < 0) Policy_value_negative
           (require (show_int value = cp_call_value_wei p) Policy_value_differs
             (Inr \<lparr>cr_to = to_address, cr_data = cp_calldata p, cr_value = value\<rparr>)))))"

section \<open>Properties\<close>

text \<open>
  C31. The solver never sleeps past its time and never acts for nothing: a decision to wait that names a
  time (all but the wait for the ledger to close, which names none) names one in the future, and once
  that time has come the same submission gets a decision that is not a wait; every bond or payout
  decision carries a positive amount, never more than the chain reports claimable or missing; and \<open>done\<close>
  is decided only for a finished submission with nothing left to claim.
\<close>

theorem solver_lifecycle_live:
  "(case wake_at (solverLifecycleDecision s) of
      None \<Rightarrow> True
    | Some w \<Rightarrow> or_zero (ss_now s) < w \<and>
        (\<forall>t \<in> {w..}. wake_at (solverLifecycleDecision (s\<lparr>ss_now := Some t\<rparr>)) = None \<and>
           solverLifecycleDecision (s\<lparr>ss_now := Some t\<rparr>) \<noteq> Wait_close)) \<and>
   (case solverLifecycleDecision s of
      Top_up_bond v \<Rightarrow> 0 < v \<and> ss_bondShortfallWei s = Some v
    | Claim_bond v \<Rightarrow> 0 < v \<and> ss_bondClaimableWei s = Some v
    | Claim_payout v \<Rightarrow> 0 < v \<and> ss_payoutClaimableWei s = Some v \<and> ss_ledgerClosed s
    | Done \<Rightarrow> ss_status s \<in> {4, 5, 6} \<and> or_zero (ss_bondClaimableWei s) \<le> 0 \<and>
        (ss_status s = 4 \<longrightarrow> ss_ledgerClosed s \<and> or_zero (ss_payoutClaimableWei s) \<le> 0)
    | Finalize \<Rightarrow> or_zero (ss_challengeEndsAt s) \<le> or_zero (ss_now s)
    | _ \<Rightarrow> True)"
  by (auto simp: solverLifecycleDecision_def Let_def or_zero_def split: option.splits)

definition sample_snapshot :: solver_snapshot where
  "sample_snapshot =
     \<lparr>ss_status = 2, ss_now = Some 5, ss_challengeEndsAt = Some 10, ss_bondShortfallWei = Some 3,
      ss_decisionPending = False, ss_resolverBondReleaseAt = None, ss_disputeEndsAt = None,
      ss_challengeResolved = False, ss_bondClaimableWei = None, ss_ledgerClosed = False,
      ss_closeRequested = False, ss_openSubmissionCount = None, ss_payoutClaimableWei = None\<rparr>"

theorem solver_lifecycle_live_witness:
  "solverLifecycleDecision sample_snapshot = Wait_challenge_window 10 \<and>
   wake_at (solverLifecycleDecision (sample_snapshot\<lparr>ss_now := Some 12\<rparr>)) = None"
proof -
  have wait: "solverLifecycleDecision sample_snapshot = Wait_challenge_window 10"
    by code_simp
  show ?thesis
    using solver_lifecycle_live [of sample_snapshot] wait by (simp add: wait)
qed

lemma receipt_finality_confirmed:
  "classifyReceiptFinality hx (Some b) h h' (Some l) (Some c) = Inr Confirmed \<Longrightarrow> l \<le> l'
    \<Longrightarrow> classifyReceiptFinality hx (Some b) h h' (Some l') (Some c) = Inr Confirmed"
  by (auto simp: classifyReceiptFinality_def split: if_splits)

lemma reconcile_sends_own_bytes:
  "snd (reconcileSignedTransaction p rec) \<in> {[], [sr_raw_tx rec]}"
  by (auto simp: reconcileSignedTransaction_def split: sum.splits option.splits)

lemma reconcile_sends_unseen:
  "snd (reconcileSignedTransaction p rec) \<noteq> [] \<Longrightarrow>
     sp_receipt p (sr_hash rec) = Inr None \<and> sp_transaction p 0 (sr_hash rec) = Inr None"
  by (auto simp: reconcileSignedTransaction_def split: sum.splits option.splits if_splits)

lemma exact_call_value:
  "exactCallRequestFromPolicy ga hx p v = Inr q
    \<Longrightarrow> show_int (cr_value q) = cp_call_value_wei p \<and> 0 \<le> cr_value q \<and> cr_data q = cp_calldata p"
  by (auto simp: exactCallRequestFromPolicy_def split: option.splits)

end
