(* ===== verification/Runtime_Supervisor.thy ===== *)
theory Runtime_Supervisor
  imports Js_Values
begin

text \<open>
  The supervisor that runs an agent again and again and keeps a hash-chained journal of the outcomes
  (agent/runtime-supervisor.mjs): its command line (\<open>parseSupervisorArgs\<close>), the journal
  (\<open>parseAndVerifyJournal\<close>, \<open>createJournal\<close>) and the loop (\<open>backoffFor\<close>, \<open>supervise\<close>). One cycle is
  modelled in Runtime_Cycle.

  \<open>JSON.parse\<close>, \<open>JSON.stringify\<close> and SHA-256 are the runtime's: the record \<open>sup_codec\<close> holds
  what the code does with them, parsing a line, printing a record canonically and digesting a text.
  Writing the file (to a temporary name, synced and renamed) either replaces it or throws.
\<close>

section \<open>The command line\<close>

datatype sup_error =
    No_separator | Missing_value | Invalid_option string | Duplicate_option string
  | Options_incomplete | Runtime_not_absolute | Journal_not_absolute | Once_owned
  | Not_nonnegative string | Not_safe string | Not_positive string | Maximum_backoff_too_small
  | Journal_unterminated | Record_not_json nat | Record_not_canonical nat | Record_identity nat
  | Record_chain nat | Record_outcome nat | Record_counter nat
  | Journal_write_failed

definition canonical_nonnegative :: "string \<Rightarrow> bool" where
  "canonical_nonnegative s \<longleftrightarrow>
     s = ''0'' \<or> (s \<noteq> [] \<and> list_all (\<lambda>c. c \<in> set ''0123456789'') s \<and> hd s \<noteq> CHR ''0'')"

definition nonnegativeInteger :: "string option \<Rightarrow> string \<Rightarrow> sup_error + nat" where
  "nonnegativeInteger value label =
     (let v = (case value of None \<Rightarrow> [] | Some s \<Rightarrow> s) in
      require (canonical_nonnegative v) (Not_nonnegative label)
        (and_then (of_option (Not_nonnegative label) (read_nat 10 v)) (\<lambda>parsed.
         require (safe_integer (int parsed)) (Not_safe label) (Inr parsed))))"

definition positiveInteger :: "string option \<Rightarrow> string \<Rightarrow> sup_error + nat" where
  "positiveInteger value label =
     and_then (nonnegativeInteger value label) (\<lambda>parsed.
       require (parsed \<noteq> 0) (Not_positive label) (Inr parsed))"

fun read_options :: "string list \<Rightarrow> (string \<times> string) list \<Rightarrow> sup_error + (string \<times> string) list" where
  "read_options (key # value # rest) values =
     require (take 2 key = ''--'') (Invalid_option key)
       (let name = drop 2 key in
        require (map_of values name = None) (Duplicate_option name)
          (read_options rest (values @ [(name, value)])))"
| "read_options rest values = Inr values"

definition supervisor_options :: "string list" where
  "supervisor_options =
     [''backoff-ms'', ''cycle-timeout-ms'', ''journal'', ''kill-grace-ms'', ''max-backoff-ms'',
      ''max-failures'', ''runtime'']"

record sup_args =
  sa_runtime :: string
  sa_journal :: string
  sa_runtimeArgs :: "string list"
  sa_cycleTimeoutMs :: nat
  sa_killGraceMs :: nat
  sa_maxFailures :: nat
  sa_backoffMs :: nat
  sa_maxBackoffMs :: nat

text \<open>The index of the first \<open>--\<close>; \<open>path.isAbsolute\<close> on a POSIX system.\<close>

fun split_at :: "string \<Rightarrow> string list \<Rightarrow> (string list \<times> string list) option" where
  "split_at x [] = None"
| "split_at x (y # ys) =
     (if y = x then Some ([], ys)
      else map_option (\<lambda>(l, r). (y # l, r)) (split_at x ys))"

definition is_absolute :: "string option \<Rightarrow> bool" where
  "is_absolute p = (case p of Some (c # cs) \<Rightarrow> c = CHR ''/'' | _ \<Rightarrow> False)"

definition parseSupervisorArgs :: "string list \<Rightarrow> sup_error + sup_args" where
  "parseSupervisorArgs argv =
     (case split_at ''--'' argv of
        None \<Rightarrow> Inl No_separator
      | Some (options, runtimeArgs) \<Rightarrow>
         require (length options mod 2 = 0) Missing_value
         (and_then (read_options options []) (\<lambda>values.
          require (set (map fst values) = set supervisor_options) Options_incomplete
          (require (is_absolute (map_of values ''runtime'')) Runtime_not_absolute
          (require (is_absolute (map_of values ''journal'')) Journal_not_absolute
          (require (''--once'' \<notin> set runtimeArgs) Once_owned
          (and_then (nonnegativeInteger (map_of values ''backoff-ms'') ''backoff'') (\<lambda>backoffMs.
           and_then (nonnegativeInteger (map_of values ''max-backoff-ms'') ''maximum backoff'') (\<lambda>maxBackoffMs.
           require (\<not> maxBackoffMs < backoffMs) Maximum_backoff_too_small
           (and_then (positiveInteger (map_of values ''cycle-timeout-ms'') ''cycle timeout'') (\<lambda>cycleTimeoutMs.
            and_then (positiveInteger (map_of values ''kill-grace-ms'') ''kill grace'') (\<lambda>killGraceMs.
            and_then (positiveInteger (map_of values ''max-failures'') ''maximum failures'') (\<lambda>maxFailures.
            Inr \<lparr>sa_runtime = the (map_of values ''runtime''), sa_journal = the (map_of values ''journal''),
                 sa_runtimeArgs = runtimeArgs, sa_cycleTimeoutMs = cycleTimeoutMs,
                 sa_killGraceMs = killGraceMs, sa_maxFailures = maxFailures,
                 sa_backoffMs = backoffMs, sa_maxBackoffMs = maxBackoffMs\<rparr>)))))))))))))"

section \<open>Records\<close>

datatype classification =
    Success | Spawn_error | Timeout | Output_limit | Signal_failure | Terminal_refusal
  | Retryable_failure | Runtime_failure | Supervisor_terminated

fun classification_text :: "classification \<Rightarrow> string" where
  "classification_text Success = ''success''"
| "classification_text Spawn_error = ''spawn-error''"
| "classification_text Timeout = ''timeout''"
| "classification_text Output_limit = ''output-limit''"
| "classification_text Signal_failure = ''signal-failure''"
| "classification_text Terminal_refusal = ''terminal-refusal''"
| "classification_text Retryable_failure = ''retryable-failure''"
| "classification_text Runtime_failure = ''runtime-failure''"
| "classification_text Supervisor_terminated = ''supervisor-terminated''"

definition CLASSIFICATIONS :: "string list" where
  "CLASSIFICATIONS =
     map classification_text
       [Success, Spawn_error, Timeout, Output_limit, Signal_failure, Terminal_refusal,
        Retryable_failure, Runtime_failure, Supervisor_terminated]"

text \<open>
  A parsed record: the fields that are checked, \<open>None\<close> when they are absent or of another type, and
  the rest of it (\<open>'r\<close>: the time stamp and the other fields of the outcome).
\<close>

record 'r sup_record =
  sup_schema :: "string option"
  sup_sequence :: "nat option"
  sup_cycle :: "nat option"
  sup_previous_hash :: "string option"
  sup_record_hash :: "string option"
  sup_consecutive_failures :: "nat option"
  sup_classification :: "string option"
  sup_rest :: 'r

record 'r sup_codec =
  sc_parse :: "string \<Rightarrow> 'r sup_record option"
  sc_canonicalJson :: "'r sup_record \<Rightarrow> string"
  sc_sha256 :: "string \<Rightarrow> string"

definition JOURNAL_SCHEMA :: string where
  "JOURNAL_SCHEMA = ''p42-runtime-supervisor-journal/v1''"

definition GENESIS_HASH :: string where
  "GENESIS_HASH = ''sha256:'' @ replicate 64 (CHR ''0'')"

text \<open>The digest of a record is taken of it without the field \<open>record_hash\<close>.\<close>

definition recordHash :: "'r sup_codec \<Rightarrow> 'r sup_record \<Rightarrow> string" where
  "recordHash cd r = sc_sha256 cd (sc_canonicalJson cd (r\<lparr>sup_record_hash := None\<rparr>))"

section \<open>The journal\<close>

text \<open>\<open>text.split("\n")\<close>.\<close>

definition newline :: char where "newline = CHR 0x0A"

fun split_lines :: "string \<Rightarrow> string list" where
  "split_lines [] = [[]]"
| "split_lines (c # cs) =
     (if c = newline then [] # split_lines cs
      else case split_lines cs of [] \<Rightarrow> [[c]] | l # ls \<Rightarrow> (c # l) # ls)"

definition last_hash :: "'r sup_record list \<Rightarrow> string option" where
  "last_hash rs = (if rs = [] then Some GENESIS_HASH else sup_record_hash (last rs))"

text \<open>\<open>records.at(-1)?.consecutive_failures ?? 0\<close>.\<close>

definition last_failures :: "'r sup_record list \<Rightarrow> nat" where
  "last_failures rs =
     (if rs = [] then 0
      else case sup_consecutive_failures (last rs) of None \<Rightarrow> 0 | Some n \<Rightarrow> n)"

definition expected_failures :: "string \<Rightarrow> nat \<Rightarrow> nat" where
  "expected_failures c previous =
     (if c = ''success'' then 0
      else previous + (if c = ''supervisor-terminated'' then 0 else 1))"

definition check_record ::
  "'r sup_codec \<Rightarrow> 'r sup_record list \<Rightarrow> string \<Rightarrow> sup_error + 'r sup_record" where
  "check_record cd records line =
     (let n = length records + 1 in
      case sc_parse cd line of
        None \<Rightarrow> Inl (Record_not_json n)
      | Some r \<Rightarrow>
         require (sc_canonicalJson cd r = line) (Record_not_canonical n)
         (require (sup_schema r = Some JOURNAL_SCHEMA \<and> sup_sequence r = Some n) (Record_identity n)
         (require (sup_previous_hash r = last_hash records \<and> sup_record_hash r = Some (recordHash cd r))
            (Record_chain n)
         (require (sup_cycle r = Some n \<and> (\<exists>c \<in> set CLASSIFICATIONS. sup_classification r = Some c))
            (Record_outcome n)
         (require (sup_consecutive_failures r =
               Some (expected_failures (the (sup_classification r)) (last_failures records)))
            (Record_counter n)
            (Inr r))))))"

fun verify_lines ::
  "'r sup_codec \<Rightarrow> 'r sup_record list \<Rightarrow> string list \<Rightarrow> sup_error + 'r sup_record list" where
  "verify_lines cd records [] = Inr records"
| "verify_lines cd records (line # lines) =
     and_then (check_record cd records line) (\<lambda>r. verify_lines cd (records @ [r]) lines)"

definition parseAndVerifyJournal :: "'r sup_codec \<Rightarrow> string \<Rightarrow> sup_error + 'r sup_record list" where
  "parseAndVerifyJournal cd text =
     (if text = [] then Inr []
      else require (last text = newline) Journal_unterminated
             (verify_lines cd [] (split_lines (butlast text))))"

text \<open>
  The journal object: the text of its file and the records. \<open>append\<close> gives the fields of the loop
  the schema, number and hashes, verifies the whole new text and replaces the file.
\<close>

record 'r sup_journal =
  sj_text :: string
  sj_records :: "'r sup_record list"

definition createJournal :: "'r sup_codec \<Rightarrow> string option \<Rightarrow> sup_error + 'r sup_journal" where
  "createJournal cd file =
     (let text = (case file of None \<Rightarrow> [] | Some t \<Rightarrow> t) in
      and_then (parseAndVerifyJournal cd text) (\<lambda>records.
        Inr \<lparr>sj_text = text, sj_records = records\<rparr>))"

definition chained_record ::
  "'r sup_codec \<Rightarrow> 'r sup_record list \<Rightarrow> nat \<Rightarrow> nat \<Rightarrow> string \<Rightarrow> 'r \<Rightarrow> 'r sup_record" where
  "chained_record cd records cycle failures c rest =
     (let unsigned = \<lparr>sup_schema = Some JOURNAL_SCHEMA, sup_sequence = Some (length records + 1),
            sup_cycle = Some cycle, sup_previous_hash = last_hash records, sup_record_hash = None,
            sup_consecutive_failures = Some failures, sup_classification = Some c, sup_rest = rest\<rparr>
      in unsigned\<lparr>sup_record_hash := Some (sc_sha256 cd (sc_canonicalJson cd unsigned))\<rparr>)"

text \<open>
  How writing the file ends: \<open>renameSync\<close> replaces it as a whole, and the code may throw before, which
  leaves the old file, or after, in \<open>chmodSync\<close> or when the directory is synced, which leaves the new one.
  The result of \<open>append\<close> is the journal that the file then holds, and the journal in memory or the error:
  after a throw the two may differ.
\<close>

datatype write_outcome = Written | Not_replaced | Replaced_then_threw

definition append_record ::
  "'r sup_codec \<Rightarrow> write_outcome \<Rightarrow> 'r sup_journal \<Rightarrow> nat \<Rightarrow> nat \<Rightarrow> string \<Rightarrow> 'r
    \<Rightarrow> 'r sup_journal \<times> (sup_error + 'r sup_journal)" where
  "append_record cd w j cycle failures c rest =
     (let record = chained_record cd (sj_records j) cycle failures c rest;
          nextText = sj_text j @ sc_canonicalJson cd record @ [newline]
      in case parseAndVerifyJournal cd nextText of
           Inl e \<Rightarrow> (j, Inl e)
         | Inr nextRecords \<Rightarrow>
             (let j' = \<lparr>sj_text = nextText, sj_records = nextRecords\<rparr>
              in case w of
                   Written \<Rightarrow> (j', Inr j')
                 | Not_replaced \<Rightarrow> (j, Inl Journal_write_failed)
                 | Replaced_then_threw \<Rightarrow> (j', Inl Journal_write_failed)))"

section \<open>The loop\<close>

text \<open>
  The doubling stays exact in floating point: a safe integer times a power of two.
\<close>

definition backoffFor :: "nat \<Rightarrow> nat \<Rightarrow> nat \<Rightarrow> nat" where
  "backoffFor failureCount initial maximum =
     (if initial = 0 then 0 else min maximum (initial * 2 ^ min (failureCount - 1) 30))"

text \<open>
  What happens in one turn of the loop: whether the signal is aborted at its beginning and when the
  cycle has been recorded, what the cycle ends with (and its exit code), and how writing the file
  ends.
\<close>

record 'r sup_turn =
  tu_aborted :: bool
  tu_classification :: classification
  tu_code :: "int option"
  tu_rest :: 'r
  tu_write :: write_outcome
  tu_aborted_after :: bool

datatype sup_status = Running | Exited int | Threw sup_error

definition TERMINATION_EXIT :: int where
  "TERMINATION_EXIT = 143"

text \<open>
  The loop over the turns that happen: it returns the journal that the file holds at the end, the
  status and the times slept. A throw of \<open>append\<close> ends it.
  \<open>Running\<close> means that it would start another turn.
\<close>

fun sup_loop ::
  "'r sup_codec \<Rightarrow> nat \<Rightarrow> nat \<Rightarrow> nat \<Rightarrow> 'r sup_turn list \<Rightarrow> nat \<Rightarrow> nat \<Rightarrow> 'r sup_journal
    \<Rightarrow> 'r sup_journal \<times> sup_status \<times> nat list" where
  "sup_loop cd maxFailures backoffMs maxBackoffMs [] consecutive cycle j = (j, Running, [])"
| "sup_loop cd maxFailures backoffMs maxBackoffMs (t # ts) consecutive cycle j =
     (if tu_aborted t then (j, Exited TERMINATION_EXIT, [])
      else
        (let failed = tu_classification t \<noteq> Success \<and> tu_classification t \<noteq> Supervisor_terminated;
             consecutive' = (if tu_classification t = Success then 0
                             else consecutive + (if failed then 1 else 0))
         in case append_record cd (tu_write t) j (cycle + 1) consecutive'
                   (classification_text (tu_classification t)) (tu_rest t) of
              (filed, Inl e) \<Rightarrow> (filed, Threw e, [])
            | (filed, Inr j') \<Rightarrow>
                if tu_classification t = Supervisor_terminated \<or> tu_aborted_after t
                then (j', Exited TERMINATION_EXIT, [])
                else if tu_classification t = Terminal_refusal
                then (j', Exited (case tu_code t of None \<Rightarrow> 64 | Some c \<Rightarrow> c), [])
                else if consecutive' \<ge> maxFailures then (j', Exited 70, [])
                else
                  (let (j'', status, slept) =
                         sup_loop cd maxFailures backoffMs maxBackoffMs ts consecutive' (cycle + 1) j'
                   in (j'', status,
                       (if failed then [backoffFor consecutive' backoffMs maxBackoffMs] else []) @ slept))))"

definition supervise ::
  "'r sup_codec \<Rightarrow> nat \<Rightarrow> nat \<Rightarrow> nat \<Rightarrow> 'r sup_turn list \<Rightarrow> 'r sup_journal
    \<Rightarrow> 'r sup_journal \<times> sup_status \<times> nat list" where
  "supervise cd maxFailures backoffMs maxBackoffMs turns j =
     (let consecutive = last_failures (sj_records j); cycle = length (sj_records j)
      in if consecutive \<ge> maxFailures then (j, Exited 70, [])
         else sup_loop cd maxFailures backoffMs maxBackoffMs turns consecutive cycle j)"

end
