(* ===== verification/Runtime_Cycle.thy ===== *)
theory Runtime_Cycle
  imports Runtime_Supervisor
begin

text \<open>
  One supervised cycle (\<open>runRuntimeCycle\<close>, \<open>outputCollector\<close> of agent/runtime-supervisor.mjs): the
  child process, its output, the timers and the abort signal are a sequence of events, and the cycle
  is settled by the first \<open>error\<close> or \<open>close\<close> of the child. The duration of the cycle is left out.
\<close>

datatype cycle_event =
    Timeout_fires | Kill_timer_fires | Abort
  | Stdout_data string | Stderr_data string
  | Child_exits
  | Child_error "string option"
  | Child_close "int option" "string option"

datatype child_signal = SIGTERM | SIGKILL

text \<open>\<open>killTimer\<close> is set once; a timer that fired or was cleared is not set again.\<close>

datatype kill_timer = Timer_unset | Timer_set | Timer_done

text \<open>\<open>outputCollector\<close>: all data counts and is digested, what exceeds the limit is not passed on.\<close>

record collector =
  co_data :: string
  co_forwarded :: string
  co_exceeded :: bool

record cycle_result =
  cr_classification :: classification
  cr_code :: "int option"
  cr_signal :: "string option"
  cr_error_code :: "string option"
  cr_stdout_bytes :: nat
  cr_stderr_bytes :: nat
  cr_stdout_sha256 :: string
  cr_stderr_sha256 :: string

record cycle_state =
  cs_reason :: "classification option"
  cs_child_exited :: bool
  cs_kill_timer :: kill_timer
  cs_signals :: "child_signal list"
  cs_out :: collector
  cs_err :: collector
  cs_result :: "cycle_result option"

definition MAX_OUTPUT_BYTES :: nat where
  "MAX_OUTPUT_BYTES = 1024 * 1024"

definition no_output :: collector where
  "no_output = \<lparr>co_data = [], co_forwarded = [], co_exceeded = False\<rparr>"

definition cycle_start :: cycle_state where
  "cycle_start =
     \<lparr>cs_reason = None, cs_child_exited = False, cs_kill_timer = Timer_unset, cs_signals = [],
      cs_out = no_output, cs_err = no_output, cs_result = None\<rparr>"

definition requestTermination :: "classification \<Rightarrow> cycle_state \<Rightarrow> cycle_state" where
  "requestTermination nextReason s =
     (let s1 = (if cs_reason s = None \<or> nextReason = Supervisor_terminated
                then s\<lparr>cs_reason := Some nextReason\<rparr> else s)
      in if cs_child_exited s1 then s1
         else s1\<lparr>cs_signals := cs_signals s1 @ [SIGTERM],
                cs_kill_timer := (if cs_kill_timer s1 = Timer_unset then Timer_set
                                  else cs_kill_timer s1)\<rparr>)"

definition collect_chunk :: "string \<Rightarrow> collector \<Rightarrow> collector \<times> bool" where
  "collect_chunk chunk c =
     (let bytes = length (co_data c) + length chunk;
          c1 = c\<lparr>co_data := co_data c @ chunk\<rparr>;
          c2 = (if bytes \<le> MAX_OUTPUT_BYTES then c1\<lparr>co_forwarded := co_forwarded c1 @ chunk\<rparr> else c1)
      in if bytes > MAX_OUTPUT_BYTES \<and> \<not> co_exceeded c2
         then (c2\<lparr>co_exceeded := True\<rparr>, True) else (c2, False))"

definition classify_cycle ::
  "cycle_state \<Rightarrow> int option \<Rightarrow> string option \<Rightarrow> bool \<Rightarrow> classification" where
  "classify_cycle s code childSignal error =
     (if cs_reason s = Some Supervisor_terminated then Supervisor_terminated
      else if cs_reason s = Some Timeout then Timeout
      else if cs_reason s = Some Output_limit \<or> co_exceeded (cs_out s) \<or> co_exceeded (cs_err s)
      then Output_limit
      else if error then Spawn_error
      else if childSignal \<noteq> None \<and> childSignal \<noteq> Some [] then Signal_failure
      else if code = Some 0 then Success
      else if code = Some 64 \<or> code = Some 78 then Terminal_refusal
      else if code = Some 75 then Retryable_failure
      else Runtime_failure)"

definition finish ::
  "(string \<Rightarrow> string) \<Rightarrow> int option \<Rightarrow> string option \<Rightarrow> bool \<Rightarrow> string option \<Rightarrow> cycle_state \<Rightarrow> cycle_state" where
  "finish sha code childSignal error errorCode s =
     (if cs_result s \<noteq> None then s
      else s\<lparr>cs_kill_timer := (if cs_kill_timer s = Timer_set then Timer_done else cs_kill_timer s),
             cs_result := Some
               \<lparr>cr_classification = classify_cycle s code childSignal error, cr_code = code,
                cr_signal = childSignal, cr_error_code = errorCode,
                cr_stdout_bytes = length (co_data (cs_out s)),
                cr_stderr_bytes = length (co_data (cs_err s)),
                cr_stdout_sha256 = sha (co_data (cs_out s)),
                cr_stderr_sha256 = sha (co_data (cs_err s))\<rparr>\<rparr>)"

text \<open>
  The timers and the abort listener are cleared when the cycle is settled, so that they do nothing
  afterwards.
\<close>

fun cycle_step :: "(string \<Rightarrow> string) \<Rightarrow> cycle_event \<Rightarrow> cycle_state \<Rightarrow> cycle_state" where
  "cycle_step sha Timeout_fires s =
     (if cs_result s \<noteq> None then s else requestTermination Timeout s)"
| "cycle_step sha Kill_timer_fires s =
     (if cs_kill_timer s = Timer_set
      then s\<lparr>cs_signals := cs_signals s @ [SIGKILL], cs_kill_timer := Timer_done\<rparr> else s)"
| "cycle_step sha Abort s =
     (if cs_result s \<noteq> None then s else requestTermination Supervisor_terminated s)"
| "cycle_step sha (Stdout_data chunk) s =
     (let (c, terminate) = collect_chunk chunk (cs_out s); s' = s\<lparr>cs_out := c\<rparr>
      in if terminate then requestTermination Output_limit s' else s')"
| "cycle_step sha (Stderr_data chunk) s =
     (let (c, terminate) = collect_chunk chunk (cs_err s); s' = s\<lparr>cs_err := c\<rparr>
      in if terminate then requestTermination Output_limit s' else s')"
| "cycle_step sha Child_exits s = s\<lparr>cs_child_exited := True\<rparr>"
| "cycle_step sha (Child_error errorCode) s = finish sha None None True errorCode s"
| "cycle_step sha (Child_close code childSignal) s = finish sha code childSignal False None s"

text \<open>
  \<open>spawned\<close> is \<open>Inl\<close> the code of the exception when \<open>spawn\<close> throws; the cycle has no result while
  the child has neither failed nor closed.
\<close>

definition spawn_failure :: "(string \<Rightarrow> string) \<Rightarrow> string option \<Rightarrow> cycle_result" where
  "spawn_failure sha code =
     \<lparr>cr_classification = Spawn_error, cr_code = None, cr_signal = None,
      cr_error_code = Some (case code of None \<Rightarrow> ''spawn-threw'' | Some c \<Rightarrow> c),
      cr_stdout_bytes = 0, cr_stderr_bytes = 0, cr_stdout_sha256 = sha [], cr_stderr_sha256 = sha []\<rparr>"

definition runRuntimeCycle ::
  "(string \<Rightarrow> string) \<Rightarrow> string option + unit \<Rightarrow> cycle_event list \<Rightarrow> cycle_state" where
  "runRuntimeCycle sha spawned events =
     (case spawned of
        Inl code \<Rightarrow> cycle_start\<lparr>cs_result := Some (spawn_failure sha code)\<rparr>
      | Inr _ \<Rightarrow> fold (cycle_step sha) events cycle_start)"

section \<open>A settled cycle\<close>

lemma requestTermination_frame [simp]:
  "cs_result (requestTermination r s) = cs_result s"
  "cs_out (requestTermination r s) = cs_out s" "cs_err (requestTermination r s) = cs_err s"
  by (simp_all add: requestTermination_def Let_def)

lemma cycle_step_settled:
  "cs_result s = Some r \<Longrightarrow> cs_result (cycle_step sha e s) = Some r"
  by (cases e) (auto simp: finish_def Let_def split: prod.splits)

lemma cycle_run_settled:
  "cs_result s = Some r \<Longrightarrow> cs_result (fold (cycle_step sha) es s) = Some r"
  by (induction es arbitrary: s) (simp_all add: cycle_step_settled)

text \<open>What can have happened in a cycle that is still clean: nothing but output within the limit.\<close>

fun quiet_event :: "cycle_event \<Rightarrow> bool" where
  "quiet_event (Stdout_data d) = True"
| "quiet_event (Stderr_data d) = True"
| "quiet_event Kill_timer_fires = True"
| "quiet_event Child_exits = True"
| "quiet_event _ = False"

fun stdout_of :: "cycle_event list \<Rightarrow> string" where
  "stdout_of [] = []"
| "stdout_of (Stdout_data d # es) = d @ stdout_of es"
| "stdout_of (e # es) = stdout_of es"

fun stderr_of :: "cycle_event list \<Rightarrow> string" where
  "stderr_of [] = []"
| "stderr_of (Stderr_data d # es) = d @ stderr_of es"
| "stderr_of (e # es) = stderr_of es"

definition clean_cycle :: "cycle_event list \<Rightarrow> bool" where
  "clean_cycle es \<longleftrightarrow>
     list_all quiet_event es \<and> length (stdout_of es) \<le> MAX_OUTPUT_BYTES \<and>
     length (stderr_of es) \<le> MAX_OUTPUT_BYTES"

definition clean_state :: "cycle_state \<Rightarrow> bool" where
  "clean_state s \<longleftrightarrow>
     cs_result s = None \<and> cs_reason s = None \<and>
     \<not> co_exceeded (cs_out s) \<and> \<not> co_exceeded (cs_err s) \<and>
     co_forwarded (cs_out s) = co_data (cs_out s) \<and> co_forwarded (cs_err s) = co_data (cs_err s)"

lemma clean_run:
  "clean_state s \<Longrightarrow> list_all quiet_event es
    \<Longrightarrow> length (co_data (cs_out s)) + length (stdout_of es) \<le> MAX_OUTPUT_BYTES
    \<Longrightarrow> length (co_data (cs_err s)) + length (stderr_of es) \<le> MAX_OUTPUT_BYTES
    \<Longrightarrow> clean_state (fold (cycle_step sha) es s) \<and>
      co_data (cs_out (fold (cycle_step sha) es s)) = co_data (cs_out s) @ stdout_of es \<and>
      co_data (cs_err (fold (cycle_step sha) es s)) = co_data (cs_err s) @ stderr_of es"
proof (induction es arbitrary: s)
  case (Cons e es)
  have step: "clean_state (cycle_step sha e s) \<and>
      co_data (cs_out (cycle_step sha e s)) = co_data (cs_out s) @ stdout_of [e] \<and>
      co_data (cs_err (cycle_step sha e s)) = co_data (cs_err s) @ stderr_of [e]"
    using Cons.prems by (cases e) (auto simp: clean_state_def collect_chunk_def Let_def)
  then show ?case
    using Cons.prems Cons.IH [of "cycle_step sha e s"] by (cases e) auto
qed simp

text \<open>An unclean cycle stays so: no later event makes it a success.\<close>

definition spoiled :: "cycle_state \<Rightarrow> bool" where
  "spoiled s \<longleftrightarrow>
     (case cs_result s of
        None \<Rightarrow> cs_reason s \<noteq> None \<and> cs_reason s \<noteq> Some Success \<and>
          (cs_reason s = Some Supervisor_terminated \<or> cs_reason s = Some Timeout \<or>
           cs_reason s = Some Output_limit)
      | Some r \<Rightarrow> cr_classification r \<noteq> Success)"

lemma spoiled_step: "spoiled s \<Longrightarrow> spoiled (cycle_step sha e s)"
  by (cases e)
    (auto simp: spoiled_def finish_def requestTermination_def classify_cycle_def Let_def
      split: option.splits prod.splits)

lemma spoiled_run: "spoiled s \<Longrightarrow> spoiled (fold (cycle_step sha) es s)"
  by (induction es arbitrary: s) (simp_all add: spoiled_step)

definition good_close :: "cycle_event \<Rightarrow> bool" where
  "good_close e \<longleftrightarrow> e = Child_close (Some 0) None \<or> e = Child_close (Some 0) (Some [])"

lemma loud_step:
  assumes "clean_state s" "\<not> quiet_event e" "\<not> good_close e"
  shows "spoiled (cycle_step sha e s)"
  using assms
  by (cases e)
    (auto simp: spoiled_def clean_state_def requestTermination_def finish_def classify_cycle_def Let_def
      good_close_def)


lemma overflow_step:
  assumes "clean_state s"
    and "length (co_data (cs_out s)) + length (stdout_of [e]) > MAX_OUTPUT_BYTES \<or>
      length (co_data (cs_err s)) + length (stderr_of [e]) > MAX_OUTPUT_BYTES"
    and "length (co_data (cs_out s)) \<le> MAX_OUTPUT_BYTES" "length (co_data (cs_err s)) \<le> MAX_OUTPUT_BYTES"
  shows "spoiled (cycle_step sha e s)"
  using assms
  by (cases e)
    (auto simp: spoiled_def clean_state_def requestTermination_def collect_chunk_def Let_def)

lemma stream_Cons:
  "stdout_of (e # es) = stdout_of [e] @ stdout_of es" "stderr_of (e # es) = stderr_of [e] @ stderr_of es"
  by (cases e; simp)+

lemma success_decompose:
  assumes "clean_state s" "cs_result (fold (cycle_step sha) es s) = Some r" "cr_classification r = Success"
    and "length (co_data (cs_out s)) \<le> MAX_OUTPUT_BYTES" "length (co_data (cs_err s)) \<le> MAX_OUTPUT_BYTES"
  shows "\<exists>pre c post. es = pre @ c # post \<and> good_close c \<and> list_all quiet_event pre \<and>
    length (co_data (cs_out s)) + length (stdout_of pre) \<le> MAX_OUTPUT_BYTES \<and>
    length (co_data (cs_err s)) + length (stderr_of pre) \<le> MAX_OUTPUT_BYTES"
  using assms
proof (induction es arbitrary: s)
  case Nil
  then show ?case by (simp add: clean_state_def)
next
  case (Cons e es)
  have unspoiled: "\<not> spoiled (cycle_step sha e s)"
    using spoiled_run [of "cycle_step sha e s" sha es] Cons.prems(2,3) by (auto simp: spoiled_def)
  show ?case
  proof (cases "good_close e")
    case True
    then show ?thesis using Cons.prems(4,5) by (intro exI [of _ "[]"]) auto
  next
    case False
    then have quiet: "quiet_event e" using loud_step [OF Cons.prems(1)] unspoiled by blast
    have small: "length (co_data (cs_out s)) + length (stdout_of [e]) \<le> MAX_OUTPUT_BYTES"
        "length (co_data (cs_err s)) + length (stderr_of [e]) \<le> MAX_OUTPUT_BYTES"
      using overflow_step [OF Cons.prems(1), of e sha] Cons.prems(4,5) unspoiled by force+
    have step: "clean_state (cycle_step sha e s)"
        "co_data (cs_out (cycle_step sha e s)) = co_data (cs_out s) @ stdout_of [e]"
        "co_data (cs_err (cycle_step sha e s)) = co_data (cs_err s) @ stderr_of [e]"
      using clean_run [OF Cons.prems(1), of "[e]" sha] quiet small by simp_all
    have "\<exists>pre c post. es = pre @ c # post \<and> good_close c \<and> list_all quiet_event pre \<and>
      length (co_data (cs_out (cycle_step sha e s))) + length (stdout_of pre) \<le> MAX_OUTPUT_BYTES \<and>
      length (co_data (cs_err (cycle_step sha e s))) + length (stderr_of pre) \<le> MAX_OUTPUT_BYTES"
      using Cons.IH [OF step(1)] Cons.prems(2,3) step(2,3) small by simp
    then obtain pre c post where pre: "es = pre @ c # post" "good_close c" "list_all quiet_event pre"
      "length (co_data (cs_out s) @ stdout_of [e]) + length (stdout_of pre) \<le> MAX_OUTPUT_BYTES"
      "length (co_data (cs_err s) @ stderr_of [e]) + length (stderr_of pre) \<le> MAX_OUTPUT_BYTES"
      unfolding step(2,3) by blast
    then show ?thesis
      using quiet
      by (intro exI [of _ "e # pre"] exI [of _ c] exI [of _ post])
        (simp add: stream_Cons [of e pre])
  qed
qed

lemma clean_close:
  assumes "good_close c" "clean_cycle pre"
  shows "\<exists>r. cs_result (fold (cycle_step sha) (pre @ c # post) cycle_start) = Some r \<and>
    cr_classification r = Success \<and> cr_stdout_bytes r = length (stdout_of pre) \<and>
    cr_stdout_sha256 r = sha (stdout_of pre) \<and>
    cr_stderr_bytes r = length (stderr_of pre) \<and> cr_stderr_sha256 r = sha (stderr_of pre) \<and>
    co_forwarded (cs_out (fold (cycle_step sha) pre cycle_start)) = stdout_of pre \<and>
    co_forwarded (cs_err (fold (cycle_step sha) pre cycle_start)) = stderr_of pre"
proof -
  let ?s = "fold (cycle_step sha) pre cycle_start"
  have clean: "clean_state ?s" "co_data (cs_out ?s) = stdout_of pre" "co_data (cs_err ?s) = stderr_of pre"
    using clean_run [of cycle_start pre sha] assms(2)
    by (simp_all add: clean_cycle_def clean_state_def cycle_start_def no_output_def)
  obtain q where q: "cs_result (cycle_step sha c ?s) = Some q" "cr_classification q = Success"
      "cr_stdout_bytes q = length (stdout_of pre)" "cr_stdout_sha256 q = sha (stdout_of pre)"
      "cr_stderr_bytes q = length (stderr_of pre)" "cr_stderr_sha256 q = sha (stderr_of pre)"
    using assms(1) clean by (auto simp: good_close_def finish_def classify_cycle_def clean_state_def)
  then show ?thesis
    using cycle_run_settled [OF q(1), of sha post] clean by (auto simp: clean_state_def)
qed

lemma clean_forwarded:
  "clean_cycle pre \<Longrightarrow> co_forwarded (cs_out (runRuntimeCycle sha (Inr ()) pre)) = stdout_of pre"
  "clean_cycle pre \<Longrightarrow> co_forwarded (cs_err (runRuntimeCycle sha (Inr ()) pre)) = stderr_of pre"
  using clean_close [of "Child_close (Some 0) None" pre sha "[]"]
  by (auto simp: runRuntimeCycle_def good_close_def)

text \<open>
  C25. A cycle counts as a success exactly when the child closed with exit code 0 and without a
  signal, and before that nothing but output within the limit of both streams happened: no timeout,
  no abort, no failed start, no earlier close; then everything it printed on either stream has been
  passed on, and the two digests and the two byte counts of the result are those of its output.
\<close>

theorem cycle_success_iff:
  "(\<exists>r. cs_result (runRuntimeCycle sha (Inr ()) es) = Some r \<and> cr_classification r = Success \<and>
      cr_stdout_bytes r = n \<and> cr_stdout_sha256 r = d \<and> cr_stderr_bytes r = m \<and> cr_stderr_sha256 r = f) \<longleftrightarrow>
   (\<exists>pre c post. es = pre @ c # post \<and> good_close c \<and> clean_cycle pre \<and>
      n = length (stdout_of pre) \<and> d = sha (stdout_of pre) \<and>
      m = length (stderr_of pre) \<and> f = sha (stderr_of pre) \<and>
      co_forwarded (cs_out (runRuntimeCycle sha (Inr ()) pre)) = stdout_of pre \<and>
      co_forwarded (cs_err (runRuntimeCycle sha (Inr ()) pre)) = stderr_of pre)"
proof -
  have run: "runRuntimeCycle sha (Inr ()) es' = fold (cycle_step sha) es' cycle_start" for es'
    by (simp add: runRuntimeCycle_def)
  have start: "clean_state cycle_start" "co_data (cs_out cycle_start) = []" "co_data (cs_err cycle_start) = []"
    by (simp_all add: clean_state_def cycle_start_def no_output_def)
  show ?thesis
    unfolding run
  proof (intro iffI; elim exE conjE)
    fix r assume r: "cs_result (fold (cycle_step sha) es cycle_start) = Some r"
      "cr_classification r = Success" "cr_stdout_bytes r = n" "cr_stdout_sha256 r = d"
      "cr_stderr_bytes r = m" "cr_stderr_sha256 r = f"
    obtain pre c post where es: "es = pre @ c # post" "good_close c" "clean_cycle pre"
      using success_decompose [OF start(1) r(1,2)] start by (auto simp: clean_cycle_def)
    then show "\<exists>pre c post. es = pre @ c # post \<and> good_close c \<and> clean_cycle pre \<and>
      n = length (stdout_of pre) \<and> d = sha (stdout_of pre) \<and>
      m = length (stderr_of pre) \<and> f = sha (stderr_of pre) \<and>
      co_forwarded (cs_out (fold (cycle_step sha) pre cycle_start)) = stdout_of pre \<and>
      co_forwarded (cs_err (fold (cycle_step sha) pre cycle_start)) = stderr_of pre"
      using clean_close [OF es(2,3), of sha post] r by auto
  next
    fix pre c post assume "es = pre @ c # post" "good_close c" "clean_cycle pre"
      "n = length (stdout_of pre)" "d = sha (stdout_of pre)"
      "m = length (stderr_of pre)" "f = sha (stderr_of pre)"
    then show "\<exists>r. cs_result (fold (cycle_step sha) es cycle_start) = Some r \<and>
      cr_classification r = Success \<and> cr_stdout_bytes r = n \<and> cr_stdout_sha256 r = d \<and>
      cr_stderr_bytes r = m \<and> cr_stderr_sha256 r = f"
      using clean_close [of c pre sha post] by auto
  qed
qed

end
