(* ===== verification/Supervisor_Properties.thy ===== *)
theory Supervisor_Properties
  imports Runtime_Cycle
begin

text \<open>
  What the supervisor guarantees: its journal always verifies again, is committed to by its last hash,
  and bounds the failures in a row over all restarts.
\<close>

section \<open>Texts and lines\<close>

text \<open>
  The codec: what is printed is parsed back, and a canonical text has no newline.
\<close>

definition codec_ok :: "'r sup_codec \<Rightarrow> bool" where
  "codec_ok cd \<longleftrightarrow>
     (\<forall>r. sc_parse cd (sc_canonicalJson cd r) = Some r \<and> newline \<notin> set (sc_canonicalJson cd r))"

lemma codec_inject: "codec_ok cd \<Longrightarrow> sc_canonicalJson cd r = sc_canonicalJson cd s \<Longrightarrow> r = s"
  unfolding codec_ok_def by (metis option.inject)

lemma split_lines_nonempty [simp]: "split_lines t \<noteq> []"
  by (induction t) (auto split: list.splits)

lemma split_lines_plain: "newline \<notin> set t \<Longrightarrow> split_lines t = [t]"
  by (induction t) auto

lemma split_lines_append: "split_lines (s @ newline # t) = split_lines s @ split_lines t"
  by (induction s) (auto split: list.splits)

lemma join_split_lines: "concat (map (\<lambda>l. l @ [newline]) (split_lines t)) = t @ [newline]"
  by (induction t) (auto split: list.splits)

definition journal_text :: "'r sup_codec \<Rightarrow> 'r sup_record list \<Rightarrow> string" where
  "journal_text cd rs = concat (map (\<lambda>r. sc_canonicalJson cd r @ [newline]) rs)"

lemma verify_lines_append:
  "verify_lines cd rs (ls @ ms) = and_then (verify_lines cd rs ls) (\<lambda>qs. verify_lines cd qs ms)"
proof (induction ls arbitrary: rs)
  case (Cons l ls)
  then show ?case by (cases "check_record cd rs l") auto
qed simp

lemma check_record_line: "check_record cd rs l = Inr r \<Longrightarrow> sc_canonicalJson cd r = l"
  by (auto simp: check_record_def Let_def split: option.splits)

lemma verify_lines_printed:
  "verify_lines cd rs ls = Inr qs \<Longrightarrow> \<exists>new. qs = rs @ new \<and> map (sc_canonicalJson cd) new = ls"
proof (induction ls arbitrary: rs)
  case (Cons l ls)
  then obtain r where r: "check_record cd rs l = Inr r" "verify_lines cd (rs @ [r]) ls = Inr qs"
    by auto
  then show ?case using Cons.IH [OF r(2)] check_record_line [OF r(1)] by force
qed simp

lemma parse_journal_text:
  assumes "parseAndVerifyJournal cd t = Inr rs" shows "t = journal_text cd rs"
proof (cases "t = []")
  case True
  then show ?thesis using assms by (simp add: parseAndVerifyJournal_def journal_text_def)
next
  case False
  then have t: "t = butlast t @ [newline]" and v: "verify_lines cd [] (split_lines (butlast t)) = Inr rs"
    using assms append_butlast_last_id [of t] by (auto simp: parseAndVerifyJournal_def)
  have "map (sc_canonicalJson cd) rs = split_lines (butlast t)"
    using verify_lines_printed [OF v] by simp
  then have "map (\<lambda>r. sc_canonicalJson cd r @ [newline]) rs =
      map (\<lambda>l. l @ [newline]) (split_lines (butlast t))"
    by (metis (no_types, lifting) map_eq_conv map_map o_def)
  then have "journal_text cd rs = butlast t @ [newline]"
    by (simp add: journal_text_def join_split_lines)
  then show ?thesis using t by simp
qed

lemma parse_verified:
  assumes ok: "codec_ok cd"
  shows "parseAndVerifyJournal cd (journal_text cd rs) = verify_lines cd [] (map (sc_canonicalJson cd) rs)"
proof (induction rs rule: rev_induct)
  case Nil
  then show ?case by (simp add: parseAndVerifyJournal_def journal_text_def)
next
  case (snoc r rs)
  have lines: "split_lines (butlast (journal_text cd (rs @ [r]))) = map (sc_canonicalJson cd) (rs @ [r])"
  proof (induction rs)
    case Nil
    then show ?case using ok by (simp add: journal_text_def split_lines_plain codec_ok_def)
  next
    case (Cons q qs)
    have "butlast (journal_text cd ((q # qs) @ [r])) =
        sc_canonicalJson cd q @ newline # butlast (journal_text cd (qs @ [r]))"
      by (simp add: journal_text_def butlast_append)
    then show ?case
      using Cons ok by (simp add: split_lines_append split_lines_plain codec_ok_def)
  qed
  then show ?case by (simp add: parseAndVerifyJournal_def journal_text_def)
qed

lemma parse_append:
  assumes ok: "codec_ok cd" and j: "parseAndVerifyJournal cd t = Inr rs"
  shows "parseAndVerifyJournal cd (t @ sc_canonicalJson cd r @ [newline]) =
    and_then (check_record cd rs (sc_canonicalJson cd r)) (\<lambda>q. Inr (rs @ [q]))"
proof -
  have t: "t = journal_text cd rs" by (rule parse_journal_text [OF j])
  then have "t @ sc_canonicalJson cd r @ [newline] = journal_text cd (rs @ [r])"
    by (simp add: journal_text_def)
  moreover have "verify_lines cd [] (map (sc_canonicalJson cd) rs) = Inr rs"
    using j parse_verified [OF ok] t by simp
  ultimately show ?thesis
    using parse_verified [OF ok, of "rs @ [r]"] by (simp add: verify_lines_append)
qed

section \<open>Appending\<close>

definition journal_ok :: "'r sup_codec \<Rightarrow> 'r sup_journal \<Rightarrow> bool" where
  "journal_ok cd j \<longleftrightarrow> parseAndVerifyJournal cd (sj_text j) = Inr (sj_records j)"

lemma createJournal_ok: "createJournal cd (Some (sj_text j)) = Inr j \<longleftrightarrow> journal_ok cd j"
  by (cases j) (auto simp: createJournal_def journal_ok_def Let_def)

lemma classification_listed: "classification_text c \<in> set CLASSIFICATIONS"
  by (cases c) (simp_all add: CLASSIFICATIONS_def)

lemma check_chained_record:
  assumes ok: "codec_ok cd"
    and c: "c \<in> set CLASSIFICATIONS"
  shows "check_record cd rs (sc_canonicalJson cd
      (chained_record cd rs (length rs + 1) (expected_failures c (last_failures rs)) c rest)) =
    Inr (chained_record cd rs (length rs + 1) (expected_failures c (last_failures rs)) c rest)"
  using ok c by (simp add: check_record_def chained_record_def codec_ok_def recordHash_def Let_def)

lemma append_record_chained:
  assumes ok: "codec_ok cd" and j: "journal_ok cd j" and c: "c \<in> set CLASSIFICATIONS"
  shows "append_record cd w j (length (sj_records j) + 1)
      (expected_failures c (last_failures (sj_records j))) c rest =
    (let r = chained_record cd (sj_records j) (length (sj_records j) + 1)
               (expected_failures c (last_failures (sj_records j))) c rest;
         j' = \<lparr>sj_text = sj_text j @ sc_canonicalJson cd r @ [newline], sj_records = sj_records j @ [r]\<rparr>
     in (if w = Not_replaced then j else j', if w = Written then Inr j' else Inl Journal_write_failed))"
  using parse_append [OF ok j [unfolded journal_ok_def]] check_chained_record [OF ok c]
  by (cases w) (simp_all add: append_record_def Let_def)

lemma append_record_ok:
  assumes "journal_ok cd j" and "append_record cd w j cycle f c rest = (filed, out)"
  shows "journal_ok cd filed"
  using assms by (auto simp: append_record_def journal_ok_def Let_def split: sum.splits write_outcome.splits)

section \<open>The loop keeps the journal\<close>

definition counts_as_failure :: "classification \<Rightarrow> bool" where
  "counts_as_failure c \<longleftrightarrow> c \<noteq> Success \<and> c \<noteq> Supervisor_terminated"

definition next_failures :: "classification \<Rightarrow> nat \<Rightarrow> nat" where
  "next_failures c n = (if c = Success then 0 else n + (if counts_as_failure c then 1 else 0))"

lemma next_failures_text: "expected_failures (classification_text c) n = next_failures c n"
  by (cases c) (simp_all add: expected_failures_def next_failures_def counts_as_failure_def)

lemma last_failures_chained [simp]:
  "last_failures (rs @ [chained_record cd rs' cycle f c rest]) = f"
  by (simp add: last_failures_def chained_record_def Let_def)

text \<open>One turn that is not stopped by the signal at its beginning.\<close>

definition turn_record :: "'r sup_codec \<Rightarrow> 'r sup_turn \<Rightarrow> 'r sup_record list \<Rightarrow> 'r sup_record" where
  "turn_record cd t rs =
     chained_record cd rs (length rs + 1) (next_failures (tu_classification t) (last_failures rs))
       (classification_text (tu_classification t)) (tu_rest t)"

definition turn_journal :: "'r sup_codec \<Rightarrow> 'r sup_turn \<Rightarrow> 'r sup_journal \<Rightarrow> 'r sup_journal" where
  "turn_journal cd t j =
     \<lparr>sj_text = sj_text j @ sc_canonicalJson cd (turn_record cd t (sj_records j)) @ [newline],
      sj_records = sj_records j @ [turn_record cd t (sj_records j)]\<rparr>"

lemma turn_append:
  assumes "codec_ok cd" "journal_ok cd j"
  shows "append_record cd (tu_write t) j (length (sj_records j) + 1)
      (next_failures (tu_classification t) (last_failures (sj_records j)))
      (classification_text (tu_classification t)) (tu_rest t) =
    (if tu_write t = Not_replaced then j else turn_journal cd t j,
     if tu_write t = Written then Inr (turn_journal cd t j) else Inl Journal_write_failed)"
  using append_record_chained [OF assms classification_listed [of "tu_classification t"]]
  by (simp add: next_failures_text turn_journal_def turn_record_def Let_def)

lemma turn_journal_ok:
  assumes "codec_ok cd" "journal_ok cd j" shows "journal_ok cd (turn_journal cd t j)"
  using append_record_ok [OF assms(2)] turn_append [OF assms, of "t\<lparr>tu_write := Written\<rparr>"]
  by (fastforce simp: turn_journal_def turn_record_def)

text \<open>The loop, with its counters read off the journal.\<close>

definition sup_run ::
  "'r sup_codec \<Rightarrow> nat \<Rightarrow> nat \<Rightarrow> nat \<Rightarrow> 'r sup_turn list \<Rightarrow> 'r sup_journal
    \<Rightarrow> 'r sup_journal \<times> sup_status \<times> nat list" where
  "sup_run cd mf b mb ts j =
     sup_loop cd mf b mb ts (last_failures (sj_records j)) (length (sj_records j)) j"

lemma sup_run_Nil: "sup_run cd mf b mb [] j = (j, Running, [])"
  by (simp add: sup_run_def)

lemma turn_journal_counters:
  "last_failures (sj_records (turn_journal cd t j)) =
     next_failures (tu_classification t) (last_failures (sj_records j))"
  "length (sj_records (turn_journal cd t j)) = Suc (length (sj_records j))"
  by (simp_all add: turn_journal_def turn_record_def)

lemma sup_run_Cons:
  assumes "codec_ok cd" "journal_ok cd j"
  shows "sup_run cd mf b mb (t # ts) j =
    (let j' = turn_journal cd t j; n = next_failures (tu_classification t) (last_failures (sj_records j))
     in if tu_aborted t then (j, Exited TERMINATION_EXIT, [])
        else if tu_write t = Not_replaced then (j, Threw Journal_write_failed, [])
        else if tu_write t = Replaced_then_threw then (j', Threw Journal_write_failed, [])
        else if tu_classification t = Supervisor_terminated \<or> tu_aborted_after t
        then (j', Exited TERMINATION_EXIT, [])
        else if tu_classification t = Terminal_refusal
        then (j', Exited (case tu_code t of None \<Rightarrow> 64 | Some c \<Rightarrow> c), [])
        else if n \<ge> mf then (j', Exited 70, [])
        else (let (j'', status, slept) = sup_run cd mf b mb ts j'
              in (j'', status, (if counts_as_failure (tu_classification t) then [backoffFor n b mb] else []) @ slept)))"
proof -
  have failed: "(tu_classification t \<noteq> Success \<and> tu_classification t \<noteq> Supervisor_terminated) =
      counts_as_failure (tu_classification t)"
    by (simp add: counts_as_failure_def)
  show ?thesis
    unfolding sup_run_def sup_loop.simps Let_def failed next_failures_def [symmetric]
      turn_journal_counters
    using turn_append [OF assms, of t] by (cases "tu_write t") simp_all
qed

lemma supervise_run:
  "supervise cd mf b mb ts j =
     (if last_failures (sj_records j) \<ge> mf then (j, Exited 70, []) else sup_run cd mf b mb ts j)"
  by (simp add: supervise_def sup_run_def Let_def)

lemma backoff_bounded: "backoffFor n b mb \<le> mb"
  by (simp add: backoffFor_def)

text \<open>All that the properties need of a run, by induction on its turns.\<close>

lemma sup_run_keeps:
  assumes ok: "codec_ok cd"
  shows "journal_ok cd j \<Longrightarrow> sup_run cd mf b mb ts j = (j', status, slept) \<Longrightarrow>
    journal_ok cd j' \<and>
    (\<exists>new. sj_records j' = sj_records j @ new \<and>
       map sup_classification new =
         map (\<lambda>t. Some (classification_text (tu_classification t))) (take (length new) ts)) \<and>
    (\<forall>e. status = Threw e \<longrightarrow> e = Journal_write_failed) \<and> (\<forall>d \<in> set slept. d \<le> mb)"
proof (induction ts arbitrary: j j' status slept)
  case Nil
  then show ?case by (auto simp: sup_run_Nil)
next
  case (Cons t ts)
  let ?j = "turn_journal cd t j"
  have step: "journal_ok cd ?j" by (rule turn_journal_ok [OF ok Cons.prems(1)])
  have one: "sj_records ?j = sj_records j @ [turn_record cd t (sj_records j)]"
    "sup_classification (turn_record cd t (sj_records j)) = Some (classification_text (tu_classification t))"
    by (simp_all add: turn_journal_def turn_record_def chained_record_def Let_def)
  consider (none) "j' = j" "slept = []" "\<forall>e. status = Threw e \<longrightarrow> e = Journal_write_failed"
    | (once) "j' = ?j" "slept = []" "\<forall>e. status = Threw e \<longrightarrow> e = Journal_write_failed"
    | (more) d rest where "sup_run cd mf b mb ts ?j = (j', status, rest)" "slept = d @ rest"
        "\<forall>x \<in> set d. x \<le> mb"
    using Cons.prems(2) unfolding sup_run_Cons [OF ok Cons.prems(1)] Let_def
    by (auto split: if_splits prod.splits simp: backoff_bounded)
  then show ?case
  proof cases
    case none
    then show ?thesis using Cons.prems(1) by (intro conjI exI [of _ "[]"]) auto
  next
    case once
    then show ?thesis using step one
      by (intro conjI exI [of _ "[turn_record cd t (sj_records j)]"]) auto
  next
    case more
    obtain new where new: "sj_records j' = sj_records ?j @ new"
      "map sup_classification new =
         map (\<lambda>t. Some (classification_text (tu_classification t))) (take (length new) ts)"
      using Cons.IH [OF step more(1)] by blast
    show ?thesis
      using Cons.IH [OF step more(1)] new one more
      by (intro conjI exI [of _ "turn_record cd t (sj_records j) # new"]) auto
  qed
qed

lemma sup_run_bounded:
  assumes ok: "codec_ok cd"
  shows "journal_ok cd j \<Longrightarrow> last_failures (sj_records j) < mf \<Longrightarrow>
    sup_run cd mf b mb ts j = (j', status, slept) \<Longrightarrow> last_failures (sj_records j') \<le> mf"
proof (induction ts arbitrary: j j' status slept)
  case Nil
  then show ?case by (auto simp: sup_run_Nil)
next
  case (Cons t ts)
  show ?case
    using Cons.prems(2,3) turn_journal_counters(1) [of cd t j]
      Cons.IH [OF turn_journal_ok [OF ok Cons.prems(1)], of t j']
    unfolding sup_run_Cons [OF ok Cons.prems(1)] Let_def
    by (auto split: if_splits prod.splits simp: next_failures_def)
qed

lemma sup_run_gives_up:
  assumes ok: "codec_ok cd"
  shows "journal_ok cd j \<Longrightarrow> list_all (\<lambda>t. counts_as_failure (tu_classification t)) ts \<Longrightarrow>
    last_failures (sj_records j) < mf \<Longrightarrow> sup_run cd mf b mb ts j = (j', status, slept) \<Longrightarrow>
    length (sj_records j') \<le> length (sj_records j) + (mf - last_failures (sj_records j)) \<and>
    (mf \<le> last_failures (sj_records j) + length ts \<longrightarrow> status \<noteq> Running)"
proof (induction ts arbitrary: j j' status slept)
  case Nil
  then show ?case by (auto simp: sup_run_Nil)
next
  case (Cons t ts)
  then show ?case
    using turn_journal_counters [of cd t j]
      Cons.IH [OF turn_journal_ok [OF ok Cons.prems(1)], of t j']
    unfolding sup_run_Cons [OF ok Cons.prems(1)] Let_def
    by (auto split: if_splits prod.splits simp: next_failures_def counts_as_failure_def)
qed

lemma supervise_journal_ok:
  assumes "codec_ok cd" "journal_ok cd j"
  shows "journal_ok cd (fst (supervise cd mf b mb ts j))"
  using sup_run_keeps [OF assms, of mf b mb ts] assms(2)
  by (cases "sup_run cd mf b mb ts j") (auto simp: supervise_run)

section \<open>Properties\<close>

text \<open>
  C24. The journal of the supervisor survives every run: whatever the cycles end with, and whether
  writing the file succeeds, throws before the file is replaced or after, the text that the file holds
  at the end verifies again at the next start to its records, the earlier records are unchanged, and one
  record with the classification of its cycle follows for every cycle that reached the file; only a
  write may throw. No pause exceeds the maximum backoff.
\<close>

theorem supervisor_journal_sound:
  assumes "codec_ok cd" and "createJournal cd file = Inr j"
    and "supervise cd mf b mb turns j = (j', status, slept)"
  shows "createJournal cd (Some (sj_text j')) = Inr j' \<and>
    (\<exists>new. sj_records j' = sj_records j @ new \<and>
       map sup_classification new =
         map (\<lambda>t. Some (classification_text (tu_classification t))) (take (length new) turns)) \<and>
    (\<forall>e. status = Threw e \<longrightarrow> e = Journal_write_failed) \<and> (\<forall>d \<in> set slept. d \<le> mb)"
proof -
  have j: "journal_ok cd j"
    using assms(2) by (auto simp: createJournal_def journal_ok_def Let_def)
  show ?thesis
  proof (cases "last_failures (sj_records j) \<ge> mf")
    case True
    then show ?thesis using assms(3) j by (auto simp: supervise_run createJournal_ok)
  next
    case False
    then show ?thesis
      using sup_run_keeps [OF assms(1) j, of mf b mb turns j' status slept] assms(3)
      by (simp add: supervise_run createJournal_ok)
  qed
qed

text \<open>
  C23. The supervisor gives up, over restarts too: the number of failures in a row never exceeds the
  maximum, once it is reached every later start exits with 70 without running a cycle, and when every
  cycle fails the loop ends after at most as many cycles as were left.
\<close>

theorem supervisor_gives_up:
  assumes "codec_ok cd" and "createJournal cd file = Inr j"
    and "last_failures (sj_records j) < mf" and "supervise cd mf b mb turns j = (j', status, slept)"
  shows "last_failures (sj_records j') \<le> mf \<and>
    (last_failures (sj_records j') = mf \<longrightarrow> supervise cd mf b mb later j' = (j', Exited 70, [])) \<and>
    (list_all (\<lambda>t. counts_as_failure (tu_classification t)) turns \<longrightarrow>
       length (sj_records j') \<le> length (sj_records j) + (mf - last_failures (sj_records j)) \<and>
       (mf \<le> last_failures (sj_records j) + length turns \<longrightarrow> status \<noteq> Running))"
proof -
  have j: "journal_ok cd j"
    using assms(2) by (auto simp: createJournal_def journal_ok_def Let_def)
  have run: "sup_run cd mf b mb turns j = (j', status, slept)"
    using assms(3,4) by (simp add: supervise_run)
  show ?thesis
    using sup_run_bounded [OF assms(1) j assms(3) run] sup_run_gives_up [OF assms(1) j _ assms(3) run]
    by (simp add: supervise_run)
qed

definition digested :: "'r sup_codec \<Rightarrow> 'r sup_record list \<Rightarrow> string set" where
  "digested cd rs = (\<lambda>r. sc_canonicalJson cd (r\<lparr>sup_record_hash := None\<rparr>)) ` set rs"

lemma verified_last:
  assumes "verify_lines cd [] (map (sc_canonicalJson cd) (rs @ [r])) = Inr (rs @ [r])"
  shows "verify_lines cd [] (map (sc_canonicalJson cd) rs) = Inr rs \<and>
    sup_record_hash r = Some (recordHash cd r) \<and> sup_sequence r = Some (length rs + 1) \<and>
    sup_previous_hash r = last_hash rs"
proof -
  obtain qs where qs: "verify_lines cd [] (map (sc_canonicalJson cd) rs) = Inr qs"
    and rest: "verify_lines cd qs [sc_canonicalJson cd r] = Inr (rs @ [r])"
    using assms unfolding map_append verify_lines_append and_then_Inr by auto
  obtain q where q: "check_record cd qs (sc_canonicalJson cd r) = Inr q" "qs @ [q] = rs @ [r]"
    using rest unfolding verify_lines.simps and_then_Inr by auto
  then have "check_record cd rs (sc_canonicalJson cd r) = Inr r" "qs = rs" by simp_all
  then show ?thesis
    using qs by (simp add: check_record_def Let_def case_option_Inr)
qed

lemma same_unsigned:
  "r\<lparr>sup_record_hash := None\<rparr> = s\<lparr>sup_record_hash := None\<rparr> \<Longrightarrow> sup_record_hash r = sup_record_hash s
    \<Longrightarrow> (r :: 'r sup_record) = s"
  by (cases r; cases s) simp

lemma committed:
  assumes ok: "codec_ok cd"
  shows "verify_lines cd [] (map (sc_canonicalJson cd) rs) = Inr rs \<Longrightarrow>
    verify_lines cd [] (map (sc_canonicalJson cd) qs) = Inr qs \<Longrightarrow>
    inj_on (sc_sha256 cd) (digested cd rs \<union> digested cd qs) \<Longrightarrow>
    rs \<noteq> [] \<Longrightarrow> qs \<noteq> [] \<Longrightarrow> last_hash rs = last_hash qs \<Longrightarrow> rs = qs"
proof (induction rs arbitrary: qs rule: rev_induct)
  case (snoc r rs)
  obtain ps q where qs: "qs = ps @ [q]" using snoc.prems(5) by (cases qs rule: rev_cases) auto
  note vr = verified_last [OF snoc.prems(1)] and vq = verified_last [OF snoc.prems(2) [unfolded qs]]
  have hash: "sup_record_hash r = sup_record_hash q" using snoc.prems(6) by (simp add: last_hash_def qs)
  then have "recordHash cd r = recordHash cd q" using vr vq by simp
  then have "sc_canonicalJson cd (r\<lparr>sup_record_hash := None\<rparr>) = sc_canonicalJson cd (q\<lparr>sup_record_hash := None\<rparr>)"
    unfolding recordHash_def by (rule inj_onD [OF snoc.prems(3)]) (simp_all add: digested_def qs)
  then have same: "r = q" using codec_inject [OF ok] same_unsigned hash by blast
  then have len: "length rs = length ps" using vr vq by auto
  show ?case
  proof (cases "rs = []")
    case True
    then show ?thesis using same len qs by simp
  next
    case False
    have "inj_on (sc_sha256 cd) (digested cd rs \<union> digested cd ps)"
      by (rule inj_on_subset [OF snoc.prems(3)]) (auto simp: digested_def qs)
    moreover have "last_hash rs = last_hash ps" using vr vq same by simp
    moreover have "ps \<noteq> []" using False len by auto
    ultimately have "rs = ps" using snoc.IH [of ps] vr vq False by blast
    then show ?thesis using same qs by simp
  qed
qed simp

text \<open>
   The last hash commits to the whole journal: two texts that verify and end in the same record
  hash are equal, unless two of their records collide in the digest.
\<close>

theorem supervisor_journal_committed:
  assumes "codec_ok cd" and "parseAndVerifyJournal cd text1 = Inr rs"
    and "parseAndVerifyJournal cd text2 = Inr qs" and "rs \<noteq> []" and "qs \<noteq> []"
    and "sup_record_hash (last rs) = sup_record_hash (last qs)"
    and "inj_on (sc_sha256 cd) (digested cd rs \<union> digested cd qs)"
  shows "text1 = text2 \<and> rs = qs"
proof -
  have "verify_lines cd [] (map (sc_canonicalJson cd) rs) = Inr rs"
    "verify_lines cd [] (map (sc_canonicalJson cd) qs) = Inr qs"
    using parse_verified [OF assms(1)] parse_journal_text assms(2,3) by metis+
  then have "rs = qs"
    using committed [OF assms(1)] assms(4-7) by (auto simp: last_hash_def)
  then show ?thesis using parse_journal_text assms(2,3) by blast
qed

end
