(* ===== verification/Supervisor_Examples.thy ===== *)
theory Supervisor_Examples
  imports Supervisor_Properties
begin

text \<open>
  A concrete codec that satisfies \<open>codec_ok\<close>, and the witnesses of the supervisor's properties. Its
  texts are the fields in order, with newlines, backslashes and bars escaped and a bar at the end of
  each field.
\<close>

definition escape_char :: "char \<Rightarrow> string" where
  "escape_char c =
     (if c = newline then [CHR 0x5C, CHR ''n''] else if c = CHR ''|'' then [CHR 0x5C, CHR ''p'']
      else if c = CHR 0x5C then [CHR 0x5C, CHR 0x5C] else [c])"

definition put_text :: "string \<Rightarrow> string" where
  "put_text s = concat (map escape_char s) @ ''|''"

fun get_text :: "string \<Rightarrow> (string \<times> string) option" where
  "get_text [] = None"
| "get_text (c # cs) =
     (if c = CHR ''|'' then Some ([], cs)
      else if c = CHR 0x5C then
        (case cs of
           [] \<Rightarrow> None
         | d # ds \<Rightarrow> map_option (\<lambda>(s, rest).
             ((if d = CHR ''n'' then newline else if d = CHR ''p'' then CHR ''|'' else CHR 0x5C) # s, rest))
             (get_text ds))
      else map_option (\<lambda>(s, rest). (c # s, rest)) (get_text cs))"

definition put_field :: "string option \<Rightarrow> string" where
  "put_field s = (case s of None \<Rightarrow> put_text ''N'' | Some t \<Rightarrow> put_text (CHR ''S'' # t))"

definition get_field :: "string \<Rightarrow> (string option \<times> string) option" where
  "get_field t =
     (case get_text t of
        None \<Rightarrow> None
      | Some (s, rest) \<Rightarrow> Some (if s = ''N'' then None else Some (tl s), rest))"

lemma get_put_text [simp]: "get_text (put_text s @ rest) = Some (s, rest)"
  by (induction s) (auto simp: put_text_def escape_char_def newline_def)

lemma get_put_field [simp]: "get_field (put_field s @ rest) = Some (s, rest)"
  by (cases s) (simp_all add: put_field_def get_field_def)

lemma put_field_line: "newline \<notin> set (put_field s)"
  by (auto simp: put_field_def put_text_def escape_char_def newline_def split: option.splits if_splits)

definition put_number :: "nat option \<Rightarrow> string" where
  "put_number n = put_field (map_option show_nat n)"

definition get_number :: "string \<Rightarrow> (nat option \<times> string) option" where
  "get_number t =
     (case get_field t of
        None \<Rightarrow> None
      | Some (s, rest) \<Rightarrow> Some (case s of None \<Rightarrow> None | Some u \<Rightarrow> read_nat 10 u, rest))"

lemma get_put_number [simp]: "get_number (put_number n @ rest) = Some (n, rest)"
  by (cases n) (simp_all add: put_number_def get_number_def)

definition put_record :: "unit sup_record \<Rightarrow> string" where
  "put_record r =
     put_field (sup_schema r) @ put_number (sup_sequence r) @ put_number (sup_cycle r) @
     put_field (sup_previous_hash r) @ put_field (sup_record_hash r) @
     put_number (sup_consecutive_failures r) @ put_field (sup_classification r)"

definition bind_field :: "('a \<times> string) option \<Rightarrow> ('a \<Rightarrow> string \<Rightarrow> 'b option) \<Rightarrow> 'b option" where
  "bind_field x k = (case x of None \<Rightarrow> None | Some (a, rest) \<Rightarrow> k a rest)"

definition get_record :: "string \<Rightarrow> unit sup_record option" where
  "get_record t =
     bind_field (get_field t) (\<lambda>schema t1. bind_field (get_number t1) (\<lambda>sequence t2.
     bind_field (get_number t2) (\<lambda>cycle t3. bind_field (get_field t3) (\<lambda>previous t4.
     bind_field (get_field t4) (\<lambda>hash t5. bind_field (get_number t5) (\<lambda>failures t6.
     bind_field (get_field (t6 @ [])) (\<lambda>class t7.
       Some \<lparr>sup_schema = schema, sup_sequence = sequence, sup_cycle = cycle,
             sup_previous_hash = previous, sup_record_hash = hash,
             sup_consecutive_failures = failures, sup_classification = class, sup_rest = ()\<rparr>)))))))"

definition sample_codec :: "unit sup_codec" where
  "sample_codec =
     \<lparr>sc_parse = get_record, sc_canonicalJson = put_record,
      sc_sha256 = (\<lambda>s. take 8 s @ show_nat (length s))\<rparr>"

lemma get_put_record: "get_record (put_record r) = Some r"
  by (simp add: get_record_def put_record_def bind_field_def get_put_field [of _ "[]", simplified])

lemma sample_codec_ok: "codec_ok sample_codec"
  by (simp add: codec_ok_def sample_codec_def get_put_record)
    (simp add: put_record_def put_number_def put_field_line)

definition sample_turn :: "classification \<Rightarrow> unit sup_turn" where
  "sample_turn c = \<lparr>tu_aborted = False, tu_classification = c, tu_code = Some 1, tu_rest = (),
     tu_write = Written, tu_aborted_after = False\<rparr>"

definition fresh_journal :: "unit sup_journal" where
  "fresh_journal = \<lparr>sj_text = [], sj_records = []\<rparr>"

lemma fresh_created: "createJournal sample_codec None = Inr fresh_journal"
  by (simp add: createJournal_def parseAndVerifyJournal_def fresh_journal_def)

definition sample_supervision :: "unit sup_journal \<times> sup_status \<times> nat list" where
  "sample_supervision =
     supervise sample_codec 2 10 15
       [sample_turn Runtime_failure, sample_turn Timeout, sample_turn Spawn_error] fresh_journal"

lemma sample_supervision_eq:
  "supervise sample_codec 2 10 15
     [sample_turn Runtime_failure, sample_turn Timeout, sample_turn Spawn_error] fresh_journal =
   (fst sample_supervision, fst (snd sample_supervision), snd (snd sample_supervision))"
  by (simp add: sample_supervision_def)

theorem supervisor_journal_sound_witness:
  "createJournal sample_codec (Some (sj_text (fst sample_supervision))) = Inr (fst sample_supervision)"
  using supervisor_journal_sound [OF sample_codec_ok fresh_created sample_supervision_eq] by blast

theorem supervisor_gives_up_witness:
  "fst (snd sample_supervision) \<noteq> Running \<and> length (sj_records (fst sample_supervision)) \<le> 2"
proof -
  have "last_failures (sj_records fresh_journal) < 2"
    by (simp add: fresh_journal_def last_failures_def)
  from supervisor_gives_up [OF sample_codec_ok fresh_created this sample_supervision_eq]
  show ?thesis
    by (simp add: sample_turn_def counts_as_failure_def fresh_journal_def last_failures_def
        numeral_2_eq_2)
qed

lemma sample_supervision_records: "length (sj_records (fst sample_supervision)) = 2"
  by code_simp

definition short_journal :: "unit sup_journal" where
  "short_journal = fst (supervise sample_codec 2 10 15 [sample_turn Success] fresh_journal)"

lemma short_journal_record: "\<exists>r. sj_records short_journal = [r]"
proof -
  have "length (sj_records short_journal) = 1" by code_simp
  then show ?thesis by (simp add: length_Suc_conv)
qed

theorem supervisor_journal_committed_witness:
  "sj_text short_journal = journal_text sample_codec (sj_records short_journal)"
proof -
  obtain r where r: "sj_records short_journal = [r]" using short_journal_record by blast
  have "journal_ok sample_codec fresh_journal"
    by (simp add: fresh_journal_def journal_ok_def parseAndVerifyJournal_def)
  then have parsed: "parseAndVerifyJournal sample_codec (sj_text short_journal) = Inr [r]"
    using supervise_journal_ok [OF sample_codec_ok, of fresh_journal]
    by (simp add: short_journal_def journal_ok_def r [unfolded short_journal_def])
  moreover have "parseAndVerifyJournal sample_codec (journal_text sample_codec [r]) = Inr [r]"
    using parsed parse_journal_text [OF parsed] by simp
  ultimately show ?thesis
    using supervisor_journal_committed [OF sample_codec_ok parsed, of "journal_text sample_codec [r]" "[r]"]
    by (simp add: r digested_def)
qed

text \<open>A cycle that prints on both streams and exits with 0; what follows the close does not count.\<close>

theorem cycle_success_iff_witness:
  "\<exists>r. cs_result (runRuntimeCycle (\<lambda>s. s) (Inr ())
       [Stdout_data ''ok'', Stderr_data ''warn'', Child_close (Some 0) None, Timeout_fires]) = Some r \<and>
     cr_classification r = Success \<and> cr_stdout_bytes r = 2 \<and> cr_stdout_sha256 r = ''ok'' \<and>
     cr_stderr_bytes r = 4 \<and> cr_stderr_sha256 r = ''warn''"
proof -
  let ?pre = "[Stdout_data ''ok'', Stderr_data ''warn'']"
  have quiet: "clean_cycle ?pre" by (simp add: clean_cycle_def MAX_OUTPUT_BYTES_def)
  have good: "good_close (Child_close (Some 0) None)" by (simp add: good_close_def)
  have out: "stdout_of ?pre = ''ok''" "stderr_of ?pre = ''warn''" by simp_all
  note sent = clean_forwarded [OF quiet, of "\<lambda>s. s", unfolded out]
  have "\<exists>pre c post. ?pre @ [Child_close (Some 0) None, Timeout_fires] = pre @ c # post \<and>
      good_close c \<and> clean_cycle pre \<and> length (stdout_of ?pre) = length (stdout_of pre) \<and> stdout_of ?pre = stdout_of pre \<and>
      length (stderr_of ?pre) = length (stderr_of pre) \<and> stderr_of ?pre = stderr_of pre \<and>
      co_forwarded (cs_out (runRuntimeCycle (\<lambda>s. s) (Inr ()) pre)) = stdout_of pre \<and>
      co_forwarded (cs_err (runRuntimeCycle (\<lambda>s. s) (Inr ()) pre)) = stderr_of pre"
    by (intro exI [of _ ?pre] exI [of _ "Child_close (Some 0) None"] exI [of _ "[Timeout_fires]"] conjI)
      (rule refl quiet good | (simp only: out sent append.simps))+
  from iffD2 [OF cycle_success_iff this] show ?thesis by (simp add: eval_nat_numeral)
qed

end
