(* ===== verification/Forced_Inclusion.thy ===== *)
theory Forced_Inclusion
  imports Js_Values
begin

text \<open>
  The plan by which a challenge is forced into the chain from its base chain when the sequencer
  censors it (agent/censorship-fallback.mjs): the alias of the controller's address
  (\<open>applyL1ToL2Alias\<close>) and \<open>buildForcedChallengePlan\<close>, with every guard and the arithmetic of the
  deadline. The ethers package is the record \<open>ethers_lib\<close>; \<open>BigInt(value)\<close> is \<open>js_bigint\<close>.
\<close>

record ethers_lib =
  et_getAddress :: "string \<Rightarrow> string option"
  et_isHexString :: "string \<Rightarrow> bool"
  et_isHexBytes :: "string \<Rightarrow> nat \<Rightarrow> bool"
  et_toBeHex20 :: "int \<Rightarrow> string"
  et_dataLength :: "string \<Rightarrow> nat"
  et_dataSlice4 :: "string \<Rightarrow> string"
  et_keccak256 :: "string \<Rightarrow> string"
  et_encodePolicy :: "string \<Rightarrow> int \<Rightarrow> int \<Rightarrow> string \<Rightarrow> int \<Rightarrow> string"
  et_encodeChallenge :: "string \<Rightarrow> int \<Rightarrow> int \<Rightarrow> string"

datatype forced_error =
    Address_invalid | Not_an_integer | Controller_code_hash | Owner_not_alias | Challenge_calldata
  | Scope_hash | Bindings_missing | Bindings_mismatch | Must_be_positive string
  | Safety_negative | Policy_expires_early | Deadline_too_close int int

definition OP_STACK_ALIAS_OFFSET :: int where
  "OP_STACK_ALIAS_OFFSET = 0x1111000000000000000000000000000000001111"

definition DEFAULT_SEQUENCING_WINDOW_L1_BLOCKS :: int where
  "DEFAULT_SEQUENCING_WINDOW_L1_BLOCKS = 3600"

definition DEFAULT_L1_BLOCK_SECONDS :: int where
  "DEFAULT_L1_BLOCK_SECONDS = 12"

definition DEFAULT_L1_SAFETY_SECONDS :: int where
  "DEFAULT_L1_SAFETY_SECONDS = 21600"

definition bigint_of :: "jsval \<Rightarrow> forced_error + int" where
  "bigint_of v = of_option Not_an_integer (js_bigint v)"

definition positiveBigInt :: "string \<Rightarrow> jsval \<Rightarrow> forced_error + int" where
  "positiveBigInt name v =
     and_then (bigint_of v) (\<lambda>parsed. require (\<not> parsed \<le> 0) (Must_be_positive name) (Inr parsed))"

definition address_of_text :: "ethers_lib \<Rightarrow> string \<Rightarrow> forced_error + string" where
  "address_of_text et s = of_option Address_invalid (et_getAddress et s)"

text \<open>\<open>& ADDRESS_MASK\<close> of a nonnegative number is its remainder by \<open>2 ^ 160\<close>.\<close>

definition alias_value :: "int \<Rightarrow> int" where
  "alias_value a = (a + OP_STACK_ALIAS_OFFSET) mod 2 ^ 160"

definition applyL1ToL2Alias :: "ethers_lib \<Rightarrow> string \<Rightarrow> forced_error + string" where
  "applyL1ToL2Alias et address =
     and_then (address_of_text et address) (\<lambda>normalized.
     and_then (bigint_of (JStr normalized)) (\<lambda>v.
     address_of_text et (et_toBeHex20 et (alias_value v))))"

record controller_bindings =
  cb_portal :: string
  cb_l2Wallet :: string
  cb_challengeManager :: string
  cb_challengeSelector :: string

record forced_request =
  fr_l1Controller :: string
  fr_l1ControllerCodeHash :: string
  fr_forcedInclusionOwner :: string
  fr_portal :: string
  fr_wallet :: string
  fr_challengeManager :: string
  fr_controllerBindings :: "controller_bindings option"
  fr_challengeCalldata :: string
  fr_bondWei :: jsval
  fr_chainId :: jsval
  fr_policyExpiresAt :: jsval
  fr_scopeHash :: string
  fr_portalGasLimit :: jsval
  fr_challengeDeadline :: jsval
  fr_currentTimestamp :: jsval
  fr_sequencingWindowL1Blocks :: "jsval option"
  fr_l1BlockSeconds :: "jsval option"
  fr_l1SafetySeconds :: "jsval option"

record forced_deposit =
  fd_purpose :: string
  fd_to :: string
  fd_valueWei :: int
  fd_calldata :: string

record forced_plan =
  fp_l2ChainId :: int
  fp_l1Controller :: string
  fp_l1ControllerCodeHash :: string
  fp_expectedForcedInclusionOwner :: string
  fp_portal :: string
  fp_wallet :: string
  fp_challengeManager :: string
  fp_selector :: string
  fp_calldataHash :: string
  fp_scopeHash :: string
  fp_bondWei :: int
  fp_policyExpiresAt :: int
  fp_challengeDeadline :: int
  fp_portalGasLimit :: int
  fp_sequencingWindowL1Blocks :: int
  fp_l1BlockSeconds :: int
  fp_forcedInclusionSeconds :: int
  fp_safetySeconds :: int
  fp_requiredRemainingSeconds :: int
  fp_singleDepositRequiredSeconds :: int
  fp_deposits :: "forced_deposit list"

definition given_or :: "jsval option \<Rightarrow> int \<Rightarrow> jsval" where
  "given_or v d = (case v of None \<Rightarrow> JInt d | Some x \<Rightarrow> x)"

text \<open>A 32-byte hash that is not zero.\<close>

definition nonzero_hash :: "ethers_lib \<Rightarrow> string \<Rightarrow> bool" where
  "nonzero_hash et h \<longleftrightarrow> et_isHexBytes et h 32 \<and> js_bigint (JStr h) \<noteq> Some 0"

definition check_bindings ::
  "ethers_lib \<Rightarrow> controller_bindings \<Rightarrow> string \<Rightarrow> string \<Rightarrow> string \<Rightarrow> string \<Rightarrow> forced_error + unit" where
  "check_bindings et b portal wallet target selector =
     and_then (address_of_text et (cb_portal b)) (\<lambda>p.
     require (p = portal) Bindings_mismatch
     (and_then (address_of_text et (cb_l2Wallet b)) (\<lambda>w.
      require (w = wallet) Bindings_mismatch
      (and_then (address_of_text et (cb_challengeManager b)) (\<lambda>m.
       require (m = target \<and> to_lower (cb_challengeSelector b) = to_lower selector) Bindings_mismatch
         (Inr ()))))))"

definition buildForcedChallengePlan :: "ethers_lib \<Rightarrow> forced_request \<Rightarrow> forced_error + forced_plan" where
  "buildForcedChallengePlan et q =
     and_then (address_of_text et (fr_l1Controller q)) (\<lambda>controller.
     and_then (address_of_text et (fr_forcedInclusionOwner q)) (\<lambda>forcedOwner.
     and_then (address_of_text et (fr_portal q)) (\<lambda>portal.
     and_then (address_of_text et (fr_wallet q)) (\<lambda>wallet.
     and_then (address_of_text et (fr_challengeManager q)) (\<lambda>target.
     require (nonzero_hash et (fr_l1ControllerCodeHash q)) Controller_code_hash
     (and_then (applyL1ToL2Alias et controller) (\<lambda>expectedOwner.
      require (forcedOwner = expectedOwner) Owner_not_alias
      (require (et_isHexString et (fr_challengeCalldata q) \<and> et_dataLength et (fr_challengeCalldata q) \<ge> 4)
         Challenge_calldata
      (require (nonzero_hash et (fr_scopeHash q)) Scope_hash
      (let selector = et_dataSlice4 et (fr_challengeCalldata q) in
       and_then (of_option Bindings_missing (fr_controllerBindings q)) (\<lambda>bindings.
       and_then (check_bindings et bindings portal wallet target selector) (\<lambda>_.
       and_then (positiveBigInt ''bondWei'' (fr_bondWei q)) (\<lambda>bond.
       and_then (positiveBigInt ''chainId'' (fr_chainId q)) (\<lambda>l2ChainId.
       and_then (positiveBigInt ''policyExpiresAt'' (fr_policyExpiresAt q)) (\<lambda>expiresAt.
       and_then (positiveBigInt ''portalGasLimit'' (fr_portalGasLimit q)) (\<lambda>gasLimit.
       and_then (positiveBigInt ''challengeDeadline'' (fr_challengeDeadline q)) (\<lambda>deadline.
       and_then (positiveBigInt ''currentTimestamp'' (fr_currentTimestamp q)) (\<lambda>now.
       and_then (positiveBigInt ''sequencingWindowL1Blocks''
         (given_or (fr_sequencingWindowL1Blocks q) DEFAULT_SEQUENCING_WINDOW_L1_BLOCKS)) (\<lambda>windowBlocks.
       and_then (positiveBigInt ''l1BlockSeconds''
         (given_or (fr_l1BlockSeconds q) DEFAULT_L1_BLOCK_SECONDS)) (\<lambda>blockSeconds.
       and_then (bigint_of (given_or (fr_l1SafetySeconds q) DEFAULT_L1_SAFETY_SECONDS)) (\<lambda>safetySeconds.
       require (\<not> safetySeconds < 0) Safety_negative
       (require (\<not> expiresAt < deadline) Policy_expires_early
       (let forcedInclusionSeconds = 2 * windowBlocks * blockSeconds;
            singleDepositRequiredSeconds = windowBlocks * blockSeconds + safetySeconds;
            requiredRemainingSeconds = forcedInclusionSeconds + safetySeconds
        in require (\<not> (deadline \<le> now \<or> deadline - now < requiredRemainingSeconds))
             (Deadline_too_close (if deadline > now then deadline - now else 0) requiredRemainingSeconds)
           (Inr \<lparr>fp_l2ChainId = l2ChainId, fp_l1Controller = controller,
                 fp_l1ControllerCodeHash = fr_l1ControllerCodeHash q,
                 fp_expectedForcedInclusionOwner = forcedOwner, fp_portal = portal,
                 fp_wallet = wallet, fp_challengeManager = target, fp_selector = selector,
                 fp_calldataHash = et_keccak256 et (fr_challengeCalldata q),
                 fp_scopeHash = fr_scopeHash q, fp_bondWei = bond, fp_policyExpiresAt = expiresAt,
                 fp_challengeDeadline = deadline, fp_portalGasLimit = gasLimit,
                 fp_sequencingWindowL1Blocks = windowBlocks, fp_l1BlockSeconds = blockSeconds,
                 fp_forcedInclusionSeconds = forcedInclusionSeconds, fp_safetySeconds = safetySeconds,
                 fp_requiredRemainingSeconds = requiredRemainingSeconds,
                 fp_singleDepositRequiredSeconds = singleDepositRequiredSeconds,
                 fp_deposits =
                   [\<lparr>fd_purpose = ''install-exact-policy'', fd_to = controller, fd_valueWei = 0,
                     fd_calldata = et_encodePolicy et (fr_challengeCalldata q) l2ChainId expiresAt
                       (fr_scopeHash q) gasLimit\<rparr>,
                    \<lparr>fd_purpose = ''execute-challenge'', fd_to = controller, fd_valueWei = bond,
                     fd_calldata = et_encodeChallenge et (fr_challengeCalldata q) bond gasLimit\<rparr>]\<rparr>))))))))))))))))))))))))"

section \<open>Properties\<close>

text \<open>The alias is a rotation of the 160-bit numbers.\<close>

lemma alias_inject:
  assumes "0 \<le> a" "a < 2 ^ 160" "0 \<le> b" "b < 2 ^ 160" "alias_value a = alias_value b"
  shows "a = b"
proof -
  have "(a + OP_STACK_ALIAS_OFFSET) mod 2 ^ 160 = (b + OP_STACK_ALIAS_OFFSET) mod 2 ^ 160"
    using assms(5) by (simp add: alias_value_def)
  then have "(a + OP_STACK_ALIAS_OFFSET - OP_STACK_ALIAS_OFFSET) mod 2 ^ 160 =
      (b + OP_STACK_ALIAS_OFFSET - OP_STACK_ALIAS_OFFSET) mod 2 ^ 160"
    by (rule mod_diff_cong) simp
  then show ?thesis using assms(1-4) by simp
qed

lemma plan_facts:
  assumes "buildForcedChallengePlan et q = Inr p"
  shows "\<exists>now. js_bigint (fr_currentTimestamp q) = Some now \<and>
    fp_requiredRemainingSeconds p \<le> fp_challengeDeadline p - now"
    "fp_requiredRemainingSeconds p =
      2 * fp_sequencingWindowL1Blocks p * fp_l1BlockSeconds p + fp_safetySeconds p"
    "fp_challengeDeadline p \<le> fp_policyExpiresAt p" "0 \<le> fp_safetySeconds p" "0 < fp_bondWei p"
    "map fd_to (fp_deposits p) = [fp_l1Controller p, fp_l1Controller p]"
    "map fd_valueWei (fp_deposits p) = [0, fp_bondWei p]"
    "applyL1ToL2Alias et (fp_l1Controller p) = Inr (fp_expectedForcedInclusionOwner p)"
  using assms
  by (auto simp: buildForcedChallengePlan_def positiveBigInt_def bigint_of_def Let_def)

text \<open>
  C26. A forced challenge still fits: whenever a plan is made and its first deposit is sent by the
  time the plan was made for, the policy deposit may take a full sequencing window to be included and
  the challenge deposit another one, and with the safety margin on top the deadline is not passed and
  the policy has not expired; exactly two deposits go to the controller, the first without value and
  the second with the positive bond, and the wallet's forced-inclusion owner is the controller's alias.
\<close>

theorem forced_plan_in_time:
  assumes "buildForcedChallengePlan et q = Inr p" and "js_bigint (fr_currentTimestamp q) = Some now"
    and "first_included \<le> now + fp_sequencingWindowL1Blocks p * fp_l1BlockSeconds p"
    and "second_included \<le> first_included + fp_sequencingWindowL1Blocks p * fp_l1BlockSeconds p"
  shows "second_included + fp_safetySeconds p \<le> fp_challengeDeadline p \<and>
    fp_challengeDeadline p \<le> fp_policyExpiresAt p \<and> 0 \<le> fp_safetySeconds p \<and>
    map fd_to (fp_deposits p) = [fp_l1Controller p, fp_l1Controller p] \<and>
    map fd_valueWei (fp_deposits p) = [0, fp_bondWei p] \<and> 0 < fp_bondWei p \<and>
    applyL1ToL2Alias et (fp_l1Controller p) = Inr (fp_expectedForcedInclusionOwner p)"
proof -
  let ?w = "fp_sequencingWindowL1Blocks p * fp_l1BlockSeconds p"
  have "2 * ?w + fp_safetySeconds p \<le> fp_challengeDeadline p - now"
    using plan_facts(1,2) [OF assms(1)] assms(2) by (auto simp: mult.assoc)
  then have "second_included + fp_safetySeconds p \<le> fp_challengeDeadline p"
    using assms(3,4) by linarith
  then show ?thesis using plan_facts(3-) [OF assms(1)] by simp
qed

section \<open>A concrete plan\<close>

definition sample_ethers :: ethers_lib where
  "sample_ethers =
     \<lparr>et_getAddress = (\<lambda>s. Some (to_lower s)), et_isHexString = (\<lambda>s. take 2 s = ''0x''),
      et_isHexBytes = (\<lambda>s n. take 2 s = ''0x''),
      et_toBeHex20 = (\<lambda>v. if v = OP_STACK_ALIAS_OFFSET + 10 then ''0xa11a5'' else ''0x0''),
      et_dataLength = (\<lambda>s. length s - 2), et_dataSlice4 = take 6, et_keccak256 = rev,
      et_encodePolicy = (\<lambda>c i e h g. ''0x01'' @ c), et_encodeChallenge = (\<lambda>c b g. ''0x02'' @ c)\<rparr>"

definition sample_forced_request :: forced_request where
  "sample_forced_request =
     \<lparr>fr_l1Controller = ''0xA'', fr_l1ControllerCodeHash = ''0x1'', fr_forcedInclusionOwner = ''0xa11a5'',
      fr_portal = ''0xb'', fr_wallet = ''0xc'', fr_challengeManager = ''0xd'',
      fr_controllerBindings = Some \<lparr>cb_portal = ''0xb'', cb_l2Wallet = ''0xc'',
        cb_challengeManager = ''0xd'', cb_challengeSelector = ''0xabcd''\<rparr>,
      fr_challengeCalldata = ''0xabcdef'', fr_bondWei = JStr ''5'', fr_chainId = JInt 8453,
      fr_policyExpiresAt = JInt 200000, fr_scopeHash = ''0x2'', fr_portalGasLimit = JInt 100000,
      fr_challengeDeadline = JInt 200000, fr_currentTimestamp = JInt 1000,
      fr_sequencingWindowL1Blocks = None, fr_l1BlockSeconds = None, fr_l1SafetySeconds = None\<rparr>"

definition sample_forced_plan :: forced_plan where
  "sample_forced_plan = projr (buildForcedChallengePlan sample_ethers sample_forced_request)"

lemma sample_forced_plan_made:
  "buildForcedChallengePlan sample_ethers sample_forced_request = Inr sample_forced_plan"
proof -
  have "\<not> isl (buildForcedChallengePlan sample_ethers sample_forced_request)" by code_simp
  then show ?thesis by (simp add: sample_forced_plan_def)
qed

theorem forced_plan_in_time_witness:
  "1000 + 2 * 3600 * 12 + fp_safetySeconds sample_forced_plan \<le> fp_challengeDeadline sample_forced_plan"
proof -
  have window: "fp_sequencingWindowL1Blocks sample_forced_plan = 3600"
    "fp_l1BlockSeconds sample_forced_plan = 12"
    by code_simp+
  have "js_bigint (fr_currentTimestamp sample_forced_request) = Some 1000" by code_simp
  from forced_plan_in_time [OF sample_forced_plan_made this, of 44200 87400]
  show ?thesis by (simp add: window)
qed

end
