(* ===== verification/Indexer_Publication.thy ===== *)
theory Indexer_Publication
  imports Js_Values
begin

text \<open>
  How the indexer service publishes its checkpoints (agent/indexer-service.mjs): the decision whether
  a candidate may follow what is published (\<open>monotonicCheckpointDecision\<close>,
  \<open>publishMonotonicCheckpointSync\<close>) and the crash-safe publication of generations, directories
  that hold a checkpoint with its archive (\<open>archiveTreeDigest\<close>, \<open>generationId\<close>,
  \<open>readCurrentGeneration\<close>, \<open>validateGenerationDirectory\<close>, \<open>assertMatchingGenerationTrees\<close>,
  \<open>publishGenerationSync\<close>).

  The publication root is a record: the pointer file \<open>current.json\<close>, the directories below
  \<open>generations\<close> and those below \<open>quarantine\<close>. A rename moves a directory; a publication may be
  interrupted at each of the points the code names, at a lost ownership of the lock and at a failing
  write of the pointer. Syncing files has no effect on what is read back and appears only where it
  throws. SHA-256 of the canonical texts, the strict parser and the validator of checkpoints are
  parameters.
\<close>

section \<open>Checkpoints\<close>

text \<open>
  A checkpoint: the fields that are compared and the rest of it (\<open>'b\<close>). The canonical texts of two
  checkpoints are equal exactly when the checkpoints are.
\<close>

record 'b checkpoint =
  ck_schema :: string
  ck_manifestBinding :: string
  ck_toBlock :: nat
  ck_toBlockHash :: string
  ck_complete :: bool
  ck_ok :: bool
  ck_body :: 'b

datatype pub_error =
    Not_an_object | Schema_not_published | Validator_refused | Reconstruction_incomplete
  | Schema_changed | Binding_changed | Range_regression nat nat | Conflicting_hash | Nondeterministic
  | Archive_absent | Archive_symlink | Archive_unsupported
  | Pointer_invalid | Height_not_bound | Predecessor_invalid
  | Generation_invalid | Recovery_invalid | Generation_missing
  | Legacy_unrepairable | Recovery_mismatch | Same_height_archive
  | Tree_types | Tree_bytes | Tree_files | Tree_unsupported
  | Checkpoint_changed | Checkpoint_mismatch

definition CHECKPOINT_SCHEMAS :: "string list" where
  "CHECKPOINT_SCHEMAS =
     [''p42-prizes/indexer-checkpoint/v2'', ''p42-prizes/indexer-checkpoint/v3'',
      ''p42-prizes/indexer-checkpoint/v4'']"

definition validatePublicationCheckpoint ::
  "('b checkpoint \<Rightarrow> bool) \<Rightarrow> 'b checkpoint option \<Rightarrow> pub_error + 'b checkpoint" where
  "validatePublicationCheckpoint validator file =
     and_then (of_option Not_an_object file) (\<lambda>c.
     require (ck_schema c \<in> set CHECKPOINT_SCHEMAS) Schema_not_published
     (require (validator c) Validator_refused
     (require (ck_complete c \<and> ck_ok c) Reconstruction_incomplete (Inr c))))"

datatype publication_decision = Advance | Unchanged

definition monotonicCheckpointDecision ::
  "'b checkpoint \<Rightarrow> 'b checkpoint option \<Rightarrow> pub_error + publication_decision" where
  "monotonicCheckpointDecision candidate current =
     (case current of
        None \<Rightarrow> Inr Advance
      | Some c \<Rightarrow>
         require (ck_schema candidate = ck_schema c) Schema_changed
         (require (ck_manifestBinding candidate = ck_manifestBinding c) Binding_changed
         (require (\<not> ck_toBlock candidate < ck_toBlock c)
            (Range_regression (ck_toBlock c) (ck_toBlock candidate))
         (if ck_toBlock candidate = ck_toBlock c then
            require (to_lower (ck_toBlockHash candidate) = to_lower (ck_toBlockHash c)) Conflicting_hash
              (require (candidate = c) Nondeterministic (Inr Unchanged))
          else Inr Advance))))"

text \<open>The older way of publishing, one file that is replaced. \<open>None\<close> is a missing file.\<close>

definition publishMonotonicCheckpointSync ::
  "('b checkpoint \<Rightarrow> bool) \<Rightarrow> 'b checkpoint option \<Rightarrow> 'b checkpoint option
    \<Rightarrow> pub_error + ('b checkpoint option \<times> publication_decision)" where
  "publishMonotonicCheckpointSync validator candidateFile output =
     and_then (validatePublicationCheckpoint validator candidateFile) (\<lambda>candidate.
     and_then (case output of
                 None \<Rightarrow> Inr None
               | Some f \<Rightarrow> and_then (validatePublicationCheckpoint validator (Some f)) (\<lambda>c. Inr (Some c)))
       (\<lambda>current.
     and_then (monotonicCheckpointDecision candidate current) (\<lambda>decision.
       Inr (if decision = Advance then Some candidate else output, decision))))"

section \<open>Archives\<close>

text \<open>A directory lists its entries in sorted order, as \<open>readdirSync(path).sort()\<close> does.\<close>

datatype archive =
    Arc_file string
  | Arc_dir "(string \<times> archive) list"
  | Arc_link
  | Arc_other

fun directory_archive :: "archive option \<Rightarrow> bool" where
  "directory_archive (Some (Arc_dir entries)) \<longleftrightarrow> True"
| "directory_archive a \<longleftrightarrow> False"

definition join_relative :: "string \<Rightarrow> string \<Rightarrow> string" where
  "join_relative relative entry = (if relative = [] then entry else relative @ ''/'' @ entry)"

fun visit_archive :: "string \<Rightarrow> archive \<Rightarrow> pub_error + string"
  and visit_entries :: "string \<Rightarrow> (string \<times> archive) list \<Rightarrow> pub_error + string" where
  "visit_archive relative Arc_link = Inl Archive_symlink"
| "visit_archive relative (Arc_dir entries) =
     and_then (visit_entries relative entries) (\<lambda>t.
       Inr (''directory'' @ [CHR 0x00] @ relative @ [CHR 0x00] @ t))"
| "visit_archive relative Arc_other = Inl Archive_unsupported"
| "visit_archive relative (Arc_file bytes) =
     Inr (''file'' @ [CHR 0x00] @ relative @ [CHR 0x00] @ show_nat (length bytes) @ [CHR 0x00] @ bytes)"
| "visit_entries relative [] = Inr []"
| "visit_entries relative ((entry, a) # rest) =
     and_then (visit_archive (join_relative relative entry) a) (\<lambda>t.
     and_then (visit_entries relative rest) (\<lambda>ts. Inr (t @ ts)))"

text \<open>The comparison of two trees, entry by entry.\<close>

fun match_trees :: "archive \<Rightarrow> archive \<Rightarrow> pub_error + unit"
  and match_entries :: "(string \<times> archive) list \<Rightarrow> (string \<times> archive) list \<Rightarrow> pub_error + unit" where
  "match_trees (Arc_file l) (Arc_file r) = require (l = r) Tree_bytes (Inr ())"
| "match_trees (Arc_dir l) (Arc_dir r) =
     require (map fst l = map fst r) Tree_files (match_entries l r)"
| "match_trees Arc_other Arc_other = Inl Tree_unsupported"
| "match_trees l r = Inl Tree_types"
| "match_entries ((e, l) # ls) ((f, r) # rs) =
     and_then (match_trees l r) (\<lambda>_. match_entries ls rs)"
| "match_entries ls rs = Inr ()"

section \<open>Generations\<close>

record generation_meta =
  gm_schema_version :: string
  gm_generation_id :: string
  gm_archive_sha256 :: string
  gm_checkpoint_sha256 :: string
  gm_previous :: "string option"

record recovery_note =
  rn_schema_version :: string
  rn_accepted_generation_id :: string
  rn_replaced_storage_id :: string
  rn_previous :: "string option"
  rn_condition :: string

text \<open>
  A generation directory; a file that is missing, unparsable or has other keys is \<open>None\<close>.
\<close>

record generation_dir =
  gd_checkpoint :: "string option"
  gd_archive :: "archive option"
  gd_meta :: "generation_meta option"
  gd_recovery :: "recovery_note option"

record generation_pointer =
  gp_schema_version :: string
  gp_generation_id :: string
  gp_previous :: "string option option"
  gp_storage_id :: "string option"
  gp_checkpoint_path :: string
  gp_archive_path :: string

record publication_root =
  pr_current :: "generation_pointer option"
  pr_generations :: "(string \<times> generation_dir) list"
  pr_quarantine :: "(string \<times> generation_dir) list"

record 'b publication_lib =
  pl_parse :: "string \<Rightarrow> 'b checkpoint option"
  pl_validator :: "'b checkpoint \<Rightarrow> bool"
  pl_sha256 :: "string \<Rightarrow> string"
  pl_generation_digest :: "'b checkpoint \<Rightarrow> string \<Rightarrow> string option \<Rightarrow> string"
  pl_legacy_digest :: "'b checkpoint \<Rightarrow> string \<Rightarrow> string"
  pl_recovery_digest :: "recovery_note \<Rightarrow> string"
  pl_link_digest :: "string \<Rightarrow> string \<Rightarrow> string"

definition archiveTreeDigest :: "'b publication_lib \<Rightarrow> archive option \<Rightarrow> pub_error + string" where
  "archiveTreeDigest pl a =
     and_then (of_option Archive_absent a) (\<lambda>t.
     and_then (visit_archive [] t) (\<lambda>text. Inr (pl_sha256 pl text)))"

definition padded_height :: "nat \<Rightarrow> string" where
  "padded_height n = (let s = show_nat n in replicate (16 - length s) (CHR ''0'') @ s)"

definition generationId :: "'b publication_lib \<Rightarrow> 'b checkpoint \<Rightarrow> string \<Rightarrow> string option \<Rightarrow> string" where
  "generationId pl c archiveSha previous =
     padded_height (ck_toBlock c) @ ''-'' @ pl_generation_digest pl c archiveSha previous"

definition legacyGenerationId :: "'b publication_lib \<Rightarrow> 'b checkpoint \<Rightarrow> string \<Rightarrow> string" where
  "legacyGenerationId pl c archiveSha = padded_height (ck_toBlock c) @ ''-'' @ pl_legacy_digest pl c archiveSha"

text \<open>\<open>basename(s) === s\<close>.\<close>

definition plain_name :: "string \<Rightarrow> bool" where
  "plain_name s \<longleftrightarrow> CHR ''/'' \<notin> set s"

definition plain_or_none :: "string option \<Rightarrow> bool" where
  "plain_or_none s = (case s of None \<Rightarrow> True | Some n \<Rightarrow> plain_name n)"

definition recovery_storage :: "'b publication_lib \<Rightarrow> string \<Rightarrow> recovery_note \<Rightarrow> string" where
  "recovery_storage pl gid note = gid @ ''-recovery-'' @ pl_recovery_digest pl note"

definition check_recovery ::
  "'b publication_lib \<Rightarrow> generation_dir \<Rightarrow> string \<Rightarrow> string \<Rightarrow> generation_meta \<Rightarrow> pub_error + unit" where
  "check_recovery pl g gid storage m =
     (if storage = gid then Inr ()
      else and_then (of_option Recovery_invalid (gd_recovery g)) (\<lambda>note.
        require (rn_schema_version note = ''p42-indexer-generation-recovery/v1'' \<and>
            rn_accepted_generation_id note = gid \<and> rn_previous note = gm_previous m \<and>
            rn_condition note \<in> {''corrupt'', ''missing''} \<and> plain_name (rn_replaced_storage_id note) \<and>
            storage = recovery_storage pl gid note) Recovery_invalid (Inr ())))"

definition validateGenerationDirectory ::
  "'b publication_lib \<Rightarrow> generation_dir option \<Rightarrow> string \<Rightarrow> string \<Rightarrow> bool
    \<Rightarrow> pub_error + ('b checkpoint \<times> generation_meta)" where
  "validateGenerationDirectory pl dir gid storage legacy =
     and_then (of_option Generation_missing dir) (\<lambda>g.
     and_then (of_option Generation_invalid (gd_meta g)) (\<lambda>m.
     and_then (of_option Generation_invalid (gd_checkpoint g)) (\<lambda>bytes.
     and_then (validatePublicationCheckpoint (pl_validator pl) (pl_parse pl bytes)) (\<lambda>c.
     and_then (archiveTreeDigest pl (gd_archive g)) (\<lambda>archiveSha.
     require (gm_schema_version m =
           (if legacy then ''p42-indexer-generation/v2'' else ''p42-indexer-generation/v3'') \<and>
         gm_generation_id m = gid \<and> plain_or_none (gm_previous m) \<and>
         gm_checkpoint_sha256 m = pl_sha256 pl bytes \<and> gm_archive_sha256 m = archiveSha \<and>
         (if legacy then legacyGenerationId pl c archiveSha = gid
          else generationId pl c archiveSha (gm_previous m) = gid) \<and>
         directory_archive (gd_archive g)) Generation_invalid
     (and_then (check_recovery pl g gid storage m) (\<lambda>_. Inr (c, m))))))))"

text \<open>What is published: the pointer and, when its directory is intact, the checkpoint and metadata.\<close>

record 'b current_generation =
  cg_pointer :: generation_pointer
  cg_storage_id :: string
  cg_intact :: "('b checkpoint \<times> generation_meta) option"

definition V1 :: string where "V1 = ''p42-indexer-generation-pointer/v1''"
definition V2 :: string where "V2 = ''p42-indexer-generation-pointer/v2''"
definition V3 :: string where "V3 = ''p42-indexer-generation-pointer/v3''"

definition pointer_storage :: "generation_pointer \<Rightarrow> string option" where
  "pointer_storage p =
     (if gp_schema_version p = V1 then Some (gp_generation_id p) else gp_storage_id p)"

definition pointer_shape :: "generation_pointer \<Rightarrow> string \<Rightarrow> bool" where
  "pointer_shape p storage \<longleftrightarrow>
     gp_schema_version p \<in> {V1, V2, V3} \<and>
     (gp_schema_version p = V1 \<longleftrightarrow> gp_storage_id p = None) \<and>
     (gp_schema_version p = V3 \<longleftrightarrow> gp_previous p \<noteq> None) \<and>
     (case gp_previous p of Some q \<Rightarrow> plain_or_none q | None \<Rightarrow> True) \<and>
     plain_name (gp_generation_id p) \<and> plain_name storage \<and>
     gp_checkpoint_path p = ''generations/'' @ storage @ ''/checkpoint.json'' \<and>
     gp_archive_path p = ''generations/'' @ storage @ ''/archive''"

definition height_digit :: "char \<Rightarrow> bool" where
  "height_digit c \<longleftrightarrow> c \<in> set ''0123456789''"

definition hex_lower :: "char \<Rightarrow> bool" where
  "hex_lower c \<longleftrightarrow> c \<in> set ''0123456789abcdef''"

definition generation_id_format :: "string \<Rightarrow> bool" where
  "generation_id_format s \<longleftrightarrow>
     length s = 81 \<and> list_all height_digit (take 16 s) \<and> s ! 16 = CHR ''-'' \<and>
     list_all hex_lower (drop 17 s)"

definition read_intact ::
  "'b publication_lib \<Rightarrow> publication_root \<Rightarrow> generation_pointer \<Rightarrow> string
    \<Rightarrow> pub_error + ('b checkpoint \<times> generation_meta)" where
  "read_intact pl root p storage =
     and_then (validateGenerationDirectory pl (map_of (pr_generations root) storage)
                 (gp_generation_id p) storage (gp_schema_version p \<noteq> V3)) (\<lambda>(c, m).
     require (gp_schema_version p \<noteq> V3 \<or> gp_previous p = Some (gm_previous m)) Predecessor_invalid
     (require (take 17 (gp_generation_id p) = padded_height (ck_toBlock c) @ ''-'') Height_not_bound
       (Inr (c, m))))"

definition readCurrentGeneration ::
  "'b publication_lib \<Rightarrow> publication_root \<Rightarrow> pub_error + 'b current_generation option" where
  "readCurrentGeneration pl root =
     (case pr_current root of
        None \<Rightarrow> Inr None
      | Some p \<Rightarrow>
         and_then (of_option Pointer_invalid (pointer_storage p)) (\<lambda>storage.
         require (pointer_shape p storage) Pointer_invalid
         (require (generation_id_format (gp_generation_id p)) Height_not_bound
         (Inr (Some \<lparr>cg_pointer = p, cg_storage_id = storage,
            cg_intact = (case read_intact pl root p storage of Inl e \<Rightarrow> None | Inr x \<Rightarrow> Some x)\<rparr>)))))"

section \<open>Publishing a generation\<close>

text \<open>
  Where a publication can be interrupted; \<open>Pointer_write_fails\<close> is a pointer writer that throws
  without having replaced the file.
\<close>

datatype failure_point =
    Not_owned | Before_generation_rename | After_generation_rename | Ownership_lost
  | Before_pointer_publish | Pointer_write_fails | After_pointer_publish
  | Before_quarantine_rename | After_quarantine_rename

datatype pub_outcome =
    Published publication_decision string string
  | Refused pub_error
  | Interrupted failure_point

type_synonym publication_step = "publication_root \<times> pub_outcome"

definition contains_text :: "string \<Rightarrow> string \<Rightarrow> bool" where
  "contains_text s t \<longleftrightarrow> list_ex (\<lambda>i. take (length s) (drop i t) = s) [0..<Suc (length t)]"

fun has_link :: "archive \<Rightarrow> bool" where
  "has_link Arc_link = True"
| "has_link Arc_other = True"
| "has_link (Arc_file b) = False"
| "has_link (Arc_dir es) = list_ex (\<lambda>e. has_link (snd e)) es"

definition dir_has_link :: "generation_dir \<Rightarrow> bool" where
  "dir_has_link g = (case gd_archive g of None \<Rightarrow> False | Some a \<Rightarrow> has_link a)"

definition remove_name :: "string \<Rightarrow> (string \<times> 'a) list \<Rightarrow> (string \<times> 'a) list" where
  "remove_name n = filter (\<lambda>e. fst e \<noteq> n)"

text \<open>
  \<open>quarantineReplacedGeneration\<close>: after a recovery the directory it replaced is moved away, which the
  syncing refuses when it holds anything but files and directories.
\<close>

definition quarantineReplacedGeneration ::
  "'b publication_lib \<Rightarrow> failure_point option \<Rightarrow> string \<Rightarrow> pub_outcome \<Rightarrow> publication_root \<Rightarrow> publication_step" where
  "quarantineReplacedGeneration pl fails accepted done root =
     (if \<not> contains_text ''-recovery-'' accepted then (root, done)
      else case map_of (pr_generations root) accepted of
        None \<Rightarrow> (root, Refused Generation_missing)
      | Some g \<Rightarrow>
         (case gd_recovery g of
            None \<Rightarrow> (root, Refused Recovery_invalid)
          | Some note \<Rightarrow>
             (let replaced = rn_replaced_storage_id note;
                  name = ''replaced-generation-'' @ pl_link_digest pl replaced accepted
              in case map_of (pr_generations root) replaced of
                   None \<Rightarrow> (root, done)
                 | Some old \<Rightarrow>
                    if map_of (pr_quarantine root) name \<noteq> None then (root, done)
                    else if dir_has_link old
                    then (root, Refused Archive_symlink)
                    else if fails = Some Before_quarantine_rename then (root, Interrupted Before_quarantine_rename)
                    else
                      (let moved = root\<lparr>pr_generations := remove_name replaced (pr_generations root),
                                        pr_quarantine := (name, old) # pr_quarantine root\<rparr>
                       in if fails = Some After_quarantine_rename
                          then (moved, Interrupted After_quarantine_rename) else (moved, done)))))"

text \<open>The candidate, the decision, the digest of its archive and its generation id.\<close>

definition decide_generation ::
  "'b publication_lib \<Rightarrow> 'b current_generation option \<Rightarrow> generation_dir
    \<Rightarrow> pub_error + ('b checkpoint \<times> publication_decision \<times> string \<times> string)" where
  "decide_generation pl current stage =
     and_then (validatePublicationCheckpoint (pl_validator pl)
                 (case gd_checkpoint stage of None \<Rightarrow> None | Some b \<Rightarrow> pl_parse pl b)) (\<lambda>candidate.
     require (directory_archive (gd_archive stage)) Archive_absent
     (and_then (archiveTreeDigest pl (gd_archive stage)) (\<lambda>archiveSha.
      case current of
        None \<Rightarrow>
          and_then (monotonicCheckpointDecision candidate None) (\<lambda>decision.
            Inr (candidate, decision, archiveSha, generationId pl candidate archiveSha None))
      | Some cur \<Rightarrow>
         (case cg_intact cur of
            None \<Rightarrow>
              require (gp_schema_version (cg_pointer cur) = V3) Legacy_unrepairable
              (let gid = generationId pl candidate archiveSha (the (gp_previous (cg_pointer cur)))
               in require (read_nat 10 (take 16 (gp_generation_id (cg_pointer cur))) =
                             Some (ck_toBlock candidate) \<and>
                           gid = gp_generation_id (cg_pointer cur)) Recovery_mismatch
                    (Inr (candidate, Unchanged, archiveSha, gid)))
          | Some (c, m) \<Rightarrow>
              and_then (monotonicCheckpointDecision candidate (Some c)) (\<lambda>decision.
              let previous = (if decision = Unchanged then gm_previous m
                              else Some (gp_generation_id (cg_pointer cur)));
                  gid = generationId pl candidate archiveSha previous
              in require (\<not> (decision = Unchanged \<and> gid \<noteq> gp_generation_id (cg_pointer cur)))
                   Same_height_archive (Inr (candidate, decision, archiveSha, gid)))))))"

text \<open>
  The predecessor the metadata and the pointer name: that of the generation itself when it is published
  again, the published generation otherwise.
\<close>

definition pointer_previous :: "'b current_generation \<Rightarrow> string option" where
  "pointer_previous cur =
     (case cg_intact cur of
        Some (c, m) \<Rightarrow> gm_previous m
      | None \<Rightarrow> (case gp_previous (cg_pointer cur) of None \<Rightarrow> None | Some q \<Rightarrow> q))"

definition new_previous :: "'b current_generation option \<Rightarrow> publication_decision \<Rightarrow> string option" where
  "new_previous current decision =
     (case current of
        None \<Rightarrow> None
      | Some cur \<Rightarrow> if decision = Unchanged then pointer_previous cur
                    else Some (gp_generation_id (cg_pointer cur)))"

definition recovery_for ::
  "publication_root \<Rightarrow> 'b current_generation \<Rightarrow> string \<Rightarrow> recovery_note" where
  "recovery_for root cur gid =
     \<lparr>rn_schema_version = ''p42-indexer-generation-recovery/v1'', rn_accepted_generation_id = gid,
      rn_replaced_storage_id = cg_storage_id cur, rn_previous = pointer_previous cur,
      rn_condition = (if map_of (pr_generations root) (cg_storage_id cur) \<noteq> None
                      then ''corrupt'' else ''missing'')\<rparr>"

text \<open>
  Whether the accepted directory is repaired, the storage it gets, and the stage with the metadata
  (and the note of the recovery) written into it.
\<close>

definition repairs :: "'b current_generation option \<Rightarrow> publication_decision \<Rightarrow> bool" where
  "repairs current decision \<longleftrightarrow>
     decision = Unchanged \<and> (case current of None \<Rightarrow> False | Some cur \<Rightarrow> cg_intact cur = None)"

definition storage_for ::
  "'b publication_lib \<Rightarrow> publication_root \<Rightarrow> 'b current_generation option \<Rightarrow> publication_decision
    \<Rightarrow> string \<Rightarrow> string" where
  "storage_for pl root current decision gid =
     (if repairs current decision then recovery_storage pl gid (recovery_for root (the current) gid)
      else if decision = Unchanged then cg_storage_id (the current) else gid)"

definition prepared_stage ::
  "'b publication_lib \<Rightarrow> publication_root \<Rightarrow> 'b current_generation option \<Rightarrow> publication_decision
    \<Rightarrow> string \<Rightarrow> string \<Rightarrow> generation_dir \<Rightarrow> generation_dir" where
  "prepared_stage pl root current decision archiveSha gid stage =
     stage\<lparr>gd_meta := Some
             \<lparr>gm_schema_version = ''p42-indexer-generation/v3'', gm_generation_id = gid,
              gm_archive_sha256 = archiveSha,
              gm_checkpoint_sha256 = pl_sha256 pl (the (gd_checkpoint stage)),
              gm_previous = new_previous current decision\<rparr>,
           gd_recovery := (if repairs current decision
                           then Some (recovery_for root (the current) gid) else gd_recovery stage)\<rparr>"

text \<open>An existing directory must hold exactly what was generated again.\<close>

definition check_existing ::
  "'b publication_lib \<Rightarrow> generation_dir \<Rightarrow> string \<Rightarrow> string \<Rightarrow> 'b checkpoint \<Rightarrow> generation_dir \<Rightarrow> pub_error
    \<Rightarrow> pub_error + unit" where
  "check_existing pl existing gid storage candidate stage mismatch =
     and_then (validateGenerationDirectory pl (Some existing) gid storage False) (\<lambda>(c, m).
     require (c = candidate) mismatch
       (match_trees (the (gd_archive existing)) (the (gd_archive stage))))"

definition new_pointer :: "string \<Rightarrow> string option \<Rightarrow> string \<Rightarrow> generation_pointer" where
  "new_pointer gid previous storage =
     \<lparr>gp_schema_version = V3, gp_generation_id = gid, gp_previous = Some previous,
      gp_storage_id = Some storage,
      gp_checkpoint_path = ''generations/'' @ storage @ ''/checkpoint.json'',
      gp_archive_path = ''generations/'' @ storage @ ''/archive''\<rparr>"

text \<open>The end of a publication: the pointer is replaced.\<close>

definition publish_pointer ::
  "'b publication_lib \<Rightarrow> failure_point option \<Rightarrow> 'b current_generation option \<Rightarrow> publication_decision
    \<Rightarrow> string \<Rightarrow> string \<Rightarrow> publication_root \<Rightarrow> publication_step" where
  "publish_pointer pl fails current decision gid storage root =
     (if fails = Some Ownership_lost then (root, Interrupted Ownership_lost)
      else if fails = Some Before_pointer_publish then (root, Interrupted Before_pointer_publish)
      else if fails = Some Pointer_write_fails then (root, Interrupted Pointer_write_fails)
      else
        (let root' = root\<lparr>pr_current := Some (new_pointer gid (new_previous current decision) storage)\<rparr>
         in if fails = Some After_pointer_publish then (root', Interrupted After_pointer_publish)
            else if repairs current decision \<and> cg_storage_id (the current) \<noteq> storage
            then quarantineReplacedGeneration pl fails storage (Published decision gid storage) root'
            else (root', Published decision gid storage)))"

definition place_generation ::
  "'b publication_lib \<Rightarrow> failure_point option \<Rightarrow> 'b current_generation option \<Rightarrow> publication_decision
    \<Rightarrow> string \<Rightarrow> string \<Rightarrow> 'b checkpoint \<Rightarrow> generation_dir \<Rightarrow> publication_root \<Rightarrow> publication_step" where
  "place_generation pl fails current decision gid storage candidate prepared root =
     (case map_of (pr_generations root) storage of
        Some existing \<Rightarrow>
          (case check_existing pl existing gid storage candidate prepared Checkpoint_mismatch of
             Inl e \<Rightarrow> (root, Refused e)
           | Inr _ \<Rightarrow> publish_pointer pl fails current decision gid storage root)
      | None \<Rightarrow>
          if fails = Some Before_generation_rename then (root, Interrupted Before_generation_rename)
          else
            (let placed = root\<lparr>pr_generations := (storage, prepared) # pr_generations root\<rparr>
             in if fails = Some After_generation_rename then (placed, Interrupted After_generation_rename)
                else publish_pointer pl fails current decision gid storage placed))"

text \<open>
  \<open>rejected\<close> is the random name a refused stage is moved to; the syncing before that refuses a stage
  with a link in it, which then stays where it is.
\<close>

definition publishGenerationSync ::
  "'b publication_lib \<Rightarrow> failure_point option \<Rightarrow> string \<Rightarrow> generation_dir \<Rightarrow> publication_root \<Rightarrow> publication_step" where
  "publishGenerationSync pl fails rejected stage root =
     (if fails = Some Not_owned then (root, Interrupted Not_owned)
      else case readCurrentGeneration pl root of
        Inl e \<Rightarrow> (root, Refused e)
      | Inr current \<Rightarrow>
         (case decide_generation pl current stage of
            Inl e \<Rightarrow>
              (if dir_has_link stage then (root, Refused Archive_symlink)
               else (root\<lparr>pr_quarantine := (rejected, stage) # pr_quarantine root\<rparr>, Refused e))
          | Inr (candidate, decision, archiveSha, gid) \<Rightarrow>
             (let storage = storage_for pl root current decision gid;
                  prepared = prepared_stage pl root current decision archiveSha gid stage;
                  again = (decision = Unchanged \<and> \<not> repairs current decision)
              in case validateGenerationDirectory pl (Some prepared) gid
                        (if again then gid else storage) False of
                   Inl e \<Rightarrow> (root, Refused e)
                 | Inr _ \<Rightarrow>
                    if again then
                      (case map_of (pr_generations root) storage of
                         None \<Rightarrow> (root, Refused Generation_missing)
                       | Some existing \<Rightarrow>
                          (case check_existing pl existing gid storage candidate prepared Checkpoint_changed of
                             Inl e \<Rightarrow> (root, Refused e)
                           | Inr _ \<Rightarrow> quarantineReplacedGeneration pl fails storage
                                        (Published decision gid storage) root))
                    else place_generation pl fails current decision gid storage candidate prepared root)))"

end
