(* ===== verification/Publication_Lemmas.thy ===== *)
theory Publication_Lemmas
  imports Indexer_Publication
begin

text \<open>
  The facts about names, validated directories, reading and the steps of a publication that the
  properties of the publication rest on.
\<close>

section \<open>What is assumed of the digests\<close>

text \<open>
  Digests are 64 lower case hexadecimal digits, and the validator refuses heights beyond the safe
  integers. That an attempt meets no collision of SHA-256 is said of the values it compares, in
  \<open>no_collision\<close> below.
\<close>

definition hex_digest :: "string \<Rightarrow> bool" where
  "hex_digest s \<longleftrightarrow> length s = 64 \<and> list_all hex_lower s"

definition publication_lib_ok :: "'b publication_lib \<Rightarrow> bool" where
  "publication_lib_ok pl \<longleftrightarrow>
     (\<forall>c a p. hex_digest (pl_generation_digest pl c a p)) \<and>
     (\<forall>n. hex_digest (pl_recovery_digest pl n)) \<and>
     (\<forall>c. pl_validator pl c \<longrightarrow> safe_integer (int (ck_toBlock c)))"

section \<open>Names\<close>

lemma show_nat_digits: "list_all height_digit (show_nat n)"
proof (induction n rule: show_nat.induct)
  case (1 n)
  have "\<forall>d \<in> set [0..<10]. height_digit (digit_char d)" by code_simp
  then have "height_digit (digit_char d)" if "d < 10" for d
    using that by auto
  then show ?case
    using 1 by (subst show_nat.simps) simp
qed

lemma show_nat_length: "n < 10 ^ Suc k \<Longrightarrow> length (show_nat n) \<le> Suc k"
proof (induction k arbitrary: n)
  case 0
  then show ?case by (simp add: show_nat.simps)
next
  case (Suc k)
  show ?case
  proof (cases "n < 10")
    case True
    then show ?thesis by (simp add: show_nat.simps)
  next
    case False
    have "n div 10 < 10 ^ Suc k" using Suc.prems by (simp add: less_mult_imp_div_less)
    then show ?thesis using Suc.IH [of "n div 10"] False by (simp add: show_nat.simps [of n])
  qed
qed

lemma padded_height_ok:
  assumes "safe_integer (int n)"
  shows "length (padded_height n) = 16" "list_all height_digit (padded_height n)"
proof -
  have "n < 10 ^ 16" using assms by (simp add: safe_integer_def)
  then have "length (show_nat n) \<le> 16" using show_nat_length [of n 15] by simp
  then show "length (padded_height n) = 16" by (simp add: padded_height_def Let_def)
  show "list_all height_digit (padded_height n)"
  proof -
    have "height_digit (CHR ''0'')" by code_simp
    then show ?thesis
      using show_nat_digits [of n] by (auto simp: padded_height_def Let_def list_all_iff)
  qed
qed

lemma format_join:
  assumes "length p = 16" "list_all height_digit p" "hex_digest d"
  shows "generation_id_format (p @ CHR ''-'' # d)"
  using assms nth_append_length [of p "CHR ''-''" d]
  by (simp add: generation_id_format_def hex_digest_def)

lemma generation_id_ok:
  assumes "publication_lib_ok pl" "pl_validator pl c"
  shows "generation_id_format (generationId pl c a p)"
    "take 17 (generationId pl c a p) = padded_height (ck_toBlock c) @ ''-''"
proof -
  have safe: "safe_integer (int (ck_toBlock c))" and hex: "hex_digest (pl_generation_digest pl c a p)"
    using assms by (auto simp: publication_lib_ok_def)
  note padded = padded_height_ok [OF safe]
  show "generation_id_format (generationId pl c a p)"
    using format_join [OF padded hex] by (simp add: generationId_def)
  show "take 17 (generationId pl c a p) = padded_height (ck_toBlock c) @ ''-''"
    using padded by (simp add: generationId_def)
qed

lemma generation_id_chars:
  assumes "generation_id_format gid" "c \<in> set gid"
  shows "height_digit c \<or> c = CHR ''-'' \<or> hex_lower c"
proof -
  have "gid = take 16 gid @ gid ! 16 # drop 17 gid"
    using assms id_take_nth_drop [of 16 gid] by (simp add: generation_id_format_def)
  then have "c \<in> set (take 16 gid) \<or> c = gid ! 16 \<or> c \<in> set (drop 17 gid)"
    using assms(2) by (metis Un_iff insert_iff list.simps(15) set_append)
  then show ?thesis using assms(1) by (auto simp: generation_id_format_def list_all_iff)
qed

lemma no_such_digit:
  "\<not> height_digit CHR ''/''" "\<not> hex_lower CHR ''/''" "\<not> height_digit CHR ''r''" "\<not> hex_lower CHR ''r''"
  by code_simp+

lemma generation_id_plain: "generation_id_format gid \<Longrightarrow> plain_name gid"
  using generation_id_chars [of gid "CHR ''/''"] no_such_digit by (auto simp: plain_name_def)

lemma generation_id_no_recovery:
  assumes "generation_id_format gid" shows "\<not> contains_text ''-recovery-'' gid"
proof
  assume "contains_text ''-recovery-'' gid"
  then obtain i where i: "take (length ''-recovery-'') (drop i gid) = ''-recovery-''"
    unfolding contains_text_def list_ex_iff by blast
  have "set (take (length ''-recovery-'') (drop i gid)) \<subseteq> set gid"
    by (meson set_drop_subset set_take_subset subset_trans)
  then have "CHR ''r'' \<in> set gid" unfolding i by auto
  then show False using generation_id_chars [OF assms] no_such_digit by auto
qed

lemma recovery_storage_plain:
  assumes "publication_lib_ok pl" "plain_name gid" shows "plain_name (recovery_storage pl gid note)"
proof -
  have "list_all hex_lower (pl_recovery_digest pl note)"
    using assms(1) by (simp add: publication_lib_ok_def hex_digest_def)
  then have "CHR ''/'' \<notin> set (pl_recovery_digest pl note)"
    using no_such_digit by (auto simp: list_all_iff)
  then show ?thesis using assms(2) by (simp add: plain_name_def recovery_storage_def)
qed

section \<open>Validated directories\<close>

lemma directory_archive_iff [simp]: "directory_archive a \<longleftrightarrow> (\<exists>es. a = Some (Arc_dir es))"
  by (cases a rule: directory_archive.cases) simp_all

lemma validateGeneration_facts:
  assumes "validateGenerationDirectory pl (Some g) gid storage False = Inr (c, m)"
  shows "gd_meta g = Some m" "\<exists>b. gd_checkpoint g = Some b \<and> pl_parse pl b = Some c"
    "pl_validator pl c" "\<exists>a. archiveTreeDigest pl (gd_archive g) = Inr a \<and>
      gid = generationId pl c a (gm_previous m)"
    "plain_or_none (gm_previous m)"
    "storage = gid \<or> (\<exists>note. gd_recovery g = Some note \<and> storage = recovery_storage pl gid note)"
  using assms
  by (auto simp: validateGenerationDirectory_def validatePublicationCheckpoint_def check_recovery_def
      split: if_splits)

lemma check_existing_facts:
  assumes "check_existing pl g gid storage c stage e = Inr u"
  shows "\<exists>m. validateGenerationDirectory pl (Some g) gid storage False = Inr (c, m)"
    "match_trees (the (gd_archive g)) (the (gd_archive stage)) = Inr u"
  using assms by (auto simp: check_existing_def split: prod.splits)

lemma match_entries_eq:
  "match_trees l r = Inr u \<Longrightarrow> l = r"
  "map fst ls = map fst rs \<Longrightarrow> match_entries ls rs = Inr u \<Longrightarrow> ls = rs"
  by (induction l r and ls rs rule: match_trees_match_entries.induct) auto

section \<open>Reading what is published\<close>

lemma versions: "V1 \<noteq> V3" "V2 \<noteq> V3" "V1 \<noteq> V2"
  by (simp_all add: V1_def V2_def V3_def)

lemma read_unchanged:
  assumes "pr_current root' = pr_current root"
    and "\<And>p storage. pr_current root = Some p \<Longrightarrow> pointer_storage p = Some storage
      \<Longrightarrow> map_of (pr_generations root') storage = map_of (pr_generations root) storage"
  shows "readCurrentGeneration pl root' = readCurrentGeneration pl root"
proof (cases "pr_current root")
  case None
  then show ?thesis using assms(1) by (simp add: readCurrentGeneration_def)
next
  case (Some p)
  show ?thesis
  proof (cases "pointer_storage p")
    case None
    then show ?thesis using assms(1) Some by (simp add: readCurrentGeneration_def)
  next
    case (Some storage)
    then have "read_intact pl root' p storage = read_intact pl root p storage"
      using assms(2) \<open>pr_current root = Some p\<close> by (simp add: read_intact_def)
    then show ?thesis
      using assms(1) Some \<open>pr_current root = Some p\<close> by (simp add: readCurrentGeneration_def)
  qed
qed

lemma read_new_pointer:
  assumes ok: "publication_lib_ok pl"
    and valid: "validateGenerationDirectory pl (map_of (pr_generations root) storage) gid storage False = Inr (c, m)"
    and current: "pr_current root = Some (new_pointer gid (gm_previous m) storage)"
  shows "readCurrentGeneration pl root =
    Inr (Some \<lparr>cg_pointer = new_pointer gid (gm_previous m) storage, cg_storage_id = storage,
               cg_intact = Some (c, m)\<rparr>)"
proof -
  obtain g where g: "map_of (pr_generations root) storage = Some g"
    using valid by (cases "map_of (pr_generations root) storage")
      (auto simp: validateGenerationDirectory_def)
  note facts = validateGeneration_facts [OF valid [unfolded g]]
  obtain a where gid: "gid = generationId pl c a (gm_previous m)" using facts(4) by blast
  note format = generation_id_ok [OF ok facts(3), of a "gm_previous m", folded gid]
  have plain: "plain_name gid" by (rule generation_id_plain [OF format(1)])
  have "plain_name storage" using facts(6) plain recovery_storage_plain [OF ok plain] by auto
  then have shape: "pointer_shape (new_pointer gid (gm_previous m) storage) storage"
    using facts(5) plain versions by (simp add: pointer_shape_def new_pointer_def)
  have "read_intact pl root (new_pointer gid (gm_previous m) storage) storage = Inr (c, m)"
    using valid format(2) by (simp add: read_intact_def new_pointer_def)
  then show ?thesis
    using current shape format(1) versions
    by (simp add: readCurrentGeneration_def pointer_storage_def new_pointer_def)
qed

section \<open>One publication\<close>

definition successor ::
  "'b current_generation option \<Rightarrow> 'b checkpoint \<Rightarrow> string \<Rightarrow> string option \<Rightarrow> bool" where
  "successor current c gid previous \<longleftrightarrow>
     (case current of
        None \<Rightarrow> previous = None
      | Some cur \<Rightarrow>
         (case cg_intact cur of
            None \<Rightarrow> gid = gp_generation_id (cg_pointer cur) \<and> gp_previous (cg_pointer cur) = Some previous
          | Some (c0, m0) \<Rightarrow>
              ck_schema c = ck_schema c0 \<and> ck_manifestBinding c = ck_manifestBinding c0 \<and>
              ck_toBlock c0 \<le> ck_toBlock c \<and>
              (if ck_toBlock c = ck_toBlock c0
               then c = c0 \<and> gid = gp_generation_id (cg_pointer cur) \<and> previous = gm_previous m0
               else previous = Some (gp_generation_id (cg_pointer cur)))))"

definition current_shape :: "'b current_generation option \<Rightarrow> bool" where
  "current_shape current \<longleftrightarrow>
     (case current of None \<Rightarrow> True
      | Some cur \<Rightarrow> pointer_shape (cg_pointer cur) (cg_storage_id cur) \<and>
          generation_id_format (gp_generation_id (cg_pointer cur)))"

lemma read_shape: "readCurrentGeneration pl root = Inr current \<Longrightarrow> current_shape current"
  by (auto simp: readCurrentGeneration_def current_shape_def split: option.splits)

lemma read_intact_present:
  "read_intact pl root p storage = Inr x \<Longrightarrow> map_of (pr_generations root) storage \<noteq> None"
  by (cases "map_of (pr_generations root) storage")
    (auto simp: read_intact_def validateGenerationDirectory_def)

lemma read_storage:
  assumes "readCurrentGeneration pl root = Inr (Some cur)"
  shows "pr_current root = Some (cg_pointer cur)" "pointer_storage (cg_pointer cur) = Some (cg_storage_id cur)"
    "cg_intact cur = (case read_intact pl root (cg_pointer cur) (cg_storage_id cur) of
       Inl e \<Rightarrow> None | Inr x \<Rightarrow> Some x)"
  using assms by (auto simp: readCurrentGeneration_def split: option.splits)

lemma read_storage_present:
  assumes "readCurrentGeneration pl root = Inr (Some cur)" "cg_intact cur = Some x"
  shows "map_of (pr_generations root) (cg_storage_id cur) \<noteq> None"
proof -
  have "read_intact pl root (cg_pointer cur) (cg_storage_id cur) = Inr x"
    using read_storage(3) [OF assms(1)] assms(2) by (auto split: sum.splits)
  then show ?thesis by (rule read_intact_present)
qed

lemma read_None: "readCurrentGeneration pl root = Inr None \<Longrightarrow> pr_current root = None"
  by (auto simp: readCurrentGeneration_def split: option.splits)

lemma decide_facts:
  assumes "decide_generation pl current stage = Inr (candidate, decision, sha, gid)" "current_shape current"
  shows "archiveTreeDigest pl (gd_archive stage) = Inr sha" "pl_validator pl candidate"
    "\<exists>b. gd_checkpoint stage = Some b \<and> pl_parse pl b = Some candidate"
    "gid = generationId pl candidate sha (new_previous current decision)"
    "successor current candidate gid (new_previous current decision)"
    "decision = Unchanged \<Longrightarrow> \<exists>cur. current = Some cur \<and> gid = gp_generation_id (cg_pointer cur)"
proof -
  have checked: "archiveTreeDigest pl (gd_archive stage) = Inr sha \<and> pl_validator pl candidate \<and>
      (\<exists>b. gd_checkpoint stage = Some b \<and> pl_parse pl b = Some candidate)"
    using assms(1)
    by (auto simp: decide_generation_def validatePublicationCheckpoint_def Let_def
        split: option.splits if_splits prod.splits)
  then show "archiveTreeDigest pl (gd_archive stage) = Inr sha" "pl_validator pl candidate"
    "\<exists>b. gd_checkpoint stage = Some b \<and> pl_parse pl b = Some candidate" by simp_all
  show "gid = generationId pl candidate sha (new_previous current decision)"
    using assms checked
    by (auto simp: decide_generation_def new_previous_def pointer_previous_def Let_def current_shape_def
        pointer_shape_def monotonicCheckpointDecision_def split: option.splits if_splits prod.splits)
  show "successor current candidate gid (new_previous current decision)"
    using assms checked
    by (auto simp: decide_generation_def new_previous_def pointer_previous_def Let_def current_shape_def
        pointer_shape_def successor_def monotonicCheckpointDecision_def
        split: option.splits if_splits prod.splits)
  show "\<exists>cur. current = Some cur \<and> gid = gp_generation_id (cg_pointer cur)" if "decision = Unchanged"
    using assms checked that
    by (auto simp: decide_generation_def Let_def monotonicCheckpointDecision_def
        split: option.splits if_splits prod.splits)
qed

lemma map_of_remove_name [simp]:
  "map_of (remove_name n xs) k = (if k = n then None else map_of xs k)"
  by (induction xs) (auto simp: remove_name_def)

lemma quarantine_shape:
  assumes "quarantineReplacedGeneration pl fails accepted done root = (root', out)"
  shows "root' = root \<or>
    (\<exists>g note. contains_text ''-recovery-'' accepted \<and> map_of (pr_generations root) accepted = Some g \<and>
       gd_recovery g = Some note \<and> pr_current root' = pr_current root \<and>
       pr_generations root' = remove_name (rn_replaced_storage_id note) (pr_generations root))"
  using assms unfolding quarantineReplacedGeneration_def Let_def
  by (simp split: if_splits option.splits) auto

lemma quarantine_keeps:
  assumes "quarantineReplacedGeneration pl fails accepted done root = (root', out)"
    and "\<And>g note. contains_text ''-recovery-'' accepted \<Longrightarrow> map_of (pr_generations root) accepted = Some g
      \<Longrightarrow> gd_recovery g = Some note \<Longrightarrow> rn_replaced_storage_id note \<noteq> accepted"
  shows "pr_current root' = pr_current root \<and>
    map_of (pr_generations root') accepted = map_of (pr_generations root) accepted"
  using quarantine_shape [OF assms(1)] assms(2) by (metis map_of_remove_name)

lemma quarantine_outcome:
  assumes "quarantineReplacedGeneration pl fails accepted done root = (root', out)"
    "out = Published d gid storage"
  shows "done = Published d gid storage"
  using assms by (auto simp: quarantineReplacedGeneration_def Let_def split: if_splits option.splits)

text \<open>
  The generation that is to be accepted: a directory that validates under its storage, holds the
  candidate and names the right predecessor.
\<close>

definition holds_generation ::
  "'b publication_lib \<Rightarrow> publication_root \<Rightarrow> string \<Rightarrow> string \<Rightarrow> 'b checkpoint \<Rightarrow> string option \<Rightarrow> bool" where
  "holds_generation pl root storage gid c previous \<longleftrightarrow>
     (\<exists>m. validateGenerationDirectory pl (map_of (pr_generations root) storage) gid storage False = Inr (c, m) \<and>
          gm_previous m = previous)"

text \<open>
  An attempt meets no collision when a directory that is already there has the generation id of the
  candidate only if it names the same predecessor, and no recovered directory has the name of the one
  it replaces, which its own name is a digest of.
\<close>

definition entry_apart ::
  "'b publication_lib \<Rightarrow> 'b checkpoint \<Rightarrow> string \<Rightarrow> string \<Rightarrow> string option \<Rightarrow> generation_dir \<Rightarrow> bool" where
  "entry_apart pl candidate sha gid previous g \<longleftrightarrow>
     (case gd_meta g of None \<Rightarrow> True
      | Some m \<Rightarrow> generationId pl candidate sha (gm_previous m) \<noteq> gid \<or> gm_previous m = previous) \<and>
     (case gd_recovery g of None \<Rightarrow> True
      | Some note \<Rightarrow> recovery_storage pl gid note \<noteq> rn_replaced_storage_id note)"

definition no_collision :: "'b publication_lib \<Rightarrow> generation_dir \<Rightarrow> publication_root \<Rightarrow> bool" where
  "no_collision pl stage root \<longleftrightarrow>
     (case readCurrentGeneration pl root of
        Inl e \<Rightarrow> True
      | Inr current \<Rightarrow>
         (case decide_generation pl current stage of
            Inl e \<Rightarrow> True
          | Inr (candidate, decision, sha, gid) \<Rightarrow>
              list_all (\<lambda>e. entry_apart pl candidate sha gid (new_previous current decision) (snd e))
                (pr_generations root) \<and>
              (case current of None \<Rightarrow> True
               | Some cur \<Rightarrow> recovery_storage pl gid (recovery_for root cur gid) \<noteq> cg_storage_id cur)))"

lemma entry_apart_facts:
  assumes "entry_apart pl candidate sha gid previous g"
  shows "gd_meta g = Some m \<Longrightarrow> generationId pl candidate sha (gm_previous m) = gid \<Longrightarrow> gm_previous m = previous"
    "gd_recovery g = Some note \<Longrightarrow> recovery_storage pl gid note \<noteq> rn_replaced_storage_id note"
  using assms by (auto simp: entry_apart_def)

lemma no_collision_entry:
  assumes "no_collision pl stage root" "readCurrentGeneration pl root = Inr current"
    and "decide_generation pl current stage = Inr (candidate, decision, sha, gid)"
    and "map_of (pr_generations root) s = Some g"
  shows "entry_apart pl candidate sha gid (new_previous current decision) g"
  using assms map_of_SomeD [OF assms(4)] by (auto simp: no_collision_def list_all_iff)

lemma no_collision_facts:
  assumes "no_collision pl stage root" "readCurrentGeneration pl root = Inr current"
    and "decide_generation pl current stage = Inr (candidate, decision, sha, gid)"
  shows "map_of (pr_generations root) s = Some g \<Longrightarrow> gd_meta g = Some m
      \<Longrightarrow> generationId pl candidate sha (gm_previous m) = gid \<Longrightarrow> gm_previous m = new_previous current decision"
    "map_of (pr_generations root) s = Some g \<Longrightarrow> gd_recovery g = Some note
      \<Longrightarrow> recovery_storage pl gid note \<noteq> rn_replaced_storage_id note"
    "current = Some cur \<Longrightarrow> recovery_storage pl gid (recovery_for root cur gid) \<noteq> cg_storage_id cur"
proof -
  show "map_of (pr_generations root) s = Some g \<Longrightarrow> gd_meta g = Some m
      \<Longrightarrow> generationId pl candidate sha (gm_previous m) = gid \<Longrightarrow> gm_previous m = new_previous current decision"
    "map_of (pr_generations root) s = Some g \<Longrightarrow> gd_recovery g = Some note
      \<Longrightarrow> recovery_storage pl gid note \<noteq> rn_replaced_storage_id note"
    using no_collision_entry [OF assms] entry_apart_facts by blast+
  show "current = Some cur \<Longrightarrow> recovery_storage pl gid (recovery_for root cur gid) \<noteq> cg_storage_id cur"
    using assms by (simp add: no_collision_def)
qed

lemma replaced_elsewhere:
  assumes gid: "generation_id_format gid"
    and valid: "validateGenerationDirectory pl (Some g) gid storage False = Inr (c, m)"
    and contains: "contains_text ''-recovery-'' storage" and kept: "gd_recovery g = Some note"
    and apart: "recovery_storage pl gid note \<noteq> rn_replaced_storage_id note"
  shows "rn_replaced_storage_id note \<noteq> storage"
proof -
  have "storage \<noteq> gid" using contains generation_id_no_recovery [OF gid] by blast
  then have "storage = recovery_storage pl gid note"
    using validateGeneration_facts(6) [OF valid] kept by auto
  then show ?thesis using apart by simp
qed

lemma publish_pointer_reads:
  assumes ok: "publication_lib_ok pl" and gid: "generation_id_format gid"
    and holds: "holds_generation pl root storage gid c (new_previous current decision)"
    and apart: "\<And>g note. map_of (pr_generations root) storage = Some g \<Longrightarrow> gd_recovery g = Some note
      \<Longrightarrow> contains_text ''-recovery-'' storage \<Longrightarrow> recovery_storage pl gid note \<noteq> rn_replaced_storage_id note"
    and publish: "publish_pointer pl fails current decision gid storage root = (root', out)"
  shows "(root' = root \<and> (\<forall>d g s. out \<noteq> Published d g s)) \<or>
    (\<exists>m. readCurrentGeneration pl root' = Inr (Some
       \<lparr>cg_pointer = new_pointer gid (new_previous current decision) storage, cg_storage_id = storage,
        cg_intact = Some (c, m)\<rparr>) \<and> gm_previous m = new_previous current decision)"
proof -
  let ?root = "root\<lparr>pr_current := Some (new_pointer gid (new_previous current decision) storage)\<rparr>"
  obtain m where m: "validateGenerationDirectory pl (map_of (pr_generations root) storage) gid storage False = Inr (c, m)"
      "gm_previous m = new_previous current decision"
    using holds by (auto simp: holds_generation_def)
  obtain g where g: "map_of (pr_generations root) storage = Some g"
    using m(1) by (cases "map_of (pr_generations root) storage") (auto simp: validateGenerationDirectory_def)
  note elsewhere = replaced_elsewhere [OF gid m(1) [unfolded g]]
  consider (kept) "root' = root" "\<forall>d g s. out \<noteq> Published d g s"
    | (written) "root' = ?root"
    | (moved) "quarantineReplacedGeneration pl fails storage (Published decision gid storage) ?root = (root', out)"
    using publish by (auto simp: publish_pointer_def Let_def split: if_splits)
  then show ?thesis
  proof cases
    case written
    then show ?thesis using read_new_pointer [OF ok, of root' storage gid c m] m by auto
  next
    case moved
    have "pr_current root' = pr_current ?root \<and>
        map_of (pr_generations root') storage = map_of (pr_generations ?root) storage"
      by (rule quarantine_keeps [OF moved]) (use elsewhere apart g in auto)
    then show ?thesis using read_new_pointer [OF ok, of root' storage gid c m] m by auto
  qed blast
qed

text \<open>What is already there under the storage is the candidate's generation.\<close>

lemma existing_holds:
  assumes check: "check_existing pl existing gid storage c prepared e = Inr u"
    and archive: "archiveTreeDigest pl (gd_archive prepared) = Inr sha" "gd_archive prepared = Some a"
    and apart: "\<And>m. gd_meta existing = Some m \<Longrightarrow> generationId pl c sha (gm_previous m) = gid
      \<Longrightarrow> gm_previous m = previous"
  shows "\<exists>m. validateGenerationDirectory pl (Some existing) gid storage False = Inr (c, m) \<and> gm_previous m = previous"
proof -
  obtain m where m: "validateGenerationDirectory pl (Some existing) gid storage False = Inr (c, m)"
    using check_existing_facts(1) [OF check] by blast
  obtain sha' where sha': "archiveTreeDigest pl (gd_archive existing) = Inr sha'"
      "gid = generationId pl c sha' (gm_previous m)"
    using validateGeneration_facts(4) [OF m] by blast
  have "the (gd_archive existing) = a"
    using match_entries_eq(1) [OF check_existing_facts(2) [OF check]] archive(2) by simp
  moreover have "gd_archive existing \<noteq> None" using sha'(1) by (auto simp: archiveTreeDigest_def)
  ultimately have "sha' = sha" using sha'(1) archive by auto
  then have "gm_previous m = previous"
    using apart [OF validateGeneration_facts(1) [OF m]] sha'(2) by simp
  then show ?thesis using m by blast
qed

lemma prepared_holds:
  assumes valid: "validateGenerationDirectory pl (Some (prepared_stage pl root current decision sha gid stage))
      gid storage False = Inr x"
    and c: "gd_checkpoint stage = Some b" "pl_parse pl b = Some c"
  shows "\<exists>m. validateGenerationDirectory pl (Some (prepared_stage pl root current decision sha gid stage))
      gid storage False = Inr (c, m) \<and> gm_previous m = new_previous current decision"
proof -
  obtain c' m where x: "x = (c', m)" by (cases x)
  note facts = validateGeneration_facts [OF valid [unfolded x]]
  have "c' = c" using facts(2) c by (auto simp: prepared_stage_def)
  moreover have "gm_previous m = new_previous current decision"
    using facts(1) by (auto simp: prepared_stage_def)
  ultimately show ?thesis using valid x by auto
qed

end
