(* ===== verification/Publication_Properties.thy ===== *)
theory Publication_Properties
  imports Publication_Lemmas
begin

text \<open>
  What the publication of generations guarantees when it may be interrupted at any point: readers
  always find an intact generation, heights never go back, a damaged generation is only replaced by
  one with the same identity, and an interrupted publication completes when it is tried again.
\<close>

section \<open>Placing a generation\<close>

definition published :: "pub_outcome \<Rightarrow> bool" where
  "published out \<longleftrightarrow> (case out of Published d g s \<Rightarrow> True | _ \<Rightarrow> False)"

lemma published_simps [simp]:
  "published (Published d g s)" "\<not> published (Refused e)" "\<not> published (Interrupted p)"
  by (simp_all add: published_def)

definition reads_generation ::
  "'b publication_lib \<Rightarrow> publication_root \<Rightarrow> string \<Rightarrow> string \<Rightarrow> 'b checkpoint \<Rightarrow> string option \<Rightarrow> bool" where
  "reads_generation pl root gid storage c previous \<longleftrightarrow>
     (\<exists>m. readCurrentGeneration pl root = Inr (Some
        \<lparr>cg_pointer = new_pointer gid previous storage, cg_storage_id = storage, cg_intact = Some (c, m)\<rparr>) \<and>
        gm_previous m = previous)"

lemma publish_pointer_cases:
  assumes "publication_lib_ok pl" "generation_id_format gid"
    "holds_generation pl root storage gid c (new_previous current decision)"
    "\<And>g note. map_of (pr_generations root) storage = Some g \<Longrightarrow> gd_recovery g = Some note
      \<Longrightarrow> contains_text ''-recovery-'' storage \<Longrightarrow> recovery_storage pl gid note \<noteq> rn_replaced_storage_id note"
    "publish_pointer pl fails current decision gid storage root = (root', out)"
  shows "(root' = root \<and> \<not> published out) \<or>
    reads_generation pl root' gid storage c (new_previous current decision)"
proof -
  have "(\<forall>d g s. out \<noteq> Published d g s) \<longleftrightarrow> \<not> published out" by (cases out) auto
  then show ?thesis
    using publish_pointer_reads [OF assms(1-3) _ assms(5)] assms(4) unfolding reads_generation_def
    by blast
qed

lemma place_generation_cases:
  assumes ok: "publication_lib_ok pl" and apart: "no_collision pl stage root"
    and read: "readCurrentGeneration pl root = Inr current"
    and decide: "decide_generation pl current stage = Inr (c, decision, sha, gid)"
    and prepared: "prepared = prepared_stage pl root current decision sha gid stage"
    and storage: "storage = storage_for pl root current decision gid"
    and valid: "validateGenerationDirectory pl (Some prepared) gid storage False = Inr x"
    and first: "\<not> (decision = Unchanged \<and> \<not> repairs current decision)"
    and place: "place_generation pl fails current decision gid storage c prepared root = (root', out)"
  shows "(readCurrentGeneration pl root' = Inr current \<and> \<not> published out) \<or>
    reads_generation pl root' gid storage c (new_previous current decision)"
proof -
  note facts = decide_facts [OF decide read_shape [OF read]]
  note free = no_collision_facts [OF apart read decide]
  obtain b where b: "gd_checkpoint stage = Some b" "pl_parse pl b = Some c" using facts(3) by blast
  have format: "generation_id_format gid"
    using generation_id_ok(1) [OF ok facts(2)] facts(4) by simp
  have same: "gd_archive prepared = gd_archive stage" by (simp add: prepared prepared_stage_def)
  obtain a where a: "gd_archive stage = Some a"
    using facts(1) by (cases "gd_archive stage") (auto simp: archiveTreeDigest_def)
  show ?thesis
  proof (cases "map_of (pr_generations root) storage")
    case (Some existing)
    show ?thesis
    proof (cases "check_existing pl existing gid storage c prepared Checkpoint_mismatch")
      case (Inl e)
      then have "root' = root" "\<not> published out"
        using place Some by (auto simp: place_generation_def)
      then show ?thesis using read by simp
    next
      case (Inr u)
      have "\<exists>m. validateGenerationDirectory pl (Some existing) gid storage False = Inr (c, m) \<and>
          gm_previous m = new_previous current decision"
        by (rule existing_holds [OF Inr]) (use facts(1,4) same a free(1) [OF Some] in auto)
      then have holds: "holds_generation pl root storage gid c (new_previous current decision)"
        by (simp add: holds_generation_def Some)
      have "publish_pointer pl fails current decision gid storage root = (root', out)"
        using place Some Inr by (simp add: place_generation_def)
      then show ?thesis
        using publish_pointer_cases [OF ok format holds, of fails root' out] free(2) read by blast
    qed
  next
    case None
    let ?placed = "root\<lparr>pr_generations := (storage, prepared) # pr_generations root\<rparr>"
    have "storage \<noteq> cg_storage_id cur" if "current = Some cur" for cur
    proof (cases "repairs current decision")
      case True
      then show ?thesis using free(3) [OF that] that by (simp add: storage storage_for_def)
    next
      case False
      then have "decision \<noteq> Unchanged" using first by blast
      have "cg_intact cur \<noteq> None"
      proof
        assume "cg_intact cur = None"
        then show False using decide that \<open>decision \<noteq> Unchanged\<close>
          by (auto simp: decide_generation_def Let_def)
      qed
      then show ?thesis using read_storage_present [of pl root cur] read that None by auto
    qed
    then have elsewhere: "s \<noteq> storage" if "pr_current root = Some p" "pointer_storage p = Some s" for p s
      using that read read_None [of pl root] read_storage(1,2) [of pl root] by (cases current) auto
    have kept: "readCurrentGeneration pl ?placed = Inr current"
      by (rule trans [OF read_unchanged read]) (use elsewhere in auto)
    have "holds_generation pl ?placed storage gid c (new_previous current decision)"
      using prepared_holds [OF valid [unfolded prepared] b] by (simp add: holds_generation_def prepared)
    note pointed = publish_pointer_cases [OF ok format this, of fails root' out]
    have fresh: "recovery_storage pl gid n \<noteq> rn_replaced_storage_id n"
      if "gd_recovery prepared = Some n" "contains_text ''-recovery-'' storage" for n
    proof -
      have "repairs current decision"
        using that(2) generation_id_no_recovery [OF format] first
        by (cases "repairs current decision") (auto simp: storage storage_for_def)
      moreover from this obtain cur where "current = Some cur" by (auto simp: repairs_def split: option.splits)
      ultimately show ?thesis
        using that(1) free(3) by (auto simp: prepared prepared_stage_def recovery_for_def)
    qed
    consider "root' = root" "\<not> published out" | "root' = ?placed" "\<not> published out"
      | "publish_pointer pl fails current decision gid storage ?placed = (root', out)"
      using place None by (auto simp: place_generation_def Let_def split: if_splits)
    then show ?thesis
    proof cases
      case 3
      then show ?thesis using pointed fresh kept by auto
    qed (use read kept in auto)
  qed
qed

section \<open>One attempt\<close>

definition stage_checkpoint :: "'b publication_lib \<Rightarrow> generation_dir \<Rightarrow> 'b checkpoint option" where
  "stage_checkpoint pl stage = (case gd_checkpoint stage of None \<Rightarrow> None | Some b \<Rightarrow> pl_parse pl b)"

lemma quarantine_reads:
  assumes read: "readCurrentGeneration pl root = Inr current"
    and decide: "decide_generation pl current stage = Inr (c, Unchanged, sha, gid)"
    and apart: "no_collision pl stage root" and cur: "current = Some cur" "cg_storage_id cur = storage"
    and gid: "generation_id_format gid"
    and existing: "map_of (pr_generations root) storage = Some existing"
    and valid: "validateGenerationDirectory pl (Some existing) gid storage False = Inr x"
    and quarantine: "quarantineReplacedGeneration pl fails storage done root = (root', out)"
  shows "readCurrentGeneration pl root' = Inr current"
proof -
  obtain c' m where x: "x = (c', m)" by (cases x)
  have "pr_current root' = pr_current root \<and>
      map_of (pr_generations root') storage = map_of (pr_generations root) storage"
    by (rule quarantine_keeps [OF quarantine])
      (use replaced_elsewhere [OF gid valid [unfolded x]] no_collision_facts(2) [OF apart read decide]
        existing in auto)
  then show ?thesis
    using read_storage(1,2) [of pl root cur] read cur by (intro trans [OF read_unchanged read]) auto
qed

text \<open>
  Either readers still find what was published before, or they find the candidate as its successor.
\<close>

lemma publish_step:
  assumes ok: "publication_lib_ok pl" and apart: "no_collision pl stage root"
    and read: "readCurrentGeneration pl root = Inr current"
    and step: "publishGenerationSync pl fails rejected stage root = (root', out)"
  shows "(readCurrentGeneration pl root' = Inr current \<and>
      (published out \<longrightarrow> (\<exists>cur c m. current = Some cur \<and> cg_intact cur = Some (c, m) \<and>
         stage_checkpoint pl stage = Some c))) \<or>
    (\<exists>c gid storage previous. reads_generation pl root' gid storage c previous \<and>
       stage_checkpoint pl stage = Some c \<and> successor current c gid previous)"
proof (cases "decide_generation pl current stage")
  case (Inl e)
  then have "pr_current root' = pr_current root" "pr_generations root' = pr_generations root" "\<not> published out"
    using step read by (auto simp: publishGenerationSync_def split: if_splits)
  then show ?thesis using trans [OF read_unchanged read] by auto
next
  case (Inr r)
  obtain c decision sha gid where r: "r = (c, decision, sha, gid)" by (cases r)
  note decide = Inr [unfolded r]
  note facts = decide_facts [OF decide read_shape [OF read]]
  have staged: "stage_checkpoint pl stage = Some c" using facts(3) by (auto simp: stage_checkpoint_def)
  have format: "generation_id_format gid" using generation_id_ok(1) [OF ok facts(2)] facts(4) by simp
  let ?storage = "storage_for pl root current decision gid"
  let ?prepared = "prepared_stage pl root current decision sha gid stage"
  let ?again = "decision = Unchanged \<and> \<not> repairs current decision"
  consider (same) "root' = root" "\<not> published out"
    | (again) existing u where "?again" "map_of (pr_generations root) ?storage = Some existing"
        "check_existing pl existing gid ?storage c ?prepared Checkpoint_changed = Inr u"
        "quarantineReplacedGeneration pl fails ?storage (Published decision gid ?storage) root = (root', out)"
    | (first) x where "\<not> ?again" "validateGenerationDirectory pl (Some ?prepared) gid ?storage False = Inr x"
        "place_generation pl fails current decision gid ?storage c ?prepared root = (root', out)"
    using step read decide
    by (auto simp: publishGenerationSync_def Let_def split: if_splits sum.splits option.splits)
  then show ?thesis
  proof cases
    case same
    then show ?thesis using read by simp
  next
    case again
    obtain cur where cur: "current = Some cur" using facts(6) again(1) by blast
    have storage: "cg_storage_id cur = ?storage" using again(1) cur by (auto simp: storage_for_def)
    obtain m where m: "validateGenerationDirectory pl (Some existing) gid ?storage False = Inr (c, m)"
      using check_existing_facts(1) [OF again(3)] by blast
    have kept: "readCurrentGeneration pl root' = Inr current"
      using quarantine_reads [OF read _ apart cur storage format again(2) m again(4)] decide again(1) by blast
    obtain c0 m0 where intact: "cg_intact cur = Some (c0, m0)"
      using again(1) cur by (auto simp: repairs_def)
    have "c0 = c"
      using decide again(1) cur intact
      by (auto simp: decide_generation_def monotonicCheckpointDecision_def Let_def split: if_splits)
    then show ?thesis using kept cur intact staged by blast
  next
    case first
    show ?thesis
      using place_generation_cases [OF ok apart read decide refl refl first(2,1,3)] staged facts(5) by blast
  qed
qed

section \<open>Runs of attempts\<close>

type_synonym attempt = "failure_point option \<times> string \<times> generation_dir"

fun publication_run ::
  "'b publication_lib \<Rightarrow> attempt list \<Rightarrow> publication_root \<Rightarrow> publication_root \<times> pub_outcome list" where
  "publication_run pl [] root = (root, [])"
| "publication_run pl ((fails, rejected, stage) # rest) root =
     (let (root1, out) = publishGenerationSync pl fails rejected stage root;
          (root2, outs) = publication_run pl rest root1
      in (root2, out # outs))"

fun run_avoids_collisions :: "'b publication_lib \<Rightarrow> attempt list \<Rightarrow> publication_root \<Rightarrow> bool" where
  "run_avoids_collisions pl [] root = True"
| "run_avoids_collisions pl ((fails, rejected, stage) # rest) root \<longleftrightarrow>
     no_collision pl stage root \<and>
     run_avoids_collisions pl rest (fst (publishGenerationSync pl fails rejected stage root))"

definition published_checkpoint :: "'b current_generation option \<Rightarrow> 'b checkpoint option" where
  "published_checkpoint current =
     (case current of None \<Rightarrow> None | Some cur \<Rightarrow> map_option fst (cg_intact cur))"

definition undamaged :: "'b current_generation option \<Rightarrow> bool" where
  "undamaged current \<longleftrightarrow> (current = None \<or> published_checkpoint current \<noteq> None)"

definition extends_checkpoint :: "'b checkpoint \<Rightarrow> 'b checkpoint \<Rightarrow> bool" where
  "extends_checkpoint c c' \<longleftrightarrow>
     ck_schema c' = ck_schema c \<and> ck_manifestBinding c' = ck_manifestBinding c \<and>
     ck_toBlock c \<le> ck_toBlock c' \<and> (ck_toBlock c' = ck_toBlock c \<longrightarrow> c' = c)"

definition covers_checkpoint :: "'b current_generation option \<Rightarrow> 'b checkpoint \<Rightarrow> bool" where
  "covers_checkpoint current c \<longleftrightarrow>
     (case published_checkpoint current of None \<Rightarrow> False | Some c' \<Rightarrow> extends_checkpoint c c')"

lemma extends_checkpoint_refl [simp]: "extends_checkpoint c c"
  by (simp add: extends_checkpoint_def)

lemma extends_checkpoint_trans: "extends_checkpoint a b \<Longrightarrow> extends_checkpoint b c \<Longrightarrow> extends_checkpoint a c"
  by (auto simp: extends_checkpoint_def)

lemma covers_trans:
  assumes "covers_checkpoint current c"
    and "\<And>d. published_checkpoint current = Some d \<Longrightarrow> covers_checkpoint current' d"
  shows "covers_checkpoint current' c"
  using assms by (auto simp: covers_checkpoint_def split: option.splits dest: extends_checkpoint_trans)

lemma published_step:
  assumes "publication_lib_ok pl" "no_collision pl stage root"
    "readCurrentGeneration pl root = Inr current" "undamaged current"
    "publishGenerationSync pl fails rejected stage root = (root', out)"
  shows "\<exists>current'. readCurrentGeneration pl root' = Inr current' \<and> undamaged current' \<and>
     (\<forall>c. published_checkpoint current = Some c \<longrightarrow> covers_checkpoint current' c) \<and>
     (published out \<longrightarrow> (\<exists>c. stage_checkpoint pl stage = Some c \<and> published_checkpoint current' = Some c))"
  using publish_step [OF assms(1-3,5)]
proof (elim disjE exE conjE)
  assume "readCurrentGeneration pl root' = Inr current"
    "published out \<longrightarrow> (\<exists>cur c m. current = Some cur \<and> cg_intact cur = Some (c, m) \<and>
         stage_checkpoint pl stage = Some c)"
  then show ?thesis
    using assms(4) by (auto simp: published_checkpoint_def covers_checkpoint_def)
next
  fix c gid storage previous
  assume "reads_generation pl root' gid storage c previous" "stage_checkpoint pl stage = Some c"
    "successor current c gid previous"
  then show ?thesis
    using assms(4)
    by (auto simp: reads_generation_def published_checkpoint_def covers_checkpoint_def undamaged_def
        successor_def extends_checkpoint_def split: option.splits if_splits)
qed

lemma publication_run_invariant:
  assumes "publication_lib_ok pl" "run_avoids_collisions pl attempts root"
    "readCurrentGeneration pl root = Inr current" "undamaged current"
    "publication_run pl attempts root = (root', outs)"
  shows "\<exists>current'. readCurrentGeneration pl root' = Inr current' \<and> undamaged current' \<and>
     (\<forall>c. published_checkpoint current = Some c \<longrightarrow> covers_checkpoint current' c) \<and>
     (\<forall>((fails, rejected, stage), out) \<in> set (zip attempts outs). published out \<longrightarrow>
        (\<exists>c. stage_checkpoint pl stage = Some c \<and> covers_checkpoint current' c))"
  using assms(2-)
proof (induction attempts arbitrary: root current outs)
  case Nil
  then show ?case by (auto simp: covers_checkpoint_def)
next
  case (Cons attempt rest)
  obtain fails rejected stage where attempt: "attempt = (fails, rejected, stage)" by (cases attempt)
  obtain root1 out where step: "publishGenerationSync pl fails rejected stage root = (root1, out)"
    by (cases "publishGenerationSync pl fails rejected stage root")
  obtain outs1 where run: "publication_run pl rest root1 = (root', outs1)" "outs = out # outs1"
    using Cons.prems(4) by (auto simp: attempt step split: prod.splits)
  obtain current1 where first: "readCurrentGeneration pl root1 = Inr current1" "undamaged current1"
      "\<And>c. published_checkpoint current = Some c \<Longrightarrow> covers_checkpoint current1 c"
      "published out \<Longrightarrow> \<exists>c. stage_checkpoint pl stage = Some c \<and> published_checkpoint current1 = Some c"
    using published_step [OF assms(1) _ Cons.prems(2,3) step] Cons.prems(1) by (auto simp: attempt)
  obtain current' where rest: "readCurrentGeneration pl root' = Inr current'" "undamaged current'"
      "\<And>c. published_checkpoint current1 = Some c \<Longrightarrow> covers_checkpoint current' c"
      "\<forall>((fails, rejected, stage), out) \<in> set (zip rest outs1). published out \<longrightarrow>
        (\<exists>c. stage_checkpoint pl stage = Some c \<and> covers_checkpoint current' c)"
    using Cons.IH [OF _ first(1,2) run(1)] Cons.prems(1) by (auto simp: attempt step)
  have "covers_checkpoint current' c" if "published_checkpoint current = Some c" for c
    using covers_trans [OF first(3) [OF that] rest(3)] .
  then show ?case
    using rest(1,2,4) first(4) rest(3) by (auto simp: attempt run(2))
qed

text \<open>
  C19. Publications of the indexer service, interrupted at whatever point or refused, never take
  readers back. From a root with nothing or an intact generation published, after any sequence of
  attempts, \<open>readCurrentGeneration\<close> succeeds and finds nothing damaged; what it finds has the schema
  and binding of what was published before, at no lower height, and is the same checkpoint at the same
  height; and every attempt that reported its checkpoint as published is covered in the same way.
\<close>

theorem publication_run_monotone:
  assumes "publication_lib_ok pl" "run_avoids_collisions pl attempts root"
    "readCurrentGeneration pl root = Inr current" "undamaged current"
    "publication_run pl attempts root = (root', outs)"
  shows "\<exists>current'. readCurrentGeneration pl root' = Inr current' \<and> undamaged current' \<and>
     (\<forall>c. published_checkpoint current = Some c \<longrightarrow> covers_checkpoint current' c) \<and>
     (\<forall>((fails, rejected, stage), out) \<in> set (zip attempts outs). published out \<longrightarrow>
        (\<exists>c. stage_checkpoint pl stage = Some c \<and> covers_checkpoint current' c))"
  by (rule publication_run_invariant [OF assms])

text \<open>
  C21. A generation whose directory is damaged or gone is only ever repaired. After an attempt the
  reader finds either the same damaged generation or an intact one that has its generation id and
  predecessor, read from the bytes of the attempt's stage; and an attempt that reports success has
  repaired it.
\<close>

theorem publication_repairs:
  assumes "publication_lib_ok pl" "no_collision pl stage root"
    "readCurrentGeneration pl root = Inr (Some cur)" "cg_intact cur = None"
    "publishGenerationSync pl fails rejected stage root = (root', out)"
  shows "\<exists>cur'. readCurrentGeneration pl root' = Inr (Some cur') \<and>
     gp_generation_id (cg_pointer cur') = gp_generation_id (cg_pointer cur) \<and>
     (cur' = cur \<and> \<not> published out \<or>
      gp_previous (cg_pointer cur') = gp_previous (cg_pointer cur) \<and>
      published_checkpoint (Some cur') \<noteq> None \<and>
      published_checkpoint (Some cur') = stage_checkpoint pl stage)"
  using publish_step [OF assms(1-3,5)]
proof (elim disjE exE conjE)
  assume "readCurrentGeneration pl root' = Inr (Some cur)"
    "published out \<longrightarrow> (\<exists>cur' c m. Some cur = Some cur' \<and> cg_intact cur' = Some (c, m) \<and>
         stage_checkpoint pl stage = Some c)"
  then show ?thesis using assms(4) by auto
next
  fix c gid storage previous
  assume "reads_generation pl root' gid storage c previous" "stage_checkpoint pl stage = Some c"
    "successor (Some cur) c gid previous"
  then show ?thesis
    using assms(4)
    by (auto simp: reads_generation_def published_checkpoint_def successor_def new_pointer_def)
qed

end
