(* ===== verification/Publication_Recovery.thy ===== *)
theory Publication_Recovery
  imports Publication_Properties
begin

text \<open>
  Trying again after an interruption, and what becomes of the directories: the second attempt with the
  same stage completes the publication, and no directory that was there is lost.
\<close>

section \<open>Trying again\<close>

lemma match_refl:
  "visit_archive r a = Inr t \<Longrightarrow> match_trees a a = Inr ()"
  "visit_entries r es = Inr ts \<Longrightarrow> match_entries es es = Inr ()"
  by (induction r a and r es arbitrary: t and ts rule: visit_archive_visit_entries.induct) auto

lemma check_existing_mismatch:
  "check_existing pl g gid storage c stage e = Inr u \<Longrightarrow> check_existing pl g gid storage c stage e' = Inr ()"
  by (auto simp: check_existing_def split: prod.splits)

lemma check_prepared:
  assumes "validateGenerationDirectory pl (Some g) gid storage False = Inr (c, m)"
  shows "check_existing pl g gid storage c g e = Inr ()"
proof -
  obtain a t where "gd_archive g = Some a" "visit_archive [] a = Inr t"
    using validateGeneration_facts(4) [OF assms]
    by (cases "gd_archive g") (auto simp: archiveTreeDigest_def)
  then show ?thesis using assms match_refl(1) by (auto simp: check_existing_def)
qed

lemma not_repairs: "undamaged current \<Longrightarrow> \<not> repairs current decision"
  by (auto simp: undamaged_def repairs_def published_checkpoint_def split: option.splits)

lemma prepared_undamaged:
  assumes "undamaged current"
  shows "prepared_stage pl root' current decision sha gid stage = prepared_stage pl root current decision sha gid stage"
    "storage_for pl root' current decision gid = storage_for pl root current decision gid"
  using not_repairs [OF assms] by (simp_all add: prepared_stage_def storage_for_def)

lemma decide_again:
  assumes "decide_generation pl current stage = Inr (c, decision, sha, gid)" "current_shape current"
    and "cg_intact cur = Some (c, m)" "gm_previous m = new_previous current decision"
    and "gp_generation_id (cg_pointer cur) = gid"
  shows "decide_generation pl (Some cur) stage = Inr (c, Unchanged, sha, gid)"
proof -
  note facts = decide_facts [OF assms(1,2)]
  have "\<exists>x. validatePublicationCheckpoint (pl_validator pl)
          (case gd_checkpoint stage of None \<Rightarrow> None | Some b \<Rightarrow> pl_parse pl b) = Inr x"
      and directory: "\<exists>es. gd_archive stage = Some (Arc_dir es)"
    using assms(1) by (auto simp: decide_generation_def)
  then have "validatePublicationCheckpoint (pl_validator pl)
          (case gd_checkpoint stage of None \<Rightarrow> None | Some b \<Rightarrow> pl_parse pl b) = Inr c"
    using facts(3) by (auto simp: validatePublicationCheckpoint_def)
  then show ?thesis
    using facts(1,4) assms(3-) directory
    by (auto simp: decide_generation_def monotonicCheckpointDecision_def Let_def)
qed

text \<open>The two ways in which an attempt that nothing interrupts succeeds.\<close>

lemma advance_succeeds:
  assumes read: "readCurrentGeneration pl root = Inr current" and undamaged: "undamaged current"
    and decide: "decide_generation pl current stage = Inr (c, decision, sha, gid)" and first: "decision \<noteq> Unchanged"
    and valid: "validateGenerationDirectory pl
      (Some (prepared_stage pl root current decision sha gid stage)) gid gid False = Inr x"
    and there: "map_of (pr_generations root) gid = None \<or>
      (\<exists>e u. map_of (pr_generations root) gid = Some e \<and>
        check_existing pl e gid gid c (prepared_stage pl root current decision sha gid stage) Checkpoint_mismatch = Inr u)"
  shows "published (snd (publishGenerationSync pl None rejected stage root))"
  using assms not_repairs [OF undamaged, of decision]
  by (auto simp: publishGenerationSync_def storage_for_def Let_def place_generation_def publish_pointer_def)

lemma again_succeeds:
  assumes read: "readCurrentGeneration pl root = Inr (Some cur)" and undamaged: "undamaged (Some cur)"
    and decide: "decide_generation pl (Some cur) stage = Inr (c, Unchanged, sha, gid)"
    and valid: "validateGenerationDirectory pl
      (Some (prepared_stage pl root (Some cur) Unchanged sha gid stage)) gid gid False = Inr x"
    and there: "map_of (pr_generations root) (cg_storage_id cur) = Some e"
      "check_existing pl e gid (cg_storage_id cur) c
         (prepared_stage pl root (Some cur) Unchanged sha gid stage) Checkpoint_changed = Inr u"
    and quarantine: "quarantineReplacedGeneration pl None (cg_storage_id cur)
      (Published Unchanged gid (cg_storage_id cur)) root = (root', Published Unchanged gid (cg_storage_id cur))"
  shows "published (snd (publishGenerationSync pl None rejected stage root))"
  using assms not_repairs [OF undamaged, of Unchanged]
  by (simp add: publishGenerationSync_def storage_for_def Let_def)

lemma quarantine_retry:
  assumes "quarantineReplacedGeneration pl fails accepted done root = (root', Interrupted p)"
    "done \<noteq> Interrupted p"
    "map_of (pr_generations root') accepted = map_of (pr_generations root) accepted"
  shows "\<exists>root''. quarantineReplacedGeneration pl None accepted done root' = (root'', done)"
  using assms
  by (auto simp: quarantineReplacedGeneration_def Let_def split: if_splits option.splits)

section \<open>What an interruption leaves\<close>

lemma interrupted_pointer:
  assumes "publish_pointer pl fails current decision gid storage root = (root', Interrupted p)"
    "\<not> repairs current decision"
  shows "pr_generations root' = pr_generations root"
  using assms by (auto simp: publish_pointer_def Let_def split: if_splits)

lemma interrupted_place:
  assumes valid: "validateGenerationDirectory pl (Some prepared) gid storage False = Inr (c, m)"
    and repairs: "\<not> repairs current decision"
    and place: "place_generation pl fails current decision gid storage c prepared root = (root', Interrupted p)"
  shows "map_of (pr_generations root') storage = None \<or>
    (\<exists>e u. map_of (pr_generations root') storage = Some e \<and>
       check_existing pl e gid storage c prepared Checkpoint_mismatch = Inr u)"
proof (cases "map_of (pr_generations root) storage")
  case (Some existing)
  then obtain u where "check_existing pl existing gid storage c prepared Checkpoint_mismatch = Inr u"
      "publish_pointer pl fails current decision gid storage root = (root', Interrupted p)"
    using place by (auto simp: place_generation_def split: sum.splits)
  then show ?thesis using Some interrupted_pointer repairs by fastforce
next
  case None
  let ?placed = "root\<lparr>pr_generations := (storage, prepared) # pr_generations root\<rparr>"
  consider "root' = root" | "root' = ?placed"
    | "publish_pointer pl fails current decision gid storage ?placed = (root', Interrupted p)"
    using place None by (auto simp: place_generation_def Let_def split: if_splits)
  then have "root' = root \<or> pr_generations root' = pr_generations ?placed"
    by cases (use interrupted_pointer [OF _ repairs, of pl fails gid storage ?placed root' p] in auto)
  then show ?thesis using None check_prepared [OF valid] by auto
qed

lemma retry_succeeds:
  assumes ok: "publication_lib_ok pl" and apart: "no_collision pl stage root"
    and read: "readCurrentGeneration pl root = Inr current" and undamaged: "undamaged current"
    and step: "publishGenerationSync pl fails rejected stage root = (root', Interrupted p)" and p: "p \<noteq> Not_owned"
  shows "published (snd (publishGenerationSync pl None rejected' stage root'))"
proof (cases "decide_generation pl current stage")
  case (Inl e)
  then show ?thesis using step p read by (auto simp: publishGenerationSync_def split: if_splits)
next
  case (Inr r)
  obtain c decision sha gid where r: "r = (c, decision, sha, gid)" by (cases r)
  note decide = Inr [unfolded r]
  note facts = decide_facts [OF decide read_shape [OF read]]
  note repairs = not_repairs [OF undamaged, of decision]
  have format: "generation_id_format gid" using generation_id_ok(1) [OF ok facts(2)] facts(4) by simp
  let ?storage = "storage_for pl root current decision gid"
  let ?prepared = "prepared_stage pl root current decision sha gid stage"
  obtain b where b: "gd_checkpoint stage = Some b" "pl_parse pl b = Some c" using facts(3) by blast
  consider (again) existing u x where "decision = Unchanged" "map_of (pr_generations root) ?storage = Some existing"
        "check_existing pl existing gid ?storage c ?prepared Checkpoint_changed = Inr u"
        "validateGenerationDirectory pl (Some ?prepared) gid gid False = Inr x"
        "quarantineReplacedGeneration pl fails ?storage (Published decision gid ?storage) root = (root', Interrupted p)"
    | (first) x where "decision \<noteq> Unchanged" "validateGenerationDirectory pl (Some ?prepared) gid ?storage False = Inr x"
        "place_generation pl fails current decision gid ?storage c ?prepared root = (root', Interrupted p)"
    using step read decide p repairs
    by (auto simp: publishGenerationSync_def Let_def split: if_splits sum.splits option.splits)
  then show ?thesis
  proof cases
    case again
    obtain cur where cur: "current = Some cur" using facts(6) again(1) by blast
    have storage: "cg_storage_id cur = ?storage"
      using again(1) cur repairs by (auto simp: storage_for_def)
    obtain m where m: "validateGenerationDirectory pl (Some existing) gid ?storage False = Inr (c, m)"
      using check_existing_facts(1) [OF again(3)] by blast
    have read': "readCurrentGeneration pl root' = Inr current"
      using quarantine_reads [OF read _ apart cur storage format again(2) m again(5)] decide again(1) by blast
    have kept: "map_of (pr_generations root') ?storage = map_of (pr_generations root) ?storage"
      using quarantine_keeps [OF again(5)] replaced_elsewhere [OF format m]
        no_collision_facts(2) [OF apart read decide] again(2) by auto
    obtain root'' where quarantine: "quarantineReplacedGeneration pl None ?storage
        (Published decision gid ?storage) root' = (root'', Published decision gid ?storage)"
      using quarantine_retry [OF again(5) _ kept] by blast
    show ?thesis
      by (rule again_succeeds [where e = existing])
        (use read' undamaged decide again kept quarantine storage cur
          prepared_undamaged(1) [OF undamaged, of pl root' decision sha gid stage root] in auto)
  next
    case first
    have storage: "?storage = gid" using first(1) repairs by (simp add: storage_for_def)
    obtain m where m: "validateGenerationDirectory pl (Some ?prepared) gid gid False = Inr (c, m)"
        "gm_previous m = new_previous current decision"
      using prepared_holds [OF first(2) b] storage by auto
    note left = interrupted_place [OF m(1) repairs first(3) [unfolded storage]]
    note same = prepared_undamaged(1) [OF undamaged, of pl root' decision sha gid stage root]
    consider "readCurrentGeneration pl root' = Inr current"
      | "reads_generation pl root' gid gid c (new_previous current decision)"
      using place_generation_cases [OF ok apart read decide refl refl first(2) _ first(3)] first(1) storage
      by auto
    then show ?thesis
    proof cases
      case 1
      show ?thesis
        by (rule advance_succeeds [OF 1 undamaged decide first(1)]) (use m left same in auto)
    next
      case 2
      then obtain m' where m': "readCurrentGeneration pl root' = Inr (Some
           \<lparr>cg_pointer = new_pointer gid (new_previous current decision) gid, cg_storage_id = gid,
            cg_intact = Some (c, m')\<rparr>)" "gm_previous m' = new_previous current decision"
        by (auto simp: reads_generation_def)
      let ?cur = "\<lparr>cg_pointer = new_pointer gid (new_previous current decision) gid, cg_storage_id = gid,
          cg_intact = Some (c, m')\<rparr>"
      have undamaged': "undamaged (Some ?cur)" by (simp add: undamaged_def published_checkpoint_def)
      have decide': "decide_generation pl (Some ?cur) stage = Inr (c, Unchanged, sha, gid)"
        by (rule decide_again [OF decide read_shape [OF read]]) (use m'(2) in \<open>simp_all add: new_pointer_def\<close>)
      have "new_previous (Some ?cur) Unchanged = gm_previous m'"
        by (simp add: new_previous_def pointer_previous_def)
      then have prepared: "prepared_stage pl root' (Some ?cur) Unchanged sha gid stage = ?prepared"
        using repairs not_repairs [OF undamaged', of Unchanged] m'(2) by (simp add: prepared_stage_def)
      obtain e u where e: "map_of (pr_generations root') gid = Some e"
          "check_existing pl e gid gid c ?prepared Checkpoint_changed = Inr u"
        using left read_storage_present [OF m'(1)] check_existing_mismatch by fastforce
      show ?thesis
        by (rule again_succeeds [OF m'(1) undamaged' decide', where e = e])
          (use m e prepared generation_id_no_recovery [OF format] in
            \<open>simp_all add: quarantineReplacedGeneration_def\<close>)
    qed
  qed
qed

text \<open>
  C20. An interrupted publication completes when it is tried again, unless it was the repair of a damaged
  generation or stopped because it never owned the lock. When readers find no generation or an intact
  one, and the first attempt is interrupted at any point after it owned the lock (the rename of the
  generation, a lost lock, the write of the pointer, the quarantine), a second one with the same stage
  that nothing interrupts reports the generation as published, and readers then find the checkpoint of
  the stage.
\<close>

theorem publication_completes:
  assumes "publication_lib_ok pl"
    "run_avoids_collisions pl [(fails, rejected, stage), (None, rejected', stage)] root"
    "readCurrentGeneration pl root = Inr current" "undamaged current"
    "publication_run pl [(fails, rejected, stage), (None, rejected', stage)] root = (root', [Interrupted p, out])"
    "p \<noteq> Not_owned"
  shows "(\<exists>decision gid storage. out = Published decision gid storage) \<and>
    (\<exists>current' c. readCurrentGeneration pl root' = Inr current' \<and>
       published_checkpoint current' = Some c \<and> stage_checkpoint pl stage = Some c)"
proof -
  obtain root1 where steps: "publishGenerationSync pl fails rejected stage root = (root1, Interrupted p)"
      "publishGenerationSync pl None rejected' stage root1 = (root', out)"
    using assms(5) by (auto split: prod.splits)
  have apart: "no_collision pl stage root" "no_collision pl stage root1"
    using assms(2) steps(1) by auto
  have out: "published out"
    using retry_succeeds [OF assms(1) apart(1) assms(3,4) steps(1) assms(6), of rejected'] steps(2) by simp
  obtain current1 where current1: "readCurrentGeneration pl root1 = Inr current1" "undamaged current1"
    using published_step [OF assms(1) apart(1) assms(3,4) steps(1)] by blast
  obtain current' c where "readCurrentGeneration pl root' = Inr current'"
      "published_checkpoint current' = Some c" "stage_checkpoint pl stage = Some c"
    using published_step [OF assms(1) apart(2) current1 steps(2)] out by blast
  then show ?thesis using out by (auto simp: published_def split: pub_outcome.splits)
qed

section \<open>Directories are kept\<close>

definition stored :: "publication_root \<Rightarrow> generation_dir set" where
  "stored root = snd ` set (pr_generations root) \<union> snd ` set (pr_quarantine root)"

definition names_distinct :: "publication_root \<Rightarrow> bool" where
  "names_distinct root \<longleftrightarrow> distinct (map fst (pr_generations root))"

lemma remove_name_kept:
  assumes "distinct (map fst xs)" "map_of xs n = Some old"
  shows "snd ` set xs \<subseteq> insert old (snd ` set (remove_name n xs))"
proof
  fix v assume "v \<in> snd ` set xs"
  then obtain k where k: "(k, v) \<in> set xs" by auto
  then have "map_of xs k = Some v" using assms(1) by simp
  then show "v \<in> insert old (snd ` set (remove_name n xs))"
    using k assms(2) by (cases "k = n") (force simp: remove_name_def)+
qed

lemma remove_name_distinct: "distinct (map fst xs) \<Longrightarrow> distinct (map fst (remove_name n xs))"
  by (induction xs) (auto simp: remove_name_def)

lemma quarantine_moves:
  assumes "quarantineReplacedGeneration pl fails accepted d root = (root', out)" "root' \<noteq> root"
  shows "\<exists>n old name. map_of (pr_generations root) n = Some old \<and>
    root' = root\<lparr>pr_generations := remove_name n (pr_generations root),
                  pr_quarantine := (name, old) # pr_quarantine root\<rparr>"
  using assms unfolding quarantineReplacedGeneration_def Let_def
  by (simp split: if_splits option.splits) blast+

lemma quarantine_stored:
  assumes "quarantineReplacedGeneration pl fails accepted d root = (root', out)" "names_distinct root"
  shows "stored root \<subseteq> stored root' \<and> names_distinct root'"
proof (cases "root' = root")
  case False
  then obtain n old name where moved: "map_of (pr_generations root) n = Some old"
      "root' = root\<lparr>pr_generations := remove_name n (pr_generations root),
                    pr_quarantine := (name, old) # pr_quarantine root\<rparr>"
    using quarantine_moves [OF assms(1)] by blast
  then show ?thesis
    using assms(2) remove_name_kept [of "pr_generations root" n old] remove_name_distinct
    by (auto simp: stored_def names_distinct_def)
qed (use assms(2) in simp)

lemma pointer_stored:
  assumes "publish_pointer pl fails current decision gid storage root = (root', out)" "names_distinct root"
  shows "stored root \<subseteq> stored root' \<and> names_distinct root'"
proof -
  let ?root = "root\<lparr>pr_current := Some (new_pointer gid (new_previous current decision) storage)\<rparr>"
  have same: "stored ?root = stored root" "names_distinct ?root"
    using assms(2) by (simp_all add: stored_def names_distinct_def)
  consider "root' = root" | "root' = ?root"
    | d where "quarantineReplacedGeneration pl fails storage d ?root = (root', out)"
    using assms(1) by (auto simp: publish_pointer_def Let_def split: if_splits)
  then show ?thesis
  proof cases
    case 3
    then show ?thesis using quarantine_stored [OF 3 same(2)] same(1) by simp
  qed (use same assms(2) in simp_all)
qed

lemma place_stored:
  assumes "place_generation pl fails current decision gid storage c prepared root = (root', out)"
    "names_distinct root"
  shows "stored root \<subseteq> stored root' \<and> names_distinct root'"
proof (cases "map_of (pr_generations root) storage")
  case None
  let ?placed = "root\<lparr>pr_generations := (storage, prepared) # pr_generations root\<rparr>"
  have placed: "stored root \<subseteq> stored ?placed" "names_distinct ?placed"
    using assms(2) None by (auto simp: stored_def names_distinct_def map_of_eq_None_iff)
  consider "root' = root" | "root' = ?placed"
    | "publish_pointer pl fails current decision gid storage ?placed = (root', out)"
    using assms(1) None by (auto simp: place_generation_def Let_def split: if_splits)
  then show ?thesis
    by cases (use placed assms(2) pointer_stored [OF _ placed(2)] in blast)+
next
  case (Some existing)
  then show ?thesis
    using assms pointer_stored by (fastforce simp: place_generation_def split: sum.splits)
qed

lemma publish_stored:
  assumes "publishGenerationSync pl fails rejected stage root = (root', out)" "names_distinct root"
  shows "stored root \<subseteq> stored root' \<and> names_distinct root'"
proof -
  consider "root' = root" | "root' = root\<lparr>pr_quarantine := (rejected, stage) # pr_quarantine root\<rparr>"
    | accepted d where "quarantineReplacedGeneration pl fails accepted d root = (root', out)"
    | current decision gid storage c prepared where
        "place_generation pl fails current decision gid storage c prepared root = (root', out)"
    using assms(1)
    by (auto simp: publishGenerationSync_def Let_def split: if_splits sum.splits option.splits prod.splits)
  then show ?thesis
  proof cases
    case 2
    then show ?thesis using assms(2) by (auto simp: stored_def names_distinct_def)
  qed (use assms(2) quarantine_stored place_stored in blast)+
qed

text \<open>
  C22. Publishing loses no generation: over any attempts, interrupted or refused, each directory that
  was among the generations or in quarantine is still in one of the two, with what it held; a replaced
  one is moved, and no two generations have one name.
\<close>

theorem publication_keeps_directories:
  assumes "names_distinct root"
  shows "stored root \<subseteq> stored (fst (publication_run pl attempts root)) \<and>
    names_distinct (fst (publication_run pl attempts root))"
  using assms
proof (induction attempts arbitrary: root)
  case (Cons attempt rest)
  obtain fails rejected stage where attempt: "attempt = (fails, rejected, stage)" by (cases attempt)
  obtain root1 out where step: "publishGenerationSync pl fails rejected stage root = (root1, out)"
    by (cases "publishGenerationSync pl fails rejected stage root")
  have "fst (publication_run pl (attempt # rest) root) = fst (publication_run pl rest root1)"
    by (simp add: attempt step split: prod.splits)
  then show ?case using publish_stored [OF step Cons.prems] Cons.IH [of root1] by auto
qed simp

end
