(* ===== verification/Publication_Examples.thy ===== *)
theory Publication_Examples
  imports Publication_Recovery
begin

text \<open>
  The publication of generations on concrete roots: a run with interruptions, a refused regression, the
  repair of a damaged generation and its quarantine.
\<close>

section \<open>A sample of the digests and of checkpoints\<close>

definition sample_digest :: "char \<Rightarrow> string" where
  "sample_digest c = replicate 63 (CHR ''0'') @ [c]"

definition first_checkpoint :: "unit checkpoint" where
  "first_checkpoint = \<lparr>ck_schema = ''p42-prizes/indexer-checkpoint/v4'', ck_manifestBinding = ''m'',
     ck_toBlock = 100, ck_toBlockHash = ''0xa'', ck_complete = True, ck_ok = True, ck_body = ()\<rparr>"

definition second_checkpoint :: "unit checkpoint" where
  "second_checkpoint = first_checkpoint\<lparr>ck_toBlock := 200, ck_toBlockHash := ''0xb''\<rparr>"

definition sample_publication_lib :: "unit publication_lib" where
  "sample_publication_lib =
     \<lparr>pl_parse = (\<lambda>b. if b = ''first'' then Some first_checkpoint
                  else if b = ''second'' then Some second_checkpoint else None),
      pl_validator = (\<lambda>c. safe_integer (int (ck_toBlock c))),
      pl_sha256 = (\<lambda>s. s),
      pl_generation_digest = (\<lambda>c a p. sample_digest (if p = None then CHR ''0'' else CHR ''1'')),
      pl_legacy_digest = (\<lambda>c a. sample_digest (CHR ''0'')),
      pl_recovery_digest = (\<lambda>n. sample_digest (CHR ''2'')),
      pl_link_digest = (\<lambda>r a. sample_digest (CHR ''3''))\<rparr>"

definition first_stage :: generation_dir where
  "first_stage = \<lparr>gd_checkpoint = Some ''first'', gd_archive = Some (Arc_dir [(''a'', Arc_file ''1'')]),
     gd_meta = None, gd_recovery = None\<rparr>"

definition second_stage :: generation_dir where
  "second_stage = first_stage\<lparr>gd_checkpoint := Some ''second''\<rparr>"

definition empty_root :: publication_root where
  "empty_root = \<lparr>pr_current = None, pr_generations = [], pr_quarantine = []\<rparr>"

lemma sample_digest_ok: "c \<in> set ''0123'' \<Longrightarrow> hex_digest (sample_digest c)"
proof -
  have "\<forall>c \<in> set ''0123''. hex_lower c" by code_simp
  then show "c \<in> set ''0123'' \<Longrightarrow> hex_digest (sample_digest c)"
    by (auto simp: hex_digest_def sample_digest_def list_all_iff)
qed

lemma sample_publication_lib_ok: "publication_lib_ok sample_publication_lib"
  by (simp add: publication_lib_ok_def sample_publication_lib_def sample_digest_ok)

section \<open>A run with interruptions\<close>

definition sample_attempts :: "attempt list" where
  "sample_attempts =
     [(Some Before_pointer_publish, ''r1'', first_stage), (None, ''r2'', first_stage),
      (Some After_generation_rename, ''r3'', second_stage), (None, ''r4'', second_stage),
      (None, ''r5'', first_stage)]"

definition root_after :: "attempt list \<Rightarrow> publication_root \<Rightarrow> publication_root" where
  "root_after attempts root = fst (publication_run sample_publication_lib attempts root)"

definition outcomes_of :: "attempt list \<Rightarrow> publication_root \<Rightarrow> pub_outcome list" where
  "outcomes_of attempts root = snd (publication_run sample_publication_lib attempts root)"

lemma sample_run_avoids: "run_avoids_collisions sample_publication_lib sample_attempts empty_root"
  by code_simp

lemma sample_run_published: "map published (outcomes_of sample_attempts empty_root) = [False, True, False, True, False]"
  by code_simp

lemma empty_reads: "readCurrentGeneration sample_publication_lib empty_root = Inr None"
  by code_simp

lemma sample_publishes_second:
  "list_ex (\<lambda>((fails, rejected, stage), out). published out \<and>
       stage_checkpoint sample_publication_lib stage = Some second_checkpoint)
     (zip sample_attempts (outcomes_of sample_attempts empty_root))"
  by code_simp

theorem publication_run_monotone_witness:
  "\<exists>current'. readCurrentGeneration sample_publication_lib (root_after sample_attempts empty_root) = Inr current' \<and>
     undamaged current' \<and> covers_checkpoint current' second_checkpoint"
proof -
  have run: "publication_run sample_publication_lib sample_attempts empty_root =
      (root_after sample_attempts empty_root, outcomes_of sample_attempts empty_root)"
    by (simp add: root_after_def outcomes_of_def)
  have "undamaged (None :: unit current_generation option)" by (simp add: undamaged_def)
  note found = publication_run_monotone [OF sample_publication_lib_ok sample_run_avoids empty_reads this run]
  show ?thesis
    using found sample_publishes_second unfolding list_ex_iff by fastforce
qed

lemma interrupted_facts:
  "run_avoids_collisions sample_publication_lib
     [(Some Pointer_write_fails, ''r1'', first_stage), (None, ''r2'', first_stage)] empty_root"
  "outcomes_of [(Some Pointer_write_fails, ''r1'', first_stage), (None, ''r2'', first_stage)] empty_root =
     [Interrupted Pointer_write_fails,
      outcomes_of [(Some Pointer_write_fails, ''r1'', first_stage), (None, ''r2'', first_stage)] empty_root ! 1]"
  by code_simp+

theorem publication_completes_witness:
  "\<exists>current' c. readCurrentGeneration sample_publication_lib
       (root_after [(Some Pointer_write_fails, ''r1'', first_stage), (None, ''r2'', first_stage)] empty_root) =
       Inr current' \<and> published_checkpoint current' = Some c \<and>
     stage_checkpoint sample_publication_lib first_stage = Some c"
proof -
  let ?run = "[(Some Pointer_write_fails, ''r1'', first_stage), (None, ''r2'', first_stage)]"
  have run: "publication_run sample_publication_lib ?run empty_root =
      (root_after ?run empty_root, [Interrupted Pointer_write_fails, outcomes_of ?run empty_root ! 1])"
    using interrupted_facts(2) by (metis root_after_def outcomes_of_def prod.collapse)
  have "undamaged (None :: unit current_generation option)" by (simp add: undamaged_def)
  then show ?thesis
    using publication_completes [OF sample_publication_lib_ok interrupted_facts(1) empty_reads _ run] by simp
qed

section \<open>A damaged generation\<close>

definition damaged_root :: publication_root where
  "damaged_root =
     (let root = root_after [(None, ''r1'', first_stage)] empty_root
      in root\<lparr>pr_generations := map (\<lambda>(n, g). (n, g\<lparr>gd_checkpoint := None\<rparr>)) (pr_generations root)\<rparr>)"

definition repair_attempt :: "attempt list" where
  "repair_attempt = [(None, ''r2'', first_stage)]"

lemma damaged_facts:
  "case readCurrentGeneration sample_publication_lib damaged_root of
     Inr (Some cur) \<Rightarrow> cg_intact cur = None | _ \<Rightarrow> False"
  "no_collision sample_publication_lib first_stage damaged_root"
  "published (snd (publishGenerationSync sample_publication_lib None ''r2'' first_stage damaged_root))"
  "stage_checkpoint sample_publication_lib first_stage = Some first_checkpoint"
  "names_distinct damaged_root"
  "length (pr_quarantine (root_after repair_attempt damaged_root)) = 1"
  by code_simp+

theorem publication_repairs_witness:
  "\<exists>cur'. readCurrentGeneration sample_publication_lib
       (fst (publishGenerationSync sample_publication_lib None ''r2'' first_stage damaged_root)) = Inr (Some cur') \<and>
     published_checkpoint (Some cur') = Some first_checkpoint"
proof -
  obtain cur where cur: "readCurrentGeneration sample_publication_lib damaged_root = Inr (Some cur)"
      "cg_intact cur = None"
    using damaged_facts(1) by (auto split: sum.splits option.splits)
  show ?thesis
    using publication_repairs [OF sample_publication_lib_ok damaged_facts(2) cur prod.collapse [symmetric],
        of None "''r2''"] damaged_facts(3,4) by auto
qed

theorem publication_keeps_directories_witness:
  "stored damaged_root \<subseteq> stored (fst (publication_run sample_publication_lib repair_attempt damaged_root)) \<and>
   length (pr_quarantine (root_after repair_attempt damaged_root)) = 1"
  using publication_keeps_directories [OF damaged_facts(5)] damaged_facts(6) by blast

end
