(* ===== verification/Monitor_Values.thy ===== *)
theory Monitor_Values
  imports Js_Values "HOL-Library.List_Lexorder" "HOL-Library.Char_ord"
begin

text \<open>
  The values the chain monitor compares (agent/chain-monitor.mjs): checkpoints and manifests as they
  come out of the JSON parser, the checks by which a field is read (\<open>requiredObject\<close> to
  \<open>canonicalAddress\<close>), the normal forms \<open>canonical\<close> and \<open>decimalize\<close>, and what a monitor may throw.

  Numbers are integral. An object is the list of its entries; a missing property, \<open>undefined\<close> in the
  code, is \<open>None\<close> of the look-up. Labels only make up the messages of errors and are left out.
\<close>

datatype mvalue =
    MNull
  | MBool bool
  | MNum int
  | MStr string
  | MArr "mvalue list"
  | MObj "(string \<times> mvalue) list"

type_synonym mobject = "(string \<times> mvalue) list"

text \<open>
  \<open>Divergence\<close> is the \<open>ChainMonitorDivergenceError\<close> with its kind, \<open>Reorg_detected\<close> that of the indexer,
  \<open>Other_error\<close> any other error with its \<open>code\<close> and message.
\<close>

datatype monitor_thrown = Divergence string | Reorg_detected | Other_error "string option" string

definition storage_error :: monitor_thrown where
  "storage_error = Divergence ''storage''"

definition type_error :: monitor_thrown where
  "type_error = Other_error None ''Cannot read properties of null''"

section \<open>Normal forms\<close>

fun canon_value :: "mvalue \<Rightarrow> mvalue" where
  "canon_value (MArr vs) = MArr (map canon_value vs)"
| "canon_value (MObj es) = MObj (sort_key fst (map (\<lambda>(k, v). (k, canon_value v)) es))"
| "canon_value v = v"

definition same_value :: "mvalue \<Rightarrow> mvalue \<Rightarrow> bool" where
  "same_value l r \<longleftrightarrow> canon_value l = canon_value r"

definition uint_text :: "string \<Rightarrow> bool" where
  "uint_text s \<longleftrightarrow>
     s = ''0'' \<or> (s \<noteq> [] \<and> list_all (\<lambda>c. c \<in> set ''0123456789'') s \<and> hd s \<noteq> CHR ''0'')"

definition unsigned_part :: "string \<Rightarrow> string" where
  "unsigned_part s = (case s of c # cs \<Rightarrow> if c = CHR ''-'' then cs else s | [] \<Rightarrow> [])"

definition decimal_text :: "string \<Rightarrow> bool" where
  "decimal_text s \<longleftrightarrow>
     unsigned_part s \<noteq> [] \<and> list_all (\<lambda>c. c \<in> set ''0123456789'') (unsigned_part s)"

definition canonical_decimal_text :: "string \<Rightarrow> bool" where
  "canonical_decimal_text s \<longleftrightarrow>
     uint_text s \<or> (take 1 s = ''-'' \<and> uint_text (drop 1 s) \<and> drop 1 s \<noteq> ''0'')"

fun decimalize :: "mvalue \<Rightarrow> monitor_thrown + mvalue"
  and decimalize_list :: "mvalue list \<Rightarrow> monitor_thrown + mvalue list"
  and decimalize_entries :: "(string \<times> mvalue) list \<Rightarrow> monitor_thrown + (string \<times> mvalue) list" where
  "decimalize (MNum n) = require (safe_integer n) storage_error (Inr (MStr (show_int n)))"
| "decimalize (MStr s) =
     (if decimal_text s then require (canonical_decimal_text s) storage_error (Inr (MStr s)) else Inr (MStr s))"
| "decimalize (MArr vs) = and_then (decimalize_list vs) (\<lambda>ws. Inr (MArr ws))"
| "decimalize (MObj es) = and_then (decimalize_entries es) (\<lambda>fs. Inr (MObj fs))"
| "decimalize v = Inr v"
| "decimalize_list [] = Inr []"
| "decimalize_list (v # vs) =
     and_then (decimalize v) (\<lambda>w. and_then (decimalize_list vs) (\<lambda>ws. Inr (w # ws)))"
| "decimalize_entries [] = Inr []"
| "decimalize_entries ((k, v) # es) =
     and_then (decimalize v) (\<lambda>w. and_then (decimalize_entries es) (\<lambda>fs. Inr ((k, w) # fs)))"

text \<open>\<open>String(value)\<close>.\<close>

fun mstring :: "mvalue \<Rightarrow> string" where
  "mstring MNull = ''null''"
| "mstring (MBool b) = (if b then ''true'' else ''false'')"
| "mstring (MNum n) = show_int n"
| "mstring (MStr s) = s"
| "mstring (MArr vs) =
     concat (map (\<lambda>(i, s). (if i = 0 then [] else '','') @ s)
       (enumerate 0 (map (\<lambda>v. if v = MNull then [] else mstring v) vs)))"
| "mstring (MObj es) = ''[object Object]''"

section \<open>Reading fields\<close>

definition requiredObject :: "mvalue option \<Rightarrow> monitor_thrown + mobject" where
  "requiredObject v = (case v of Some (MObj es) \<Rightarrow> Inr es | _ \<Rightarrow> Inl storage_error)"

definition requiredNonemptyObject :: "mvalue option \<Rightarrow> monitor_thrown + mobject" where
  "requiredNonemptyObject v =
     and_then (requiredObject v) (\<lambda>es. require (es \<noteq> []) storage_error (Inr es))"

definition requiredField :: "mvalue \<Rightarrow> string \<Rightarrow> monitor_thrown + mvalue" where
  "requiredField v key =
     (case v of
        MNull \<Rightarrow> Inl type_error
      | MObj es \<Rightarrow>
         (case map_of es key of
            None \<Rightarrow> Inl storage_error
          | Some w \<Rightarrow> require (w \<noteq> MNull) storage_error (Inr w))
      | _ \<Rightarrow> Inl storage_error)"

fun requireFields :: "mobject \<Rightarrow> string list \<Rightarrow> monitor_thrown + mobject" where
  "requireFields es [] = Inr es"
| "requireFields es (key # keys) =
     and_then (requiredField (MObj es) key) (\<lambda>_. requireFields es keys)"

definition uint_of :: "mvalue \<Rightarrow> monitor_thrown + int" where
  "uint_of v =
     (case v of
        MStr s \<Rightarrow>
          require (uint_text s) storage_error
            (and_then (of_option storage_error (read_nat 10 s)) (\<lambda>n. Inr (int n)))
      | _ \<Rightarrow> Inl storage_error)"

definition requiredBoolean :: "mvalue \<Rightarrow> string \<Rightarrow> monitor_thrown + mvalue" where
  "requiredBoolean v key =
     and_then (requiredField v key) (\<lambda>w. case w of MBool b \<Rightarrow> Inr w | _ \<Rightarrow> Inl storage_error)"

definition uintField :: "mvalue \<Rightarrow> string \<Rightarrow> monitor_thrown + mvalue" where
  "uintField v key = and_then (requiredField v key) (\<lambda>w. and_then (uint_of w) (\<lambda>_. Inr w))"

definition nonnegativeCounter :: "mvalue \<Rightarrow> monitor_thrown + mvalue" where
  "nonnegativeCounter v =
     (case v of
        MNum n \<Rightarrow> require (safe_integer n \<and> \<not> n < 0) storage_error (Inr v)
      | _ \<Rightarrow> and_then (uint_of v) (\<lambda>_. Inr v))"

text \<open>\<open>map\<close> with a function that may throw.\<close>

fun map_throw :: "('a \<Rightarrow> 'e + 'b) \<Rightarrow> 'a list \<Rightarrow> 'e + 'b list" where
  "map_throw f [] = Inr []"
| "map_throw f (x # xs) = and_then (f x) (\<lambda>y. and_then (map_throw f xs) (\<lambda>ys. Inr (y # ys)))"

definition uintMap :: "mvalue \<Rightarrow> monitor_thrown + mvalue" where
  "uintMap v =
     and_then (requiredObject (Some v)) (\<lambda>es.
     and_then (map_throw (\<lambda>(k, w). and_then (uint_of w) (\<lambda>_. Inr (k, w))) es) (\<lambda>fs. Inr (MObj fs)))"

definition requiredString :: "mvalue \<Rightarrow> string \<Rightarrow> monitor_thrown + mvalue" where
  "requiredString v key =
     and_then (requiredField v key) (\<lambda>w.
       case w of MStr s \<Rightarrow> require (s \<noteq> []) storage_error (Inr w) | _ \<Rightarrow> Inl storage_error)"

definition canonical_address_text :: "string \<Rightarrow> bool" where
  "canonical_address_text s \<longleftrightarrow>
     length s = 42 \<and> take 2 s = ''0x'' \<and> list_all (\<lambda>c. c \<in> set ''0123456789abcdef'') (drop 2 s)"

definition canonicalAddress :: "mvalue \<Rightarrow> monitor_thrown + string" where
  "canonicalAddress v =
     (case v of MStr s \<Rightarrow> require (canonical_address_text s) storage_error (Inr s) | _ \<Rightarrow> Inl storage_error)"

text \<open>An array, or a divergence.\<close>

definition array_of :: "mvalue option \<Rightarrow> monitor_thrown + mvalue list" where
  "array_of v = (case v of Some (MArr vs) \<Rightarrow> Inr vs | _ \<Rightarrow> Inl storage_error)"

text \<open>An object built field by field, in the order in which the fields are evaluated.\<close>

fun build_object :: "(string \<times> (monitor_thrown + mvalue)) list \<Rightarrow> monitor_thrown + mobject" where
  "build_object [] = Inr []"
| "build_object ((k, r) # rest) =
     and_then r (\<lambda>v. and_then (build_object rest) (\<lambda>es. Inr ((k, v) # es)))"

section \<open>Lemmas\<close>

lemma map_throw_facts:
  "map_throw f xs = Inr ys \<longleftrightarrow> list_all2 (\<lambda>x y. f x = Inr y) xs ys"
proof (induction xs arbitrary: ys)
  case Nil
  then show ?case by auto
next
  case (Cons x xs)
  then show ?case by (cases ys) auto
qed

lemma map_throw_length: "map_throw f xs = Inr ys \<Longrightarrow> length ys = length xs"
  by (simp add: map_throw_facts list_all2_lengthD)

lemma requiredObject_Inr [simp]: "requiredObject v = Inr es \<longleftrightarrow> v = Some (MObj es)"
proof (cases v)
  case (Some w)
  then show ?thesis by (cases w) (auto simp: requiredObject_def)
qed (simp add: requiredObject_def)

lemma uint_of_nonneg: "uint_of v = Inr n \<Longrightarrow> 0 \<le> n"
  by (auto simp: uint_of_def split: mvalue.splits)

lemma same_value_refl [simp]: "same_value v v"
  by (simp add: same_value_def)

end
