(* ===== verification/Monitor_Domains.thy ===== *)
theory Monitor_Domains
  imports Monitor_Values
begin

text \<open>
  What the chain monitor compares of two checkpoints (agent/chain-monitor.mjs):
  \<open>canonicalComparisonDomains\<close> with the projections of a board's state and portal view, and the payout
  rows of its solvers (\<open>payoutRows\<close>), checked against the replayed ledger.
\<close>

section \<open>Checks\<close>

definition check_passed :: "mvalue \<Rightarrow> bool" where
  "check_passed c = (case c of MObj es \<Rightarrow> map_of es ''ok'' = Some (MBool True) | _ \<Rightarrow> False)"

definition validateChecks :: "mvalue option \<Rightarrow> monitor_thrown + unit" where
  "validateChecks checks =
     and_then (array_of checks) (\<lambda>cs.
     require (cs \<noteq> []) storage_error
     (require (list_all check_passed cs) storage_error (Inr ())))"

definition verified_reconstruction :: "mobject \<Rightarrow> bool" where
  "verified_reconstruction r \<longleftrightarrow>
     map_of r ''ok'' = Some (MBool True) \<and> map_of r ''complete'' = Some (MBool True)"

section \<open>Projections\<close>

definition uint_fields :: "mobject \<Rightarrow> string list \<Rightarrow> (string \<times> (monitor_thrown + mvalue)) list" where
  "uint_fields o' keys = map (\<lambda>k. (k, uintField (MObj o') k)) keys"

definition boolean_fields :: "mobject \<Rightarrow> string list \<Rightarrow> (string \<times> (monitor_thrown + mvalue)) list" where
  "boolean_fields o' keys = map (\<lambda>k. (k, requiredBoolean (MObj o') k)) keys"

definition uint_map_field :: "mobject \<Rightarrow> string \<Rightarrow> monitor_thrown + mvalue" where
  "uint_map_field o' key = and_then (requiredField (MObj o') key) uintMap"

definition object_value :: "(string \<times> (monitor_thrown + mvalue)) list \<Rightarrow> monitor_thrown + mvalue" where
  "object_value fields = and_then (build_object fields) (\<lambda>es. Inr (MObj es))"

definition array_value :: "(mvalue \<Rightarrow> monitor_thrown + mvalue) \<Rightarrow> mvalue list \<Rightarrow> monitor_thrown + mvalue" where
  "array_value f vs = and_then (map_throw f vs) (\<lambda>ws. Inr (MArr ws))"

definition state_funding :: "mvalue \<Rightarrow> monitor_thrown + mvalue" where
  "state_funding e =
     object_value
       [(''transactionHash'', requiredString e ''transactionHash''), (''payer'', requiredString e ''payer''),
        (''sponsor'', requiredString e ''sponsor''), (''amount'', uintField e ''amount'')]"

definition state_donation :: "mvalue \<Rightarrow> monitor_thrown + mvalue" where
  "state_donation e =
     object_value
       [(''transactionHash'', requiredString e ''transactionHash''), (''solver'', requiredString e ''solver''),
        (''destinationPool'', requiredString e ''destinationPool''),
        (''grossAmount'', uintField e ''grossAmount''), (''donatedAmount'', uintField e ''donatedAmount''),
        (''feeAmount'', uintField e ''feeAmount'')]"

definition projectStatePool :: "mobject \<Rightarrow> monitor_thrown + mvalue" where
  "projectStatePool pool =
     and_then (build_object
       ([(''ledger'', requiredString (MObj pool) ''ledger''),
         (''submissionManager'', requiredString (MObj pool) ''submissionManager''),
         (''registry'', requiredString (MObj pool) ''registry'')] @
        boolean_fields pool [''acceptingFunds'', ''everFunded''] @
        [(''sponsorshipOf'', uint_map_field pool ''sponsorshipOf'')] @
        uint_fields pool
          [''problemId'', ''firstFundedAt'', ''accountedBalance'', ''totalFunded'', ''totalClaimed'',
           ''totalWinningsDonated'', ''totalGrossClaimed'', ''totalFeeAccrued'', ''totalFeePaid'',
           ''accruedFeeBalance'', ''totalSponsorRefunded'', ''totalRolloverPaid'',
           ''totalForcedEthRecovered'', ''totalResidualPaid''])) (\<lambda>output.
     and_then (requiredField (MObj pool) ''sponsorshipFundings'') (\<lambda>fundings.
     and_then (requiredField (MObj pool) ''winningsDonations'') (\<lambda>donations.
     and_then (array_of (Some fundings)) (\<lambda>fs.
     and_then (array_of (Some donations)) (\<lambda>ds.
     and_then (array_value state_funding fs) (\<lambda>fs'.
     and_then (array_value state_donation ds) (\<lambda>ds'.
       Inr (MObj (output @ [(''sponsorshipFundings'', fs'), (''winningsDonations'', ds')])))))))))"

definition projectStateLedger :: "mobject \<Rightarrow> monitor_thrown + mvalue" where
  "projectStateLedger ledger =
     object_value
       ([(''pausedNewActions'', requiredBoolean (MObj ledger) ''pausedNewActions''),
         (''creditRecorder'', requiredString (MObj ledger) ''creditRecorder'')] @
        boolean_fields ledger [''closed'', ''feeSwept'', ''residualSwept''] @
        [(''creditAtomsOf'', uint_map_field ledger ''creditAtomsOf''),
         (''claimedWeiOf'', uint_map_field ledger ''claimedWeiOf'')] @
        uint_fields ledger
          [''closedPoolBalance'', ''feeReserve'', ''closedAt'', ''claimDeadline'', ''totalCreditAtoms'',
           ''totalGrossClaimed'', ''totalFeeAccrued''])"

definition projectRolloverVault :: "mobject \<Rightarrow> monitor_thrown + mvalue" where
  "projectRolloverVault vault =
     object_value
       (uint_fields vault [''totalReceived'', ''totalFuturePoolFunded'', ''totalAllocated''] @
        [(''allocationOf'', uint_map_field vault ''allocationOf''),
         (''allocationCodehashOf'',
           and_then (requiredField (MObj vault) ''allocationCodehashOf'') (\<lambda>v.
           and_then (requiredObject (Some v)) (\<lambda>es. Inr (MObj es))))])"

definition resolver_bond_value :: "string \<times> mvalue \<Rightarrow> monitor_thrown + (string \<times> mvalue)" where
  "resolver_bond_value b =
     and_then (requiredObject (Some (snd b))) (\<lambda>bond.
     and_then (object_value
       [(''amountWei'', uintField (MObj bond) ''amountWei''), (''releaseAt'', uintField (MObj bond) ''releaseAt''),
        (''slashProofHash'', requiredString (MObj bond) ''slashProofHash'')]) (\<lambda>v. Inr (fst b, v)))"

definition projectResolverBonds :: "mvalue \<Rightarrow> monitor_thrown + mvalue" where
  "projectResolverBonds v =
     and_then (requiredObject (Some v)) (\<lambda>bonds.
     and_then (map_throw resolver_bond_value bonds) (\<lambda>es. Inr (MObj es)))"

definition portal_sponsor :: "mobject \<Rightarrow> monitor_thrown + mvalue" where
  "portal_sponsor e =
     object_value
       [(''sponsor'', requiredString (MObj e) ''sponsor''), (''principalWei'', uintField (MObj e) ''principalWei'')]"

definition portal_funding :: "mobject \<Rightarrow> monitor_thrown + mvalue" where
  "portal_funding e =
     object_value
       [(''transactionHash'', requiredString (MObj e) ''transactionHash''),
        (''payer'', requiredString (MObj e) ''payer''), (''sponsor'', requiredString (MObj e) ''sponsor''),
        (''amountWei'', uintField (MObj e) ''amountWei'')]"

definition portal_donation :: "mobject \<Rightarrow> monitor_thrown + mvalue" where
  "portal_donation e =
     object_value
       [(''transactionHash'', requiredString (MObj e) ''transactionHash''),
        (''solver'', requiredString (MObj e) ''solver''),
        (''destinationPool'', requiredString (MObj e) ''destinationPool''),
        (''grossAmountWei'', uintField (MObj e) ''grossAmountWei''),
        (''donatedAmountWei'', uintField (MObj e) ''donatedAmountWei''),
        (''feeAmountWei'', uintField (MObj e) ''feeAmountWei'')]"

definition portal_array :: "mobject \<Rightarrow> string \<Rightarrow> (mobject \<Rightarrow> monitor_thrown + mvalue) \<Rightarrow> monitor_thrown + mvalue" where
  "portal_array pool key f =
     and_then (requiredField (MObj pool) key) (\<lambda>entries.
     and_then (array_of (Some entries)) (array_value (\<lambda>e. and_then (requiredObject (Some e)) f)))"

definition projectPortalPool :: "mobject \<Rightarrow> monitor_thrown + mvalue" where
  "projectPortalPool pool =
     object_value
       (uint_fields pool
          [''totalFundedWei'', ''accountedBalanceWei'', ''totalClaimedWei'', ''totalWinningsDonatedWei'',
           ''refundableWei'', ''totalSponsorRefundedWei'', ''totalFeeAccruedWei'', ''totalFeePaidWei'',
           ''totalResidualPaidWei''] @
        [(''sponsors'', portal_array pool ''sponsors'' portal_sponsor),
         (''sponsorshipFundings'', portal_array pool ''sponsorshipFundings'' portal_funding),
         (''winningsDonations'', portal_array pool ''winningsDonations'' portal_donation)])"

definition projectPortalFunding :: "mobject \<Rightarrow> monitor_thrown + mvalue" where
  "projectPortalFunding funding =
     object_value
       (boolean_fields funding [''acceptingFunds'', ''fundingArmed''] @
        uint_fields funding [''authorizationExpiresAt''] @
        boolean_fields funding
          [''ledgerPausedNewActions'', ''submissionsPausedNewActions'', ''submissionsPausedAll'',
           ''challengesPausedNewActions''])"

definition projectLedgerClose :: "mobject \<Rightarrow> monitor_thrown + mvalue" where
  "projectLedgerClose close =
     object_value
       (boolean_fields close [''closed'', ''feeSwept'', ''residualSwept''] @
        uint_fields close
          [''closedPoolBalanceWei'', ''feeReserveWei'', ''closedAt'', ''claimDeadline'', ''totalCreditAtoms'',
           ''totalGrossClaimedWei'', ''totalFeeAccruedWei''])"

section \<open>Payouts\<close>

record payout_row =
  pw_solver :: string
  pw_finalEntitlementGross :: int
  pw_claimedGross :: int
  pw_claimableGross :: int
  pw_claimFee :: int
  pw_claimableNet :: int
  pw_claimDeadline :: int
  pw_claimDeadlinePassed :: bool

text \<open>What a row is computed from besides its solver.\<close>

record payout_close =
  py_closed :: bool
  py_totalCredit :: int
  py_closedPoolBalance :: int
  py_deadline :: int
  py_stateCredits :: mobject
  py_stateClaims :: mobject

definition uint_field :: "mobject \<Rightarrow> string \<Rightarrow> monitor_thrown + int" where
  "uint_field es key = and_then (requiredField (MObj es) key) uint_of"

definition expected_gross :: "payout_close \<Rightarrow> int \<Rightarrow> int" where
  "expected_gross pc credit =
     (if py_closed pc \<and> py_totalCredit pc > 0
      then py_closedPoolBalance pc * credit div py_totalCredit pc else 0)"

definition claimable_gross :: "payout_close \<Rightarrow> int \<Rightarrow> int \<Rightarrow> int \<Rightarrow> int" where
  "claimable_gross pc anchorTimestamp gross claimed =
     (let claimsOpen = (py_closed pc \<and> py_totalCredit pc > 0 \<and> py_deadline pc > 0 \<and>
            anchorTimestamp \<le> py_deadline pc \<and> claimed = 0)
      in if claimsOpen then gross else 0)"

definition priced_row :: "payout_close \<Rightarrow> int \<Rightarrow> int \<Rightarrow> string \<Rightarrow> int \<Rightarrow> int \<Rightarrow> payout_row" where
  "priced_row pc feeBps anchorTimestamp solverAddress gross claimed =
     (let claimable = claimable_gross pc anchorTimestamp gross claimed;
          fee = claimable * feeBps div 10000
      in \<lparr>pw_solver = solverAddress, pw_finalEntitlementGross = gross, pw_claimedGross = claimed,
          pw_claimableGross = claimable, pw_claimFee = fee, pw_claimableNet = claimable - fee,
          pw_claimDeadline = py_deadline pc,
          pw_claimDeadlinePassed =
            (py_closed pc \<and> py_deadline pc \<noteq> 0 \<and> anchorTimestamp > py_deadline pc)\<rparr>)"

definition payout_row_of ::
  "payout_close \<Rightarrow> int \<Rightarrow> int \<Rightarrow> string \<times> mobject \<Rightarrow> monitor_thrown + (payout_row \<times> int)" where
  "payout_row_of pc feeBps anchorTimestamp entry =
     (let solverAddress = fst entry; solver = snd entry in
      and_then (uint_field solver ''finalEntitlementWei'') (\<lambda>gross.
      and_then (uint_field solver ''claimedWei'') (\<lambda>claimed.
      and_then (uint_field solver ''creditAtoms'') (\<lambda>credit.
      require (gross = expected_gross pc credit) storage_error
      (require (\<not> (claimed \<noteq> 0 \<and> claimed \<noteq> gross)) storage_error
      (and_then (uint_field (py_stateCredits pc) solverAddress) (\<lambda>stateCredit.
       and_then (uint_field (py_stateClaims pc) solverAddress) (\<lambda>stateClaimed.
       require (stateCredit = credit) storage_error
       (require (stateClaimed = claimed) storage_error
         (Inr (priced_row pc feeBps anchorTimestamp solverAddress gross claimed, credit)))))))))))"

definition solver_entry :: "mvalue \<Rightarrow> monitor_thrown + (string \<times> mobject)" where
  "solver_entry v =
     and_then (requiredObject (Some v)) (\<lambda>solver.
     and_then (requiredField (MObj solver) ''solver'') (\<lambda>a.
     and_then (canonicalAddress a) (\<lambda>address. Inr (address, solver))))"

definition key_addresses :: "mobject \<Rightarrow> monitor_thrown + string list" where
  "key_addresses es = and_then (map_throw (\<lambda>e. canonicalAddress (MStr (fst e))) es) (\<lambda>as. Inr (sort as))"

definition payout_close_of :: "mobject \<Rightarrow> mobject \<Rightarrow> monitor_thrown + (payout_close \<times> mobject)" where
  "payout_close_of board ledgerClose =
     and_then (uint_field ledgerClose ''claimDeadline'') (\<lambda>deadline.
     and_then (uint_field ledgerClose ''totalCreditAtoms'') (\<lambda>totalCredit.
     and_then (uint_field ledgerClose ''closedPoolBalanceWei'') (\<lambda>closedPoolBalance.
     and_then (case map_of ledgerClose ''closed'' of Some (MBool b) \<Rightarrow> Inr b | _ \<Rightarrow> Inl storage_error) (\<lambda>closed.
     and_then (requiredObject (map_of board ''state'')) (\<lambda>state.
     and_then (requiredObject (map_of state ''ledger'')) (\<lambda>stateLedger.
     and_then (uint_field stateLedger ''totalCreditAtoms'') (\<lambda>stateCredit.
     require (stateCredit = totalCredit) storage_error
     (and_then (uint_field stateLedger ''closedPoolBalance'') (\<lambda>stateBalance.
      require (stateBalance = closedPoolBalance) storage_error
      (and_then (uint_field stateLedger ''claimDeadline'') (\<lambda>stateDeadline.
       require (stateDeadline = deadline) storage_error
       (require (\<not> (closed \<and> totalCredit > 0 \<and> deadline = 0)) storage_error
       (and_then (requiredObject (map_of stateLedger ''creditAtomsOf'')) (\<lambda>stateCredits.
        and_then (requiredObject (map_of stateLedger ''claimedWeiOf'')) (\<lambda>stateClaims.
        Inr (\<lparr>py_closed = closed, py_totalCredit = totalCredit,
              py_closedPoolBalance = closedPoolBalance, py_deadline = deadline,
              py_stateCredits = stateCredits, py_stateClaims = stateClaims\<rparr>, stateLedger))))))))))))))))"

definition payoutRows :: "mobject \<Rightarrow> int \<Rightarrow> int \<Rightarrow> monitor_thrown + payout_row list" where
  "payoutRows board feeBps anchorTimestamp =
     and_then (requiredObject (map_of board ''portalProjection'')) (\<lambda>projection.
     and_then (requiredObject (map_of projection ''ledgerClose'')) (\<lambda>ledgerClose.
     and_then (array_of (map_of projection ''solvers'')) (\<lambda>solvers.
     and_then (payout_close_of board ledgerClose) (\<lambda>(pc, stateLedger).
     and_then (key_addresses (py_stateCredits pc)) (\<lambda>creditAddresses.
     and_then (key_addresses (py_stateClaims pc)) (\<lambda>claimAddresses.
     and_then (map_throw solver_entry solvers) (\<lambda>entries.
     require (distinct (map fst entries)) storage_error
     (require (sort (map fst entries) = creditAddresses \<and> sort (map fst entries) = claimAddresses) storage_error
     (and_then (map_throw (payout_row_of pc feeBps anchorTimestamp) entries) (\<lambda>computed.
      let rows = map fst computed;
          observedCredit = sum_list (map snd computed);
          observedClaimed = sum_list (map pw_claimedGross rows)
      in require (\<not> (py_closed pc \<and> observedCredit \<noteq> py_totalCredit pc)) storage_error
         (and_then (uint_field ledgerClose ''totalGrossClaimedWei'') (\<lambda>closeClaimed.
          and_then (uint_field stateLedger ''totalGrossClaimed'') (\<lambda>stateTotalClaimed.
          require (observedClaimed = closeClaimed \<and> observedClaimed = stateTotalClaimed) storage_error
          (require (\<not> (py_closed pc \<and> py_totalCredit pc = 0 \<and>
               list_ex (\<lambda>r. pw_finalEntitlementGross r \<noteq> 0 \<or> pw_claimedGross r \<noteq> 0 \<or>
                 pw_claimableGross r \<noteq> 0) rows)) storage_error
             (Inr rows)))))))))))))))"

definition row_value :: "payout_row \<Rightarrow> mvalue" where
  "row_value r =
     MObj [(''solver'', MStr (pw_solver r)),
           (''finalEntitlementGrossWei'', MStr (show_int (pw_finalEntitlementGross r))),
           (''claimedGrossWei'', MStr (show_int (pw_claimedGross r))),
           (''claimableGrossWei'', MStr (show_int (pw_claimableGross r))),
           (''claimFeeWei'', MStr (show_int (pw_claimFee r))),
           (''claimableNetWei'', MStr (show_int (pw_claimableNet r))),
           (''claimDeadline'', MStr (show_int (pw_claimDeadline r))),
           (''claimDeadlinePassed'', MBool (pw_claimDeadlinePassed r))]"

section \<open>The comparison domains of a checkpoint\<close>

definition POOL_FIELDS :: "string list" where
  "POOL_FIELDS =
     [''ledger'', ''submissionManager'', ''registry'', ''problemId'', ''acceptingFunds'', ''everFunded'',
      ''firstFundedAt'', ''accountedBalance'', ''totalFunded'', ''totalClaimed'', ''totalWinningsDonated'',
      ''totalGrossClaimed'', ''totalFeeAccrued'', ''totalFeePaid'', ''accruedFeeBalance'',
      ''totalSponsorRefunded'', ''totalRolloverPaid'', ''totalForcedEthRecovered'', ''totalResidualPaid'',
      ''sponsorshipOf'', ''sponsorshipFundings'', ''winningsDonations'']"

definition LEDGER_FIELDS :: "string list" where
  "LEDGER_FIELDS =
     [''pausedNewActions'', ''creditRecorder'', ''closed'', ''closedPoolBalance'', ''feeReserve'', ''closedAt'',
      ''claimDeadline'', ''totalCreditAtoms'', ''creditAtomsOf'', ''claimedWeiOf'', ''totalGrossClaimed'',
      ''totalFeeAccrued'', ''feeSwept'', ''residualSwept'']"

definition VAULT_FIELDS :: "string list" where
  "VAULT_FIELDS =
     [''totalReceived'', ''totalFuturePoolFunded'', ''totalAllocated'', ''allocationOf'', ''allocationCodehashOf'']"

definition PORTAL_POOL_FIELDS :: "string list" where
  "PORTAL_POOL_FIELDS =
     [''totalFundedWei'', ''accountedBalanceWei'', ''totalClaimedWei'', ''totalWinningsDonatedWei'',
      ''refundableWei'', ''totalSponsorRefundedWei'', ''totalFeeAccruedWei'', ''totalFeePaidWei'',
      ''totalResidualPaidWei'', ''sponsors'', ''sponsorshipFundings'', ''winningsDonations'']"

definition PORTAL_FUNDING_FIELDS :: "string list" where
  "PORTAL_FUNDING_FIELDS =
     [''acceptingFunds'', ''fundingArmed'', ''authorizationExpiresAt'', ''ledgerPausedNewActions'',
      ''submissionsPausedNewActions'', ''submissionsPausedAll'', ''challengesPausedNewActions'']"

definition CLOSE_FIELDS :: "string list" where
  "CLOSE_FIELDS =
     [''closed'', ''closedPoolBalanceWei'', ''feeReserveWei'', ''closedAt'', ''claimDeadline'',
      ''totalCreditAtoms'', ''totalGrossClaimedWei'', ''totalFeeAccruedWei'', ''feeSwept'', ''residualSwept'']"

definition fields_of :: "mobject \<Rightarrow> string \<Rightarrow> string list \<Rightarrow> monitor_thrown + mobject" where
  "fields_of o' key names =
     and_then (requiredNonemptyObject (map_of o' key)) (\<lambda>es. requireFields es names)"

definition object_field :: "mobject \<Rightarrow> string \<Rightarrow> monitor_thrown + mvalue" where
  "object_field o' key = and_then (requiredObject (map_of o' key)) (\<lambda>es. Inr (MObj es))"

text \<open>An optional property of an object literal: \<open>undefined\<close> leaves nothing in the canonical text.\<close>

definition optional_entry :: "string \<Rightarrow> mvalue option \<Rightarrow> mobject" where
  "optional_entry key v = (case v of None \<Rightarrow> [] | Some w \<Rightarrow> [(key, w)])"

record board_domains =
  bd_problemId :: "mvalue option"
  bd_frontier :: mvalue
  bd_lifecycleChallenges :: mobject
  bd_bonds :: mobject
  bd_fundingAccounting :: mobject
  bd_credits :: mobject
  bd_payouts :: "payout_row list"

definition lifecycle_domain :: "mobject \<Rightarrow> mobject \<Rightarrow> monitor_thrown + mobject" where
  "lifecycle_domain board state =
     build_object
       [(''submissions'', object_field state ''submissions''), (''challenges'', object_field state ''challenges''),
        (''challengeInstances'', object_field state ''challengeInstances''),
        (''lifecycleCounts'',
          and_then (requiredObject (map_of board ''events'')) (\<lambda>events. object_field events ''counts''))]"

definition bonds_domain :: "mobject \<Rightarrow> monitor_thrown + mobject" where
  "bonds_domain state =
     build_object
       [(''submissionClaimableBondWei'', uint_map_field state ''submissionClaimableBondWei''),
        (''challengeClaimableBondWei'', uint_map_field state ''challengeClaimableBondWei''),
        (''resolverBonds'', and_then (requiredField (MObj state) ''resolverBonds'') projectResolverBonds)]"

definition funding_domain ::
  "mobject \<Rightarrow> mvalue \<Rightarrow> mvalue \<Rightarrow> mvalue \<Rightarrow> mvalue \<Rightarrow> mvalue \<Rightarrow> mvalue \<Rightarrow> monitor_thrown + mobject" where
  "funding_domain state pool ledger portalPool portalFunding ledgerClose rolloverVault =
     build_object
       [(''fundingArmed'', requiredBoolean (MObj state) ''fundingArmed''),
        (''armedAt'', uintField (MObj state) ''armedAt''),
        (''fundingAuthorizationDigest'', requiredString (MObj state) ''fundingAuthorizationDigest''),
        (''authorizedFundingDigest'', requiredString (MObj state) ''authorizedFundingDigest''),
        (''fundingAuthorizationExpiresAt'', uintField (MObj state) ''fundingAuthorizationExpiresAt''),
        (''fundingAuthorizationNonce'', uintField (MObj state) ''fundingAuthorizationNonce''),
        (''pool'', Inr pool), (''ledger'', Inr ledger),
        (''portalAccounting'',
          Inr (MObj [(''pool'', portalPool), (''funding'', portalFunding), (''ledgerClose'', ledgerClose)])),
        (''rolloverVault'', Inr rolloverVault)]"

definition credits_domain :: "mvalue \<Rightarrow> mobject" where
  "credits_domain ledger =
     (case ledger of
        MObj es \<Rightarrow>
          optional_entry ''totalCreditAtoms'' (map_of es ''totalCreditAtoms'') @
          optional_entry ''creditAtomsOf'' (map_of es ''creditAtomsOf'')
      | _ \<Rightarrow> [])"

text \<open>The properties of a board that is no object: reading one of \<open>null\<close> throws.\<close>

definition board_entries :: "mvalue \<Rightarrow> monitor_thrown + mobject" where
  "board_entries b = (case b of MObj es \<Rightarrow> Inr es | MNull \<Rightarrow> Inl type_error | _ \<Rightarrow> Inr [])"

definition board_domains_of :: "int \<Rightarrow> int \<Rightarrow> mvalue \<Rightarrow> monitor_thrown + board_domains" where
  "board_domains_of feeBps anchorTimestamp b =
     and_then (board_entries b) (\<lambda>board.
     and_then (requiredObject (map_of board ''state'')) (\<lambda>state.
     and_then (fields_of state ''pool'' POOL_FIELDS) (\<lambda>rawPool.
     and_then (fields_of state ''ledger'' LEDGER_FIELDS) (\<lambda>rawLedger.
     and_then (fields_of state ''rolloverVault'' VAULT_FIELDS) (\<lambda>rawVault.
     and_then (requiredObject (map_of board ''portalProjection'')) (\<lambda>projection.
     and_then (fields_of projection ''pool'' PORTAL_POOL_FIELDS) (\<lambda>rawPortalPool.
     and_then (fields_of projection ''funding'' PORTAL_FUNDING_FIELDS) (\<lambda>rawPortalFunding.
     and_then (fields_of projection ''ledgerClose'' CLOSE_FIELDS) (\<lambda>rawLedgerClose.
     and_then (projectStatePool rawPool) (\<lambda>pool.
     and_then (projectStateLedger rawLedger) (\<lambda>ledger.
     and_then (projectRolloverVault rawVault) (\<lambda>rolloverVault.
     and_then (projectPortalPool rawPortalPool) (\<lambda>portalPool.
     and_then (projectPortalFunding rawPortalFunding) (\<lambda>portalFunding.
     and_then (projectLedgerClose rawLedgerClose) (\<lambda>ledgerClose.
     and_then (object_field projection ''frontier'') (\<lambda>frontier.
     and_then (lifecycle_domain board state) (\<lambda>lifecycle.
     and_then (bonds_domain state) (\<lambda>bonds.
     and_then (funding_domain state pool ledger portalPool portalFunding ledgerClose rolloverVault) (\<lambda>funding.
     and_then (payoutRows board feeBps anchorTimestamp) (\<lambda>payouts.
     Inr \<lparr>bd_problemId = map_of board ''problemId'', bd_frontier = frontier,
          bd_lifecycleChallenges = lifecycle, bd_bonds = bonds, bd_fundingAccounting = funding,
          bd_credits = credits_domain ledger, bd_payouts = payouts\<rparr>))))))))))))))))))))"

definition check_board :: "mvalue \<Rightarrow> monitor_thrown + unit" where
  "check_board b =
     and_then (board_entries b) (\<lambda>board.
     and_then (requiredObject (map_of board ''events'')) (\<lambda>events.
     and_then (requiredField (MObj events) ''digest'') (\<lambda>_.
     and_then (requiredField (MObj events) ''total'') (\<lambda>total.
     and_then (requiredObject (map_of board ''onchain'')) (\<lambda>onchain.
     require (onchain \<noteq> []) storage_error
     (and_then (requiredObject (map_of board ''reconstruction'')) (\<lambda>reconstruction.
      and_then (requireFields reconstruction [''ok'', ''complete'', ''checks'']) (\<lambda>_.
      require (verified_reconstruction reconstruction) storage_error
      (and_then (array_of (map_of reconstruction ''checks'')) (\<lambda>_.
       and_then (validateChecks (map_of reconstruction ''checks'')) (\<lambda>_.
       and_then (nonnegativeCounter total) (\<lambda>_.
       and_then (requiredObject (map_of events ''counts'')) (\<lambda>counts.
       and_then (map_throw (\<lambda>e. nonnegativeCounter (snd e)) counts) (\<lambda>_. Inr ()))))))))))))))"

definition board_id :: "mvalue \<Rightarrow> string" where
  "board_id b =
     (case b of
        MObj es \<Rightarrow> (case map_of es ''problemId'' of None \<Rightarrow> ''undefined'' | Some v \<Rightarrow> mstring v)
      | _ \<Rightarrow> ''undefined'')"

definition manifest_problem_id :: "mvalue \<Rightarrow> monitor_thrown + string" where
  "manifest_problem_id p = (if p = MNull then Inl type_error else Inr (board_id p))"

definition with_id :: "board_domains \<Rightarrow> mobject \<Rightarrow> mvalue" where
  "with_id b es = MObj (optional_entry ''problemId'' (bd_problemId b) @ es)"

definition domains_value :: "board_domains list \<Rightarrow> mvalue" where
  "domains_value boards =
     MObj
       [(''frontier'', MArr (map (\<lambda>b. with_id b [(''frontier'', bd_frontier b)]) boards)),
        (''lifecycleChallenges'', MArr (map (\<lambda>b. with_id b (bd_lifecycleChallenges b)) boards)),
        (''bonds'', MArr (map (\<lambda>b. with_id b (bd_bonds b)) boards)),
        (''fundingAccounting'', MArr (map (\<lambda>b. with_id b (bd_fundingAccounting b)) boards)),
        (''credits'', MArr (map (\<lambda>b. with_id b (bd_credits b)) boards)),
        (''payouts'', MArr (map (\<lambda>b. with_id b [(''payouts'', MArr (map row_value (bd_payouts b)))]) boards))]"

definition boards_domains_of :: "mobject \<Rightarrow> mobject \<Rightarrow> monitor_thrown + board_domains list" where
  "boards_domains_of checkpoint manifest =
     and_then (requiredObject (map_of checkpoint ''reconstruction'')) (\<lambda>aggregate.
     and_then (requireFields aggregate [''ok'', ''complete'', ''checks'']) (\<lambda>_.
     require (verified_reconstruction aggregate) storage_error
     (and_then (array_of (map_of aggregate ''checks'')) (\<lambda>_.
      and_then (validateChecks (map_of aggregate ''checks'')) (\<lambda>_.
      and_then (requiredObject (map_of checkpoint ''range'')) (\<lambda>range.
      and_then (requiredField (MObj range) ''toBlockTimestamp'') (\<lambda>stamp.
      and_then (uint_of (MStr (mstring stamp))) (\<lambda>anchorTimestamp.
      and_then (requiredObject (map_of manifest ''parameters'')) (\<lambda>parameters.
      and_then (uint_field parameters ''feeBps'') (\<lambda>feeBps.
      require (\<not> feeBps > 250) storage_error
      (and_then (array_of (map_of manifest ''problems'')) (\<lambda>problems.
       and_then (array_of (map_of checkpoint ''boards'')) (\<lambda>boards.
       and_then (map_throw manifest_problem_id problems) (\<lambda>expectedIds.
       let observedIds = map board_id boards in
       require (expectedIds \<noteq> [] \<and> expectedIds = observedIds \<and> distinct observedIds) storage_error
       (and_then (map_throw (board_domains_of feeBps anchorTimestamp) boards) (\<lambda>domains.
        and_then (map_throw check_board boards) (\<lambda>_. Inr domains)))))))))))))))))"

definition canonicalComparisonDomains :: "mvalue \<Rightarrow> mobject \<Rightarrow> monitor_thrown + mvalue" where
  "canonicalComparisonDomains checkpoint manifest =
     and_then (requiredObject (Some checkpoint)) (\<lambda>c.
     and_then (boards_domains_of c manifest) (\<lambda>boards.
     decimalize (canon_value (domains_value boards))))"

end
