(* ===== verification/Chain_Monitor.thy ===== *)
theory Chain_Monitor
  imports Monitor_Domains Staged_Journal
begin

text \<open>
  The monitor that checks a deployment against two providers (agent/chain-monitor.mjs): how a finalized
  block is bound and its ancestry followed, the checks of a reconstructed checkpoint, the classes of
  failures and \<open>monitorDualRpcChainCore\<close>.

  A provider is a function from the number of its reads so far, so that its answers may change between
  any two reads; heads are read once. Reads of the two providers that the code starts together are
  taken in the order in which they are listed. The preparation of the binding and the reconstruction of
  a checkpoint, which the core takes as arguments, are arguments here; the reconstruction makes any
  number of reads.
\<close>

section \<open>Blocks\<close>

text \<open>A block as a provider returns it: a field of another type is \<open>None\<close>.\<close>

record raw_block =
  rb_number :: "int option"
  rb_hash :: "string option"
  rb_timestamp :: "int option"
  rb_parentHash :: "string option"

record block =
  blk_number :: int
  blk_hash :: string
  blk_timestamp :: int
  blk_parentHash :: "string option"

datatype block_tag = Finalized_tag | Height int

record monitor_provider =
  mp_getBlock :: "nat \<Rightarrow> block_tag \<Rightarrow> monitor_thrown + raw_block option"
  mp_getBlockNumber :: "monitor_thrown + int option"

definition rpcRead :: "monitor_thrown + 'a \<Rightarrow> monitor_thrown + 'a" where
  "rpcRead r =
     (case r of
        Inl (Divergence k) \<Rightarrow> Inl (Divergence k)
      | Inl e \<Rightarrow> Inl (Divergence ''transport'')
      | Inr x \<Rightarrow> Inr x)"

definition hash_text :: "string \<Rightarrow> bool" where
  "hash_text s \<longleftrightarrow> length s = 66 \<and> take 2 s = ''0x'' \<and> list_all hex_digit (drop 2 s)"

definition anchor_error :: monitor_thrown where
  "anchor_error = Divergence ''anchor''"

definition blockNumber_of :: "raw_block option \<Rightarrow> monitor_thrown + int" where
  "blockNumber_of b =
     and_then (of_option anchor_error b) (\<lambda>r.
     and_then (of_option anchor_error (rb_number r)) (\<lambda>n.
     require (safe_integer n \<and> \<not> n < 0 \<and>
         (case rb_hash r of None \<Rightarrow> False | Some h \<Rightarrow> hash_text h)) anchor_error (Inr n)))"

definition canonicalBlock :: "raw_block option \<Rightarrow> int option \<Rightarrow> monitor_thrown + block" where
  "canonicalBlock b expectedNumber =
     and_then (blockNumber_of b) (\<lambda>number.
     require (case expectedNumber of None \<Rightarrow> True | Some e \<Rightarrow> number = e) anchor_error
     (and_then (of_option anchor_error (rb_timestamp (the b))) (\<lambda>timestamp.
      require (safe_integer timestamp \<and> \<not> timestamp < 0) anchor_error
        (Inr \<lparr>blk_number = number, blk_hash = the (rb_hash (the b)), blk_timestamp = timestamp,
              blk_parentHash = rb_parentHash (the b)\<rparr>))))"

definition sameBlockIdentity :: "block \<Rightarrow> block \<Rightarrow> bool" where
  "sameBlockIdentity l r \<longleftrightarrow>
     blk_number l = blk_number r \<and> to_lower (blk_hash l) = to_lower (blk_hash r) \<and>
     blk_timestamp l = blk_timestamp r"

definition bindFinalizedTag :: "monitor_provider \<Rightarrow> nat \<Rightarrow> monitor_thrown + block" where
  "bindFinalizedTag p t =
     and_then (and_then (rpcRead (mp_getBlock p t Finalized_tag)) (\<lambda>b. canonicalBlock b None)) (\<lambda>tagged.
     and_then (and_then (rpcRead (mp_getBlock p (t + 1) (Height (blk_number tagged))))
                 (\<lambda>b. canonicalBlock b (Some (blk_number tagged)))) (\<lambda>exact.
     require (sameBlockIdentity tagged exact) anchor_error (Inr exact)))"

text \<open>The loop down to the common height, one parent at a time.\<close>

fun follow_parents :: "monitor_provider \<Rightarrow> nat \<Rightarrow> nat \<Rightarrow> block \<Rightarrow> monitor_thrown + block" where
  "follow_parents p t 0 current = Inr current"
| "follow_parents p t (Suc n) current =
     require (case blk_parentHash current of None \<Rightarrow> False | Some h \<Rightarrow> hash_text h) anchor_error
       (and_then (and_then (rpcRead (mp_getBlock p t (Height (blk_number current - 1))))
                   (\<lambda>b. canonicalBlock b (Some (blk_number current - 1)))) (\<lambda>parent.
        require (to_lower (blk_hash parent) = to_lower (the (blk_parentHash current))) anchor_error
          (follow_parents p (t + 1) n parent)))"

definition descendFinalizedAncestry ::
  "monitor_provider \<Rightarrow> nat \<Rightarrow> block \<Rightarrow> int \<Rightarrow> int \<Rightarrow> monitor_thrown + block" where
  "descendFinalizedAncestry p t finalized commonNumber maxLag =
     (let distance = blk_number finalized - commonNumber in
      require (\<not> (distance < 0 \<or> distance > maxLag)) (Divergence ''lag'')
        (follow_parents p t (nat distance) finalized))"

record monitor_anchor =
  an_number :: int
  an_hash :: string
  an_timestamp :: string

definition proveFinalizedAnchor :: "monitor_provider \<Rightarrow> nat \<Rightarrow> monitor_anchor \<Rightarrow> int \<Rightarrow> monitor_thrown + unit" where
  "proveFinalizedAnchor p t a maxLag =
     and_then (bindFinalizedTag p t) (\<lambda>finalized.
     and_then (descendFinalizedAncestry p (t + 2) finalized (an_number a) maxLag) (\<lambda>common.
     require (to_lower (blk_hash common) = an_hash a \<and> show_int (blk_timestamp common) = an_timestamp a)
       (Divergence ''reorg'') (Inr ())))"

definition validHead :: "int option \<Rightarrow> bool" where
  "validHead v = (case v of None \<Rightarrow> False | Some n \<Rightarrow> safe_integer n \<and> n \<ge> 0)"

section \<open>Reconstructed checkpoints\<close>

definition text_of_field :: "mobject \<Rightarrow> string \<Rightarrow> string" where
  "text_of_field es key = (case map_of es key of None \<Rightarrow> ''undefined'' | Some v \<Rightarrow> mstring v)"

definition checkpointMatchesAnchor :: "mvalue \<Rightarrow> monitor_anchor \<Rightarrow> bool" where
  "checkpointMatchesAnchor checkpoint a =
     (case checkpoint of
        MObj c \<Rightarrow>
          (case map_of c ''range'' of
             Some (MObj r) \<Rightarrow>
               map_of r ''toBlock'' = Some (MNum (an_number a)) \<and>
               to_lower (text_of_field r ''toBlockHash'') = an_hash a \<and>
               text_of_field r ''toBlockTimestamp'' = an_timestamp a
           | _ \<Rightarrow> False)
      | _ \<Rightarrow> False)"

definition check_reconstruction :: "mvalue option \<Rightarrow> monitor_thrown + unit" where
  "check_reconstruction v =
     and_then (requiredObject v) (\<lambda>r.
     require (verified_reconstruction r) storage_error (validateChecks (map_of r ''checks'')))"

definition validateCheckpointReconstruction :: "mvalue \<Rightarrow> mobject \<Rightarrow> monitor_thrown + unit" where
  "validateCheckpointReconstruction checkpoint binding =
     and_then (requiredObject (Some checkpoint)) (\<lambda>c.
     and_then (requiredObject (map_of c ''manifestBinding'')) (\<lambda>b.
     require (same_value (MObj b) (MObj binding)) storage_error
     (and_then (check_reconstruction (map_of c ''reconstruction'')) (\<lambda>_.
      and_then (array_of (map_of c ''boards'')) (\<lambda>boards.
      require (boards \<noteq> []) storage_error
      (and_then (map_throw (\<lambda>b. check_reconstruction
         (case b of MObj es \<Rightarrow> map_of es ''reconstruction'' | _ \<Rightarrow> None)) boards) (\<lambda>_. Inr ())))))))"

section \<open>The kind of a failure\<close>

definition word_char :: "char \<Rightarrow> bool" where
  "word_char c \<longleftrightarrow>
     (let n = (of_char c :: nat) in
      (48 \<le> n \<and> n \<le> 57) \<or> (65 \<le> n \<and> n \<le> 90) \<or> (97 \<le> n \<and> n \<le> 122) \<or> n = 95)"

definition found_at :: "string \<Rightarrow> string \<Rightarrow> nat \<Rightarrow> bool" where
  "found_at s t i \<longleftrightarrow> take (length s) (drop i t) = s"

definition mentions :: "string \<Rightarrow> string list \<Rightarrow> bool" where
  "mentions t words \<longleftrightarrow> list_ex (\<lambda>s. list_ex (found_at s (to_lower t)) [0..<Suc (length t)]) words"

definition mentions_word :: "string \<Rightarrow> string list \<Rightarrow> bool" where
  "mentions_word t words \<longleftrightarrow>
     list_ex (\<lambda>s. list_ex (\<lambda>i. found_at s (to_lower t) i \<and>
         (i = 0 \<or> \<not> word_char (t ! (i - 1))) \<and>
         (i + length s \<ge> length t \<or> \<not> word_char (t ! (i + length s)))) [0..<Suc (length t)]) words"

text \<open>\<open>/anchor .*changed/i\<close>: nothing between the two ends a line.\<close>

definition anchor_changed :: "string \<Rightarrow> bool" where
  "anchor_changed t \<longleftrightarrow>
     list_ex (\<lambda>i. found_at ''anchor '' (to_lower t) i \<and>
        mentions (takeWhile (\<lambda>c. c \<noteq> CHR 0x0A \<and> c \<noteq> CHR 0x0D) (drop (i + 7) t)) [''changed''])
       [0..<Suc (length t)]"

definition reconstructionFailureKind :: "monitor_thrown \<Rightarrow> string" where
  "reconstructionFailureKind e =
     (case e of
        Reorg_detected \<Rightarrow> ''reorg''
      | Divergence k \<Rightarrow> k
      | Other_error code message \<Rightarrow>
          if (case code of None \<Rightarrow> False
              | Some c \<Rightarrow> c \<in> set [''NETWORK_ERROR'', ''SERVER_ERROR'', ''TIMEOUT'', ''ECONNRESET'',
                  ''ECONNREFUSED'', ''ENOTFOUND'', ''EAI_AGAIN'']) \<or>
             mentions_word message
               [''rpc'', ''network'', ''transport'', ''timeout'', ''fetch'', ''socket'', ''connection'']
          then ''transport''
          else if mentions message [''reorg''] \<or> anchor_changed message then ''reorg''
          else if mentions message
                 [''runtime'', ''code hash'', ''codehash'', ''bytecode'', ''abi'', ''artifact'',
                  ''factory configuration'', ''deployment evidence''] then ''code''
          else if mentions message [''log'', ''event'', ''scan'', ''topic'', ''decode''] then ''log''
          else ''storage'')"

section \<open>Identity and providers\<close>

record rpc_profile =
  pf_operatorId :: string
  pf_endpointOrigin :: string
  pf_endpointProfileDigest :: string

record rpc_authority =
  au_registryDigest :: string
  au_primary :: rpc_profile
  au_secondary :: rpc_profile

datatype provider_role = Primary_role | Secondary_role

record provider_capability =
  cap_pair :: nat
  cap_role :: provider_role
  cap_registryDigest :: string
  cap_profile :: rpc_profile
  cap_endpointOrigin :: string

definition capability_matches :: "rpc_authority \<Rightarrow> rpc_profile \<Rightarrow> provider_capability \<Rightarrow> bool" where
  "capability_matches authority expected c \<longleftrightarrow>
     cap_registryDigest c = au_registryDigest authority \<and> cap_profile c = expected \<and>
     cap_endpointOrigin c = pf_endpointOrigin expected"

definition plain_error :: "string \<Rightarrow> monitor_thrown" where
  "plain_error message = Other_error None message"

definition validateBoundProviderCapabilities ::
  "rpc_authority \<Rightarrow> provider_capability option \<Rightarrow> provider_capability option \<Rightarrow> monitor_thrown + unit" where
  "validateBoundProviderCapabilities authority primary secondary =
     (case (primary, secondary) of
        (Some p, Some s) \<Rightarrow>
          require (cap_role p = Primary_role \<and> cap_role s = Secondary_role) (plain_error ''swapped'')
          (require (cap_pair p = cap_pair s) (plain_error ''not the same construction pair'')
          (require (capability_matches authority (au_primary authority) p) (plain_error ''primary'')
          (require (capability_matches authority (au_secondary authority) s) (plain_error ''secondary'')
            (Inr ()))))
      | _ \<Rightarrow> Inl (plain_error ''not privately capability-bound''))"

fun value_string :: "mvalue option \<Rightarrow> string" where
  "value_string (Some (MStr s)) = s"
| "value_string _ = []"

fun value_object :: "mvalue option \<Rightarrow> mobject" where
  "value_object (Some (MObj es)) = es"
| "value_object _ = []"

definition chain_id_of :: "mobject \<Rightarrow> int option" where
  "chain_id_of manifest =
     (case map_of (value_object (map_of manifest ''network'')) ''chainId'' of
        Some (MNum n) \<Rightarrow> Some n | _ \<Rightarrow> None)"

definition release_binding_of :: "mobject \<Rightarrow> string" where
  "release_binding_of manifest =
     value_string (map_of (value_object (map_of manifest ''releaseEvidence'')) ''releaseBindingDigest'')"

definition assertProductionManifestEnvelope :: "mobject \<Rightarrow> string \<Rightarrow> monitor_thrown + unit" where
  "assertProductionManifestEnvelope manifest manifestDigest =
     require (value_string (map_of manifest ''schema'') = ''p42-prizes/deployment-manifest/v2'' \<and>
         value_string (map_of manifest ''releaseMode'') = ''production'')
       (plain_error ''chain monitor accepts only a production v2 deployment manifest'')
     (require (sha256_digest manifestDigest)
       (plain_error ''chain monitor requires the exact deployment manifest byte digest'')
     (require ((case chain_id_of manifest of None \<Rightarrow> False | Some n \<Rightarrow> safe_integer n \<and> \<not> n < 1) \<and>
         lower_hex 40 (value_string (map_of manifest ''deploymentCommit'')) \<and>
         hash_text (value_string (map_of manifest ''deploymentConfigHash'')) \<and>
         sha256_digest (release_binding_of manifest))
       (plain_error ''production deployment identity is incomplete or malformed'') (Inr ())))"

definition productionMonitorIdentity :: "mobject \<Rightarrow> string \<Rightarrow> mobject \<Rightarrow> monitor_thrown + mvalue" where
  "productionMonitorIdentity manifest manifestDigest binding =
     and_then (assertProductionManifestEnvelope manifest manifestDigest) (\<lambda>_.
     require (binding \<noteq> []) (plain_error ''prepared manifest binding must not be empty'')
       (decimalize (canon_value (MObj
          [(''chainId'', MStr (show_int (the (chain_id_of manifest)))),
           (''manifestByteDigest'', MStr manifestDigest),
           (''deploymentCommit'', MStr (value_string (map_of manifest ''deploymentCommit''))),
           (''deploymentConfigHash'',
             MStr (to_lower (value_string (map_of manifest ''deploymentConfigHash'')))),
           (''releaseBindingDigest'', MStr (release_binding_of manifest)),
           (''preparedManifestBinding'', MObj binding)]))))"

definition profileSummary :: "rpc_profile \<Rightarrow> mvalue" where
  "profileSummary p =
     MObj [(''operatorId'', MStr (pf_operatorId p)), (''endpointOrigin'', MStr (pf_endpointOrigin p)),
           (''endpointProfileDigest'', MStr (pf_endpointProfileDigest p))]"

definition profiles_value :: "rpc_authority \<Rightarrow> mvalue" where
  "profiles_value authority =
     MObj [(''primary'', profileSummary (au_primary authority)),
           (''secondary'', profileSummary (au_secondary authority))]"

section \<open>Reconstructing the chain at a block\<close>

text \<open>
  The primitives are arguments in the code as well: loading the artifacts, instantiating the contracts
  of a problem, collecting the finalized data of all boards and building the checkpoint.
\<close>

record ('art, 'con, 'brd) reconstruct_adapters =
  ra_artifacts :: "monitor_thrown + 'art"
  ra_instantiate :: "mobject \<Rightarrow> mvalue \<Rightarrow> 'art \<Rightarrow> monitor_thrown + 'con"
  ra_collect :: "(mvalue \<times> 'con) list \<Rightarrow> 'art \<Rightarrow> mobject \<Rightarrow> int \<Rightarrow> monitor_thrown + 'brd"
  ra_build :: "mobject \<Rightarrow> mobject \<Rightarrow> int \<Rightarrow> 'brd \<Rightarrow> monitor_thrown + mobject"

definition isMultiBoardManifest :: "mobject \<Rightarrow> bool" where
  "isMultiBoardManifest manifest \<longleftrightarrow>
     map_of manifest ''schema'' = Some (MStr ''p42-prizes/deployment-manifest/v2'')"

definition is_truthy :: "mvalue option \<Rightarrow> bool" where
  "is_truthy v =
     (case v of
        None \<Rightarrow> False | Some MNull \<Rightarrow> False | Some (MBool b) \<Rightarrow> b | Some (MNum n) \<Rightarrow> n \<noteq> 0
      | Some (MStr s) \<Rightarrow> s \<noteq> [] | Some (MArr vs) \<Rightarrow> True | Some (MObj es) \<Rightarrow> True)"

definition reconstructChainAtBlockCore ::
  "('art, 'con, 'brd) reconstruct_adapters \<Rightarrow> mobject \<Rightarrow> mvalue option \<Rightarrow> int \<Rightarrow> monitor_thrown + mvalue" where
  "reconstructChainAtBlockCore ad manifest binding toBlock =
     require (isMultiBoardManifest manifest) storage_error
     (and_then (requiredObject binding) (\<lambda>b.
      and_then (ra_artifacts ad) (\<lambda>artifacts.
      and_then (case map_of manifest ''problems'' of Some (MArr ps) \<Rightarrow> Inr ps | _ \<Rightarrow> Inl type_error) (\<lambda>problems.
      and_then (map_throw (\<lambda>problem. and_then (ra_instantiate ad manifest problem artifacts)
                  (\<lambda>contracts. Inr (problem, contracts))) problems) (\<lambda>contractsByProblem.
      and_then (ra_collect ad contractsByProblem artifacts manifest toBlock) (\<lambda>boards.
      and_then (ra_build ad b manifest toBlock boards) (\<lambda>checkpoint.
      and_then (case map_of checkpoint ''reconstruction'' of
                  Some (MObj r) \<Rightarrow> Inr (map_of r ''ok'')
                | None \<Rightarrow> Inl type_error | Some MNull \<Rightarrow> Inl type_error | _ \<Rightarrow> Inr None) (\<lambda>ok.
      require (is_truthy ok) storage_error (Inr (MObj checkpoint))))))))))"

section \<open>The monitor\<close>

record monitor_report =
  mr_ok :: bool
  mr_identity :: mvalue
  mr_anchor :: "monitor_anchor option"
  mr_comparedDomains :: "mvalue option"
  mr_divergences :: "string list"

datatype monitor_outcome = Monitor_threw monitor_thrown | Monitor_reports monitor_report

text \<open>
  The arguments of the core: the outcome of checking the authority and the providers, the binding that
  was prepared, the two providers and what reconstructing the checkpoint at a height gives for each of
  them, and how many reads of each come before the anchor is checked again.
\<close>

record monitor_input =
  mi_manifest :: mobject
  mi_manifestDigest :: string
  mi_authority :: "monitor_thrown + rpc_authority"
  mi_primary :: monitor_provider
  mi_secondary :: monitor_provider
  mi_distinct :: bool
  mi_maxLag :: int
  mi_providers :: "rpc_authority \<Rightarrow> monitor_thrown + unit"
  mi_binding :: "monitor_thrown + mvalue option"
  mi_reconstruct :: "provider_role \<Rightarrow> mobject \<Rightarrow> int \<Rightarrow> monitor_thrown + mvalue"
  mi_recheck_at :: "provider_role \<Rightarrow> nat"

definition failedReport :: "mvalue \<Rightarrow> monitor_anchor option \<Rightarrow> string list \<Rightarrow> monitor_report" where
  "failedReport identity a divergences =
     \<lparr>mr_ok = False, mr_identity = identity, mr_anchor = a, mr_comparedDomains = None,
      mr_divergences = divergences\<rparr>"

definition kind_or_anchor :: "monitor_thrown \<Rightarrow> string" where
  "kind_or_anchor e = (case e of Divergence k \<Rightarrow> k | _ \<Rightarrow> ''anchor'')"

definition start_block_of :: "mobject \<Rightarrow> monitor_thrown + int option" where
  "start_block_of manifest =
     (case map_of manifest ''indexer'' of
        Some (MObj es) \<Rightarrow> Inr (case map_of es ''startBlock'' of Some (MNum n) \<Rightarrow> Some n | _ \<Rightarrow> None)
      | Some MNull \<Rightarrow> Inl type_error | None \<Rightarrow> Inl type_error | _ \<Rightarrow> Inr None)"

text \<open>The first phase: the common finalized anchor.\<close>

definition select_anchor :: "monitor_input \<Rightarrow> monitor_thrown + monitor_anchor" where
  "select_anchor mi =
     and_then (bindFinalizedTag (mi_primary mi) 0) (\<lambda>primaryFinalized.
     and_then (bindFinalizedTag (mi_secondary mi) 0) (\<lambda>secondaryFinalized.
     and_then (rpcRead (mp_getBlockNumber (mi_primary mi))) (\<lambda>primaryHead.
     and_then (rpcRead (mp_getBlockNumber (mi_secondary mi))) (\<lambda>secondaryHead.
     let primaryNumber = blk_number primaryFinalized; secondaryNumber = blk_number secondaryFinalized in
     require (validHead primaryHead \<and> validHead secondaryHead) (Divergence ''lag'')
     (require (\<not> (primaryNumber > the primaryHead \<or> secondaryNumber > the secondaryHead)) (Divergence ''lag'')
     (require (\<not> (\<bar>primaryNumber - secondaryNumber\<bar> > mi_maxLag mi \<or>
          \<bar>the primaryHead - the secondaryHead\<bar> > mi_maxLag mi)) (Divergence ''lag'')
     (let commonNumber = min primaryNumber secondaryNumber in
      and_then (start_block_of (mi_manifest mi)) (\<lambda>start.
      require (case start of None \<Rightarrow> True | Some s \<Rightarrow> \<not> commonNumber < s) (Divergence ''lag'')
      (and_then (descendFinalizedAncestry (mi_primary mi) 2 primaryFinalized commonNumber (mi_maxLag mi))
         (\<lambda>primaryAnchor.
       and_then (descendFinalizedAncestry (mi_secondary mi) 2 secondaryFinalized commonNumber (mi_maxLag mi))
         (\<lambda>secondaryAnchor.
       require (to_lower (blk_hash primaryAnchor) = to_lower (blk_hash secondaryAnchor)) anchor_error
       (require (blk_timestamp primaryAnchor = blk_timestamp secondaryAnchor) anchor_error
         (Inr \<lparr>an_number = commonNumber, an_hash = to_lower (blk_hash primaryAnchor),
               an_timestamp = show_int (blk_timestamp primaryAnchor)\<rparr>)))))))))))))"

text \<open>
  \<open>primary.events ?? primary.boards.map((board) => board.events)\<close>: reading boards that are no array, or
  a property of a board that is \<open>null\<close>, throws outside every handler.
\<close>

definition board_column :: "mvalue \<Rightarrow> string \<Rightarrow> monitor_thrown + mvalue" where
  "board_column checkpoint key =
     (case checkpoint of
        MObj c \<Rightarrow>
          (case map_of c ''boards'' of
             Some (MArr boards) \<Rightarrow>
               and_then (map_throw (\<lambda>b. case b of
                    MNull \<Rightarrow> Inl type_error
                  | MObj es \<Rightarrow> Inr (case map_of es key of None \<Rightarrow> MNull | Some v \<Rightarrow> v)
                  | _ \<Rightarrow> Inr MNull) boards) (\<lambda>vs. Inr (MArr vs))
           | _ \<Rightarrow> Inl type_error)
      | _ \<Rightarrow> Inl type_error)"

definition events_column :: "mvalue \<Rightarrow> monitor_thrown + mvalue" where
  "events_column checkpoint =
     (case checkpoint of
        MObj c \<Rightarrow>
          (case map_of c ''events'' of
             None \<Rightarrow> board_column checkpoint ''events''
           | Some MNull \<Rightarrow> board_column checkpoint ''events''
           | Some v \<Rightarrow> Inr v)
      | _ \<Rightarrow> Inl type_error)"

definition reconstruction_ok :: "mvalue \<Rightarrow> monitor_thrown + bool" where
  "reconstruction_ok checkpoint =
     (case checkpoint of
        MNull \<Rightarrow> Inl type_error
      | MObj c \<Rightarrow>
         Inr (case map_of c ''reconstruction'' of Some (MObj r) \<Rightarrow> is_truthy (map_of r ''ok'') | _ \<Rightarrow> False)
      | _ \<Rightarrow> Inr False)"

definition failure_kind :: "monitor_thrown + 'a \<Rightarrow> string list" where
  "failure_kind r = (case r of Inl e \<Rightarrow> [reconstructionFailureKind e] | Inr _ \<Rightarrow> [])"

definition domain_divergences :: "mvalue \<Rightarrow> mvalue \<Rightarrow> string list" where
  "domain_divergences primary secondary =
     map fst (filter (\<lambda>e. map_of (value_object (Some secondary)) (fst e) = None \<or>
          \<not> same_value (snd e) (the (map_of (value_object (Some secondary)) (fst e))))
       (value_object (Some primary)))"

text \<open>The second phase: the checks that collect divergences, and may themselves throw.\<close>

definition compare_checkpoints ::
  "mobject \<Rightarrow> mobject \<Rightarrow> monitor_anchor \<Rightarrow> mvalue \<Rightarrow> mvalue \<Rightarrow> monitor_thrown + (string list \<times> mvalue option)" where
  "compare_checkpoints manifest binding a primary secondary =
     (let checked = failure_kind (and_then (validateCheckpointReconstruction primary binding)
                      (\<lambda>_. validateCheckpointReconstruction secondary binding));
          bound = (if \<not> checkpointMatchesAnchor primary a \<or> \<not> checkpointMatchesAnchor secondary a
                   then [''anchor''] else []) in
      and_then (reconstruction_ok primary) (\<lambda>primaryOk.
      and_then (if primaryOk then reconstruction_ok secondary else Inr False) (\<lambda>bothOk.
      and_then (events_column primary) (\<lambda>primaryEvents.
      and_then (events_column secondary) (\<lambda>secondaryEvents.
      and_then (board_column primary ''onchain'') (\<lambda>primaryOnchain.
      and_then (board_column secondary ''onchain'') (\<lambda>secondaryOnchain.
      let read = checked @ bound @ (if bothOk then [] else [''storage'']) @
            (if same_value primaryEvents secondaryEvents then [] else [''log'']) @
            (if same_value primaryOnchain secondaryOnchain then [] else [''storage'']);
          primaryDomains = canonicalComparisonDomains primary manifest;
          domains = and_then primaryDomains (\<lambda>p.
            and_then (canonicalComparisonDomains secondary manifest) (\<lambda>s. Inr (domain_divergences p s)))
      in Inr (read @ (case domains of Inl e \<Rightarrow> [reconstructionFailureKind e] | Inr ds \<Rightarrow> ds),
              case primaryDomains of Inl e \<Rightarrow> None | Inr p \<Rightarrow> Some p))))))))"

definition recheck_kind :: "monitor_thrown + unit \<Rightarrow> string list" where
  "recheck_kind r =
     (case r of
        Inl e \<Rightarrow> [if reconstructionFailureKind e = ''transport'' then ''transport'' else ''reorg'']
      | Inr _ \<Rightarrow> [])"

definition recheck_anchor :: "monitor_input \<Rightarrow> monitor_anchor \<Rightarrow> monitor_thrown + unit" where
  "recheck_anchor mi a =
     and_then (proveFinalizedAnchor (mi_primary mi) (mi_recheck_at mi Primary_role) a (mi_maxLag mi)) (\<lambda>_.
     proveFinalizedAnchor (mi_secondary mi) (mi_recheck_at mi Secondary_role) a (mi_maxLag mi))"

definition monitor_phases :: "monitor_input \<Rightarrow> mobject \<Rightarrow> mvalue \<Rightarrow> monitor_outcome" where
  "monitor_phases mi binding identity =
     (case select_anchor mi of
        Inl e \<Rightarrow> Monitor_reports (failedReport identity None [kind_or_anchor e])
      | Inr a \<Rightarrow>
         (case and_then (mi_reconstruct mi Primary_role binding (an_number a)) (\<lambda>primary.
               and_then (mi_reconstruct mi Secondary_role binding (an_number a)) (\<lambda>secondary.
                 Inr (primary, secondary))) of
            Inl e \<Rightarrow> Monitor_reports (failedReport identity (Some a) [reconstructionFailureKind e])
          | Inr (primary, secondary) \<Rightarrow>
             (case compare_checkpoints (mi_manifest mi) binding a primary secondary of
                Inl e \<Rightarrow> Monitor_threw e
              | Inr (found, primaryDomains) \<Rightarrow>
                 (let divergences = found @ recheck_kind (recheck_anchor mi a)
                  in Monitor_reports \<lparr>mr_ok = (divergences = []), mr_identity = identity, mr_anchor = Some a,
                       mr_comparedDomains = (if divergences = [] then primaryDomains else None),
                       mr_divergences = divergences\<rparr>))))"

text \<open>The report is printed with the profiles in decimal form, which may throw.\<close>

definition print_report :: "rpc_authority \<Rightarrow> monitor_outcome \<Rightarrow> monitor_outcome" where
  "print_report authority outcome =
     (case outcome of
        Monitor_threw e \<Rightarrow> Monitor_threw e
      | Monitor_reports r \<Rightarrow>
         (case decimalize (canon_value (profiles_value authority)) of
            Inl e \<Rightarrow> Monitor_threw e | Inr _ \<Rightarrow> Monitor_reports r))"

definition monitorDualRpcChainCore :: "monitor_input \<Rightarrow> monitor_outcome" where
  "monitorDualRpcChainCore mi =
     (case and_then (mi_authority mi) (\<lambda>authority.
           require (0 \<le> mi_maxLag mi \<and> mi_maxLag mi \<le> 128)
             (plain_error ''maxFinalizedLagBlocks must be an integer from 0 through 128'')
           (require (mi_distinct mi) (plain_error ''chain monitor requires two distinct provider objects'')
           (and_then (mi_providers mi authority) (\<lambda>_.
            and_then (mi_binding mi) (\<lambda>b.
            and_then (requiredObject b) (\<lambda>binding.
            and_then (productionMonitorIdentity (mi_manifest mi) (mi_manifestDigest mi) binding) (\<lambda>identity.
              Inr (authority, binding, identity)))))))) of
        Inl e \<Rightarrow> Monitor_threw e
      | Inr (authority, binding, identity) \<Rightarrow> print_report authority (monitor_phases mi binding identity))"

end
