(* ===== verification/Monitor_Properties.thy ===== *)
theory Monitor_Properties
  imports Chain_Monitor
begin

text \<open>
  What a report of the chain monitor shows: that both providers finalize the anchor, before and after
  the comparison, and agree on everything compared; and that it raises no alarm about two providers
  that serve the same chain.
\<close>

section \<open>The ancestry of an anchor\<close>

fun hash_linked :: "block list \<Rightarrow> bool" where
  "hash_linked (b # c # bs) \<longleftrightarrow>
     blk_number c = blk_number b - 1 \<and>
     (\<exists>h. blk_parentHash b = Some h \<and> to_lower h = to_lower (blk_hash c)) \<and> hash_linked (c # bs)"
| "hash_linked bs \<longleftrightarrow> True"

text \<open>
  From read \<open>t\<close> on the provider shows the anchor as finalized: its finalized tag names a block from
  which a chain of parent hashes, read from the provider, leads to the anchor.
\<close>

definition answers :: "monitor_provider \<Rightarrow> nat \<Rightarrow> block_tag \<Rightarrow> block \<Rightarrow> bool" where
  "answers p t tag b \<longleftrightarrow> (\<exists>raw. mp_getBlock p t tag = Inr (Some raw) \<and> canonicalBlock (Some raw) None = Inr b)"

definition finalizes :: "monitor_provider \<Rightarrow> nat \<Rightarrow> monitor_anchor \<Rightarrow> int \<Rightarrow> bool" where
  "finalizes p t a maxLag \<longleftrightarrow>
     (\<exists>tagged chain. answers p t Finalized_tag tagged \<and> chain \<noteq> [] \<and> sameBlockIdentity tagged (hd chain) \<and>
        hash_linked chain \<and> int (length chain) \<le> maxLag + 1 \<and>
        (\<forall>b \<in> set chain. \<exists>t'. t < t' \<and> answers p t' (Height (blk_number b)) b) \<and>
        blk_number (last chain) = an_number a \<and> to_lower (blk_hash (last chain)) = an_hash a \<and>
        show_int (blk_timestamp (last chain)) = an_timestamp a)"

lemma rpcRead_Inr [simp]: "rpcRead r = Inr x \<longleftrightarrow> r = Inr x"
  by (auto simp: rpcRead_def split: sum.splits monitor_thrown.splits)

lemma canonicalBlock_some: "canonicalBlock b e = Inr blk \<Longrightarrow> \<exists>raw. b = Some raw \<and> canonicalBlock (Some raw) None = Inr blk"
  by (auto simp: canonicalBlock_def blockNumber_of_def)

lemma canonicalBlock_expected: "canonicalBlock b (Some n) = Inr blk \<Longrightarrow> blk_number blk = n"
  by (auto simp: canonicalBlock_def)

lemma read_answers:
  assumes "mp_getBlock p t tag = Inr raw" "canonicalBlock raw e = Inr b"
  shows "answers p t tag b"
  using assms canonicalBlock_some [OF assms(2)] by (auto simp: answers_def)

lemma bind_facts:
  assumes "bindFinalizedTag p t = Inr b"
  shows "\<exists>tagged. answers p t Finalized_tag tagged \<and> sameBlockIdentity tagged b \<and>
    answers p (t + 1) (Height (blk_number b)) b"
proof -
  obtain raw tagged raw' where "mp_getBlock p t Finalized_tag = Inr raw" "canonicalBlock raw None = Inr tagged"
      "mp_getBlock p (t + 1) (Height (blk_number tagged)) = Inr raw'"
      "canonicalBlock raw' (Some (blk_number tagged)) = Inr b" "sameBlockIdentity tagged b"
    using assms by (auto simp: bindFinalizedTag_def)
  then show ?thesis
    using read_answers canonicalBlock_expected by (metis)
qed

lemma follow_facts:
  assumes "follow_parents p t n b = Inr c"
  shows "\<exists>chain. chain \<noteq> [] \<and> hd chain = b \<and> last chain = c \<and> length chain = Suc n \<and> hash_linked chain \<and>
    (\<forall>d \<in> set (tl chain). \<exists>t'. t \<le> t' \<and> answers p t' (Height (blk_number d)) d) \<and>
    blk_number c = blk_number b - int n"
  using assms
proof (induction n arbitrary: t b)
  case 0
  then show ?case by (intro exI [of _ "[b]"]) simp
next
  case (Suc n)
  obtain raw parent where parent: "mp_getBlock p t (Height (blk_number b - 1)) = Inr raw"
      "canonicalBlock raw (Some (blk_number b - 1)) = Inr parent"
      "blk_parentHash b \<noteq> None" "to_lower (blk_hash parent) = to_lower (the (blk_parentHash b))"
      "follow_parents p (t + 1) n parent = Inr c"
    using Suc.prems by (auto split: option.splits)
  have number: "blk_number parent = blk_number b - 1" by (rule canonicalBlock_expected [OF parent(2)])
  obtain chain where chain: "chain \<noteq> []" "hd chain = parent" "last chain = c" "length chain = Suc n" "hash_linked chain"
      "\<forall>d \<in> set (tl chain). \<exists>t'. t + 1 \<le> t' \<and> answers p t' (Height (blk_number d)) d"
      "blk_number c = blk_number parent - int n"
    using Suc.IH [OF parent(5)] by blast
  obtain ds where ds: "chain = parent # ds" using chain(1,2) by (cases chain) auto
  have "answers p t (Height (blk_number parent)) parent"
    using read_answers [OF parent(1,2)] number by simp
  moreover have "\<exists>t'. t \<le> t' \<and> answers p t' (Height (blk_number d)) d" if "d \<in> set ds" for d
    using chain(6) that ds by (metis list.sel(3) add_leD1)
  ultimately have "\<forall>d \<in> set (tl (b # chain)). \<exists>t'. t \<le> t' \<and> answers p t' (Height (blk_number d)) d"
    using ds by auto
  moreover have "hash_linked (b # chain)" using ds chain(5) number parent(3,4) by auto
  ultimately show ?case
    using chain number by (intro exI [of _ "b # chain"]) auto
qed

lemma descend_finalizes:
  assumes "bindFinalizedTag p t = Inr f" "descendFinalizedAncestry p (t + 2) f n lag = Inr c"
    and "to_lower (blk_hash c) = an_hash a" "show_int (blk_timestamp c) = an_timestamp a" "an_number a = n"
  shows "finalizes p t a lag"
proof -
  obtain tagged where tagged: "answers p t Finalized_tag tagged" "sameBlockIdentity tagged f"
      "answers p (t + 1) (Height (blk_number f)) f"
    using bind_facts [OF assms(1)] by blast
  have follow: "follow_parents p (t + 2) (nat (blk_number f - n)) f = Inr c" "0 \<le> blk_number f - n" "blk_number f - n \<le> lag"
    using assms(2) by (auto simp: descendFinalizedAncestry_def Let_def)
  obtain chain where chain: "chain \<noteq> []" "hd chain = f" "last chain = c"
      "length chain = Suc (nat (blk_number f - n))" "hash_linked chain"
      "\<forall>d \<in> set (tl chain). \<exists>t'. t + 2 \<le> t' \<and> answers p t' (Height (blk_number d)) d"
      "blk_number c = blk_number f - int (nat (blk_number f - n))"
    using follow_facts [OF follow(1)] by blast
  have "\<exists>t'. t < t' \<and> answers p t' (Height (blk_number b)) b" if "b \<in> set chain" for b
  proof (cases "b = f")
    case True
    then show ?thesis using tagged(3) by (intro exI [of _ "t + 1"]) simp
  next
    case False
    then have "b \<in> set (tl chain)" using that chain(1,2) by (cases chain) auto
    then obtain t' where "t + 2 \<le> t'" "answers p t' (Height (blk_number b)) b" using chain(6) by blast
    then show ?thesis by (intro exI [of _ t']) simp
  qed
  then show ?thesis
    using tagged chain follow assms(3-5) unfolding finalizes_def
    by (intro exI [of _ tagged] exI [of _ chain]) auto
qed

lemma prove_finalizes:
  assumes "proveFinalizedAnchor p t a lag = Inr u" shows "finalizes p t a lag"
proof -
  obtain f c where "bindFinalizedTag p t = Inr f" "descendFinalizedAncestry p (t + 2) f (an_number a) lag = Inr c"
      "to_lower (blk_hash c) = an_hash a" "show_int (blk_timestamp c) = an_timestamp a"
    using assms by (auto simp: proveFinalizedAnchor_def)
  then show ?thesis using descend_finalizes by blast
qed

lemma select_facts:
  assumes "select_anchor mi = Inr a"
  shows "\<exists>f g c d. bindFinalizedTag (mi_primary mi) 0 = Inr f \<and> bindFinalizedTag (mi_secondary mi) 0 = Inr g \<and>
    descendFinalizedAncestry (mi_primary mi) 2 f (min (blk_number f) (blk_number g)) (mi_maxLag mi) = Inr c \<and>
    descendFinalizedAncestry (mi_secondary mi) 2 g (min (blk_number f) (blk_number g)) (mi_maxLag mi) = Inr d \<and>
    to_lower (blk_hash c) = to_lower (blk_hash d) \<and> blk_timestamp c = blk_timestamp d \<and>
    \<lparr>an_number = min (blk_number f) (blk_number g), an_hash = to_lower (blk_hash c),
     an_timestamp = show_int (blk_timestamp c)\<rparr> = a"
  using assms unfolding select_anchor_def Let_def
  by (simp only: and_then_Inr require_Inr sum.inject) blast

lemma select_finalizes:
  assumes "select_anchor mi = Inr a"
  shows "finalizes (mi_primary mi) 0 a (mi_maxLag mi)" "finalizes (mi_secondary mi) 0 a (mi_maxLag mi)"
proof -
  obtain f g c d where f: "bindFinalizedTag (mi_primary mi) 0 = Inr f" "bindFinalizedTag (mi_secondary mi) 0 = Inr g"
      "descendFinalizedAncestry (mi_primary mi) 2 f (min (blk_number f) (blk_number g)) (mi_maxLag mi) = Inr c"
      "descendFinalizedAncestry (mi_secondary mi) 2 g (min (blk_number f) (blk_number g)) (mi_maxLag mi) = Inr d"
      "to_lower (blk_hash c) = to_lower (blk_hash d)" "blk_timestamp c = blk_timestamp d"
      "\<lparr>an_number = min (blk_number f) (blk_number g), an_hash = to_lower (blk_hash c),
        an_timestamp = show_int (blk_timestamp c)\<rparr> = a"
    using select_facts [OF assms] by blast
  note two = add_0 [of "2 :: nat"]
  show "finalizes (mi_primary mi) 0 a (mi_maxLag mi)"
    by (rule descend_finalizes [OF f(1), unfolded two, OF f(3)]) (simp_all add: f(7) [symmetric])
  show "finalizes (mi_secondary mi) 0 a (mi_maxLag mi)"
    by (rule descend_finalizes [OF f(2), unfolded two, OF f(4)]) (simp_all add: f(5,6) f(7) [symmetric])
qed

section \<open>An ok report\<close>

definition agreed :: "mobject \<Rightarrow> mobject \<Rightarrow> monitor_anchor \<Rightarrow> mvalue \<Rightarrow> mvalue \<Rightarrow> mvalue \<Rightarrow> bool" where
  "agreed manifest binding a primary secondary domains \<longleftrightarrow>
     validateCheckpointReconstruction primary binding = Inr () \<and>
     validateCheckpointReconstruction secondary binding = Inr () \<and>
     checkpointMatchesAnchor primary a \<and> checkpointMatchesAnchor secondary a \<and>
     (\<exists>p s. events_column primary = Inr p \<and> events_column secondary = Inr s \<and> same_value p s) \<and>
     (\<exists>p s. board_column primary ''onchain'' = Inr p \<and> board_column secondary ''onchain'' = Inr s \<and> same_value p s) \<and>
     canonicalComparisonDomains primary manifest = Inr domains \<and>
     (\<exists>s. canonicalComparisonDomains secondary manifest = Inr s \<and> domain_divergences domains s = [])"

lemma failure_kind_Nil [simp]: "failure_kind r = [] \<longleftrightarrow> (\<exists>x. r = Inr x)"
  by (auto simp: failure_kind_def split: sum.splits)

lemma recheck_kind_Nil [simp]: "recheck_kind r = [] \<longleftrightarrow> r = Inr ()"
  by (auto simp: recheck_kind_def split: sum.splits)

lemma compare_nothing_found:
  assumes "compare_checkpoints manifest binding a primary secondary = Inr ([], domains)"
  shows "\<exists>d. domains = Some d \<and> agreed manifest binding a primary secondary d"
  using assms
  by (auto simp: compare_checkpoints_def agreed_def Let_def split: if_splits sum.splits)

lemma core_reports:
  assumes "monitorDualRpcChainCore mi = Monitor_reports r"
  shows "\<exists>binding identity. mi_binding mi = Inr (Some (MObj binding)) \<and> monitor_phases mi binding identity = Monitor_reports r"
proof -
  obtain authority b binding identity where "mi_binding mi = Inr b" "requiredObject b = Inr binding"
      "print_report authority (monitor_phases mi binding identity) = Monitor_reports r"
    using assms by (auto simp: monitorDualRpcChainCore_def split: sum.splits prod.splits)
  then show ?thesis
    by (auto simp: print_report_def split: monitor_outcome.splits sum.splits)
qed

lemma report_shape:
  assumes "monitorDualRpcChainCore mi = Monitor_reports r"
  shows "\<not> mr_ok r \<longrightarrow> mr_comparedDomains r = None \<and> mr_divergences r \<noteq> []"
proof -
  obtain binding identity where "monitor_phases mi binding identity = Monitor_reports r"
    using core_reports [OF assms] by blast
  then show ?thesis
    by (auto simp: monitor_phases_def failedReport_def Let_def split: sum.splits prod.splits)
qed

lemma ok_report:
  assumes "monitorDualRpcChainCore mi = Monitor_reports r" and "mr_ok r"
  shows "\<exists>a binding primary secondary domains. mr_anchor r = Some a \<and> mr_comparedDomains r = Some domains \<and>
    mi_binding mi = Inr (Some (MObj binding)) \<and>
    mi_reconstruct mi Primary_role binding (an_number a) = Inr primary \<and>
    mi_reconstruct mi Secondary_role binding (an_number a) = Inr secondary \<and>
    agreed (mi_manifest mi) binding a primary secondary domains \<and>
    finalizes (mi_primary mi) 0 a (mi_maxLag mi) \<and> finalizes (mi_secondary mi) 0 a (mi_maxLag mi) \<and>
    finalizes (mi_primary mi) (mi_recheck_at mi Primary_role) a (mi_maxLag mi) \<and>
    finalizes (mi_secondary mi) (mi_recheck_at mi Secondary_role) a (mi_maxLag mi)"
proof -
  obtain binding identity where core: "mi_binding mi = Inr (Some (MObj binding))"
      "monitor_phases mi binding identity = Monitor_reports r"
    using core_reports [OF assms(1)] by blast
  obtain a primary secondary domains where phases: "select_anchor mi = Inr a"
      "mi_reconstruct mi Primary_role binding (an_number a) = Inr primary"
      "mi_reconstruct mi Secondary_role binding (an_number a) = Inr secondary"
      "compare_checkpoints (mi_manifest mi) binding a primary secondary = Inr ([], domains)"
      "recheck_anchor mi a = Inr ()" "mr_anchor r = Some a" "mr_comparedDomains r = domains"
    using core(2) assms(2)
    by (auto simp: monitor_phases_def failedReport_def Let_def split: sum.splits prod.splits)
  obtain d where "domains = Some d" "agreed (mi_manifest mi) binding a primary secondary d"
    using compare_nothing_found [OF phases(4)] by blast
  moreover have "finalizes (mi_primary mi) (mi_recheck_at mi Primary_role) a (mi_maxLag mi)"
    "finalizes (mi_secondary mi) (mi_recheck_at mi Secondary_role) a (mi_maxLag mi)"
    using phases(5) prove_finalizes by (auto simp: recheck_anchor_def)
  ultimately show ?thesis using core(1) phases select_finalizes [OF phases(1)] by blast
qed

text \<open>
  C34. An ok report is evidence from both providers. Both showed the same anchor block as finalized, each
  by a chain of parent hashes from its own finalized tag of at most the configured length, when the
  anchor was selected and again after the comparison; the checkpoints reconstructed from each are
  verified, bound to the deployment and to the anchor, and agree in events, storage and every
  comparison domain; and the domains of the report are those.
\<close>

theorem monitor_ok_agreed:
  assumes "monitorDualRpcChainCore mi = Monitor_reports r" and "mr_ok r"
  shows "\<exists>a binding primary secondary domains. mr_anchor r = Some a \<and> mr_comparedDomains r = Some domains \<and>
    mi_binding mi = Inr (Some (MObj binding)) \<and>
    mi_reconstruct mi Primary_role binding (an_number a) = Inr primary \<and>
    mi_reconstruct mi Secondary_role binding (an_number a) = Inr secondary \<and>
    agreed (mi_manifest mi) binding a primary secondary domains \<and>
    finalizes (mi_primary mi) 0 a (mi_maxLag mi) \<and> finalizes (mi_secondary mi) 0 a (mi_maxLag mi) \<and>
    finalizes (mi_primary mi) (mi_recheck_at mi Primary_role) a (mi_maxLag mi) \<and>
    finalizes (mi_secondary mi) (mi_recheck_at mi Secondary_role) a (mi_maxLag mi)"
  using ok_report [OF assms] .

section \<open>Two providers of one chain\<close>

definition raw_of :: "block \<Rightarrow> raw_block" where
  "raw_of b = \<lparr>rb_number = Some (blk_number b), rb_hash = Some (blk_hash b),
     rb_timestamp = Some (blk_timestamp b), rb_parentHash = blk_parentHash b\<rparr>"

definition good_block :: "(int \<Rightarrow> block) \<Rightarrow> int \<Rightarrow> bool" where
  "good_block chain n \<longleftrightarrow>
     blk_number (chain n) = n \<and> safe_integer n \<and> hash_text (blk_hash (chain n)) \<and>
     safe_integer (blk_timestamp (chain n)) \<and> 0 \<le> blk_timestamp (chain n) \<and>
     (0 < n \<longrightarrow> (case blk_parentHash (chain n) of None \<Rightarrow> False
        | Some h \<Rightarrow> hash_text h \<and> to_lower h = to_lower (blk_hash (chain (n - 1)))))"

text \<open>
  A provider serves_chain a chain when its finalized tag at read \<open>t\<close> is the block at \<open>tip t\<close>, which never goes
  down, and from then on it answers for every height up to there with the block of the chain.
\<close>

definition serves_chain :: "monitor_provider \<Rightarrow> (int \<Rightarrow> block) \<Rightarrow> (nat \<Rightarrow> int) \<Rightarrow> int \<Rightarrow> bool" where
  "serves_chain p chain tip head \<longleftrightarrow>
     (\<forall>t. 0 \<le> tip t \<and> tip t \<le> tip (Suc t)) \<and> (\<forall>t n. 0 \<le> n \<and> n \<le> tip t \<longrightarrow> good_block chain n) \<and>
     (\<forall>t. mp_getBlock p t Finalized_tag = Inr (Some (raw_of (chain (tip t))))) \<and>
     (\<forall>t t' n. t \<le> t' \<and> 0 \<le> n \<and> n \<le> tip t \<longrightarrow>
        mp_getBlock p t' (Height n) = Inr (Some (raw_of (chain n)))) \<and>
     mp_getBlockNumber p = Inr (Some head) \<and> safe_integer head \<and> tip 0 \<le> head"

lemma canonical_raw:
  assumes "good_block chain n" "0 \<le> n" "e = None \<or> e = Some n"
  shows "canonicalBlock (Some (raw_of (chain n))) e = Inr (chain n)"
  using assms by (auto simp: canonicalBlock_def blockNumber_of_def raw_of_def good_block_def)

lemma same_identity_refl [simp]: "sameBlockIdentity b b"
  by (simp add: sameBlockIdentity_def)

lemma serves_block:
  assumes "serves_chain p chain tip head" "t \<le> t'" "0 \<le> n" "n \<le> tip t"
  shows "mp_getBlock p t' (Height n) = Inr (Some (raw_of (chain n)))" "good_block chain n"
  using assms unfolding serves_chain_def by blast+

lemma serves_tip:
  assumes "serves_chain p chain tip head"
  shows "0 \<le> tip t" "tip t \<le> tip (Suc t)"
  using assms by (simp_all add: serves_chain_def)

lemma serves_bind:
  assumes "serves_chain p chain tip head"
  shows "bindFinalizedTag p t = Inr (chain (tip t))"
proof -
  have tip: "0 \<le> tip t" "mp_getBlock p t Finalized_tag = Inr (Some (raw_of (chain (tip t))))"
    using assms by (auto simp: serves_chain_def)
  have good: "good_block chain (tip t)" by (rule serves_block(2) [OF assms order_refl tip(1) order_refl])
  have "mp_getBlock p (t + 1) (Height (tip t)) = Inr (Some (raw_of (chain (tip t))))"
    by (rule serves_block(1) [OF assms _ tip(1) order_refl]) simp
  then show ?thesis
    using tip(2) canonical_raw [OF good tip(1)] good
    by (simp add: bindFinalizedTag_def rpcRead_def good_block_def)
qed

lemma serves_follow:
  assumes "serves_chain p chain tip head"
  shows "t0 \<le> t \<Longrightarrow> int n \<le> m \<Longrightarrow> m \<le> tip t0 \<Longrightarrow> follow_parents p t n (chain m) = Inr (chain (m - int n))"
proof (induction n arbitrary: t m)
  case (Suc n)
  have good: "good_block chain m" "good_block chain (m - 1)"
    using serves_block(2) [OF assms, of t0 t m] serves_block(2) [OF assms, of t0 t "m - 1"] Suc.prems by auto
  have "mp_getBlock p t (Height (m - 1)) = Inr (Some (raw_of (chain (m - 1))))"
    using serves_block(1) [OF assms, of t0 t "m - 1"] Suc.prems by simp
  then show ?case
    using Suc.IH [of "t + 1" "m - 1"] Suc.prems canonical_raw [OF good(2)] good
    by (auto simp: rpcRead_def good_block_def algebra_simps split: option.splits)
qed simp

lemma serves_descend:
  assumes "serves_chain p chain tip head" "t0 \<le> t" "0 \<le> n" "n \<le> tip t0" "tip t0 - n \<le> lag"
  shows "descendFinalizedAncestry p t (chain (tip t0)) n lag = Inr (chain n)"
proof -
  have "blk_number (chain (tip t0)) = tip t0"
    using serves_block(2) [OF assms(1) order_refl _ order_refl, of t0] assms(3,4) by (simp add: good_block_def)
  then show ?thesis
    using serves_follow [OF assms(1,2), of "nat (tip t0 - n)" "tip t0"] assms(3-)
    by (simp add: descendFinalizedAncestry_def)
qed

definition anchor_of :: "block \<Rightarrow> monitor_anchor" where
  "anchor_of b = \<lparr>an_number = blk_number b, an_hash = to_lower (blk_hash b),
     an_timestamp = show_int (blk_timestamp b)\<rparr>"

lemma serves_prove:
  assumes "serves_chain p chain tip head" "0 \<le> n" "n \<le> tip t" "tip t - n \<le> lag" "blk_number (chain n) = n"
  shows "proveFinalizedAnchor p t (anchor_of (chain n)) lag = Inr ()"
  using serves_bind [OF assms(1), of t] serves_descend [OF assms(1), of t "t + 2" n lag] assms(2-)
  by (simp add: proveFinalizedAnchor_def anchor_of_def)

lemma compare_agreed:
  assumes "agreed manifest binding a primary secondary domains"
  shows "compare_checkpoints manifest binding a primary secondary = Inr ([], Some domains)"
proof -
  have ok: "reconstruction_ok c = Inr True" if "validateCheckpointReconstruction c binding = Inr ()" for c
    using that
    by (auto simp: validateCheckpointReconstruction_def check_reconstruction_def requiredObject_def
        verified_reconstruction_def reconstruction_ok_def is_truthy_def split: option.splits mvalue.splits)
  obtain p s q r d where "validateCheckpointReconstruction primary binding = Inr ()"
      "validateCheckpointReconstruction secondary binding = Inr ()"
      "checkpointMatchesAnchor primary a" "checkpointMatchesAnchor secondary a"
      "events_column primary = Inr p" "events_column secondary = Inr s" "same_value p s"
      "board_column primary ''onchain'' = Inr q" "board_column secondary ''onchain'' = Inr r" "same_value q r"
      "canonicalComparisonDomains primary manifest = Inr domains"
      "canonicalComparisonDomains secondary manifest = Inr d" "domain_divergences domains d = []"
    using assms unfolding agreed_def by blast
  then show ?thesis by (simp add: compare_checkpoints_def failure_kind_def ok)
qed

text \<open>What is checked before the first read.\<close>

definition admitted :: "monitor_input \<Rightarrow> mobject \<Rightarrow> mvalue \<Rightarrow> bool" where
  "admitted mi binding identity \<longleftrightarrow>
     (\<exists>authority v. mi_authority mi = Inr authority \<and> mi_providers mi authority = Inr () \<and>
        decimalize (canon_value (profiles_value authority)) = Inr v) \<and>
     0 \<le> mi_maxLag mi \<and> mi_maxLag mi \<le> 128 \<and> mi_distinct mi \<and>
     mi_binding mi = Inr (Some (MObj binding)) \<and>
     productionMonitorIdentity (mi_manifest mi) (mi_manifestDigest mi) binding = Inr identity"

lemma core_admitted:
  assumes "admitted mi binding identity" "monitor_phases mi binding identity = Monitor_reports r"
  shows "monitorDualRpcChainCore mi = Monitor_reports r"
  using assms by (auto simp: admitted_def monitorDualRpcChainCore_def print_report_def requiredObject_def)

lemma select_intro:
  assumes "bindFinalizedTag (mi_primary mi) 0 = Inr f" "bindFinalizedTag (mi_secondary mi) 0 = Inr g"
    "mp_getBlockNumber (mi_primary mi) = Inr (Some h)" "mp_getBlockNumber (mi_secondary mi) = Inr (Some k)"
    and heads: "validHead (Some h) \<and> validHead (Some k)" "\<not> (blk_number f > h \<or> blk_number g > k)"
      "\<not> (\<bar>blk_number f - blk_number g\<bar> > mi_maxLag mi \<or> \<bar>h - k\<bar> > mi_maxLag mi)"
    and start: "start_block_of (mi_manifest mi) = Inr start"
      "case start of None \<Rightarrow> True | Some s \<Rightarrow> \<not> min (blk_number f) (blk_number g) < s"
    and "descendFinalizedAncestry (mi_primary mi) 2 f (min (blk_number f) (blk_number g)) (mi_maxLag mi) = Inr c"
      "descendFinalizedAncestry (mi_secondary mi) 2 g (min (blk_number f) (blk_number g)) (mi_maxLag mi) = Inr d"
      "to_lower (blk_hash c) = to_lower (blk_hash d)" "blk_timestamp c = blk_timestamp d"
  shows "select_anchor mi = Inr \<lparr>an_number = min (blk_number f) (blk_number g), an_hash = to_lower (blk_hash c),
    an_timestamp = show_int (blk_timestamp c)\<rparr>"
proof -
  have read: "rpcRead (Inr x) = Inr x" for x :: "int option" by (simp add: rpcRead_def)
  have req: "Q \<Longrightarrow> require Q e r = r" for Q e and r :: "monitor_thrown + monitor_anchor" by simp
  show ?thesis
    unfolding select_anchor_def Let_def assms(1-4) and_then.simps read option.sel
      req [OF heads(1)] req [OF heads(2)] req [OF heads(3)] start(1) req [OF start(2)] assms(10,11)
      req [OF assms(12)] req [OF assms(13)] by (rule refl)
qed

lemma select_served:
  assumes "serves_chain (mi_primary mi) chain tipP headP" "serves_chain (mi_secondary mi) chain tipS headS"
    and "\<bar>tipP 0 - tipS 0\<bar> \<le> mi_maxLag mi" "\<bar>headP - headS\<bar> \<le> mi_maxLag mi" "n = min (tipP 0) (tipS 0)"
    and "start_block_of (mi_manifest mi) = Inr start" "case start of None \<Rightarrow> True | Some s \<Rightarrow> s \<le> n"
  shows "select_anchor mi = Inr (anchor_of (chain n))"
proof -
  have tips: "0 \<le> tipP 0" "0 \<le> tipS 0" "mp_getBlockNumber (mi_primary mi) = Inr (Some headP)"
      "mp_getBlockNumber (mi_secondary mi) = Inr (Some headS)" "safe_integer headP" "safe_integer headS"
      "tipP 0 \<le> headP" "tipS 0 \<le> headS"
    using assms(1,2) by (auto simp: serves_chain_def)
  have numbers: "blk_number (chain (tipP 0)) = tipP 0" "blk_number (chain (tipS 0)) = tipS 0"
      "blk_number (chain n) = n"
    using serves_block(2) [OF assms(1), of 0 0] serves_block(2) [OF assms(2), of 0 0] tips assms(5)
    by (auto simp: good_block_def min_def)
  have n: "0 \<le> n" "n \<le> tipP 0" "n \<le> tipS 0" "tipP 0 - n \<le> mi_maxLag mi" "tipS 0 - n \<le> mi_maxLag mi"
    using assms(3,5) tips by auto
  have "descendFinalizedAncestry (mi_primary mi) 2 (chain (tipP 0)) n (mi_maxLag mi) = Inr (chain n)"
    "descendFinalizedAncestry (mi_secondary mi) 2 (chain (tipS 0)) n (mi_maxLag mi) = Inr (chain n)"
    using serves_descend [OF assms(1), of 0 2 n] serves_descend [OF assms(2), of 0 2 n] n by auto
  moreover have "validHead (Some headP) \<and> validHead (Some headS)"
    using tips by (simp add: validHead_def)
  moreover have "\<not> (tipP 0 > headP \<or> tipS 0 > headS)" using tips by simp
  moreover have "\<not> (\<bar>tipP 0 - tipS 0\<bar> > mi_maxLag mi \<or> \<bar>headP - headS\<bar> > mi_maxLag mi)"
    using assms(3,4) by simp
  moreover have "case start of None \<Rightarrow> True
      | Some s \<Rightarrow> \<not> min (blk_number (chain (tipP 0))) (blk_number (chain (tipS 0))) < s"
    using assms(7) unfolding numbers(1,2) assms(5) [symmetric] by (cases start) simp_all
  ultimately show ?thesis
    using select_intro [OF serves_bind [OF assms(1), of 0] serves_bind [OF assms(2), of 0] tips(3,4) _ _ _ assms(6) _,
        of "chain n" "chain n"] numbers assms(5) by (simp add: anchor_of_def)
qed

lemma healthy_report:
  assumes "admitted mi binding identity"
    and "serves_chain (mi_primary mi) chain tipP headP" "serves_chain (mi_secondary mi) chain tipS headS"
    and "\<bar>tipP 0 - tipS 0\<bar> \<le> mi_maxLag mi" "\<bar>headP - headS\<bar> \<le> mi_maxLag mi" "n = min (tipP 0) (tipS 0)"
    and "start_block_of (mi_manifest mi) = Inr start" "case start of None \<Rightarrow> True | Some s \<Rightarrow> s \<le> n"
    and "tipP (mi_recheck_at mi Primary_role) - n \<le> mi_maxLag mi"
      "tipS (mi_recheck_at mi Secondary_role) - n \<le> mi_maxLag mi"
    and "mi_reconstruct mi Primary_role binding n = Inr primary" "mi_reconstruct mi Secondary_role binding n = Inr secondary"
      "agreed (mi_manifest mi) binding (anchor_of (chain n)) primary secondary domains"
  shows "monitorDualRpcChainCore mi = Monitor_reports \<lparr>mr_ok = True, mr_identity = identity,
    mr_anchor = Some (anchor_of (chain n)), mr_comparedDomains = Some domains, mr_divergences = []\<rparr>"
proof (rule core_admitted [OF assms(1)])
  have mono: "tip 0 \<le> tip t" if "serves_chain p chain tip head" for p tip head t
  proof -
    have "tip s \<le> tip (Suc s)" for s by (rule serves_tip(2) [OF that])
    then show ?thesis by (rule lift_Suc_mono_le) simp
  qed
  have "0 \<le> tipP 0" "0 \<le> tipS 0" using serves_tip(1) assms(2,3) by blast+
  then have number: "blk_number (chain n) = n" and n: "0 \<le> n"
    using serves_block(2) [OF assms(2), of 0 0 n] assms(6) by (auto simp: good_block_def)
  have select: "select_anchor mi = Inr (anchor_of (chain n))"
    by (rule select_served [OF assms(2-8)])
  have later: "n \<le> tipP (mi_recheck_at mi Primary_role)" "n \<le> tipS (mi_recheck_at mi Secondary_role)"
    using mono [OF assms(2), of "mi_recheck_at mi Primary_role"] mono [OF assms(3), of "mi_recheck_at mi Secondary_role"]
      assms(6) by auto
  have "proveFinalizedAnchor (mi_primary mi) (mi_recheck_at mi Primary_role) (anchor_of (chain n)) (mi_maxLag mi) = Inr ()"
    by (rule serves_prove [OF assms(2) n later(1) assms(9) number])
  moreover have "proveFinalizedAnchor (mi_secondary mi) (mi_recheck_at mi Secondary_role) (anchor_of (chain n))
      (mi_maxLag mi) = Inr ()"
    by (rule serves_prove [OF assms(3) n later(2) assms(10) number])
  ultimately have recheck: "recheck_anchor mi (anchor_of (chain n)) = Inr ()"
    by (simp add: recheck_anchor_def)
  show "monitor_phases mi binding identity = Monitor_reports \<lparr>mr_ok = True, mr_identity = identity,
      mr_anchor = Some (anchor_of (chain n)), mr_comparedDomains = Some domains, mr_divergences = []\<rparr>"
    using select recheck assms(11,12) compare_agreed [OF assms(13)] number
    by (simp add: monitor_phases_def anchor_of_def)
qed

text \<open>
  C35. Healthy providers raise no alarm: when the input is admitted (authority, providers, binding and lag
  are accepted), both serve the same chain, with finalized heights that may grow between any two reads,
  the first finalized heights and the heads are within the configured lag of each other, the common block
  is not before the start block of the deployment, the finalized heights at the final recheck are within
  the lag of the common block, and the checkpoints reconstructed from them are verified and agree, the
  report is ok, has the common finalized block as its anchor and no divergences.
\<close>

theorem monitor_healthy_ok:
  assumes "admitted mi binding identity"
    and "serves_chain (mi_primary mi) chain tipP headP" "serves_chain (mi_secondary mi) chain tipS headS"
    and "\<bar>tipP 0 - tipS 0\<bar> \<le> mi_maxLag mi" "\<bar>headP - headS\<bar> \<le> mi_maxLag mi" "n = min (tipP 0) (tipS 0)"
    and "start_block_of (mi_manifest mi) = Inr start" "case start of None \<Rightarrow> True | Some s \<Rightarrow> s \<le> n"
    and "tipP (mi_recheck_at mi Primary_role) - n \<le> mi_maxLag mi"
      "tipS (mi_recheck_at mi Secondary_role) - n \<le> mi_maxLag mi"
    and "mi_reconstruct mi Primary_role binding n = Inr primary" "mi_reconstruct mi Secondary_role binding n = Inr secondary"
      "agreed (mi_manifest mi) binding (anchor_of (chain n)) primary secondary domains"
  shows "monitorDualRpcChainCore mi = Monitor_reports \<lparr>mr_ok = True, mr_identity = identity,
    mr_anchor = Some (anchor_of (chain n)), mr_comparedDomains = Some domains, mr_divergences = []\<rparr>"
  by (rule healthy_report [OF assms])

end
