(* ===== verification/Monitor_Payouts.thy ===== *)
theory Monitor_Payouts
  imports Monitor_Domains
begin

text \<open>
  What the payout rows the chain monitor compares add up to.
\<close>

section \<open>Payouts\<close>

lemma floor_shares:
  fixes B T :: int
  assumes "0 < T" "\<And>c. c \<in> set cs \<Longrightarrow> 0 \<le> c" "sum_list cs = T"
  shows "sum_list (map (\<lambda>c. B * c div T) cs) \<le> B"
proof -
  have "sum_list (map (\<lambda>c. B * c div T) cs) * T = sum_list (map (\<lambda>c. (B * c div T) * T) cs)"
    by (simp add: sum_list_mult_const)
  also have "\<dots> \<le> sum_list (map (\<lambda>c. B * c) cs)"
  proof (rule sum_list_mono)
    fix c assume "c \<in> set cs"
    show "(B * c div T) * T \<le> B * c"
      using assms(1) by (simp add: minus_mod_eq_div_mult [symmetric])
  qed
  also have "\<dots> = B * T" using assms(3) by (simp add: sum_list_const_mult)
  finally show ?thesis using assms(1) by simp
qed

lemma uint_field_nonneg: "uint_field es k = Inr n \<Longrightarrow> 0 \<le> n"
  by (auto simp: uint_field_def uint_of_nonneg)

lemma payout_row_inv:
  assumes "payout_row_of pc feeBps ts e = Inr (r, credit)"
  shows "\<exists>claimed. 0 \<le> credit \<and> 0 \<le> claimed \<and> 0 \<le> expected_gross pc credit \<and>
    (claimed = 0 \<or> claimed = expected_gross pc credit) \<and>
    r = priced_row pc feeBps ts (fst e) (expected_gross pc credit) claimed"
proof -
  obtain claimed where "uint_field (snd e) ''claimedWei'' = Inr claimed" "uint_field (snd e) ''creditAtoms'' = Inr credit"
      "uint_field (snd e) ''finalEntitlementWei'' = Inr (expected_gross pc credit)"
      "claimed = 0 \<or> claimed = expected_gross pc credit"
      "r = priced_row pc feeBps ts (fst e) (expected_gross pc credit) claimed"
    using assms by (auto simp: payout_row_of_def Let_def)
  then show ?thesis using uint_field_nonneg by blast
qed

lemma payout_row_facts:
  assumes "payout_row_of pc feeBps ts e = Inr (r, credit)" "0 \<le> feeBps" "feeBps \<le> 10000"
  shows "pw_solver r = fst e" "0 \<le> credit" "0 \<le> pw_finalEntitlementGross r"
    "pw_finalEntitlementGross r = expected_gross pc credit"
    "pw_claimedGross r = 0 \<or> pw_claimedGross r = pw_finalEntitlementGross r"
    "0 \<le> pw_claimFee r" "0 \<le> pw_claimableNet r"
    "pw_claimedGross r + pw_claimableNet r + pw_claimFee r \<le> pw_finalEntitlementGross r"
proof -
  let ?gross = "expected_gross pc credit"
  obtain claimed where facts: "0 \<le> credit" "0 \<le> claimed" "0 \<le> ?gross" "claimed = 0 \<or> claimed = ?gross"
      and r: "r = priced_row pc feeBps ts (fst e) ?gross claimed"
    using payout_row_inv [OF assms(1)] by blast
  let ?claimable = "claimable_gross pc ts ?gross claimed"
  have able: "0 \<le> ?claimable" "?claimable = 0 \<or> (claimed = 0 \<and> ?claimable = ?gross)"
    using facts(3) by (auto simp: claimable_gross_def Let_def)
  have fee: "?claimable * feeBps div 10000 \<le> ?claimable"
  proof -
    have "?claimable * feeBps div 10000 \<le> ?claimable * 10000 div 10000"
      by (intro zdiv_mono1 mult_left_mono) (use able assms(3) in auto)
    then show ?thesis by simp
  qed
  have fee0: "0 \<le> ?claimable * feeBps div 10000"
    using able assms(2) by (simp add: pos_imp_zdiv_nonneg_iff)
  show "pw_solver r = fst e" "0 \<le> credit" "0 \<le> pw_finalEntitlementGross r"
    "pw_finalEntitlementGross r = expected_gross pc credit"
    "pw_claimedGross r = 0 \<or> pw_claimedGross r = pw_finalEntitlementGross r"
    "0 \<le> pw_claimFee r" "0 \<le> pw_claimableNet r"
    "pw_claimedGross r + pw_claimableNet r + pw_claimFee r \<le> pw_finalEntitlementGross r"
    using facts able fee fee0 by (auto simp: r priced_row_def Let_def)
qed

lemma payoutRows_facts:
  assumes "payoutRows board feeBps ts = Inr rows"
  shows "\<exists>ledgerClose pc stateLedger entries computed.
    payout_close_of board ledgerClose = Inr (pc, stateLedger) \<and> rows = map fst computed \<and>
    map_throw (payout_row_of pc feeBps ts) entries = Inr computed \<and> distinct (map fst entries) \<and>
    key_addresses (py_stateCredits pc) = Inr (sort (map fst entries)) \<and>
    key_addresses (py_stateClaims pc) = Inr (sort (map fst entries)) \<and>
    (py_closed pc \<longrightarrow> sum_list (map snd computed) = py_totalCredit pc) \<and>
    uint_field stateLedger ''totalGrossClaimed'' = Inr (sum_list (map pw_claimedGross rows))"
  using assms unfolding payoutRows_def Let_def by (clarsimp split: prod.splits) blast

lemma payout_close_nonneg:
  "payout_close_of board lc = Inr (pc, sl) \<Longrightarrow> 0 \<le> py_closedPoolBalance pc \<and> 0 \<le> py_totalCredit pc"
  by (auto simp: payout_close_of_def uint_field_nonneg)

lemma rows_solvers:
  assumes "map_throw (payout_row_of pc feeBps ts) entries = Inr computed" "0 \<le> feeBps" "feeBps \<le> 10000"
  shows "map (\<lambda>x. pw_solver (fst x)) computed = map fst entries"
    "\<forall>x \<in> set computed. \<exists>e. payout_row_of pc feeBps ts e = Inr x"
proof -
  have all: "list_all2 (\<lambda>e x. payout_row_of pc feeBps ts e = Inr x) entries computed"
    using assms(1) by (simp add: map_throw_facts)
  then have "list_all2 (\<lambda>e x. fst e = pw_solver (fst x)) entries computed"
    by (rule list_all2_mono) (metis payout_row_facts(1) [OF _ assms(2,3)] prod.collapse)
  then show "map (\<lambda>x. pw_solver (fst x)) computed = map fst entries"
    by (induction rule: list_all2_induct) auto
  show "\<forall>x \<in> set computed. \<exists>e. payout_row_of pc feeBps ts e = Inr x"
    using all by (induction rule: list_all2_induct) auto
qed

lemma entitlements_bounded:
  assumes "py_closed pc \<longrightarrow> sum_list cs = py_totalCredit pc" "\<forall>c \<in> set cs. 0 \<le> c" "0 \<le> py_closedPoolBalance pc"
  shows "sum_list (map (expected_gross pc) cs) \<le> py_closedPoolBalance pc"
proof (cases "py_closed pc \<and> py_totalCredit pc > 0")
  case True
  then have "expected_gross pc = (\<lambda>c. py_closedPoolBalance pc * c div py_totalCredit pc)"
    by (auto simp: expected_gross_def)
  then show ?thesis using floor_shares [of "py_totalCredit pc" cs "py_closedPoolBalance pc"] True assms by simp
next
  case False
  then have "expected_gross pc = (\<lambda>c. 0)" by (auto simp: expected_gross_def)
  moreover have "sum_list (map (\<lambda>c. 0) cs) = (0 :: int)" by (induction cs) simp_all
  ultimately show ?thesis using assms(3) by simp
qed

text \<open>
  C37. The payout rows a comparison accepts are solvent: over distinct solvers the entitlements sum to
  at most the balance the pool closed with; each solver has claimed nothing or all of its share; what
  is still claimable is split into a fee and a net amount, neither negative; claims, fees and net
  amounts together never exceed the balance; and the claims add up to the ledger's own total.
\<close>

theorem payout_rows_solvent:
  assumes "payoutRows board feeBps ts = Inr rows" and "0 \<le> feeBps" and "feeBps \<le> 10000"
  shows "\<exists>ledgerClose pc stateLedger. payout_close_of board ledgerClose = Inr (pc, stateLedger) \<and>
    distinct (map pw_solver rows) \<and>
    sum_list (map pw_finalEntitlementGross rows) \<le> py_closedPoolBalance pc \<and>
    sum_list (map (\<lambda>r. pw_claimedGross r + pw_claimableNet r + pw_claimFee r) rows) \<le> py_closedPoolBalance pc \<and>
    uint_field stateLedger ''totalGrossClaimed'' = Inr (sum_list (map pw_claimedGross rows)) \<and>
    (\<forall>r \<in> set rows. (pw_claimedGross r = 0 \<or> pw_claimedGross r = pw_finalEntitlementGross r) \<and>
       0 \<le> pw_claimFee r \<and> 0 \<le> pw_claimableNet r)"
proof -
  obtain lc pc sl entries computed where close: "payout_close_of board lc = Inr (pc, sl)"
    and rows: "rows = map fst computed"
    and computed: "map_throw (payout_row_of pc feeBps ts) entries = Inr computed"
    and distinct: "distinct (map fst entries)"
    and "key_addresses (py_stateCredits pc) = Inr (sort (map fst entries))"
    and "key_addresses (py_stateClaims pc) = Inr (sort (map fst entries))"
    and credit: "py_closed pc \<longrightarrow> sum_list (map snd computed) = py_totalCredit pc"
    and claimed: "uint_field sl ''totalGrossClaimed'' = Inr (sum_list (map pw_claimedGross rows))"
    using payoutRows_facts [OF assms(1)] by blast
  note solvers = rows_solvers [OF computed assms(2,3)]
  have row: "0 \<le> snd x" "pw_finalEntitlementGross (fst x) = expected_gross pc (snd x)"
    "pw_claimedGross (fst x) = 0 \<or> pw_claimedGross (fst x) = pw_finalEntitlementGross (fst x)"
    "0 \<le> pw_claimFee (fst x)" "0 \<le> pw_claimableNet (fst x)"
    "pw_claimedGross (fst x) + pw_claimableNet (fst x) + pw_claimFee (fst x) \<le> pw_finalEntitlementGross (fst x)"
    if "x \<in> set computed" for x
  proof -
    obtain e where e: "payout_row_of pc feeBps ts e = Inr (fst x, snd x)"
      using solvers(2) \<open>x \<in> set computed\<close> by auto
    note facts = payout_row_facts [OF e assms(2,3)]
    show "0 \<le> snd x" "pw_finalEntitlementGross (fst x) = expected_gross pc (snd x)"
      "pw_claimedGross (fst x) = 0 \<or> pw_claimedGross (fst x) = pw_finalEntitlementGross (fst x)"
      "0 \<le> pw_claimFee (fst x)" "0 \<le> pw_claimableNet (fst x)"
      "pw_claimedGross (fst x) + pw_claimableNet (fst x) + pw_claimFee (fst x) \<le> pw_finalEntitlementGross (fst x)"
      using facts(2,4,5,6,7,8) by simp_all
  qed
  have gross: "map pw_finalEntitlementGross rows = map (expected_gross pc) (map snd computed)"
    unfolding rows using row(2) by simp
  have "\<forall>c \<in> set (map snd computed). 0 \<le> c" using row(1) by auto
  then have total: "sum_list (map pw_finalEntitlementGross rows) \<le> py_closedPoolBalance pc"
    unfolding gross using entitlements_bounded credit payout_close_nonneg [OF close] by blast
  have parts: "sum_list (map (\<lambda>r. pw_claimedGross r + pw_claimableNet r + pw_claimFee r) rows) \<le>
      sum_list (map pw_finalEntitlementGross rows)"
    unfolding rows by (rule sum_list_mono) (use row(6) in auto)
  have each: "\<forall>r \<in> set rows. (pw_claimedGross r = 0 \<or> pw_claimedGross r = pw_finalEntitlementGross r) \<and>
       0 \<le> pw_claimFee r \<and> 0 \<le> pw_claimableNet r"
    unfolding rows using row(3-5) by auto
  have "distinct (map pw_solver rows)"
    using solvers(1) distinct by (simp add: rows comp_def)
  then show ?thesis
    using close claimed total order_trans [OF parts total] each by blast
qed

end
