(* ===== verification/Replay_Public.thy ===== *)
theory Replay_Public
  imports Monitor_Values Replay "HOL-Library.Signed_Division"
begin

text \<open>
  The replayed state as a checkpoint publishes it (agent/indexer.mjs): \<open>publicReplayState\<close>, which drops
  what the replay only needs for itself, and \<open>portalStateFacts\<close>, the view of it for the web portal.

  A bigint is printed in decimal by \<open>canonicalize\<close>, so it is a text here; an \<open>undefined\<close> property is
  left out. Addresses and transaction hashes are texts of digits and lower-case letters, on which
  \<open>localeCompare\<close> is the order of the characters.
\<close>

section \<open>Values\<close>

definition big_value :: "int \<Rightarrow> mvalue" where
  "big_value n = MStr (show_int n)"

definition js_entry :: "string \<Rightarrow> jsval \<Rightarrow> mobject" where
  "js_entry key v =
     (case v of
        JUndefined \<Rightarrow> []
      | JNull \<Rightarrow> [(key, MNull)]
      | JBool b \<Rightarrow> [(key, MBool b)]
      | JInt n \<Rightarrow> [(key, big_value n)]
      | JStr s \<Rightarrow> [(key, MStr s)])"

definition book_value :: "string book \<Rightarrow> mvalue" where
  "book_value b = MObj (map (\<lambda>(k, n). (k, big_value n)) b)"

definition numbered_value :: "('a \<Rightarrow> mvalue) \<Rightarrow> (int \<times> 'a) list \<Rightarrow> mvalue" where
  "numbered_value f xs = MObj (map (\<lambda>(i, v). (show_int i, f v)) xs)"

definition bigs :: "(string \<times> int) list \<Rightarrow> mobject" where
  "bigs = map (\<lambda>(k, n). (k, big_value n))"

definition bools :: "(string \<times> bool) list \<Rightarrow> mobject" where
  "bools = map (\<lambda>(k, b). (k, MBool b))"

definition texts :: "(string \<times> string) list \<Rightarrow> mobject" where
  "texts = map (\<lambda>(k, s). (k, MStr s))"

section \<open>The public state\<close>

definition pool_value :: "pool_state \<Rightarrow> mvalue" where
  "pool_value p = MObj
     (js_entry ''ledger'' (pool_ledger p) @ js_entry ''submissionManager'' (pool_submissionManager p) @
      js_entry ''registry'' (pool_registry p) @
      bools [(''acceptingFunds'', pool_acceptingFunds p), (''everFunded'', pool_everFunded p)] @
      bigs [(''problemId'', pool_problemId p), (''firstFundedAt'', pool_firstFundedAt p),
        (''accountedBalance'', pool_accountedBalance p), (''totalFunded'', pool_totalFunded p),
        (''totalClaimed'', pool_totalClaimed p), (''totalWinningsDonated'', pool_totalWinningsDonated p),
        (''totalGrossClaimed'', pool_totalGrossClaimed p), (''totalFeeAccrued'', pool_totalFeeAccrued p),
        (''totalFeePaid'', pool_totalFeePaid p), (''accruedFeeBalance'', pool_accruedFeeBalance p),
        (''totalSponsorRefunded'', pool_totalSponsorRefunded p), (''totalRolloverPaid'', pool_totalRolloverPaid p),
        (''totalForcedEthRecovered'', pool_totalForcedEthRecovered p),
        (''totalResidualPaid'', pool_totalResidualPaid p)] @
      [(''sponsorshipOf'', book_value (pool_sponsorshipOf p)),
       (''sponsorshipFundings'', MArr (map (\<lambda>f. MObj
          (texts [(''transactionHash'', sf_transactionHash f), (''payer'', sf_payer f), (''sponsor'', sf_sponsor f)] @
           bigs [(''amount'', sf_amount f)])) (pool_sponsorshipFundings p))),
       (''winningsDonations'', MArr (map (\<lambda>d. MObj
          (texts [(''transactionHash'', wd_transactionHash d), (''solver'', wd_solver d),
             (''destinationPool'', wd_destinationPool d)] @
           bigs [(''grossAmount'', wd_grossAmount d), (''donatedAmount'', wd_donatedAmount d),
             (''feeAmount'', wd_feeAmount d)])) (pool_winningsDonations p)))])"

definition ledger_value :: "ledger_state \<Rightarrow> mvalue" where
  "ledger_value l = MObj
     ([(''creditAtomsOf'', book_value (ledger_creditAtomsOf l)), (''claimedWeiOf'', book_value (ledger_claimedWeiOf l))] @
      js_entry ''creditRecorder'' (ledger_creditRecorder l) @
      bools [(''pausedNewActions'', ledger_pausedNewActions l), (''closed'', ledger_closed l),
        (''feeSwept'', ledger_feeSwept l), (''residualSwept'', ledger_residualSwept l)] @
      bigs [(''closedPoolBalance'', ledger_closedPoolBalance l), (''feeReserve'', ledger_feeReserve l),
        (''closedAt'', ledger_closedAt l), (''claimDeadline'', ledger_claimDeadline l),
        (''totalCreditAtoms'', ledger_totalCreditAtoms l), (''totalGrossClaimed'', ledger_totalGrossClaimed l),
        (''totalFeeAccrued'', ledger_totalFeeAccrued l)])"

definition finalize_value :: "finalize_info \<Rightarrow> mvalue" where
  "finalize_value f = MObj (bigs
     [(''prevBestScoreAtoms'', fi_prevBestScoreAtoms f), (''creditAtoms'', fi_creditAtoms f),
      (''prevCreditRecoveryEndsAt'', fi_prevCreditRecoveryEndsAt f)])"

definition submission_value :: "submission \<Rightarrow> mvalue" where
  "submission_value s = MObj
     (js_entry ''solver'' (sub_solver s) @ js_entry ''commitment'' (sub_commitment s) @
      js_entry ''commitDaHash'' (sub_commitDaHash s) @ js_entry ''solutionCid'' (sub_solutionCid s) @
      js_entry ''permanenceHash'' (sub_permanenceHash s) @
      bigs [(''submissionId'', sub_submissionId s), (''bondWei'', sub_bondWei s),
        (''poolAtSubmissionWei'', sub_poolAtSubmissionWei s), (''requiredBondWei'', sub_requiredBondWei s),
        (''improvementAtoms'', sub_improvementAtoms s), (''claimedScoreAtoms'', sub_claimedScoreAtoms s),
        (''committedAt'', sub_committedAt s), (''committedBlock'', sub_committedBlock s),
        (''revealedAt'', sub_revealedAt s), (''challengeEndsAt'', sub_challengeEndsAt s),
        (''maxDisputeEndsAt'', sub_maxDisputeEndsAt s)] @
      bools [(''paidAtCommit'', sub_paidAtCommit s)] @
      texts [(''revealInstanceHash'', sub_revealInstanceHash s), (''status'', status_label (sub_status s))] @
      [(''finalizeInfo'', finalize_value (sub_finalizeInfo s))] @
      (case sub_solutionBytesLength s of None \<Rightarrow> [] | Some n \<Rightarrow> bigs [(''solutionBytesLength'', n)]) @
      (case sub_objectiveClearedRevealInstanceHash s of None \<Rightarrow> []
       | Some h \<Rightarrow> texts [(''objectiveClearedRevealInstanceHash'', h)]))"

definition challenge_value :: "challenge \<Rightarrow> mvalue" where
  "challenge_value c = MObj
     (bigs [(''submissionId'', ch_submissionId c), (''challengeBondWei'', ch_challengeBondWei c),
        (''challengedAt'', ch_challengedAt c), (''disputeEndsAt'', ch_disputeEndsAt c)] @
      js_entry ''challenger'' (ch_challenger c) @ js_entry ''reasonHash'' (ch_reasonHash c) @
      bools [(''resolved'', ch_resolved c), (''decisionPending'', ch_decisionPending c),
        (''challengerWins'', ch_challengerWins c)] @
      js_entry ''transcriptHash'' (ch_transcriptHash c) @ js_entry ''transcriptURI'' (ch_transcriptURI c) @
      js_entry ''verdictHash'' (ch_verdictHash c))"

definition bond_value :: "resolver_bond \<Rightarrow> mvalue" where
  "bond_value b = MObj (bigs [(''amountWei'', rb_amountWei b), (''releaseAt'', rb_releaseAt b)] @
     js_entry ''slashProofHash'' (rb_slashProofHash b))"

definition pending_value :: "pending_verification option \<Rightarrow> mvalue" where
  "pending_value p =
     (case p of
        None \<Rightarrow> MNull
      | Some v \<Rightarrow> MObj
          (texts [(''transactionHash'', pv_transactionHash v), (''authorizationDigest'', pv_authorizationDigest v),
             (''boardSetDigest'', pv_boardSetDigest v), (''releaseBindingDigest'', pv_releaseBindingDigest v)] @
           (case pv_logIndex v of None \<Rightarrow> [] | Some i \<Rightarrow> [(''logIndex'', MNum i)]) @ bigs [(''nonce'', pv_nonce v)]))"

definition proof_value :: "objective_proof \<Rightarrow> mvalue" where
  "proof_value p = MObj
     (bigs [(''id'', op_id p)] @
      texts [(''proofHash'', op_proofHash p), (''proofBeneficiary'', op_proofBeneficiary p)] @
      js_entry ''challengeInstanceHash'' (op_challengeInstanceHash p) @
      bools [(''correctedChallengerWins'', op_correctedChallengerWins p),
        (''quorumJournalSeen'', op_quorumJournalSeen p)])"

definition forced_leg_entry :: "string \<Rightarrow> forced_leg option \<Rightarrow> mobject" where
  "forced_leg_entry key l =
     (case l of
        None \<Rightarrow> []
      | Some f \<Rightarrow> [(key, MObj (texts [(''destination'', fl_destination f)] @
          bigs [(''amount'', fl_amount f), (''remaining'', fl_remaining f)]))])"

definition problem_value :: "registry_problem \<Rightarrow> mvalue" where
  "problem_value p = MObj
     (js_entry ''specHash'' (rp_specHash p) @ js_entry ''verifierImageHash'' (rp_verifierImageHash p) @
      js_entry ''pool'' (rp_pool p) @ js_entry ''metadataURI'' (rp_metadataURI p) @
      bools [(''frozen'', rp_frozen p)] @
      (if rp_hasPartialUpdateEvent p then bools [(''hasPartialUpdateEvent'', True)] else []))"

definition vault_value :: "vault_state \<Rightarrow> mvalue" where
  "vault_value v = MObj
     (bigs [(''totalReceived'', vault_totalReceived v), (''totalFuturePoolFunded'', vault_totalFuturePoolFunded v),
        (''totalAllocated'', vault_totalAllocated v)] @
      [(''allocationOf'', book_value (vault_allocationOf v)),
       (''allocationCodehashOf'', MObj (concat (map (\<lambda>(k, h). js_entry k h) (vault_allocationCodehashOf v))))])"

definition recovery_key :: "int option \<Rightarrow> string" where
  "recovery_key i = (case i of None \<Rightarrow> ''undefined'' | Some n \<Rightarrow> show_int n)"

definition public_entries :: "replay_state \<Rightarrow> mobject" where
  "public_entries st =
     [(''pool'', pool_value (pool st)), (''ledger'', ledger_value (ledger st)),
      (''submissions'', numbered_value submission_value (submissions st)),
      (''challenges'', numbered_value challenge_value (challenges st)),
      (''challengeInstances'', numbered_value (\<lambda>c. MObj (texts
         [(''revealInstanceHash'', ci_revealInstanceHash c), (''challengeInstanceHash'', ci_challengeInstanceHash c)]))
         (challengeInstances st)),
      (''resolverBonds'', numbered_value bond_value (resolverBonds st)),
      (''submissionClaimableBondWei'', book_value (submissionClaimableBondWei st)),
      (''challengeClaimableBondWei'', book_value (challengeClaimableBondWei st)),
      (''rolloverVault'', vault_value (rolloverVault st)),
      (''registry'', MObj (bigs [(''problemCount'', registry_problemCount (registry st))] @
         [(''problems'', numbered_value problem_value (registry_problems (registry st)))])),
      (''coverage'', MObj
         [(''queried'', MArr (map (\<lambda>n. MStr (event_label n)) (coverage_queried (coverage st)))),
          (''complete'', MBool (coverage_complete (coverage st))),
          (''missing'', MArr (map (\<lambda>n. MStr (event_label n)) (coverage_missing (coverage st))))]),
      (''eventCounts'', MObj (map (\<lambda>(n, k). (event_label n, MNum (int k))) (eventCounts st))),
      (''pendingFundingAuthorizationVerification'', pending_value (pendingFundingAuthorizationVerification st)),
      (''recoveryPriorBySubmission'',
         MObj (map (\<lambda>(i, n). (recovery_key i, big_value n)) (recoveryPriorBySubmission st))),
      (''pendingObjectiveProofByTx'', MObj (map (\<lambda>(k, p). (k, proof_value p)) (pendingObjectiveProofByTx st))),
      (''forcedRecoveryByTx'', MObj (map (\<lambda>(k, f). (k, MObj
         (forced_leg_entry ''recovered'' (fr_recovered f) @ forced_leg_entry ''swept'' (fr_swept f))))
         (forcedRecoveryByTx st)))] @
     js_entry ''challengeManager'' (challengeManager st) @
     bigs [(''submissionCount'', submissionCount st), (''openSubmissionCount'', openSubmissionCount st),
       (''bestScoreAtoms'', bestScoreAtoms st), (''armedAt'', armedAt st),
       (''fundingAuthorizationExpiresAt'', fundingAuthorizationExpiresAt st),
       (''fundingAuthorizationNonce'', fundingAuthorizationNonce st),
       (''creditRecoveryEndsAt'', creditRecoveryEndsAt st), (''expiryGraceUntil'', expiryGraceUntil st)] @
     bools [(''fundingArmed'', fundingArmed st), (''pausedNewActions'', pausedNewActions st),
       (''pausedAll'', pausedAll st), (''challengePausedNewActions'', challengePausedNewActions st)] @
     texts [(''fundingAuthorizationDigest'', fundingAuthorizationDigest st),
       (''authorizedFundingDigest'', authorizedFundingDigest st)]"

definition publicReplayState :: "replay_state \<Rightarrow> mvalue" where
  "publicReplayState st = canon_value (MObj (public_entries st))"

section \<open>The portal's view\<close>

text \<open>\<open>a ?? null\<close> for the properties of an active challenge, each of which may itself be \<open>undefined\<close>.\<close>

definition active_challenge :: "challenge option \<Rightarrow> mvalue" where
  "active_challenge c =
     (case c of
        None \<Rightarrow> MNull
      | Some ch \<Rightarrow> MObj
          (texts [(''challenger'', addressKey (ch_challenger ch))] @ js_entry ''reasonHash'' (ch_reasonHash ch) @
           bigs [(''challengeBondWei'', ch_challengeBondWei ch), (''challengedAt'', ch_challengedAt ch),
             (''disputeEndsAt'', ch_disputeEndsAt ch)] @
           bools [(''resolved'', ch_resolved ch), (''decisionPending'', ch_decisionPending ch),
             (''challengerWins'', ch_challengerWins ch)] @
           js_entry ''transcriptHash'' (ch_transcriptHash ch) @ js_entry ''transcriptURI'' (ch_transcriptURI ch) @
           js_entry ''verdictHash'' (ch_verdictHash ch)))"

definition portalSubmissionBase :: "replay_state \<Rightarrow> submission \<Rightarrow> mvalue" where
  "portalSubmissionBase st s =
     (let originalCreditAtoms = fi_creditAtoms (sub_finalizeInfo s) in
      MObj
        (texts [(''submissionId'', show_int (sub_submissionId s)), (''solver'', addressKey (sub_solver s)),
           (''status'', status_label (sub_status s)),
           (''claimedScoreAtoms'', show_int (sub_claimedScoreAtoms s)),
           (''improvementAtoms'', show_int (sub_improvementAtoms s))] @
         bigs [(''creditAtoms'', if sub_status s = Status_Finalized then originalCreditAtoms else 0),
           (''originalCreditAtoms'', originalCreditAtoms)] @
         js_entry ''solutionCid'' (sub_solutionCid s) @
         texts [(''committedAt'', show_int (sub_committedAt s)), (''revealedAt'', show_int (sub_revealedAt s)),
           (''challengeEndsAt'', show_int (sub_challengeEndsAt s))] @
         [(''activeChallenge'', active_challenge (map_of (challenges st) (sub_submissionId s)))]))"

definition portal_addresses :: "replay_state \<Rightarrow> string list" where
  "portal_addresses st = sort (first_occurrences
     (map (\<lambda>(i, s). addressKey (sub_solver s)) (submissions st) @
      map (\<lambda>(k, n). to_lower k)
        (ledger_creditAtomsOf (ledger st) @ ledger_claimedWeiOf (ledger st) @
         submissionClaimableBondWei st @ challengeClaimableBondWei st)))"

definition final_entitlement :: "ledger_state \<Rightarrow> string \<Rightarrow> int" where
  "final_entitlement l solver =
     (if ledger_closed l \<and> ledger_totalCreditAtoms l > 0
      then (ledger_closedPoolBalance l * bal (ledger_creditAtomsOf l) solver) sdiv ledger_totalCreditAtoms l
      else 0)"

definition portal_solver :: "replay_state \<Rightarrow> string \<Rightarrow> mvalue" where
  "portal_solver st solver =
     (let submissionBond = bal (submissionClaimableBondWei st) solver;
          challengeBond = bal (challengeClaimableBondWei st) solver
      in MObj
        (texts [(''solver'', solver)] @
         bigs [(''creditAtoms'', bal (ledger_creditAtomsOf (ledger st)) solver),
           (''claimedWei'', bal (ledger_claimedWeiOf (ledger st)) solver),
           (''finalEntitlementWei'', final_entitlement (ledger st) solver),
           (''submissionBondWei'', submissionBond), (''challengeBondWei'', challengeBond),
           (''withdrawableBondWei'', submissionBond + challengeBond)]))"

definition portal_pool :: "replay_state \<Rightarrow> mvalue" where
  "portal_pool st =
     (let p = pool st; l = ledger st;
          refundable = (if ledger_closed l \<and> ledger_totalCreditAtoms l = 0
                        then sum_list (map snd (pool_sponsorshipOf p)) else 0)
      in MObj
        (bigs [(''totalFundedWei'', pool_totalFunded p), (''accountedBalanceWei'', pool_accountedBalance p),
           (''totalClaimedWei'', pool_totalClaimed p), (''totalWinningsDonatedWei'', pool_totalWinningsDonated p),
           (''refundableWei'', refundable), (''totalSponsorRefundedWei'', pool_totalSponsorRefunded p),
           (''totalFeeAccruedWei'', pool_totalFeeAccrued p), (''totalFeePaidWei'', pool_totalFeePaid p),
           (''totalResidualPaidWei'', pool_totalResidualPaid p)] @
         [(''sponsors'', MArr (map (\<lambda>(k, n). MObj (texts [(''sponsor'', k)] @ bigs [(''principalWei'', n)]))
            (sort_key fst (map (\<lambda>(k, n). (to_lower k, n)) (pool_sponsorshipOf p))))),
          (''sponsorshipFundings'', MArr (map (\<lambda>f. MObj
            (texts [(''transactionHash'', sf_transactionHash f), (''payer'', to_lower (sf_payer f)),
               (''sponsor'', to_lower (sf_sponsor f))] @ bigs [(''amountWei'', sf_amount f)]))
            (sort_key sf_transactionHash (pool_sponsorshipFundings p)))),
          (''winningsDonations'', MArr (map (\<lambda>d. MObj
            (texts [(''transactionHash'', wd_transactionHash d), (''solver'', to_lower (wd_solver d)),
               (''destinationPool'', to_lower (wd_destinationPool d))] @
             bigs [(''grossAmountWei'', wd_grossAmount d), (''donatedAmountWei'', wd_donatedAmount d),
               (''feeAmountWei'', wd_feeAmount d)]))
            (sort_key wd_transactionHash (pool_winningsDonations p))))]))"

definition portal_funding_flags :: "replay_state \<Rightarrow> mvalue" where
  "portal_funding_flags st = MObj
     (bools [(''acceptingFunds'', pool_acceptingFunds (pool st)), (''fundingArmed'', fundingArmed st),
        (''ledgerPausedNewActions'', ledger_pausedNewActions (ledger st)),
        (''submissionsPausedNewActions'', pausedNewActions st), (''submissionsPausedAll'', pausedAll st),
        (''challengesPausedNewActions'', challengePausedNewActions st)] @
      bigs [(''authorizationExpiresAt'', fundingAuthorizationExpiresAt st)])"

definition portal_ledger_close :: "ledger_state \<Rightarrow> mvalue" where
  "portal_ledger_close l = MObj
     (bools [(''closed'', ledger_closed l), (''feeSwept'', ledger_feeSwept l), (''residualSwept'', ledger_residualSwept l)] @
      bigs [(''closedPoolBalanceWei'', ledger_closedPoolBalance l), (''feeReserveWei'', ledger_feeReserve l),
        (''closedAt'', ledger_closedAt l), (''claimDeadline'', ledger_claimDeadline l),
        (''totalCreditAtoms'', ledger_totalCreditAtoms l), (''totalGrossClaimedWei'', ledger_totalGrossClaimed l),
        (''totalFeeAccruedWei'', ledger_totalFeeAccrued l)])"

definition facts_entries :: "replay_state \<Rightarrow> mobject" where
  "facts_entries st =
     [(''frontier'', MObj (bigs [(''currentAtoms'', bestScoreAtoms st)])),
      (''solvers'', MArr (map (portal_solver st) (portal_addresses st))),
      (''pool'', portal_pool st), (''funding'', portal_funding_flags st),
      (''ledgerClose'', portal_ledger_close (ledger st)),
      (''submissions'', MArr (map (\<lambda>(i, s). portalSubmissionBase st s)
         (sort_key (\<lambda>(i, s). sub_submissionId s) (submissions st))))]"

definition portalStateFacts :: "replay_state \<Rightarrow> mvalue" where
  "portalStateFacts st = canon_value (MObj (facts_entries st))"

section \<open>Lemmas\<close>

lemma map_of_sorted:
  assumes "distinct (map fst es)"
  shows "map_of (sort_key fst es) = map_of es"
proof -
  have "mset (map fst (sort_key fst es)) = mset (map fst es)" by simp
  then have "distinct (map fst (sort_key fst es))"
    using assms by (metis mset_eq_imp_distinct_iff)
  then show ?thesis using assms by (simp add: map_of_inject_set)
qed

lemma map_of_canon:
  assumes "distinct (map fst es)"
  shows "canon_value (MObj es) = MObj fs \<Longrightarrow> map_of fs k = map_option canon_value (map_of es k)"
proof -
  have "map fst (map (\<lambda>(k, v). (k, canon_value v)) es) = map fst es" by (induction es) auto
  then have "map_of (sort_key fst (map (\<lambda>(k, v). (k, canon_value v)) es)) = map_of (map (\<lambda>(k, v). (k, canon_value v)) es)"
    using assms map_of_sorted by metis
  then show "canon_value (MObj es) = MObj fs \<Longrightarrow> map_of fs k = map_option canon_value (map_of es k)"
    by (auto simp: map_of_map)
qed

end
