(* ===== verification/Monitor_Alarm.thy ===== *)
theory Monitor_Alarm
  imports Monitor_Properties Monitor_Payouts Replay_Public
begin

text \<open>
  A checkpoint of a replayed board before the monitor: what \<open>payoutRows\<close> asks of the solvers of the
  portal projection, and that a solver who has claimed nothing yet makes the report fail.
\<close>

section \<open>The sets of addresses\<close>

lemma key_addresses_set:
  assumes "key_addresses es = Inr as" shows "set as = fst ` set es"
proof -
  obtain bs where "map_throw (\<lambda>e. canonicalAddress (MStr (fst e))) es = Inr bs" "as = sort bs"
    using assms by (auto simp: key_addresses_def)
  moreover have "canonicalAddress (MStr s) = Inr a \<Longrightarrow> a = s" for s a
    by (auto simp: canonicalAddress_def)
  ultimately have "list_all2 (\<lambda>e a. a = fst e) es bs"
    unfolding map_throw_facts by (auto elim: list_all2_mono)
  then have "bs = map fst es" by (induction rule: list_all2_induct) auto
  then show ?thesis using \<open>as = sort bs\<close> by simp
qed

lemma payoutRows_addresses:
  assumes "payoutRows board feeBps ts = Inr rows"
  shows "\<exists>projection solvers entries state ledger claims.
    map_of board ''portalProjection'' = Some (MObj projection) \<and> map_of projection ''solvers'' = Some (MArr solvers) \<and>
    map_throw solver_entry solvers = Inr entries \<and> map_of board ''state'' = Some (MObj state) \<and>
    map_of state ''ledger'' = Some (MObj ledger) \<and> map_of ledger ''claimedWeiOf'' = Some (MObj claims) \<and>
    set (map fst entries) = fst ` set claims"
proof -
  have arr: "array_of v = Inr vs \<Longrightarrow> v = Some (MArr vs)" for v vs
  proof (cases v)
    case (Some w)
    then show "array_of v = Inr vs \<Longrightarrow> v = Some (MArr vs)" by (cases w) (simp_all add: array_of_def)
  qed (simp add: array_of_def)
  obtain projection close solvers pc sl entries claims where
    parts: "map_of board ''portalProjection'' = Some (MObj projection)" "array_of (map_of projection ''solvers'') = Inr solvers"
      "payout_close_of board close = Inr (pc, sl)" "map_throw solver_entry solvers = Inr entries"
      "key_addresses (py_stateClaims pc) = Inr claims" "sort (map fst entries) = claims"
    using assms unfolding payoutRows_def Let_def by (clarsimp split: prod.splits)
  obtain state ledger where "map_of board ''state'' = Some (MObj state)" "map_of state ''ledger'' = Some (MObj ledger)"
      "map_of ledger ''claimedWeiOf'' = Some (MObj (py_stateClaims pc))"
    using parts(3) by (auto simp: payout_close_of_def)
  moreover have "set (map fst entries) = fst ` set (py_stateClaims pc)"
    using key_addresses_set [OF parts(5)] parts(6) by (metis set_sort)
  ultimately show ?thesis using parts(1,4) arr [OF parts(2)] by blast
qed

lemma domains_payouts:
  assumes "canonicalComparisonDomains (MObj c) manifest = Inr d" "map_of c ''boards'' = Some (MArr boards)"
    and "MObj board \<in> set boards"
  shows "\<exists>feeBps ts rows. payoutRows board feeBps ts = Inr rows"
proof -
  obtain feeBps ts domains where "map_throw (board_domains_of feeBps ts) boards = Inr domains"
    using assms(1,2)
    by (auto simp: canonicalComparisonDomains_def boards_domains_of_def array_of_def Let_def)
  then have "\<exists>x. board_domains_of feeBps ts (MObj board) = Inr x"
    using assms(3) by (auto simp: map_throw_facts list_all2_conv_all_nth in_set_conv_nth)
  then show ?thesis by (auto simp: board_domains_of_def board_entries_def)
qed

section \<open>Boards of a replayed state\<close>

definition shows_state :: "mobject \<Rightarrow> replay_state \<Rightarrow> bool" where
  "shows_state board st \<longleftrightarrow>
     map_of board ''state'' = Some (publicReplayState st) \<and>
     map_of (value_object (map_of board ''portalProjection'')) ''solvers'' =
       map_of (value_object (Some (portalStateFacts st))) ''solvers''"

definition unclaimed :: "replay_state \<Rightarrow> submission \<Rightarrow> bool" where
  "unclaimed st s \<longleftrightarrow>
     s \<in> snd ` set (submissions st) \<and> addressKey (sub_solver s) \<notin> fst ` set (ledger_claimedWeiOf (ledger st))"

lemma canon_MObj: "\<exists>fs. canon_value (MObj es) = MObj fs \<and> (distinct (map fst es) \<longrightarrow>
    (\<forall>k. map_of fs k = map_option canon_value (map_of es k))) \<and> fst ` set fs = fst ` set es"
  using map_of_canon [of es] by (auto simp: image_image case_prod_unfold)

lemma public_claims:
  assumes "publicReplayState st = MObj state" "map_of state ''ledger'' = Some (MObj l)"
    and "map_of l ''claimedWeiOf'' = Some (MObj claims)"
  shows "fst ` set claims = fst ` set (ledger_claimedWeiOf (ledger st))"
proof -
  have "distinct (map fst (public_entries st))"
    by (cases "challengeManager st") (simp_all add: public_entries_def js_entry_def bigs_def bools_def texts_def)
  moreover have "map_of (public_entries st) ''ledger'' = Some (ledger_value (ledger st))"
    by (simp add: public_entries_def)
  ultimately have l: "canon_value (ledger_value (ledger st)) = MObj l"
    using assms(1,2) map_of_canon [of "public_entries st" state "''ledger''"] by (simp add: publicReplayState_def)
  obtain es where es: "ledger_value (ledger st) = MObj es" "distinct (map fst es)"
      "map_of es ''claimedWeiOf'' = Some (book_value (ledger_claimedWeiOf (ledger st)))"
    by (cases "ledger_creditRecorder (ledger st)")
       (simp_all add: ledger_value_def js_entry_def bigs_def bools_def)
  then have "canon_value (book_value (ledger_claimedWeiOf (ledger st))) = MObj claims"
    using l assms(3) map_of_canon [of es l "''claimedWeiOf''"] by simp
  then have "claims = sort_key fst (map (\<lambda>(k, n). (k, canon_value (big_value n))) (ledger_claimedWeiOf (ledger st)))"
    by (simp add: book_value_def comp_def case_prod_unfold)
  then show ?thesis by (simp add: image_image case_prod_unfold)
qed

lemma facts_solvers:
  assumes "map_of (value_object (Some (portalStateFacts st))) ''solvers'' = Some (MArr solvers)"
  shows "solvers = map (\<lambda>a. canon_value (portal_solver st a)) (portal_addresses st)"
proof -
  have "distinct (map fst (facts_entries st))"
    "map_of (facts_entries st) ''solvers'' = Some (MArr (map (portal_solver st) (portal_addresses st)))"
    by (simp_all add: facts_entries_def)
  then show ?thesis
    using assms map_of_canon [of "facts_entries st" _ "''solvers''"] canon_MObj [of "facts_entries st"]
    by (auto simp: portalStateFacts_def)
qed

lemma portal_solver_entry:
  assumes "solver_entry (canon_value (portal_solver st a)) = Inr e" shows "fst e = a"
proof -
  obtain es where es: "portal_solver st a = MObj es" "distinct (map fst es)" "map_of es ''solver'' = Some (MStr a)"
    by (simp add: portal_solver_def Let_def texts_def bigs_def)
  obtain fs where "canon_value (MObj es) = MObj fs" "map_of fs ''solver'' = Some (MStr a)"
    using canon_MObj [of es] es(2,3) by auto
  then show ?thesis
    using assms es(1) by (auto simp: solver_entry_def requiredField_def canonicalAddress_def)
qed

lemma submission_in_portal: "unclaimed st s \<Longrightarrow> addressKey (sub_solver s) \<in> set (portal_addresses st)"
proof -
  assume "unclaimed st s"
  then obtain i where "(i, s) \<in> set (submissions st)" by (auto simp: unclaimed_def)
  then have "addressKey (sub_solver s) \<in> (\<lambda>(i, s). addressKey (sub_solver s)) ` set (submissions st)"
    by (rule rev_image_eqI) simp
  then show ?thesis by (simp add: portal_addresses_def first_occurrences_def)
qed

lemma unclaimed_no_domains:
  assumes "map_of c ''boards'' = Some (MArr boards)" "MObj board \<in> set boards"
    and "shows_state board st" "unclaimed st s"
  shows "canonicalComparisonDomains (MObj c) manifest \<noteq> Inr d"
proof
  assume "canonicalComparisonDomains (MObj c) manifest = Inr d"
  then obtain feeBps ts rows where rows: "payoutRows board feeBps ts = Inr rows"
    using domains_payouts [OF _ assms(1,2)] by blast
  obtain projection solvers entries state l claims where
    parts: "map_of board ''portalProjection'' = Some (MObj projection)" "map_of projection ''solvers'' = Some (MArr solvers)"
      "map_throw solver_entry solvers = Inr entries" "map_of board ''state'' = Some (MObj state)"
      "map_of state ''ledger'' = Some (MObj l)" "map_of l ''claimedWeiOf'' = Some (MObj claims)"
      "set (map fst entries) = fst ` set claims"
    using payoutRows_addresses [OF rows] by (elim exE conjE) (rule that)
  have solvers: "solvers = map (\<lambda>a. canon_value (portal_solver st a)) (portal_addresses st)"
    using parts(1,2) assms(3) facts_solvers by (simp add: shows_state_def)
  have "list_all2 (\<lambda>a e. fst e = a) (portal_addresses st) entries"
    using parts(3) portal_solver_entry unfolding solvers map_throw_facts list_all2_map1
    by (auto elim: list_all2_mono)
  then have "map fst entries = portal_addresses st" by (induction rule: list_all2_induct) auto
  moreover have "fst ` set claims = fst ` set (ledger_claimedWeiOf (ledger st))"
  proof (rule public_claims [OF _ parts(5,6)])
    show "publicReplayState st = MObj state" using parts(4) assms(3) by (simp add: shows_state_def)
  qed
  ultimately have "addressKey (sub_solver s) \<in> fst ` set (ledger_claimedWeiOf (ledger st))"
    using submission_in_portal [OF assms(4)] parts(7) by auto
  then show False using assms(4) by (simp add: unclaimed_def)
qed

text \<open>
  C36. A board with a submission whose solver has consumed no claim is refused: whenever the checkpoint
  reconstructed from the primary provider publishes the replayed state of such a board, with the
  solvers of the portal view of that state, the report is not ok and compares nothing, whatever the
  two providers agree on. The portal view lists every submitter; the replay enters a solver into the
  claims only with its first consumed claim; and the comparison asks the two sets to be equal.
\<close>

theorem monitor_refuses_unclaimed:
  assumes "monitorDualRpcChainCore mi = Monitor_reports r" and "mr_anchor r = Some a"
    and "mi_binding mi = Inr (Some (MObj binding))"
    and "mi_reconstruct mi Primary_role binding (an_number a) = Inr (MObj c)"
    and "map_of c ''boards'' = Some (MArr boards)" and "MObj board \<in> set boards"
    and "shows_state board st" and "unclaimed st s"
  shows "\<not> mr_ok r \<and> mr_comparedDomains r = None \<and> mr_divergences r \<noteq> []"
proof -
  have "\<not> mr_ok r"
  proof
    assume "mr_ok r"
    then obtain a' binding' primary d where "mr_anchor r = Some a'" "mi_binding mi = Inr (Some (MObj binding'))"
        "mi_reconstruct mi Primary_role binding' (an_number a') = Inr primary"
        "canonicalComparisonDomains primary (mi_manifest mi) = Inr d"
      using ok_report [OF assms(1)] unfolding agreed_def by blast
    then show False using unclaimed_no_domains [OF assms(5-8)] assms(2-4) by simp
  qed
  then show ?thesis using report_shape [OF assms(1)] by blast
qed

end
