(* ===== verification/Monitor_Examples.thy ===== *)
theory Monitor_Examples
  imports Monitor_Alarm Replay_Examples
begin

text \<open>
  Two providers of one chain, the second a block ahead, and two boards before the monitor: one whose only
  solver has claimed its share after the close, and the same board before that.
\<close>

definition demo_solver :: jsval where
  "demo_solver = JStr (''0x'' @ replicate 40 (CHR ''a''))"

definition with_solver :: "event \<Rightarrow> event" where
  "with_solver ev = ev\<lparr>args := map (\<lambda>(k, v). (k, if k = ''solver'' then demo_solver else v)) (args ev)\<rparr>"

definition pending_log :: "event list" where
  "pending_log = [with_solver (commit_log 5 1)]"

definition demo_replay_config :: replay_config where
  "demo_replay_config =
     \<lparr>cfg_seedScoreAtoms = 1000, cfg_minImprovementAtoms = 10, cfg_challengeWindowSeconds = 100,
      cfg_treasury = JUndefined, cfg_challengeManager = JUndefined, cfg_problemCount = 1,
      cfg_fundingCapWei = None, cfg_earliestCloseTimestamp = None, cfg_closeByTimestamp = None,
      cfg_fundingAuthorizationV2 = JUndefined, cfg_boardSetDigest = None, cfg_releaseBindingDigest = None,
      cfg_owner = JUndefined, cfg_objectiveVerifier = JUndefined, cfg_objectiveVerifierCodehash = JUndefined,
      cfg_productionLaunchAuthority = JUndefined, cfg_independentSecurityAuthority = JUndefined,
      cfg_governanceAuthority = JUndefined\<rparr>"

definition paid_submission :: submission where
  "paid_submission =
     \<lparr>sub_submissionId = 1, sub_solver = demo_solver, sub_commitment = JStr ''0xc'', sub_commitDaHash = JStr ''0xd'',
      sub_bondWei = 7, sub_poolAtSubmissionWei = 500, sub_requiredBondWei = 7, sub_improvementAtoms = 300,
      sub_claimedScoreAtoms = 700, sub_solutionCid = JStr ''cid'', sub_permanenceHash = JStr ''0xp'',
      sub_committedAt = 1005, sub_committedBlock = 5, sub_paidAtCommit = True, sub_revealedAt = 1006,
      sub_revealInstanceHash = ''0x1'', sub_challengeEndsAt = 1106, sub_maxDisputeEndsAt = 1200,
      sub_status = Status_Finalized,
      sub_finalizeInfo = \<lparr>fi_prevBestScoreAtoms = 1000, fi_creditAtoms = 300, fi_prevCreditRecoveryEndsAt = 0\<rparr>,
      sub_solutionBytesLength = Some 9, sub_objectiveClearedRevealInstanceHash = None\<rparr>"

definition paid_state :: replay_state where
  "paid_state = (newReplayState demo_replay_config [])
     \<lparr>coverage := \<lparr>coverage_queried = [], coverage_complete = True, coverage_missing = []\<rparr>, eventCounts := [],
      submissions := [(1, paid_submission)], submissionCount := 1, bestScoreAtoms := 700,
      ledger := new_ledger_state
        \<lparr>ledger_closed := True, ledger_closedPoolBalance := 500, ledger_feeReserve := 12, ledger_closedAt := 1016,
         ledger_claimDeadline := 1099, ledger_totalCreditAtoms := 300,
         ledger_creditAtomsOf := [(js_string demo_solver, 300)], ledger_claimedWeiOf := [(js_string demo_solver, 500)],
         ledger_totalGrossClaimed := 500, ledger_totalFeeAccrued := 12\<rparr>\<rparr>"

section \<open>A checkpoint\<close>

definition demo_checks :: mvalue where
  "demo_checks = MObj [(''ok'', MBool True), (''complete'', MBool True),
     (''checks'', MArr [MObj [(''name'', MStr ''supply''), (''ok'', MBool True)]])]"

definition demo_board :: "mvalue \<Rightarrow> mvalue \<Rightarrow> mobject" where
  "demo_board state projection =
     [(''problemId'', MStr ''1''),
      (''events'', MObj [(''digest'', MStr ''0xd''), (''total'', MNum 5),
         (''counts'', MObj [(''submissions.Committed'', MNum 1)])]),
      (''onchain'', MObj [(''submissionCount'', MStr ''1'')]),
      (''state'', state), (''portalProjection'', projection),
      (''reconstruction'', demo_checks)]"

definition digit_hash :: "int \<Rightarrow> string" where
  "digit_hash n = ''0x'' @ replicate 64 (''0123456789'' ! nat (n mod 10))"

definition two_rpc_chain :: "int \<Rightarrow> block" where
  "two_rpc_chain n = \<lparr>blk_number = n, blk_hash = digit_hash n, blk_timestamp = 1000 + n,
     blk_parentHash = Some (digit_hash (n - 1))\<rparr>"

definition two_rpc_binding :: mobject where
  "two_rpc_binding = [(''boardSet'', MStr ''sha256:1'')]"

definition demo_checkpoint :: "mobject \<Rightarrow> int \<Rightarrow> mobject" where
  "demo_checkpoint board n =
     [(''manifestBinding'', MObj two_rpc_binding),
      (''range'', MObj [(''toBlock'', MNum n), (''toBlockHash'', MStr (digit_hash n)),
         (''toBlockTimestamp'', MNum (1000 + n))]),
      (''boards'', MArr [MObj board]), (''reconstruction'', demo_checks)]"

definition demo_manifest :: mobject where
  "demo_manifest =
     [(''schema'', MStr ''p42-prizes/deployment-manifest/v2''), (''releaseMode'', MStr ''production''),
      (''network'', MObj [(''chainId'', MNum 8453)]), (''deploymentCommit'', MStr (replicate 40 (CHR ''c''))),
      (''deploymentConfigHash'', MStr (''0x'' @ replicate 64 (CHR ''D''))),
      (''releaseEvidence'', MObj [(''releaseBindingDigest'', MStr (''sha256:'' @ replicate 64 (CHR ''e'')))]),
      (''parameters'', MObj [(''feeBps'', MStr ''250'')]),
      (''problems'', MArr [MObj [(''problemId'', MNum 1)]]), (''indexer'', MObj [(''startBlock'', MNum 3)])]"

section \<open>Two providers\<close>

definition chain_provider :: "(nat \<Rightarrow> int) \<Rightarrow> int \<Rightarrow> monitor_provider" where
  "chain_provider tip head =
     \<lparr>mp_getBlock = (\<lambda>t tag. case tag of
          Finalized_tag \<Rightarrow> Inr (Some (raw_of (two_rpc_chain (tip t))))
        | Height n \<Rightarrow> Inr (if 0 \<le> n \<and> n \<le> tip t then Some (raw_of (two_rpc_chain n)) else None)),
      mp_getBlockNumber = Inr (Some head)\<rparr>"

definition tip_primary :: "nat \<Rightarrow> int" where
  "tip_primary t = (if t < 4 then 20 else 22)"

definition tip_secondary :: "nat \<Rightarrow> int" where
  "tip_secondary t = 21"

definition demo_authority :: rpc_authority where
  "demo_authority = \<lparr>au_registryDigest = ''sha256:r'',
     au_primary = \<lparr>pf_operatorId = ''alpha'', pf_endpointOrigin = ''https://a'', pf_endpointProfileDigest = ''sha256:a''\<rparr>,
     au_secondary = \<lparr>pf_operatorId = ''beta'', pf_endpointOrigin = ''https://b'', pf_endpointProfileDigest = ''sha256:b''\<rparr>\<rparr>"

definition demo_capability :: "provider_role \<Rightarrow> provider_capability" where
  "demo_capability role =
     (let profile = (case role of Primary_role \<Rightarrow> au_primary demo_authority | Secondary_role \<Rightarrow> au_secondary demo_authority)
      in \<lparr>cap_pair = 7, cap_role = role, cap_registryDigest = ''sha256:r'', cap_profile = profile,
          cap_endpointOrigin = pf_endpointOrigin profile\<rparr>)"

definition demo_monitor :: "mobject \<Rightarrow> monitor_input" where
  "demo_monitor board =
     \<lparr>mi_manifest = demo_manifest, mi_manifestDigest = ''sha256:'' @ replicate 64 (CHR ''f''),
      mi_authority = Inr demo_authority, mi_primary = chain_provider tip_primary 25,
      mi_secondary = chain_provider tip_secondary 26, mi_distinct = True, mi_maxLag = 4,
      mi_providers = (\<lambda>authority. validateBoundProviderCapabilities authority
        (Some (demo_capability Primary_role)) (Some (demo_capability Secondary_role))),
      mi_binding = Inr (Some (MObj two_rpc_binding)),
      mi_reconstruct = (\<lambda>role binding n. Inr (MObj (demo_checkpoint board n))),
      mi_recheck_at = (\<lambda>role. 5)\<rparr>"

section \<open>Evaluation\<close>

text \<open>Code equations for printing, reading and comparing that work on binary integers.\<close>

function decimal_int :: "int \<Rightarrow> string" where
  "decimal_int n = (if n < 10 then [digit_char (nat n)] else decimal_int (n div 10) @ [digit_char (nat (n mod 10))])"
  by pat_completeness auto
termination by (relation "measure nat") (auto simp: nat_div_distrib)

declare decimal_int.simps [simp del]

lemma decimal_show: "decimal_int (int n) = show_nat n"
proof (induction n rule: show_nat.induct)
  case (1 n)
  have "nat (int n mod 10) = n mod 10" by (simp add: nat_mod_distrib)
  moreover have "int n div 10 = int (n div 10)" by (simp add: zdiv_int)
  ultimately show ?case using 1 by (subst decimal_int.simps, subst show_nat.simps) simp
qed

lemma show_int_decimal [code]: "show_int i = (if i < 0 then ''-'' @ decimal_int (- i) else decimal_int i)"
proof (cases "i < 0")
  case True
  then show ?thesis using decimal_show [of "nat (- i)"] by (simp add: show_int_def)
next
  case False
  then show ?thesis using decimal_show [of "nat i"] by (simp add: show_int_def)
qed


fun read_dec :: "int \<Rightarrow> string \<Rightarrow> int option" where
  "read_dec acc [] = Some acc"
| "read_dec acc (c # cs) =
     (case char_digit c of
        None \<Rightarrow> None
      | Some d \<Rightarrow> if d < 10 then read_dec (acc * 10 + int d) cs else None)"

lemma read_dec_digits: "read_dec (int acc) s = map_option int (read_digits 10 acc s)"
proof (induction s arbitrary: acc)
  case (Cons c s)
  have "read_dec (int acc * 10 + int d) s = map_option int (read_digits 10 (acc * 10 + d) s)" for d
    using Cons.IH [of "acc * 10 + d"] by simp
  then show ?case by (auto split: option.splits)
qed simp

lemma uint_of_decimal [code]:
  "uint_of v =
     (case v of
        MStr s \<Rightarrow> require (uint_text s) storage_error
          (of_option storage_error (if s = [] then None else read_dec 0 s))
      | _ \<Rightarrow> Inl storage_error)"
proof (cases v)
  case (MStr s)
  have "read_dec 0 s = map_option int (read_digits 10 0 s)" using read_dec_digits [of 0 s] by simp
  then show ?thesis
    by (cases "read_digits 10 0 s") (simp_all add: MStr uint_of_def read_nat_def require_def)
qed (simp_all add: uint_of_def)



lemma char_less_int [code]: "c < d \<longleftrightarrow> (of_char c :: int) < of_char d"
proof -
  have "(of_char e :: int) = int (of_char e)" for e by (rule of_nat_of_char [symmetric])
  then show ?thesis by (simp add: less_char_def)
qed

lemma char_leq_int [code]: "c \<le> d \<longleftrightarrow> (of_char c :: int) \<le> of_char d"
proof -
  have "(of_char e :: int) = int (of_char e)" for e by (rule of_nat_of_char [symmetric])
  then show ?thesis by (simp add: less_eq_char_def)
qed

definition paid_board :: mobject where
  "paid_board = demo_board (MObj (public_entries paid_state)) (MObj (facts_entries paid_state))"

lemma pending_replays:
  "case replayProtocolEvents demo_hex_bytes pending_log demo_config event_catalog of
     Inr st \<Rightarrow> ledger_claimedWeiOf (ledger st) = [] \<and> length (submissions st) = 1 | Inl e \<Rightarrow> False"
  by code_simp

lemma paid_compared:
  "case canonicalComparisonDomains (MObj (demo_checkpoint paid_board 20)) demo_manifest of
     Inr d \<Rightarrow> distinct (map fst (value_object (Some d))) | _ \<Rightarrow> False"
  by code_simp

section \<open>The providers and the checkpoints\<close>

lemma digit_hash_text: "hash_text (digit_hash n)"
proof -
  have "nat (n mod 10) < length ''0123456789''" by simp
  then have "''0123456789'' ! nat (n mod 10) \<in> set ''0123456789''" by (rule nth_mem)
  moreover have "\<forall>c \<in> set ''0123456789''. hex_digit c" by code_simp
  ultimately show ?thesis by (auto simp: hash_text_def digit_hash_def list_all_iff)
qed

lemma demo_good: "0 \<le> n \<Longrightarrow> n \<le> 30 \<Longrightarrow> good_block two_rpc_chain n"
  by (simp add: good_block_def two_rpc_chain_def digit_hash_text safe_integer_def)

lemma demo_serves:
  assumes "\<And>t. 0 \<le> tip t \<and> tip t \<le> tip (Suc t) \<and> tip t \<le> head" "head \<le> 30"
  shows "serves_chain (chain_provider tip head) two_rpc_chain tip head"
proof -
  have "tip s \<le> tip (Suc s)" for s using assms(1) by blast
  then have mono: "t \<le> t' \<Longrightarrow> tip t \<le> tip t'" for t t' by (rule lift_Suc_mono_le)
  have "0 \<le> head" using assms(1) [of 0] by linarith
  then have "safe_integer head" using assms(2) by (simp add: safe_integer_def)
  moreover have "good_block two_rpc_chain n" if "0 \<le> n" "n \<le> tip t" for t n
    using that assms(1) [of t] assms(2) demo_good by (meson order_trans)
  moreover have "n \<le> tip t'" if "n \<le> tip t" "t \<le> t'" for n t t'
    using that(1) mono [OF that(2)] by simp
  ultimately show ?thesis
    using assms(1) unfolding serves_chain_def by (auto simp: chain_provider_def)
qed

lemma demo_serve_both:
  "serves_chain (mi_primary (demo_monitor board)) two_rpc_chain tip_primary 25"
  "serves_chain (mi_secondary (demo_monitor board)) two_rpc_chain tip_secondary 26"
  by (auto simp: demo_monitor_def tip_primary_def tip_secondary_def intro!: demo_serves)

lemma all_replicate [simp]: "list_all P (replicate n x) \<longleftrightarrow> n = 0 \<or> P x"
  by (auto simp: list_all_iff)

lemma lower_replicate [simp]: "to_lower (replicate n c) = replicate n (lower_char c)"
  by (simp add: to_lower_def map_replicate)

lemma demo_chars [simp]:
  "hex_digit (CHR ''D'')" "hex_digit (CHR ''c'')" "hex_digit (CHR ''e'')" "hex_digit (CHR ''f'')"
  "lower_char (CHR ''D'') = CHR ''d''" "lower_char (CHR ''c'') = CHR ''c''" "lower_char (CHR ''e'') = CHR ''e''"
  "lower_char (CHR ''f'') = CHR ''f''" "lower_char (CHR ''0'') = CHR ''0''" "lower_char (CHR ''x'') = CHR ''x''"
  by code_simp+

lemma demo_envelope:
  "assertProductionManifestEnvelope demo_manifest (''sha256:'' @ replicate 64 (CHR ''f'')) = Inr ()"
  by (simp add: assertProductionManifestEnvelope_def demo_manifest_def chain_id_of_def release_binding_of_def
      sha256_digest_def lower_hex_def hash_text_def safe_integer_def)

lemma demo_identity:
  "\<exists>i. productionMonitorIdentity demo_manifest (''sha256:'' @ replicate 64 (CHR ''f'')) two_rpc_binding = Inr i"
proof -
  have "case decimalize (canon_value (MObj
          [(''chainId'', MStr ''8453''), (''manifestByteDigest'', MStr (''sha256:'' @ replicate 64 (CHR ''f''))),
           (''deploymentCommit'', MStr (replicate 40 (CHR ''c''))),
           (''deploymentConfigHash'', MStr (''0x'' @ replicate 64 (CHR ''d''))),
           (''releaseBindingDigest'', MStr (''sha256:'' @ replicate 64 (CHR ''e''))),
           (''preparedManifestBinding'', MObj two_rpc_binding)])) of Inr i \<Rightarrow> True | Inl e \<Rightarrow> False"
    by code_simp
  moreover have "show_int 8453 = ''8453''" by code_simp
  moreover have "to_lower (''0x'' @ replicate 64 (CHR ''D'')) = ''0x'' @ replicate 64 (CHR ''d'')"
    by (simp add: to_lower_def)
  ultimately show ?thesis
    unfolding productionMonitorIdentity_def demo_envelope
    by (simp add: demo_manifest_def chain_id_of_def release_binding_of_def two_rpc_binding_def split: sum.splits
        del: canon_value.simps decimalize.simps)
qed

lemma demo_admitted: "\<exists>identity. admitted (demo_monitor board) two_rpc_binding identity"
proof -
  have "case decimalize (canon_value (profiles_value demo_authority)) of Inr v \<Rightarrow> True | Inl e \<Rightarrow> False"
    by code_simp
  moreover have "validateBoundProviderCapabilities demo_authority (Some (demo_capability Primary_role))
      (Some (demo_capability Secondary_role)) = Inr ()" by code_simp
  ultimately show ?thesis using demo_identity by (auto simp: admitted_def demo_monitor_def split: sum.splits)
qed

lemma digit_hash_20: "digit_hash 20 = ''0x'' @ replicate 64 (CHR ''0'')"
  by (simp add: digit_hash_def)

lemma demo_anchor: "anchor_of (two_rpc_chain 20) = \<lparr>an_number = 20, an_hash = digit_hash 20, an_timestamp = ''1020''\<rparr>"
proof -
  have "show_int 1020 = ''1020''" by code_simp
  then show ?thesis by (simp add: anchor_of_def two_rpc_chain_def digit_hash_20 to_lower_def)
qed

text \<open>What the comparison reads before the domains, of any board with an id, events and storage.\<close>

lemma demo_checkpoint_reads:
  "validateCheckpointReconstruction (MObj (demo_checkpoint (demo_board s p) 20)) two_rpc_binding = Inr ()"
  "checkpointMatchesAnchor (MObj (demo_checkpoint (demo_board s p) 20)) (anchor_of (two_rpc_chain 20))"
  "\<exists>v. events_column (MObj (demo_checkpoint (demo_board s p) 20)) = Inr v"
  "\<exists>v. board_column (MObj (demo_checkpoint (demo_board s p) 20)) ''onchain'' = Inr v"
proof -
  have "show_int 1020 = ''1020''" by code_simp
  moreover have "to_lower (digit_hash 20) = digit_hash 20" by (simp add: digit_hash_20 to_lower_def)
  ultimately show "checkpointMatchesAnchor (MObj (demo_checkpoint (demo_board s p) 20)) (anchor_of (two_rpc_chain 20))"
    by (simp add: checkpointMatchesAnchor_def demo_checkpoint_def demo_anchor text_of_field_def)
  show "validateCheckpointReconstruction (MObj (demo_checkpoint (demo_board s p) 20)) two_rpc_binding = Inr ()"
    by (simp add: validateCheckpointReconstruction_def demo_checkpoint_def demo_board_def demo_checks_def
        requiredObject_def check_reconstruction_def verified_reconstruction_def validateChecks_def array_of_def
        check_passed_def)
  show "\<exists>v. events_column (MObj (demo_checkpoint (demo_board s p) 20)) = Inr v"
    "\<exists>v. board_column (MObj (demo_checkpoint (demo_board s p) 20)) ''onchain'' = Inr v"
    by (simp_all add: events_column_def board_column_def demo_checkpoint_def demo_board_def)
qed

lemma same_domains: "distinct (map fst (value_object (Some d))) \<Longrightarrow> domain_divergences d d = []"
  by (auto simp: domain_divergences_def filter_empty_conv)

lemma demo_agreed:
  assumes "canonicalComparisonDomains (MObj (demo_checkpoint (demo_board s p) 20)) demo_manifest = Inr d"
    and "distinct (map fst (value_object (Some d)))"
  shows "agreed demo_manifest two_rpc_binding (anchor_of (two_rpc_chain 20)) (MObj (demo_checkpoint (demo_board s p) 20))
    (MObj (demo_checkpoint (demo_board s p) 20)) d"
  using assms demo_checkpoint_reads [of s p] same_domains by (auto simp: agreed_def)

lemma demo_start: "start_block_of demo_manifest = Inr (Some 3)"
  by (simp add: start_block_of_def demo_manifest_def)

lemma demo_heights:
  "\<bar>tip_primary 0 - tip_secondary 0\<bar> \<le> mi_maxLag (demo_monitor b)" "\<bar>(25 :: int) - 26\<bar> \<le> mi_maxLag (demo_monitor b)"
  "20 = min (tip_primary 0) (tip_secondary 0)" "start_block_of (mi_manifest (demo_monitor b)) = Inr (Some 3)"
  "case Some (3 :: int) of None \<Rightarrow> True | Some s \<Rightarrow> s \<le> 20"
  "tip_primary (mi_recheck_at (demo_monitor b) Primary_role) - 20 \<le> mi_maxLag (demo_monitor b)"
  "tip_secondary (mi_recheck_at (demo_monitor b) Secondary_role) - 20 \<le> mi_maxLag (demo_monitor b)"
  by (simp_all add: demo_monitor_def tip_primary_def tip_secondary_def demo_start)

lemma demo_reconstructs:
  "mi_reconstruct (demo_monitor b) role binding n = Inr (MObj (demo_checkpoint b n))"
  "mi_manifest (demo_monitor b) = demo_manifest" "mi_binding (demo_monitor b) = Inr (Some (MObj two_rpc_binding))"
  by (simp_all add: demo_monitor_def)

lemma paid_agreed:
  obtains d where "agreed (mi_manifest (demo_monitor paid_board)) two_rpc_binding (anchor_of (two_rpc_chain 20))
    (MObj (demo_checkpoint paid_board 20)) (MObj (demo_checkpoint paid_board 20)) d"
proof -
  obtain d where "canonicalComparisonDomains (MObj (demo_checkpoint paid_board 20)) demo_manifest = Inr d"
      "distinct (map fst (value_object (Some d)))"
    using paid_compared by (auto split: sum.splits)
  then show ?thesis using demo_agreed that unfolding paid_board_def demo_reconstructs(2) by blast
qed

lemma paid_healthy:
  "\<exists>identity domains. monitorDualRpcChainCore (demo_monitor paid_board) = Monitor_reports
     \<lparr>mr_ok = True, mr_identity = identity, mr_anchor = Some (anchor_of (two_rpc_chain 20)),
      mr_comparedDomains = Some domains, mr_divergences = []\<rparr>"
proof -
  obtain identity where "admitted (demo_monitor paid_board) two_rpc_binding identity" using demo_admitted by blast
  moreover obtain d where "agreed (mi_manifest (demo_monitor paid_board)) two_rpc_binding (anchor_of (two_rpc_chain 20))
      (MObj (demo_checkpoint paid_board 20)) (MObj (demo_checkpoint paid_board 20)) d"
    by (rule paid_agreed)
  ultimately show ?thesis
    using healthy_report [OF _ demo_serve_both demo_heights demo_reconstructs(1) demo_reconstructs(1)] by blast
qed

theorem monitor_healthy_ok_witness:
  "\<exists>identity domains. monitorDualRpcChainCore (demo_monitor paid_board) = Monitor_reports
     \<lparr>mr_ok = True, mr_identity = identity, mr_anchor = Some (anchor_of (two_rpc_chain 20)),
      mr_comparedDomains = Some domains, mr_divergences = []\<rparr>"
proof -
  obtain identity where "admitted (demo_monitor paid_board) two_rpc_binding identity" using demo_admitted by blast
  moreover obtain d where "agreed (mi_manifest (demo_monitor paid_board)) two_rpc_binding (anchor_of (two_rpc_chain 20))
      (MObj (demo_checkpoint paid_board 20)) (MObj (demo_checkpoint paid_board 20)) d"
    by (rule paid_agreed)
  ultimately show ?thesis
    using monitor_healthy_ok [OF _ demo_serve_both demo_heights demo_reconstructs(1) demo_reconstructs(1)] by blast
qed

theorem monitor_ok_agreed_witness:
  "\<exists>r a domains. monitorDualRpcChainCore (demo_monitor paid_board) = Monitor_reports r \<and> mr_ok r \<and>
     mr_anchor r = Some a \<and> mr_comparedDomains r = Some domains \<and>
     finalizes (chain_provider tip_primary 25) 5 a 4 \<and> finalizes (chain_provider tip_secondary 26) 5 a 4"
proof -
  obtain r where r: "monitorDualRpcChainCore (demo_monitor paid_board) = Monitor_reports r" "mr_ok r"
    using paid_healthy by auto
  show ?thesis using monitor_ok_agreed [OF r] r by (auto simp: demo_monitor_def)
qed

section \<open>A board before its first claim\<close>

definition pending_board :: "replay_state \<Rightarrow> mobject" where
  "pending_board st = demo_board (publicReplayState st) (portalStateFacts st)"

lemma demo_reports:
  assumes "canonicalComparisonDomains (MObj (demo_checkpoint (demo_board s p) 20)) demo_manifest = Inl e"
  shows "\<exists>r. monitorDualRpcChainCore (demo_monitor (demo_board s p)) = Monitor_reports r \<and>
    mr_anchor r = Some (anchor_of (two_rpc_chain 20))"
proof -
  let ?mi = "demo_monitor (demo_board s p)"
  obtain identity where admitted: "admitted ?mi two_rpc_binding identity" using demo_admitted by blast
  have select: "select_anchor ?mi = Inr (anchor_of (two_rpc_chain 20))"
    by (rule select_served [OF demo_serve_both demo_heights(1-5)])
  have number: "an_number (anchor_of (two_rpc_chain 20)) = 20" by (simp add: anchor_of_def two_rpc_chain_def)
  obtain v w where reads: "events_column (MObj (demo_checkpoint (demo_board s p) 20)) = Inr v"
      "board_column (MObj (demo_checkpoint (demo_board s p) 20)) ''onchain'' = Inr w"
    using demo_checkpoint_reads [of s p] by blast
  have "reconstruction_ok (MObj (demo_checkpoint (demo_board s p) 20)) = Inr True"
    by (simp add: reconstruction_ok_def demo_checkpoint_def demo_checks_def is_truthy_def)
  then have "\<exists>x. compare_checkpoints demo_manifest two_rpc_binding (anchor_of (two_rpc_chain 20))
      (MObj (demo_checkpoint (demo_board s p) 20)) (MObj (demo_checkpoint (demo_board s p) 20)) = Inr x"
    using demo_checkpoint_reads [of s p] reads assms by (simp add: compare_checkpoints_def)
  then have "\<exists>r. monitor_phases ?mi two_rpc_binding identity = Monitor_reports r \<and>
      mr_anchor r = Some (anchor_of (two_rpc_chain 20))"
    by (auto simp: monitor_phases_def select number demo_reconstructs Let_def)
  then show ?thesis using core_admitted [OF admitted] by blast
qed

theorem monitor_refuses_unclaimed_witness:
  "\<exists>st r. replayProtocolEvents demo_hex_bytes pending_log demo_config event_catalog = Inr st \<and>
     monitorDualRpcChainCore (demo_monitor (pending_board st)) = Monitor_reports r \<and>
     \<not> mr_ok r \<and> mr_divergences r \<noteq> []"
proof -
  obtain st where st: "replayProtocolEvents demo_hex_bytes pending_log demo_config event_catalog = Inr st"
      "ledger_claimedWeiOf (ledger st) = []" "length (submissions st) = 1"
    using pending_replays by (auto split: sum.splits)
  then obtain i s where "submissions st = [(i, s)]"
    by (cases "submissions st") auto
  then have unclaimed: "unclaimed st s" using st(2) by (simp add: unclaimed_def)
  have shown: "shows_state (pending_board st) st"
    by (simp add: shows_state_def pending_board_def demo_board_def portalStateFacts_def)
  let ?c = "demo_checkpoint (pending_board st) 20"
  have boards: "map_of ?c ''boards'' = Some (MArr [MObj (pending_board st)])"
    "MObj (pending_board st) \<in> set [MObj (pending_board st)]"
    by (simp_all add: demo_checkpoint_def)
  obtain e where "canonicalComparisonDomains (MObj ?c) demo_manifest = Inl e"
    using unclaimed_no_domains [OF boards shown unclaimed] by (cases "canonicalComparisonDomains (MObj ?c) demo_manifest") auto
  then obtain r where r: "monitorDualRpcChainCore (demo_monitor (pending_board st)) = Monitor_reports r"
      "mr_anchor r = Some (anchor_of (two_rpc_chain 20))"
    using demo_reports unfolding pending_board_def by blast
  have "mi_reconstruct (demo_monitor (pending_board st)) Primary_role two_rpc_binding (an_number (anchor_of (two_rpc_chain 20))) = Inr (MObj ?c)"
    by (simp add: demo_reconstructs anchor_of_def two_rpc_chain_def)
  from monitor_refuses_unclaimed [OF r demo_reconstructs(3) this boards shown unclaimed] st(1) r(1)
  show ?thesis by blast
qed

section \<open>Payout rows\<close>

definition payout_ledger :: ledger_state where
  "payout_ledger = new_ledger_state
     \<lparr>ledger_closed := True, ledger_closedPoolBalance := 500, ledger_closedAt := 1016, ledger_claimDeadline := 1099,
      ledger_totalCreditAtoms := 300,
      ledger_creditAtomsOf := [(''0x'' @ replicate 40 (CHR ''a''), 200), (''0x'' @ replicate 40 (CHR ''b''), 100)],
      ledger_claimedWeiOf := [(''0x'' @ replicate 40 (CHR ''a''), 333), (''0x'' @ replicate 40 (CHR ''b''), 0)],
      ledger_totalGrossClaimed := 333\<rparr>"

definition payout_board :: mobject where
  "payout_board =
     (let st = paid_state\<lparr>submissions := [], ledger := payout_ledger\<rparr>
      in [(''state'', MObj [(''ledger'', ledger_value payout_ledger)]),
          (''portalProjection'', MObj
             [(''solvers'', MArr (map (portal_solver st) (portal_addresses st))),
              (''ledgerClose'', portal_ledger_close payout_ledger)])])"

lemma payout_demo:
  "case payoutRows payout_board 250 1020 of
     Inr rows \<Rightarrow> map (\<lambda>r. (pw_finalEntitlementGross r, pw_claimedGross r, pw_claimFee r, pw_claimableNet r)) rows =
       [(333, 333, 0, 0), (166, 0, 4, 162)]
   | Inl e \<Rightarrow> False"
  by code_simp

theorem payout_rows_solvent_witness:
  "\<exists>rows ledgerClose pc stateLedger. payoutRows payout_board 250 1020 = Inr rows \<and>
     map (\<lambda>r. (pw_finalEntitlementGross r, pw_claimedGross r, pw_claimFee r, pw_claimableNet r)) rows =
       [(333, 333, 0, 0), (166, 0, 4, 162)] \<and>
     payout_close_of payout_board ledgerClose = Inr (pc, stateLedger) \<and>
     sum_list (map pw_finalEntitlementGross rows) \<le> py_closedPoolBalance pc"
proof -
  obtain rows where rows: "payoutRows payout_board 250 1020 = Inr rows"
      "map (\<lambda>r. (pw_finalEntitlementGross r, pw_claimedGross r, pw_claimFee r, pw_claimableNet r)) rows =
        [(333, 333, 0, 0), (166, 0, 4, 162)]"
    using payout_demo by (auto split: sum.splits)
  show ?thesis using payout_rows_solvent [OF rows(1)] rows by (simp only: simp_thms) fastforce
qed

end
